(* ===== verification/Prelude.thy ===== *)
theory Prelude
  imports Main "HOL-Library.Word" "HOL-Library.Char_ord" "HOL-Library.List_Lexorder"
begin

text \<open>
  Shared vocabulary of the development.

  \<^item> Go's \<^verbatim>\<open>error\<close> values with \<^verbatim>\<open>fmt.Errorf("...%w")\<close> wrapping and
    \<^verbatim>\<open>errors.Is\<close>; the format string and its textual arguments are kept unformatted.
  \<^item> The error monad used by every fallible routine: \<open>ebind\<close> is \<^verbatim>\<open>if err != nil { return err }\<close>,
    \<open>fail_if\<close> an early return, \<open>wrapf\<close> a wrapped return.
  \<^item> The parts of \<^verbatim>\<open>strings\<close>, \<^verbatim>\<open>strconv\<close> and \<^verbatim>\<open>time\<close> the program uses.
    A Go string is a byte sequence, which is what \<^typ>\<open>string\<close> is here.
  \<^item> A time is the number of nanoseconds since the Unix epoch; every clock of the program is UTC.
\<close>

named_theorems keyspace \<open>disjointness and injectivity of the state-store key families\<close>
named_theorems codec_simps \<open>encoding and decoding equations of the stored records\<close>

section \<open>Errors\<close>

datatype error =
    ErrNotFound
  | ErrConflict
  | ErrUnauthorized
  | ErrForbidden
  | ErrUnavailable
  | StateErrConflict                              \<comment> \<open>\<^verbatim>\<open>state.ErrConflict\<close>\<close>
  | ValidationError string string "string list"   \<comment> \<open>field, message format, its arguments\<close>
  | HTTPError int string                          \<comment> \<open>\<^verbatim>\<open>daprhttp.HTTPError\<close>: status code, body\<close>
  | LibraryError string                           \<comment> \<open>an error value made by the standard library\<close>
  | Errorf string "string list" "error list"      \<comment> \<open>format, textual arguments, wrapped errors\<close>
  | ClientTranslationError string string "string list" "error list"
      \<comment> \<open>\<^verbatim>\<open>anthropic.ClientTranslationError\<close>, \<^verbatim>\<open>gemini.TranslationError\<close>: field, format, textual arguments,
         errors printed with \<^verbatim>\<open>%v\<close>\<close>
  | TranslationError string string string "string list" "error list"
      \<comment> \<open>of \<^verbatim>\<open>openai\<close> and \<^verbatim>\<open>openairesponses\<close>: parameter, code, format, arguments, errors printed\<close>

type_synonym 'a result = "error + 'a"

fun errors_Is :: "error \<Rightarrow> error \<Rightarrow> bool" where
  "errors_Is (Errorf f a ws) t = (Errorf f a ws = t \<or> (\<exists>w \<in> set ws. errors_Is w t))"
| "errors_Is e t = (e = t)"

fun errors_As_Validation :: "error \<Rightarrow> (string \<times> string \<times> string list) option" where
  "errors_As_Validation (ValidationError f m a) = Some (f, m, a)"
| "errors_As_Validation (Errorf f a ws) =
     (case filter (\<lambda>x. x \<noteq> None) (map errors_As_Validation ws) of [] \<Rightarrow> None | x # _ \<Rightarrow> x)"
| "errors_As_Validation _ = None"

fun errors_As_HTTP :: "error \<Rightarrow> (int \<times> string) option" where
  "errors_As_HTTP (HTTPError c b) = Some (c, b)"
| "errors_As_HTTP (Errorf f a ws) =
     (case filter (\<lambda>x. x \<noteq> None) (map errors_As_HTTP ws) of [] \<Rightarrow> None | x # _ \<Rightarrow> x)"
| "errors_As_HTTP _ = None"

section \<open>The error monad\<close>

fun ebind :: "'a result \<Rightarrow> ('a \<Rightarrow> 'b result) \<Rightarrow> 'b result" where
  "ebind (Inl e) f = Inl e"
| "ebind (Inr x) f = f x"

definition fail_if :: "bool \<Rightarrow> error \<Rightarrow> unit result" where
  "fail_if b e = (if b then Inl e else Inr ())"

fun wrapf :: "string \<Rightarrow> string list \<Rightarrow> 'a result \<Rightarrow> 'a result" where
  "wrapf f a (Inl e) = Inl (Errorf f a [e])"
| "wrapf f a (Inr x) = Inr x"

definition conflictf :: "string \<Rightarrow> string list \<Rightarrow> error" where
  "conflictf f a = Errorf f a [ErrConflict]"

text \<open>Running a fallible step over a list in order, collecting the results.\<close>

fun emap :: "('a \<Rightarrow> 'b result) \<Rightarrow> 'a list \<Rightarrow> 'b list result" where
  "emap f [] = Inr []"
| "emap f (x # xs) = ebind (f x) (\<lambda>y. ebind (emap f xs) (\<lambda>ys. Inr (y # ys)))"

section \<open>Fallible steps on a state\<close>

text \<open>
  A step returns a result and the new state. An error ends the sequence, and what earlier steps
  wrote stays written.
\<close>

type_synonym ('s, 'a) step = "'s \<Rightarrow> 'a result \<times> 's"

definition sbind :: "('s, 'a) step \<Rightarrow> ('a \<Rightarrow> ('s, 'b) step) \<Rightarrow> ('s, 'b) step" where
  "sbind m f s = (case m s of (Inl e, s') \<Rightarrow> (Inl e, s') | (Inr x, s') \<Rightarrow> f x s')"

definition sreturn :: "'a result \<Rightarrow> ('s, 'a) step" where
  "sreturn r s = (r, s)"

definition sread :: "('s \<Rightarrow> 'a result) \<Rightarrow> ('s, 'a) step" where
  "sread f s = (f s, s)"

definition swrapf :: "string \<Rightarrow> string list \<Rightarrow> ('s, 'a) step \<Rightarrow> ('s, 'a) step" where
  "swrapf f a m s = (case m s of (r, s') \<Rightarrow> (wrapf f a r, s'))"

section \<open>\<^verbatim>\<open>strconv\<close>: decimal integers\<close>

definition digit :: "nat \<Rightarrow> char" where
  "digit d = char_of (48 + d)"

fun decimal :: "nat \<Rightarrow> string" where
  "decimal n = (if n < 10 then [digit n] else decimal (n div 10) @ [digit (n mod 10)])"

definition FormatUint :: "64 word \<Rightarrow> string" where
  "FormatUint w = decimal (unat w)"

definition digit_value :: "char \<Rightarrow> nat" where
  "digit_value c = of_char c - 48"

definition is_digit :: "char \<Rightarrow> bool" where
  "is_digit c \<longleftrightarrow> 48 \<le> (of_char c :: nat) \<and> (of_char c :: nat) \<le> 57"

definition decimal_value :: "string \<Rightarrow> nat" where
  "decimal_value s = foldl (\<lambda>a c. 10 * a + digit_value c) 0 s"

definition ParseUint :: "string \<Rightarrow> 64 word result" where
  "ParseUint s =
     (if s \<noteq> [] \<and> list_all is_digit s \<and> decimal_value s < 2 ^ 64
      then Inr (word_of_nat (decimal_value s)) else Inl (LibraryError ''strconv.ParseUint''))"

section \<open>\<^verbatim>\<open>strings\<close>\<close>

definition byte :: "char \<Rightarrow> nat" where
  "byte c = of_char c"

text \<open>\<^verbatim>\<open>unicode.IsSpace\<close> on UTF-8: the one-, two- and three-byte encodings of the space runes.\<close>

definition space1 :: "nat \<Rightarrow> bool" where
  "space1 a \<longleftrightarrow> a = 32 \<or> (9 \<le> a \<and> a \<le> 13)"

definition space2 :: "nat \<Rightarrow> nat \<Rightarrow> bool" where
  "space2 a b \<longleftrightarrow> a = 0xC2 \<and> (b = 0x85 \<or> b = 0xA0)"

definition space3 :: "nat \<Rightarrow> nat \<Rightarrow> nat \<Rightarrow> bool" where
  "space3 a b c \<longleftrightarrow>
     (a = 0xE1 \<and> b = 0x9A \<and> c = 0x80) \<or>
     (a = 0xE2 \<and> b = 0x80 \<and> (0x80 \<le> c \<and> c \<le> 0x8A \<or> c = 0xA8 \<or> c = 0xA9 \<or> c = 0xAF)) \<or>
     (a = 0xE2 \<and> b = 0x81 \<and> c = 0x9F) \<or>
     (a = 0xE3 \<and> b = 0x80 \<and> c = 0x80)"

fun trim_with :: "(nat \<Rightarrow> nat \<Rightarrow> bool) \<Rightarrow> (nat \<Rightarrow> nat \<Rightarrow> nat \<Rightarrow> bool) \<Rightarrow> string \<Rightarrow> string" where
  "trim_with p2 p3 [] = []"
| "trim_with p2 p3 [a] = (if space1 (byte a) then [] else [a])"
| "trim_with p2 p3 [a, b] =
     (if space1 (byte a) then trim_with p2 p3 [b]
      else if p2 (byte a) (byte b) then [] else [a, b])"
| "trim_with p2 p3 (a # b # c # s) =
     (if space1 (byte a) then trim_with p2 p3 (b # c # s)
      else if p2 (byte a) (byte b) then trim_with p2 p3 (c # s)
      else if p3 (byte a) (byte b) (byte c) then trim_with p2 p3 s
      else a # b # c # s)"

definition TrimLeft :: "string \<Rightarrow> string" where
  "TrimLeft s = trim_with space2 space3 s"

definition TrimRight :: "string \<Rightarrow> string" where
  "TrimRight s = rev (trim_with (\<lambda>b a. space2 a b) (\<lambda>c b a. space3 a b c) (rev s))"

definition TrimSpace :: "string \<Rightarrow> string" where
  "TrimSpace s = TrimRight (TrimLeft s)"

definition ContainsAny :: "string \<Rightarrow> char list \<Rightarrow> bool" where
  "ContainsAny s cs \<longleftrightarrow> list_ex (\<lambda>c. c \<in> set cs) s"

text \<open>The control characters rejected in configuration and upstream names: \<^verbatim>\<open>"\r\n\x00"\<close>.\<close>

definition control_chars :: "char list" where
  "control_chars = [CHR 0x0D, CHR 0x0A, CHR 0x00]"

definition is_lower :: "char \<Rightarrow> bool" where
  "is_lower c \<longleftrightarrow> 97 \<le> byte c \<and> byte c \<le> 122"

definition is_upper :: "char \<Rightarrow> bool" where
  "is_upper c \<longleftrightarrow> 65 \<le> byte c \<and> byte c \<le> 90"

definition ascii_lower :: "char \<Rightarrow> char" where
  "ascii_lower c = (if is_upper c then char_of (byte c + 32) else c)"

text \<open>ASCII case-insensitive comparison, the name folding of \<^verbatim>\<open>encoding/json\<close>.\<close>

fun fold_eq :: "string \<Rightarrow> string \<Rightarrow> bool" where
  "fold_eq [] [] = True"
| "fold_eq (a # x) (b # y) = (ascii_lower a = ascii_lower b \<and> fold_eq x y)"
| "fold_eq _ _ = False"

section \<open>\<^verbatim>\<open>time\<close>\<close>

type_synonym time = int

definition nanosecond_per_second :: int where
  "nanosecond_per_second = 1000000000"

definition zero_time :: time where    \<comment> \<open>January 1, year 1, 00:00:00 UTC\<close>
  "zero_time = - 62135596800 * nanosecond_per_second"

definition IsZero :: "time \<Rightarrow> bool" where
  "IsZero t \<longleftrightarrow> t = zero_time"

definition After :: "time \<Rightarrow> time \<Rightarrow> bool" where
  "After t u \<longleftrightarrow> u < t"

text \<open>\<^verbatim>\<open>Time.MarshalJSON\<close> refuses years outside \<open>0..9999\<close>.\<close>

definition marshalable_time :: "time \<Rightarrow> bool" where
  "marshalable_time t \<longleftrightarrow>
     - 62167219200 * nanosecond_per_second \<le> t \<and> t < 253402300800 * nanosecond_per_second"

section \<open>Lemmas on errors and the error monad\<close>

lemma ebind_Inr_iff [simp]: "ebind m f = Inr y \<longleftrightarrow> (\<exists>x. m = Inr x \<and> f x = Inr y)"
  by (cases m) auto

lemma ebind_Inl_iff: "ebind m f = Inl e \<longleftrightarrow> m = Inl e \<or> (\<exists>x. m = Inr x \<and> f x = Inl e)"
  by (cases m) auto

lemma ebind_assoc: "ebind (ebind m f) g = ebind m (\<lambda>x. ebind (f x) g)"
  by (cases m) auto

lemma ebind_unit [simp]: "ebind m Inr = m"
  by (cases m) auto

text \<open>Reading a map whose missing entries are the repository error \<^verbatim>\<open>ErrNotFound\<close>.\<close>

definition require :: "('k \<rightharpoonup> 'v) \<Rightarrow> 'k \<Rightarrow> 'v result" where
  "require M k = (case M k of None \<Rightarrow> Inl ErrNotFound | Some v \<Rightarrow> Inr v)"

lemma require_simps [simp]: "M k = None \<Longrightarrow> require M k = Inl ErrNotFound" "M k = Some v \<Longrightarrow> require M k = Inr v"
  by (simp_all add: require_def)

lemma require_Inr_iff [simp]: "require M k = Inr v \<longleftrightarrow> M k = Some v"
  by (simp add: require_def split: option.split)

text \<open>A guarded update: the result of the checks, and the new state when all of them pass.\<close>

definition guarded :: "unit result \<Rightarrow> ('c \<Rightarrow> 'c) \<Rightarrow> 'c \<Rightarrow> unit result \<times> 'c" where
  "guarded r f c = (r, if r = Inr () then f c else c)"

text \<open>
  An operation implements its specification: from related states it gives the same result and ends in
  related states, on every branch.
\<close>

definition simulates :: "('a \<Rightarrow> 's \<Rightarrow> bool) \<Rightarrow> ('s \<Rightarrow> 'r \<times> 's) \<Rightarrow> ('a \<Rightarrow> 'r \<times> 'a) \<Rightarrow> bool" where
  "simulates rel f g \<longleftrightarrow> (\<forall>a s. rel a s \<longrightarrow> fst (f s) = fst (g a) \<and> rel (snd (g a)) (snd (f s)))"

lemma simulatesI:
  "(\<And>a s r s' r' a'. rel a s \<Longrightarrow> f s = (r, s') \<Longrightarrow> g a = (r', a') \<Longrightarrow> r = r' \<and> rel a' s') \<Longrightarrow> simulates rel f g"
  unfolding simulates_def by (metis prod.collapse)

lemma simulates_run:
  assumes "simulates rel f g" "rel a s" "g a = (r, a')"
  obtains s' where "f s = (r, s')" "rel a' s'"
proof -
  from assms(1,2) have "fst (f s) = fst (g a) \<and> rel (snd (g a)) (snd (f s))" unfolding simulates_def by blast
  then have "fst (f s) = r" "rel a' (snd (f s))" by (simp_all add: assms(3))
  then show thesis using that [of "snd (f s)"] by (simp add: prod_eq_iff)
qed

lemma ebind_fail_if: "ebind (fail_if b e) f = (if b then Inl e else f ())"
  by (simp add: fail_if_def)

lemma fail_if_Inr_iff [simp]: "fail_if b e = Inr u \<longleftrightarrow> \<not> b"
  by (simp add: fail_if_def)

lemma fail_if_Inl_iff [simp]: "fail_if b e = Inl e' \<longleftrightarrow> b \<and> e' = e"
  by (auto simp: fail_if_def)

lemma fail_if_simps [simp]: "fail_if True e = Inl e" "fail_if False e = Inr ()"
  by (simp_all add: fail_if_def)

lemma wrapf_Inr_iff [simp]: "wrapf f a r = Inr x \<longleftrightarrow> r = Inr x"
  by (cases r) auto

lemma wrapf_Inl_iff: "wrapf f a r = Inl e \<longleftrightarrow> (\<exists>e'. r = Inl e' \<and> e = Errorf f a [e'])"
  by (cases r) auto

lemma emap_Inr_iff:
  "emap f xs = Inr ys \<longleftrightarrow> length ys = length xs \<and> (\<forall>i < length xs. f (xs ! i) = Inr (ys ! i))"
proof (induction xs arbitrary: ys)
  case Nil
  then show ?case by auto
next
  case (Cons x xs)
  show ?case
  proof (cases ys)
    case Nil
    then show ?thesis by simp
  next
    case (Cons y zs)
    have "emap f (x # xs) = Inr ys \<longleftrightarrow> f x = Inr y \<and> emap f xs = Inr zs"
      using Cons by auto
    then show ?thesis
      using Cons Cons.IH [of zs] by (auto simp: less_Suc_eq_0_disj)
  qed
qed

lemma emap_ok: "(\<And>x. x \<in> set xs \<Longrightarrow> f x = Inr (g x)) \<Longrightarrow> emap f xs = Inr (map g xs)"
  by (induction xs) auto

lemma emap_in: "emap f xs = Inr ys \<Longrightarrow> x \<in> set xs \<Longrightarrow> \<exists>y. f x = Inr y"
  by (induction xs arbitrary: ys) auto

lemma emap_map: "emap f (map g xs) = emap (f \<circ> g) xs"
  by (induction xs) auto

lemma emap_guarded:
  "(\<And>x. x \<in> set xs \<Longrightarrow> f x = ebind (c x) (\<lambda>_. Inr (g x))) \<Longrightarrow>
     emap f xs = ebind (emap c xs) (\<lambda>_. Inr (map g xs))"
proof (induction xs)
  case (Cons x xs)
  then show ?case by (cases "c x"; cases "emap c xs") auto
qed simp

lemma sbind_Inr:
  "sbind m f s = (Inr y, s2) \<longleftrightarrow> (\<exists>x s1. m s = (Inr x, s1) \<and> f x s1 = (Inr y, s2))"
  by (auto simp: sbind_def split: prod.splits sum.splits)

lemma sbind_cases:
  assumes "sbind m f s = (r, s2)"
  obtains (stop) e where "m s = (Inl e, s2)" "r = Inl e" | (go) x s1 where "m s = (Inr x, s1)" "f x s1 = (r, s2)"
  using assms by (auto simp: sbind_def split: prod.splits sum.splits)

lemma step_simps [simp]: "sread f s = (f s, s)" "sreturn r s = (r, s)"
  by (simp_all add: sread_def sreturn_def)

lemma errors_Is_conflictf [simp]: "errors_Is (conflictf f a) ErrConflict"
  by (simp add: conflictf_def)

lemma errors_Is_conflictf_iff: "errors_Is (conflictf f a) t \<longleftrightarrow> t = ErrConflict \<or> t = conflictf f a"
  by (auto simp: conflictf_def)

section \<open>Lemmas on decimal text\<close>

lemma byte_char_of: "n < 256 \<Longrightarrow> (of_char (char_of n) :: nat) = n"
  by simp

lemma digit_value_digit [simp]: "d < 10 \<Longrightarrow> digit_value (digit d) = d"
  by (simp add: digit_value_def digit_def byte_char_of)

lemma is_digit_digit [simp]: "d < 10 \<Longrightarrow> is_digit (digit d)"
  by (simp add: is_digit_def digit_def byte_char_of)

declare decimal.simps [simp del]

lemma decimal_nonempty [simp]: "decimal n \<noteq> []"
  by (subst decimal.simps) simp

lemma decimal_digits: "list_all is_digit (decimal n)"
proof (induction n rule: decimal.induct)
  case (1 n)
  then show ?case by (subst decimal.simps) auto
qed

lemma decimal_value_decimal [simp]: "decimal_value (decimal n) = n"
proof (induction n rule: decimal.induct)
  case (1 n)
  then show ?case by (subst decimal.simps) (auto simp: decimal_value_def)
qed

lemma decimal_inj [simp]: "decimal m = decimal n \<longleftrightarrow> m = n"
  by (metis decimal_value_decimal)

lemma FormatUint_inj [simp]: "FormatUint v = FormatUint w \<longleftrightarrow> v = w"
  by (auto simp: FormatUint_def dest: unsigned_word_eqI)

lemma FormatUint_nonempty [simp]: "FormatUint w \<noteq> []"
  by (simp add: FormatUint_def)

lemma ParseUint_FormatUint [simp]: "ParseUint (FormatUint w) = Inr w"
proof -
  have "unat w < 2 ^ 64" using unsigned_less [of w] by simp
  then show ?thesis
    by (simp add: ParseUint_def FormatUint_def decimal_digits)
qed

section \<open>Lemmas on strings\<close>

lemma fold_eq_refl [simp]: "fold_eq s s"
  by (induction s) auto

end
