(* ===== verification/Json.thy ===== *)
theory Json
  imports Prelude
begin

text \<open>
  The part of \<^verbatim>\<open>encoding/json\<close> the control plane relies on. A \<^verbatim>\<open>json.RawMessage\<close> is
  represented by the value it spells (\<open>None\<close> for the nil slice); a number keeps its literal, and the
  RFC 3339 text of a \<^verbatim>\<open>time.Time\<close> is kept as the instant it denotes. String values stand for
  valid UTF-8 text, on which encoding is lossless.

  Decoding follows \<^verbatim>\<open>json.Unmarshal\<close> into a struct: members are assigned in order, a name matches
  case-insensitively, unknown members are skipped, missing ones keep the zero value, \<^verbatim>\<open>null\<close>
  leaves a scalar alone and clears a pointer or slice, and a member of the wrong type is an error.

  A Go type parameter \<^verbatim>\<open>[T any]\<close> of the repositories becomes a \<open>Codec\<close>: the reflection data of
  \<open>T\<close> that \<^verbatim>\<open>json.Marshal\<close> and \<^verbatim>\<open>json.Unmarshal\<close> use. The locale \<open>codec\<close> states the round
  trip that every stored type must satisfy.
\<close>

section \<open>Values\<close>

datatype json =
    JNull
  | JBool bool
  | JNum string
  | JStr string
  | JTime time
  | JArr "json list"
  | JObj "(string \<times> json) list"

type_synonym RawMessage = "json option"

section \<open>Assigning a JSON value to a Go variable\<close>

definition type_error :: "'a result" where
  "type_error = Inl (LibraryError ''json: cannot unmarshal value'')"

fun assign_string :: "json \<Rightarrow> string \<Rightarrow> string result" where
  "assign_string JNull v = Inr v"
| "assign_string (JStr s) v = Inr s"
| "assign_string _ v = type_error"

fun assign_bool :: "json \<Rightarrow> bool \<Rightarrow> bool result" where
  "assign_bool JNull v = Inr v"
| "assign_bool (JBool b) v = Inr b"
| "assign_bool _ v = type_error"

fun assign_uint64 :: "json \<Rightarrow> 64 word \<Rightarrow> 64 word result" where
  "assign_uint64 JNull v = Inr v"
| "assign_uint64 (JNum s) v = ParseUint s"
| "assign_uint64 _ v = type_error"

fun assign_time :: "json \<Rightarrow> time \<Rightarrow> time result" where
  "assign_time JNull v = Inr v"
| "assign_time (JTime t) v = Inr t"
| "assign_time _ v = type_error"

fun assign_time_ptr :: "json \<Rightarrow> time option \<Rightarrow> time option result" where
  "assign_time_ptr JNull v = Inr None"
| "assign_time_ptr (JTime t) v = Inr (Some t)"
| "assign_time_ptr _ v = type_error"

fun assign_strings :: "json \<Rightarrow> string list \<Rightarrow> string list result" where
  "assign_strings JNull v = Inr []"
| "assign_strings (JArr js) v = emap (\<lambda>j. assign_string j '''') js"
| "assign_strings _ v = type_error"

text \<open>All members whose name matches, assigned in order.\<close>

fun json_field ::
  "string \<Rightarrow> (json \<Rightarrow> 'a \<Rightarrow> 'a result) \<Rightarrow> (string \<times> json) list \<Rightarrow> 'a \<Rightarrow> 'a result" where
  "json_field name d [] v = Inr v"
| "json_field name d ((k, j) # ms) v =
     (if fold_eq name k then ebind (d j v) (json_field name d ms) else json_field name d ms v)"

definition json_strings :: "string list \<Rightarrow> json" where
  "json_strings xs = JArr (map JStr xs)"

definition json_uint64 :: "64 word \<Rightarrow> json" where
  "json_uint64 w = JNum (FormatUint w)"

text \<open>A pointer field tagged \<^verbatim>\<open>omitempty\<close> is left out when nil.\<close>

fun json_omitempty :: "string \<Rightarrow> ('a \<Rightarrow> json) \<Rightarrow> 'a option \<Rightarrow> (string \<times> json) list" where
  "json_omitempty name f None = []"
| "json_omitempty name f (Some x) = [(name, f x)]"

section \<open>Types with an encoding\<close>

record 'a Codec =
  marshalable :: "'a \<Rightarrow> bool"       \<comment> \<open>\<^verbatim>\<open>json.Marshal\<close> succeeds\<close>
  json_of :: "'a \<Rightarrow> json"
  decode :: "json \<Rightarrow> 'a result"     \<comment> \<open>into a zero variable\<close>

definition Unmarshal :: "'a Codec \<Rightarrow> RawMessage \<Rightarrow> 'a result" where
  "Unmarshal C raw =
     (case raw of None \<Rightarrow> Inl (LibraryError ''unexpected end of JSON input'') | Some j \<Rightarrow> decode C j)"

definition encode :: "'a Codec \<Rightarrow> 'a \<Rightarrow> json result" where
  "encode C x =
     (if marshalable C x then Inr (json_of C x)
      else Inl (Errorf ''encode state value: %w'' [] [LibraryError ''json: error calling MarshalJSON'']))"

definition StringCodec :: "string Codec" where
  "StringCodec =
     \<lparr>marshalable = (\<lambda>_. True), json_of = JStr, decode = (\<lambda>j. assign_string j '''')\<rparr>"

section \<open>The round-trip contract\<close>

locale codec =
  fixes C :: "'a Codec"
  assumes decode_json_of: "decode C (json_of C x) = Inr x"
begin

lemma unmarshal_json_of [simp]: "Unmarshal C (Some (json_of C x)) = Inr x"
  by (simp add: Unmarshal_def decode_json_of)

lemma unmarshal_encode: "encode C x = Inr j \<Longrightarrow> Unmarshal C (Some j) = Inr x"
  by (auto simp: encode_def split: if_splits)

lemma json_of_inj: "json_of C x = json_of C y \<longleftrightarrow> x = y"
  by (metis decode_json_of sum.inject(2))

end

section \<open>Encoding lemmas\<close>

lemma emap_JStr [simp]: "emap (\<lambda>j. assign_string j '''') (map JStr xs) = Inr xs"
  by (induction xs) auto

lemma assign_strings_json [codec_simps]: "assign_strings (json_strings xs) v = Inr xs"
  by (simp add: json_strings_def)

lemma assign_uint64_json [codec_simps]: "assign_uint64 (json_uint64 w) v = Inr w"
  by (simp add: json_uint64_def)

lemmas fold_name_simps [codec_simps] = ascii_lower_def is_upper_def byte_def

lemma encode_iff: "encode C x = Inr j \<longleftrightarrow> marshalable C x \<and> j = json_of C x"
  by (auto simp: encode_def)

interpretation string_codec: codec StringCodec
  by unfold_locales (simp add: StringCodec_def)

lemma StringCodec_simps [simp]:
  "marshalable StringCodec x" "json_of StringCodec x = JStr x"
  by (simp_all add: StringCodec_def)

end
