(* ===== verification/State_Store.thy ===== *)
theory State_Store
  imports Json
begin

text \<open>
  Package \<^verbatim>\<open>internal/state\<close>: the persistence contract \<^verbatim>\<open>state.Store\<close> (file \<^verbatim>\<open>store.go\<close>) as a
  dictionary of two operations over an abstract store state, and its in-memory implementation
  (\<^verbatim>\<open>memory.go\<close>). An entry carries an ETag; a transaction checks the ETag of every operation that
  names one and then applies all of them.

  The locale \<open>atomic_store\<close> is what the repositories rely on: a successful read is the stored value
  with its non-empty tag, a committed transaction had every tag right and has exactly the effect of
  its operations in order, untouched keys keep value and tag, and a failed transaction changed nothing
  or, unless it reports a conflict, was applied as a whole. In \<open>state_store\<close> a failed transaction changes
  nothing. \<open>MemoryStore\<close> is shown to satisfy both.
\<close>

section \<open>\<^verbatim>\<open>store.go\<close>\<close>

record Entry =
  Entry_Value :: RawMessage
  Entry_ETag :: string
  Entry_Exists :: bool

datatype OperationType = Upsert | Delete | UnsupportedOperation string

record Operation =
  Op_Type :: OperationType
  Op_Key :: string
  Op_Value :: RawMessage
  Op_ETag :: string

record 's Store =
  Get :: "string \<Rightarrow> 's \<Rightarrow> Entry result"
  Transact :: "Operation list \<Rightarrow> 's \<Rightarrow> unit result \<times> 's"

definition no_entry :: Entry where
  "no_entry = \<lparr>Entry_Value = None, Entry_ETag = '''', Entry_Exists = False\<rparr>"

abbreviation upsert :: "string \<Rightarrow> json \<Rightarrow> string \<Rightarrow> Operation" where
  "upsert k j tag \<equiv> \<lparr>Op_Type = Upsert, Op_Key = k, Op_Value = Some j, Op_ETag = tag\<rparr>"

abbreviation delete_op :: "string \<Rightarrow> string \<Rightarrow> Operation" where
  "delete_op k tag \<equiv> \<lparr>Op_Type = Delete, Op_Key = k, Op_Value = None, Op_ETag = tag\<rparr>"

section \<open>\<^verbatim>\<open>memory.go\<close>\<close>

record memoryValue =
  mv_value :: RawMessage
  mv_etag :: "64 word"

type_synonym memory = "string \<rightharpoonup> memoryValue"

definition MemoryStore_Get :: "string \<Rightarrow> memory \<Rightarrow> Entry result" where
  "MemoryStore_Get key values =
     (case values key of
        None \<Rightarrow> Inr no_entry
      | Some v \<Rightarrow> Inr \<lparr>Entry_Value = mv_value v, Entry_ETag = FormatUint (mv_etag v), Entry_Exists = True\<rparr>)"

text \<open>The first loop of \<^verbatim>\<open>Transact\<close>: every ETag that an operation names.\<close>

fun MemoryStore_check :: "memory \<Rightarrow> Operation list \<Rightarrow> unit result" where
  "MemoryStore_check values [] = Inr ()"
| "MemoryStore_check values (operation # operations) =
     (if Op_ETag operation = '''' then MemoryStore_check values operations
      else case values (Op_Key operation) of
          None \<Rightarrow> Inl (Errorf ''%w: key %q'' [Op_Key operation] [StateErrConflict])
        | Some current \<Rightarrow>
            if FormatUint (mv_etag current) \<noteq> Op_ETag operation
            then Inl (Errorf ''%w: key %q'' [Op_Key operation] [StateErrConflict])
            else MemoryStore_check values operations)"

text \<open>The counter skips zero when it wraps.\<close>

definition next_etag :: "64 word \<Rightarrow> 64 word" where
  "next_etag e = (if e + 1 = 0 then 1 else e + 1)"

text \<open>The second loop: an unsupported type stops it half way, with what was applied before kept.\<close>

fun MemoryStore_apply :: "Operation list \<Rightarrow> memory \<Rightarrow> unit result \<times> memory" where
  "MemoryStore_apply [] values = (Inr (), values)"
| "MemoryStore_apply (operation # operations) values =
     (case Op_Type operation of
        Upsert \<Rightarrow>
          (let current = (case values (Op_Key operation) of
                            None \<Rightarrow> \<lparr>mv_value = None, mv_etag = 0\<rparr> | Some v \<Rightarrow> v)
           in MemoryStore_apply operations
                (values(Op_Key operation \<mapsto>
                  \<lparr>mv_value = Op_Value operation, mv_etag = next_etag (mv_etag current)\<rparr>)))
      | Delete \<Rightarrow> MemoryStore_apply operations (values(Op_Key operation := None))
      | UnsupportedOperation t \<Rightarrow>
          (Inl (Errorf ''unsupported memory state operation %q'' [t] []), values))"

definition MemoryStore_Transact :: "Operation list \<Rightarrow> memory \<Rightarrow> unit result \<times> memory" where
  "MemoryStore_Transact operations values =
     (case MemoryStore_check values operations of
        Inl e \<Rightarrow> (Inl e, values)
      | Inr _ \<Rightarrow> MemoryStore_apply operations values)"

definition MemoryStore :: "memory Store" where
  "MemoryStore = \<lparr>Get = MemoryStore_Get, Transact = MemoryStore_Transact\<rparr>"

definition NewMemoryStore :: memory where
  "NewMemoryStore = Map.empty"

section \<open>Specification of a store: values and tags\<close>

type_synonym vals = "string \<rightharpoonup> RawMessage"
type_synonym tagged = "string \<rightharpoonup> RawMessage \<times> string"

definition entry_of :: "(RawMessage \<times> string) option \<Rightarrow> Entry" where
  "entry_of x = (case x of None \<Rightarrow> no_entry
     | Some (v, tag) \<Rightarrow> \<lparr>Entry_Value = v, Entry_ETag = tag, Entry_Exists = True\<rparr>)"

fun apply_op :: "Operation \<Rightarrow> vals \<Rightarrow> vals" where
  "apply_op operation m =
     (case Op_Type operation of
        Upsert \<Rightarrow> m(Op_Key operation \<mapsto> Op_Value operation)
      | Delete \<Rightarrow> m(Op_Key operation := None)
      | UnsupportedOperation _ \<Rightarrow> m)"

definition apply_ops :: "Operation list \<Rightarrow> vals \<Rightarrow> vals" where
  "apply_ops operations m = fold apply_op operations m"

definition supported :: "Operation \<Rightarrow> bool" where
  "supported operation \<longleftrightarrow> Op_Type operation = Upsert \<or> Op_Type operation = Delete"

text \<open>Every tag an operation names is the current one.\<close>

definition tags_match :: "tagged \<Rightarrow> Operation list \<Rightarrow> bool" where
  "tags_match t operations \<longleftrightarrow>
     list_all (\<lambda>operation. Op_ETag operation = '''' \<or>
       (case t (Op_Key operation) of None \<Rightarrow> False | Some (_, tag) \<Rightarrow> tag = Op_ETag operation)) operations"

definition values_of :: "tagged \<Rightarrow> vals" where
  "values_of t k = map_option fst (t k)"

locale atomic_store =
  fixes st :: "'s Store" and tagged_view :: "'s \<Rightarrow> tagged"
  assumes Get_view: "Get st k s = Inr e \<Longrightarrow> e = entry_of (tagged_view s k)"
    and tag_nonempty: "tagged_view s k = Some (v, tag) \<Longrightarrow> tag \<noteq> ''''"
    and commit_tags: "Transact st operations s = (Inr u, s') \<Longrightarrow> list_all supported operations \<Longrightarrow>
      tags_match (tagged_view s) operations"
    and commit_values: "Transact st operations s = (Inr u, s') \<Longrightarrow> list_all supported operations \<Longrightarrow>
      values_of (tagged_view s') = apply_ops operations (values_of (tagged_view s))"
    and commit_frame: "Transact st operations s = (Inr u, s') \<Longrightarrow> list_all supported operations \<Longrightarrow>
      k \<notin> Op_Key ` set operations \<Longrightarrow> tagged_view s' k = tagged_view s k"
    and failure_atomic: "Transact st operations s = (Inl err, s') \<Longrightarrow> list_all supported operations \<Longrightarrow>
      values_of (tagged_view s') = values_of (tagged_view s) \<or>
      tags_match (tagged_view s) operations \<and>
      values_of (tagged_view s') = apply_ops operations (values_of (tagged_view s))"
    and conflict_unchanged: "Transact st operations s = (Inl err, s') \<Longrightarrow> list_all supported operations \<Longrightarrow>
      errors_Is err StateErrConflict \<Longrightarrow> values_of (tagged_view s') = values_of (tagged_view s)"
begin

abbreviation val :: "'s \<Rightarrow> vals" where
  "val s \<equiv> values_of (tagged_view s)"

lemma Get_missing: "Get st k s = Inr e \<Longrightarrow> \<not> Entry_Exists e \<longleftrightarrow> val s k = None"
  by (auto dest!: Get_view simp: entry_of_def no_entry_def values_of_def split: option.splits)

lemma Get_value: "Get st k s = Inr e \<Longrightarrow> Entry_Exists e \<Longrightarrow> val s k = Some (Entry_Value e)"
  by (auto dest!: Get_view simp: entry_of_def no_entry_def values_of_def split: option.splits)

lemma Get_tag: "Get st k s = Inr e \<Longrightarrow> Entry_ETag e = '''' \<longleftrightarrow> val s k = None"
  using tag_nonempty [of s k]
  by (auto dest!: Get_view simp: entry_of_def no_entry_def values_of_def split: option.splits)

end

text \<open>A store whose failed transactions change nothing at all.\<close>

locale state_store = atomic_store st tagged_view for st :: "'s Store" and tagged_view :: "'s \<Rightarrow> tagged" +
  assumes abort: "Transact st operations s = (Inl err, s') \<Longrightarrow> list_all supported operations \<Longrightarrow>
      tagged_view s' = tagged_view s"

text \<open>
  A store that answers: reads do not fail, and a transaction fails only because of a stale tag.
\<close>

locale total_store = state_store st tagged_view for st :: "'s Store" and tagged_view :: "'s \<Rightarrow> tagged" +
  assumes Get_total: "\<exists>e. Get st k s = Inr e"
    and Transact_ok: "list_all supported operations \<Longrightarrow> tags_match (tagged_view s) operations \<Longrightarrow>
      \<exists>s'. Transact st operations s = (Inr (), s')"
    and Transact_stale: "\<not> tags_match (tagged_view s) operations \<Longrightarrow>
      \<exists>err. Transact st operations s = (Inl err, s) \<and> errors_Is err StateErrConflict"
begin

lemma Get_eq: "Get st k s = Inr (entry_of (tagged_view s k))"
  using Get_total [of k s] Get_view [of k s] by auto

definition tag_of :: "'s \<Rightarrow> string \<Rightarrow> string" where
  "tag_of s k = Entry_ETag (entry_of (tagged_view s k))"

lemma Exists_val: "Entry_Exists (entry_of (tagged_view s k)) \<longleftrightarrow> k \<in> dom (val s)"
  by (auto simp: values_of_def entry_of_def no_entry_def split: option.splits)

lemma Value_val: "val s k = Some v \<Longrightarrow> Entry_Value (entry_of (tagged_view s k)) = v"
  by (auto simp: values_of_def entry_of_def)

lemma tags_match_fresh:
  "list_all (\<lambda>operation. Op_ETag operation = '''' \<or> Op_ETag operation = tag_of s (Op_Key operation)) operations
     \<Longrightarrow> tags_match (tagged_view s) operations"
  unfolding tags_match_def list_all_iff
  by (fastforce simp: tag_of_def entry_of_def no_entry_def split: option.splits)

end

section \<open>Lemmas: the effect of operations on values\<close>

lemma apply_ops_Nil [simp]: "apply_ops [] m = m"
  by (simp add: apply_ops_def)

lemma apply_ops_Cons [simp]: "apply_ops (x # xs) m = apply_ops xs (apply_op x m)"
  by (simp add: apply_ops_def)

lemma apply_ops_append [simp]: "apply_ops (xs @ ys) m = apply_ops ys (apply_ops xs m)"
  by (simp add: apply_ops_def)

lemma apply_op_frame: "k \<noteq> Op_Key x \<Longrightarrow> apply_op x m k = m k"
  by (auto split: OperationType.splits)

lemma apply_ops_frame: "k \<notin> Op_Key ` set xs \<Longrightarrow> apply_ops xs m k = m k"
proof (induction xs arbitrary: m)
  case (Cons x xs)
  then have "apply_ops xs (apply_op x m) k = apply_op x m k" by simp
  also have "\<dots> = m k" using Cons.prems by (intro apply_op_frame) auto
  finally show ?case by simp
qed simp

lemma supported_upsert [simp]: "supported (upsert k j tag)"
  by (simp add: supported_def)

lemma supported_delete [simp]: "supported (delete_op k tag)"
  by (simp add: supported_def)

declare apply_op.simps [simp del]

lemma apply_upsert [simp]: "apply_op (upsert k j tag) m = m(k \<mapsto> Some j)"
  by (simp add: apply_op.simps)

lemma apply_delete [simp]: "apply_op (delete_op k tag) m = m(k := None)"
  by (simp add: apply_op.simps)

section \<open>The in-memory store keeps the contract\<close>

definition memory_view :: "memory \<Rightarrow> tagged" where
  "memory_view values k = map_option (\<lambda>v. (mv_value v, FormatUint (mv_etag v))) (values k)"

abbreviation contents :: "memory \<Rightarrow> vals" where
  "contents s \<equiv> values_of (memory_view s)"

lemma MemoryStore_Get_view: "MemoryStore_Get k s = Inr (entry_of (memory_view s k))"
  by (simp add: MemoryStore_Get_def memory_view_def entry_of_def split: option.splits)

lemma MemoryStore_check_iff:
  "MemoryStore_check s operations = Inr u \<longleftrightarrow> tags_match (memory_view s) operations"
  by (induction operations) (auto simp: tags_match_def memory_view_def split: option.splits)

lemma MemoryStore_check_error:
  "MemoryStore_check s operations = Inl e \<Longrightarrow> errors_Is e StateErrConflict"
  by (induction operations) (auto split: if_splits option.splits)

lemma MemoryStore_apply_values:
  "MemoryStore_apply operations s = (Inr u, s') \<Longrightarrow>
     values_of (memory_view s') = apply_ops operations (values_of (memory_view s))"
proof (induction operations arbitrary: s)
  case (Cons x xs)
  then obtain s1 where step: "MemoryStore_apply xs s1 = (Inr u, s')"
    and "values_of (memory_view s1) = apply_op x (values_of (memory_view s))"
    by (cases "Op_Type x")
      (force simp: apply_op.simps Let_def values_of_def memory_view_def fun_eq_iff)+
  with Cons.IH [OF step] show ?case by simp
qed simp

lemma MemoryStore_apply_frame:
  "MemoryStore_apply operations s = (r, s') \<Longrightarrow> k \<notin> Op_Key ` set operations \<Longrightarrow> s' k = s k"
proof (induction operations arbitrary: s)
  case (Cons x xs)
  then show ?case by (auto simp: Let_def split: OperationType.splits)
qed simp

lemma MemoryStore_apply_supported:
  "list_all supported operations \<Longrightarrow> \<exists>s'. MemoryStore_apply operations s = (Inr (), s')"
  by (induction operations arbitrary: s) (auto simp: supported_def Let_def split: OperationType.splits)

lemma MemoryStore_abort:
  "MemoryStore_Transact operations s = (Inl e, s') \<Longrightarrow> list_all supported operations \<Longrightarrow> s' = s"
  using MemoryStore_apply_supported [of operations s]
  by (auto simp: MemoryStore_Transact_def split: sum.splits)

lemmas MemoryStore_unfold = MemoryStore_def MemoryStore_Transact_def

interpretation mem: state_store MemoryStore memory_view
proof (unfold_locales, goal_cases)
  case (1 k s e)
  then show ?case by (simp add: MemoryStore_def MemoryStore_Get_view)
next
  case (2 s k v tag)
  then show ?case by (auto simp: memory_view_def)
next
  case (3 operations s u s')
  then show ?case
    by (auto simp: MemoryStore_unfold MemoryStore_check_iff [where u = "()"] split: sum.splits)
next
  case (4 operations s u s')
  then show ?case
    by (auto simp: MemoryStore_unfold dest: MemoryStore_apply_values split: sum.splits)
next
  case (5 operations s u s' k)
  then show ?case
    by (auto simp: MemoryStore_unfold memory_view_def dest: MemoryStore_apply_frame split: sum.splits)
qed (auto simp: MemoryStore_def dest: MemoryStore_abort)

interpretation mem: total_store MemoryStore memory_view
proof (unfold_locales, goal_cases)
  case (1 k s)
  then show ?case by (simp add: MemoryStore_def MemoryStore_Get_view)
next
  case (2 operations s)
  then show ?case
    using MemoryStore_apply_supported [of operations s] MemoryStore_check_iff [of s operations "()"]
    by (auto simp: MemoryStore_def MemoryStore_Transact_def split: sum.splits)
next
  case (3 s operations)
  then show ?case
    by (auto simp: MemoryStore_def MemoryStore_Transact_def MemoryStore_check_iff dest: MemoryStore_check_error
        split: sum.splits)
qed


lemma next_etag_neq [simp]: "next_etag e \<noteq> e" "e \<noteq> next_etag e" "next_etag e \<noteq> 0"
  by (auto simp: next_etag_def)

text \<open>What a key holds after a transaction is decided by the operations that name it.\<close>

lemma MemoryStore_apply_key:
  "MemoryStore_apply operations s = (Inr u, s') \<Longrightarrow> t k = s k \<Longrightarrow>
    \<exists>t'. MemoryStore_apply (filter (\<lambda>operation. Op_Key operation = k) operations) t = (Inr u, t') \<and> t' k = s' k"
proof (induction operations arbitrary: s t)
  case (Cons x xs)
  obtain f where f: "MemoryStore_apply (x # ys) r = MemoryStore_apply ys (r(Op_Key x := f (r (Op_Key x))))" for ys r
    using Cons.prems by (cases "Op_Type x") (auto simp: Let_def)
  have run: "MemoryStore_apply xs (s(Op_Key x := f (s (Op_Key x)))) = (Inr u, s')"
    using Cons.prems(1) by (simp only: f)
  show ?case
  proof (cases "Op_Key x = k")
    case True
    from Cons.IH [OF run, of "t(k := f (t k))"] True Cons.prems(2) show ?thesis
      by (simp add: f fun_upd_def del: MemoryStore_apply.simps)
  next
    case False
    from Cons.IH [OF run, of t] False Cons.prems(2) show ?thesis by simp
  qed
qed simp

lemma single_upsert_stores:
  assumes "MemoryStore_Transact operations s = (Inr (), s')"
    and "filter (\<lambda>operation. Op_Key operation = k) operations
      = [\<lparr>Op_Type = Upsert, Op_Key = k, Op_Value = v, Op_ETag = tag\<rparr>]"
  shows "\<exists>t. s' k = Some \<lparr>mv_value = v, mv_etag = next_etag t\<rparr>
    \<and> (s k = None \<or> (\<exists>w. s k = Some \<lparr>mv_value = w, mv_etag = t\<rparr>))"
proof -
  have "MemoryStore_apply operations s = (Inr (), s')"
    using assms(1) by (simp add: MemoryStore_Transact_def split: sum.splits)
  from MemoryStore_apply_key [OF this, of s k] assms(2)
  have "s' k = Some \<lparr>mv_value = v, mv_etag = next_etag (case s k of None \<Rightarrow> 0 | Some old \<Rightarrow> mv_etag old)\<rparr>"
    by (auto simp: Let_def dest!: sym [of _ "s' k"] split: option.splits)
  then show ?thesis by (cases "s k") (auto intro: exI [of _ "mv_etag (the (s k))"] simp: memoryValue.splits)
qed

lemma named_stale_tag_refused:
  assumes "operation \<in> set later" "Op_ETag operation \<noteq> ''''"
    and "\<And>v. memory_view s (Op_Key operation) \<noteq> Some (v, Op_ETag operation)"
  shows "\<exists>err. MemoryStore_Transact later s = (Inl err, s) \<and> errors_Is err StateErrConflict"
proof -
  have "\<not> tags_match (memory_view s) later"
    using assms by (fastforce simp: tags_match_def list_all_iff split: option.splits)
  from mem.Transact_stale [OF this] show ?thesis by (simp add: MemoryStore_def)
qed

text \<open>
  An ETag is only good as long as its key lives: a key that is deleted and created again starts again
  at one, so a transaction that names the ETag it had before is accepted.
\<close>

lemma recreated_key_reuses_etag:
  "snd (MemoryStore_Transact [delete_op k '''', upsert k j ''''] [k \<mapsto> \<lparr>mv_value = v, mv_etag = 1\<rparr>])
    = [k \<mapsto> \<lparr>mv_value = Some j, mv_etag = 1\<rparr>]"
  by (simp add: MemoryStore_Transact_def next_etag_def)

section \<open>Properties\<close>

text \<open>
  MemoryStore.Transact is an atomic compare-and-swap. When every ETag that an operation names is
  the current one of its key, the transaction succeeds and its effect on the stored values is that of
  its operations in order; when one is stale, or its key is absent, the transaction fails with a
  conflict and the store is unchanged. Keys that no operation names keep value and ETag either way.
\<close>

lemma MemoryStore_compare_and_swap:
  assumes "list_all supported operations"
  shows "(if tags_match (memory_view s) operations
      then fst (MemoryStore_Transact operations s) = Inr ()
        \<and> contents (snd (MemoryStore_Transact operations s)) = apply_ops operations (contents s)
      else (\<exists>e. fst (MemoryStore_Transact operations s) = Inl e \<and> errors_Is e StateErrConflict)
        \<and> snd (MemoryStore_Transact operations s) = s)
    \<and> (\<forall>k. k \<notin> Op_Key ` set operations \<longrightarrow> snd (MemoryStore_Transact operations s) k = s k)"
proof -
  have t: "Transact MemoryStore = MemoryStore_Transact" by (simp add: MemoryStore_def)
  have "snd (MemoryStore_Transact operations s) k = s k" if "k \<notin> Op_Key ` set operations" for k
    using MemoryStore_apply_frame [of operations s _ _ k] that
    by (cases "MemoryStore_apply operations s") (auto simp: MemoryStore_Transact_def split: sum.splits)
  moreover have "\<exists>s'. MemoryStore_Transact operations s = (Inr (), s') \<and> contents s' = apply_ops operations (contents s)"
    if "tags_match (memory_view s) operations"
    using mem.Transact_ok [OF assms that] mem.commit_values [OF _ assms] unfolding t by blast
  moreover have "\<exists>e. MemoryStore_Transact operations s = (Inl e, s) \<and> errors_Is e StateErrConflict"
    if "\<not> tags_match (memory_view s) operations"
    using mem.Transact_stale [OF that] unfolding t .
  ultimately show ?thesis by force
qed



end
