(* ===== verification/Resources.thy ===== *)
theory Resources
  imports Json
begin

text \<open>
  File \<^verbatim>\<open>internal/controlplane/model.go\<close>: the resources of the control plane and the authorization
  projections kept next to the virtual keys, each with the JSON encoding given by its struct tags, and
  the round trip of that encoding (an interpretation of \<open>codec\<close> per stored type).
\<close>

section \<open>\<^verbatim>\<open>model.go\<close>\<close>

type_synonym Status = string

abbreviation StatusActive :: Status where
  "StatusActive \<equiv> ''active''"

abbreviation StatusDisabled :: Status where
  "StatusDisabled \<equiv> ''disabled''"

abbreviation ProviderKindAnthropic :: string where
  "ProviderKindAnthropic \<equiv> ''anthropic''"

abbreviation ProviderKindOpenAIChat :: string where
  "ProviderKindOpenAIChat \<equiv> ''openai-chat''"

abbreviation ProviderKindOpenAIResponses :: string where
  "ProviderKindOpenAIResponses \<equiv> ''openai-responses''"

abbreviation ProviderKindGemini :: string where
  "ProviderKindGemini \<equiv> ''gemini''"

record User =
  User_ID :: string
  User_Name :: string
  User_Email :: string
  User_Status :: Status
  User_Revision :: "64 word"
  User_CreatedAt :: time
  User_UpdatedAt :: time

record Provider =
  Provider_ID :: string
  Provider_Slug :: string
  Provider_Name :: string
  Provider_Kind :: string
  Provider_AdapterAppID :: string
  Provider_Status :: Status
  Provider_CreatedAt :: time
  Provider_UpdatedAt :: time

record Model =
  Model_ID :: string
  Model_Alias :: string
  Model_ProviderID :: string
  Model_UpstreamModel :: string
  Model_Status :: Status
  Model_Revision :: "64 word"
  Model_CreatedAt :: time
  Model_UpdatedAt :: time

record ModelSubject =
  MS_ModelID :: string
  MS_Alias :: string
  MS_Status :: Status
  MS_Revision :: "64 word"
  MS_Deleted :: bool
  MS_UpdatedAt :: time

record VirtualKey =
  VK_ID :: string
  VK_Name :: string
  VK_UserID :: string
  VK_Prefix :: string
  VK_KeyHash :: string
  VK_ModelIDs :: "string list"
  VK_Status :: Status
  VK_ExpiresAt :: "time option"
  VK_CreatedAt :: time
  VK_UpdatedAt :: time

record KeySubject =
  KS_UserID :: string
  KS_Status :: Status
  KS_Revision :: "64 word"
  KS_Deleted :: bool
  KS_UpdatedAt :: time

record PublicVirtualKey =
  PVK_ID :: string
  PVK_Name :: string
  PVK_UserID :: string
  PVK_Prefix :: string
  PVK_ModelIDs :: "string list"
  PVK_Status :: Status
  PVK_ExpiresAt :: "time option"
  PVK_CreatedAt :: time
  PVK_UpdatedAt :: time

definition Public :: "VirtualKey \<Rightarrow> PublicVirtualKey" where
  "Public key = \<lparr>
     PVK_ID = VK_ID key, PVK_Name = VK_Name key, PVK_UserID = VK_UserID key,
     PVK_Prefix = VK_Prefix key, PVK_ModelIDs = VK_ModelIDs key, PVK_Status = VK_Status key,
     PVK_ExpiresAt = VK_ExpiresAt key, PVK_CreatedAt = VK_CreatedAt key,
     PVK_UpdatedAt = VK_UpdatedAt key\<rparr>"

record CreatedVirtualKey =
  CVK_VirtualKey :: PublicVirtualKey
  CVK_Key :: string

record Authorization =
  Auth_KeyID :: string
  Auth_UserID :: string

record Route =
  Route_ModelID :: string
  Route_Alias :: string
  Route_ProviderID :: string
  Route_UpstreamModel :: string
  Route_AdapterAppID :: string

section \<open>Encodings\<close>

definition json_of_User :: "User \<Rightarrow> json" where
  "json_of_User u = JObj [
     (''id'', JStr (User_ID u)), (''name'', JStr (User_Name u)), (''email'', JStr (User_Email u)),
     (''status'', JStr (User_Status u)), (''revision'', json_uint64 (User_Revision u)),
     (''created_at'', JTime (User_CreatedAt u)), (''updated_at'', JTime (User_UpdatedAt u))]"

fun decode_User :: "json \<Rightarrow> User result" where
  "decode_User (JObj ms) =
     ebind (json_field ''id'' assign_string ms '''') (\<lambda>i.
     ebind (json_field ''name'' assign_string ms '''') (\<lambda>n.
     ebind (json_field ''email'' assign_string ms '''') (\<lambda>e.
     ebind (json_field ''status'' assign_string ms '''') (\<lambda>s.
     ebind (json_field ''revision'' assign_uint64 ms 0) (\<lambda>r.
     ebind (json_field ''created_at'' assign_time ms zero_time) (\<lambda>c.
     ebind (json_field ''updated_at'' assign_time ms zero_time) (\<lambda>u.
     Inr \<lparr>User_ID = i, User_Name = n, User_Email = e, User_Status = s, User_Revision = r,
          User_CreatedAt = c, User_UpdatedAt = u\<rparr>)))))))"
| "decode_User JNull = Inr \<lparr>User_ID = '''', User_Name = '''', User_Email = '''', User_Status = '''',
     User_Revision = 0, User_CreatedAt = zero_time, User_UpdatedAt = zero_time\<rparr>"
| "decode_User _ = type_error"

definition UserCodec :: "User Codec" where
  "UserCodec = \<lparr>
     marshalable = (\<lambda>u. marshalable_time (User_CreatedAt u) \<and> marshalable_time (User_UpdatedAt u)),
     json_of = json_of_User, decode = decode_User\<rparr>"

definition json_of_Provider :: "Provider \<Rightarrow> json" where
  "json_of_Provider p = JObj [
     (''id'', JStr (Provider_ID p)), (''slug'', JStr (Provider_Slug p)),
     (''name'', JStr (Provider_Name p)), (''kind'', JStr (Provider_Kind p)),
     (''adapter_app_id'', JStr (Provider_AdapterAppID p)), (''status'', JStr (Provider_Status p)),
     (''created_at'', JTime (Provider_CreatedAt p)), (''updated_at'', JTime (Provider_UpdatedAt p))]"

fun decode_Provider :: "json \<Rightarrow> Provider result" where
  "decode_Provider (JObj ms) =
     ebind (json_field ''id'' assign_string ms '''') (\<lambda>i.
     ebind (json_field ''slug'' assign_string ms '''') (\<lambda>sl.
     ebind (json_field ''name'' assign_string ms '''') (\<lambda>n.
     ebind (json_field ''kind'' assign_string ms '''') (\<lambda>k.
     ebind (json_field ''adapter_app_id'' assign_string ms '''') (\<lambda>a.
     ebind (json_field ''status'' assign_string ms '''') (\<lambda>s.
     ebind (json_field ''created_at'' assign_time ms zero_time) (\<lambda>c.
     ebind (json_field ''updated_at'' assign_time ms zero_time) (\<lambda>u.
     Inr \<lparr>Provider_ID = i, Provider_Slug = sl, Provider_Name = n, Provider_Kind = k,
          Provider_AdapterAppID = a, Provider_Status = s, Provider_CreatedAt = c,
          Provider_UpdatedAt = u\<rparr>))))))))"
| "decode_Provider JNull = Inr \<lparr>Provider_ID = '''', Provider_Slug = '''', Provider_Name = '''',
     Provider_Kind = '''', Provider_AdapterAppID = '''', Provider_Status = '''',
     Provider_CreatedAt = zero_time, Provider_UpdatedAt = zero_time\<rparr>"
| "decode_Provider _ = type_error"

definition ProviderCodec :: "Provider Codec" where
  "ProviderCodec = \<lparr>
     marshalable = (\<lambda>p. marshalable_time (Provider_CreatedAt p) \<and> marshalable_time (Provider_UpdatedAt p)),
     json_of = json_of_Provider, decode = decode_Provider\<rparr>"

definition json_of_Model :: "Model \<Rightarrow> json" where
  "json_of_Model m = JObj [
     (''id'', JStr (Model_ID m)), (''alias'', JStr (Model_Alias m)),
     (''provider_id'', JStr (Model_ProviderID m)), (''upstream_model'', JStr (Model_UpstreamModel m)),
     (''status'', JStr (Model_Status m)), (''revision'', json_uint64 (Model_Revision m)),
     (''created_at'', JTime (Model_CreatedAt m)), (''updated_at'', JTime (Model_UpdatedAt m))]"

fun decode_Model :: "json \<Rightarrow> Model result" where
  "decode_Model (JObj ms) =
     ebind (json_field ''id'' assign_string ms '''') (\<lambda>i.
     ebind (json_field ''alias'' assign_string ms '''') (\<lambda>a.
     ebind (json_field ''provider_id'' assign_string ms '''') (\<lambda>p.
     ebind (json_field ''upstream_model'' assign_string ms '''') (\<lambda>up.
     ebind (json_field ''status'' assign_string ms '''') (\<lambda>s.
     ebind (json_field ''revision'' assign_uint64 ms 0) (\<lambda>r.
     ebind (json_field ''created_at'' assign_time ms zero_time) (\<lambda>c.
     ebind (json_field ''updated_at'' assign_time ms zero_time) (\<lambda>u.
     Inr \<lparr>Model_ID = i, Model_Alias = a, Model_ProviderID = p, Model_UpstreamModel = up,
          Model_Status = s, Model_Revision = r, Model_CreatedAt = c, Model_UpdatedAt = u\<rparr>))))))))"
| "decode_Model JNull = Inr \<lparr>Model_ID = '''', Model_Alias = '''', Model_ProviderID = '''',
     Model_UpstreamModel = '''', Model_Status = '''', Model_Revision = 0,
     Model_CreatedAt = zero_time, Model_UpdatedAt = zero_time\<rparr>"
| "decode_Model _ = type_error"

definition ModelCodec :: "Model Codec" where
  "ModelCodec = \<lparr>
     marshalable = (\<lambda>m. marshalable_time (Model_CreatedAt m) \<and> marshalable_time (Model_UpdatedAt m)),
     json_of = json_of_Model, decode = decode_Model\<rparr>"

definition json_of_ModelSubject :: "ModelSubject \<Rightarrow> json" where
  "json_of_ModelSubject m = JObj [
     (''model_id'', JStr (MS_ModelID m)), (''alias'', JStr (MS_Alias m)),
     (''status'', JStr (MS_Status m)), (''revision'', json_uint64 (MS_Revision m)),
     (''deleted'', JBool (MS_Deleted m)), (''updated_at'', JTime (MS_UpdatedAt m))]"

fun decode_ModelSubject :: "json \<Rightarrow> ModelSubject result" where
  "decode_ModelSubject (JObj ms) =
     ebind (json_field ''model_id'' assign_string ms '''') (\<lambda>i.
     ebind (json_field ''alias'' assign_string ms '''') (\<lambda>a.
     ebind (json_field ''status'' assign_string ms '''') (\<lambda>s.
     ebind (json_field ''revision'' assign_uint64 ms 0) (\<lambda>r.
     ebind (json_field ''deleted'' assign_bool ms False) (\<lambda>d.
     ebind (json_field ''updated_at'' assign_time ms zero_time) (\<lambda>u.
     Inr \<lparr>MS_ModelID = i, MS_Alias = a, MS_Status = s, MS_Revision = r, MS_Deleted = d,
          MS_UpdatedAt = u\<rparr>))))))"
| "decode_ModelSubject JNull = Inr \<lparr>MS_ModelID = '''', MS_Alias = '''', MS_Status = '''',
     MS_Revision = 0, MS_Deleted = False, MS_UpdatedAt = zero_time\<rparr>"
| "decode_ModelSubject _ = type_error"

definition ModelSubjectCodec :: "ModelSubject Codec" where
  "ModelSubjectCodec = \<lparr>marshalable = (\<lambda>m. marshalable_time (MS_UpdatedAt m)),
     json_of = json_of_ModelSubject, decode = decode_ModelSubject\<rparr>"

definition json_of_KeySubject :: "KeySubject \<Rightarrow> json" where
  "json_of_KeySubject k = JObj [
     (''user_id'', JStr (KS_UserID k)), (''status'', JStr (KS_Status k)),
     (''revision'', json_uint64 (KS_Revision k)), (''deleted'', JBool (KS_Deleted k)),
     (''updated_at'', JTime (KS_UpdatedAt k))]"

fun decode_KeySubject :: "json \<Rightarrow> KeySubject result" where
  "decode_KeySubject (JObj ms) =
     ebind (json_field ''user_id'' assign_string ms '''') (\<lambda>i.
     ebind (json_field ''status'' assign_string ms '''') (\<lambda>s.
     ebind (json_field ''revision'' assign_uint64 ms 0) (\<lambda>r.
     ebind (json_field ''deleted'' assign_bool ms False) (\<lambda>d.
     ebind (json_field ''updated_at'' assign_time ms zero_time) (\<lambda>u.
     Inr \<lparr>KS_UserID = i, KS_Status = s, KS_Revision = r, KS_Deleted = d, KS_UpdatedAt = u\<rparr>)))))"
| "decode_KeySubject JNull = Inr \<lparr>KS_UserID = '''', KS_Status = '''', KS_Revision = 0,
     KS_Deleted = False, KS_UpdatedAt = zero_time\<rparr>"
| "decode_KeySubject _ = type_error"

definition KeySubjectCodec :: "KeySubject Codec" where
  "KeySubjectCodec = \<lparr>marshalable = (\<lambda>k. marshalable_time (KS_UpdatedAt k)),
     json_of = json_of_KeySubject, decode = decode_KeySubject\<rparr>"

definition json_of_VirtualKey :: "VirtualKey \<Rightarrow> json" where
  "json_of_VirtualKey k = JObj ([
     (''id'', JStr (VK_ID k)), (''name'', JStr (VK_Name k)), (''user_id'', JStr (VK_UserID k)),
     (''prefix'', JStr (VK_Prefix k)), (''key_hash'', JStr (VK_KeyHash k)),
     (''model_ids'', json_strings (VK_ModelIDs k)), (''status'', JStr (VK_Status k))]
     @ json_omitempty ''expires_at'' JTime (VK_ExpiresAt k)
     @ [(''created_at'', JTime (VK_CreatedAt k)), (''updated_at'', JTime (VK_UpdatedAt k))])"

fun decode_VirtualKey :: "json \<Rightarrow> VirtualKey result" where
  "decode_VirtualKey (JObj ms) =
     ebind (json_field ''id'' assign_string ms '''') (\<lambda>i.
     ebind (json_field ''name'' assign_string ms '''') (\<lambda>n.
     ebind (json_field ''user_id'' assign_string ms '''') (\<lambda>uid.
     ebind (json_field ''prefix'' assign_string ms '''') (\<lambda>p.
     ebind (json_field ''key_hash'' assign_string ms '''') (\<lambda>h.
     ebind (json_field ''model_ids'' assign_strings ms []) (\<lambda>mi.
     ebind (json_field ''status'' assign_string ms '''') (\<lambda>s.
     ebind (json_field ''expires_at'' assign_time_ptr ms None) (\<lambda>e.
     ebind (json_field ''created_at'' assign_time ms zero_time) (\<lambda>c.
     ebind (json_field ''updated_at'' assign_time ms zero_time) (\<lambda>u.
     Inr \<lparr>VK_ID = i, VK_Name = n, VK_UserID = uid, VK_Prefix = p, VK_KeyHash = h, VK_ModelIDs = mi,
          VK_Status = s, VK_ExpiresAt = e, VK_CreatedAt = c, VK_UpdatedAt = u\<rparr>))))))))))"
| "decode_VirtualKey JNull = Inr \<lparr>VK_ID = '''', VK_Name = '''', VK_UserID = '''', VK_Prefix = '''',
     VK_KeyHash = '''', VK_ModelIDs = [], VK_Status = '''', VK_ExpiresAt = None,
     VK_CreatedAt = zero_time, VK_UpdatedAt = zero_time\<rparr>"
| "decode_VirtualKey _ = type_error"

definition VirtualKeyCodec :: "VirtualKey Codec" where
  "VirtualKeyCodec = \<lparr>
     marshalable = (\<lambda>k. (case VK_ExpiresAt k of None \<Rightarrow> True | Some t \<Rightarrow> marshalable_time t) \<and>
       marshalable_time (VK_CreatedAt k) \<and> marshalable_time (VK_UpdatedAt k)),
     json_of = json_of_VirtualKey, decode = decode_VirtualKey\<rparr>"

definition json_of_PublicVirtualKey :: "PublicVirtualKey \<Rightarrow> json" where
  "json_of_PublicVirtualKey k = JObj ([
     (''id'', JStr (PVK_ID k)), (''name'', JStr (PVK_Name k)), (''user_id'', JStr (PVK_UserID k)),
     (''prefix'', JStr (PVK_Prefix k)), (''model_ids'', json_strings (PVK_ModelIDs k)),
     (''status'', JStr (PVK_Status k))]
     @ json_omitempty ''expires_at'' JTime (PVK_ExpiresAt k)
     @ [(''created_at'', JTime (PVK_CreatedAt k)), (''updated_at'', JTime (PVK_UpdatedAt k))])"

section \<open>The encodings round-trip\<close>

text \<open>
  The stored types satisfy the round-trip contract: a record written by one service instance is read
  back unchanged by every other one.
\<close>

interpretation user_codec: codec UserCodec
  by unfold_locales (simp add: UserCodec_def json_of_User_def codec_simps)

interpretation provider_codec: codec ProviderCodec
  by unfold_locales (simp add: ProviderCodec_def json_of_Provider_def codec_simps)

interpretation model_codec: codec ModelCodec
  by unfold_locales (simp add: ModelCodec_def json_of_Model_def codec_simps)

interpretation model_subject_codec: codec ModelSubjectCodec
  by unfold_locales (simp add: ModelSubjectCodec_def json_of_ModelSubject_def codec_simps)

interpretation key_subject_codec: codec KeySubjectCodec
  by unfold_locales (simp add: KeySubjectCodec_def json_of_KeySubject_def codec_simps)

lemma decode_json_of_VirtualKey: "decode_VirtualKey (json_of_VirtualKey k) = Inr k"
  by (cases "VK_ExpiresAt k") (simp_all add: json_of_VirtualKey_def codec_simps)

interpretation virtual_key_codec: codec VirtualKeyCodec
  by unfold_locales (simp add: VirtualKeyCodec_def decode_json_of_VirtualKey)


section \<open>Properties\<close>

text \<open>
  Every stored resource type survives its JSON encoding: decoding what was encoded gives the same
  user, provider, model, model subject, key subject or virtual key, with every field, including an
  absent expiry and the full range of a 64-bit revision.
\<close>

lemma stored_types_roundtrip:
  "Unmarshal UserCodec (Some (json_of UserCodec user)) = Inr user
   \<and> Unmarshal ProviderCodec (Some (json_of ProviderCodec provider)) = Inr provider
   \<and> Unmarshal ModelCodec (Some (json_of ModelCodec model)) = Inr model
   \<and> Unmarshal ModelSubjectCodec (Some (json_of ModelSubjectCodec msubject)) = Inr msubject
   \<and> Unmarshal KeySubjectCodec (Some (json_of KeySubjectCodec ksubject)) = Inr ksubject
   \<and> Unmarshal VirtualKeyCodec (Some (json_of VirtualKeyCodec key)) = Inr key"
  by (intro conjI user_codec.unmarshal_json_of provider_codec.unmarshal_json_of model_codec.unmarshal_json_of
      model_subject_codec.unmarshal_json_of key_subject_codec.unmarshal_json_of virtual_key_codec.unmarshal_json_of)

end
