(* ===== verification/Repository.thy ===== *)
theory Repository
  imports State_Store Resources
begin

text \<open>
  File \<^verbatim>\<open>internal/controlplane/repository.go\<close>, the persistence mechanics shared by the
  repositories and the two that need nothing else: \<^verbatim>\<open>UserRepository\<close> and
  \<^verbatim>\<open>ProviderRepository\<close>.

  A mutating routine reads through \<^verbatim>\<open>store.Get\<close>, builds a list of operations and hands it to
  \<^verbatim>\<open>store.Transact\<close>. The reading half is a definition of its own (suffix \<open>_plan\<close>): its result is the
  operation list, or the error it returns before writing. The repository mutex makes both halves one
  atomic step within a process, which is how \<open>commit\<close> composes them.

  The SHA-256 hex digest is an argument \<open>H\<close> of the definitions that use it; nothing below assumes it
  to be free of collisions.
\<close>

section \<open>Keys\<close>

definition entityKey :: "string \<Rightarrow> string \<Rightarrow> string" where
  "entityKey collection rid = collection @ ''/'' @ rid"

definition indexKey :: "string \<Rightarrow> string" where
  "indexKey collection = ''indexes/'' @ collection"

definition lookupKey :: "(string \<Rightarrow> string) \<Rightarrow> string \<Rightarrow> string \<Rightarrow> string" where
  "lookupKey H kind value = ''lookups/'' @ kind @ ''/'' @ H value"

definition virtualKeysByUserIndexKey :: "string \<Rightarrow> string" where
  "virtualKeysByUserIndexKey userID = indexKey (''virtual-keys-by-user/'' @ userID)"

definition virtualKeysByModelIndexKey :: "string \<Rightarrow> string" where
  "virtualKeysByModelIndexKey modelID = indexKey (''virtual-keys-by-model/'' @ modelID)"

definition keySubjectKey :: "string \<Rightarrow> string" where
  "keySubjectKey userID = entityKey ''key-subjects'' userID"

definition modelSubjectKey :: "string \<Rightarrow> string" where
  "modelSubjectKey modelID = entityKey ''model-subjects'' modelID"

section \<open>Indexes\<close>

record resourceIndex =
  IDs :: "string list"

fun decode_index :: "json \<Rightarrow> resourceIndex result" where
  "decode_index (JObj ms) = ebind (json_field ''ids'' assign_strings ms []) (\<lambda>ids. Inr \<lparr>IDs = ids\<rparr>)"
| "decode_index JNull = Inr \<lparr>IDs = []\<rparr>"
| "decode_index _ = type_error"

definition IndexCodec :: "resourceIndex Codec" where
  "IndexCodec = \<lparr>marshalable = (\<lambda>_. True), json_of = (\<lambda>index. JObj [(''ids'', json_strings (IDs index))]),
     decode = decode_index\<rparr>"

definition addIndexID :: "resourceIndex \<Rightarrow> string \<Rightarrow> resourceIndex" where
  "addIndexID index rid = (if rid \<in> set (IDs index) then index else \<lparr>IDs = IDs index @ [rid]\<rparr>)"

definition removeIndexID :: "resourceIndex \<Rightarrow> string \<Rightarrow> resourceIndex" where
  "removeIndexID index rid = \<lparr>IDs = filter (\<lambda>candidate. candidate \<noteq> rid) (IDs index)\<rparr>"

definition readIndex :: "'s Store \<Rightarrow> string \<Rightarrow> 's \<Rightarrow> (resourceIndex \<times> string) result" where
  "readIndex st key s =
     ebind (Get st key s) (\<lambda>entry.
     if \<not> Entry_Exists entry then Inr (\<lparr>IDs = []\<rparr>, '''')
     else ebind (Unmarshal IndexCodec (Entry_Value entry)) (\<lambda>index. Inr (index, Entry_ETag entry)))"

section \<open>Reading resources\<close>

definition getResource :: "'a Codec \<Rightarrow> 's Store \<Rightarrow> string \<Rightarrow> string \<Rightarrow> 's \<Rightarrow> 'a result" where
  "getResource C st collection rid s =
     ebind (wrapf ''get %s %q: %w'' [collection, rid] (Get st (entityKey collection rid) s)) (\<lambda>entry.
     ebind (fail_if (\<not> Entry_Exists entry) ErrNotFound) (\<lambda>_.
     wrapf ''decode %s %q: %w'' [collection, rid] (Unmarshal C (Entry_Value entry))))"

fun getResources :: "'a Codec \<Rightarrow> 's Store \<Rightarrow> string \<Rightarrow> string list \<Rightarrow> 's \<Rightarrow> 'a list result" where
  "getResources C st collection [] s = Inr []"
| "getResources C st collection (rid # ids) s =
     (case getResource C st collection rid s of
        Inl e \<Rightarrow> if errors_Is e ErrNotFound then getResources C st collection ids s else Inl e
      | Inr value \<Rightarrow> ebind (getResources C st collection ids s) (\<lambda>values. Inr (value # values)))"

definition listResourcesAtIndex ::
  "'a Codec \<Rightarrow> 's Store \<Rightarrow> string \<Rightarrow> string \<Rightarrow> 's \<Rightarrow> 'a list result" where
  "listResourcesAtIndex C st collection key s =
     ebind (wrapf ''get %s index: %w'' [collection] (readIndex st key s)) (\<lambda>(index, _).
     getResources C st collection (IDs index) s)"

definition listResources :: "'a Codec \<Rightarrow> 's Store \<Rightarrow> string \<Rightarrow> 's \<Rightarrow> 'a list result" where
  "listResources C st collection s = listResourcesAtIndex C st collection (indexKey collection) s"

definition lookup :: "(string \<Rightarrow> string) \<Rightarrow> 's Store \<Rightarrow> string \<Rightarrow> string \<Rightarrow> 's \<Rightarrow> string result" where
  "lookup H st kind value s =
     ebind (Get st (lookupKey H kind value) s) (\<lambda>entry.
     ebind (fail_if (\<not> Entry_Exists entry) ErrNotFound) (\<lambda>_.
     wrapf ''decode %s lookup: %w'' [kind] (Unmarshal StringCodec (Entry_Value entry))))"

section \<open>Writing resources\<close>

definition transact :: "'s Store \<Rightarrow> Operation list \<Rightarrow> 's \<Rightarrow> unit result \<times> 's" where
  "transact st operations s =
     (case Transact st operations s of
        (Inl e, s') \<Rightarrow> (if errors_Is e StateErrConflict then Inl ErrConflict else Inl e, s')
      | (Inr u, s') \<Rightarrow> (Inr (), s'))"

definition commit :: "'s Store \<Rightarrow> Operation list result \<Rightarrow> 's \<Rightarrow> unit result \<times> 's" where
  "commit st plan s = (case plan of Inl e \<Rightarrow> (Inl e, s) | Inr operations \<Rightarrow> transact st operations s)"

text \<open>\<^verbatim>\<open>lookups map[string]string\<close> is an association list; its keys are distinct.\<close>

definition createResource_plan ::
  "'a Codec \<Rightarrow> 's Store \<Rightarrow> string \<Rightarrow> string \<Rightarrow> 'a \<Rightarrow> (string \<times> string) list \<Rightarrow> 's \<Rightarrow> Operation list result" where
  "createResource_plan C st collection rid value lookups s =
     ebind (Get st (entityKey collection rid) s) (\<lambda>entry.
     ebind (fail_if (Entry_Exists entry) ErrConflict) (\<lambda>_.
     ebind (emap (\<lambda>(key, _). ebind (Get st key s) (\<lambda>existing.
         fail_if (Entry_Exists existing) ErrConflict)) lookups) (\<lambda>_.
     ebind (readIndex st (indexKey collection) s) (\<lambda>(index, indexETag).
     ebind (encode C value) (\<lambda>entityValue.
     ebind (encode IndexCodec (addIndexID index rid)) (\<lambda>indexValue.
     ebind (emap (\<lambda>(key, targetID). ebind (encode StringCodec targetID) (\<lambda>lookupValue.
         Inr (upsert key lookupValue ''''))) lookups) (\<lambda>lookupOperations.
     Inr ([upsert (entityKey collection rid) entityValue '''',
           upsert (indexKey collection) indexValue indexETag] @ lookupOperations))))))))"

definition createResource ::
  "'a Codec \<Rightarrow> 's Store \<Rightarrow> string \<Rightarrow> string \<Rightarrow> 'a \<Rightarrow> (string \<times> string) list \<Rightarrow> 's \<Rightarrow> unit result \<times> 's" where
  "createResource C st collection rid value lookups s =
     commit st (createResource_plan C st collection rid value lookups s) s"

definition replaceResource_plan ::
  "'a Codec \<Rightarrow> 's Store \<Rightarrow> string \<Rightarrow> string \<Rightarrow> 'a \<Rightarrow> 'a \<Rightarrow> (string \<times> string) list \<Rightarrow>
     (string \<times> string) list \<Rightarrow> 's \<Rightarrow> Operation list result" where
  "replaceResource_plan C st collection rid expected value oldLookups newLookups s =
     ebind (Get st (entityKey collection rid) s) (\<lambda>entry.
     ebind (fail_if (\<not> Entry_Exists entry) ErrNotFound) (\<lambda>_.
     ebind (wrapf ''decode %s %q: %w'' [collection, rid] (Unmarshal C (Entry_Value entry))) (\<lambda>current.
     ebind (fail_if (current \<noteq> expected) ErrConflict) (\<lambda>_.
     ebind (emap (\<lambda>(key, _). ebind (Get st key s) (\<lambda>existing.
         fail_if (Entry_Exists existing \<and> Unmarshal StringCodec (Entry_Value existing) \<noteq> Inr rid)
           ErrConflict)) newLookups) (\<lambda>_.
     ebind (encode C value) (\<lambda>entityValue.
     ebind (emap (\<lambda>(key, targetID). ebind (encode StringCodec targetID) (\<lambda>lookupValue.
         Inr (upsert key lookupValue ''''))) newLookups) (\<lambda>lookupOperations.
     Inr ([upsert (entityKey collection rid) entityValue (Entry_ETag entry)]
          @ map (\<lambda>(key, _). delete_op key '''')
              (filter (\<lambda>(key, _). key \<notin> fst ` set newLookups) oldLookups)
          @ lookupOperations))))))))"

definition replaceResource ::
  "'a Codec \<Rightarrow> 's Store \<Rightarrow> string \<Rightarrow> string \<Rightarrow> 'a \<Rightarrow> 'a \<Rightarrow> (string \<times> string) list \<Rightarrow>
     (string \<times> string) list \<Rightarrow> 's \<Rightarrow> unit result \<times> 's" where
  "replaceResource C st collection rid expected value oldLookups newLookups s =
     commit st (replaceResource_plan C st collection rid expected value oldLookups newLookups s) s"

definition deleteResource_plan ::
  "'a Codec \<Rightarrow> 's Store \<Rightarrow> string \<Rightarrow> string \<Rightarrow> 'a \<Rightarrow> (string \<times> string) list \<Rightarrow> 's \<Rightarrow> Operation list result" where
  "deleteResource_plan C st collection rid expected lookups s =
     ebind (Get st (entityKey collection rid) s) (\<lambda>entry.
     ebind (fail_if (\<not> Entry_Exists entry) ErrNotFound) (\<lambda>_.
     ebind (wrapf ''decode %s %q: %w'' [collection, rid] (Unmarshal C (Entry_Value entry))) (\<lambda>current.
     ebind (fail_if (current \<noteq> expected) ErrConflict) (\<lambda>_.
     ebind (readIndex st (indexKey collection) s) (\<lambda>(index, indexETag).
     ebind (encode IndexCodec (removeIndexID index rid)) (\<lambda>indexValue.
     Inr ([delete_op (entityKey collection rid) (Entry_ETag entry),
           upsert (indexKey collection) indexValue indexETag]
          @ map (\<lambda>(key, _). delete_op key '''') lookups)))))))"

definition deleteResource ::
  "'a Codec \<Rightarrow> 's Store \<Rightarrow> string \<Rightarrow> string \<Rightarrow> 'a \<Rightarrow> (string \<times> string) list \<Rightarrow> 's \<Rightarrow> unit result \<times> 's" where
  "deleteResource C st collection rid expected lookups s =
     commit st (deleteResource_plan C st collection rid expected lookups s) s"

section \<open>\<^verbatim>\<open>UserRepository\<close>\<close>

definition userLookups :: "(string \<Rightarrow> string) \<Rightarrow> User \<Rightarrow> (string \<times> string) list" where
  "userLookups H user = [(lookupKey H ''user-email'' (User_Email user), User_ID user)]"

definition repo_CreateUser :: "(string \<Rightarrow> string) \<Rightarrow> 's Store \<Rightarrow> User \<Rightarrow> 's \<Rightarrow> unit result \<times> 's" where
  "repo_CreateUser H st user s =
     createResource UserCodec st ''users'' (User_ID user) user (userLookups H user) s"

definition repo_GetUser :: "'s Store \<Rightarrow> string \<Rightarrow> 's \<Rightarrow> User result" where
  "repo_GetUser st rid s = getResource UserCodec st ''users'' rid s"

definition repo_GetUserByEmail :: "(string \<Rightarrow> string) \<Rightarrow> 's Store \<Rightarrow> string \<Rightarrow> 's \<Rightarrow> User result" where
  "repo_GetUserByEmail H st email s =
     ebind (lookup H st ''user-email'' email s) (\<lambda>rid. repo_GetUser st rid s)"

definition repo_ListUsers :: "'s Store \<Rightarrow> 's \<Rightarrow> User list result" where
  "repo_ListUsers st s = listResources UserCodec st ''users'' s"

definition repo_ReplaceUser ::
  "(string \<Rightarrow> string) \<Rightarrow> 's Store \<Rightarrow> User \<Rightarrow> User \<Rightarrow> 's \<Rightarrow> unit result \<times> 's" where
  "repo_ReplaceUser H st oldUser user s =
     replaceResource UserCodec st ''users'' (User_ID user) oldUser user
       (userLookups H oldUser) (userLookups H user) s"

definition repo_DeleteUser :: "(string \<Rightarrow> string) \<Rightarrow> 's Store \<Rightarrow> User \<Rightarrow> 's \<Rightarrow> unit result \<times> 's" where
  "repo_DeleteUser H st user s =
     deleteResource UserCodec st ''users'' (User_ID user) user (userLookups H user) s"

section \<open>\<^verbatim>\<open>ProviderRepository\<close>\<close>

definition providerLookups :: "(string \<Rightarrow> string) \<Rightarrow> Provider \<Rightarrow> (string \<times> string) list" where
  "providerLookups H provider =
     [(lookupKey H ''provider-slug'' (Provider_Slug provider), Provider_ID provider),
      (lookupKey H ''provider-adapter-app-id'' (Provider_AdapterAppID provider), Provider_ID provider)]"

definition repo_CreateProvider ::
  "(string \<Rightarrow> string) \<Rightarrow> 's Store \<Rightarrow> Provider \<Rightarrow> 's \<Rightarrow> unit result \<times> 's" where
  "repo_CreateProvider H st provider s =
     createResource ProviderCodec st ''providers'' (Provider_ID provider) provider
       (providerLookups H provider) s"

definition repo_GetProvider :: "'s Store \<Rightarrow> string \<Rightarrow> 's \<Rightarrow> Provider result" where
  "repo_GetProvider st rid s = getResource ProviderCodec st ''providers'' rid s"

definition repo_GetProviderBySlug ::
  "(string \<Rightarrow> string) \<Rightarrow> 's Store \<Rightarrow> string \<Rightarrow> 's \<Rightarrow> Provider result" where
  "repo_GetProviderBySlug H st slug s =
     ebind (lookup H st ''provider-slug'' slug s) (\<lambda>rid. repo_GetProvider st rid s)"

definition repo_GetProviderByAdapterAppID ::
  "(string \<Rightarrow> string) \<Rightarrow> 's Store \<Rightarrow> string \<Rightarrow> 's \<Rightarrow> Provider result" where
  "repo_GetProviderByAdapterAppID H st appID s =
     ebind (lookup H st ''provider-adapter-app-id'' appID s) (\<lambda>rid. repo_GetProvider st rid s)"

definition repo_ListProviders :: "'s Store \<Rightarrow> 's \<Rightarrow> Provider list result" where
  "repo_ListProviders st s = listResources ProviderCodec st ''providers'' s"

definition repo_ReplaceProvider ::
  "(string \<Rightarrow> string) \<Rightarrow> 's Store \<Rightarrow> Provider \<Rightarrow> Provider \<Rightarrow> 's \<Rightarrow> unit result \<times> 's" where
  "repo_ReplaceProvider H st oldProvider provider s =
     replaceResource ProviderCodec st ''providers'' (Provider_ID provider) oldProvider provider
       (providerLookups H oldProvider) (providerLookups H provider) s"

definition repo_DeleteProvider ::
  "(string \<Rightarrow> string) \<Rightarrow> 's Store \<Rightarrow> Provider \<Rightarrow> 's \<Rightarrow> unit result \<times> 's" where
  "repo_DeleteProvider H st provider s =
     deleteResource ProviderCodec st ''providers'' (Provider_ID provider) provider
       (providerLookups H provider) s"

end
