(* ===== verification/Resource_Spec.thy ===== *)
theory Resource_Spec
  imports Repository
begin

text \<open>
  What a stored collection means. A collection of the state store represents a finite map from IDs to
  resources: every entity is the encoding of its resource, the collection's index lists exactly the
  IDs in use, and the unique lookups (e-mail, slug, app ID) point at exactly one resource each.

  The locale \<open>resources\<close> names what makes a collection well formed (a round-tripping encoding and
  disjoint key families); \<open>resource_store\<close> puts it on any store that keeps the \<open>state_store\<close>
  contract. In it the generic routines of \<^verbatim>\<open>repository.go\<close> are shown to implement insert,
  compare-and-replace and compare-and-delete on the represented map.
\<close>

section \<open>Representation\<close>

definition stores :: "'a Codec \<Rightarrow> string \<Rightarrow> (string \<rightharpoonup> 'a) \<Rightarrow> vals \<Rightarrow> bool" where
  "stores C collection R m \<longleftrightarrow>
     (\<forall>rid. m (entityKey collection rid) = map_option (\<lambda>x. Some (json_of C x)) (R rid))"

definition indexes :: "vals \<Rightarrow> string \<Rightarrow> string set \<Rightarrow> bool" where
  "indexes m key A \<longleftrightarrow>
     (\<exists>ids. distinct ids \<and> set ids = A \<and>
       (m key = Some (Some (json_of IndexCodec \<lparr>IDs = ids\<rparr>)) \<or> m key = None \<and> ids = []))"

text \<open>The lookup entries present in a family of keys are those of the stored resources.\<close>

definition looks_up ::
  "string set \<Rightarrow> ('a \<Rightarrow> (string \<times> string) list) \<Rightarrow> (string \<rightharpoonup> 'a) \<Rightarrow> vals \<Rightarrow> bool" where
  "looks_up family lookups R m \<longleftrightarrow>
     (\<forall>key \<in> family. \<forall>raw. m key = Some raw \<longleftrightarrow>
       (\<exists>rid x. R rid = Some x \<and> (key, rid) \<in> set (lookups x) \<and> raw = Some (JStr rid)))"

definition collection_holds ::
  "'a Codec \<Rightarrow> string \<Rightarrow> ('a \<Rightarrow> string) \<Rightarrow> ('a \<Rightarrow> (string \<times> string) list) \<Rightarrow> string set \<Rightarrow>
     (string \<rightharpoonup> 'a) \<Rightarrow> vals \<Rightarrow> bool" where
  "collection_holds C collection id_of lookups family R m \<longleftrightarrow>
     stores C collection R m \<and> indexes m (indexKey collection) (dom R) \<and>
     looks_up family lookups R m \<and> (\<forall>rid x. R rid = Some x \<longrightarrow> id_of x = rid)"

definition key_space :: "string \<Rightarrow> string set \<Rightarrow> string set" where
  "key_space collection family = range (entityKey collection) \<union> {indexKey collection} \<union> family"

definition keys_of :: "('a \<Rightarrow> (string \<times> string) list) \<Rightarrow> 'a \<Rightarrow> string set" where
  "keys_of lookups x = fst ` set (lookups x)"

text \<open>
  A unique lookup of a new resource is taken when a stored one has the same key; the specifications
  of the three mutating routines on the represented map.
\<close>

definition taken :: "('a \<Rightarrow> (string \<times> string) list) \<Rightarrow> (string \<rightharpoonup> 'a) \<Rightarrow> 'a \<Rightarrow> bool" where
  "taken lookups R x \<longleftrightarrow> (\<exists>rid y. R rid = Some y \<and> keys_of lookups x \<inter> keys_of lookups y \<noteq> {})"

definition taken_by_other :: "('a \<Rightarrow> (string \<times> string) list) \<Rightarrow> string \<Rightarrow> (string \<rightharpoonup> 'a) \<Rightarrow> 'a \<Rightarrow> bool" where
  "taken_by_other lookups rid R y \<longleftrightarrow>
     (\<exists>r z. r \<noteq> rid \<and> R r = Some z \<and> keys_of lookups y \<inter> keys_of lookups z \<noteq> {})"

definition create_spec ::
  "'a Codec \<Rightarrow> ('a \<Rightarrow> string) \<Rightarrow> ('a \<Rightarrow> (string \<times> string) list) \<Rightarrow> 'a \<Rightarrow> (string \<rightharpoonup> 'a) \<Rightarrow>
     unit result \<times> (string \<rightharpoonup> 'a)" where
  "create_spec C id_of lookups x R =
     (if id_of x \<in> dom R \<or> taken lookups R x then (Inl ErrConflict, R)
      else case encode C x of Inl e \<Rightarrow> (Inl e, R) | Inr _ \<Rightarrow> (Inr (), R(id_of x \<mapsto> x)))"

definition replace_spec ::
  "'a Codec \<Rightarrow> ('a \<Rightarrow> string) \<Rightarrow> ('a \<Rightarrow> (string \<times> string) list) \<Rightarrow> 'a \<Rightarrow> 'a \<Rightarrow> (string \<rightharpoonup> 'a) \<Rightarrow>
     unit result \<times> (string \<rightharpoonup> 'a)" where
  "replace_spec C id_of lookups expected y R =
     (case R (id_of y) of None \<Rightarrow> (Inl ErrNotFound, R)
      | Some x \<Rightarrow> if x \<noteq> expected \<or> taken_by_other lookups (id_of y) R y then (Inl ErrConflict, R)
          else case encode C y of Inl e \<Rightarrow> (Inl e, R) | Inr _ \<Rightarrow> (Inr (), R(id_of y \<mapsto> y)))"

definition delete_spec ::
  "('a \<Rightarrow> string) \<Rightarrow> 'a \<Rightarrow> (string \<rightharpoonup> 'a) \<Rightarrow> unit result \<times> (string \<rightharpoonup> 'a)" where
  "delete_spec id_of expected R =
     (case R (id_of expected) of None \<Rightarrow> (Inl ErrNotFound, R)
      | Some x \<Rightarrow> if x \<noteq> expected then (Inl ErrConflict, R) else (Inr (), R(id_of expected := None)))"

lemma create_spec_result:
  "create_spec C id_of lookups x R = (r, R') \<Longrightarrow> R' = (if r = Inr () then R(id_of x \<mapsto> x) else R)"
  by (auto simp: create_spec_def split: if_splits sum.splits)

lemma replace_spec_result:
  "replace_spec C id_of lookups x y R = (r, R') \<Longrightarrow> R' = (if r = Inr () then R(id_of y \<mapsto> y) else R)"
  by (auto simp: replace_spec_def split: if_splits sum.splits option.splits)

lemma delete_spec_result:
  "delete_spec id_of x R = (r, R') \<Longrightarrow> R' = (if r = Inr () then R(id_of x := None) else R)"
  by (auto simp: delete_spec_def split: if_splits option.splits)

section \<open>Lemmas on indexes\<close>

interpretation index_codec: codec IndexCodec
  by unfold_locales (simp add: IndexCodec_def codec_simps)

lemma IndexCodec_marshalable [simp]: "marshalable IndexCodec x"
  by (simp add: IndexCodec_def)

lemma indexes_cong: "m key = m' key \<Longrightarrow> indexes m key A = indexes m' key A"
  by (simp add: indexes_def)

lemma indexes_put:
  "m key = Some (Some (json_of IndexCodec index)) \<Longrightarrow> distinct (IDs index) \<Longrightarrow> indexes m key (set (IDs index))"
  unfolding indexes_def by (rule exI [of _ "IDs index"], cases index) simp

lemma indexes_unique: "indexes m key A \<Longrightarrow> indexes m key B \<Longrightarrow> A = B"
  by (auto simp: indexes_def index_codec.json_of_inj)

lemma indexes_None: "m key = None \<Longrightarrow> indexes m key A \<longleftrightarrow> A = {}"
  by (auto simp: indexes_def)

lemma set_addIndexID [simp]: "set (IDs (addIndexID index x)) = insert x (set (IDs index))"
  by (auto simp: addIndexID_def)

lemma distinct_addIndexID [simp]: "distinct (IDs (addIndexID index x)) = distinct (IDs index)"
  by (auto simp: addIndexID_def)

lemma set_removeIndexID [simp]: "set (IDs (removeIndexID index x)) = set (IDs index) - {x}"
  by (auto simp: removeIndexID_def)

lemma distinct_removeIndexID [simp]: "distinct (IDs index) \<Longrightarrow> distinct (IDs (removeIndexID index x))"
  by (simp add: removeIndexID_def)

section \<open>Lemmas on lookup operations\<close>

lemma emap_checks: "emap (\<lambda>(key, _). f key) xs = Inr us \<Longrightarrow> key \<in> fst ` set xs \<Longrightarrow> \<exists>u. f key = Inr u"
  by (induction xs arbitrary: us) auto

lemma emap_lookup_operations:
  "emap (\<lambda>(key, targetID). Inr (upsert key (JStr targetID) '''')) ls =
     Inr (map (\<lambda>(key, targetID). upsert key (JStr targetID) '''') ls)"
  by (induction ls) (auto simp: encode_def)

lemma apply_lookup_upserts:
  "\<forall>(key, t) \<in> set ls. t = rid \<Longrightarrow>
     apply_ops (map (\<lambda>(key, t). upsert key (JStr t) '''') ls) m =
       (\<lambda>k. if k \<in> fst ` set ls then Some (Some (JStr rid)) else m k)"
proof (induction ls arbitrary: m)
  case (Cons l ls)
  then show ?case by (cases l) (auto simp: fun_eq_iff)
qed simp

lemma apply_lookup_deletes:
  "apply_ops (map (\<lambda>(key, _). delete_op key '''') ls) m = (\<lambda>k. if k \<in> fst ` set ls then None else m k)"
proof (induction ls arbitrary: m)
  case (Cons l ls)
  then show ?case by (cases l) (auto simp: fun_eq_iff)
qed simp

lemma supported_lookup_operations [simp]:
  "list_all supported (map (\<lambda>(key, t). upsert key (JStr t) '''') ls)"
  "list_all supported (map (\<lambda>(key, u). delete_op key '''') ls)"
  by (auto simp: list_all_iff)

lemma op_keys:
  "Op_Key ` set (map (\<lambda>(key, t). upsert key (JStr t) '''') ls) = fst ` set ls"
  "Op_Key ` (\<lambda>(key, t). upsert key (JStr t) '''') ` set ls = fst ` set ls"
  "Op_Key ` (\<lambda>(key, u). delete_op key '''') ` A = fst ` A"
  by (force simp: image_image)+

lemma encode_IndexCodec [simp]: "encode IndexCodec x = Inr (json_of IndexCodec x)"
  by (simp add: encode_def)

lemma encode_StringCodec [simp]: "encode StringCodec x = Inr (JStr x)"
  by (simp add: encode_def StringCodec_def)

section \<open>Reading through a store\<close>

context atomic_store
begin

lemma readIndex_val:
  assumes "readIndex st key s = Inr (index, tag)"
  shows "(tag = '''' \<longleftrightarrow> val s key = None) \<and>
    (case val s key of None \<Rightarrow> index = \<lparr>IDs = []\<rparr> | Some raw \<Rightarrow> Unmarshal IndexCodec raw = Inr index)"
proof -
  from assms obtain e where e: "Get st key s = Inr e"
    by (auto simp: readIndex_def)
  with assms show ?thesis
    using Get_missing [OF e] Get_value [OF e] Get_tag [OF e]
    by (cases "Entry_Exists e") (auto simp: readIndex_def)
qed

lemma readIndex_indexes:
  assumes "readIndex st key s = Inr (index, tag)" and "indexes (val s) key A"
  shows "set (IDs index) = A" and "distinct (IDs index)"
  using readIndex_val [OF assms(1)] assms(2) by (auto simp: indexes_def split: option.splits)

lemma commit_effect:
  assumes "Repository.commit st plan s = (Inr u, s')"
    and "\<And>operations. plan = Inr operations \<Longrightarrow> list_all supported operations"
  shows "\<exists>operations. plan = Inr operations \<and> val s' = apply_ops operations (val s)"
  using assms
  by (auto simp: commit_def transact_def dest: commit_values split: sum.splits prod.splits if_splits)

lemma commit_atomic:
  assumes "Repository.commit st plan s = (Inl e, s')"
    and "\<And>operations. plan = Inr operations \<Longrightarrow> list_all supported operations"
  shows "val s' = val s \<or> (\<exists>operations. plan = Inr operations \<and> val s' = apply_ops operations (val s))"
  using assms
  by (auto simp: commit_def transact_def dest: failure_atomic split: sum.splits prod.splits if_splits)

end

context state_store
begin

lemma commit_no_effect:
  assumes "Repository.commit st plan s = (Inl e, s')"
    and "\<And>operations. plan = Inr operations \<Longrightarrow> list_all supported operations"
  shows "val s' = val s"
  using assms
  by (auto simp: commit_def transact_def dest: abort split: sum.splits prod.splits if_splits)

end

section \<open>Collections\<close>

locale resources = codec C for C :: "'a Codec" +
  fixes collection :: string and id_of :: "'a \<Rightarrow> string"
    and lookups :: "'a \<Rightarrow> (string \<times> string) list" and family :: "string set"
  assumes entity_not_family: "entityKey collection rid \<notin> family"
    and index_not_family: "indexKey collection \<notin> family"
    and entity_not_index: "entityKey collection rid \<noteq> indexKey collection"
    and lookups_family: "(key, t) \<in> set (lookups x) \<Longrightarrow> key \<in> family \<and> t = id_of x"
begin

abbreviation represents :: "(string \<rightharpoonup> 'a) \<Rightarrow> vals \<Rightarrow> bool" where
  "represents \<equiv> collection_holds C collection id_of lookups family"

abbreviation space :: "string set" where
  "space \<equiv> key_space collection family"

abbreviation lookup_keys :: "'a \<Rightarrow> string set" where
  "lookup_keys \<equiv> keys_of lookups"

lemma entityKey_eq [simp]: "entityKey collection a = entityKey collection b \<longleftrightarrow> a = b"
  by (simp add: entityKey_def)

lemma lookup_keys_family: "key \<in> lookup_keys x \<Longrightarrow> key \<in> family"
  using lookups_family by (fastforce simp: keys_of_def)

lemma entity_no_lookup [simp]: "entityKey collection rid \<notin> lookup_keys x"
  using lookup_keys_family entity_not_family by blast

lemma index_no_lookup [simp]: "indexKey collection \<notin> lookup_keys x"
  using lookup_keys_family index_not_family by blast

lemma index_not_entity [simp]: "indexKey collection \<noteq> entityKey collection rid"
  using entity_not_index by metis

lemma lookup_target: "(key, t) \<in> set (lookups x) \<longleftrightarrow> key \<in> lookup_keys x \<and> t = id_of x"
  using lookups_family by (force simp: keys_of_def)

lemma represents_iff:
  "represents R m \<longleftrightarrow>
     stores C collection R m \<and> indexes m (indexKey collection) (dom R) \<and>
     (\<forall>key \<in> family. \<forall>raw. m key = Some raw \<longleftrightarrow>
       (\<exists>rid x. R rid = Some x \<and> key \<in> lookup_keys x \<and> raw = Some (JStr rid))) \<and>
     (\<forall>rid x. R rid = Some x \<longrightarrow> id_of x = rid)"
proof (cases "\<forall>rid x. R rid = Some x \<longrightarrow> id_of x = rid")
  case True
  then have "(\<exists>rid x. R rid = Some x \<and> (key \<in> lookup_keys x \<and> rid = id_of x) \<and> raw = Some (JStr rid)) \<longleftrightarrow>
      (\<exists>rid x. R rid = Some x \<and> key \<in> lookup_keys x \<and> raw = Some (JStr rid))" for key raw
    by metis
  then show ?thesis unfolding collection_holds_def looks_up_def lookup_target by simp
next
  case False
  then show ?thesis unfolding collection_holds_def by auto
qed

lemma represents_frame:
  assumes "represents R m" and "\<And>k. k \<in> space \<Longrightarrow> m' k = m k"
  shows "represents R m'"
  using assms indexes_cong [of m' "indexKey collection" m]
  by (simp add: represents_iff key_space_def stores_def)

lemma represents_id: "represents R m \<Longrightarrow> R rid = Some x \<Longrightarrow> id_of x = rid"
  by (simp add: represents_iff)

lemma represents_entity: "represents R m \<Longrightarrow> m (entityKey collection rid) = map_option (\<lambda>x. Some (json_of C x)) (R rid)"
  by (simp add: represents_iff stores_def)

lemma represents_index: "represents R m \<Longrightarrow> indexes m (indexKey collection) (dom R)"
  by (simp add: represents_iff)

lemma lookup_owner:
  "represents R m \<Longrightarrow> R rid = Some x \<Longrightarrow> key \<in> lookup_keys x \<Longrightarrow> m key = Some (Some (JStr rid))"
  using lookup_keys_family by (force simp: represents_iff)

lemma lookup_owned:
  "represents R m \<Longrightarrow> key \<in> family \<Longrightarrow> m key = Some raw \<Longrightarrow>
     \<exists>rid x. R rid = Some x \<and> key \<in> lookup_keys x \<and> raw = Some (JStr rid)"
  by (simp add: represents_iff)

lemma lookup_unique:
  assumes "represents R m" "R r1 = Some x1" "R r2 = Some x2"
    and "key \<in> lookup_keys x1" "key \<in> lookup_keys x2"
  shows "r1 = r2"
  using lookup_owner [OF assms(1,2,4)] lookup_owner [OF assms(1,3,5)] by simp

text \<open>
  A new state of the collection, given by the entity at one ID and by the lookup entries: the shape
  shared by insert, replace and delete.
\<close>

lemma represents_update:
  assumes R: "represents R m"
    and entity: "\<And>r. m' (entityKey collection r) =
      map_option (\<lambda>x. Some (json_of C x)) ((R(rid := new)) r)"
    and index: "indexes m' (indexKey collection) (dom (R(rid := new)))"
    and ids: "\<And>y. new = Some y \<Longrightarrow> id_of y = rid"
    and free: "\<And>y key. new = Some y \<Longrightarrow> key \<in> lookup_keys y \<Longrightarrow>
      m key = None \<or> m key = Some (Some (JStr rid))"
    and lookup: "\<And>key. key \<in> family \<Longrightarrow> m' key =
      (if (\<exists>y. new = Some y \<and> key \<in> lookup_keys y) then Some (Some (JStr rid))
       else if (\<exists>x. R rid = Some x \<and> key \<in> lookup_keys x) then None else m key)"
  shows "represents (R(rid := new)) m'"
proof -
  have "m' key = Some raw \<longleftrightarrow>
      (\<exists>r z. (R(rid := new)) r = Some z \<and> key \<in> lookup_keys z \<and> raw = Some (JStr r))"
    (is "_ \<longleftrightarrow> ?rhs") if key: "key \<in> family" for key raw
  proof -
    have other: "m key = Some (Some (JStr r))" if "R r = Some z" "key \<in> lookup_keys z" for r z
      using lookup_owner [OF R that] .
    consider (new) y where "new = Some y" "key \<in> lookup_keys y"
      | (old) x where "\<nexists>y. new = Some y \<and> key \<in> lookup_keys y" "R rid = Some x" "key \<in> lookup_keys x"
      | (none) "\<nexists>y. new = Some y \<and> key \<in> lookup_keys y" "\<nexists>x. R rid = Some x \<and> key \<in> lookup_keys x"
      by blast
    then show ?thesis
    proof cases
      case new
      then have "?rhs \<longleftrightarrow> raw = Some (JStr rid)"
        using free [OF new] other by (fastforce split: if_splits)
      then show ?thesis using new lookup [OF key] by auto
    next
      case old
      then have "\<not> ?rhs" using other [OF old(2,3)] other by (fastforce split: if_splits)
      moreover have "m' key = None" using lookup [OF key] old by auto
      ultimately show ?thesis by simp
    next
      case none
      then have "?rhs \<longleftrightarrow> (\<exists>r z. R r = Some z \<and> key \<in> lookup_keys z \<and> raw = Some (JStr r))"
        by (fastforce split: if_splits)
      moreover have "m' key = m key" using lookup [OF key] none by auto
      ultimately show ?thesis using R key by (simp add: represents_iff)
    qed
  qed
  moreover have "\<forall>r z. (R(rid := new)) r = Some z \<longrightarrow> id_of z = r"
    using represents_id [OF R] ids by auto
  ultimately show ?thesis
    using entity index by (simp add: represents_iff stores_def)
qed

end

section \<open>The generic routines on a store\<close>

locale resource_store =
  resources C collection id_of lookups family + atomic_store st tagged_view
  for C :: "'a Codec" and collection id_of lookups family
    and st :: "'s Store" and tagged_view :: "'s \<Rightarrow> tagged"
begin

lemma current_represents:
  assumes R: "represents R (val s)" and e: "Get st (entityKey collection rid) s = Inr e" "Entry_Exists e"
    and x: "Unmarshal C (Entry_Value e) = Inr x"
  shows "R rid = Some x"
proof -
  from Get_value [OF e] represents_entity [OF R, of rid] obtain z
    where z: "R rid = Some z" "Entry_Value e = Some (json_of C z)" by auto
  with x show ?thesis by simp
qed

lemma getResource_represents:
  assumes R: "represents R (val s)" and ok: "getResource C st collection rid s = Inr x"
  shows "R rid = Some x"
  using ok current_represents [OF R] by (auto simp: getResource_def)

lemma getResource_missing:
  assumes R: "represents R (val s)" and "getResource C st collection rid s = Inl ErrNotFound"
  shows "R rid = None"
proof -
  from assms(2) obtain e where e: "Get st (entityKey collection rid) s = Inr e" "\<not> Entry_Exists e"
    by (auto simp: getResource_def ebind_Inl_iff wrapf_Inl_iff)
  then have "val s (entityKey collection rid) = None" using Get_missing [OF e(1)] by simp
  with represents_entity [OF R, of rid] show ?thesis by simp
qed

lemma create_supported:
  "createResource_plan C st collection rid x ls s = Inr operations \<Longrightarrow> list_all supported operations"
  by (auto simp: createResource_plan_def emap_lookup_operations)

lemma replace_supported:
  "replaceResource_plan C st collection rid x y ls ls' s = Inr operations \<Longrightarrow> list_all supported operations"
  by (auto simp: replaceResource_plan_def emap_lookup_operations)

lemma delete_supported:
  "deleteResource_plan C st collection rid x ls s = Inr operations \<Longrightarrow> list_all supported operations"
  by (auto simp: deleteResource_plan_def)

lemma create_refines:
  assumes R: "represents R (val s)" and i: "id_of x = rid"
    and plan: "createResource_plan C st collection rid x (lookups x) s = Inr operations"
  shows "R rid = None \<and> (\<forall>key \<in> lookup_keys x. val s key = None) \<and>
    represents (R(rid \<mapsto> x)) (apply_ops operations (val s))"
proof -
  from plan obtain e us index tag where
    e: "Get st (entityKey collection rid) s = Inr e" "\<not> Entry_Exists e"
    and chk: "emap (\<lambda>(key, _). ebind (Get st key s) (\<lambda>existing.
         fail_if (Entry_Exists existing) ErrConflict)) (lookups x) = Inr us"
    and idx: "readIndex st (indexKey collection) s = Inr (index, tag)"
    and ops: "operations = [upsert (entityKey collection rid) (json_of C x) '''',
           upsert (indexKey collection) (json_of IndexCodec (addIndexID index rid)) tag] @
           map (\<lambda>(key, targetID). upsert key (JStr targetID) '''') (lookups x)"
    by (auto simp: createResource_plan_def emap_lookup_operations encode_iff)
  let ?m = "val s" and ?m' = "apply_ops operations (val s)"
  have fresh: "R rid = None"
    using Get_missing [OF e(1)] e(2) represents_entity [OF R, of rid] by simp
  have free: "?m key = None" if "key \<in> lookup_keys x" for key
    using emap_checks [OF chk] that Get_missing [of key s] by (auto simp: keys_of_def)
  have tgt: "\<forall>(key, t) \<in> set (lookups x). t = rid" using lookups_family i by auto
  have m': "?m' = (\<lambda>k. if k \<in> lookup_keys x then Some (Some (JStr rid))
      else (?m(entityKey collection rid \<mapsto> Some (json_of C x),
        indexKey collection \<mapsto> Some (json_of IndexCodec (addIndexID index rid)))) k)"
    by (simp add: ops apply_lookup_upserts [OF tgt] keys_of_def)
  have "indexes ?m' (indexKey collection) (set (IDs (addIndexID index rid)))"
    using readIndex_indexes [OF idx represents_index [OF R]] by (intro indexes_put) (simp_all add: m')
  then have i': "indexes ?m' (indexKey collection) (dom (R(rid := Some x)))"
    using readIndex_indexes(1) [OF idx represents_index [OF R]] by simp
  have "represents (R(rid := Some x)) ?m'"
  proof (rule represents_update [OF R _ i'])
    show "?m' (entityKey collection r) = map_option (\<lambda>x. Some (json_of C x)) ((R(rid := Some x)) r)" for r
      using represents_entity [OF R, of r] entity_not_index by (simp add: m')
    show "?m' key = (if (\<exists>y. Some x = Some y \<and> key \<in> lookup_keys y) then Some (Some (JStr rid))
       else if (\<exists>x. R rid = Some x \<and> key \<in> lookup_keys x) then None else ?m key)" if "key \<in> family" for key
      using that fresh entity_not_family index_not_family by (auto simp: m')
  qed (use free i in auto)
  with fresh free show ?thesis by simp
qed

lemma replace_refines:
  assumes R: "represents R (val s)" and i: "id_of y = rid"
    and plan: "replaceResource_plan C st collection rid x y (lookups x) (lookups y) s = Inr operations"
  shows "R rid = Some x \<and> represents (R(rid \<mapsto> y)) (apply_ops operations (val s))"
proof -
  from plan obtain e us where
    e: "Get st (entityKey collection rid) s = Inr e" "Entry_Exists e"
       "Unmarshal C (Entry_Value e) = Inr x"
    and chk: "emap (\<lambda>(key, _). ebind (Get st key s) (\<lambda>existing.
         fail_if (Entry_Exists existing \<and> Unmarshal StringCodec (Entry_Value existing) \<noteq> Inr rid)
           ErrConflict)) (lookups y) = Inr us"
    and ops: "operations = [upsert (entityKey collection rid) (json_of C y) (Entry_ETag e)] @
           map (\<lambda>(key, _). delete_op key '''')
              (filter (\<lambda>(key, _). key \<notin> fst ` set (lookups y)) (lookups x)) @
           map (\<lambda>(key, targetID). upsert key (JStr targetID) '''') (lookups y)"
    by (auto simp: replaceResource_plan_def emap_lookup_operations encode_iff)
  let ?m = "val s" and ?m' = "apply_ops operations (val s)"
  have old: "R rid = Some x" by (rule current_represents [OF R e])
  have free: "?m key = None \<or> ?m key = Some (Some (JStr rid))" if key: "key \<in> lookup_keys y" for key
  proof -
    from emap_checks [OF chk] key obtain g where g: "Get st key s = Inr g"
      and ok: "\<not> (Entry_Exists g \<and> Unmarshal StringCodec (Entry_Value g) \<noteq> Inr rid)"
      by (auto simp: keys_of_def)
    show ?thesis
    proof (cases "Entry_Exists g")
      case True
      then have v: "?m key = Some (Entry_Value g)" using Get_value [OF g] by simp
      from lookup_owned [OF R lookup_keys_family [OF key] v] ok True v show ?thesis
        by (auto simp: Unmarshal_def StringCodec_def)
    qed (use Get_missing [OF g] in simp)
  qed
  have tgt: "\<forall>(key, t) \<in> set (lookups y). t = rid" using lookups_family i by auto
  have keep: "fst ` set (filter (\<lambda>(key, _). key \<notin> fst ` set (lookups y)) (lookups x)) =
      lookup_keys x - lookup_keys y"
    by (force simp: keys_of_def)
  have m': "?m' = (\<lambda>k. if k \<in> lookup_keys y then Some (Some (JStr rid))
      else if k \<in> lookup_keys x then None
      else (?m(entityKey collection rid \<mapsto> Some (json_of C y))) k)"
    unfolding ops apply_ops_append apply_lookup_upserts [OF tgt] apply_lookup_deletes keep
    by (simp add: fun_eq_iff flip: keys_of_def)
  have "represents (R(rid := Some y)) ?m'"
  proof (rule represents_update [OF R])
    show "?m' (entityKey collection r) = map_option (\<lambda>x. Some (json_of C x)) ((R(rid := Some y)) r)" for r
      using represents_entity [OF R, of r] by (simp add: m')
    have "?m' (indexKey collection) = ?m (indexKey collection)" by (simp add: m')
    then show "indexes ?m' (indexKey collection) (dom (R(rid := Some y)))"
      using represents_index [OF R] old indexes_cong [of ?m' "indexKey collection" ?m]
      by (simp add: insert_absorb domI)
    show "?m' key = (if (\<exists>z. Some y = Some z \<and> key \<in> lookup_keys z) then Some (Some (JStr rid))
       else if (\<exists>x. R rid = Some x \<and> key \<in> lookup_keys x) then None else ?m key)" if "key \<in> family" for key
      using that old entity_not_family by (auto simp: m')
  qed (use free i in auto)
  with old show ?thesis by simp
qed

lemma delete_refines:
  assumes R: "represents R (val s)"
    and plan: "deleteResource_plan C st collection rid x (lookups x) s = Inr operations"
  shows "R rid = Some x \<and> represents (R(rid := None)) (apply_ops operations (val s))"
proof -
  from plan obtain e index tag where
    e: "Get st (entityKey collection rid) s = Inr e" "Entry_Exists e"
       "Unmarshal C (Entry_Value e) = Inr x"
    and idx: "readIndex st (indexKey collection) s = Inr (index, tag)"
    and ops: "operations = [delete_op (entityKey collection rid) (Entry_ETag e),
           upsert (indexKey collection) (json_of IndexCodec (removeIndexID index rid)) tag] @
           map (\<lambda>(key, _). delete_op key '''') (lookups x)"
    by (auto simp: deleteResource_plan_def encode_iff)
  let ?m = "val s" and ?m' = "apply_ops operations (val s)"
  have old: "R rid = Some x" by (rule current_represents [OF R e])
  have m': "?m' = (\<lambda>k. if k \<in> lookup_keys x then None
      else (?m(entityKey collection rid := None,
        indexKey collection \<mapsto> Some (json_of IndexCodec (removeIndexID index rid)))) k)"
    by (simp add: ops apply_lookup_deletes keys_of_def)
  have "indexes ?m' (indexKey collection) (set (IDs (removeIndexID index rid)))"
    using readIndex_indexes [OF idx represents_index [OF R]] by (intro indexes_put) (simp_all add: m')
  then have i': "indexes ?m' (indexKey collection) (dom (R(rid := None)))"
    using readIndex_indexes(1) [OF idx represents_index [OF R]] by simp
  have "represents (R(rid := None)) ?m'"
  proof (rule represents_update [OF R _ i'])
    show "?m' (entityKey collection r) = map_option (\<lambda>x. Some (json_of C x)) ((R(rid := None)) r)" for r
      using represents_entity [OF R, of r] entity_not_index by (simp add: m')
    show "?m' key = (if (\<exists>y. None = Some y \<and> key \<in> lookup_keys y) then Some (Some (JStr rid))
       else if (\<exists>x. R rid = Some x \<and> key \<in> lookup_keys x) then None else ?m key)" if "key \<in> family" for key
      using that old entity_not_family index_not_family by (auto simp: m')
  qed auto
  with old show ?thesis by simp
qed

text \<open>The routines write only keys of their collection.\<close>

lemma lookups_space: "fst ` set (lookups x) \<subseteq> space"
  using lookup_keys_family by (auto simp: key_space_def keys_of_def)

lemma own_keys [simp]: "entityKey collection rid \<in> space" "indexKey collection \<in> space"
  by (simp_all add: key_space_def)

lemma create_frame:
  assumes plan: "createResource_plan C st collection rid x (lookups x) s = Inr operations" and k: "k \<notin> space"
  shows "apply_ops operations m k = m k"
proof -
  from plan obtain v w tag where "operations = [upsert (entityKey collection rid) v [],
      upsert (indexKey collection) w tag] @ map (\<lambda>(key, t). upsert key (JStr t) []) (lookups x)"
    by (auto simp: createResource_plan_def emap_lookup_operations)
  then have "Op_Key ` set operations \<subseteq> space"
    using lookups_space [of x] by (simp add: op_keys)
  with k show ?thesis by (intro apply_ops_frame) blast
qed

lemma replace_frame:
  assumes plan: "replaceResource_plan C st collection rid x y (lookups x) (lookups y) s = Inr operations"
    and k: "k \<notin> space"
  shows "apply_ops operations m k = m k"
proof -
  from plan obtain v tag where "operations = [upsert (entityKey collection rid) v tag] @
      map (\<lambda>(key, _). delete_op key []) (filter (\<lambda>(key, _). key \<notin> fst ` set (lookups y)) (lookups x)) @
      map (\<lambda>(key, t). upsert key (JStr t) []) (lookups y)"
    by (auto simp: replaceResource_plan_def emap_lookup_operations)
  then have "Op_Key ` set operations \<subseteq>
      insert (entityKey collection rid) (fst ` set (lookups x) \<union> fst ` set (lookups y))"
    by (simp add: op_keys image_Un) blast
  also have "\<dots> \<subseteq> space" using lookups_space by simp
  finally show ?thesis using k by (intro apply_ops_frame) blast
qed

lemma delete_frame:
  assumes plan: "deleteResource_plan C st collection rid x (lookups x) s = Inr operations" and k: "k \<notin> space"
  shows "apply_ops operations m k = m k"
proof -
  from plan obtain w tag tag' where "operations = [delete_op (entityKey collection rid) tag,
      upsert (indexKey collection) w tag'] @ map (\<lambda>(key, _). delete_op key []) (lookups x)"
    by (auto simp: deleteResource_plan_def)
  then have "Op_Key ` set operations \<subseteq> space"
    using lookups_space [of x] by (simp add: op_keys)
  with k show ?thesis by (intro apply_ops_frame) blast
qed

lemma commit_outcome:
  assumes run: "Repository.commit st plan s = (r, s')"
    and supp: "\<And>operations. plan = Inr operations \<Longrightarrow> list_all supported operations"
  shows "(\<exists>operations. plan = Inr operations \<and> val s' = apply_ops operations (val s)) \<or> r \<noteq> Inr () \<and> val s' = val s"
proof (cases r)
  case (Inl e)
  then show ?thesis using commit_atomic [OF run [unfolded Inl] supp] by auto
next
  case (Inr u)
  then show ?thesis using commit_effect [OF run [unfolded Inr] supp] by simp
qed

lemma commit_frame_keys:
  assumes run: "Repository.commit st plan s = (r, s')"
    and supp: "\<And>operations. plan = Inr operations \<Longrightarrow> list_all supported operations"
    and keys: "\<And>operations. plan = Inr operations \<Longrightarrow> apply_ops operations (val s) k = val s k"
  shows "val s' k = val s k"
proof (cases r)
  case (Inl e)
  then show ?thesis using commit_atomic [OF run [unfolded Inl] supp] keys by auto
next
  case (Inr u)
  then show ?thesis using commit_effect [OF run [unfolded Inr] supp] keys by auto
qed

lemma createResource_frame:
  "createResource C st collection rid x (lookups x) s = (r, s') \<Longrightarrow> k \<notin> space \<Longrightarrow> val s' k = val s k"
  unfolding createResource_def by (rule commit_frame_keys) (auto intro: create_frame dest: create_supported)

lemma replaceResource_frame:
  "replaceResource C st collection rid x y (lookups x) (lookups y) s = (r, s') \<Longrightarrow> k \<notin> space \<Longrightarrow>
     val s' k = val s k"
  unfolding replaceResource_def by (rule commit_frame_keys) (auto intro: replace_frame dest: replace_supported)

lemma deleteResource_frame:
  "deleteResource C st collection rid x (lookups x) s = (r, s') \<Longrightarrow> k \<notin> space \<Longrightarrow> val s' k = val s k"
  unfolding deleteResource_def by (rule commit_frame_keys) (auto intro: delete_frame dest: delete_supported)

text \<open>The whole operations: what a success did, and that a failure did that or nothing.\<close>

lemma createResource_atomic:
  assumes R: "represents R (val s)" and i: "id_of x = rid"
    and run: "createResource C st collection rid x (lookups x) s = (r, s')"
  shows "R rid = None \<and> represents (R(rid \<mapsto> x)) (val s') \<or> r \<noteq> Inr () \<and> val s' = val s"
  by (rule commit_outcome [OF run [unfolded createResource_def], THEN disjE])
    (auto dest: create_supported create_refines [OF R i])

lemma replaceResource_atomic:
  assumes R: "represents R (val s)" and i: "id_of y = rid"
    and run: "replaceResource C st collection rid x y (lookups x) (lookups y) s = (r, s')"
  shows "R rid = Some x \<and> represents (R(rid \<mapsto> y)) (val s') \<or> r \<noteq> Inr () \<and> val s' = val s"
  by (rule commit_outcome [OF run [unfolded replaceResource_def], THEN disjE])
    (auto dest: replace_supported replace_refines [OF R i])

lemma deleteResource_atomic:
  assumes R: "represents R (val s)"
    and run: "deleteResource C st collection rid x (lookups x) s = (r, s')"
  shows "R rid = Some x \<and> represents (R(rid := None)) (val s') \<or> r \<noteq> Inr () \<and> val s' = val s"
  by (rule commit_outcome [OF run [unfolded deleteResource_def], THEN disjE])
    (auto dest: delete_supported delete_refines [OF R])

end

section \<open>Outcomes on a store that answers\<close>

lemma emap_fail_if:
  "emap (\<lambda>(key, _). fail_if (P key) err) ls =
     (if \<exists>key \<in> fst ` set ls. P key then Inl err else Inr (map (\<lambda>_. ()) ls))"
  by (induction ls) (auto simp: fail_if_def)

context total_store
begin

lemma readIndex_total:
  assumes "indexes (val s) key A"
  obtains index where "readIndex st key s = Inr (index, tag_of s key)" "set (IDs index) = A" "distinct (IDs index)"
proof -
  have "\<exists>index. readIndex st key s = Inr (index, tag_of s key)"
  proof (cases "val s key")
    case None
    then show ?thesis using Get_tag [OF Get_eq, of s key]
      by (simp add: readIndex_def Get_eq Exists_val tag_of_def domIff)
  next
    case (Some v)
    with assms obtain ids where "v = Some (json_of IndexCodec \<lparr>IDs = ids\<rparr>)" by (auto simp: indexes_def)
    with Some show ?thesis by (simp add: readIndex_def Get_eq Exists_val Value_val tag_of_def domI)
  qed
  then show thesis using that readIndex_indexes [OF _ assms] by blast
qed

definition fresh :: "'s \<Rightarrow> Operation list \<Rightarrow> bool" where
  "fresh s operations \<longleftrightarrow> list_all (\<lambda>operation. supported operation \<and>
     (Op_ETag operation = [] \<or> Op_ETag operation = tag_of s (Op_Key operation))) operations"

lemma fresh_simps [simp]:
  "fresh s []"
  "fresh s (x # xs) \<longleftrightarrow> supported x \<and> (Op_ETag x = [] \<or> Op_ETag x = tag_of s (Op_Key x)) \<and> fresh s xs"
  "fresh s (xs @ ys) \<longleftrightarrow> fresh s xs \<and> fresh s ys"
  by (auto simp: fresh_def)

lemma fresh_lookup_operations [simp]:
  "fresh s (map (\<lambda>(key, t). upsert key (JStr t) []) ls)"
  "fresh s (map (\<lambda>(key, u). delete_op key []) ls)"
  by (auto simp: fresh_def list_all_iff)

lemma commit_fresh:
  assumes "\<And>operations. plan = Inr operations \<Longrightarrow> fresh s operations"
  shows "fst (Repository.commit st plan s) = (case plan of Inl e \<Rightarrow> Inl e | Inr _ \<Rightarrow> Inr ())"
proof (cases plan)
  case (Inr operations)
  with assms have "list_all supported operations" "tags_match (tagged_view s) operations"
    by (auto simp: fresh_def list_all_iff intro: tags_match_fresh)
  with Inr Transact_ok [of operations s] show ?thesis by (auto simp: commit_def transact_def)
qed (simp add: commit_def)

lemma commit_guarded:
  assumes plan: "plan = ebind check (\<lambda>_. Inr operations)"
    and tags: "check = Inr () \<Longrightarrow> fresh s operations" and run: "Repository.commit st plan s = (r, s')"
  shows "r = check" and "val s' = (if check = Inr () then apply_ops operations (val s) else val s)"
proof -
  have "r = check \<and> val s' = (if check = Inr () then apply_ops operations (val s) else val s)"
  proof (cases check)
    case (Inl e)
    with run show ?thesis by (auto simp: plan commit_def)
  next
    case (Inr u)
    then have p: "plan = Inr operations" using plan by simp
    with commit_fresh [of plan s] tags Inr run have r: "r = Inr ()" by simp
    from tags Inr have "list_all supported operations" by (simp add: fresh_def list_all_iff)
    with commit_effect [OF run [unfolded r]] p have "val s' = apply_ops operations (val s)" by simp
    with r Inr show ?thesis by simp
  qed
  then show "r = check" "val s' = (if check = Inr () then apply_ops operations (val s) else val s)" by auto
qed

end

locale resource_total =
  resource_store C collection id_of lookups family st tagged_view + total_store st tagged_view
  for C :: "'a Codec" and collection id_of lookups family
    and st :: "'s Store" and tagged_view :: "'s \<Rightarrow> tagged"
begin

text \<open>Here a failure did nothing.\<close>

lemma commit_exact:
  assumes run: "Repository.commit st plan s = (r, s')"
    and supp: "\<And>operations. plan = Inr operations \<Longrightarrow> list_all supported operations"
  shows "r \<noteq> Inr () \<Longrightarrow> val s' = val s"
  using commit_no_effect [of plan s _ s'] run supp by (cases r) auto

lemma createResource_correct:
  assumes R: "represents R (val s)" and i: "id_of x = rid"
    and run: "createResource C st collection rid x (lookups x) s = (r, s')"
  shows "(r = Inr () \<longrightarrow> R rid = None \<and> represents (R(rid \<mapsto> x)) (val s')) \<and>
    (r \<noteq> Inr () \<longrightarrow> val s' = val s)"
  using createResource_atomic [OF R i run] commit_exact [OF run [unfolded createResource_def]] create_supported by blast

lemma replaceResource_correct:
  assumes R: "represents R (val s)" and i: "id_of y = rid"
    and run: "replaceResource C st collection rid x y (lookups x) (lookups y) s = (r, s')"
  shows "(r = Inr () \<longrightarrow> R rid = Some x \<and> represents (R(rid \<mapsto> y)) (val s')) \<and>
    (r \<noteq> Inr () \<longrightarrow> val s' = val s)"
  using replaceResource_atomic [OF R i run] commit_exact [OF run [unfolded replaceResource_def]] replace_supported by blast

lemma deleteResource_correct:
  assumes R: "represents R (val s)"
    and run: "deleteResource C st collection rid x (lookups x) s = (r, s')"
  shows "(r = Inr () \<longrightarrow> R rid = Some x \<and> represents (R(rid := None)) (val s')) \<and>
    (r \<noteq> Inr () \<longrightarrow> val s' = val s)"
  using deleteResource_atomic [OF R run] commit_exact [OF run [unfolded deleteResource_def]] delete_supported by blast

lemma lookup_present:
  assumes R: "represents R (val s)" and key: "key \<in> lookup_keys x"
  shows "key \<in> dom (val s) \<longleftrightarrow> (\<exists>rid y. R rid = Some y \<and> key \<in> lookup_keys y)"
  using lookup_owned [OF R lookup_keys_family [OF key]] lookup_owner [OF R] by fastforce

lemma taken_iff:
  assumes R: "represents R (val s)"
  shows "taken lookups R x \<longleftrightarrow> (\<exists>key \<in> lookup_keys x. key \<in> dom (val s))"
  using lookup_present [OF R] unfolding taken_def by blast

lemma createResource_outcome:
  assumes R: "represents R (val s)"
  shows "fst (createResource C st collection rid x (lookups x) s) =
    (if rid \<in> dom R \<or> taken lookups R x then Inl ErrConflict
     else case encode C x of Inl e \<Rightarrow> Inl e | Inr _ \<Rightarrow> Inr ())"
proof -
  obtain index where idx: "readIndex st (indexKey collection) s = Inr (index, tag_of s (indexKey collection))"
    using readIndex_total [OF represents_index [OF R]] .
  have ent: "entityKey collection rid \<in> dom (val s) \<longleftrightarrow> rid \<in> dom R"
    using represents_entity [OF R, of rid] by (simp add: domIff)
  have plan: "createResource_plan C st collection rid x (lookups x) s =
    (if rid \<in> dom R \<or> taken lookups R x then Inl ErrConflict
     else case encode C x of Inl e \<Rightarrow> Inl e
      | Inr v \<Rightarrow> Inr ([upsert (entityKey collection rid) v '''',
          upsert (indexKey collection) (json_of IndexCodec (addIndexID index rid)) (tag_of s (indexKey collection))]
          @ map (\<lambda>(key, targetID). upsert key (JStr targetID) '''') (lookups x)))"
    by (simp add: createResource_plan_def Get_eq Exists_val ent ebind_fail_if emap_fail_if idx
        taken_iff [OF R] keys_of_def emap_lookup_operations encode_def [of IndexCodec] split: sum.splits)
  show ?thesis
    unfolding createResource_def by (subst commit_fresh) (auto simp: plan split: if_splits sum.splits)
qed

lemma read_current:
  assumes R: "represents R (val s)"
  shows "entityKey collection rid \<in> dom (val s) \<longleftrightarrow> rid \<in> dom R"
    and "R rid = Some z \<Longrightarrow> Unmarshal C (Entry_Value (entry_of (tagged_view s (entityKey collection rid)))) = Inr z"
  using represents_entity [OF R, of rid] by (simp_all add: domIff Value_val)

lemma other_owner:
  assumes R: "represents R (val s)" and key: "key \<in> lookup_keys y"
  shows "key \<in> dom (val s) \<and> Unmarshal StringCodec (Entry_Value (entry_of (tagged_view s key))) \<noteq> Inr rid
    \<longleftrightarrow> (\<exists>r z. r \<noteq> rid \<and> R r = Some z \<and> key \<in> lookup_keys z)"
proof (cases "val s key")
  case None
  then show ?thesis using lookup_owner [OF R] by fastforce
next
  case (Some raw)
  from lookup_owned [OF R lookup_keys_family [OF key] this] obtain r x
    where r: "R r = Some x" "key \<in> lookup_keys x" "raw = Some (JStr r)" by blast
  with Some have "Unmarshal StringCodec (Entry_Value (entry_of (tagged_view s key))) = Inr r"
    by (simp add: Value_val Unmarshal_def StringCodec_def)
  moreover have "(\<exists>r' z. r' \<noteq> rid \<and> R r' = Some z \<and> key \<in> lookup_keys z) \<longleftrightarrow> r \<noteq> rid"
    using r lookup_unique [OF R r(1) _ r(2)] by blast
  ultimately show ?thesis using Some by (simp add: domI)
qed

lemma replaceResource_outcome:
  assumes R: "represents R (val s)"
  shows "fst (replaceResource C st collection rid x y (lookups x) (lookups y) s) =
    (case R rid of None \<Rightarrow> Inl ErrNotFound
     | Some z \<Rightarrow> if z \<noteq> x \<or> taken_by_other lookups rid R y then Inl ErrConflict
         else case encode C y of Inl e \<Rightarrow> Inl e | Inr _ \<Rightarrow> Inr ())"
proof (cases "R rid")
  case None
  then show ?thesis
    using read_current(1) [OF R, of rid]
    by (simp add: replaceResource_def replaceResource_plan_def commit_def Get_eq Exists_val domIff)
next
  case (Some z)
  let ?other = "\<lambda>key. key \<in> dom (val s) \<and>
    Unmarshal StringCodec (Entry_Value (entry_of (tagged_view s key))) \<noteq> Inr rid"
  have t: "taken_by_other lookups rid R y \<longleftrightarrow> (\<exists>key \<in> fst ` set (lookups y). ?other key)"
    using other_owner [OF R, of _ y rid] unfolding taken_by_other_def keys_of_def [symmetric] by blast
  have plan: "replaceResource_plan C st collection rid x y (lookups x) (lookups y) s =
    (if z \<noteq> x \<or> taken_by_other lookups rid R y then Inl ErrConflict
     else case encode C y of Inl e \<Rightarrow> Inl e
      | Inr v \<Rightarrow> Inr ([upsert (entityKey collection rid) v (tag_of s (entityKey collection rid))] @
           map (\<lambda>(key, _). delete_op key '''')
              (filter (\<lambda>(key, _). key \<notin> fst ` set (lookups y)) (lookups x)) @
           map (\<lambda>(key, targetID). upsert key (JStr targetID) '''') (lookups y)))"
    unfolding t using Some read_current [OF R, of rid]
    by (simp add: replaceResource_plan_def Get_eq Exists_val domIff ebind_fail_if emap_fail_if tag_of_def
        emap_lookup_operations split: sum.splits) fastforce
  show ?thesis
    unfolding replaceResource_def using Some
    by (subst commit_fresh) (auto simp: plan split: if_splits sum.splits)
qed

lemma deleteResource_outcome:
  assumes R: "represents R (val s)"
  shows "fst (deleteResource C st collection rid x (lookups x) s) =
    (case R rid of None \<Rightarrow> Inl ErrNotFound
     | Some z \<Rightarrow> if z \<noteq> x then Inl ErrConflict else Inr ())"
proof (cases "R rid")
  case None
  then show ?thesis
    using read_current(1) [OF R, of rid]
    by (simp add: deleteResource_def deleteResource_plan_def commit_def Get_eq Exists_val domIff)
next
  case (Some z)
  obtain index where idx: "readIndex st (indexKey collection) s = Inr (index, tag_of s (indexKey collection))"
    using readIndex_total [OF represents_index [OF R]] .
  have plan: "deleteResource_plan C st collection rid x (lookups x) s =
    (if z \<noteq> x then Inl ErrConflict
     else Inr ([delete_op (entityKey collection rid) (tag_of s (entityKey collection rid)),
           upsert (indexKey collection) (json_of IndexCodec (removeIndexID index rid)) (tag_of s (indexKey collection))]
          @ map (\<lambda>(key, _). delete_op key '''') (lookups x)))"
    using Some read_current [OF R, of rid]
    by (simp add: deleteResource_plan_def Get_eq Exists_val domIff ebind_fail_if idx encode_def tag_of_def)
  show ?thesis
    unfolding deleteResource_def using Some by (subst commit_fresh) (auto simp: plan split: if_splits)
qed

lemma getResource_outcome:
  assumes R: "represents R (val s)"
  shows "getResource C st collection rid s = (case R rid of None \<Rightarrow> Inl ErrNotFound | Some x \<Rightarrow> Inr x)"
  using read_current [OF R, of rid]
  by (auto simp: getResource_def Get_eq Exists_val ebind_fail_if domIff split: option.splits)

lemma getResources_outcome:
  assumes R: "represents R (val s)"
  shows "getResources C st collection ids s = Inr (List.map_filter R ids)"
  by (induction ids) (simp_all add: getResource_outcome [OF R] List.map_filter_simps split: option.split)

text \<open>Listing returns exactly the stored resources, each once.\<close>

lemma listResources_outcome:
  assumes R: "represents R (val s)"
  obtains ids where "distinct ids" "set ids = dom R" "listResources C st collection s = Inr (map (the \<circ> R) ids)"
proof -
  obtain index where idx: "readIndex st (indexKey collection) s = Inr (index, tag_of s (indexKey collection))"
    "set (IDs index) = dom R" "distinct (IDs index)"
    using readIndex_total [OF represents_index [OF R]] .
  have "List.map_filter R (IDs index) = map (the \<circ> R) (IDs index)"
    using idx(2) by (auto simp: List.map_filter_def intro!: arg_cong [of _ _ "map _"] filter_True)
  with idx that show thesis
    by (simp add: listResources_def listResourcesAtIndex_def getResources_outcome [OF R])
qed
text \<open>The routines implement their specifications, on every branch.\<close>

lemma createResource_refines:
  assumes R: "represents R (val s)"
    and run: "createResource C st collection (id_of x) x (lookups x) s = (r, s')"
    and spec: "create_spec C id_of lookups x R = (r', R')"
  shows "r = r' \<and> represents R' (val s')"
proof
  show "r = r'"
    using createResource_outcome [OF R, of "id_of x" x] arg_cong [OF run, of fst] arg_cong [OF spec, of fst]
    by (auto simp: create_spec_def split: if_splits sum.splits option.splits)
  then show "represents R' (val s')"
    using createResource_correct [OF R refl run] create_spec_result [OF spec] R by simp
qed

lemma replaceResource_refines:
  assumes R: "represents R (val s)"
    and run: "replaceResource C st collection (id_of y) x y (lookups x) (lookups y) s = (r, s')"
    and spec: "replace_spec C id_of lookups x y R = (r', R')"
  shows "r = r' \<and> represents R' (val s')"
proof
  show "r = r'"
    using replaceResource_outcome [OF R, of "id_of y" x y] arg_cong [OF run, of fst] arg_cong [OF spec, of fst]
    by (auto simp: replace_spec_def split: if_splits sum.splits option.splits)
  then show "represents R' (val s')"
    using replaceResource_correct [OF R refl run] replace_spec_result [OF spec] R by simp
qed

lemma deleteResource_refines:
  assumes R: "represents R (val s)"
    and run: "deleteResource C st collection (id_of x) x (lookups x) s = (r, s')"
    and spec: "delete_spec id_of x R = (r', R')"
  shows "r = r' \<and> represents R' (val s')"
proof
  show "r = r'"
    using deleteResource_outcome [OF R, of "id_of x" x] arg_cong [OF run, of fst] arg_cong [OF spec, of fst]
    by (auto simp: delete_spec_def split: if_splits sum.splits option.splits)
  then show "represents R' (val s')"
    using deleteResource_correct [OF R run] delete_spec_result [OF spec] R by simp
qed

text \<open>Reading by a unique lookup finds the resource that owns the key.\<close>

lemma lookup_missing:
  assumes R: "represents R (val s)" and none: "\<And>y. y \<in> ran R \<Longrightarrow> lookupKey H kind v \<notin> lookup_keys y"
    and key: "lookupKey H kind v \<in> family"
  shows "lookup H st kind v s = Inl ErrNotFound"
proof -
  have "lookupKey H kind v \<notin> dom (val s)"
    using lookup_owned [OF R key] none by (force simp: ran_def)
  then show ?thesis by (simp add: lookup_def Get_eq Exists_val)
qed

lemma lookup_found:
  assumes R: "represents R (val s)" and x: "R rid = Some x" "lookupKey H kind v \<in> lookup_keys x"
  shows "lookup H st kind v s = Inr rid"
  using lookup_owner [OF R x]
  by (simp add: lookup_def Get_eq Exists_val Value_val domI Unmarshal_def StringCodec_def)

lemma get_by_lookup:
  assumes R: "represents R (val s)" and key: "lookupKey H kind v \<in> family"
  shows "ebind (lookup H st kind v s) (\<lambda>rid. getResource C st collection rid s) =
    (if \<exists>x \<in> ran R. lookupKey H kind v \<in> lookup_keys x
     then Inr (THE x. x \<in> ran R \<and> lookupKey H kind v \<in> lookup_keys x) else Inl ErrNotFound)"
proof (cases "\<exists>x \<in> ran R. lookupKey H kind v \<in> lookup_keys x")
  case True
  then obtain rid x where x: "R rid = Some x" "lookupKey H kind v \<in> lookup_keys x" by (auto simp: ran_def)
  have "(THE x. x \<in> ran R \<and> lookupKey H kind v \<in> lookup_keys x) = x"
  proof (rule the_equality)
    show "z = x" if "z \<in> ran R \<and> lookupKey H kind v \<in> lookup_keys z" for z
      using that lookup_unique [OF R x(1) _ x(2)] x(1) by (auto simp: ran_def)
  qed (use x in \<open>auto intro: ranI\<close>)
  with True x show ?thesis by (simp add: lookup_found [OF R x] getResource_outcome [OF R])
next
  case False
  with lookup_missing [OF R _ key] show ?thesis by auto
qed

end

end
