(* ===== verification/Directory.thy ===== *)
theory Directory
  imports Resource_Spec
begin

text \<open>
  The user and the provider directories (\<^verbatim>\<open>UserRepository\<close> and \<^verbatim>\<open>ProviderRepository\<close> of
  \<^verbatim>\<open>repository.go\<close>) on the in-memory store: both are instances of \<open>resource_total\<close>, so the
  repository operations refine insert, compare-and-replace and compare-and-delete on a finite map, on
  every branch. The step relations below run the operations in any order, with any arguments.
\<close>

section \<open>Users\<close>

definition holds_users :: "(string \<Rightarrow> string) \<Rightarrow> (string \<rightharpoonup> User) \<Rightarrow> vals \<Rightarrow> bool" where
  "holds_users H = collection_holds UserCodec ''users'' User_ID (userLookups H) (range (lookupKey H ''user-email''))"

sublocale total_store \<subseteq> users: resource_total UserCodec "''users''" User_ID "userLookups H"
    "range (lookupKey H ''user-email'')" st tagged_view for H
  by unfold_locales (auto simp: entityKey_def indexKey_def lookupKey_def userLookups_def)

lemma holds_users_empty: "holds_users H Map.empty (contents NewMemoryStore)"
  by (simp add: holds_users_def collection_holds_def stores_def indexes_def looks_up_def values_of_def
      memory_view_def NewMemoryStore_def)

inductive user_step :: "(string \<Rightarrow> string) \<Rightarrow> memory \<Rightarrow> memory \<Rightarrow> bool" for H where
  create_user: "repo_CreateUser H MemoryStore user s = (r, s') \<Longrightarrow> user_step H s s'"
| replace_user: "repo_ReplaceUser H MemoryStore oldUser user s = (r, s') \<Longrightarrow> user_step H s s'"
| delete_user: "repo_DeleteUser H MemoryStore user s = (r, s') \<Longrightarrow> user_step H s s'"

lemma CreateUser_refines:
  "holds_users H R (contents s) \<Longrightarrow> repo_CreateUser H MemoryStore user s = (r, s') \<Longrightarrow>
     create_spec UserCodec User_ID (userLookups H) user R = (r', R') \<Longrightarrow>
     r = r' \<and> holds_users H R' (contents s')"
  unfolding holds_users_def repo_CreateUser_def by (rule mem.users.createResource_refines)

lemma ReplaceUser_refines:
  "holds_users H R (contents s) \<Longrightarrow> repo_ReplaceUser H MemoryStore oldUser user s = (r, s') \<Longrightarrow>
     replace_spec UserCodec User_ID (userLookups H) oldUser user R = (r', R') \<Longrightarrow>
     r = r' \<and> holds_users H R' (contents s')"
  unfolding holds_users_def repo_ReplaceUser_def by (rule mem.users.replaceResource_refines)

lemma DeleteUser_refines:
  "holds_users H R (contents s) \<Longrightarrow> repo_DeleteUser H MemoryStore user s = (r, s') \<Longrightarrow>
     delete_spec User_ID user R = (r', R') \<Longrightarrow> r = r' \<and> holds_users H R' (contents s')"
  unfolding holds_users_def repo_DeleteUser_def by (rule mem.users.deleteResource_refines)

lemma user_step_holds:
  "user_step H s s' \<Longrightarrow> holds_users H R (contents s) \<Longrightarrow> \<exists>R'. holds_users H R' (contents s')"
  by (induction rule: user_step.induct)
    (metis surj_pair CreateUser_refines ReplaceUser_refines DeleteUser_refines)+

lemma user_steps_hold:
  "(user_step H)\<^sup>*\<^sup>* NewMemoryStore s \<Longrightarrow> \<exists>R. holds_users H R (contents s)"
  by (induction rule: rtranclp_induct) (use holds_users_empty user_step_holds in blast)+

lemma GetUser_outcome:
  "holds_users H R (contents s) \<Longrightarrow>
     repo_GetUser MemoryStore rid s = (case R rid of None \<Rightarrow> Inl ErrNotFound | Some x \<Rightarrow> Inr x)"
  unfolding holds_users_def repo_GetUser_def by (rule mem.users.getResource_outcome)

lemma ListUsers_outcome:
  assumes "holds_users H R (contents s)"
  obtains ids where "distinct ids" "set ids = dom R" "repo_ListUsers MemoryStore s = Inr (map (the \<circ> R) ids)"
  using mem.users.listResources_outcome [OF assms [unfolded holds_users_def]] unfolding repo_ListUsers_def .

lemma user_email_keys: "keys_of (userLookups H) user = {lookupKey H ''user-email'' (User_Email user)}"
  by (simp add: keys_of_def userLookups_def)

lemma lookupKey_eq [simp]: "lookupKey H kind v = lookupKey H kind w \<longleftrightarrow> H v = H w"
  by (simp add: lookupKey_def)

lemma users_unique:
  assumes "holds_users H R m" "R a = Some x" "R b = Some y" "H (User_Email x) = H (User_Email y)"
  shows "a = b"
  using mem.users.lookup_unique [OF assms(1-3) [unfolded holds_users_def]] assms(4) by (simp add: user_email_keys)

lemma users_ids: "holds_users H R m \<Longrightarrow> R a = Some x \<Longrightarrow> User_ID x = a"
  unfolding holds_users_def by (rule mem.users.represents_id)

section \<open>Providers\<close>

definition provider_family :: "(string \<Rightarrow> string) \<Rightarrow> string set" where
  "provider_family H = range (lookupKey H ''provider-slug'') \<union> range (lookupKey H ''provider-adapter-app-id'')"

definition holds_providers :: "(string \<Rightarrow> string) \<Rightarrow> (string \<rightharpoonup> Provider) \<Rightarrow> vals \<Rightarrow> bool" where
  "holds_providers H = collection_holds ProviderCodec ''providers'' Provider_ID (providerLookups H) (provider_family H)"

sublocale total_store \<subseteq> providers: resource_total ProviderCodec "''providers''" Provider_ID "providerLookups H"
    "provider_family H" st tagged_view for H
  by unfold_locales (auto simp: provider_family_def entityKey_def indexKey_def lookupKey_def providerLookups_def)

lemma holds_providers_empty: "holds_providers H Map.empty (contents NewMemoryStore)"
  by (simp add: holds_providers_def collection_holds_def stores_def indexes_def looks_up_def values_of_def
      memory_view_def NewMemoryStore_def)

lemma CreateProvider_refines:
  "holds_providers H R (contents s) \<Longrightarrow> repo_CreateProvider H MemoryStore provider s = (r, s') \<Longrightarrow>
     create_spec ProviderCodec Provider_ID (providerLookups H) provider R = (r', R') \<Longrightarrow>
     r = r' \<and> holds_providers H R' (contents s')"
  unfolding holds_providers_def repo_CreateProvider_def by (rule mem.providers.createResource_refines)

lemma ReplaceProvider_refines:
  "holds_providers H R (contents s) \<Longrightarrow> repo_ReplaceProvider H MemoryStore oldProvider provider s = (r, s') \<Longrightarrow>
     replace_spec ProviderCodec Provider_ID (providerLookups H) oldProvider provider R = (r', R') \<Longrightarrow>
     r = r' \<and> holds_providers H R' (contents s')"
  unfolding holds_providers_def repo_ReplaceProvider_def by (rule mem.providers.replaceResource_refines)

lemma DeleteProvider_refines:
  "holds_providers H R (contents s) \<Longrightarrow> repo_DeleteProvider H MemoryStore provider s = (r, s') \<Longrightarrow>
     delete_spec Provider_ID provider R = (r', R') \<Longrightarrow> r = r' \<and> holds_providers H R' (contents s')"
  unfolding holds_providers_def repo_DeleteProvider_def by (rule mem.providers.deleteResource_refines)

lemma GetProvider_outcome:
  "holds_providers H R (contents s) \<Longrightarrow>
     repo_GetProvider MemoryStore rid s = (case R rid of None \<Rightarrow> Inl ErrNotFound | Some x \<Rightarrow> Inr x)"
  unfolding holds_providers_def repo_GetProvider_def by (rule mem.providers.getResource_outcome)

lemma provider_keys: "keys_of (providerLookups H) provider =
    {lookupKey H ''provider-slug'' (Provider_Slug provider),
     lookupKey H ''provider-adapter-app-id'' (Provider_AdapterAppID provider)}"
  by (simp add: keys_of_def providerLookups_def)

lemma lookupKey_kinds [simp]:
  "lookupKey H ''provider-slug'' v \<noteq> lookupKey H ''provider-adapter-app-id'' w"
  "lookupKey H ''provider-adapter-app-id'' w \<noteq> lookupKey H ''provider-slug'' v"
  by (simp_all add: lookupKey_def)

lemma providers_unique:
  assumes "holds_providers H R m" "R a = Some x" "R b = Some y"
    and "H (Provider_Slug x) = H (Provider_Slug y) \<or> H (Provider_AdapterAppID x) = H (Provider_AdapterAppID y)"
  shows "a = b"
proof -
  from assms(4) have "keys_of (providerLookups H) x \<inter> keys_of (providerLookups H) y \<noteq> {}"
    by (auto simp: provider_keys)
  then show ?thesis
    using mem.providers.lookup_unique [OF assms(1-3) [unfolded holds_providers_def]] by blast
qed

lemma GetProviderByAdapterAppID_found:
  assumes "holds_providers H R (contents s)" "R a = Some p" "H (Provider_AdapterAppID p) = H appID"
  shows "repo_GetProviderByAdapterAppID H MemoryStore appID s = Inr p"
proof -
  have "lookup H MemoryStore ''provider-adapter-app-id'' appID s = Inr a"
    by (rule mem.providers.lookup_found [OF assms(1,2) [unfolded holds_providers_def]])
      (simp add: provider_keys assms(3))
  with assms show ?thesis by (simp add: repo_GetProviderByAdapterAppID_def GetProvider_outcome)
qed


section \<open>Properties\<close>

definition ada :: User where
  "ada = \<lparr>User_ID = ''usr_1'', User_Name = ''Ada'', User_Email = ''ada@example.com'', User_Status = StatusActive,
          User_Revision = 1, User_CreatedAt = zero_time, User_UpdatedAt = zero_time\<rparr>"

text \<open>
  In every store that the user repository can reach, ListUsers returns every user exactly once,
  GetUser returns exactly the listed users, each under its own ID, GetUserByEmail finds the user of an
  e-mail address, and no two users share an e-mail address (up to the lookup hash).
\<close>

lemma user_directory_consistent:
  assumes "(user_step H)\<^sup>*\<^sup>* NewMemoryStore s"
  shows "\<exists>users. repo_ListUsers MemoryStore s = Inr users \<and> distinct (map User_ID users)
    \<and> (\<forall>rid user. repo_GetUser MemoryStore rid s = Inr user \<longleftrightarrow> user \<in> set users \<and> User_ID user = rid)
    \<and> (\<forall>user \<in> set users. repo_GetUserByEmail H MemoryStore (User_Email user) s = Inr user)
    \<and> distinct (map (H \<circ> User_Email) users)"
proof -
  from user_steps_hold [OF assms] obtain R where R: "holds_users H R (contents s)" by blast
  from ListUsers_outcome [OF R] obtain ids where ids: "distinct ids" "set ids = dom R"
    "repo_ListUsers MemoryStore s = Inr (map (the \<circ> R) ids)" .
  have own: "User_ID (the (R i)) = i" if "i \<in> set ids" for i using that ids users_ids [OF R, of i] by auto
  have same: "map User_ID (map (the \<circ> R) ids) = ids" by (simp add: own map_idI)
  have mail: "repo_GetUserByEmail H MemoryStore (User_Email user) s = Inr user" if "user \<in> set (map (the \<circ> R) ids)" for user
  proof -
    from that ids obtain i where i: "R i = Some user" by auto
    have "lookup H MemoryStore ''user-email'' (User_Email user) s = Inr i"
      by (rule mem.users.lookup_found [OF R [unfolded holds_users_def] i]) (simp add: user_email_keys)
    then show ?thesis by (simp add: repo_GetUserByEmail_def GetUser_outcome [OF R] i)
  qed
  have "inj_on (\<lambda>i. H (User_Email (the (R i)))) (set ids)"
    using ids users_unique [OF R] by (fastforce intro!: inj_onI)
  then have uniq: "distinct (map (H \<circ> User_Email) (map (the \<circ> R) ids))"
    using ids by (simp add: distinct_map comp_def)
  have got: "repo_GetUser MemoryStore rid s = Inr user \<longleftrightarrow> user \<in> set (map (the \<circ> R) ids) \<and> User_ID user = rid" for rid user
    using users_ids [OF R] ids by (auto simp: GetUser_outcome [OF R] dom_def image_iff split: option.splits)
  show ?thesis using ids same mail uniq got by (intro exI [of _ "map (the \<circ> R) ids"]) auto
qed

end
