(* ===== verification/Model_Repository.thy ===== *)
theory Model_Repository
  imports Directory
begin

text \<open>
  File \<^verbatim>\<open>internal/controlplane/model_repository.go\<close>: the model catalog, kept in the same store as
  the providers. Every model write also rewrites the provider record it refers to (under its ETag) and
  the per-provider model index. As in \<open>Repository\<close>, the reading half of an operation is its \<open>_plan\<close>.

  The catalog represented by a store is a pair of maps, providers and models, with an exact index of
  the models of each provider. The operations refine their specifications on that pair, and no
  reachable catalog has a model without its provider.
\<close>

section \<open>Keys and provider entries\<close>

definition modelsByProviderIndexKey :: "string \<Rightarrow> string" where
  "modelsByProviderIndexKey providerID = indexKey (''models-by-provider/'' @ providerID)"

definition modelLookups :: "(string \<Rightarrow> string) \<Rightarrow> Model \<Rightarrow> (string \<times> string) list" where
  "modelLookups H model = [(lookupKey H ''model-alias'' (Model_Alias model), Model_ID model)]"

definition readProviderEntry :: "'s Store \<Rightarrow> string \<Rightarrow> 's \<Rightarrow> (Provider \<times> Entry) result" where
  "readProviderEntry st rid s =
     ebind (wrapf ''get providers %q: %w'' [rid] (Get st (entityKey ''providers'' rid) s)) (\<lambda>entry.
     ebind (fail_if (\<not> Entry_Exists entry) ErrNotFound) (\<lambda>_.
     ebind (wrapf ''decode providers %q: %w'' [rid] (Unmarshal ProviderCodec (Entry_Value entry))) (\<lambda>provider.
     Inr (provider, entry))))"

definition providerTouchOperation :: "Provider \<Rightarrow> Entry \<Rightarrow> Operation result" where
  "providerTouchOperation provider entry =
     ebind (encode ProviderCodec provider) (\<lambda>value.
     Inr (upsert (entityKey ''providers'' (Provider_ID provider)) value (Entry_ETag entry)))"

definition ensureProviderCanBackModel :: "Provider \<Rightarrow> Model \<Rightarrow> unit result" where
  "ensureProviderCanBackModel provider model =
     fail_if (Model_Status model = StatusActive \<and> Provider_Status provider \<noteq> StatusActive)
       (conflictf ''%w: an active model requires an active provider'' [])"

section \<open>Operations\<close>

definition repo_CreateModel_plan ::
  "(string \<Rightarrow> string) \<Rightarrow> 's Store \<Rightarrow> Model \<Rightarrow> 's \<Rightarrow> Operation list result" where
  "repo_CreateModel_plan H st model s =
     ebind (Get st (entityKey ''models'' (Model_ID model)) s) (\<lambda>entityEntry.
     ebind (fail_if (Entry_Exists entityEntry) ErrConflict) (\<lambda>_.
     let aliasKey = lookupKey H ''model-alias'' (Model_Alias model) in
     ebind (Get st aliasKey s) (\<lambda>aliasEntry.
     ebind (fail_if (Entry_Exists aliasEntry) ErrConflict) (\<lambda>_.
     ebind (readProviderEntry st (Model_ProviderID model) s) (\<lambda>(provider, providerEntry).
     ebind (ensureProviderCanBackModel provider model) (\<lambda>_.
     ebind (readIndex st (indexKey ''models'') s) (\<lambda>(globalIndex, globalETag).
     ebind (readIndex st (modelsByProviderIndexKey (Model_ProviderID model)) s) (\<lambda>(providerIndex, providerIndexETag).
     ebind (encode ModelCodec model) (\<lambda>modelValue.
     ebind (encode IndexCodec (addIndexID globalIndex (Model_ID model))) (\<lambda>globalIndexValue.
     ebind (encode IndexCodec (addIndexID providerIndex (Model_ID model))) (\<lambda>providerIndexValue.
     ebind (encode StringCodec (Model_ID model)) (\<lambda>aliasValue.
     ebind (providerTouchOperation provider providerEntry) (\<lambda>providerTouch.
     Inr [upsert (entityKey ''models'' (Model_ID model)) modelValue '''',
          upsert (indexKey ''models'') globalIndexValue globalETag,
          upsert aliasKey aliasValue '''',
          upsert (modelsByProviderIndexKey (Model_ProviderID model)) providerIndexValue providerIndexETag,
          providerTouch])))))))))))))"

definition repo_CreateModel ::
  "(string \<Rightarrow> string) \<Rightarrow> 's Store \<Rightarrow> Model \<Rightarrow> 's \<Rightarrow> unit result \<times> 's" where
  "repo_CreateModel H st model s = commit st (repo_CreateModel_plan H st model s) s"

definition repo_GetModel :: "'s Store \<Rightarrow> string \<Rightarrow> 's \<Rightarrow> Model result" where
  "repo_GetModel st rid s = getResource ModelCodec st ''models'' rid s"

definition repo_GetModelByAlias :: "(string \<Rightarrow> string) \<Rightarrow> 's Store \<Rightarrow> string \<Rightarrow> 's \<Rightarrow> Model result" where
  "repo_GetModelByAlias H st alias s =
     ebind (lookup H st ''model-alias'' alias s) (\<lambda>rid. repo_GetModel st rid s)"

definition repo_ListModels :: "'s Store \<Rightarrow> 's \<Rightarrow> Model list result" where
  "repo_ListModels st s = listResources ModelCodec st ''models'' s"

definition repo_ListModelsByProvider :: "'s Store \<Rightarrow> string \<Rightarrow> 's \<Rightarrow> Model list result" where
  "repo_ListModelsByProvider st providerID s =
     listResourcesAtIndex ModelCodec st ''models'' (modelsByProviderIndexKey providerID) s"

text \<open>
  When the provider does not change, the code binds \<^verbatim>\<open>newProvider\<close> and \<^verbatim>\<open>newIndex\<close> to the old ones.
\<close>

definition repo_ReplaceModel_plan ::
  "(string \<Rightarrow> string) \<Rightarrow> 's Store \<Rightarrow> Model \<Rightarrow> Model \<Rightarrow> 's \<Rightarrow> Operation list result" where
  "repo_ReplaceModel_plan H st oldModel model s =
     ebind (fail_if (Model_ID oldModel \<noteq> Model_ID model) (conflictf ''%w: model ID is immutable'' [])) (\<lambda>_.
     ebind (fail_if (Model_Alias oldModel \<noteq> Model_Alias model) (conflictf ''%w: model alias is immutable'' [])) (\<lambda>_.
     ebind (Get st (entityKey ''models'' (Model_ID model)) s) (\<lambda>entityEntry.
     ebind (fail_if (\<not> Entry_Exists entityEntry) ErrNotFound) (\<lambda>_.
     ebind (wrapf ''decode models %q: %w'' [Model_ID model] (Unmarshal ModelCodec (Entry_Value entityEntry))) (\<lambda>current.
     ebind (fail_if (current \<noteq> oldModel) ErrConflict) (\<lambda>_.
     let aliasKey = lookupKey H ''model-alias'' (Model_Alias model) in
     ebind (Get st aliasKey s) (\<lambda>aliasEntry.
     ebind (fail_if (Entry_Exists aliasEntry \<and>
         Unmarshal StringCodec (Entry_Value aliasEntry) \<noteq> Inr (Model_ID model)) ErrConflict) (\<lambda>_.
     let moved = (Model_ProviderID model \<noteq> Model_ProviderID oldModel) in
     ebind (readProviderEntry st (Model_ProviderID oldModel) s) (\<lambda>(oldProvider, oldProviderEntry).
     ebind (if moved then readProviderEntry st (Model_ProviderID model) s
            else Inr (oldProvider, oldProviderEntry)) (\<lambda>(newProvider, newProviderEntry).
     ebind (ensureProviderCanBackModel newProvider model) (\<lambda>_.
     ebind (readIndex st (modelsByProviderIndexKey (Model_ProviderID oldModel)) s) (\<lambda>(oldIndex, oldIndexETag).
     ebind (if moved then readIndex st (modelsByProviderIndexKey (Model_ProviderID model)) s
            else Inr (oldIndex, oldIndexETag)) (\<lambda>(newIndex, newIndexETag).
     let oldIndex' = (if moved then removeIndexID oldIndex (Model_ID model) else oldIndex);
         newIndex' = addIndexID newIndex (Model_ID model) in
     ebind (encode ModelCodec model) (\<lambda>modelValue.
     ebind (encode IndexCodec oldIndex') (\<lambda>oldIndexValue.
     ebind (encode IndexCodec newIndex') (\<lambda>newIndexValue.
     ebind (encode StringCodec (Model_ID model)) (\<lambda>aliasValue.
     ebind (providerTouchOperation oldProvider oldProviderEntry) (\<lambda>oldProviderTouch.
     let operations = [upsert (entityKey ''models'' (Model_ID model)) modelValue (Entry_ETag entityEntry),
                       upsert aliasKey aliasValue ''''] in
     if \<not> moved then
       Inr (operations @
         [upsert (modelsByProviderIndexKey (Model_ProviderID model)) newIndexValue newIndexETag,
          oldProviderTouch])
     else
       ebind (providerTouchOperation newProvider newProviderEntry) (\<lambda>newProviderTouch.
       Inr (operations @
         [upsert (modelsByProviderIndexKey (Model_ProviderID oldModel)) oldIndexValue oldIndexETag,
          upsert (modelsByProviderIndexKey (Model_ProviderID model)) newIndexValue newIndexETag,
          oldProviderTouch, newProviderTouch]))))))))))))))))))))"

definition repo_ReplaceModel ::
  "(string \<Rightarrow> string) \<Rightarrow> 's Store \<Rightarrow> Model \<Rightarrow> Model \<Rightarrow> 's \<Rightarrow> unit result \<times> 's" where
  "repo_ReplaceModel H st oldModel model s = commit st (repo_ReplaceModel_plan H st oldModel model s) s"

definition repo_DeleteModel_plan ::
  "(string \<Rightarrow> string) \<Rightarrow> 's Store \<Rightarrow> Model \<Rightarrow> 's \<Rightarrow> Operation list result" where
  "repo_DeleteModel_plan H st model s =
     ebind (Get st (entityKey ''models'' (Model_ID model)) s) (\<lambda>entityEntry.
     ebind (fail_if (\<not> Entry_Exists entityEntry) ErrNotFound) (\<lambda>_.
     ebind (wrapf ''decode models %q: %w'' [Model_ID model] (Unmarshal ModelCodec (Entry_Value entityEntry))) (\<lambda>current.
     ebind (fail_if (current \<noteq> model) ErrConflict) (\<lambda>_.
     ebind (readIndex st (indexKey ''models'') s) (\<lambda>(globalIndex, globalETag).
     ebind (readIndex st (modelsByProviderIndexKey (Model_ProviderID model)) s) (\<lambda>(providerIndex, providerIndexETag).
     ebind (encode IndexCodec (removeIndexID globalIndex (Model_ID model))) (\<lambda>globalIndexValue.
     ebind (encode IndexCodec (removeIndexID providerIndex (Model_ID model))) (\<lambda>providerIndexValue.
     let operations =
       [delete_op (entityKey ''models'' (Model_ID model)) (Entry_ETag entityEntry),
        upsert (indexKey ''models'') globalIndexValue globalETag,
        upsert (modelsByProviderIndexKey (Model_ProviderID model)) providerIndexValue providerIndexETag,
        delete_op (lookupKey H ''model-alias'' (Model_Alias model)) ''''] in
     (case readProviderEntry st (Model_ProviderID model) s of
        Inr (provider, providerEntry) \<Rightarrow>
          ebind (providerTouchOperation provider providerEntry) (\<lambda>providerTouch.
          Inr (operations @ [providerTouch]))
      | Inl providerErr \<Rightarrow>
          if providerErr \<noteq> ErrNotFound then Inl providerErr else Inr operations)))))))))"

definition repo_DeleteModel ::
  "(string \<Rightarrow> string) \<Rightarrow> 's Store \<Rightarrow> Model \<Rightarrow> 's \<Rightarrow> unit result \<times> 's" where
  "repo_DeleteModel H st model s = commit st (repo_DeleteModel_plan H st model s) s"

definition repo_DeleteProviderIfNoModels_plan ::
  "(string \<Rightarrow> string) \<Rightarrow> 's Store \<Rightarrow> Provider \<Rightarrow> 's \<Rightarrow> Operation list result" where
  "repo_DeleteProviderIfNoModels_plan H st provider s =
     ebind (readProviderEntry st (Provider_ID provider) s) (\<lambda>(current, providerEntry).
     ebind (fail_if (current \<noteq> provider) ErrConflict) (\<lambda>_.
     ebind (readIndex st (modelsByProviderIndexKey (Provider_ID provider)) s) (\<lambda>(modelIndex, modelIndexETag).
     ebind (fail_if (length (IDs modelIndex) \<noteq> 0) (conflictf ''%w: provider still has models'' [])) (\<lambda>_.
     ebind (readIndex st (indexKey ''providers'') s) (\<lambda>(providerIndex, providerIndexETag).
     ebind (encode IndexCodec (removeIndexID providerIndex (Provider_ID provider))) (\<lambda>providerIndexValue.
     Inr ([delete_op (entityKey ''providers'' (Provider_ID provider)) (Entry_ETag providerEntry),
           upsert (indexKey ''providers'') providerIndexValue providerIndexETag] @
          map (\<lambda>(key, _). delete_op key '''') (providerLookups H provider) @
          (if modelIndexETag \<noteq> ''''
           then [delete_op (modelsByProviderIndexKey (Provider_ID provider)) modelIndexETag] else []))))))))"

definition repo_DeleteProviderIfNoModels ::
  "(string \<Rightarrow> string) \<Rightarrow> 's Store \<Rightarrow> Provider \<Rightarrow> 's \<Rightarrow> unit result \<times> 's" where
  "repo_DeleteProviderIfNoModels H st provider s =
     commit st (repo_DeleteProviderIfNoModels_plan H st provider s) s"

end
