(* ===== verification/Key_Repository.thy ===== *)
theory Key_Repository
  imports Repository "HOL-Library.Char_ord" "HOL-Library.List_Lexorder"
begin

text \<open>
  \<^verbatim>\<open>VirtualKeyRepository\<close> (files \<^verbatim>\<open>repository.go\<close> and \<^verbatim>\<open>model_subject_repository.go\<close>): virtual keys,
  the projections of users (\<^verbatim>\<open>KeySubject\<close>) and models (\<^verbatim>\<open>ModelSubject\<close>) that authorize them, and the
  reverse indexes from users and models to keys. Every key mutation rewrites the subjects it depends on
  under their ETags, so that fencing a subject and referring to it cannot both commit.

  Strings are compared bytewise by \<^verbatim>\<open>slices.Sort\<close>, which is the lexicographic order on character lists.
\<close>

section \<open>User subjects\<close>

record storedSubject =
  ss_value :: KeySubject
  ss_etag :: string
  ss_exists :: bool

definition zero_KeySubject :: KeySubject where
  "zero_KeySubject = \<lparr>KS_UserID = '''', KS_Status = '''', KS_Revision = 0, KS_Deleted = False, KS_UpdatedAt = zero_time\<rparr>"

definition no_subject :: storedSubject where
  "no_subject = \<lparr>ss_value = zero_KeySubject, ss_etag = '''', ss_exists = False\<rparr>"

definition readSubject :: "'s Store \<Rightarrow> string \<Rightarrow> 's \<Rightarrow> storedSubject result" where
  "readSubject st userID s =
     ebind (wrapf ''get key subject %q: %w'' [userID] (Get st (keySubjectKey userID) s)) (\<lambda>entry.
     if \<not> Entry_Exists entry then Inr no_subject
     else ebind (wrapf ''decode key subject %q: %w'' [userID] (Unmarshal KeySubjectCodec (Entry_Value entry))) (\<lambda>subject.
     if KS_UserID subject \<noteq> userID
     then Inl (Errorf ''decode key subject %q: user_id is %q'' [userID, KS_UserID subject] [])
     else Inr \<lparr>ss_value = subject, ss_etag = Entry_ETag entry, ss_exists = True\<rparr>))"

definition repo_GetSubject :: "'s Store \<Rightarrow> string \<Rightarrow> 's \<Rightarrow> KeySubject result" where
  "repo_GetSubject st userID s =
     ebind (readSubject st userID s) (\<lambda>stored.
     if \<not> ss_exists stored then Inl ErrNotFound else Inr (ss_value stored))"

definition subjectPayloadEqual :: "KeySubject \<Rightarrow> KeySubject \<Rightarrow> bool" where
  "subjectPayloadEqual left right \<longleftrightarrow>
     KS_UserID left = KS_UserID right \<and> KS_Status left = KS_Status right \<and>
     KS_Revision left = KS_Revision right \<and> KS_Deleted left = KS_Deleted right"

definition validateSubjectPayload :: "KeySubject \<Rightarrow> unit result" where
  "validateSubjectPayload subject =
     ebind (fail_if (KS_UserID subject = '''') (conflictf ''%w: key subject user_id is required'' [])) (\<lambda>_.
     ebind (fail_if (KS_Revision subject = 0) (conflictf ''%w: key subject revision must be positive'' [])) (\<lambda>_.
     ebind (fail_if (IsZero (KS_UpdatedAt subject)) (conflictf ''%w: key subject updated_at is required'' [])) (\<lambda>_.
     ebind (fail_if (KS_Status subject \<noteq> StatusActive \<and> KS_Status subject \<noteq> StatusDisabled)
        (conflictf ''%w: key subject status is invalid'' [])) (\<lambda>_.
     fail_if (KS_Deleted subject \<and> KS_Status subject \<noteq> StatusDisabled)
        (conflictf ''%w: a deleted key subject must be disabled'' [])))))"

definition compareSubjectUpdate :: "storedSubject \<Rightarrow> KeySubject \<Rightarrow> bool result" where
  "compareSubjectUpdate current nextSubject =
     (if \<not> ss_exists current then Inr False
      else if KS_Revision nextSubject < KS_Revision (ss_value current)
      then Inl (conflictf ''%w: key subject revision is stale'' [])
      else if KS_Revision nextSubject = KS_Revision (ss_value current)
      then (if subjectPayloadEqual (ss_value current) nextSubject then Inr True
            else Inl (conflictf ''%w: key subject revision has a different payload'' []))
      else if KS_Deleted (ss_value current) \<and> \<not> KS_Deleted nextSubject
      then Inl (conflictf ''%w: a deleted key subject cannot be reactivated'' [])
      else Inr False)"

definition subjectTouchOperation :: "storedSubject \<Rightarrow> Operation result" where
  "subjectTouchOperation subject =
     ebind (fail_if (\<not> ss_exists subject) (conflictf ''%w: key subject does not exist'' [])) (\<lambda>_.
     ebind (encode KeySubjectCodec (ss_value subject)) (\<lambda>value.
     Inr (upsert (keySubjectKey (KS_UserID (ss_value subject))) value (ss_etag subject))))"

definition ensureSubjectCanOwnKey :: "storedSubject \<Rightarrow> VirtualKey \<Rightarrow> unit result" where
  "ensureSubjectCanOwnKey subject key =
     ebind (fail_if (\<not> ss_exists subject) (conflictf ''%w: key subject does not exist'' [])) (\<lambda>_.
     ebind (fail_if (KS_Deleted (ss_value subject)) (conflictf ''%w: key subject is deleted'' [])) (\<lambda>_.
     ebind (fail_if (KS_Status (ss_value subject) \<noteq> StatusActive \<and> KS_Status (ss_value subject) \<noteq> StatusDisabled)
        (conflictf ''%w: key subject status is invalid'' [])) (\<lambda>_.
     fail_if (VK_Status key = StatusActive \<and> KS_Status (ss_value subject) \<noteq> StatusActive)
        (conflictf ''%w: an active virtual key requires an active subject'' []))))"

text \<open>
  An operation that may find nothing to do: \<open>None\<close> is the early \<^verbatim>\<open>return nil\<close>, which does not reach the store.
\<close>

definition commit_unless_done :: "'s Store \<Rightarrow> Operation list option result \<Rightarrow> 's \<Rightarrow> unit result \<times> 's" where
  "commit_unless_done st plan s =
     (case plan of Inl e \<Rightarrow> (Inl e, s)
      | Inr None \<Rightarrow> (Inr (), s)
      | Inr (Some operations) \<Rightarrow> transact st operations s)"

definition SyncSubject_plan :: "'s Store \<Rightarrow> KeySubject \<Rightarrow> 's \<Rightarrow> Operation list option result" where
  "SyncSubject_plan st subject s =
     ebind (validateSubjectPayload subject) (\<lambda>_.
     ebind (fail_if (KS_Deleted subject) (conflictf ''%w: deleted key subjects must be fenced'' [])) (\<lambda>_.
     ebind (readSubject st (KS_UserID subject) s) (\<lambda>current.
     ebind (compareSubjectUpdate current subject) (\<lambda>idempotent.
     if idempotent then Inr None
     else ebind (encode KeySubjectCodec subject) (\<lambda>value.
     Inr (Some [upsert (keySubjectKey (KS_UserID subject)) value (ss_etag current)]))))))"

definition repo_SyncSubject :: "'s Store \<Rightarrow> KeySubject \<Rightarrow> 's \<Rightarrow> unit result \<times> 's" where
  "repo_SyncSubject st subject s = commit_unless_done st (SyncSubject_plan st subject s) s"

definition FenceSubject_plan :: "'s Store \<Rightarrow> KeySubject \<Rightarrow> 's \<Rightarrow> Operation list option result" where
  "FenceSubject_plan st subject s =
     ebind (validateSubjectPayload subject) (\<lambda>_.
     ebind (fail_if (\<not> KS_Deleted subject) (conflictf ''%w: a fenced key subject must be deleted'' [])) (\<lambda>_.
     ebind (readSubject st (KS_UserID subject) s) (\<lambda>current.
     ebind (wrapf ''get virtual keys by user index: %w'' []
        (readIndex st (virtualKeysByUserIndexKey (KS_UserID subject)) s)) (\<lambda>(index, _).
     ebind (fail_if (length (IDs index) \<noteq> 0) (conflictf ''%w: user still has virtual keys'' [])) (\<lambda>_.
     ebind (compareSubjectUpdate current subject) (\<lambda>idempotent.
     if idempotent then Inr None
     else ebind (encode KeySubjectCodec subject) (\<lambda>value.
     Inr (Some [upsert (keySubjectKey (KS_UserID subject)) value (ss_etag current)]))))))))"

definition repo_FenceSubject :: "'s Store \<Rightarrow> KeySubject \<Rightarrow> 's \<Rightarrow> unit result \<times> 's" where
  "repo_FenceSubject st subject s = commit_unless_done st (FenceSubject_plan st subject s) s"

section \<open>Model subjects\<close>

record storedModelSubject =
  sms_value :: ModelSubject
  sms_etag :: string
  sms_exists :: bool

record modelIndexMutation =
  mim_subject :: storedModelSubject
  mim_index :: resourceIndex
  mim_etag :: string

definition zero_ModelSubject :: ModelSubject where
  "zero_ModelSubject = \<lparr>MS_ModelID = '''', MS_Alias = '''', MS_Status = '''', MS_Revision = 0,
     MS_Deleted = False, MS_UpdatedAt = zero_time\<rparr>"

definition no_model_subject :: storedModelSubject where
  "no_model_subject = \<lparr>sms_value = zero_ModelSubject, sms_etag = '''', sms_exists = False\<rparr>"

definition readModelSubject :: "'s Store \<Rightarrow> string \<Rightarrow> 's \<Rightarrow> storedModelSubject result" where
  "readModelSubject st modelID s =
     ebind (wrapf ''get model subject %q: %w'' [modelID] (Get st (modelSubjectKey modelID) s)) (\<lambda>entry.
     if \<not> Entry_Exists entry then Inr no_model_subject
     else ebind (wrapf ''decode model subject %q: %w'' [modelID] (Unmarshal ModelSubjectCodec (Entry_Value entry))) (\<lambda>subject.
     if MS_ModelID subject \<noteq> modelID
     then Inl (Errorf ''decode model subject %q: model_id is %q'' [modelID, MS_ModelID subject] [])
     else Inr \<lparr>sms_value = subject, sms_etag = Entry_ETag entry, sms_exists = True\<rparr>))"

definition repo_GetModelSubject :: "'s Store \<Rightarrow> string \<Rightarrow> 's \<Rightarrow> ModelSubject result" where
  "repo_GetModelSubject st modelID s =
     ebind (readModelSubject st modelID s) (\<lambda>stored.
     if \<not> sms_exists stored then Inl ErrNotFound else Inr (sms_value stored))"

definition validateModelSubjectPayload :: "ModelSubject \<Rightarrow> unit result" where
  "validateModelSubjectPayload subject =
     ebind (fail_if (MS_ModelID subject = '''') (conflictf ''%w: model subject model_id is required'' [])) (\<lambda>_.
     ebind (fail_if (MS_Alias subject = '''') (conflictf ''%w: model subject alias is required'' [])) (\<lambda>_.
     ebind (fail_if (MS_Revision subject = 0) (conflictf ''%w: model subject revision must be positive'' [])) (\<lambda>_.
     ebind (fail_if (IsZero (MS_UpdatedAt subject)) (conflictf ''%w: model subject updated_at is required'' [])) (\<lambda>_.
     ebind (fail_if (MS_Status subject \<noteq> StatusActive \<and> MS_Status subject \<noteq> StatusDisabled)
        (conflictf ''%w: model subject status is invalid'' [])) (\<lambda>_.
     fail_if (MS_Deleted subject \<and> MS_Status subject \<noteq> StatusDisabled)
        (conflictf ''%w: a deleted model subject must be disabled'' []))))))"

definition modelSubjectPayloadEqual :: "ModelSubject \<Rightarrow> ModelSubject \<Rightarrow> bool" where
  "modelSubjectPayloadEqual left right \<longleftrightarrow>
     MS_ModelID left = MS_ModelID right \<and> MS_Alias left = MS_Alias right \<and> MS_Status left = MS_Status right \<and>
     MS_Revision left = MS_Revision right \<and> MS_Deleted left = MS_Deleted right"

definition compareModelSubjectUpdate :: "storedModelSubject \<Rightarrow> ModelSubject \<Rightarrow> bool result" where
  "compareModelSubjectUpdate current nextSubject =
     (if \<not> sms_exists current then Inr False
      else if MS_ModelID nextSubject \<noteq> MS_ModelID (sms_value current) \<or> MS_Alias nextSubject \<noteq> MS_Alias (sms_value current)
      then Inl (conflictf ''%w: model subject identity is immutable'' [])
      else if MS_Revision nextSubject < MS_Revision (sms_value current)
      then Inl (conflictf ''%w: model subject revision is stale'' [])
      else if MS_Revision nextSubject = MS_Revision (sms_value current)
      then (if modelSubjectPayloadEqual (sms_value current) nextSubject then Inr True
            else Inl (conflictf ''%w: model subject revision has a different payload'' []))
      else if MS_Deleted (sms_value current) \<and> \<not> MS_Deleted nextSubject
      then Inl (conflictf ''%w: a deleted model subject cannot be reactivated'' [])
      else Inr False)"

definition modelSubjectTouchOperation :: "storedModelSubject \<Rightarrow> Operation result" where
  "modelSubjectTouchOperation subject =
     ebind (fail_if (\<not> sms_exists subject) (conflictf ''%w: model subject does not exist'' [])) (\<lambda>_.
     ebind (encode ModelSubjectCodec (sms_value subject)) (\<lambda>value.
     Inr (upsert (modelSubjectKey (MS_ModelID (sms_value subject))) value (sms_etag subject))))"

definition ensureModelCanBackKey :: "storedModelSubject \<Rightarrow> VirtualKey \<Rightarrow> unit result" where
  "ensureModelCanBackKey subject key =
     ebind (fail_if (\<not> sms_exists subject) (conflictf ''%w: model subject does not exist'' [])) (\<lambda>_.
     ebind (fail_if (MS_Deleted (sms_value subject)) (conflictf ''%w: model subject is deleted'' [])) (\<lambda>_.
     ebind (fail_if (MS_Status (sms_value subject) \<noteq> StatusActive \<and> MS_Status (sms_value subject) \<noteq> StatusDisabled)
        (conflictf ''%w: model subject status is invalid'' [])) (\<lambda>_.
     fail_if (VK_Status key = StatusActive \<and> MS_Status (sms_value subject) \<noteq> StatusActive)
        (conflictf ''%w: an active virtual key requires active models'' []))))"

definition SyncModelSubject_plan :: "'s Store \<Rightarrow> ModelSubject \<Rightarrow> 's \<Rightarrow> Operation list option result" where
  "SyncModelSubject_plan st subject s =
     ebind (validateModelSubjectPayload subject) (\<lambda>_.
     ebind (fail_if (MS_Deleted subject) (conflictf ''%w: deleted model subjects must be fenced'' [])) (\<lambda>_.
     ebind (readModelSubject st (MS_ModelID subject) s) (\<lambda>current.
     ebind (compareModelSubjectUpdate current subject) (\<lambda>idempotent.
     if idempotent then Inr None
     else ebind (encode ModelSubjectCodec subject) (\<lambda>value.
     Inr (Some [upsert (modelSubjectKey (MS_ModelID subject)) value (sms_etag current)]))))))"

definition repo_SyncModelSubject :: "'s Store \<Rightarrow> ModelSubject \<Rightarrow> 's \<Rightarrow> unit result \<times> 's" where
  "repo_SyncModelSubject st subject s = commit_unless_done st (SyncModelSubject_plan st subject s) s"

definition FenceModelSubject_plan :: "'s Store \<Rightarrow> ModelSubject \<Rightarrow> 's \<Rightarrow> Operation list option result" where
  "FenceModelSubject_plan st subject s =
     ebind (validateModelSubjectPayload subject) (\<lambda>_.
     ebind (fail_if (\<not> MS_Deleted subject) (conflictf ''%w: a fenced model subject must be deleted'' [])) (\<lambda>_.
     ebind (readModelSubject st (MS_ModelID subject) s) (\<lambda>current.
     ebind (wrapf ''get virtual keys by model index: %w'' []
        (readIndex st (virtualKeysByModelIndexKey (MS_ModelID subject)) s)) (\<lambda>(index, _).
     ebind (fail_if (length (IDs index) \<noteq> 0) (conflictf ''%w: model is still referenced by virtual keys'' [])) (\<lambda>_.
     ebind (compareModelSubjectUpdate current subject) (\<lambda>idempotent.
     if idempotent then Inr None
     else ebind (encode ModelSubjectCodec subject) (\<lambda>value.
     Inr (Some [upsert (modelSubjectKey (MS_ModelID subject)) value (sms_etag current)]))))))))"

definition repo_FenceModelSubject :: "'s Store \<Rightarrow> ModelSubject \<Rightarrow> 's \<Rightarrow> unit result \<times> 's" where
  "repo_FenceModelSubject st subject s = commit_unless_done st (FenceModelSubject_plan st subject s) s"

section \<open>The reverse index from models to keys\<close>

text \<open>The set is the list it was built from, once every ID is known to be non-empty and new.\<close>

fun modelIDSet_from :: "string list \<Rightarrow> string list \<Rightarrow> string list result" where
  "modelIDSet_from seen [] = Inr seen"
| "modelIDSet_from seen (rid # ids) =
     (if rid = '''' then Inl (conflictf ''%w: virtual key model ID is empty'' [])
      else if rid \<in> set seen then Inl (conflictf ''%w: virtual key contains duplicate model ID %q'' [rid])
      else modelIDSet_from (seen @ [rid]) ids)"

definition modelIDSet :: "string list \<Rightarrow> string list result" where
  "modelIDSet ids = modelIDSet_from [] ids"

text \<open>
  Old and new IDs without repetition, sorted: the order in which the two Go maps are ranged over does
  not matter. \<open>mutations\<close> is the association list from \<^verbatim>\<open>modelIDs\<close> to their mutation, in that order.
\<close>

definition prepareModelIndexMutations ::
  "'s Store \<Rightarrow> string list \<Rightarrow> string list \<Rightarrow> VirtualKey \<Rightarrow> 's \<Rightarrow> (string \<times> modelIndexMutation) list result" where
  "prepareModelIndexMutations st oldIDs newIDs key s =
     ebind (modelIDSet oldIDs) (\<lambda>oldSet.
     ebind (modelIDSet newIDs) (\<lambda>newSet.
     emap (\<lambda>modelID.
       ebind (readModelSubject st modelID s) (\<lambda>subject.
       ebind (if modelID \<in> set newSet then wrapf ''model %q: %w'' [modelID] (ensureModelCanBackKey subject key)
              else fail_if (\<not> sms_exists subject \<or> MS_Deleted (sms_value subject))
                (conflictf ''%w: referenced model subject %q is unavailable'' [modelID])) (\<lambda>_.
       ebind (wrapf ''get virtual keys by model index: %w'' []
         (readIndex st (virtualKeysByModelIndexKey modelID) s)) (\<lambda>(index, etag).
       Inr (modelID, \<lparr>mim_subject = subject, mim_index = index, mim_etag = etag\<rparr>)))))
     (sort (oldSet @ filter (\<lambda>rid. rid \<notin> set oldSet) newSet))))"

definition modelIndexOperations ::
  "(string \<times> modelIndexMutation) list \<Rightarrow> string \<Rightarrow> string list \<Rightarrow> string list \<Rightarrow> Operation list result" where
  "modelIndexOperations mutations keyID oldIDs newIDs =
     ebind (emap (\<lambda>(modelID, mutation).
       let index = (if modelID \<in> set oldIDs \<and> modelID \<notin> set newIDs
                    then removeIndexID (mim_index mutation) keyID else mim_index mutation);
           index' = (if modelID \<in> set newIDs then addIndexID index keyID else index) in
       ebind (encode IndexCodec index') (\<lambda>value.
       ebind (modelSubjectTouchOperation (mim_subject mutation)) (\<lambda>touch.
       Inr [upsert (virtualKeysByModelIndexKey modelID) value (mim_etag mutation), touch])))
     mutations) (\<lambda>operations. Inr (concat operations))"

section \<open>Virtual keys\<close>

definition repo_GetVirtualKey :: "'s Store \<Rightarrow> string \<Rightarrow> 's \<Rightarrow> VirtualKey result" where
  "repo_GetVirtualKey st rid s = getResource VirtualKeyCodec st ''virtual-keys'' rid s"

definition repo_GetVirtualKeyByHash :: "(string \<Rightarrow> string) \<Rightarrow> 's Store \<Rightarrow> string \<Rightarrow> 's \<Rightarrow> VirtualKey result" where
  "repo_GetVirtualKeyByHash H st hash s =
     ebind (lookup H st ''key-hash'' hash s) (\<lambda>rid. repo_GetVirtualKey st rid s)"

definition repo_ListVirtualKeys :: "'s Store \<Rightarrow> 's \<Rightarrow> VirtualKey list result" where
  "repo_ListVirtualKeys st s = listResources VirtualKeyCodec st ''virtual-keys'' s"

definition repo_ListVirtualKeysByUser :: "'s Store \<Rightarrow> string \<Rightarrow> 's \<Rightarrow> VirtualKey list result" where
  "repo_ListVirtualKeysByUser st userID s =
     listResourcesAtIndex VirtualKeyCodec st ''virtual-keys'' (virtualKeysByUserIndexKey userID) s"

definition CreateVirtualKey_plan ::
  "(string \<Rightarrow> string) \<Rightarrow> 's Store \<Rightarrow> VirtualKey \<Rightarrow> 's \<Rightarrow> Operation list result" where
  "CreateVirtualKey_plan H st key s =
     ebind (fail_if (length (VK_ModelIDs key) = 0) (conflictf ''%w: virtual key requires at least one model'' [])) (\<lambda>_.
     ebind (Get st (entityKey ''virtual-keys'' (VK_ID key)) s) (\<lambda>entityEntry.
     ebind (fail_if (Entry_Exists entityEntry) ErrConflict) (\<lambda>_.
     let hashLookupKey = lookupKey H ''key-hash'' (VK_KeyHash key) in
     ebind (Get st hashLookupKey s) (\<lambda>existingLookup.
     ebind (fail_if (Entry_Exists existingLookup) ErrConflict) (\<lambda>_.
     ebind (readSubject st (VK_UserID key) s) (\<lambda>subject.
     ebind (ensureSubjectCanOwnKey subject key) (\<lambda>_.
     ebind (prepareModelIndexMutations st [] (VK_ModelIDs key) key s) (\<lambda>mutations.
     ebind (readIndex st (indexKey ''virtual-keys'') s) (\<lambda>(globalIndex, globalETag).
     ebind (readIndex st (virtualKeysByUserIndexKey (VK_UserID key)) s) (\<lambda>(userIndex, userETag).
     ebind (encode VirtualKeyCodec key) (\<lambda>entityValue.
     ebind (encode IndexCodec (addIndexID globalIndex (VK_ID key))) (\<lambda>globalIndexValue.
     ebind (encode IndexCodec (addIndexID userIndex (VK_ID key))) (\<lambda>userIndexValue.
     ebind (encode StringCodec (VK_ID key)) (\<lambda>lookupValue.
     ebind (subjectTouchOperation subject) (\<lambda>touch.
     ebind (modelIndexOperations mutations (VK_ID key) [] (VK_ModelIDs key)) (\<lambda>modelOperations.
     Inr ([upsert (entityKey ''virtual-keys'' (VK_ID key)) entityValue '''',
           upsert (indexKey ''virtual-keys'') globalIndexValue globalETag,
           upsert hashLookupKey lookupValue '''',
           upsert (virtualKeysByUserIndexKey (VK_UserID key)) userIndexValue userETag,
           touch] @ modelOperations)))))))))))))))))"

definition repo_CreateVirtualKey ::
  "(string \<Rightarrow> string) \<Rightarrow> 's Store \<Rightarrow> VirtualKey \<Rightarrow> 's \<Rightarrow> unit result \<times> 's" where
  "repo_CreateVirtualKey H st key s = commit st (CreateVirtualKey_plan H st key s) s"

definition ReplaceVirtualKey_plan ::
  "(string \<Rightarrow> string) \<Rightarrow> 's Store \<Rightarrow> VirtualKey \<Rightarrow> VirtualKey \<Rightarrow> 's \<Rightarrow> Operation list result" where
  "ReplaceVirtualKey_plan H st oldKey key s =
     ebind (fail_if (VK_ID oldKey \<noteq> VK_ID key) (conflictf ''%w: virtual key ID is immutable'' [])) (\<lambda>_.
     ebind (fail_if (length (VK_ModelIDs key) = 0) (conflictf ''%w: virtual key requires at least one model'' [])) (\<lambda>_.
     ebind (Get st (entityKey ''virtual-keys'' (VK_ID key)) s) (\<lambda>entityEntry.
     ebind (fail_if (\<not> Entry_Exists entityEntry) ErrNotFound) (\<lambda>_.
     ebind (wrapf ''decode virtual-keys %q: %w'' [VK_ID key] (Unmarshal VirtualKeyCodec (Entry_Value entityEntry))) (\<lambda>current.
     ebind (fail_if (current \<noteq> oldKey) ErrConflict) (\<lambda>_.
     let newLookupKey = lookupKey H ''key-hash'' (VK_KeyHash key) in
     ebind (Get st newLookupKey s) (\<lambda>existingLookup.
     ebind (fail_if (Entry_Exists existingLookup \<and>
         Unmarshal StringCodec (Entry_Value existingLookup) \<noteq> Inr (VK_ID key)) ErrConflict) (\<lambda>_.
     let moved = (VK_UserID key \<noteq> VK_UserID current) in
     ebind (readSubject st (VK_UserID current) s) (\<lambda>oldSubject.
     ebind (fail_if (\<not> ss_exists oldSubject) (conflictf ''%w: current key subject does not exist'' [])) (\<lambda>_.
     ebind (if moved then readSubject st (VK_UserID key) s else Inr oldSubject) (\<lambda>newSubject.
     ebind (ensureSubjectCanOwnKey newSubject key) (\<lambda>_.
     ebind (prepareModelIndexMutations st (VK_ModelIDs current) (VK_ModelIDs key) key s) (\<lambda>mutations.
     ebind (readIndex st (virtualKeysByUserIndexKey (VK_UserID current)) s) (\<lambda>(oldUserIndex, oldUserETag).
     ebind (if moved then readIndex st (virtualKeysByUserIndexKey (VK_UserID key)) s
            else Inr (oldUserIndex, oldUserETag)) (\<lambda>(newUserIndex, newUserETag).
     ebind (encode VirtualKeyCodec key) (\<lambda>entityValue.
     ebind (encode StringCodec (VK_ID key)) (\<lambda>lookupValue.
     ebind (encode IndexCodec (if moved then removeIndexID oldUserIndex (VK_ID key) else oldUserIndex)) (\<lambda>oldIndexValue.
     ebind (encode IndexCodec (addIndexID newUserIndex (VK_ID key))) (\<lambda>newIndexValue.
     ebind (subjectTouchOperation oldSubject) (\<lambda>oldTouch.
     let oldLookupKey = lookupKey H ''key-hash'' (VK_KeyHash current) in
     ebind (if \<not> moved
            then Inr [upsert (virtualKeysByUserIndexKey (VK_UserID key)) newIndexValue newUserETag, oldTouch]
            else ebind (subjectTouchOperation newSubject) (\<lambda>newTouch.
              Inr [upsert (virtualKeysByUserIndexKey (VK_UserID current)) oldIndexValue oldUserETag,
                   upsert (virtualKeysByUserIndexKey (VK_UserID key)) newIndexValue newUserETag,
                   oldTouch, newTouch])) (\<lambda>userOperations.
     ebind (modelIndexOperations mutations (VK_ID key) (VK_ModelIDs current) (VK_ModelIDs key)) (\<lambda>modelOperations.
     Inr ([upsert (entityKey ''virtual-keys'' (VK_ID key)) entityValue (Entry_ETag entityEntry)] @
          (if oldLookupKey \<noteq> newLookupKey then [delete_op oldLookupKey ''''] else []) @
          [upsert newLookupKey lookupValue ''''] @ userOperations @ modelOperations)))))))))))))))))))))))"

definition repo_ReplaceVirtualKey ::
  "(string \<Rightarrow> string) \<Rightarrow> 's Store \<Rightarrow> VirtualKey \<Rightarrow> VirtualKey \<Rightarrow> 's \<Rightarrow> unit result \<times> 's" where
  "repo_ReplaceVirtualKey H st oldKey key s = commit st (ReplaceVirtualKey_plan H st oldKey key s) s"

definition DeleteVirtualKey_plan ::
  "(string \<Rightarrow> string) \<Rightarrow> 's Store \<Rightarrow> VirtualKey \<Rightarrow> 's \<Rightarrow> Operation list result" where
  "DeleteVirtualKey_plan H st key s =
     ebind (Get st (entityKey ''virtual-keys'' (VK_ID key)) s) (\<lambda>entityEntry.
     ebind (fail_if (\<not> Entry_Exists entityEntry) ErrNotFound) (\<lambda>_.
     ebind (wrapf ''decode virtual-keys %q: %w'' [VK_ID key] (Unmarshal VirtualKeyCodec (Entry_Value entityEntry))) (\<lambda>current.
     ebind (fail_if (current \<noteq> key) ErrConflict) (\<lambda>_.
     ebind (readSubject st (VK_UserID current) s) (\<lambda>subject.
     ebind (fail_if (\<not> ss_exists subject) (conflictf ''%w: current key subject does not exist'' [])) (\<lambda>_.
     ebind (prepareModelIndexMutations st (VK_ModelIDs current) [] current s) (\<lambda>mutations.
     ebind (readIndex st (indexKey ''virtual-keys'') s) (\<lambda>(globalIndex, globalETag).
     ebind (readIndex st (virtualKeysByUserIndexKey (VK_UserID current)) s) (\<lambda>(userIndex, userETag).
     ebind (encode IndexCodec (removeIndexID globalIndex (VK_ID current))) (\<lambda>globalIndexValue.
     ebind (encode IndexCodec (removeIndexID userIndex (VK_ID current))) (\<lambda>userIndexValue.
     ebind (subjectTouchOperation subject) (\<lambda>touch.
     ebind (modelIndexOperations mutations (VK_ID current) (VK_ModelIDs current) []) (\<lambda>modelOperations.
     Inr ([delete_op (entityKey ''virtual-keys'' (VK_ID current)) (Entry_ETag entityEntry),
           upsert (indexKey ''virtual-keys'') globalIndexValue globalETag,
           delete_op (lookupKey H ''key-hash'' (VK_KeyHash current)) '''',
           upsert (virtualKeysByUserIndexKey (VK_UserID current)) userIndexValue userETag,
           touch] @ modelOperations))))))))))))))"

definition repo_DeleteVirtualKey ::
  "(string \<Rightarrow> string) \<Rightarrow> 's Store \<Rightarrow> VirtualKey \<Rightarrow> 's \<Rightarrow> unit result \<times> 's" where
  "repo_DeleteVirtualKey H st key s = commit st (DeleteVirtualKey_plan H st key s) s"

end
