(* ===== verification/ETag.thy ===== *)
theory ETag
  imports Resources
begin

text \<open>
  File \<^verbatim>\<open>internal/controlplane/etag.go\<close>: strong validators of the public representations and the
  evaluation of \<^verbatim>\<open>If-Match\<close>. The cursor \<^verbatim>\<open>offset\<close> of the parser is the suffix of the header that it
  has not read. The hexadecimal SHA-256 digest of an encoded value is the argument \<open>digest\<close>.
\<close>

section \<open>Entity tags\<close>

definition Marshal :: "'a Codec \<Rightarrow> 'a \<Rightarrow> json result" where
  "Marshal C x = (if marshalable C x then Inr (json_of C x) else Inl (LibraryError ''json: error calling MarshalJSON''))"

definition Marshal_PublicVirtualKey :: "PublicVirtualKey \<Rightarrow> json result" where
  "Marshal_PublicVirtualKey k =
     (if (case PVK_ExpiresAt k of None \<Rightarrow> True | Some t \<Rightarrow> marshalable_time t) \<and>
         marshalable_time (PVK_CreatedAt k) \<and> marshalable_time (PVK_UpdatedAt k)
      then Inr (json_of_PublicVirtualKey k) else Inl (LibraryError ''json: error calling MarshalJSON''))"

definition entityETag :: "(json \<Rightarrow> string) \<Rightarrow> json result \<Rightarrow> string result" where
  "entityETag digest value =
     ebind (wrapf ''encode resource ETag: %w'' [] value) (\<lambda>encoded.
     Inr (CHR 0x22 # digest encoded @ [CHR 0x22]))"

record parsedEntityTag =
  tag_value :: string
  tag_weak :: bool

record ifMatchPrecondition =
  pre_present :: bool
  pre_value :: string

definition no_precondition :: ifMatchPrecondition where
  "no_precondition = \<lparr>pre_present = False, pre_value = ''''\<rparr>"

definition optionalIfMatch :: "string \<Rightarrow> ifMatchPrecondition" where
  "optionalIfMatch value = \<lparr>pre_present = (value \<noteq> ''''), pre_value = value\<rparr>"

section \<open>Parsing \<^verbatim>\<open>If-Match\<close>\<close>

definition if_match_error :: "string \<Rightarrow> error" where
  "if_match_error message = ValidationError ''if_match'' message []"

definition skip_blanks :: "string \<Rightarrow> string" where
  "skip_blanks value = dropWhile (\<lambda>c. c = CHR '' '' \<or> c = CHR 0x09) value"

definition invalid_etag_char :: "char \<Rightarrow> bool" where
  "invalid_etag_char c \<longleftrightarrow> byte c \<noteq> 0x21 \<and> (byte c < 0x23 \<or> byte c > 0x7e) \<and> byte c < 0x80"

text \<open>The opaque part after the opening quote, up to and without the closing one; and the rest.\<close>

fun scan_opaque :: "string \<Rightarrow> (string \<times> string) result" where
  "scan_opaque [] = Inl (if_match_error ''contains an unterminated entity tag'')"
| "scan_opaque (c # cs) =
     (if c = CHR 0x22 then Inr ([], cs)
      else if invalid_etag_char c then Inl (if_match_error ''contains an invalid entity tag'')
      else ebind (scan_opaque cs) (\<lambda>(content, rest). Inr (c # content, rest)))"

lemma scan_opaque_length: "scan_opaque cs = Inr (content, rest) \<Longrightarrow> length rest < length cs"
  by (induction cs arbitrary: content) (auto split: if_splits)

lemma skip_blanks_length: "length (skip_blanks cs) \<le> length cs"
  by (simp add: skip_blanks_def length_dropWhile_le)

lemma ebind_cong [fundef_cong]:
  "m = m' \<Longrightarrow> (\<And>x. m' = Inr x \<Longrightarrow> f x = g x) \<Longrightarrow> ebind m f = ebind m' g"
  by (cases m') auto

function parse_tags :: "string \<Rightarrow> parsedEntityTag list result" where
  "parse_tags value =
     (if value = [] then Inr []
      else
        let v1 = skip_blanks value;
            weak = (take 2 v1 = ''W/'');
            v2 = (if weak then drop 2 v1 else v1)
        in case v2 of
             [] \<Rightarrow> Inl (if_match_error ''must be * or one or more valid entity tags'')
           | q # v3 \<Rightarrow>
               if q \<noteq> CHR 0x22 then Inl (if_match_error ''must be * or one or more valid entity tags'')
               else ebind (scan_opaque v3) (\<lambda>(content, v4).
                 let tag = \<lparr>tag_value = CHR 0x22 # content @ [CHR 0x22], tag_weak = weak\<rparr>
                 in case skip_blanks v4 of
                      [] \<Rightarrow> Inr [tag]
                    | c # v5 \<Rightarrow>
                        if c \<noteq> CHR '','' then Inl (if_match_error ''must separate entity tags with commas'')
                        else if v5 = [] then Inl (if_match_error ''must not end with a comma'')
                        else ebind (parse_tags v5) (\<lambda>tags. Inr (tag # tags))))"
  by pat_completeness auto
termination
proof (relation "measure length", goal_cases)
  case (2 v v1 weak v2 q v3 p content v4 tag c v5)
  have "length v5 < length (skip_blanks v4)" using 2 by simp
  also have "\<dots> \<le> length v4" by (rule skip_blanks_length)
  also have "\<dots> < length v3" using 2 scan_opaque_length [of v3 content v4] by simp
  also have "\<dots> < length v2" using 2(5) by simp
  also have "\<dots> \<le> length v1" using 2 by simp
  also have "\<dots> \<le> length v" using 2 skip_blanks_length by simp
  finally show ?case by simp
qed simp

declare parse_tags.simps [simp del]

definition parseIfMatch :: "string \<Rightarrow> (parsedEntityTag list \<times> bool) result" where
  "parseIfMatch header =
     (let value = TrimSpace header in
      if value = '''' then Inl (if_match_error ''must be * or one or more valid entity tags'')
      else if value = ''*'' then Inr ([], True)
      else ebind (parse_tags value) (\<lambda>tags.
        if length tags = 0 then Inl (if_match_error ''must contain an entity tag'') else Inr (tags, False)))"

definition enforceIfMatch :: "(json \<Rightarrow> string) \<Rightarrow> ifMatchPrecondition \<Rightarrow> json result \<Rightarrow> unit result" where
  "enforceIfMatch digest precondition current =
     (if \<not> pre_present precondition then Inr ()
      else ebind (parseIfMatch (pre_value precondition)) (\<lambda>(tags, wildcard).
        if wildcard then Inr ()
        else ebind (entityETag digest current) (\<lambda>currentTag.
          if list_ex (\<lambda>candidate. \<not> tag_weak candidate \<and> tag_value candidate = currentTag) tags then Inr ()
          else Inl (conflictf ''%w: resource changed since it was loaded'' []))))"

section \<open>What the parser accepts\<close>

definition print_tag :: "parsedEntityTag \<Rightarrow> string" where
  "print_tag tag = (if tag_weak tag then ''W/'' else '''') @ tag_value tag"

fun print_tags :: "parsedEntityTag list \<Rightarrow> string" where
  "print_tags [] = ''''"
| "print_tags [tag] = print_tag tag"
| "print_tags (tag # tags) = print_tag tag @ '', '' @ print_tags tags"

definition valid_tag :: "parsedEntityTag \<Rightarrow> bool" where
  "valid_tag tag \<longleftrightarrow> (\<exists>content. tag_value tag = CHR 0x22 # content @ [CHR 0x22] \<and>
     (\<forall>c \<in> set content. c \<noteq> CHR 0x22 \<and> \<not> invalid_etag_char c))"

lemma scan_opaque_content:
  "\<forall>c \<in> set content. c \<noteq> CHR 0x22 \<and> \<not> invalid_etag_char c \<Longrightarrow>
     scan_opaque (content @ CHR 0x22 # rest) = Inr (content, rest)"
  by (induction content) auto

lemma scan_opaque_Inr:
  "scan_opaque cs = Inr (content, rest) \<Longrightarrow>
     cs = content @ CHR 0x22 # rest \<and> (\<forall>c \<in> set content. c \<noteq> CHR 0x22 \<and> \<not> invalid_etag_char c)"
  by (induction cs arbitrary: content) (auto split: if_splits)

lemma skip_blanks_simps [simp]:
  "skip_blanks (CHR 0x22 # cs) = CHR 0x22 # cs" "skip_blanks (CHR ''W'' # cs) = CHR ''W'' # cs"
  "skip_blanks (CHR '','' # cs) = CHR '','' # cs" "skip_blanks [] = []" "skip_blanks (CHR '' '' # cs) = skip_blanks cs"
  by (simp_all add: skip_blanks_def)

lemma parse_tag_step:
  assumes "valid_tag tag"
  shows "parse_tags (print_tag tag @ rest) =
    (case skip_blanks rest of
       [] \<Rightarrow> Inr [tag]
     | c # v5 \<Rightarrow>
         if c \<noteq> CHR '','' then Inl (if_match_error ''must separate entity tags with commas'')
         else if v5 = [] then Inl (if_match_error ''must not end with a comma'')
         else ebind (parse_tags v5) (\<lambda>tags. Inr (tag # tags)))"
proof -
  from assms obtain content w where t: "tag = \<lparr>tag_value = CHR 0x22 # content @ [CHR 0x22], tag_weak = w\<rparr>"
    and c: "\<forall>c \<in> set content. c \<noteq> CHR 0x22 \<and> \<not> invalid_etag_char c" by (cases tag) (auto simp: valid_tag_def)
  show ?thesis
    by (subst parse_tags.simps, cases w)
      (simp_all add: print_tag_def t scan_opaque_content [OF c] Let_def split: list.splits)
qed

lemma parse_tags_skip:
  assumes "v \<noteq> []" "w \<noteq> []" "skip_blanks v = skip_blanks w"
  shows "parse_tags v = parse_tags w"
  by (rule trans [OF parse_tags.simps [of v]], rule trans [OF _ parse_tags.simps [of w, symmetric]])
    (simp only: assms if_False)

lemma parse_tags_blank: "cs \<noteq> [] \<Longrightarrow> parse_tags (CHR '' '' # cs) = parse_tags cs"
  by (rule parse_tags_skip) simp_all

lemma print_tag_nonempty: "valid_tag tag \<Longrightarrow> print_tag tag \<noteq> []"
  unfolding valid_tag_def print_tag_def by (elim exE conjE) simp

lemma print_tags_nonempty: "tags \<noteq> [] \<Longrightarrow> list_all valid_tag tags \<Longrightarrow> print_tags tags \<noteq> []"
  by (induction tags rule: print_tags.induct) (auto simp: print_tag_nonempty)

lemma parse_print_tags:
  "tags \<noteq> [] \<Longrightarrow> list_all valid_tag tags \<Longrightarrow> parse_tags (print_tags tags) = Inr tags"
proof (induction tags rule: print_tags.induct)
  case (2 tag)
  then show ?case using parse_tag_step [of tag "[]"] by simp
next
  case (3 tag t ts)
  then have "print_tags (t # ts) \<noteq> []" by (intro print_tags_nonempty) auto
  with 3 show ?case by (simp add: parse_tag_step parse_tags_blank)
qed simp

text \<open>A tag that the service issued is accepted, as long as the digest is hexadecimal.\<close>

definition is_hex :: "char \<Rightarrow> bool" where
  "is_hex c \<longleftrightarrow> c \<in> set ''0123456789abcdef''"

definition hex_digest :: "(json \<Rightarrow> string) \<Rightarrow> bool" where
  "hex_digest digest \<longleftrightarrow> (\<forall>j. list_all is_hex (digest j))"

lemma hex_valid: "is_hex c \<Longrightarrow> c \<noteq> CHR 0x22 \<and> \<not> invalid_etag_char c"
  by (auto simp: is_hex_def invalid_etag_char_def byte_def)

lemma issued_tag_valid:
  assumes "hex_digest digest" "entityETag digest current = Inr t"
  shows "valid_tag \<lparr>tag_value = t, tag_weak = w\<rparr>"
  using assms hex_valid by (auto simp: entityETag_def valid_tag_def hex_digest_def list_all_iff)

lemma trim_with_start: "trim_with p2 p3 (a # s) = a # s"
  if "\<not> space1 (byte a)" "\<And>b. \<not> p2 (byte a) b" "\<And>b c. \<not> p3 (byte a) b c"
  using that by (cases s rule: list.exhaust; cases "tl s") auto

lemma TrimSpace_framed:
  assumes "byte a \<in> {33..126}" "byte z \<in> {33..126}"
  shows "TrimSpace (a # s @ [z]) = a # s @ [z]"
proof -
  have "TrimLeft (a # s @ [z]) = a # s @ [z]"
    unfolding TrimLeft_def using assms by (intro trim_with_start) (auto simp: space1_def space2_def space3_def)
  moreover have "TrimRight (a # s @ [z]) = a # s @ [z]"
    unfolding TrimRight_def
    using trim_with_start [of z "\<lambda>b a. space2 a b" "\<lambda>c b a. space3 a b c" "rev s @ [a]"] assms
    by (auto simp: space1_def space2_def space3_def)
  ultimately show ?thesis by (simp add: TrimSpace_def)
qed

lemma TrimSpace_quoted: "TrimSpace (CHR 0x22 # s @ [CHR 0x22]) = CHR 0x22 # s @ [CHR 0x22]"
  by (rule TrimSpace_framed) (simp_all add: byte_def)

lemma parse_issued:
  assumes "hex_digest digest" "entityETag digest current = Inr t"
  shows "parseIfMatch t = Inr ([\<lparr>tag_value = t, tag_weak = False\<rparr>], False)"
proof -
  let ?tag = "\<lparr>tag_value = t, tag_weak = False\<rparr>"
  from assms(2) obtain s where t: "t = CHR 0x22 # s @ [CHR 0x22]" by (auto simp: entityETag_def)
  have "parse_tags t = Inr [?tag]"
    using parse_print_tags [of "[?tag]"] issued_tag_valid [OF assms, of False] by (simp add: print_tag_def)
  then show ?thesis by (simp add: parseIfMatch_def t TrimSpace_quoted)
qed

text \<open>The evaluation of a precondition, branch by branch.\<close>

lemma enforceIfMatch_absent: "enforceIfMatch digest no_precondition current = Inr ()"
  by (simp add: enforceIfMatch_def no_precondition_def)

lemma enforceIfMatch_ok_iff:
  "enforceIfMatch digest precondition current = Inr () \<longleftrightarrow>
     \<not> pre_present precondition \<or>
     (\<exists>tags. parseIfMatch (pre_value precondition) = Inr (tags, True)) \<or>
     (\<exists>tags t. parseIfMatch (pre_value precondition) = Inr (tags, False) \<and> entityETag digest current = Inr t \<and>
        \<lparr>tag_value = t, tag_weak = False\<rparr> \<in> set tags)"
proof -
  have strong: "list_ex (\<lambda>c. \<not> tag_weak c \<and> tag_value c = t) tags \<longleftrightarrow> \<lparr>tag_value = t, tag_weak = False\<rparr> \<in> set tags"
    for t tags
  proof (induction tags)
    case (Cons c tags)
    then show ?case by (cases c) auto
  qed simp
  show ?thesis
    by (cases "pre_present precondition"; cases "parseIfMatch (pre_value precondition)"; cases "entityETag digest current")
      (auto simp: enforceIfMatch_def strong split: if_splits)
qed

section \<open>Properties\<close>

lemma print_tags_last: "tags \<noteq> [] \<Longrightarrow> list_all valid_tag tags \<Longrightarrow> \<exists>s. print_tags tags = s @ [CHR 0x22]"
proof (induction tags rule: print_tags.induct)
  case (2 tag)
  then obtain content where "tag_value tag = CHR 0x22 # content @ [CHR 0x22]" by (auto simp: valid_tag_def)
  then show ?case by (simp add: print_tag_def)
next
  case (3 tag t ts)
  then obtain s where "print_tags (t # ts) = s @ [CHR 0x22]" by auto
  then show ?case by simp
qed simp

lemma print_tags_framed:
  assumes "tags \<noteq> []" "list_all valid_tag tags"
  obtains a s where "print_tags tags = a # s @ [CHR 0x22]" "byte a \<in> {33..126}"
proof -
  obtain tag ts where tags: "tags = tag # ts" using assms(1) by (cases tags) auto
  then obtain content where c: "tag_value tag = CHR 0x22 # content @ [CHR 0x22]" using assms(2) by (auto simp: valid_tag_def)
  from print_tags_last [OF assms] obtain p where p: "print_tags tags = p @ [CHR 0x22]" by blast
  have "\<exists>a r. print_tags tags = a # r \<and> r \<noteq> [] \<and> byte a \<in> {33..126}"
    by (cases ts; cases "tag_weak tag") (simp_all add: tags print_tag_def c byte_def)
  then obtain a r where r: "print_tags tags = a # r" "r \<noteq> []" "byte a \<in> {33..126}" by blast
  with p have "r = butlast r @ [CHR 0x22]" by (cases p) auto
  with r show thesis using that by metis
qed

lemma parse_tags_valid: "parse_tags v = Inr tags \<Longrightarrow> list_all valid_tag tags \<and> (v \<noteq> [] \<longrightarrow> tags \<noteq> [])"
proof (induction v arbitrary: tags rule: parse_tags.induct)
  case (1 v)
  show ?case
  proof (cases "v = []")
    case True
    with 1(2) show ?thesis by (simp add: parse_tags.simps)
  next
    case False
    define weak where "weak = (take 2 (skip_blanks v) = ''W/'')"
    define v2 where "v2 = (if weak then drop 2 (skip_blanks v) else skip_blanks v)"
    note unfold = parse_tags.simps [of v, unfolded Let_def, folded weak_def, folded v2_def]
    from 1(2) False obtain v3 content v4 where v3: "v2 = CHR 0x22 # v3" and v4: "scan_opaque v3 = Inr (content, v4)"
      unfolding unfold by (cases v2) (auto split: if_splits)
    let ?tag = "\<lparr>tag_value = CHR 0x22 # content @ [CHR 0x22], tag_weak = weak\<rparr>"
    have ok: "valid_tag ?tag" using scan_opaque_Inr [OF v4] by (auto simp: valid_tag_def)
    show ?thesis
    proof (cases "skip_blanks v4")
      case Nil
      then have "tags = [?tag]" using 1(2) False unfolding unfold v3 by (simp add: v4)
      then show ?thesis using ok by simp
    next
      case (Cons c v5)
      then obtain ts where ts: "parse_tags v5 = Inr ts" "c = CHR '',''" "v5 \<noteq> []" "tags = ?tag # ts"
        using 1(2) False unfolding unfold v3 by (auto simp: v4 split: if_splits)
      have "list_all valid_tag ts"
        using 1(1) [OF False refl weak_def v2_def v3 _ v4 refl refl Cons _ ts(3,1)] ts(2) by simp
      with ts ok show ?thesis by simp
    qed
  qed
qed

text \<open>
  The If-Match parser accepts exactly the entity-tag lists, up to blanks. Every list of
  well-formed strong or weak tags, printed with commas between them, parses back to itself, and
  whatever the parser accepts other than the wildcard is a non-empty list of well-formed tags.
\<close>

lemma parseIfMatch_roundtrip:
  "(tags \<noteq> [] \<longrightarrow> list_all valid_tag tags \<longrightarrow> parseIfMatch (print_tags tags) = Inr (tags, False))
   \<and> (parseIfMatch header = Inr (parsed, False) \<longrightarrow> parsed \<noteq> [] \<and> list_all valid_tag parsed)
   \<and> (parseIfMatch header = Inr (parsed, True) \<longrightarrow> parsed = [] \<and> TrimSpace header = ''*'')"
proof (intro conjI impI)
  assume t: "tags \<noteq> []" "list_all valid_tag tags"
  obtain a s where f: "print_tags tags = a # s @ [CHR 0x22]" "byte a \<in> {33..126}" by (rule print_tags_framed [OF t])
  have trim: "TrimSpace (a # s @ [CHR 0x22]) = a # s @ [CHR 0x22]" by (rule TrimSpace_framed) (use f(2) in \<open>auto simp: byte_def\<close>)
  have "parse_tags (a # s @ [CHR 0x22]) = Inr tags" using parse_print_tags [OF t] f(1) by simp
  then show "parseIfMatch (print_tags tags) = Inr (tags, False)" using t(1) by (auto simp: parseIfMatch_def f(1) trim)
qed (use parse_tags_valid in \<open>auto simp: parseIfMatch_def Let_def split: if_splits\<close>)

text \<open>
  A conditional request is optimistic concurrency control. With the ETag that was issued for a
  representation, a later If-Match check passes exactly when the current representation has the same
  ETag, and otherwise fails with a conflict; without the header it always passes. The digest is
  the hexadecimal SHA-256 of the encoding.
\<close>

lemma IfMatch_detects_change:
  assumes "hex_digest digest" and "entityETag digest before = Inr t"
  shows "enforceIfMatch digest (optionalIfMatch t) current =
      (case entityETag digest current of Inl e \<Rightarrow> Inl e
       | Inr t' \<Rightarrow> if t' = t then Inr () else Inl (conflictf ''%w: resource changed since it was loaded'' []))
    \<and> enforceIfMatch digest (optionalIfMatch '''') current = Inr ()"
proof -
  have "t \<noteq> []" using assms(2) by (auto simp: entityETag_def)
  then show ?thesis using parse_issued [OF assms]
    by (auto simp: enforceIfMatch_def optionalIfMatch_def split: sum.splits)
qed

end
