(* ===== verification/Services.thy ===== *)
theory Services
  imports Model_Repository Key_Repository ETag
begin

text \<open>
  The application services: \<^verbatim>\<open>ResourceService\<close> (files \<^verbatim>\<open>service.go\<close>, \<^verbatim>\<open>model_service.go\<close>,
  \<^verbatim>\<open>provider_validation.go\<close>) and \<^verbatim>\<open>VirtualKeyService\<close> (\<^verbatim>\<open>virtual_key_service.go\<close>), the client of
  its registry endpoints (\<^verbatim>\<open>subject_client.go\<close>) and identifier generation (\<^verbatim>\<open>platform/ids.go\<close>).

  What the code takes from the world is an argument: the clock, the random bytes, and, in \<open>Library\<close>,
  the Unicode and mail-address functions of the Go standard library. A service method is a step on
  the states it can reach; the user mutex and the model mutex make a method one step.
\<close>

section \<open>Identifiers\<close>

definition hex_digit :: "nat \<Rightarrow> char" where
  "hex_digit n = ''0123456789abcdef'' ! (n mod 16)"

definition hex_EncodeToString :: "nat list \<Rightarrow> string" where
  "hex_EncodeToString bytes = concat (map (\<lambda>b. [hex_digit (b div 16), hex_digit b]) bytes)"

text \<open>\<open>random\<close> is the outcome of \<^verbatim>\<open>rand.Read\<close> into 16 bytes.\<close>

definition NewID :: "string \<Rightarrow> nat list result \<Rightarrow> string result" where
  "NewID prefix random =
     ebind (wrapf ''generate random id: %w'' [] random) (\<lambda>bytes. Inr (prefix @ ''_'' @ hex_EncodeToString bytes))"

section \<open>Inputs and validation\<close>

record Library =
  ToLower :: "string \<Rightarrow> string"
  EqualFold :: "string \<Rightarrow> string \<Rightarrow> bool"
  ParseAddress :: "string \<Rightarrow> string result"  \<comment> \<open>the \<^verbatim>\<open>Address\<close> field of the parsed address\<close>

record UserInput =
  UI_Name :: string
  UI_Email :: string
  UI_Status :: Status

record ProviderInput =
  PI_Slug :: string
  PI_Name :: string
  PI_Kind :: string
  PI_AdapterAppID :: string
  PI_Status :: Status

record ModelInput =
  MI_Alias :: string
  MI_ProviderID :: string
  MI_UpstreamModel :: string
  MI_Status :: Status

record VirtualKeyInput =
  KI_Name :: string
  KI_UserID :: string
  KI_ModelIDs :: "string list"
  KI_Status :: Status
  KI_ExpiresAt :: "time option"

definition invalid :: "string \<Rightarrow> string \<Rightarrow> error" where
  "invalid field message = ValidationError field message []"

definition validStatus :: "Status \<Rightarrow> bool" where
  "validStatus status \<longleftrightarrow> status = StatusActive \<or> status = StatusDisabled"

definition normalizeStatus :: "Status \<Rightarrow> Status" where
  "normalizeStatus status = (if status = '''' then StatusActive else status)"

definition validateName :: "string \<Rightarrow> unit result" where
  "validateName name =
     ebind (fail_if (TrimSpace name = '''') (invalid ''name'' ''must not be empty'')) (\<lambda>_.
     fail_if (length name > 200) (invalid ''name'' ''must not exceed 200 bytes''))"

definition validateStatus :: "Status \<Rightarrow> unit result" where
  "validateStatus status = fail_if (\<not> validStatus status) (invalid ''status'' ''must be active or disabled'')"

definition normalizeUserInput :: "Library \<Rightarrow> UserInput \<Rightarrow> UserInput result" where
  "normalizeUserInput lib input0 =
     (let input = input0\<lparr>UI_Name := TrimSpace (UI_Name input0),
                         UI_Email := TrimSpace (ToLower lib (UI_Email input0)),
                         UI_Status := normalizeStatus (UI_Status input0)\<rparr> in
      ebind (validateName (UI_Name input)) (\<lambda>_.
      ebind (fail_if (case ParseAddress lib (UI_Email input) of Inl _ \<Rightarrow> True
                      | Inr address \<Rightarrow> \<not> EqualFold lib address (UI_Email input))
        (invalid ''email'' ''must be a valid email address'')) (\<lambda>_.
      ebind (validateStatus (UI_Status input)) (\<lambda>_.
      Inr input))))"

definition is_label_char :: "char \<Rightarrow> bool" where
  "is_label_char c \<longleftrightarrow> is_lower c \<or> is_digit c"

text \<open>\<^verbatim>\<open>^[a-z0-9](?:[a-z0-9X]{0,61}[a-z0-9])?$\<close> for a set \<^verbatim>\<open>X\<close> of further characters.\<close>

definition label_pattern :: "char list \<Rightarrow> string \<Rightarrow> bool" where
  "label_pattern extra s \<longleftrightarrow>
     s \<noteq> [] \<and> is_label_char (hd s) \<and>
     (length s = 1 \<or>
      length s \<le> 63 \<and> is_label_char (last s) \<and>
      list_all (\<lambda>c. is_label_char c \<or> c \<in> set extra) (butlast (tl s)))"

definition appIDPattern :: "string \<Rightarrow> bool" where
  "appIDPattern = label_pattern ''.-''"

definition providerSlugPattern :: "string \<Rightarrow> bool" where
  "providerSlugPattern = label_pattern ''-''"

text \<open>\<^verbatim>\<open>^[A-Za-z0-9][A-Za-z0-9._:/-]{0,199}$\<close>\<close>

definition modelAliasPattern :: "string \<Rightarrow> bool" where
  "modelAliasPattern s \<longleftrightarrow>
     s \<noteq> [] \<and> (is_upper (hd s) \<or> is_label_char (hd s)) \<and> length s \<le> 200 \<and>
     list_all (\<lambda>c. is_upper c \<or> is_label_char c \<or> c \<in> set ''._:/-'') (tl s)"

definition validateProviderSlug :: "string \<Rightarrow> unit result" where
  "validateProviderSlug slug =
     fail_if (\<not> providerSlugPattern slug)
       (ValidationError ''slug'' ''%q must be a lowercase DNS label of at most 63 characters'' [slug])"

definition normalizeProviderInput :: "Library \<Rightarrow> ProviderInput \<Rightarrow> ProviderInput result" where
  "normalizeProviderInput lib input0 =
     (let input = input0\<lparr>PI_Slug := TrimSpace (PI_Slug input0), PI_Name := TrimSpace (PI_Name input0),
                         PI_Kind := ToLower lib (TrimSpace (PI_Kind input0)),
                         PI_AdapterAppID := TrimSpace (PI_AdapterAppID input0),
                         PI_Status := normalizeStatus (PI_Status input0)\<rparr> in
      ebind (validateName (PI_Name input)) (\<lambda>_.
      ebind (validateProviderSlug (PI_Slug input)) (\<lambda>_.
      ebind (fail_if (PI_Kind input \<notin> {ProviderKindAnthropic, ProviderKindOpenAIChat,
                                       ProviderKindOpenAIResponses, ProviderKindGemini})
        (invalid ''kind'' ''must be anthropic, openai-chat, openai-responses, or gemini'')) (\<lambda>_.
      ebind (fail_if (PI_AdapterAppID input = '''' \<or> \<not> appIDPattern (PI_AdapterAppID input))
        (invalid ''adapter_app_id'' ''must be a valid lowercase Dapr app ID'')) (\<lambda>_.
      ebind (validateStatus (PI_Status input)) (\<lambda>_.
      Inr input))))))"

section \<open>Projections\<close>

definition subjectForUser :: "User \<Rightarrow> bool \<Rightarrow> KeySubject" where
  "subjectForUser user deleted =
     \<lparr>KS_UserID = User_ID user, KS_Status = (if deleted then StatusDisabled else User_Status user),
      KS_Revision = User_Revision user, KS_Deleted = deleted, KS_UpdatedAt = User_UpdatedAt user\<rparr>"

definition modelSubjectFor :: "Model \<Rightarrow> bool \<Rightarrow> ModelSubject" where
  "modelSubjectFor model deleted =
     \<lparr>MS_ModelID = Model_ID model, MS_Alias = Model_Alias model,
      MS_Status = (if deleted then StatusDisabled else Model_Status model),
      MS_Revision = Model_Revision model, MS_Deleted = deleted, MS_UpdatedAt = Model_UpdatedAt model\<rparr>"

text \<open>\<^verbatim>\<open>SubjectRegistry\<close> and \<^verbatim>\<open>ModelRegistry\<close>, on the state \<open>'k\<close> behind them.\<close>

record 'k SubjectRegistry =
  reg_SyncSubject :: "KeySubject \<Rightarrow> ('k, unit) step"
  reg_FenceSubject :: "KeySubject \<Rightarrow> ('k, unit) step"

record 'k ModelRegistry =
  reg_SyncModel :: "ModelSubject \<Rightarrow> ('k, unit) step"
  reg_FenceModel :: "ModelSubject \<Rightarrow> ('k, unit) step"

text \<open>
  The state a resource service reaches: the user store, the provider store (providers and models),
  and the registry.
\<close>

record ('u, 'p, 'k) world =
  w_users :: 'u
  w_providers :: 'p
  w_registry :: 'k

definition on_users :: "('u, 'a) step \<Rightarrow> (('u, 'p, 'k) world, 'a) step" where
  "on_users f w = (case f (w_users w) of (r, s') \<Rightarrow> (r, w\<lparr>w_users := s'\<rparr>))"

definition on_providers :: "('p, 'a) step \<Rightarrow> (('u, 'p, 'k) world, 'a) step" where
  "on_providers f w = (case f (w_providers w) of (r, s') \<Rightarrow> (r, w\<lparr>w_providers := s'\<rparr>))"

definition on_registry :: "('k, 'a) step \<Rightarrow> (('u, 'p, 'k) world, 'a) step" where
  "on_registry f w = (case f (w_registry w) of (r, s') \<Rightarrow> (r, w\<lparr>w_registry := s'\<rparr>))"

record ('u, 'p, 'k) ResourceService =
  rs_users :: "'u Store"
  rs_providers :: "'p Store"
  rs_subjects :: "'k SubjectRegistry"
  rs_modelSubjects :: "'k ModelRegistry option"
  rs_hash :: "string \<Rightarrow> string"      \<comment> \<open>SHA-256, in hexadecimal\<close>
  rs_digest :: "json \<Rightarrow> string"      \<comment> \<open>SHA-256 of an encoded value, in hexadecimal\<close>
  rs_lib :: Library

section \<open>Users\<close>

definition svc_CreateUser ::
  "('u, 'p, 'k) ResourceService \<Rightarrow> nat list result \<Rightarrow> time \<Rightarrow> UserInput \<Rightarrow> (('u, 'p, 'k) world, User) step" where
  "svc_CreateUser rs random now input0 =
     sbind (sreturn (normalizeUserInput (rs_lib rs) input0)) (\<lambda>input.
     sbind (sreturn (NewID ''usr'' random)) (\<lambda>rid.
     let user = \<lparr>User_ID = rid, User_Name = UI_Name input, User_Email = UI_Email input,
                 User_Status = UI_Status input, User_Revision = 1, User_CreatedAt = now, User_UpdatedAt = now\<rparr> in
     sbind (on_users (repo_CreateUser (rs_hash rs) (rs_users rs) user)) (\<lambda>_.
     sbind (swrapf ''sync authorization subject: %w'' []
       (on_registry (reg_SyncSubject (rs_subjects rs) (subjectForUser user False)))) (\<lambda>_.
     sreturn (Inr user)))))"

definition svc_GetUser :: "('u, 'p, 'k) ResourceService \<Rightarrow> string \<Rightarrow> (('u, 'p, 'k) world, User) step" where
  "svc_GetUser rs rid = on_users (sread (repo_GetUser (rs_users rs) rid))"

definition svc_ListUsers :: "('u, 'p, 'k) ResourceService \<Rightarrow> (('u, 'p, 'k) world, User list) step" where
  "svc_ListUsers rs = on_users (sread (repo_ListUsers (rs_users rs)))"

definition svc_updateUser ::
  "('u, 'p, 'k) ResourceService \<Rightarrow> time \<Rightarrow> string \<Rightarrow> UserInput \<Rightarrow> ifMatchPrecondition \<Rightarrow>
     (('u, 'p, 'k) world, User) step" where
  "svc_updateUser rs now rid input0 precondition =
     sbind (on_users (sread (repo_GetUser (rs_users rs) rid))) (\<lambda>old.
     sbind (sreturn (enforceIfMatch (rs_digest rs) precondition (Marshal UserCodec old))) (\<lambda>_.
     sbind (sreturn (fail_if (UI_Status input0 = '''') (invalid ''status'' ''must be active or disabled''))) (\<lambda>_.
     sbind (sreturn (normalizeUserInput (rs_lib rs) input0)) (\<lambda>input.
     let current = old\<lparr>User_Name := UI_Name input, User_Email := UI_Email input, User_Status := UI_Status input,
                       User_Revision := User_Revision old + 1, User_UpdatedAt := now\<rparr> in
     sbind (if User_Status current = StatusDisabled
            then swrapf ''disable authorization subject: %w'' []
              (on_registry (reg_SyncSubject (rs_subjects rs) (subjectForUser current False)))
            else sreturn (Inr ())) (\<lambda>_.
     sbind (on_users (repo_ReplaceUser (rs_hash rs) (rs_users rs) old current)) (\<lambda>_.
     sbind (if User_Status current = StatusActive
            then swrapf ''enable authorization subject: %w'' []
              (on_registry (reg_SyncSubject (rs_subjects rs) (subjectForUser current False)))
            else sreturn (Inr ())) (\<lambda>_.
     sreturn (Inr current))))))))"

definition svc_UpdateUser ::
  "('u, 'p, 'k) ResourceService \<Rightarrow> time \<Rightarrow> string \<Rightarrow> UserInput \<Rightarrow> (('u, 'p, 'k) world, User) step" where
  "svc_UpdateUser rs now rid input = svc_updateUser rs now rid input no_precondition"

definition svc_UpdateUserIfMatch ::
  "('u, 'p, 'k) ResourceService \<Rightarrow> time \<Rightarrow> string \<Rightarrow> UserInput \<Rightarrow> string \<Rightarrow> (('u, 'p, 'k) world, User) step" where
  "svc_UpdateUserIfMatch rs now rid input ifMatch = svc_updateUser rs now rid input (optionalIfMatch ifMatch)"

definition svc_deleteUser ::
  "('u, 'p, 'k) ResourceService \<Rightarrow> time \<Rightarrow> string \<Rightarrow> ifMatchPrecondition \<Rightarrow> (('u, 'p, 'k) world, unit) step" where
  "svc_deleteUser rs now rid precondition =
     sbind (on_users (sread (repo_GetUser (rs_users rs) rid))) (\<lambda>user.
     sbind (sreturn (enforceIfMatch (rs_digest rs) precondition (Marshal UserCodec user))) (\<lambda>_.
     let fence = user\<lparr>User_Revision := User_Revision user + 1, User_UpdatedAt := now\<rparr> in
     sbind (on_registry (reg_FenceSubject (rs_subjects rs) (subjectForUser fence True))) (\<lambda>_.
     on_users (repo_DeleteUser (rs_hash rs) (rs_users rs) user))))"

definition svc_DeleteUser ::
  "('u, 'p, 'k) ResourceService \<Rightarrow> time \<Rightarrow> string \<Rightarrow> (('u, 'p, 'k) world, unit) step" where
  "svc_DeleteUser rs now rid = svc_deleteUser rs now rid no_precondition"

definition svc_DeleteUserIfMatch ::
  "('u, 'p, 'k) ResourceService \<Rightarrow> time \<Rightarrow> string \<Rightarrow> string \<Rightarrow> (('u, 'p, 'k) world, unit) step" where
  "svc_DeleteUserIfMatch rs now rid ifMatch = svc_deleteUser rs now rid (optionalIfMatch ifMatch)"

section \<open>Providers\<close>

definition svc_CreateProvider ::
  "('u, 'p, 'k) ResourceService \<Rightarrow> nat list result \<Rightarrow> time \<Rightarrow> ProviderInput \<Rightarrow> (('u, 'p, 'k) world, Provider) step" where
  "svc_CreateProvider rs random now input0 =
     sbind (sreturn (normalizeProviderInput (rs_lib rs) input0)) (\<lambda>input.
     sbind (sreturn (NewID ''prv'' random)) (\<lambda>rid.
     let provider = \<lparr>Provider_ID = rid, Provider_Slug = PI_Slug input, Provider_Name = PI_Name input,
                     Provider_Kind = PI_Kind input, Provider_AdapterAppID = PI_AdapterAppID input,
                     Provider_Status = PI_Status input, Provider_CreatedAt = now, Provider_UpdatedAt = now\<rparr> in
     sbind (on_providers (repo_CreateProvider (rs_hash rs) (rs_providers rs) provider)) (\<lambda>_.
     sreturn (Inr provider))))"

definition svc_GetProvider :: "('u, 'p, 'k) ResourceService \<Rightarrow> string \<Rightarrow> (('u, 'p, 'k) world, Provider) step" where
  "svc_GetProvider rs rid = on_providers (sread (repo_GetProvider (rs_providers rs) rid))"

definition svc_ListProviders :: "('u, 'p, 'k) ResourceService \<Rightarrow> (('u, 'p, 'k) world, Provider list) step" where
  "svc_ListProviders rs = on_providers (sread (repo_ListProviders (rs_providers rs)))"

definition svc_updateProvider ::
  "('u, 'p, 'k) ResourceService \<Rightarrow> time \<Rightarrow> string \<Rightarrow> ProviderInput \<Rightarrow> ifMatchPrecondition \<Rightarrow>
     (('u, 'p, 'k) world, Provider) step" where
  "svc_updateProvider rs now rid input0 precondition =
     sbind (on_providers (sread (repo_GetProvider (rs_providers rs) rid))) (\<lambda>old.
     sbind (sreturn (enforceIfMatch (rs_digest rs) precondition (Marshal ProviderCodec old))) (\<lambda>_.
     sbind (sreturn (normalizeProviderInput (rs_lib rs) input0)) (\<lambda>input.
     sbind (sreturn (fail_if (PI_Slug input \<noteq> Provider_Slug old) (invalid ''slug'' ''is immutable''))) (\<lambda>_.
     sbind (sreturn (fail_if (PI_AdapterAppID input \<noteq> Provider_AdapterAppID old)
       (invalid ''adapter_app_id'' ''is immutable''))) (\<lambda>_.
     let current = old\<lparr>Provider_Name := PI_Name input, Provider_Kind := PI_Kind input,
                       Provider_Status := PI_Status input, Provider_UpdatedAt := now\<rparr> in
     sbind (on_providers (repo_ReplaceProvider (rs_hash rs) (rs_providers rs) old current)) (\<lambda>_.
     sreturn (Inr current)))))))"

definition svc_UpdateProvider ::
  "('u, 'p, 'k) ResourceService \<Rightarrow> time \<Rightarrow> string \<Rightarrow> ProviderInput \<Rightarrow> (('u, 'p, 'k) world, Provider) step" where
  "svc_UpdateProvider rs now rid input = svc_updateProvider rs now rid input no_precondition"

definition svc_UpdateProviderIfMatch ::
  "('u, 'p, 'k) ResourceService \<Rightarrow> time \<Rightarrow> string \<Rightarrow> ProviderInput \<Rightarrow> string \<Rightarrow> (('u, 'p, 'k) world, Provider) step" where
  "svc_UpdateProviderIfMatch rs now rid input ifMatch = svc_updateProvider rs now rid input (optionalIfMatch ifMatch)"

definition svc_deleteProvider ::
  "('u, 'p, 'k) ResourceService \<Rightarrow> string \<Rightarrow> ifMatchPrecondition \<Rightarrow> (('u, 'p, 'k) world, unit) step" where
  "svc_deleteProvider rs rid precondition =
     sbind (on_providers (sread (repo_GetProvider (rs_providers rs) rid))) (\<lambda>provider.
     sbind (sreturn (enforceIfMatch (rs_digest rs) precondition (Marshal ProviderCodec provider))) (\<lambda>_.
     on_providers (repo_DeleteProviderIfNoModels (rs_hash rs) (rs_providers rs) provider)))"

definition svc_DeleteProvider :: "('u, 'p, 'k) ResourceService \<Rightarrow> string \<Rightarrow> (('u, 'p, 'k) world, unit) step" where
  "svc_DeleteProvider rs rid = svc_deleteProvider rs rid no_precondition"

definition svc_DeleteProviderIfMatch ::
  "('u, 'p, 'k) ResourceService \<Rightarrow> string \<Rightarrow> string \<Rightarrow> (('u, 'p, 'k) world, unit) step" where
  "svc_DeleteProviderIfMatch rs rid ifMatch = svc_deleteProvider rs rid (optionalIfMatch ifMatch)"

section \<open>Models\<close>

definition normalizeModelInput :: "'p Store \<Rightarrow> ModelInput \<Rightarrow> 'p \<Rightarrow> ModelInput result" where
  "normalizeModelInput st input0 s =
     ebind (fail_if (ContainsAny (MI_UpstreamModel input0) control_chars)
       (invalid ''upstream_model'' ''contains unsupported control characters'')) (\<lambda>_.
     let input = input0\<lparr>MI_Alias := TrimSpace (MI_Alias input0), MI_ProviderID := TrimSpace (MI_ProviderID input0),
                        MI_UpstreamModel := TrimSpace (MI_UpstreamModel input0),
                        MI_Status := normalizeStatus (MI_Status input0)\<rparr> in
     ebind (fail_if (\<not> modelAliasPattern (MI_Alias input))
       (invalid ''alias'' ''contains unsupported characters or has an invalid length'')) (\<lambda>_.
     ebind (fail_if (MI_ProviderID input = '''') (invalid ''provider_id'' ''must not be empty'')) (\<lambda>_.
     ebind (case repo_GetProvider st (MI_ProviderID input) s of
              Inl err \<Rightarrow> if errors_Is err ErrNotFound
                then Inl (invalid ''provider_id'' ''does not reference an existing provider'') else Inl err
            | Inr provider \<Rightarrow> Inr provider) (\<lambda>provider.
     ebind (fail_if (length (MI_UpstreamModel input) > 300)
       (invalid ''upstream_model'' ''must not exceed 300 bytes'')) (\<lambda>_.
     ebind (validateStatus (MI_Status input)) (\<lambda>_.
     ebind (fail_if (MI_Status input = StatusActive \<and> Provider_Status provider \<noteq> StatusActive)
       (invalid ''provider_id'' ''an active model requires an active provider'')) (\<lambda>_.
     Inr input)))))))"

definition svc_CreateModel ::
  "('u, 'p, 'k) ResourceService \<Rightarrow> nat list result \<Rightarrow> time \<Rightarrow> ModelInput \<Rightarrow> (('u, 'p, 'k) world, Model) step" where
  "svc_CreateModel rs random now input0 =
     sbind (on_providers (sread (normalizeModelInput (rs_providers rs) input0))) (\<lambda>input.
     sbind (sreturn (NewID ''mdl'' random)) (\<lambda>rid.
     let model = \<lparr>Model_ID = rid, Model_Alias = MI_Alias input, Model_ProviderID = MI_ProviderID input,
                  Model_UpstreamModel = MI_UpstreamModel input, Model_Status = MI_Status input,
                  Model_Revision = 1, Model_CreatedAt = now, Model_UpdatedAt = now\<rparr> in
     sbind (on_providers (repo_CreateModel (rs_hash rs) (rs_providers rs) model)) (\<lambda>_.
     case rs_modelSubjects rs of
       None \<Rightarrow> sreturn (Inl (Errorf ''sync model subject: %w'' [] [ErrUnavailable]))
     | Some registry \<Rightarrow>
         sbind (swrapf ''sync model subject: %w'' []
           (on_registry (reg_SyncModel registry (modelSubjectFor model False)))) (\<lambda>_.
         sreturn (Inr model)))))"

definition svc_GetModel :: "('u, 'p, 'k) ResourceService \<Rightarrow> string \<Rightarrow> (('u, 'p, 'k) world, Model) step" where
  "svc_GetModel rs rid = on_providers (sread (repo_GetModel (rs_providers rs) rid))"

definition svc_ListModels :: "('u, 'p, 'k) ResourceService \<Rightarrow> (('u, 'p, 'k) world, Model list) step" where
  "svc_ListModels rs = on_providers (sread (repo_ListModels (rs_providers rs)))"

definition svc_updateModel ::
  "('u, 'p, 'k) ResourceService \<Rightarrow> time \<Rightarrow> string \<Rightarrow> ModelInput \<Rightarrow> ifMatchPrecondition \<Rightarrow>
     (('u, 'p, 'k) world, Model) step" where
  "svc_updateModel rs now rid input0 precondition =
     sbind (on_providers (sread (repo_GetModel (rs_providers rs) rid))) (\<lambda>old.
     sbind (sreturn (enforceIfMatch (rs_digest rs) precondition (Marshal ModelCodec old))) (\<lambda>_.
     sbind (sreturn (fail_if (MI_Status input0 = '''') (invalid ''status'' ''must be active or disabled''))) (\<lambda>_.
     sbind (on_providers (sread (normalizeModelInput (rs_providers rs) input0))) (\<lambda>input.
     sbind (sreturn (fail_if (MI_Alias input \<noteq> Model_Alias old) (invalid ''alias'' ''is immutable''))) (\<lambda>_.
     let current = old\<lparr>Model_ProviderID := MI_ProviderID input, Model_UpstreamModel := MI_UpstreamModel input,
                       Model_Status := MI_Status input, Model_Revision := Model_Revision old + 1,
                       Model_UpdatedAt := now\<rparr> in
     case rs_modelSubjects rs of
       None \<Rightarrow> sreturn (Inl (Errorf ''sync model subject: %w'' [] [ErrUnavailable]))
     | Some registry \<Rightarrow>
         sbind (if Model_Status current = StatusDisabled
                then swrapf ''disable model subject: %w'' []
                  (on_registry (reg_SyncModel registry (modelSubjectFor current False)))
                else sreturn (Inr ())) (\<lambda>_.
         sbind (on_providers (repo_ReplaceModel (rs_hash rs) (rs_providers rs) old current)) (\<lambda>_.
         sbind (if Model_Status current = StatusActive
                then swrapf ''enable model subject: %w'' []
                  (on_registry (reg_SyncModel registry (modelSubjectFor current False)))
                else sreturn (Inr ())) (\<lambda>_.
         sreturn (Inr current)))))))))"

definition svc_UpdateModel ::
  "('u, 'p, 'k) ResourceService \<Rightarrow> time \<Rightarrow> string \<Rightarrow> ModelInput \<Rightarrow> (('u, 'p, 'k) world, Model) step" where
  "svc_UpdateModel rs now rid input = svc_updateModel rs now rid input no_precondition"

definition svc_UpdateModelIfMatch ::
  "('u, 'p, 'k) ResourceService \<Rightarrow> time \<Rightarrow> string \<Rightarrow> ModelInput \<Rightarrow> string \<Rightarrow> (('u, 'p, 'k) world, Model) step" where
  "svc_UpdateModelIfMatch rs now rid input ifMatch = svc_updateModel rs now rid input (optionalIfMatch ifMatch)"

definition svc_deleteModel ::
  "('u, 'p, 'k) ResourceService \<Rightarrow> time \<Rightarrow> string \<Rightarrow> ifMatchPrecondition \<Rightarrow> (('u, 'p, 'k) world, unit) step" where
  "svc_deleteModel rs now rid precondition =
     sbind (on_providers (sread (repo_GetModel (rs_providers rs) rid))) (\<lambda>model.
     sbind (sreturn (enforceIfMatch (rs_digest rs) precondition (Marshal ModelCodec model))) (\<lambda>_.
     let fence = model\<lparr>Model_Revision := Model_Revision model + 1, Model_UpdatedAt := now\<rparr> in
     case rs_modelSubjects rs of
       None \<Rightarrow> sreturn (Inl (Errorf ''fence model subject: %w'' [] [ErrUnavailable]))
     | Some registry \<Rightarrow>
         sbind (on_registry (reg_FenceModel registry (modelSubjectFor fence True))) (\<lambda>_.
         on_providers (repo_DeleteModel (rs_hash rs) (rs_providers rs) model))))"

definition svc_DeleteModel ::
  "('u, 'p, 'k) ResourceService \<Rightarrow> time \<Rightarrow> string \<Rightarrow> (('u, 'p, 'k) world, unit) step" where
  "svc_DeleteModel rs now rid = svc_deleteModel rs now rid no_precondition"

definition svc_DeleteModelIfMatch ::
  "('u, 'p, 'k) ResourceService \<Rightarrow> time \<Rightarrow> string \<Rightarrow> string \<Rightarrow> (('u, 'p, 'k) world, unit) step" where
  "svc_DeleteModelIfMatch rs now rid ifMatch = svc_deleteModel rs now rid (optionalIfMatch ifMatch)"

section \<open>Virtual keys\<close>

definition hashKey :: "(string \<Rightarrow> string) \<Rightarrow> string \<Rightarrow> string" where
  "hashKey H key = H key"

definition base64_url :: string where
  "base64_url = ''ABCDEFGHIJKLMNOPQRSTUVWXYZabcdefghijklmnopqrstuvwxyz0123456789-_''"

fun RawURLEncoding :: "nat list \<Rightarrow> string" where
  "RawURLEncoding (a # b # c # bytes) =
     (let n = a * 65536 + b * 256 + c in
      [base64_url ! (n div 262144 mod 64), base64_url ! (n div 4096 mod 64),
       base64_url ! (n div 64 mod 64), base64_url ! (n mod 64)] @ RawURLEncoding bytes)"
| "RawURLEncoding [a, b] =
     (let n = a * 65536 + b * 256 in
      [base64_url ! (n div 262144 mod 64), base64_url ! (n div 4096 mod 64), base64_url ! (n div 64 mod 64)])"
| "RawURLEncoding [a] =
     (let n = a * 65536 in [base64_url ! (n div 262144 mod 64), base64_url ! (n div 4096 mod 64)])"
| "RawURLEncoding [] = ''''"

text \<open>\<open>random\<close> is the outcome of \<^verbatim>\<open>rand.Read\<close> into 32 bytes.\<close>

definition generateKey :: "nat list result \<Rightarrow> string result" where
  "generateKey random =
     ebind (wrapf ''generate virtual key: %w'' [] random) (\<lambda>bytes. Inr (''gwai_'' @ RawURLEncoding bytes))"

text \<open>The loop over the model IDs of \<^verbatim>\<open>normalizeInput\<close>; \<open>normalized\<close> holds the IDs seen so far.\<close>

fun normalizeModelIDs ::
  "'s Store \<Rightarrow> Status \<Rightarrow> string list \<Rightarrow> string list \<Rightarrow> 's \<Rightarrow> string list result" where
  "normalizeModelIDs st status normalized [] s = Inr normalized"
| "normalizeModelIDs st status normalized (value # values) s =
     (let modelID = TrimSpace value in
      if modelID = '''' then Inl (invalid ''model_ids'' ''must not contain empty IDs'')
      else if modelID \<in> set normalized then normalizeModelIDs st status normalized values s
      else case repo_GetModelSubject st modelID s of
          Inl err \<Rightarrow> if errors_Is err ErrNotFound
            then Inl (ValidationError ''model_ids'' ''model ID %q does not exist'' [modelID]) else Inl err
        | Inr model \<Rightarrow>
            if MS_Deleted model then Inl (ValidationError ''model_ids'' ''model ID %q does not exist'' [modelID])
            else if status = StatusActive \<and> MS_Status model \<noteq> StatusActive
            then Inl (ValidationError ''model_ids'' ''model ID %q is disabled'' [modelID])
            else normalizeModelIDs st status (normalized @ [modelID]) values s)"

definition normalizeInput :: "'s Store \<Rightarrow> time \<Rightarrow> VirtualKeyInput \<Rightarrow> 's \<Rightarrow> VirtualKeyInput result" where
  "normalizeInput st now input0 s =
     (let input = input0\<lparr>KI_Name := TrimSpace (KI_Name input0), KI_UserID := TrimSpace (KI_UserID input0),
                         KI_Status := normalizeStatus (KI_Status input0)\<rparr> in
      ebind (validateName (KI_Name input)) (\<lambda>_.
      ebind (case repo_GetSubject st (KI_UserID input) s of
               Inl err \<Rightarrow> if errors_Is err ErrNotFound
                 then Inl (invalid ''user_id'' ''does not reference an existing user'') else Inl err
             | Inr subject \<Rightarrow> if KS_Deleted subject
                 then Inl (invalid ''user_id'' ''does not reference an existing user'') else Inr subject) (\<lambda>subject.
      ebind (fail_if (KS_Status subject \<noteq> StatusActive \<and> KI_Status input = StatusActive)
        (invalid ''user_id'' ''references a disabled user'')) (\<lambda>_.
      ebind (validateStatus (KI_Status input)) (\<lambda>_.
      ebind (fail_if ((case KI_ExpiresAt input of None \<Rightarrow> False | Some t \<Rightarrow> \<not> After t now) \<and> KI_Status input = StatusActive)
        (invalid ''expires_at'' ''must be in the future for an active key'')) (\<lambda>_.
      ebind (normalizeModelIDs st (KI_Status input) [] (KI_ModelIDs input) s) (\<lambda>normalized.
      ebind (fail_if (length normalized = 0) (invalid ''model_ids'' ''must contain at least one model ID'')) (\<lambda>_.
      Inr (input\<lparr>KI_ModelIDs := sort normalized\<rparr>)))))))))"

text \<open>The clock is read once for the expiry check and once for the timestamps.\<close>

definition svc_CreateVirtualKey ::
  "(string \<Rightarrow> string) \<Rightarrow> 's Store \<Rightarrow> nat list result \<Rightarrow> nat list result \<Rightarrow> time \<Rightarrow> time \<Rightarrow> VirtualKeyInput \<Rightarrow>
     ('s, CreatedVirtualKey) step" where
  "svc_CreateVirtualKey H st random_key random_id now1 now2 input0 =
     sbind (sread (normalizeInput st now1 input0)) (\<lambda>input.
     sbind (sreturn (generateKey random_key)) (\<lambda>secret.
     sbind (sreturn (NewID ''key'' random_id)) (\<lambda>rid.
     let key = \<lparr>VK_ID = rid, VK_Name = KI_Name input, VK_UserID = KI_UserID input, VK_Prefix = take 13 secret,
                VK_KeyHash = hashKey H secret, VK_ModelIDs = KI_ModelIDs input, VK_Status = KI_Status input,
                VK_ExpiresAt = KI_ExpiresAt input, VK_CreatedAt = now2, VK_UpdatedAt = now2\<rparr> in
     sbind (repo_CreateVirtualKey H st key) (\<lambda>_.
     sreturn (Inr \<lparr>CVK_VirtualKey = Public key, CVK_Key = secret\<rparr>)))))"

definition svc_GetVirtualKey :: "'s Store \<Rightarrow> string \<Rightarrow> ('s, PublicVirtualKey) step" where
  "svc_GetVirtualKey st rid = sbind (sread (repo_GetVirtualKey st rid)) (\<lambda>key. sreturn (Inr (Public key)))"

definition svc_ListVirtualKeys :: "'s Store \<Rightarrow> ('s, PublicVirtualKey list) step" where
  "svc_ListVirtualKeys st = sbind (sread (repo_ListVirtualKeys st)) (\<lambda>keys. sreturn (Inr (map Public keys)))"

definition svc_updateVirtualKey ::
  "(string \<Rightarrow> string) \<Rightarrow> (json \<Rightarrow> string) \<Rightarrow> 's Store \<Rightarrow> time \<Rightarrow> time \<Rightarrow> string \<Rightarrow> VirtualKeyInput \<Rightarrow>
     ifMatchPrecondition \<Rightarrow> ('s, PublicVirtualKey) step" where
  "svc_updateVirtualKey H digest st now1 now2 rid input0 precondition =
     sbind (sread (repo_GetVirtualKey st rid)) (\<lambda>old.
     sbind (sreturn (enforceIfMatch digest precondition (Marshal_PublicVirtualKey (Public old)))) (\<lambda>_.
     sbind (sread (normalizeInput st now1 input0)) (\<lambda>input.
     let current = old\<lparr>VK_Name := KI_Name input, VK_UserID := KI_UserID input, VK_ModelIDs := KI_ModelIDs input,
                       VK_Status := KI_Status input, VK_ExpiresAt := KI_ExpiresAt input, VK_UpdatedAt := now2\<rparr> in
     sbind (repo_ReplaceVirtualKey H st old current) (\<lambda>_.
     sreturn (Inr (Public current))))))"

definition svc_UpdateVirtualKey ::
  "(string \<Rightarrow> string) \<Rightarrow> (json \<Rightarrow> string) \<Rightarrow> 's Store \<Rightarrow> time \<Rightarrow> time \<Rightarrow> string \<Rightarrow> VirtualKeyInput \<Rightarrow>
     ('s, PublicVirtualKey) step" where
  "svc_UpdateVirtualKey H digest st now1 now2 rid input = svc_updateVirtualKey H digest st now1 now2 rid input no_precondition"

definition svc_UpdateVirtualKeyIfMatch ::
  "(string \<Rightarrow> string) \<Rightarrow> (json \<Rightarrow> string) \<Rightarrow> 's Store \<Rightarrow> time \<Rightarrow> time \<Rightarrow> string \<Rightarrow> VirtualKeyInput \<Rightarrow> string \<Rightarrow>
     ('s, PublicVirtualKey) step" where
  "svc_UpdateVirtualKeyIfMatch H digest st now1 now2 rid input ifMatch =
     svc_updateVirtualKey H digest st now1 now2 rid input (optionalIfMatch ifMatch)"

definition svc_deleteVirtualKey ::
  "(string \<Rightarrow> string) \<Rightarrow> (json \<Rightarrow> string) \<Rightarrow> 's Store \<Rightarrow> string \<Rightarrow> ifMatchPrecondition \<Rightarrow> ('s, unit) step" where
  "svc_deleteVirtualKey H digest st rid precondition =
     sbind (sread (repo_GetVirtualKey st rid)) (\<lambda>key.
     sbind (sreturn (enforceIfMatch digest precondition (Marshal_PublicVirtualKey (Public key)))) (\<lambda>_.
     repo_DeleteVirtualKey H st key))"

definition svc_DeleteVirtualKey ::
  "(string \<Rightarrow> string) \<Rightarrow> (json \<Rightarrow> string) \<Rightarrow> 's Store \<Rightarrow> string \<Rightarrow> ('s, unit) step" where
  "svc_DeleteVirtualKey H digest st rid = svc_deleteVirtualKey H digest st rid no_precondition"

definition svc_DeleteVirtualKeyIfMatch ::
  "(string \<Rightarrow> string) \<Rightarrow> (json \<Rightarrow> string) \<Rightarrow> 's Store \<Rightarrow> string \<Rightarrow> string \<Rightarrow> ('s, unit) step" where
  "svc_DeleteVirtualKeyIfMatch H digest st rid ifMatch = svc_deleteVirtualKey H digest st rid (optionalIfMatch ifMatch)"

definition svc_SyncSubject :: "'s Store \<Rightarrow> KeySubject \<Rightarrow> ('s, unit) step" where
  "svc_SyncSubject st subject = repo_SyncSubject st subject"

definition svc_FenceSubject :: "'s Store \<Rightarrow> KeySubject \<Rightarrow> ('s, unit) step" where
  "svc_FenceSubject st subject =
     sbind (sreturn (fail_if (\<not> KS_Deleted subject) (invalid ''deleted'' ''must be true when fencing a subject''))) (\<lambda>_.
     repo_FenceSubject st subject)"

definition svc_SyncModel :: "'s Store \<Rightarrow> ModelSubject \<Rightarrow> ('s, unit) step" where
  "svc_SyncModel st subject = repo_SyncModelSubject st subject"

definition svc_FenceModel :: "'s Store \<Rightarrow> ModelSubject \<Rightarrow> ('s, unit) step" where
  "svc_FenceModel st subject =
     sbind (sreturn (fail_if (\<not> MS_Deleted subject) (invalid ''deleted'' ''must be true when fencing a model subject''))) (\<lambda>_.
     repo_FenceModelSubject st subject)"

section \<open>The remote registry\<close>

text \<open>
  \<^verbatim>\<open>InvokeJSON\<close> is the argument \<open>invoker\<close>: its outcome and what it did to the remote state. \<open>None\<close> is
  a registry that is not configured.
\<close>

type_synonym 'k JSONInvoker = "string \<Rightarrow> string \<Rightarrow> json \<Rightarrow> ('k, unit) step"

definition registry_invoke ::
  "'k JSONInvoker option \<Rightarrow> string \<Rightarrow> string \<Rightarrow> json \<Rightarrow> string \<Rightarrow> ('k, unit) step" where
  "registry_invoke invoker appID path payload resource s =
     (case invoker of
        None \<Rightarrow> (Inl (Errorf ''%w: virtual-key control-plane invocation is not configured'' [] [ErrUnavailable]), s)
      | Some invoke \<Rightarrow>
          if appID = ''''
          then (Inl (Errorf ''%w: virtual-key control-plane invocation is not configured'' [] [ErrUnavailable]), s)
          else case invoke appID path payload s of
              (Inr _, s') \<Rightarrow> (Inr (), s')
            | (Inl err, s') \<Rightarrow>
                (case errors_As_HTTP err of
                   Some (code, _) \<Rightarrow>
                     if code = 409 then Inl (conflictf ''%w: %s'' [resource])
                     else Inl (Errorf ''%w: invoke virtual-key control-plane: %w'' [] [ErrUnavailable, err])
                 | None \<Rightarrow> Inl (Errorf ''%w: invoke virtual-key control-plane: %w'' [] [ErrUnavailable, err]), s'))"

definition RemoteSubjectRegistry :: "'k JSONInvoker option \<Rightarrow> string \<Rightarrow> 'k SubjectRegistry" where
  "RemoteSubjectRegistry invoker appID =
     \<lparr>reg_SyncSubject = (\<lambda>subject.
        registry_invoke invoker appID ''/internal/v1/subjects/sync'' (json_of KeySubjectCodec subject) ''authorization subject''),
      reg_FenceSubject = (\<lambda>subject.
        registry_invoke invoker appID ''/internal/v1/subjects/fence'' (json_of KeySubjectCodec subject) ''authorization subject'')\<rparr>"

definition RemoteModelRegistry :: "'k JSONInvoker option \<Rightarrow> string \<Rightarrow> 'k ModelRegistry" where
  "RemoteModelRegistry invoker appID =
     \<lparr>reg_SyncModel = (\<lambda>subject.
        registry_invoke invoker appID ''/internal/v1/model-subjects/sync'' (json_of ModelSubjectCodec subject) ''model subject''),
      reg_FenceModel = (\<lambda>subject.
        registry_invoke invoker appID ''/internal/v1/model-subjects/fence'' (json_of ModelSubjectCodec subject) ''model subject'')\<rparr>"

end
