(* ===== verification/Catalog.thy ===== *)
theory Catalog
  imports Model_Repository
begin

text \<open>
  What the provider store means: a catalog of providers and models. The checks an operation makes are
  stated on the catalog, in the order of the code; the operation refines its specification: it
  returns the result of the checks, and the store it leaves represents the updated catalog.
\<close>

section \<open>The catalog of a store\<close>

record catalog =
  Providers :: "string \<rightharpoonup> Provider"
  Models :: "string \<rightharpoonup> Model"

definition models_of :: "(string \<rightharpoonup> Model) \<Rightarrow> string \<Rightarrow> string set" where
  "models_of M pid = {mid. \<exists>x. M mid = Some x \<and> Model_ProviderID x = pid}"

abbreviation alias_family :: "(string \<Rightarrow> string) \<Rightarrow> string set" where
  "alias_family H \<equiv> range (lookupKey H ''model-alias'')"

definition holds_models :: "(string \<Rightarrow> string) \<Rightarrow> (string \<rightharpoonup> Model) \<Rightarrow> vals \<Rightarrow> bool" where
  "holds_models H = collection_holds ModelCodec ''models'' Model_ID (modelLookups H) (alias_family H)"

definition holds_catalog :: "(string \<Rightarrow> string) \<Rightarrow> catalog \<Rightarrow> vals \<Rightarrow> bool" where
  "holds_catalog H c m \<longleftrightarrow> holds_providers H (Providers c) m \<and> holds_models H (Models c) m \<and>
     (\<forall>pid. indexes m (modelsByProviderIndexKey pid) (models_of (Models c) pid))"

definition no_orphans :: "catalog \<Rightarrow> bool" where
  "no_orphans c \<longleftrightarrow> (\<forall>x \<in> ran (Models c). Model_ProviderID x \<in> dom (Providers c))"

section \<open>Specifications\<close>

definition create_model_check :: "(string \<Rightarrow> string) \<Rightarrow> Model \<Rightarrow> catalog \<Rightarrow> unit result" where
  "create_model_check H model c =
     ebind (fail_if (Model_ID model \<in> dom (Models c)) ErrConflict) (\<lambda>_.
     ebind (fail_if (taken (modelLookups H) (Models c) model) ErrConflict) (\<lambda>_.
     ebind (require (Providers c) (Model_ProviderID model)) (\<lambda>provider.
     ebind (ensureProviderCanBackModel provider model) (\<lambda>_.
     ebind (encode ModelCodec model) (\<lambda>_.
     ebind (encode ProviderCodec provider) (\<lambda>_. Inr ()))))))"

definition replace_model_check :: "Model \<Rightarrow> Model \<Rightarrow> catalog \<Rightarrow> unit result" where
  "replace_model_check oldModel model c =
     ebind (fail_if (Model_ID oldModel \<noteq> Model_ID model) (conflictf ''%w: model ID is immutable'' [])) (\<lambda>_.
     ebind (fail_if (Model_Alias oldModel \<noteq> Model_Alias model) (conflictf ''%w: model alias is immutable'' [])) (\<lambda>_.
     ebind (require (Models c) (Model_ID model)) (\<lambda>current.
     ebind (fail_if (current \<noteq> oldModel) ErrConflict) (\<lambda>_.
     ebind (require (Providers c) (Model_ProviderID oldModel)) (\<lambda>oldProvider.
     ebind (require (Providers c) (Model_ProviderID model)) (\<lambda>newProvider.
     ebind (ensureProviderCanBackModel newProvider model) (\<lambda>_.
     ebind (encode ModelCodec model) (\<lambda>_.
     ebind (encode ProviderCodec oldProvider) (\<lambda>_.
     ebind (encode ProviderCodec newProvider) (\<lambda>_. Inr ()))))))))))"

definition delete_model_check :: "Model \<Rightarrow> catalog \<Rightarrow> unit result" where
  "delete_model_check model c =
     ebind (require (Models c) (Model_ID model)) (\<lambda>current.
     ebind (fail_if (current \<noteq> model) ErrConflict) (\<lambda>_.
     case Providers c (Model_ProviderID model) of
       None \<Rightarrow> Inr ()
     | Some provider \<Rightarrow> ebind (encode ProviderCodec provider) (\<lambda>_. Inr ())))"

definition delete_provider_check :: "Provider \<Rightarrow> catalog \<Rightarrow> unit result" where
  "delete_provider_check provider c =
     ebind (require (Providers c) (Provider_ID provider)) (\<lambda>current.
     ebind (fail_if (current \<noteq> provider) ErrConflict) (\<lambda>_.
     fail_if (models_of (Models c) (Provider_ID provider) \<noteq> {})
       (conflictf ''%w: provider still has models'' [])))"

definition put_model :: "Model \<Rightarrow> catalog \<Rightarrow> catalog" where
  "put_model model c = c\<lparr>Models := (Models c)(Model_ID model \<mapsto> model)\<rparr>"

definition drop_model :: "Model \<Rightarrow> catalog \<Rightarrow> catalog" where
  "drop_model model c = c\<lparr>Models := (Models c)(Model_ID model := None)\<rparr>"

definition drop_provider :: "Provider \<Rightarrow> catalog \<Rightarrow> catalog" where
  "drop_provider provider c = c\<lparr>Providers := (Providers c)(Provider_ID provider := None)\<rparr>"

section \<open>Keys are disjoint\<close>

lemmas key_defs = entityKey_def indexKey_def lookupKey_def modelsByProviderIndexKey_def

lemma modelsByProvider_eq [simp]: "modelsByProviderIndexKey a = modelsByProviderIndexKey b \<longleftrightarrow> a = b"
  by (simp add: key_defs)

lemma modelsByProvider_distinct [simp]:
  "modelsByProviderIndexKey pid \<noteq> entityKey ''models'' x" "entityKey ''models'' x \<noteq> modelsByProviderIndexKey pid"
  "modelsByProviderIndexKey pid \<noteq> entityKey ''providers'' x" "entityKey ''providers'' x \<noteq> modelsByProviderIndexKey pid"
  "modelsByProviderIndexKey pid \<noteq> indexKey ''models''" "indexKey ''models'' \<noteq> modelsByProviderIndexKey pid"
  "modelsByProviderIndexKey pid \<noteq> indexKey ''providers''" "indexKey ''providers'' \<noteq> modelsByProviderIndexKey pid"
  "modelsByProviderIndexKey pid \<noteq> lookupKey H kind v" "lookupKey H kind v \<noteq> modelsByProviderIndexKey pid"
  by (simp_all add: key_defs)

lemma catalog_keys_distinct [simp]:
  "entityKey ''models'' x \<noteq> entityKey ''providers'' y" "entityKey ''providers'' y \<noteq> entityKey ''models'' x"
  "entityKey ''models'' x \<noteq> indexKey c" "indexKey c \<noteq> entityKey ''models'' x"
  "entityKey ''providers'' x \<noteq> indexKey c" "indexKey c \<noteq> entityKey ''providers'' x"
  "entityKey ''models'' x \<noteq> lookupKey H kind v" "lookupKey H kind v \<noteq> entityKey ''models'' x"
  "entityKey ''providers'' x \<noteq> lookupKey H kind v" "lookupKey H kind v \<noteq> entityKey ''providers'' x"
  "indexKey c \<noteq> lookupKey H kind v" "lookupKey H kind v \<noteq> indexKey c"
  "indexKey ''models'' \<noteq> indexKey ''providers''" "indexKey ''providers'' \<noteq> indexKey ''models''"
  "lookupKey H ''model-alias'' v \<notin> provider_family H" "entityKey ''models'' x \<notin> provider_family H"
  "entityKey ''providers'' x \<notin> provider_family H"
  "indexKey c \<notin> provider_family H" "modelsByProviderIndexKey pid \<notin> provider_family H"
  "lookupKey H ''provider-slug'' w \<noteq> lookupKey H ''model-alias'' v"
  "lookupKey H ''model-alias'' v \<noteq> lookupKey H ''provider-slug'' w"
  "lookupKey H ''model-alias'' v \<noteq> lookupKey H ''provider-adapter-app-id'' w"
  "lookupKey H ''provider-adapter-app-id'' w \<noteq> lookupKey H ''model-alias'' v"
  by (auto simp: key_defs provider_family_def)

lemma entityKey_same [simp]: "entityKey c x = entityKey c y \<longleftrightarrow> x = y"
  by (simp add: entityKey_def)

definition catalog_space :: "(string \<Rightarrow> string) \<Rightarrow> string set" where
  "catalog_space H = key_space ''providers'' (provider_family H) \<union> key_space ''models'' (alias_family H) \<union>
     range modelsByProviderIndexKey"

sublocale total_store \<subseteq> models: resource_total ModelCodec "''models''" Model_ID "modelLookups H"
    "range (lookupKey H ''model-alias'')" st tagged_view for H
  by unfold_locales (auto simp: modelLookups_def)

lemma model_alias_keys: "keys_of (modelLookups H) model = {lookupKey H ''model-alias'' (Model_Alias model)}"
  by (simp add: keys_of_def modelLookups_def)

section \<open>Reading the catalog\<close>

lemma holds_catalogD:
  assumes "holds_catalog H c m"
  shows "holds_providers H (Providers c) m" "holds_models H (Models c) m"
    "indexes m (modelsByProviderIndexKey pid) (models_of (Models c) pid)"
  using assms by (simp_all add: holds_catalog_def)

lemma holds_catalog_frame:
  assumes "holds_catalog H c m" and "\<And>k. k \<in> catalog_space H \<Longrightarrow> m' k = m k"
  shows "holds_catalog H c m'"
  using assms mem.providers.represents_frame [of H "Providers c" m m'] mem.models.represents_frame [of H "Models c" m m']
    indexes_cong [of m' "modelsByProviderIndexKey _" m]
  by (simp add: holds_catalog_def holds_providers_def holds_models_def catalog_space_def)

context total_store
begin

lemma readProviderEntry_outcome:
  assumes "holds_providers H P (val s)"
  shows "readProviderEntry st pid s =
    ebind (require P pid) (\<lambda>provider. Inr (provider, entry_of (tagged_view s (entityKey ''providers'' pid))))"
  using providers.read_current [OF assms [unfolded holds_providers_def], of pid]
  by (cases "P pid") (auto simp: readProviderEntry_def Get_eq Exists_val domIff)

lemma provider_touch:
  assumes "holds_providers H P (val s)" and "P pid = Some provider"
  shows "providerTouchOperation provider (entry_of (tagged_view s (entityKey ''providers'' pid))) =
      ebind (encode ProviderCodec provider) (\<lambda>value.
      Inr (upsert (entityKey ''providers'' pid) value (tag_of s (entityKey ''providers'' pid))))"
    and "val s (entityKey ''providers'' pid) = Some (Some (json_of ProviderCodec provider))"
  using providers.represents_id [OF assms [unfolded holds_providers_def]]
    providers.represents_entity [OF assms(1) [unfolded holds_providers_def], of pid] assms(2)
  by (auto simp: providerTouchOperation_def tag_of_def fun_eq_iff)

end

section \<open>Creating a model\<close>

context total_store
begin

lemma alias_taken:
  assumes "holds_models H M (val s)"
  shows "lookupKey H ''model-alias'' (Model_Alias x) \<in> dom (val s) \<longleftrightarrow> taken (modelLookups H) M x"
  using models.taken_iff [OF assms [unfolded holds_models_def], of x] by (simp add: model_alias_keys)

lemma CreateModel_plan:
  assumes C: "holds_catalog H c (val s)"
  obtains globalIndex providerIndex where
    "set (IDs globalIndex) = dom (Models c)" "distinct (IDs globalIndex)"
    "set (IDs providerIndex) = models_of (Models c) (Model_ProviderID x)" "distinct (IDs providerIndex)"
    "repo_CreateModel_plan H st x s = ebind (create_model_check H x c) (\<lambda>_. Inr
      [upsert (entityKey ''models'' (Model_ID x)) (json_of ModelCodec x) '''',
       upsert (indexKey ''models'') (json_of IndexCodec (addIndexID globalIndex (Model_ID x))) (tag_of s (indexKey ''models'')),
       upsert (lookupKey H ''model-alias'' (Model_Alias x)) (JStr (Model_ID x)) '''',
       upsert (modelsByProviderIndexKey (Model_ProviderID x)) (json_of IndexCodec (addIndexID providerIndex (Model_ID x)))
         (tag_of s (modelsByProviderIndexKey (Model_ProviderID x))),
       upsert (entityKey ''providers'' (Model_ProviderID x))
         (json_of ProviderCodec (the (Providers c (Model_ProviderID x))))
         (tag_of s (entityKey ''providers'' (Model_ProviderID x)))])"
proof -
  note P = holds_catalogD(1) [OF C] and M = holds_catalogD(2) [OF C] and I = holds_catalogD(3) [OF C]
  obtain globalIndex where gi: "readIndex st (indexKey ''models'') s = Inr (globalIndex, tag_of s (indexKey ''models''))"
    "set (IDs globalIndex) = dom (Models c)" "distinct (IDs globalIndex)"
    using readIndex_total [OF models.represents_index [OF M [unfolded holds_models_def]]] .
  obtain providerIndex where pi: "readIndex st (modelsByProviderIndexKey (Model_ProviderID x)) s =
      Inr (providerIndex, tag_of s (modelsByProviderIndexKey (Model_ProviderID x)))"
    "set (IDs providerIndex) = models_of (Models c) (Model_ProviderID x)" "distinct (IDs providerIndex)"
    using readIndex_total [OF I] .
  show thesis
    by (rule that [OF gi(2,3) pi(2,3)], cases "Providers c (Model_ProviderID x)")
      (simp_all add: repo_CreateModel_plan_def create_model_check_def Get_eq Exists_val gi(1) pi(1) ebind_assoc
        models.read_current(1) [OF M [unfolded holds_models_def]] alias_taken [OF M]
        readProviderEntry_outcome [OF P] provider_touch(1) [OF P] encode_def)
qed

lemma CreateModel_effect:
  assumes C: "holds_catalog H c m" and ok: "create_model_check H x c = Inr ()"
    and gi: "set (IDs globalIndex) = dom (Models c)" "distinct (IDs globalIndex)"
    and pi: "set (IDs providerIndex) = models_of (Models c) (Model_ProviderID x)" "distinct (IDs providerIndex)"
    and free: "lookupKey H ''model-alias'' (Model_Alias x) \<notin> dom m"
    and m': "m' = m(entityKey ''models'' (Model_ID x) \<mapsto> Some (json_of ModelCodec x),
       indexKey ''models'' \<mapsto> Some (json_of IndexCodec (addIndexID globalIndex (Model_ID x))),
       lookupKey H ''model-alias'' (Model_Alias x) \<mapsto> Some (JStr (Model_ID x)),
       modelsByProviderIndexKey (Model_ProviderID x) \<mapsto> Some (json_of IndexCodec (addIndexID providerIndex (Model_ID x))))"
  shows "holds_catalog H (put_model x c) m'"
proof -
  note P = holds_catalogD(1) [OF C] and M = holds_catalogD(2) [OF C] and I = holds_catalogD(3) [OF C]
  from ok have new: "Models c (Model_ID x) = None" by (auto simp: create_model_check_def domIff)
  have "holds_providers H (Providers c) m'"
    unfolding holds_providers_def
    by (rule providers.represents_frame [OF P [unfolded holds_providers_def]])
      (auto simp: m' key_space_def)
  moreover have "holds_models H ((Models c)(Model_ID x := Some x)) m'"
    unfolding holds_models_def
  proof (rule models.represents_update [OF M [unfolded holds_models_def]])
    have "indexes m' (indexKey ''models'') (set (IDs (addIndexID globalIndex (Model_ID x))))"
      by (rule indexes_put) (simp_all add: m' gi)
    then show "indexes m' (indexKey ''models'') (dom ((Models c)(Model_ID x := Some x)))" by (simp add: gi)
  qed (use new free models.represents_entity [OF M [unfolded holds_models_def]] in
      \<open>auto simp: m' model_alias_keys domIff\<close>)
  moreover have "indexes m' (modelsByProviderIndexKey pid) (models_of ((Models c)(Model_ID x := Some x)) pid)" for pid
  proof (cases "pid = Model_ProviderID x")
    case True
    have "indexes m' (modelsByProviderIndexKey pid) (set (IDs (addIndexID providerIndex (Model_ID x))))"
      by (rule indexes_put) (simp_all add: m' pi True)
    moreover have "models_of ((Models c)(Model_ID x := Some x)) pid = insert (Model_ID x) (models_of (Models c) pid)"
      using new True by (auto simp: models_of_def)
    ultimately show ?thesis by (simp add: pi True)
  next
    case False
    then have "models_of ((Models c)(Model_ID x := Some x)) pid = models_of (Models c) pid"
      using new by (auto simp: models_of_def)
    moreover have "m' (modelsByProviderIndexKey pid) = m (modelsByProviderIndexKey pid)"
      using False by (simp add: m')
    ultimately show ?thesis using I [of pid] by (simp add: indexes_cong [of m' _ m])
  qed
  ultimately show ?thesis by (simp add: holds_catalog_def put_model_def)
qed

lemma CreateModel_refines:
  assumes C: "holds_catalog H c (val s)" and run: "repo_CreateModel H st x s = (r, s')"
    and spec: "guarded (create_model_check H x c) (put_model x) c = (r', c')"
  shows "r = r' \<and> holds_catalog H c' (val s')"
proof -
  obtain globalIndex providerIndex where idx:
    "set (IDs globalIndex) = dom (Models c)" "distinct (IDs globalIndex)"
    "set (IDs providerIndex) = models_of (Models c) (Model_ProviderID x)" "distinct (IDs providerIndex)"
    and plan: "repo_CreateModel_plan H st x s = ebind (create_model_check H x c) (\<lambda>_. Inr
      [upsert (entityKey ''models'' (Model_ID x)) (json_of ModelCodec x) [],
       upsert (indexKey ''models'') (json_of IndexCodec (addIndexID globalIndex (Model_ID x))) (tag_of s (indexKey ''models'')),
       upsert (lookupKey H ''model-alias'' (Model_Alias x)) (JStr (Model_ID x)) [],
       upsert (modelsByProviderIndexKey (Model_ProviderID x)) (json_of IndexCodec (addIndexID providerIndex (Model_ID x)))
         (tag_of s (modelsByProviderIndexKey (Model_ProviderID x))),
       upsert (entityKey ''providers'' (Model_ProviderID x))
         (json_of ProviderCodec (the (Providers c (Model_ProviderID x))))
         (tag_of s (entityKey ''providers'' (Model_ProviderID x)))])"
    (is "_ = ebind _ (\<lambda>_. Inr ?operations)")
    using CreateModel_plan [OF C] .
  have res: "r = create_model_check H x c"
    "val s' = (if create_model_check H x c = Inr () then apply_ops ?operations (val s) else val s)"
    using commit_guarded [OF plan _ run [unfolded repo_CreateModel_def]] by simp_all
  have "holds_catalog H (put_model x c) (apply_ops ?operations (val s))" if ok: "create_model_check H x c = Inr ()"
  proof (rule CreateModel_effect [OF C ok idx])
    from ok obtain p where p: "Providers c (Model_ProviderID x) = Some p" by (auto simp: create_model_check_def)
    show "lookupKey H ''model-alias'' (Model_Alias x) \<notin> dom (val s)"
      using ok by (simp add: alias_taken [OF holds_catalogD(2) [OF C]] create_model_check_def)
    show "apply_ops ?operations (val s) = (val s)(entityKey ''models'' (Model_ID x) \<mapsto> Some (json_of ModelCodec x),
       indexKey ''models'' \<mapsto> Some (json_of IndexCodec (addIndexID globalIndex (Model_ID x))),
       lookupKey H ''model-alias'' (Model_Alias x) \<mapsto> Some (JStr (Model_ID x)),
       modelsByProviderIndexKey (Model_ProviderID x) \<mapsto> Some (json_of IndexCodec (addIndexID providerIndex (Model_ID x))))"
      using provider_touch(2) [OF holds_catalogD(1) [OF C] p] p by (auto simp: fun_eq_iff)
  qed
  with res spec C show ?thesis by (auto simp: guarded_def split: if_splits)
qed

end

section \<open>Replacing a model\<close>

lemma models_of_put: "models_of (M(mid \<mapsto> x)) pid =
    (if pid = Model_ProviderID x then insert mid (models_of M pid) else models_of M pid - {mid})"
  by (auto simp: models_of_def)

lemma models_of_drop: "models_of (M(mid := None)) pid = models_of M pid - {mid}"
  by (auto simp: models_of_def)

context total_store
begin

lemma model_alias_owner:
  assumes M: "holds_models H M (val s)" and x: "M mid = Some x"
  shows "val s (lookupKey H ''model-alias'' (Model_Alias x)) = Some (Some (JStr mid))"
  using models.lookup_owner [OF M [unfolded holds_models_def] x] by (simp add: model_alias_keys)

lemma ReplaceModel_plan:
  assumes C: "holds_catalog H c (val s)"
    and oi: "readIndex st (modelsByProviderIndexKey (Model_ProviderID y)) s =
      Inr (oldIndex, tag_of s (modelsByProviderIndexKey (Model_ProviderID y)))"
    and ni: "readIndex st (modelsByProviderIndexKey (Model_ProviderID x)) s =
      Inr (newIndex, tag_of s (modelsByProviderIndexKey (Model_ProviderID x)))"
  shows "repo_ReplaceModel_plan H st y x s = ebind (replace_model_check y x c) (\<lambda>_. Inr
      ([upsert (entityKey ''models'' (Model_ID x)) (json_of ModelCodec x) (tag_of s (entityKey ''models'' (Model_ID x))),
        upsert (lookupKey H ''model-alias'' (Model_Alias x)) (JStr (Model_ID x)) []] @
       (if Model_ProviderID x \<noteq> Model_ProviderID y
        then [upsert (modelsByProviderIndexKey (Model_ProviderID y)) (json_of IndexCodec (removeIndexID oldIndex (Model_ID x)))
                (tag_of s (modelsByProviderIndexKey (Model_ProviderID y)))] else []) @
       [upsert (modelsByProviderIndexKey (Model_ProviderID x)) (json_of IndexCodec (addIndexID newIndex (Model_ID x)))
          (tag_of s (modelsByProviderIndexKey (Model_ProviderID x))),
        upsert (entityKey ''providers'' (Model_ProviderID y))
          (json_of ProviderCodec (the (Providers c (Model_ProviderID y))))
          (tag_of s (entityKey ''providers'' (Model_ProviderID y)))] @
       (if Model_ProviderID x \<noteq> Model_ProviderID y
        then [upsert (entityKey ''providers'' (Model_ProviderID x))
          (json_of ProviderCodec (the (Providers c (Model_ProviderID x))))
          (tag_of s (entityKey ''providers'' (Model_ProviderID x)))] else [])))"
proof -
  note P = holds_catalogD(1) [OF C] and M = holds_catalogD(2) [OF C]
  note cur = models.read_current [OF M [unfolded holds_models_def], of "Model_ID x"]
  note defs = repo_ReplaceModel_plan_def replace_model_check_def Get_eq Exists_val cur
  consider "Model_ID y \<noteq> Model_ID x" | "Model_ID y = Model_ID x" "Model_Alias y \<noteq> Model_Alias x"
    | "Model_ID y = Model_ID x" "Model_Alias y = Model_Alias x" "Models c (Model_ID x) \<noteq> Some y"
    | "Model_ID y = Model_ID x" "Model_Alias y = Model_Alias x" "Models c (Model_ID x) = Some y" by blast
  then show ?thesis
  proof cases
    case 3
    moreover have "val s (entityKey ''models'' (Model_ID x)) = None \<longleftrightarrow> Models c (Model_ID x) = None"
      using cur(1) by blast
    ultimately show ?thesis by (cases "Models c (Model_ID x)") (simp_all add: defs(1-4) cur(2) domIff)
  next
    case 4
    then have own: "val s (lookupKey H ''model-alias'' (Model_Alias x)) = Some (Some (JStr (Model_ID x)))"
      using model_alias_owner [OF M, of "Model_ID x" y] by simp
    then have "Unmarshal StringCodec (Entry_Value (entry_of
        (tagged_view s (lookupKey H ''model-alias'' (Model_Alias x))))) = Inr (Model_ID x)"
      by (simp add: Value_val Unmarshal_def StringCodec_def)
    moreover have "newIndex = oldIndex" if "Model_ProviderID x = Model_ProviderID y"
      using oi ni that by simp
    ultimately show ?thesis using 4
      by (cases "Providers c (Model_ProviderID x)"; cases "Providers c (Model_ProviderID y)")
        (auto simp: defs ebind_assoc oi ni readProviderEntry_outcome [OF P] provider_touch(1) [OF P]
          encode_def Let_def tag_of_def ebind_fail_if)
  qed (simp_all add: defs)
qed

lemma ReplaceModel_effect:
  assumes C: "holds_catalog H c m" and old: "Models c (Model_ID x) = Some y"
    and same: "Model_ID y = Model_ID x" "Model_Alias y = Model_Alias x"
    and oi: "set (IDs oldIndex) = models_of (Models c) (Model_ProviderID y)" "distinct (IDs oldIndex)"
    and ni: "set (IDs newIndex) = models_of (Models c) (Model_ProviderID x)" "distinct (IDs newIndex)"
    and m': "m' = m(entityKey ''models'' (Model_ID x) \<mapsto> Some (json_of ModelCodec x),
       modelsByProviderIndexKey (Model_ProviderID y) \<mapsto> Some (json_of IndexCodec (removeIndexID oldIndex (Model_ID x))),
       modelsByProviderIndexKey (Model_ProviderID x) \<mapsto> Some (json_of IndexCodec (addIndexID newIndex (Model_ID x))))"
  shows "holds_catalog H (put_model x c) m'"
proof -
  note P = holds_catalogD(1) [OF C, unfolded holds_providers_def]
    and M = holds_catalogD(2) [OF C, unfolded holds_models_def] and I = holds_catalogD(3) [OF C]
  have own: "m (lookupKey H ''model-alias'' (Model_Alias x)) = Some (Some (JStr (Model_ID x)))"
    using models.lookup_owner [OF M old] same by (simp add: model_alias_keys)
  have "holds_providers H (Providers c) m'"
    unfolding holds_providers_def
    by (rule providers.represents_frame [OF P]) (auto simp: m' key_space_def)
  moreover have "holds_models H ((Models c)(Model_ID x := Some x)) m'"
    unfolding holds_models_def
  proof (rule models.represents_update [OF M])
    have "m' (indexKey ''models'') = m (indexKey ''models'')" by (simp add: m')
    then show "indexes m' (indexKey ''models'') (dom ((Models c)(Model_ID x := Some x)))"
      using models.represents_index [OF M] old by (simp add: indexes_cong [of m' _ m] insert_absorb domI)
  qed (use own old same models.represents_entity [OF M] in \<open>auto simp: m' model_alias_keys\<close>)
  moreover have "indexes m' (modelsByProviderIndexKey pid) (models_of ((Models c)(Model_ID x := Some x)) pid)" for pid
  proof -
    consider "pid = Model_ProviderID x" | "pid \<noteq> Model_ProviderID x" "pid = Model_ProviderID y"
      | "pid \<noteq> Model_ProviderID x" "pid \<noteq> Model_ProviderID y" by blast
    then show ?thesis
    proof cases
      case 1
      have "indexes m' (modelsByProviderIndexKey pid) (set (IDs (addIndexID newIndex (Model_ID x))))"
        by (rule indexes_put) (simp_all add: m' ni 1)
      then show ?thesis using 1 ni(1) by (simp add: models_of_put)
    next
      case 2
      have "indexes m' (modelsByProviderIndexKey pid) (set (IDs (removeIndexID oldIndex (Model_ID x))))"
        by (rule indexes_put) (use 2 in \<open>simp_all add: m' oi\<close>)
      then show ?thesis using 2 oi(1) by (simp add: models_of_put)
    next
      case 3
      then have "m' (modelsByProviderIndexKey pid) = m (modelsByProviderIndexKey pid)" by (simp add: m')
      moreover have "Model_ID x \<notin> models_of (Models c) pid" using 3 old by (simp add: models_of_def)
      ultimately show ?thesis using I [of pid] 3 by (simp add: models_of_put indexes_cong [of m' _ m])
    qed
  qed
  ultimately show ?thesis by (simp add: holds_catalog_def put_model_def)
qed

lemma ReplaceModel_refines:
  assumes C: "holds_catalog H c (val s)" and run: "repo_ReplaceModel H st y x s = (r, s')"
    and spec: "guarded (replace_model_check y x c) (put_model x) c = (r', c')"
  shows "r = r' \<and> holds_catalog H c' (val s')"
proof -
  obtain oldIndex where oi: "readIndex st (modelsByProviderIndexKey (Model_ProviderID y)) s =
      Inr (oldIndex, tag_of s (modelsByProviderIndexKey (Model_ProviderID y)))"
    "set (IDs oldIndex) = models_of (Models c) (Model_ProviderID y)" "distinct (IDs oldIndex)"
    using readIndex_total [OF holds_catalogD(3) [OF C]] .
  obtain newIndex where ni: "readIndex st (modelsByProviderIndexKey (Model_ProviderID x)) s =
      Inr (newIndex, tag_of s (modelsByProviderIndexKey (Model_ProviderID x)))"
    "set (IDs newIndex) = models_of (Models c) (Model_ProviderID x)" "distinct (IDs newIndex)"
    using readIndex_total [OF holds_catalogD(3) [OF C]] .
  note res = commit_guarded [OF ReplaceModel_plan [OF C oi(1) ni(1)] _ run [unfolded repo_ReplaceModel_def]]
  have r: "r = replace_model_check y x c" by (rule res(1)) simp
  show ?thesis
  proof (cases "replace_model_check y x c")
    case (Inl e)
    then have "val s' = val s" using res(2) by simp
    with Inl r spec C show ?thesis by (auto simp: guarded_def)
  next
    case (Inr u)
    then obtain p q where old: "Models c (Model_ID x) = Some y" and same: "Model_ID y = Model_ID x" "Model_Alias y = Model_Alias x"
      and p: "Providers c (Model_ProviderID y) = Some p" and q: "Providers c (Model_ProviderID x) = Some q"
      by (auto simp: replace_model_check_def)
    have "holds_catalog H (put_model x c) (val s')"
    proof (rule ReplaceModel_effect [OF C old same oi(2,3) ni(2,3)])
      show "val s' = (val s)(entityKey ''models'' (Model_ID x) \<mapsto> Some (json_of ModelCodec x),
         modelsByProviderIndexKey (Model_ProviderID y) \<mapsto> Some (json_of IndexCodec (removeIndexID oldIndex (Model_ID x))),
         modelsByProviderIndexKey (Model_ProviderID x) \<mapsto> Some (json_of IndexCodec (addIndexID newIndex (Model_ID x))))"
        using Inr provider_touch(2) [OF holds_catalogD(1) [OF C] p] provider_touch(2) [OF holds_catalogD(1) [OF C] q] p q
          model_alias_owner [OF holds_catalogD(2) [OF C] old] same
        by (subst res(2)) (auto simp: fun_eq_iff)
    qed
    with Inr r spec show ?thesis by (auto simp: guarded_def)
  qed
qed

end

section \<open>Deleting a model, deleting a provider\<close>

context total_store
begin

lemma DeleteModel_plan:
  assumes C: "holds_catalog H c (val s)"
    and gi: "readIndex st (indexKey ''models'') s = Inr (globalIndex, tag_of s (indexKey ''models''))"
    and pi: "readIndex st (modelsByProviderIndexKey (Model_ProviderID x)) s =
      Inr (providerIndex, tag_of s (modelsByProviderIndexKey (Model_ProviderID x)))"
  shows "repo_DeleteModel_plan H st x s = ebind (delete_model_check x c) (\<lambda>_. Inr
      ([delete_op (entityKey ''models'' (Model_ID x)) (tag_of s (entityKey ''models'' (Model_ID x))),
        upsert (indexKey ''models'') (json_of IndexCodec (removeIndexID globalIndex (Model_ID x))) (tag_of s (indexKey ''models'')),
        upsert (modelsByProviderIndexKey (Model_ProviderID x)) (json_of IndexCodec (removeIndexID providerIndex (Model_ID x)))
          (tag_of s (modelsByProviderIndexKey (Model_ProviderID x))),
        delete_op (lookupKey H ''model-alias'' (Model_Alias x)) []] @
       (case Providers c (Model_ProviderID x) of None \<Rightarrow> []
        | Some p \<Rightarrow> [upsert (entityKey ''providers'' (Model_ProviderID x)) (json_of ProviderCodec p)
            (tag_of s (entityKey ''providers'' (Model_ProviderID x)))])))"
proof -
  note P = holds_catalogD(1) [OF C] and M = holds_catalogD(2) [OF C]
  note cur = models.read_current [OF M [unfolded holds_models_def], of "Model_ID x"]
  have missing: "val s (entityKey ''models'' (Model_ID x)) = None \<longleftrightarrow> Models c (Model_ID x) = None"
    using cur(1) by blast
  note defs = repo_DeleteModel_plan_def delete_model_check_def Get_eq Exists_val
  show ?thesis
  proof (cases "Models c (Model_ID x)")
    case None
    with missing show ?thesis by (simp add: defs domIff)
  next
    case (Some z)
    then show ?thesis
      by (cases "Providers c (Model_ProviderID x)")
        (simp_all add: defs cur domI gi pi ebind_assoc readProviderEntry_outcome [OF P] provider_touch(1) [OF P]
          encode_def tag_of_def Let_def)
  qed
qed

lemma DeleteModel_effect:
  assumes C: "holds_catalog H c m" and old: "Models c (Model_ID x) = Some x"
    and gi: "set (IDs globalIndex) = dom (Models c)" "distinct (IDs globalIndex)"
    and pi: "set (IDs providerIndex) = models_of (Models c) (Model_ProviderID x)" "distinct (IDs providerIndex)"
    and m': "m' = m(entityKey ''models'' (Model_ID x) := None,
       indexKey ''models'' \<mapsto> Some (json_of IndexCodec (removeIndexID globalIndex (Model_ID x))),
       modelsByProviderIndexKey (Model_ProviderID x) \<mapsto> Some (json_of IndexCodec (removeIndexID providerIndex (Model_ID x))),
       lookupKey H ''model-alias'' (Model_Alias x) := None)"
  shows "holds_catalog H (drop_model x c) m'"
proof -
  note P = holds_catalogD(1) [OF C, unfolded holds_providers_def]
    and M = holds_catalogD(2) [OF C, unfolded holds_models_def] and I = holds_catalogD(3) [OF C]
  have "holds_providers H (Providers c) m'"
    unfolding holds_providers_def
    by (rule providers.represents_frame [OF P]) (auto simp: m' key_space_def)
  moreover have "holds_models H ((Models c)(Model_ID x := None)) m'"
    unfolding holds_models_def
  proof (rule models.represents_update [OF M])
    have "indexes m' (indexKey ''models'') (set (IDs (removeIndexID globalIndex (Model_ID x))))"
      by (rule indexes_put) (simp_all add: m' gi)
    then show "indexes m' (indexKey ''models'') (dom ((Models c)(Model_ID x := None)))" by (simp add: gi)
  qed (use old models.represents_entity [OF M] in \<open>auto simp: m' model_alias_keys\<close>)
  moreover have "indexes m' (modelsByProviderIndexKey pid) (models_of ((Models c)(Model_ID x := None)) pid)" for pid
  proof (cases "pid = Model_ProviderID x")
    case True
    have "indexes m' (modelsByProviderIndexKey pid) (set (IDs (removeIndexID providerIndex (Model_ID x))))"
      by (rule indexes_put) (simp_all add: m' pi True)
    then show ?thesis by (simp add: pi True models_of_drop)
  next
    case False
    then have "m' (modelsByProviderIndexKey pid) = m (modelsByProviderIndexKey pid)" by (simp add: m')
    moreover have "Model_ID x \<notin> models_of (Models c) pid" using False old by (simp add: models_of_def)
    ultimately show ?thesis using I [of pid] by (simp add: models_of_drop indexes_cong [of m' _ m])
  qed
  ultimately show ?thesis by (simp add: holds_catalog_def drop_model_def)
qed

lemma DeleteModel_refines:
  assumes C: "holds_catalog H c (val s)" and run: "repo_DeleteModel H st x s = (r, s')"
    and spec: "guarded (delete_model_check x c) (drop_model x) c = (r', c')"
  shows "r = r' \<and> holds_catalog H c' (val s')"
proof -
  obtain globalIndex where gi: "readIndex st (indexKey ''models'') s = Inr (globalIndex, tag_of s (indexKey ''models''))"
    "set (IDs globalIndex) = dom (Models c)" "distinct (IDs globalIndex)"
    using readIndex_total [OF models.represents_index [OF holds_catalogD(2) [OF C, unfolded holds_models_def]]] .
  obtain providerIndex where pi: "readIndex st (modelsByProviderIndexKey (Model_ProviderID x)) s =
      Inr (providerIndex, tag_of s (modelsByProviderIndexKey (Model_ProviderID x)))"
    "set (IDs providerIndex) = models_of (Models c) (Model_ProviderID x)" "distinct (IDs providerIndex)"
    using readIndex_total [OF holds_catalogD(3) [OF C]] .
  note res = commit_guarded [OF DeleteModel_plan [OF C gi(1) pi(1)] _ run [unfolded repo_DeleteModel_def]]
  have r: "r = delete_model_check x c" by (rule res(1)) (simp split: option.split)
  show ?thesis
  proof (cases "delete_model_check x c")
    case (Inl e)
    then have "val s' = val s" using res(2) by simp
    with Inl r spec C show ?thesis by (auto simp: guarded_def)
  next
    case (Inr u)
    then have old: "Models c (Model_ID x) = Some x" by (auto simp: delete_model_check_def)
    have "holds_catalog H (drop_model x c) (val s')"
    proof (rule DeleteModel_effect [OF C old gi(2,3) pi(2,3)])
      show "val s' = (val s)(entityKey ''models'' (Model_ID x) := None,
         indexKey ''models'' \<mapsto> Some (json_of IndexCodec (removeIndexID globalIndex (Model_ID x))),
         modelsByProviderIndexKey (Model_ProviderID x) \<mapsto> Some (json_of IndexCodec (removeIndexID providerIndex (Model_ID x))),
         lookupKey H ''model-alias'' (Model_Alias x) := None)"
        using Inr provider_touch(2) [OF holds_catalogD(1) [OF C], of "Model_ProviderID x"]
        by (subst res(2)) (auto simp: fun_eq_iff split: option.split)
    qed
    with Inr r spec show ?thesis by (auto simp: guarded_def)
  qed
qed

lemma DeleteProvider_plan:
  assumes C: "holds_catalog H c (val s)"
    and mi: "readIndex st (modelsByProviderIndexKey (Provider_ID p)) s =
      Inr (modelIndex, tag_of s (modelsByProviderIndexKey (Provider_ID p)))"
    and ids: "set (IDs modelIndex) = models_of (Models c) (Provider_ID p)"
    and pi: "readIndex st (indexKey ''providers'') s = Inr (providerIndex, tag_of s (indexKey ''providers''))"
  shows "repo_DeleteProviderIfNoModels_plan H st p s = ebind (delete_provider_check p c) (\<lambda>_. Inr
      ([delete_op (entityKey ''providers'' (Provider_ID p)) (tag_of s (entityKey ''providers'' (Provider_ID p))),
        upsert (indexKey ''providers'') (json_of IndexCodec (removeIndexID providerIndex (Provider_ID p)))
          (tag_of s (indexKey ''providers''))] @
       map (\<lambda>(key, _). delete_op key []) (providerLookups H p) @
       (if tag_of s (modelsByProviderIndexKey (Provider_ID p)) \<noteq> []
        then [delete_op (modelsByProviderIndexKey (Provider_ID p)) (tag_of s (modelsByProviderIndexKey (Provider_ID p)))]
        else [])))"
proof -
  have "IDs modelIndex = [] \<longleftrightarrow> models_of (Models c) (Provider_ID p) = {}" using ids by auto
  then show ?thesis
    by (cases "Providers c (Provider_ID p)")
      (simp_all add: repo_DeleteProviderIfNoModels_plan_def delete_provider_check_def ebind_assoc mi pi
        readProviderEntry_outcome [OF holds_catalogD(1) [OF C]] tag_of_def)
qed

lemma DeleteProvider_effect:
  assumes C: "holds_catalog H c m" and old: "Providers c (Provider_ID p) = Some p"
    and none: "models_of (Models c) (Provider_ID p) = {}"
    and pi: "set (IDs providerIndex) = dom (Providers c)" "distinct (IDs providerIndex)"
    and m': "m' = (\<lambda>k. if k \<in> keys_of (providerLookups H) p \<or> k = modelsByProviderIndexKey (Provider_ID p) then None
       else (m(entityKey ''providers'' (Provider_ID p) := None,
         indexKey ''providers'' \<mapsto> Some (json_of IndexCodec (removeIndexID providerIndex (Provider_ID p))))) k)"
  shows "holds_catalog H (drop_provider p c) m'"
proof -
  note P = holds_catalogD(1) [OF C, unfolded holds_providers_def]
    and M = holds_catalogD(2) [OF C, unfolded holds_models_def] and I = holds_catalogD(3) [OF C]
  have "holds_models H (Models c) m'"
    unfolding holds_models_def
    by (rule models.represents_frame [OF M]) (auto simp: m' key_space_def provider_keys)
  moreover have "holds_providers H ((Providers c)(Provider_ID p := None)) m'"
    unfolding holds_providers_def
  proof (rule providers.represents_update [OF P])
    have "indexes m' (indexKey ''providers'') (set (IDs (removeIndexID providerIndex (Provider_ID p))))"
      by (rule indexes_put) (simp_all add: m' pi provider_keys)
    then show "indexes m' (indexKey ''providers'') (dom ((Providers c)(Provider_ID p := None)))" by (simp add: pi)
    show "m' (entityKey ''providers'' r) =
        map_option (\<lambda>x. Some (json_of ProviderCodec x)) (((Providers c)(Provider_ID p := None)) r)" for r
      using providers.represents_entity [OF P] by (simp add: m' provider_keys)
    show "m' key = (if \<exists>y. None = Some y \<and> key \<in> keys_of (providerLookups H) y then Some (Some (JStr (Provider_ID p)))
       else if \<exists>x. Providers c (Provider_ID p) = Some x \<and> key \<in> keys_of (providerLookups H) x then None else m key)"
      if "key \<in> provider_family H" for key
      using that old by (auto simp: m' provider_keys)
  qed auto
  moreover have "indexes m' (modelsByProviderIndexKey pid) (models_of (Models c) pid)" for pid
  proof (cases "pid = Provider_ID p")
    case True
    then show ?thesis using none by (simp add: indexes_None m')
  next
    case False
    then have "m' (modelsByProviderIndexKey pid) = m (modelsByProviderIndexKey pid)" by (simp add: m' provider_keys)
    then show ?thesis using I [of pid] by (simp add: indexes_cong [of m' _ m])
  qed
  ultimately show ?thesis by (simp add: holds_catalog_def drop_provider_def)
qed

lemma DeleteProviderIfNoModels_refines:
  assumes C: "holds_catalog H c (val s)" and run: "repo_DeleteProviderIfNoModels H st p s = (r, s')"
    and spec: "guarded (delete_provider_check p c) (drop_provider p) c = (r', c')"
  shows "r = r' \<and> holds_catalog H c' (val s')"
proof -
  obtain modelIndex where mi: "readIndex st (modelsByProviderIndexKey (Provider_ID p)) s =
      Inr (modelIndex, tag_of s (modelsByProviderIndexKey (Provider_ID p)))"
    "set (IDs modelIndex) = models_of (Models c) (Provider_ID p)"
    using readIndex_total [OF holds_catalogD(3) [OF C]] by metis
  obtain providerIndex where pi: "readIndex st (indexKey ''providers'') s = Inr (providerIndex, tag_of s (indexKey ''providers''))"
    "set (IDs providerIndex) = dom (Providers c)" "distinct (IDs providerIndex)"
    using readIndex_total [OF providers.represents_index [OF holds_catalogD(1) [OF C, unfolded holds_providers_def]]] .
  note res = commit_guarded [OF DeleteProvider_plan [OF C mi pi(1)] _ run [unfolded repo_DeleteProviderIfNoModels_def]]
  have r: "r = delete_provider_check p c" by (rule res(1)) simp
  show ?thesis
  proof (cases "delete_provider_check p c")
    case (Inl e)
    then have "val s' = val s" using res(2) by simp
    with Inl r spec C show ?thesis by (auto simp: guarded_def)
  next
    case (Inr u)
    then have old: "Providers c (Provider_ID p) = Some p" and none: "models_of (Models c) (Provider_ID p) = {}"
      by (auto simp: delete_provider_check_def)
    have tag: "tag_of s k = [] \<longleftrightarrow> val s k = None" for k
      using Get_tag [OF Get_eq] by (simp add: tag_of_def)
    have "holds_catalog H (drop_provider p c) (val s')"
      by (rule DeleteProvider_effect [OF C old none pi(2,3)])
        (use Inr tag in \<open>subst res(2), auto simp: fun_eq_iff apply_lookup_deletes keys_of_def\<close>)
    with Inr r spec show ?thesis by (auto simp: guarded_def)
  qed
qed

text \<open>The provider operations leave the models and their indexes alone.\<close>

lemma catalog_provider_frame:
  assumes C: "holds_catalog H c m" and P: "holds_providers H P m'"
    and frame: "\<And>k. k \<notin> key_space ''providers'' (provider_family H) \<Longrightarrow> m' k = m k"
  shows "holds_catalog H (c\<lparr>Providers := P\<rparr>) m'"
proof -
  have "holds_models H (Models c) m'"
    unfolding holds_models_def
    by (rule models.represents_frame [OF holds_catalogD(2) [OF C, unfolded holds_models_def]], rule frame)
      (auto simp: key_space_def)
  moreover have "indexes m' (modelsByProviderIndexKey pid) (models_of (Models c) pid)" for pid
  proof -
    have "m' (modelsByProviderIndexKey pid) = m (modelsByProviderIndexKey pid)"
      by (rule frame) (auto simp: key_space_def)
    then show ?thesis using holds_catalogD(3) [OF C, of pid] by (simp add: indexes_cong [of m' _ m])
  qed
  ultimately show ?thesis using P by (simp add: holds_catalog_def)
qed

lemma CreateProvider_catalog:
  assumes C: "holds_catalog H c (val s)" and run: "repo_CreateProvider H st p s = (r, s')"
    and spec: "create_spec ProviderCodec Provider_ID (providerLookups H) p (Providers c) = (r', P')"
  shows "r = r' \<and> holds_catalog H (c\<lparr>Providers := P'\<rparr>) (val s')"
proof -
  note run = run [unfolded repo_CreateProvider_def]
  have P: "r = r' \<and> holds_providers H P' (val s')"
    unfolding holds_providers_def
    by (rule providers.createResource_refines [OF holds_catalogD(1) [OF C, unfolded holds_providers_def] run spec])
  then show ?thesis
    using catalog_provider_frame [OF C] providers.createResource_frame [OF run] by blast
qed

lemma ReplaceProvider_catalog:
  assumes C: "holds_catalog H c (val s)" and run: "repo_ReplaceProvider H st q p s = (r, s')"
    and spec: "replace_spec ProviderCodec Provider_ID (providerLookups H) q p (Providers c) = (r', P')"
  shows "r = r' \<and> holds_catalog H (c\<lparr>Providers := P'\<rparr>) (val s')"
proof -
  note run = run [unfolded repo_ReplaceProvider_def]
  have P: "r = r' \<and> holds_providers H P' (val s')"
    unfolding holds_providers_def
    by (rule providers.replaceResource_refines [OF holds_catalogD(1) [OF C, unfolded holds_providers_def] run spec])
  then show ?thesis
    using catalog_provider_frame [OF C] providers.replaceResource_frame [OF run] by blast
qed

end

section \<open>Reachable catalogs\<close>

text \<open>
  The steps the resource service takes on the provider store. \<^verbatim>\<open>ProviderRepository.DeleteProvider\<close>
  is not among them: the service deletes a provider through \<^verbatim>\<open>DeleteProviderIfNoModels\<close> only.
\<close>

inductive catalog_step :: "(string \<Rightarrow> string) \<Rightarrow> memory \<Rightarrow> memory \<Rightarrow> bool" for H where
  step_CreateProvider: "repo_CreateProvider H MemoryStore p s = (r, s') \<Longrightarrow> catalog_step H s s'"
| step_ReplaceProvider: "repo_ReplaceProvider H MemoryStore q p s = (r, s') \<Longrightarrow> catalog_step H s s'"
| step_DeleteProvider: "repo_DeleteProviderIfNoModels H MemoryStore p s = (r, s') \<Longrightarrow> catalog_step H s s'"
| step_CreateModel: "repo_CreateModel H MemoryStore x s = (r, s') \<Longrightarrow> catalog_step H s s'"
| step_ReplaceModel: "repo_ReplaceModel H MemoryStore y x s = (r, s') \<Longrightarrow> catalog_step H s s'"
| step_DeleteModel: "repo_DeleteModel H MemoryStore x s = (r, s') \<Longrightarrow> catalog_step H s s'"

definition empty_catalog :: catalog where
  "empty_catalog = \<lparr>Providers = Map.empty, Models = Map.empty\<rparr>"

lemma holds_empty_catalog: "holds_catalog H empty_catalog (contents NewMemoryStore)"
  by (simp add: holds_catalog_def empty_catalog_def holds_providers_def holds_models_def collection_holds_def
      stores_def indexes_def looks_up_def models_of_def values_of_def memory_view_def NewMemoryStore_def)

lemma no_orphans_empty: "no_orphans empty_catalog"
  by (simp add: no_orphans_def empty_catalog_def)

lemma no_orphans_providers: "no_orphans c \<Longrightarrow> dom (Providers c) \<subseteq> dom P \<Longrightarrow> no_orphans (c\<lparr>Providers := P\<rparr>)"
  by (auto simp: no_orphans_def)

lemma create_spec_dom: "create_spec C f l x R = (r, R') \<Longrightarrow> dom R \<subseteq> dom R'"
  by (auto dest!: create_spec_result split: if_splits)

lemma replace_spec_dom: "replace_spec C f l x y R = (r, R') \<Longrightarrow> dom R \<subseteq> dom R'"
  by (auto dest!: replace_spec_result split: if_splits)

lemma no_orphans_create: "no_orphans c \<Longrightarrow> create_model_check H x c = Inr () \<Longrightarrow> no_orphans (put_model x c)"
  by (auto simp: no_orphans_def create_model_check_def put_model_def ran_def)

lemma no_orphans_replace: "no_orphans c \<Longrightarrow> replace_model_check y x c = Inr () \<Longrightarrow> no_orphans (put_model x c)"
  by (auto simp: no_orphans_def replace_model_check_def put_model_def ran_def)

lemma no_orphans_delete: "no_orphans c \<Longrightarrow> no_orphans (drop_model x c)"
  by (auto simp: no_orphans_def drop_model_def ran_def)

lemma no_orphans_delete_provider:
  "no_orphans c \<Longrightarrow> delete_provider_check p c = Inr () \<Longrightarrow> no_orphans (drop_provider p c)"
  by (auto simp: no_orphans_def delete_provider_check_def drop_provider_def models_of_def ran_def)

lemma no_orphans_guarded:
  "no_orphans c \<Longrightarrow> (r = Inr () \<Longrightarrow> no_orphans (f c)) \<Longrightarrow> guarded r f c = (r', c') \<Longrightarrow> no_orphans c'"
  by (auto simp: guarded_def)

definition good_store :: "(string \<Rightarrow> string) \<Rightarrow> memory \<Rightarrow> bool" where
  "good_store H s \<longleftrightarrow> (\<exists>c. holds_catalog H c (contents s) \<and> no_orphans c)"

lemma good_store_step: "catalog_step H s s' \<Longrightarrow> good_store H s \<Longrightarrow> good_store H s'"
proof (induction rule: catalog_step.induct)
  case (step_CreateProvider p s r s')
  then show ?case unfolding good_store_def
    by (metis surj_pair mem.CreateProvider_catalog create_spec_dom no_orphans_providers)
next
  case (step_ReplaceProvider q p s r s')
  then show ?case unfolding good_store_def
    by (metis surj_pair mem.ReplaceProvider_catalog replace_spec_dom no_orphans_providers)
next
  case (step_DeleteProvider p s r s')
  then show ?case unfolding good_store_def
    by (metis surj_pair mem.DeleteProviderIfNoModels_refines no_orphans_guarded no_orphans_delete_provider)
next
  case (step_CreateModel x s r s')
  then show ?case unfolding good_store_def
    by (metis surj_pair mem.CreateModel_refines no_orphans_guarded no_orphans_create)
next
  case (step_ReplaceModel y x s r s')
  then show ?case unfolding good_store_def
    by (metis surj_pair mem.ReplaceModel_refines no_orphans_guarded no_orphans_replace)
next
  case (step_DeleteModel x s r s')
  then show ?case unfolding good_store_def
    by (metis surj_pair mem.DeleteModel_refines no_orphans_guarded no_orphans_delete)
qed

lemma good_store_reachable: "(catalog_step H)\<^sup>*\<^sup>* NewMemoryStore s \<Longrightarrow> good_store H s"
proof (induction rule: rtranclp_induct)
  case base
  then show ?case using holds_empty_catalog no_orphans_empty by (auto simp: good_store_def)
qed (rule good_store_step)


section \<open>Properties\<close>

definition on_directory :: "((string \<rightharpoonup> Provider) \<Rightarrow> unit result \<times> (string \<rightharpoonup> Provider)) \<Rightarrow> catalog \<Rightarrow> unit result \<times> catalog" where
  "on_directory f c = (case f (Providers c) of (r, P) \<Rightarrow> (r, c\<lparr>Providers := P\<rparr>))"

lemma simulates_directory:
  assumes "\<And>c s r s' r' P. holds_catalog H c (contents s) \<Longrightarrow> f s = (r, s') \<Longrightarrow> g (Providers c) = (r', P) \<Longrightarrow>
    r = r' \<and> holds_catalog H (c\<lparr>Providers := P\<rparr>) (contents s')"
  shows "simulates (\<lambda>c s. holds_catalog H c (contents s)) f (on_directory g)"
proof (rule simulatesI)
  fix c s r s' r' d
  assume h: "holds_catalog H c (contents s)" "f s = (r, s')" and "on_directory g c = (r', d)"
  then obtain P where "g (Providers c) = (r', P)" "d = c\<lparr>Providers := P\<rparr>"
    by (auto simp: on_directory_def split: prod.splits)
  then show "r = r' \<and> holds_catalog H d (contents s')" using assms [OF h] by blast
qed

text \<open>
  C29: The provider store implements a catalog of providers and models. The empty store represents the
  empty catalog; each of the six operations that the resource service runs on it returns exactly what
  the checks stated on the catalog return, in the order of the code, and the store it leaves
  represents the updated catalog when they pass and the same catalog when they do not. Every reverse
  index by provider stays exact.
\<close>

theorem ProviderStore_refines:
  "holds_catalog H empty_catalog (contents NewMemoryStore)
   \<and> simulates (\<lambda>c s. holds_catalog H c (contents s)) (repo_CreateProvider H MemoryStore provider)
       (on_directory (create_spec ProviderCodec Provider_ID (providerLookups H) provider))
   \<and> simulates (\<lambda>c s. holds_catalog H c (contents s)) (repo_ReplaceProvider H MemoryStore expected provider)
       (on_directory (replace_spec ProviderCodec Provider_ID (providerLookups H) expected provider))
   \<and> simulates (\<lambda>c s. holds_catalog H c (contents s)) (repo_DeleteProviderIfNoModels H MemoryStore provider)
       (\<lambda>c. guarded (delete_provider_check provider c) (drop_provider provider) c)
   \<and> simulates (\<lambda>c s. holds_catalog H c (contents s)) (repo_CreateModel H MemoryStore model)
       (\<lambda>c. guarded (create_model_check H model c) (put_model model) c)
   \<and> simulates (\<lambda>c s. holds_catalog H c (contents s)) (repo_ReplaceModel H MemoryStore oldModel model)
       (\<lambda>c. guarded (replace_model_check oldModel model c) (put_model model) c)
   \<and> simulates (\<lambda>c s. holds_catalog H c (contents s)) (repo_DeleteModel H MemoryStore model)
       (\<lambda>c. guarded (delete_model_check model c) (drop_model model) c)"
  by (erule (2) mem.DeleteProviderIfNoModels_refines mem.CreateModel_refines mem.ReplaceModel_refines mem.DeleteModel_refines
    mem.CreateProvider_catalog mem.ReplaceProvider_catalog | rule holds_empty_catalog conjI simulates_directory simulatesI)+

text \<open>
  No model is ever left without its provider. In every store that the resource service can reach,
  a model that GetModel returns names a provider that GetProvider returns.
\<close>

lemma models_keep_their_provider:
  assumes "(catalog_step H)\<^sup>*\<^sup>* NewMemoryStore s" and "repo_GetModel MemoryStore i s = Inr model"
  shows "\<exists>provider. repo_GetProvider MemoryStore (Model_ProviderID model) s = Inr provider"
proof -
  from good_store_reachable [OF assms(1)] obtain c where c: "holds_catalog H c (contents s)" "no_orphans c"
    by (auto simp: good_store_def)
  have "Models c i = Some model"
    using assms(2) mem.models.getResource_outcome [OF holds_catalogD(2) [OF c(1), unfolded holds_models_def], of i]
    by (auto simp: repo_GetModel_def split: option.splits)
  with c(2) obtain p where "Providers c (Model_ProviderID model) = Some p" by (fastforce simp: no_orphans_def ran_def)
  then show ?thesis by (simp add: GetProvider_outcome [OF holds_catalogD(1) [OF c(1)]])
qed


text \<open>A small catalog: one active provider and one active model that it backs.\<close>

definition acme :: Provider where
  "acme = \<lparr>Provider_ID = ''prv_1'', Provider_Slug = ''acme'', Provider_Name = ''Acme'', Provider_Kind = ProviderKindAnthropic,
           Provider_AdapterAppID = ''acme-adapter'', Provider_Status = StatusActive,
           Provider_CreatedAt = zero_time, Provider_UpdatedAt = zero_time\<rparr>"

definition swift :: Model where
  "swift = \<lparr>Model_ID = ''mdl_1'', Model_Alias = ''swift'', Model_ProviderID = ''prv_1'', Model_UpstreamModel = ''swift-4'',
           Model_Status = StatusActive, Model_Revision = 1, Model_CreatedAt = zero_time, Model_UpdatedAt = zero_time\<rparr>"

definition small_catalog :: catalog where
  "small_catalog = \<lparr>Providers = [''prv_1'' \<mapsto> acme], Models = [''mdl_1'' \<mapsto> swift]\<rparr>"

lemma marshalable_zero_time [simp]: "marshalable_time zero_time"
  by (simp add: marshalable_time_def zero_time_def nanosecond_per_second_def)

lemma small_catalog_reachable:
  obtains s where "(catalog_step (\<lambda>x. x))\<^sup>*\<^sup>* NewMemoryStore s" "holds_catalog (\<lambda>x. x) small_catalog (contents s)"
proof -
  let ?c = "empty_catalog\<lparr>Providers := [''prv_1'' \<mapsto> acme]\<rparr>"
  have p: "create_spec ProviderCodec Provider_ID (providerLookups (\<lambda>x. x)) acme (Providers empty_catalog) =
      (Inr (), [''prv_1'' \<mapsto> acme])"
    by (simp add: create_spec_def taken_def acme_def encode_def ProviderCodec_def empty_catalog_def)
  obtain r1 s1 where s1: "repo_CreateProvider (\<lambda>x. x) MemoryStore acme NewMemoryStore = (r1, s1)" by force
  have c1: "holds_catalog (\<lambda>x. x) ?c (contents s1)" using mem.CreateProvider_catalog [OF holds_empty_catalog s1 p] by simp
  have m: "guarded (create_model_check (\<lambda>x. x) swift ?c) (put_model swift) ?c = (Inr (), small_catalog)"
    by (simp add: guarded_def create_model_check_def empty_catalog_def swift_def acme_def taken_def require_def encode_def
        ensureProviderCanBackModel_def ModelCodec_def ProviderCodec_def put_model_def small_catalog_def)
  obtain r2 s2 where s2: "repo_CreateModel (\<lambda>x. x) MemoryStore swift s1 = (r2, s2)" by force
  have "holds_catalog (\<lambda>x. x) small_catalog (contents s2)" using mem.CreateModel_refines [OF c1 s2 m] by simp
  moreover have "(catalog_step (\<lambda>x. x))\<^sup>*\<^sup>* NewMemoryStore s2"
    using step_CreateProvider [OF s1] step_CreateModel [OF s2] by (meson rtranclp.rtrancl_refl rtranclp.rtrancl_into_rtrancl)
  ultimately show thesis using that by blast
qed

end
