(* ===== verification/Key_Ring.thy ===== *)
theory Key_Ring
  imports Key_Repository Directory
begin

text \<open>
  What the virtual-key store means: a key ring of virtual keys, user subjects and model subjects, with
  exact reverse indexes. The checks of each repository operation are stated on the key ring, in the
  order of the code; the operations refine the guarded updates built from them.

  The integrity of a key ring (\<open>keyring_ok\<close>): every stored key has an owner and models that exist
  and are not tombstones. It is what fencing is for, and every operation keeps it.
\<close>

section \<open>The key ring of a store\<close>

record keyring =
  Keys :: "string \<rightharpoonup> VirtualKey"
  Subjects :: "string \<rightharpoonup> KeySubject"
  ModelSubjects :: "string \<rightharpoonup> ModelSubject"

definition keyLookups :: "(string \<Rightarrow> string) \<Rightarrow> VirtualKey \<Rightarrow> (string \<times> string) list" where
  "keyLookups H key = [(lookupKey H ''key-hash'' (VK_KeyHash key), VK_ID key)]"

definition keys_of_user :: "(string \<rightharpoonup> VirtualKey) \<Rightarrow> string \<Rightarrow> string set" where
  "keys_of_user K u = {k. \<exists>x. K k = Some x \<and> VK_UserID x = u}"

definition keys_of_model :: "(string \<rightharpoonup> VirtualKey) \<Rightarrow> string \<Rightarrow> string set" where
  "keys_of_model K mid = {k. \<exists>x. K k = Some x \<and> mid \<in> set (VK_ModelIDs x)}"

definition holds_keys :: "(string \<Rightarrow> string) \<Rightarrow> (string \<rightharpoonup> VirtualKey) \<Rightarrow> vals \<Rightarrow> bool" where
  "holds_keys H = collection_holds VirtualKeyCodec ''virtual-keys'' VK_ID (keyLookups H) (range (lookupKey H ''key-hash''))"

definition holds_subjects :: "(string \<rightharpoonup> KeySubject) \<Rightarrow> vals \<Rightarrow> bool" where
  "holds_subjects S m \<longleftrightarrow> stores KeySubjectCodec ''key-subjects'' S m \<and> (\<forall>u x. S u = Some x \<longrightarrow> KS_UserID x = u)"

definition holds_model_subjects :: "(string \<rightharpoonup> ModelSubject) \<Rightarrow> vals \<Rightarrow> bool" where
  "holds_model_subjects S m \<longleftrightarrow> stores ModelSubjectCodec ''model-subjects'' S m \<and> (\<forall>i x. S i = Some x \<longrightarrow> MS_ModelID x = i)"

definition holds_keyring :: "(string \<Rightarrow> string) \<Rightarrow> keyring \<Rightarrow> vals \<Rightarrow> bool" where
  "holds_keyring H a m \<longleftrightarrow>
     holds_keys H (Keys a) m \<and> holds_subjects (Subjects a) m \<and> holds_model_subjects (ModelSubjects a) m \<and>
     (\<forall>u. indexes m (virtualKeysByUserIndexKey u) (keys_of_user (Keys a) u)) \<and>
     (\<forall>mid. indexes m (virtualKeysByModelIndexKey mid) (keys_of_model (Keys a) mid))"

definition live_subject :: "keyring \<Rightarrow> string \<Rightarrow> bool" where
  "live_subject a u \<longleftrightarrow> (\<exists>x. Subjects a u = Some x \<and> \<not> KS_Deleted x)"

definition live_model :: "keyring \<Rightarrow> string \<Rightarrow> bool" where
  "live_model a mid \<longleftrightarrow> (\<exists>x. ModelSubjects a mid = Some x \<and> \<not> MS_Deleted x)"

definition keyring_ok :: "keyring \<Rightarrow> bool" where
  "keyring_ok a \<longleftrightarrow> (\<forall>key \<in> ran (Keys a). live_subject a (VK_UserID key) \<and>
     VK_ModelIDs key \<noteq> [] \<and> distinct (VK_ModelIDs key) \<and> '''' \<notin> set (VK_ModelIDs key) \<and>
     (\<forall>mid \<in> set (VK_ModelIDs key). live_model a mid))"

section \<open>Specifications\<close>

definition stored_subject :: "KeySubject option \<Rightarrow> string \<Rightarrow> storedSubject" where
  "stored_subject x tag = (case x of None \<Rightarrow> no_subject | Some v \<Rightarrow> \<lparr>ss_value = v, ss_etag = tag, ss_exists = True\<rparr>)"

definition stored_model :: "ModelSubject option \<Rightarrow> string \<Rightarrow> storedModelSubject" where
  "stored_model x tag = (case x of None \<Rightarrow> no_model_subject | Some v \<Rightarrow> \<lparr>sms_value = v, sms_etag = tag, sms_exists = True\<rparr>)"

text \<open>
  A check is a table of faults, each with the conflict it is reported as; the first fault that is there
  is the one reported.
\<close>

primrec refusal :: "(bool \<times> string) list \<Rightarrow> unit result" where
  "refusal [] = Inr ()"
| "refusal (fault # faults) = (if fst fault then Inl (conflictf (snd fault) []) else refusal faults)"

text \<open>
  A user subject by itself: its ID, a positive revision and a time are required, its status is one of
  the two, and a tombstone is disabled.
\<close>

definition subject_faults :: "KeySubject \<Rightarrow> (bool \<times> string) list" where
  "subject_faults x =
    [(KS_UserID x = '''', ''%w: key subject user_id is required''),
     (KS_Revision x = 0, ''%w: key subject revision must be positive''),
     (IsZero (KS_UpdatedAt x), ''%w: key subject updated_at is required''),
     (KS_Status x \<notin> {StatusActive, StatusDisabled}, ''%w: key subject status is invalid''),
     (KS_Deleted x \<and> KS_Status x \<noteq> StatusDisabled, ''%w: a deleted key subject must be disabled'')]"

text \<open>
  A user subject against the stored one: an older revision is stale, the stored revision may only come
  again with the same payload, that is with another time at most, and a newer revision does not revive
  a tombstone. An update at the current revision is a replay: the stored subject stays.
\<close>

definition subject_conflicts :: "KeySubject \<Rightarrow> KeySubject option \<Rightarrow> (bool \<times> string) list" where
  "subject_conflicts x stored = (case stored of None \<Rightarrow> [] | Some c \<Rightarrow>
    [(KS_Revision x < KS_Revision c, ''%w: key subject revision is stale''),
     (KS_Revision x = KS_Revision c \<and> x \<noteq> c\<lparr>KS_UpdatedAt := KS_UpdatedAt x\<rparr>, ''%w: key subject revision has a different payload''),
     (KS_Revision c < KS_Revision x \<and> KS_Deleted c \<and> \<not> KS_Deleted x, ''%w: a deleted key subject cannot be reactivated'')])"

definition replayed_subject :: "KeySubject \<Rightarrow> keyring \<Rightarrow> bool" where
  "replayed_subject x a \<longleftrightarrow> (\<exists>c. Subjects a (KS_UserID x) = Some c \<and> KS_Revision c = KS_Revision x)"

definition update_subject_check :: "KeySubject \<Rightarrow> keyring \<Rightarrow> unit result" where
  "update_subject_check x a =
     ebind (refusal (subject_conflicts x (Subjects a (KS_UserID x)))) (\<lambda>_.
     if replayed_subject x a then Inr () else ebind (encode KeySubjectCodec x) (\<lambda>_. Inr ()))"

definition sync_subject_check :: "KeySubject \<Rightarrow> keyring \<Rightarrow> unit result" where
  "sync_subject_check x a =
     ebind (refusal (subject_faults x)) (\<lambda>_.
     ebind (fail_if (KS_Deleted x) (conflictf ''%w: deleted key subjects must be fenced'' [])) (\<lambda>_.
     update_subject_check x a))"

definition fence_subject_check :: "KeySubject \<Rightarrow> keyring \<Rightarrow> unit result" where
  "fence_subject_check x a =
     ebind (refusal (subject_faults x)) (\<lambda>_.
     ebind (fail_if (\<not> KS_Deleted x) (conflictf ''%w: a fenced key subject must be deleted'' [])) (\<lambda>_.
     ebind (fail_if (keys_of_user (Keys a) (KS_UserID x) \<noteq> {}) (conflictf ''%w: user still has virtual keys'' [])) (\<lambda>_.
     update_subject_check x a)))"

definition put_subject :: "KeySubject \<Rightarrow> keyring \<Rightarrow> keyring" where
  "put_subject x a = (if replayed_subject x a then a else a\<lparr>Subjects := (Subjects a)(KS_UserID x \<mapsto> x)\<rparr>)"

text \<open>The same for the subject of a model, whose ID and alias are fixed once it is there.\<close>

definition model_faults :: "ModelSubject \<Rightarrow> (bool \<times> string) list" where
  "model_faults x =
    [(MS_ModelID x = '''', ''%w: model subject model_id is required''),
     (MS_Alias x = '''', ''%w: model subject alias is required''),
     (MS_Revision x = 0, ''%w: model subject revision must be positive''),
     (IsZero (MS_UpdatedAt x), ''%w: model subject updated_at is required''),
     (MS_Status x \<notin> {StatusActive, StatusDisabled}, ''%w: model subject status is invalid''),
     (MS_Deleted x \<and> MS_Status x \<noteq> StatusDisabled, ''%w: a deleted model subject must be disabled'')]"

definition model_conflicts :: "ModelSubject \<Rightarrow> ModelSubject option \<Rightarrow> (bool \<times> string) list" where
  "model_conflicts x stored = (case stored of None \<Rightarrow> [] | Some c \<Rightarrow>
    [((MS_ModelID x, MS_Alias x) \<noteq> (MS_ModelID c, MS_Alias c), ''%w: model subject identity is immutable''),
     (MS_Revision x < MS_Revision c, ''%w: model subject revision is stale''),
     (MS_Revision x = MS_Revision c \<and> x \<noteq> c\<lparr>MS_UpdatedAt := MS_UpdatedAt x\<rparr>, ''%w: model subject revision has a different payload''),
     (MS_Revision c < MS_Revision x \<and> MS_Deleted c \<and> \<not> MS_Deleted x, ''%w: a deleted model subject cannot be reactivated'')])"

definition replayed_model :: "ModelSubject \<Rightarrow> keyring \<Rightarrow> bool" where
  "replayed_model x a \<longleftrightarrow> (\<exists>c. ModelSubjects a (MS_ModelID x) = Some c \<and> MS_Revision c = MS_Revision x)"

definition update_model_check :: "ModelSubject \<Rightarrow> keyring \<Rightarrow> unit result" where
  "update_model_check x a =
     ebind (refusal (model_conflicts x (ModelSubjects a (MS_ModelID x)))) (\<lambda>_.
     if replayed_model x a then Inr () else ebind (encode ModelSubjectCodec x) (\<lambda>_. Inr ()))"

definition sync_model_check :: "ModelSubject \<Rightarrow> keyring \<Rightarrow> unit result" where
  "sync_model_check x a =
     ebind (refusal (model_faults x)) (\<lambda>_.
     ebind (fail_if (MS_Deleted x) (conflictf ''%w: deleted model subjects must be fenced'' [])) (\<lambda>_.
     update_model_check x a))"

definition fence_model_check :: "ModelSubject \<Rightarrow> keyring \<Rightarrow> unit result" where
  "fence_model_check x a =
     ebind (refusal (model_faults x)) (\<lambda>_.
     ebind (fail_if (\<not> MS_Deleted x) (conflictf ''%w: a fenced model subject must be deleted'' [])) (\<lambda>_.
     ebind (fail_if (keys_of_model (Keys a) (MS_ModelID x) \<noteq> {})
       (conflictf ''%w: model is still referenced by virtual keys'' [])) (\<lambda>_.
     update_model_check x a)))"

definition put_model_subject :: "ModelSubject \<Rightarrow> keyring \<Rightarrow> keyring" where
  "put_model_subject x a =
     (if replayed_model x a then a else a\<lparr>ModelSubjects := (ModelSubjects a)(MS_ModelID x \<mapsto> x)\<rparr>)"

text \<open>
  The owner and each model of a key: there, not a tombstone, of a known status, and active when the key
  is active.
\<close>

definition owner_faults :: "KeySubject option \<Rightarrow> VirtualKey \<Rightarrow> (bool \<times> string) list" where
  "owner_faults owner key = (case owner of None \<Rightarrow> [(True, ''%w: key subject does not exist'')] | Some x \<Rightarrow>
    [(KS_Deleted x, ''%w: key subject is deleted''),
     (KS_Status x \<notin> {StatusActive, StatusDisabled}, ''%w: key subject status is invalid''),
     (VK_Status key = StatusActive \<and> KS_Status x \<noteq> StatusActive, ''%w: an active virtual key requires an active subject'')])"

definition backing_faults :: "ModelSubject option \<Rightarrow> VirtualKey \<Rightarrow> (bool \<times> string) list" where
  "backing_faults model key = (case model of None \<Rightarrow> [(True, ''%w: model subject does not exist'')] | Some x \<Rightarrow>
    [(MS_Deleted x, ''%w: model subject is deleted''),
     (MS_Status x \<notin> {StatusActive, StatusDisabled}, ''%w: model subject status is invalid''),
     (VK_Status key = StatusActive \<and> MS_Status x \<noteq> StatusActive, ''%w: an active virtual key requires active models'')])"

definition all_ids :: "string list \<Rightarrow> string list \<Rightarrow> string list" where
  "all_ids old new = sort (old @ filter (\<lambda>rid. rid \<notin> set old) new)"

definition models_check :: "string list \<Rightarrow> string list \<Rightarrow> VirtualKey \<Rightarrow> keyring \<Rightarrow> unit result" where
  "models_check old new key a =
     ebind (modelIDSet old) (\<lambda>_.
     ebind (modelIDSet new) (\<lambda>_.
     ebind (emap (\<lambda>mid.
       if mid \<in> set new then wrapf ''model %q: %w'' [mid] (refusal (backing_faults (ModelSubjects a mid) key))
       else fail_if (\<not> live_model a mid) (conflictf ''%w: referenced model subject %q is unavailable'' [mid]))
       (all_ids old new)) (\<lambda>_. Inr ())))"

definition touch_subject_check :: "KeySubject option \<Rightarrow> unit result" where
  "touch_subject_check x =
     ebind (fail_if (x = None) (conflictf ''%w: key subject does not exist'' [])) (\<lambda>_.
     ebind (encode KeySubjectCodec (the x)) (\<lambda>_. Inr ()))"

definition touch_models_check :: "string list \<Rightarrow> keyring \<Rightarrow> unit result" where
  "touch_models_check ids a =
     ebind (emap (\<lambda>mid.
       ebind (fail_if (ModelSubjects a mid = None) (conflictf ''%w: model subject does not exist'' [])) (\<lambda>_.
       encode ModelSubjectCodec (the (ModelSubjects a mid)))) ids) (\<lambda>_. Inr ())"

definition create_key_check :: "(string \<Rightarrow> string) \<Rightarrow> VirtualKey \<Rightarrow> keyring \<Rightarrow> unit result" where
  "create_key_check H key a =
     ebind (fail_if (VK_ModelIDs key = []) (conflictf ''%w: virtual key requires at least one model'' [])) (\<lambda>_.
     ebind (fail_if (VK_ID key \<in> dom (Keys a)) ErrConflict) (\<lambda>_.
     ebind (fail_if (taken (keyLookups H) (Keys a) key) ErrConflict) (\<lambda>_.
     ebind (refusal (owner_faults (Subjects a (VK_UserID key)) key)) (\<lambda>_.
     ebind (models_check [] (VK_ModelIDs key) key a) (\<lambda>_.
     ebind (encode VirtualKeyCodec key) (\<lambda>_.
     ebind (touch_subject_check (Subjects a (VK_UserID key))) (\<lambda>_.
     touch_models_check (all_ids [] (VK_ModelIDs key)) a)))))))"

definition replace_key_check :: "(string \<Rightarrow> string) \<Rightarrow> VirtualKey \<Rightarrow> VirtualKey \<Rightarrow> keyring \<Rightarrow> unit result" where
  "replace_key_check H oldKey key a =
     ebind (fail_if (VK_ID oldKey \<noteq> VK_ID key) (conflictf ''%w: virtual key ID is immutable'' [])) (\<lambda>_.
     ebind (fail_if (VK_ModelIDs key = []) (conflictf ''%w: virtual key requires at least one model'' [])) (\<lambda>_.
     ebind (require (Keys a) (VK_ID key)) (\<lambda>current.
     ebind (fail_if (current \<noteq> oldKey) ErrConflict) (\<lambda>_.
     ebind (fail_if (taken_by_other (keyLookups H) (VK_ID key) (Keys a) key) ErrConflict) (\<lambda>_.
     ebind (fail_if (Subjects a (VK_UserID oldKey) = None) (conflictf ''%w: current key subject does not exist'' [])) (\<lambda>_.
     ebind (refusal (owner_faults (Subjects a (VK_UserID key)) key)) (\<lambda>_.
     ebind (models_check (VK_ModelIDs oldKey) (VK_ModelIDs key) key a) (\<lambda>_.
     ebind (encode VirtualKeyCodec key) (\<lambda>_.
     ebind (touch_subject_check (Subjects a (VK_UserID oldKey))) (\<lambda>_.
     ebind (touch_subject_check (Subjects a (VK_UserID key))) (\<lambda>_.
     touch_models_check (all_ids (VK_ModelIDs oldKey) (VK_ModelIDs key)) a)))))))))))"

definition delete_key_check :: "VirtualKey \<Rightarrow> keyring \<Rightarrow> unit result" where
  "delete_key_check key a =
     ebind (require (Keys a) (VK_ID key)) (\<lambda>current.
     ebind (fail_if (current \<noteq> key) ErrConflict) (\<lambda>_.
     ebind (fail_if (Subjects a (VK_UserID key) = None) (conflictf ''%w: current key subject does not exist'' [])) (\<lambda>_.
     ebind (models_check (VK_ModelIDs key) [] key a) (\<lambda>_.
     ebind (touch_subject_check (Subjects a (VK_UserID key))) (\<lambda>_.
     touch_models_check (all_ids (VK_ModelIDs key) []) a)))))"

definition put_key :: "VirtualKey \<Rightarrow> keyring \<Rightarrow> keyring" where
  "put_key key a = a\<lparr>Keys := (Keys a)(VK_ID key \<mapsto> key)\<rparr>"

definition drop_key :: "VirtualKey \<Rightarrow> keyring \<Rightarrow> keyring" where
  "drop_key key a = a\<lparr>Keys := (Keys a)(VK_ID key := None)\<rparr>"

section \<open>Keys are disjoint\<close>

lemmas keyring_key_defs = entityKey_def indexKey_def lookupKey_def virtualKeysByUserIndexKey_def
  virtualKeysByModelIndexKey_def keySubjectKey_def modelSubjectKey_def

lemma keyring_keys_eq [simp]:
  "virtualKeysByUserIndexKey a = virtualKeysByUserIndexKey b \<longleftrightarrow> a = b"
  "virtualKeysByModelIndexKey a = virtualKeysByModelIndexKey b \<longleftrightarrow> a = b"
  "keySubjectKey a = keySubjectKey b \<longleftrightarrow> a = b" "modelSubjectKey a = modelSubjectKey b \<longleftrightarrow> a = b"
  "entityKey c a = entityKey c b \<longleftrightarrow> a = b"
  by (simp_all add: keyring_key_defs)

lemma keyring_keys_distinct [simp]:
  "virtualKeysByUserIndexKey u \<noteq> virtualKeysByModelIndexKey i" "virtualKeysByModelIndexKey i \<noteq> virtualKeysByUserIndexKey u"
  "virtualKeysByUserIndexKey u \<noteq> keySubjectKey v" "keySubjectKey v \<noteq> virtualKeysByUserIndexKey u"
  "virtualKeysByUserIndexKey u \<noteq> modelSubjectKey v" "modelSubjectKey v \<noteq> virtualKeysByUserIndexKey u"
  "virtualKeysByUserIndexKey u \<noteq> entityKey ''virtual-keys'' v" "entityKey ''virtual-keys'' v \<noteq> virtualKeysByUserIndexKey u"
  "virtualKeysByUserIndexKey u \<noteq> indexKey ''virtual-keys''" "indexKey ''virtual-keys'' \<noteq> virtualKeysByUserIndexKey u"
  "virtualKeysByUserIndexKey u \<noteq> lookupKey H kind v" "lookupKey H kind v \<noteq> virtualKeysByUserIndexKey u"
  "virtualKeysByModelIndexKey u \<noteq> keySubjectKey v" "keySubjectKey v \<noteq> virtualKeysByModelIndexKey u"
  "virtualKeysByModelIndexKey u \<noteq> modelSubjectKey v" "modelSubjectKey v \<noteq> virtualKeysByModelIndexKey u"
  "virtualKeysByModelIndexKey u \<noteq> entityKey ''virtual-keys'' v" "entityKey ''virtual-keys'' v \<noteq> virtualKeysByModelIndexKey u"
  "virtualKeysByModelIndexKey u \<noteq> indexKey ''virtual-keys''" "indexKey ''virtual-keys'' \<noteq> virtualKeysByModelIndexKey u"
  "virtualKeysByModelIndexKey u \<noteq> lookupKey H kind v" "lookupKey H kind v \<noteq> virtualKeysByModelIndexKey u"
  "keySubjectKey u \<noteq> modelSubjectKey v" "modelSubjectKey v \<noteq> keySubjectKey u"
  "keySubjectKey u \<noteq> entityKey ''virtual-keys'' v" "entityKey ''virtual-keys'' v \<noteq> keySubjectKey u"
  "keySubjectKey u \<noteq> indexKey c" "indexKey c \<noteq> keySubjectKey u"
  "keySubjectKey u \<noteq> lookupKey H kind v" "lookupKey H kind v \<noteq> keySubjectKey u"
  "modelSubjectKey u \<noteq> entityKey ''virtual-keys'' v" "entityKey ''virtual-keys'' v \<noteq> modelSubjectKey u"
  "modelSubjectKey u \<noteq> indexKey c" "indexKey c \<noteq> modelSubjectKey u"
  "modelSubjectKey u \<noteq> lookupKey H kind v" "lookupKey H kind v \<noteq> modelSubjectKey u"
  "entityKey ''virtual-keys'' u \<noteq> indexKey c" "indexKey c \<noteq> entityKey ''virtual-keys'' u"
  "entityKey ''virtual-keys'' u \<noteq> lookupKey H kind v" "lookupKey H kind v \<noteq> entityKey ''virtual-keys'' u"
  "indexKey c \<noteq> lookupKey H kind v" "lookupKey H kind v \<noteq> indexKey c"
  by (simp_all add: keyring_key_defs)

lemma key_hash_keys: "keys_of (keyLookups H) key = {lookupKey H ''key-hash'' (VK_KeyHash key)}"
  by (simp add: keys_of_def keyLookups_def)

sublocale total_store \<subseteq> keys: resource_total VirtualKeyCodec "''virtual-keys''" VK_ID "keyLookups H"
    "range (lookupKey H ''key-hash'')" st tagged_view for H
  by unfold_locales (auto simp: keyLookups_def)

lemma holds_keyringD:
  assumes "holds_keyring H a m"
  shows "holds_keys H (Keys a) m" "holds_subjects (Subjects a) m" "holds_model_subjects (ModelSubjects a) m"
    "indexes m (virtualKeysByUserIndexKey u) (keys_of_user (Keys a) u)"
    "indexes m (virtualKeysByModelIndexKey mid) (keys_of_model (Keys a) mid)"
  using assms by (simp_all add: holds_keyring_def)

section \<open>Reading and updating subjects\<close>

lemma stored_subject_simps [simp]:
  "ss_exists (stored_subject x tag) \<longleftrightarrow> x \<noteq> None" "ss_value (stored_subject (Some v) tag) = v"
  "ss_etag (stored_subject (Some v) tag) = tag" "stored_subject None tag = no_subject"
  by (auto simp: stored_subject_def no_subject_def split: option.splits)

lemma stored_model_simps [simp]:
  "sms_exists (stored_model x tag) \<longleftrightarrow> x \<noteq> None" "sms_value (stored_model (Some v) tag) = v"
  "sms_etag (stored_model (Some v) tag) = tag" "stored_model None tag = no_model_subject"
  by (auto simp: stored_model_def no_model_subject_def split: option.splits)

lemma no_subject_simps [simp]:
  "\<not> ss_exists no_subject" "ss_etag no_subject = ''''"
  "\<not> sms_exists no_model_subject" "sms_etag no_model_subject = ''''"
  by (simp_all add: no_subject_def no_model_subject_def)

text \<open>The checks of the code are the tables.\<close>

lemma validateSubjectPayload_eq: "validateSubjectPayload x = refusal (subject_faults x)"
  by (simp add: validateSubjectPayload_def subject_faults_def fail_if_def)

lemma validateModelSubjectPayload_eq: "validateModelSubjectPayload x = refusal (model_faults x)"
  by (simp add: validateModelSubjectPayload_def model_faults_def fail_if_def)

lemma same_payload:
  fixes x c :: KeySubject
  shows "x = c\<lparr>KS_UpdatedAt := KS_UpdatedAt x\<rparr> \<longleftrightarrow>
     KS_UserID c = KS_UserID x \<and> KS_Status c = KS_Status x \<and> KS_Revision c = KS_Revision x \<and> KS_Deleted c = KS_Deleted x"
  by (cases x; cases c) auto

lemma same_model_payload:
  fixes y d :: ModelSubject
  shows "y = d\<lparr>MS_UpdatedAt := MS_UpdatedAt y\<rparr> \<longleftrightarrow> MS_ModelID d = MS_ModelID y \<and> MS_Alias d = MS_Alias y \<and>
     MS_Status d = MS_Status y \<and> MS_Revision d = MS_Revision y \<and> MS_Deleted d = MS_Deleted y"
  by (cases y; cases d) auto

lemma compareSubjectUpdate_eq:
  "compareSubjectUpdate (stored_subject (Subjects a (KS_UserID x)) tag) x =
     ebind (refusal (subject_conflicts x (Subjects a (KS_UserID x)))) (\<lambda>_. Inr (replayed_subject x a))"
  by (cases "Subjects a (KS_UserID x)")
    (auto simp: compareSubjectUpdate_def subject_conflicts_def replayed_subject_def subjectPayloadEqual_def same_payload)

lemma compareModelSubjectUpdate_eq:
  "compareModelSubjectUpdate (stored_model (ModelSubjects a (MS_ModelID x)) tag) x =
     ebind (refusal (model_conflicts x (ModelSubjects a (MS_ModelID x)))) (\<lambda>_. Inr (replayed_model x a))"
  by (cases "ModelSubjects a (MS_ModelID x)")
    (auto simp: compareModelSubjectUpdate_def model_conflicts_def replayed_model_def modelSubjectPayloadEqual_def same_model_payload)

lemma ensureSubject_eq: "ensureSubjectCanOwnKey (stored_subject x tag) key = refusal (owner_faults x key)"
  by (cases x) (simp_all add: ensureSubjectCanOwnKey_def owner_faults_def fail_if_def)

lemma ensureModel_eq: "ensureModelCanBackKey (stored_model x tag) key = refusal (backing_faults x key)"
  by (cases x) (simp_all add: ensureModelCanBackKey_def backing_faults_def fail_if_def)

lemma subject_entity:
  "holds_subjects S m \<Longrightarrow> m (keySubjectKey u) = map_option (\<lambda>x. Some (json_of KeySubjectCodec x)) (S u)"
  by (simp add: holds_subjects_def stores_def keySubjectKey_def)

lemma model_subject_entity:
  "holds_model_subjects S m \<Longrightarrow> m (modelSubjectKey i) = map_option (\<lambda>x. Some (json_of ModelSubjectCodec x)) (S i)"
  by (simp add: holds_model_subjects_def stores_def modelSubjectKey_def)

lemma holds_subject_put:
  "holds_subjects S m \<Longrightarrow> holds_subjects (S(KS_UserID x \<mapsto> x)) (m(keySubjectKey (KS_UserID x) \<mapsto> Some (json_of KeySubjectCodec x)))"
  by (auto simp: holds_subjects_def stores_def keySubjectKey_def)

lemma holds_model_subject_put:
  "holds_model_subjects S m \<Longrightarrow>
     holds_model_subjects (S(MS_ModelID x \<mapsto> x)) (m(modelSubjectKey (MS_ModelID x) \<mapsto> Some (json_of ModelSubjectCodec x)))"
  by (auto simp: holds_model_subjects_def stores_def modelSubjectKey_def)

text \<open>A key ring whose parts agree with a store on the keys that matter to them.\<close>

lemma holds_keyringI:
  assumes "holds_keys H (Keys a) m" "holds_subjects (Subjects a) m" "holds_model_subjects (ModelSubjects a) m"
    and "\<And>u. indexes m (virtualKeysByUserIndexKey u) (keys_of_user (Keys a) u)"
    and "\<And>mid. indexes m (virtualKeysByModelIndexKey mid) (keys_of_model (Keys a) mid)"
  shows "holds_keyring H a m"
  using assms by (simp add: holds_keyring_def)

lemma holds_keys_cong:
  assumes "holds_keys H K m" and "\<And>v. m' (entityKey ''virtual-keys'' v) = m (entityKey ''virtual-keys'' v)"
    and "m' (indexKey ''virtual-keys'') = m (indexKey ''virtual-keys'')"
    and "\<And>v. m' (lookupKey H ''key-hash'' v) = m (lookupKey H ''key-hash'' v)"
  shows "holds_keys H K m'"
  using assms mem.keys.represents_frame [of H K m m'] by (auto simp: holds_keys_def key_space_def)

lemma holds_subjects_cong:
  "holds_subjects S m \<Longrightarrow> (\<And>u. m' (keySubjectKey u) = m (keySubjectKey u)) \<Longrightarrow> holds_subjects S m'"
  by (simp add: holds_subjects_def stores_def keySubjectKey_def)

lemma holds_model_subjects_cong:
  "holds_model_subjects S m \<Longrightarrow> (\<And>u. m' (modelSubjectKey u) = m (modelSubjectKey u)) \<Longrightarrow> holds_model_subjects S m'"
  by (simp add: holds_model_subjects_def stores_def modelSubjectKey_def)

lemma holds_put_subject:
  assumes "holds_keyring H a m"
  shows "holds_keyring H (a\<lparr>Subjects := (Subjects a)(KS_UserID x \<mapsto> x)\<rparr>)
    (m(keySubjectKey (KS_UserID x) \<mapsto> Some (json_of KeySubjectCodec x)))" (is "holds_keyring H _ ?m")
proof (rule holds_keyringI)
  show "indexes ?m (virtualKeysByUserIndexKey u) (keys_of_user (Keys (a\<lparr>Subjects := (Subjects a)(KS_UserID x \<mapsto> x)\<rparr>)) u)" for u
    using holds_keyringD(4) [OF assms, of u] indexes_cong [of ?m "virtualKeysByUserIndexKey u" m] by simp
  show "indexes ?m (virtualKeysByModelIndexKey i) (keys_of_model (Keys (a\<lparr>Subjects := (Subjects a)(KS_UserID x \<mapsto> x)\<rparr>)) i)" for i
    using holds_keyringD(5) [OF assms, of i] indexes_cong [of ?m "virtualKeysByModelIndexKey i" m] by simp
qed (use holds_keyringD [OF assms] in \<open>auto intro: holds_keys_cong holds_subject_put holds_model_subjects_cong\<close>)

lemma holds_put_model_subject:
  assumes "holds_keyring H a m"
  shows "holds_keyring H (a\<lparr>ModelSubjects := (ModelSubjects a)(MS_ModelID x \<mapsto> x)\<rparr>)
    (m(modelSubjectKey (MS_ModelID x) \<mapsto> Some (json_of ModelSubjectCodec x)))" (is "holds_keyring H ?a ?m")
proof (rule holds_keyringI)
  show "indexes ?m (virtualKeysByUserIndexKey u) (keys_of_user (Keys ?a) u)" for u
    using holds_keyringD(4) [OF assms, of u] indexes_cong [of ?m "virtualKeysByUserIndexKey u" m] by simp
  show "indexes ?m (virtualKeysByModelIndexKey i) (keys_of_model (Keys ?a) i)" for i
    using holds_keyringD(5) [OF assms, of i] indexes_cong [of ?m "virtualKeysByModelIndexKey i" m] by simp
qed (use holds_keyringD [OF assms] in \<open>auto intro: holds_keys_cong holds_model_subject_put holds_subjects_cong\<close>)

context total_store
begin

lemma readSubject_outcome:
  assumes "holds_subjects S (val s)"
  shows "readSubject st u s = Inr (stored_subject (S u) (tag_of s (keySubjectKey u)))"
proof (cases "S u")
  case None
  with subject_entity [OF assms, of u] show ?thesis by (simp add: readSubject_def Get_eq Exists_val domIff)
next
  case (Some x)
  moreover from this have "KS_UserID x = u" using assms by (simp add: holds_subjects_def)
  ultimately show ?thesis using subject_entity [OF assms, of u]
    by (simp add: readSubject_def Get_eq Exists_val domIff Value_val stored_subject_def tag_of_def)
qed

lemma readModelSubject_outcome:
  assumes "holds_model_subjects S (val s)"
  shows "readModelSubject st i s = Inr (stored_model (S i) (tag_of s (modelSubjectKey i)))"
proof (cases "S i")
  case None
  with model_subject_entity [OF assms, of i] show ?thesis by (simp add: readModelSubject_def Get_eq Exists_val domIff)
next
  case (Some x)
  moreover from this have "MS_ModelID x = i" using assms by (simp add: holds_model_subjects_def)
  ultimately show ?thesis using model_subject_entity [OF assms, of i]
    by (simp add: readModelSubject_def Get_eq Exists_val domIff Value_val stored_model_def tag_of_def)
qed

lemma commit_unless_done_guarded:
  assumes plan: "plan = ebind check (\<lambda>_. Inr (if replay then None else Some operations))"
    and tags: "fresh s operations" and run: "commit_unless_done st plan s = (r, s')"
  shows "r = check \<and> val s' = (if check = Inr () \<and> \<not> replay then apply_ops operations (val s) else val s)"
proof (cases "check = Inr () \<and> \<not> replay")
  case True
  then have "Repository.commit st (ebind check (\<lambda>_. Inr operations)) s = (r, s')"
    using run plan by (simp add: commit_def commit_unless_done_def)
  from commit_guarded [OF refl tags this] True show ?thesis by simp
next
  case False
  then show ?thesis using run plan by (cases check) (auto simp: commit_unless_done_def)
qed

lemma readIndex_empty:
  assumes "indexes (val s) key A"
  shows "ebind (wrapf f args (readIndex st key s)) (\<lambda>(index, _). ebind (fail_if (length (IDs index) \<noteq> 0) e) g) =
    ebind (fail_if (A \<noteq> {}) e) g"
proof -
  obtain index where "readIndex st key s = Inr (index, tag_of s key)" "set (IDs index) = A"
    using readIndex_total [OF assms] by metis
  then show ?thesis by auto
qed

lemma update_subject_plan:
  assumes "holds_subjects (Subjects a) (val s)"
  shows "ebind (readSubject st (KS_UserID x) s) (\<lambda>current.
     ebind (compareSubjectUpdate current x) (\<lambda>idempotent.
     if idempotent then Inr None
     else ebind (encode KeySubjectCodec x) (\<lambda>value.
     Inr (Some [upsert (keySubjectKey (KS_UserID x)) value (ss_etag current)])))) =
   ebind (update_subject_check x a) (\<lambda>_. Inr (if replayed_subject x a then None
     else Some [upsert (keySubjectKey (KS_UserID x)) (json_of KeySubjectCodec x) (tag_of s (keySubjectKey (KS_UserID x)))]))"
proof -
  let ?u = "KS_UserID x"
  have tag: "ss_etag (stored_subject (Subjects a ?u) (tag_of s (keySubjectKey ?u))) = tag_of s (keySubjectKey ?u)"
    using Get_tag [OF Get_eq, of s "keySubjectKey ?u"] subject_entity [OF assms, of ?u]
    by (cases "Subjects a ?u") (simp_all add: tag_of_def)
  then show ?thesis
    by (simp add: readSubject_outcome [OF assms] compareSubjectUpdate_eq update_subject_check_def ebind_assoc encode_def
        if_distrib [of "\<lambda>m. ebind m _"] cong: if_cong)
qed

lemma update_model_plan:
  assumes "holds_model_subjects (ModelSubjects a) (val s)"
  shows "ebind (readModelSubject st (MS_ModelID x) s) (\<lambda>current.
     ebind (compareModelSubjectUpdate current x) (\<lambda>idempotent.
     if idempotent then Inr None
     else ebind (encode ModelSubjectCodec x) (\<lambda>value.
     Inr (Some [upsert (modelSubjectKey (MS_ModelID x)) value (sms_etag current)])))) =
   ebind (update_model_check x a) (\<lambda>_. Inr (if replayed_model x a then None
     else Some [upsert (modelSubjectKey (MS_ModelID x)) (json_of ModelSubjectCodec x) (tag_of s (modelSubjectKey (MS_ModelID x)))]))"
proof -
  let ?i = "MS_ModelID x"
  have tag: "sms_etag (stored_model (ModelSubjects a ?i) (tag_of s (modelSubjectKey ?i))) = tag_of s (modelSubjectKey ?i)"
    using Get_tag [OF Get_eq, of s "modelSubjectKey ?i"] model_subject_entity [OF assms, of ?i]
    by (cases "ModelSubjects a ?i") (simp_all add: tag_of_def)
  then show ?thesis
    by (simp add: readModelSubject_outcome [OF assms] compareModelSubjectUpdate_eq update_model_check_def ebind_assoc encode_def
        if_distrib [of "\<lambda>m. ebind m _"] cong: if_cong)
qed

end

context total_store
begin

lemma SyncSubject_refines:
  assumes A: "holds_keyring H a (val s)" and run: "repo_SyncSubject st x s = (r, s')"
    and spec: "guarded (sync_subject_check x a) (put_subject x) a = (r', a')"
  shows "r = r' \<and> holds_keyring H a' (val s')"
proof -
  have plan: "SyncSubject_plan st x s = ebind (sync_subject_check x a) (\<lambda>_. Inr (if replayed_subject x a then None
     else Some [upsert (keySubjectKey (KS_UserID x)) (json_of KeySubjectCodec x) (tag_of s (keySubjectKey (KS_UserID x)))]))"
    by (simp add: SyncSubject_plan_def validateSubjectPayload_eq sync_subject_check_def ebind_assoc update_subject_plan [OF holds_keyringD(2) [OF A]])
  from commit_unless_done_guarded [OF plan _ run [unfolded repo_SyncSubject_def]] spec A holds_put_subject [OF A, of x]
  show ?thesis by (auto simp: guarded_def put_subject_def split: if_splits)
qed

lemma FenceSubject_refines:
  assumes A: "holds_keyring H a (val s)" and run: "repo_FenceSubject st x s = (r, s')"
    and spec: "guarded (fence_subject_check x a) (put_subject x) a = (r', a')"
  shows "r = r' \<and> holds_keyring H a' (val s')"
proof -
  note S = holds_keyringD(2) [OF A]
  have plan: "FenceSubject_plan st x s = ebind (fence_subject_check x a) (\<lambda>_. Inr (if replayed_subject x a then None
     else Some [upsert (keySubjectKey (KS_UserID x)) (json_of KeySubjectCodec x) (tag_of s (keySubjectKey (KS_UserID x)))]))"
    using update_subject_plan [OF S, of x]
    by (simp add: FenceSubject_plan_def validateSubjectPayload_eq fence_subject_check_def ebind_assoc readSubject_outcome [OF S]
        readIndex_empty [OF holds_keyringD(4) [OF A], simplified] del: length_0_conv)
  from commit_unless_done_guarded [OF plan _ run [unfolded repo_FenceSubject_def]] spec A holds_put_subject [OF A, of x]
  show ?thesis by (auto simp: guarded_def put_subject_def split: if_splits)
qed

lemma SyncModelSubject_refines:
  assumes A: "holds_keyring H a (val s)" and run: "repo_SyncModelSubject st x s = (r, s')"
    and spec: "guarded (sync_model_check x a) (put_model_subject x) a = (r', a')"
  shows "r = r' \<and> holds_keyring H a' (val s')"
proof -
  have plan: "SyncModelSubject_plan st x s = ebind (sync_model_check x a) (\<lambda>_. Inr (if replayed_model x a then None
     else Some [upsert (modelSubjectKey (MS_ModelID x)) (json_of ModelSubjectCodec x) (tag_of s (modelSubjectKey (MS_ModelID x)))]))"
    by (simp add: SyncModelSubject_plan_def validateModelSubjectPayload_eq sync_model_check_def ebind_assoc update_model_plan [OF holds_keyringD(3) [OF A]])
  from commit_unless_done_guarded [OF plan _ run [unfolded repo_SyncModelSubject_def]] spec A holds_put_model_subject [OF A, of x]
  show ?thesis by (auto simp: guarded_def put_model_subject_def split: if_splits)
qed

lemma FenceModelSubject_refines:
  assumes A: "holds_keyring H a (val s)" and run: "repo_FenceModelSubject st x s = (r, s')"
    and spec: "guarded (fence_model_check x a) (put_model_subject x) a = (r', a')"
  shows "r = r' \<and> holds_keyring H a' (val s')"
proof -
  note S = holds_keyringD(3) [OF A]
  have plan: "FenceModelSubject_plan st x s = ebind (fence_model_check x a) (\<lambda>_. Inr (if replayed_model x a then None
     else Some [upsert (modelSubjectKey (MS_ModelID x)) (json_of ModelSubjectCodec x) (tag_of s (modelSubjectKey (MS_ModelID x)))]))"
    using update_model_plan [OF S, of x]
    by (simp add: FenceModelSubject_plan_def validateModelSubjectPayload_eq fence_model_check_def ebind_assoc readModelSubject_outcome [OF S]
        readIndex_empty [OF holds_keyringD(5) [OF A], simplified] del: length_0_conv)
  from commit_unless_done_guarded [OF plan _ run [unfolded repo_FenceModelSubject_def]] spec A holds_put_model_subject [OF A, of x]
  show ?thesis by (auto simp: guarded_def put_model_subject_def split: if_splits)
qed

end

section \<open>The reverse index of models\<close>

definition models_of_key :: "VirtualKey option \<Rightarrow> string list" where
  "models_of_key x = (case x of None \<Rightarrow> [] | Some key \<Rightarrow> VK_ModelIDs key)"

lemma models_of_key_simps [simp]: "models_of_key None = []" "models_of_key (Some key) = VK_ModelIDs key"
  by (simp_all add: models_of_key_def)

lemma keys_of_model_update: "keys_of_model (K(kid := x)) i =
    (if i \<in> set (models_of_key x) then insert kid (keys_of_model K i) else keys_of_model K i - {kid})"
  by (cases x) (auto simp: keys_of_model_def)

lemma keys_of_user_update: "keys_of_user (K(kid := x)) u =
    (if \<exists>key. x = Some key \<and> VK_UserID key = u then insert kid (keys_of_user K u) else keys_of_user K u - {kid})"
  by (cases x) (auto simp: keys_of_user_def)

lemma modelIDSet_from_ok:
  "modelIDSet_from seen ids = Inr r \<Longrightarrow> distinct seen \<Longrightarrow> r = seen @ ids \<and> distinct (seen @ ids) \<and> '''' \<notin> set ids"
  by (induction seen ids rule: modelIDSet_from.induct) (auto split: if_splits)

lemma modelIDSet_ok: "modelIDSet ids = Inr r \<Longrightarrow> r = ids \<and> distinct ids \<and> '''' \<notin> set ids"
  using modelIDSet_from_ok [of "[]" ids r] by (simp add: modelIDSet_def)

lemma set_all_ids [simp]: "set (all_ids old new) = set old \<union> set new"
  by (auto simp: all_ids_def)

definition new_index :: "(string \<Rightarrow> resourceIndex) \<Rightarrow> string \<Rightarrow> string list \<Rightarrow> string list \<Rightarrow> string \<Rightarrow> resourceIndex" where
  "new_index idx kid old new i =
     (let index = (if i \<in> set old \<and> i \<notin> set new then removeIndexID (idx i) kid else idx i)
      in if i \<in> set new then addIndexID index kid else index)"

lemma new_index_set:
  "i \<in> set old \<union> set new \<Longrightarrow> set (IDs (new_index idx kid old new i)) =
     (if i \<in> set new then insert kid (set (IDs (idx i))) else set (IDs (idx i)) - {kid})"
  by (auto simp: new_index_def)

lemma new_index_distinct: "distinct (IDs (idx i)) \<Longrightarrow> distinct (IDs (new_index idx kid old new i))"
  by (simp add: new_index_def Let_def)

lemma model_index_effect:
  assumes idx: "\<And>i. set (IDs (idx i)) = keys_of_model K i" "\<And>i. distinct (IDs (idx i))"
    and before: "\<And>i. indexes m (virtualKeysByModelIndexKey i) (keys_of_model K i)"
    and after: "\<And>i. m' (virtualKeysByModelIndexKey i) =
      (if i \<in> set (models_of_key (K kid)) \<union> set (models_of_key x)
       then Some (Some (json_of IndexCodec (new_index idx kid (models_of_key (K kid)) (models_of_key x) i)))
       else m (virtualKeysByModelIndexKey i))"
  shows "indexes m' (virtualKeysByModelIndexKey i) (keys_of_model (K(kid := x)) i)"
proof (cases "i \<in> set (models_of_key (K kid)) \<union> set (models_of_key x)")
  case True
  have "indexes m' (virtualKeysByModelIndexKey i) (set (IDs (new_index idx kid (models_of_key (K kid)) (models_of_key x) i)))"
    using True after [of i] idx(2) by (intro indexes_put) (simp_all add: new_index_distinct)
  then show ?thesis using True by (auto simp: new_index_set idx keys_of_model_update)
next
  case False
  moreover from False have "kid \<notin> keys_of_model K i" by (auto simp: keys_of_model_def)
  ultimately show ?thesis using before [of i] after [of i] indexes_cong [of m' _ m]
    by (simp add: keys_of_model_update)
qed

context total_store
begin

definition model_operations :: "'s \<Rightarrow> keyring \<Rightarrow> (string \<Rightarrow> resourceIndex) \<Rightarrow> string list \<Rightarrow> Operation list" where
  "model_operations s a idx ids = concat (map (\<lambda>i.
     [upsert (virtualKeysByModelIndexKey i) (json_of IndexCodec (idx i)) (tag_of s (virtualKeysByModelIndexKey i)),
      upsert (modelSubjectKey i) (json_of ModelSubjectCodec (the (ModelSubjects a i))) (tag_of s (modelSubjectKey i))]) ids)"

definition model_mutations :: "'s \<Rightarrow> keyring \<Rightarrow> (string \<Rightarrow> resourceIndex) \<Rightarrow> string list \<Rightarrow> (string \<times> modelIndexMutation) list" where
  "model_mutations s a idx ids = map (\<lambda>i. (i,
     \<lparr>mim_subject = stored_model (ModelSubjects a i) (tag_of s (modelSubjectKey i)),
      mim_index = idx i, mim_etag = tag_of s (virtualKeysByModelIndexKey i)\<rparr>)) ids"

lemma fresh_model_operations [simp]: "fresh s (model_operations s a idx ids)"
  by (induction ids) (simp_all add: model_operations_def)

lemma prepare_plan:
  assumes A: "holds_model_subjects (ModelSubjects a) (val s)"
    and idx: "\<And>i. readIndex st (virtualKeysByModelIndexKey i) s = Inr (idx i, tag_of s (virtualKeysByModelIndexKey i))"
  shows "prepareModelIndexMutations st old new key s =
    ebind (models_check old new key a) (\<lambda>_. Inr (model_mutations s a idx (all_ids old new)))"
proof (cases "modelIDSet old")
  case (Inr oldSet)
  show ?thesis
  proof (cases "modelIDSet new")
    case (Inr newSet)
    have ids: "oldSet = old" "newSet = new" using modelIDSet_ok \<open>modelIDSet old = _\<close> Inr by blast+
    have "\<not> sms_exists (stored_model x tag) \<or> MS_Deleted (sms_value (stored_model x tag)) \<longleftrightarrow>
        (\<forall>v. x = Some v \<longrightarrow> MS_Deleted v)" for x tag by (cases x) simp_all
    then have "prepareModelIndexMutations st old new key s =
        ebind (emap (\<lambda>mid.
          if mid \<in> set new then wrapf ''model %q: %w'' [mid] (refusal (backing_faults (ModelSubjects a mid) key))
          else fail_if (\<not> live_model a mid) (conflictf ''%w: referenced model subject %q is unavailable'' [mid]))
          (all_ids old new)) (\<lambda>_. Inr (model_mutations s a idx (all_ids old new)))"
      unfolding prepareModelIndexMutations_def model_mutations_def \<open>modelIDSet old = _\<close> Inr ids ebind.simps all_ids_def
      by (intro emap_guarded)
        (auto simp: readModelSubject_outcome [OF A] idx live_model_def ebind_assoc
          ensureModel_eq)
    then show ?thesis
      by (simp add: models_check_def \<open>modelIDSet old = _\<close> Inr ebind_assoc)
  qed (simp add: prepareModelIndexMutations_def models_check_def Inr)
qed (simp add: prepareModelIndexMutations_def models_check_def)

lemma operations_plan:
  assumes A: "holds_model_subjects (ModelSubjects a) (val s)"
  shows "modelIndexOperations (model_mutations s a idx ids) kid old new =
    ebind (touch_models_check ids a) (\<lambda>_. Inr (model_operations s a (new_index idx kid old new) ids))"
proof -
  have "emap (\<lambda>(i, mutation).
       let index = (if i \<in> set old \<and> i \<notin> set new then removeIndexID (mim_index mutation) kid else mim_index mutation);
           index' = (if i \<in> set new then addIndexID index kid else index) in
       ebind (encode IndexCodec index') (\<lambda>value.
       ebind (modelSubjectTouchOperation (mim_subject mutation)) (\<lambda>touch.
       Inr [upsert (virtualKeysByModelIndexKey i) value (mim_etag mutation), touch]))) (model_mutations s a idx ids) =
     ebind (emap (\<lambda>mid.
       ebind (fail_if (ModelSubjects a mid = None) (conflictf ''%w: model subject does not exist'' [])) (\<lambda>_.
       encode ModelSubjectCodec (the (ModelSubjects a mid)))) ids)
     (\<lambda>_. Inr (map (\<lambda>i.
       [upsert (virtualKeysByModelIndexKey i) (json_of IndexCodec (new_index idx kid old new i)) (tag_of s (virtualKeysByModelIndexKey i)),
        upsert (modelSubjectKey i) (json_of ModelSubjectCodec (the (ModelSubjects a i))) (tag_of s (modelSubjectKey i))]) ids))"
    unfolding model_mutations_def emap_map
  proof (intro emap_guarded)
    fix i
    show "((\<lambda>(i, mutation).
       let index = (if i \<in> set old \<and> i \<notin> set new then removeIndexID (mim_index mutation) kid else mim_index mutation);
           index' = (if i \<in> set new then addIndexID index kid else index) in
       ebind (encode IndexCodec index') (\<lambda>value.
       ebind (modelSubjectTouchOperation (mim_subject mutation)) (\<lambda>touch.
       Inr [upsert (virtualKeysByModelIndexKey i) value (mim_etag mutation), touch]))) \<circ>
       (\<lambda>i. (i, \<lparr>mim_subject = stored_model (ModelSubjects a i) (tag_of s (modelSubjectKey i)),
          mim_index = idx i, mim_etag = tag_of s (virtualKeysByModelIndexKey i)\<rparr>))) i =
      ebind (ebind (fail_if (ModelSubjects a i = None) (conflictf ''%w: model subject does not exist'' [])) (\<lambda>_.
         encode ModelSubjectCodec (the (ModelSubjects a i)))) (\<lambda>_. Inr
       [upsert (virtualKeysByModelIndexKey i) (json_of IndexCodec (new_index idx kid old new i)) (tag_of s (virtualKeysByModelIndexKey i)),
        upsert (modelSubjectKey i) (json_of ModelSubjectCodec (the (ModelSubjects a i))) (tag_of s (modelSubjectKey i))])"
      using A by (cases "ModelSubjects a i")
        (auto simp: modelSubjectTouchOperation_def encode_def new_index_def Let_def holds_model_subjects_def)
  qed
  then show ?thesis
    by (simp add: modelIndexOperations_def touch_models_check_def model_operations_def ebind_assoc)
qed

end

section \<open>Virtual keys\<close>

lemma holds_keys_update:
  assumes K: "holds_keys H K m" and x: "\<And>key. x = Some key \<Longrightarrow> VK_ID key = kid"
    and entity: "\<And>r. m' (entityKey ''virtual-keys'' r) =
      (if r = kid then map_option (\<lambda>key. Some (json_of VirtualKeyCodec key)) x else m (entityKey ''virtual-keys'' r))"
    and index: "indexes m' (indexKey ''virtual-keys'') (dom (K(kid := x)))"
    and free: "\<And>key. x = Some key \<Longrightarrow> m (lookupKey H ''key-hash'' (VK_KeyHash key)) = None \<or>
      m (lookupKey H ''key-hash'' (VK_KeyHash key)) = Some (Some (JStr kid))"
    and hash: "\<And>h. m' (lookupKey H ''key-hash'' h) =
      (if \<exists>key. x = Some key \<and> H (VK_KeyHash key) = H h then Some (Some (JStr kid))
       else if \<exists>key. K kid = Some key \<and> H (VK_KeyHash key) = H h then None
       else m (lookupKey H ''key-hash'' h))"
  shows "holds_keys H (K(kid := x)) m'"
  unfolding holds_keys_def
proof (rule mem.keys.represents_update [OF K [unfolded holds_keys_def] _ index])
  show "m' (entityKey ''virtual-keys'' r) = map_option (\<lambda>key. Some (json_of VirtualKeyCodec key)) ((K(kid := x)) r)" for r
    using entity [of r] mem.keys.represents_entity [OF K [unfolded holds_keys_def], of r] by simp
qed (use x free hash in \<open>auto simp: key_hash_keys\<close>)

lemma holds_keyring_update:
  assumes A: "holds_keyring H a m" and keys: "holds_keys H ((Keys a)(kid := x)) m'"
    and subjects: "\<And>u. m' (keySubjectKey u) = m (keySubjectKey u)" "\<And>i. m' (modelSubjectKey i) = m (modelSubjectKey i)"
    and users: "\<And>u. indexes m' (virtualKeysByUserIndexKey u) (keys_of_user ((Keys a)(kid := x)) u)"
    and idx: "\<And>i. set (IDs (idx i)) = keys_of_model (Keys a) i" "\<And>i. distinct (IDs (idx i))"
    and after: "\<And>i. m' (virtualKeysByModelIndexKey i) =
      (if i \<in> set (models_of_key (Keys a kid)) \<union> set (models_of_key x)
       then Some (Some (json_of IndexCodec (new_index idx kid (models_of_key (Keys a kid)) (models_of_key x) i)))
       else m (virtualKeysByModelIndexKey i))"
  shows "holds_keyring H (a\<lparr>Keys := (Keys a)(kid := x)\<rparr>) m'"
proof (rule holds_keyringI)
  show "holds_subjects (Subjects (a\<lparr>Keys := (Keys a)(kid := x)\<rparr>)) m'"
    using holds_subjects_cong [OF holds_keyringD(2) [OF A]] subjects by simp
  show "holds_model_subjects (ModelSubjects (a\<lparr>Keys := (Keys a)(kid := x)\<rparr>)) m'"
    using holds_model_subjects_cong [OF holds_keyringD(3) [OF A]] subjects by simp
  show "indexes m' (virtualKeysByModelIndexKey i) (keys_of_model (Keys (a\<lparr>Keys := (Keys a)(kid := x)\<rparr>)) i)" for i
    using model_index_effect [OF idx holds_keyringD(5) [OF A] after] by simp
qed (use keys users in simp_all)

context total_store
begin

lemma apply_model_operations:
  assumes "\<And>i. i \<in> set ids \<Longrightarrow> m (modelSubjectKey i) = Some (Some (json_of ModelSubjectCodec (the (ModelSubjects a i))))"
  shows "apply_ops (model_operations s a idx ids) m =
    (\<lambda>k. if k \<in> virtualKeysByModelIndexKey ` set ids
         then Some (Some (json_of IndexCodec (idx (THE i. k = virtualKeysByModelIndexKey i)))) else m k)"
  using assms
proof (induction ids arbitrary: m)
  case (Cons i ids)
  let ?m = "m(virtualKeysByModelIndexKey i \<mapsto> Some (json_of IndexCodec (idx i)))"
  have "apply_ops (model_operations s a idx (i # ids)) m = apply_ops (model_operations s a idx ids) ?m"
    using Cons.prems [of i] by (simp add: model_operations_def fun_upd_idem)
  also have "\<dots> = (\<lambda>k. if k \<in> virtualKeysByModelIndexKey ` set ids
         then Some (Some (json_of IndexCodec (idx (THE i. k = virtualKeysByModelIndexKey i)))) else ?m k)"
    using Cons.prems by (intro Cons.IH) simp
  finally show ?case by (auto simp: fun_eq_iff)
qed (simp add: model_operations_def)

lemma user_indexes:
  assumes "holds_keyring H a (val s)"
  obtains idx where "\<And>u. readIndex st (virtualKeysByUserIndexKey u) s = Inr (idx u, tag_of s (virtualKeysByUserIndexKey u))"
    "\<And>u. set (IDs (idx u)) = keys_of_user (Keys a) u" "\<And>u. distinct (IDs (idx u))"
proof -
  have "\<forall>u. \<exists>index. readIndex st (virtualKeysByUserIndexKey u) s = Inr (index, tag_of s (virtualKeysByUserIndexKey u)) \<and>
      set (IDs index) = keys_of_user (Keys a) u \<and> distinct (IDs index)"
    using readIndex_total [OF holds_keyringD(4) [OF assms]] by metis
  then show thesis using that by metis
qed

lemma model_indexes:
  assumes "holds_keyring H a (val s)"
  obtains idx where "\<And>i. readIndex st (virtualKeysByModelIndexKey i) s = Inr (idx i, tag_of s (virtualKeysByModelIndexKey i))"
    "\<And>i. set (IDs (idx i)) = keys_of_model (Keys a) i" "\<And>i. distinct (IDs (idx i))"
proof -
  have "\<forall>i. \<exists>index. readIndex st (virtualKeysByModelIndexKey i) s = Inr (index, tag_of s (virtualKeysByModelIndexKey i)) \<and>
      set (IDs index) = keys_of_model (Keys a) i \<and> distinct (IDs index)"
    using readIndex_total [OF holds_keyringD(5) [OF assms]] by metis
  then show thesis using that by metis
qed

lemma subject_touch:
  assumes "holds_subjects S (val s)"
  shows "subjectTouchOperation (stored_subject (S u) (tag_of s (keySubjectKey u))) =
      ebind (touch_subject_check (S u)) (\<lambda>_. Inr (upsert (keySubjectKey u) (json_of KeySubjectCodec (the (S u))) (tag_of s (keySubjectKey u))))"
  using assms by (cases "S u")
    (auto simp: subjectTouchOperation_def touch_subject_check_def encode_def holds_subjects_def)

lemma touched_models:
  assumes A: "holds_keyring H a (val s)" and ok: "touch_models_check ids a = Inr ()" and i: "i \<in> set ids"
  shows "val s (modelSubjectKey i) = Some (Some (json_of ModelSubjectCodec (the (ModelSubjects a i))))"
proof -
  from ok obtain us where "emap (\<lambda>mid.
       ebind (fail_if (ModelSubjects a mid = None) (conflictf ''%w: model subject does not exist'' [])) (\<lambda>_.
       encode ModelSubjectCodec (the (ModelSubjects a mid)))) ids = Inr us" by (auto simp: touch_models_check_def)
  with i obtain x where "ModelSubjects a i = Some x" by (auto simp: emap_Inr_iff in_set_conv_nth)
  then show ?thesis using model_subject_entity [OF holds_keyringD(3) [OF A], of i] by simp
qed

lemma key_hash_taken:
  assumes "holds_keys H K (val s)"
  shows "lookupKey H ''key-hash'' (VK_KeyHash key) \<in> dom (val s) \<longleftrightarrow> taken (keyLookups H) K key"
  using keys.taken_iff [OF assms [unfolded holds_keys_def], of key] by (simp add: key_hash_keys)

lemma CreateVirtualKey_plan_eq:
  assumes A: "holds_keyring H a (val s)"
    and gi: "readIndex st (indexKey ''virtual-keys'') s = Inr (globalIndex, tag_of s (indexKey ''virtual-keys''))"
    and ui: "\<And>u. readIndex st (virtualKeysByUserIndexKey u) s = Inr (uidx u, tag_of s (virtualKeysByUserIndexKey u))"
    and mi: "\<And>i. readIndex st (virtualKeysByModelIndexKey i) s = Inr (midx i, tag_of s (virtualKeysByModelIndexKey i))"
  shows "CreateVirtualKey_plan H st key s = ebind (create_key_check H key a) (\<lambda>_. Inr
    ([upsert (entityKey ''virtual-keys'' (VK_ID key)) (json_of VirtualKeyCodec key) [],
      upsert (indexKey ''virtual-keys'') (json_of IndexCodec (addIndexID globalIndex (VK_ID key))) (tag_of s (indexKey ''virtual-keys'')),
      upsert (lookupKey H ''key-hash'' (VK_KeyHash key)) (JStr (VK_ID key)) [],
      upsert (virtualKeysByUserIndexKey (VK_UserID key)) (json_of IndexCodec (addIndexID (uidx (VK_UserID key)) (VK_ID key)))
        (tag_of s (virtualKeysByUserIndexKey (VK_UserID key))),
      upsert (keySubjectKey (VK_UserID key)) (json_of KeySubjectCodec (the (Subjects a (VK_UserID key))))
        (tag_of s (keySubjectKey (VK_UserID key)))] @
     model_operations s a (new_index midx (VK_ID key) [] (VK_ModelIDs key)) (all_ids [] (VK_ModelIDs key))))"
proof -
  note K = holds_keyringD(1) [OF A] and S = holds_keyringD(2) [OF A] and M = holds_keyringD(3) [OF A]
  show ?thesis
    unfolding CreateVirtualKey_plan_def create_key_check_def
    by (simp add: Get_eq Exists_val gi ui prepare_plan [OF M mi] operations_plan [OF M] subject_touch [OF S]
        readSubject_outcome [OF S] keys.read_current(1) [OF K [unfolded holds_keys_def]] key_hash_taken [OF K]
        ensureSubject_eq ebind_assoc encode_def [of VirtualKeyCodec])
qed

end

lemma user_index_effect:
  assumes before: "indexes m (virtualKeysByUserIndexKey u) (keys_of_user K u)"
    and untouched: "m' (virtualKeysByUserIndexKey u) = m (virtualKeysByUserIndexKey u)"
    and old: "\<And>key. K kid = Some key \<Longrightarrow> VK_UserID key \<noteq> u" and new: "\<And>key. x = Some key \<Longrightarrow> VK_UserID key \<noteq> u"
  shows "indexes m' (virtualKeysByUserIndexKey u) (keys_of_user (K(kid := x)) u)"
proof -
  have "kid \<notin> keys_of_user K u" using old by (auto simp: keys_of_user_def)
  then show ?thesis using before new indexes_cong [of m' _ m, OF untouched] by (auto simp: keys_of_user_update)
qed

context total_store
begin

text \<open>
  The effect of a key operation whose store, before the operations on the model indexes, is \<open>m\<close>.
\<close>

lemma key_effect:
  assumes A: "holds_keyring H a (val s)"
    and models: "touch_models_check (all_ids (models_of_key (Keys a kid)) (models_of_key x)) a = Inr ()"
    and idx: "\<And>i. set (IDs (midx i)) = keys_of_model (Keys a) i" "\<And>i. distinct (IDs (midx i))"
    and keys: "holds_keys H ((Keys a)(kid := x)) m"
    and users: "\<And>u. indexes m (virtualKeysByUserIndexKey u) (keys_of_user ((Keys a)(kid := x)) u)"
    and same: "\<And>u. m (keySubjectKey u) = val s (keySubjectKey u)" "\<And>i. m (modelSubjectKey i) = val s (modelSubjectKey i)"
      "\<And>i. m (virtualKeysByModelIndexKey i) = val s (virtualKeysByModelIndexKey i)"
  shows "holds_keyring H (a\<lparr>Keys := (Keys a)(kid := x)\<rparr>)
    (apply_ops (model_operations s a (new_index midx kid (models_of_key (Keys a kid)) (models_of_key x))
       (all_ids (models_of_key (Keys a kid)) (models_of_key x))) m)" (is "holds_keyring H ?a ?m")
proof -
  let ?ids = "all_ids (models_of_key (Keys a kid)) (models_of_key x)"
  have m': "?m = (\<lambda>k. if k \<in> virtualKeysByModelIndexKey ` set ?ids
      then Some (Some (json_of IndexCodec (new_index midx kid (models_of_key (Keys a kid)) (models_of_key x)
        (THE i. k = virtualKeysByModelIndexKey i)))) else m k)"
    by (rule apply_model_operations) (use touched_models [OF A models] same(2) in simp)
  show ?thesis
  proof (rule holds_keyring_update [OF A _ _ _ _ idx])
    show "holds_keys H ((Keys a)(kid := x)) ?m" by (rule holds_keys_cong [OF keys]) (auto simp: m')
    show "indexes ?m (virtualKeysByUserIndexKey u) (keys_of_user ((Keys a)(kid := x)) u)" for u
    proof -
      have "?m (virtualKeysByUserIndexKey u) = m (virtualKeysByUserIndexKey u)" by (auto simp: m')
      then show ?thesis using users [of u] indexes_cong [of ?m _ m] by simp
    qed
  qed (auto simp: m' same)
qed

lemma touched_subject:
  "holds_keyring H a (val s) \<Longrightarrow> touch_subject_check (Subjects a u) = Inr () \<Longrightarrow>
     val s (keySubjectKey u) = Some (Some (json_of KeySubjectCodec (the (Subjects a u))))"
  using subject_entity [OF holds_keyringD(2), of H a "val s" u] by (auto simp: touch_subject_check_def)

lemma global_index:
  assumes "holds_keyring H a (val s)"
  obtains index where "readIndex st (indexKey ''virtual-keys'') s = Inr (index, tag_of s (indexKey ''virtual-keys''))"
    "set (IDs index) = dom (Keys a)" "distinct (IDs index)"
  using readIndex_total [OF keys.represents_index [OF holds_keyringD(1) [OF assms, unfolded holds_keys_def]]] .

lemma create_key_effect:
  assumes A: "holds_keyring H a (val s)" and ok: "create_key_check H key a = Inr ()"
    and gi: "set (IDs globalIndex) = dom (Keys a)" "distinct (IDs globalIndex)"
    and ui: "set (IDs userIndex) = keys_of_user (Keys a) (VK_UserID key)" "distinct (IDs userIndex)"
    and m: "m = (val s)(entityKey ''virtual-keys'' (VK_ID key) \<mapsto> Some (json_of VirtualKeyCodec key),
        indexKey ''virtual-keys'' \<mapsto> Some (json_of IndexCodec (addIndexID globalIndex (VK_ID key))),
        lookupKey H ''key-hash'' (VK_KeyHash key) \<mapsto> Some (JStr (VK_ID key)),
        virtualKeysByUserIndexKey (VK_UserID key) \<mapsto> Some (json_of IndexCodec (addIndexID userIndex (VK_ID key))))"
  shows "holds_keys H ((Keys a)(VK_ID key := Some key)) m"
    and "indexes m (virtualKeysByUserIndexKey u) (keys_of_user ((Keys a)(VK_ID key := Some key)) u)"
proof -
  note K = holds_keyringD(1) [OF A]
  from ok have new: "Keys a (VK_ID key) = None" and free: "\<not> taken (keyLookups H) (Keys a) key"
    by (auto simp: create_key_check_def domIff)
  have "indexes m (indexKey ''virtual-keys'') (set (IDs (addIndexID globalIndex (VK_ID key))))"
    by (rule indexes_put) (auto simp: m gi)
  then have "indexes m (indexKey ''virtual-keys'') (dom ((Keys a)(VK_ID key := Some key)))" by (simp add: gi)
  then show "holds_keys H ((Keys a)(VK_ID key := Some key)) m"
    by (rule holds_keys_update [OF K, rotated 2])
      (use new free key_hash_taken [OF K, of key] in \<open>auto simp: m domIff\<close>)
  show "indexes m (virtualKeysByUserIndexKey u) (keys_of_user ((Keys a)(VK_ID key := Some key)) u)"
  proof (cases "u = VK_UserID key")
    case True
    have "indexes m (virtualKeysByUserIndexKey u) (set (IDs (addIndexID userIndex (VK_ID key))))"
      by (rule indexes_put) (auto simp: m ui True)
    then show ?thesis by (simp add: ui keys_of_user_update True)
  qed (rule user_index_effect [OF holds_keyringD(4) [OF A]], auto simp: m new)
qed

lemma CreateVirtualKey_refines:
  assumes A: "holds_keyring H a (val s)" and run: "repo_CreateVirtualKey H st key s = (r, s')"
    and spec: "guarded (create_key_check H key a) (put_key key) a = (r', a')"
  shows "r = r' \<and> holds_keyring H a' (val s')"
proof -
  obtain globalIndex where gi: "readIndex st (indexKey ''virtual-keys'') s = Inr (globalIndex, tag_of s (indexKey ''virtual-keys''))"
    "set (IDs globalIndex) = dom (Keys a)" "distinct (IDs globalIndex)" using global_index [OF A] .
  obtain uidx where ui: "\<And>u. readIndex st (virtualKeysByUserIndexKey u) s = Inr (uidx u, tag_of s (virtualKeysByUserIndexKey u))"
    "\<And>u. set (IDs (uidx u)) = keys_of_user (Keys a) u" "\<And>u. distinct (IDs (uidx u))" using user_indexes [OF A] by metis
  obtain midx where mi: "\<And>i. readIndex st (virtualKeysByModelIndexKey i) s = Inr (midx i, tag_of s (virtualKeysByModelIndexKey i))"
    "\<And>i. set (IDs (midx i)) = keys_of_model (Keys a) i" "\<And>i. distinct (IDs (midx i))" using model_indexes [OF A] by metis
  note res = commit_guarded [OF CreateVirtualKey_plan_eq [OF A gi(1) ui(1) mi(1)] _ run [unfolded repo_CreateVirtualKey_def]]
  have r: "r = create_key_check H key a" by (rule res(1)) simp
  show ?thesis
  proof (cases "create_key_check H key a")
    case (Inl e)
    then have "val s' = val s" using res(2) by simp
    with Inl r spec A show ?thesis by (auto simp: guarded_def)
  next
    case (Inr u)
    let ?m = "(val s)(entityKey ''virtual-keys'' (VK_ID key) \<mapsto> Some (json_of VirtualKeyCodec key),
        indexKey ''virtual-keys'' \<mapsto> Some (json_of IndexCodec (addIndexID globalIndex (VK_ID key))),
        lookupKey H ''key-hash'' (VK_KeyHash key) \<mapsto> Some (JStr (VK_ID key)),
        virtualKeysByUserIndexKey (VK_UserID key) \<mapsto> Some (json_of IndexCodec (addIndexID (uidx (VK_UserID key)) (VK_ID key))))"
    from Inr have ok: "create_key_check H key a = Inr ()" and new: "Keys a (VK_ID key) = None"
      and owner: "touch_subject_check (Subjects a (VK_UserID key)) = Inr ()"
      and models: "touch_models_check (all_ids [] (VK_ModelIDs key)) a = Inr ()"
      by (auto simp: create_key_check_def domIff)
    have "?m(keySubjectKey (VK_UserID key) \<mapsto> Some (json_of KeySubjectCodec (the (Subjects a (VK_UserID key))))) = ?m"
      using touched_subject [OF A owner] by (intro fun_upd_idem) simp
    then have "val s' = apply_ops (model_operations s a (new_index midx (VK_ID key) [] (VK_ModelIDs key)) (all_ids [] (VK_ModelIDs key))) ?m"
      by (subst res(2)) (use ok in simp_all)
    moreover note key_effect [OF A, of "VK_ID key" "Some key" midx ?m] create_key_effect [OF A ok gi(2,3) ui(2,3) refl]
    ultimately have "holds_keyring H (put_key key a) (val s')"
      using models new mi by (simp add: put_key_def)
    with Inr r spec show ?thesis by (auto simp: guarded_def)
  qed
qed

end

context total_store
begin

lemma hash_taken_by_other:
  assumes "holds_keys H K (val s)"
  shows "lookupKey H ''key-hash'' (VK_KeyHash key) \<in> dom (val s) \<and>
      Unmarshal StringCodec (Entry_Value (entry_of (tagged_view s (lookupKey H ''key-hash'' (VK_KeyHash key))))) \<noteq> Inr kid
    \<longleftrightarrow> taken_by_other (keyLookups H) kid K key"
  using keys.other_owner [OF assms [unfolded holds_keys_def], of _ key kid]
  by (simp add: taken_by_other_def key_hash_keys eq_commute [of "H (VK_KeyHash key)"])

lemma ReplaceVirtualKey_plan_eq:
  assumes A: "holds_keyring H a (val s)"
    and ui: "\<And>u. readIndex st (virtualKeysByUserIndexKey u) s = Inr (uidx u, tag_of s (virtualKeysByUserIndexKey u))"
    and mi: "\<And>i. readIndex st (virtualKeysByModelIndexKey i) s = Inr (midx i, tag_of s (virtualKeysByModelIndexKey i))"
  shows "ReplaceVirtualKey_plan H st old key s = ebind (replace_key_check H old key a) (\<lambda>_. Inr
    ([upsert (entityKey ''virtual-keys'' (VK_ID key)) (json_of VirtualKeyCodec key) (tag_of s (entityKey ''virtual-keys'' (VK_ID key)))] @
     (if lookupKey H ''key-hash'' (VK_KeyHash old) \<noteq> lookupKey H ''key-hash'' (VK_KeyHash key)
      then [delete_op (lookupKey H ''key-hash'' (VK_KeyHash old)) []] else []) @
     [upsert (lookupKey H ''key-hash'' (VK_KeyHash key)) (JStr (VK_ID key)) []] @
     (if VK_UserID key \<noteq> VK_UserID old
      then [upsert (virtualKeysByUserIndexKey (VK_UserID old)) (json_of IndexCodec (removeIndexID (uidx (VK_UserID old)) (VK_ID key)))
        (tag_of s (virtualKeysByUserIndexKey (VK_UserID old)))] else []) @
     [upsert (virtualKeysByUserIndexKey (VK_UserID key)) (json_of IndexCodec (addIndexID (uidx (VK_UserID key)) (VK_ID key)))
        (tag_of s (virtualKeysByUserIndexKey (VK_UserID key))),
      upsert (keySubjectKey (VK_UserID old)) (json_of KeySubjectCodec (the (Subjects a (VK_UserID old))))
        (tag_of s (keySubjectKey (VK_UserID old)))] @
     (if VK_UserID key \<noteq> VK_UserID old
      then [upsert (keySubjectKey (VK_UserID key)) (json_of KeySubjectCodec (the (Subjects a (VK_UserID key))))
        (tag_of s (keySubjectKey (VK_UserID key)))] else []) @
     model_operations s a (new_index midx (VK_ID key) (VK_ModelIDs old) (VK_ModelIDs key)) (all_ids (VK_ModelIDs old) (VK_ModelIDs key))))"
proof -
  note K = holds_keyringD(1) [OF A] and S = holds_keyringD(2) [OF A] and M = holds_keyringD(3) [OF A]
  note cur = keys.read_current [OF K [unfolded holds_keys_def], of "VK_ID key"]
  note defs = ReplaceVirtualKey_plan_def replace_key_check_def Get_eq Exists_val
  have missing: "val s (entityKey ''virtual-keys'' (VK_ID key)) = None \<longleftrightarrow> Keys a (VK_ID key) = None" using cur(1) by blast
  consider "VK_ID old \<noteq> VK_ID key" | "VK_ID old = VK_ID key" "VK_ModelIDs key = []"
    | "VK_ID old = VK_ID key" "VK_ModelIDs key \<noteq> []" "Keys a (VK_ID key) \<noteq> Some old"
    | "VK_ID old = VK_ID key" "VK_ModelIDs key \<noteq> []" "Keys a (VK_ID key) = Some old" by blast
  then show ?thesis
  proof cases
    case 3
    then show ?thesis using missing by (cases "Keys a (VK_ID key)") (simp_all add: defs cur(2) domIff)
  next
    case 4
    have touch_twice: "ebind (touch_subject_check x) (\<lambda>_. ebind (touch_subject_check x) f) = ebind (touch_subject_check x) f"
      for x and f :: "unit \<Rightarrow> Operation list result" by (cases "touch_subject_check x") simp_all
    show ?thesis
    proof (cases "VK_UserID key = VK_UserID old")
      case True
      with 4 show ?thesis unfolding defs
        by (simp add: Exists_val cur hash_taken_by_other [OF K] readSubject_outcome [OF S] ui prepare_plan [OF M mi]
            operations_plan [OF M] subject_touch [OF S] ebind_assoc encode_def [of VirtualKeyCodec] Let_def tag_of_def [symmetric]
            ensureSubject_eq touch_twice domI cong: if_cong)
    next
      case False
      with 4 show ?thesis unfolding defs
        by (simp add: Exists_val cur hash_taken_by_other [OF K] readSubject_outcome [OF S] ui prepare_plan [OF M mi]
            operations_plan [OF M] subject_touch [OF S] ebind_assoc encode_def [of VirtualKeyCodec] Let_def tag_of_def [symmetric]
            ensureSubject_eq domI cong: if_cong)
    qed
  qed (simp_all add: defs)
qed

end

context total_store
begin

lemma hash_free:
  assumes K: "holds_keys H K m" and free: "\<not> taken_by_other (keyLookups H) kid K key"
  shows "m (lookupKey H ''key-hash'' (VK_KeyHash key)) = None \<or>
    m (lookupKey H ''key-hash'' (VK_KeyHash key)) = Some (Some (JStr kid))"
proof (cases "m (lookupKey H ''key-hash'' (VK_KeyHash key))")
  case (Some raw)
  then obtain r x where "K r = Some x" "H (VK_KeyHash key) = H (VK_KeyHash x)" "raw = Some (JStr r)"
    using keys.lookup_owned [OF K [unfolded holds_keys_def] _ Some] by (auto simp: key_hash_keys)
  with free have "r = kid" by (auto simp: taken_by_other_def key_hash_keys)
  with Some \<open>raw = _\<close> show ?thesis by simp
qed simp

lemma replace_key_effect:
  assumes A: "holds_keyring H a (val s)" and old: "Keys a (VK_ID key) = Some old"
    and free: "\<not> taken_by_other (keyLookups H) (VK_ID key) (Keys a) key"
    and ui: "\<And>u. set (IDs (uidx u)) = keys_of_user (Keys a) u" "\<And>u. distinct (IDs (uidx u))"
    and m: "m = (val s)(entityKey ''virtual-keys'' (VK_ID key) \<mapsto> Some (json_of VirtualKeyCodec key),
        lookupKey H ''key-hash'' (VK_KeyHash old) := None,
        lookupKey H ''key-hash'' (VK_KeyHash key) \<mapsto> Some (JStr (VK_ID key)),
        virtualKeysByUserIndexKey (VK_UserID old) \<mapsto> Some (json_of IndexCodec (removeIndexID (uidx (VK_UserID old)) (VK_ID key))),
        virtualKeysByUserIndexKey (VK_UserID key) \<mapsto> Some (json_of IndexCodec (addIndexID (uidx (VK_UserID key)) (VK_ID key))))"
  shows "holds_keys H ((Keys a)(VK_ID key := Some key)) m"
    and "indexes m (virtualKeysByUserIndexKey u) (keys_of_user ((Keys a)(VK_ID key := Some key)) u)"
proof -
  note K = holds_keyringD(1) [OF A]
  have "m (indexKey ''virtual-keys'') = val s (indexKey ''virtual-keys'')" by (simp add: m)
  then have "indexes m (indexKey ''virtual-keys'') (dom ((Keys a)(VK_ID key := Some key)))"
    using keys.represents_index [OF K [unfolded holds_keys_def]] old indexes_cong [of m "indexKey ''virtual-keys''" "val s"]
    by (simp add: insert_absorb domI)
  then show "holds_keys H ((Keys a)(VK_ID key := Some key)) m"
    by (rule holds_keys_update [OF K, rotated 2]) (use old hash_free [OF K free] in \<open>auto simp: m\<close>)
  consider "u = VK_UserID key" | "u \<noteq> VK_UserID key" "u = VK_UserID old" | "u \<noteq> VK_UserID key" "u \<noteq> VK_UserID old" by blast
  then show "indexes m (virtualKeysByUserIndexKey u) (keys_of_user ((Keys a)(VK_ID key := Some key)) u)"
  proof cases
    case 1
    have "indexes m (virtualKeysByUserIndexKey u) (set (IDs (addIndexID (uidx u) (VK_ID key))))"
      by (rule indexes_put) (simp_all add: m ui 1)
    then show ?thesis using 1 by (simp add: ui keys_of_user_update)
  next
    case 2
    have "indexes m (virtualKeysByUserIndexKey u) (set (IDs (removeIndexID (uidx u) (VK_ID key))))"
      by (rule indexes_put) (use 2 in \<open>simp_all add: m ui\<close>)
    then show ?thesis using 2 by (simp add: ui keys_of_user_update)
  qed (rule user_index_effect [OF holds_keyringD(4) [OF A]], auto simp: m old)
qed

lemma ReplaceVirtualKey_refines:
  assumes A: "holds_keyring H a (val s)" and run: "repo_ReplaceVirtualKey H st old key s = (r, s')"
    and spec: "guarded (replace_key_check H old key a) (put_key key) a = (r', a')"
  shows "r = r' \<and> holds_keyring H a' (val s')"
proof -
  obtain uidx where ui: "\<And>u. readIndex st (virtualKeysByUserIndexKey u) s = Inr (uidx u, tag_of s (virtualKeysByUserIndexKey u))"
    "\<And>u. set (IDs (uidx u)) = keys_of_user (Keys a) u" "\<And>u. distinct (IDs (uidx u))" using user_indexes [OF A] by metis
  obtain midx where mi: "\<And>i. readIndex st (virtualKeysByModelIndexKey i) s = Inr (midx i, tag_of s (virtualKeysByModelIndexKey i))"
    "\<And>i. set (IDs (midx i)) = keys_of_model (Keys a) i" "\<And>i. distinct (IDs (midx i))" using model_indexes [OF A] by metis
  note res = commit_guarded [OF ReplaceVirtualKey_plan_eq [OF A ui(1) mi(1)] _ run [unfolded repo_ReplaceVirtualKey_def]]
  have r: "r = replace_key_check H old key a" by (rule res(1)) simp
  show ?thesis
  proof (cases "replace_key_check H old key a")
    case (Inl e)
    then have "val s' = val s" using res(2) by simp
    with Inl r spec A show ?thesis by (auto simp: guarded_def)
  next
    case (Inr u)
    let ?m = "(val s)(entityKey ''virtual-keys'' (VK_ID key) \<mapsto> Some (json_of VirtualKeyCodec key),
        lookupKey H ''key-hash'' (VK_KeyHash old) := None,
        lookupKey H ''key-hash'' (VK_KeyHash key) \<mapsto> Some (JStr (VK_ID key)),
        virtualKeysByUserIndexKey (VK_UserID old) \<mapsto> Some (json_of IndexCodec (removeIndexID (uidx (VK_UserID old)) (VK_ID key))),
        virtualKeysByUserIndexKey (VK_UserID key) \<mapsto> Some (json_of IndexCodec (addIndexID (uidx (VK_UserID key)) (VK_ID key))))"
    from Inr have ok: "replace_key_check H old key a = Inr ()" and old: "Keys a (VK_ID key) = Some old"
      and free: "\<not> taken_by_other (keyLookups H) (VK_ID key) (Keys a) key"
      and owners: "touch_subject_check (Subjects a (VK_UserID old)) = Inr ()" "touch_subject_check (Subjects a (VK_UserID key)) = Inr ()"
      and models: "touch_models_check (all_ids (VK_ModelIDs old) (VK_ModelIDs key)) a = Inr ()"
      by (auto simp: replace_key_check_def)
    have "val s' = apply_ops (model_operations s a (new_index midx (VK_ID key) (VK_ModelIDs old) (VK_ModelIDs key))
        (all_ids (VK_ModelIDs old) (VK_ModelIDs key))) ?m"
      by (subst res(2), simp, simp only: ok simp_thms if_True apply_ops_append, rule arg_cong [of _ _ "apply_ops _"])
        (use touched_subject [OF A owners(1)] touched_subject [OF A owners(2)] in \<open>auto simp: fun_eq_iff\<close>)
    moreover note key_effect [OF A, of "VK_ID key" "Some key" midx ?m] replace_key_effect [OF A old free ui(2,3) refl]
    ultimately have "holds_keyring H (put_key key a) (val s')"
      using models old mi by (simp add: put_key_def)
    with Inr r spec show ?thesis by (auto simp: guarded_def)
  qed
qed

lemma DeleteVirtualKey_plan_eq:
  assumes A: "holds_keyring H a (val s)"
    and gi: "readIndex st (indexKey ''virtual-keys'') s = Inr (globalIndex, tag_of s (indexKey ''virtual-keys''))"
    and ui: "\<And>u. readIndex st (virtualKeysByUserIndexKey u) s = Inr (uidx u, tag_of s (virtualKeysByUserIndexKey u))"
    and mi: "\<And>i. readIndex st (virtualKeysByModelIndexKey i) s = Inr (midx i, tag_of s (virtualKeysByModelIndexKey i))"
  shows "DeleteVirtualKey_plan H st key s = ebind (delete_key_check key a) (\<lambda>_. Inr
    ([delete_op (entityKey ''virtual-keys'' (VK_ID key)) (tag_of s (entityKey ''virtual-keys'' (VK_ID key))),
      upsert (indexKey ''virtual-keys'') (json_of IndexCodec (removeIndexID globalIndex (VK_ID key))) (tag_of s (indexKey ''virtual-keys'')),
      delete_op (lookupKey H ''key-hash'' (VK_KeyHash key)) [],
      upsert (virtualKeysByUserIndexKey (VK_UserID key)) (json_of IndexCodec (removeIndexID (uidx (VK_UserID key)) (VK_ID key)))
        (tag_of s (virtualKeysByUserIndexKey (VK_UserID key))),
      upsert (keySubjectKey (VK_UserID key)) (json_of KeySubjectCodec (the (Subjects a (VK_UserID key))))
        (tag_of s (keySubjectKey (VK_UserID key)))] @
     model_operations s a (new_index midx (VK_ID key) (VK_ModelIDs key) []) (all_ids (VK_ModelIDs key) [])))"
proof -
  note K = holds_keyringD(1) [OF A] and S = holds_keyringD(2) [OF A] and M = holds_keyringD(3) [OF A]
  note cur = keys.read_current [OF K [unfolded holds_keys_def], of "VK_ID key"]
  have missing: "val s (entityKey ''virtual-keys'' (VK_ID key)) = None \<longleftrightarrow> Keys a (VK_ID key) = None" using cur(1) by blast
  show ?thesis
  proof (cases "Keys a (VK_ID key) = Some key")
    case True
    then show ?thesis unfolding DeleteVirtualKey_plan_def delete_key_check_def
      by (simp add: Get_eq Exists_val cur domI gi ui readSubject_outcome [OF S] prepare_plan [OF M mi]
          operations_plan [OF M] subject_touch [OF S] ebind_assoc tag_of_def [symmetric])
  next
    case False
    then show ?thesis using missing
      by (cases "Keys a (VK_ID key)")
        (simp_all add: DeleteVirtualKey_plan_def delete_key_check_def Get_eq Exists_val cur(2) domIff)
  qed
qed

lemma delete_key_effect:
  assumes A: "holds_keyring H a (val s)" and old: "Keys a (VK_ID key) = Some key"
    and gi: "set (IDs globalIndex) = dom (Keys a)" "distinct (IDs globalIndex)"
    and ui: "set (IDs userIndex) = keys_of_user (Keys a) (VK_UserID key)" "distinct (IDs userIndex)"
    and m: "m = (val s)(entityKey ''virtual-keys'' (VK_ID key) := None,
        indexKey ''virtual-keys'' \<mapsto> Some (json_of IndexCodec (removeIndexID globalIndex (VK_ID key))),
        lookupKey H ''key-hash'' (VK_KeyHash key) := None,
        virtualKeysByUserIndexKey (VK_UserID key) \<mapsto> Some (json_of IndexCodec (removeIndexID userIndex (VK_ID key))))"
  shows "holds_keys H ((Keys a)(VK_ID key := None)) m"
    and "indexes m (virtualKeysByUserIndexKey u) (keys_of_user ((Keys a)(VK_ID key := None)) u)"
proof -
  note K = holds_keyringD(1) [OF A]
  have "indexes m (indexKey ''virtual-keys'') (set (IDs (removeIndexID globalIndex (VK_ID key))))"
    by (rule indexes_put) (auto simp: m gi)
  then have "indexes m (indexKey ''virtual-keys'') (dom ((Keys a)(VK_ID key := None)))" by (simp add: gi)
  then show "holds_keys H ((Keys a)(VK_ID key := None)) m"
    by (rule holds_keys_update [OF K, rotated 2]) (use old in \<open>auto simp: m\<close>)
  show "indexes m (virtualKeysByUserIndexKey u) (keys_of_user ((Keys a)(VK_ID key := None)) u)"
  proof (cases "u = VK_UserID key")
    case True
    have "indexes m (virtualKeysByUserIndexKey u) (set (IDs (removeIndexID userIndex (VK_ID key))))"
      by (rule indexes_put) (auto simp: m ui True)
    then show ?thesis by (simp add: ui keys_of_user_update True)
  qed (rule user_index_effect [OF holds_keyringD(4) [OF A]], auto simp: m old)
qed

lemma DeleteVirtualKey_refines:
  assumes A: "holds_keyring H a (val s)" and run: "repo_DeleteVirtualKey H st key s = (r, s')"
    and spec: "guarded (delete_key_check key a) (drop_key key) a = (r', a')"
  shows "r = r' \<and> holds_keyring H a' (val s')"
proof -
  obtain globalIndex where gi: "readIndex st (indexKey ''virtual-keys'') s = Inr (globalIndex, tag_of s (indexKey ''virtual-keys''))"
    "set (IDs globalIndex) = dom (Keys a)" "distinct (IDs globalIndex)" using global_index [OF A] .
  obtain uidx where ui: "\<And>u. readIndex st (virtualKeysByUserIndexKey u) s = Inr (uidx u, tag_of s (virtualKeysByUserIndexKey u))"
    "\<And>u. set (IDs (uidx u)) = keys_of_user (Keys a) u" "\<And>u. distinct (IDs (uidx u))" using user_indexes [OF A] by metis
  obtain midx where mi: "\<And>i. readIndex st (virtualKeysByModelIndexKey i) s = Inr (midx i, tag_of s (virtualKeysByModelIndexKey i))"
    "\<And>i. set (IDs (midx i)) = keys_of_model (Keys a) i" "\<And>i. distinct (IDs (midx i))" using model_indexes [OF A] by metis
  note res = commit_guarded [OF DeleteVirtualKey_plan_eq [OF A gi(1) ui(1) mi(1)] _ run [unfolded repo_DeleteVirtualKey_def]]
  have r: "r = delete_key_check key a" by (rule res(1)) simp
  show ?thesis
  proof (cases "delete_key_check key a")
    case (Inl e)
    then have "val s' = val s" using res(2) by simp
    with Inl r spec A show ?thesis by (auto simp: guarded_def)
  next
    case (Inr u)
    let ?m = "(val s)(entityKey ''virtual-keys'' (VK_ID key) := None,
        indexKey ''virtual-keys'' \<mapsto> Some (json_of IndexCodec (removeIndexID globalIndex (VK_ID key))),
        lookupKey H ''key-hash'' (VK_KeyHash key) := None,
        virtualKeysByUserIndexKey (VK_UserID key) \<mapsto> Some (json_of IndexCodec (removeIndexID (uidx (VK_UserID key)) (VK_ID key))))"
    from Inr have ok: "delete_key_check key a = Inr ()" and old: "Keys a (VK_ID key) = Some key"
      and owner: "touch_subject_check (Subjects a (VK_UserID key)) = Inr ()"
      and models: "touch_models_check (all_ids (VK_ModelIDs key) []) a = Inr ()"
      by (auto simp: delete_key_check_def)
    have "?m(keySubjectKey (VK_UserID key) \<mapsto> Some (json_of KeySubjectCodec (the (Subjects a (VK_UserID key))))) = ?m"
      using touched_subject [OF A owner] by (intro fun_upd_idem) simp
    then have "val s' = apply_ops (model_operations s a (new_index midx (VK_ID key) (VK_ModelIDs key) []) (all_ids (VK_ModelIDs key) [])) ?m"
      by (subst res(2)) (use ok in simp_all)
    moreover note key_effect [OF A, of "VK_ID key" None midx ?m] delete_key_effect [OF A old gi(2,3) ui(2,3) refl]
    ultimately have "holds_keyring H (drop_key key a) (val s')"
      using models old mi by (simp add: drop_key_def)
    with Inr r spec show ?thesis by (auto simp: guarded_def)
  qed
qed

end

section \<open>Integrity\<close>

lemma live_subject_simps [simp]:
  "live_subject (a\<lparr>Keys := K\<rparr>) u = live_subject a u" "live_model (a\<lparr>Keys := K\<rparr>) i = live_model a i"
  "live_subject (a\<lparr>ModelSubjects := M\<rparr>) u = live_subject a u" "live_model (a\<lparr>Subjects := S\<rparr>) i = live_model a i"
  by (simp_all add: live_subject_def live_model_def)

lemma owner_live: "refusal (owner_faults (Subjects a u) key) = Inr () \<Longrightarrow> live_subject a u"
  by (cases "Subjects a u") (auto simp: owner_faults_def live_subject_def split: if_splits)

lemma backing_live: "refusal (backing_faults (ModelSubjects a i) key) = Inr () \<Longrightarrow> live_model a i"
  by (cases "ModelSubjects a i") (auto simp: backing_faults_def live_model_def split: if_splits)

lemma models_check_live:
  assumes "models_check old new key a = Inr ()" and "i \<in> set new"
  shows "live_model a i"
proof -
  let ?f = "\<lambda>mid. if mid \<in> set new
       then wrapf ''model %q: %w'' [mid] (refusal (backing_faults (ModelSubjects a mid) key))
       else fail_if (\<not> live_model a mid) (conflictf ''%w: referenced model subject %q is unavailable'' [mid])"
  from assms obtain us where us: "emap ?f (all_ids old new) = Inr us" by (auto simp: models_check_def)
  have "\<exists>u. ?f i = Inr u" by (rule emap_in [OF us]) (simp add: assms(2))
  then show ?thesis using assms(2) backing_live by auto
qed

lemma models_check_ids: "models_check old new key a = Inr () \<Longrightarrow> distinct new \<and> '''' \<notin> set new"
  using modelIDSet_ok by (fastforce simp: models_check_def)

lemma keyring_ok_put_key:
  assumes "keyring_ok a" "VK_ModelIDs key \<noteq> []" "models_check old (VK_ModelIDs key) key a = Inr ()"
    and "refusal (owner_faults (Subjects a (VK_UserID key)) key) = Inr ()"
  shows "keyring_ok (put_key key a)"
  using assms models_check_live [OF assms(3)] models_check_ids [OF assms(3)] owner_live [OF assms(4)]
  by (auto simp: keyring_ok_def put_key_def ran_def)

lemma keyring_ok_create: "keyring_ok a \<Longrightarrow> create_key_check H key a = Inr () \<Longrightarrow> keyring_ok (put_key key a)"
  by (rule keyring_ok_put_key) (auto simp: create_key_check_def)

lemma keyring_ok_replace: "keyring_ok a \<Longrightarrow> replace_key_check H old key a = Inr () \<Longrightarrow> keyring_ok (put_key key a)"
  by (rule keyring_ok_put_key) (auto simp: replace_key_check_def)

lemma keyring_ok_delete: "keyring_ok a \<Longrightarrow> keyring_ok (drop_key key a)"
  by (auto simp: keyring_ok_def drop_key_def ran_def)

lemma keyring_ok_subject:
  assumes "keyring_ok a" and "\<not> KS_Deleted x \<or> keys_of_user (Keys a) (KS_UserID x) = {}"
  shows "keyring_ok (put_subject x a)"
  using assms by (auto simp: keyring_ok_def put_subject_def live_subject_def keys_of_user_def ran_def)

lemma keyring_ok_model:
  assumes "keyring_ok a" and "\<not> MS_Deleted x \<or> keys_of_model (Keys a) (MS_ModelID x) = {}"
  shows "keyring_ok (put_model_subject x a)"
  using assms by (auto simp: keyring_ok_def put_model_subject_def live_model_def keys_of_model_def ran_def)

text \<open>
  How subjects evolve: they are never removed, their revision never decreases, a tombstone stays a
  tombstone, and the alias of a model never changes.
\<close>

definition evolves :: "keyring \<Rightarrow> keyring \<Rightarrow> bool" where
  "evolves a b \<longleftrightarrow>
     (\<forall>u c. Subjects a u = Some c \<longrightarrow> (\<exists>d. Subjects b u = Some d \<and>
        KS_Revision c \<le> KS_Revision d \<and> (KS_Deleted c \<longrightarrow> KS_Deleted d))) \<and>
     (\<forall>i c. ModelSubjects a i = Some c \<longrightarrow> (\<exists>d. ModelSubjects b i = Some d \<and>
        MS_Alias d = MS_Alias c \<and> MS_Revision c \<le> MS_Revision d \<and> (MS_Deleted c \<longrightarrow> MS_Deleted d)))"

lemma evolves_refl [simp]: "evolves a a"
  by (simp add: evolves_def)

lemma evolves_trans: "evolves a b \<Longrightarrow> evolves b c \<Longrightarrow> evolves a c"
  unfolding evolves_def by (intro conjI allI impI; elim conjE) (force intro: order_trans)+

lemma evolves_keys [simp]: "evolves a (put_key key a)" "evolves a (drop_key key a)"
  by (simp_all add: evolves_def put_key_def drop_key_def)

lemma update_subject_evolves: "update_subject_check x a = Inr () \<Longrightarrow> evolves a (put_subject x a)"
  by (cases "Subjects a (KS_UserID x)")
    (auto simp: update_subject_check_def subject_conflicts_def put_subject_def replayed_subject_def evolves_def
      not_less split: if_splits)

lemma update_model_evolves: "update_model_check x a = Inr () \<Longrightarrow> evolves a (put_model_subject x a)"
  by (cases "ModelSubjects a (MS_ModelID x)")
    (auto simp: update_model_check_def model_conflicts_def put_model_subject_def replayed_model_def evolves_def
      not_less split: if_splits)

text \<open>The steps of the virtual-key service on its store.\<close>

inductive key_step :: "(string \<Rightarrow> string) \<Rightarrow> memory \<Rightarrow> memory \<Rightarrow> bool" for H where
  step_SyncSubject: "repo_SyncSubject MemoryStore x s = (r, s') \<Longrightarrow> key_step H s s'"
| step_FenceSubject: "repo_FenceSubject MemoryStore x s = (r, s') \<Longrightarrow> key_step H s s'"
| step_SyncModelSubject: "repo_SyncModelSubject MemoryStore y s = (r, s') \<Longrightarrow> key_step H s s'"
| step_FenceModelSubject: "repo_FenceModelSubject MemoryStore y s = (r, s') \<Longrightarrow> key_step H s s'"
| step_CreateVirtualKey: "repo_CreateVirtualKey H MemoryStore key s = (r, s') \<Longrightarrow> key_step H s s'"
| step_ReplaceVirtualKey: "repo_ReplaceVirtualKey H MemoryStore old key s = (r, s') \<Longrightarrow> key_step H s s'"
| step_DeleteVirtualKey: "repo_DeleteVirtualKey H MemoryStore key s = (r, s') \<Longrightarrow> key_step H s s'"

definition good_ring :: "(string \<Rightarrow> string) \<Rightarrow> memory \<Rightarrow> keyring \<Rightarrow> bool" where
  "good_ring H s a \<longleftrightarrow> holds_keyring H a (contents s) \<and> keyring_ok a"

lemma good_ring_guarded:
  assumes ring: "good_ring H s a"
    and refines: "\<And>r' a'. guarded check f a = (r', a') \<Longrightarrow> r = r' \<and> holds_keyring H a' (contents s')"
    and ok: "check = Inr () \<Longrightarrow> keyring_ok (f a) \<and> evolves a (f a)"
  shows "\<exists>b. good_ring H s' b \<and> evolves a b"
proof (cases "check = Inr ()")
  case True
  then show ?thesis using refines [of check "f a"] ok by (auto simp: guarded_def good_ring_def)
next
  case False
  then show ?thesis using refines [of check a] ring by (auto simp: guarded_def good_ring_def)
qed

lemma good_ring_step:
  assumes "key_step H s s'" and "good_ring H s a"
  shows "\<exists>b. good_ring H s' b \<and> evolves a b"
  using assms
proof (induction rule: key_step.induct)
  case (step_SyncSubject x s r s')
  from step_SyncSubject.prems have h: "holds_keyring H a (contents s)" "keyring_ok a" by (simp_all add: good_ring_def)
  show ?case by (rule good_ring_guarded [OF step_SyncSubject.prems mem.SyncSubject_refines [OF h(1) step_SyncSubject.hyps]])
      (use h in \<open>auto simp: sync_subject_check_def intro: keyring_ok_subject update_subject_evolves\<close>)
next
  case (step_FenceSubject x s r s')
  from step_FenceSubject.prems have h: "holds_keyring H a (contents s)" "keyring_ok a" by (simp_all add: good_ring_def)
  show ?case by (rule good_ring_guarded [OF step_FenceSubject.prems mem.FenceSubject_refines [OF h(1) step_FenceSubject.hyps]])
      (use h in \<open>auto simp: fence_subject_check_def intro: keyring_ok_subject update_subject_evolves\<close>)
next
  case (step_SyncModelSubject x s r s')
  from step_SyncModelSubject.prems have h: "holds_keyring H a (contents s)" "keyring_ok a" by (simp_all add: good_ring_def)
  show ?case by (rule good_ring_guarded [OF step_SyncModelSubject.prems mem.SyncModelSubject_refines [OF h(1) step_SyncModelSubject.hyps]])
      (use h in \<open>auto simp: sync_model_check_def intro: keyring_ok_model update_model_evolves\<close>)
next
  case (step_FenceModelSubject x s r s')
  from step_FenceModelSubject.prems have h: "holds_keyring H a (contents s)" "keyring_ok a" by (simp_all add: good_ring_def)
  show ?case by (rule good_ring_guarded [OF step_FenceModelSubject.prems mem.FenceModelSubject_refines [OF h(1) step_FenceModelSubject.hyps]])
      (use h in \<open>auto simp: fence_model_check_def intro: keyring_ok_model update_model_evolves\<close>)
next
  case (step_CreateVirtualKey key s r s')
  from step_CreateVirtualKey.prems have h: "holds_keyring H a (contents s)" "keyring_ok a" by (simp_all add: good_ring_def)
  show ?case by (rule good_ring_guarded [OF step_CreateVirtualKey.prems mem.CreateVirtualKey_refines [OF h(1) step_CreateVirtualKey.hyps]])
      (use h in \<open>auto intro: keyring_ok_create\<close>)
next
  case (step_ReplaceVirtualKey old key s r s')
  from step_ReplaceVirtualKey.prems have h: "holds_keyring H a (contents s)" "keyring_ok a" by (simp_all add: good_ring_def)
  show ?case by (rule good_ring_guarded [OF step_ReplaceVirtualKey.prems mem.ReplaceVirtualKey_refines [OF h(1) step_ReplaceVirtualKey.hyps]])
      (use h in \<open>auto intro: keyring_ok_replace\<close>)
next
  case (step_DeleteVirtualKey key s r s')
  from step_DeleteVirtualKey.prems have h: "holds_keyring H a (contents s)" "keyring_ok a" by (simp_all add: good_ring_def)
  show ?case by (rule good_ring_guarded [OF step_DeleteVirtualKey.prems mem.DeleteVirtualKey_refines [OF h(1) step_DeleteVirtualKey.hyps]])
      (use h in \<open>auto intro: keyring_ok_delete\<close>)
qed

lemma good_ring_steps:
  assumes "(key_step H)\<^sup>*\<^sup>* s s'" and "good_ring H s a"
  shows "\<exists>b. good_ring H s' b \<and> evolves a b"
  using assms
proof (induction rule: rtranclp_induct)
  case base
  then show ?case by auto
next
  case (step t t')
  then obtain b where "good_ring H t b" "evolves a b" by auto
  with good_ring_step [OF step.hyps(2)] show ?case by (meson evolves_trans)
qed

definition empty_ring :: keyring where
  "empty_ring = \<lparr>Keys = Map.empty, Subjects = Map.empty, ModelSubjects = Map.empty\<rparr>"

lemma good_ring_empty: "good_ring H NewMemoryStore empty_ring"
  by (simp add: good_ring_def empty_ring_def holds_keyring_def holds_keys_def holds_subjects_def holds_model_subjects_def
      collection_holds_def stores_def indexes_def looks_up_def keys_of_user_def keys_of_model_def values_of_def
      memory_view_def NewMemoryStore_def keyring_ok_def)

lemma good_ring_reachable: "(key_step H)\<^sup>*\<^sup>* NewMemoryStore s \<Longrightarrow> \<exists>a. good_ring H s a"
  using good_ring_steps [OF _ good_ring_empty] by blast

text \<open>Reading the key ring.\<close>

lemma GetSubject_outcome:
  "holds_keyring H a (contents s) \<Longrightarrow> repo_GetSubject MemoryStore u s = require (Subjects a) u"
  using mem.readSubject_outcome [OF holds_keyringD(2)]
  by (cases "Subjects a u") (auto simp: repo_GetSubject_def)

lemma GetModelSubject_outcome:
  "holds_keyring H a (contents s) \<Longrightarrow> repo_GetModelSubject MemoryStore i s = require (ModelSubjects a) i"
  using mem.readModelSubject_outcome [OF holds_keyringD(3)]
  by (cases "ModelSubjects a i") (auto simp: repo_GetModelSubject_def)

lemma GetVirtualKey_outcome:
  "holds_keyring H a (contents s) \<Longrightarrow> repo_GetVirtualKey MemoryStore k s = require (Keys a) k"
  unfolding repo_GetVirtualKey_def require_def
  by (rule mem.keys.getResource_outcome [OF holds_keyringD(1) [unfolded holds_keys_def]])

lemma GetVirtualKeyByHash_found:
  assumes A: "holds_keyring H a (contents s)" and key: "Keys a k = Some key" "H (VK_KeyHash key) = H h"
  shows "repo_GetVirtualKeyByHash H MemoryStore h s = Inr key"
proof -
  have "lookup H MemoryStore ''key-hash'' h s = Inr k"
    by (rule mem.keys.lookup_found [OF holds_keyringD(1) [OF A, unfolded holds_keys_def] key(1)])
      (simp add: key_hash_keys key(2))
  then show ?thesis by (simp add: repo_GetVirtualKeyByHash_def GetVirtualKey_outcome [OF A] key(1))
qed

lemma GetVirtualKeyByHash_missing:
  assumes A: "holds_keyring H a (contents s)" and none: "\<And>k key. Keys a k = Some key \<Longrightarrow> H (VK_KeyHash key) \<noteq> H h"
  shows "repo_GetVirtualKeyByHash H MemoryStore h s = Inl ErrNotFound"
proof -
  have "lookup H MemoryStore ''key-hash'' h s = Inl ErrNotFound"
    by (rule mem.keys.lookup_missing [OF holds_keyringD(1) [OF A, unfolded holds_keys_def]])
      (auto simp: key_hash_keys ran_def dest: none)
  then show ?thesis by (simp add: repo_GetVirtualKeyByHash_def)
qed


section \<open>Properties\<close>

text \<open>
  C25: VirtualKeyRepository implements a key ring with referential integrity. The empty store represents
  the empty ring; CreateVirtualKey, ReplaceVirtualKey and DeleteVirtualKey return exactly what the
  checks stated on the ring return, in the order of the code (unique ID and hash, expected current
  value, an owner and models that may hold the key), and the store they leave represents the updated
  ring, with the indexes by user and by model exact, or the same ring after an error.
\<close>

theorem VirtualKeyRepository_refines:
  "holds_keyring H empty_ring (contents NewMemoryStore)
   \<and> simulates (\<lambda>a s. holds_keyring H a (contents s)) (repo_CreateVirtualKey H MemoryStore key)
       (\<lambda>a. guarded (create_key_check H key a) (put_key key) a)
   \<and> simulates (\<lambda>a s. holds_keyring H a (contents s)) (repo_ReplaceVirtualKey H MemoryStore oldKey key)
       (\<lambda>a. guarded (replace_key_check H oldKey key a) (put_key key) a)
   \<and> simulates (\<lambda>a s. holds_keyring H a (contents s)) (repo_DeleteVirtualKey H MemoryStore key)
       (\<lambda>a. guarded (delete_key_check key a) (drop_key key) a)"
  by (erule (2) mem.CreateVirtualKey_refines mem.ReplaceVirtualKey_refines mem.DeleteVirtualKey_refines
    | rule good_ring_empty [unfolded good_ring_def, THEN conjunct1] conjI simulatesI)+

text \<open>
  C26: The subject registry of the virtual-key service is a revisioned, idempotent upsert with
  tombstones: SyncSubject, FenceSubject, SyncModelSubject and FenceModelSubject accept an update
  exactly when the payload has none of the faults of \<open>subject_faults\<close> (\<open>model_faults\<close>), only a fence
  carries a tombstone, no virtual key refers to a subject that is fenced, and the stored subject does
  not refuse it: its revision is newer and revives no tombstone, or it is the stored one with the same
  payload; the ID and alias of a model are fixed. The first fault decides the conflict that is
  reported; a refused update and a replay change nothing.
\<close>

theorem SubjectRegistry_refines:
  "simulates (\<lambda>a s. holds_keyring H a (contents s)) (repo_SyncSubject MemoryStore x)
       (\<lambda>a. guarded (sync_subject_check x a) (put_subject x) a)
   \<and> simulates (\<lambda>a s. holds_keyring H a (contents s)) (repo_FenceSubject MemoryStore x)
       (\<lambda>a. guarded (fence_subject_check x a) (put_subject x) a)
   \<and> simulates (\<lambda>a s. holds_keyring H a (contents s)) (repo_SyncModelSubject MemoryStore y)
       (\<lambda>a. guarded (sync_model_check y a) (put_model_subject y) a)
   \<and> simulates (\<lambda>a s. holds_keyring H a (contents s)) (repo_FenceModelSubject MemoryStore y)
       (\<lambda>a. guarded (fence_model_check y a) (put_model_subject y) a)"
  by (erule (2) mem.SyncSubject_refines mem.FenceSubject_refines mem.SyncModelSubject_refines mem.FenceModelSubject_refines
    | rule conjI simulatesI)+

text \<open>A small key ring: one user subject, one model subject, one key of that user for that model.\<close>

definition ada_subject :: KeySubject where
  "ada_subject = \<lparr>KS_UserID = ''usr_1'', KS_Status = StatusActive, KS_Revision = 1, KS_Deleted = False, KS_UpdatedAt = 0\<rparr>"

definition swift_subject :: ModelSubject where
  "swift_subject = \<lparr>MS_ModelID = ''mdl_1'', MS_Alias = ''swift'', MS_Status = StatusActive, MS_Revision = 1,
     MS_Deleted = False, MS_UpdatedAt = 0\<rparr>"

definition ada_key :: VirtualKey where
  "ada_key = \<lparr>VK_ID = ''key_1'', VK_Name = ''laptop'', VK_UserID = ''usr_1'', VK_Prefix = ''gwai_abc'', VK_KeyHash = ''gwai_abc123'',
     VK_ModelIDs = [''mdl_1''], VK_Status = StatusActive, VK_ExpiresAt = None, VK_CreatedAt = 0, VK_UpdatedAt = 0\<rparr>"

definition small_ring :: keyring where
  "small_ring = \<lparr>Keys = [''key_1'' \<mapsto> ada_key], Subjects = [''usr_1'' \<mapsto> ada_subject], ModelSubjects = [''mdl_1'' \<mapsto> swift_subject]\<rparr>"

lemma marshalable_epoch [simp]: "marshalable_time 0"
  by (simp add: marshalable_time_def nanosecond_per_second_def)

lemma epoch_not_zero [simp]: "\<not> IsZero 0"
  by (simp add: IsZero_def zero_time_def nanosecond_per_second_def)

lemma small_ring_reachable:
  obtains s where "(key_step (\<lambda>x. x))\<^sup>*\<^sup>* NewMemoryStore s" "holds_keyring (\<lambda>x. x) small_ring (contents s)"
proof -
  let ?a1 = "empty_ring\<lparr>Subjects := [''usr_1'' \<mapsto> ada_subject]\<rparr>"
  let ?a2 = "?a1\<lparr>ModelSubjects := [''mdl_1'' \<mapsto> swift_subject]\<rparr>"
  have e: "holds_keyring (\<lambda>x. x) empty_ring (contents NewMemoryStore)" using good_ring_empty by (simp add: good_ring_def)
  have u: "guarded (sync_subject_check ada_subject empty_ring) (put_subject ada_subject) empty_ring = (Inr (), ?a1)"
    by (simp add: guarded_def sync_subject_check_def subject_faults_def update_subject_check_def subject_conflicts_def
        encode_def KeySubjectCodec_def put_subject_def replayed_subject_def empty_ring_def ada_subject_def)
  obtain r1 s1 where s1: "repo_SyncSubject MemoryStore ada_subject NewMemoryStore = (r1, s1)" by force
  have a1: "holds_keyring (\<lambda>x. x) ?a1 (contents s1)" using mem.SyncSubject_refines [OF e s1 u] by simp
  have m: "guarded (sync_model_check swift_subject ?a1) (put_model_subject swift_subject) ?a1 = (Inr (), ?a2)"
    by (simp add: guarded_def sync_model_check_def model_faults_def update_model_check_def model_conflicts_def
        encode_def ModelSubjectCodec_def put_model_subject_def replayed_model_def empty_ring_def
        swift_subject_def)
  obtain r2 s2 where s2: "repo_SyncModelSubject MemoryStore swift_subject s1 = (r2, s2)" by force
  have a2: "holds_keyring (\<lambda>x. x) ?a2 (contents s2)" using mem.SyncModelSubject_refines [OF a1 s2 m] by simp
  have k: "guarded (create_key_check (\<lambda>x. x) ada_key ?a2) (put_key ada_key) ?a2 = (Inr (), small_ring)"
    by (simp add: guarded_def create_key_check_def taken_def owner_faults_def models_check_def
        modelIDSet_def all_ids_def backing_faults_def encode_def VirtualKeyCodec_def touch_subject_check_def
        touch_models_check_def KeySubjectCodec_def ModelSubjectCodec_def put_key_def small_ring_def empty_ring_def
        ada_key_def ada_subject_def swift_subject_def)
  obtain r3 s3 where s3: "repo_CreateVirtualKey (\<lambda>x. x) MemoryStore ada_key s2 = (r3, s3)" by force
  have "holds_keyring (\<lambda>x. x) small_ring (contents s3)" using mem.CreateVirtualKey_refines [OF a2 s3 k] by simp
  moreover have "(key_step (\<lambda>x. x))\<^sup>*\<^sup>* NewMemoryStore s3"
    using step_SyncSubject [OF s1] step_SyncModelSubject [OF s2] step_CreateVirtualKey [OF s3]
    by (meson rtranclp.rtrancl_refl rtranclp.rtrancl_into_rtrancl)
  ultimately show thesis using that by blast
qed

text \<open>
  C27: In every store that the virtual-key service can reach, each stored virtual key has an owner and
  at least one model, all of them distinct, and the subjects of the owner and of every model exist and
  are not tombstones: fencing never leaves a dangling key.
\<close>

theorem keys_have_live_subjects:
  assumes "(key_step H)\<^sup>*\<^sup>* NewMemoryStore s" and "repo_GetVirtualKey MemoryStore k s = Inr key"
  shows "(\<exists>owner. repo_GetSubject MemoryStore (VK_UserID key) s = Inr owner \<and> \<not> KS_Deleted owner)
    \<and> VK_ModelIDs key \<noteq> [] \<and> distinct (VK_ModelIDs key)
    \<and> (\<forall>i \<in> set (VK_ModelIDs key). \<exists>model. repo_GetModelSubject MemoryStore i s = Inr model \<and> \<not> MS_Deleted model)"
proof -
  from good_ring_reachable [OF assms(1)] obtain a where a: "holds_keyring H a (contents s)" "keyring_ok a"
    by (auto simp: good_ring_def)
  from assms(2) have "key \<in> ran (Keys a)" by (auto simp: GetVirtualKey_outcome [OF a(1)] intro: ranI)
  with a(2) show ?thesis
    unfolding keyring_ok_def live_subject_def live_model_def GetSubject_outcome [OF a(1)] GetModelSubject_outcome [OF a(1)]
      require_Inr_iff by blast
qed

theorem keys_have_live_subjects_witness:
  "\<exists>s owner. (key_step (\<lambda>x. x))\<^sup>*\<^sup>* NewMemoryStore s \<and> repo_GetVirtualKey MemoryStore ''key_1'' s = Inr ada_key
     \<and> repo_GetSubject MemoryStore ''usr_1'' s = Inr owner \<and> \<not> KS_Deleted owner"
proof -
  obtain s where s: "(key_step (\<lambda>x. x))\<^sup>*\<^sup>* NewMemoryStore s" "holds_keyring (\<lambda>x. x) small_ring (contents s)"
    by (rule small_ring_reachable)
  have got: "repo_GetVirtualKey MemoryStore ''key_1'' s = Inr ada_key"
    by (simp add: GetVirtualKey_outcome [OF s(2)] small_ring_def)
  from keys_have_live_subjects [OF s(1) got] s(1) got show ?thesis by (auto simp: ada_key_def)
qed

text \<open>
  C28: Subjects only move forward. From any reachable store and through any further operations of the
  virtual-key service, a subject is never removed, its revision never decreases and a tombstone stays
  a tombstone; a model subject also keeps its alias.
\<close>

theorem subjects_move_forward:
  assumes "(key_step H)\<^sup>*\<^sup>* NewMemoryStore s" and "(key_step H)\<^sup>*\<^sup>* s s'"
  shows "(\<forall>u x. repo_GetSubject MemoryStore u s = Inr x \<longrightarrow>
      (\<exists>y. repo_GetSubject MemoryStore u s' = Inr y \<and> KS_Revision x \<le> KS_Revision y \<and> (KS_Deleted x \<longrightarrow> KS_Deleted y)))
    \<and> (\<forall>i x. repo_GetModelSubject MemoryStore i s = Inr x \<longrightarrow>
      (\<exists>y. repo_GetModelSubject MemoryStore i s' = Inr y \<and> MS_Alias y = MS_Alias x \<and> MS_Revision x \<le> MS_Revision y \<and>
        (MS_Deleted x \<longrightarrow> MS_Deleted y)))"
proof -
  from good_ring_reachable [OF assms(1)] obtain a where a: "good_ring H s a" by blast
  from good_ring_steps [OF assms(2) a] obtain b where b: "good_ring H s' b" "evolves a b" by blast
  from a b(1) have h: "holds_keyring H a (contents s)" "holds_keyring H b (contents s')" by (simp_all add: good_ring_def)
  from b(2) show ?thesis
    unfolding evolves_def GetSubject_outcome [OF h(1)] GetSubject_outcome [OF h(2)] GetModelSubject_outcome [OF h(1)]
      GetModelSubject_outcome [OF h(2)] require_Inr_iff .
qed

theorem subjects_move_forward_witness:
  "\<exists>s s' y. (key_step (\<lambda>x. x))\<^sup>*\<^sup>* s s' \<and> repo_GetSubject MemoryStore ''usr_1'' s = Inr ada_subject
     \<and> repo_DeleteVirtualKey (\<lambda>x. x) MemoryStore ada_key s = (Inr (), s')
     \<and> repo_GetSubject MemoryStore ''usr_1'' s' = Inr y \<and> 1 \<le> KS_Revision y"
proof -
  obtain s where s: "(key_step (\<lambda>x. x))\<^sup>*\<^sup>* NewMemoryStore s" "holds_keyring (\<lambda>x. x) small_ring (contents s)"
    by (rule small_ring_reachable)
  have got: "repo_GetSubject MemoryStore ''usr_1'' s = Inr ada_subject" by (simp add: GetSubject_outcome [OF s(2)] small_ring_def)
  obtain r s' where run: "repo_DeleteVirtualKey (\<lambda>x. x) MemoryStore ada_key s = (r, s')" by force
  have "delete_key_check ada_key small_ring = Inr ()"
    by (simp add: delete_key_check_def models_check_def modelIDSet_def all_ids_def live_model_def encode_def touch_subject_check_def
        touch_models_check_def KeySubjectCodec_def ModelSubjectCodec_def small_ring_def ada_key_def ada_subject_def swift_subject_def)
  then have r: "r = Inr ()" using mem.DeleteVirtualKey_refines [OF s(2) run] by (simp add: guarded_def)
  have steps: "(key_step (\<lambda>x. x))\<^sup>*\<^sup>* s s'" using step_DeleteVirtualKey [OF run] by blast
  from subjects_move_forward [OF s(1) steps] got obtain y where
    "repo_GetSubject MemoryStore ''usr_1'' s' = Inr y" "KS_Revision ada_subject \<le> KS_Revision y" by blast
  with steps got run r show ?thesis by (auto simp: ada_subject_def)
qed

end
