(* ===== verification/Runtime.thy ===== *)
theory Runtime
  imports Services Catalog Key_Ring
begin

text \<open>
  File \<^verbatim>\<open>internal/controlplane/runtime.go\<close>: what the gateways and adapters read to authorize and route a
  request. The key store and the provider store are separate; the runtime never writes either.

  \<open>authorized\<close> and \<open>routable\<close> state, on the key ring and the catalog the two stores represent, when
  the runtime says yes; it says yes exactly then.
\<close>

section \<open>\<^verbatim>\<open>GatewayRuntime\<close>\<close>

record ('k, 'p) GatewayRuntime =
  gr_keys :: "'k Store"
  gr_providers :: "'p Store"
  gr_hash :: "string \<Rightarrow> string"

definition resolveActiveModel :: "('k, 'p) GatewayRuntime \<Rightarrow> string \<Rightarrow> 'k \<Rightarrow> 'p \<Rightarrow> Model result" where
  "resolveActiveModel r requestedModel sk sp =
     (let alias = TrimSpace requestedModel in
      ebind (fail_if (alias = '''' \<or> alias \<noteq> requestedModel)
        (invalid ''model'' ''must be a registered model alias without surrounding whitespace'')) (\<lambda>_.
      ebind (repo_GetModelByAlias (gr_hash r) (gr_providers r) alias sp) (\<lambda>model.
      ebind (fail_if (Model_Status model \<noteq> StatusActive) ErrForbidden) (\<lambda>_.
      ebind (case repo_GetModelSubject (gr_keys r) (Model_ID model) sk of
               Inl err \<Rightarrow> if errors_Is err ErrNotFound then Inl ErrForbidden else Inl err
             | Inr subject \<Rightarrow> Inr subject) (\<lambda>subject.
      ebind (fail_if (MS_ModelID subject \<noteq> Model_ID model \<or> MS_Alias subject \<noteq> Model_Alias model \<or>
                      MS_Status subject \<noteq> StatusActive \<or> MS_Deleted subject \<or>
                      MS_Revision subject \<noteq> Model_Revision model) ErrForbidden) (\<lambda>_.
      Inr model))))))"

definition Authorize :: "('k, 'p) GatewayRuntime \<Rightarrow> time \<Rightarrow> string \<Rightarrow> string \<Rightarrow> 'k \<Rightarrow> 'p \<Rightarrow> Authorization result" where
  "Authorize r now token requestedModel sk sp =
     ebind (fail_if (token = '''') ErrUnauthorized) (\<lambda>_.
     ebind (case repo_GetVirtualKeyByHash (gr_hash r) (gr_keys r) (hashKey (gr_hash r) token) sk of
              Inl err \<Rightarrow> if errors_Is err ErrNotFound then Inl ErrUnauthorized else Inl err
            | Inr key \<Rightarrow> Inr key) (\<lambda>key.
     ebind (fail_if (VK_Status key \<noteq> StatusActive \<or>
                     (case VK_ExpiresAt key of None \<Rightarrow> False | Some t \<Rightarrow> \<not> After t now)) ErrUnauthorized) (\<lambda>_.
     ebind (case repo_GetSubject (gr_keys r) (VK_UserID key) sk of
              Inl err \<Rightarrow> if errors_Is err ErrNotFound then Inl ErrUnauthorized else Inl err
            | Inr subject \<Rightarrow> Inr subject) (\<lambda>subject.
     ebind (fail_if (KS_UserID subject \<noteq> VK_UserID key \<or> KS_Status subject \<noteq> StatusActive \<or> KS_Deleted subject)
       ErrUnauthorized) (\<lambda>_.
     ebind (resolveActiveModel r requestedModel sk sp) (\<lambda>model.
     ebind (fail_if (Model_ID model \<notin> set (VK_ModelIDs key)) ErrForbidden) (\<lambda>_.
     Inr \<lparr>Auth_KeyID = VK_ID key, Auth_UserID = VK_UserID key\<rparr>)))))))"

definition resolveActiveProviderByID :: "'p Store \<Rightarrow> string \<Rightarrow> 'p \<Rightarrow> Provider result" where
  "resolveActiveProviderByID st rid sp =
     ebind (repo_GetProvider st rid sp) (\<lambda>provider.
     ebind (fail_if (Provider_Status provider \<noteq> StatusActive) ErrForbidden) (\<lambda>_.
     Inr provider))"

definition ResolveRoute :: "('k, 'p) GatewayRuntime \<Rightarrow> string \<Rightarrow> 'k \<Rightarrow> 'p \<Rightarrow> Route result" where
  "ResolveRoute r requestedModel sk sp =
     ebind (resolveActiveModel r requestedModel sk sp) (\<lambda>model.
     ebind (resolveActiveProviderByID (gr_providers r) (Model_ProviderID model) sp) (\<lambda>provider.
     Inr \<lparr>Route_ModelID = Model_ID model, Route_Alias = Model_Alias model, Route_ProviderID = Provider_ID provider,
          Route_UpstreamModel = (if Model_UpstreamModel model = '''' then Model_Alias model else Model_UpstreamModel model),
          Route_AdapterAppID = Provider_AdapterAppID provider\<rparr>))"

section \<open>\<^verbatim>\<open>ProviderRuntime\<close>\<close>

definition ResolveProviderByAdapterAppID :: "(string \<Rightarrow> string) \<Rightarrow> 'p Store \<Rightarrow> string \<Rightarrow> 'p \<Rightarrow> Provider result" where
  "ResolveProviderByAdapterAppID H st appID sp =
     ebind (repo_GetProviderByAdapterAppID H st appID sp) (\<lambda>provider.
     ebind (fail_if (Provider_Status provider \<noteq> StatusActive) ErrForbidden) (\<lambda>_.
     Inr provider))"

section \<open>When the runtime says yes\<close>

definition memory_runtime :: "(string \<Rightarrow> string) \<Rightarrow> (memory, memory) GatewayRuntime" where
  "memory_runtime H = \<lparr>gr_keys = MemoryStore, gr_providers = MemoryStore, gr_hash = H\<rparr>"

text \<open>A model that may be used under an alias: active, with a live projection of the same revision.\<close>

definition usable_model :: "(string \<Rightarrow> string) \<Rightarrow> keyring \<Rightarrow> catalog \<Rightarrow> string \<Rightarrow> Model \<Rightarrow> bool" where
  "usable_model H a c requested model \<longleftrightarrow>
     requested \<noteq> '''' \<and> TrimSpace requested = requested \<and>
     model \<in> ran (Models c) \<and> H (Model_Alias model) = H requested \<and> Model_Status model = StatusActive \<and>
     (\<exists>subject. ModelSubjects a (Model_ID model) = Some subject \<and> MS_Alias subject = Model_Alias model \<and>
        MS_Status subject = StatusActive \<and> \<not> MS_Deleted subject \<and> MS_Revision subject = Model_Revision model)"

definition usable_key :: "(string \<Rightarrow> string) \<Rightarrow> keyring \<Rightarrow> time \<Rightarrow> string \<Rightarrow> VirtualKey \<Rightarrow> bool" where
  "usable_key H a now token key \<longleftrightarrow>
     token \<noteq> '''' \<and> key \<in> ran (Keys a) \<and> H (VK_KeyHash key) = H (hashKey H token) \<and>
     VK_Status key = StatusActive \<and> (\<forall>t. VK_ExpiresAt key = Some t \<longrightarrow> After t now) \<and>
     (\<exists>subject. Subjects a (VK_UserID key) = Some subject \<and> KS_Status subject = StatusActive \<and> \<not> KS_Deleted subject)"

definition authorized :: "(string \<Rightarrow> string) \<Rightarrow> keyring \<Rightarrow> catalog \<Rightarrow> time \<Rightarrow> string \<Rightarrow> string \<Rightarrow> Authorization \<Rightarrow> bool" where
  "authorized H a c now token requested auth \<longleftrightarrow>
     (\<exists>key model. usable_key H a now token key \<and> usable_model H a c requested model \<and>
        Model_ID model \<in> set (VK_ModelIDs key) \<and>
        auth = \<lparr>Auth_KeyID = VK_ID key, Auth_UserID = VK_UserID key\<rparr>)"

definition routable :: "(string \<Rightarrow> string) \<Rightarrow> keyring \<Rightarrow> catalog \<Rightarrow> string \<Rightarrow> Route \<Rightarrow> bool" where
  "routable H a c requested route \<longleftrightarrow>
     (\<exists>model provider. usable_model H a c requested model \<and>
        Providers c (Model_ProviderID model) = Some provider \<and> Provider_Status provider = StatusActive \<and>
        route = \<lparr>Route_ModelID = Model_ID model, Route_Alias = Model_Alias model, Route_ProviderID = Model_ProviderID model,
          Route_UpstreamModel = (if Model_UpstreamModel model = '''' then Model_Alias model else Model_UpstreamModel model),
          Route_AdapterAppID = Provider_AdapterAppID provider\<rparr>)"

lemma GetModelByAlias_outcome:
  assumes C: "holds_catalog H c (contents s)"
  shows "repo_GetModelByAlias H MemoryStore alias s = Inr model \<longleftrightarrow>
      model \<in> ran (Models c) \<and> H (Model_Alias model) = H alias"
proof (cases "\<exists>model \<in> ran (Models c). H (Model_Alias model) = H alias")
  case True
  note M = holds_catalogD(2) [OF C, unfolded holds_models_def]
  from True obtain mid x where x: "Models c mid = Some x" "H (Model_Alias x) = H alias" by (auto simp: ran_def)
  have key: "lookupKey H ''model-alias'' alias \<in> keys_of (modelLookups H) x" using x by (simp add: model_alias_keys)
  have "repo_GetModelByAlias H MemoryStore alias s = Inr x"
    using mem.models.lookup_found [OF M x(1) key] mem.models.getResource_outcome [OF M, of mid] x
    by (simp add: repo_GetModelByAlias_def repo_GetModel_def)
  moreover have "model = x" if "model \<in> ran (Models c)" "H (Model_Alias model) = H alias"
  proof -
    from that obtain mid' where "Models c mid' = Some model" by (auto simp: ran_def)
    with mem.models.lookup_unique [OF M x(1) this key] that x show ?thesis by (auto simp: model_alias_keys)
  qed
  ultimately show ?thesis using x by (auto intro: ranI)
next
  case False
  then have "lookup H MemoryStore ''model-alias'' alias s = Inl ErrNotFound"
    by (intro mem.models.lookup_missing [OF holds_catalogD(2) [OF C, unfolded holds_models_def]])
      (auto simp: model_alias_keys)
  with False show ?thesis by (auto simp: repo_GetModelByAlias_def)
qed

lemma GetVirtualKeyByHash_outcome:
  assumes A: "holds_keyring H a (contents s)"
  shows "repo_GetVirtualKeyByHash H MemoryStore h s = Inr key \<longleftrightarrow> key \<in> ran (Keys a) \<and> H (VK_KeyHash key) = H h"
proof (cases "\<exists>key \<in> ran (Keys a). H (VK_KeyHash key) = H h")
  case True
  then obtain k x where x: "Keys a k = Some x" "H (VK_KeyHash x) = H h" by (auto simp: ran_def)
  note K = holds_keyringD(1) [OF A, unfolded holds_keys_def]
  have "key = x" if "key \<in> ran (Keys a)" "H (VK_KeyHash key) = H h"
  proof -
    from that obtain k' where k': "Keys a k' = Some key" by (auto simp: ran_def)
    have "k = k'"
      by (rule mem.keys.lookup_unique [OF K x(1) k', of "lookupKey H ''key-hash'' h"])
        (use x that in \<open>simp_all add: key_hash_keys\<close>)
    with x k' show ?thesis by simp
  qed
  with GetVirtualKeyByHash_found [OF A x] x show ?thesis by (auto intro: ranI)
next
  case False
  then have "repo_GetVirtualKeyByHash H MemoryStore h s = Inl ErrNotFound"
    by (intro GetVirtualKeyByHash_missing [OF A]) (auto intro: ranI)
  with False show ?thesis by auto
qed

lemma resolveActiveModel_iff:
  assumes A: "holds_keyring H a (contents sk)" and C: "holds_catalog H c (contents sp)"
  shows "resolveActiveModel (memory_runtime H) requested sk sp = Inr model \<longleftrightarrow> usable_model H a c requested model"
proof -
  have "MS_ModelID x = i" if "ModelSubjects a i = Some x" for x i
    using holds_keyringD(3) [OF A] that by (simp add: holds_model_subjects_def)
  then show ?thesis
    by (auto simp: resolveActiveModel_def memory_runtime_def usable_model_def Let_def GetModelByAlias_outcome [OF C]
        GetModelSubject_outcome [OF A] require_def split: option.splits sum.splits if_splits)
qed

lemma Authorize_iff:
  assumes A: "holds_keyring H a (contents sk)" and C: "holds_catalog H c (contents sp)"
  shows "Authorize (memory_runtime H) now token requested sk sp = Inr auth \<longleftrightarrow> authorized H a c now token requested auth"
proof -
  have sub: "KS_UserID x = u" if "Subjects a u = Some x" for x u
    using holds_keyringD(2) [OF A] that by (simp add: holds_subjects_def)
  have key: "(case repo_GetVirtualKeyByHash H MemoryStore (hashKey H token) sk of
      Inl err \<Rightarrow> if errors_Is err ErrNotFound then Inl ErrUnauthorized else Inl err | Inr key \<Rightarrow> Inr key) = Inr x \<longleftrightarrow>
      x \<in> ran (Keys a) \<and> H (VK_KeyHash x) = H (hashKey H token)" for x
    unfolding GetVirtualKeyByHash_outcome [OF A, symmetric] by (auto split: sum.splits)
  have owner: "(case repo_GetSubject MemoryStore u sk of
      Inl err \<Rightarrow> if errors_Is err ErrNotFound then Inl ErrUnauthorized else Inl err | Inr subject \<Rightarrow> Inr subject) = Inr x \<longleftrightarrow>
      Subjects a u = Some x" for u x
    by (auto simp: GetSubject_outcome [OF A] require_def split: option.splits)
  have model: "resolveActiveModel \<lparr>gr_keys = MemoryStore, gr_providers = MemoryStore, gr_hash = H\<rparr> requested sk sp = Inr m \<longleftrightarrow>
      usable_model H a c requested m" for m
    using resolveActiveModel_iff [OF A C] by (simp add: memory_runtime_def)
  have expiry: "(case VK_ExpiresAt x of None \<Rightarrow> False | Some t \<Rightarrow> \<not> After t now) \<longleftrightarrow>
      \<not> (\<forall>t. VK_ExpiresAt x = Some t \<longrightarrow> After t now)" for x by (auto split: option.splits)
  show ?thesis
    unfolding Authorize_def authorized_def memory_runtime_def usable_key_def expiry
    by (simp add: key owner model) (use sub in blast)
qed

lemma ResolveRoute_iff:
  assumes A: "holds_keyring H a (contents sk)" and C: "holds_catalog H c (contents sp)"
  shows "ResolveRoute (memory_runtime H) requested sk sp = Inr route \<longleftrightarrow> routable H a c requested route"
proof -
  note P = holds_catalogD(1) [OF C]
  have prov: "resolveActiveProviderByID MemoryStore i sp = Inr p \<longleftrightarrow>
      Providers c i = Some p \<and> Provider_Status p = StatusActive" for i p
    by (auto simp: resolveActiveProviderByID_def GetProvider_outcome [OF P] split: option.splits)
  have ids: "Provider_ID p = i" if "Providers c i = Some p" for i p
    using mem.providers.represents_id [OF P [unfolded holds_providers_def] that] .
  have gr: "gr_providers (memory_runtime H) = MemoryStore" by (simp add: memory_runtime_def)
  show ?thesis
    unfolding ResolveRoute_def routable_def ebind_Inr_iff resolveActiveModel_iff [OF A C] gr prov sum.inject
    using ids by metis
qed

lemma ResolveProvider_iff:
  assumes C: "holds_catalog H c (contents sp)"
  shows "ResolveProviderByAdapterAppID H MemoryStore appID sp = Inr provider \<longleftrightarrow>
    provider \<in> ran (Providers c) \<and> H (Provider_AdapterAppID provider) = H appID \<and> Provider_Status provider = StatusActive"
proof -
  note P = holds_catalogD(1) [OF C]
  have "repo_GetProviderByAdapterAppID H MemoryStore appID sp = Inr provider \<longleftrightarrow>
      provider \<in> ran (Providers c) \<and> H (Provider_AdapterAppID provider) = H appID"
  proof (cases "\<exists>p \<in> ran (Providers c). H (Provider_AdapterAppID p) = H appID")
    case True
    then obtain i p where p: "Providers c i = Some p" "H (Provider_AdapterAppID p) = H appID" by (auto simp: ran_def)
    have "provider = p" if pr: "provider \<in> ran (Providers c)" "H (Provider_AdapterAppID provider) = H appID"
    proof -
      from pr obtain j where j: "Providers c j = Some provider" by (auto simp: ran_def)
      with providers_unique [OF P p(1) j] p pr show ?thesis by auto
    qed
    with GetProviderByAdapterAppID_found [OF P p] p show ?thesis by (auto intro: ranI)
  next
    case False
    then have "lookup H MemoryStore ''provider-adapter-app-id'' appID sp = Inl ErrNotFound"
      by (intro mem.providers.lookup_missing [OF P [unfolded holds_providers_def]])
        (auto simp: provider_keys provider_family_def)
    with False show ?thesis by (auto simp: repo_GetProviderByAdapterAppID_def)
  qed
  then show ?thesis by (auto simp: ResolveProviderByAdapterAppID_def)
qed


lemma Authorize_unusable:
  assumes A: "holds_keyring H a (contents sk)" and none: "\<And>key. \<not> usable_key H a now token key"
  shows "Authorize (memory_runtime H) now token requested sk sp = Inl ErrUnauthorized"
proof (cases "token = [] \<or> (\<exists>e. repo_GetVirtualKeyByHash H MemoryStore (hashKey H token) sk = Inl e)")
  case True
  have "e = ErrNotFound" if "repo_GetVirtualKeyByHash H MemoryStore (hashKey H token) sk = Inl e" for e
  proof -
    have "\<not> (\<exists>key \<in> ran (Keys a). H (VK_KeyHash key) = H (hashKey H token))"
      using that GetVirtualKeyByHash_outcome [OF A] by (metis Inr_not_Inl)
    then have "repo_GetVirtualKeyByHash H MemoryStore (hashKey H token) sk = Inl ErrNotFound"
      by (intro GetVirtualKeyByHash_missing [OF A]) (auto intro: ranI)
    with that show ?thesis by simp
  qed
  with True show ?thesis by (auto simp: Authorize_def memory_runtime_def ebind_fail_if)
next
  case False
  then obtain key where t: "token \<noteq> []" and key: "repo_GetVirtualKeyByHash H MemoryStore (hashKey H token) sk = Inr key"
    by (metis sum.exhaust)
  from key have k: "key \<in> ran (Keys a)" "H (VK_KeyHash key) = H (hashKey H token)"
    by (simp_all add: GetVirtualKeyByHash_outcome [OF A])
  show ?thesis
  proof (cases "VK_Status key \<noteq> StatusActive \<or> (\<exists>t. VK_ExpiresAt key = Some t \<and> \<not> After t now)")
    case True
    then show ?thesis using t key by (auto simp: Authorize_def memory_runtime_def split: option.splits)
  next
    case active: False
    with none [of key] t k have "\<not> (\<exists>x. Subjects a (VK_UserID key) = Some x \<and> KS_Status x = StatusActive \<and> \<not> KS_Deleted x)"
      unfolding usable_key_def by blast
    with active t key show ?thesis
      by (cases "Subjects a (VK_UserID key)")
        (auto simp: Authorize_def memory_runtime_def GetSubject_outcome [OF A] split: option.splits)
  qed
qed

section \<open>Properties\<close>

text \<open>
  C23: Authorize grants a request exactly when the token hashes to a stored key that is active and not
  expired, the key's owner has a live active subject, the requested name is the alias of an active
  model whose live active projection has the same alias and revision, and the key lists that model. When no
  key is usable the answer is Unauthorized whatever model is asked for, so the answer does not depend
  on the catalog.
\<close>

theorem Authorize_exact:
  assumes "holds_keyring H a (contents sk)" and "holds_catalog H c (contents sp)"
  shows "(\<forall>auth. Authorize (memory_runtime H) now token requested sk sp = Inr auth \<longleftrightarrow> authorized H a c now token requested auth)
    \<and> ((\<nexists>key. usable_key H a now token key) \<longrightarrow> Authorize (memory_runtime H) now token requested sk sp = Inl ErrUnauthorized)"
  using Authorize_iff [OF assms] Authorize_unusable [OF assms(1)] by blast

lemma small_runtime:
  obtains sk sp where "holds_keyring (\<lambda>x. x) small_ring (contents sk)" "holds_catalog (\<lambda>x. x) small_catalog (contents sp)"
  using small_ring_reachable small_catalog_reachable by metis

lemma TrimSpace_swift: "TrimSpace ''swift'' = ''swift''"
  by code_simp

lemma usable_swift: "usable_model (\<lambda>x. x) small_ring small_catalog ''swift'' swift"
  by (simp add: usable_model_def TrimSpace_swift small_catalog_def small_ring_def swift_def swift_subject_def)

theorem Authorize_exact_witness:
  "\<exists>sk sp. Authorize (memory_runtime (\<lambda>x. x)) 7 ''gwai_abc123'' ''swift'' sk sp = Inr \<lparr>Auth_KeyID = ''key_1'', Auth_UserID = ''usr_1''\<rparr>
     \<and> Authorize (memory_runtime (\<lambda>x. x)) 7 ''gwai_other'' ''swift'' sk sp = Inl ErrUnauthorized"
proof -
  obtain sk sp where s: "holds_keyring (\<lambda>x. x) small_ring (contents sk)" "holds_catalog (\<lambda>x. x) small_catalog (contents sp)"
    by (rule small_runtime)
  have "usable_key (\<lambda>x. x) small_ring 7 ''gwai_abc123'' ada_key"
    by (simp add: usable_key_def small_ring_def ada_key_def ada_subject_def hashKey_def)
  then have "authorized (\<lambda>x. x) small_ring small_catalog 7 ''gwai_abc123'' ''swift'' \<lparr>Auth_KeyID = ''key_1'', Auth_UserID = ''usr_1''\<rparr>"
    unfolding authorized_def using usable_swift by (fastforce simp: ada_key_def swift_def)
  moreover have "\<nexists>key. usable_key (\<lambda>x. x) small_ring 7 ''gwai_other'' key"
    by (simp add: usable_key_def small_ring_def ada_key_def hashKey_def)
  ultimately show ?thesis using Authorize_exact [OF s] by blast
qed

text \<open>
  An adapter resolves its own provider by app ID exactly when a stored provider registers that app
  ID (up to the lookup hash) and is active; a provider that is registered but not active is forbidden,
  and an unknown app ID is not found.
\<close>

lemma ResolveProvider_exact:
  assumes C: "holds_catalog H c (contents sp)"
  shows "(\<forall>provider. ResolveProviderByAdapterAppID H MemoryStore appID sp = Inr provider \<longleftrightarrow>
      provider \<in> ran (Providers c) \<and> H (Provider_AdapterAppID provider) = H appID \<and> Provider_Status provider = StatusActive)
    \<and> (\<forall>p \<in> ran (Providers c). H (Provider_AdapterAppID p) = H appID \<and> Provider_Status p \<noteq> StatusActive \<longrightarrow>
      ResolveProviderByAdapterAppID H MemoryStore appID sp = Inl ErrForbidden)
    \<and> ((\<forall>p \<in> ran (Providers c). H (Provider_AdapterAppID p) \<noteq> H appID) \<longrightarrow>
      ResolveProviderByAdapterAppID H MemoryStore appID sp = Inl ErrNotFound)"
proof (intro conjI allI ballI impI)
  note P = holds_catalogD(1) [OF C]
  show "ResolveProviderByAdapterAppID H MemoryStore appID sp = Inr provider \<longleftrightarrow>
      provider \<in> ran (Providers c) \<and> H (Provider_AdapterAppID provider) = H appID \<and> Provider_Status provider = StatusActive" for provider
    by (rule ResolveProvider_iff [OF C])
  show "ResolveProviderByAdapterAppID H MemoryStore appID sp = Inl ErrForbidden"
    if "p \<in> ran (Providers c)" "H (Provider_AdapterAppID p) = H appID \<and> Provider_Status p \<noteq> StatusActive" for p
  proof -
    from that(1) obtain i where i: "Providers c i = Some p" by (auto simp: ran_def)
    with GetProviderByAdapterAppID_found [OF P i] that(2) show ?thesis by (auto simp: ResolveProviderByAdapterAppID_def)
  qed
  show "ResolveProviderByAdapterAppID H MemoryStore appID sp = Inl ErrNotFound"
    if "\<forall>p \<in> ran (Providers c). H (Provider_AdapterAppID p) \<noteq> H appID"
  proof -
    have "lookup H MemoryStore ''provider-adapter-app-id'' appID sp = Inl ErrNotFound"
      using that by (intro mem.providers.lookup_missing [OF P [unfolded holds_providers_def]])
        (auto simp: provider_keys provider_family_def)
    then show ?thesis by (simp add: ResolveProviderByAdapterAppID_def repo_GetProviderByAdapterAppID_def)
  qed
qed

end
