(* ===== verification/Control_Plane.thy ===== *)
theory Control_Plane
  imports Runtime
begin

text \<open>
  The two control planes together: a resource service on its user and provider stores, and the
  virtual-key service on the key store, joined by the registry. The link between them may lose a
  request, or deliver it and lose the answer; it never invents a success. Under every sequence of
  service operations, an authorization subject is active only while its user exists and is active, and
  likewise for models. This is the property the order of writes in the services is for.

  A step of the relation \<open>plane_step\<close> is one service method. The methods on users exclude each other by
  the user mutex and those on models by the model mutex; methods of different kinds write different
  stores or different records of the key store.
\<close>

section \<open>A link that may fail\<close>

definition sound_link :: "('x \<Rightarrow> ('k, unit) step) \<Rightarrow> ('x \<Rightarrow> ('k, unit) step) \<Rightarrow> bool" where
  "sound_link remote local \<longleftrightarrow>
     (\<forall>x k r k'. local x k = (r, k') \<longrightarrow>
        (\<exists>e. r = Inl e) \<and> k' = k \<or>
        k' = snd (remote x k) \<and> (r = Inr () \<longrightarrow> fst (remote x k) = Inr ()))"

definition plane :: "(string \<Rightarrow> string) \<Rightarrow> (memory, memory, memory) ResourceService \<Rightarrow> bool" where
  "plane H rs \<longleftrightarrow>
     rs_users rs = MemoryStore \<and> rs_providers rs = MemoryStore \<and> rs_hash rs = H \<and>
     sound_link (svc_SyncSubject MemoryStore) (reg_SyncSubject (rs_subjects rs)) \<and>
     sound_link (svc_FenceSubject MemoryStore) (reg_FenceSubject (rs_subjects rs)) \<and>
     (\<forall>reg. rs_modelSubjects rs = Some reg \<longrightarrow>
        sound_link (svc_SyncModel MemoryStore) (reg_SyncModel reg) \<and>
        sound_link (svc_FenceModel MemoryStore) (reg_FenceModel reg))"

type_synonym planes = "(memory, memory, memory) world"

inductive plane_step :: "(string \<Rightarrow> string) \<Rightarrow> planes \<Rightarrow> planes \<Rightarrow> bool" for H where
  ps_CreateUser: "plane H rs \<Longrightarrow> svc_CreateUser rs random now ui w = (r, w') \<Longrightarrow> plane_step H w w'"
| ps_updateUser: "plane H rs \<Longrightarrow> svc_updateUser rs now rid ui pre w = (r, w') \<Longrightarrow> plane_step H w w'"
| ps_deleteUser: "plane H rs \<Longrightarrow> svc_deleteUser rs now rid pre w = (q, w') \<Longrightarrow> plane_step H w w'"
| ps_CreateProvider: "plane H rs \<Longrightarrow> svc_CreateProvider rs random now pin w = (p, w') \<Longrightarrow> plane_step H w w'"
| ps_updateProvider: "plane H rs \<Longrightarrow> svc_updateProvider rs now rid pin pre w = (p, w') \<Longrightarrow> plane_step H w w'"
| ps_deleteProvider: "plane H rs \<Longrightarrow> svc_deleteProvider rs rid pre w = (q, w') \<Longrightarrow> plane_step H w w'"
| ps_CreateModel: "plane H rs \<Longrightarrow> svc_CreateModel rs random now mi w = (m, w') \<Longrightarrow> plane_step H w w'"
| ps_updateModel: "plane H rs \<Longrightarrow> svc_updateModel rs now rid mi pre w = (m, w') \<Longrightarrow> plane_step H w w'"
| ps_deleteModel: "plane H rs \<Longrightarrow> svc_deleteModel rs now rid pre w = (q, w') \<Longrightarrow> plane_step H w w'"
| ps_CreateVirtualKey: "svc_CreateVirtualKey H MemoryStore random random' now now' ki (w_registry w) = (k, s) \<Longrightarrow>
    plane_step H w (w\<lparr>w_registry := s\<rparr>)"
| ps_updateVirtualKey: "svc_updateVirtualKey H digest MemoryStore now now' rid ki pre (w_registry w) = (k', s) \<Longrightarrow>
    plane_step H w (w\<lparr>w_registry := s\<rparr>)"
| ps_deleteVirtualKey: "svc_deleteVirtualKey H digest MemoryStore rid pre (w_registry w) = (q, s) \<Longrightarrow>
    plane_step H w (w\<lparr>w_registry := s\<rparr>)"

definition new_planes :: planes where
  "new_planes = \<lparr>w_users = NewMemoryStore, w_providers = NewMemoryStore, w_registry = NewMemoryStore\<rparr>"

section \<open>The invariant\<close>

definition users_projected :: "(string \<rightharpoonup> User) \<Rightarrow> keyring \<Rightarrow> bool" where
  "users_projected R a \<longleftrightarrow> (\<forall>u x. Subjects a u = Some x \<and> KS_Status x = StatusActive \<longrightarrow>
     (\<exists>user. R u = Some user \<and> User_Status user = StatusActive))"

definition models_projected :: "(string \<rightharpoonup> Model) \<Rightarrow> keyring \<Rightarrow> bool" where
  "models_projected M a \<longleftrightarrow> (\<forall>i x. ModelSubjects a i = Some x \<and> MS_Status x = StatusActive \<longrightarrow>
     (\<exists>model. M i = Some model \<and> Model_Status model = StatusActive))"

definition planes_ok :: "(string \<Rightarrow> string) \<Rightarrow> planes \<Rightarrow> (string \<rightharpoonup> User) \<Rightarrow> catalog \<Rightarrow> keyring \<Rightarrow> bool" where
  "planes_ok H w R c a \<longleftrightarrow>
     holds_users H R (contents (w_users w)) \<and> holds_catalog H c (contents (w_providers w)) \<and> no_orphans c \<and>
     good_ring H (w_registry w) a \<and> users_projected R a \<and> models_projected (Models c) a"

lemma on_store_iff [simp]:
  "on_users f w = (r, w') \<longleftrightarrow> (\<exists>s. f (w_users w) = (r, s) \<and> w' = w\<lparr>w_users := s\<rparr>)"
  "on_providers g w = (r, w') \<longleftrightarrow> (\<exists>s. g (w_providers w) = (r, s) \<and> w' = w\<lparr>w_providers := s\<rparr>)"
  "on_registry h w = (r, w') \<longleftrightarrow> (\<exists>s. h (w_registry w) = (r, s) \<and> w' = w\<lparr>w_registry := s\<rparr>)"
  by (auto simp: on_users_def on_providers_def on_registry_def split: prod.splits)

lemma swrapf_iff: "swrapf f a m s = (r, s') \<longleftrightarrow> (\<exists>r0. m s = (r0, s') \<and> r = wrapf f a r0)"
  by (auto simp: swrapf_def split: prod.splits)

subsection \<open>Subjects, through the link\<close>

lemma update_subject_payload:
  assumes "update_subject_check x a = Inr ()"
  shows "\<exists>y. Subjects (put_subject x a) (KS_UserID x) = Some y \<and> KS_Status y = KS_Status x \<and> KS_Deleted y = KS_Deleted x"
  using assms
  by (cases "Subjects a (KS_UserID x)")
    (auto simp: update_subject_check_def subject_conflicts_def put_subject_def replayed_subject_def same_payload split: if_splits)

lemma update_model_payload:
  assumes "update_model_check x a = Inr ()"
  shows "\<exists>y. ModelSubjects (put_model_subject x a) (MS_ModelID x) = Some y \<and> MS_Status y = MS_Status x \<and> MS_Deleted y = MS_Deleted x"
  using assms
  by (cases "ModelSubjects a (MS_ModelID x)")
    (auto simp: update_model_check_def model_conflicts_def put_model_subject_def replayed_model_def same_model_payload split: if_splits)

text \<open>What a registry call on a user subject does to the key ring, whatever the link did.\<close>

definition subject_updated :: "KeySubject \<Rightarrow> unit result \<Rightarrow> keyring \<Rightarrow> keyring \<Rightarrow> bool" where
  "subject_updated x r a b \<longleftrightarrow> (b = a \<or> b = put_subject x a) \<and>
     (r = Inr () \<longrightarrow> (\<exists>y. Subjects b (KS_UserID x) = Some y \<and> KS_Status y = KS_Status x \<and> KS_Deleted y = KS_Deleted x))"

definition model_updated :: "ModelSubject \<Rightarrow> unit result \<Rightarrow> keyring \<Rightarrow> keyring \<Rightarrow> bool" where
  "model_updated x r a b \<longleftrightarrow> (b = a \<or> b = put_model_subject x a) \<and>
     (r = Inr () \<longrightarrow> (\<exists>y. ModelSubjects b (MS_ModelID x) = Some y \<and> MS_Status y = MS_Status x \<and> MS_Deleted y = MS_Deleted x))"

lemma updated_weaken:
  "subject_updated x r0 a b \<Longrightarrow> (r = Inr () \<longrightarrow> r0 = Inr ()) \<Longrightarrow> subject_updated x r a b"
  "model_updated y r0 a b \<Longrightarrow> (r = Inr () \<longrightarrow> r0 = Inr ()) \<Longrightarrow> model_updated y r a b"
  by (auto simp: subject_updated_def model_updated_def)

lemma link_ring:
  assumes link: "sound_link remote local" and run: "local x k = (r, k')" and ring: "good_ring H k a"
    and remote: "\<And>r0 k0. remote x k = (r0, k0) \<Longrightarrow> \<exists>b. good_ring H k0 b \<and> U r0 b"
    and weaken: "\<And>r0 b. U r0 b \<Longrightarrow> (r = Inr () \<longrightarrow> r0 = Inr ()) \<Longrightarrow> U r b"
    and lost: "\<And>e. U (Inl e) a"
  shows "\<exists>b. good_ring H k' b \<and> U r b"
proof -
  obtain r0 k0 where d: "remote x k = (r0, k0)" by force
  then consider e where "r = Inl e" "k' = k" | "k' = k0" "r = Inr () \<longrightarrow> r0 = Inr ()"
    using link run by (fastforce simp: sound_link_def)
  then show ?thesis
  proof cases
    case 1
    then show ?thesis using ring lost by blast
  next
    case 2
    then show ?thesis using remote [OF d] weaken by blast
  qed
qed

lemma guarded_ring:
  assumes ring: "good_ring H k a"
    and refines: "\<And>r' b. guarded check f a = (r', b) \<Longrightarrow> r = r' \<and> holds_keyring H b (contents k')"
    and ok: "check = Inr () \<Longrightarrow> keyring_ok (f a) \<and> U (Inr ()) (f a)" and bad: "\<And>e. U (Inl e) a"
  shows "\<exists>b. good_ring H k' b \<and> U r b"
proof (cases check)
  case (Inl e)
  then show ?thesis using refines [of check a] bad [of e] ring by (auto simp: guarded_def good_ring_def)
next
  case (Inr u)
  then show ?thesis using refines [of check "f a"] ok by (auto simp: guarded_def good_ring_def)
qed

lemma subject_updated_lost: "subject_updated x (Inl e) a a"
  by (simp add: subject_updated_def)

lemma model_updated_lost: "model_updated x (Inl e) a a"
  by (simp add: model_updated_def)

lemma subject_updated_put: "update_subject_check x a = Inr () \<Longrightarrow> subject_updated x (Inr ()) a (put_subject x a)"
  using update_subject_payload by (simp add: subject_updated_def)

lemma model_updated_put: "update_model_check x a = Inr () \<Longrightarrow> model_updated x (Inr ()) a (put_model_subject x a)"
  using update_model_payload by (simp add: model_updated_def)

lemma SyncSubject_link:
  assumes ring: "good_ring H k a" and link: "sound_link (svc_SyncSubject MemoryStore) sync" and run: "sync x k = (r, k')"
  shows "\<exists>b. good_ring H k' b \<and> subject_updated x r a b"
proof (rule link_ring [where U = "\<lambda>r. subject_updated x r a", OF link run ring _ updated_weaken(1) subject_updated_lost])
  fix r0 k0
  from ring have h: "holds_keyring H a (contents k)" "keyring_ok a" by (simp_all add: good_ring_def)
  assume "svc_SyncSubject MemoryStore x k = (r0, k0)"
  then have remote: "repo_SyncSubject MemoryStore x k = (r0, k0)" by (simp add: svc_SyncSubject_def)
  show "\<exists>b. good_ring H k0 b \<and> subject_updated x r0 a b"
    by (rule guarded_ring [where U = "\<lambda>r. subject_updated x r a", OF ring mem.SyncSubject_refines [OF h(1) remote] _ subject_updated_lost])
      (use h in \<open>auto simp: sync_subject_check_def intro: keyring_ok_subject subject_updated_put\<close>)
qed

lemma FenceSubject_link:
  assumes ring: "good_ring H k a" and link: "sound_link (svc_FenceSubject MemoryStore) fence" and run: "fence x k = (r, k')"
  shows "\<exists>b. good_ring H k' b \<and> subject_updated x r a b"
proof (rule link_ring [where U = "\<lambda>r. subject_updated x r a", OF link run ring _ updated_weaken(1) subject_updated_lost])
  fix r0 k0
  from ring have h: "holds_keyring H a (contents k)" "keyring_ok a" by (simp_all add: good_ring_def)
  assume "svc_FenceSubject MemoryStore x k = (r0, k0)"
  then show "\<exists>b. good_ring H k0 b \<and> subject_updated x r0 a b"
    unfolding svc_FenceSubject_def
  proof (cases rule: sbind_cases)
    case (stop e)
    then show ?thesis using ring subject_updated_lost by auto
  next
    case (go u s1)
    then have remote: "repo_FenceSubject MemoryStore x k = (r0, k0)" by simp
    show ?thesis
      by (rule guarded_ring [where U = "\<lambda>r. subject_updated x r a", OF ring mem.FenceSubject_refines [OF h(1) remote] _ subject_updated_lost])
        (use h in \<open>auto simp: fence_subject_check_def intro: keyring_ok_subject subject_updated_put\<close>)
  qed
qed

lemma SyncModel_link:
  assumes ring: "good_ring H k a" and link: "sound_link (svc_SyncModel MemoryStore) sync" and run: "sync x k = (r, k')"
  shows "\<exists>b. good_ring H k' b \<and> model_updated x r a b"
proof (rule link_ring [where U = "\<lambda>r. model_updated x r a", OF link run ring _ updated_weaken(2) model_updated_lost])
  fix r0 k0
  from ring have h: "holds_keyring H a (contents k)" "keyring_ok a" by (simp_all add: good_ring_def)
  assume "svc_SyncModel MemoryStore x k = (r0, k0)"
  then have remote: "repo_SyncModelSubject MemoryStore x k = (r0, k0)" by (simp add: svc_SyncModel_def)
  show "\<exists>b. good_ring H k0 b \<and> model_updated x r0 a b"
    by (rule guarded_ring [where U = "\<lambda>r. model_updated x r a", OF ring mem.SyncModelSubject_refines [OF h(1) remote] _ model_updated_lost])
      (use h in \<open>auto simp: sync_model_check_def intro: keyring_ok_model model_updated_put\<close>)
qed

lemma FenceModel_link:
  assumes ring: "good_ring H k a" and link: "sound_link (svc_FenceModel MemoryStore) fence" and run: "fence x k = (r, k')"
  shows "\<exists>b. good_ring H k' b \<and> model_updated x r a b"
proof (rule link_ring [where U = "\<lambda>r. model_updated x r a", OF link run ring _ updated_weaken(2) model_updated_lost])
  fix r0 k0
  from ring have h: "holds_keyring H a (contents k)" "keyring_ok a" by (simp_all add: good_ring_def)
  assume "svc_FenceModel MemoryStore x k = (r0, k0)"
  then show "\<exists>b. good_ring H k0 b \<and> model_updated x r0 a b"
    unfolding svc_FenceModel_def
  proof (cases rule: sbind_cases)
    case (stop e)
    then show ?thesis using ring model_updated_lost by auto
  next
    case (go u s1)
    then have remote: "repo_FenceModelSubject MemoryStore x k = (r0, k0)" by simp
    show ?thesis
      by (rule guarded_ring [where U = "\<lambda>r. model_updated x r a", OF ring mem.FenceModelSubject_refines [OF h(1) remote] _ model_updated_lost])
        (use h in \<open>auto simp: fence_model_check_def intro: keyring_ok_model model_updated_put\<close>)
  qed
qed

subsection \<open>The parts of a method\<close>

lemma put_subject_simps [simp]:
  "Keys (put_subject x a) = Keys a" "ModelSubjects (put_subject x a) = ModelSubjects a"
  "Keys (put_model_subject y a) = Keys a" "Subjects (put_model_subject y a) = Subjects a"
  by (simp_all add: put_subject_def put_model_subject_def)

lemma planes_user_created:
  assumes ok: "planes_ok H w R c a" and run: "repo_CreateUser H MemoryStore user (w_users w) = (r, s)"
  shows "\<exists>R'. planes_ok H (w\<lparr>w_users := s\<rparr>) R' c a \<and> (r = Inr () \<longrightarrow> R' = R(User_ID user \<mapsto> user))"
proof -
  obtain r' R' where spec: "create_spec UserCodec User_ID (userLookups H) user R = (r', R')" by force
  with ok have "r = r' \<and> holds_users H R' (contents s)" using CreateUser_refines [OF _ run spec] by (simp add: planes_ok_def)
  moreover have "R' = (if r' = Inr () then R(User_ID user \<mapsto> user) else R)" by (rule create_spec_result [OF spec])
  moreover have "users_projected R' a"
    using ok spec by (force simp: planes_ok_def users_projected_def create_spec_def split: if_splits sum.splits)
  ultimately show ?thesis using ok by (auto simp: planes_ok_def)
qed

lemma planes_user_replaced:
  assumes ok: "planes_ok H w R c a" and run: "repo_ReplaceUser H MemoryStore old user (w_users w) = (r, s)"
    and safe: "User_Status user = StatusActive \<or> (\<forall>x. Subjects a (User_ID user) = Some x \<longrightarrow> KS_Status x \<noteq> StatusActive)"
  shows "\<exists>R'. planes_ok H (w\<lparr>w_users := s\<rparr>) R' c a \<and> (r = Inr () \<longrightarrow> R' = R(User_ID user \<mapsto> user))"
proof -
  obtain r' R' where spec: "replace_spec UserCodec User_ID (userLookups H) old user R = (r', R')" by force
  with ok have "r = r' \<and> holds_users H R' (contents s)" using ReplaceUser_refines [OF _ run spec] by (simp add: planes_ok_def)
  moreover have "R' = (if r' = Inr () then R(User_ID user \<mapsto> user) else R)" by (rule replace_spec_result [OF spec])
  moreover from this have "users_projected R' a"
    using ok safe by (auto simp: planes_ok_def users_projected_def)
  ultimately show ?thesis using ok by (auto simp: planes_ok_def)
qed

lemma planes_user_deleted:
  assumes ok: "planes_ok H w R c a" and run: "repo_DeleteUser H MemoryStore user (w_users w) = (r, s)"
    and safe: "\<forall>x. Subjects a (User_ID user) = Some x \<longrightarrow> KS_Status x \<noteq> StatusActive"
  shows "\<exists>R'. planes_ok H (w\<lparr>w_users := s\<rparr>) R' c a"
proof -
  obtain r' R' where spec: "delete_spec User_ID user R = (r', R')" by force
  with ok have "r = r' \<and> holds_users H R' (contents s)" using DeleteUser_refines [OF _ run spec] by (simp add: planes_ok_def)
  moreover have "R' = (if r' = Inr () then R(User_ID user := None) else R)" by (rule delete_spec_result [OF spec])
  moreover from this have "users_projected R' a"
    using ok safe by (auto simp: planes_ok_def users_projected_def)
  ultimately show ?thesis using ok by (auto simp: planes_ok_def)
qed

lemma users_projected_updated:
  assumes "users_projected R a" "subject_updated x r a b"
    and "KS_Status x = StatusActive \<longrightarrow> (\<exists>user. R (KS_UserID x) = Some user \<and> User_Status user = StatusActive)"
  shows "users_projected R b"
  using assms by (auto simp: users_projected_def subject_updated_def put_subject_def split: if_splits)

lemma models_projected_updated:
  assumes "models_projected M a" "model_updated x r a b"
    and "MS_Status x = StatusActive \<longrightarrow> (\<exists>model. M (MS_ModelID x) = Some model \<and> Model_Status model = StatusActive)"
  shows "models_projected M b"
  using assms by (auto simp: models_projected_def model_updated_def put_model_subject_def split: if_splits)

lemma planes_subject:
  assumes ok: "planes_ok H w R c a" and ring: "good_ring H s b" and up: "subject_updated x r a b"
    and safe: "KS_Status x = StatusActive \<longrightarrow> (\<exists>user. R (KS_UserID x) = Some user \<and> User_Status user = StatusActive)"
  shows "planes_ok H (w\<lparr>w_registry := s\<rparr>) R c b"
proof -
  have "ModelSubjects b = ModelSubjects a" using up by (auto simp: subject_updated_def)
  then show ?thesis
    using ok ring users_projected_updated [of R a x r b, OF _ up safe] by (simp add: planes_ok_def models_projected_def)
qed

lemma planes_model_subject:
  assumes ok: "planes_ok H w R c a" and ring: "good_ring H s b" and up: "model_updated x r a b"
    and safe: "MS_Status x = StatusActive \<longrightarrow> (\<exists>model. Models c (MS_ModelID x) = Some model \<and> Model_Status model = StatusActive)"
  shows "planes_ok H (w\<lparr>w_registry := s\<rparr>) R c b"
proof -
  have "Subjects b = Subjects a" using up by (auto simp: model_updated_def)
  then show ?thesis
    using ok ring models_projected_updated [of "Models c" a x r b, OF _ up safe] by (simp add: planes_ok_def users_projected_def)
qed

lemma planes_catalog:
  assumes ok: "planes_ok H w R c a" and cat: "holds_catalog H d (contents s)" "no_orphans d"
    and models: "models_projected (Models d) a"
  shows "planes_ok H (w\<lparr>w_providers := s\<rparr>) R d a"
  using assms by (simp add: planes_ok_def)

lemma planes_provider_created:
  assumes ok: "planes_ok H w R c a" and run: "repo_CreateProvider H MemoryStore p (w_providers w) = (r, s)"
  shows "\<exists>d. planes_ok H (w\<lparr>w_providers := s\<rparr>) R d a"
proof -
  obtain r' P where spec: "create_spec ProviderCodec Provider_ID (providerLookups H) p (Providers c) = (r', P)" by force
  from ok have "holds_catalog H (c\<lparr>Providers := P\<rparr>) (contents s)" "no_orphans (c\<lparr>Providers := P\<rparr>)"
    using mem.CreateProvider_catalog [OF _ run spec] create_spec_dom [OF spec] no_orphans_providers
    by (auto simp: planes_ok_def)
  with ok show ?thesis by (intro exI) (rule planes_catalog, auto simp: planes_ok_def)
qed

lemma planes_provider_replaced:
  assumes ok: "planes_ok H w R c a" and run: "repo_ReplaceProvider H MemoryStore q p (w_providers w) = (r, s)"
  shows "\<exists>d. planes_ok H (w\<lparr>w_providers := s\<rparr>) R d a"
proof -
  obtain r' P where spec: "replace_spec ProviderCodec Provider_ID (providerLookups H) q p (Providers c) = (r', P)" by force
  from ok have "holds_catalog H (c\<lparr>Providers := P\<rparr>) (contents s)" "no_orphans (c\<lparr>Providers := P\<rparr>)"
    using mem.ReplaceProvider_catalog [OF _ run spec] replace_spec_dom [OF spec] no_orphans_providers
    by (auto simp: planes_ok_def)
  with ok show ?thesis by (intro exI) (rule planes_catalog, auto simp: planes_ok_def)
qed

lemma planes_guarded:
  assumes ok: "planes_ok H w R c a"
    and refines: "\<And>r' d. guarded check f c = (r', d) \<Longrightarrow> r = r' \<and> holds_catalog H d (contents s)"
    and good: "check = Inr () \<Longrightarrow> no_orphans (f c) \<and> models_projected (Models (f c)) a"
  shows "\<exists>d. planes_ok H (w\<lparr>w_providers := s\<rparr>) R d a \<and> (r = Inr () \<longrightarrow> d = f c)"
proof (cases "check = Inr ()")
  case True
  then show ?thesis using refines [of check "f c"] good planes_catalog [OF ok, of "f c" s] by (auto simp: guarded_def)
next
  case False
  then show ?thesis using refines [of check c] ok planes_catalog [OF ok, of c s] by (auto simp: guarded_def planes_ok_def)
qed

lemma planes_provider_deleted:
  assumes ok: "planes_ok H w R c a" and run: "repo_DeleteProviderIfNoModels H MemoryStore p (w_providers w) = (r, s)"
  shows "\<exists>d. planes_ok H (w\<lparr>w_providers := s\<rparr>) R d a"
proof -
  from ok have C: "holds_catalog H c (contents (w_providers w))" "no_orphans c" "models_projected (Models c) a"
    by (simp_all add: planes_ok_def)
  have "\<exists>d. planes_ok H (w\<lparr>w_providers := s\<rparr>) R d a \<and> (r = Inr () \<longrightarrow> d = drop_provider p c)"
  proof (rule planes_guarded [OF ok])
    show "r = r' \<and> holds_catalog H d (contents s)"
      if "guarded (delete_provider_check p c) (drop_provider p) c = (r', d)" for r' d
      by (rule mem.DeleteProviderIfNoModels_refines [OF C(1) run that])
  qed (use C no_orphans_delete_provider in \<open>simp add: drop_provider_def\<close>)
  then show ?thesis by blast
qed

lemma planes_model_created:
  assumes ok: "planes_ok H w R c a" and run: "repo_CreateModel H MemoryStore x (w_providers w) = (r, s)"
  shows "\<exists>d. planes_ok H (w\<lparr>w_providers := s\<rparr>) R d a \<and> (r = Inr () \<longrightarrow> d = put_model x c)"
proof -
  from ok have C: "holds_catalog H c (contents (w_providers w))" "no_orphans c" "models_projected (Models c) a"
    by (simp_all add: planes_ok_def)
  show ?thesis
  proof (rule planes_guarded [OF ok mem.CreateModel_refines [OF C(1) run]])
    assume "create_model_check H x c = Inr ()"
    then show "no_orphans (put_model x c) \<and> models_projected (Models (put_model x c)) a"
      using C no_orphans_create by (force simp: create_model_check_def put_model_def models_projected_def)
  qed
qed

lemma planes_model_replaced:
  assumes ok: "planes_ok H w R c a" and run: "repo_ReplaceModel H MemoryStore y x (w_providers w) = (r, s)"
    and safe: "Model_Status x = StatusActive \<or> (\<forall>z. ModelSubjects a (Model_ID x) = Some z \<longrightarrow> MS_Status z \<noteq> StatusActive)"
  shows "\<exists>d. planes_ok H (w\<lparr>w_providers := s\<rparr>) R d a \<and> (r = Inr () \<longrightarrow> d = put_model x c)"
proof -
  from ok have C: "holds_catalog H c (contents (w_providers w))" "no_orphans c" "models_projected (Models c) a"
    by (simp_all add: planes_ok_def)
  show ?thesis
  proof (rule planes_guarded [OF ok])
    show "r = r' \<and> holds_catalog H d (contents s)"
      if "guarded (replace_model_check y x c) (put_model x) c = (r', d)" for r' d
      by (rule mem.ReplaceModel_refines [OF C(1) run that])
    show "no_orphans (put_model x c) \<and> models_projected (Models (put_model x c)) a" if "replace_model_check y x c = Inr ()"
      using no_orphans_replace [OF C(2) that] C safe by (auto simp: put_model_def models_projected_def)
  qed
qed

lemma planes_model_deleted:
  assumes ok: "planes_ok H w R c a" and run: "repo_DeleteModel H MemoryStore x (w_providers w) = (r, s)"
    and safe: "\<forall>z. ModelSubjects a (Model_ID x) = Some z \<longrightarrow> MS_Status z \<noteq> StatusActive"
  shows "\<exists>d. planes_ok H (w\<lparr>w_providers := s\<rparr>) R d a"
proof -
  from ok have C: "holds_catalog H c (contents (w_providers w))" "no_orphans c" "models_projected (Models c) a"
    by (simp_all add: planes_ok_def)
  have "\<exists>d. planes_ok H (w\<lparr>w_providers := s\<rparr>) R d a \<and> (r = Inr () \<longrightarrow> d = drop_model x c)"
  proof (rule planes_guarded [OF ok])
    show "r = r' \<and> holds_catalog H d (contents s)"
      if "guarded (delete_model_check x c) (drop_model x) c = (r', d)" for r' d
      by (rule mem.DeleteModel_refines [OF C(1) run that])
    show "no_orphans (drop_model x c) \<and> models_projected (Models (drop_model x c)) a"
      using no_orphans_delete [OF C(2)] C safe by (auto simp: drop_model_def models_projected_def)
  qed
  then show ?thesis by blast
qed

lemma planes_keys:
  assumes ok: "planes_ok H w R c a"
    and ring: "good_ring H s b" "Subjects b = Subjects a" "ModelSubjects b = ModelSubjects a"
  shows "planes_ok H (w\<lparr>w_registry := s\<rparr>) R c b"
  using assms by (simp add: planes_ok_def users_projected_def models_projected_def)

subsection \<open>The methods\<close>

text \<open>
  A method keeps the invariant when it does so on every exit: \<open>keeps P m Q\<close> says that from a state
  with \<open>P\<close>, an error leaves the invariant true and a result \<open>x\<close> leaves \<open>Q x\<close> true.
\<close>

definition kept :: "(string \<Rightarrow> string) \<Rightarrow> planes \<Rightarrow> bool" where
  "kept H w \<longleftrightarrow> (\<exists>R c a. planes_ok H w R c a)"

definition keeps :: "(string \<Rightarrow> string) \<Rightarrow> (planes \<Rightarrow> bool) \<Rightarrow> (planes, 'x) step \<Rightarrow> ('x \<Rightarrow> planes \<Rightarrow> bool) \<Rightarrow> bool" where
  "keeps H P m Q \<longleftrightarrow>
     (\<forall>w e w'. P w \<longrightarrow> m w = (Inl e, w') \<longrightarrow> kept H w') \<and> (\<forall>w x w'. P w \<longrightarrow> m w = (Inr x, w') \<longrightarrow> Q x w')"

lemma keepsI:
  "(\<And>w e w'. P w \<Longrightarrow> m w = (Inl e, w') \<Longrightarrow> kept H w') \<Longrightarrow> (\<And>w x w'. P w \<Longrightarrow> m w = (Inr x, w') \<Longrightarrow> Q x w') \<Longrightarrow>
     keeps H P m Q"
  by (simp add: keeps_def)

lemma keepsD:
  "keeps H P m Q \<Longrightarrow> P w \<Longrightarrow> m w = (Inl e, w') \<Longrightarrow> kept H w'"
  "keeps H P m Q \<Longrightarrow> P w \<Longrightarrow> m w = (Inr x, w') \<Longrightarrow> Q x w'"
  unfolding keeps_def by blast+

lemma keeps_sbind:
  assumes m: "keeps H P m Q" and f: "\<And>x. keeps H (Q x) (f x) S"
  shows "keeps H P (sbind m f) S"
proof (rule keepsI)
  fix w e w'
  assume P: "P w" and run: "sbind m f w = (Inl e, w')"
  from run show "kept H w'"
    by (cases rule: sbind_cases) (auto intro: keepsD(1) [OF m P] keepsD(1) [OF f keepsD(2) [OF m P]])
next
  fix w x w'
  assume P: "P w" and run: "sbind m f w = (Inr x, w')"
  then show "S x w'" using keepsD(2) [OF f keepsD(2) [OF m P]] by (auto simp: sbind_Inr)
qed

lemma keeps_return: "(\<And>w. P w \<Longrightarrow> kept H w) \<Longrightarrow> (\<And>x w. P w \<Longrightarrow> r = Inr x \<Longrightarrow> Q x w) \<Longrightarrow> keeps H P (sreturn r) Q"
  by (auto simp: keeps_def)

lemma keeps_read:
  "(\<And>w. P w \<Longrightarrow> kept H w) \<Longrightarrow> (\<And>x w. P w \<Longrightarrow> f (w_users w) = Inr x \<Longrightarrow> Q x w) \<Longrightarrow> keeps H P (on_users (sread f)) Q"
  "(\<And>w. P w \<Longrightarrow> kept H w) \<Longrightarrow> (\<And>x w. P w \<Longrightarrow> g (w_providers w) = Inr x \<Longrightarrow> Q x w) \<Longrightarrow> keeps H P (on_providers (sread g)) Q"
  by (auto simp: keeps_def)

lemma keeps_wrap: "keeps H P m Q \<Longrightarrow> keeps H P (swrapf f args m) Q"
proof (rule keepsI)
  fix w e w'
  assume m: "keeps H P m Q" and "P w" and "swrapf f args m w = (Inl e, w')"
  then obtain r0 where "m w = (r0, w')" "Inl e = wrapf f args r0" unfolding swrapf_iff by blast
  then show "kept H w'" using keepsD(1) [OF m \<open>P w\<close>] by (cases r0) auto
next
  fix w x w'
  assume m: "keeps H P m Q" and "P w" and "swrapf f args m w = (Inr x, w')"
  then obtain r0 where "m w = (r0, w')" "Inr x = wrapf f args r0" unfolding swrapf_iff by blast
  then show "Q x w'" using keepsD(2) [OF m \<open>P w\<close>] by (cases r0) auto
qed

lemma keeps_weaken:
  assumes "keeps H P m Q" "\<And>w. P' w \<Longrightarrow> P w" "\<And>x w. Q x w \<Longrightarrow> Q' x w"
  shows "keeps H P' m Q'"
  using assms keepsD [OF assms(1)] by (intro keepsI) blast+

lemma keeps_pre: "keeps H P m Q \<Longrightarrow> (\<And>w. P' w \<Longrightarrow> P w) \<Longrightarrow> keeps H P' m Q"
  by (rule keeps_weaken)

text \<open>The writes on users.\<close>

definition ok_with :: "(string \<Rightarrow> string) \<Rightarrow> ((string \<rightharpoonup> User) \<Rightarrow> catalog \<Rightarrow> keyring \<Rightarrow> bool) \<Rightarrow> planes \<Rightarrow> bool" where
  "ok_with H C w \<longleftrightarrow> (\<exists>R c a. planes_ok H w R c a \<and> C R c a)"

lemma ok_with_kept: "ok_with H C w \<Longrightarrow> kept H w"
  by (auto simp: ok_with_def kept_def)

lemma keeps_CreateUser:
  "keeps H (kept H) (on_users (repo_CreateUser H MemoryStore user))
     (\<lambda>_. ok_with H (\<lambda>R c a. R (User_ID user) = Some user))"
  (is "keeps H ?P ?m ?Q")
proof (rule keepsI)
  fix w e w' assume "?P w" "?m w = (Inl e, w')"
  then show "kept H w'" unfolding kept_def on_store_iff by (metis planes_user_created)
next
  fix w x w' assume "?P w" "?m w = (Inr x, w')"
  then show "?Q x w'" unfolding ok_with_def kept_def on_store_iff
    by (metis planes_user_created fun_upd_same old.unit.exhaust)
qed

lemma keeps_ReplaceUser:
  "keeps H (ok_with H (\<lambda>R c a. User_Status user = StatusActive \<or>
       (\<forall>x. Subjects a (User_ID user) = Some x \<longrightarrow> KS_Status x \<noteq> StatusActive)))
     (on_users (repo_ReplaceUser H MemoryStore old user)) (\<lambda>_. ok_with H (\<lambda>R c a. R (User_ID user) = Some user))"
  (is "keeps H ?P ?m ?Q")
proof (rule keepsI)
  fix w e w' assume "?P w" "?m w = (Inl e, w')"
  then show "kept H w'" unfolding ok_with_def kept_def on_store_iff by (metis planes_user_replaced)
next
  fix w x w' assume "?P w" "?m w = (Inr x, w')"
  then show "?Q x w'" unfolding ok_with_def on_store_iff by (metis planes_user_replaced fun_upd_same old.unit.exhaust)
qed

lemma keeps_DeleteUser:
  "keeps H (ok_with H (\<lambda>R c a. \<forall>x. Subjects a (User_ID user) = Some x \<longrightarrow> KS_Status x \<noteq> StatusActive))
     (on_users (repo_DeleteUser H MemoryStore user)) (\<lambda>_. kept H)"
  by (rule keepsI; unfold ok_with_def kept_def on_store_iff; metis planes_user_deleted)

lemma keeps_subject:
  assumes up: "\<And>k a r k'. good_ring H k a \<Longrightarrow> m k = (r, k') \<Longrightarrow> \<exists>b. good_ring H k' b \<and> subject_updated x r a b"
  shows "keeps H (ok_with H (\<lambda>R c a. KS_Status x = StatusActive \<longrightarrow>
      (\<exists>user. R (KS_UserID x) = Some user \<and> User_Status user = StatusActive)))
    (on_registry m) (\<lambda>_. ok_with H (\<lambda>R c a. \<exists>y. Subjects a (KS_UserID x) = Some y \<and> KS_Status y = KS_Status x))"
proof -
  have "(case r of Inl e \<Rightarrow> kept H w' | Inr u \<Rightarrow>
      ok_with H (\<lambda>R c a. \<exists>y. Subjects a (KS_UserID x) = Some y \<and> KS_Status y = KS_Status x) w')"
  if "ok_with H (\<lambda>R c a. KS_Status x = StatusActive \<longrightarrow>
      (\<exists>user. R (KS_UserID x) = Some user \<and> User_Status user = StatusActive)) w" and "on_registry m w = (r, w')" for w r w'
  proof -
    from that obtain R c a s where ok: "planes_ok H w R c a" and run: "m (w_registry w) = (r, s)" and w': "w' = w\<lparr>w_registry := s\<rparr>"
      and safe: "KS_Status x = StatusActive \<longrightarrow> (\<exists>user. R (KS_UserID x) = Some user \<and> User_Status user = StatusActive)"
      by (auto simp: ok_with_def)
    from ok have "good_ring H (w_registry w) a" by (simp add: planes_ok_def)
    from up [OF this run] obtain b where b: "good_ring H s b" "subject_updated x r a b" by blast
    have "planes_ok H w' R c b" unfolding w' by (rule planes_subject [OF ok b safe])
    with b(2) show ?thesis
      by (cases r) (auto simp: kept_def ok_with_def subject_updated_def)
  qed
  then show ?thesis by (intro keepsI) fastforce+
qed

lemma keeps_pure:
  assumes "\<And>w. P w \<Longrightarrow> kept H w" and "\<And>x. r = Inr x \<Longrightarrow> keeps H P (f x) S"
  shows "keeps H P (sbind (sreturn r) f) S"
proof (cases r)
  case (Inl e)
  then show ?thesis using assms(1) by (intro keepsI) (auto simp: sbind_def sreturn_def)
next
  case (Inr x)
  then have "sbind (sreturn r) f = f x" by (simp add: fun_eq_iff sbind_def sreturn_def)
  then show ?thesis using assms(2) [OF Inr] by simp
qed

lemma keeps_reads:
  "(\<And>w. P w \<Longrightarrow> kept H w) \<Longrightarrow> (\<And>x. keeps H P (f x) S) \<Longrightarrow> keeps H P (sbind (on_users (sread g)) f) S"
  "(\<And>w. P w \<Longrightarrow> kept H w) \<Longrightarrow> (\<And>x. keeps H P (f' x) S') \<Longrightarrow> keeps H P (sbind (on_providers (sread g')) f') S'"
  by (rule keeps_sbind, rule keeps_read, assumption, assumption, assumption)+

lemma keeps_done: "(\<And>w. P w \<Longrightarrow> kept H w) \<Longrightarrow> keeps H P (sreturn r) (\<lambda>_. kept H)"
  by (rule keeps_return)

lemma normalizeUserInput_status: "normalizeUserInput lib ui = Inr ui' \<Longrightarrow> validStatus (UI_Status ui')"
  by (auto simp: normalizeUserInput_def validateStatus_def Let_def)

lemma subjectForUser_simps [simp]:
  "KS_UserID (subjectForUser user d) = User_ID user" "KS_Deleted (subjectForUser user d) = d"
  "KS_Status (subjectForUser user True) = StatusDisabled" "KS_Status (subjectForUser user False) = User_Status user"
  by (simp_all add: subjectForUser_def)

lemma keeps_sync_user:
  assumes "plane H rs"
  shows "keeps H (ok_with H (\<lambda>R c a. User_Status user = StatusActive \<longrightarrow>
      (\<exists>user'. R (User_ID user) = Some user' \<and> User_Status user' = StatusActive)))
    (swrapf f args (on_registry (reg_SyncSubject (rs_subjects rs) (subjectForUser user False))))
    (\<lambda>_. ok_with H (\<lambda>R c a. \<exists>y. Subjects a (User_ID user) = Some y \<and> KS_Status y = User_Status user))"
proof -
  have link: "sound_link (svc_SyncSubject MemoryStore) (reg_SyncSubject (rs_subjects rs))" using assms by (simp add: plane_def)
  show ?thesis
    using keeps_wrap [OF keeps_subject [of H "reg_SyncSubject (rs_subjects rs) (subjectForUser user False)"
        "subjectForUser user False"], of f args] SyncSubject_link [OF _ link] by simp
qed

lemma keeps_fence_user:
  assumes "plane H rs"
  shows "keeps H (kept H) (on_registry (reg_FenceSubject (rs_subjects rs) (subjectForUser user True)))
    (\<lambda>_. ok_with H (\<lambda>R c a. \<exists>y. Subjects a (User_ID user) = Some y \<and> KS_Status y = StatusDisabled))"
proof -
  have link: "sound_link (svc_FenceSubject MemoryStore) (reg_FenceSubject (rs_subjects rs))" using assms by (simp add: plane_def)
  have "keeps H (ok_with H (\<lambda>R c a. True)) (on_registry (reg_FenceSubject (rs_subjects rs) (subjectForUser user True)))
      (\<lambda>_. ok_with H (\<lambda>R c a. \<exists>y. Subjects a (User_ID user) = Some y \<and> KS_Status y = StatusDisabled))"
    using keeps_subject [of H "reg_FenceSubject (rs_subjects rs) (subjectForUser user True)" "subjectForUser user True"]
      FenceSubject_link [OF _ link] by simp
  then show ?thesis by (rule keeps_weaken) (auto simp: kept_def ok_with_def)
qed

lemma ok_with_mono: "ok_with H C w \<Longrightarrow> (\<And>R c a. C R c a \<Longrightarrow> D R c a) \<Longrightarrow> ok_with H D w"
  unfolding ok_with_def by blast

lemma ok_with_True: "ok_with H (\<lambda>R c a. True) = kept H"
  by (auto simp: fun_eq_iff ok_with_def kept_def)

lemma keeps_disable_user:
  assumes "plane H rs" and off: "User_Status user = StatusDisabled"
  shows "keeps H (kept H) (swrapf f args (on_registry (reg_SyncSubject (rs_subjects rs) (subjectForUser user False))))
    (\<lambda>_. ok_with H (\<lambda>R c a. \<forall>x. Subjects a (User_ID user) = Some x \<longrightarrow> KS_Status x \<noteq> StatusActive))"
  by (rule keeps_weaken [OF keeps_sync_user [OF assms(1), of user]])
    (use off in \<open>auto simp: ok_with_True elim!: ok_with_mono\<close>)

lemma keeps_activate_user:
  assumes "plane H rs"
  shows "keeps H (ok_with H (\<lambda>R c a. R (User_ID user) = Some user))
    (swrapf f args (on_registry (reg_SyncSubject (rs_subjects rs) (subjectForUser user False)))) (\<lambda>_. kept H)"
  by (rule keeps_weaken [OF keeps_sync_user [OF assms, of user]]) (auto elim: ok_with_mono ok_with_kept)

lemma keeps_svc_CreateUser:
  assumes "plane H rs"
  shows "keeps H (kept H) (svc_CreateUser rs random now ui) (\<lambda>_. kept H)"
proof -
  have rs: "rs_users rs = MemoryStore" "rs_hash rs = H" using assms by (simp_all add: plane_def)
  show ?thesis
    unfolding svc_CreateUser_def Let_def rs
    by (intro keeps_pure keeps_sbind [OF keeps_CreateUser] keeps_sbind [OF keeps_activate_user [OF assms]] keeps_done)
      auto
qed

lemma keeps_svc_updateUser:
  assumes "plane H rs"
  shows "keeps H (kept H) (svc_updateUser rs now rid ui pre) (\<lambda>_. kept H)"
proof -
  have rs: "rs_users rs = MemoryStore" "rs_hash rs = H" using assms by (simp_all add: plane_def)
  have part: "keeps H (kept H)
     (sbind (if User_Status user = StatusDisabled then swrapf f1 a1 (on_registry (reg_SyncSubject (rs_subjects rs) (subjectForUser user False)))
             else sreturn (Inr ())) (\<lambda>_.
      sbind (on_users (repo_ReplaceUser H MemoryStore old user)) (\<lambda>_.
      sbind (if User_Status user = StatusActive then swrapf f2 a2 (on_registry (reg_SyncSubject (rs_subjects rs) (subjectForUser user False)))
             else sreturn (Inr ())) (\<lambda>_. sreturn (Inr user))))) (\<lambda>_. kept H)"
    if "validStatus (User_Status user)" for user old f1 a1 f2 a2
  proof (cases "User_Status user = StatusDisabled")
    case True
    then show ?thesis
      by (simp, intro keeps_sbind [OF keeps_disable_user [OF assms]] keeps_sbind [OF keeps_pre [OF keeps_ReplaceUser]]
          keeps_pure keeps_done) (auto elim: ok_with_mono ok_with_kept)
  next
    case False
    with that have "User_Status user = StatusActive" by (simp add: validStatus_def)
    then show ?thesis
      by (simp, intro keeps_pure keeps_sbind [OF keeps_pre [OF keeps_ReplaceUser]] keeps_sbind [OF keeps_activate_user [OF assms]]
          keeps_done) (auto simp: ok_with_True)
  qed
  show ?thesis
    unfolding svc_updateUser_def Let_def rs
    by (intro keeps_reads keeps_pure part) (auto dest: normalizeUserInput_status)
qed

lemma keeps_svc_deleteUser:
  assumes "plane H rs"
  shows "keeps H (kept H) (svc_deleteUser rs now rid pre) (\<lambda>_. kept H)"
proof -
  have rs: "rs_users rs = MemoryStore" "rs_hash rs = H" using assms by (simp_all add: plane_def)
  show ?thesis
    unfolding svc_deleteUser_def Let_def rs
    by (intro keeps_reads keeps_pure keeps_sbind [OF keeps_fence_user [OF assms]] keeps_weaken [OF keeps_DeleteUser])
      (auto elim: ok_with_mono)
qed


text \<open>The writes on models, likewise.\<close>

lemma put_model_found: "Models (put_model x c) (Model_ID x) = Some x"
  by (simp add: put_model_def)

lemma keeps_CreateModel:
  "keeps H (kept H) (on_providers (repo_CreateModel H MemoryStore x))
     (\<lambda>_. ok_with H (\<lambda>R c a. Models c (Model_ID x) = Some x))"
  (is "keeps H ?P ?m ?Q")
proof (rule keepsI)
  fix w e w' assume "?P w" "?m w = (Inl e, w')"
  then show "kept H w'" unfolding kept_def on_store_iff by (metis planes_model_created)
next
  fix w u w' assume "?P w" "?m w = (Inr u, w')"
  then show "?Q u w'" unfolding ok_with_def kept_def on_store_iff
    by (metis planes_model_created put_model_found old.unit.exhaust)
qed

lemma keeps_ReplaceModel:
  "keeps H (ok_with H (\<lambda>R c a. Model_Status x = StatusActive \<or>
       (\<forall>z. ModelSubjects a (Model_ID x) = Some z \<longrightarrow> MS_Status z \<noteq> StatusActive)))
     (on_providers (repo_ReplaceModel H MemoryStore y x)) (\<lambda>_. ok_with H (\<lambda>R c a. Models c (Model_ID x) = Some x))"
  (is "keeps H ?P ?m ?Q")
proof (rule keepsI)
  fix w e w' assume "?P w" "?m w = (Inl e, w')"
  then show "kept H w'" unfolding ok_with_def kept_def on_store_iff by (metis planes_model_replaced)
next
  fix w u w' assume "?P w" "?m w = (Inr u, w')"
  then show "?Q u w'" unfolding ok_with_def on_store_iff
    by (metis planes_model_replaced put_model_found old.unit.exhaust)
qed

lemma keeps_DeleteModel:
  "keeps H (ok_with H (\<lambda>R c a. \<forall>z. ModelSubjects a (Model_ID x) = Some z \<longrightarrow> MS_Status z \<noteq> StatusActive))
     (on_providers (repo_DeleteModel H MemoryStore x)) (\<lambda>_. kept H)"
  by (rule keepsI; unfold ok_with_def kept_def on_store_iff; metis planes_model_deleted)

lemma keeps_model_subject:
  assumes up: "\<And>k a r k'. good_ring H k a \<Longrightarrow> m k = (r, k') \<Longrightarrow> \<exists>b. good_ring H k' b \<and> model_updated x r a b"
  shows "keeps H (ok_with H (\<lambda>R c a. MS_Status x = StatusActive \<longrightarrow>
      (\<exists>model. Models c (MS_ModelID x) = Some model \<and> Model_Status model = StatusActive)))
    (on_registry m) (\<lambda>_. ok_with H (\<lambda>R c a. \<exists>y. ModelSubjects a (MS_ModelID x) = Some y \<and> MS_Status y = MS_Status x))"
proof -
  have "(case r of Inl e \<Rightarrow> kept H w' | Inr u \<Rightarrow>
      ok_with H (\<lambda>R c a. \<exists>y. ModelSubjects a (MS_ModelID x) = Some y \<and> MS_Status y = MS_Status x) w')"
  if "ok_with H (\<lambda>R c a. MS_Status x = StatusActive \<longrightarrow>
      (\<exists>model. Models c (MS_ModelID x) = Some model \<and> Model_Status model = StatusActive)) w" and "on_registry m w = (r, w')" for w r w'
  proof -
    from that obtain R c a s where ok: "planes_ok H w R c a" and run: "m (w_registry w) = (r, s)" and w': "w' = w\<lparr>w_registry := s\<rparr>"
      and safe: "MS_Status x = StatusActive \<longrightarrow> (\<exists>model. Models c (MS_ModelID x) = Some model \<and> Model_Status model = StatusActive)"
      by (auto simp: ok_with_def)
    from ok have "good_ring H (w_registry w) a" by (simp add: planes_ok_def)
    from up [OF this run] obtain b where b: "good_ring H s b" "model_updated x r a b" by blast
    have "planes_ok H w' R c b" unfolding w' by (rule planes_model_subject [OF ok b safe])
    with b(2) show ?thesis
      by (cases r) (auto simp: kept_def ok_with_def model_updated_def)
  qed
  then show ?thesis by (intro keepsI) fastforce+
qed

lemma modelSubjectFor_simps [simp]:
  "MS_ModelID (modelSubjectFor m d) = Model_ID m" "MS_Deleted (modelSubjectFor m d) = d"
  "MS_Status (modelSubjectFor m True) = StatusDisabled" "MS_Status (modelSubjectFor m False) = Model_Status m"
  by (simp_all add: modelSubjectFor_def)

lemma keeps_sync_model:
  assumes "plane H rs" "rs_modelSubjects rs = Some reg"
  shows "keeps H (ok_with H (\<lambda>R c a. Model_Status m = StatusActive \<longrightarrow>
      (\<exists>m'. Models c (Model_ID m) = Some m' \<and> Model_Status m' = StatusActive)))
    (swrapf f args (on_registry (reg_SyncModel reg (modelSubjectFor m False))))
    (\<lambda>_. ok_with H (\<lambda>R c a. \<exists>y. ModelSubjects a (Model_ID m) = Some y \<and> MS_Status y = Model_Status m))"
proof -
  have link: "sound_link (svc_SyncModel MemoryStore) (reg_SyncModel reg)" using assms by (simp add: plane_def)
  show ?thesis
    using keeps_wrap [OF keeps_model_subject [of H "reg_SyncModel reg (modelSubjectFor m False)"
        "modelSubjectFor m False"], of f args] SyncModel_link [OF _ link] by simp
qed

lemma keeps_fence_model:
  assumes "plane H rs" "rs_modelSubjects rs = Some reg"
  shows "keeps H (kept H) (on_registry (reg_FenceModel reg (modelSubjectFor m True)))
    (\<lambda>_. ok_with H (\<lambda>R c a. \<exists>y. ModelSubjects a (Model_ID m) = Some y \<and> MS_Status y = StatusDisabled))"
proof -
  have link: "sound_link (svc_FenceModel MemoryStore) (reg_FenceModel reg)" using assms by (simp add: plane_def)
  have "keeps H (ok_with H (\<lambda>R c a. True)) (on_registry (reg_FenceModel reg (modelSubjectFor m True)))
      (\<lambda>_. ok_with H (\<lambda>R c a. \<exists>y. ModelSubjects a (Model_ID m) = Some y \<and> MS_Status y = StatusDisabled))"
    using keeps_model_subject [of H "reg_FenceModel reg (modelSubjectFor m True)" "modelSubjectFor m True"]
      FenceModel_link [OF _ link] by simp
  then show ?thesis by (simp add: ok_with_True)
qed

lemma keeps_disable_model:
  assumes "plane H rs" "rs_modelSubjects rs = Some reg" and off: "Model_Status m = StatusDisabled"
  shows "keeps H (kept H) (swrapf f args (on_registry (reg_SyncModel reg (modelSubjectFor m False))))
    (\<lambda>_. ok_with H (\<lambda>R c a. \<forall>z. ModelSubjects a (Model_ID m) = Some z \<longrightarrow> MS_Status z \<noteq> StatusActive))"
  by (rule keeps_weaken [OF keeps_sync_model [OF assms(1,2), of m]])
    (use off in \<open>auto simp: ok_with_True elim!: ok_with_mono\<close>)

lemma keeps_activate_model:
  assumes "plane H rs" "rs_modelSubjects rs = Some reg"
  shows "keeps H (ok_with H (\<lambda>R c a. Models c (Model_ID m) = Some m))
    (swrapf f args (on_registry (reg_SyncModel reg (modelSubjectFor m False)))) (\<lambda>_. kept H)"
  by (rule keeps_weaken [OF keeps_sync_model [OF assms, of m]]) (auto elim: ok_with_mono ok_with_kept)

lemma normalizeModelInput_status: "normalizeModelInput st mi s = Inr mi' \<Longrightarrow> validStatus (MI_Status mi')"
  by (auto simp: normalizeModelInput_def validateStatus_def Let_def)

lemma keeps_svc_CreateModel:
  assumes "plane H rs"
  shows "keeps H (kept H) (svc_CreateModel rs random now mi) (\<lambda>_. kept H)"
proof (cases "rs_modelSubjects rs")
  have rs: "rs_providers rs = MemoryStore" "rs_hash rs = H" using assms by (simp_all add: plane_def)
  {
    case None
    show ?thesis
      unfolding svc_CreateModel_def Let_def rs None option.case
      by (intro keeps_reads keeps_pure keeps_sbind [OF keeps_CreateModel] keeps_done) (auto elim: ok_with_kept)
  next
    case (Some reg)
    show ?thesis
      unfolding svc_CreateModel_def Let_def rs Some option.case
      by (intro keeps_reads keeps_pure keeps_sbind [OF keeps_CreateModel] keeps_sbind [OF keeps_activate_model [OF assms Some]]
          keeps_done) auto
  }
qed

lemma keeps_input:
  assumes P: "\<And>w. P w \<Longrightarrow> kept H w" and V: "\<And>s x. g s = Inr x \<Longrightarrow> V x"
    and f: "\<And>x. V x \<Longrightarrow> keeps H P (f x) S"
  shows "keeps H P (sbind (on_providers (sread g)) f) S"
proof (rule keeps_sbind [where Q = "\<lambda>x w. P w \<and> V x", OF keeps_read(2)])
  show "keeps H (\<lambda>w. P w \<and> V x) (f x) S" for x
    using f [of x] by (cases "V x") (simp_all add: keeps_def)
qed (use P V in blast)+

lemma keeps_svc_updateModel:
  assumes "plane H rs"
  shows "keeps H (kept H) (svc_updateModel rs now rid mi pre) (\<lambda>_. kept H)"
proof -
  have rs: "rs_providers rs = MemoryStore" "rs_hash rs = H" using assms by (simp_all add: plane_def)
  have part: "keeps H (kept H)
     (sbind (if Model_Status m = StatusDisabled then swrapf f1 a1 (on_registry (reg_SyncModel reg (modelSubjectFor m False)))
             else sreturn (Inr ())) (\<lambda>_.
      sbind (on_providers (repo_ReplaceModel H MemoryStore old m)) (\<lambda>_.
      sbind (if Model_Status m = StatusActive then swrapf f2 a2 (on_registry (reg_SyncModel reg (modelSubjectFor m False)))
             else sreturn (Inr ())) (\<lambda>_. sreturn (Inr m))))) (\<lambda>_. kept H)"
    if "validStatus (Model_Status m)" and reg: "rs_modelSubjects rs = Some reg" for m old f1 a1 f2 a2 reg
  proof (cases "Model_Status m = StatusDisabled")
    case True
    then show ?thesis
      by (simp, intro keeps_sbind [OF keeps_disable_model [OF assms reg]] keeps_sbind [OF keeps_pre [OF keeps_ReplaceModel]]
          keeps_pure keeps_done) (auto elim: ok_with_mono ok_with_kept)
  next
    case False
    with that have "Model_Status m = StatusActive" by (simp add: validStatus_def)
    then show ?thesis
      by (simp, intro keeps_pure keeps_sbind [OF keeps_pre [OF keeps_ReplaceModel]] keeps_sbind [OF keeps_activate_model [OF assms reg]]
          keeps_done) (auto simp: ok_with_True)
  qed
  show ?thesis
  proof (cases "rs_modelSubjects rs")
    case None
    show ?thesis unfolding svc_updateModel_def Let_def rs None option.case
      by (intro keeps_reads keeps_pure keeps_done)
  next
    case (Some reg)
    show ?thesis unfolding svc_updateModel_def Let_def rs Some option.case
      by (rule keeps_reads, assumption, intro keeps_pure keeps_input [where V = "\<lambda>mi'. validStatus (MI_Status mi')"] part)
        (auto simp: Some dest: normalizeModelInput_status)
  qed
qed

lemma keeps_svc_deleteModel:
  assumes "plane H rs"
  shows "keeps H (kept H) (svc_deleteModel rs now rid pre) (\<lambda>_. kept H)"
proof (cases "rs_modelSubjects rs")
  have rs: "rs_providers rs = MemoryStore" "rs_hash rs = H" using assms by (simp_all add: plane_def)
  {
    case None
    show ?thesis
      unfolding svc_deleteModel_def Let_def rs None option.case by (intro keeps_reads keeps_pure keeps_done)
  next
    case (Some reg)
    show ?thesis
      unfolding svc_deleteModel_def Let_def rs Some option.case
      by (intro keeps_reads keeps_pure keeps_sbind [OF keeps_fence_model [OF assms Some]] keeps_weaken [OF keeps_DeleteModel])
        (auto elim: ok_with_mono)
  }
qed

text \<open>Providers and virtual keys.\<close>

lemma keeps_svc_CreateProvider:
  assumes "plane H rs"
  shows "keeps H (kept H) (svc_CreateProvider rs random now pin) (\<lambda>_. kept H)"
proof -
  have rs: "rs_providers rs = MemoryStore" "rs_hash rs = H" using assms by (simp_all add: plane_def)
  have "keeps H (kept H) (on_providers (repo_CreateProvider H MemoryStore p)) (\<lambda>_. kept H)" for p
    by (rule keepsI; unfold kept_def on_store_iff; metis planes_provider_created)
  then show ?thesis
    unfolding svc_CreateProvider_def Let_def rs by (intro keeps_pure keeps_sbind keeps_done)
qed

lemma keeps_svc_updateProvider:
  assumes "plane H rs"
  shows "keeps H (kept H) (svc_updateProvider rs now rid pin pre) (\<lambda>_. kept H)"
proof -
  have rs: "rs_providers rs = MemoryStore" "rs_hash rs = H" using assms by (simp_all add: plane_def)
  have keeps_write: "keeps H (kept H) (on_providers (repo_ReplaceProvider H MemoryStore old p)) (\<lambda>_. kept H)" for old p
    by (rule keepsI; unfold kept_def on_store_iff; metis planes_provider_replaced)
  show ?thesis
    unfolding svc_updateProvider_def Let_def rs by (intro keeps_reads keeps_pure keeps_sbind [OF keeps_write] keeps_done)
qed

lemma keeps_svc_deleteProvider:
  assumes "plane H rs"
  shows "keeps H (kept H) (svc_deleteProvider rs rid pre) (\<lambda>_. kept H)"
proof -
  have rs: "rs_providers rs = MemoryStore" "rs_hash rs = H" using assms by (simp_all add: plane_def)
  have keeps_write: "keeps H (kept H) (on_providers (repo_DeleteProviderIfNoModels H MemoryStore p)) (\<lambda>_. kept H)" for p
    by (rule keepsI; unfold kept_def on_store_iff; metis planes_provider_deleted)
  show ?thesis
    unfolding svc_deleteProvider_def Let_def rs by (intro keeps_reads keeps_pure keeps_write)
qed

lemma svc_VirtualKey_writes:
  "svc_CreateVirtualKey H st random random' now now' ki s = (k, s') \<Longrightarrow>
     s' = s \<or> (\<exists>key r. repo_CreateVirtualKey H st key s = (r, s'))"
  "svc_updateVirtualKey H digest st now now' rid ki pre s = (k', s') \<Longrightarrow>
     s' = s \<or> (\<exists>old key r. repo_ReplaceVirtualKey H st old key s = (r, s'))"
  "svc_deleteVirtualKey H digest st rid pre s = (q, s') \<Longrightarrow>
     s' = s \<or> (\<exists>key r. repo_DeleteVirtualKey H st key s = (r, s'))"
  by (auto simp: svc_CreateVirtualKey_def svc_updateVirtualKey_def svc_deleteVirtualKey_def sbind_def sread_def
      sreturn_def Let_def split: prod.splits sum.splits)

lemma kept_keys:
  assumes w: "kept H w"
    and written: "s = w_registry w \<or> (\<exists>key r. repo_CreateVirtualKey H MemoryStore key (w_registry w) = (r, s)) \<or>
      (\<exists>old key r. repo_ReplaceVirtualKey H MemoryStore old key (w_registry w) = (r, s)) \<or>
      (\<exists>key r. repo_DeleteVirtualKey H MemoryStore key (w_registry w) = (r, s))"
  shows "kept H (w\<lparr>w_registry := s\<rparr>)"
proof -
  from w obtain R c a where ok: "planes_ok H w R c a" by (auto simp: kept_def)
  then have ring: "good_ring H (w_registry w) a" and h: "holds_keyring H a (contents (w_registry w))" "keyring_ok a"
    by (simp_all add: planes_ok_def good_ring_def)
  note keys_only = guarded_ring [where U = "\<lambda>r b. Subjects b = Subjects a \<and> ModelSubjects b = ModelSubjects a", OF ring]
  from written have "\<exists>b. good_ring H s b \<and> Subjects b = Subjects a \<and> ModelSubjects b = ModelSubjects a"
  proof (elim disjE exE)
    fix key r assume run: "repo_CreateVirtualKey H MemoryStore key (w_registry w) = (r, s)"
    show ?thesis by (rule keys_only [OF mem.CreateVirtualKey_refines [OF h(1) run]], assumption)
        (use h in \<open>auto simp: put_key_def intro: keyring_ok_create [unfolded put_key_def]\<close>)
  next
    fix old key r assume run: "repo_ReplaceVirtualKey H MemoryStore old key (w_registry w) = (r, s)"
    show ?thesis by (rule keys_only [OF mem.ReplaceVirtualKey_refines [OF h(1) run]], assumption)
        (use h in \<open>auto simp: put_key_def intro: keyring_ok_replace [unfolded put_key_def]\<close>)
  next
    fix key r assume run: "repo_DeleteVirtualKey H MemoryStore key (w_registry w) = (r, s)"
    show ?thesis by (rule keys_only [OF mem.DeleteVirtualKey_refines [OF h(1) run]], assumption)
        (use h in \<open>auto simp: drop_key_def intro: keyring_ok_delete [unfolded drop_key_def]\<close>)
  qed (use ring in auto)
  then show ?thesis using planes_keys [OF ok] unfolding kept_def by blast
qed

lemma keeps_run: "keeps H (kept H) m (\<lambda>_. kept H) \<Longrightarrow> kept H w \<Longrightarrow> m w = (r, w') \<Longrightarrow> kept H w'"
  by (cases r) (blast dest: keepsD)+

lemmas services_kept =
  keeps_svc_CreateUser [THEN keeps_run] keeps_svc_updateUser [THEN keeps_run] keeps_svc_deleteUser [THEN keeps_run]
  keeps_svc_CreateProvider [THEN keeps_run] keeps_svc_updateProvider [THEN keeps_run] keeps_svc_deleteProvider [THEN keeps_run]
  keeps_svc_CreateModel [THEN keeps_run] keeps_svc_updateModel [THEN keeps_run] keeps_svc_deleteModel [THEN keeps_run]

lemma plane_step_kept:
  assumes "plane_step H w w'" and "kept H w"
  shows "kept H w'"
  using assms
proof (induction rule: plane_step.induct)
  case (ps_CreateVirtualKey random random' now now' ki w k s)
  then show ?case using svc_VirtualKey_writes(1) kept_keys by metis
next
  case (ps_updateVirtualKey digest now now' rid ki pre w k' s)
  then show ?case using svc_VirtualKey_writes(2) kept_keys by metis
next
  case (ps_deleteVirtualKey digest rid pre w q s)
  then show ?case using svc_VirtualKey_writes(3) kept_keys by metis
qed (rule services_kept, assumption, assumption, assumption)+

lemma kept_new: "kept H new_planes"
proof -
  have "planes_ok H new_planes Map.empty empty_catalog empty_ring"
    by (simp add: planes_ok_def new_planes_def holds_users_empty holds_empty_catalog no_orphans_empty good_ring_empty
        users_projected_def models_projected_def) (simp add: empty_ring_def empty_catalog_def)
  then show ?thesis unfolding kept_def by blast
qed

lemma reachable_kept:
  assumes "(plane_step H)\<^sup>*\<^sup>* new_planes w"
  obtains R c a where "planes_ok H w R c a"
proof -
  from assms have "kept H w" by (induction rule: rtranclp_induct) (auto intro: kept_new plane_step_kept)
  then show thesis using that by (auto simp: kept_def)
qed


section \<open>A run of the services\<close>

text \<open>
  One user, one provider, one model and one key, created through the services with a link that always
  delivers. The properties below are applied to the state this run reaches.
\<close>

definition direct :: "(memory, memory, memory) ResourceService" where
  "direct = \<lparr>rs_users = MemoryStore, rs_providers = MemoryStore,
     rs_subjects = \<lparr>reg_SyncSubject = svc_SyncSubject MemoryStore, reg_FenceSubject = svc_FenceSubject MemoryStore\<rparr>,
     rs_modelSubjects = Some \<lparr>reg_SyncModel = svc_SyncModel MemoryStore, reg_FenceModel = svc_FenceModel MemoryStore\<rparr>,
     rs_hash = (\<lambda>x. x), rs_digest = (\<lambda>j. ''0''), rs_lib = \<lparr>ToLower = (\<lambda>x. x), EqualFold = (=), ParseAddress = Inr\<rparr>\<rparr>"

lemma sound_link_refl [simp]: "sound_link f f"
  by (auto simp: sound_link_def)

lemma plane_direct: "plane (\<lambda>x. x) direct"
  by (simp add: plane_def direct_def)

definition shows_as :: "planes \<Rightarrow> (string \<rightharpoonup> User) \<Rightarrow> catalog \<Rightarrow> keyring \<Rightarrow> bool" where
  "shows_as w R c a \<longleftrightarrow> holds_users (\<lambda>x. x) R (contents (w_users w)) \<and> holds_catalog (\<lambda>x. x) c (contents (w_providers w)) \<and>
     holds_keyring (\<lambda>x. x) a (contents (w_registry w))"

lemma run_CreateUser:
  assumes w: "shows_as w R c a"
    and input: "normalizeUserInput (rs_lib direct) ui = Inr ui'" "NewID ''usr'' random = Inr (User_ID u)"
    and u: "u = \<lparr>User_ID = User_ID u, User_Name = UI_Name ui', User_Email = UI_Email ui', User_Status = UI_Status ui',
       User_Revision = 1, User_CreatedAt = now, User_UpdatedAt = now\<rparr>"
    and new: "create_spec UserCodec User_ID (userLookups (\<lambda>x. x)) u R = (Inr (), R')"
    and sync: "sync_subject_check (subjectForUser u False) a = Inr ()"
  obtains w' where "svc_CreateUser direct random now ui w = (Inr u, w')" "shows_as w' R' c (put_subject (subjectForUser u False) a)"
    "plane_step (\<lambda>x. x) w w'"
proof -
  from w have h: "holds_users (\<lambda>x. x) R (contents (w_users w))" "holds_keyring (\<lambda>x. x) a (contents (w_registry w))"
    by (simp_all add: shows_as_def)
  obtain r1 s1 where s1: "repo_CreateUser (\<lambda>x. x) MemoryStore u (w_users w) = (r1, s1)" by force
  have o1: "r1 = Inr ()" "holds_users (\<lambda>x. x) R' (contents s1)" using CreateUser_refines [OF h(1) s1 new] by simp_all
  obtain r2 s2 where s2: "repo_SyncSubject MemoryStore (subjectForUser u False) (w_registry w) = (r2, s2)" by force
  have o2: "r2 = Inr ()" "holds_keyring (\<lambda>x. x) (put_subject (subjectForUser u False) a) (contents s2)"
    using mem.SyncSubject_refines [OF h(2) s2] sync by (simp_all add: guarded_def)
  have run: "svc_CreateUser direct random now ui w = (Inr u, w\<lparr>w_users := s1, w_registry := s2\<rparr>)"
    unfolding svc_CreateUser_def sbind_def sreturn_def swrapf_def on_users_def on_registry_def Let_def input
    by (simp add: u [symmetric] direct_def svc_SyncSubject_def s1 o1 s2 o2)
  show thesis
    by (rule that [OF run _ ps_CreateUser [OF plane_direct run]]) (use w o1 o2 in \<open>simp add: shows_as_def\<close>)
qed


lemma run_CreateProvider:
  assumes w: "shows_as w R c a"
    and input: "normalizeProviderInput (rs_lib direct) pin = Inr pin'" "NewID ''prv'' random = Inr (Provider_ID p)"
    and p: "p = \<lparr>Provider_ID = Provider_ID p, Provider_Slug = PI_Slug pin', Provider_Name = PI_Name pin',
                     Provider_Kind = PI_Kind pin', Provider_AdapterAppID = PI_AdapterAppID pin',
                     Provider_Status = PI_Status pin', Provider_CreatedAt = now, Provider_UpdatedAt = now\<rparr>"
    and new: "create_spec ProviderCodec Provider_ID (providerLookups (\<lambda>x. x)) p (Providers c) = (Inr (), P)"
  obtains w' where "svc_CreateProvider direct random now pin w = (Inr p, w')" "shows_as w' R (c\<lparr>Providers := P\<rparr>) a"
    "plane_step (\<lambda>x. x) w w'"
proof -
  from w have h: "holds_catalog (\<lambda>x. x) c (contents (w_providers w))" by (simp add: shows_as_def)
  obtain r1 s1 where s1: "repo_CreateProvider (\<lambda>x. x) MemoryStore p (w_providers w) = (r1, s1)" by force
  have o1: "r1 = Inr ()" "holds_catalog (\<lambda>x. x) (c\<lparr>Providers := P\<rparr>) (contents s1)"
    using mem.CreateProvider_catalog [OF h s1 new] by simp_all
  have run: "svc_CreateProvider direct random now pin w = (Inr p, w\<lparr>w_providers := s1\<rparr>)"
    unfolding svc_CreateProvider_def sbind_def sreturn_def on_providers_def Let_def input
    by (simp add: p [symmetric] direct_def s1 o1)
  show thesis
    by (rule that [OF run _ ps_CreateProvider [OF plane_direct run]]) (use w o1 in \<open>simp add: shows_as_def\<close>)
qed

lemma run_CreateModel:
  assumes w: "shows_as w R c a"
    and input: "normalizeModelInput MemoryStore mi (w_providers w) = Inr mi'" "NewID ''mdl'' random = Inr (Model_ID m)"
    and m: "m = \<lparr>Model_ID = Model_ID m, Model_Alias = MI_Alias mi', Model_ProviderID = MI_ProviderID mi',
                  Model_UpstreamModel = MI_UpstreamModel mi', Model_Status = MI_Status mi',
                  Model_Revision = 1, Model_CreatedAt = now, Model_UpdatedAt = now\<rparr>"
    and new: "create_model_check (\<lambda>x. x) m c = Inr ()"
    and sync: "sync_model_check (modelSubjectFor m False) a = Inr ()"
  obtains w' where "svc_CreateModel direct random now mi w = (Inr m, w')"
    "shows_as w' R (put_model m c) (put_model_subject (modelSubjectFor m False) a)" "plane_step (\<lambda>x. x) w w'"
proof -
  from w have h: "holds_catalog (\<lambda>x. x) c (contents (w_providers w))" "holds_keyring (\<lambda>x. x) a (contents (w_registry w))"
    by (simp_all add: shows_as_def)
  obtain r1 s1 where s1: "repo_CreateModel (\<lambda>x. x) MemoryStore m (w_providers w) = (r1, s1)" by force
  have o1: "r1 = Inr ()" "holds_catalog (\<lambda>x. x) (put_model m c) (contents s1)"
    using mem.CreateModel_refines [OF h(1) s1] new by (simp_all add: guarded_def)
  obtain r2 s2 where s2: "repo_SyncModelSubject MemoryStore (modelSubjectFor m False) (w_registry w) = (r2, s2)" by force
  have o2: "r2 = Inr ()" "holds_keyring (\<lambda>x. x) (put_model_subject (modelSubjectFor m False) a) (contents s2)"
    using mem.SyncModelSubject_refines [OF h(2) s2] sync by (simp_all add: guarded_def)
  have run: "svc_CreateModel direct random now mi w = (Inr m, w\<lparr>w_providers := s1, w_registry := s2\<rparr>)"
    unfolding svc_CreateModel_def sbind_def sreturn_def sread_def swrapf_def on_providers_def on_registry_def Let_def
    using input by (simp add: m [symmetric] direct_def svc_SyncModel_def s1 o1 s2 o2)
  show thesis
    by (rule that [OF run _ ps_CreateModel [OF plane_direct run]]) (use w o1 o2 in \<open>simp add: shows_as_def\<close>)
qed

lemma run_CreateVirtualKey:
  assumes w: "shows_as w R c a"
    and input: "normalizeInput MemoryStore now ki (w_registry w) = Inr ki'" "generateKey random = Inr secret"
      "NewID ''key'' random' = Inr (VK_ID k)"
    and k: "k = \<lparr>VK_ID = VK_ID k, VK_Name = KI_Name ki', VK_UserID = KI_UserID ki', VK_Prefix = take 13 secret,
                VK_KeyHash = hashKey (\<lambda>x. x) secret, VK_ModelIDs = KI_ModelIDs ki', VK_Status = KI_Status ki',
                VK_ExpiresAt = KI_ExpiresAt ki', VK_CreatedAt = now', VK_UpdatedAt = now'\<rparr>"
    and new: "create_key_check (\<lambda>x. x) k a = Inr ()"
  obtains w' where "svc_CreateVirtualKey (\<lambda>x. x) MemoryStore random random' now now' ki (w_registry w) =
      (Inr \<lparr>CVK_VirtualKey = Public k, CVK_Key = secret\<rparr>, w_registry w')"
    "shows_as w' R c (put_key k a)" "plane_step (\<lambda>x. x) w w'"
proof -
  from w have h: "holds_keyring (\<lambda>x. x) a (contents (w_registry w))" by (simp_all add: shows_as_def)
  obtain r1 s1 where s1: "repo_CreateVirtualKey (\<lambda>x. x) MemoryStore k (w_registry w) = (r1, s1)" by force
  have o1: "r1 = Inr ()" "holds_keyring (\<lambda>x. x) (put_key k a) (contents s1)"
    using mem.CreateVirtualKey_refines [OF h s1] new by (simp_all add: guarded_def)
  have run: "svc_CreateVirtualKey (\<lambda>x. x) MemoryStore random random' now now' ki (w_registry w) =
      (Inr \<lparr>CVK_VirtualKey = Public k, CVK_Key = secret\<rparr>, s1)"
    unfolding svc_CreateVirtualKey_def sbind_def sreturn_def sread_def Let_def input
    by (simp add: k [symmetric] s1 o1)
  show thesis
    by (rule that [of "w\<lparr>w_registry := s1\<rparr>", OF _ _ ps_CreateVirtualKey [OF run]]) (use w o1 run in \<open>simp_all add: shows_as_def\<close>)
qed

definition eve :: User where
  "eve = \<lparr>User_ID = ''usr_01'', User_Name = ''Eve'', User_Email = ''eve@example.com'', User_Status = StatusActive,
          User_Revision = 1, User_CreatedAt = 0, User_UpdatedAt = 0\<rparr>"

definition umbra :: Provider where
  "umbra = \<lparr>Provider_ID = ''prv_01'', Provider_Slug = ''umbra'', Provider_Name = ''Umbra'', Provider_Kind = ProviderKindGemini,
           Provider_AdapterAppID = ''umbra-adapter'', Provider_Status = StatusActive, Provider_CreatedAt = 0, Provider_UpdatedAt = 0\<rparr>"

definition lark :: Model where
  "lark = \<lparr>Model_ID = ''mdl_01'', Model_Alias = ''lark'', Model_ProviderID = ''prv_01'', Model_UpstreamModel = '''',
           Model_Status = StatusActive, Model_Revision = 1, Model_CreatedAt = 0, Model_UpdatedAt = 0\<rparr>"

definition eve_key :: VirtualKey where
  "eve_key = \<lparr>VK_ID = ''key_01'', VK_Name = ''laptop'', VK_UserID = ''usr_01'', VK_Prefix = ''gwai_AQID'', VK_KeyHash = ''gwai_AQID'',
     VK_ModelIDs = [''mdl_01''], VK_Status = StatusActive, VK_ExpiresAt = None, VK_CreatedAt = 0, VK_UpdatedAt = 0\<rparr>"

definition demo_ring :: keyring where
  "demo_ring = \<lparr>Keys = [''key_01'' \<mapsto> eve_key], Subjects = [''usr_01'' \<mapsto> subjectForUser eve False],
     ModelSubjects = [''mdl_01'' \<mapsto> modelSubjectFor lark False]\<rparr>"

definition demo_catalog :: catalog where
  "demo_catalog = \<lparr>Providers = [''prv_01'' \<mapsto> umbra], Models = [''mdl_01'' \<mapsto> lark]\<rparr>"


lemma trims [simp]:
  "TrimSpace ''lark'' = ''lark''" "TrimSpace ''prv_01'' = ''prv_01''" "TrimSpace [] = []" "TrimSpace ''laptop'' = ''laptop''"
  "TrimSpace ''usr_01'' = ''usr_01''" "TrimSpace ''mdl_01'' = ''mdl_01''"
  by code_simp+

lemma demo_user:
  obtains w where "(plane_step (\<lambda>x. x))\<^sup>*\<^sup>* new_planes w"
    "shows_as w [''usr_01'' \<mapsto> eve] empty_catalog (empty_ring\<lparr>Subjects := [''usr_01'' \<mapsto> subjectForUser eve False]\<rparr>)"
proof -
  have w: "shows_as new_planes Map.empty empty_catalog empty_ring"
    using good_ring_empty by (simp add: shows_as_def new_planes_def holds_users_empty holds_empty_catalog good_ring_def)
  have put: "put_subject (subjectForUser eve False) empty_ring = empty_ring\<lparr>Subjects := [''usr_01'' \<mapsto> subjectForUser eve False]\<rparr>"
    by (simp add: put_subject_def replayed_subject_def empty_ring_def subjectForUser_def eve_def)
  have input: "normalizeUserInput (rs_lib direct) \<lparr>UI_Name = ''Eve'', UI_Email = ''eve@example.com'', UI_Status = StatusActive\<rparr> =
      Inr \<lparr>UI_Name = ''Eve'', UI_Email = ''eve@example.com'', UI_Status = StatusActive\<rparr>" by code_simp
  have rid: "NewID ''usr'' (Inr [1]) = Inr (User_ID eve)" by code_simp
  have new: "create_spec UserCodec User_ID (userLookups (\<lambda>x. x)) eve Map.empty = (Inr (), [''usr_01'' \<mapsto> eve])"
    by (simp add: create_spec_def taken_def eve_def encode_def UserCodec_def)
  have sync: "sync_subject_check (subjectForUser eve False) empty_ring = Inr ()"
    by (simp add: sync_subject_check_def subject_faults_def update_subject_check_def subject_conflicts_def replayed_subject_def
        encode_def KeySubjectCodec_def empty_ring_def subjectForUser_def eve_def)
  show thesis
    by (rule run_CreateUser [OF w input rid _ new sync, where now = 0]) (simp add: eve_def, metis that put r_into_rtranclp)
qed

lemma demo_model:
  obtains w where "(plane_step (\<lambda>x. x))\<^sup>*\<^sup>* new_planes w"
    "shows_as w [''usr_01'' \<mapsto> eve] demo_catalog (demo_ring\<lparr>Keys := Map.empty\<rparr>)"
proof -
  let ?c = "empty_catalog\<lparr>Providers := [''prv_01'' \<mapsto> umbra]\<rparr>" and ?a = "empty_ring\<lparr>Subjects := [''usr_01'' \<mapsto> subjectForUser eve False]\<rparr>"
  obtain w1 where w1: "(plane_step (\<lambda>x. x))\<^sup>*\<^sup>* new_planes w1" "shows_as w1 [''usr_01'' \<mapsto> eve] empty_catalog ?a" by (rule demo_user)
  have pin: "normalizeProviderInput (rs_lib direct) \<lparr>PI_Slug = ''umbra'', PI_Name = ''Umbra'', PI_Kind = ProviderKindGemini,
        PI_AdapterAppID = ''umbra-adapter'', PI_Status = StatusActive\<rparr> = Inr \<lparr>PI_Slug = ''umbra'', PI_Name = ''Umbra'',
        PI_Kind = ProviderKindGemini, PI_AdapterAppID = ''umbra-adapter'', PI_Status = StatusActive\<rparr>"
    and prid: "NewID ''prv'' (Inr [1]) = Inr (Provider_ID umbra)" by code_simp+
  have p: "create_spec ProviderCodec Provider_ID (providerLookups (\<lambda>x. x)) umbra (Providers empty_catalog) =
      (Inr (), [''prv_01'' \<mapsto> umbra])"
    by (simp add: create_spec_def taken_def umbra_def encode_def ProviderCodec_def empty_catalog_def)
  obtain w2 where w2: "shows_as w2 [''usr_01'' \<mapsto> eve] ?c ?a" "plane_step (\<lambda>x. x) w1 w2"
    by (rule run_CreateProvider [OF w1(2) pin prid _ p, where now = 0]) (simp add: umbra_def)
  have prov: "repo_GetProvider MemoryStore ''prv_01'' (w_providers w2) = Inr umbra"
    using w2(1) GetProvider_outcome [OF holds_catalogD(1), of "\<lambda>x. x" ?c] by (simp add: shows_as_def)
  have mi: "normalizeModelInput MemoryStore \<lparr>MI_Alias = ''lark'', MI_ProviderID = ''prv_01'', MI_UpstreamModel = '''', MI_Status = StatusActive\<rparr>
      (w_providers w2) = Inr \<lparr>MI_Alias = ''lark'', MI_ProviderID = ''prv_01'', MI_UpstreamModel = '''', MI_Status = StatusActive\<rparr>"
    by (simp add: normalizeModelInput_def ContainsAny_def normalizeStatus_def modelAliasPattern_def validateStatus_def validStatus_def
        is_label_char_def is_lower_def is_upper_def is_digit_def byte_def prov umbra_def)
  have mid: "NewID ''mdl'' (Inr [1]) = Inr (Model_ID lark)" by code_simp
  have m: "create_model_check (\<lambda>x. x) lark ?c = Inr ()"
    by (simp add: create_model_check_def empty_catalog_def lark_def umbra_def taken_def require_def encode_def
        ensureProviderCanBackModel_def ModelCodec_def ProviderCodec_def)
  have sync: "sync_model_check (modelSubjectFor lark False) ?a = Inr ()"
    by (simp add: sync_model_check_def model_faults_def update_model_check_def model_conflicts_def replayed_model_def
        encode_def ModelSubjectCodec_def empty_ring_def modelSubjectFor_def lark_def)
  have put: "put_model lark ?c = demo_catalog" "put_model_subject (modelSubjectFor lark False) ?a = demo_ring\<lparr>Keys := Map.empty\<rparr>"
    by (simp_all add: put_model_def demo_catalog_def put_model_subject_def replayed_model_def empty_ring_def demo_ring_def
        empty_catalog_def modelSubjectFor_def lark_def)
  obtain w3 where "shows_as w3 [''usr_01'' \<mapsto> eve] (put_model lark ?c) (put_model_subject (modelSubjectFor lark False) ?a)"
    "plane_step (\<lambda>x. x) w2 w3"
    by (rule run_CreateModel [OF w2(1) mi mid _ m sync, where now = 0]) (simp only: lark_def Model.select_convs ModelInput.select_convs)
  then show thesis unfolding put
    using that [OF rtranclp.rtrancl_into_rtrancl [OF rtranclp.rtrancl_into_rtrancl [OF w1(1) w2(2)]]] by blast
qed


definition laptop_input :: VirtualKeyInput where
  "laptop_input = \<lparr>KI_Name = ''laptop'', KI_UserID = ''usr_01'', KI_ModelIDs = [''mdl_01''], KI_Status = StatusActive, KI_ExpiresAt = None\<rparr>"

lemma demo_key:
  obtains w w' where "(plane_step (\<lambda>x. x))\<^sup>*\<^sup>* new_planes w" "shows_as w [''usr_01'' \<mapsto> eve] demo_catalog (demo_ring\<lparr>Keys := Map.empty\<rparr>)"
    "svc_CreateVirtualKey (\<lambda>x. x) MemoryStore (Inr [1, 2, 3]) (Inr [1]) 0 0 laptop_input (w_registry w) =
      (Inr \<lparr>CVK_VirtualKey = Public eve_key, CVK_Key = ''gwai_AQID''\<rparr>, w_registry w')"
    "(plane_step (\<lambda>x. x))\<^sup>*\<^sup>* new_planes w'" "shows_as w' [''usr_01'' \<mapsto> eve] demo_catalog demo_ring"
proof -
  let ?a = "demo_ring\<lparr>Keys := Map.empty\<rparr>"
  obtain w where w: "(plane_step (\<lambda>x. x))\<^sup>*\<^sup>* new_planes w" "shows_as w [''usr_01'' \<mapsto> eve] demo_catalog ?a" by (rule demo_model)
  then have h: "holds_keyring (\<lambda>x. x) ?a (contents (w_registry w))" by (simp add: shows_as_def)
  have subj: "repo_GetSubject MemoryStore ''usr_01'' (w_registry w) = Inr (subjectForUser eve False)"
    "repo_GetModelSubject MemoryStore ''mdl_01'' (w_registry w) = Inr (modelSubjectFor lark False)"
    by (simp_all add: GetSubject_outcome [OF h] GetModelSubject_outcome [OF h] demo_ring_def)
  have name: "validateName ''laptop'' = Inr ()" by code_simp
  have ki: "normalizeInput MemoryStore 0 laptop_input (w_registry w) = Inr laptop_input"
    by (simp add: name normalizeInput_def laptop_input_def validateStatus_def validStatus_def normalizeStatus_def subj
        eve_def lark_def)
  have secret: "generateKey (Inr [1, 2, 3]) = Inr ''gwai_AQID''" by (simp add: generateKey_def base64_url_def)
  have kid: "NewID ''key'' (Inr [1]) = Inr (VK_ID eve_key)" by code_simp
  have k: "create_key_check (\<lambda>x. x) eve_key ?a = Inr ()"
    by (simp add: create_key_check_def taken_def owner_faults_def models_check_def
        modelIDSet_def all_ids_def backing_faults_def encode_def VirtualKeyCodec_def touch_subject_check_def
        touch_models_check_def KeySubjectCodec_def ModelSubjectCodec_def demo_ring_def
        eve_key_def subjectForUser_def modelSubjectFor_def eve_def lark_def)
  have put: "put_key eve_key ?a = demo_ring" by (simp add: put_key_def demo_ring_def eve_key_def)
  obtain w' where w': "svc_CreateVirtualKey (\<lambda>x. x) MemoryStore (Inr [1, 2, 3]) (Inr [1]) 0 0 laptop_input (w_registry w) =
      (Inr \<lparr>CVK_VirtualKey = Public eve_key, CVK_Key = ''gwai_AQID''\<rparr>, w_registry w')"
    "shows_as w' [''usr_01'' \<mapsto> eve] demo_catalog (put_key eve_key ?a)" "plane_step (\<lambda>x. x) w w'"
    by (rule run_CreateVirtualKey [OF w(2) ki secret kid _ k, where now' = 0]) (simp_all add: eve_key_def laptop_input_def hashKey_def)
  show thesis
    by (rule that [OF w w'(1)]) (use w(1) w'(2,3) put in \<open>auto intro: rtranclp.rtrancl_into_rtrancl\<close>)
qed

lemma demo_usable: "usable_model (\<lambda>x. x) demo_ring demo_catalog ''lark'' lark" "usable_key (\<lambda>x. x) demo_ring now ''gwai_AQID'' eve_key"
  by (simp_all add: usable_model_def usable_key_def demo_ring_def demo_catalog_def lark_def eve_key_def eve_def hashKey_def
      modelSubjectFor_def subjectForUser_def)

lemma demo_authorized:
  assumes "shows_as w R demo_catalog demo_ring"
  shows "Authorize (memory_runtime (\<lambda>x. x)) now ''gwai_AQID'' ''lark'' (w_registry w) (w_providers w) =
    Inr \<lparr>Auth_KeyID = ''key_01'', Auth_UserID = ''usr_01''\<rparr>"
proof -
  from assms have h: "holds_keyring (\<lambda>x. x) demo_ring (contents (w_registry w))" "holds_catalog (\<lambda>x. x) demo_catalog (contents (w_providers w))"
    by (simp_all add: shows_as_def)
  have "authorized (\<lambda>x. x) demo_ring demo_catalog now ''gwai_AQID'' ''lark'' \<lparr>Auth_KeyID = ''key_01'', Auth_UserID = ''usr_01''\<rparr>"
    unfolding authorized_def using demo_usable by (fastforce simp: eve_key_def lark_def)
  then show ?thesis unfolding Authorize_iff [OF h] .
qed

lemma grant_has_live_resources:
  assumes ok: "planes_ok H w R c a"
    and grant: "Authorize (memory_runtime H) now token requested (w_registry w) (w_providers w) = Inr auth"
  shows "\<exists>user key model provider.
      repo_GetUser MemoryStore (Auth_UserID auth) (w_users w) = Inr user \<and> User_Status user = StatusActive
    \<and> repo_GetVirtualKey MemoryStore (Auth_KeyID auth) (w_registry w) = Inr key \<and> VK_UserID key = Auth_UserID auth
    \<and> repo_GetModelByAlias H MemoryStore requested (w_providers w) = Inr model \<and> Model_Status model = StatusActive
    \<and> Model_ID model \<in> set (VK_ModelIDs key)
    \<and> repo_GetProvider MemoryStore (Model_ProviderID model) (w_providers w) = Inr provider"
proof -
  from ok have h: "holds_users H R (contents (w_users w))" "holds_catalog H c (contents (w_providers w))" "no_orphans c"
    "holds_keyring H a (contents (w_registry w))" "users_projected R a"
    by (simp_all add: planes_ok_def good_ring_def)
  from grant obtain key model where k: "usable_key H a now token key" and m: "usable_model H a c requested model"
    and lists: "Model_ID model \<in> set (VK_ModelIDs key)" and auth: "auth = \<lparr>Auth_KeyID = VK_ID key, Auth_UserID = VK_UserID key\<rparr>"
    unfolding Authorize_iff [OF h(4,2)] authorized_def by blast
  from k h(5) obtain user where "R (VK_UserID key) = Some user" "User_Status user = StatusActive"
    unfolding usable_key_def users_projected_def by blast
  moreover from k obtain i where i: "Keys a i = Some key" by (auto simp: usable_key_def ran_def)
  moreover from this have "VK_ID key = i"
    using mem.keys.represents_id [OF holds_keyringD(1) [OF h(4), unfolded holds_keys_def]] by blast
  moreover from m h(3) obtain provider where "Providers c (Model_ProviderID model) = Some provider"
    by (fastforce simp: usable_model_def no_orphans_def)
  moreover note m lists
  ultimately show ?thesis
    by (intro exI [of _ user] exI [of _ key] exI [of _ model] exI [of _ provider])
      (simp add: auth GetUser_outcome [OF h(1)] GetVirtualKey_outcome [OF h(4)] GetModelByAlias_outcome [OF h(2)]
        GetProvider_outcome [OF holds_catalogD(1) [OF h(2)]] usable_model_def)
qed

section \<open>Properties\<close>

text \<open>
  C1: A granted request has live resources behind it. In every state that the services can reach from
  empty stores, over a link that may lose requests and answers, when Authorize grants a request then
  the user it is granted to is stored in the user store and active, the requested alias names a stored
  active model that the key lists, and the provider of that model is stored.
\<close>

theorem Authorize_has_live_resources:
  assumes reach: "(plane_step H)\<^sup>*\<^sup>* new_planes w"
    and grant: "Authorize (memory_runtime H) now token requested (w_registry w) (w_providers w) = Inr auth"
  shows "\<exists>user key model provider.
      repo_GetUser MemoryStore (Auth_UserID auth) (w_users w) = Inr user \<and> User_Status user = StatusActive
    \<and> repo_GetVirtualKey MemoryStore (Auth_KeyID auth) (w_registry w) = Inr key \<and> VK_UserID key = Auth_UserID auth
    \<and> repo_GetModelByAlias H MemoryStore requested (w_providers w) = Inr model \<and> Model_Status model = StatusActive
    \<and> Model_ID model \<in> set (VK_ModelIDs key)
    \<and> repo_GetProvider MemoryStore (Model_ProviderID model) (w_providers w) = Inr provider"
  using reachable_kept [OF reach] grant_has_live_resources [OF _ grant] by metis

theorem Authorize_has_live_resources_witness:
  "\<exists>w user. (plane_step (\<lambda>x. x))\<^sup>*\<^sup>* new_planes w
     \<and> Authorize (memory_runtime (\<lambda>x. x)) 7 ''gwai_AQID'' ''lark'' (w_registry w) (w_providers w) = Inr \<lparr>Auth_KeyID = ''key_01'', Auth_UserID = ''usr_01''\<rparr>
     \<and> repo_GetUser MemoryStore ''usr_01'' (w_users w) = Inr user \<and> User_Status user = StatusActive"
proof -
  obtain w where w: "(plane_step (\<lambda>x. x))\<^sup>*\<^sup>* new_planes w" "shows_as w [''usr_01'' \<mapsto> eve] demo_catalog demo_ring"
    by (rule demo_key)
  from Authorize_has_live_resources [OF w(1) demo_authorized [OF w(2), where now = 7]] w(1) demo_authorized [OF w(2), where now = 7]
  show ?thesis by auto
qed


text \<open>
  C4: A new key works. When CreateVirtualKey returns a key, the returned secret is accepted at once:
  Authorize grants it every usable model that the returned key lists, provided the key was created active
  and has not expired at the time of the request, and the grant names the key and its owner.
\<close>

theorem created_key_authorizes:
  assumes A: "holds_keyring H a (contents sk)" and C: "holds_catalog H c (contents sp)"
    and run: "svc_CreateVirtualKey H MemoryStore random random' now1 now2 input sk = (Inr created, sk')"
    and active: "PVK_Status (CVK_VirtualKey created) = StatusActive"
    and unexpired: "\<forall>t. PVK_ExpiresAt (CVK_VirtualKey created) = Some t \<longrightarrow> After t now"
    and model: "usable_model H a c requested model" "Model_ID model \<in> set (PVK_ModelIDs (CVK_VirtualKey created))"
  shows "Authorize (memory_runtime H) now (CVK_Key created) requested sk' sp =
    Inr \<lparr>Auth_KeyID = PVK_ID (CVK_VirtualKey created), Auth_UserID = PVK_UserID (CVK_VirtualKey created)\<rparr>"
proof -
  from run obtain key secret where stored: "repo_CreateVirtualKey H MemoryStore key sk = (Inr (), sk')"
    and created: "created = \<lparr>CVK_VirtualKey = Public key, CVK_Key = secret\<rparr>" and hash: "VK_KeyHash key = hashKey H secret"
    and secret: "generateKey random = Inr secret"
    by (auto simp: svc_CreateVirtualKey_def sbind_def sreturn_def sread_def Let_def split: prod.splits sum.splits)
  obtain r' a' where spec: "guarded (create_key_check H key a) (put_key key) a = (r', a')" by force
  from mem.CreateVirtualKey_refines [OF A stored spec] have ok: "create_key_check H key a = Inr ()" and a': "a' = put_key key a"
    and A': "holds_keyring H (put_key key a) (contents sk')" using spec by (auto simp: guarded_def split: if_splits)
  have "\<exists>x. Subjects a (VK_UserID key) = Some x \<and> KS_Status x = StatusActive \<and> \<not> KS_Deleted x"
    using ok active
    by (cases "Subjects a (VK_UserID key)")
      (auto simp: create_key_check_def owner_faults_def created Public_def split: if_splits)
  moreover have "secret \<noteq> []" using secret by (auto simp: generateKey_def)
  moreover have "key \<in> ran (Keys (put_key key a))" by (auto simp: put_key_def ran_def)
  ultimately have "usable_key H (put_key key a) now secret key"
    using active unexpired by (simp add: usable_key_def put_key_def hash created Public_def)
  moreover have "usable_model H (put_key key a) c requested model" using model by (simp add: usable_model_def put_key_def)
  ultimately have "authorized H (put_key key a) c now secret requested \<lparr>Auth_KeyID = VK_ID key, Auth_UserID = VK_UserID key\<rparr>"
    unfolding authorized_def using model(2) by (auto simp: created Public_def)
  then show ?thesis unfolding Authorize_iff [OF A' C, symmetric] by (simp add: created Public_def)
qed

theorem created_key_authorizes_witness:
  "\<exists>sk sk' sp. svc_CreateVirtualKey (\<lambda>x. x) MemoryStore (Inr [1, 2, 3]) (Inr [1]) 0 0 laptop_input sk =
       (Inr \<lparr>CVK_VirtualKey = Public eve_key, CVK_Key = ''gwai_AQID''\<rparr>, sk')
     \<and> Authorize (memory_runtime (\<lambda>x. x)) 7 ''gwai_AQID'' ''lark'' sk' sp = Inr \<lparr>Auth_KeyID = ''key_01'', Auth_UserID = ''usr_01''\<rparr>"
proof -
  obtain w w' :: planes where w: "shows_as w [''usr_01'' \<mapsto> eve] demo_catalog (demo_ring\<lparr>Keys := Map.empty\<rparr>)"
    and run: "svc_CreateVirtualKey (\<lambda>x. x) MemoryStore (Inr [1, 2, 3]) (Inr [1]) 0 0 laptop_input (w_registry w) =
      (Inr \<lparr>CVK_VirtualKey = Public eve_key, CVK_Key = ''gwai_AQID''\<rparr>, w_registry w')"
    by (rule demo_key, rule that)
  have m: "usable_model (\<lambda>x. x) (demo_ring\<lparr>Keys := Map.empty\<rparr>) demo_catalog ''lark'' lark"
    using demo_usable(1) by (auto simp: usable_model_def)
  have "Authorize (memory_runtime (\<lambda>x. x)) 7 ''gwai_AQID'' ''lark'' (w_registry w') (w_providers w) =
      Inr \<lparr>Auth_KeyID = ''key_01'', Auth_UserID = ''usr_01''\<rparr>"
    using created_key_authorizes [OF _ _ run _ _ m, where sp = "w_providers w" and now = 7] w
    by (simp add: shows_as_def Public_def eve_key_def lark_def)
  then show ?thesis using run by blast
qed

lemma updateUser_stored:
  assumes "plane H rs" "holds_users H R (contents (w_users w))" "svc_updateUser rs now rid ui pre w = (Inr user, w')"
  shows "\<exists>R'. holds_users H R' (contents (w_users w')) \<and> R' rid = Some user"
proof -
  have rs: "rs_users rs = MemoryStore" "rs_hash rs = H" using assms(1) by (simp_all add: plane_def)
  from assms(3) obtain old where old: "repo_GetUser MemoryStore rid (w_users w) = Inr old" and user: "User_ID user = User_ID old"
    and run: "repo_ReplaceUser H MemoryStore old user (w_users w) = (Inr (), w_users w')"
    unfolding svc_updateUser_def rs
    by (auto simp: sbind_Inr swrapf_iff Let_def sread_def on_users_def on_registry_def sreturn_def split: if_splits prod.splits)
  from old have "User_ID old = rid" using users_ids [OF assms(2)] by (auto simp: GetUser_outcome [OF assms(2)] split: option.splits)
  moreover obtain r' R' where spec: "replace_spec UserCodec User_ID (userLookups H) old user R = (r', R')" by force
  ultimately show ?thesis
    using ReplaceUser_refines [OF assms(2) run spec] replace_spec_result [OF spec] user by auto
qed

lemma deleteUser_gone:
  assumes "plane H rs" "holds_users H R (contents (w_users w))" "svc_deleteUser rs now rid pre w = (Inr u, w')"
  shows "\<exists>R'. holds_users H R' (contents (w_users w')) \<and> R' rid = None"
proof -
  have rs: "rs_users rs = MemoryStore" "rs_hash rs = H" using assms(1) by (simp_all add: plane_def)
  from assms(3) obtain old where old: "repo_GetUser MemoryStore rid (w_users w) = Inr old"
    and run: "repo_DeleteUser H MemoryStore old (w_users w) = (Inr (), w_users w')"
    unfolding svc_deleteUser_def rs
    by (auto simp: sbind_Inr Let_def sread_def sreturn_def)
  from old have "User_ID old = rid" using users_ids [OF assms(2)] by (auto simp: GetUser_outcome [OF assms(2)] split: option.splits)
  moreover obtain r' R' where spec: "delete_spec User_ID old R = (r', R')" by force
  ultimately show ?thesis
    using DeleteUser_refines [OF assms(2) run spec] delete_spec_result [OF spec] by auto
qed


lemma granted_user_active:
  assumes ok: "planes_ok H w R c a" and "Authorize (memory_runtime H) now token requested (w_registry w) (w_providers w) = Inr auth"
  shows "\<exists>user. repo_GetUser MemoryStore (Auth_UserID auth) (w_users w) = Inr user \<and> User_Status user = StatusActive"
proof -
  from ok have h: "holds_users H R (contents (w_users w))" "holds_catalog H c (contents (w_providers w))"
    "holds_keyring H a (contents (w_registry w))" "users_projected R a"
    by (simp_all add: planes_ok_def good_ring_def)
  from assms(2) h(4) obtain user where "R (Auth_UserID auth) = Some user" "User_Status user = StatusActive"
    unfolding Authorize_iff [OF h(3,2)] authorized_def usable_key_def users_projected_def by fastforce
  then show ?thesis by (simp add: GetUser_outcome [OF h(1)])
qed

text \<open>
  C2: Revocation is immediate. When an update that disables a user, or a deletion of a user, returns
  success, then in the state it leaves no token whatsoever is authorized as that user.
\<close>

theorem revoked_user_is_denied:
  assumes reach: "(plane_step H)\<^sup>*\<^sup>* new_planes w" and rs: "plane H rs"
    and revoked: "(\<exists>user. svc_updateUser rs now rid ui pre w = (Inr user, w') \<and> User_Status user = StatusDisabled)
      \<or> svc_deleteUser rs now rid pre w = (Inr (), w')"
    and grant: "Authorize (memory_runtime H) later token requested (w_registry w') (w_providers w') = Inr auth"
  shows "Auth_UserID auth \<noteq> rid"
proof
  assume rid: "Auth_UserID auth = rid"
  from revoked have "plane_step H w w'" using ps_updateUser [OF rs] ps_deleteUser [OF rs] by blast
  with reach have "(plane_step H)\<^sup>*\<^sup>* new_planes w'" by (rule rtranclp.rtrancl_into_rtrancl)
  from reachable_kept [OF this] obtain R' c a where "planes_ok H w' R' c a" .
  from granted_user_active [OF this grant] obtain user where
    u: "repo_GetUser MemoryStore rid (w_users w') = Inr user" "User_Status user = StatusActive" unfolding rid by blast
  from reachable_kept [OF reach] obtain R d b where "planes_ok H w R d b" .
  then have h: "holds_users H R (contents (w_users w))" by (simp add: planes_ok_def)
  from revoked obtain R' where "holds_users H R' (contents (w_users w'))" "R' rid = None \<or> (\<exists>x. R' rid = Some x \<and> User_Status x = StatusDisabled)"
    using updateUser_stored [OF rs h] deleteUser_gone [OF rs h] by metis
  with u show False by (auto simp: GetUser_outcome split: option.splits)
qed

lemma run_disable:
  assumes w: "shows_as w [''usr_01'' \<mapsto> eve] c a" and sub: "Subjects a ''usr_01'' = Some (subjectForUser eve False)"
  obtains w' where "svc_updateUser direct 1 ''usr_01'' \<lparr>UI_Name = ''Eve'', UI_Email = ''eve@example.com'', UI_Status = StatusDisabled\<rparr>
      no_precondition w = (Inr (eve\<lparr>User_Status := StatusDisabled, User_Revision := 2, User_UpdatedAt := 1\<rparr>), w')"
proof -
  let ?u = "eve\<lparr>User_Status := StatusDisabled, User_Revision := 2, User_UpdatedAt := 1\<rparr>"
  from w have h: "holds_users (\<lambda>x. x) [''usr_01'' \<mapsto> eve] (contents (w_users w))" "holds_keyring (\<lambda>x. x) a (contents (w_registry w))"
    by (simp_all add: shows_as_def)
  have old: "repo_GetUser MemoryStore ''usr_01'' (w_users w) = Inr eve" by (simp add: GetUser_outcome [OF h(1)])
  have input: "normalizeUserInput (rs_lib direct) \<lparr>UI_Name = ''Eve'', UI_Email = ''eve@example.com'', UI_Status = StatusDisabled\<rparr> =
      Inr \<lparr>UI_Name = ''Eve'', UI_Email = ''eve@example.com'', UI_Status = StatusDisabled\<rparr>" by code_simp
  have u: "eve\<lparr>User_Name := ''Eve'', User_Email := ''eve@example.com'', User_Status := StatusDisabled, User_Revision := User_Revision eve + 1,
      User_UpdatedAt := 1\<rparr> = ?u" by (simp add: eve_def)
  have time: "marshalable_time 1" "\<not> IsZero 1"
    by (simp_all add: marshalable_time_def nanosecond_per_second_def IsZero_def zero_time_def)
  have check: "sync_subject_check (subjectForUser ?u False) a = Inr ()" using sub
    by (simp add: sync_subject_check_def subject_faults_def update_subject_check_def subject_conflicts_def replayed_subject_def
        encode_def KeySubjectCodec_def subjectForUser_def eve_def time)
  obtain r1 s1 where s1: "repo_SyncSubject MemoryStore (subjectForUser ?u False) (w_registry w) = (r1, s1)" by force
  have o1: "r1 = Inr ()" using mem.SyncSubject_refines [OF h(2) s1] check by (simp add: guarded_def)
  have spec: "replace_spec UserCodec User_ID (userLookups (\<lambda>x. x)) eve ?u [''usr_01'' \<mapsto> eve] = (Inr (), [''usr_01'' \<mapsto> ?u])"
    by (simp add: replace_spec_def taken_by_other_def eve_def encode_def UserCodec_def time)
  obtain r2 s2 where s2: "repo_ReplaceUser (\<lambda>x. x) MemoryStore eve ?u (w_users w) = (r2, s2)" by force
  have o2: "r2 = Inr ()" using ReplaceUser_refines [OF h(1) s2 spec] by simp
  have d: "rs_users direct = MemoryStore" "rs_hash direct = (\<lambda>x. x)" "reg_SyncSubject (rs_subjects direct) = svc_SyncSubject MemoryStore"
    by (simp_all add: direct_def)
  show thesis
    by (rule that [of "w\<lparr>w_registry := s1, w_users := s2\<rparr>"])
      (simp add: svc_updateUser_def sbind_def sreturn_def sread_def swrapf_def on_users_def on_registry_def Let_def d old input u
        enforceIfMatch_absent svc_SyncSubject_def s1 o1 s2 o2)
qed

theorem revoked_user_is_denied_witness:
  "\<exists>w w' user. svc_updateUser direct 1 ''usr_01'' \<lparr>UI_Name = ''Eve'', UI_Email = ''eve@example.com'', UI_Status = StatusDisabled\<rparr>
        no_precondition w = (Inr user, w')
     \<and> Authorize (memory_runtime (\<lambda>x. x)) 7 ''gwai_AQID'' ''lark'' (w_registry w) (w_providers w) = Inr \<lparr>Auth_KeyID = ''key_01'', Auth_UserID = ''usr_01''\<rparr>
     \<and> Authorize (memory_runtime (\<lambda>x. x)) 7 ''gwai_AQID'' ''lark'' (w_registry w') (w_providers w') \<noteq> Inr \<lparr>Auth_KeyID = ''key_01'', Auth_UserID = ''usr_01''\<rparr>"
proof -
  obtain w where w: "(plane_step (\<lambda>x. x))\<^sup>*\<^sup>* new_planes w" "shows_as w [''usr_01'' \<mapsto> eve] demo_catalog demo_ring"
    by (rule demo_key)
  obtain w' where run: "svc_updateUser direct 1 ''usr_01'' \<lparr>UI_Name = ''Eve'', UI_Email = ''eve@example.com'', UI_Status = StatusDisabled\<rparr>
      no_precondition w = (Inr (eve\<lparr>User_Status := StatusDisabled, User_Revision := 2, User_UpdatedAt := 1\<rparr>), w')"
    by (rule run_disable [OF w(2)]) (simp add: demo_ring_def)
  have "Auth_UserID auth \<noteq> ''usr_01''"
    if "Authorize (memory_runtime (\<lambda>x. x)) 7 ''gwai_AQID'' ''lark'' (w_registry w') (w_providers w') = Inr auth" for auth
    by (rule revoked_user_is_denied [OF w(1) plane_direct _ that]) (use run in auto)
  then show ?thesis using run demo_authorized [OF w(2), where now = 7] by fastforce
qed

end
