(* ===== verification/IR.thy ===== *)
theory IR
  imports Complex_Main Resources
begin

text \<open>
  Package \<^verbatim>\<open>internal/ir\<close>: the provider-neutral request and response (\<^verbatim>\<open>types.go\<close>) and their validation
  (\<^verbatim>\<open>validate.go\<close>). A nil pointer is \<open>None\<close>; a nil slice and an empty one are both \<open>[]\<close>, which no
  function of the package tells apart. A finite \<^verbatim>\<open>float64\<close> is the rational it denotes. The result of
  \<^verbatim>\<open>url.ParseRequestURI\<close> is an argument of the definitions that use it.
\<close>

section \<open>Library functions\<close>

record URL =
  URL_Scheme :: string
  URL_Host :: string
  URL_User :: "string option"
  URL_RawQuery :: string
  URL_Fragment :: string

type_synonym url_parser = "string \<Rightarrow> URL option"

definition is_base64_char :: "char \<Rightarrow> bool" where
  "is_base64_char c \<longleftrightarrow> is_upper c \<or> is_lower c \<or> is_digit c \<or> c = CHR ''+'' \<or> c = CHR ''/''"

text \<open>Whether \<^verbatim>\<open>base64.StdEncoding.DecodeString\<close> succeeds: line ends are skipped, the rest is quanta of
  four with padding in the last one.\<close>

fun base64_quanta :: "string \<Rightarrow> bool" where
  "base64_quanta [] = True"
| "base64_quanta (a # b # c # d # s) =
     (is_base64_char a \<and> is_base64_char b \<and>
      (if is_base64_char c then if is_base64_char d then base64_quanta s else d = CHR ''='' \<and> s = []
       else c = CHR ''='' \<and> d = CHR ''='' \<and> s = []))"
| "base64_quanta _ = False"

definition base64_valid :: "string \<Rightarrow> bool" where
  "base64_valid s = base64_quanta (filter (\<lambda>c. c \<noteq> CHR 0x0A \<and> c \<noteq> CHR 0x0D) s)"

section \<open>\<^verbatim>\<open>types.go\<close>\<close>

definition Version :: string where "Version = ''2026-07-12''"

abbreviation RoleSystem :: string where "RoleSystem \<equiv> ''system''"
abbreviation RoleUser :: string where "RoleUser \<equiv> ''user''"
abbreviation RoleAssistant :: string where "RoleAssistant \<equiv> ''assistant''"
abbreviation RoleTool :: string where "RoleTool \<equiv> ''tool''"
abbreviation ContentText :: string where "ContentText \<equiv> ''text''"
abbreviation ContentImage :: string where "ContentImage \<equiv> ''image''"
abbreviation ContentToolCall :: string where "ContentToolCall \<equiv> ''tool_call''"
abbreviation ContentToolResult :: string where "ContentToolResult \<equiv> ''tool_result''"
abbreviation FinishStop :: string where "FinishStop \<equiv> ''stop''"
abbreviation FinishLength :: string where "FinishLength \<equiv> ''length''"
abbreviation FinishToolCalls :: string where "FinishToolCalls \<equiv> ''tool_calls''"
abbreviation FinishContent :: string where "FinishContent \<equiv> ''content_filter''"

type_synonym float64 = rat

record Image =
  Image_URL :: string
  Image_MediaType :: string
  Image_Data :: string

record ToolCall =
  TC_ID :: string
  TC_Name :: string
  TC_Arguments :: RawMessage
  TC_Signature :: string

datatype Content =
  Content (C_Type: string) (C_Text: string) (C_Image: "Image option") (C_ToolCall: "ToolCall option") (C_ToolResult: "ToolResult option")
and ToolResult =
  ToolResult (TR_ToolCallID: string) (TR_Name: string) (TR_Content: "Content list") (TR_Result: RawMessage) (TR_IsError: bool)

record IRMessage =
  Msg_Role :: string
  Msg_Content :: "Content list"

record IRRoute =
  IRRoute_ProviderID :: string
  IRRoute_UpstreamModel :: string

record IRTool =
  Tool_Name :: string
  Tool_Description :: string
  Tool_InputSchema :: RawMessage
  Tool_Strict :: "bool option"

record IRToolChoice =
  Choice_Mode :: string
  Choice_Name :: string
  Choice_DisableParallel :: bool

record IRRequest =
  Req_Version :: string
  Req_ID :: string
  Req_Route :: IRRoute
  Req_Messages :: "IRMessage list"
  Req_MaxOutputTokens :: "int option"
  Req_Temperature :: "float64 option"
  Req_TopP :: "float64 option"
  Req_Stop :: "string list"
  Req_Tools :: "IRTool list"
  Req_ToolChoice :: "IRToolChoice option"
  Req_Metadata :: "(string \<times> json) list"
  Req_Stream :: bool

record IRUsage =
  Usage_InputTokens :: int
  Usage_OutputTokens :: int
  Usage_CacheCreationInputTokens :: int
  Usage_CachedInputTokens :: int

record IRResponse =
  Resp_Version :: string
  Resp_ID :: string
  Resp_Model :: string
  Resp_Content :: "Content list"
  Resp_FinishReason :: string
  Resp_StopSequence :: string
  Resp_Usage :: IRUsage
  Resp_ProviderResponseID :: string

section \<open>\<^verbatim>\<open>validate.go\<close>\<close>

abbreviation failf :: "string \<Rightarrow> string list \<Rightarrow> error" where
  "failf format args \<equiv> Errorf format args []"

fun isJSONObject :: "RawMessage \<Rightarrow> bool" where
  "isJSONObject (Some (JObj _)) = True"
| "isJSONObject _ = False"

definition image_types :: "string list" where
  "image_types = [''image/jpeg'', ''image/png'', ''image/gif'', ''image/webp'']"

definition image_Validate :: "url_parser \<Rightarrow> Image option \<Rightarrow> unit result" where
  "image_Validate parse img =
     (case img of
        None \<Rightarrow> Inl (failf ''image payload is required'' [])
      | Some i \<Rightarrow>
          let hasURL = (Image_URL i \<noteq> '''');
              hasInlineField = (Image_MediaType i \<noteq> '''' \<or> Image_Data i \<noteq> '''') in
          if hasURL = hasInlineField then Inl (failf ''image requires exactly one of URL or media_type and base64 data'' [])
          else if hasURL then
            (case parse (Image_URL i) of
               None \<Rightarrow> Inl (failf ''image URL must be an absolute credential-free HTTP(S) URL'' [])
             | Some parsed \<Rightarrow>
                 fail_if ((URL_Scheme parsed \<noteq> ''http'' \<and> URL_Scheme parsed \<noteq> ''https'') \<or> URL_Host parsed = '''' \<or>
                     URL_User parsed \<noteq> None)
                   (failf ''image URL must be an absolute credential-free HTTP(S) URL'' []))
          else
            ebind (fail_if (Image_MediaType i = '''' \<or> Image_Data i = '''')
              (failf ''inline image requires media_type and base64 data'' [])) (\<lambda>_.
            ebind (fail_if (Image_MediaType i \<notin> set image_types) (failf ''unsupported image media_type %q'' [Image_MediaType i])) (\<lambda>_.
            fail_if (\<not> base64_valid (Image_Data i)) (Errorf ''image data is not valid base64: %w'' [] [LibraryError ''illegal base64 data'']))))"

fun content_Validate :: "url_parser \<Rightarrow> Content \<Rightarrow> unit result"
  and nested_Validate :: "url_parser \<Rightarrow> nat \<Rightarrow> Content list \<Rightarrow> unit result" where
  "content_Validate parse (Content type text img toolCall toolResult) =
     (if type = ContentText then
        fail_if (img \<noteq> None \<or> toolCall \<noteq> None \<or> toolResult \<noteq> None)
          (failf ''text content contains a payload for another content type'' [])
      else if type = ContentImage then
        ebind (fail_if (text \<noteq> '''' \<or> toolCall \<noteq> None \<or> toolResult \<noteq> None)
          (failf ''image content contains a payload for another content type'' [])) (\<lambda>_.
        image_Validate parse img)
      else if type = ContentToolCall then
        ebind (fail_if (text \<noteq> '''' \<or> img \<noteq> None \<or> toolResult \<noteq> None)
          (failf ''tool_call content contains a payload for another content type'' [])) (\<lambda>_.
        case toolCall of
          None \<Rightarrow> Inl (failf ''tool_call requires id and name'' [])
        | Some call \<Rightarrow>
            ebind (fail_if (TC_ID call = '''' \<or> TC_Name call = '''') (failf ''tool_call requires id and name'' [])) (\<lambda>_.
            fail_if (\<not> isJSONObject (TC_Arguments call)) (failf ''tool_call arguments must be a JSON object'' [])))
      else if type = ContentToolResult then
        ebind (fail_if (text \<noteq> '''' \<or> img \<noteq> None \<or> toolCall \<noteq> None)
          (failf ''tool_result content contains a payload for another content type'' [])) (\<lambda>_.
        case toolResult of
          None \<Rightarrow> Inl (failf ''tool_result requires tool_call_id'' [])
        | Some (ToolResult callID name contents res isError) \<Rightarrow>
            ebind (fail_if (callID = '''') (failf ''tool_result requires tool_call_id'' [])) (\<lambda>_.
            ebind (fail_if (contents = [] \<and> res = None) (failf ''tool_result requires content or result'' [])) (\<lambda>_.
            ebind (fail_if (res \<noteq> None \<and> \<not> isJSONObject res) (failf ''tool_result result must be a JSON object'' [])) (\<lambda>_.
            nested_Validate parse 0 contents))))
      else Inl (failf ''unsupported content type %q'' [type]))"
| "nested_Validate parse index [] = Inr ()"
| "nested_Validate parse index (nested # contents) =
     ebind (fail_if (C_Type nested \<noteq> ContentText \<and> C_Type nested \<noteq> ContentImage)
       (failf ''tool_result content[%d] must be text or image'' [decimal index])) (\<lambda>_.
     ebind (content_Validate parse nested) (\<lambda>_.
     nested_Validate parse (Suc index) contents))"

definition allowed_content :: "string \<Rightarrow> string \<Rightarrow> bool" where
  "allowed_content role type \<longleftrightarrow>
     (if role = RoleSystem then type = ContentText
      else if role = RoleUser then type = ContentText \<or> type = ContentImage
      else if role = RoleAssistant then type = ContentText \<or> type = ContentToolCall
      else if role = RoleTool then type = ContentToolResult
      else False)"

text \<open>The maps \<^verbatim>\<open>toolCalls\<close> and \<^verbatim>\<open>toolResults\<close> of the loop over the messages.\<close>

record tool_state =
  toolCalls :: "(string \<times> string) list"
  toolResults :: "string list"

definition at_content :: "nat \<Rightarrow> nat \<Rightarrow> string list \<Rightarrow> string list" where
  "at_content m c args = decimal m # decimal c # args"

definition track_call :: "nat \<Rightarrow> nat \<Rightarrow> Content \<Rightarrow> tool_state \<Rightarrow> tool_state result" where
  "track_call m c content t =
     (if C_Type content \<noteq> ContentToolCall then Inr t
      else case C_ToolCall content of
          None \<Rightarrow> Inl (LibraryError ''nil pointer dereference'')
        | Some call \<Rightarrow>
            if map_of (toolCalls t) (TC_ID call) \<noteq> None
            then Inl (failf ''messages[%d].content[%d]: tool_call id %q must be unique'' (at_content m c [TC_ID call]))
            else Inr (t\<lparr>toolCalls := (TC_ID call, TC_Name call) # toolCalls t\<rparr>))"

definition track_result :: "nat \<Rightarrow> nat \<Rightarrow> Content \<Rightarrow> tool_state \<Rightarrow> tool_state result" where
  "track_result m c content t =
     (if C_Type content \<noteq> ContentToolResult then Inr t
      else case C_ToolResult content of
          None \<Rightarrow> Inl (LibraryError ''nil pointer dereference'')
        | Some r \<Rightarrow>
            (let callID = TR_ToolCallID r in
             case map_of (toolCalls t) callID of
               None \<Rightarrow> Inl (failf ''messages[%d].content[%d]: tool_result references unknown prior tool_call %q'' (at_content m c [callID]))
             | Some name \<Rightarrow>
                 if TR_Name r \<noteq> '''' \<and> TR_Name r \<noteq> name
                 then Inl (failf ''messages[%d].content[%d]: tool_result name %q does not match tool_call name %q''
                   (at_content m c [TR_Name r, name]))
                 else if callID \<in> set (toolResults t)
                 then Inl (failf ''messages[%d].content[%d]: tool_call %q already has a result'' (at_content m c [callID]))
                 else Inr (t\<lparr>toolResults := callID # toolResults t\<rparr>)))"

fun contents_Validate :: "url_parser \<Rightarrow> nat \<Rightarrow> string \<Rightarrow> nat \<Rightarrow> Content list \<Rightarrow> tool_state \<Rightarrow> tool_state result" where
  "contents_Validate parse m role c [] t = Inr t"
| "contents_Validate parse m role c (content # contents) t =
     ebind (wrapf ''messages[%d].content[%d]: %w'' [decimal m, decimal c] (content_Validate parse content)) (\<lambda>_.
     ebind (fail_if (\<not> allowed_content role (C_Type content))
       (failf ''messages[%d].content[%d]: content type %q is not allowed for role %q'' (at_content m c [C_Type content, role]))) (\<lambda>_.
     ebind (track_call m c content t) (\<lambda>t1.
     ebind (track_result m c content t1) (\<lambda>t2.
     contents_Validate parse m role (Suc c) contents t2))))"

fun messages_Validate :: "url_parser \<Rightarrow> nat \<Rightarrow> IRMessage list \<Rightarrow> bool \<Rightarrow> tool_state \<Rightarrow> bool result" where
  "messages_Validate parse m [] seenNonSystem t = Inr seenNonSystem"
| "messages_Validate parse m (message # messages) seenNonSystem t =
     ebind (fail_if (Msg_Role message \<notin> {RoleSystem, RoleUser, RoleAssistant, RoleTool})
       (failf ''messages[%d] has unsupported role %q'' [decimal m, Msg_Role message])) (\<lambda>_.
     ebind (fail_if (Msg_Content message = []) (failf ''messages[%d] must contain at least one content part'' [decimal m])) (\<lambda>_.
     ebind (fail_if (Msg_Role message = RoleSystem \<and> seenNonSystem)
       (failf ''messages[%d]: system messages must precede all other messages'' [decimal m])) (\<lambda>_.
     ebind (contents_Validate parse m (Msg_Role message) 0 (Msg_Content message) t) (\<lambda>t'.
     messages_Validate parse (Suc m) messages (seenNonSystem \<or> Msg_Role message \<noteq> RoleSystem) t'))))"

fun stops_Validate :: "nat \<Rightarrow> string list \<Rightarrow> unit result" where
  "stops_Validate index [] = Inr ()"
| "stops_Validate index (stop # stops) =
     ebind (fail_if (stop = '''') (failf ''stop[%d] must not be empty'' [decimal index])) (\<lambda>_. stops_Validate (Suc index) stops)"

fun tools_Validate :: "nat \<Rightarrow> IRTool list \<Rightarrow> string list \<Rightarrow> string list result" where
  "tools_Validate index [] names = Inr names"
| "tools_Validate index (tool # tools) names =
     ebind (fail_if (TrimSpace (Tool_Name tool) = '''') (failf ''tools[%d].name is required'' [decimal index])) (\<lambda>_.
     ebind (fail_if (\<not> isJSONObject (Tool_InputSchema tool)) (failf ''tools[%d].input_schema must be a JSON object'' [decimal index])) (\<lambda>_.
     ebind (fail_if (Tool_Name tool \<in> set names) (failf ''tools[%d].name must be unique'' [decimal index])) (\<lambda>_.
     tools_Validate (Suc index) tools (Tool_Name tool # names))))"

definition choice_Validate :: "IRTool list \<Rightarrow> string list \<Rightarrow> IRToolChoice option \<Rightarrow> unit result" where
  "choice_Validate tools names choice =
     (case choice of
        None \<Rightarrow> Inr ()
      | Some ch \<Rightarrow>
          if tools = [] then Inl (failf ''tool_choice requires at least one tool'' [])
          else if Choice_Mode ch \<in> {''auto'', ''none'', ''required''} then Inr ()
          else if Choice_Mode ch = ''named'' then
            ebind (fail_if (Choice_Name ch = '''') (failf ''named tool_choice requires a name'' [])) (\<lambda>_.
            fail_if (Choice_Name ch \<notin> set names) (failf ''named tool_choice references an unknown tool %q'' [Choice_Name ch]))
          else Inl (failf ''unsupported tool_choice mode %q'' [Choice_Mode ch]))"

definition outside_unit :: "float64 option \<Rightarrow> bool" where
  "outside_unit x \<longleftrightarrow> (case x of None \<Rightarrow> False | Some v \<Rightarrow> v < 0 \<or> v > 1)"

definition request_Validate :: "url_parser \<Rightarrow> IRRequest \<Rightarrow> unit result" where
  "request_Validate parse request =
     ebind (fail_if (Req_Version request \<noteq> Version) (failf ''unsupported IR version %q'' [Req_Version request])) (\<lambda>_.
     ebind (fail_if (Req_ID request = '''') (failf ''id is required'' [])) (\<lambda>_.
     ebind (fail_if (IRRoute_ProviderID (Req_Route request) = '''' \<or> IRRoute_UpstreamModel (Req_Route request) = '''')
       (failf ''route provider_id and upstream_model are required'' [])) (\<lambda>_.
     ebind (fail_if (Req_Messages request = []) (failf ''at least one message is required'' [])) (\<lambda>_.
     ebind (fail_if (case Req_MaxOutputTokens request of None \<Rightarrow> False | Some n \<Rightarrow> n \<le> 0)
       (failf ''max_output_tokens must be positive'' [])) (\<lambda>_.
     ebind (fail_if (outside_unit (Req_Temperature request))
       (failf ''temperature must be between 0 and 1 for the portable IR'' [])) (\<lambda>_.
     ebind (fail_if (outside_unit (Req_TopP request)) (failf ''top_p must be between 0 and 1'' [])) (\<lambda>_.
     ebind (fail_if (Req_Stream request) (failf ''streaming is not supported by IR version %s'' [Version])) (\<lambda>_.
     ebind (stops_Validate 0 (Req_Stop request)) (\<lambda>_.
     ebind (messages_Validate parse 0 (Req_Messages request) False \<lparr>toolCalls = [], toolResults = []\<rparr>) (\<lambda>seenNonSystem.
     ebind (fail_if (\<not> seenNonSystem) (failf ''at least one non-system message is required'' [])) (\<lambda>_.
     ebind (tools_Validate 0 (Req_Tools request) []) (\<lambda>names.
     choice_Validate (Req_Tools request) names (Req_ToolChoice request)))))))))))))"

fun response_contents_Validate :: "url_parser \<Rightarrow> nat \<Rightarrow> Content list \<Rightarrow> unit result" where
  "response_contents_Validate parse index [] = Inr ()"
| "response_contents_Validate parse index (content # contents) =
     ebind (fail_if (C_Type content \<noteq> ContentText \<and> C_Type content \<noteq> ContentImage \<and> C_Type content \<noteq> ContentToolCall)
       (failf ''content[%d] has unsupported response type %q'' [decimal index, C_Type content])) (\<lambda>_.
     ebind (wrapf ''content[%d]: %w'' [decimal index] (content_Validate parse content)) (\<lambda>_.
     response_contents_Validate parse (Suc index) contents))"

definition response_Validate :: "url_parser \<Rightarrow> IRResponse \<Rightarrow> unit result" where
  "response_Validate parse response =
     ebind (fail_if (Resp_Version response \<noteq> Version) (failf ''unsupported IR version %q'' [Resp_Version response])) (\<lambda>_.
     ebind (fail_if (Resp_ID response = '''' \<or> Resp_Model response = '''') (failf ''id and model are required'' [])) (\<lambda>_.
     ebind (fail_if (Resp_FinishReason response \<notin> {FinishStop, FinishLength, FinishToolCalls, FinishContent})
       (failf ''unsupported finish_reason %q'' [Resp_FinishReason response])) (\<lambda>_.
     ebind (response_contents_Validate parse 0 (Resp_Content response)) (\<lambda>_.
     fail_if (Usage_InputTokens (Resp_Usage response) < 0 \<or> Usage_OutputTokens (Resp_Usage response) < 0 \<or>
         Usage_CacheCreationInputTokens (Resp_Usage response) < 0 \<or> Usage_CachedInputTokens (Resp_Usage response) < 0)
       (failf ''usage token counts must not be negative'' [])))))"


section \<open>What is valid\<close>

definition valid_image :: "url_parser \<Rightarrow> Image \<Rightarrow> bool" where
  "valid_image parse i \<longleftrightarrow>
     (if Image_URL i \<noteq> '''' then Image_MediaType i = '''' \<and> Image_Data i = '''' \<and>
        (\<exists>u. parse (Image_URL i) = Some u \<and> URL_Scheme u \<in> {''http'', ''https''} \<and> URL_Host u \<noteq> '''' \<and> URL_User u = None)
      else Image_MediaType i \<in> set image_types \<and> Image_Data i \<noteq> '''' \<and> base64_valid (Image_Data i))"

text \<open>A part that carries text or an image, and nothing else.\<close>

definition valid_part :: "url_parser \<Rightarrow> Content \<Rightarrow> bool" where
  "valid_part parse c \<longleftrightarrow> C_ToolCall c = None \<and> C_ToolResult c = None \<and>
     (C_Type c = ContentText \<and> C_Image c = None \<or>
      C_Type c = ContentImage \<and> C_Text c = '''' \<and> (\<exists>i. C_Image c = Some i \<and> valid_image parse i))"

definition valid_call :: "ToolCall \<Rightarrow> bool" where
  "valid_call call \<longleftrightarrow> TC_ID call \<noteq> '''' \<and> TC_Name call \<noteq> '''' \<and> isJSONObject (TC_Arguments call)"

definition valid_result :: "url_parser \<Rightarrow> ToolResult \<Rightarrow> bool" where
  "valid_result parse r \<longleftrightarrow> TR_ToolCallID r \<noteq> '''' \<and> (TR_Content r \<noteq> [] \<or> TR_Result r \<noteq> None) \<and>
     (TR_Result r \<noteq> None \<longrightarrow> isJSONObject (TR_Result r)) \<and> (\<forall>c \<in> set (TR_Content r). valid_part parse c)"

definition valid_content :: "url_parser \<Rightarrow> Content \<Rightarrow> bool" where
  "valid_content parse c \<longleftrightarrow> valid_part parse c \<or>
     C_Text c = '''' \<and> C_Image c = None \<and>
     (C_Type c = ContentToolCall \<and> C_ToolResult c = None \<and> (\<exists>call. C_ToolCall c = Some call \<and> valid_call call) \<or>
      C_Type c = ContentToolResult \<and> C_ToolCall c = None \<and> (\<exists>r. C_ToolResult c = Some r \<and> valid_result parse r))"

definition call_of :: "Content \<Rightarrow> ToolCall option" where
  "call_of c = (if C_Type c = ContentToolCall then C_ToolCall c else None)"

definition result_of :: "Content \<Rightarrow> ToolResult option" where
  "result_of c = (if C_Type c = ContentToolResult then C_ToolResult c else None)"

abbreviation calls :: "Content list \<Rightarrow> ToolCall list" where
  "calls \<equiv> List.map_filter call_of"

abbreviation results :: "Content list \<Rightarrow> ToolResult list" where
  "results \<equiv> List.map_filter result_of"

text \<open>
  A part may follow the parts before it: a tool call has a new ID; a tool result answers a call made
  before, under its name if it gives one, that has no result yet.
\<close>

definition may_follow :: "Content list \<Rightarrow> Content \<Rightarrow> bool" where
  "may_follow prior c \<longleftrightarrow>
     (\<forall>call. call_of c = Some call \<longrightarrow> TC_ID call \<notin> TC_ID ` set (calls prior)) \<and>
     (\<forall>r. result_of c = Some r \<longrightarrow>
        (\<exists>call \<in> set (calls prior). TC_ID call = TR_ToolCallID r \<and> (TR_Name r = '''' \<or> TR_Name r = TC_Name call)) \<and>
        TR_ToolCallID r \<notin> TR_ToolCallID ` set (results prior))"

definition threaded :: "Content list \<Rightarrow> Content list \<Rightarrow> bool" where
  "threaded prior cs \<longleftrightarrow> (\<forall>before c after. cs = before @ c # after \<longrightarrow> may_follow (prior @ before) c)"

definition system_first :: "IRMessage list \<Rightarrow> bool" where
  "system_first ms \<longleftrightarrow> (\<exists>sys rest. ms = sys @ rest \<and> rest \<noteq> [] \<and> (\<forall>m \<in> set sys. Msg_Role m = RoleSystem) \<and>
     (\<forall>m \<in> set rest. Msg_Role m \<noteq> RoleSystem))"

definition valid_message :: "url_parser \<Rightarrow> IRMessage \<Rightarrow> bool" where
  "valid_message parse m \<longleftrightarrow> Msg_Role m \<in> {RoleSystem, RoleUser, RoleAssistant, RoleTool} \<and> Msg_Content m \<noteq> [] \<and>
     (\<forall>c \<in> set (Msg_Content m). valid_content parse c \<and> allowed_content (Msg_Role m) (C_Type c))"

definition valid_choice :: "IRTool list \<Rightarrow> IRToolChoice \<Rightarrow> bool" where
  "valid_choice tools ch \<longleftrightarrow> tools \<noteq> [] \<and>
     (Choice_Mode ch \<in> {''auto'', ''none'', ''required''} \<or>
      Choice_Mode ch = ''named'' \<and> Choice_Name ch \<noteq> '''' \<and> Choice_Name ch \<in> Tool_Name ` set tools)"

definition in_unit :: "float64 option \<Rightarrow> bool" where
  "in_unit x \<longleftrightarrow> (\<forall>v. x = Some v \<longrightarrow> 0 \<le> v \<and> v \<le> 1)"

definition valid_request :: "url_parser \<Rightarrow> IRRequest \<Rightarrow> bool" where
  "valid_request parse r \<longleftrightarrow>
     Req_Version r = Version \<and> Req_ID r \<noteq> '''' \<and>
     IRRoute_ProviderID (Req_Route r) \<noteq> '''' \<and> IRRoute_UpstreamModel (Req_Route r) \<noteq> '''' \<and>
     (\<forall>n. Req_MaxOutputTokens r = Some n \<longrightarrow> 0 < n) \<and> in_unit (Req_Temperature r) \<and> in_unit (Req_TopP r) \<and>
     \<not> Req_Stream r \<and> '''' \<notin> set (Req_Stop r) \<and>
     (\<forall>m \<in> set (Req_Messages r). valid_message parse m) \<and> system_first (Req_Messages r) \<and>
     threaded [] (concat (map Msg_Content (Req_Messages r))) \<and>
     (\<forall>tool \<in> set (Req_Tools r). TrimSpace (Tool_Name tool) \<noteq> '''' \<and> isJSONObject (Tool_InputSchema tool)) \<and>
     distinct (map Tool_Name (Req_Tools r)) \<and> (\<forall>ch. Req_ToolChoice r = Some ch \<longrightarrow> valid_choice (Req_Tools r) ch)"

definition valid_response :: "url_parser \<Rightarrow> IRResponse \<Rightarrow> bool" where
  "valid_response parse r \<longleftrightarrow>
     Resp_Version r = Version \<and> Resp_ID r \<noteq> '''' \<and> Resp_Model r \<noteq> '''' \<and>
     Resp_FinishReason r \<in> {FinishStop, FinishLength, FinishToolCalls, FinishContent} \<and>
     (\<forall>c \<in> set (Resp_Content r). valid_content parse c \<and> C_Type c \<noteq> ContentToolResult) \<and>
     0 \<le> Usage_InputTokens (Resp_Usage r) \<and> 0 \<le> Usage_OutputTokens (Resp_Usage r) \<and>
     0 \<le> Usage_CacheCreationInputTokens (Resp_Usage r) \<and> 0 \<le> Usage_CachedInputTokens (Resp_Usage r)"

section \<open>The validators decide it\<close>

lemma image_Validate_iff: "image_Validate parse img = Inr () \<longleftrightarrow> (\<exists>i. img = Some i \<and> valid_image parse i)"
  by (cases img) (auto simp: image_Validate_def valid_image_def Let_def image_types_def split: option.splits if_splits)

lemma part_Validate_iff:
  "C_Type c = ContentText \<or> C_Type c = ContentImage \<Longrightarrow> content_Validate parse c = Inr () \<longleftrightarrow> valid_part parse c"
  by (cases c) (erule disjE; simp add: valid_part_def image_Validate_iff; blast)

lemma nested_Validate_iff: "nested_Validate parse index cs = Inr () \<longleftrightarrow> (\<forall>c \<in> set cs. valid_part parse c)"
proof (induction cs arbitrary: index)
  case (Cons c cs)
  have "valid_part parse c \<Longrightarrow> C_Type c = ContentText \<or> C_Type c = ContentImage" by (auto simp: valid_part_def)
  with Cons part_Validate_iff [of c parse] show ?case by auto
qed simp

lemma call_Validate_iff:
  "C_Type c = ContentToolCall \<Longrightarrow> content_Validate parse c = Inr () \<longleftrightarrow> valid_content parse c"
  by (cases c) (auto simp: valid_content_def valid_part_def valid_call_def split: option.splits)

lemma result_Validate_iff:
  "content_Validate parse (Content ContentToolResult tx img tc tr) = Inr () \<longleftrightarrow>
     tx = [] \<and> img = None \<and> tc = None \<and> (\<exists>r. tr = Some r \<and> valid_result parse r)"
  by (cases tr) (auto simp: valid_result_def nested_Validate_iff split: ToolResult.splits)

lemma content_Validate_iff: "content_Validate parse c = Inr () \<longleftrightarrow> valid_content parse c"
proof (cases c)
  case (Content ty tx img tc tr)
  consider "ty = ContentText \<or> ty = ContentImage" | "ty = ContentToolCall" | "ty = ContentToolResult"
    | "ty \<noteq> ContentText" "ty \<noteq> ContentImage" "ty \<noteq> ContentToolCall" "ty \<noteq> ContentToolResult" by metis
  then show ?thesis
  proof cases
    case 1
    with Content part_Validate_iff [of c parse] show ?thesis by (auto simp: valid_content_def)
  next
    case 2
    with Content call_Validate_iff [of c parse] show ?thesis by simp
  next
    case 3
    then show ?thesis unfolding Content 3 result_Validate_iff by (auto simp: valid_content_def valid_part_def)
  next
    case 4
    then show ?thesis by (simp add: Content valid_content_def valid_part_def)
  qed
qed

lemma stops_Validate_iff: "stops_Validate index stops = Inr () \<longleftrightarrow> [] \<notin> set stops"
  by (induction stops arbitrary: index) auto

lemma tools_Validate_iff:
  "tools_Validate index tools names = Inr names' \<longleftrightarrow>
     (\<forall>tool \<in> set tools. TrimSpace (Tool_Name tool) \<noteq> [] \<and> isJSONObject (Tool_InputSchema tool) \<and> Tool_Name tool \<notin> set names) \<and>
     distinct (map Tool_Name tools) \<and> names' = rev (map Tool_Name tools) @ names"
proof (induction tools arbitrary: index names)
  case (Cons tool tools)
  show ?case by (simp add: Cons.IH) (auto simp: image_iff)
qed auto

lemma choice_Validate_iff:
  "choice_Validate tools (rev (map Tool_Name tools)) choice = Inr () \<longleftrightarrow> (\<forall>ch. choice = Some ch \<longrightarrow> valid_choice tools ch)"
  by (auto simp: choice_Validate_def valid_choice_def split: option.splits)

lemma outside_unit_iff: "outside_unit x \<longleftrightarrow> \<not> in_unit x"
  by (auto simp: outside_unit_def in_unit_def not_le split: option.splits)

lemma threaded_Nil [simp]: "threaded prior []"
  by (simp add: threaded_def)

lemma threaded_Cons: "threaded prior (c # cs) \<longleftrightarrow> may_follow prior c \<and> threaded (prior @ [c]) cs"
proof
  assume *: "threaded prior (c # cs)"
  have "may_follow (prior @ []) c" using * unfolding threaded_def by blast
  moreover have "may_follow ((prior @ [c]) @ before) d" if "cs = before @ d # after" for before d after
    using * [unfolded threaded_def, rule_format, of "c # before" d after] that by simp
  ultimately show "may_follow prior c \<and> threaded (prior @ [c]) cs" by (simp add: threaded_def)
next
  assume *: "may_follow prior c \<and> threaded (prior @ [c]) cs"
  have "may_follow (prior @ before) d" if "c # cs = before @ d # after" for before d after
  proof (cases before)
    case (Cons b bs)
    with that have "cs = bs @ d # after" "b = c" by auto
    with * [unfolded threaded_def, THEN conjunct2, rule_format, of bs d after] Cons show ?thesis by simp
  qed (use that * in auto)
  then show "threaded prior (c # cs)" by (simp add: threaded_def)
qed

lemma threaded_append: "threaded prior (xs @ ys) \<longleftrightarrow> threaded prior xs \<and> threaded (prior @ xs) ys"
  by (induction xs arbitrary: prior) (auto simp: threaded_Cons)

text \<open>The two maps of the loop hold the calls and the results of the parts already read.\<close>

definition tracks :: "Content list \<Rightarrow> tool_state \<Rightarrow> bool" where
  "tracks prior t \<longleftrightarrow> distinct (map fst (toolCalls t)) \<and>
     set (toolCalls t) = (\<lambda>k. (TC_ID k, TC_Name k)) ` set (calls prior) \<and>
     set (toolResults t) = TR_ToolCallID ` set (results prior)"

lemma map_filter_snoc: "List.map_filter f (xs @ [x]) = List.map_filter f xs @ (case f x of None \<Rightarrow> [] | Some y \<Rightarrow> [y])"
  by (simp add: List.map_filter_def split: option.splits)

lemma map_filter_append: "List.map_filter f (xs @ ys) = List.map_filter f xs @ List.map_filter f ys"
  by (simp add: List.map_filter_def)

lemma tracks_calls:
  assumes "tracks prior t"
  shows "map_of (toolCalls t) i = Some n \<longleftrightarrow> (\<exists>k \<in> set (calls prior). TC_ID k = i \<and> TC_Name k = n)"
    and "map_of (toolCalls t) i = None \<longleftrightarrow> i \<notin> TC_ID ` set (calls prior)"
proof -
  from assms have d: "distinct (map fst (toolCalls t))" and s: "set (toolCalls t) = (\<lambda>k. (TC_ID k, TC_Name k)) ` set (calls prior)"
    by (simp_all add: tracks_def)
  show "map_of (toolCalls t) i = Some n \<longleftrightarrow> (\<exists>k \<in> set (calls prior). TC_ID k = i \<and> TC_Name k = n)"
    using d by (auto simp: map_of_eq_Some_iff s)
  show "map_of (toolCalls t) i = None \<longleftrightarrow> i \<notin> TC_ID ` set (calls prior)"
    by (simp add: map_of_eq_None_iff s image_image)
qed

lemma track_call_step:
  assumes "tracks prior t" "valid_content parse c" "C_Type c = ContentToolCall"
  shows "ebind (track_call m i c t) (track_result m i c) = Inr t' \<longleftrightarrow>
    may_follow prior c \<and> (\<exists>k. call_of c = Some k \<and> t' = t\<lparr>toolCalls := (TC_ID k, TC_Name k) # toolCalls t\<rparr>)"
proof -
  from assms(2,3) obtain k where "C_ToolCall c = Some k" by (auto simp: valid_content_def valid_part_def)
  then show ?thesis using assms(3) tracks_calls(2) [OF assms(1), of "TC_ID k"]
    by (auto simp: track_call_def track_result_def may_follow_def call_of_def result_of_def)
qed

lemma track_result_step:
  assumes "tracks prior t" "valid_content parse c" "C_Type c = ContentToolResult"
  shows "ebind (track_call m i c t) (track_result m i c) = Inr t' \<longleftrightarrow>
    may_follow prior c \<and> (\<exists>r. result_of c = Some r \<and> t' = t\<lparr>toolResults := TR_ToolCallID r # toolResults t\<rparr>)"
proof -
  from assms(2,3) obtain r where r: "C_ToolResult c = Some r" by (auto simp: valid_content_def valid_part_def)
  have "set (toolResults t) = TR_ToolCallID ` set (results prior)" using assms(1) by (simp add: tracks_def)
  moreover have "(\<exists>k \<in> set (calls prior). TC_ID k = TR_ToolCallID r \<and> (TR_Name r = [] \<or> TR_Name r = TC_Name k)) \<longleftrightarrow>
      (\<exists>n. map_of (toolCalls t) (TR_ToolCallID r) = Some n \<and> (TR_Name r = [] \<or> TR_Name r = n))"
    using tracks_calls(1) [OF assms(1)] by auto
  ultimately show ?thesis using assms(3) r
    by (auto simp: track_call_def track_result_def may_follow_def call_of_def result_of_def Let_def split: option.splits)
qed

lemma track_other_step:
  assumes "C_Type c \<noteq> ContentToolCall" "C_Type c \<noteq> ContentToolResult"
  shows "ebind (track_call m i c t) (track_result m i c) = Inr t' \<longleftrightarrow> may_follow prior c \<and> t' = t"
  using assms by (auto simp: track_call_def track_result_def may_follow_def call_of_def result_of_def)

lemma track_step:
  assumes "tracks prior t" "valid_content parse c"
  shows "(\<exists>t'. ebind (track_call m i c t) (track_result m i c) = Inr t') \<longleftrightarrow> may_follow prior c"
    and "ebind (track_call m i c t) (track_result m i c) = Inr t' \<Longrightarrow> tracks (prior @ [c]) t'"
proof -
  consider (k) "C_Type c = ContentToolCall" | (r) "C_Type c = ContentToolResult"
    | (other) "C_Type c \<noteq> ContentToolCall" "C_Type c \<noteq> ContentToolResult" by blast
  then have "((\<exists>t'. ebind (track_call m i c t) (track_result m i c) = Inr t') \<longleftrightarrow> may_follow prior c) \<and>
    (ebind (track_call m i c t) (track_result m i c) = Inr t' \<longrightarrow> tracks (prior @ [c]) t')"
  proof cases
    case k
    with assms(2) obtain call where "call_of c = Some call" "result_of c = None"
      by (auto simp: valid_content_def valid_part_def call_of_def result_of_def)
    with assms(1) show ?thesis unfolding track_call_step [OF assms k]
      by (auto simp: tracks_def map_filter_snoc may_follow_def image_iff)
  next
    case r
    with assms(2) obtain res where "result_of c = Some res" "call_of c = None"
      by (auto simp: valid_content_def valid_part_def call_of_def result_of_def)
    with assms(1) show ?thesis unfolding track_result_step [OF assms r]
      by (auto simp: tracks_def map_filter_snoc)
  next
    case other
    with assms(1) show ?thesis unfolding track_other_step [OF other, where prior = prior]
      by (auto simp: tracks_def map_filter_snoc call_of_def result_of_def)
  qed
  then show "(\<exists>t'. ebind (track_call m i c t) (track_result m i c) = Inr t') \<longleftrightarrow> may_follow prior c"
    "ebind (track_call m i c t) (track_result m i c) = Inr t' \<Longrightarrow> tracks (prior @ [c]) t'" by simp_all
qed

lemma contents_Validate_Cons:
  "contents_Validate parse m role i (c # cs) t = Inr t' \<longleftrightarrow>
     valid_content parse c \<and> allowed_content role (C_Type c) \<and>
     (\<exists>u. ebind (track_call m i c t) (track_result m i c) = Inr u \<and> contents_Validate parse m role (Suc i) cs u = Inr t')"
  by (auto simp: content_Validate_iff)

lemma contents_Validate_iff:
  assumes "tracks prior t"
  shows "(\<exists>t'. contents_Validate parse m role i cs t = Inr t') \<longleftrightarrow>
      (\<forall>c \<in> set cs. valid_content parse c \<and> allowed_content role (C_Type c)) \<and> threaded prior cs"
    and "contents_Validate parse m role i cs t = Inr t' \<Longrightarrow> tracks (prior @ cs) t'"
  using assms
proof (induction cs arbitrary: i t prior)
  case (Cons c cs)
  {
    case 1
    show ?case
    proof (cases "valid_content parse c")
      case True
      note t = track_step [OF \<open>tracks prior t\<close> True, of m i]
      have "(\<exists>t'. contents_Validate parse m role i (c # cs) t = Inr t') \<longleftrightarrow> allowed_content role (C_Type c) \<and>
        (\<exists>u. ebind (track_call m i c t) (track_result m i c) = Inr u \<and> (\<exists>t'. contents_Validate parse m role (Suc i) cs u = Inr t'))"
        unfolding contents_Validate_Cons using True by blast
      also have "\<dots> \<longleftrightarrow> allowed_content role (C_Type c) \<and> may_follow prior c \<and>
        (\<forall>c \<in> set cs. valid_content parse c \<and> allowed_content role (C_Type c)) \<and> threaded (prior @ [c]) cs"
        using t Cons.IH(1) [of "prior @ [c]"] by blast
      finally show ?thesis using True by (auto simp: threaded_Cons)
    qed (simp add: content_Validate_iff)
  next
    case 2
    then obtain u where "valid_content parse c" "ebind (track_call m i c t) (track_result m i c) = Inr u"
      "contents_Validate parse m role (Suc i) cs u = Inr t'" unfolding contents_Validate_Cons by blast
    with track_step(2) [OF 2(2)] Cons.IH(2) [of "Suc i" u "prior @ [c]"] show ?case by auto
  }
qed auto

fun ordered :: "bool \<Rightarrow> IRMessage list \<Rightarrow> bool" where
  "ordered seen [] = True"
| "ordered seen (m # ms) = ((Msg_Role m = RoleSystem \<longrightarrow> \<not> seen) \<and> ordered (seen \<or> Msg_Role m \<noteq> RoleSystem) ms)"

lemma ordered_True: "ordered True ms \<longleftrightarrow> (\<forall>m \<in> set ms. Msg_Role m \<noteq> RoleSystem)"
  by (induction ms) auto

lemma ordered_False: "ordered False ms \<longleftrightarrow> (\<forall>m \<in> set (dropWhile (\<lambda>m. Msg_Role m = RoleSystem) ms). Msg_Role m \<noteq> RoleSystem)"
  by (induction ms) (auto simp: ordered_True)

lemma system_first_iff: "system_first ms \<longleftrightarrow> ordered False ms \<and> (\<exists>m \<in> set ms. Msg_Role m \<noteq> RoleSystem)"
proof
  assume "system_first ms"
  then obtain sys rest where *: "ms = sys @ rest" "rest \<noteq> []" "\<forall>m \<in> set sys. Msg_Role m = RoleSystem"
    "\<forall>m \<in> set rest. Msg_Role m \<noteq> RoleSystem" unfolding system_first_def by blast
  from * have "ordered False ms" unfolding ordered_False by (auto dest: set_dropWhileD)
  moreover have "hd rest \<in> set ms" "Msg_Role (hd rest) \<noteq> RoleSystem" using * by simp_all
  ultimately show "ordered False ms \<and> (\<exists>m \<in> set ms. Msg_Role m \<noteq> RoleSystem)" by blast
next
  assume *: "ordered False ms \<and> (\<exists>m \<in> set ms. Msg_Role m \<noteq> RoleSystem)"
  let ?P = "\<lambda>m. Msg_Role m = RoleSystem"
  have "ms = takeWhile ?P ms @ dropWhile ?P ms" by simp
  moreover have "\<forall>m \<in> set (takeWhile ?P ms). Msg_Role m = RoleSystem" by (blast dest: set_takeWhileD)
  moreover have "dropWhile ?P ms \<noteq> []" using * by (simp add: dropWhile_eq_Nil_conv)
  ultimately show "system_first ms" using * unfolding system_first_def ordered_False by blast
qed

lemma message_Validate_iff:
  assumes "tracks prior t"
  shows "(\<exists>u. Msg_Role msg \<in> {RoleSystem, RoleUser, RoleAssistant, RoleTool} \<and> Msg_Content msg \<noteq> [] \<and>
      contents_Validate parse m (Msg_Role msg) 0 (Msg_Content msg) t = Inr u \<and> P u) \<longleftrightarrow>
    valid_message parse msg \<and> threaded prior (Msg_Content msg) \<and>
    (\<exists>u. contents_Validate parse m (Msg_Role msg) 0 (Msg_Content msg) t = Inr u \<and> tracks (prior @ Msg_Content msg) u \<and> P u)"
  using contents_Validate_iff [OF assms, of parse m "Msg_Role msg" 0 "Msg_Content msg"]
  unfolding valid_message_def by blast

lemma messages_Validate_iff:
  assumes "tracks prior t"
  shows "messages_Validate parse m ms seen t = Inr seen' \<longleftrightarrow>
    (\<forall>msg \<in> set ms. valid_message parse msg) \<and> threaded prior (concat (map Msg_Content ms)) \<and> ordered seen ms \<and>
    seen' = (seen \<or> (\<exists>msg \<in> set ms. Msg_Role msg \<noteq> RoleSystem))"
  using assms
proof (induction ms arbitrary: m seen t prior)
  case (Cons msg ms)
  define P where "P u \<longleftrightarrow> (Msg_Role msg = RoleSystem \<longrightarrow> \<not> seen) \<and>
    messages_Validate parse (Suc m) ms (seen \<or> Msg_Role msg \<noteq> RoleSystem) u = Inr seen'" for u
  define Q where "Q \<longleftrightarrow> (\<forall>msg \<in> set ms. valid_message parse msg) \<and>
    threaded (prior @ Msg_Content msg) (concat (map Msg_Content ms)) \<and>
    ordered seen (msg # ms) \<and> seen' = (seen \<or> (\<exists>msg \<in> set (msg # ms). Msg_Role msg \<noteq> RoleSystem))"
  have P: "P u \<longleftrightarrow> Q" if "tracks (prior @ Msg_Content msg) u" for u
    unfolding P_def Q_def Cons.IH [OF that] by auto
  have ex: "valid_message parse msg \<Longrightarrow> threaded prior (Msg_Content msg) \<Longrightarrow>
      \<exists>u. contents_Validate parse m (Msg_Role msg) 0 (Msg_Content msg) t = Inr u \<and> tracks (prior @ Msg_Content msg) u"
    using contents_Validate_iff [OF Cons.prems, of parse m "Msg_Role msg" 0 "Msg_Content msg"] unfolding valid_message_def by blast
  have "messages_Validate parse m (msg # ms) seen t = Inr seen' \<longleftrightarrow>
    (\<exists>u. Msg_Role msg \<in> {RoleSystem, RoleUser, RoleAssistant, RoleTool} \<and> Msg_Content msg \<noteq> [] \<and>
      contents_Validate parse m (Msg_Role msg) 0 (Msg_Content msg) t = Inr u \<and> P u)"
    by (simp add: P_def) (cases "Msg_Role msg = RoleSystem"; cases seen; simp)
  also have "\<dots> \<longleftrightarrow> valid_message parse msg \<and> threaded prior (Msg_Content msg) \<and>
    (\<exists>u. contents_Validate parse m (Msg_Role msg) 0 (Msg_Content msg) t = Inr u \<and> tracks (prior @ Msg_Content msg) u \<and> P u)"
    by (rule message_Validate_iff [OF Cons.prems])
  also have "\<dots> \<longleftrightarrow> valid_message parse msg \<and> threaded prior (Msg_Content msg) \<and> Q"
    using P ex by blast
  finally show ?case by (simp add: Q_def threaded_append conj_ac)
qed auto

lemma tracks_empty: "tracks [] \<lparr>toolCalls = [], toolResults = []\<rparr>"
  by (simp add: tracks_def List.map_filter_def)

lemma response_contents_Validate_iff:
  "response_contents_Validate parse i cs = Inr () \<longleftrightarrow> (\<forall>c \<in> set cs. valid_content parse c \<and> C_Type c \<noteq> ContentToolResult)"
proof (induction cs arbitrary: i)
  case (Cons c cs)
  have "valid_content parse c \<Longrightarrow> C_Type c \<in> {ContentText, ContentImage, ContentToolCall, ContentToolResult}"
    by (auto simp: valid_content_def valid_part_def)
  with Cons show ?case by (auto simp: content_Validate_iff)
qed simp

lemma request_valid_iff: "request_Validate parse r = Inr () \<longleftrightarrow> valid_request parse r"
proof -
  have "system_first (Req_Messages r) \<Longrightarrow> Req_Messages r \<noteq> []" by (auto simp: system_first_def)
  moreover have "(case Req_MaxOutputTokens r of None \<Rightarrow> False | Some n \<Rightarrow> n \<le> 0) \<longleftrightarrow>
      \<not> (\<forall>n. Req_MaxOutputTokens r = Some n \<longrightarrow> 0 < n)" by (auto split: option.splits)
  ultimately show ?thesis
    unfolding request_Validate_def valid_request_def system_first_iff
    by (auto simp: stops_Validate_iff messages_Validate_iff [OF tracks_empty] tools_Validate_iff choice_Validate_iff
        outside_unit_iff)
qed

lemma response_valid_iff: "response_Validate parse r = Inr () \<longleftrightarrow> valid_response parse r"
  by (auto simp: response_Validate_def valid_response_def response_contents_Validate_iff not_less)

text \<open>
  C24: \<^verbatim>\<open>Request.Validate\<close> accepts exactly the well-formed requests: the current version, an ID and a
  route; system messages first and at least one other; every content part carrying exactly the payload of
  its type and allowed for its role; tool calls with distinct IDs, and every tool result answering, once,
  a call made earlier in the conversation; tools with distinct names and object schemas; a tool choice
  that names one of them; and the numeric parameters in their ranges.
\<close>

theorem request_Validate_iff: "request_Validate parse r = Inr () \<longleftrightarrow> valid_request parse r"
  by (rule request_valid_iff)

end
