(* ===== verification/Dataplane.thy ===== *)
theory Dataplane
  imports Control_Plane IR
begin

text \<open>
  Package \<^verbatim>\<open>internal/dataplane\<close>: the request path every client-facing gateway shares. The Go interfaces
  \<^verbatim>\<open>Runtime\<close> and \<^verbatim>\<open>Invoker\<close> become the fields of the dispatcher; each call is a step on the state
  behind them, so that an adapter call that was made, and one that was not, can be told apart. The
  timeout shows only as an error of the call it interrupts.

  The locale \<open>runtime_contract\<close> is what the dispatcher relies on: the runtime reads without writing and
  grants and routes exactly what \<open>allows\<close> and \<open>routes\<close> say. The control plane's runtime on the in-memory
  store satisfies it.
\<close>

section \<open>\<^verbatim>\<open>Dispatcher\<close>\<close>

type_synonym Translator = "Route \<Rightarrow> string \<Rightarrow> IRRequest result"

record 'w Dispatcher =
  dp_Authorize :: "string \<Rightarrow> string \<Rightarrow> ('w, Authorization) step"
  dp_ResolveRoute :: "string \<Rightarrow> ('w, Route) step"
  dp_InvokeJSON :: "string \<Rightarrow> string \<Rightarrow> IRRequest \<Rightarrow> ('w, IRResponse) step"

definition dp_Generate :: "url_parser \<Rightarrow> 'w Dispatcher \<Rightarrow> string \<Rightarrow> string \<Rightarrow> string \<Rightarrow> Translator \<Rightarrow> ('w, IRResponse) step" where
  "dp_Generate parse d token model requestID translate =
     sbind (dp_Authorize d token model) (\<lambda>_.
     sbind (dp_ResolveRoute d model) (\<lambda>route.
     sbind (sreturn (translate route requestID)) (\<lambda>request.
     sbind (sreturn (wrapf ''validate translated IR request: %w'' [] (request_Validate parse request))) (\<lambda>_.
     sbind (dp_InvokeJSON d (Route_AdapterAppID route) ''/v1/generate'' request) (\<lambda>response.
     sbind (sreturn (wrapf ''validate adapter IR response: %w'' [] (response_Validate parse response))) (\<lambda>_.
     sreturn (Inr response)))))))"

section \<open>What the dispatcher relies on\<close>

text \<open>The adapter's answer, if it is a well-formed response.\<close>

definition checked_answer :: "url_parser \<Rightarrow> IRResponse result \<Rightarrow> IRResponse result" where
  "checked_answer parse answer =
     ebind answer (\<lambda>response. ebind (wrapf ''validate adapter IR response: %w'' [] (response_Validate parse response)) (\<lambda>_. Inr response))"

text \<open>The request that may be sent, and to whom, given what the runtime allows and where it routes.\<close>

definition sendable ::
  "url_parser \<Rightarrow> (Authorization \<Rightarrow> bool) \<Rightarrow> (Route \<Rightarrow> bool) \<Rightarrow> string \<Rightarrow> Translator \<Rightarrow> string \<Rightarrow> IRRequest \<Rightarrow> bool" where
  "sendable parse allowed routed requestID translate app request \<longleftrightarrow>
     (\<exists>auth route. allowed auth \<and> routed route \<and> app = Route_AdapterAppID route \<and>
        translate route requestID = Inr request \<and> valid_request parse request)"

locale runtime_contract =
  fixes d :: "'w Dispatcher"
    and sound :: "'w \<Rightarrow> bool"
    and allows :: "'w \<Rightarrow> string \<Rightarrow> string \<Rightarrow> Authorization \<Rightarrow> bool"
    and routes :: "'w \<Rightarrow> string \<Rightarrow> Route \<Rightarrow> bool"
    and parse :: url_parser
  assumes authorize_reads: "snd (dp_Authorize d token model w) = w"
    and authorize_grants: "sound w \<Longrightarrow> fst (dp_Authorize d token model w) = Inr auth \<longleftrightarrow> allows w token model auth"
    and route_reads: "snd (dp_ResolveRoute d model w) = w"
    and route_found: "sound w \<Longrightarrow> fst (dp_ResolveRoute d model w) = Inr route \<longleftrightarrow> routes w model route"
begin

lemma authorize_eq: "sound w \<Longrightarrow> allows w token model auth \<Longrightarrow> dp_Authorize d token model w = (Inr auth, w)"
  by (metis authorize_grants authorize_reads prod.collapse)

lemma route_eq: "sound w \<Longrightarrow> routes w model route \<Longrightarrow> dp_ResolveRoute d model w = (Inr route, w)"
  by (metis route_found route_reads prod.collapse)

lemma generate_sends:
  assumes "sound w" "sendable parse (allows w token model) (routes w model) requestID translate app request"
    and call: "dp_InvokeJSON d app ''/v1/generate'' request w = (answer, w')"
  shows "dp_Generate parse d token model requestID translate w = (checked_answer parse answer, w')"
proof -
  from assms(2) obtain auth route where *: "allows w token model auth" "routes w model route" "app = Route_AdapterAppID route"
    "translate route requestID = Inr request" "request_Validate parse request = Inr ()"
    by (auto simp: sendable_def request_valid_iff)
  then have "dp_Generate parse d token model requestID translate w =
      sbind (\<lambda>_. (answer, w')) (\<lambda>response.
      sbind (sreturn (wrapf ''validate adapter IR response: %w'' [] (response_Validate parse response))) (\<lambda>_.
      sreturn (Inr response))) w"
    using call assms(1) by (simp add: dp_Generate_def sbind_def authorize_eq route_eq)
  also have "\<dots> = (checked_answer parse answer, w')"
  proof (cases answer)
    case (Inr response)
    then show ?thesis by (cases "response_Validate parse response") (simp_all add: sbind_def checked_answer_def)
  qed (simp add: sbind_def checked_answer_def)
  finally show ?thesis .
qed

lemma generate_stops:
  assumes sound: "sound w" and none: "\<nexists>app request. sendable parse (allows w token model) (routes w model) requestID translate app request"
  shows "\<exists>e. dp_Generate parse d token model requestID translate w = (Inl e, w)"
proof -
  obtain r where auth: "dp_Authorize d token model w = (r, w)" using authorize_reads by (metis prod.collapse)
  obtain r' where rt: "dp_ResolveRoute d model w = (r', w)" using route_reads by (metis prod.collapse)
  show ?thesis
  proof (cases r; cases r')
    fix a route
    assume r: "r = Inr a" "r' = Inr route"
    then have *: "allows w token model a" "routes w model route"
      using auth rt authorize_grants [OF sound] route_found [OF sound] by (metis fst_conv)+
    show ?thesis
    proof (cases "translate route requestID")
      case (Inr request)
      with none * have "request_Validate parse request \<noteq> Inr ()" by (auto simp: sendable_def request_valid_iff)
      then obtain e where "request_Validate parse request = Inl e" by (cases "request_Validate parse request") auto
      with Inr r show ?thesis by (simp add: dp_Generate_def sbind_def auth rt)
    qed (simp add: dp_Generate_def sbind_def auth rt r)
  qed (simp_all add: dp_Generate_def sbind_def auth rt)
qed

end

section \<open>The dispatcher on the control plane's runtime\<close>

text \<open>The state behind a gateway: the control planes' stores, and the adapter calls made so far.\<close>

record gateway =
  gw_planes :: planes
  gw_calls :: "(string \<times> string \<times> IRRequest) list"

definition gateway_dispatcher ::
  "(string \<Rightarrow> string) \<Rightarrow> time \<Rightarrow> (string \<Rightarrow> string \<Rightarrow> IRRequest \<Rightarrow> IRResponse result) \<Rightarrow> gateway Dispatcher" where
  "gateway_dispatcher H now adapter =
     \<lparr>dp_Authorize = (\<lambda>token model g.
        (Authorize (memory_runtime H) now token model (w_registry (gw_planes g)) (w_providers (gw_planes g)), g)),
      dp_ResolveRoute = (\<lambda>model g.
        (ResolveRoute (memory_runtime H) model (w_registry (gw_planes g)) (w_providers (gw_planes g)), g)),
      dp_InvokeJSON = (\<lambda>app path request g. (adapter app path request, g\<lparr>gw_calls := gw_calls g @ [(app, path, request)]\<rparr>))\<rparr>"

definition gateway_holds :: "(string \<Rightarrow> string) \<Rightarrow> gateway \<Rightarrow> keyring \<Rightarrow> catalog \<Rightarrow> bool" where
  "gateway_holds H g a c \<longleftrightarrow>
     holds_keyring H a (contents (w_registry (gw_planes g))) \<and> holds_catalog H c (contents (w_providers (gw_planes g)))"

lemma gateway_answers:
  assumes "gateway_holds H g a c"
  shows "fst (dp_Authorize (gateway_dispatcher H now adapter) token model g) = Inr auth \<longleftrightarrow> authorized H a c now token model auth"
    and "fst (dp_ResolveRoute (gateway_dispatcher H now adapter) model g) = Inr route \<longleftrightarrow> routable H a c model route"
  using assms Authorize_iff ResolveRoute_iff by (simp_all add: gateway_holds_def gateway_dispatcher_def)

lemma gateway_grants:
  assumes "gateway_holds H g a c"
  shows "(\<lambda>auth. \<exists>a c. gateway_holds H g a c \<and> authorized H a c now token model auth) = authorized H a c now token model"
    and "(\<lambda>route. \<exists>a c. gateway_holds H g a c \<and> routable H a c model route) = routable H a c model"
proof -
  show "(\<lambda>auth. \<exists>a c. gateway_holds H g a c \<and> authorized H a c now token model auth) = authorized H a c now token model"
  proof (rule ext)
    show "(\<exists>a c. gateway_holds H g a c \<and> authorized H a c now token model auth) \<longleftrightarrow> authorized H a c now token model auth" for auth
      using assms by (metis gateway_answers(1))
  qed
  show "(\<lambda>route. \<exists>a c. gateway_holds H g a c \<and> routable H a c model route) = routable H a c model"
  proof (rule ext)
    show "(\<exists>a c. gateway_holds H g a c \<and> routable H a c model route) \<longleftrightarrow> routable H a c model route" for route
      using assms by (metis gateway_answers(2))
  qed
qed

interpretation memory_gateway: runtime_contract "gateway_dispatcher H now adapter" "\<lambda>g. \<exists>a c. gateway_holds H g a c"
  "\<lambda>g token model auth. \<exists>a c. gateway_holds H g a c \<and> authorized H a c now token model auth"
  "\<lambda>g model route. \<exists>a c. gateway_holds H g a c \<and> routable H a c model route" parse
  for H now adapter parse
proof
  fix g token model auth
  assume "\<exists>a c. gateway_holds H g a c"
  then show "fst (dp_Authorize (gateway_dispatcher H now adapter) token model g) = Inr auth \<longleftrightarrow>
      (\<exists>a c. gateway_holds H g a c \<and> authorized H a c now token model auth)"
    by (metis gateway_answers(1))
next
  fix g model route
  assume "\<exists>a c. gateway_holds H g a c"
  then show "fst (dp_ResolveRoute (gateway_dispatcher H now adapter) model g) = Inr route \<longleftrightarrow>
      (\<exists>a c. gateway_holds H g a c \<and> routable H a c model route)"
    by (metis gateway_answers(2))
qed (simp_all add: gateway_dispatcher_def)

lemma gateway_calls:
  "dp_InvokeJSON (gateway_dispatcher H now adapter) app path request g =
     (adapter app path request, g\<lparr>gw_calls := gw_calls g @ [(app, path, request)]\<rparr>)"
  by (simp add: gateway_dispatcher_def)

lemma gateway_generate:
  assumes "gateway_holds H g a c"
  shows "sendable parse (authorized H a c now token model) (routable H a c model) requestID translate app request \<Longrightarrow>
      dp_Generate parse (gateway_dispatcher H now adapter) token model requestID translate g =
        (checked_answer parse (adapter app ''/v1/generate'' request), g\<lparr>gw_calls := gw_calls g @ [(app, ''/v1/generate'', request)]\<rparr>)"
    and "\<nexists>app request. sendable parse (authorized H a c now token model) (routable H a c model) requestID translate app request \<Longrightarrow>
      \<exists>e. dp_Generate parse (gateway_dispatcher H now adapter) token model requestID translate g = (Inl e, g)"
proof -
  from assms have ok: "\<exists>a c. gateway_holds H g a c" by blast
  note facts = memory_gateway.generate_sends [OF ok _ gateway_calls] memory_gateway.generate_stops [OF ok]
  show "sendable parse (authorized H a c now token model) (routable H a c model) requestID translate app request \<Longrightarrow>
      dp_Generate parse (gateway_dispatcher H now adapter) token model requestID translate g =
        (checked_answer parse (adapter app ''/v1/generate'' request), g\<lparr>gw_calls := gw_calls g @ [(app, ''/v1/generate'', request)]\<rparr>)"
    using facts(1) unfolding gateway_grants [OF assms] by blast
  show "\<nexists>app request. sendable parse (authorized H a c now token model) (routable H a c model) requestID translate app request \<Longrightarrow>
      \<exists>e. dp_Generate parse (gateway_dispatcher H now adapter) token model requestID translate g = (Inl e, g)"
    using facts(2) unfolding gateway_grants [OF assms] by blast
qed

lemma gateway_called:
  assumes g: "gateway_holds H g a c"
    and run: "dp_Generate parse (gateway_dispatcher H now adapter) token model requestID translate g = (r, g')" and changed: "g' \<noteq> g"
  obtains app request where "sendable parse (authorized H a c now token model) (routable H a c model) requestID translate app request"
    "g' = g\<lparr>gw_calls := gw_calls g @ [(app, ''/v1/generate'', request)]\<rparr>"
proof (cases "\<exists>app request. sendable parse (authorized H a c now token model) (routable H a c model) requestID translate app request")
  case True
  then obtain app request where
    s: "sendable parse (authorized H a c now token model) (routable H a c model) requestID translate app request" by blast
  from gateway_generate(1) [OF g s, of adapter] run have "g' = g\<lparr>gw_calls := gw_calls g @ [(app, ''/v1/generate'', request)]\<rparr>" by simp
  with s that show thesis by blast
next
  case False
  with gateway_generate(2) [OF g, of parse now token model requestID translate adapter] run changed show thesis by auto
qed

text \<open>
  The stored resources behind a call: an unexpired active key with the hash of the token, its active owner,
  an active model that it lists, and that model's active provider.
\<close>

definition backed :: "(string \<Rightarrow> string) \<Rightarrow> time \<Rightarrow> planes \<Rightarrow> string \<Rightarrow> string \<Rightarrow> string \<Rightarrow> bool" where
  "backed H now w token requested app \<longleftrightarrow> (\<exists>user key model provider.
      repo_GetVirtualKey MemoryStore (VK_ID key) (w_registry w) = Inr key \<and> H (VK_KeyHash key) = H (hashKey H token) \<and>
      VK_Status key = StatusActive \<and> (\<forall>t. VK_ExpiresAt key = Some t \<longrightarrow> After t now) \<and>
      repo_GetUser MemoryStore (VK_UserID key) (w_users w) = Inr user \<and> User_Status user = StatusActive \<and>
      Model_ID model \<in> set (VK_ModelIDs key) \<and> repo_GetModelByAlias H MemoryStore requested (w_providers w) = Inr model \<and>
      Model_Status model = StatusActive \<and> repo_GetProvider MemoryStore (Model_ProviderID model) (w_providers w) = Inr provider \<and>
      Provider_Status provider = StatusActive \<and> Provider_AdapterAppID provider = app)"

lemma invocation_backed:
  assumes reach: "(plane_step H)\<^sup>*\<^sup>* new_planes (gw_planes g)"
    and run: "dp_Generate parse (gateway_dispatcher H now adapter) token requested requestID translate g = (r, g')" and changed: "g' \<noteq> g"
  obtains app request route where "g' = g\<lparr>gw_calls := gw_calls g @ [(app, ''/v1/generate'', request)]\<rparr>" "valid_request parse request"
    "translate route requestID = Inr request" "backed H now (gw_planes g) token requested app"
proof -
  from reachable_kept [OF reach] obtain R c a where ok: "planes_ok H (gw_planes g) R c a" .
  then have h: "holds_users H R (contents (w_users (gw_planes g)))" "holds_catalog H c (contents (w_providers (gw_planes g)))"
    "holds_keyring H a (contents (w_registry (gw_planes g)))" "users_projected R a"
    by (simp_all add: planes_ok_def good_ring_def)
  then have "gateway_holds H g a c" by (simp add: gateway_holds_def)
  from gateway_called [OF this run changed] obtain app request
    where s: "sendable parse (authorized H a c now token requested) (routable H a c requested) requestID translate app request"
    and call: "g' = g\<lparr>gw_calls := gw_calls g @ [(app, ''/v1/generate'', request)]\<rparr>" .
  from s obtain auth route where grant: "authorized H a c now token requested auth" and rt: "routable H a c requested route" "app = Route_AdapterAppID route"
    and sent: "translate route requestID = Inr request" "valid_request parse request"
    unfolding sendable_def by blast
  from grant obtain key model where k: "usable_key H a now token key" and m: "usable_model H a c requested model"
    and lists: "Model_ID model \<in> set (VK_ModelIDs key)" unfolding authorized_def by blast
  from rt obtain model' provider where m': "usable_model H a c requested model'" and p: "Providers c (Model_ProviderID model') = Some provider"
    "Provider_Status provider = StatusActive" "Provider_AdapterAppID provider = app" unfolding routable_def by auto
  have same: "model' = model" using m m' by (metis resolveActiveModel_iff [OF h(3,2)] sum.inject(2))
  from k h(4) obtain user where user: "R (VK_UserID key) = Some user" "User_Status user = StatusActive"
    unfolding usable_key_def users_projected_def by blast
  from k obtain i where i: "Keys a i = Some key" by (auto simp: usable_key_def ran_def)
  then have "VK_ID key = i" using mem.keys.represents_id [OF holds_keyringD(1) [OF h(3), unfolded holds_keys_def]] by blast
  with k m lists p same user i have "backed H now (gw_planes g) token requested app"
    unfolding backed_def
    by (intro exI [of _ user] exI [of _ key] exI [of _ model] exI [of _ provider])
      (simp add: GetUser_outcome [OF h(1)] GetVirtualKey_outcome [OF h(3)] GetModelByAlias_outcome [OF h(2)]
        GetProvider_outcome [OF holds_catalogD(1) [OF h(2)]] usable_model_def usable_key_def)
  with that call sent show thesis by blast
qed

section \<open>Properties\<close>

text \<open>
  C12: The request path. When the token is authorized for the model, the model is routable, and the
  translation of the client's request is a well-formed request, Generate makes exactly one adapter call,
  to the adapter of the model's provider with that request, and answers what the adapter answers provided
  it is a well-formed response. In every other case it fails without calling any adapter.
\<close>

theorem Generate_exact:
  assumes "gateway_holds H g a c"
  shows "(\<forall>app request. sendable parse (authorized H a c now token model) (routable H a c model) requestID translate app request \<longrightarrow>
      dp_Generate parse (gateway_dispatcher H now adapter) token model requestID translate g =
        (checked_answer parse (adapter app ''/v1/generate'' request), g\<lparr>gw_calls := gw_calls g @ [(app, ''/v1/generate'', request)]\<rparr>))
    \<and> ((\<nexists>app request. sendable parse (authorized H a c now token model) (routable H a c model) requestID translate app request) \<longrightarrow>
      (\<exists>e. dp_Generate parse (gateway_dispatcher H now adapter) token model requestID translate g = (Inl e, g)))"
  using gateway_generate [OF assms] by blast

text \<open>A conversation of one user message, and an adapter that answers it.\<close>

definition hello :: Translator where
  "hello route requestID = Inr \<lparr>Req_Version = Version, Req_ID = requestID,
     Req_Route = \<lparr>IRRoute_ProviderID = Route_ProviderID route, IRRoute_UpstreamModel = Route_UpstreamModel route\<rparr>,
     Req_Messages = [\<lparr>Msg_Role = RoleUser, Msg_Content = [Content ContentText ''hello'' None None None]\<rparr>],
     Req_MaxOutputTokens = Some 16, Req_Temperature = None, Req_TopP = None, Req_Stop = [], Req_Tools = [],
     Req_ToolChoice = None, Req_Metadata = [], Req_Stream = False\<rparr>"

definition echo :: "string \<Rightarrow> string \<Rightarrow> IRRequest \<Rightarrow> IRResponse result" where
  "echo app path request = Inr \<lparr>Resp_Version = Version, Resp_ID = Req_ID request, Resp_Model = IRRoute_UpstreamModel (Req_Route request),
     Resp_Content = Msg_Content (hd (Req_Messages request)), Resp_FinishReason = FinishStop, Resp_StopSequence = '''',
     Resp_Usage = \<lparr>Usage_InputTokens = 1, Usage_OutputTokens = 1, Usage_CacheCreationInputTokens = 0, Usage_CachedInputTokens = 0\<rparr>,
     Resp_ProviderResponseID = ''''\<rparr>"

definition lark_route :: Route where
  "lark_route = \<lparr>Route_ModelID = ''mdl_01'', Route_Alias = ''lark'', Route_ProviderID = ''prv_01'',
     Route_UpstreamModel = ''lark'', Route_AdapterAppID = ''umbra-adapter''\<rparr>"

lemma lark_routable: "routable (\<lambda>x. x) demo_ring demo_catalog ''lark'' lark_route"
  unfolding routable_def using demo_usable(1)
  by (intro exI [of _ lark] exI [of _ umbra]) (simp add: demo_catalog_def lark_def umbra_def lark_route_def)

lemma demo_grant: "authorized (\<lambda>x. x) demo_ring demo_catalog now ''gwai_AQID'' ''lark'' \<lparr>Auth_KeyID = ''key_01'', Auth_UserID = ''usr_01''\<rparr>"
  unfolding authorized_def using demo_usable by (fastforce simp: eve_key_def lark_def)

lemma hello_valid: "request_Validate parse (projr (hello lark_route ''req_1'')) = Inr ()"
  by (simp add: request_Validate_def hello_def lark_route_def outside_unit_def fail_if_def allowed_content_def track_call_def
      track_result_def choice_Validate_def)

lemma hello_sendable:
  "sendable parse (authorized (\<lambda>x. x) demo_ring demo_catalog now ''gwai_AQID'' ''lark'')
     (routable (\<lambda>x. x) demo_ring demo_catalog ''lark'') ''req_1'' hello ''umbra-adapter'' (projr (hello lark_route ''req_1''))"
  unfolding sendable_def request_valid_iff [symmetric] using demo_grant lark_routable hello_valid
  by (intro exI [of _ lark_route] exI [of _ "\<lparr>Auth_KeyID = ''key_01'', Auth_UserID = ''usr_01''\<rparr>"])
    (simp add: hello_def lark_route_def)

theorem Generate_exact_witness:
  "\<exists>g g' request response. dp_Generate (\<lambda>_. None) (gateway_dispatcher (\<lambda>x. x) 7 echo) ''gwai_AQID'' ''lark'' ''req_1'' hello g = (Inr response, g')
     \<and> gw_calls g' = [(''umbra-adapter'', ''/v1/generate'', request)]
     \<and> (\<exists>e. dp_Generate (\<lambda>_. None) (gateway_dispatcher (\<lambda>x. x) 7 echo) ''gwai_other'' ''lark'' ''req_1'' hello g = (Inl e, g))"
proof -
  obtain w where w: "shows_as w [''usr_01'' \<mapsto> eve] demo_catalog demo_ring" by (rule demo_key)
  define g where "g = \<lparr>gw_planes = w, gw_calls = []\<rparr>"
  from w have h: "gateway_holds (\<lambda>x. x) g demo_ring demo_catalog" by (simp add: shows_as_def gateway_holds_def g_def)
  let ?request = "projr (hello lark_route ''req_1'')"
  have answer: "checked_answer (\<lambda>_. None) (echo ''umbra-adapter'' ''/v1/generate'' ?request) = echo '''' '''' ?request"
    by (simp add: checked_answer_def echo_def response_Validate_def hello_def lark_route_def fail_if_def)
  have "\<not> authorized (\<lambda>x. x) demo_ring demo_catalog 7 ''gwai_other'' ''lark'' auth" for auth
    by (simp add: authorized_def usable_key_def demo_ring_def eve_key_def hashKey_def)
  then have "\<exists>e. dp_Generate (\<lambda>_. None) (gateway_dispatcher (\<lambda>x. x) 7 echo) ''gwai_other'' ''lark'' ''req_1'' hello g = (Inl e, g)"
    using Generate_exact [OF h, of "\<lambda>_. None" 7 "''gwai_other''" "''lark''" "''req_1''" hello echo] by (simp add: sendable_def)
  moreover have "dp_Generate (\<lambda>_. None) (gateway_dispatcher (\<lambda>x. x) 7 echo) ''gwai_AQID'' ''lark'' ''req_1'' hello g =
      (echo [] [] ?request, g\<lparr>gw_calls := gw_calls g @ [(''umbra-adapter'', ''/v1/generate'', ?request)]\<rparr>)"
    using Generate_exact [OF h, of "\<lambda>_. None" 7 "''gwai_AQID''" "''lark''" "''req_1''" hello echo] hello_sendable answer by metis
  ultimately show ?thesis
    by (intro exI [of _ g] exI [of _ "g\<lparr>gw_calls := gw_calls g @ [(''umbra-adapter'', ''/v1/generate'', ?request)]\<rparr>"] exI [of _ ?request]
        exI [of _ "projr (echo [] [] ?request)"]) (simp add: echo_def g_def)
qed

end
