(* ===== verification/Wire.thy ===== *)
theory Wire
  imports Dataplane "HOL-Library.Countable"
begin

text \<open>
  What the protocol translators share: arithmetic on 64-bit token counts, raw JSON members and their
  strict decoding, the string functions of the Go library they use, and the text of JSON values.
\<close>

section \<open>64-bit integers\<close>

text \<open>A 64-bit result of integer arithmetic.\<close>

definition wrap64 :: "int \<Rightarrow> int" where
  "wrap64 x = (x + 2 ^ 63) mod 2 ^ 64 - 2 ^ 63"

definition int64 :: "int \<Rightarrow> bool" where
  "int64 x \<longleftrightarrow> - (2 ^ 63) \<le> x \<and> x < 2 ^ 63"

text \<open>Token counts that wrapped come back when the same numbers are taken off again.\<close>

lemma wrap64_id: "int64 x \<Longrightarrow> wrap64 x = x"
  by (simp add: int64_def wrap64_def)

lemma wrap64_cong: "x mod 2 ^ 64 = y mod 2 ^ 64 \<Longrightarrow> wrap64 x = wrap64 y"
  unfolding wrap64_def by (metis mod_add_left_eq)

lemma wrap64_mod: "wrap64 x mod 2 ^ 64 = x mod 2 ^ 64"
  unfolding wrap64_def by (simp add: mod_diff_left_eq)

lemma wrap64_add [simp]: "wrap64 (wrap64 x + y) = wrap64 (x + y)"
  by (rule wrap64_cong) (metis wrap64_mod mod_add_left_eq)

lemma wrap64_diff [simp]: "wrap64 (wrap64 x - y) = wrap64 (x - y)"
  by (rule wrap64_cong) (metis wrap64_mod mod_diff_left_eq)

lemma wrap64_diff_diff: "wrap64 (wrap64 x - y - z) = wrap64 (x - y - z)"
  using wrap64_diff [of x "y + z"] by (simp add: diff_diff_eq)

text \<open>\<^verbatim>\<open>%d\<close> of an \<^verbatim>\<open>int\<close>.\<close>

definition decimal_int :: "int \<Rightarrow> string" where
  "decimal_int n = (if n < 0 then ''-'' @ decimal (nat (- n)) else decimal (nat n))"

section \<open>Raw JSON\<close>

fun rawPresent :: "RawMessage \<Rightarrow> bool" where
  "rawPresent None = False"
| "rawPresent (Some JNull) = False"
| "rawPresent (Some _) = True"

text \<open>A decoder that disallows unknown fields, at one object.\<close>

definition only_fields :: "string list \<Rightarrow> (string \<times> json) list \<Rightarrow> unit result" where
  "only_fields names ms =
     fail_if (\<not> list_all (\<lambda>(k, _). list_ex (\<lambda>n. fold_eq n k) names) ms) (LibraryError ''json: unknown field'')"

definition assign_raw :: "json \<Rightarrow> RawMessage \<Rightarrow> RawMessage result" where
  "assign_raw j v = Inr (Some j)"

text \<open>Members tagged \<^verbatim>\<open>omitempty\<close>.\<close>

definition omit_string :: "string \<Rightarrow> string \<Rightarrow> (string \<times> json) list" where
  "omit_string name v = (if v = '''' then [] else [(name, JStr v)])"

definition omit_raws :: "string \<Rightarrow> json list \<Rightarrow> (string \<times> json) list" where
  "omit_raws name v = (if v = [] then [] else [(name, JArr v)])"

text \<open>
  \<^verbatim>\<open>string(raw)\<close> and \<^verbatim>\<open>json.RawMessage(s)\<close>: the text of a value and the value of a text, \<open>None\<close> for a text
  that is not JSON. A value is the value of its text.
\<close>

record JSONText =
  JT_text :: "json \<Rightarrow> string"
  JT_value :: "string \<Rightarrow> json option"

definition spells :: "JSONText \<Rightarrow> bool" where
  "spells T \<longleftrightarrow> (\<forall>j. JT_value T (JT_text T j) = Some j)"

definition text_of_raw :: "JSONText \<Rightarrow> RawMessage \<Rightarrow> string" where
  "text_of_raw T raw = (case raw of None \<Rightarrow> '''' | Some j \<Rightarrow> JT_text T j)"

lemma JT_value_text: "spells T \<Longrightarrow> JT_value T (JT_text T j) = Some j"
  by (simp add: spells_def)

lemma raw_object_text: "spells T \<Longrightarrow> isJSONObject raw \<Longrightarrow> JT_value T (text_of_raw T raw) = raw"
  by (cases raw) (simp_all add: text_of_raw_def JT_value_text)

section \<open>\<^verbatim>\<open>strings\<close>\<close>

definition HasPrefix :: "string \<Rightarrow> string \<Rightarrow> bool" where
  "HasPrefix s prefix \<longleftrightarrow> take (length prefix) s = prefix"

definition TrimPrefix :: "string \<Rightarrow> string \<Rightarrow> string" where
  "TrimPrefix s prefix = (if HasPrefix s prefix then drop (length prefix) s else s)"

definition HasSuffix :: "string \<Rightarrow> string \<Rightarrow> bool" where
  "HasSuffix s suffix \<longleftrightarrow> HasPrefix (rev s) (rev suffix)"

definition TrimSuffix :: "string \<Rightarrow> string \<Rightarrow> string" where
  "TrimSuffix s suffix = rev (TrimPrefix (rev s) (rev suffix))"

text \<open>\<^verbatim>\<open>strings.Cut\<close> at one character.\<close>

definition Cut :: "string \<Rightarrow> char \<Rightarrow> string \<times> string \<times> bool" where
  "Cut s sep = (if sep \<in> set s then (takeWhile (\<lambda>c. c \<noteq> sep) s, drop 1 (dropWhile (\<lambda>c. c \<noteq> sep) s), True) else (s, '''', False))"

lemma HasPrefix_append [simp]: "HasPrefix (p @ s) p"
  by (simp add: HasPrefix_def)

lemma TrimPrefix_append [simp]: "TrimPrefix (p @ s) p = s"
  by (simp add: TrimPrefix_def)

lemma HasSuffix_append [simp]: "HasSuffix (s @ p) p"
  by (simp add: HasSuffix_def)

lemma TrimSuffix_append [simp]: "TrimSuffix (s @ p) p = s"
  by (simp add: TrimSuffix_def)

lemma Cut_append: "sep \<notin> set a \<Longrightarrow> Cut (a @ sep # b) sep = (a, b, True)"
  by (induction a) (auto simp: Cut_def)

section \<open>Contents and tool choices\<close>

lemma map_filter_Cons: "List.map_filter f (x # xs) = (case f x of None \<Rightarrow> List.map_filter f xs | Some y \<Rightarrow> y # List.map_filter f xs)"
  by (simp add: List.map_filter_def split: option.splits)

lemma in_map_filter: "y \<in> set (List.map_filter f xs) \<longleftrightarrow> (\<exists>x \<in> set xs. f x = Some y)"
  by (force simp: List.map_filter_def)

lemma call_of_Content: "call_of (Content ty tx i tc tr) = (if ty = ContentToolCall then tc else None)"
  by (simp add: call_of_def)

text \<open>What a tool choice means: the name only counts in the mode that names a tool.\<close>

definition plain_choice :: "IRToolChoice \<Rightarrow> IRToolChoice" where
  "plain_choice c = \<lparr>Choice_Mode = Choice_Mode c, Choice_Name = (if Choice_Mode c = ''named'' then Choice_Name c else ''''), Choice_DisableParallel = False\<rparr>"

section \<open>An unambiguous text\<close>

instance json :: countable
  by countable_datatype

definition tally_text :: JSONText where
  "tally_text = \<lparr>JT_text = (\<lambda>j. replicate (to_nat j) (CHR ''|'')), JT_value = (\<lambda>s. Some (from_nat (length s)))\<rparr>"

lemma tally_text_spells: "spells tally_text"
  by (simp add: spells_def tally_text_def)

end
