(* ===== verification/Platform.thy ===== *)
theory Platform
  imports Services
begin

text \<open>
  Package \<^verbatim>\<open>internal/platform\<close>: the HTTP plumbing of every service (\<^verbatim>\<open>http.go\<close>) and the reading of
  environment variables (\<^verbatim>\<open>config.go\<close>), with the parts of \<^verbatim>\<open>net/http\<close> they use.

  A request is its method, the decoded segments of its clean path, its header and its body; a response
  is what the handler wrote. The header maps canonical names to the values sent. A body is the sequence
  of JSON values its text spells, each with the offsets where it starts and ends, followed perhaps by
  text that is not JSON; the string of a field that holds a time is given as that instant.
\<close>

section \<open>Requests and responses\<close>

record JSONStream =
  documents :: "(nat \<times> nat \<times> json) list"   \<comment> \<open>start, end, value\<close>
  malformed :: "nat option"                  \<comment> \<open>where text that is not JSON starts\<close>

record HTTPRequest =
  HR_Method :: string
  HR_Segments :: "string list"
  HR_Header :: "string \<Rightarrow> string list"
  HR_Body :: "JSONStream option"

definition Header_Get :: "HTTPRequest \<Rightarrow> string \<Rightarrow> string" where
  "Header_Get r name = (case HR_Header r name of [] \<Rightarrow> '''' | v # _ \<Rightarrow> v)"

datatype text_of = Text string | ErrorText error   \<comment> \<open>\<^verbatim>\<open>err.Error()\<close> is kept as the error\<close>

record Problem =
  Problem_Type :: string
  Problem_Title :: string
  Problem_Status :: nat
  Problem_Detail :: text_of
  Problem_Instance :: string

datatype ResponseBody = NoBody | PlainText string | JSONBody json | ProblemBody Problem

record HTTPResponse =
  Resp_Status :: nat
  Resp_Header :: "(string \<times> string) list"
  Resp_Body :: ResponseBody

section \<open>\<^verbatim>\<open>strings.Fields\<close>\<close>

fun span_word :: "string \<Rightarrow> string \<times> string" where
  "span_word [] = ([], [])"
| "span_word (c # s) =
     (if TrimLeft (c # s) \<noteq> c # s then ([], c # s) else case span_word s of (w, rest) \<Rightarrow> (c # w, rest))"

lemma span_word_length: "length (snd (span_word s)) \<le> length s"
  by (induction s) (auto split: prod.splits)

lemma trim_with_length: "length (trim_with p q s) \<le> length s"
  by (induction p q s rule: trim_with.induct) auto

lemma TrimLeft_length: "length (TrimLeft s) \<le> length s"
  by (simp add: TrimLeft_def trim_with_length)

lemma trim_with_idem: "trim_with p q (trim_with p q s) = trim_with p q s"
  by (induction p q s rule: trim_with.induct) auto

lemma TrimLeft_idem [simp]: "TrimLeft (TrimLeft s) = TrimLeft s"
  by (simp add: TrimLeft_def trim_with_idem)

function Fields :: "string \<Rightarrow> string list" where
  "Fields s =
     (case TrimLeft s of
        [] \<Rightarrow> []
      | c # s' \<Rightarrow> (case span_word (c # s') of (w, rest) \<Rightarrow> w # Fields rest))"
  by pat_completeness auto
termination
proof (relation "measure length", goal_cases)
  case (2 s c s' w rest)
  then have "TrimLeft (c # s') = c # s'" using TrimLeft_idem [of s] 2(1) by simp
  then have "length rest \<le> length s'" using 2 span_word_length [of s'] by (auto split: prod.splits)
  also have "\<dots> < length s" using TrimLeft_length [of s] 2(1) by simp
  finally show ?case by simp
qed simp

declare Fields.simps [simp del]

section \<open>\<^verbatim>\<open>http.go\<close>\<close>

text \<open>\<^verbatim>\<open>subtle.ConstantTimeCompare\<close> accumulates the differences of all bytes.\<close>

unbundle bit_operations_syntax

definition ConstantTimeCompare :: "string \<Rightarrow> string \<Rightarrow> nat" where
  "ConstantTimeCompare x y =
     (if length x \<noteq> length y then 0
      else if fold (\<lambda>(a, b) v. v OR (word_of_nat (byte a) XOR word_of_nat (byte b))) (zip x y) (0 :: 8 word) = 0 then 1 else 0)"

definition SecureEqual :: "string \<Rightarrow> string \<Rightarrow> bool" where
  "SecureEqual left right = (if length left \<noteq> length right then False else ConstantTimeCompare left right = 1)"

definition JSON :: "nat \<Rightarrow> json \<Rightarrow> HTTPResponse" where
  "JSON status value = \<lparr>Resp_Status = status, Resp_Header = [(''Content-Type'', ''application/json'')], Resp_Body = JSONBody value\<rparr>"

text \<open>The request ID is kept in the request's context; here it is an argument.\<close>

definition WriteProblem :: "string \<Rightarrow> nat \<Rightarrow> string \<Rightarrow> text_of \<Rightarrow> HTTPResponse" where
  "WriteProblem requestID status title detail =
     \<lparr>Resp_Status = status, Resp_Header = [(''Content-Type'', ''application/problem+json'')],
      Resp_Body = ProblemBody \<lparr>Problem_Type = ''about:blank'', Problem_Title = title, Problem_Status = status,
        Problem_Detail = detail, Problem_Instance = requestID\<rparr>\<rparr>"

text \<open>What is left of a body when only the first \<open>n\<close> bytes are read: a value cut in two is malformed.\<close>

fun limit_documents :: "nat \<Rightarrow> (nat \<times> nat \<times> json) list \<Rightarrow> nat option \<Rightarrow> JSONStream" where
  "limit_documents n [] bad =
     \<lparr>documents = [], malformed = (case bad of None \<Rightarrow> None | Some b \<Rightarrow> if b < n then Some b else None)\<rparr>"
| "limit_documents n ((s, e, v) # ds) bad =
     (if e \<le> n then let rest = limit_documents n ds bad in rest\<lparr>documents := (s, e, v) # documents rest\<rparr>
      else if s < n then \<lparr>documents = [], malformed = Some s\<rparr> else \<lparr>documents = [], malformed = None\<rparr>)"

definition LimitReader :: "nat \<Rightarrow> JSONStream \<Rightarrow> JSONStream" where
  "LimitReader n body = limit_documents n (documents body) (malformed body)"

text \<open>\<open>dec\<close> decodes a value into the destination, refusing unknown fields when \<open>rejectUnknown\<close> is set.\<close>

definition DecodeJSON :: "(bool \<Rightarrow> json \<Rightarrow> 'a result) \<Rightarrow> nat \<Rightarrow> bool \<Rightarrow> HTTPRequest \<Rightarrow> 'a result" where
  "DecodeJSON dec maxBytes rejectUnknown r =
     (case HR_Body r of
        None \<Rightarrow> Inl (LibraryError ''request body is required'')
      | Some body \<Rightarrow>
          (let stream = (if maxBytes > 0 then LimitReader (maxBytes + 1) body else body) in
           case documents stream of
             [] \<Rightarrow> Inl (Errorf ''decode JSON body: %w'' []
                     [if malformed stream = None then LibraryError ''EOF'' else LibraryError ''invalid JSON''])
           | (_, offset, value) # rest \<Rightarrow>
               ebind (wrapf ''decode JSON body: %w'' [] (dec rejectUnknown value)) (\<lambda>destination.
               ebind (fail_if (maxBytes > 0 \<and> offset > maxBytes) (Errorf ''request body exceeds %d bytes'' [decimal maxBytes] [])) (\<lambda>_.
               ebind (fail_if (rest \<noteq> []) (LibraryError ''request body must contain a single JSON value'')) (\<lambda>_.
               ebind (fail_if (malformed stream \<noteq> None)
                 (Errorf ''decode trailing JSON: %w'' [] [LibraryError ''invalid JSON''])) (\<lambda>_.
               Inr destination))))))"

definition BearerToken :: "string \<Rightarrow> string option" where
  "BearerToken header =
     (case Fields header of
        [scheme, token] \<Rightarrow> if \<not> fold_eq scheme ''Bearer'' \<or> token = '''' then None else Some token
      | _ \<Rightarrow> None)"

text \<open>A handler answers a request, given its ID, and changes the state behind the service.\<close>

type_synonym 'w handler = "string \<Rightarrow> HTTPRequest \<Rightarrow> 'w \<Rightarrow> HTTPResponse \<times> 'w"

definition HTTPMiddleware :: "nat list result \<Rightarrow> 'w handler \<Rightarrow> HTTPRequest \<Rightarrow> 'w \<Rightarrow> HTTPResponse \<times> 'w" where
  "HTTPMiddleware random next r w =
     (let given = Header_Get r ''X-Request-Id'';
          requestID = (if given = '''' then (case NewID ''req'' random of Inl _ \<Rightarrow> '''' | Inr i \<Rightarrow> i) else given) in
      case next requestID r w of (resp, w') \<Rightarrow>
        (resp\<lparr>Resp_Status := (if Resp_Status resp = 0 then 200 else Resp_Status resp),
              Resp_Header := (''X-Request-Id'', requestID) # Resp_Header resp\<rparr>, w'))"

section \<open>\<^verbatim>\<open>http.ServeMux\<close>\<close>

text \<open>
  A pattern is a method and the segments of a path, some of them wildcards, which match any segment
  that is not empty. \<^verbatim>\<open>GET\<close> also serves \<^verbatim>\<open>HEAD\<close>. The patterns of one service never match the
  same request.
\<close>

datatype segment = Lit string | Wildcard

record 'w pattern =
  pat_method :: string
  pat_path :: "segment list"
  pat_handler :: "string list \<Rightarrow> 'w handler"   \<comment> \<open>of the values of the wildcards\<close>

fun match_path :: "segment list \<Rightarrow> string list \<Rightarrow> string list option" where
  "match_path [] [] = Some []"
| "match_path (Lit l # ps) (s # ss) = (if l = s then match_path ps ss else None)"
| "match_path (Wildcard # ps) (s # ss) = (if s = '''' then None else map_option ((#) s) (match_path ps ss))"
| "match_path _ _ = None"

definition match_method :: "string \<Rightarrow> string \<Rightarrow> bool" where
  "match_method wanted got \<longleftrightarrow> wanted = got \<or> wanted = ''GET'' \<and> got = ''HEAD''"

fun ServeMux :: "'w pattern list \<Rightarrow> bool \<Rightarrow> 'w handler" where
  "ServeMux [] other requestID r w =
     (\<lparr>Resp_Status = (if other then 405 else 404), Resp_Header = [(''Content-Type'', ''text/plain; charset=utf-8'')],
       Resp_Body = PlainText (if other then ''Method Not Allowed'' else ''404 page not found'')\<rparr>, w)"
| "ServeMux (p # ps) other requestID r w =
     (case match_path (pat_path p) (HR_Segments r) of
        None \<Rightarrow> ServeMux ps other requestID r w
      | Some values \<Rightarrow>
          if match_method (pat_method p) (HR_Method r) then pat_handler p values requestID r w
          else ServeMux ps True requestID r w)"

section \<open>\<^verbatim>\<open>config.go\<close>\<close>

type_synonym environment = "string \<Rightarrow> string"    \<comment> \<open>\<^verbatim>\<open>os.Getenv\<close>\<close>

definition Env :: "environment \<Rightarrow> string \<Rightarrow> string \<Rightarrow> string" where
  "Env env key fallback = (if env key \<noteq> '''' then env key else fallback)"

definition RequiredEnv :: "environment \<Rightarrow> string \<Rightarrow> string result" where
  "RequiredEnv env key =
     (if env key = '''' then Inl (Errorf ''required environment variable %s is not set'' [key] []) else Inr (env key))"

text \<open>\<^verbatim>\<open>strconv.ParseInt(s, 10, 64)\<close>\<close>

definition ParseInt :: "string \<Rightarrow> int result" where
  "ParseInt s =
     (let neg = (take 1 s = ''-''); digits = (if neg \<or> take 1 s = ''+'' then drop 1 s else s) in
      if digits = [] \<or> \<not> list_all is_digit digits then Inl (LibraryError ''strconv.ParseInt: invalid syntax'')
      else let n = int (decimal_value digits) in
        if (if neg then n > 2 ^ 63 else n \<ge> 2 ^ 63) then Inl (LibraryError ''strconv.ParseInt: value out of range'')
        else Inr (if neg then - n else n))"

definition EnvInt64 :: "environment \<Rightarrow> string \<Rightarrow> int \<Rightarrow> int result" where
  "EnvInt64 env key fallback =
     (if env key = '''' then Inr fallback else wrapf ''parse %s: %w'' [key] (ParseInt (env key)))"

section \<open>Lemmas\<close>

lemma byte_word_eq_iff: "(word_of_nat (byte a) :: 8 word) = word_of_nat (byte b) \<longleftrightarrow> a = b"
  by (simp add: byte_def word_of_nat_eq_iff take_bit_eq_mod)

lemma xor_zero_iff: "(x :: 8 word) XOR y = 0 \<longleftrightarrow> x = y"
  by (auto simp: bit_eq_iff bit_xor_iff)

lemma or_fold_zero:
  "fold (\<lambda>(a, b) v. v OR (word_of_nat (byte a) XOR word_of_nat (byte b))) ps (v :: 8 word) = 0 \<longleftrightarrow>
     v = 0 \<and> (\<forall>(a, b) \<in> set ps. a = b)"
proof (induction ps arbitrary: v)
  case (Cons p ps)
  show ?case by (cases p) (simp add: Cons.IH or_eq_0_iff xor_zero_iff byte_word_eq_iff)
qed simp

lemma SecureEqual_iff: "SecureEqual left right \<longleftrightarrow> left = right"
proof (cases "length left = length right")
  case True
  then have "(\<forall>(a, b) \<in> set (zip left right). a = b) \<longleftrightarrow> left = right"
    by (induction left right rule: list_induct2) auto
  with True show ?thesis by (simp add: SecureEqual_def ConstantTimeCompare_def or_fold_zero)
qed (auto simp: SecureEqual_def)

text \<open>The ID of a request: the one it carries, or a new one.\<close>

definition request_id :: "nat list result \<Rightarrow> HTTPRequest \<Rightarrow> string" where
  "request_id random r =
     (let given = Header_Get r ''X-Request-Id'' in if given = '''' then (case NewID ''req'' random of Inl _ \<Rightarrow> '''' | Inr i \<Rightarrow> i) else given)"

lemma HTTPMiddleware_run:
  assumes "f (request_id random r) r w = (resp, w')" "Resp_Status resp \<noteq> 0"
  shows "HTTPMiddleware random f r w = (resp\<lparr>Resp_Header := (''X-Request-Id'', request_id random r) # Resp_Header resp\<rparr>, w')"
proof -
  have "f (let given = Header_Get r ''X-Request-Id'' in if given = '''' then (case NewID ''req'' random of Inl _ \<Rightarrow> '''' | Inr i \<Rightarrow> i) else given) r w = (resp, w')"
    using assms(1) by (simp add: request_id_def)
  then show ?thesis using assms(2) by (simp add: HTTPMiddleware_def request_id_def Let_def)
qed

lemma match_literals: "match_path (map Lit ls) ss = (if ss = ls then Some [] else None)"
proof (induction ls arbitrary: ss)
  case Nil
  show ?case by (cases ss) simp_all
next
  case (Cons l ls)
  then show ?case by (cases ss) simp_all
qed

end
