(* ===== verification/IR_JSON.thy ===== *)
theory IR_JSON
  imports Wire Platform "HOL-Library.AList"
begin

text \<open>
  The JSON form of the intermediate representation: what \<^verbatim>\<open>json.Marshal\<close> and \<^verbatim>\<open>json.Unmarshal\<close> make of the
  struct tags of \<^verbatim>\<open>ir/types.go\<close>. It is the protocol between gateways and adapters, which decode it without
  accepting unknown fields. A well-formed request or response comes back from its JSON form unchanged.

  The text of a \<^verbatim>\<open>float64\<close> is an argument: \<open>ft_format\<close> is \<^verbatim>\<open>strconv.FormatFloat\<close> and \<open>ft_parse\<close> is
  \<^verbatim>\<open>strconv.ParseFloat\<close>. The elements of an array are decoded into zero values; an empty slice without
  \<^verbatim>\<open>omitempty\<close> is written as the empty array. A value of type \<^verbatim>\<open>any\<close> is the JSON value it was read from.
\<close>

section \<open>Assigning to pointers, slices, numbers and structs\<close>

record FloatText =
  ft_format :: "float64 \<Rightarrow> string"
  ft_parse :: "string \<Rightarrow> float64 option"

definition assign_ptr :: "'a \<Rightarrow> (json \<Rightarrow> 'a \<Rightarrow> 'a result) \<Rightarrow> json \<Rightarrow> 'a option \<Rightarrow> 'a option result" where
  "assign_ptr zero d j v =
     (if j = JNull then Inr None else ebind (d j (case v of None \<Rightarrow> zero | Some x \<Rightarrow> x)) (\<lambda>x. Inr (Some x)))"

fun assign_slice :: "'a \<Rightarrow> (json \<Rightarrow> 'a \<Rightarrow> 'a result) \<Rightarrow> json \<Rightarrow> 'a list \<Rightarrow> 'a list result" where
  "assign_slice zero d JNull v = Inr []"
| "assign_slice zero d (JArr js) v = emap (\<lambda>j. d j zero) js"
| "assign_slice zero d _ v = type_error"

fun assign_int :: "json \<Rightarrow> int \<Rightarrow> int result" where
  "assign_int JNull v = Inr v"
| "assign_int (JNum s) v = ParseInt s"
| "assign_int _ v = type_error"

fun assign_float :: "FloatText \<Rightarrow> json \<Rightarrow> float64 \<Rightarrow> float64 result" where
  "assign_float F JNull v = Inr v"
| "assign_float F (JNum s) v = (case ft_parse F s of None \<Rightarrow> type_error | Some x \<Rightarrow> Inr x)"
| "assign_float F _ v = type_error"

fun assign_map :: "json \<Rightarrow> (string \<times> json) list \<Rightarrow> (string \<times> json) list result" where
  "assign_map JNull v = Inr []"
| "assign_map (JObj ms) v = Inr (fold (\<lambda>(k, j). AList.update k j) ms v)"
| "assign_map _ v = type_error"

fun assign_struct ::
  "bool \<Rightarrow> string list \<Rightarrow> ((string \<times> json) list \<Rightarrow> 'a \<Rightarrow> 'a result) \<Rightarrow> json \<Rightarrow> 'a \<Rightarrow> 'a result" where
  "assign_struct strict names members JNull v = Inr v"
| "assign_struct strict names members (JObj ms) v =
     ebind (if strict then only_fields names ms else Inr ()) (\<lambda>_. members ms v)"
| "assign_struct strict names members _ v = type_error"

lemma json_field_agree: "(\<And>k j u. (k, j) \<in> set ms \<Longrightarrow> d j u = d' j u) \<Longrightarrow> json_field name d ms v = json_field name d' ms v"
proof (induction ms arbitrary: v)
  case (Cons m ms)
  obtain k j where m: "m = (k, j)" by (cases m)
  from Cons.prems [of k j v] m have "d j v = d' j v" by simp
  moreover have "json_field name d ms = json_field name d' ms" by (rule ext, rule Cons.IH) (erule Cons.prems [OF list.set_intros(2)])
  ultimately show ?case using m by simp
qed simp

lemma json_field_cong [fundef_cong]:
  "name = name' \<Longrightarrow> ms = ms' \<Longrightarrow> v = v' \<Longrightarrow> (\<And>k j u. (k, j) \<in> set ms' \<Longrightarrow> d j u = d' j u) \<Longrightarrow>
     json_field name d ms v = json_field name' d' ms' v'"
  using json_field_agree [of ms' d d'] by simp

lemma assign_ptr_cong [fundef_cong]:
  "zero = zero' \<Longrightarrow> j = j' \<Longrightarrow> v = v' \<Longrightarrow> (\<And>u. d j' u = d' j' u) \<Longrightarrow> assign_ptr zero d j v = assign_ptr zero' d' j' v'"
  by (simp add: assign_ptr_def)

lemma emap_cong: "(\<And>x. x \<in> set xs \<Longrightarrow> f x = g x) \<Longrightarrow> emap f xs = emap g xs"
  by (induction xs) auto

lemma assign_slice_cong [fundef_cong]:
  "zero = zero' \<Longrightarrow> j = j' \<Longrightarrow> v = v' \<Longrightarrow> (\<And>js x u. j' = JArr js \<Longrightarrow> x \<in> set js \<Longrightarrow> d x u = d' x u) \<Longrightarrow>
     assign_slice zero d j v = assign_slice zero' d' j' v'"
  by (cases j') (auto intro!: emap_cong)

lemma assign_struct_cong [fundef_cong]:
  "strict = strict' \<Longrightarrow> names = names' \<Longrightarrow> j = j' \<Longrightarrow> v = v' \<Longrightarrow> (\<And>ms u. j' = JObj ms \<Longrightarrow> members ms u = members' ms u) \<Longrightarrow>
     assign_struct strict names members j v = assign_struct strict' names' members' j' v'"
  by (cases j') auto

section \<open>\<^verbatim>\<open>types.go\<close>: decoding\<close>

definition assign_Route :: "bool \<Rightarrow> json \<Rightarrow> IRRoute \<Rightarrow> IRRoute result" where
  "assign_Route strict = assign_struct strict [''provider_id'', ''upstream_model''] (\<lambda>ms v.
     ebind (json_field ''provider_id'' assign_string ms (IRRoute_ProviderID v)) (\<lambda>p.
     ebind (json_field ''upstream_model'' assign_string ms (IRRoute_UpstreamModel v)) (\<lambda>u.
     Inr \<lparr>IRRoute_ProviderID = p, IRRoute_UpstreamModel = u\<rparr>)))"

definition assign_Image :: "bool \<Rightarrow> json \<Rightarrow> Image \<Rightarrow> Image result" where
  "assign_Image strict = assign_struct strict [''url'', ''media_type'', ''data''] (\<lambda>ms v.
     ebind (json_field ''url'' assign_string ms (Image_URL v)) (\<lambda>u.
     ebind (json_field ''media_type'' assign_string ms (Image_MediaType v)) (\<lambda>m.
     ebind (json_field ''data'' assign_string ms (Image_Data v)) (\<lambda>d.
     Inr \<lparr>Image_URL = u, Image_MediaType = m, Image_Data = d\<rparr>))))"

definition assign_ToolCall :: "bool \<Rightarrow> json \<Rightarrow> ToolCall \<Rightarrow> ToolCall result" where
  "assign_ToolCall strict = assign_struct strict [''id'', ''name'', ''arguments'', ''signature''] (\<lambda>ms v.
     ebind (json_field ''id'' assign_string ms (TC_ID v)) (\<lambda>i.
     ebind (json_field ''name'' assign_string ms (TC_Name v)) (\<lambda>n.
     ebind (json_field ''arguments'' assign_raw ms (TC_Arguments v)) (\<lambda>a.
     ebind (json_field ''signature'' assign_string ms (TC_Signature v)) (\<lambda>s.
     Inr \<lparr>TC_ID = i, TC_Name = n, TC_Arguments = a, TC_Signature = s\<rparr>)))))"

definition no_image :: Image where "no_image = \<lparr>Image_URL = '''', Image_MediaType = '''', Image_Data = ''''\<rparr>"
definition no_call :: ToolCall where "no_call = \<lparr>TC_ID = '''', TC_Name = '''', TC_Arguments = None, TC_Signature = ''''\<rparr>"
definition no_result :: ToolResult where "no_result = ToolResult '''' '''' [] None False"
definition no_content :: Content where "no_content = Content '''' '''' None None None"

lemma member_size: "(k, j) \<in> set ms \<Longrightarrow> size j < size (JObj ms)"
  by (induction ms) auto

lemma element_size: "j \<in> set js \<Longrightarrow> size j < size (JArr js)"
  by (induction js) auto

function assign_Content :: "bool \<Rightarrow> json \<Rightarrow> Content \<Rightarrow> Content result"
  and assign_ToolResult :: "bool \<Rightarrow> json \<Rightarrow> ToolResult \<Rightarrow> ToolResult result" where
  "assign_Content strict j v =
     assign_struct strict [''type'', ''text'', ''image'', ''tool_call'', ''tool_result''] (\<lambda>ms v.
     ebind (json_field ''type'' assign_string ms (C_Type v)) (\<lambda>ty.
     ebind (json_field ''text'' assign_string ms (C_Text v)) (\<lambda>tx.
     ebind (json_field ''image'' (assign_ptr no_image (assign_Image strict)) ms (C_Image v)) (\<lambda>im.
     ebind (json_field ''tool_call'' (assign_ptr no_call (assign_ToolCall strict)) ms (C_ToolCall v)) (\<lambda>tc.
     ebind (json_field ''tool_result'' (\<lambda>j. assign_ptr no_result (\<lambda>j. assign_ToolResult strict j) j) ms (C_ToolResult v)) (\<lambda>tr.
     Inr (Content ty tx im tc tr))))))) j v"
| "assign_ToolResult strict j v =
     assign_struct strict [''tool_call_id'', ''name'', ''content'', ''result'', ''is_error''] (\<lambda>ms v.
     ebind (json_field ''tool_call_id'' assign_string ms (TR_ToolCallID v)) (\<lambda>i.
     ebind (json_field ''name'' assign_string ms (TR_Name v)) (\<lambda>n.
     ebind (json_field ''content'' (\<lambda>j. assign_slice no_content (\<lambda>j. assign_Content strict j) j) ms (TR_Content v)) (\<lambda>c.
     ebind (json_field ''result'' assign_raw ms (TR_Result v)) (\<lambda>r.
     ebind (json_field ''is_error'' assign_bool ms (TR_IsError v)) (\<lambda>e.
     Inr (ToolResult i n c r e))))))) j v"
  by pat_completeness auto

termination
  by (relation "measure (case_sum (\<lambda>(_, j, _). size j) (\<lambda>(_, j, _). size j))")
    (auto dest!: member_size element_size)

declare assign_Content.simps [simp del] assign_ToolResult.simps [simp del]

definition assign_Tool :: "bool \<Rightarrow> json \<Rightarrow> IRTool \<Rightarrow> IRTool result" where
  "assign_Tool strict = assign_struct strict [''name'', ''description'', ''input_schema'', ''strict''] (\<lambda>ms v.
     ebind (json_field ''name'' assign_string ms (Tool_Name v)) (\<lambda>n.
     ebind (json_field ''description'' assign_string ms (Tool_Description v)) (\<lambda>d.
     ebind (json_field ''input_schema'' assign_raw ms (Tool_InputSchema v)) (\<lambda>s.
     ebind (json_field ''strict'' (assign_ptr False assign_bool) ms (Tool_Strict v)) (\<lambda>t.
     Inr \<lparr>Tool_Name = n, Tool_Description = d, Tool_InputSchema = s, Tool_Strict = t\<rparr>)))))"

definition assign_ToolChoice :: "bool \<Rightarrow> json \<Rightarrow> IRToolChoice \<Rightarrow> IRToolChoice result" where
  "assign_ToolChoice strict = assign_struct strict [''mode'', ''name'', ''disable_parallel''] (\<lambda>ms v.
     ebind (json_field ''mode'' assign_string ms (Choice_Mode v)) (\<lambda>m.
     ebind (json_field ''name'' assign_string ms (Choice_Name v)) (\<lambda>n.
     ebind (json_field ''disable_parallel'' assign_bool ms (Choice_DisableParallel v)) (\<lambda>d.
     Inr \<lparr>Choice_Mode = m, Choice_Name = n, Choice_DisableParallel = d\<rparr>))))"

definition assign_Message :: "bool \<Rightarrow> json \<Rightarrow> IRMessage \<Rightarrow> IRMessage result" where
  "assign_Message strict = assign_struct strict [''role'', ''content''] (\<lambda>ms v.
     ebind (json_field ''role'' assign_string ms (Msg_Role v)) (\<lambda>r.
     ebind (json_field ''content'' (assign_slice no_content (assign_Content strict)) ms (Msg_Content v)) (\<lambda>c.
     Inr \<lparr>Msg_Role = r, Msg_Content = c\<rparr>)))"

definition no_tool :: IRTool where "no_tool = \<lparr>Tool_Name = '''', Tool_Description = '''', Tool_InputSchema = None, Tool_Strict = None\<rparr>"
definition no_choice :: IRToolChoice where "no_choice = \<lparr>Choice_Mode = '''', Choice_Name = '''', Choice_DisableParallel = False\<rparr>"
definition no_message :: IRMessage where "no_message = \<lparr>Msg_Role = '''', Msg_Content = []\<rparr>"

definition no_request :: IRRequest where
  "no_request = \<lparr>Req_Version = '''', Req_ID = '''', Req_Route = \<lparr>IRRoute_ProviderID = '''', IRRoute_UpstreamModel = ''''\<rparr>, Req_Messages = [],
     Req_MaxOutputTokens = None, Req_Temperature = None, Req_TopP = None, Req_Stop = [], Req_Tools = [], Req_ToolChoice = None,
     Req_Metadata = [], Req_Stream = False\<rparr>"

definition request_names :: "string list" where
  "request_names = [''version'', ''id'', ''route'', ''messages'', ''max_output_tokens'', ''temperature'', ''top_p'', ''stop'', ''tools'',
     ''tool_choice'', ''metadata'', ''stream'']"

definition decode_Request :: "FloatText \<Rightarrow> bool \<Rightarrow> json \<Rightarrow> IRRequest result" where
  "decode_Request F strict j = assign_struct strict request_names (\<lambda>ms v.
     ebind (json_field ''version'' assign_string ms (Req_Version v)) (\<lambda>vn.
     ebind (json_field ''id'' assign_string ms (Req_ID v)) (\<lambda>i.
     ebind (json_field ''route'' (assign_Route strict) ms (Req_Route v)) (\<lambda>rt.
     ebind (json_field ''messages'' (assign_slice no_message (assign_Message strict)) ms (Req_Messages v)) (\<lambda>mg.
     ebind (json_field ''max_output_tokens'' (assign_ptr 0 assign_int) ms (Req_MaxOutputTokens v)) (\<lambda>mx.
     ebind (json_field ''temperature'' (assign_ptr 0 (assign_float F)) ms (Req_Temperature v)) (\<lambda>te.
     ebind (json_field ''top_p'' (assign_ptr 0 (assign_float F)) ms (Req_TopP v)) (\<lambda>tp.
     ebind (json_field ''stop'' assign_strings ms (Req_Stop v)) (\<lambda>st.
     ebind (json_field ''tools'' (assign_slice no_tool (assign_Tool strict)) ms (Req_Tools v)) (\<lambda>tl.
     ebind (json_field ''tool_choice'' (assign_ptr no_choice (assign_ToolChoice strict)) ms (Req_ToolChoice v)) (\<lambda>tc.
     ebind (json_field ''metadata'' assign_map ms (Req_Metadata v)) (\<lambda>md.
     ebind (json_field ''stream'' assign_bool ms (Req_Stream v)) (\<lambda>sm.
     Inr \<lparr>Req_Version = vn, Req_ID = i, Req_Route = rt, Req_Messages = mg, Req_MaxOutputTokens = mx, Req_Temperature = te, Req_TopP = tp,
       Req_Stop = st, Req_Tools = tl, Req_ToolChoice = tc, Req_Metadata = md, Req_Stream = sm\<rparr>)))))))))))))
     j no_request"

definition assign_Usage :: "bool \<Rightarrow> json \<Rightarrow> IRUsage \<Rightarrow> IRUsage result" where
  "assign_Usage strict = assign_struct strict
     [''input_tokens'', ''output_tokens'', ''cache_creation_input_tokens'', ''cached_input_tokens''] (\<lambda>ms v.
     ebind (json_field ''input_tokens'' assign_int ms (Usage_InputTokens v)) (\<lambda>i.
     ebind (json_field ''output_tokens'' assign_int ms (Usage_OutputTokens v)) (\<lambda>out.
     ebind (json_field ''cache_creation_input_tokens'' assign_int ms (Usage_CacheCreationInputTokens v)) (\<lambda>cc.
     ebind (json_field ''cached_input_tokens'' assign_int ms (Usage_CachedInputTokens v)) (\<lambda>ci.
     Inr \<lparr>Usage_InputTokens = i, Usage_OutputTokens = out, Usage_CacheCreationInputTokens = cc, Usage_CachedInputTokens = ci\<rparr>)))))"

definition no_response :: IRResponse where
  "no_response = \<lparr>Resp_Version = '''', Resp_ID = '''', Resp_Model = '''', Resp_Content = [], Resp_FinishReason = '''', Resp_StopSequence = '''',
     Resp_Usage = \<lparr>Usage_InputTokens = 0, Usage_OutputTokens = 0, Usage_CacheCreationInputTokens = 0, Usage_CachedInputTokens = 0\<rparr>,
     Resp_ProviderResponseID = ''''\<rparr>"

definition response_names :: "string list" where
  "response_names = [''version'', ''id'', ''model'', ''content'', ''finish_reason'', ''stop_sequence'', ''usage'', ''provider_response_id'']"

definition decode_Response :: "bool \<Rightarrow> json \<Rightarrow> IRResponse result" where
  "decode_Response strict j = assign_struct strict response_names (\<lambda>ms v.
     ebind (json_field ''version'' assign_string ms (Resp_Version v)) (\<lambda>vn.
     ebind (json_field ''id'' assign_string ms (Resp_ID v)) (\<lambda>i.
     ebind (json_field ''model'' assign_string ms (Resp_Model v)) (\<lambda>m.
     ebind (json_field ''content'' (assign_slice no_content (assign_Content strict)) ms (Resp_Content v)) (\<lambda>c.
     ebind (json_field ''finish_reason'' assign_string ms (Resp_FinishReason v)) (\<lambda>f.
     ebind (json_field ''stop_sequence'' assign_string ms (Resp_StopSequence v)) (\<lambda>s.
     ebind (json_field ''usage'' (assign_Usage strict) ms (Resp_Usage v)) (\<lambda>u.
     ebind (json_field ''provider_response_id'' assign_string ms (Resp_ProviderResponseID v)) (\<lambda>p.
     Inr \<lparr>Resp_Version = vn, Resp_ID = i, Resp_Model = m, Resp_Content = c, Resp_FinishReason = f, Resp_StopSequence = s, Resp_Usage = u,
       Resp_ProviderResponseID = p\<rparr>)))))))))
     j no_response"

section \<open>\<^verbatim>\<open>types.go\<close>: encoding\<close>

definition json_int :: "int \<Rightarrow> json" where "json_int n = JNum (decimal_int n)"

definition json_raw :: "RawMessage \<Rightarrow> json" where
  "json_raw raw = (case raw of None \<Rightarrow> JNull | Some j \<Rightarrow> j)"

definition omit_int :: "string \<Rightarrow> int \<Rightarrow> (string \<times> json) list" where
  "omit_int name n = (if n = 0 then [] else [(name, json_int n)])"

definition omit_bool :: "string \<Rightarrow> bool \<Rightarrow> (string \<times> json) list" where
  "omit_bool name b = (if b then [(name, JBool True)] else [])"

definition json_of_Route :: "IRRoute \<Rightarrow> json" where
  "json_of_Route r = JObj [(''provider_id'', JStr (IRRoute_ProviderID r)), (''upstream_model'', JStr (IRRoute_UpstreamModel r))]"

definition json_of_Image :: "Image \<Rightarrow> json" where
  "json_of_Image i = JObj (omit_string ''url'' (Image_URL i) @ omit_string ''media_type'' (Image_MediaType i) @ omit_string ''data'' (Image_Data i))"

definition json_of_ToolCall :: "ToolCall \<Rightarrow> json" where
  "json_of_ToolCall c = JObj ([(''id'', JStr (TC_ID c)), (''name'', JStr (TC_Name c)), (''arguments'', json_raw (TC_Arguments c))] @
     omit_string ''signature'' (TC_Signature c))"

fun json_of_Content :: "Content \<Rightarrow> json" and json_of_ToolResult :: "ToolResult \<Rightarrow> json" where
  "json_of_Content (Content ty tx im tc tr) = JObj ([(''type'', JStr ty)] @ omit_string ''text'' tx @
     json_omitempty ''image'' json_of_Image im @ json_omitempty ''tool_call'' json_of_ToolCall tc @
     (case tr of None \<Rightarrow> [] | Some r \<Rightarrow> [(''tool_result'', json_of_ToolResult r)]))"
| "json_of_ToolResult (ToolResult i n cs raw e) = JObj ([(''tool_call_id'', JStr i)] @ omit_string ''name'' n @
     omit_raws ''content'' (map json_of_Content cs) @ json_omitempty ''result'' id raw @ omit_bool ''is_error'' e)"

definition json_of_Message :: "IRMessage \<Rightarrow> json" where
  "json_of_Message m = JObj [(''role'', JStr (Msg_Role m)), (''content'', JArr (map json_of_Content (Msg_Content m)))]"

definition json_of_Tool :: "IRTool \<Rightarrow> json" where
  "json_of_Tool t = JObj ([(''name'', JStr (Tool_Name t))] @ omit_string ''description'' (Tool_Description t) @
     [(''input_schema'', json_raw (Tool_InputSchema t))] @ json_omitempty ''strict'' JBool (Tool_Strict t))"

definition json_of_ToolChoice :: "IRToolChoice \<Rightarrow> json" where
  "json_of_ToolChoice c = JObj ([(''mode'', JStr (Choice_Mode c))] @ omit_string ''name'' (Choice_Name c) @
     omit_bool ''disable_parallel'' (Choice_DisableParallel c))"

definition json_float :: "FloatText \<Rightarrow> float64 \<Rightarrow> json" where "json_float F x = JNum (ft_format F x)"

definition request_members :: "FloatText \<Rightarrow> IRRequest \<Rightarrow> (string \<times> json) list" where
  "request_members F r = [(''version'', JStr (Req_Version r)), (''id'', JStr (Req_ID r)), (''route'', json_of_Route (Req_Route r)),
     (''messages'', JArr (map json_of_Message (Req_Messages r)))] @ json_omitempty ''max_output_tokens'' json_int (Req_MaxOutputTokens r) @
     json_omitempty ''temperature'' (json_float F) (Req_Temperature r) @ json_omitempty ''top_p'' (json_float F) (Req_TopP r) @
     omit_raws ''stop'' (map JStr (Req_Stop r)) @ omit_raws ''tools'' (map json_of_Tool (Req_Tools r)) @
     json_omitempty ''tool_choice'' json_of_ToolChoice (Req_ToolChoice r) @
     (if Req_Metadata r = [] then [] else [(''metadata'', JObj (Req_Metadata r))]) @ omit_bool ''stream'' (Req_Stream r)"

definition json_of_Request :: "FloatText \<Rightarrow> IRRequest \<Rightarrow> json" where
  "json_of_Request F r = JObj (request_members F r)"

definition json_of_Usage :: "IRUsage \<Rightarrow> json" where
  "json_of_Usage u = JObj ([(''input_tokens'', json_int (Usage_InputTokens u)), (''output_tokens'', json_int (Usage_OutputTokens u))] @
     omit_int ''cache_creation_input_tokens'' (Usage_CacheCreationInputTokens u) @ omit_int ''cached_input_tokens'' (Usage_CachedInputTokens u))"

definition json_of_Response :: "IRResponse \<Rightarrow> json" where
  "json_of_Response r = JObj ([(''version'', JStr (Resp_Version r)), (''id'', JStr (Resp_ID r)), (''model'', JStr (Resp_Model r)),
     (''content'', JArr (map json_of_Content (Resp_Content r))), (''finish_reason'', JStr (Resp_FinishReason r))] @
     omit_string ''stop_sequence'' (Resp_StopSequence r) @ [(''usage'', json_of_Usage (Resp_Usage r))] @
     omit_string ''provider_response_id'' (Resp_ProviderResponseID r))"


section \<open>Members\<close>

lemma json_field_append [simp]: "json_field name d (ms @ ms') v = ebind (json_field name d ms v) (json_field name d ms')"
proof (induction ms arbitrary: v)
  case (Cons m ms)
  obtain k j where "m = (k, j)" by (cases m)
  then show ?case by (cases "d j v") (simp_all add: Cons.IH)
qed simp

lemma ebind_no_members [simp]: "ebind r (json_field name d []) = r"
  by (cases r) auto

lemma json_field_omitted [simp]:
  "json_field name d (omit_string n s) v = (if fold_eq name n \<and> s \<noteq> [] then d (JStr s) v else Inr v)"
  "json_field name d (omit_raws n js) v = (if fold_eq name n \<and> js \<noteq> [] then d (JArr js) v else Inr v)"
  "json_field name d (omit_int n i) v = (if fold_eq name n \<and> i \<noteq> 0 then d (json_int i) v else Inr v)"
  "json_field name d (omit_bool n b) v = (if fold_eq name n \<and> b then d (JBool True) v else Inr v)"
  "json_field name d (json_omitempty n f x) v = (if fold_eq name n then (case x of None \<Rightarrow> Inr v | Some y \<Rightarrow> d (f y) v) else Inr v)"
  by (auto simp: omit_string_def omit_raws_def omit_int_def omit_bool_def split: option.splits)

lemma known_omitted [simp]:
  "list_all (\<lambda>(k, _). Q k) (omit_string n s) \<longleftrightarrow> s = [] \<or> Q n"
  "list_all (\<lambda>(k, _). Q k) (omit_raws n js) \<longleftrightarrow> js = [] \<or> Q n"
  "list_all (\<lambda>(k, _). Q k) (omit_int n i) \<longleftrightarrow> i = 0 \<or> Q n"
  "list_all (\<lambda>(k, _). Q k) (omit_bool n b) \<longleftrightarrow> \<not> b \<or> Q n"
  "list_all (\<lambda>(k, _). Q k) (json_omitempty n f x) \<longleftrightarrow> x = None \<or> Q n"
  by (auto simp: omit_string_def omit_raws_def omit_int_def omit_bool_def split: option.splits) (cases x; auto)+

lemma emap_decode: "(\<And>x. x \<in> set xs \<Longrightarrow> d (f x) = Inr x) \<Longrightarrow> emap d (map f xs) = Inr xs"
  by (induction xs) auto

lemma decimal_unsigned: "take 1 (decimal n) \<noteq> ''-''" "take 1 (decimal n) \<noteq> ''+''"
proof -
  have nd: "\<not> is_digit (CHR ''-'')" "\<not> is_digit (CHR ''+'')" by code_simp+
  obtain c s where "decimal n = c # s" using decimal_nonempty [of n] by (cases "decimal n") simp_all
  with decimal_digits [of n] nd show "take 1 (decimal n) \<noteq> ''-''" "take 1 (decimal n) \<noteq> ''+''" by auto
qed

lemma ParseInt_decimal_int: "int64 n \<Longrightarrow> ParseInt (decimal_int n) = Inr n"
proof (cases "n < 0")
  case True
  moreover assume "int64 n"
  ultimately show ?thesis
    by (simp add: ParseInt_def decimal_int_def Let_def decimal_digits int64_def)
next
  case False
  moreover assume "int64 n"
  ultimately show ?thesis
    using decimal_unsigned [of "nat n"] by (simp add: ParseInt_def decimal_int_def Let_def decimal_digits int64_def)
qed

lemma assign_int_json [simp]: "int64 n \<Longrightarrow> assign_int (json_int n) v = Inr n"
  by (simp add: json_int_def ParseInt_decimal_int)

lemma assign_Route_json: "assign_Route strict (json_of_Route r) v = Inr r"
  by (simp add: assign_Route_def json_of_Route_def only_fields_def fail_if_def codec_simps)

lemma assign_Image_json: "assign_Image strict (json_of_Image i) no_image = Inr i"
  by (simp add: assign_Image_def json_of_Image_def no_image_def only_fields_def fail_if_def codec_simps)

lemma assign_ToolCall_json: "TC_Arguments c \<noteq> None \<Longrightarrow> assign_ToolCall strict (json_of_ToolCall c) no_call = Inr c"
  by (auto simp: assign_ToolCall_def json_of_ToolCall_def no_call_def only_fields_def fail_if_def assign_raw_def json_raw_def codec_simps)


section \<open>The round trip\<close>

lemma json_not_null [simp]:
  "json_of_Image i \<noteq> JNull" "json_of_ToolCall call \<noteq> JNull" "json_of_ToolResult result \<noteq> JNull" "json_of_ToolChoice choice \<noteq> JNull"
  "json_int n \<noteq> JNull" "json_float F x \<noteq> JNull"
  by (simp_all add: json_of_ToolResult.simps [of "TR_ToolCallID result" "TR_Name result" "TR_Content result" "TR_Result result" "TR_IsError result", simplified] json_of_Image_def json_of_ToolCall_def json_of_ToolChoice_def json_int_def json_float_def)

lemmas struct_simps = only_fields_def fail_if_def assign_ptr_def codec_simps

lemma part_json:
  assumes "C_ToolCall c = None \<or> (\<exists>call. C_ToolCall c = Some call \<and> TC_Arguments call \<noteq> None)" "C_ToolResult c = None"
  shows "assign_Content strict (json_of_Content c) no_content = Inr c"
  using assms
  by (cases c) (auto simp: assign_Content.simps no_content_def assign_Image_json assign_ToolCall_json struct_simps split: option.splits)

lemma result_json:
  assumes "\<forall>c \<in> set (TR_Content r). valid_part parse c" "TR_Result r \<noteq> Some JNull"
  shows "assign_ToolResult strict (json_of_ToolResult r) no_result = Inr r"
proof -
  have "emap (\<lambda>j. assign_Content strict j no_content) (map json_of_Content (TR_Content r)) = Inr (TR_Content r)"
    using assms(1) by (intro emap_decode part_json) (auto simp: valid_part_def)
  then show ?thesis
    by (cases r) (auto simp: assign_ToolResult.simps no_result_def assign_raw_def struct_simps split: option.splits)
qed

lemma content_json:
  assumes "valid_content parse c"
  shows "assign_Content strict (json_of_Content c) no_content = Inr c"
proof (cases "C_ToolResult c")
  case None
  with assms show ?thesis by (intro part_json) (auto simp: valid_content_def valid_part_def valid_call_def)
next
  case (Some r)
  with assms have c: "c = Content ContentToolResult '''' None None (Some r)" "valid_result parse r"
    by (cases c, auto simp: valid_content_def valid_part_def)+
  then have "assign_ToolResult strict (json_of_ToolResult r) no_result = Inr r"
    by (intro result_json [of _ parse]) (auto simp: valid_result_def)
  with c show ?thesis by (simp add: assign_Content.simps no_content_def struct_simps)
qed

lemma message_json: "valid_message parse m \<Longrightarrow> assign_Message strict (json_of_Message m) no_message = Inr m"
proof -
  assume "valid_message parse m"
  then have "emap (\<lambda>j. assign_Content strict j no_content) (map json_of_Content (Msg_Content m)) = Inr (Msg_Content m)"
    by (intro emap_decode content_json [of parse]) (simp add: valid_message_def)
  then show ?thesis by (cases strict) (simp_all add: assign_Message_def json_of_Message_def no_message_def struct_simps)
qed

lemma tool_json: "Tool_InputSchema t \<noteq> None \<Longrightarrow> assign_Tool strict (json_of_Tool t) no_tool = Inr t"
  by (auto simp: assign_Tool_def json_of_Tool_def no_tool_def json_raw_def assign_raw_def struct_simps split: option.splits)

lemma choice_json: "assign_ToolChoice strict (json_of_ToolChoice ch) no_choice = Inr ch"
  by (cases "Choice_DisableParallel ch") (auto simp: assign_ToolChoice_def json_of_ToolChoice_def no_choice_def struct_simps)

lemma usage_json:
  assumes "int64 (Usage_InputTokens u)" "int64 (Usage_OutputTokens u)" "int64 (Usage_CacheCreationInputTokens u)" "int64 (Usage_CachedInputTokens u)"
  shows "assign_Usage strict (json_of_Usage u) \<lparr>Usage_InputTokens = 0, Usage_OutputTokens = 0, Usage_CacheCreationInputTokens = 0, Usage_CachedInputTokens = 0\<rparr> = Inr u"
  using assms by (simp add: assign_Usage_def json_of_Usage_def struct_simps)

lemma fold_update_distinct: "distinct (map fst (vs @ ms)) \<Longrightarrow> fold (\<lambda>(k, j). AList.update k j) ms vs = vs @ ms"
proof (induction ms arbitrary: vs)
  case (Cons m ms)
  obtain k j where m: "m = (k, j)" by (cases m)
  with Cons.prems have "k \<notin> fst ` set vs" by auto
  then have "AList.update k j vs = vs @ [(k, j)]" by (induction vs) auto
  with Cons.IH [of "vs @ [(k, j)]"] Cons.prems m show ?case by simp
qed simp

definition carried_request :: "FloatText \<Rightarrow> IRRequest \<Rightarrow> bool" where
  "carried_request F r \<longleftrightarrow> (\<forall>n. Req_MaxOutputTokens r = Some n \<longrightarrow> int64 n) \<and> distinct (map fst (Req_Metadata r)) \<and>
     (\<forall>x. Req_Temperature r = Some x \<or> Req_TopP r = Some x \<longrightarrow> ft_parse F (ft_format F x) = Some x)"

lemma object_present: "isJSONObject raw \<Longrightarrow> raw \<noteq> None"
  by (cases raw) simp_all

lemma request_known: "only_fields request_names (request_members F r) = Inr ()"
  by (simp add: request_members_def request_names_def only_fields_def fail_if_def codec_simps)

lemma request_fields:
  assumes valid: "valid_request parse r" and carried: "carried_request F r"
  shows "json_field ''version'' assign_string (request_members F r) '''' = Inr (Req_Version r)"
    "json_field ''id'' assign_string (request_members F r) '''' = Inr (Req_ID r)"
    "json_field ''route'' (assign_Route strict) (request_members F r) v = Inr (Req_Route r)"
    "json_field ''messages'' (assign_slice no_message (assign_Message strict)) (request_members F r) [] = Inr (Req_Messages r)"
    "json_field ''max_output_tokens'' (assign_ptr 0 assign_int) (request_members F r) None = Inr (Req_MaxOutputTokens r)"
    "json_field ''temperature'' (assign_ptr 0 (assign_float F)) (request_members F r) None = Inr (Req_Temperature r)"
    "json_field ''top_p'' (assign_ptr 0 (assign_float F)) (request_members F r) None = Inr (Req_TopP r)"
    "json_field ''stop'' assign_strings (request_members F r) [] = Inr (Req_Stop r)"
    "json_field ''tools'' (assign_slice no_tool (assign_Tool strict)) (request_members F r) [] = Inr (Req_Tools r)"
    "json_field ''tool_choice'' (assign_ptr no_choice (assign_ToolChoice strict)) (request_members F r) None = Inr (Req_ToolChoice r)"
    "json_field ''metadata'' assign_map (request_members F r) [] = Inr (Req_Metadata r)"
    "json_field ''stream'' assign_bool (request_members F r) False = Inr (Req_Stream r)"
proof -
  from valid have ms: "emap (\<lambda>j. assign_Message strict j no_message) (map json_of_Message (Req_Messages r)) = Inr (Req_Messages r)"
    by (intro emap_decode message_json [of parse]) (simp add: valid_request_def)
  from valid have ts: "emap (\<lambda>j. assign_Tool strict j no_tool) (map json_of_Tool (Req_Tools r)) = Inr (Req_Tools r)"
    by (intro emap_decode tool_json object_present) (simp add: valid_request_def)
  have fl: "assign_ptr 0 (assign_float F) (json_float F x) None = Inr (Some x)" if "Req_Temperature r = Some x \<or> Req_TopP r = Some x" for x
    using that carried by (auto simp: carried_request_def assign_ptr_def json_float_def)
  show "json_field ''version'' assign_string (request_members F r) '''' = Inr (Req_Version r)"
    "json_field ''id'' assign_string (request_members F r) '''' = Inr (Req_ID r)"
    "json_field ''route'' (assign_Route strict) (request_members F r) v = Inr (Req_Route r)"
    "json_field ''messages'' (assign_slice no_message (assign_Message strict)) (request_members F r) [] = Inr (Req_Messages r)"
    by (simp_all add: request_members_def codec_simps ms assign_Route_json)
  show "json_field ''max_output_tokens'' (assign_ptr 0 assign_int) (request_members F r) None = Inr (Req_MaxOutputTokens r)"
    using carried by (simp add: request_members_def codec_simps carried_request_def assign_ptr_def split: option.split)
  show "json_field ''temperature'' (assign_ptr 0 (assign_float F)) (request_members F r) None = Inr (Req_Temperature r)"
    "json_field ''top_p'' (assign_ptr 0 (assign_float F)) (request_members F r) None = Inr (Req_TopP r)"
    by (simp_all add: request_members_def codec_simps fl split: option.split)
  show "json_field ''stop'' assign_strings (request_members F r) [] = Inr (Req_Stop r)"
    "json_field ''tools'' (assign_slice no_tool (assign_Tool strict)) (request_members F r) [] = Inr (Req_Tools r)"
    by (simp_all add: request_members_def codec_simps ts)
  show "json_field ''tool_choice'' (assign_ptr no_choice (assign_ToolChoice strict)) (request_members F r) None = Inr (Req_ToolChoice r)"
    by (simp add: request_members_def codec_simps choice_json assign_ptr_def split: option.split)
  show "json_field ''metadata'' assign_map (request_members F r) [] = Inr (Req_Metadata r)"
    using carried fold_update_distinct [of "[]" "Req_Metadata r"] by (simp add: request_members_def codec_simps carried_request_def)
  show "json_field ''stream'' assign_bool (request_members F r) False = Inr (Req_Stream r)"
    by (auto simp: request_members_def codec_simps)
qed

lemma request_json:
  assumes "valid_request parse r" "carried_request F r"
  shows "decode_Request F strict (json_of_Request F r) = Inr r"
  by (simp add: decode_Request_def json_of_Request_def no_request_def request_known request_fields [OF assms])

definition carried_response :: "IRResponse \<Rightarrow> bool" where
  "carried_response r \<longleftrightarrow> int64 (Usage_InputTokens (Resp_Usage r)) \<and> int64 (Usage_OutputTokens (Resp_Usage r)) \<and>
     int64 (Usage_CacheCreationInputTokens (Resp_Usage r)) \<and> int64 (Usage_CachedInputTokens (Resp_Usage r))"

lemma response_json:
  assumes "valid_response parse r" "carried_response r"
  shows "decode_Response strict (json_of_Response r) = Inr r"
proof -
  have "emap (\<lambda>j. assign_Content strict j no_content) (map json_of_Content (Resp_Content r)) = Inr (Resp_Content r)"
    using assms(1) by (intro emap_decode content_json [of parse]) (simp add: valid_response_def)
  with assms(2) show ?thesis
    by (cases strict) (simp_all add: decode_Response_def json_of_Response_def response_names_def no_response_def usage_json carried_response_def struct_simps)
qed


section \<open>Properties\<close>

text \<open>
  C22: The protocol between gateways and adapters loses nothing. A well-formed request whose token limit is a
  64-bit integer, whose metadata keys are distinct and whose floats are read back from their text, is read
  from its JSON form exactly as it was, also by a reader that refuses unknown fields; so is a well-formed
  response whose token counts are 64-bit integers.
\<close>

theorem ir_json_roundtrip:
  "(valid_request parse r \<and> carried_request F r \<longrightarrow> decode_Request F strict (json_of_Request F r) = Inr r)
    \<and> (valid_response parse p \<and> carried_response p \<longrightarrow> decode_Response strict (json_of_Response p) = Inr p)"
  using request_json response_json by blast

definition whole_numbers :: FloatText where
  "whole_numbers = \<lparr>ft_format = (\<lambda>x. decimal_int \<lfloor>x\<rfloor>),
     ft_parse = (\<lambda>s. case ParseInt s of Inl _ \<Rightarrow> None | Inr n \<Rightarrow> Some (of_int n))\<rparr>"

definition named_codec :: "('a \<Rightarrow> string) \<Rightarrow> 'a \<Rightarrow> 'a Codec" where
  "named_codec name x = \<lparr>marshalable = (\<lambda>_. True), json_of = (\<lambda>y. JStr (name y)), decode = (\<lambda>_. Inr x)\<rparr>"

theorem ir_json_roundtrip_witness:
  "decode_Request whole_numbers True (json_of_Request whole_numbers ((projr (hello lark_route ''req_1''))\<lparr>Req_Temperature := Some 1\<rparr>)) =
     Inr ((projr (hello lark_route ''req_1''))\<lparr>Req_Temperature := Some 1\<rparr>)
   \<and> decode_Response True (json_of_Response (projr (echo '''' '''' (projr (hello lark_route ''req_1''))))) =
     echo '''' '''' (projr (hello lark_route ''req_1''))"
proof -
  let ?r = "projr (hello lark_route ''req_1'')" let ?p = "projr (echo '''' '''' ?r)"
  have "valid_request (\<lambda>_. None) ?r" using hello_valid [of "\<lambda>_. None"] by (simp add: request_valid_iff)
  then have "valid_request (\<lambda>_. None) (?r\<lparr>Req_Temperature := Some 1\<rparr>)" by (simp add: valid_request_def in_unit_def)
  moreover have "carried_request whole_numbers (?r\<lparr>Req_Temperature := Some 1\<rparr>)"
    by (simp add: carried_request_def hello_def int64_def whole_numbers_def ParseInt_decimal_int)
  moreover have "valid_response (\<lambda>_. None) ?p" "carried_response ?p" "echo '''' '''' ?r = Inr ?p"
    by (simp_all add: echo_def hello_def lark_route_def valid_response_def valid_content_def valid_part_def carried_response_def int64_def)
  ultimately show ?thesis
    using ir_json_roundtrip [of "\<lambda>_. None" "?r\<lparr>Req_Temperature := Some 1\<rparr>" whole_numbers True ?p] by simp
qed

end
