(* ===== verification/Anthropic.thy ===== *)
theory Anthropic
  imports Wire
begin

text \<open>
  Package \<^verbatim>\<open>internal/anthropic\<close> without its HTTP handlers: the wire types (\<^verbatim>\<open>types.go\<close>), the translation
  between the intermediate representation and the Anthropic provider API (\<^verbatim>\<open>translate.go\<close>, used by the
  adapter), and between the client-facing Messages API and the intermediate representation
  (\<^verbatim>\<open>gateway_translate.go\<close>, used by the gateway).

  A \<^verbatim>\<open>json.RawMessage\<close> is the value it spells; where the code uses its text, that is the argument
  \<open>raw_text\<close>. Go's \<^verbatim>\<open>int\<close> is 64 bits wide: sums and differences of token counts wrap.
\<close>

section \<open>\<^verbatim>\<open>types.go\<close>\<close>

record ImageSource =
  IS_Type :: string
  IS_URL :: string
  IS_MediaType :: string
  IS_Data :: string

datatype ContentBlock =
  ContentBlock (CB_Type: string) (CB_Text: string) (CB_Source: "ImageSource option") (CB_ID: string) (CB_Name: string)
    (CB_Input: RawMessage) (CB_ToolUseID: string) (CB_Content: "ContentBlock list") (CB_IsError: bool)

record ClientContentBlock =
  CCB_Type :: string
  CCB_Text :: string
  CCB_Source :: "ImageSource option"
  CCB_ID :: string
  CCB_Name :: string
  CCB_Input :: RawMessage
  CCB_ToolUseID :: string
  CCB_Content :: RawMessage
  CCB_IsError :: bool

record AnthropicTool =
  AT_Name :: string
  AT_Description :: string
  AT_InputSchema :: RawMessage
  AT_Strict :: "bool option"

record AnthropicToolChoice =
  ATC_Type :: string
  ATC_Name :: string
  ATC_DisableParallelToolUse :: bool

record AnthropicMessage =
  AM_Role :: string
  AM_Content :: "ContentBlock list"

record ClientMessage =
  CM_Role :: string
  CM_Content :: RawMessage

record ClientMessageRequest =
  CMR_Model :: string
  CMR_MaxTokens :: int
  CMR_Messages :: "ClientMessage list"
  CMR_System :: RawMessage
  CMR_Temperature :: "float64 option"
  CMR_TopP :: "float64 option"
  CMR_StopSequences :: "string list"
  CMR_Tools :: "AnthropicTool list"
  CMR_ToolChoice :: "AnthropicToolChoice option"
  CMR_Stream :: bool
  CMR_TopK :: "int option"
  CMR_Metadata :: RawMessage
  CMR_ServiceTier :: string
  CMR_Thinking :: RawMessage
  CMR_OutputConfig :: RawMessage

record MessageRequest =
  MR_Model :: string
  MR_MaxTokens :: int
  MR_Messages :: "AnthropicMessage list"
  MR_System :: "ContentBlock list"
  MR_Temperature :: "float64 option"
  MR_TopP :: "float64 option"
  MR_StopSequences :: "string list"
  MR_Tools :: "AnthropicTool list"
  MR_ToolChoice :: "AnthropicToolChoice option"
  MR_Stream :: bool

record AnthropicUsage =
  AU_InputTokens :: int
  AU_OutputTokens :: int
  AU_CacheCreationInputTokens :: int
  AU_CacheReadInputTokens :: int

record MessageResponse =
  MRS_ID :: string
  MRS_Type :: string
  MRS_Role :: string
  MRS_Content :: "ContentBlock list"
  MRS_Model :: string
  MRS_StopReason :: string
  MRS_StopSequence :: "string option"
  MRS_Usage :: AnthropicUsage

definition text_block :: "string \<Rightarrow> ContentBlock" where
  "text_block s = ContentBlock ''text'' s None '''' '''' None '''' [] False"

definition image_block :: "ImageSource \<Rightarrow> ContentBlock" where
  "image_block src = ContentBlock ''image'' '''' (Some src) '''' '''' None '''' [] False"

definition tool_use_block :: "string \<Rightarrow> string \<Rightarrow> RawMessage \<Rightarrow> ContentBlock" where
  "tool_use_block i name arguments = ContentBlock ''tool_use'' '''' None i name arguments '''' [] False"

definition tool_result_block :: "string \<Rightarrow> ContentBlock list \<Rightarrow> bool \<Rightarrow> ContentBlock" where
  "tool_result_block i parts isError = ContentBlock ''tool_result'' '''' None '''' '''' None i parts isError"

section \<open>\<^verbatim>\<open>translate.go\<close>: to the provider\<close>

definition imageToAnthropic :: "url_parser \<Rightarrow> Image option \<Rightarrow> ContentBlock result" where
  "imageToAnthropic parse img =
     (case img of
        None \<Rightarrow> Inl (failf ''image content has no payload'' [])
      | Some i \<Rightarrow>
          if Image_URL i \<noteq> '''' then
            ebind (case parse (Image_URL i) of
                     None \<Rightarrow> Inl (failf ''image URL must be an absolute HTTP(S) URL'' [])
                   | Some parsed \<Rightarrow>
                       fail_if ((URL_Scheme parsed \<noteq> ''http'' \<and> URL_Scheme parsed \<noteq> ''https'') \<or> URL_Host parsed = '''')
                         (failf ''image URL must be an absolute HTTP(S) URL'' [])) (\<lambda>_.
            ebind (fail_if (Image_MediaType i \<noteq> '''' \<or> Image_Data i \<noteq> '''')
              (failf ''image cannot contain both URL and base64 fields'' [])) (\<lambda>_.
            Inr (image_block \<lparr>IS_Type = ''url'', IS_URL = Image_URL i, IS_MediaType = '''', IS_Data = ''''\<rparr>)))
          else
            ebind (fail_if (Image_MediaType i \<notin> set image_types) (failf ''unsupported image media type %q'' [Image_MediaType i])) (\<lambda>_.
            ebind (fail_if (\<not> base64_valid (Image_Data i))
              (Errorf ''invalid image base64 data: %w'' [] [LibraryError ''illegal base64 data''])) (\<lambda>_.
            Inr (image_block \<lparr>IS_Type = ''base64'', IS_URL = '''', IS_MediaType = Image_MediaType i, IS_Data = Image_Data i\<rparr>))))"

fun contentToAnthropic :: "url_parser \<Rightarrow> (json \<Rightarrow> string) \<Rightarrow> Content \<Rightarrow> ContentBlock result"
  and contentsToAnthropic :: "url_parser \<Rightarrow> (json \<Rightarrow> string) \<Rightarrow> Content list \<Rightarrow> ContentBlock list result" where
  "contentToAnthropic parse raw_text (Content type text img toolCall toolResult) =
     (if type = ContentText then Inr (text_block text)
      else if type = ContentImage then imageToAnthropic parse img
      else if type = ContentToolCall then
        (case toolCall of
           None \<Rightarrow> Inl (failf ''tool_call content has no payload'' [])
         | Some call \<Rightarrow> Inr (tool_use_block (TC_ID call) (TC_Name call) (TC_Arguments call)))
      else if type = ContentToolResult then
        (case toolResult of
           None \<Rightarrow> Inl (failf ''tool_result content has no payload'' [])
         | Some (ToolResult callID name parts res isError) \<Rightarrow>
             ebind (contentsToAnthropic parse raw_text parts) (\<lambda>nested.
             Inr (tool_result_block callID (nested @ (case res of None \<Rightarrow> [] | Some j \<Rightarrow> [text_block (raw_text j)])) isError)))
      else Inl (failf ''unsupported IR content type %q'' [type]))"
| "contentsToAnthropic parse raw_text [] = Inr []"
| "contentsToAnthropic parse raw_text (content # parts) =
     ebind (contentToAnthropic parse raw_text content) (\<lambda>block.
     ebind (contentsToAnthropic parse raw_text parts) (\<lambda>blocks. Inr (block # blocks)))"

text \<open>The loop over the messages; the pair holds the system blocks and the messages appended so far.\<close>

fun messagesToAnthropic ::
  "url_parser \<Rightarrow> (json \<Rightarrow> string) \<Rightarrow> nat \<Rightarrow> IRMessage list \<Rightarrow> ContentBlock list \<times> AnthropicMessage list \<Rightarrow>
     (ContentBlock list \<times> AnthropicMessage list) result" where
  "messagesToAnthropic parse raw_text index [] acc = Inr acc"
| "messagesToAnthropic parse raw_text index (message # messages) (system, msgs) =
     ebind (wrapf ''messages[%d]: %w'' [decimal index] (contentsToAnthropic parse raw_text (Msg_Content message))) (\<lambda>blocks.
     if Msg_Role message = RoleSystem then
       (if \<not> list_all (\<lambda>b. CB_Type b = ''text'') blocks then Inl (failf ''system messages may only contain text'' [])
        else messagesToAnthropic parse raw_text (Suc index) messages (system @ blocks, msgs))
     else if Msg_Role message = RoleUser \<or> Msg_Role message = RoleTool then
       messagesToAnthropic parse raw_text (Suc index) messages (system, msgs @ [\<lparr>AM_Role = ''user'', AM_Content = blocks\<rparr>])
     else if Msg_Role message = RoleAssistant then
       messagesToAnthropic parse raw_text (Suc index) messages (system, msgs @ [\<lparr>AM_Role = ''assistant'', AM_Content = blocks\<rparr>])
     else Inl (failf ''unsupported IR message role %q'' [Msg_Role message]))"

definition toolToAnthropic :: "IRTool \<Rightarrow> AnthropicTool result" where
  "toolToAnthropic tool =
     ebind (fail_if (TrimSpace (Tool_Name tool) = '''' \<or> \<not> isJSONObject (Tool_InputSchema tool))
       (failf ''tools require a name and object input_schema'' [])) (\<lambda>_.
     Inr \<lparr>AT_Name = Tool_Name tool, AT_Description = Tool_Description tool, AT_InputSchema = Tool_InputSchema tool,
          AT_Strict = Tool_Strict tool\<rparr>)"

definition choiceToAnthropic :: "IRToolChoice option \<Rightarrow> AnthropicToolChoice option result" where
  "choiceToAnthropic choice =
     (case choice of
        None \<Rightarrow> Inr None
      | Some ch \<Rightarrow>
          ebind (if Choice_Mode ch = ''auto'' then Inr (''auto'', '''')
                 else if Choice_Mode ch = ''none'' then Inr (''none'', '''')
                 else if Choice_Mode ch = ''required'' then Inr (''any'', '''')
                 else if Choice_Mode ch = ''named'' then Inr (''tool'', Choice_Name ch)
                 else Inl (failf ''unsupported tool choice mode %q'' [Choice_Mode ch])) (\<lambda>(type, name).
          Inr (Some \<lparr>ATC_Type = type, ATC_Name = name,
            ATC_DisableParallelToolUse = (if type \<noteq> ''none'' then Choice_DisableParallel ch else False)\<rparr>)))"

definition ToMessageRequest :: "url_parser \<Rightarrow> (json \<Rightarrow> string) \<Rightarrow> IRRequest \<Rightarrow> int \<Rightarrow> int \<Rightarrow> MessageRequest result" where
  "ToMessageRequest parse raw_text request defaultMaxOutputTokens maxOutputTokens =
     ebind (request_Validate parse request) (\<lambda>_.
     ebind (fail_if (Req_Stream request) (failf ''streaming IR requests are not supported'' [])) (\<lambda>_.
     ebind (fail_if (Req_Metadata request \<noteq> []) (failf ''metadata is not supported by the Anthropic adapter'' [])) (\<lambda>_.
     let tokens = (case Req_MaxOutputTokens request of None \<Rightarrow> defaultMaxOutputTokens | Some n \<Rightarrow> n) in
     ebind (fail_if (tokens \<le> 0) (failf ''max_output_tokens is required when the adapter has no positive default'' [])) (\<lambda>_.
     ebind (fail_if (maxOutputTokens > 0 \<and> tokens > maxOutputTokens)
       (failf ''max_output_tokens must not exceed %d'' [decimal (nat maxOutputTokens)])) (\<lambda>_.
     ebind (messagesToAnthropic parse raw_text 0 (Req_Messages request) ([], [])) (\<lambda>(system, messages).
     ebind (fail_if (messages = []) (failf ''at least one non-system message is required'' [])) (\<lambda>_.
     ebind (emap toolToAnthropic (Req_Tools request)) (\<lambda>tools.
     ebind (choiceToAnthropic (Req_ToolChoice request)) (\<lambda>choice.
     Inr \<lparr>MR_Model = IRRoute_UpstreamModel (Req_Route request), MR_MaxTokens = tokens, MR_Messages = messages,
          MR_System = system, MR_Temperature = Req_Temperature request, MR_TopP = Req_TopP request,
          MR_StopSequences = Req_Stop request, MR_Tools = tools, MR_ToolChoice = choice, MR_Stream = False\<rparr>)))))))))"

section \<open>\<^verbatim>\<open>translate.go\<close>: from the provider\<close>

definition finish_reason :: "string \<Rightarrow> string result" where
  "finish_reason stopReason =
     (if stopReason \<in> {''end_turn'', ''stop_sequence'', ''pause_turn''} then Inr FinishStop
      else if stopReason \<in> {''max_tokens'', ''model_context_window_exceeded''} then Inr FinishLength
      else if stopReason = ''tool_use'' then Inr FinishToolCalls
      else if stopReason = ''refusal'' then Inr FinishContent
      else Inl (failf ''unsupported Anthropic stop_reason %q'' [stopReason]))"

fun blocksToIR :: "nat \<Rightarrow> ContentBlock list \<Rightarrow> Content list result" where
  "blocksToIR index [] = Inr []"
| "blocksToIR index (block # blocks) =
     ebind (if CB_Type block = ''text'' then Inr (Content ContentText (CB_Text block) None None None)
            else if CB_Type block = ''tool_use'' then
              (if CB_ID block = '''' \<or> CB_Name block = '''' \<or> \<not> isJSONObject (CB_Input block)
               then Inl (failf ''response content[%d] contains an invalid tool_use block'' [decimal index])
               else Inr (Content ContentToolCall '''' None
                 (Some \<lparr>TC_ID = CB_ID block, TC_Name = CB_Name block, TC_Arguments = CB_Input block, TC_Signature = ''''\<rparr>) None))
            else if CB_Type block \<in> {''thinking'', ''redacted_thinking''}
            then Inl (failf ''response content[%d] contains unsupported thinking output'' [decimal index])
            else Inl (failf ''response content[%d] has unsupported Anthropic type %q'' [decimal index, CB_Type block])) (\<lambda>content.
     ebind (blocksToIR (Suc index) blocks) (\<lambda>parts. Inr (content # parts)))"

definition ToIRResponse :: "url_parser \<Rightarrow> MessageResponse \<Rightarrow> IRRequest \<Rightarrow> IRResponse result" where
  "ToIRResponse parse response request =
     (let usage = MRS_Usage response; upstream = IRRoute_UpstreamModel (Req_Route request) in
      ebind (fail_if (MRS_ID response = '''') (failf ''response id is required'' [])) (\<lambda>_.
      ebind (fail_if (MRS_Type response \<noteq> ''message'' \<or> MRS_Role response \<noteq> ''assistant'')
        (failf ''response must be an assistant message'' [])) (\<lambda>_.
      ebind (fail_if (MRS_Model response \<noteq> '''' \<and> MRS_Model response \<noteq> upstream)
        (failf ''response model %q does not match requested model %q'' [MRS_Model response, upstream])) (\<lambda>_.
      ebind (fail_if (AU_InputTokens usage < 0 \<or> AU_OutputTokens usage < 0 \<or> AU_CacheCreationInputTokens usage < 0 \<or>
          AU_CacheReadInputTokens usage < 0) (failf ''response usage token counts must not be negative'' [])) (\<lambda>_.
      ebind (finish_reason (MRS_StopReason response)) (\<lambda>finish.
      ebind (blocksToIR 0 (MRS_Content response)) (\<lambda>parts.
      ebind (fail_if (MRS_StopReason response = ''stop_sequence'' \<and>
          (case MRS_StopSequence response of None \<Rightarrow> True | Some s \<Rightarrow> TrimSpace s = ''''))
        (failf ''stop_sequence stop reason requires a stop sequence'' [])) (\<lambda>_.
      ebind (fail_if (MRS_StopReason response \<noteq> ''stop_sequence'' \<and> MRS_StopSequence response \<noteq> None)
        (failf ''stop_sequence must be null unless stop_reason is stop_sequence'' [])) (\<lambda>_.
      let result = \<lparr>Resp_Version = Version, Resp_ID = Req_ID request, Resp_Model = upstream, Resp_Content = parts,
            Resp_FinishReason = finish, Resp_StopSequence = (case MRS_StopSequence response of None \<Rightarrow> '''' | Some s \<Rightarrow> s),
            Resp_Usage = \<lparr>
              Usage_InputTokens = wrap64 (wrap64 (AU_InputTokens usage + AU_CacheCreationInputTokens usage) + AU_CacheReadInputTokens usage),
              Usage_OutputTokens = AU_OutputTokens usage,
              Usage_CacheCreationInputTokens = AU_CacheCreationInputTokens usage,
              Usage_CachedInputTokens = AU_CacheReadInputTokens usage\<rparr>,
            Resp_ProviderResponseID = MRS_ID response\<rparr> in
      ebind (wrapf ''invalid translated IR response: %w'' [] (response_Validate parse result)) (\<lambda>_.
      Inr result))))))))))"

section \<open>\<^verbatim>\<open>gateway_translate.go\<close>\<close>

abbreviation clientInvalid :: "string \<Rightarrow> string \<Rightarrow> error" where
  "clientInvalid field message \<equiv> ClientTranslationError field message [] []"

text \<open>\<^verbatim>\<open>decodeStrict\<close> into \<^verbatim>\<open>[]ClientContentBlock\<close>: unknown members are errors.\<close>

definition no_source :: ImageSource where
  "no_source = \<lparr>IS_Type = '''', IS_URL = '''', IS_MediaType = '''', IS_Data = ''''\<rparr>"

fun assign_ImageSource :: "json \<Rightarrow> ImageSource option \<Rightarrow> ImageSource option result" where
  "assign_ImageSource JNull v = Inr None"
| "assign_ImageSource (JObj ms) v =
     (let old = (case v of None \<Rightarrow> no_source | Some x \<Rightarrow> x) in
      ebind (only_fields [''type'', ''url'', ''media_type'', ''data''] ms) (\<lambda>_.
      ebind (json_field ''type'' assign_string ms (IS_Type old)) (\<lambda>t.
      ebind (json_field ''url'' assign_string ms (IS_URL old)) (\<lambda>u.
      ebind (json_field ''media_type'' assign_string ms (IS_MediaType old)) (\<lambda>m.
      ebind (json_field ''data'' assign_string ms (IS_Data old)) (\<lambda>d.
      Inr (Some \<lparr>IS_Type = t, IS_URL = u, IS_MediaType = m, IS_Data = d\<rparr>)))))))"
| "assign_ImageSource _ v = type_error"

fun decode_ClientContentBlock :: "json \<Rightarrow> ClientContentBlock result" where
  "decode_ClientContentBlock (JObj ms) =
     ebind (only_fields [''type'', ''text'', ''source'', ''id'', ''name'', ''input'', ''tool_use_id'', ''content'', ''is_error''] ms) (\<lambda>_.
     ebind (json_field ''type'' assign_string ms '''') (\<lambda>ty.
     ebind (json_field ''text'' assign_string ms '''') (\<lambda>tx.
     ebind (json_field ''source'' assign_ImageSource ms None) (\<lambda>src.
     ebind (json_field ''id'' assign_string ms '''') (\<lambda>i.
     ebind (json_field ''name'' assign_string ms '''') (\<lambda>n.
     ebind (json_field ''input'' assign_raw ms None) (\<lambda>inp.
     ebind (json_field ''tool_use_id'' assign_string ms '''') (\<lambda>u.
     ebind (json_field ''content'' assign_raw ms None) (\<lambda>c.
     ebind (json_field ''is_error'' assign_bool ms False) (\<lambda>e.
     Inr \<lparr>CCB_Type = ty, CCB_Text = tx, CCB_Source = src, CCB_ID = i, CCB_Name = n, CCB_Input = inp,
          CCB_ToolUseID = u, CCB_Content = c, CCB_IsError = e\<rparr>))))))))))"
| "decode_ClientContentBlock JNull = Inr \<lparr>CCB_Type = '''', CCB_Text = '''', CCB_Source = None, CCB_ID = '''', CCB_Name = '''',
     CCB_Input = None, CCB_ToolUseID = '''', CCB_Content = None, CCB_IsError = False\<rparr>"
| "decode_ClientContentBlock _ = type_error"

fun decode_blocks :: "json \<Rightarrow> ClientContentBlock list result" where
  "decode_blocks (JArr js) = emap decode_ClientContentBlock js"
| "decode_blocks JNull = Inr []"
| "decode_blocks _ = type_error"

definition parseClientImage :: "url_parser \<Rightarrow> ImageSource option \<Rightarrow> Image result" where
  "parseClientImage parse source =
     (case source of
        None \<Rightarrow> Inl (failf ''source is required'' [])
      | Some src \<Rightarrow>
          if IS_Type src = ''base64'' then
            ebind (fail_if (IS_URL src \<noteq> '''') (failf ''base64 source cannot contain url'' [])) (\<lambda>_.
            ebind (fail_if (IS_MediaType src \<notin> set image_types) (failf ''unsupported base64 media_type %q'' [IS_MediaType src])) (\<lambda>_.
            ebind (fail_if (IS_Data src = '''') (failf ''base64 data is required'' [])) (\<lambda>_.
            ebind (fail_if (\<not> base64_valid (IS_Data src))
              (Errorf ''invalid base64 data: %w'' [] [LibraryError ''illegal base64 data''])) (\<lambda>_.
            Inr \<lparr>Image_URL = '''', Image_MediaType = IS_MediaType src, Image_Data = IS_Data src\<rparr>))))
          else if IS_Type src = ''url'' then
            ebind (fail_if (IS_MediaType src \<noteq> '''' \<or> IS_Data src \<noteq> '''')
              (failf ''URL source cannot contain media_type or data'' [])) (\<lambda>_.
            ebind (case parse (IS_URL src) of
                     None \<Rightarrow> Inl (failf ''url must be an absolute HTTP(S) URL'' [])
                   | Some parsed \<Rightarrow>
                       fail_if ((URL_Scheme parsed \<noteq> ''http'' \<and> URL_Scheme parsed \<noteq> ''https'') \<or> URL_Host parsed = '''')
                         (failf ''url must be an absolute HTTP(S) URL'' [])) (\<lambda>_.
            Inr \<lparr>Image_URL = IS_URL src, Image_MediaType = '''', Image_Data = ''''\<rparr>))
          else Inl (failf ''unsupported image source type %q'' [IS_Type src]))"


text \<open>
  The block switch of \<^verbatim>\<open>parseClientBlocks\<close>. Only a tool result that is not nested recurses, on its
  content, and there nested.
\<close>

definition other_fields :: "ClientContentBlock \<Rightarrow> bool" where
  "other_fields block \<longleftrightarrow> CCB_ID block \<noteq> '''' \<or> CCB_Name block \<noteq> '''' \<or> rawPresent (CCB_Input block) \<or> CCB_ToolUseID block \<noteq> '''' \<or>
     rawPresent (CCB_Content block) \<or> CCB_IsError block"

function parseClientBlocks :: "url_parser \<Rightarrow> RawMessage \<Rightarrow> string \<Rightarrow> bool \<Rightarrow> (Content list \<times> bool) result"
  and parse_each :: "url_parser \<Rightarrow> nat \<Rightarrow> ClientContentBlock list \<Rightarrow> string \<Rightarrow> bool \<Rightarrow> (Content list \<times> bool) result" where
  "parseClientBlocks parse raw role nested =
     (case raw of
        None \<Rightarrow> Inl (failf ''content is required'' [])
      | Some JNull \<Rightarrow> Inl (failf ''content is required'' [])
      | Some (JStr s) \<Rightarrow> Inr ([Content ContentText s None None None], False)
      | Some j \<Rightarrow>
          ebind (wrapf ''content must be a string or an array of content blocks: %w'' [] (decode_blocks j)) (\<lambda>blocks.
          if blocks = [] then Inl (failf ''content blocks must not be empty'' [])
          else parse_each parse 0 blocks role nested))"
| "parse_each parse index [] role nested = Inr ([], False)"
| "parse_each parse index (block # blocks) role nested =
     ebind
       (if CCB_Type block = ''text'' then
          ebind (fail_if (CCB_Source block \<noteq> None \<or> other_fields block)
            (failf ''content[%d]: text block contains fields for another block type'' [decimal index])) (\<lambda>_.
          Inr (Content ContentText (CCB_Text block) None None None, False))
        else if CCB_Type block = ''image'' then
          ebind (fail_if (role \<noteq> ''user'') (failf ''content[%d]: image blocks require a user message'' [decimal index])) (\<lambda>_.
          ebind (fail_if (CCB_Text block \<noteq> '''' \<or> other_fields block)
            (failf ''content[%d]: image block contains fields for another block type'' [decimal index])) (\<lambda>_.
          ebind (wrapf ''content[%d].source: %w'' [decimal index] (parseClientImage parse (CCB_Source block))) (\<lambda>img.
          Inr (Content ContentImage '''' (Some img) None None, False))))
        else if CCB_Type block = ''tool_use'' then
          ebind (fail_if nested (failf ''content[%d]: nested tool_use blocks are not supported'' [decimal index])) (\<lambda>_.
          ebind (fail_if (role \<noteq> ''assistant'') (failf ''content[%d]: tool_use blocks require an assistant message'' [decimal index])) (\<lambda>_.
          ebind (fail_if (CCB_Text block \<noteq> '''' \<or> CCB_Source block \<noteq> None \<or> CCB_ToolUseID block \<noteq> '''' \<or>
              rawPresent (CCB_Content block) \<or> CCB_IsError block)
            (failf ''content[%d]: tool_use block contains fields for another block type'' [decimal index])) (\<lambda>_.
          ebind (fail_if (CCB_ID block = '''' \<or> TrimSpace (CCB_Name block) = '''' \<or> \<not> isJSONObject (CCB_Input block))
            (failf ''content[%d]: tool_use requires id, name, and an object input'' [decimal index])) (\<lambda>_.
          Inr (Content ContentToolCall '''' None (Some \<lparr>TC_ID = CCB_ID block, TC_Name = TrimSpace (CCB_Name block),
                 TC_Arguments = CCB_Input block, TC_Signature = ''''\<rparr>) None, False)))))
        else if CCB_Type block = ''tool_result'' then
          (if nested then Inl (failf ''content[%d]: nested tool_result blocks are not supported'' [decimal index])
           else if role \<noteq> ''user'' then Inl (failf ''content[%d]: tool_result blocks require a user message'' [decimal index])
           else if CCB_Text block \<noteq> '''' \<or> CCB_Source block \<noteq> None \<or> CCB_ID block \<noteq> '''' \<or> CCB_Name block \<noteq> '''' \<or> rawPresent (CCB_Input block)
           then Inl (failf ''content[%d]: tool_result block contains fields for another block type'' [decimal index])
           else if CCB_ToolUseID block = '''' then Inl (failf ''content[%d].tool_use_id is required'' [decimal index])
           else
             ebind (wrapf ''content[%d].content: %w'' [decimal index] (parseClientBlocks parse (CCB_Content block) ''user'' True)) (\<lambda>(nestedContent, _).
             Inr (Content ContentToolResult '''' None None
                    (Some (ToolResult (CCB_ToolUseID block) '''' nestedContent None (CCB_IsError block))), True)))
        else if CCB_Type block \<in> {''thinking'', ''redacted_thinking''}
        then Inl (failf ''content[%d]: thinking blocks are not supported'' [decimal index])
        else Inl (failf ''content[%d] has unsupported type %q'' [decimal index, CCB_Type block]))
       (\<lambda>(content, isToolResult).
     ebind (parse_each parse (Suc index) blocks role nested) (\<lambda>(parts, hasToolResult).
     Inr (content # parts, isToolResult \<or> hasToolResult)))"
  by pat_completeness auto
termination
  by (relation "measures [case_sum (\<lambda>(_, _, _, nested). if nested then 0 else 1) (\<lambda>(_, _, _, _, nested). if nested then 0 else 1),
      case_sum (\<lambda>_. 1) (\<lambda>_. 0), case_sum (\<lambda>_. 0) (\<lambda>(_, _, blocks, _, _). length blocks)]") auto

declare parseClientBlocks.simps [simp del] parse_each.simps(2) [simp del]

fun system_text :: "nat \<Rightarrow> Content list \<Rightarrow> unit result" where
  "system_text index [] = Inr ()"
| "system_text index (content # parts) =
     ebind (fail_if (C_Type content \<noteq> ContentText) (failf ''system content[%d] must be text'' [decimal index])) (\<lambda>_.
     system_text (Suc index) parts)"

definition parseSystem :: "url_parser \<Rightarrow> RawMessage \<Rightarrow> Content list result" where
  "parseSystem parse raw =
     (if \<not> rawPresent raw then Inr []
      else
        ebind (parseClientBlocks parse raw ''system'' False) (\<lambda>(parts, hasToolResult).
        ebind (fail_if hasToolResult (failf ''system cannot contain tool results'' [])) (\<lambda>_.
        ebind (system_text 0 parts) (\<lambda>_.
        Inr parts))))"

text \<open>The tool calls and results of one message; \<open>names\<close> is the map \<^verbatim>\<open>toolUseNames\<close>.\<close>

fun link_tools :: "nat \<Rightarrow> nat \<Rightarrow> Content list \<Rightarrow> (string \<times> string) list \<Rightarrow> (Content list \<times> (string \<times> string) list) result" where
  "link_tools index contentIndex [] names = Inr ([], names)"
| "link_tools index contentIndex (Content ty tx img tc tr # items) names =
     ebind
       (if ty = ContentToolCall then
          (case tc of
             None \<Rightarrow> Inl (LibraryError ''nil pointer dereference'')
           | Some call \<Rightarrow>
               if map_of names (TC_ID call) \<noteq> None
               then Inl (clientInvalid (''messages.'' @ decimal index @ ''.content.'' @ decimal contentIndex @ ''.id'') ''tool_use ids must be unique'')
               else Inr (Content ty tx img tc tr, (TC_ID call, TC_Name call) # names))
        else if ty = ContentToolResult then
          (case tr of
             None \<Rightarrow> Inl (LibraryError ''nil pointer dereference'')
           | Some (ToolResult callID name parts res isError) \<Rightarrow>
               (case map_of names callID of
                  None \<Rightarrow> Inl (ClientTranslationError (''messages.'' @ decimal index @ ''.content.'' @ decimal contentIndex @ ''.tool_use_id'')
                            ''tool_result references unknown prior tool_use id %q'' [callID] [])
                | Some known \<Rightarrow> Inr (Content ty tx img tc (Some (ToolResult callID known parts res isError)), names)))
        else Inr (Content ty tx img tc tr, names)) (\<lambda>(item, names').
     ebind (link_tools index (Suc contentIndex) items names') (\<lambda>(items', names'').
     Inr (item # items', names'')))"

fun clientMessages :: "url_parser \<Rightarrow> nat \<Rightarrow> ClientMessage list \<Rightarrow> (string \<times> string) list \<Rightarrow> IRMessage list result" where
  "clientMessages parse index [] names = Inr []"
| "clientMessages parse index (message # messages) names =
     ebind (fail_if (CM_Role message \<noteq> ''user'' \<and> CM_Role message \<noteq> ''assistant'')
       (clientInvalid (''messages.'' @ decimal index @ ''.role'') ''message role must be user or assistant'')) (\<lambda>_.
     ebind (case parseClientBlocks parse (CM_Content message) (CM_Role message) False of
              Inl err \<Rightarrow> Inl (ClientTranslationError (''messages.'' @ decimal index @ ''.content'') ''%v'' [] [err])
            | Inr x \<Rightarrow> Inr x) (\<lambda>(content, hasToolResult).
     ebind (link_tools index 0 content names) (\<lambda>(content', names').
     ebind (clientMessages parse (Suc index) messages names') (\<lambda>rest.
     Inr (\<lparr>Msg_Role = (if hasToolResult then RoleTool else CM_Role message), Msg_Content = content'\<rparr> # rest)))))"

fun clientTools :: "nat \<Rightarrow> AnthropicTool list \<Rightarrow> string list \<Rightarrow> IRTool list result" where
  "clientTools index [] names = Inr []"
| "clientTools index (tool # tools) names =
     (let name = TrimSpace (AT_Name tool) in
      ebind (fail_if (name = '''' \<or> \<not> isJSONObject (AT_InputSchema tool))
        (clientInvalid (''tools.'' @ decimal index) ''tools require a name and object input_schema'')) (\<lambda>_.
      ebind (fail_if (name \<in> set names) (clientInvalid (''tools.'' @ decimal index @ ''.name'') ''tool names must be unique'')) (\<lambda>_.
      ebind (clientTools (Suc index) tools (name # names)) (\<lambda>rest.
      Inr (\<lparr>Tool_Name = name, Tool_Description = AT_Description tool, Tool_InputSchema = AT_InputSchema tool,
            Tool_Strict = AT_Strict tool\<rparr> # rest)))))"

definition clientToolChoice :: "AnthropicToolChoice option \<Rightarrow> IRTool list \<Rightarrow> IRToolChoice option result" where
  "clientToolChoice choice tools =
     (case choice of
        None \<Rightarrow> Inr None
      | Some ch \<Rightarrow>
          ebind (if ATC_Type ch = ''none'' then
                   (if ATC_DisableParallelToolUse ch
                    then Inl (clientInvalid ''tool_choice.disable_parallel_tool_use'' ''disable_parallel_tool_use cannot be used with tool_choice none'')
                    else Inr (if tools \<noteq> [] then Some (''none'', '''') else None))
                 else if ATC_Type ch = ''auto'' then Inr (Some (''auto'', ''''))
                 else if ATC_Type ch = ''any'' then Inr (Some (''required'', ''''))
                 else if ATC_Type ch = ''tool'' then
                   (if ATC_Name ch = '''' then Inl (clientInvalid ''tool_choice.name'' ''named tool_choice requires a name'')
                    else Inr (Some (''named'', ATC_Name ch)))
                 else Inl (ClientTranslationError ''tool_choice.type'' ''unsupported tool_choice type %q'' [ATC_Type ch] [])) (\<lambda>mode.
          ebind (fail_if (ATC_Type ch \<noteq> ''none'' \<and> tools = [])
            (clientInvalid ''tool_choice'' ''tool_choice requires at least one tool'')) (\<lambda>_.
          ebind (case mode of
                   None \<Rightarrow> Inr None
                 | Some (m, name) \<Rightarrow> Inr (Some \<lparr>Choice_Mode = m, Choice_Name = name, Choice_DisableParallel = ATC_DisableParallelToolUse ch\<rparr>)) (\<lambda>result.
          ebind (case result of
                   None \<Rightarrow> Inr ()
                 | Some c \<Rightarrow> fail_if (Choice_Mode c = ''named'' \<and> Choice_Name c \<notin> Tool_Name ` set tools)
                     (ClientTranslationError ''tool_choice.name'' ''selected tool %q is not present in tools'' [Choice_Name c] [])) (\<lambda>_.
          Inr result)))))"

fun check_stops :: "nat \<Rightarrow> string list \<Rightarrow> unit result" where
  "check_stops index [] = Inr ()"
| "check_stops index (stop # stops) =
     ebind (fail_if (stop = '''') (clientInvalid (''stop_sequences.'' @ decimal index) ''stop sequences must not be empty'')) (\<lambda>_.
     check_stops (Suc index) stops)"

definition ToIRRequest :: "url_parser \<Rightarrow> ClientMessageRequest \<Rightarrow> Route \<Rightarrow> string \<Rightarrow> IRRequest result" where
  "ToIRRequest parse request route requestID =
     ebind (fail_if (TrimSpace (CMR_Model request) = '''') (clientInvalid ''model'' ''model is required'')) (\<lambda>_.
     ebind (fail_if (CMR_MaxTokens request \<le> 0) (clientInvalid ''max_tokens'' ''max_tokens must be positive'')) (\<lambda>_.
     ebind (fail_if (CMR_Messages request = []) (clientInvalid ''messages'' ''messages must contain at least one item'')) (\<lambda>_.
     ebind (fail_if (CMR_Stream request) (clientInvalid ''stream'' ''streaming is not supported'')) (\<lambda>_.
     ebind (fail_if (CMR_TopK request \<noteq> None) (clientInvalid ''top_k'' ''top_k is not supported by the portable gateway contract'')) (\<lambda>_.
     ebind (fail_if (rawPresent (CMR_Metadata request))
       (clientInvalid ''metadata'' ''metadata is not supported by the portable gateway contract'')) (\<lambda>_.
     ebind (fail_if (CMR_ServiceTier request \<noteq> '''')
       (clientInvalid ''service_tier'' ''service_tier is not supported by the portable gateway contract'')) (\<lambda>_.
     ebind (fail_if (rawPresent (CMR_Thinking request))
       (clientInvalid ''thinking'' ''thinking is not supported by the portable gateway contract'')) (\<lambda>_.
     ebind (fail_if (rawPresent (CMR_OutputConfig request))
       (clientInvalid ''output_config'' ''output_config is not supported by the portable gateway contract'')) (\<lambda>_.
     ebind (fail_if (outside_unit (CMR_Temperature request)) (clientInvalid ''temperature'' ''temperature must be between 0 and 1'')) (\<lambda>_.
     ebind (fail_if (outside_unit (CMR_TopP request)) (clientInvalid ''top_p'' ''top_p must be between 0 and 1'')) (\<lambda>_.
     ebind (check_stops 0 (CMR_StopSequences request)) (\<lambda>_.
     ebind (case parseSystem parse (CMR_System request) of
              Inl err \<Rightarrow> Inl (ClientTranslationError ''system'' ''invalid system prompt: %v'' [] [err]) | Inr s \<Rightarrow> Inr s) (\<lambda>system.
     ebind (clientMessages parse 0 (CMR_Messages request) []) (\<lambda>messages.
     ebind (clientTools 0 (CMR_Tools request) []) (\<lambda>tools.
     ebind (clientToolChoice (CMR_ToolChoice request) tools) (\<lambda>toolChoice.
     let result = \<lparr>Req_Version = Version, Req_ID = requestID,
           Req_Route = \<lparr>IRRoute_ProviderID = Route_ProviderID route, IRRoute_UpstreamModel = Route_UpstreamModel route\<rparr>,
           Req_Messages = (if system = [] then [] else [\<lparr>Msg_Role = RoleSystem, Msg_Content = system\<rparr>]) @ messages,
           Req_MaxOutputTokens = Some (CMR_MaxTokens request), Req_Temperature = CMR_Temperature request, Req_TopP = CMR_TopP request,
           Req_Stop = CMR_StopSequences request, Req_Tools = tools, Req_ToolChoice = toolChoice, Req_Metadata = [], Req_Stream = False\<rparr> in
     ebind (case request_Validate parse result of
              Inl err \<Rightarrow> Inl (ClientTranslationError ''messages'' ''invalid request: %v'' [] [err]) | Inr u \<Rightarrow> Inr u) (\<lambda>_.
     Inr result)))))))))))))))))"

fun contentsFromIR :: "nat \<Rightarrow> Content list \<Rightarrow> ContentBlock list result" where
  "contentsFromIR index [] = Inr []"
| "contentsFromIR index (content # parts) =
     ebind (if C_Type content = ContentText then Inr (text_block (C_Text content))
            else if C_Type content = ContentToolCall then
              (case C_ToolCall content of
                 None \<Rightarrow> Inl (failf ''response content[%d] has no tool_call payload'' [decimal index])
               | Some call \<Rightarrow> Inr (tool_use_block (TC_ID call) (TC_Name call) (TC_Arguments call)))
            else if C_Type content = ContentImage
            then Inl (failf ''response content[%d]: Anthropic Messages cannot represent model image output'' [decimal index])
            else Inl (failf ''response content[%d] has unsupported type %q'' [decimal index, C_Type content])) (\<lambda>block.
     ebind (contentsFromIR (Suc index) parts) (\<lambda>blocks. Inr (block # blocks)))"

definition stop_reason :: "IRResponse \<Rightarrow> (string \<times> string option) result" where
  "stop_reason response =
     (if Resp_FinishReason response = FinishStop then
        Inr (if Resp_StopSequence response \<noteq> '''' then (''stop_sequence'', Some (Resp_StopSequence response)) else (''end_turn'', None))
      else if Resp_FinishReason response = FinishLength then Inr (''max_tokens'', None)
      else if Resp_FinishReason response = FinishToolCalls then Inr (''tool_use'', None)
      else if Resp_FinishReason response = FinishContent then Inr (''refusal'', None)
      else Inl (failf ''unsupported IR finish reason %q'' [Resp_FinishReason response]))"

definition FromIRResponse :: "url_parser \<Rightarrow> IRResponse \<Rightarrow> string \<Rightarrow> string \<Rightarrow> MessageResponse result" where
  "FromIRResponse parse response requestedModel messageID =
     (let usage = Resp_Usage response;
          uncachedInput = wrap64 (wrap64 (Usage_InputTokens usage - Usage_CacheCreationInputTokens usage) - Usage_CachedInputTokens usage) in
      ebind (wrapf ''invalid IR response: %w'' [] (response_Validate parse response)) (\<lambda>_.
      ebind (fail_if (TrimSpace requestedModel = '''' \<or> messageID = '''') (failf ''requested model and message ID are required'' [])) (\<lambda>_.
      ebind (fail_if (uncachedInput < 0) (failf ''IR input token total is smaller than its cache token details'' [])) (\<lambda>_.
      ebind (contentsFromIR 0 (Resp_Content response)) (\<lambda>blocks.
      ebind (stop_reason response) (\<lambda>(reason, stop).
      Inr \<lparr>MRS_ID = messageID, MRS_Type = ''message'', MRS_Role = ''assistant'', MRS_Content = blocks, MRS_Model = requestedModel,
           MRS_StopReason = reason, MRS_StopSequence = stop,
           MRS_Usage = \<lparr>AU_InputTokens = uncachedInput, AU_OutputTokens = Usage_OutputTokens usage,
             AU_CacheCreationInputTokens = Usage_CacheCreationInputTokens usage, AU_CacheReadInputTokens = Usage_CachedInputTokens usage\<rparr>\<rparr>))))))"

section \<open>What the adapter sends\<close>

text \<open>
  The block that stands for a content, by the payload the content has: a text is a text block with that
  text, an image an image block with its source, a tool call a tool-use block with its ID, name and
  arguments, and a tool result a tool-result block for its call, with the blocks of its parts, then its
  JSON result as a text, and its error flag. Members that are not mentioned are empty.
\<close>

definition source_of :: "Image \<Rightarrow> ImageSource" where
  "source_of i =
     (if Image_URL i \<noteq> '''' then \<lparr>IS_Type = ''url'', IS_URL = Image_URL i, IS_MediaType = '''', IS_Data = ''''\<rparr>
      else \<lparr>IS_Type = ''base64'', IS_URL = '''', IS_MediaType = Image_MediaType i, IS_Data = Image_Data i\<rparr>)"

definition part_block :: "Content \<Rightarrow> ContentBlock" where
  "part_block c = (case C_Image c of
      None \<Rightarrow> ContentBlock ''text'' (C_Text c) None '''' '''' None '''' [] False
    | Some i \<Rightarrow> ContentBlock ''image'' '''' (Some (source_of i)) '''' '''' None '''' [] False)"

definition result_texts :: "(json \<Rightarrow> string) \<Rightarrow> RawMessage \<Rightarrow> ContentBlock list" where
  "result_texts rt res = (case res of None \<Rightarrow> [] | Some j \<Rightarrow> [ContentBlock ''text'' (rt j) None '''' '''' None '''' [] False])"

definition content_block :: "(json \<Rightarrow> string) \<Rightarrow> Content \<Rightarrow> ContentBlock" where
  "content_block rt c = (case (C_ToolCall c, C_ToolResult c) of
      (Some call, _) \<Rightarrow> ContentBlock ''tool_use'' '''' None (TC_ID call) (TC_Name call) (TC_Arguments call) '''' [] False
    | (None, Some r) \<Rightarrow> ContentBlock ''tool_result'' '''' None '''' '''' None (TR_ToolCallID r)
        (map part_block (TR_Content r) @ result_texts rt (TR_Result r)) (TR_IsError r)
    | (None, None) \<Rightarrow> part_block c)"

text \<open>What one message and a tool choice become.\<close>

definition provider_role :: "string \<Rightarrow> string" where
  "provider_role role = (if role = RoleAssistant then ''assistant'' else ''user'')"

definition message_sent :: "(json \<Rightarrow> string) \<Rightarrow> IRMessage \<Rightarrow> AnthropicMessage" where
  "message_sent rt msg = \<lparr>AM_Role = provider_role (Msg_Role msg), AM_Content = map (content_block rt) (Msg_Content msg)\<rparr>"

definition system_sent :: "(json \<Rightarrow> string) \<Rightarrow> IRMessage \<Rightarrow> ContentBlock list" where
  "system_sent rt msg = map (content_block rt) (Msg_Content msg)"

definition provider_choice :: "IRToolChoice \<Rightarrow> AnthropicToolChoice" where
  "provider_choice ch =
     (let mode = Choice_Mode ch in
      \<lparr>ATC_Type = the (map_of [(''auto'', ''auto''), (''none'', ''none''), (''required'', ''any''), (''named'', ''tool'')] mode),
       ATC_Name = (if mode = ''named'' then Choice_Name ch else ''''),
       ATC_DisableParallelToolUse = (mode \<noteq> ''none'' \<and> Choice_DisableParallel ch)\<rparr>)"

lemma imageToAnthropic_valid: "valid_image parse i \<Longrightarrow> imageToAnthropic parse (Some i) = Inr (image_block (source_of i))"
  by (auto simp: valid_image_def imageToAnthropic_def source_of_def fail_if_def split: if_splits)

lemma part_translates:
  assumes "valid_part parse c"
  shows "contentToAnthropic parse rt c = Inr (part_block c)"
proof (cases c)
  case (Content ty tx img tc tr)
  with assms consider "ty = ContentText" "img = None" | i where "ty = ContentImage" "img = Some i" "valid_image parse i"
    by (auto simp: valid_part_def)
  then show ?thesis by cases (auto simp: Content text_block_def image_block_def imageToAnthropic_valid part_block_def)
qed

lemma parts_translate: "\<forall>c \<in> set cs. valid_part parse c \<Longrightarrow> contentsToAnthropic parse rt cs = Inr (map part_block cs)"
  by (induction cs) (simp_all add: part_translates)

lemma content_translates:
  assumes "valid_content parse c"
  shows "contentToAnthropic parse rt c = Inr (content_block rt c)"
proof (cases "valid_part parse c")
  case True
  then show ?thesis by (simp add: part_translates content_block_def valid_part_def)
next
  case False
  obtain ty tx img tc tr where c: "c = Content ty tx img tc tr" by (cases c)
  from assms False c consider call where "ty = ContentToolCall" "tc = Some call"
    | r where "ty = ContentToolResult" "tc = None" "tr = Some r" "\<forall>c \<in> set (TR_Content r). valid_part parse c"
    by (auto simp: valid_content_def valid_result_def)
  then show ?thesis
  proof cases
    case (2 r)
    then show ?thesis
      by (cases r) (simp add: c content_block_def result_texts_def parts_translate tool_result_block_def text_block_def
          split: option.splits)
  qed (simp add: c content_block_def tool_use_block_def)
qed

lemma contents_translate:
  "\<forall>c \<in> set cs. valid_content parse c \<Longrightarrow> contentsToAnthropic parse rt cs = Inr (map (content_block rt) cs)"
  by (induction cs) (simp_all add: content_translates)

lemma text_content_block: "valid_content parse c \<Longrightarrow> C_Type c = ContentText \<Longrightarrow> CB_Type (content_block rt c) = ''text''"
  by (auto simp: valid_content_def valid_part_def content_block_def part_block_def)

lemma messagesToAnthropic_valid:
  "\<forall>msg \<in> set ms. valid_message parse msg \<Longrightarrow>
     messagesToAnthropic parse rt index ms (sys, msgs) =
       Inr (sys @ concat (map (system_sent rt) (filter (\<lambda>msg. Msg_Role msg = RoleSystem) ms)),
            msgs @ map (message_sent rt) (filter (\<lambda>msg. Msg_Role msg \<noteq> RoleSystem) ms))"
proof (induction ms arbitrary: index sys msgs)
  case (Cons msg ms)
  from Cons.prems have msg: "valid_message parse msg" and rest: "\<forall>msg \<in> set ms. valid_message parse msg" by simp_all
  from msg have run: "contentsToAnthropic parse rt (Msg_Content msg) = Inr (map (content_block rt) (Msg_Content msg))"
    by (intro contents_translate) (simp add: valid_message_def)
  have "list_all (\<lambda>b. CB_Type b = ''text'') (map (content_block rt) (Msg_Content msg))" if "Msg_Role msg = RoleSystem"
    using msg that text_content_block [of parse _ rt] by (simp add: valid_message_def allowed_content_def list_all_iff)
  with msg consider "Msg_Role msg = RoleSystem" "list_all (\<lambda>b. CB_Type b = ''text'') (map (content_block rt) (Msg_Content msg))"
    | "Msg_Role msg \<in> {RoleUser, RoleTool, RoleAssistant}"
    by (auto simp: valid_message_def)
  then show ?case
    by cases (auto simp: run Cons.IH [OF rest] system_sent_def message_sent_def provider_role_def)
qed simp

definition resolved_tokens :: "IRRequest \<Rightarrow> int \<Rightarrow> int" where
  "resolved_tokens r dflt = (case Req_MaxOutputTokens r of None \<Rightarrow> dflt | Some n \<Rightarrow> n)"

lemma tools_translate:
  "\<forall>tool \<in> set tools. TrimSpace (Tool_Name tool) \<noteq> [] \<and> isJSONObject (Tool_InputSchema tool) \<Longrightarrow>
     emap toolToAnthropic tools = Inr (map (\<lambda>tool. \<lparr>AT_Name = Tool_Name tool, AT_Description = Tool_Description tool,
       AT_InputSchema = Tool_InputSchema tool, AT_Strict = Tool_Strict tool\<rparr>) tools)"
  by (rule emap_ok) (simp add: toolToAnthropic_def)

lemma choice_translates: "\<forall>ch. choice = Some ch \<longrightarrow> valid_choice tools ch \<Longrightarrow>
    choiceToAnthropic choice = Inr (map_option provider_choice choice)"
  by (cases choice) (auto simp: choiceToAnthropic_def valid_choice_def provider_choice_def)

text \<open>The parts of a provider request that carry the conversation.\<close>

definition carries :: "(json \<Rightarrow> string) \<Rightarrow> IRRequest \<Rightarrow> MessageRequest \<Rightarrow> bool" where
  "carries rt r m \<longleftrightarrow>
     MR_Model m = IRRoute_UpstreamModel (Req_Route r) \<and> MR_Temperature m = Req_Temperature r \<and> MR_TopP m = Req_TopP r \<and>
     MR_StopSequences m = Req_Stop r \<and>
     MR_System m = concat (map (system_sent rt) (filter (\<lambda>msg. Msg_Role msg = RoleSystem) (Req_Messages r))) \<and>
     MR_Messages m = map (message_sent rt) (filter (\<lambda>msg. Msg_Role msg \<noteq> RoleSystem) (Req_Messages r)) \<and>
     MR_ToolChoice m = map_option provider_choice (Req_ToolChoice r) \<and> \<not> MR_Stream m \<and>
     MR_Tools m = map (\<lambda>tool. \<lparr>AT_Name = Tool_Name tool, AT_Description = Tool_Description tool,
       AT_InputSchema = Tool_InputSchema tool, AT_Strict = Tool_Strict tool\<rparr>) (Req_Tools r)"

lemma ToMessageRequest_valid:
  assumes v: "valid_request parse r" and "Req_Metadata r = []" and "0 < resolved_tokens r dflt"
    and "0 < limit \<longrightarrow> resolved_tokens r dflt \<le> limit"
  shows "\<exists>m. ToMessageRequest parse rt r dflt limit = Inr m \<and> carries rt r m \<and> MR_MaxTokens m = resolved_tokens r dflt"
proof -
  from v have ms: "\<forall>msg \<in> set (Req_Messages r). valid_message parse msg" by (simp add: valid_request_def)
  from v have "\<exists>msg \<in> set (Req_Messages r). Msg_Role msg \<noteq> RoleSystem"
    by (auto simp: valid_request_def system_first_iff filter_empty_conv)
  moreover from v have tools: "emap toolToAnthropic (Req_Tools r) = Inr (map (\<lambda>tool. \<lparr>AT_Name = Tool_Name tool,
      AT_Description = Tool_Description tool, AT_InputSchema = Tool_InputSchema tool, AT_Strict = Tool_Strict tool\<rparr>) (Req_Tools r))"
    by (intro tools_translate) (simp add: valid_request_def)
  moreover from v have "choiceToAnthropic (Req_ToolChoice r) = Inr (map_option provider_choice (Req_ToolChoice r))"
    by (intro choice_translates [of _ "Req_Tools r"]) (simp add: valid_request_def)
  moreover have "request_Validate parse r = Inr ()" "\<not> Req_Stream r" using v by (simp_all add: request_valid_iff valid_request_def)
  ultimately show ?thesis using assms(2-)
    by (auto simp: ToMessageRequest_def carries_def messagesToAnthropic_valid [OF ms] resolved_tokens_def [symmetric] Let_def
        fail_if_def filter_empty_conv)
qed

section \<open>Properties\<close>

lemma ToMessageRequest_accepts:
  "((\<exists>m. ToMessageRequest parse rt r dflt limit = Inr m) \<longleftrightarrow>
      valid_request parse r \<and> Req_Metadata r = [] \<and> 0 < resolved_tokens r dflt \<and>
      (0 < limit \<longrightarrow> resolved_tokens r dflt \<le> limit))
    \<and> (\<forall>m. ToMessageRequest parse rt r dflt limit = Inr m \<longrightarrow> carries rt r m \<and> MR_MaxTokens m = resolved_tokens r dflt)"
proof -
  have conds: "valid_request parse r \<and> Req_Metadata r = [] \<and> 0 < resolved_tokens r dflt \<and>
      (0 < limit \<longrightarrow> resolved_tokens r dflt \<le> limit)" if "ToMessageRequest parse rt r dflt limit = Inr m" for m
    using that by (auto simp: ToMessageRequest_def request_valid_iff resolved_tokens_def Let_def not_le not_less)
  then show ?thesis using ToMessageRequest_valid [of parse r dflt limit rt] by (metis sum.inject(2))
qed

text \<open>
  C31: The Anthropic adapter accepts every well-formed request that has no metadata and whose token limit
  (its own, or the adapter's default) is positive and within the adapter's maximum, and no other. What it
  sends carries the whole conversation: the system contents in order, every other message in order under
  the provider's role, each content as the block \<open>content_block\<close> describes (texts, images, tool calls and
  tool results with all their members), the sampling parameters, the stop sequences, the tools and the
  tool choice, without streaming.
\<close>

theorem ToMessageRequest_exact:
  "((\<exists>m. ToMessageRequest parse rt r dflt limit = Inr m) \<longleftrightarrow>
      valid_request parse r \<and> Req_Metadata r = [] \<and> 0 < resolved_tokens r dflt \<and>
      (0 < limit \<longrightarrow> resolved_tokens r dflt \<le> limit))
    \<and> (\<forall>m. ToMessageRequest parse rt r dflt limit = Inr m \<longrightarrow> carries rt r m \<and> MR_MaxTokens m = resolved_tokens r dflt)"
  by (rule ToMessageRequest_accepts)

theorem ToMessageRequest_exact_witness:
  "\<exists>m. ToMessageRequest (\<lambda>_. None) (\<lambda>_. '''') (projr (hello lark_route ''req_1'')) 0 100 = Inr m \<and> MR_MaxTokens m = 16 \<and> MR_Model m = ''lark''
     \<and> map (map CB_Text \<circ> AM_Content) (MR_Messages m) = [[''hello'']]"
proof -
  let ?r = "projr (hello lark_route ''req_1'')"
  have "Req_Metadata ?r = []" "resolved_tokens ?r 0 = 16" "IRRoute_UpstreamModel (Req_Route ?r) = ''lark''"
    "map (map CB_Text \<circ> AM_Content) (map (message_sent (\<lambda>_. '''')) (filter (\<lambda>msg. Msg_Role msg \<noteq> RoleSystem) (Req_Messages ?r))) = [[''hello'']]"
    by (simp_all add: hello_def resolved_tokens_def lark_route_def message_sent_def content_block_def part_block_def)
  with ToMessageRequest_exact [of "\<lambda>_. None" "\<lambda>_. ''''" ?r 0 100] hello_valid [unfolded request_valid_iff]
  show ?thesis by (auto simp: carries_def)
qed

text \<open>A block of a response as the client sees it.\<close>

definition visible :: "ContentBlock \<Rightarrow> ContentBlock" where
  "visible b = (if CB_Type b = ''text'' then text_block (CB_Text b) else tool_use_block (CB_ID b) (CB_Name b) (CB_Input b))"

lemma blocks_roundtrip: "blocksToIR i bs = Inr cs \<Longrightarrow> contentsFromIR j cs = Inr (map visible bs)"
proof (induction bs arbitrary: i j cs)
  case (Cons b bs)
  from Cons.prems obtain c cs' where cs: "cs = c # cs'" and rest: "blocksToIR (Suc i) bs = Inr cs'"
    and c: "(CB_Type b = ''text'' \<and> c = Content ContentText (CB_Text b) None None None) \<or>
      (CB_Type b = ''tool_use'' \<and> c = Content ContentToolCall [] None
        (Some \<lparr>TC_ID = CB_ID b, TC_Name = CB_Name b, TC_Arguments = CB_Input b, TC_Signature = []\<rparr>) None)"
    by (auto split: if_splits)
  from c Cons.IH [OF rest, of "Suc j"] show ?case unfolding cs by (auto simp: visible_def)
qed simp

text \<open>The stop reason that is left after the four finish reasons.\<close>

definition canonical_stop :: "string \<Rightarrow> string" where
  "canonical_stop reason =
     (if reason = ''pause_turn'' then ''end_turn'' else if reason = ''model_context_window_exceeded'' then ''max_tokens'' else reason)"

lemma finish_reasons:
  assumes "finish_reason reason = Inr finish"
  obtains "reason = ''end_turn''" "finish = FinishStop" | "reason = ''stop_sequence''" "finish = FinishStop"
  | "reason = ''pause_turn''" "finish = FinishStop" | "reason = ''max_tokens''" "finish = FinishLength"
  | "reason = ''model_context_window_exceeded''" "finish = FinishLength"
  | "reason = ''tool_use''" "finish = FinishToolCalls" | "reason = ''refusal''" "finish = FinishContent"
proof -
  have "reason \<in> {''end_turn'', ''stop_sequence'', ''pause_turn''} \<and> finish = FinishStop \<or>
      reason \<in> {''max_tokens'', ''model_context_window_exceeded''} \<and> finish = FinishLength \<or>
      reason = ''tool_use'' \<and> finish = FinishToolCalls \<or> reason = ''refusal'' \<and> finish = FinishContent"
    using assms unfolding finish_reason_def by (simp del: insert_iff split: if_splits)
  then show thesis using that unfolding insert_iff empty_iff by metis
qed

lemma stop_reason_back:
  assumes finish: "finish_reason reason = Inr finish"
    and stop: "reason = ''stop_sequence'' \<longrightarrow> (\<exists>s. stop = Some s \<and> TrimSpace s \<noteq> [])" "reason \<noteq> ''stop_sequence'' \<longrightarrow> stop = None"
    and res: "Resp_FinishReason result = finish" "Resp_StopSequence result = (case stop of None \<Rightarrow> [] | Some s \<Rightarrow> s)"
  shows "stop_reason result = Inr (canonical_stop reason, stop)"
  using finish
proof (cases rule: finish_reasons)
  case 2
  with stop(1) obtain s where s: "stop = Some s" "TrimSpace s \<noteq> []" by iprover
  have "s \<noteq> []"
  proof
    assume "s = []"
    with s(2) show False by (simp add: TrimSpace_def TrimLeft_def TrimRight_def)
  qed
  with s(1) 2 res show ?thesis by (simp add: stop_reason_def canonical_stop_def)
qed (use stop res in \<open>simp_all add: stop_reason_def canonical_stop_def\<close>)

text \<open>
  C32: An Anthropic response passes through the gateway. When the adapter accepts a provider response, the
  gateway turns the intermediate response into a client response with the same text and tool-use blocks in
  the same order, the same stop sequence, the same stop reason (up to the two that have no counterpart),
  and exactly the same four token counts, even when the total of the input counts overflows 64 bits in
  between.
\<close>

theorem anthropic_response_roundtrip:
  assumes ir: "ToIRResponse parse response request = Inr result"
    and range: "int64 (AU_InputTokens (MRS_Usage response))"
    and model: "TrimSpace requestedModel \<noteq> ''''" "messageID \<noteq> ''''"
  shows "FromIRResponse parse result requestedModel messageID = Inr
    \<lparr>MRS_ID = messageID, MRS_Type = ''message'', MRS_Role = ''assistant'', MRS_Content = map visible (MRS_Content response),
     MRS_Model = requestedModel, MRS_StopReason = canonical_stop (MRS_StopReason response),
     MRS_StopSequence = MRS_StopSequence response, MRS_Usage = MRS_Usage response\<rparr>"
proof -
  let ?u = "MRS_Usage response"
  from ir obtain finish parts where
    fields: "Resp_Content result = parts" "Resp_FinishReason result = finish"
      "Resp_StopSequence result = (case MRS_StopSequence response of None \<Rightarrow> [] | Some s \<Rightarrow> s)"
      "Resp_Usage result = \<lparr>Usage_InputTokens = wrap64 (AU_InputTokens ?u + AU_CacheCreationInputTokens ?u + AU_CacheReadInputTokens ?u),
         Usage_OutputTokens = AU_OutputTokens ?u, Usage_CacheCreationInputTokens = AU_CacheCreationInputTokens ?u,
         Usage_CachedInputTokens = AU_CacheReadInputTokens ?u\<rparr>"
    and valid: "response_Validate parse result = Inr ()"
    and finish: "finish_reason (MRS_StopReason response) = Inr finish"
    and parts: "blocksToIR 0 (MRS_Content response) = Inr parts"
    and stop: "MRS_StopReason response = ''stop_sequence'' \<longrightarrow> (\<exists>s. MRS_StopSequence response = Some s \<and> TrimSpace s \<noteq> [])"
      "MRS_StopReason response \<noteq> ''stop_sequence'' \<longrightarrow> MRS_StopSequence response = None"
    and counts: "0 \<le> AU_InputTokens ?u"
    by (auto simp: ToIRResponse_def Let_def split: option.splits)
  have "stop_reason result = Inr (canonical_stop (MRS_StopReason response), MRS_StopSequence response)"
    using finish stop fields(2,3) by (rule stop_reason_back)
  moreover have "wrap64 (wrap64 (Usage_InputTokens (Resp_Usage result) - Usage_CacheCreationInputTokens (Resp_Usage result)) -
      Usage_CachedInputTokens (Resp_Usage result)) = AU_InputTokens ?u"
    using range by (simp add: fields wrap64_id wrap64_diff_diff)
  moreover have "contentsFromIR 0 parts = Inr (map visible (MRS_Content response))" using parts by (rule blocks_roundtrip)
  ultimately show ?thesis using valid model counts by (simp add: FromIRResponse_def Let_def fields fail_if_def wrap64_diff_diff)
qed

definition umbra_answer :: MessageResponse where
  "umbra_answer = \<lparr>MRS_ID = ''msg_1'', MRS_Type = ''message'', MRS_Role = ''assistant'',
     MRS_Content = [text_block ''hi'', tool_use_block ''toolu_1'' ''search'' (Some (JObj []))], MRS_Model = ''lark'',
     MRS_StopReason = ''stop_sequence'', MRS_StopSequence = Some ''END'',
     MRS_Usage = \<lparr>AU_InputTokens = 3, AU_OutputTokens = 5, AU_CacheCreationInputTokens = 2 ^ 63 - 1, AU_CacheReadInputTokens = 2 ^ 63 - 1\<rparr>\<rparr>"

theorem anthropic_response_roundtrip_witness:
  "\<exists>result. ToIRResponse (\<lambda>_. None) umbra_answer (projr (hello lark_route ''req_1'')) = Inr result \<and>
     Usage_InputTokens (Resp_Usage result) = 1 \<and>
     FromIRResponse (\<lambda>_. None) result ''lark'' ''msg_2'' = Inr (umbra_answer\<lparr>MRS_ID := ''msg_2''\<rparr>)"
proof -
  let ?request = "projr (hello lark_route ''req_1'')"
  let ?result = "projr (ToIRResponse (\<lambda>_. None) umbra_answer ?request)"
  have "TrimSpace ''END'' = ''END''" "TrimSpace ''lark'' = ''lark''" by code_simp+
  then have ir: "ToIRResponse (\<lambda>_. None) umbra_answer ?request = Inr ?result" and "Usage_InputTokens (Resp_Usage ?result) = 1"
    by (simp_all add: ToIRResponse_def umbra_answer_def hello_def lark_route_def finish_reason_def text_block_def tool_use_block_def
        response_Validate_def fail_if_def wrap64_def)
  moreover have "FromIRResponse (\<lambda>_. None) ?result ''lark'' ''msg_2'' = Inr (umbra_answer\<lparr>MRS_ID := ''msg_2''\<rparr>)"
    using anthropic_response_roundtrip [OF ir, of "''lark''" "''msg_2''"] \<open>TrimSpace ''lark'' = ''lark''\<close>
    by (simp add: umbra_answer_def int64_def visible_def text_block_def tool_use_block_def canonical_stop_def)
  ultimately show ?thesis by blast
qed

end
