(* ===== verification/OpenAI_Chat.thy ===== *)
theory OpenAI_Chat
  imports Wire
begin

text \<open>
  Package \<^verbatim>\<open>internal/openai\<close>, the Chat Completions protocol: the wire types (\<^verbatim>\<open>types.go\<close>), the translation
  between client requests and the intermediate representation (\<^verbatim>\<open>translate.go\<close>, used by the gateway), and
  between the intermediate representation and the provider (\<^verbatim>\<open>adapter_translate.go\<close>, used by the adapter).
  The arguments of a tool call are text here and a JSON value in the intermediate representation;
  \<open>T\<close> relates the two.
\<close>

section \<open>\<^verbatim>\<open>types.go\<close>\<close>

record ImageURL =
  IU_URL :: string
  IU_Detail :: string

record ContentPart =
  CP_Type :: string
  CP_Text :: string
  CP_ImageURL :: "ImageURL option"

record FunctionTool =
  FT_Name :: string
  FT_Description :: string
  FT_Parameters :: RawMessage
  FT_Strict :: "bool option"

record ChatTool =
  CT_Type :: string
  CT_Function :: FunctionTool

record ToolCallFunction =
  TF_Name :: string
  TF_Arguments :: string

record ChatToolCall =
  CTC_ID :: string
  CTC_Type :: string
  CTC_Function :: ToolCallFunction

record ChatMessage =
  CH_Role :: string
  CH_Content :: RawMessage
  CH_Name :: string
  CH_ToolCalls :: "ChatToolCall list"
  CH_ToolCallID :: string

record ChatCompletionRequest =
  CCR_Model :: string
  CCR_Messages :: "ChatMessage list"
  CCR_MaxCompletionTokens :: "int option"
  CCR_MaxTokens :: "int option"
  CCR_Temperature :: "float64 option"
  CCR_TopP :: "float64 option"
  CCR_Stop :: RawMessage
  CCR_Tools :: "ChatTool list"
  CCR_ToolChoice :: RawMessage
  CCR_N :: "int option"
  CCR_Stream :: bool
  CCR_StreamOptions :: RawMessage
  CCR_FrequencyPenalty :: "float64 option"
  CCR_PresencePenalty :: "float64 option"
  CCR_Logprobs :: "bool option"
  CCR_TopLogprobs :: "int option"
  CCR_LogitBias :: RawMessage
  CCR_ResponseFormat :: RawMessage
  CCR_Seed :: "int option"
  CCR_User :: string
  CCR_Metadata :: "(string \<times> json) list"
  CCR_ParallelToolCalls :: "bool option"

record AssistantOutput =
  AO_Role :: string
  AO_Content :: "string option"
  AO_Refusal :: "string option"
  AO_ToolCalls :: "ChatToolCall list"

record ChatChoice =
  CC_Index :: int
  CC_Message :: AssistantOutput
  CC_FinishReason :: string

record ChatUsage =
  CU_PromptTokens :: int
  CU_CompletionTokens :: int
  CU_TotalTokens :: int
  CU_CachedTokens :: "int option"      \<comment> \<open>\<^verbatim>\<open>PromptTokensDetails\<close>\<close>

record ChatCompletionResponse =
  CR_ID :: string
  CR_Object :: string
  CR_Created :: int
  CR_Model :: string
  CR_Choices :: "ChatChoice list"
  CR_Usage :: ChatUsage
  CR_SystemFingerprint :: "string option"

section \<open>\<^verbatim>\<open>translate.go\<close>: content\<close>

abbreviation chat_invalid :: "string \<Rightarrow> string \<Rightarrow> string \<Rightarrow> error" where
  "chat_invalid param code message \<equiv> TranslationError param code message [] []"

definition data_url_image :: "string \<Rightarrow> Image result" where
  "data_url_image raw =
     (case Cut (TrimPrefix raw ''data:'') (CHR '','') of
        (metadata, data, ok) \<Rightarrow>
          ebind (fail_if (\<not> ok \<or> \<not> HasSuffix metadata '';base64'') (failf ''data URL must contain base64-encoded image data'' [])) (\<lambda>_.
          let mediaType = TrimSuffix metadata '';base64'' in
          ebind (fail_if (mediaType \<notin> set image_types) (failf ''unsupported image media type %q'' [mediaType])) (\<lambda>_.
          ebind (fail_if (\<not> base64_valid data) (Errorf ''invalid base64 data: %w'' [] [LibraryError ''illegal base64 data''])) (\<lambda>_.
          Inr \<lparr>Image_URL = '''', Image_MediaType = mediaType, Image_Data = data\<rparr>))))"

definition parseImage :: "url_parser \<Rightarrow> string \<Rightarrow> Image result" where
  "parseImage parse raw =
     (if HasPrefix raw ''data:'' then data_url_image raw
      else
        ebind (case parse raw of
                 None \<Rightarrow> Inl (failf ''must be an HTTP(S) URL or a base64 data URL'' [])
               | Some parsed \<Rightarrow>
                   fail_if ((URL_Scheme parsed \<noteq> ''http'' \<and> URL_Scheme parsed \<noteq> ''https'') \<or> URL_Host parsed = '''')
                     (failf ''must be an HTTP(S) URL or a base64 data URL'' [])) (\<lambda>_.
        Inr \<lparr>Image_URL = raw, Image_MediaType = '''', Image_Data = ''''\<rparr>))"

fun assign_ImageURL :: "json \<Rightarrow> ImageURL option \<Rightarrow> ImageURL option result" where
  "assign_ImageURL JNull v = Inr None"
| "assign_ImageURL (JObj ms) v =
     (let old = (case v of None \<Rightarrow> \<lparr>IU_URL = '''', IU_Detail = ''''\<rparr> | Some x \<Rightarrow> x) in
      ebind (only_fields [''url'', ''detail''] ms) (\<lambda>_.
      ebind (json_field ''url'' assign_string ms (IU_URL old)) (\<lambda>u.
      ebind (json_field ''detail'' assign_string ms (IU_Detail old)) (\<lambda>d.
      Inr (Some \<lparr>IU_URL = u, IU_Detail = d\<rparr>)))))"
| "assign_ImageURL _ v = type_error"

fun decode_ContentPart :: "json \<Rightarrow> ContentPart result" where
  "decode_ContentPart (JObj ms) =
     ebind (only_fields [''type'', ''text'', ''image_url''] ms) (\<lambda>_.
     ebind (json_field ''type'' assign_string ms '''') (\<lambda>ty.
     ebind (json_field ''text'' assign_string ms '''') (\<lambda>tx.
     ebind (json_field ''image_url'' assign_ImageURL ms None) (\<lambda>u.
     Inr \<lparr>CP_Type = ty, CP_Text = tx, CP_ImageURL = u\<rparr>))))"
| "decode_ContentPart JNull = Inr \<lparr>CP_Type = '''', CP_Text = '''', CP_ImageURL = None\<rparr>"
| "decode_ContentPart _ = type_error"

fun decode_parts :: "json \<Rightarrow> ContentPart list result" where
  "decode_parts (JArr js) = emap decode_ContentPart js"
| "decode_parts JNull = Inr []"
| "decode_parts _ = type_error"

fun parse_parts :: "url_parser \<Rightarrow> string \<Rightarrow> nat \<Rightarrow> ContentPart list \<Rightarrow> Content list result" where
  "parse_parts parse role index [] = Inr []"
| "parse_parts parse role index (part # parts) =
     ebind
       (if CP_Type part = ''text'' then
          ebind (fail_if (CP_ImageURL part \<noteq> None) (failf ''content[%d]: text content cannot contain image_url'' [decimal index])) (\<lambda>_.
          Inr (Content ContentText (CP_Text part) None None None))
        else if CP_Type part = ''image_url'' then
          ebind (fail_if (role \<noteq> ''user'') (failf ''content[%d]: image_url is only supported for user messages'' [decimal index])) (\<lambda>_.
          ebind (fail_if (CP_Text part \<noteq> '''') (failf ''content[%d]: image_url content cannot contain text'' [decimal index])) (\<lambda>_.
          (case CP_ImageURL part of
             None \<Rightarrow> Inl (failf ''content[%d].image_url.url is required'' [decimal index])
           | Some u \<Rightarrow>
               ebind (fail_if (IU_URL u = '''') (failf ''content[%d].image_url.url is required'' [decimal index])) (\<lambda>_.
               ebind (fail_if (IU_Detail u \<noteq> '''' \<and> IU_Detail u \<noteq> ''auto'')
                 (failf ''content[%d].image_url.detail cannot be preserved by the selected provider'' [decimal index])) (\<lambda>_.
               ebind (wrapf ''content[%d].image_url.url: %w'' [decimal index] (parseImage parse (IU_URL u))) (\<lambda>img.
               Inr (Content ContentImage '''' (Some img) None None)))))))
        else Inl (failf ''content[%d] has unsupported type %q'' [decimal index, CP_Type part])) (\<lambda>content.
     ebind (parse_parts parse role (Suc index) parts) (\<lambda>rest. Inr (content # rest)))"

definition parseContent :: "url_parser \<Rightarrow> RawMessage \<Rightarrow> string \<Rightarrow> Content list result" where
  "parseContent parse raw role =
     (case raw of
        None \<Rightarrow> Inr []
      | Some JNull \<Rightarrow> Inr []
      | Some (JStr s) \<Rightarrow> Inr [Content ContentText s None None None]
      | Some j \<Rightarrow>
          ebind (wrapf ''content must be a string or an array of content parts: %w'' [] (decode_parts j)) (\<lambda>parts.
          parse_parts parse role 0 parts))"

definition parseStop :: "RawMessage \<Rightarrow> string list result" where
  "parseStop raw =
     (case raw of
        None \<Rightarrow> Inr []
      | Some JNull \<Rightarrow> Inr []
      | Some (JStr s) \<Rightarrow> Inr [s]
      | Some j \<Rightarrow> (case assign_strings j [] of Inl _ \<Rightarrow> Inl (failf ''must be a string or array of strings'' []) | Inr stops \<Rightarrow> Inr stops))"

fun assign_choice_function :: "json \<Rightarrow> string \<Rightarrow> string result" where
  "assign_choice_function JNull v = Inr v"
| "assign_choice_function (JObj ms) v = ebind (only_fields [''name''] ms) (\<lambda>_. json_field ''name'' assign_string ms v)"
| "assign_choice_function _ v = type_error"

fun decode_choice :: "json \<Rightarrow> (string \<times> string) result" where
  "decode_choice (JObj ms) =
     ebind (only_fields [''type'', ''function''] ms) (\<lambda>_.
     ebind (json_field ''type'' assign_string ms '''') (\<lambda>ty.
     ebind (json_field ''function'' assign_choice_function ms '''') (\<lambda>name.
     Inr (ty, name))))"
| "decode_choice JNull = Inr ('''', '''')"
| "decode_choice _ = type_error"

definition parseToolChoice :: "RawMessage \<Rightarrow> bool \<Rightarrow> IRToolChoice option result" where
  "parseToolChoice raw hasTools =
     (let choice = (\<lambda>mode name. \<lparr>Choice_Mode = mode, Choice_Name = name, Choice_DisableParallel = False\<rparr>) in
      case raw of
        None \<Rightarrow> Inr None
      | Some JNull \<Rightarrow> Inr None
      | Some (JStr mode) \<Rightarrow>
          if mode = ''none'' then Inr (if \<not> hasTools then None else Some (choice mode ''''))
          else if mode = ''auto'' \<or> mode = ''required'' then
            (if \<not> hasTools then Inl (failf ''cannot use tool_choice %q without tools'' [mode]) else Inr (Some (choice mode '''')))
          else Inl (failf ''unsupported value %q'' [mode])
      | Some j \<Rightarrow>
          ebind (decode_choice j) (\<lambda>(type, name).
          ebind (fail_if (type \<noteq> ''function'' \<or> name = '''') (failf ''named tool_choice must select a function'' [])) (\<lambda>_.
          ebind (fail_if (\<not> hasTools) (failf ''cannot select a function without tools'' [])) (\<lambda>_.
          Inr (Some (choice ''named'' name))))))"

section \<open>\<^verbatim>\<open>translate.go\<close>: requests\<close>

fun chat_tool_calls ::
  "JSONText \<Rightarrow> nat \<Rightarrow> nat \<Rightarrow> ChatToolCall list \<Rightarrow> (string \<times> string) list \<Rightarrow> (Content list \<times> (string \<times> string) list) result" where
  "chat_tool_calls T messageIndex toolIndex [] names = Inr ([], names)"
| "chat_tool_calls T messageIndex toolIndex (call # tcs) names =
     ebind (fail_if (CTC_Type call \<noteq> ''function'' \<or> CTC_ID call = '''' \<or> TF_Name (CTC_Function call) = '''')
       (chat_invalid (''messages.'' @ decimal messageIndex @ ''.tool_calls.'' @ decimal toolIndex) ''invalid_tool_call''
         ''tool call requires type=function, id, and function.name'')) (\<lambda>_.
     let arguments = JT_value T (TF_Arguments (CTC_Function call)) in
     ebind (fail_if (\<not> isJSONObject arguments)
       (chat_invalid (''messages.'' @ decimal messageIndex @ ''.tool_calls.'' @ decimal toolIndex @ ''.function.arguments'') ''invalid_tool_arguments''
         ''tool arguments must contain a JSON object'')) (\<lambda>_.
     ebind (chat_tool_calls T messageIndex (Suc toolIndex) tcs ((CTC_ID call, TF_Name (CTC_Function call)) # names)) (\<lambda>(rest, names').
     Inr (Content ContentToolCall '''' None
            (Some \<lparr>TC_ID = CTC_ID call, TC_Name = TF_Name (CTC_Function call), TC_Arguments = arguments, TC_Signature = ''''\<rparr>) None # rest, names'))))"

definition chatMessage :: "JSONText \<Rightarrow> url_parser \<Rightarrow> nat \<Rightarrow> ChatMessage \<Rightarrow> (string \<times> string) list \<Rightarrow> (IRMessage \<times> (string \<times> string) list) result" where
  "chatMessage T parse index message names =
     (let loc = (\<lambda>field. ''messages.'' @ decimal index @ field);
          role = (if CH_Role message = ''developer'' then RoleSystem else CH_Role message) in
      ebind (fail_if (CH_Name message \<noteq> '''')
        (chat_invalid (loc ''.name'') ''unsupported_parameter'' ''named messages are not supported by the selected provider'')) (\<lambda>_.
      ebind (fail_if (role \<notin> {RoleSystem, RoleUser, RoleAssistant, RoleTool})
        (TranslationError (loc ''.role'') ''invalid_role'' ''unsupported message role %q'' [CH_Role message] [])) (\<lambda>_.
      ebind (fail_if (role \<noteq> RoleAssistant \<and> CH_ToolCalls message \<noteq> [])
        (chat_invalid (loc ''.tool_calls'') ''invalid_tool_call'' ''tool_calls are only allowed on assistant messages'')) (\<lambda>_.
      ebind (fail_if (role \<noteq> RoleTool \<and> CH_ToolCallID message \<noteq> '''')
        (chat_invalid (loc ''.tool_call_id'') ''invalid_tool_result'' ''tool_call_id is only allowed on tool messages'')) (\<lambda>_.
      ebind (case parseContent parse (CH_Content message) role of
               Inl err \<Rightarrow> Inl (TranslationError (loc ''.content'') ''invalid_content'' ''%v'' [] [err]) | Inr x \<Rightarrow> Inr x) (\<lambda>cs.
      ebind (if role = RoleAssistant
             then map_sum id (\<lambda>(tcs, names'). (cs @ tcs, names')) (chat_tool_calls T index 0 (CH_ToolCalls message) names)
             else Inr (cs, names)) (\<lambda>(cs, names').
      ebind (if role = RoleTool then
               ebind (fail_if (CH_ToolCallID message = '''')
                 (chat_invalid (loc ''.tool_call_id'') ''invalid_tool_result'' ''tool_call_id is required for tool messages'')) (\<lambda>_.
               (case map_of names' (CH_ToolCallID message) of
                  None \<Rightarrow> Inl (chat_invalid (loc ''.tool_call_id'') ''invalid_tool_result''
                            ''tool_call_id does not reference an earlier assistant tool call'')
                | Some toolName \<Rightarrow>
                    Inr [Content ContentToolResult '''' None None (Some (ToolResult (CH_ToolCallID message) toolName cs None False))]))
             else Inr cs) (\<lambda>cs.
      ebind (fail_if (cs = [])
        (chat_invalid (loc ''.content'') ''invalid_content'' ''message content cannot be empty unless assistant tool_calls are present'')) (\<lambda>_.
      Inr (\<lparr>Msg_Role = role, Msg_Content = cs\<rparr>, names'))))))))))"

fun chatMessages :: "JSONText \<Rightarrow> url_parser \<Rightarrow> nat \<Rightarrow> ChatMessage list \<Rightarrow> (string \<times> string) list \<Rightarrow> IRMessage list result" where
  "chatMessages T parse index [] names = Inr []"
| "chatMessages T parse index (message # messages) names =
     ebind (chatMessage T parse index message names) (\<lambda>(translated, names').
     ebind (chatMessages T parse (Suc index) messages names') (\<lambda>rest.
     Inr (translated # rest)))"

definition empty_parameters :: json where
  "empty_parameters = JObj [(''type'', JStr ''object''), (''properties'', JObj [])]"

fun chatTools :: "nat \<Rightarrow> ChatTool list \<Rightarrow> string list \<Rightarrow> IRTool list result" where
  "chatTools index [] names = Inr []"
| "chatTools index (tool # tools) names =
     (let f = CT_Function tool; parameters = (if rawPresent (FT_Parameters f) then FT_Parameters f else Some empty_parameters) in
      ebind (fail_if (CT_Type tool \<noteq> ''function'' \<or> TrimSpace (FT_Name f) = '''')
        (chat_invalid (''tools.'' @ decimal index) ''invalid_tool'' ''only named function tools are supported'')) (\<lambda>_.
      ebind (fail_if (\<not> isJSONObject parameters)
        (chat_invalid (''tools.'' @ decimal index @ ''.function.parameters'') ''invalid_tool_schema'' ''parameters must contain a JSON Schema object'')) (\<lambda>_.
      ebind (fail_if (FT_Name f \<in> set names)
        (chat_invalid (''tools.'' @ decimal index @ ''.function.name'') ''invalid_tool'' ''tool names must be unique'')) (\<lambda>_.
      ebind (chatTools (Suc index) tools (FT_Name f # names)) (\<lambda>rest.
      Inr (\<lparr>Tool_Name = FT_Name f, Tool_Description = FT_Description f, Tool_InputSchema = parameters, Tool_Strict = FT_Strict f\<rparr> # rest))))))"

text \<open>The members that are refused because no provider keeps them.\<close>

definition unsupported_members :: "ChatCompletionRequest \<Rightarrow> unit result" where
  "unsupported_members request =
     (let no = (\<lambda>param message. chat_invalid param ''unsupported_parameter'' message) in
      ebind (fail_if (CCR_N request \<noteq> None \<and> CCR_N request \<noteq> Some 1) (no ''n'' ''only n=1 is supported'')) (\<lambda>_.
      ebind (fail_if (CCR_Stream request) (no ''stream'' ''streaming is not yet supported by this route'')) (\<lambda>_.
      ebind (fail_if (rawPresent (CCR_StreamOptions request))
        (no ''stream_options'' ''stream_options requires streaming, which is not supported by this route'')) (\<lambda>_.
      ebind (fail_if (CCR_Metadata request \<noteq> []) (no ''metadata'' ''metadata cannot be preserved by the selected provider'')) (\<lambda>_.
      ebind (fail_if (CCR_FrequencyPenalty request \<noteq> None \<and> CCR_FrequencyPenalty request \<noteq> Some 0)
        (no ''frequency_penalty'' ''frequency_penalty is not supported by the selected provider'')) (\<lambda>_.
      ebind (fail_if (CCR_PresencePenalty request \<noteq> None \<and> CCR_PresencePenalty request \<noteq> Some 0)
        (no ''presence_penalty'' ''presence_penalty is not supported by the selected provider'')) (\<lambda>_.
      ebind (fail_if (CCR_Logprobs request = Some True) (no ''logprobs'' ''logprobs is not supported by the selected provider'')) (\<lambda>_.
      ebind (fail_if (CCR_TopLogprobs request \<noteq> None) (no ''top_logprobs'' ''top_logprobs is not supported by the selected provider'')) (\<lambda>_.
      ebind (fail_if (CCR_Seed request \<noteq> None) (no ''seed'' ''seed is not supported by the selected provider'')) (\<lambda>_.
      ebind (fail_if (CCR_User request \<noteq> '''') (no ''user'' ''user is not forwarded by the selected provider'')) (\<lambda>_.
      ebind (fail_if (rawPresent (CCR_LogitBias request)) (no ''logit_bias'' ''logit_bias is not supported by the selected provider'')) (\<lambda>_.
      fail_if (rawPresent (CCR_ResponseFormat request)) (no ''response_format'' ''response_format is not supported by the selected provider'')))))))))))))"

definition chat_limits :: "ChatCompletionRequest \<Rightarrow> int option result" where
  "chat_limits request =
     ebind (fail_if (CCR_MaxTokens request \<noteq> None \<and> CCR_MaxCompletionTokens request \<noteq> None)
       (chat_invalid ''max_tokens'' ''invalid_request'' ''max_tokens and max_completion_tokens cannot both be set'')) (\<lambda>_.
     let maxTokens = (case CCR_MaxCompletionTokens request of None \<Rightarrow> CCR_MaxTokens request | Some n \<Rightarrow> Some n) in
     ebind (fail_if (case maxTokens of None \<Rightarrow> False | Some n \<Rightarrow> n \<le> 0)
       (chat_invalid ''max_completion_tokens'' ''invalid_value'' ''max completion tokens must be positive'')) (\<lambda>_.
     ebind (fail_if (outside_unit (CCR_Temperature request))
       (chat_invalid ''temperature'' ''invalid_value'' ''temperature must be between 0 and 1 for the selected provider'')) (\<lambda>_.
     ebind (fail_if (outside_unit (CCR_TopP request)) (chat_invalid ''top_p'' ''invalid_value'' ''top_p must be between 0 and 1'')) (\<lambda>_.
     Inr maxTokens))))"

definition chat_tool_choice :: "ChatCompletionRequest \<Rightarrow> IRTool list \<Rightarrow> IRToolChoice option result" where
  "chat_tool_choice request tools =
     ebind (case parseToolChoice (CCR_ToolChoice request) (tools \<noteq> []) of
              Inl err \<Rightarrow> Inl (TranslationError ''tool_choice'' ''invalid_tool_choice'' ''%v'' [] [err]) | Inr c \<Rightarrow> Inr c) (\<lambda>choice.
     ebind (case choice of
              None \<Rightarrow> Inr ()
            | Some c \<Rightarrow> fail_if (Choice_Mode c = ''named'' \<and> Choice_Name c \<notin> Tool_Name ` set tools)
                (TranslationError ''tool_choice'' ''invalid_tool_choice'' ''selected function %q is not present in tools'' [Choice_Name c] [])) (\<lambda>_.
     if CCR_ParallelToolCalls request = Some False \<and> tools \<noteq> [] then
       Inr (Some ((case choice of None \<Rightarrow> \<lparr>Choice_Mode = ''auto'', Choice_Name = '''', Choice_DisableParallel = False\<rparr> | Some c \<Rightarrow> c)
         \<lparr>Choice_DisableParallel := True\<rparr>))
     else Inr choice))"

definition chat_ToIR :: "JSONText \<Rightarrow> url_parser \<Rightarrow> ChatCompletionRequest \<Rightarrow> Route \<Rightarrow> string \<Rightarrow> IRRequest result" where
  "chat_ToIR T parse request route requestID =
     ebind (fail_if (TrimSpace (CCR_Model request) = '''') (chat_invalid ''model'' ''invalid_model'' ''model is required'')) (\<lambda>_.
     ebind (fail_if (CCR_Messages request = []) (chat_invalid ''messages'' ''invalid_messages'' ''messages must contain at least one item'')) (\<lambda>_.
     ebind (unsupported_members request) (\<lambda>_.
     ebind (chat_limits request) (\<lambda>maxTokens.
     ebind (case parseStop (CCR_Stop request) of
              Inl err \<Rightarrow> Inl (TranslationError ''stop'' ''invalid_value'' ''invalid stop: %v'' [] [err]) | Inr x \<Rightarrow> Inr x) (\<lambda>stops.
     ebind (chatMessages T parse 0 (CCR_Messages request) []) (\<lambda>messages.
     ebind (chatTools 0 (CCR_Tools request) []) (\<lambda>tools.
     ebind (chat_tool_choice request tools) (\<lambda>toolChoice.
     let result = \<lparr>Req_Version = Version, Req_ID = requestID,
           Req_Route = \<lparr>IRRoute_ProviderID = Route_ProviderID route, IRRoute_UpstreamModel = Route_UpstreamModel route\<rparr>,
           Req_Messages = messages, Req_MaxOutputTokens = maxTokens, Req_Temperature = CCR_Temperature request,
           Req_TopP = CCR_TopP request, Req_Stop = stops, Req_Tools = tools, Req_ToolChoice = toolChoice,
           Req_Metadata = [], Req_Stream = False\<rparr> in
     ebind (case request_Validate parse result of
              Inl err \<Rightarrow> Inl (TranslationError ''messages'' ''invalid_request'' ''%v'' [] [err]) | Inr u \<Rightarrow> Inr u) (\<lambda>_.
     Inr result)))))))))"

section \<open>\<^verbatim>\<open>translate.go\<close>: responses\<close>

fun chat_output :: "JSONText \<Rightarrow> nat \<Rightarrow> Content list \<Rightarrow> (string \<times> ChatToolCall list) result" where
  "chat_output T index [] = Inr ('''', [])"
| "chat_output T index (content # parts) =
     (if C_Type content = ContentText then
        map_sum id (\<lambda>(text, tcs). (C_Text content @ text, tcs)) (chat_output T (Suc index) parts)
      else if C_Type content = ContentToolCall then
        (case C_ToolCall content of
           None \<Rightarrow> Inl (failf ''response content[%d] has no tool_call payload'' [decimal index])
         | Some call \<Rightarrow>
             map_sum id (\<lambda>(text, tcs). (text, \<lparr>CTC_ID = TC_ID call, CTC_Type = ''function'',
                 CTC_Function = \<lparr>TF_Name = TC_Name call, TF_Arguments = text_of_raw T (TC_Arguments call)\<rparr>\<rparr> # tcs))
               (chat_output T (Suc index) parts))
      else Inl (failf ''response content[%d] has unsupported type %q'' [decimal index, C_Type content]))"

definition Unix :: "time \<Rightarrow> int" where
  "Unix t = t div nanosecond_per_second"

definition chat_FromIR :: "JSONText \<Rightarrow> IRResponse \<Rightarrow> string \<Rightarrow> string \<Rightarrow> time \<Rightarrow> ChatCompletionResponse result" where
  "chat_FromIR T response requestedModel completionID created =
     ebind (fail_if (Resp_Version response \<noteq> Version) (failf ''adapter returned unsupported IR version %q'' [Resp_Version response])) (\<lambda>_.
     ebind (chat_output T 0 (Resp_Content response)) (\<lambda>(text, toolCalls).
     let usage = Resp_Usage response;
         present = (text \<noteq> '''' \<or> toolCalls = []);
         refused = (Resp_FinishReason response = FinishContent \<and> text \<noteq> '''') in
     Inr \<lparr>CR_ID = completionID, CR_Object = ''chat.completion'', CR_Created = Unix created, CR_Model = requestedModel,
       CR_Choices = [\<lparr>CC_Index = 0,
         CC_Message = \<lparr>AO_Role = ''assistant'', AO_Content = (if present \<and> \<not> refused then Some text else None),
           AO_Refusal = (if present \<and> refused then Some text else None), AO_ToolCalls = toolCalls\<rparr>,
         CC_FinishReason = (if Resp_FinishReason response \<in> {FinishStop, FinishLength, FinishToolCalls, FinishContent}
           then Resp_FinishReason response else FinishStop)\<rparr>],
       CR_Usage = \<lparr>CU_PromptTokens = Usage_InputTokens usage, CU_CompletionTokens = Usage_OutputTokens usage,
         CU_TotalTokens = wrap64 (Usage_InputTokens usage + Usage_OutputTokens usage),
         CU_CachedTokens = (if Usage_CachedInputTokens usage > 0 then Some (Usage_CachedInputTokens usage) else None)\<rparr>,
       CR_SystemFingerprint = None\<rparr>))"

section \<open>\<^verbatim>\<open>adapter_translate.go\<close>: to the provider\<close>

definition imageURL :: "Image option \<Rightarrow> string result" where
  "imageURL img =
     (case img of
        None \<Rightarrow> Inl (failf ''image content has no payload'' [])
      | Some i \<Rightarrow>
          if Image_URL i \<noteq> '''' then Inr (Image_URL i)
          else
            ebind (fail_if (Image_MediaType i = '''' \<or> Image_Data i = '''') (failf ''inline image requires media_type and data'' [])) (\<lambda>_.
            ebind (fail_if (\<not> base64_valid (Image_Data i))
              (Errorf ''inline image contains invalid base64 data: %w'' [] [LibraryError ''illegal base64 data''])) (\<lambda>_.
            Inr (''data:'' @ Image_MediaType i @ '';base64,'' @ Image_Data i))))"

definition json_of_ContentPart :: "ContentPart \<Rightarrow> json" where
  "json_of_ContentPart p = JObj
     ([(''type'', JStr (CP_Type p))] @ (if CP_Text p = '''' then [] else [(''text'', JStr (CP_Text p))]) @
      (case CP_ImageURL p of None \<Rightarrow> []
       | Some u \<Rightarrow> [(''image_url'', JObj ([(''url'', JStr (IU_URL u))] @ (if IU_Detail u = '''' then [] else [(''detail'', JStr (IU_Detail u))])))]))"

text \<open>The loop of \<^verbatim>\<open>ordinaryMessage\<close>: text, parts, tool calls and whether there is an image.\<close>

fun ordinary_contents ::
  "JSONText \<Rightarrow> string \<Rightarrow> nat \<Rightarrow> Content list \<Rightarrow> (string \<times> ContentPart list \<times> ChatToolCall list \<times> bool) result" where
  "ordinary_contents T role index [] = Inr ('''', [], [], False)"
| "ordinary_contents T role index (content # rest) =
     (if C_Type content = ContentText then
        map_sum id (\<lambda>(text, parts, tcs, hasImage).
            (C_Text content @ text, \<lparr>CP_Type = ''text'', CP_Text = C_Text content, CP_ImageURL = None\<rparr> # parts, tcs, hasImage))
          (ordinary_contents T role (Suc index) rest)
      else if C_Type content = ContentImage then
        ebind (fail_if (role \<noteq> RoleUser) (failf ''content[%d]: images are only supported in user messages by OpenAI Chat'' [decimal index])) (\<lambda>_.
        ebind (wrapf ''content[%d]: %w'' [decimal index] (imageURL (C_Image content))) (\<lambda>u.
        map_sum id (\<lambda>(text, parts, tcs, hasImage).
            (text, \<lparr>CP_Type = ''image_url'', CP_Text = '''', CP_ImageURL = Some \<lparr>IU_URL = u, IU_Detail = ''''\<rparr>\<rparr> # parts, tcs, True))
          (ordinary_contents T role (Suc index) rest)))
      else if C_Type content = ContentToolCall then
        (case C_ToolCall content of
           None \<Rightarrow> Inl (failf ''content[%d]: invalid assistant tool call'' [decimal index])
         | Some call \<Rightarrow>
             ebind (fail_if (role \<noteq> RoleAssistant) (failf ''content[%d]: invalid assistant tool call'' [decimal index])) (\<lambda>_.
             map_sum id (\<lambda>(text, parts, tcs, hasImage).
                 (text, parts, \<lparr>CTC_ID = TC_ID call, CTC_Type = ''function'',
                    CTC_Function = \<lparr>TF_Name = TC_Name call, TF_Arguments = text_of_raw T (TC_Arguments call)\<rparr>\<rparr> # tcs, hasImage))
               (ordinary_contents T role (Suc index) rest)))
      else Inl (failf ''content[%d]: unsupported %s content in %s message'' [decimal index, C_Type content, role]))"

definition ordinaryMessage :: "JSONText \<Rightarrow> IRMessage \<Rightarrow> ChatMessage result" where
  "ordinaryMessage T message =
     ebind (ordinary_contents T (Msg_Role message) 0 (Msg_Content message)) (\<lambda>(text, parts, tcs, hasImage).
     Inr \<lparr>CH_Role = Msg_Role message,
          CH_Content = Some (if hasImage then JArr (map json_of_ContentPart parts)
            else if text \<noteq> '''' \<or> tcs = [] then JStr text else JNull),
          CH_Name = '''', CH_ToolCalls = tcs, CH_ToolCallID = ''''\<rparr>)"

fun nested_text :: "nat \<Rightarrow> nat \<Rightarrow> Content list \<Rightarrow> string result" where
  "nested_text index nestedIndex [] = Inr ''''"
| "nested_text index nestedIndex (nested # rest) =
     ebind (fail_if (C_Type nested \<noteq> ContentText)
       (failf ''content[%d].tool_result.content[%d]: OpenAI Chat tool results only support text'' [decimal index, decimal nestedIndex])) (\<lambda>_.
     map_sum id ((@) (C_Text nested)) (nested_text index (Suc nestedIndex) rest))"

fun toolMessages :: "JSONText \<Rightarrow> nat \<Rightarrow> Content list \<Rightarrow> ChatMessage list result" where
  "toolMessages T index [] = Inr []"
| "toolMessages T index (content # rest) =
     (case (C_Type content = ContentToolResult, C_ToolResult content) of
        (True, Some r) \<Rightarrow>
          ebind (nested_text index 0 (TR_Content r)) (\<lambda>text.
          ebind (toolMessages T (Suc index) rest) (\<lambda>messages.
          Inr (\<lparr>CH_Role = RoleTool, CH_Content = Some (JStr (text_of_raw T (TR_Result r) @ text)), CH_Name = TR_Name r,
                CH_ToolCalls = [], CH_ToolCallID = TR_ToolCallID r\<rparr> # messages)))
      | _ \<Rightarrow> Inl (failf ''content[%d]: tool messages may only contain tool results'' [decimal index]))"

fun messagesToChat :: "JSONText \<Rightarrow> nat \<Rightarrow> IRMessage list \<Rightarrow> ChatMessage list result" where
  "messagesToChat T index [] = Inr []"
| "messagesToChat T index (message # messages) =
     ebind (wrapf ''messages[%d]: %w'' [decimal index]
       (if Msg_Role message = RoleTool then toolMessages T 0 (Msg_Content message)
        else map_sum id (\<lambda>m. [m]) (ordinaryMessage T message))) (\<lambda>translated.
     ebind (messagesToChat T (Suc index) messages) (\<lambda>rest. Inr (translated @ rest)))"

definition choiceToChat :: "IRToolChoice option \<Rightarrow> (RawMessage \<times> bool option) result" where
  "choiceToChat choice =
     (case choice of
        None \<Rightarrow> Inr (None, None)
      | Some c \<Rightarrow>
          ebind (if Choice_Mode c \<in> {''auto'', ''none'', ''required''} then Inr (JStr (Choice_Mode c))
                 else if Choice_Mode c = ''named''
                 then Inr (JObj [(''function'', JObj [(''name'', JStr (Choice_Name c))]), (''type'', JStr ''function'')])
                 else Inl (failf ''unsupported tool choice mode %q'' [Choice_Mode c])) (\<lambda>value.
          Inr (Some value, if Choice_DisableParallel c then Some False else None)))"

definition stopToChat :: "string list \<Rightarrow> RawMessage" where
  "stopToChat stop = (case stop of [] \<Rightarrow> None | [s] \<Rightarrow> Some (JStr s) | _ \<Rightarrow> Some (json_strings stop))"

definition toolToChat :: "IRTool \<Rightarrow> ChatTool" where
  "toolToChat tool = \<lparr>CT_Type = ''function'', CT_Function = \<lparr>FT_Name = Tool_Name tool, FT_Description = Tool_Description tool,
     FT_Parameters = Tool_InputSchema tool, FT_Strict = Tool_Strict tool\<rparr>\<rparr>"

definition ToChatRequest :: "JSONText \<Rightarrow> url_parser \<Rightarrow> IRRequest \<Rightarrow> ChatCompletionRequest result" where
  "ToChatRequest T parse request =
     ebind (request_Validate parse request) (\<lambda>_.
     ebind (fail_if (Req_Stream request) (failf ''streaming IR requests are not supported'' [])) (\<lambda>_.
     ebind (fail_if (Req_Metadata request \<noteq> []) (failf ''IR metadata cannot be preserved by OpenAI Chat'' [])) (\<lambda>_.
     ebind (messagesToChat T 0 (Req_Messages request)) (\<lambda>messages.
     ebind (choiceToChat (Req_ToolChoice request)) (\<lambda>(choice, parallel).
     Inr \<lparr>CCR_Model = IRRoute_UpstreamModel (Req_Route request), CCR_Messages = messages,
          CCR_MaxCompletionTokens = Req_MaxOutputTokens request, CCR_MaxTokens = None, CCR_Temperature = Req_Temperature request,
          CCR_TopP = Req_TopP request, CCR_Stop = stopToChat (Req_Stop request), CCR_Tools = map toolToChat (Req_Tools request),
          CCR_ToolChoice = choice, CCR_N = None, CCR_Stream = False, CCR_StreamOptions = None, CCR_FrequencyPenalty = None,
          CCR_PresencePenalty = None, CCR_Logprobs = None, CCR_TopLogprobs = None, CCR_LogitBias = None, CCR_ResponseFormat = None,
          CCR_Seed = None, CCR_User = '''', CCR_Metadata = [], CCR_ParallelToolCalls = parallel\<rparr>)))))"

section \<open>\<^verbatim>\<open>adapter_translate.go\<close>: from the provider\<close>

definition chat_finish :: "string \<Rightarrow> string result" where
  "chat_finish reason =
     (if reason = ''stop'' \<or> reason = '''' then Inr FinishStop
      else if reason = ''length'' then Inr FinishLength
      else if reason = ''tool_calls'' \<or> reason = ''function_call'' then Inr FinishToolCalls
      else if reason = ''content_filter'' then Inr FinishContent
      else Inl (failf ''OpenAI Chat returned unsupported finish_reason %q'' [reason]))"

fun chat_calls :: "JSONText \<Rightarrow> nat \<Rightarrow> ChatToolCall list \<Rightarrow> Content list result" where
  "chat_calls T index [] = Inr []"
| "chat_calls T index (call # tcs) =
     (let arguments = JT_value T (TF_Arguments (CTC_Function call)) in
      ebind (fail_if (CTC_Type call \<noteq> ''function'' \<or> CTC_ID call = '''' \<or> TF_Name (CTC_Function call) = '''' \<or> \<not> isJSONObject arguments)
        (failf ''OpenAI Chat tool_calls[%d] is invalid'' [decimal index])) (\<lambda>_.
      ebind (chat_calls T (Suc index) tcs) (\<lambda>rest.
      Inr (Content ContentToolCall '''' None
        (Some \<lparr>TC_ID = CTC_ID call, TC_Name = TF_Name (CTC_Function call), TC_Arguments = arguments, TC_Signature = ''''\<rparr>) None # rest))))"

definition FromChatResponse :: "JSONText \<Rightarrow> url_parser \<Rightarrow> ChatCompletionResponse \<Rightarrow> IRRequest \<Rightarrow> IRResponse result" where
  "FromChatResponse T parse response request =
     (case CR_Choices response of
        [choice] \<Rightarrow>
          (let usage = CR_Usage response; message = CC_Message choice in
           ebind (fail_if (CC_Index choice \<noteq> 0) (failf ''OpenAI Chat returned unexpected choice index %d'' [decimal_int (CC_Index choice)])) (\<lambda>_.
           ebind (fail_if (AO_Role message \<noteq> '''' \<and> AO_Role message \<noteq> RoleAssistant)
             (failf ''OpenAI Chat returned message role %q'' [AO_Role message])) (\<lambda>_.
           ebind (chat_finish (CC_FinishReason choice)) (\<lambda>finish.
           ebind (fail_if (AO_Refusal message \<noteq> None \<and> AO_Content message \<noteq> None \<and> AO_Content message \<noteq> Some '''')
             (failf ''OpenAI Chat returned both content and refusal'' [])) (\<lambda>_.
           ebind (chat_calls T 0 (AO_ToolCalls message)) (\<lambda>tcs.
           let said = (\<lambda>t. case t of None \<Rightarrow> [] | Some s \<Rightarrow> [Content ContentText s None None None]);
               result = \<lparr>Resp_Version = Version, Resp_ID = Req_ID request, Resp_Model = IRRoute_UpstreamModel (Req_Route request),
                 Resp_Content = said (AO_Content message) @ said (AO_Refusal message) @ tcs,
                 Resp_FinishReason = (if AO_Refusal message \<noteq> None then FinishContent else finish), Resp_StopSequence = '''',
                 Resp_Usage = \<lparr>Usage_InputTokens = CU_PromptTokens usage, Usage_OutputTokens = CU_CompletionTokens usage,
                   Usage_CacheCreationInputTokens = 0,
                   Usage_CachedInputTokens = (case CU_CachedTokens usage of None \<Rightarrow> 0 | Some n \<Rightarrow> n)\<rparr>,
                 Resp_ProviderResponseID = CR_ID response\<rparr> in
           ebind (wrapf ''invalid translated OpenAI Chat response: %w'' [] (response_Validate parse result)) (\<lambda>_.
           Inr result)))))))
      | cs \<Rightarrow> Inl (failf ''OpenAI Chat returned %d choices; exactly one is required'' [decimal (length cs)]))"

section \<open>What the adapter sends\<close>

definition image_ref :: "Image \<Rightarrow> string" where
  "image_ref i = (if Image_URL i \<noteq> '''' then Image_URL i else ''data:'' @ Image_MediaType i @ '';base64,'' @ Image_Data i)"

definition part_of :: "Content \<Rightarrow> ContentPart" where
  "part_of c =
     (case C_Image c of
        None \<Rightarrow> \<lparr>CP_Type = ''text'', CP_Text = C_Text c, CP_ImageURL = None\<rparr>
      | Some i \<Rightarrow> \<lparr>CP_Type = ''image_url'', CP_Text = '''', CP_ImageURL = Some \<lparr>IU_URL = image_ref i, IU_Detail = ''''\<rparr>\<rparr>)"

definition chat_call :: "JSONText \<Rightarrow> ToolCall \<Rightarrow> ChatToolCall" where
  "chat_call T call = \<lparr>CTC_ID = TC_ID call, CTC_Type = ''function'',
     CTC_Function = \<lparr>TF_Name = TC_Name call, TF_Arguments = text_of_raw T (TC_Arguments call)\<rparr>\<rparr>"

definition texts :: "Content list \<Rightarrow> string" where
  "texts cs = concat (map C_Text (filter (\<lambda>c. C_Type c = ContentText) cs))"

definition tool_message :: "JSONText \<Rightarrow> ToolResult \<Rightarrow> ChatMessage" where
  "tool_message T r = \<lparr>CH_Role = RoleTool, CH_Content = Some (JStr (text_of_raw T (TR_Result r) @ texts (TR_Content r))),
     CH_Name = TR_Name r, CH_ToolCalls = [], CH_ToolCallID = TR_ToolCallID r\<rparr>"

definition said_message :: "JSONText \<Rightarrow> IRMessage \<Rightarrow> ChatMessage" where
  "said_message T m =
     (let cs = Msg_Content m in
      \<lparr>CH_Role = Msg_Role m,
       CH_Content = Some (if \<exists>c \<in> set cs. C_Type c = ContentImage
         then JArr (map json_of_ContentPart (map part_of (filter (\<lambda>c. C_Type c \<noteq> ContentToolCall) cs)))
         else if texts cs \<noteq> '''' \<or> calls cs = [] then JStr (texts cs) else JNull),
       CH_Name = '''', CH_ToolCalls = map (chat_call T) (calls cs), CH_ToolCallID = ''''\<rparr>)"

definition chat_sent :: "JSONText \<Rightarrow> IRMessage \<Rightarrow> ChatMessage list" where
  "chat_sent T m = (if Msg_Role m = RoleTool then map (tool_message T) (results (Msg_Content m)) else [said_message T m])"

definition text_results :: "IRMessage list \<Rightarrow> bool" where
  "text_results ms \<longleftrightarrow> (\<forall>m \<in> set ms. \<forall>r \<in> set (results (Msg_Content m)). \<forall>c \<in> set (TR_Content r). C_Type c = ContentText)"

lemma part_of_Content:
  "part_of (Content ty tx None tc tr) = \<lparr>CP_Type = ''text'', CP_Text = tx, CP_ImageURL = None\<rparr>"
  "part_of (Content ty tx (Some i) tc tr) = \<lparr>CP_Type = ''image_url'', CP_Text = '''', CP_ImageURL = Some \<lparr>IU_URL = image_ref i, IU_Detail = ''''\<rparr>\<rparr>"
  by (simp_all add: part_of_def)

lemma texts_simps: "texts [] = []" "texts (c # cs) = (if C_Type c = ContentText then C_Text c @ texts cs else texts cs)"
  by (simp_all add: texts_def)

lemmas content_simps = call_of_Content part_of_Content texts_simps map_filter_Cons

lemma imageURL_valid: "valid_image parse i \<Longrightarrow> imageURL (Some i) = Inr (image_ref i)"
  by (auto simp: valid_image_def imageURL_def image_ref_def fail_if_def image_types_def split: if_splits)

text \<open>The three kinds of content of a message that is not a tool message.\<close>

lemma spoken_cases:
  assumes "valid_content parse c" "allowed_content role (C_Type c)" "role \<noteq> RoleTool"
  obtains t where "c = Content ContentText t None None None"
  | i where "c = Content ContentImage '''' (Some i) None None" "valid_image parse i" "role = RoleUser"
  | call where "c = Content ContentToolCall '''' None (Some call) None" "role = RoleAssistant"
proof (cases c)
  case (Content ty tx img tc tr)
  show thesis
  proof (cases "ty = ContentToolCall")
    case True
    with assms Content have "role = RoleAssistant" by (auto simp: allowed_content_def split: if_splits)
    with that(3) True assms(1) Content show thesis by (auto simp: valid_content_def valid_part_def)
  next
    case False
    from assms(2,3) have "C_Type c \<noteq> ContentToolResult" by (auto simp: allowed_content_def split: if_splits)
    with False assms(1) Content have "valid_part parse c" by (auto simp: valid_content_def)
    then consider "ty = ContentText" "img = None" "tc = None" "tr = None"
      | i where "ty = ContentImage" "tx = []" "img = Some i" "valid_image parse i" "tc = None" "tr = None"
      using Content by (auto simp: valid_part_def)
    then show thesis
    proof cases
      case 1
      then show thesis using that(1) Content by simp
    next
      case (2 i)
      with assms(2,3) Content have "role = RoleUser" by (auto simp: allowed_content_def split: if_splits)
      with 2 that(2) Content show thesis by simp
    qed
  qed
qed

lemma ordinary_contents_valid:
  assumes "\<forall>c \<in> set cs. valid_content parse c \<and> allowed_content role (C_Type c)" "role \<noteq> RoleTool"
  shows "ordinary_contents T role index cs =
    Inr (texts cs, map part_of (filter (\<lambda>c. C_Type c \<noteq> ContentToolCall) cs), map (chat_call T) (calls cs), \<exists>c \<in> set cs. C_Type c = ContentImage)"
  using assms(1)
proof (induction cs arbitrary: index)
  case (Cons c cs)
  from Cons have IH: "ordinary_contents T role (Suc index) cs =
    Inr (texts cs, map part_of (filter (\<lambda>c. C_Type c \<noteq> ContentToolCall) cs), map (chat_call T) (calls cs), \<exists>c \<in> set cs. C_Type c = ContentImage)"
    by simp
  from Cons.prems have "valid_content parse c" "allowed_content role (C_Type c)" by simp_all
  then show ?case using assms(2)
    by (cases rule: spoken_cases) (use IH in \<open>simp_all add: content_simps chat_call_def [symmetric] imageURL_valid\<close>)
qed (simp add: content_simps List.map_filter_def)

lemma nested_text_iff: "nested_text i j cs = Inr t \<longleftrightarrow> (\<forall>c \<in> set cs. C_Type c = ContentText) \<and> t = texts cs"
proof (induction cs arbitrary: j t)
  case (Cons c cs)
  show ?case
  proof (cases "C_Type c = ContentText")
    case True
    then show ?thesis using Cons.IH [of "Suc j"]
      by (cases "nested_text i (Suc j) cs") (auto simp: texts_def)
  qed auto
qed (auto simp: texts_def)

lemma toolMessages_iff:
  assumes "\<forall>c \<in> set cs. valid_content parse c \<and> C_Type c = ContentToolResult"
  shows "toolMessages T index cs = Inr ms \<longleftrightarrow>
    (\<forall>r \<in> set (results cs). \<forall>c \<in> set (TR_Content r). C_Type c = ContentText) \<and> ms = map (tool_message T) (results cs)"
  using assms
proof (induction cs arbitrary: index ms)
  case (Cons c cs)
  then obtain r where r: "C_Type c = ContentToolResult" "C_ToolResult c = Some r" by (auto simp: valid_content_def valid_part_def)
  then have step: "toolMessages T index (c # cs) = ebind (nested_text index 0 (TR_Content r)) (\<lambda>text.
      ebind (toolMessages T (Suc index) cs) (\<lambda>messages. Inr (\<lparr>CH_Role = RoleTool,
        CH_Content = Some (JStr (text_of_raw T (TR_Result r) @ text)), CH_Name = TR_Name r, CH_ToolCalls = [], CH_ToolCallID = TR_ToolCallID r\<rparr> # messages)))"
    by simp
  from r have res: "results (c # cs) = r # results cs" by (simp add: map_filter_Cons result_of_def)
  show ?case unfolding step res using Cons.IH [of "Suc index"] Cons.prems by (auto simp: nested_text_iff tool_message_def)
qed (auto simp: List.map_filter_def)

lemma said_message_valid:
  assumes "valid_message parse m" "Msg_Role m \<noteq> RoleTool"
  shows "ordinaryMessage T m = Inr (said_message T m)"
  using assms ordinary_contents_valid [of "Msg_Content m" parse "Msg_Role m" T 0]
  by (simp add: valid_message_def ordinaryMessage_def said_message_def Let_def)

lemma tool_message_valid:
  assumes "valid_message parse m" "Msg_Role m = RoleTool"
  shows "toolMessages T 0 (Msg_Content m) = Inr ms \<longleftrightarrow> text_results [m] \<and> ms = chat_sent T m"
proof -
  have "\<forall>c \<in> set (Msg_Content m). valid_content parse c \<and> C_Type c = ContentToolResult"
    using assms by (auto simp: valid_message_def allowed_content_def)
  from toolMessages_iff [OF this, of T 0 ms] assms(2) show ?thesis by (simp add: text_results_def chat_sent_def)
qed

lemma spoken_results:
  assumes "valid_message parse m" "Msg_Role m \<noteq> RoleTool"
  shows "results (Msg_Content m) = []"
proof -
  have "\<forall>c \<in> set (Msg_Content m). result_of c = None"
    using assms by (auto simp: valid_message_def allowed_content_def result_of_def split: if_splits)
  then show ?thesis by (simp add: List.map_filter_def filter_empty_conv)
qed

lemma message_iff:
  assumes m: "valid_message parse m"
  shows "(if Msg_Role m = RoleTool then toolMessages T 0 (Msg_Content m) else map_sum id (\<lambda>m. [m]) (ordinaryMessage T m)) = Inr a \<longleftrightarrow>
    text_results [m] \<and> a = chat_sent T m"
proof (cases "Msg_Role m = RoleTool")
  case True
  then show ?thesis using tool_message_valid [OF m True] by simp
next
  case False
  then have "text_results [m]" using spoken_results [OF m] by (simp add: text_results_def)
  with False said_message_valid [OF m False, of T] show ?thesis by (simp add: chat_sent_def eq_commute)
qed

lemma messagesToChat_iff:
  assumes "\<forall>m \<in> set ms. valid_message parse m"
  shows "messagesToChat T index ms = Inr out \<longleftrightarrow> text_results ms \<and> out = concat (map (chat_sent T) ms)"
  using assms
proof (induction ms arbitrary: index out)
  case (Cons m ms)
  have "text_results (m # ms) \<longleftrightarrow> text_results [m] \<and> text_results ms" by (simp add: text_results_def)
  with Cons message_iff [of parse m T] show ?case by (simp del: split_paired_Ex) blast
qed (auto simp: text_results_def)

lemma choiceToChat_valid:
  assumes "valid_choice tools c"
  obtains v where "choiceToChat (Some c) = Inr (Some v, if Choice_DisableParallel c then Some False else None)"
    "parseToolChoice (Some v) True = Inr (Some (plain_choice c))"
proof (cases "Choice_Mode c = ''named''")
  case True
  with assms have "Choice_Name c \<noteq> []" by (auto simp: valid_choice_def)
  with True that show thesis
    by (auto simp: choiceToChat_def parseToolChoice_def plain_choice_def only_fields_def fail_if_def ascii_lower_def)
next
  case False
  with assms that show thesis by (auto simp: choiceToChat_def parseToolChoice_def plain_choice_def valid_choice_def)
qed

text \<open>The parts of a chat request that carry the conversation.\<close>

definition chat_carries :: "JSONText \<Rightarrow> IRRequest \<Rightarrow> ChatCompletionRequest \<Rightarrow> bool" where
  "chat_carries T r m \<longleftrightarrow>
     CCR_Model m = IRRoute_UpstreamModel (Req_Route r) \<and> CCR_Messages m = concat (map (chat_sent T) (Req_Messages r)) \<and>
     CCR_MaxCompletionTokens m = Req_MaxOutputTokens r \<and> CCR_Temperature m = Req_Temperature r \<and> CCR_TopP m = Req_TopP r \<and>
     parseStop (CCR_Stop m) = Inr (Req_Stop r) \<and> CCR_Tools m = map toolToChat (Req_Tools r) \<and>
     parseToolChoice (CCR_ToolChoice m) (Req_Tools r \<noteq> []) = Inr (map_option plain_choice (Req_ToolChoice r)) \<and>
     CCR_ParallelToolCalls m = (case Req_ToolChoice r of Some c \<Rightarrow> if Choice_DisableParallel c then Some False else None | None \<Rightarrow> None) \<and>
     unsupported_members m = Inr ()"

lemma parseStop_stopToChat: "parseStop (stopToChat stop) = Inr stop"
proof -
  have "emap (\<lambda>j. assign_string j '''') (map JStr xs) = Inr xs" for xs by (induction xs) auto
  then show ?thesis by (auto simp: parseStop_def stopToChat_def json_strings_def split: list.splits)
qed

lemma choice_carried:
  assumes "\<forall>c. choice = Some c \<longrightarrow> valid_choice tools c"
  obtains raw parallel where "choiceToChat choice = Inr (raw, parallel)"
    "parseToolChoice raw (tools \<noteq> []) = Inr (map_option plain_choice choice)"
    "parallel = (case choice of Some c \<Rightarrow> if Choice_DisableParallel c then Some False else None | None \<Rightarrow> None)"
proof (cases choice)
  case None
  with that show thesis by (simp add: choiceToChat_def parseToolChoice_def)
next
  case (Some c)
  with assms have c: "valid_choice tools c" by simp
  then have "tools \<noteq> []" by (simp add: valid_choice_def)
  moreover obtain v where "choiceToChat (Some c) = Inr (Some v, if Choice_DisableParallel c then Some False else None)"
    "parseToolChoice (Some v) True = Inr (Some (plain_choice c))" using choiceToChat_valid [OF c] .
  ultimately show thesis using that Some by simp
qed

section \<open>Properties\<close>

lemma ToChatRequest_accepts:
  "((\<exists>m. ToChatRequest T parse r = Inr m) \<longleftrightarrow> valid_request parse r \<and> Req_Metadata r = [] \<and> text_results (Req_Messages r))
    \<and> (\<forall>m. ToChatRequest T parse r = Inr m \<longrightarrow> chat_carries T r m)"
proof (cases "valid_request parse r")
  case True
  then have ms: "\<forall>m \<in> set (Req_Messages r). valid_message parse m" and v: "request_Validate parse r = Inr ()" "\<not> Req_Stream r"
    and ch: "\<forall>c. Req_ToolChoice r = Some c \<longrightarrow> valid_choice (Req_Tools r) c"
    by (auto simp: request_valid_iff valid_request_def)
  obtain raw parallel where choice: "choiceToChat (Req_ToolChoice r) = Inr (raw, parallel)"
    "parseToolChoice raw (Req_Tools r \<noteq> []) = Inr (map_option plain_choice (Req_ToolChoice r))"
    "parallel = (case Req_ToolChoice r of Some c \<Rightarrow> if Choice_DisableParallel c then Some False else None | None \<Rightarrow> None)"
    using choice_carried [OF ch] .
  show ?thesis using True v choice messagesToChat_iff [OF ms, of T 0]
    by (auto simp: ToChatRequest_def chat_carries_def parseStop_stopToChat unsupported_members_def fail_if_def)
next
  case False
  then show ?thesis by (auto simp: ToChatRequest_def request_valid_iff)
qed

text \<open>
  C33: The OpenAI Chat adapter accepts exactly the well-formed requests without metadata whose tool results
  hold only text (which is all the protocol can carry). What it sends is the whole conversation, message
  by message in order: each tool result as a message of its own, every other message with its text or its
  parts in order and its tool calls; with the same limits and tools, and with stop sequences and a tool
  choice that the gateway's own parser reads back as the ones that were asked for.
\<close>

theorem ToChatRequest_exact:
  "((\<exists>m. ToChatRequest T parse r = Inr m) \<longleftrightarrow> valid_request parse r \<and> Req_Metadata r = [] \<and> text_results (Req_Messages r))
    \<and> (\<forall>m. ToChatRequest T parse r = Inr m \<longrightarrow> chat_carries T r m)"
  by (rule ToChatRequest_accepts)

theorem ToChatRequest_exact_witness:
  "\<exists>m. ToChatRequest tally_text (\<lambda>_. None) (projr (hello lark_route ''req_1'')) = Inr m \<and> CCR_Model m = ''lark'' \<and>
     map CH_Content (CCR_Messages m) = [Some (JStr ''hello'')]"
proof -
  let ?r = "projr (hello lark_route ''req_1'')"
  have ms: "Req_Metadata ?r = []" "text_results (Req_Messages ?r)" "IRRoute_UpstreamModel (Req_Route ?r) = ''lark''"
    "concat (map (chat_sent tally_text) (Req_Messages ?r)) = [said_message tally_text \<lparr>Msg_Role = RoleUser, Msg_Content = [Content ContentText ''hello'' None None None]\<rparr>]"
    by (simp_all add: hello_def lark_route_def text_results_def chat_sent_def List.map_filter_def result_of_def)
  have "CH_Content (said_message tally_text \<lparr>Msg_Role = RoleUser, Msg_Content = [Content ContentText ''hello'' None None None]\<rparr>) = Some (JStr ''hello'')"
    by (simp add: said_message_def texts_def)
  with ToChatRequest_exact [of tally_text "\<lambda>_. None" ?r] hello_valid [unfolded request_valid_iff] ms
  show ?thesis by (auto simp: chat_carries_def)
qed

text \<open>The same tool call, up to the spelling of its arguments.\<close>

definition same_call :: "JSONText \<Rightarrow> ChatToolCall \<Rightarrow> ChatToolCall \<Rightarrow> bool" where
  "same_call T a b \<longleftrightarrow> CTC_ID a = CTC_ID b \<and> CTC_Type a = CTC_Type b \<and> TF_Name (CTC_Function a) = TF_Name (CTC_Function b) \<and>
     JT_value T (TF_Arguments (CTC_Function a)) = JT_value T (TF_Arguments (CTC_Function b))"

definition some_text :: "string option \<Rightarrow> string" where
  "some_text t = (case t of None \<Rightarrow> '''' | Some s \<Rightarrow> s)"

definition spoken :: "AssistantOutput \<Rightarrow> string" where
  "spoken m = some_text (AO_Content m) @ some_text (AO_Refusal m)"

lemma spoken_make:
  "spoken \<lparr>AO_Role = r, AO_Content = a, AO_Refusal = b, AO_ToolCalls = cs\<rparr> = some_text a @ some_text b"
  by (simp add: spoken_def)

lemma chat_calls_output:
  assumes "spells T" and "chat_calls T i tcs = Inr cs"
  shows "\<exists>out. chat_output T j cs = Inr ('''', out) \<and> list_all2 (same_call T) tcs out"
  using assms(2)
proof (induction tcs arbitrary: i j cs)
  case (Cons call tcs)
  let ?arguments = "JT_value T (TF_Arguments (CTC_Function call))"
  from Cons.prems obtain rest where rest: "chat_calls T (Suc i) tcs = Inr rest"
    and call: "CTC_Type call = ''function''" "isJSONObject ?arguments"
    and cs: "cs = Content ContentToolCall [] None
      (Some \<lparr>TC_ID = CTC_ID call, TC_Name = TF_Name (CTC_Function call), TC_Arguments = ?arguments, TC_Signature = []\<rparr>) None # rest"
    by (auto simp: Let_def)
  from Cons.IH [OF rest, of "Suc j"] obtain out where "chat_output T (Suc j) rest = Inr ([], out)" "list_all2 (same_call T) tcs out" by auto
  moreover have "JT_value T (text_of_raw T ?arguments) = ?arguments" using assms(1) call(2) by (rule raw_object_text)
  ultimately show ?case using call(1) by (simp add: cs) (simp add: same_call_def)
qed simp

lemma chat_output_text: "chat_output T j cs = Inr (t, out) \<Longrightarrow> chat_output T i cs = Inr (t, out)"
proof (induction cs arbitrary: i j t out)
  case (Cons c cs)
  show ?case
  proof (cases "chat_output T (Suc j) cs")
    case (Inr x)
    obtain t' out' where "x = (t', out')" by force
    with Inr have "chat_output T (Suc j) cs = Inr (t', out')" by simp
    moreover from this have "chat_output T (Suc i) cs = Inr (t', out')" by (rule Cons.IH)
    ultimately show ?thesis using Cons.prems by (auto split: if_splits option.splits)
  qed (use Cons.prems in \<open>auto split: if_splits option.splits\<close>)
qed simp

lemma chat_output_said:
  assumes "chat_output T 0 cs = Inr (t, out)"
  shows "chat_output T 0 ((case a of None \<Rightarrow> [] | Some s \<Rightarrow> [Content ContentText s None None None]) @
    (case b of None \<Rightarrow> [] | Some s \<Rightarrow> [Content ContentText s None None None]) @ cs) = Inr (some_text a @ some_text b @ t, out)"
  using chat_output_text [OF assms] by (cases a; cases b) (simp_all add: some_text_def)

definition plain_finish :: "string \<Rightarrow> string" where
  "plain_finish reason = (if reason = '''' then FinishStop else if reason = ''function_call'' then FinishToolCalls else reason)"

lemma chat_finish_plain: "chat_finish reason = Inr finish \<Longrightarrow> finish = plain_finish reason \<and>
    finish \<in> {FinishStop, FinishLength, FinishToolCalls, FinishContent}"
  unfolding chat_finish_def by (auto simp: plain_finish_def split: if_splits)

text \<open>A completion with the same message, stop and token counts as the choice of a provider response.\<close>

definition same_completion :: "JSONText \<Rightarrow> ChatCompletionResponse \<Rightarrow> ChatChoice \<Rightarrow> ChatCompletionResponse \<Rightarrow> bool" where
  "same_completion T response choice completion \<longleftrightarrow>
     (\<exists>message. CR_Choices completion = [\<lparr>CC_Index = 0, CC_Message = message,
        CC_FinishReason = (if AO_Refusal (CC_Message choice) \<noteq> None then FinishContent else plain_finish (CC_FinishReason choice))\<rparr>] \<and>
      spoken message = spoken (CC_Message choice) \<and>
      list_all2 (same_call T) (AO_ToolCalls (CC_Message choice)) (AO_ToolCalls message) \<and>
      (AO_Refusal (CC_Message choice) \<noteq> None \<and> spoken message \<noteq> '''' \<longrightarrow> AO_Refusal message = AO_Refusal (CC_Message choice))) \<and>
     CU_PromptTokens (CR_Usage completion) = CU_PromptTokens (CR_Usage response) \<and>
     CU_CompletionTokens (CR_Usage completion) = CU_CompletionTokens (CR_Usage response) \<and>
     (case CU_CachedTokens (CR_Usage response) of None \<Rightarrow> 0 | Some n \<Rightarrow> n) = (case CU_CachedTokens (CR_Usage completion) of None \<Rightarrow> 0 | Some n \<Rightarrow> n)"


definition lark_completion :: ChatCompletionResponse where
  "lark_completion = \<lparr>CR_ID = ''c_1'', CR_Object = ''chat.completion'', CR_Created = 0, CR_Model = ''lark'',
     CR_Choices = [\<lparr>CC_Index = 0, CC_Message = \<lparr>AO_Role = ''assistant'', AO_Content = Some ''hi'', AO_Refusal = None, AO_ToolCalls = []\<rparr>,
       CC_FinishReason = ''stop''\<rparr>],
     CR_Usage = \<lparr>CU_PromptTokens = 3, CU_CompletionTokens = 5, CU_TotalTokens = 8, CU_CachedTokens = Some 2\<rparr>, CR_SystemFingerprint = None\<rparr>"


end
