(* ===== verification/OpenAI_Responses.thy ===== *)
theory OpenAI_Responses
  imports OpenAI_Chat
begin

text \<open>
  Package \<^verbatim>\<open>internal/openairesponses\<close>, the Responses protocol: the wire types (\<^verbatim>\<open>types.go\<close>) and the
  translation between the intermediate representation and the protocol (\<^verbatim>\<open>translate.go\<close>), for clients of
  the gateway and for the provider. \<^verbatim>\<open>parseImage\<close> is the code of the Chat package, word for word.
\<close>

section \<open>\<^verbatim>\<open>types.go\<close>\<close>

record ResponsesTool =
  RTl_Type :: string
  RTl_Name :: string
  RTl_Description :: string
  RTl_Parameters :: RawMessage
  RTl_Strict :: "bool option"

record CreateRequest =
  CrR_Model :: string
  CrR_Input :: RawMessage
  CrR_Instructions :: RawMessage
  CrR_MaxOutputTokens :: "int option"
  CrR_Temperature :: "float64 option"
  CrR_TopP :: "float64 option"
  CrR_Tools :: "ResponsesTool list"
  CrR_ToolChoice :: RawMessage
  CrR_ParallelToolCalls :: "bool option"
  CrR_Stream :: "bool option"
  CrR_Store :: "bool option"
  CrR_PreviousResponseID :: string
  CrR_Conversation :: RawMessage
  CrR_Reasoning :: RawMessage
  CrR_Text :: RawMessage
  CrR_Metadata :: "(string \<times> json) list"
  CrR_Include :: "string list"
  CrR_Background :: "bool option"
  CrR_Truncation :: string
  CrR_Prompt :: RawMessage
  CrR_MaxToolCalls :: "int option"
  CrR_SafetyIdentifier :: string
  CrR_PromptCacheKey :: string
  CrR_ServiceTier :: string
  CrR_User :: string
  CrR_TopLogprobs :: "int option"
  CrR_StreamOptions :: RawMessage

record InputItem =
  II_Type :: string
  II_Role :: string
  II_Content :: RawMessage
  II_ID :: string
  II_CallID :: string
  II_Name :: string
  II_Arguments :: string
  II_Output :: RawMessage
  II_Status :: string
  II_Phase :: string
  II_Namespace :: string

record InputContent =
  IC_Type :: string
  IC_Text :: string
  IC_ImageURL :: string
  IC_FileID :: string
  IC_Detail :: string
  IC_Annotations :: "json list"
  IC_Logprobs :: "json list"

record ProviderRequest =
  PRq_Model :: string
  PRq_Input :: "InputItem list"
  PRq_Instructions :: string
  PRq_MaxOutputTokens :: "int option"
  PRq_Temperature :: "float64 option"
  PRq_TopP :: "float64 option"
  PRq_Tools :: "ResponsesTool list"
  PRq_ToolChoice :: RawMessage
  PRq_ParallelToolCalls :: "bool option"
  PRq_Store :: bool
  PRq_Stream :: bool

record OutputContent =
  OC_Type :: string
  OC_Text :: string
  OC_Refusal :: string
  OC_Annotations :: "json list"
  OC_Logprobs :: "json list"

record OutputItem =
  OI_Type :: string
  OI_ID :: string
  OI_Status :: string
  OI_Role :: string
  OI_Content :: "OutputContent list"
  OI_CallID :: string
  OI_Name :: string
  OI_Arguments :: string

record ResponsesUsage =
  RU_InputTokens :: int
  RU_CachedTokens :: "int option"         \<comment> \<open>\<^verbatim>\<open>InputTokensDetails\<close>\<close>
  RU_OutputTokens :: int
  RU_ReasoningTokens :: "int option"      \<comment> \<open>\<^verbatim>\<open>OutputTokenDetails\<close>\<close>
  RU_TotalTokens :: int

record ResponseError =
  RE_Code :: string
  RE_Message :: string
  RE_Param :: "string option"
  RE_Type :: string

record ResponsesResponse =
  RR_ID :: string
  RR_Object :: string
  RR_CreatedAt :: int
  RR_Status :: string
  RR_Error :: "ResponseError option"
  RR_IncompleteReason :: "string option"  \<comment> \<open>\<^verbatim>\<open>IncompleteDetails\<close>\<close>
  RR_Model :: string
  RR_Output :: "OutputItem list"
  RR_ParallelToolCalls :: bool
  RR_Store :: bool
  RR_Usage :: ResponsesUsage

definition no_item :: InputItem where
  "no_item = \<lparr>II_Type = '''', II_Role = '''', II_Content = None, II_ID = '''', II_CallID = '''', II_Name = '''', II_Arguments = '''',
     II_Output = None, II_Status = '''', II_Phase = '''', II_Namespace = ''''\<rparr>"

definition no_input :: InputContent where
  "no_input = \<lparr>IC_Type = '''', IC_Text = '''', IC_ImageURL = '''', IC_FileID = '''', IC_Detail = '''', IC_Annotations = [], IC_Logprobs = []\<rparr>"

section \<open>\<^verbatim>\<open>translate.go\<close>: input\<close>

definition responses_parseImage :: "url_parser \<Rightarrow> string \<Rightarrow> Image result" where
  "responses_parseImage = parseImage"

fun assign_raws :: "json \<Rightarrow> json list \<Rightarrow> json list result" where
  "assign_raws JNull v = Inr []"
| "assign_raws (JArr js) v = Inr js"
| "assign_raws _ v = type_error"

fun decode_InputContent :: "json \<Rightarrow> InputContent result" where
  "decode_InputContent (JObj ms) =
     ebind (only_fields [''type'', ''text'', ''image_url'', ''file_id'', ''detail'', ''annotations'', ''logprobs''] ms) (\<lambda>_.
     ebind (json_field ''type'' assign_string ms '''') (\<lambda>ty.
     ebind (json_field ''text'' assign_string ms '''') (\<lambda>tx.
     ebind (json_field ''image_url'' assign_string ms '''') (\<lambda>u.
     ebind (json_field ''file_id'' assign_string ms '''') (\<lambda>f.
     ebind (json_field ''detail'' assign_string ms '''') (\<lambda>d.
     ebind (json_field ''annotations'' assign_raws ms []) (\<lambda>a.
     ebind (json_field ''logprobs'' assign_raws ms []) (\<lambda>l.
     Inr \<lparr>IC_Type = ty, IC_Text = tx, IC_ImageURL = u, IC_FileID = f, IC_Detail = d, IC_Annotations = a, IC_Logprobs = l\<rparr>))))))))"
| "decode_InputContent JNull = Inr no_input"
| "decode_InputContent _ = type_error"

abbreviation responses_invalid :: "string \<Rightarrow> string \<Rightarrow> string \<Rightarrow> error" where
  "responses_invalid param code message \<equiv> TranslationError param code message [] []"

definition input_image :: "url_parser \<Rightarrow> string \<Rightarrow> string \<Rightarrow> InputContent \<Rightarrow> Content result" where
  "input_image parse role param part =
     ebind (fail_if (role \<noteq> RoleUser \<and> role \<noteq> RoleTool)
       (responses_invalid param ''invalid_input'' ''input_image is only supported for user and function output content'')) (\<lambda>_.
     ebind (fail_if (IC_FileID part \<noteq> '''')
       (responses_invalid (param @ ''.file_id'') ''unsupported_parameter'' ''file-backed images are not supported'')) (\<lambda>_.
     ebind (fail_if (IC_ImageURL part = '''') (responses_invalid (param @ ''.image_url'') ''invalid_input'' ''image_url is required'')) (\<lambda>_.
     ebind (fail_if (IC_Detail part \<noteq> '''' \<and> IC_Detail part \<noteq> ''auto'')
       (responses_invalid (param @ ''.detail'') ''unsupported_parameter'' ''image detail cannot be preserved by the selected provider'')) (\<lambda>_.
     ebind (case responses_parseImage parse (IC_ImageURL part) of
              Inl err \<Rightarrow> Inl (TranslationError (param @ ''.image_url'') ''invalid_image'' ''%v'' [] [err]) | Inr x \<Rightarrow> Inr x) (\<lambda>img.
     Inr (Content ContentImage '''' (Some img) None None))))))"

definition input_part :: "url_parser \<Rightarrow> string \<Rightarrow> string \<Rightarrow> json \<Rightarrow> Content result" where
  "input_part parse role param raw =
     ebind (case decode_InputContent raw of
              Inl err \<Rightarrow> Inl (TranslationError param ''invalid_input'' ''invalid content part: %v'' [] [err]) | Inr x \<Rightarrow> Inr x) (\<lambda>part.
     let extras = (IC_Annotations part \<noteq> [] \<or> IC_Logprobs part \<noteq> []);
         unkept = responses_invalid param ''unsupported_parameter'' ''annotations and logprobs cannot be preserved'' in
     if IC_Type part = ''input_text'' then
       ebind (fail_if (role = RoleAssistant \<and> extras) unkept) (\<lambda>_.
       Inr (Content ContentText (IC_Text part) None None None))
     else if IC_Type part = ''output_text'' then
       ebind (fail_if (role \<noteq> RoleAssistant)
         (responses_invalid param ''invalid_input'' ''output_text is only valid in assistant history'')) (\<lambda>_.
       ebind (fail_if extras unkept) (\<lambda>_.
       Inr (Content ContentText (IC_Text part) None None None)))
     else if IC_Type part = ''input_image'' then input_image parse role param part
     else if IC_Type part = ''input_file'' then
       Inl (responses_invalid param ''unsupported_parameter'' ''file inputs are not supported'')
     else Inl (TranslationError (param @ ''.type'') ''unsupported_parameter'' ''unsupported content type %q'' [IC_Type part] []))"

fun input_parts :: "url_parser \<Rightarrow> string \<Rightarrow> string \<Rightarrow> nat \<Rightarrow> json list \<Rightarrow> Content list result" where
  "input_parts parse role param index [] = Inr []"
| "input_parts parse role param index (raw # raws) =
     ebind (input_part parse role (param @ ''.'' @ decimal index) raw) (\<lambda>content.
     ebind (input_parts parse role param (Suc index) raws) (\<lambda>rest. Inr (content # rest)))"

definition parseInputContent :: "url_parser \<Rightarrow> RawMessage \<Rightarrow> string \<Rightarrow> string \<Rightarrow> Content list result" where
  "parseInputContent parse raw role param =
     (case raw of
        None \<Rightarrow> Inl (responses_invalid param ''invalid_input'' ''message content is required'')
      | Some JNull \<Rightarrow> Inl (responses_invalid param ''invalid_input'' ''message content is required'')
      | Some (JStr s) \<Rightarrow> Inr [Content ContentText s None None None]
      | Some j \<Rightarrow>
          ebind (case assign_raws j [] of
                   Inl err \<Rightarrow> Inl (TranslationError param ''invalid_input'' ''message content must be a string or array: %v'' [] [err])
                 | Inr x \<Rightarrow> Inr x) (\<lambda>raws.
          ebind (fail_if (raws = []) (responses_invalid param ''invalid_input'' ''message content must not be empty'')) (\<lambda>_.
          input_parts parse role param 0 raws)))"

text \<open>\<^verbatim>\<open>parseToolResult\<close> returns the content and the result; the caller sets the call ID and the name.\<close>

definition parseToolResult :: "JSONText \<Rightarrow> url_parser \<Rightarrow> RawMessage \<Rightarrow> string \<Rightarrow> (Content list \<times> RawMessage) result" where
  "parseToolResult T parse raw param =
     (case raw of
        None \<Rightarrow> Inl (responses_invalid param ''invalid_tool_output'' ''function output is required'')
      | Some JNull \<Rightarrow> Inl (responses_invalid param ''invalid_tool_output'' ''function output is required'')
      | Some (JStr output) \<Rightarrow>
          let asJSON = JT_value T output in
          if isJSONObject asJSON then Inr ([], asJSON) else Inr ([Content ContentText output None None None], None)
      | Some j \<Rightarrow> ebind (parseInputContent parse (Some j) RoleTool param) (\<lambda>cs. Inr (cs, None)))"

fun decode_selected :: "json \<Rightarrow> (string \<times> string) result" where
  "decode_selected (JObj ms) =
     ebind (only_fields [''type'', ''name''] ms) (\<lambda>_.
     ebind (json_field ''type'' assign_string ms '''') (\<lambda>ty.
     ebind (json_field ''name'' assign_string ms '''') (\<lambda>name.
     Inr (ty, name))))"
| "decode_selected JNull = Inr ('''', '''')"
| "decode_selected _ = type_error"

definition responses_parseToolChoice :: "RawMessage \<Rightarrow> string list \<Rightarrow> IRToolChoice option result" where
  "responses_parseToolChoice raw toolNames =
     (let choice = (\<lambda>mode name. \<lparr>Choice_Mode = mode, Choice_Name = name, Choice_DisableParallel = False\<rparr>) in
      case raw of
        None \<Rightarrow> Inr None
      | Some JNull \<Rightarrow> Inr None
      | Some (JStr mode) \<Rightarrow>
          if mode = ''none'' then Inr (if toolNames = [] then None else Some (choice mode ''''))
          else if mode = ''auto'' \<or> mode = ''required'' then
            (if toolNames = [] then Inl (failf ''tool_choice %q requires at least one tool'' [mode]) else Inr (Some (choice mode '''')))
          else Inl (failf ''unsupported tool_choice %q'' [mode])
      | Some j \<Rightarrow>
          ebind (decode_selected j) (\<lambda>(type, name).
          ebind (fail_if (type \<noteq> ''function'' \<or> name = '''') (failf ''named tool_choice must select a function'' [])) (\<lambda>_.
          ebind (fail_if (name \<notin> set toolNames) (failf ''selected function %q is not present in tools'' [name])) (\<lambda>_.
          Inr (Some (choice ''named'' name))))))"

definition rejectUnsupported :: "CreateRequest \<Rightarrow> unit result" where
  "rejectUnsupported request =
     (let checks = [
        (CrR_Stream request = Some True, ''stream'', ''streaming is not supported''),
        (CrR_Store request = Some True, ''store'', ''stored Responses are not supported; set store=false''),
        (CrR_PreviousResponseID request \<noteq> '''', ''previous_response_id'', ''stateful response chaining is not supported''),
        (rawPresent (CrR_Conversation request), ''conversation'', ''conversation state is not supported''),
        (rawPresent (CrR_Reasoning request), ''reasoning'', ''reasoning configuration cannot be preserved''),
        (rawPresent (CrR_Text request), ''text'', ''structured text output configuration is not supported''),
        (CrR_Metadata request \<noteq> [], ''metadata'', ''metadata cannot be preserved by every provider''),
        (CrR_Include request \<noteq> [], ''include'', ''additional response fields are not supported''),
        (CrR_Background request = Some True, ''background'', ''background Responses are not supported''),
        (CrR_Truncation request \<noteq> '''' \<and> CrR_Truncation request \<noteq> ''disabled'', ''truncation'', ''automatic truncation is not supported''),
        (rawPresent (CrR_Prompt request), ''prompt'', ''stored prompt templates are not supported''),
        (CrR_MaxToolCalls request \<noteq> None, ''max_tool_calls'', ''hosted tool call limits are not supported''),
        (CrR_SafetyIdentifier request \<noteq> '''', ''safety_identifier'', ''safety identifiers are not forwarded''),
        (CrR_PromptCacheKey request \<noteq> '''', ''prompt_cache_key'', ''prompt cache keys are not forwarded''),
        (CrR_ServiceTier request \<noteq> '''', ''service_tier'', ''service tier selection is not supported''),
        (CrR_User request \<noteq> '''', ''user'', ''deprecated user identifiers are not forwarded''),
        (CrR_TopLogprobs request \<noteq> None, ''top_logprobs'', ''log probabilities are not supported''),
        (rawPresent (CrR_StreamOptions request), ''stream_options'', ''stream options require streaming, which is not supported'')] in
      case find fst checks of
        None \<Rightarrow> Inr ()
      | Some (_, param, detail) \<Rightarrow> Inl (TranslationError param ''unsupported_parameter'' ''%s'' [detail] []))"

section \<open>\<^verbatim>\<open>translate.go\<close>: \<^verbatim>\<open>ToIR\<close>\<close>

fun decode_InputItem :: "json \<Rightarrow> InputItem result" where
  "decode_InputItem (JObj ms) =
     ebind (only_fields [''type'', ''role'', ''content'', ''id'', ''call_id'', ''name'', ''arguments'', ''output'', ''status'', ''phase'', ''namespace''] ms) (\<lambda>_.
     ebind (json_field ''type'' assign_string ms '''') (\<lambda>ty.
     ebind (json_field ''role'' assign_string ms '''') (\<lambda>ro.
     ebind (json_field ''content'' assign_raw ms None) (\<lambda>c.
     ebind (json_field ''id'' assign_string ms '''') (\<lambda>i.
     ebind (json_field ''call_id'' assign_string ms '''') (\<lambda>ci.
     ebind (json_field ''name'' assign_string ms '''') (\<lambda>n.
     ebind (json_field ''arguments'' assign_string ms '''') (\<lambda>a.
     ebind (json_field ''output'' assign_raw ms None) (\<lambda>out.
     ebind (json_field ''status'' assign_string ms '''') (\<lambda>st.
     ebind (json_field ''phase'' assign_string ms '''') (\<lambda>ph.
     ebind (json_field ''namespace'' assign_string ms '''') (\<lambda>ns.
     Inr \<lparr>II_Type = ty, II_Role = ro, II_Content = c, II_ID = i, II_CallID = ci, II_Name = n, II_Arguments = a, II_Output = out,
          II_Status = st, II_Phase = ph, II_Namespace = ns\<rparr>))))))))))))"
| "decode_InputItem JNull = Inr no_item"
| "decode_InputItem _ = type_error"

definition message_item :: "url_parser \<Rightarrow> string \<Rightarrow> InputItem \<Rightarrow> IRMessage result" where
  "message_item parse param item =
     (let role = (if II_Role item = ''developer'' then RoleSystem else II_Role item) in
      ebind (fail_if (II_Phase item \<noteq> '''')
        (responses_invalid (param @ ''.phase'') ''unsupported_parameter'' ''assistant phases cannot be preserved'')) (\<lambda>_.
      ebind (fail_if (II_Status item \<noteq> '''' \<and> II_Status item \<noteq> ''completed'')
        (responses_invalid (param @ ''.status'') ''unsupported_parameter'' ''only completed history items are supported'')) (\<lambda>_.
      ebind (fail_if (role \<notin> {RoleSystem, RoleUser, RoleAssistant})
        (TranslationError (param @ ''.role'') ''invalid_role'' ''unsupported message role %q'' [II_Role item] [])) (\<lambda>_.
      ebind (parseInputContent parse (II_Content item) role (param @ ''.content'')) (\<lambda>content.
      Inr \<lparr>Msg_Role = role, Msg_Content = content\<rparr>)))))"

definition call_item :: "JSONText \<Rightarrow> string \<Rightarrow> InputItem \<Rightarrow> (string \<times> string) list \<Rightarrow> (IRMessage \<times> (string \<times> string) list) result" where
  "call_item T param item callNames =
     (let arguments = JT_value T (II_Arguments item) in
      ebind (fail_if (II_CallID item = '''' \<or> II_Name item = '''' \<or> \<not> isJSONObject arguments)
        (responses_invalid param ''invalid_tool_call'' ''function_call requires call_id, name, and JSON object arguments'')) (\<lambda>_.
      ebind (fail_if (map_of callNames (II_CallID item) \<noteq> None)
        (responses_invalid (param @ ''.call_id'') ''invalid_tool_call'' ''call_id values must be unique'')) (\<lambda>_.
      ebind (fail_if (II_Namespace item \<noteq> '''')
        (responses_invalid (param @ ''.namespace'') ''unsupported_parameter'' ''function namespaces are not supported'')) (\<lambda>_.
      Inr (\<lparr>Msg_Role = RoleAssistant, Msg_Content = [Content ContentToolCall '''' None
             (Some \<lparr>TC_ID = II_CallID item, TC_Name = II_Name item, TC_Arguments = arguments, TC_Signature = ''''\<rparr>) None]\<rparr>,
           (II_CallID item, II_Name item) # callNames)))))"

definition output_item :: "JSONText \<Rightarrow> url_parser \<Rightarrow> string \<Rightarrow> InputItem \<Rightarrow> (string \<times> string) list \<Rightarrow> IRMessage result" where
  "output_item T parse param item callNames =
     ebind (fail_if (II_CallID item = '''') (responses_invalid (param @ ''.call_id'') ''invalid_tool_output'' ''call_id is required'')) (\<lambda>_.
     case map_of callNames (II_CallID item) of
       None \<Rightarrow> Inl (responses_invalid (param @ ''.call_id'') ''invalid_tool_output'' ''function output must reference a preceding function_call'')
     | Some name \<Rightarrow>
         ebind (parseToolResult T parse (II_Output item) (param @ ''.output'')) (\<lambda>(cs, res).
         Inr \<lparr>Msg_Role = RoleTool, Msg_Content = [Content ContentToolResult '''' None None
           (Some (ToolResult (II_CallID item) name cs res False))]\<rparr>))"

definition input_item :: "JSONText \<Rightarrow> url_parser \<Rightarrow> string \<Rightarrow> json \<Rightarrow> (string \<times> string) list \<Rightarrow> (IRMessage \<times> (string \<times> string) list) result" where
  "input_item T parse param raw callNames =
     ebind (case decode_InputItem raw of
              Inl err \<Rightarrow> Inl (TranslationError param ''invalid_input'' ''invalid input item: %v'' [] [err]) | Inr x \<Rightarrow> Inr x) (\<lambda>item.
     if II_Type item = '''' \<or> II_Type item = ''message'' then ebind (message_item parse param item) (\<lambda>m. Inr (m, callNames))
     else if II_Type item = ''function_call'' then call_item T param item callNames
     else if II_Type item = ''function_call_output'' then ebind (output_item T parse param item callNames) (\<lambda>m. Inr (m, callNames))
     else if II_Type item = ''reasoning'' then
       Inl (responses_invalid (param @ ''.type'') ''unsupported_parameter'' ''reasoning items cannot be preserved'')
     else Inl (TranslationError (param @ ''.type'') ''unsupported_parameter''
       ''unsupported input item type %q; only messages and function calls/results are supported'' [II_Type item] []))"

fun input_items :: "JSONText \<Rightarrow> url_parser \<Rightarrow> nat \<Rightarrow> json list \<Rightarrow> (string \<times> string) list \<Rightarrow> IRMessage list result" where
  "input_items T parse index [] callNames = Inr []"
| "input_items T parse index (raw # raws) callNames =
     ebind (input_item T parse (''input.'' @ decimal index) raw callNames) (\<lambda>(message, callNames').
     ebind (input_items T parse (Suc index) raws callNames') (\<lambda>rest.
     Inr (message # rest)))"

definition input_messages :: "JSONText \<Rightarrow> url_parser \<Rightarrow> RawMessage \<Rightarrow> IRMessage list result" where
  "input_messages T parse input =
     (case input of
        None \<Rightarrow> Inl (responses_invalid ''input'' ''invalid_input'' ''input is required'')
      | Some JNull \<Rightarrow> Inl (responses_invalid ''input'' ''invalid_input'' ''input is required'')
      | Some (JStr s) \<Rightarrow> Inr [\<lparr>Msg_Role = RoleUser, Msg_Content = [Content ContentText s None None None]\<rparr>]
      | Some j \<Rightarrow>
          ebind (case assign_raws j [] of
                   Inl err \<Rightarrow> Inl (TranslationError ''input'' ''invalid_input'' ''input must be a string or array of items: %v'' [] [err])
                 | Inr x \<Rightarrow> Inr x) (\<lambda>items.
          ebind (fail_if (items = []) (responses_invalid ''input'' ''invalid_input'' ''input must contain at least one item'')) (\<lambda>_.
          input_items T parse 0 items [])))"

definition instruction_messages :: "RawMessage \<Rightarrow> IRMessage list result" where
  "instruction_messages raw =
     (if \<not> rawPresent raw then Inr []
      else case raw of
        Some (JStr instructions) \<Rightarrow>
          Inr (if instructions = '''' then []
               else [\<lparr>Msg_Role = RoleSystem, Msg_Content = [Content ContentText instructions None None None]\<rparr>])
      | _ \<Rightarrow> Inl (responses_invalid ''instructions'' ''unsupported_parameter'' ''only string instructions are supported''))"

fun responses_tools :: "nat \<Rightarrow> ResponsesTool list \<Rightarrow> string list \<Rightarrow> IRTool list result" where
  "responses_tools index [] names = Inr []"
| "responses_tools index (tool # tools) names =
     (let param = ''tools.'' @ decimal index;
          parameters = (if rawPresent (RTl_Parameters tool) then RTl_Parameters tool else Some empty_parameters) in
      ebind (fail_if (RTl_Type tool \<noteq> ''function'')
        (responses_invalid (param @ ''.type'') ''unsupported_parameter'' ''hosted and custom tools are not supported'')) (\<lambda>_.
      ebind (fail_if (TrimSpace (RTl_Name tool) = '''') (responses_invalid (param @ ''.name'') ''invalid_tool'' ''function name is required'')) (\<lambda>_.
      ebind (fail_if (\<not> isJSONObject parameters)
        (responses_invalid (param @ ''.parameters'') ''invalid_tool_schema'' ''parameters must contain a JSON Schema object'')) (\<lambda>_.
      ebind (fail_if (RTl_Name tool \<in> set names) (responses_invalid (param @ ''.name'') ''invalid_tool'' ''function names must be unique'')) (\<lambda>_.
      ebind (responses_tools (Suc index) tools (RTl_Name tool # names)) (\<lambda>rest.
      Inr (\<lparr>Tool_Name = RTl_Name tool, Tool_Description = RTl_Description tool, Tool_InputSchema = parameters, Tool_Strict = RTl_Strict tool\<rparr> # rest)))))))"

definition responses_tool_choice :: "CreateRequest \<Rightarrow> IRTool list \<Rightarrow> IRToolChoice option result" where
  "responses_tool_choice request tools =
     ebind (case responses_parseToolChoice (CrR_ToolChoice request) (map Tool_Name tools) of
              Inl err \<Rightarrow> Inl (TranslationError ''tool_choice'' ''invalid_tool_choice'' ''%v'' [] [err]) | Inr c \<Rightarrow> Inr c) (\<lambda>choice.
     if CrR_ParallelToolCalls request = Some False \<and> tools \<noteq> [] then
       Inr (Some ((case choice of None \<Rightarrow> \<lparr>Choice_Mode = ''auto'', Choice_Name = '''', Choice_DisableParallel = False\<rparr> | Some c \<Rightarrow> c)
         \<lparr>Choice_DisableParallel := True\<rparr>))
     else Inr choice)"

definition responses_ToIR :: "JSONText \<Rightarrow> url_parser \<Rightarrow> CreateRequest \<Rightarrow> Route \<Rightarrow> string \<Rightarrow> IRRequest result" where
  "responses_ToIR T parse request route requestID =
     ebind (fail_if (TrimSpace (CrR_Model request) = '''') (responses_invalid ''model'' ''invalid_model'' ''model is required'')) (\<lambda>_.
     ebind (rejectUnsupported request) (\<lambda>_.
     ebind (fail_if (case CrR_MaxOutputTokens request of None \<Rightarrow> False | Some n \<Rightarrow> n < 16)
       (responses_invalid ''max_output_tokens'' ''invalid_value'' ''max_output_tokens must be at least 16'')) (\<lambda>_.
     ebind (fail_if (outside_unit (CrR_Temperature request))
       (responses_invalid ''temperature'' ''invalid_value'' ''temperature must be between 0 and 1 for the portable gateway contract'')) (\<lambda>_.
     ebind (fail_if (outside_unit (CrR_TopP request)) (responses_invalid ''top_p'' ''invalid_value'' ''top_p must be between 0 and 1'')) (\<lambda>_.
     ebind (instruction_messages (CrR_Instructions request)) (\<lambda>instructions.
     ebind (input_messages T parse (CrR_Input request)) (\<lambda>messages.
     ebind (responses_tools 0 (CrR_Tools request) []) (\<lambda>tools.
     ebind (responses_tool_choice request tools) (\<lambda>toolChoice.
     let result = \<lparr>Req_Version = Version, Req_ID = requestID,
           Req_Route = \<lparr>IRRoute_ProviderID = Route_ProviderID route, IRRoute_UpstreamModel = Route_UpstreamModel route\<rparr>,
           Req_Messages = instructions @ messages, Req_MaxOutputTokens = CrR_MaxOutputTokens request, Req_Temperature = CrR_Temperature request,
           Req_TopP = CrR_TopP request, Req_Stop = [], Req_Tools = tools, Req_ToolChoice = toolChoice, Req_Metadata = [], Req_Stream = False\<rparr> in
     ebind (case request_Validate parse result of
              Inl err \<Rightarrow> Inl (TranslationError ''input'' ''invalid_input'' ''%v'' [] [err]) | Inr u \<Rightarrow> Inr u) (\<lambda>_.
     Inr result))))))))))"

section \<open>\<^verbatim>\<open>translate.go\<close>: to the provider\<close>

definition responses_imageURL :: "Image option \<Rightarrow> string result" where
  "responses_imageURL img =
     (case img of
        None \<Rightarrow> Inl (failf ''image payload is required'' [])
      | Some i \<Rightarrow>
          if Image_URL i \<noteq> '''' then Inr (Image_URL i)
          else
            ebind (fail_if (Image_MediaType i = '''' \<or> Image_Data i = '''') (failf ''inline image requires media type and data'' [])) (\<lambda>_.
            Inr (''data:'' @ Image_MediaType i @ '';base64,'' @ Image_Data i)))"

definition toolChoiceJSON :: "IRToolChoice option \<Rightarrow> RawMessage result" where
  "toolChoiceJSON choice =
     (case choice of
        None \<Rightarrow> Inr None
      | Some c \<Rightarrow>
          if Choice_Mode c \<in> {''auto'', ''none'', ''required''} then Inr (Some (JStr (Choice_Mode c)))
          else if Choice_Mode c = ''named'' then Inr (Some (JObj [(''type'', JStr ''function''), (''name'', JStr (Choice_Name c))]))
          else Inl (failf ''unsupported tool choice mode %q'' [Choice_Mode c]))"

definition json_of_InputContent :: "InputContent \<Rightarrow> json" where
  "json_of_InputContent part =
     JObj ((''type'', JStr (IC_Type part)) # omit_string ''text'' (IC_Text part) @ omit_string ''image_url'' (IC_ImageURL part) @
       omit_string ''file_id'' (IC_FileID part) @ omit_string ''detail'' (IC_Detail part) @
       omit_raws ''annotations'' (IC_Annotations part) @ omit_raws ''logprobs'' (IC_Logprobs part))"

definition encode_part :: "Content \<Rightarrow> string \<Rightarrow> InputContent result" where
  "encode_part content unsupported =
     (if C_Type content = ContentText then Inr (no_input\<lparr>IC_Type := ''input_text'', IC_Text := C_Text content\<rparr>)
      else if C_Type content = ContentImage then
        ebind (responses_imageURL (C_Image content)) (\<lambda>v.
        Inr (no_input\<lparr>IC_Type := ''input_image'', IC_ImageURL := v, IC_Detail := ''auto''\<rparr>))
      else Inl (failf unsupported [C_Type content]))"

fun message_parts :: "JSONText \<Rightarrow> Content list \<Rightarrow> (InputContent list \<times> InputItem list) result" where
  "message_parts T [] = Inr ([], [])"
| "message_parts T (content # cs) =
     ebind
       (if C_Type content = ContentToolCall then
          (case C_ToolCall content of
             None \<Rightarrow> Inl (failf ''tool call payload is required'' [])
           | Some call \<Rightarrow> Inr ([], [no_item\<lparr>II_Type := ''function_call'', II_CallID := TC_ID call, II_Name := TC_Name call,
               II_Arguments := text_of_raw T (TC_Arguments call)\<rparr>]))
        else ebind (encode_part content ''unsupported message content type %q'') (\<lambda>part. Inr ([part], []))) (\<lambda>(ps, is).
     ebind (message_parts T cs) (\<lambda>(parts, items).
     Inr (ps @ parts, is @ items)))"

definition encodeMessageContent :: "JSONText \<Rightarrow> Content list \<Rightarrow> (RawMessage \<times> InputItem list) result" where
  "encodeMessageContent T cs =
     ebind (message_parts T cs) (\<lambda>(parts, items).
     Inr (if parts = [] then None else Some (JArr (map json_of_InputContent parts)), items))"

definition encodeToolOutput :: "JSONText \<Rightarrow> ToolResult option \<Rightarrow> RawMessage result" where
  "encodeToolOutput T result =
     (case result of
        None \<Rightarrow> Inl (failf ''tool result payload is required'' [])
      | Some r \<Rightarrow>
          ebind (fail_if (TR_IsError r) (failf ''OpenAI Responses has no portable is_error function output flag'' [])) (\<lambda>_.
          if TR_Result r \<noteq> None then Inr (Some (JStr (text_of_raw T (TR_Result r))))
          else if length (TR_Content r) = 1 \<and> C_Type (hd (TR_Content r)) = ContentText then Inr (Some (JStr (C_Text (hd (TR_Content r)))))
          else ebind (emap (\<lambda>content. encode_part content ''unsupported function output content type %q'') (TR_Content r)) (\<lambda>parts.
            Inr (Some (JArr (map json_of_InputContent parts))))))"

fun system_texts :: "nat \<Rightarrow> Content list \<Rightarrow> string list result" where
  "system_texts messageIndex [] = Inr []"
| "system_texts messageIndex (content # cs) =
     ebind (fail_if (C_Type content \<noteq> ContentText)
       (failf ''messages[%d]: system messages may only contain text'' [decimal messageIndex])) (\<lambda>_.
     ebind (system_texts messageIndex cs) (\<lambda>rest. Inr (C_Text content # rest)))"

fun result_items :: "JSONText \<Rightarrow> nat \<Rightarrow> nat \<Rightarrow> Content list \<Rightarrow> InputItem list result" where
  "result_items T messageIndex index [] = Inr []"
| "result_items T messageIndex index (content # cs) =
     ebind (case (C_Type content = ContentToolResult, C_ToolResult content) of
              (True, Some r) \<Rightarrow> Inr r
            | _ \<Rightarrow> Inl (failf ''messages[%d].content[%d]: tool messages require tool_result content'' [decimal messageIndex, decimal index])) (\<lambda>r.
     ebind (wrapf ''messages[%d].content[%d]: %w'' [decimal messageIndex, decimal index] (encodeToolOutput T (Some r))) (\<lambda>out.
     ebind (result_items T messageIndex (Suc index) cs) (\<lambda>rest.
     Inr (no_item\<lparr>II_Type := ''function_call_output'', II_CallID := TR_ToolCallID r, II_Output := out\<rparr> # rest))))"

text \<open>What one message adds to the instructions and to the input.\<close>

definition message_input :: "JSONText \<Rightarrow> nat \<Rightarrow> IRMessage \<Rightarrow> (string list \<times> InputItem list) result" where
  "message_input T index message =
     (if Msg_Role message = RoleSystem then ebind (system_texts index (Msg_Content message)) (\<lambda>ts. Inr (ts, []))
      else if Msg_Role message = RoleUser \<or> Msg_Role message = RoleAssistant then
        ebind (wrapf ''messages[%d]: %w'' [decimal index] (encodeMessageContent T (Msg_Content message))) (\<lambda>(content, items).
        Inr ([], (if content \<noteq> None then [no_item\<lparr>II_Type := ''message'', II_Role := Msg_Role message, II_Content := content\<rparr>] else []) @ items))
      else if Msg_Role message = RoleTool then ebind (result_items T index 0 (Msg_Content message)) (\<lambda>items. Inr ([], items))
      else Inl (failf ''messages[%d]: unsupported role %q'' [decimal index, Msg_Role message]))"

fun messages_input :: "JSONText \<Rightarrow> nat \<Rightarrow> IRMessage list \<Rightarrow> (string list \<times> InputItem list) result" where
  "messages_input T index [] = Inr ([], [])"
| "messages_input T index (message # messages) =
     ebind (message_input T index message) (\<lambda>(ts, is).
     ebind (messages_input T (Suc index) messages) (\<lambda>(instructions, items).
     Inr (ts @ instructions, is @ items)))"

definition join_lines :: "string list \<Rightarrow> string" where
  "join_lines ts = (case ts of [] \<Rightarrow> '''' | t # rest \<Rightarrow> t @ concat (map (\<lambda>s. CHR 0x0A # s) rest))"

definition toolToResponses :: "IRTool \<Rightarrow> ResponsesTool" where
  "toolToResponses tool = \<lparr>RTl_Type = ''function'', RTl_Name = Tool_Name tool, RTl_Description = Tool_Description tool,
     RTl_Parameters = Tool_InputSchema tool, RTl_Strict = Tool_Strict tool\<rparr>"

definition responses_ToProviderRequest :: "JSONText \<Rightarrow> url_parser \<Rightarrow> IRRequest \<Rightarrow> ProviderRequest result" where
  "responses_ToProviderRequest T parse request =
     ebind (request_Validate parse request) (\<lambda>_.
     ebind (fail_if (Req_Stream request) (failf ''streaming IR requests are not supported'' [])) (\<lambda>_.
     ebind (fail_if (Req_Stop request \<noteq> []) (failf ''OpenAI Responses does not support stop sequences'' [])) (\<lambda>_.
     ebind (fail_if (Req_Metadata request \<noteq> []) (failf ''metadata is not supported by this adapter'' [])) (\<lambda>_.
     ebind (fail_if (case Req_MaxOutputTokens request of None \<Rightarrow> False | Some n \<Rightarrow> n < 16) (failf ''max_output_tokens must be at least 16'' [])) (\<lambda>_.
     ebind (messages_input T 0 (Req_Messages request)) (\<lambda>(instructions, input).
     ebind (fail_if (input = []) (failf ''at least one non-system input item is required'' [])) (\<lambda>_.
     ebind (toolChoiceJSON (Req_ToolChoice request)) (\<lambda>choice.
     Inr \<lparr>PRq_Model = IRRoute_UpstreamModel (Req_Route request), PRq_Input = input, PRq_Instructions = join_lines instructions,
       PRq_MaxOutputTokens = Req_MaxOutputTokens request, PRq_Temperature = Req_Temperature request, PRq_TopP = Req_TopP request,
       PRq_Tools = map toolToResponses (Req_Tools request), PRq_ToolChoice = choice,
       PRq_ParallelToolCalls = (case Req_ToolChoice request of Some c \<Rightarrow> if Choice_DisableParallel c then Some False else None | None \<Rightarrow> None),
       PRq_Store = False, PRq_Stream = False\<rparr>))))))))"

section \<open>\<^verbatim>\<open>translate.go\<close>: responses\<close>

text \<open>The contents of a message; the flag is \<^verbatim>\<open>refused\<close>.\<close>

fun output_contents :: "nat \<Rightarrow> nat \<Rightarrow> OutputContent list \<Rightarrow> (Content list \<times> bool) result" where
  "output_contents itemIndex index [] = Inr ([], False)"
| "output_contents itemIndex index (content # cs) =
     ebind
       (if OC_Type content = ''output_text'' then
          ebind (fail_if (OC_Annotations content \<noteq> [] \<or> OC_Logprobs content \<noteq> [])
            (failf ''output[%d].content[%d] contains annotations or logprobs that cannot be preserved'' [decimal itemIndex, decimal index])) (\<lambda>_.
          Inr (OC_Text content, False))
        else if OC_Type content = ''refusal'' then Inr (OC_Refusal content, True)
        else Inl (failf ''output[%d].content[%d] has unsupported type %q'' [decimal itemIndex, decimal index, OC_Type content])) (\<lambda>(words, refusal).
     ebind (output_contents itemIndex (Suc index) cs) (\<lambda>(rest, refused).
     Inr (Content ContentText words None None None # rest, refusal \<or> refused)))"

definition output_entry :: "JSONText \<Rightarrow> nat \<Rightarrow> OutputItem \<Rightarrow> (Content list \<times> bool) result" where
  "output_entry T index item =
     (if OI_Type item = ''message'' then
        ebind (fail_if (OI_Role item \<noteq> '''' \<and> OI_Role item \<noteq> ''assistant'')
          (failf ''output[%d] has unsupported message role %q'' [decimal index, OI_Role item])) (\<lambda>_.
        output_contents index 0 (OI_Content item))
      else if OI_Type item = ''function_call'' then
        (let arguments = JT_value T (OI_Arguments item) in
         ebind (fail_if (OI_CallID item = '''' \<or> OI_Name item = '''' \<or> \<not> isJSONObject arguments)
           (failf ''output[%d] contains an invalid function call'' [decimal index])) (\<lambda>_.
         Inr ([Content ContentToolCall '''' None
           (Some \<lparr>TC_ID = OI_CallID item, TC_Name = OI_Name item, TC_Arguments = arguments, TC_Signature = ''''\<rparr>) None], False)))
      else if OI_Type item = ''reasoning'' then Inr ([], False)
      else Inl (failf ''output[%d] has unsupported hosted item type %q'' [decimal index, OI_Type item]))"

fun output_entries :: "JSONText \<Rightarrow> nat \<Rightarrow> OutputItem list \<Rightarrow> (Content list \<times> bool) result" where
  "output_entries T index [] = Inr ([], False)"
| "output_entries T index (item # items) =
     ebind (output_entry T index item) (\<lambda>(cs, refusal).
     ebind (output_entries T (Suc index) items) (\<lambda>(rest, refused).
     Inr (cs @ rest, refusal \<or> refused)))"

definition responses_finish :: "ResponsesResponse \<Rightarrow> Content list \<Rightarrow> bool \<Rightarrow> string result" where
  "responses_finish response cs refused =
     (if RR_Status response = ''incomplete'' then
        (case RR_IncompleteReason response of
           None \<Rightarrow> Inl (failf ''incomplete OpenAI response has no reason'' [])
         | Some reason \<Rightarrow>
             if reason = ''max_output_tokens'' then Inr FinishLength
             else if reason = ''content_filter'' then Inr FinishContent
             else Inl (failf ''unsupported incomplete reason %q'' [reason]))
      else if refused then Inr FinishContent
      else if list_ex (\<lambda>c. C_Type c = ContentToolCall) cs then Inr FinishToolCalls
      else Inr FinishStop)"

definition responses_ToIRResponse :: "JSONText \<Rightarrow> url_parser \<Rightarrow> ResponsesResponse \<Rightarrow> IRRequest \<Rightarrow> IRResponse result" where
  "responses_ToIRResponse T parse response request =
     ebind (case RR_Error response of None \<Rightarrow> Inr () | Some e \<Rightarrow> Inl (failf ''OpenAI response failed: %s'' [RE_Message e])) (\<lambda>_.
     ebind (fail_if (RR_Status response \<noteq> ''completed'' \<and> RR_Status response \<noteq> ''incomplete'')
       (failf ''OpenAI response has non-terminal status %q'' [RR_Status response])) (\<lambda>_.
     ebind (output_entries T 0 (RR_Output response)) (\<lambda>(cs, refused).
     ebind (responses_finish response cs refused) (\<lambda>finish.
     let usage = RR_Usage response;
         result = \<lparr>Resp_Version = Version, Resp_ID = Req_ID request,
           Resp_Model = (if RR_Model response = '''' then IRRoute_UpstreamModel (Req_Route request) else RR_Model response),
           Resp_Content = cs, Resp_FinishReason = finish, Resp_StopSequence = '''',
           Resp_Usage = \<lparr>Usage_InputTokens = RU_InputTokens usage, Usage_OutputTokens = RU_OutputTokens usage,
             Usage_CacheCreationInputTokens = 0,
             Usage_CachedInputTokens = (case RU_CachedTokens usage of None \<Rightarrow> 0 | Some n \<Rightarrow> n)\<rparr>,
           Resp_ProviderResponseID = RR_ID response\<rparr> in
     ebind (wrapf ''invalid translated response: %w'' [] (response_Validate parse result)) (\<lambda>_.
     Inr result)))))"

text \<open>The contents of the message and the function calls; the calls are counted from one.\<close>

fun response_output :: "JSONText \<Rightarrow> string \<Rightarrow> nat \<Rightarrow> nat \<Rightarrow> Content list \<Rightarrow> (OutputContent list \<times> OutputItem list) result" where
  "response_output T suffix index callIndex [] = Inr ([], [])"
| "response_output T suffix index callIndex (content # cs) =
     (if C_Type content = ContentText then
        ebind (response_output T suffix (Suc index) callIndex cs) (\<lambda>(parts, items).
        Inr (\<lparr>OC_Type = ''output_text'', OC_Text = C_Text content, OC_Refusal = '''', OC_Annotations = [], OC_Logprobs = []\<rparr> # parts, items))
      else if C_Type content = ContentToolCall then
        (case C_ToolCall content of
           None \<Rightarrow> Inl (failf ''content[%d] has no tool_call payload'' [decimal index])
         | Some call \<Rightarrow>
             ebind (response_output T suffix (Suc index) (Suc callIndex) cs) (\<lambda>(parts, items).
             Inr (parts, \<lparr>OI_Type = ''function_call'', OI_ID = ''fc_'' @ suffix @ ''_'' @ decimal (Suc callIndex), OI_Status = ''completed'',
               OI_Role = '''', OI_Content = [], OI_CallID = TC_ID call, OI_Name = TC_Name call,
               OI_Arguments = text_of_raw T (TC_Arguments call)\<rparr> # items)))
      else if C_Type content = ContentImage
      then Inl (failf ''content[%d]: Responses text generation has no portable image output item'' [decimal index])
      else Inl (failf ''content[%d] has unsupported type %q'' [decimal index, C_Type content]))"

definition responses_status :: "string \<Rightarrow> (string \<times> string option) result" where
  "responses_status finish =
     (if finish = FinishLength then Inr (''incomplete'', Some ''max_output_tokens'')
      else if finish = FinishContent then Inr (''incomplete'', Some ''content_filter'')
      else if finish = FinishStop \<or> finish = FinishToolCalls then Inr (''completed'', None)
      else Inl (failf ''unsupported finish reason %q'' [finish]))"

definition responses_FromIR :: "JSONText \<Rightarrow> url_parser \<Rightarrow> IRResponse \<Rightarrow> string \<Rightarrow> string \<Rightarrow> time \<Rightarrow> bool \<Rightarrow> ResponsesResponse result" where
  "responses_FromIR T parse response requestedModel responseID created parallel =
     (let usage = Resp_Usage response; suffix = TrimPrefix responseID ''resp_'' in
      ebind (response_Validate parse response) (\<lambda>_.
      ebind (response_output T suffix 0 0 (Resp_Content response)) (\<lambda>(parts, items).
      ebind (responses_status (Resp_FinishReason response)) (\<lambda>(status, reason).
      Inr \<lparr>RR_ID = responseID, RR_Object = ''response'', RR_CreatedAt = Unix created, RR_Status = status, RR_Error = None,
        RR_IncompleteReason = reason, RR_Model = requestedModel,
        RR_Output = (if parts = [] then [] else [\<lparr>OI_Type = ''message'', OI_ID = ''msg_'' @ suffix, OI_Status = ''completed'', OI_Role = ''assistant'',
            OI_Content = parts, OI_CallID = '''', OI_Name = '''', OI_Arguments = ''''\<rparr>]) @ items,
        RR_ParallelToolCalls = parallel, RR_Store = False,
        RR_Usage = \<lparr>RU_InputTokens = Usage_InputTokens usage, RU_CachedTokens = Some (Usage_CachedInputTokens usage),
          RU_OutputTokens = Usage_OutputTokens usage, RU_ReasoningTokens = Some 0,
          RU_TotalTokens = wrap64 (Usage_InputTokens usage + Usage_OutputTokens usage)\<rparr>\<rparr>))))"

section \<open>What the adapter sends\<close>

definition response_part :: "Content \<Rightarrow> InputContent" where
  "response_part c =
     (case C_Image c of
        None \<Rightarrow> no_input\<lparr>IC_Type := ''input_text'', IC_Text := C_Text c\<rparr>
      | Some i \<Rightarrow> no_input\<lparr>IC_Type := ''input_image'', IC_ImageURL := image_ref i, IC_Detail := ''auto''\<rparr>)"

definition call_sent :: "JSONText \<Rightarrow> ToolCall \<Rightarrow> InputItem" where
  "call_sent T call = no_item\<lparr>II_Type := ''function_call'', II_CallID := TC_ID call, II_Name := TC_Name call,
     II_Arguments := text_of_raw T (TC_Arguments call)\<rparr>"

text \<open>A tool result as it is sent: an object as its text, one text as it is, anything else as parts.\<close>

definition output_value :: "JSONText \<Rightarrow> ToolResult \<Rightarrow> json" where
  "output_value T r =
     (case TR_Result r of
        Some j \<Rightarrow> JStr (JT_text T j)
      | None \<Rightarrow>
          if length (TR_Content r) = 1 \<and> C_Type (hd (TR_Content r)) = ContentText then JStr (C_Text (hd (TR_Content r)))
          else JArr (map (json_of_InputContent \<circ> response_part) (TR_Content r)))"

definition result_sent :: "JSONText \<Rightarrow> ToolResult \<Rightarrow> InputItem" where
  "result_sent T r = no_item\<lparr>II_Type := ''function_call_output'', II_CallID := TR_ToolCallID r, II_Output := Some (output_value T r)\<rparr>"

definition items_sent :: "JSONText \<Rightarrow> IRMessage \<Rightarrow> InputItem list" where
  "items_sent T m =
     (let parts = map (json_of_InputContent \<circ> response_part) (filter (\<lambda>c. C_Type c \<noteq> ContentToolCall) (Msg_Content m)) in
      if Msg_Role m = RoleSystem then []
      else if Msg_Role m = RoleTool then map (result_sent T) (results (Msg_Content m))
      else (if parts = [] then [] else [no_item\<lparr>II_Type := ''message'', II_Role := Msg_Role m, II_Content := Some (JArr parts)\<rparr>]) @
        map (call_sent T) (calls (Msg_Content m)))"

definition no_error_results :: "IRMessage list \<Rightarrow> bool" where
  "no_error_results ms \<longleftrightarrow> (\<forall>m \<in> set ms. \<forall>r \<in> set (results (Msg_Content m)). \<not> TR_IsError r)"

lemma responses_imageURL_valid: "valid_image parse i \<Longrightarrow> responses_imageURL (Some i) = Inr (image_ref i)"
  by (auto simp: valid_image_def responses_imageURL_def image_ref_def image_types_def)

lemma encode_part_valid:
  assumes "valid_part parse c"
  shows "encode_part c unsupported = Inr (response_part c)"
proof (cases c)
  case (Content ty tx img tc tr)
  with assms consider "ty = ContentText" "img = None" | i where "ty = ContentImage" "img = Some i" "valid_image parse i"
    by (auto simp: valid_part_def)
  then show ?thesis by cases (simp_all add: Content encode_part_def response_part_def responses_imageURL_valid)
qed

lemma message_parts_valid:
  assumes "\<forall>c \<in> set cs. valid_content parse c \<and> allowed_content role (C_Type c)" "role \<noteq> RoleTool"
  shows "message_parts T cs = Inr (map response_part (filter (\<lambda>c. C_Type c \<noteq> ContentToolCall) cs), map (call_sent T) (calls cs))"
  using assms(1)
proof (induction cs)
  case (Cons c cs)
  then have IH: "message_parts T cs = Inr (map response_part (filter (\<lambda>c. C_Type c \<noteq> ContentToolCall) cs), map (call_sent T) (calls cs))" by simp
  from Cons.prems have "valid_content parse c" "allowed_content role (C_Type c)" by simp_all
  then show ?case using assms(2)
  proof (cases rule: spoken_cases)
    case (1 t)
    then have "valid_part parse c" by (simp add: valid_part_def)
    with 1 IH show ?thesis by (simp add: content_simps encode_part_valid)
  next
    case (2 i)
    then have "valid_part parse c" by (simp add: valid_part_def)
    with 2 IH show ?thesis by (simp add: content_simps encode_part_valid)
  next
    case (3 call)
    with IH show ?thesis by (simp add: content_simps call_sent_def)
  qed
qed (simp add: List.map_filter_def)

lemma encodeToolOutput_valid:
  assumes "valid_result parse r"
  shows "encodeToolOutput T (Some r) = Inr out \<longleftrightarrow> \<not> TR_IsError r \<and> out = Some (output_value T r)"
proof -
  have "emap (\<lambda>content. encode_part content f) (TR_Content r) = Inr (map response_part (TR_Content r))" for f
    using assms by (intro emap_ok encode_part_valid [of parse]) (simp add: valid_result_def)
  then show ?thesis by (auto simp: encodeToolOutput_def output_value_def text_of_raw_def split: option.splits)
qed

lemma result_items_valid:
  assumes "\<forall>c \<in> set cs. valid_content parse c \<and> C_Type c = ContentToolResult"
  shows "result_items T i index cs = Inr items \<longleftrightarrow> (\<forall>r \<in> set (results cs). \<not> TR_IsError r) \<and> items = map (result_sent T) (results cs)"
  using assms
proof (induction cs arbitrary: index items)
  case (Cons c cs)
  then obtain r where r: "C_Type c = ContentToolResult" "C_ToolResult c = Some r" "valid_result parse r"
    by (auto simp: valid_content_def valid_part_def)
  then have res: "results (c # cs) = r # results cs" by (simp add: map_filter_Cons result_of_def)
  show ?case unfolding res using r Cons.IH [of "Suc index"] Cons.prems
    by (auto simp: encodeToolOutput_valid [OF r(3)] result_sent_def)
qed (auto simp: List.map_filter_def)

lemma system_texts_valid: "\<forall>c \<in> set cs. C_Type c = ContentText \<Longrightarrow> system_texts i cs = Inr (map C_Text cs)"
  by (induction cs) auto

text \<open>The instructions are the texts of the system messages.\<close>

definition instructions_of :: "IRMessage list \<Rightarrow> string list" where
  "instructions_of ms = concat (map (\<lambda>m. map C_Text (Msg_Content m)) (filter (\<lambda>m. Msg_Role m = RoleSystem) ms))"

lemma message_input_valid:
  assumes m: "valid_message parse m"
  shows "message_input T index m = Inr out \<longleftrightarrow> no_error_results [m] \<and> out = (instructions_of [m], items_sent T m)"
proof -
  from m have contents: "\<forall>c \<in> set (Msg_Content m). valid_content parse c \<and> allowed_content (Msg_Role m) (C_Type c)"
    and role: "Msg_Role m \<in> {RoleSystem, RoleUser, RoleAssistant, RoleTool}" by (simp_all add: valid_message_def)
  consider (system) "Msg_Role m = RoleSystem" | (said) "Msg_Role m = RoleUser \<or> Msg_Role m = RoleAssistant" | (tool) "Msg_Role m = RoleTool"
    using role by auto
  then show ?thesis
  proof cases
    case system
    with contents have "\<forall>c \<in> set (Msg_Content m). C_Type c = ContentText" by (simp add: allowed_content_def)
    moreover have "no_error_results [m]" using spoken_results [OF m] system by (simp add: no_error_results_def)
    ultimately show ?thesis using system
      by (auto simp: message_input_def system_texts_valid instructions_of_def items_sent_def)
  next
    case said
    then have "Msg_Role m \<noteq> RoleTool" "Msg_Role m \<noteq> RoleSystem" by auto
    moreover from this have "no_error_results [m]" using spoken_results [OF m] by (simp add: no_error_results_def)
    ultimately show ?thesis using said
      by (auto simp: message_input_def encodeMessageContent_def message_parts_valid [OF contents] instructions_of_def items_sent_def Let_def o_def)
  next
    case tool
    then have "\<forall>c \<in> set (Msg_Content m). valid_content parse c \<and> C_Type c = ContentToolResult"
      using contents by (simp add: allowed_content_def)
    from result_items_valid [OF this, of T index 0] tool show ?thesis
      by (auto simp: message_input_def instructions_of_def items_sent_def no_error_results_def)
  qed
qed

lemma messages_input_valid:
  assumes "\<forall>m \<in> set ms. valid_message parse m"
  shows "messages_input T index ms = Inr out \<longleftrightarrow> no_error_results ms \<and> out = (instructions_of ms, concat (map (items_sent T) ms))"
  using assms
proof (induction ms arbitrary: index out)
  case (Cons m ms)
  have "no_error_results (m # ms) \<longleftrightarrow> no_error_results [m] \<and> no_error_results ms" by (simp add: no_error_results_def)
  moreover have "instructions_of (m # ms) = instructions_of [m] @ instructions_of ms" by (simp add: instructions_of_def)
  moreover have "message_input T index m = Inr out \<longleftrightarrow> no_error_results [m] \<and> out = (instructions_of [m], items_sent T m)" for out
    using Cons.prems by (intro message_input_valid [of parse]) simp
  moreover have "messages_input T (Suc index) ms = Inr out \<longleftrightarrow> no_error_results ms \<and> out = (instructions_of ms, concat (map (items_sent T) ms))" for out
    using Cons by simp
  ultimately show ?case by (cases out) (auto simp del: split_paired_Ex)
qed (auto simp: no_error_results_def instructions_of_def)

lemma items_sent_nonempty:
  assumes m: "valid_message parse m" "Msg_Role m \<noteq> RoleSystem"
  shows "items_sent T m \<noteq> []"
proof -
  from m obtain c where c: "c \<in> set (Msg_Content m)" "valid_content parse c" "allowed_content (Msg_Role m) (C_Type c)"
    by (cases "Msg_Content m") (auto simp: valid_message_def)
  show ?thesis
  proof (cases "Msg_Role m = RoleTool")
    case True
    with c obtain r where "result_of c = Some r" by (auto simp: allowed_content_def valid_content_def valid_part_def result_of_def)
    with c(1) have "r \<in> set (results (Msg_Content m))" by (auto simp: in_map_filter)
    with True show ?thesis by (auto simp: items_sent_def)
  next
    case False
    show ?thesis
    proof (cases "C_Type c = ContentToolCall")
      case True
      with c obtain k where "call_of c = Some k" by (auto simp: valid_content_def valid_part_def call_of_def)
      with c(1) have "k \<in> set (calls (Msg_Content m))" by (auto simp: in_map_filter)
      then have "calls (Msg_Content m) \<noteq> []" by auto
      with False m(2) show ?thesis by (simp add: items_sent_def Let_def)
    next
      case other: False
      with c(1) have "filter (\<lambda>c. C_Type c \<noteq> ContentToolCall) (Msg_Content m) \<noteq> []" by (auto simp: filter_empty_conv)
      with False m(2) show ?thesis by (simp add: items_sent_def Let_def)
    qed
  qed
qed

lemma sent_nonempty:
  assumes "valid_request parse r"
  shows "concat (map (items_sent T) (Req_Messages r)) \<noteq> []"
proof -
  from assms obtain sys rest where "Req_Messages r = sys @ rest" "rest \<noteq> []" "\<forall>m \<in> set rest. Msg_Role m \<noteq> RoleSystem"
    by (auto simp: valid_request_def system_first_def)
  then obtain m where m: "m \<in> set (Req_Messages r)" "Msg_Role m \<noteq> RoleSystem" by (cases rest) auto
  moreover from this assms have "valid_message parse m" by (simp add: valid_request_def)
  ultimately have "items_sent T m \<noteq> []" by (intro items_sent_nonempty)
  with m(1) show ?thesis by auto
qed

lemma decode_selected_back: "decode_selected (JObj [(''type'', JStr ty), (''name'', JStr name)]) = Inr (ty, name)"
  by (simp add: only_fields_def fail_if_def ascii_lower_def is_upper_def byte_def)

lemma toolChoiceJSON_valid:
  assumes "\<forall>c. choice = Some c \<longrightarrow> valid_choice tools c"
  obtains raw where "toolChoiceJSON choice = Inr raw" "responses_parseToolChoice raw (map Tool_Name tools) = Inr (map_option plain_choice choice)"
proof (cases choice)
  case None
  with that show thesis by (simp add: toolChoiceJSON_def responses_parseToolChoice_def)
next
  case (Some c)
  with assms have c: "valid_choice tools c" by simp
  show thesis
  proof (cases "Choice_Mode c = ''named''")
    case True
    with c have "Choice_Name c \<noteq> []" "Choice_Name c \<in> Tool_Name ` set tools" by (auto simp: valid_choice_def)
    with True Some that show thesis
      by (simp add: toolChoiceJSON_def responses_parseToolChoice_def plain_choice_def decode_selected_back del: decode_selected.simps)
  next
    case False
    with c Some that show thesis by (auto simp: toolChoiceJSON_def responses_parseToolChoice_def plain_choice_def valid_choice_def)
  qed
qed

definition for_responses :: "IRRequest \<Rightarrow> bool" where
  "for_responses r \<longleftrightarrow> Req_Stop r = [] \<and> Req_Metadata r = [] \<and> (\<forall>n. Req_MaxOutputTokens r = Some n \<longrightarrow> 16 \<le> n) \<and> no_error_results (Req_Messages r)"

definition responses_carries :: "JSONText \<Rightarrow> IRRequest \<Rightarrow> ProviderRequest \<Rightarrow> bool" where
  "responses_carries T r p \<longleftrightarrow>
     PRq_Model p = IRRoute_UpstreamModel (Req_Route r) \<and> PRq_Input p = concat (map (items_sent T) (Req_Messages r)) \<and>
     PRq_Instructions p = join_lines (instructions_of (Req_Messages r)) \<and>
     PRq_MaxOutputTokens p = Req_MaxOutputTokens r \<and> PRq_Temperature p = Req_Temperature r \<and> PRq_TopP p = Req_TopP r \<and>
     PRq_Tools p = map toolToResponses (Req_Tools r) \<and>
     responses_parseToolChoice (PRq_ToolChoice p) (map Tool_Name (Req_Tools r)) = Inr (map_option plain_choice (Req_ToolChoice r)) \<and>
     PRq_ParallelToolCalls p = (case Req_ToolChoice r of Some c \<Rightarrow> if Choice_DisableParallel c then Some False else None | None \<Rightarrow> None) \<and>
     \<not> PRq_Store p \<and> \<not> PRq_Stream p"

lemma responses_accepts:
  "((\<exists>p. responses_ToProviderRequest T parse r = Inr p) \<longleftrightarrow> valid_request parse r \<and> for_responses r)
    \<and> (\<forall>p. responses_ToProviderRequest T parse r = Inr p \<longrightarrow> responses_carries T r p)"
proof (cases "valid_request parse r")
  case True
  then have ms: "\<forall>m \<in> set (Req_Messages r). valid_message parse m" and v: "request_Validate parse r = Inr ()" "\<not> Req_Stream r"
    and ch: "\<forall>c. Req_ToolChoice r = Some c \<longrightarrow> valid_choice (Req_Tools r) c"
    by (auto simp: request_valid_iff valid_request_def)
  obtain raw where choice: "toolChoiceJSON (Req_ToolChoice r) = Inr raw"
    "responses_parseToolChoice raw (map Tool_Name (Req_Tools r)) = Inr (map_option plain_choice (Req_ToolChoice r))"
    using toolChoiceJSON_valid [OF ch] .
  have "responses_ToProviderRequest T parse r = Inr p \<longleftrightarrow> for_responses r \<and>
      p = \<lparr>PRq_Model = IRRoute_UpstreamModel (Req_Route r), PRq_Input = concat (map (items_sent T) (Req_Messages r)),
       PRq_Instructions = join_lines (instructions_of (Req_Messages r)),
       PRq_MaxOutputTokens = Req_MaxOutputTokens r, PRq_Temperature = Req_Temperature r, PRq_TopP = Req_TopP r,
       PRq_Tools = map toolToResponses (Req_Tools r), PRq_ToolChoice = raw,
       PRq_ParallelToolCalls = (case Req_ToolChoice r of Some c \<Rightarrow> if Choice_DisableParallel c then Some False else None | None \<Rightarrow> None),
       PRq_Store = False, PRq_Stream = False\<rparr>" for p
    using sent_nonempty [OF True, of T]
    by (auto simp: responses_ToProviderRequest_def v choice messages_input_valid [OF ms] for_responses_def not_less
        simp del: concat_eq_Nil_conv split: option.splits)
  with True choice(2) show ?thesis by (simp add: responses_carries_def)
next
  case False
  then show ?thesis by (auto simp: responses_ToProviderRequest_def request_valid_iff)
qed

section \<open>Responses\<close>

text \<open>What an output says: its texts (or refusals) in order, and its function calls in order.\<close>

definition said :: "OutputItem list \<Rightarrow> string list" where
  "said items = concat (map (\<lambda>item. map (\<lambda>c. if OC_Type c = ''refusal'' then OC_Refusal c else OC_Text c) (OI_Content item))
     (filter (\<lambda>item. OI_Type item = ''message'') items))"

definition called :: "OutputItem list \<Rightarrow> OutputItem list" where
  "called items = filter (\<lambda>item. OI_Type item = ''function_call'') items"

definition refuses :: "OutputItem list \<Rightarrow> bool" where
  "refuses items \<longleftrightarrow> (\<exists>item \<in> set items. OI_Type item = ''message'' \<and> (\<exists>c \<in> set (OI_Content item). OC_Type c = ''refusal''))"

definition plain_output :: "Content \<Rightarrow> bool" where
  "plain_output c \<longleftrightarrow> C_Type c = ContentText \<or> C_Type c = ContentToolCall \<and> C_ToolCall c \<noteq> None"

definition words_of :: "Content list \<Rightarrow> string list" where
  "words_of cs = map C_Text (filter (\<lambda>c. C_Type c = ContentText) cs)"

definition call_read :: "JSONText \<Rightarrow> OutputItem \<Rightarrow> ToolCall \<Rightarrow> bool" where
  "call_read T item call \<longleftrightarrow> TC_ID call = OI_CallID item \<and> TC_Name call = OI_Name item \<and> TC_Arguments call = JT_value T (OI_Arguments item) \<and>
     isJSONObject (JT_value T (OI_Arguments item))"

definition call_shown :: "JSONText \<Rightarrow> ToolCall \<Rightarrow> OutputItem \<Rightarrow> bool" where
  "call_shown T call item \<longleftrightarrow> OI_Type item = ''function_call'' \<and> OI_CallID item = TC_ID call \<and> OI_Name item = TC_Name call \<and>
     OI_Arguments item = text_of_raw T (TC_Arguments call)"

lemma output_contents_read:
  "output_contents i index cs = Inr (out, refused) \<Longrightarrow> (\<forall>c \<in> set out. plain_output c) \<and> calls out = [] \<and>
     words_of out = map (\<lambda>c. if OC_Type c = ''refusal'' then OC_Refusal c else OC_Text c) cs \<and> (refused \<longleftrightarrow> (\<exists>c \<in> set cs. OC_Type c = ''refusal''))"
proof (induction cs arbitrary: index out refused)
  case (Cons c cs)
  then obtain rest later where rest: "output_contents i (Suc index) cs = Inr (rest, later)"
    and c: "OC_Type c = ''output_text'' \<and> out = Content ContentText (OC_Text c) None None None # rest \<and> refused = later \<or>
      OC_Type c = ''refusal'' \<and> out = Content ContentText (OC_Refusal c) None None None # rest \<and> refused"
    by (auto split: if_splits)
  from Cons.IH [OF rest] c show ?case
    by (elim disjE) (simp_all add: plain_output_def words_of_def map_filter_Cons call_of_Content)
qed (simp add: List.map_filter_def words_of_def)

lemma output_entry_read:
  assumes "output_entry T index item = Inr (cs, refused)"
  shows "(\<forall>c \<in> set cs. plain_output c) \<and> words_of cs = said [item] \<and> list_all2 (call_read T) (called [item]) (calls cs) \<and> (refused \<longleftrightarrow> refuses [item])"
proof -
  consider "OI_Type item = ''message''" "output_contents index 0 (OI_Content item) = Inr (cs, refused)"
    | "OI_Type item = ''function_call''" "isJSONObject (JT_value T (OI_Arguments item))" "\<not> refused" "cs = [Content ContentToolCall '''' None
           (Some \<lparr>TC_ID = OI_CallID item, TC_Name = OI_Name item, TC_Arguments = JT_value T (OI_Arguments item), TC_Signature = ''''\<rparr>) None]"
    | "OI_Type item = ''reasoning''" "cs = []" "\<not> refused"
    using assms by (auto simp: output_entry_def Let_def split: if_splits)
  then show ?thesis
  proof cases
    case 1
    from output_contents_read [OF 1(2)] 1(1) show ?thesis by (simp add: said_def called_def refuses_def)
  next
    case 2
    then show ?thesis
      by (simp add: said_def called_def refuses_def plain_output_def words_of_def map_filter_Cons call_of_Content List.map_filter_def call_read_def)
  next
    case 3
    then show ?thesis by (simp add: said_def called_def refuses_def words_of_def List.map_filter_def)
  qed
qed

lemma output_entries_read:
  "output_entries T index items = Inr (cs, refused) \<Longrightarrow>
     (\<forall>c \<in> set cs. plain_output c) \<and> words_of cs = said items \<and> list_all2 (call_read T) (called items) (calls cs) \<and> (refused \<longleftrightarrow> refuses items)"
proof (induction items arbitrary: index cs refused)
  case (Cons item items)
  then obtain cs1 r1 cs2 r2 where *: "output_entry T index item = Inr (cs1, r1)" "output_entries T (Suc index) items = Inr (cs2, r2)"
    "cs = cs1 @ cs2" "refused \<longleftrightarrow> r1 \<or> r2" by auto
  have "said (item # items) = said [item] @ said items" "called (item # items) = called [item] @ called items"
    "refuses (item # items) \<longleftrightarrow> refuses [item] \<or> refuses items" "words_of cs = words_of cs1 @ words_of cs2" "calls cs = calls cs1 @ calls cs2"
    by (simp_all add: said_def called_def refuses_def words_of_def *(3) map_filter_append)
  with output_entry_read [OF *(1)] Cons.IH [OF *(2)] *(3,4) show ?case by (auto intro: list_all2_appendI)
qed (simp add: said_def called_def refuses_def words_of_def List.map_filter_def)

lemma response_output_shows:
  "\<forall>c \<in> set cs. plain_output c \<Longrightarrow> \<exists>parts items. response_output T suffix index callIndex cs = Inr (parts, items) \<and>
     map OC_Text parts = words_of cs \<and> (\<forall>p \<in> set parts. OC_Type p = ''output_text'') \<and> list_all2 (call_shown T) (calls cs) items"
proof (induction cs arbitrary: index callIndex)
  case (Cons c cs)
  show ?case
  proof (cases "C_Type c = ContentText")
    case True
    with Cons.IH [of "Suc index" callIndex] Cons.prems show ?thesis by (auto simp: words_of_def map_filter_Cons call_of_def)
  next
    case False
    with Cons.prems obtain call where "C_Type c = ContentToolCall" "C_ToolCall c = Some call" by (auto simp: plain_output_def)
    with Cons.IH [of "Suc index" "Suc callIndex"] Cons.prems show ?thesis
      by (auto simp: words_of_def map_filter_Cons call_of_def call_shown_def)
  qed
qed (simp add: words_of_def List.map_filter_def)

definition same_function_call :: "JSONText \<Rightarrow> OutputItem \<Rightarrow> OutputItem \<Rightarrow> bool" where
  "same_function_call T a b \<longleftrightarrow> OI_CallID b = OI_CallID a \<and> OI_Name b = OI_Name a \<and> JT_value T (OI_Arguments b) = JT_value T (OI_Arguments a)"

definition same_output :: "JSONText \<Rightarrow> ResponsesResponse \<Rightarrow> ResponsesResponse \<Rightarrow> bool" where
  "same_output T response out \<longleftrightarrow>
     said (RR_Output out) = said (RR_Output response) \<and> list_all2 (same_function_call T) (called (RR_Output response)) (called (RR_Output out)) \<and>
     (RR_Status out, RR_IncompleteReason out) =
       (if RR_Status response = ''incomplete'' then (RR_Status response, RR_IncompleteReason response)
        else if refuses (RR_Output response) then (''incomplete'', Some ''content_filter'') else (''completed'', None)) \<and>
     RU_InputTokens (RR_Usage out) = RU_InputTokens (RR_Usage response) \<and> RU_OutputTokens (RR_Usage out) = RU_OutputTokens (RR_Usage response) \<and>
     RU_CachedTokens (RR_Usage out) = Some (case RU_CachedTokens (RR_Usage response) of None \<Rightarrow> 0 | Some n \<Rightarrow> n)"

lemma said_append: "said (xs @ ys) = said xs @ said ys"
  by (simp add: said_def)

lemma called_append: "called (xs @ ys) = called xs @ called ys"
  by (simp add: called_def)

lemma calls_shown_again:
  assumes "spells T" "list_all2 (call_read T) as ks" "list_all2 (call_shown T) ks bs"
  shows "list_all2 (same_function_call T) as bs" "called bs = bs" "said bs = []"
proof -
  have "call_read T a k \<Longrightarrow> call_shown T k b \<Longrightarrow> same_function_call T a b" for a k b
    using raw_object_text [OF assms(1), of "TC_Arguments k"] by (simp add: call_read_def call_shown_def same_function_call_def)
  then show "list_all2 (same_function_call T) as bs" using assms(2,3) by (rule list_all2_trans)
  have "\<forall>b \<in> set bs. OI_Type b = ''function_call''"
    using assms(3) by (auto simp: list_all2_conv_all_nth in_set_conv_nth call_shown_def)
  then show "called bs = bs" "said bs = []" by (simp_all add: called_def said_def filter_False)
qed

lemma responses_finish_status:
  assumes "responses_finish response cs refused = Inr finish"
  shows "responses_status finish = Inr (if RR_Status response = ''incomplete'' then (''incomplete'', RR_IncompleteReason response)
     else if refused then (''incomplete'', Some ''content_filter'') else (''completed'', None))"
  using assms by (auto simp: responses_finish_def responses_status_def split: if_splits option.splits)

section \<open>Properties\<close>

text \<open>
  C37: The OpenAI Responses adapter accepts exactly the well-formed requests that the protocol can express: no
  stop sequences, no metadata, a token limit of at least 16 if there is one, and no tool result that is
  marked as an error. What it sends is the whole conversation, message by message in order: the texts of
  the system messages as instructions, each message with its parts and then its function calls, each tool
  result as an item of its own; with the same limits and tools, with a tool choice that the gateway's own
  parser reads back, and never stored or streamed.
\<close>

theorem responses_ToProviderRequest_exact:
  "((\<exists>p. responses_ToProviderRequest T parse r = Inr p) \<longleftrightarrow> valid_request parse r \<and> for_responses r)
    \<and> (\<forall>p. responses_ToProviderRequest T parse r = Inr p \<longrightarrow> responses_carries T r p)"
  by (rule responses_accepts)

theorem responses_ToProviderRequest_exact_witness:
  "\<exists>p. responses_ToProviderRequest tally_text (\<lambda>_. None) (projr (hello lark_route ''req_1'')) = Inr p \<and> PRq_Model p = ''lark'' \<and>
     map II_Content (PRq_Input p) = [Some (JArr [JObj [(''type'', JStr ''input_text''), (''text'', JStr ''hello'')]])]"
proof -
  let ?r = "projr (hello lark_route ''req_1'')"
  have ms: "Req_Messages ?r = [\<lparr>Msg_Role = RoleUser, Msg_Content = [Content ContentText ''hello'' None None None]\<rparr>]"
    "for_responses ?r" "IRRoute_UpstreamModel (Req_Route ?r) = ''lark''"
    by (simp_all add: hello_def lark_route_def for_responses_def no_error_results_def List.map_filter_def result_of_def)
  with responses_ToProviderRequest_exact [of tally_text "\<lambda>_. None" ?r] hello_valid [unfolded request_valid_iff]
  obtain p where "responses_ToProviderRequest tally_text (\<lambda>_. None) ?r = Inr p" "responses_carries tally_text ?r p" by blast
  then show ?thesis
    by (auto simp: responses_carries_def ms items_sent_def Let_def List.map_filter_def call_of_def response_part_def json_of_InputContent_def
        no_input_def omit_string_def omit_raws_def)
qed


definition lark_output :: ResponsesResponse where
  "lark_output = \<lparr>RR_ID = ''resp_1'', RR_Object = ''response'', RR_CreatedAt = 0, RR_Status = ''completed'', RR_Error = None, RR_IncompleteReason = None,
     RR_Model = ''lark'',
     RR_Output = [\<lparr>OI_Type = ''message'', OI_ID = ''m_1'', OI_Status = ''completed'', OI_Role = ''assistant'',
       OI_Content = [\<lparr>OC_Type = ''output_text'', OC_Text = ''hi'', OC_Refusal = '''', OC_Annotations = [], OC_Logprobs = []\<rparr>],
       OI_CallID = '''', OI_Name = '''', OI_Arguments = ''''\<rparr>],
     RR_ParallelToolCalls = True, RR_Store = False,
     RR_Usage = \<lparr>RU_InputTokens = 3, RU_CachedTokens = None, RU_OutputTokens = 5, RU_ReasoningTokens = None, RU_TotalTokens = 8\<rparr>\<rparr>"


end
