(* ===== verification/Gemini.thy ===== *)
theory Gemini
  imports Wire
begin

text \<open>
  Package \<^verbatim>\<open>internal/gemini\<close>, the Generate Content protocol: the wire types (\<^verbatim>\<open>types.go\<close>) and the translation
  between the intermediate representation and the protocol (\<^verbatim>\<open>translate.go\<close>), for clients of the gateway
  and for the provider. A slice or map that the code compares with nil is an option. \<^verbatim>\<open>strings.ToLower\<close>
  is the argument \<open>lower\<close>.
\<close>

section \<open>\<^verbatim>\<open>types.go\<close>\<close>

definition SkipThoughtSignatureValidator :: string where
  "SkipThoughtSignatureValidator = ''skip_thought_signature_validator''"

record Blob =
  Blob_MIMEType :: string
  Blob_Data :: string

record FileData =
  FD_MIMEType :: string
  FD_FileURI :: string

record FunctionCall =
  FC_ID :: string
  FC_Name :: string
  FC_Args :: RawMessage

record FunctionResponse =
  FR_ID :: string
  FR_Name :: string
  FR_Response :: RawMessage
  FR_WillContinue :: "bool option"
  FR_Scheduling :: string

record Part =
  P_Text :: "string option"
  P_InlineData :: "Blob option"
  P_FileData :: "FileData option"
  P_FunctionCall :: "FunctionCall option"
  P_FunctionResponse :: "FunctionResponse option"
  P_ThoughtSignature :: string
  P_ExecutableCode :: RawMessage
  P_CodeExecution :: RawMessage
  P_VideoMetadata :: RawMessage
  P_Thought :: "bool option"

record GeminiContent =
  GC_Role :: string
  GC_Parts :: "Part list"

record FunctionDeclaration =
  Decl_Name :: string
  Decl_Description :: string
  Decl_Parameters :: RawMessage
  Decl_ParametersJSONSchema :: RawMessage
  Decl_Response :: RawMessage
  Decl_ResponseJSONSchema :: RawMessage
  Decl_Behavior :: string

record GeminiTool =
  GT_FunctionDeclarations :: "FunctionDeclaration list"
  GT_GoogleSearch :: RawMessage
  GT_CodeExecution :: RawMessage
  GT_URLContext :: RawMessage
  GT_EnterpriseWebSearch :: RawMessage

record FunctionCallingConfig =
  FCC_Mode :: string
  FCC_AllowedFunctionNames :: "string list"

record ToolConfig =
  TCfg_FunctionCallingConfig :: "FunctionCallingConfig option"
  TCfg_RetrievalConfig :: RawMessage

record GenerationConfig =
  Gen_StopSequences :: "string list"
  Gen_MaxOutputTokens :: "int option"
  Gen_Temperature :: "float64 option"
  Gen_TopP :: "float64 option"
  Gen_CandidateCount :: "int option"
  Gen_ResponseMIMEType :: string
  Gen_ResponseSchema :: RawMessage
  Gen_ResponseJSONSchema :: RawMessage
  Gen_ResponseModalities :: "string list option"
  Gen_ThinkingConfig :: RawMessage
  Gen_TopK :: "float64 option"
  Gen_Seed :: "int option"
  Gen_PresencePenalty :: "float64 option"
  Gen_FrequencyPenalty :: "float64 option"
  Gen_ResponseLogprobs :: "bool option"
  Gen_Logprobs :: "int option"
  Gen_MediaResolution :: string

record GenerateContentRequest =
  GCR_Contents :: "GeminiContent list"
  GCR_SystemInstruction :: "GeminiContent option"
  GCR_Tools :: "GeminiTool list"
  GCR_ToolConfig :: "ToolConfig option"
  GCR_GenerationConfig :: "GenerationConfig option"
  GCR_SafetySettings :: "json list option"
  GCR_CachedContent :: string
  GCR_Labels :: "(string \<times> string) list option"

record Candidate =
  Cand_Content :: GeminiContent
  Cand_FinishReason :: string
  Cand_Index :: int
  Cand_SafetyRatings :: "json list"

record PromptFeedback =
  PF_BlockReason :: string
  PF_SafetyRatings :: "json list"

record UsageMetadata =
  UM_PromptTokenCount :: int
  UM_CandidatesTokenCount :: int
  UM_TotalTokenCount :: int
  UM_CachedContentTokenCount :: int
  UM_ThoughtsTokenCount :: int

record GenerateContentResponse =
  GCS_Candidates :: "Candidate list"
  GCS_PromptFeedback :: "PromptFeedback option"
  GCS_UsageMetadata :: UsageMetadata
  GCS_ModelVersion :: string
  GCS_ResponseID :: string

text \<open>The zero values \<^verbatim>\<open>Part{}\<close> and \<^verbatim>\<open>GenerationConfig{}\<close>.\<close>

definition no_part :: Part where
  "no_part = \<lparr>P_Text = None, P_InlineData = None, P_FileData = None, P_FunctionCall = None, P_FunctionResponse = None,
     P_ThoughtSignature = '''', P_ExecutableCode = None, P_CodeExecution = None, P_VideoMetadata = None, P_Thought = None\<rparr>"

definition no_config :: GenerationConfig where
  "no_config = \<lparr>Gen_StopSequences = [], Gen_MaxOutputTokens = None, Gen_Temperature = None, Gen_TopP = None,
     Gen_CandidateCount = None, Gen_ResponseMIMEType = '''', Gen_ResponseSchema = None, Gen_ResponseJSONSchema = None,
     Gen_ResponseModalities = None, Gen_ThinkingConfig = None, Gen_TopK = None, Gen_Seed = None, Gen_PresencePenalty = None,
     Gen_FrequencyPenalty = None, Gen_ResponseLogprobs = None, Gen_Logprobs = None, Gen_MediaResolution = ''''\<rparr>"

section \<open>\<^verbatim>\<open>translate.go\<close>: parts and options\<close>

abbreviation gemini_invalid :: "string \<Rightarrow> string \<Rightarrow> error" where
  "gemini_invalid field message \<equiv> ClientTranslationError field message [] []"

definition validateInlineData :: "Blob option \<Rightarrow> Image result" where
  "validateInlineData blob =
     (case blob of
        None \<Rightarrow> Inl (failf ''inlineData requires mimeType and data'' [])
      | Some b \<Rightarrow>
          ebind (fail_if (Blob_MIMEType b = '''' \<or> Blob_Data b = '''') (failf ''inlineData requires mimeType and data'' [])) (\<lambda>_.
          ebind (fail_if (Blob_MIMEType b \<notin> set image_types) (failf ''unsupported inline image media type %q'' [Blob_MIMEType b])) (\<lambda>_.
          ebind (fail_if (\<not> base64_valid (Blob_Data b))
            (Errorf ''inlineData contains invalid base64: %w'' [] [LibraryError ''illegal base64 data''])) (\<lambda>_.
          Inr \<lparr>Image_URL = '''', Image_MediaType = Blob_MIMEType b, Image_Data = Blob_Data b\<rparr>))))"

definition partVariantCount :: "Part \<Rightarrow> nat" where
  "partVariantCount part =
     of_bool (P_Text part \<noteq> None) + of_bool (P_InlineData part \<noteq> None) + of_bool (P_FileData part \<noteq> None) +
     of_bool (P_FunctionCall part \<noteq> None) + of_bool (P_FunctionResponse part \<noteq> None) +
     of_bool (rawPresent (P_ExecutableCode part)) + of_bool (rawPresent (P_CodeExecution part))"

fun gemini_stops :: "nat \<Rightarrow> string list \<Rightarrow> unit result" where
  "gemini_stops index [] = Inr ()"
| "gemini_stops index (stop # stops) =
     ebind (fail_if (stop = '''')
       (gemini_invalid (''generationConfig.stopSequences.'' @ decimal index) ''stop sequences must not be empty'')) (\<lambda>_.
     gemini_stops (Suc index) stops)"

definition validateGenerationConfig :: "GenerationConfig option \<Rightarrow> unit result" where
  "validateGenerationConfig configuration =
     (case configuration of
        None \<Rightarrow> Inr ()
      | Some config \<Rightarrow>
          ebind (fail_if (case Gen_MaxOutputTokens config of None \<Rightarrow> False | Some n \<Rightarrow> n \<le> 0)
            (gemini_invalid ''generationConfig.maxOutputTokens'' ''maxOutputTokens must be positive'')) (\<lambda>_.
          ebind (fail_if (outside_unit (Gen_Temperature config))
            (gemini_invalid ''generationConfig.temperature'' ''temperature must be between 0 and 1 for the portable gateway contract'')) (\<lambda>_.
          ebind (fail_if (outside_unit (Gen_TopP config)) (gemini_invalid ''generationConfig.topP'' ''topP must be between 0 and 1'')) (\<lambda>_.
          ebind (fail_if (Gen_CandidateCount config \<noteq> None \<and> Gen_CandidateCount config \<noteq> Some 1)
            (gemini_invalid ''generationConfig.candidateCount'' ''only candidateCount=1 is supported'')) (\<lambda>_.
          ebind (fail_if (Gen_ResponseMIMEType config \<noteq> '''' \<or> rawPresent (Gen_ResponseSchema config) \<or> rawPresent (Gen_ResponseJSONSchema config))
            (gemini_invalid ''generationConfig.responseSchema'' ''structured output is not supported by this route'')) (\<lambda>_.
          ebind (fail_if (Gen_ResponseModalities config \<noteq> None)
            (gemini_invalid ''generationConfig.responseModalities'' ''responseModalities is not supported by this route'')) (\<lambda>_.
          ebind (fail_if (rawPresent (Gen_ThinkingConfig config))
            (gemini_invalid ''generationConfig.thinkingConfig'' ''thinking configuration is not supported by this route'')) (\<lambda>_.
          ebind (fail_if (Gen_TopK config \<noteq> None \<or> Gen_Seed config \<noteq> None \<or> Gen_PresencePenalty config \<noteq> None \<or>
              Gen_FrequencyPenalty config \<noteq> None \<or> Gen_ResponseLogprobs config \<noteq> None \<or> Gen_Logprobs config \<noteq> None \<or>
              Gen_MediaResolution config \<noteq> '''')
            (gemini_invalid ''generationConfig'' ''the requested generation option is not in the portable subset'')) (\<lambda>_.
          gemini_stops 0 (Gen_StopSequences config))))))))))"

section \<open>\<^verbatim>\<open>translate.go\<close>: \<^verbatim>\<open>ToIRRequest\<close>\<close>

fun system_parts :: "nat \<Rightarrow> Part list \<Rightarrow> Content list result" where
  "system_parts index [] = Inr []"
| "system_parts index (part # parts) =
     ebind (case P_Text part of
              None \<Rightarrow> Inl (gemini_invalid (''systemInstruction.parts.'' @ decimal index) ''systemInstruction only supports text parts'')
            | Some words \<Rightarrow>
                ebind (fail_if (partVariantCount part \<noteq> 1 \<or> P_ThoughtSignature part \<noteq> '''' \<or> P_Thought part \<noteq> None \<or>
                    rawPresent (P_VideoMetadata part))
                  (gemini_invalid (''systemInstruction.parts.'' @ decimal index) ''systemInstruction only supports text parts'')) (\<lambda>_.
                Inr (Content ContentText words None None None))) (\<lambda>content.
     ebind (system_parts (Suc index) parts) (\<lambda>rest. Inr (content # rest)))"

definition system_message :: "GeminiContent option \<Rightarrow> IRMessage list result" where
  "system_message instruction =
     (case instruction of
        None \<Rightarrow> Inr []
      | Some s \<Rightarrow>
          ebind (fail_if (GC_Role s \<noteq> '''' \<and> GC_Role s \<noteq> ''system'')
            (gemini_invalid ''systemInstruction.role'' ''systemInstruction role must be omitted or system'')) (\<lambda>_.
          ebind (fail_if (GC_Parts s = []) (gemini_invalid ''systemInstruction.parts'' ''systemInstruction must contain text'')) (\<lambda>_.
          ebind (system_parts 0 (GC_Parts s)) (\<lambda>cs.
          Inr [\<lparr>Msg_Role = RoleSystem, Msg_Content = cs\<rparr>]))))"

text \<open>
  The calls that wait for a response, by function name, in the order they were made. A response without
  an ID answers the oldest of its function; one with an ID answers that call.
\<close>

type_synonym pending_calls = "string \<Rightarrow> string list"

definition match_pending :: "string \<Rightarrow> FunctionResponse \<Rightarrow> pending_calls \<Rightarrow> (string \<times> pending_calls) result" where
  "match_pending field response pending =
     (let name = FR_Name response; waiting = pending name in
      if FR_ID response = '''' then
        (case waiting of
           [] \<Rightarrow> Inl (ClientTranslationError (field @ ''.functionResponse.name'') ''functionResponse has no preceding functionCall named %q'' [name] [])
         | callID # rest \<Rightarrow> Inr (callID, pending(name := rest)))
      else if FR_ID response \<in> set waiting then Inr (FR_ID response, pending(name := remove1 (FR_ID response) waiting))
      else Inl (ClientTranslationError (field @ ''.functionResponse.id'')
        ''functionResponse id %q does not match a preceding functionCall named %q'' [FR_ID response, name] []))"

definition call_arguments :: "RawMessage \<Rightarrow> RawMessage" where
  "call_arguments args = (if rawPresent args then args else Some (JObj []))"

definition gemini_call :: "string \<Rightarrow> string \<Rightarrow> string \<Rightarrow> FunctionCall \<Rightarrow> string \<Rightarrow> pending_calls \<Rightarrow> (Content \<times> pending_calls) result" where
  "gemini_call field fallbackID role call signature pending =
     ebind (fail_if (role \<noteq> ''model'') (gemini_invalid (field @ ''.functionCall'') ''functionCall requires model role'')) (\<lambda>_.
     ebind (fail_if (TrimSpace (FC_Name call) = '''') (gemini_invalid (field @ ''.functionCall.name'') ''function call name is required'')) (\<lambda>_.
     ebind (fail_if (\<not> isJSONObject (call_arguments (FC_Args call)))
       (gemini_invalid (field @ ''.functionCall.args'') ''function call args must be an object'')) (\<lambda>_.
     let callID = (if FC_ID call = '''' then fallbackID else FC_ID call) in
     Inr (Content ContentToolCall '''' None
            (Some \<lparr>TC_ID = callID, TC_Name = FC_Name call, TC_Arguments = call_arguments (FC_Args call), TC_Signature = signature\<rparr>) None,
          pending(FC_Name call := pending (FC_Name call) @ [callID])))))"

definition gemini_response :: "string \<Rightarrow> FunctionResponse \<Rightarrow> pending_calls \<Rightarrow> (Content \<times> pending_calls) result" where
  "gemini_response field response pending =
     ebind (fail_if (TrimSpace (FR_Name response) = '''' \<or> \<not> isJSONObject (FR_Response response))
       (gemini_invalid (field @ ''.functionResponse'') ''functionResponse requires a name and object response'')) (\<lambda>_.
     ebind (fail_if (FR_WillContinue response \<noteq> None \<or> FR_Scheduling response \<noteq> '''')
       (gemini_invalid (field @ ''.functionResponse'') ''streaming function responses are not supported'')) (\<lambda>_.
     ebind (match_pending field response pending) (\<lambda>(callID, pending').
     Inr (Content ContentToolResult '''' None None (Some (ToolResult callID (FR_Name response) [] (FR_Response response) False)), pending'))))"

definition gemini_part :: "string \<Rightarrow> string \<Rightarrow> string \<Rightarrow> bool \<Rightarrow> Part \<Rightarrow> pending_calls \<Rightarrow> (Content \<times> pending_calls) result" where
  "gemini_part field fallbackID role containsResponse part pending =
     ebind (fail_if (partVariantCount part \<noteq> 1) (gemini_invalid field ''each part must contain exactly one supported data variant'')) (\<lambda>_.
     ebind (fail_if (P_Thought part \<noteq> None) (gemini_invalid (field @ ''.thought'') ''thought content is not supported by this route'')) (\<lambda>_.
     ebind (fail_if (rawPresent (P_VideoMetadata part))
       (gemini_invalid (field @ ''.videoMetadata'') ''video metadata is not supported by this route'')) (\<lambda>_.
     ebind (fail_if (P_ThoughtSignature part \<noteq> '''' \<and> P_FunctionCall part = None)
       (gemini_invalid (field @ ''.thoughtSignature'') ''thoughtSignature is only valid on functionCall parts'')) (\<lambda>_.
     let mixed = fail_if containsResponse (gemini_invalid field ''functionResponse cannot be mixed with other part types'') in
     case P_Text part of
       Some words \<Rightarrow> ebind mixed (\<lambda>_. Inr (Content ContentText words None None None, pending))
     | None \<Rightarrow>
         if P_InlineData part \<noteq> None then
           ebind mixed (\<lambda>_.
           ebind (case validateInlineData (P_InlineData part) of
                    Inl err \<Rightarrow> Inl (ClientTranslationError (field @ ''.inlineData'') ''%v'' [] [err]) | Inr x \<Rightarrow> Inr x) (\<lambda>img.
           Inr (Content ContentImage '''' (Some img) None None, pending)))
         else if P_FileData part \<noteq> None then
           Inl (gemini_invalid (field @ ''.fileData'') ''fileData and arbitrary image URLs are not supported by this route; use inlineData'')
         else case P_FunctionCall part of
             Some call \<Rightarrow>
               ebind (fail_if containsResponse (gemini_invalid (field @ ''.functionCall'') ''functionCall requires model role'')) (\<lambda>_.
               gemini_call field fallbackID role call (P_ThoughtSignature part) pending)
           | None \<Rightarrow>
               (case P_FunctionResponse part of
                  Some response \<Rightarrow> gemini_response field response pending
                | None \<Rightarrow> Inl (gemini_invalid field ''the part type is not in the portable subset''))))))"

fun gemini_parts :: "string \<Rightarrow> nat \<Rightarrow> nat \<Rightarrow> string \<Rightarrow> bool \<Rightarrow> Part list \<Rightarrow> pending_calls \<Rightarrow> (Content list \<times> pending_calls) result" where
  "gemini_parts requestID messageIndex partIndex role containsResponse [] pending = Inr ([], pending)"
| "gemini_parts requestID messageIndex partIndex role containsResponse (part # parts) pending =
     ebind (gemini_part (''contents.'' @ decimal messageIndex @ ''.parts.'' @ decimal partIndex)
       (requestID @ ''-call-'' @ decimal messageIndex @ ''-'' @ decimal partIndex) role containsResponse part pending) (\<lambda>(content, pending').
     ebind (gemini_parts requestID messageIndex (Suc partIndex) role containsResponse parts pending') (\<lambda>(rest, pending'').
     Inr (content # rest, pending'')))"

definition gemini_message :: "string \<Rightarrow> nat \<Rightarrow> GeminiContent \<Rightarrow> pending_calls \<Rightarrow> (IRMessage \<times> pending_calls) result" where
  "gemini_message requestID index content pending =
     (let role = (if GC_Role content = '''' then ''user'' else GC_Role content);
          containsResponse = list_ex (\<lambda>part. P_FunctionResponse part \<noteq> None) (GC_Parts content) in
      ebind (fail_if (role \<noteq> ''user'' \<and> role \<noteq> ''model'')
        (gemini_invalid (''contents.'' @ decimal index @ ''.role'') ''role must be user or model'')) (\<lambda>_.
      ebind (fail_if (GC_Parts content = [])
        (gemini_invalid (''contents.'' @ decimal index @ ''.parts'') ''content must contain at least one part'')) (\<lambda>_.
      ebind (fail_if (containsResponse \<and> role \<noteq> ''user'')
        (gemini_invalid (''contents.'' @ decimal index @ ''.role'') ''function responses require user role'')) (\<lambda>_.
      ebind (gemini_parts requestID index 0 role containsResponse (GC_Parts content) pending) (\<lambda>(cs, pending').
      Inr (\<lparr>Msg_Role = (if role = ''model'' then RoleAssistant else if containsResponse then RoleTool else RoleUser),
            Msg_Content = cs\<rparr>, pending'))))))"

fun gemini_messages :: "string \<Rightarrow> nat \<Rightarrow> GeminiContent list \<Rightarrow> pending_calls \<Rightarrow> IRMessage list result" where
  "gemini_messages requestID index [] pending = Inr []"
| "gemini_messages requestID index (content # cs) pending =
     ebind (gemini_message requestID index content pending) (\<lambda>(message, pending').
     ebind (gemini_messages requestID (Suc index) cs pending') (\<lambda>rest.
     Inr (message # rest)))"

definition empty_schema :: json where
  "empty_schema = JObj [(''type'', JStr ''object''), (''properties'', JObj [])]"

fun gemini_declarations :: "nat \<Rightarrow> nat \<Rightarrow> FunctionDeclaration list \<Rightarrow> string list \<Rightarrow> (IRTool list \<times> string list) result" where
  "gemini_declarations toolIndex index [] names = Inr ([], names)"
| "gemini_declarations toolIndex index (declaration # ds) names =
     (let field = ''tools.'' @ decimal toolIndex @ ''.functionDeclarations.'' @ decimal index;
          parameters = (if rawPresent (Decl_Parameters declaration) then Decl_Parameters declaration else Some empty_schema) in
      ebind (fail_if (Decl_Name declaration = '''') (gemini_invalid (field @ ''.name'') ''function name is required'')) (\<lambda>_.
      ebind (fail_if (Decl_Name declaration \<in> set names) (gemini_invalid (field @ ''.name'') ''function names must be unique'')) (\<lambda>_.
      ebind (fail_if (rawPresent (Decl_ParametersJSONSchema declaration) \<or> rawPresent (Decl_Response declaration) \<or>
          rawPresent (Decl_ResponseJSONSchema declaration) \<or> Decl_Behavior declaration \<noteq> '''')
        (gemini_invalid field ''the function declaration uses unsupported non-portable fields'')) (\<lambda>_.
      ebind (fail_if (\<not> isJSONObject parameters) (gemini_invalid (field @ ''.parameters'') ''parameters must be a JSON object'')) (\<lambda>_.
      ebind (gemini_declarations toolIndex (Suc index) ds (Decl_Name declaration # names)) (\<lambda>(rest, names').
      Inr (\<lparr>Tool_Name = Decl_Name declaration, Tool_Description = Decl_Description declaration, Tool_InputSchema = parameters,
            Tool_Strict = None\<rparr> # rest, names')))))))"

fun gemini_tools :: "nat \<Rightarrow> GeminiTool list \<Rightarrow> string list \<Rightarrow> IRTool list result" where
  "gemini_tools index [] names = Inr []"
| "gemini_tools index (tool # tools) names =
     ebind (fail_if (rawPresent (GT_GoogleSearch tool) \<or> rawPresent (GT_CodeExecution tool) \<or> rawPresent (GT_URLContext tool) \<or>
         rawPresent (GT_EnterpriseWebSearch tool))
       (gemini_invalid (''tools.'' @ decimal index) ''hosted provider tools are not supported by this route'')) (\<lambda>_.
     ebind (fail_if (GT_FunctionDeclarations tool = [])
       (gemini_invalid (''tools.'' @ decimal index @ ''.functionDeclarations'') ''functionDeclarations must not be empty'')) (\<lambda>_.
     ebind (gemini_declarations index 0 (GT_FunctionDeclarations tool) names) (\<lambda>(declared, names').
     ebind (gemini_tools (Suc index) tools names') (\<lambda>rest.
     Inr (declared @ rest)))))"

definition gemini_tool_choice :: "ToolConfig option \<Rightarrow> IRTool list \<Rightarrow> IRToolChoice option result" where
  "gemini_tool_choice toolConfig tools =
     (let choice = (\<lambda>mode name. Inr (Some \<lparr>Choice_Mode = mode, Choice_Name = name, Choice_DisableParallel = False\<rparr>));
          field = ''toolConfig.functionCallingConfig'' in
      case toolConfig of
        None \<Rightarrow> Inr None
      | Some tc \<Rightarrow>
          ebind (fail_if (rawPresent (TCfg_RetrievalConfig tc))
            (gemini_invalid ''toolConfig.retrievalConfig'' ''retrieval configuration is not supported'')) (\<lambda>_.
          case TCfg_FunctionCallingConfig tc of
            None \<Rightarrow> Inr None
          | Some config \<Rightarrow>
              let allowed = FCC_AllowedFunctionNames config in
              ebind (fail_if (tools = []) (gemini_invalid field ''function calling configuration requires function declarations'')) (\<lambda>_.
              if FCC_Mode config = '''' \<or> fold_eq ''AUTO'' (FCC_Mode config) then
                ebind (fail_if (allowed \<noteq> []) (gemini_invalid (field @ ''.allowedFunctionNames'')
                  ''AUTO with an allow-list cannot be represented by the portable subset'')) (\<lambda>_. choice ''auto'' '''')
              else if fold_eq ''NONE'' (FCC_Mode config) then
                ebind (fail_if (allowed \<noteq> []) (gemini_invalid (field @ ''.allowedFunctionNames'')
                  ''NONE cannot include allowed function names'')) (\<lambda>_. choice ''none'' '''')
              else if fold_eq ''ANY'' (FCC_Mode config) then
                (case allowed of
                   [] \<Rightarrow> choice ''required'' ''''
                 | [name] \<Rightarrow>
                     ebind (fail_if (name \<notin> Tool_Name ` set tools)
                       (gemini_invalid (field @ ''.allowedFunctionNames'') ''selected function is not declared'')) (\<lambda>_. choice ''named'' name)
                 | _ \<Rightarrow> Inl (gemini_invalid (field @ ''.allowedFunctionNames'')
                     ''ANY supports zero or one allowed function in the portable subset''))
              else Inl (ClientTranslationError (field @ ''.mode'') ''unsupported function calling mode %q'' [FCC_Mode config] []))))"

definition gemini_ToIRRequest :: "url_parser \<Rightarrow> GenerateContentRequest \<Rightarrow> string \<Rightarrow> Route \<Rightarrow> string \<Rightarrow> IRRequest result" where
  "gemini_ToIRRequest parse request requestedModel route requestID =
     ebind (fail_if (TrimSpace requestedModel = '''') (gemini_invalid ''model'' ''model is required'')) (\<lambda>_.
     ebind (fail_if (GCR_Contents request = []) (gemini_invalid ''contents'' ''contents must contain at least one item'')) (\<lambda>_.
     ebind (fail_if (GCR_SafetySettings request \<noteq> None)
       (gemini_invalid ''safetySettings'' ''safety settings are not supported by this route'')) (\<lambda>_.
     ebind (fail_if (GCR_CachedContent request \<noteq> '''')
       (gemini_invalid ''cachedContent'' ''cached content is not supported by this route'')) (\<lambda>_.
     ebind (fail_if (GCR_Labels request \<noteq> None) (gemini_invalid ''labels'' ''labels cannot be preserved by this route'')) (\<lambda>_.
     ebind (validateGenerationConfig (GCR_GenerationConfig request)) (\<lambda>_.
     let config = (case GCR_GenerationConfig request of None \<Rightarrow> no_config | Some c \<Rightarrow> c) in
     ebind (system_message (GCR_SystemInstruction request)) (\<lambda>system.
     ebind (gemini_messages requestID 0 (GCR_Contents request) (\<lambda>_. [])) (\<lambda>messages.
     ebind (gemini_tools 0 (GCR_Tools request) []) (\<lambda>tools.
     ebind (gemini_tool_choice (GCR_ToolConfig request) tools) (\<lambda>toolChoice.
     let result = \<lparr>Req_Version = Version, Req_ID = requestID,
           Req_Route = \<lparr>IRRoute_ProviderID = Route_ProviderID route, IRRoute_UpstreamModel = Route_UpstreamModel route\<rparr>,
           Req_Messages = system @ messages, Req_MaxOutputTokens = Gen_MaxOutputTokens config, Req_Temperature = Gen_Temperature config,
           Req_TopP = Gen_TopP config, Req_Stop = Gen_StopSequences config, Req_Tools = tools, Req_ToolChoice = toolChoice,
           Req_Metadata = [], Req_Stream = False\<rparr> in
     ebind (case request_Validate parse result of
              Inl err \<Rightarrow> Inl (ClientTranslationError ''contents'' ''%v'' [] [err]) | Inr u \<Rightarrow> Inr u) (\<lambda>_.
     Inr result)))))))))))"

section \<open>\<^verbatim>\<open>translate.go\<close>: to the provider\<close>

definition appendContent :: "GeminiContent list \<Rightarrow> string \<Rightarrow> Part list \<Rightarrow> GeminiContent list" where
  "appendContent cs role parts =
     (if cs \<noteq> [] \<and> GC_Role (last cs) = role
      then butlast cs @ [(last cs)\<lparr>GC_Parts := GC_Parts (last cs) @ parts\<rparr>]
      else cs @ [\<lparr>GC_Role = role, GC_Parts = parts\<rparr>])"

definition call_signature :: "(string \<Rightarrow> string) \<Rightarrow> string \<Rightarrow> string \<Rightarrow> string" where
  "call_signature lower upstreamModel signature =
     (if signature = '''' \<and> HasPrefix (TrimPrefix (lower upstreamModel) ''models/'') ''gemini-3''
      then SkipThoughtSignatureValidator else signature)"

definition result_object :: "ToolResult \<Rightarrow> RawMessage result" where
  "result_object r =
     (if rawPresent (TR_Result r) then Inr (TR_Result r)
      else
        ebind (fail_if (list_ex (\<lambda>nested. C_Type nested \<noteq> ContentText) (TR_Content r))
          (failf ''Gemini tool results only support an object result or text content'' [])) (\<lambda>_.
        Inr (Some (JObj [(''is_error'', JBool (TR_IsError r)), (''output'', JStr (concat (map C_Text (TR_Content r))))]))))"

text \<open>The map \<^verbatim>\<open>callNames\<close> is updated by a tool call and read by a tool result.\<close>

definition contentToProvider ::
  "(string \<Rightarrow> string) \<Rightarrow> Content \<Rightarrow> (string \<times> string) list \<Rightarrow> string \<Rightarrow> (Part \<times> (string \<times> string) list) result" where
  "contentToProvider lower content callNames upstreamModel =
     (if C_Type content = ContentText then Inr (no_part\<lparr>P_Text := Some (C_Text content)\<rparr>, callNames)
      else if C_Type content = ContentImage then
        (case C_Image content of
           None \<Rightarrow> Inl (failf ''image content has no payload'' [])
         | Some img \<Rightarrow>
             ebind (fail_if (Image_URL img \<noteq> '''')
               (failf ''arbitrary image URLs cannot be sent to Gemini; use inline base64 image data'' [])) (\<lambda>_.
             ebind (validateInlineData (Some \<lparr>Blob_MIMEType = Image_MediaType img, Blob_Data = Image_Data img\<rparr>)) (\<lambda>valid.
             Inr (no_part\<lparr>P_InlineData := Some \<lparr>Blob_MIMEType = Image_MediaType valid, Blob_Data = Image_Data valid\<rparr>\<rparr>, callNames))))
      else if C_Type content = ContentToolCall then
        (case C_ToolCall content of
           None \<Rightarrow> Inl (failf ''tool_call requires an object arguments payload'' [])
         | Some call \<Rightarrow>
             ebind (fail_if (\<not> isJSONObject (TC_Arguments call)) (failf ''tool_call requires an object arguments payload'' [])) (\<lambda>_.
             Inr (no_part\<lparr>P_FunctionCall := Some \<lparr>FC_ID = TC_ID call, FC_Name = TC_Name call, FC_Args = TC_Arguments call\<rparr>,
                    P_ThoughtSignature := call_signature lower upstreamModel (TC_Signature call)\<rparr>,
                  (TC_ID call, TC_Name call) # callNames)))
      else if C_Type content = ContentToolResult then
        (case C_ToolResult content of
           None \<Rightarrow> Inl (failf ''tool_result content has no payload'' [])
         | Some r \<Rightarrow>
             let name = (if TR_Name r \<noteq> '''' then TR_Name r else case map_of callNames (TR_ToolCallID r) of None \<Rightarrow> '''' | Some n \<Rightarrow> n) in
             ebind (fail_if (name = '''')
               (failf ''tool_result %q has no function name and does not match a prior tool call'' [TR_ToolCallID r])) (\<lambda>_.
             ebind (result_object r) (\<lambda>response.
             ebind (fail_if (\<not> isJSONObject response) (failf ''tool_result result must be a JSON object'' [])) (\<lambda>_.
             Inr (no_part\<lparr>P_FunctionResponse := Some \<lparr>FR_ID = TR_ToolCallID r, FR_Name = name, FR_Response = response,
                    FR_WillContinue = None, FR_Scheduling = ''''\<rparr>\<rparr>, callNames)))))
      else Inl (failf ''unsupported IR content type %q'' [C_Type content]))"

fun partsToProvider ::
  "(string \<Rightarrow> string) \<Rightarrow> string \<Rightarrow> Content list \<Rightarrow> (string \<times> string) list \<Rightarrow> (Part list \<times> (string \<times> string) list) result" where
  "partsToProvider lower upstreamModel [] callNames = Inr ([], callNames)"
| "partsToProvider lower upstreamModel (item # items) callNames =
     ebind (contentToProvider lower item callNames upstreamModel) (\<lambda>(part, callNames').
     ebind (partsToProvider lower upstreamModel items callNames') (\<lambda>(parts, callNames'').
     Inr (part # parts, callNames'')))"

text \<open>Where the parts of a message go: the system instruction, or the contents under a role.\<close>

definition place_parts ::
  "string \<Rightarrow> Part list \<Rightarrow> GeminiContent option \<times> GeminiContent list \<Rightarrow> (GeminiContent option \<times> GeminiContent list) result" where
  "place_parts role parts placed =
     (case placed of (system, cs) \<Rightarrow>
        if role = RoleSystem then
          Inr (Some (case system of None \<Rightarrow> \<lparr>GC_Role = '''', GC_Parts = parts\<rparr> | Some s \<Rightarrow> s\<lparr>GC_Parts := GC_Parts s @ parts\<rparr>), cs)
        else if role = RoleUser \<or> role = RoleTool then Inr (system, appendContent cs ''user'' parts)
        else if role = RoleAssistant then Inr (system, appendContent cs ''model'' parts)
        else Inl (failf ''unsupported IR message role %q'' [role]))"

fun messagesToProvider ::
  "(string \<Rightarrow> string) \<Rightarrow> string \<Rightarrow> nat \<Rightarrow> IRMessage list \<Rightarrow> (string \<times> string) list \<Rightarrow> GeminiContent option \<times> GeminiContent list
     \<Rightarrow> (GeminiContent option \<times> GeminiContent list) result" where
  "messagesToProvider lower upstreamModel index [] callNames placed = Inr placed"
| "messagesToProvider lower upstreamModel index (message # messages) callNames placed =
     ebind (wrapf ''messages[%d]: %w'' [decimal index] (partsToProvider lower upstreamModel (Msg_Content message) callNames)) (\<lambda>(parts, callNames').
     ebind (place_parts (Msg_Role message) parts placed) (\<lambda>placed'.
     messagesToProvider lower upstreamModel (Suc index) messages callNames' placed'))"

definition declare_tool :: "IRTool \<Rightarrow> FunctionDeclaration result" where
  "declare_tool tool =
     ebind (fail_if (Tool_Strict tool = Some True) (failf ''strict function schemas are not supported by Gemini'' [])) (\<lambda>_.
     Inr \<lparr>Decl_Name = Tool_Name tool, Decl_Description = Tool_Description tool, Decl_Parameters = Tool_InputSchema tool,
       Decl_ParametersJSONSchema = None, Decl_Response = None, Decl_ResponseJSONSchema = None, Decl_Behavior = ''''\<rparr>)"

definition toolsToProvider :: "IRTool list \<Rightarrow> GeminiTool list result" where
  "toolsToProvider tools =
     (if tools = [] then Inr []
      else ebind (emap declare_tool tools) (\<lambda>declarations.
        Inr [\<lparr>GT_FunctionDeclarations = declarations, GT_GoogleSearch = None, GT_CodeExecution = None, GT_URLContext = None,
              GT_EnterpriseWebSearch = None\<rparr>]))"

definition choiceToProvider :: "IRToolChoice option \<Rightarrow> ToolConfig option result" where
  "choiceToProvider choice =
     (case choice of
        None \<Rightarrow> Inr None
      | Some c \<Rightarrow>
          ebind (if Choice_Mode c = ''auto'' then Inr (''AUTO'', [])
                 else if Choice_Mode c = ''none'' then Inr (''NONE'', [])
                 else if Choice_Mode c = ''required'' then Inr (''ANY'', [])
                 else if Choice_Mode c = ''named'' then Inr (''ANY'', [Choice_Name c])
                 else Inl (failf ''unsupported tool choice mode %q'' [Choice_Mode c])) (\<lambda>(mode, names).
          ebind (fail_if (Choice_DisableParallel c) (failf ''disable_parallel cannot be represented by Gemini'' [])) (\<lambda>_.
          Inr (Some \<lparr>TCfg_FunctionCallingConfig = Some \<lparr>FCC_Mode = mode, FCC_AllowedFunctionNames = names\<rparr>, TCfg_RetrievalConfig = None\<rparr>))))"

definition provider_config :: "IRRequest \<Rightarrow> int \<Rightarrow> GenerationConfig" where
  "provider_config request defaultMaxOutputTokens =
     no_config\<lparr>Gen_Temperature := Req_Temperature request, Gen_TopP := Req_TopP request, Gen_StopSequences := Req_Stop request,
       Gen_MaxOutputTokens := (case Req_MaxOutputTokens request of
          Some n \<Rightarrow> Some n | None \<Rightarrow> if defaultMaxOutputTokens > 0 then Some defaultMaxOutputTokens else None)\<rparr>"

definition configured :: "GenerationConfig \<Rightarrow> GenerationConfig option" where
  "configured config =
     (if Gen_MaxOutputTokens config \<noteq> None \<or> Gen_Temperature config \<noteq> None \<or> Gen_TopP config \<noteq> None \<or> Gen_StopSequences config \<noteq> []
      then Some config else None)"

definition ToProviderRequest :: "(string \<Rightarrow> string) \<Rightarrow> url_parser \<Rightarrow> IRRequest \<Rightarrow> int \<Rightarrow> int \<Rightarrow> GenerateContentRequest result" where
  "ToProviderRequest lower parse request defaultMaxOutputTokens maxOutputTokens =
     (let config = provider_config request defaultMaxOutputTokens in
      ebind (request_Validate parse request) (\<lambda>_.
      ebind (fail_if (Req_Stream request) (failf ''streaming IR requests are not supported'' [])) (\<lambda>_.
      ebind (fail_if (case Gen_MaxOutputTokens config of None \<Rightarrow> False | Some n \<Rightarrow> maxOutputTokens > 0 \<and> n > maxOutputTokens)
        (failf ''max_output_tokens must not exceed %d'' [decimal_int maxOutputTokens])) (\<lambda>_.
      ebind (validateGenerationConfig (Some config)) (\<lambda>_.
      ebind (messagesToProvider lower (IRRoute_UpstreamModel (Req_Route request)) 0 (Req_Messages request) [] (None, [])) (\<lambda>(system, cs).
      ebind (fail_if (cs = []) (failf ''at least one non-system message is required'' [])) (\<lambda>_.
      ebind (toolsToProvider (Req_Tools request)) (\<lambda>tools.
      ebind (choiceToProvider (Req_ToolChoice request)) (\<lambda>toolConfig.
      Inr \<lparr>GCR_Contents = cs, GCR_SystemInstruction = system, GCR_Tools = tools, GCR_ToolConfig = toolConfig,
        GCR_GenerationConfig = configured config, GCR_SafetySettings = None, GCR_CachedContent = '''', GCR_Labels = None\<rparr>)))))))))"

section \<open>\<^verbatim>\<open>translate.go\<close>: responses\<close>

definition blocked_reasons :: "string list" where
  "blocked_reasons = [''SAFETY'', ''RECITATION'', ''LANGUAGE'', ''BLOCKLIST'', ''PROHIBITED_CONTENT'', ''SPII'', ''IMAGE_SAFETY'',
     ''IMAGE_PROHIBITED_CONTENT'', ''IMAGE_RECITATION'']"

definition finishReasonToIR :: "string \<Rightarrow> bool \<Rightarrow> string result" where
  "finishReasonToIR reason hasToolCalls =
     (if reason = '''' \<or> reason = ''STOP'' then Inr (if hasToolCalls then FinishToolCalls else FinishStop)
      else if reason = ''MAX_TOKENS'' then Inr FinishLength
      else if reason \<in> set blocked_reasons then Inr FinishContent
      else if reason \<in> {''OTHER'', ''MALFORMED_FUNCTION_CALL'', ''UNEXPECTED_TOOL_CALL'', ''TOO_MANY_TOOL_CALLS'', ''NO_IMAGE''}
      then Inl (failf ''Gemini stopped with unsupported finish reason %q'' [reason])
      else Inl (failf ''Gemini returned unknown finish reason %q'' [reason]))"

text \<open>One part of the candidate; \<open>None\<close> for a thought, which is left out.\<close>

definition candidate_part :: "string \<Rightarrow> nat \<Rightarrow> Part \<Rightarrow> Content option result" where
  "candidate_part requestID index part =
     ebind (fail_if (partVariantCount part \<noteq> 1)
       (failf ''candidate part[%d] must contain exactly one supported data variant'' [decimal index])) (\<lambda>_.
     ebind (fail_if (P_ThoughtSignature part \<noteq> '''' \<and> P_FunctionCall part = None)
       (failf ''candidate part[%d] has a thoughtSignature that cannot be represented outside a function call'' [decimal index])) (\<lambda>_.
     if P_Thought part = Some True then Inr None
     else case P_Text part of
       Some words \<Rightarrow> Inr (Some (Content ContentText words None None None))
     | None \<Rightarrow>
         if P_InlineData part \<noteq> None then
           ebind (wrapf ''candidate part[%d]: %w'' [decimal index] (validateInlineData (P_InlineData part))) (\<lambda>img.
           Inr (Some (Content ContentImage '''' (Some img) None None)))
         else case P_FunctionCall part of
             Some call \<Rightarrow>
               ebind (fail_if (FC_Name call = '''') (failf ''candidate part[%d] has a function call without a name'' [decimal index])) (\<lambda>_.
               ebind (fail_if (\<not> isJSONObject (call_arguments (FC_Args call)))
                 (failf ''candidate part[%d] function args must be an object'' [decimal index])) (\<lambda>_.
               Inr (Some (Content ContentToolCall '''' None
                 (Some \<lparr>TC_ID = (if FC_ID call = '''' then requestID @ ''-call-'' @ decimal index else FC_ID call), TC_Name = FC_Name call,
                   TC_Arguments = call_arguments (FC_Args call), TC_Signature = P_ThoughtSignature part\<rparr>) None))))
           | None \<Rightarrow> Inl (failf ''candidate part[%d] has an unsupported part type'' [decimal index])))"

fun candidate_parts :: "string \<Rightarrow> nat \<Rightarrow> Part list \<Rightarrow> Content list result" where
  "candidate_parts requestID index [] = Inr []"
| "candidate_parts requestID index (part # parts) =
     ebind (candidate_part requestID index part) (\<lambda>content.
     ebind (candidate_parts requestID (Suc index) parts) (\<lambda>rest.
     Inr ((case content of None \<Rightarrow> [] | Some c \<Rightarrow> [c]) @ rest)))"

definition gemini_ToIRResponse :: "url_parser \<Rightarrow> GenerateContentResponse \<Rightarrow> IRRequest \<Rightarrow> IRResponse result" where
  "gemini_ToIRResponse parse response request =
     (let usage = GCS_UsageMetadata response;
          result = \<lparr>Resp_Version = Version, Resp_ID = Req_ID request,
            Resp_Model = (if GCS_ModelVersion response = '''' then IRRoute_UpstreamModel (Req_Route request) else GCS_ModelVersion response),
            Resp_Content = [], Resp_FinishReason = '''', Resp_StopSequence = '''',
            Resp_Usage = \<lparr>Usage_InputTokens = UM_PromptTokenCount usage,
              Usage_OutputTokens = wrap64 (UM_CandidatesTokenCount usage + UM_ThoughtsTokenCount usage),
              Usage_CacheCreationInputTokens = 0, Usage_CachedInputTokens = UM_CachedContentTokenCount usage\<rparr>,
            Resp_ProviderResponseID = GCS_ResponseID response\<rparr> in
      case GCS_Candidates response of
        [] \<Rightarrow>
          (case GCS_PromptFeedback response of
             None \<Rightarrow> Inl (failf ''Gemini returned no candidates'' [])
           | Some feedback \<Rightarrow>
               ebind (fail_if (PF_BlockReason feedback = '''') (failf ''Gemini returned no candidates'' [])) (\<lambda>_.
               Inr (result\<lparr>Resp_FinishReason := FinishContent\<rparr>)))
      | [candidate] \<Rightarrow>
          ebind (fail_if (GC_Role (Cand_Content candidate) \<noteq> '''' \<and> GC_Role (Cand_Content candidate) \<noteq> ''model'')
            (failf ''Gemini candidate role must be model'' [])) (\<lambda>_.
          ebind (candidate_parts (Req_ID request) 0 (GC_Parts (Cand_Content candidate))) (\<lambda>cs.
          ebind (finishReasonToIR (Cand_FinishReason candidate) (list_ex (\<lambda>c. C_Type c = ContentToolCall) cs)) (\<lambda>finish.
          let result = result\<lparr>Resp_Content := cs, Resp_FinishReason := finish\<rparr> in
          ebind (response_Validate parse result) (\<lambda>_.
          Inr result))))
      | _ \<Rightarrow> Inl (failf ''Gemini returned %d candidates; exactly one is supported'' [decimal (length (GCS_Candidates response))]))"

fun contentsFromResponse :: "(string \<Rightarrow> string) \<Rightarrow> string \<Rightarrow> nat \<Rightarrow> Content list \<Rightarrow> Part list result" where
  "contentsFromResponse lower model index [] = Inr []"
| "contentsFromResponse lower model index (content # cs) =
     ebind (wrapf ''response content[%d]: %w'' [decimal index] (contentToProvider lower content [] model)) (\<lambda>(part, _).
     ebind (contentsFromResponse lower model (Suc index) cs) (\<lambda>parts.
     Inr (part # parts)))"

definition finishReasonFromIR :: "string \<Rightarrow> string result" where
  "finishReasonFromIR reason =
     (if reason = FinishStop \<or> reason = FinishToolCalls then Inr ''STOP''
      else if reason = FinishLength then Inr ''MAX_TOKENS''
      else if reason = FinishContent then Inr ''SAFETY''
      else Inl (failf ''unsupported IR finish reason %q'' [reason]))"

definition gemini_FromIRResponse :: "(string \<Rightarrow> string) \<Rightarrow> url_parser \<Rightarrow> IRResponse \<Rightarrow> string \<Rightarrow> GenerateContentResponse result" where
  "gemini_FromIRResponse lower parse response requestedModel =
     (let usage = Resp_Usage response in
      ebind (response_Validate parse response) (\<lambda>_.
      ebind (fail_if (TrimSpace requestedModel = '''') (failf ''requested model is required'' [])) (\<lambda>_.
      ebind (contentsFromResponse lower (Resp_Model response) 0 (Resp_Content response)) (\<lambda>parts.
      ebind (finishReasonFromIR (Resp_FinishReason response)) (\<lambda>finish.
      Inr \<lparr>GCS_Candidates = [\<lparr>Cand_Content = \<lparr>GC_Role = ''model'', GC_Parts = parts\<rparr>, Cand_FinishReason = finish, Cand_Index = 0,
             Cand_SafetyRatings = []\<rparr>],
        GCS_PromptFeedback = None,
        GCS_UsageMetadata = \<lparr>UM_PromptTokenCount = Usage_InputTokens usage, UM_CandidatesTokenCount = Usage_OutputTokens usage,
          UM_TotalTokenCount = wrap64 (Usage_InputTokens usage + Usage_OutputTokens usage),
          UM_CachedContentTokenCount = Usage_CachedInputTokens usage, UM_ThoughtsTokenCount = 0\<rparr>,
        GCS_ModelVersion = requestedModel,
        GCS_ResponseID = (if Resp_ProviderResponseID response = '''' then Resp_ID response else Resp_ProviderResponseID response)\<rparr>)))))"

section \<open>What the adapter sends\<close>

text \<open>
  The part that stands for a content of the conversation. A tool result carries the name of the call it
  answers; \<open>name_of\<close> gives the name of a call by its ID.
\<close>

definition output_object :: "ToolResult \<Rightarrow> RawMessage" where
  "output_object r =
     (case TR_Result r of
        Some j \<Rightarrow> Some j
      | None \<Rightarrow> Some (JObj [(''is_error'', JBool (TR_IsError r)), (''output'', JStr (concat (map C_Text (TR_Content r))))]))"

definition provider_part :: "(string \<Rightarrow> string) \<Rightarrow> string \<Rightarrow> (string \<Rightarrow> string) \<Rightarrow> Content \<Rightarrow> Part" where
  "provider_part lower model name_of c =
     (case (call_of c, result_of c, C_Image c) of
        (Some call, _) \<Rightarrow> no_part\<lparr>P_FunctionCall := Some \<lparr>FC_ID = TC_ID call, FC_Name = TC_Name call, FC_Args = TC_Arguments call\<rparr>,
          P_ThoughtSignature := call_signature lower model (TC_Signature call)\<rparr>
      | (None, Some r, _) \<Rightarrow> no_part\<lparr>P_FunctionResponse := Some \<lparr>FR_ID = TR_ToolCallID r, FR_Name = name_of (TR_ToolCallID r),
          FR_Response = output_object r, FR_WillContinue = None, FR_Scheduling = ''''\<rparr>\<rparr>
      | (None, None, Some i) \<Rightarrow> no_part\<lparr>P_InlineData := Some \<lparr>Blob_MIMEType = Image_MediaType i, Blob_Data = Image_Data i\<rparr>\<rparr>
      | (None, None, None) \<Rightarrow> no_part\<lparr>P_Text := Some (C_Text c)\<rparr>)"

text \<open>What the protocol can carry: images with their data, and tool results that are an object or text.\<close>

definition expressible :: "Content \<Rightarrow> bool" where
  "expressible c \<longleftrightarrow> (\<forall>i. C_Image c = Some i \<longrightarrow> Image_URL i = '''') \<and>
     (\<forall>r. C_ToolResult c = Some r \<longrightarrow> TR_Result r \<noteq> None \<or> (\<forall>nested \<in> set (TR_Content r). C_Type nested = ContentText))"

definition names_calls :: "(string \<Rightarrow> string) \<Rightarrow> Content list \<Rightarrow> bool" where
  "names_calls name_of cs \<longleftrightarrow> (\<forall>k \<in> set (calls cs). TC_Name k \<noteq> '''' \<and> name_of (TC_ID k) = TC_Name k)"

definition knows :: "(string \<Rightarrow> string) \<Rightarrow> Content list \<Rightarrow> (string \<times> string) list \<Rightarrow> bool" where
  "knows name_of prior callNames \<longleftrightarrow> (\<forall>k \<in> set (calls prior). map_of callNames (TC_ID k) = Some (name_of (TC_ID k)))"

text \<open>The kinds of content of a well-formed message.\<close>

lemma content_kinds:
  assumes "valid_content parse c"
  obtains t where "c = Content ContentText t None None None"
  | i where "c = Content ContentImage '''' (Some i) None None" "valid_image parse i"
  | call where "c = Content ContentToolCall '''' None (Some call) None" "valid_call call"
  | r where "c = Content ContentToolResult '''' None None (Some r)" "valid_result parse r"
proof (cases c)
  case (Content ty tx img tc tr)
  from assms consider "valid_part parse c" | call where "ty = ContentToolCall" "tc = Some call" "valid_call call" "tx = []" "img = None" "tr = None"
    | r where "ty = ContentToolResult" "tr = Some r" "valid_result parse r" "tx = []" "img = None" "tc = None"
    unfolding valid_content_def by (auto simp: Content)
  then show thesis
  proof cases
    case 1
    then show thesis using that(1,2) by (auto simp: valid_part_def Content)
  qed (use that(3,4) Content in auto)
qed

lemma validateInlineData_valid:
  "valid_image parse i \<Longrightarrow> Image_URL i = [] \<Longrightarrow>
     validateInlineData (Some \<lparr>Blob_MIMEType = Image_MediaType i, Blob_Data = Image_Data i\<rparr>) = Inr i"
  by (cases i) (auto simp: valid_image_def validateInlineData_def image_types_def)

lemma result_object_iff:
  assumes "valid_result parse r"
  shows "result_object r = Inr j \<longleftrightarrow> (TR_Result r \<noteq> None \<or> (\<forall>nested \<in> set (TR_Content r). C_Type nested = ContentText)) \<and> j = output_object r"
proof (cases "TR_Result r")
  case None
  then show ?thesis by (auto simp: result_object_def output_object_def list_ex_iff)
next
  case (Some x)
  with assms have "isJSONObject (Some x)" by (simp add: valid_result_def)
  then have "rawPresent (Some x)" by (cases x) simp_all
  with Some show ?thesis by (auto simp: result_object_def output_object_def)
qed

lemma output_object_isJSONObject: "valid_result parse r \<Longrightarrow> isJSONObject (output_object r)"
  by (auto simp: output_object_def valid_result_def split: option.split)

lemma contentToProvider_iff:
  assumes c: "valid_content parse c" "may_follow prior c" and names: "names_calls name_of prior" "knows name_of prior callNames"
  shows "contentToProvider lower c callNames model = Inr (p, callNames') \<longleftrightarrow> expressible c \<and> p = provider_part lower model name_of c \<and>
    callNames' = (case call_of c of None \<Rightarrow> callNames | Some k \<Rightarrow> (TC_ID k, TC_Name k) # callNames)"
  using c(1)
proof (cases rule: content_kinds)
  case (1 t)
  then show ?thesis by (auto simp: contentToProvider_def expressible_def provider_part_def call_of_def result_of_def)
next
  case (2 i)
  then show ?thesis using validateInlineData_valid [of parse i]
    by (auto simp: contentToProvider_def expressible_def provider_part_def call_of_def result_of_def)
next
  case (3 call)
  then show ?thesis by (auto simp: contentToProvider_def expressible_def provider_part_def call_of_def result_of_def valid_call_def)
next
  case (4 r)
  from c(2) 4 obtain k where k: "k \<in> set (calls prior)" "TC_ID k = TR_ToolCallID r" "TR_Name r = [] \<or> TR_Name r = TC_Name k"
    by (auto simp: may_follow_def result_of_def)
  from names k(1) have "TC_Name k \<noteq> []" "name_of (TC_ID k) = TC_Name k" "map_of callNames (TC_ID k) = Some (TC_Name k)"
    by (simp_all add: names_calls_def knows_def)
  with k(2,3) have "(if TR_Name r \<noteq> [] then TR_Name r else case map_of callNames (TR_ToolCallID r) of None \<Rightarrow> [] | Some n \<Rightarrow> n) = name_of (TR_ToolCallID r)"
    "name_of (TR_ToolCallID r) \<noteq> []" by auto
  with 4 result_object_iff [of parse r] output_object_isJSONObject [of parse r] show ?thesis
    by (auto simp: contentToProvider_def expressible_def provider_part_def call_of_def result_of_def Let_def)
qed

lemma names_calls_append: "names_calls name_of (xs @ ys) \<longleftrightarrow> names_calls name_of xs \<and> names_calls name_of ys"
  by (auto simp: names_calls_def map_filter_append)

lemma knows_append:
  assumes "names_calls name_of (prior @ cs)" "knows name_of prior callNames"
  shows "knows name_of (prior @ cs) (rev (map (\<lambda>k. (TC_ID k, TC_Name k)) (calls cs)) @ callNames)"
proof -
  have "map_of (rev (map (\<lambda>k. (TC_ID k, TC_Name k)) ks) @ callNames) i = Some (name_of i)"
    if "\<forall>k \<in> set ks. name_of (TC_ID k) = TC_Name k" "map_of callNames i = Some (name_of i) \<or> i \<in> TC_ID ` set ks" for ks i
    using that
  proof (induction ks arbitrary: callNames)
    case (Cons k ks)
    from Cons.IH [of "(TC_ID k, TC_Name k) # callNames"] Cons.prems show ?case by auto
  qed auto
  moreover have "\<forall>k \<in> set (calls cs). name_of (TC_ID k) = TC_Name k" using assms(1) by (auto simp: names_calls_def map_filter_append)
  ultimately show ?thesis using assms(2) unfolding knows_def map_filter_append set_append by blast
qed

lemma partsToProvider_iff:
  assumes "\<forall>c \<in> set cs. valid_content parse c" "threaded prior cs" "names_calls name_of (prior @ cs)" "knows name_of prior callNames"
  shows "partsToProvider lower model cs callNames = Inr (ps, callNames') \<longleftrightarrow> (\<forall>c \<in> set cs. expressible c) \<and>
    ps = map (provider_part lower model name_of) cs \<and> callNames' = rev (map (\<lambda>k. (TC_ID k, TC_Name k)) (calls cs)) @ callNames"
  using assms
proof (induction cs arbitrary: prior callNames ps callNames')
  case (Cons c cs)
  let ?names = "case call_of c of None \<Rightarrow> callNames | Some k \<Rightarrow> (TC_ID k, TC_Name k) # callNames"
  from Cons.prems have c: "valid_content parse c" "may_follow prior c" "threaded (prior @ [c]) cs" by (simp_all add: threaded_Cons)
  from Cons.prems(3) names_calls_append [of name_of prior "[c] @ cs"] names_calls_append [of name_of "[c]" cs]
  have n: "names_calls name_of prior" "names_calls name_of (prior @ [c])" "names_calls name_of ((prior @ [c]) @ cs)"
    by (simp_all add: names_calls_append)
  have "rev (map (\<lambda>k. (TC_ID k, TC_Name k)) (calls [c])) @ callNames = ?names"
    by (simp add: map_filter_Cons List.map_filter_def split: option.split)
  with knows_append [OF n(2) Cons.prems(4)] have "knows name_of (prior @ [c]) ?names" by simp
  from Cons.IH [OF _ c(3) n(3) this] Cons.prems(1)
  have IH: "partsToProvider lower model cs ?names = Inr (ps, callNames') \<longleftrightarrow> (\<forall>c \<in> set cs. expressible c) \<and>
    ps = map (provider_part lower model name_of) cs \<and> callNames' = rev (map (\<lambda>k. (TC_ID k, TC_Name k)) (calls cs)) @ ?names"
    for ps callNames' by simp
  have "rev (map (\<lambda>k. (TC_ID k, TC_Name k)) (calls (c # cs))) @ callNames = rev (map (\<lambda>k. (TC_ID k, TC_Name k)) (calls cs)) @ ?names"
    by (simp add: map_filter_Cons split: option.split)
  then show ?case using contentToProvider_iff [OF c(1,2) n(1) Cons.prems(4), of lower model]
    by (simp del: split_paired_Ex) (auto simp: IH)
qed (auto simp: List.map_filter_def)

text \<open>Where the messages end up.\<close>

definition sent_role :: "IRMessage \<Rightarrow> string" where
  "sent_role m = (if Msg_Role m = RoleAssistant then ''model'' else ''user'')"

definition instruct :: "GeminiContent option \<Rightarrow> Part list \<Rightarrow> GeminiContent option" where
  "instruct system parts = Some (case system of None \<Rightarrow> \<lparr>GC_Role = '''', GC_Parts = parts\<rparr> | Some s \<Rightarrow> s\<lparr>GC_Parts := GC_Parts s @ parts\<rparr>)"

definition converse :: "(IRMessage \<Rightarrow> Part list) \<Rightarrow> GeminiContent list \<Rightarrow> IRMessage list \<Rightarrow> GeminiContent list" where
  "converse parts = foldl (\<lambda>cs m. appendContent cs (sent_role m) (parts m))"

abbreviation said_parts :: "(string \<Rightarrow> string) \<Rightarrow> string \<Rightarrow> (string \<Rightarrow> string) \<Rightarrow> IRMessage \<Rightarrow> Part list" where
  "said_parts lower model name_of m \<equiv> map (provider_part lower model name_of) (Msg_Content m)"

lemma place_parts_valid:
  "valid_message parse m \<Longrightarrow> place_parts (Msg_Role m) parts (system, cs) =
     Inr (if Msg_Role m = RoleSystem then (instruct system parts, cs) else (system, appendContent cs (sent_role m) parts))"
  by (auto simp: valid_message_def place_parts_def instruct_def sent_role_def)

lemma messagesToProvider_iff:
  assumes "\<forall>m \<in> set ms. valid_message parse m" "threaded prior (concat (map Msg_Content ms))"
    "names_calls name_of (prior @ concat (map Msg_Content ms))" "knows name_of prior callNames"
  shows "messagesToProvider lower model index ms callNames (system, cs) = Inr out \<longleftrightarrow>
    (\<forall>m \<in> set ms. \<forall>c \<in> set (Msg_Content m). expressible c) \<and>
    out = (foldl instruct system (map (said_parts lower model name_of) (filter (\<lambda>m. Msg_Role m = RoleSystem) ms)),
           converse (said_parts lower model name_of) cs (filter (\<lambda>m. Msg_Role m \<noteq> RoleSystem) ms))"
  using assms
proof (induction ms arbitrary: index prior callNames system cs)
  case (Cons m ms)
  let ?names = "rev (map (\<lambda>k. (TC_ID k, TC_Name k)) (calls (Msg_Content m))) @ callNames"
  let ?placed = "if Msg_Role m = RoleSystem then (instruct system (said_parts lower model name_of m), cs)
    else (system, appendContent cs (sent_role m) (said_parts lower model name_of m))"
  from Cons.prems have m: "valid_message parse m" "threaded prior (Msg_Content m)" "names_calls name_of (prior @ Msg_Content m)"
    "threaded (prior @ Msg_Content m) (concat (map Msg_Content ms))" "names_calls name_of ((prior @ Msg_Content m) @ concat (map Msg_Content ms))"
    by (simp_all add: threaded_append names_calls_append)
  then have "\<forall>c \<in> set (Msg_Content m). valid_content parse c" by (simp add: valid_message_def)
  note parts = partsToProvider_iff [OF this m(2,3) Cons.prems(4), of lower model]
  have IH: "messagesToProvider lower model (Suc index) ms ?names (system', cs') = Inr out \<longleftrightarrow>
      (\<forall>m \<in> set ms. \<forall>c \<in> set (Msg_Content m). expressible c) \<and>
      out = (foldl instruct system' (map (said_parts lower model name_of) (filter (\<lambda>m. Msg_Role m = RoleSystem) ms)),
             converse (said_parts lower model name_of) cs' (filter (\<lambda>m. Msg_Role m \<noteq> RoleSystem) ms))" for system' cs'
    using Cons.IH [OF _ m(4,5) knows_append [OF m(3) Cons.prems(4)]] Cons.prems(1) by simp
  have "messagesToProvider lower model index (m # ms) callNames (system, cs) = Inr out \<longleftrightarrow>
      (\<forall>c \<in> set (Msg_Content m). expressible c) \<and> messagesToProvider lower model (Suc index) ms ?names ?placed = Inr out"
    by (simp del: split_paired_Ex add: parts place_parts_valid [OF m(1)] ebind_Inr_iff split_beta) (auto simp: parts place_parts_valid [OF m(1)])
  also have "\<dots> \<longleftrightarrow> (\<forall>m \<in> set (m # ms). \<forall>c \<in> set (Msg_Content m). expressible c) \<and>
      out = (foldl instruct system (map (said_parts lower model name_of) (filter (\<lambda>m. Msg_Role m = RoleSystem) (m # ms))),
             converse (said_parts lower model name_of) cs (filter (\<lambda>m. Msg_Role m \<noteq> RoleSystem) (m # ms)))"
    by (cases "Msg_Role m = RoleSystem") (simp_all add: IH converse_def)
  finally show ?case .
qed (auto simp: converse_def)

lemma foldl_instruct_Some: "foldl instruct (Some s) pss = Some (s\<lparr>GC_Parts := GC_Parts s @ concat pss\<rparr>)"
  by (induction pss arbitrary: s) (simp_all add: instruct_def)

lemma foldl_instruct: "foldl instruct None pss = (if pss = [] then None else Some \<lparr>GC_Role = '''', GC_Parts = concat pss\<rparr>)"
proof (cases pss)
  case (Cons ps rest)
  have "instruct None ps = Some \<lparr>GC_Role = '''', GC_Parts = ps\<rparr>" by (simp add: instruct_def)
  with Cons show ?thesis by (simp add: foldl_instruct_Some)
qed simp

text \<open>The parts of a conversation in order, each with its role.\<close>

definition voiced :: "GeminiContent list \<Rightarrow> (string \<times> Part) list" where
  "voiced cs = concat (map (\<lambda>c. map (Pair (GC_Role c)) (GC_Parts c)) cs)"

definition alternating :: "GeminiContent list \<Rightarrow> bool" where
  "alternating cs \<longleftrightarrow> successively (\<lambda>a b. GC_Role a \<noteq> GC_Role b) cs \<and> (\<forall>c \<in> set cs. GC_Parts c \<noteq> [])"

lemma appendContent_keeps:
  assumes "alternating cs" "parts \<noteq> []"
  shows "alternating (appendContent cs role parts)" "voiced (appendContent cs role parts) = voiced cs @ map (Pair role) parts"
proof -
  consider "cs = []" | before c where "cs = before @ [c]" by (cases cs rule: rev_cases) auto
  then have "alternating (appendContent cs role parts) \<and> voiced (appendContent cs role parts) = voiced cs @ map (Pair role) parts"
  proof cases
    case (2 before c)
    then show ?thesis using assms by (auto simp: appendContent_def alternating_def voiced_def successively_append_iff)
  qed (use assms in \<open>simp add: appendContent_def alternating_def voiced_def\<close>)
  then show "alternating (appendContent cs role parts)" "voiced (appendContent cs role parts) = voiced cs @ map (Pair role) parts" by simp_all
qed

lemma converse_keeps:
  "alternating cs \<Longrightarrow> \<forall>m \<in> set ms. parts m \<noteq> [] \<Longrightarrow> alternating (converse parts cs ms) \<and>
     voiced (converse parts cs ms) = voiced cs @ concat (map (\<lambda>m. map (Pair (sent_role m)) (parts m)) ms)"
  by (induction ms arbitrary: cs) (simp_all add: converse_def appendContent_keeps)

text \<open>The name of the call with an ID.\<close>

definition call_name :: "IRRequest \<Rightarrow> string \<Rightarrow> string" where
  "call_name r i = (case find (\<lambda>k. TC_ID k = i) (calls (concat (map Msg_Content (Req_Messages r)))) of None \<Rightarrow> '''' | Some k \<Rightarrow> TC_Name k)"

lemma threaded_calls_distinct:
  "threaded prior cs \<Longrightarrow> distinct (map TC_ID (calls prior)) \<Longrightarrow> distinct (map TC_ID (calls (prior @ cs)))"
proof (induction cs arbitrary: prior)
  case (Cons c cs)
  from Cons.prems have "may_follow prior c" "threaded (prior @ [c]) cs" by (simp_all add: threaded_Cons)
  with Cons.IH [of "prior @ [c]"] Cons.prems(2) show ?case
    by (auto simp: may_follow_def map_filter_snoc split: option.splits)
qed simp

lemma call_name_names:
  assumes "valid_request parse r"
  shows "names_calls (call_name r) (concat (map Msg_Content (Req_Messages r)))"
proof -
  let ?cs = "concat (map Msg_Content (Req_Messages r))"
  from assms have valid: "\<forall>c \<in> set ?cs. valid_content parse c" and "threaded [] ?cs"
    by (auto simp: valid_request_def valid_message_def)
  then have distinct: "distinct (map TC_ID (calls ?cs))" using threaded_calls_distinct [of "[]" ?cs] by (simp add: List.map_filter_def)
  show ?thesis unfolding names_calls_def
  proof
    fix k assume k: "k \<in> set (calls ?cs)"
    then obtain c where "c \<in> set ?cs" "call_of c = Some k" unfolding in_map_filter ..
    with valid have "valid_content parse c" "C_Type c = ContentToolCall" "C_ToolCall c = Some k" by (auto simp: call_of_def split: if_splits)
    then have "valid_call k" by (auto simp: valid_content_def valid_part_def)
    moreover have "call_name r (TC_ID k) = TC_Name k"
    proof -
      from k have "find (\<lambda>k'. TC_ID k' = TC_ID k) (calls ?cs) \<noteq> None" by (auto simp: find_None_iff)
      then obtain k' where k': "find (\<lambda>k'. TC_ID k' = TC_ID k) (calls ?cs) = Some k'" by blast
      then have "k' \<in> set (calls ?cs)" "TC_ID k' = TC_ID k" by (auto simp: find_Some_iff)
      with distinct k have "k' = k" by (metis distinct_map inj_onD)
      with k' show ?thesis by (simp add: call_name_def)
    qed
    ultimately show "TC_Name k \<noteq> [] \<and> call_name r (TC_ID k) = TC_Name k" by (simp add: valid_call_def)
  qed
qed

definition sent_limit :: "IRRequest \<Rightarrow> int \<Rightarrow> int option" where
  "sent_limit r standard = (case Req_MaxOutputTokens r of Some n \<Rightarrow> Some n | None \<Rightarrow> if 0 < standard then Some standard else None)"

definition for_gemini :: "IRRequest \<Rightarrow> int \<Rightarrow> int \<Rightarrow> bool" where
  "for_gemini r standard most \<longleftrightarrow>
     (\<forall>n. sent_limit r standard = Some n \<longrightarrow> most \<le> 0 \<or> n \<le> most) \<and>
     (\<forall>m \<in> set (Req_Messages r). \<forall>c \<in> set (Msg_Content m). expressible c) \<and>
     (\<forall>tool \<in> set (Req_Tools r). Tool_Strict tool \<noteq> Some True) \<and>
     (\<forall>ch. Req_ToolChoice r = Some ch \<longrightarrow> \<not> Choice_DisableParallel ch)"

definition declared :: "FunctionDeclaration \<Rightarrow> IRTool \<Rightarrow> bool" where
  "declared d tool \<longleftrightarrow> Decl_Name d = Tool_Name tool \<and> Decl_Description d = Tool_Description tool \<and> Decl_Parameters d = Tool_InputSchema tool"

definition gemini_carries :: "(string \<Rightarrow> string) \<Rightarrow> int \<Rightarrow> IRRequest \<Rightarrow> GenerateContentRequest \<Rightarrow> bool" where
  "gemini_carries lower standard r g \<longleftrightarrow>
     (let parts = said_parts lower (IRRoute_UpstreamModel (Req_Route r)) (call_name r);
          system = filter (\<lambda>m. Msg_Role m = RoleSystem) (Req_Messages r);
          talk = filter (\<lambda>m. Msg_Role m \<noteq> RoleSystem) (Req_Messages r);
          config = (case GCR_GenerationConfig g of None \<Rightarrow> no_config | Some c \<Rightarrow> c) in
      GCR_SystemInstruction g = (if system = [] then None else Some \<lparr>GC_Role = '''', GC_Parts = concat (map parts system)\<rparr>) \<and>
      voiced (GCR_Contents g) = concat (map (\<lambda>m. map (Pair (sent_role m)) (parts m)) talk) \<and> alternating (GCR_Contents g) \<and>
      list_all2 declared (concat (map GT_FunctionDeclarations (GCR_Tools g))) (Req_Tools r) \<and>
      gemini_tool_choice (GCR_ToolConfig g) (Req_Tools r) = Inr (map_option plain_choice (Req_ToolChoice r)) \<and>
      Gen_MaxOutputTokens config = sent_limit r standard \<and> Gen_Temperature config = Req_Temperature r \<and> Gen_TopP config = Req_TopP r \<and>
      Gen_StopSequences config = Req_Stop r \<and> validateGenerationConfig (GCR_GenerationConfig g) = Inr () \<and>
      GCR_SafetySettings g = None \<and> GCR_CachedContent g = '''' \<and> GCR_Labels g = None)"

lemma gemini_stops_iff: "gemini_stops index stops = Inr () \<longleftrightarrow> [] \<notin> set stops"
  by (induction stops arbitrary: index) auto

lemma provider_config_valid: "valid_request parse r \<Longrightarrow> validateGenerationConfig (Some (provider_config r standard)) = Inr ()"
  by (auto simp: validateGenerationConfig_def provider_config_def no_config_def gemini_stops_iff outside_unit_iff valid_request_def
      split: option.split)

lemma declare_tools:
  "emap declare_tool tools = Inr ds \<Longrightarrow> (\<forall>tool \<in> set tools. Tool_Strict tool \<noteq> Some True) \<and> list_all2 declared ds tools"
  by (induction tools arbitrary: ds) (auto simp: declare_tool_def declared_def)

lemma toolsToProvider_iff:
  "toolsToProvider tools = Inr ts \<Longrightarrow> (\<forall>tool \<in> set tools. Tool_Strict tool \<noteq> Some True) \<and>
     list_all2 declared (concat (map GT_FunctionDeclarations ts)) tools"
  using declare_tools [of tools] by (auto simp: toolsToProvider_def split: if_splits)

lemma toolsToProvider_ok: "\<forall>tool \<in> set tools. Tool_Strict tool \<noteq> Some True \<Longrightarrow> \<exists>ts. toolsToProvider tools = Inr ts"
proof -
  assume "\<forall>tool \<in> set tools. Tool_Strict tool \<noteq> Some True"
  then have "emap declare_tool tools = Inr (map (projr \<circ> declare_tool) tools)" by (intro emap_ok) (simp add: declare_tool_def)
  then show ?thesis by (simp add: toolsToProvider_def)
qed

lemma choiceToProvider_valid:
  assumes "\<forall>ch. choice = Some ch \<longrightarrow> valid_choice tools ch"
  shows "(\<exists>tc. choiceToProvider choice = Inr tc) \<longleftrightarrow> (\<forall>ch. choice = Some ch \<longrightarrow> \<not> Choice_DisableParallel ch)"
    "choiceToProvider choice = Inr tc \<Longrightarrow> gemini_tool_choice tc tools = Inr (map_option plain_choice choice)"
  using assms
  by (cases choice; auto simp: choiceToProvider_def gemini_tool_choice_def plain_choice_def valid_choice_def Let_def fail_if_def ascii_lower_def
      is_upper_def byte_def split: if_splits)+

section \<open>Properties\<close>

lemma sent_parts:
  fixes lower :: "string \<Rightarrow> string"
  assumes valid: "valid_request parse r"
  defines "parts \<equiv> said_parts lower (IRRoute_UpstreamModel (Req_Route r)) (call_name r)"
  shows "messagesToProvider lower (IRRoute_UpstreamModel (Req_Route r)) 0 (Req_Messages r) [] (None, []) = Inr (system, cs) \<Longrightarrow>
      (\<forall>m \<in> set (Req_Messages r). \<forall>c \<in> set (Msg_Content m). expressible c) \<and> cs \<noteq> [] \<and> alternating cs \<and>
      system = foldl instruct None (map parts (filter (\<lambda>m. Msg_Role m = RoleSystem) (Req_Messages r))) \<and>
      voiced cs = concat (map (\<lambda>m. map (Pair (sent_role m)) (parts m)) (filter (\<lambda>m. Msg_Role m \<noteq> RoleSystem) (Req_Messages r)))"
    and "\<forall>m \<in> set (Req_Messages r). \<forall>c \<in> set (Msg_Content m). expressible c \<Longrightarrow>
      \<exists>system cs. messagesToProvider lower (IRRoute_UpstreamModel (Req_Route r)) 0 (Req_Messages r) [] (None, []) = Inr (system, cs)"
proof -
  let ?talk = "filter (\<lambda>m. Msg_Role m \<noteq> RoleSystem) (Req_Messages r)"
  from valid have ms: "\<forall>m \<in> set (Req_Messages r). valid_message parse m" and t: "threaded [] (concat (map Msg_Content (Req_Messages r)))"
    and nonempty: "\<forall>m \<in> set (Req_Messages r). parts m \<noteq> []"
    by (auto simp: valid_request_def valid_message_def parts_def)
  from valid obtain sys rest where split: "Req_Messages r = sys @ rest" "rest \<noteq> []" "\<forall>m \<in> set sys. Msg_Role m = RoleSystem" "\<forall>m \<in> set rest. Msg_Role m \<noteq> RoleSystem"
    by (auto simp: valid_request_def system_first_def)
  then have "?talk = rest" by simp
  with split(2) obtain m ms' where m: "?talk = m # ms'" by (cases ?talk) auto
  have known: "knows (call_name r) [] []" by (simp add: knows_def List.map_filter_def)
  note iff = messagesToProvider_iff [OF ms t _ known, of lower "IRRoute_UpstreamModel (Req_Route r)" 0 None "[]", folded parts_def]
  have conv: "alternating (converse parts [] ?talk)" "voiced (converse parts [] ?talk) = concat (map (\<lambda>m. map (Pair (sent_role m)) (parts m)) ?talk)"
    using converse_keeps [of "[]" ?talk parts] nonempty by (simp_all add: alternating_def voiced_def)
  moreover have "converse parts [] ?talk \<noteq> []"
  proof
    assume "converse parts [] ?talk = []"
    with conv(2) have "map (Pair (sent_role m)) (parts m) = []" by (simp add: m voiced_def)
    moreover have "m \<in> set (Req_Messages r)" using m by (metis filter_is_subset list.set_intros(1) subsetD)
    ultimately show False using nonempty by simp
  qed
  ultimately show "messagesToProvider lower (IRRoute_UpstreamModel (Req_Route r)) 0 (Req_Messages r) [] (None, []) = Inr (system, cs) \<Longrightarrow>
      (\<forall>m \<in> set (Req_Messages r). \<forall>c \<in> set (Msg_Content m). expressible c) \<and> cs \<noteq> [] \<and> alternating cs \<and>
      system = foldl instruct None (map parts (filter (\<lambda>m. Msg_Role m = RoleSystem) (Req_Messages r))) \<and>
      voiced cs = concat (map (\<lambda>m. map (Pair (sent_role m)) (parts m)) ?talk)"
    using iff call_name_names [OF valid] by simp
  show "\<forall>m \<in> set (Req_Messages r). \<forall>c \<in> set (Msg_Content m). expressible c \<Longrightarrow>
      \<exists>system cs. messagesToProvider lower (IRRoute_UpstreamModel (Req_Route r)) 0 (Req_Messages r) [] (None, []) = Inr (system, cs)"
    using iff call_name_names [OF valid] by simp
qed

lemma sent_config:
  assumes "valid_request parse r"
  shows "validateGenerationConfig (configured (provider_config r standard)) = Inr ()"
    "Gen_MaxOutputTokens (provider_config r standard) = sent_limit r standard"
    "(case configured (provider_config r standard) of None \<Rightarrow> no_config | Some c \<Rightarrow> c) = provider_config r standard"
  using provider_config_valid [OF assms, of standard]
  by (auto simp: configured_def provider_config_def sent_limit_def no_config_def validateGenerationConfig_def [of None] split: option.splits)

lemma ToProviderRequest_accepts:
  "((\<exists>g. ToProviderRequest lower parse r standard most = Inr g) \<longleftrightarrow> valid_request parse r \<and> for_gemini r standard most)
    \<and> (\<forall>g. ToProviderRequest lower parse r standard most = Inr g \<longrightarrow> gemini_carries lower standard r g)"
proof (cases "valid_request parse r")
  case True
  let ?send = "messagesToProvider lower (IRRoute_UpstreamModel (Req_Route r)) 0 (Req_Messages r) [] (None, [])"
  from True have v: "request_Validate parse r = Inr ()" "\<not> Req_Stream r" and ch: "\<forall>ch. Req_ToolChoice r = Some ch \<longrightarrow> valid_choice (Req_Tools r) ch"
    by (simp_all add: request_valid_iff) (simp_all add: valid_request_def)
  note config = sent_config [OF True, of standard] provider_config_valid [OF True, of standard]
  have step: "ToProviderRequest lower parse r standard most = Inr g \<longleftrightarrow>
      (\<forall>n. sent_limit r standard = Some n \<longrightarrow> most \<le> 0 \<or> n \<le> most) \<and>
      (\<exists>system cs tools tc. ?send = Inr (system, cs) \<and> cs \<noteq> [] \<and> toolsToProvider (Req_Tools r) = Inr tools \<and>
        choiceToProvider (Req_ToolChoice r) = Inr tc \<and>
        g = \<lparr>GCR_Contents = cs, GCR_SystemInstruction = system, GCR_Tools = tools, GCR_ToolConfig = tc,
          GCR_GenerationConfig = configured (provider_config r standard), GCR_SafetySettings = None, GCR_CachedContent = '''', GCR_Labels = None\<rparr>)" for g
    by (auto simp: ToProviderRequest_def Let_def v config not_less not_le split: option.splits)
  have "(\<exists>g. ToProviderRequest lower parse r standard most = Inr g) \<longleftrightarrow> valid_request parse r \<and> for_gemini r standard most"
  proof
    assume "\<exists>g. ToProviderRequest lower parse r standard most = Inr g"
    then show "valid_request parse r \<and> for_gemini r standard most"
      using True sent_parts(1) [OF True, where lower = lower] toolsToProvider_iff choiceToProvider_valid(1) [OF ch]
      unfolding step for_gemini_def by blast
  next
    assume ok: "valid_request parse r \<and> for_gemini r standard most"
    then obtain system cs tools tc where "?send = Inr (system, cs)" "toolsToProvider (Req_Tools r) = Inr tools" "choiceToProvider (Req_ToolChoice r) = Inr tc"
      using sent_parts(2) [OF True, where lower = lower] toolsToProvider_ok [of "Req_Tools r"] choiceToProvider_valid(1) [OF ch] unfolding for_gemini_def by blast
    with sent_parts(1) [OF True, where lower = lower and system = system and cs = cs] ok show "\<exists>g. ToProviderRequest lower parse r standard most = Inr g"
      unfolding step for_gemini_def by blast
  qed
  moreover have "gemini_carries lower standard r g" if "ToProviderRequest lower parse r standard most = Inr g" for g
  proof -
    from that obtain system cs tools tc where *: "?send = Inr (system, cs)" "toolsToProvider (Req_Tools r) = Inr tools" "choiceToProvider (Req_ToolChoice r) = Inr tc"
      and g: "GCR_Contents g = cs" "GCR_SystemInstruction g = system" "GCR_Tools g = tools" "GCR_ToolConfig g = tc"
        "GCR_GenerationConfig g = configured (provider_config r standard)"
        "GCR_SafetySettings g = None" "GCR_CachedContent g = ''''" "GCR_Labels g = None"
      unfolding step by auto
    from sent_parts(1) [OF True *(1)] toolsToProvider_iff [OF *(2)] choiceToProvider_valid(2) [OF ch *(3)]
    show ?thesis
      unfolding gemini_carries_def Let_def g config by (simp add: provider_config_def foldl_instruct)
  qed
  ultimately show ?thesis by blast
next
  case False
  then show ?thesis by (auto simp: ToProviderRequest_def request_valid_iff Let_def)
qed

text \<open>
  C35: The Gemini adapter accepts exactly the well-formed requests that the protocol can express: the token
  limit is within the configured maximum, images carry their data, a tool result is an object or text, no
  tool is strict, and parallel calls are not disabled. What it sends is the whole conversation: every
  content as a part, in order and with its role, with consecutive messages of a role merged; the system
  messages as the system instruction; each tool result under the name of the call it answers; and limits,
  tools and a tool choice that the gateway's own parser reads back as the ones that were asked for.
\<close>

theorem ToProviderRequest_exact:
  "((\<exists>g. ToProviderRequest lower parse r standard most = Inr g) \<longleftrightarrow> valid_request parse r \<and> for_gemini r standard most)
    \<and> (\<forall>g. ToProviderRequest lower parse r standard most = Inr g \<longrightarrow> gemini_carries lower standard r g)"
  by (rule ToProviderRequest_accepts)

theorem ToProviderRequest_exact_witness:
  "\<exists>g. ToProviderRequest id (\<lambda>_. None) (projr (hello lark_route ''req_1'')) 0 0 = Inr g \<and>
     voiced (GCR_Contents g) = [(''user'', no_part\<lparr>P_Text := Some ''hello''\<rparr>)]"
proof -
  let ?r = "projr (hello lark_route ''req_1'')"
  have ms: "Req_Messages ?r = [\<lparr>Msg_Role = RoleUser, Msg_Content = [Content ContentText ''hello'' None None None]\<rparr>]" "for_gemini ?r 0 0"
    by (simp_all add: hello_def lark_route_def for_gemini_def expressible_def sent_limit_def)
  with ToProviderRequest_exact [of id "\<lambda>_. None" ?r 0 0] hello_valid [unfolded request_valid_iff]
  obtain g where "ToProviderRequest id (\<lambda>_. None) ?r 0 0 = Inr g" "gemini_carries id 0 ?r g" by blast
  then show ?thesis by (auto simp: gemini_carries_def Let_def ms(1) provider_part_def call_of_def result_of_def sent_role_def)
qed

text \<open>The same part, as a client sees it: a call has an ID and arguments, and a signature where the model needs one.\<close>

definition same_part :: "(string \<Rightarrow> string) \<Rightarrow> string \<Rightarrow> Part \<Rightarrow> Part \<Rightarrow> bool" where
  "same_part lower model p q \<longleftrightarrow> P_Text q = P_Text p \<and> P_InlineData q = P_InlineData p \<and> partVariantCount q = 1 \<and>
     (case P_FunctionCall p of
        None \<Rightarrow> P_FunctionCall q = None \<and> P_ThoughtSignature q = ''''
      | Some f \<Rightarrow> (\<exists>i. i \<noteq> '''' \<and> (FC_ID f \<noteq> '''' \<longrightarrow> i = FC_ID f) \<and>
          P_FunctionCall q = Some \<lparr>FC_ID = i, FC_Name = FC_Name f, FC_Args = call_arguments (FC_Args f)\<rparr>) \<and>
          P_ThoughtSignature q = call_signature lower model (P_ThoughtSignature p))"

lemma variant_one:
  assumes "partVariantCount part = 1"
  shows "P_Text part \<noteq> None \<Longrightarrow> P_InlineData part = None \<and> P_FunctionCall part = None"
    "P_InlineData part \<noteq> None \<Longrightarrow> P_FunctionCall part = None"
  using assms by (auto simp: partVariantCount_def of_bool_def split: if_splits)

lemma validateInlineData_back:
  "validateInlineData (Some b) = Inr img \<Longrightarrow> Image_URL img = [] \<and>
     validateInlineData (Some \<lparr>Blob_MIMEType = Image_MediaType img, Blob_Data = Image_Data img\<rparr>) = Inr img \<and>
     b = \<lparr>Blob_MIMEType = Image_MediaType img, Blob_Data = Image_Data img\<rparr>"
  by (auto simp: validateInlineData_def)

lemma candidate_part_cases:
  assumes "candidate_part requestID index part = Inr (Some c)"
  obtains t where "P_Text part = Some t" "c = Content ContentText t None None None"
  | b img where "P_InlineData part = Some b" "P_Text part = None" "validateInlineData (Some b) = Inr img" "c = Content ContentImage '''' (Some img) None None"
  | call where "P_FunctionCall part = Some call" "P_Text part = None" "P_InlineData part = None" "isJSONObject (call_arguments (FC_Args call))"
      "c = Content ContentToolCall '''' None (Some \<lparr>TC_ID = (if FC_ID call = '''' then requestID @ ''-call-'' @ decimal index else FC_ID call),
         TC_Name = FC_Name call, TC_Arguments = call_arguments (FC_Args call), TC_Signature = P_ThoughtSignature part\<rparr>) None"
  using assms unfolding candidate_part_def by (auto split: if_splits option.splits)

lemma candidate_part_back:
  assumes "candidate_part requestID index part = Inr (Some c)"
  shows "\<exists>q names. contentToProvider lower c [] model = Inr (q, names) \<and> same_part lower model part q"
proof -
  from assms have one: "partVariantCount part = 1" by (auto simp: candidate_part_def)
  from assms show ?thesis
  proof (cases rule: candidate_part_cases)
    case (1 t)
    with variant_one(1) [OF one] show ?thesis
      by (auto simp: contentToProvider_def same_part_def no_part_def partVariantCount_def)
  next
    case (2 b img)
    with variant_one(2) [OF one] validateInlineData_back [OF 2(3)] show ?thesis
      by (auto simp: contentToProvider_def same_part_def no_part_def partVariantCount_def)
  next
    case (3 call)
    then show ?thesis by (auto simp: contentToProvider_def same_part_def no_part_def partVariantCount_def)
  qed
qed

lemma candidate_part_thought: "candidate_part requestID index part = Inr None \<longleftrightarrow> partVariantCount part = 1 \<and>
    (P_ThoughtSignature part \<noteq> [] \<longrightarrow> P_FunctionCall part \<noteq> None) \<and> P_Thought part = Some True"
  unfolding candidate_part_def by (auto split: option.splits)

lemma candidate_part_shown: "candidate_part requestID index part = Inr (Some c) \<Longrightarrow> P_Thought part \<noteq> Some True"
  unfolding candidate_part_def by (auto split: if_splits)

lemma candidate_parts_back:
  "candidate_parts requestID index parts = Inr cs \<Longrightarrow> \<exists>qs. contentsFromResponse lower model i cs = Inr qs \<and>
     list_all2 (same_part lower model) (filter (\<lambda>p. P_Thought p \<noteq> Some True) parts) qs"
proof (induction parts arbitrary: index cs i)
  case (Cons part parts)
  then obtain content rest where step: "candidate_part requestID index part = Inr content"
    "candidate_parts requestID (Suc index) parts = Inr rest" "cs = (case content of None \<Rightarrow> [] | Some c \<Rightarrow> [c]) @ rest" by auto
  show ?case
  proof (cases content)
    case None
    with step Cons.IH [OF step(2), of i] show ?thesis by (simp add: candidate_part_thought)
  next
    case (Some c)
    with step candidate_part_back [of requestID index part c lower model] candidate_part_shown [of requestID index part c]
      Cons.IH [OF step(2), of "Suc i"] show ?thesis by auto
  qed
qed simp

text \<open>How a finish reason reads to the client.\<close>

definition shown_finish :: "string \<Rightarrow> string" where
  "shown_finish reason = (if reason = '''' then ''STOP'' else if reason \<in> set blocked_reasons then ''SAFETY'' else reason)"

lemma finishReason_back: "finishReasonToIR reason called = Inr finish \<Longrightarrow> finishReasonFromIR finish = Inr (shown_finish reason)"
proof -
  assume "finishReasonToIR reason called = Inr finish"
  moreover have "''STOP'' \<notin> set blocked_reasons" "''MAX_TOKENS'' \<notin> set blocked_reasons" by (simp_all add: blocked_reasons_def)
  ultimately consider "reason = '''' \<or> reason = ''STOP''" "finish = FinishToolCalls \<or> finish = FinishStop" "reason \<notin> set blocked_reasons \<or> reason = ''''"
    | "reason = ''MAX_TOKENS''" "finish = FinishLength" "reason \<notin> set blocked_reasons"
    | "reason \<in> set blocked_reasons" "reason \<noteq> ''''" "finish = FinishContent"
    by (simp add: finishReasonToIR_def split: if_splits) metis+
  then show ?thesis by cases (auto simp: finishReasonFromIR_def shown_finish_def)
qed

definition same_candidate :: "(string \<Rightarrow> string) \<Rightarrow> string \<Rightarrow> GenerateContentResponse \<Rightarrow> Candidate \<Rightarrow> GenerateContentResponse \<Rightarrow> bool" where
  "same_candidate lower model response candidate out \<longleftrightarrow>
     (\<exists>parts. GCS_Candidates out = [\<lparr>Cand_Content = \<lparr>GC_Role = ''model'', GC_Parts = parts\<rparr>,
          Cand_FinishReason = shown_finish (Cand_FinishReason candidate), Cand_Index = 0, Cand_SafetyRatings = []\<rparr>] \<and>
        list_all2 (same_part lower model) (filter (\<lambda>p. P_Thought p \<noteq> Some True) (GC_Parts (Cand_Content candidate))) parts) \<and>
     UM_PromptTokenCount (GCS_UsageMetadata out) = UM_PromptTokenCount (GCS_UsageMetadata response) \<and>
     UM_CandidatesTokenCount (GCS_UsageMetadata out) =
       wrap64 (UM_CandidatesTokenCount (GCS_UsageMetadata response) + UM_ThoughtsTokenCount (GCS_UsageMetadata response)) \<and>
     UM_CachedContentTokenCount (GCS_UsageMetadata out) = UM_CachedContentTokenCount (GCS_UsageMetadata response) \<and>
     (GCS_ResponseID response \<noteq> '''' \<longrightarrow> GCS_ResponseID out = GCS_ResponseID response)"

text \<open>
  C36: A Gemini response passes through the gateway. When the adapter accepts a provider response with a
  candidate, the gateway answers the client with one candidate of the same parts in order, thoughts left
  out: the same text, image data and function calls (each with its ID, or one that is made up when the
  provider gives none, and its signature), the same finish reason up to the kind of block, and the same
  token counts, with thoughts counted as output. A blocked prompt becomes an empty answer that was stopped
  by the content filter.
\<close>

theorem gemini_response_roundtrip:
  assumes ir: "gemini_ToIRResponse parse response request = Inr result" and model: "TrimSpace requestedModel \<noteq> ''''"
  shows "case GCS_Candidates response of
      [candidate] \<Rightarrow> \<exists>out. gemini_FromIRResponse lower parse result requestedModel = Inr out \<and>
        same_candidate lower (Resp_Model result) response candidate out
    | _ \<Rightarrow> Resp_Content result = [] \<and> Resp_FinishReason result = FinishContent"
proof (cases "\<exists>candidate. GCS_Candidates response = [candidate]")
  case True
  then obtain candidate where candidate: "GCS_Candidates response = [candidate]" ..
  let ?u = "GCS_UsageMetadata response"
  from ir candidate obtain cs finish where parts: "candidate_parts (Req_ID request) 0 (GC_Parts (Cand_Content candidate)) = Inr cs"
    and finish: "finishReasonToIR (Cand_FinishReason candidate) (list_ex (\<lambda>c. C_Type c = ContentToolCall) cs) = Inr finish"
    and fields: "Resp_Content result = cs" "Resp_FinishReason result = finish" "Resp_ProviderResponseID result = GCS_ResponseID response"
      "Resp_Usage result = \<lparr>Usage_InputTokens = UM_PromptTokenCount ?u, Usage_OutputTokens = wrap64 (UM_CandidatesTokenCount ?u + UM_ThoughtsTokenCount ?u),
         Usage_CacheCreationInputTokens = 0, Usage_CachedInputTokens = UM_CachedContentTokenCount ?u\<rparr>"
    and valid: "response_Validate parse result = Inr ()"
    by (auto simp: gemini_ToIRResponse_def Let_def)
  from candidate_parts_back [OF parts, of lower "Resp_Model result" 0] obtain qs where
    "contentsFromResponse lower (Resp_Model result) 0 cs = Inr qs"
    "list_all2 (same_part lower (Resp_Model result)) (filter (\<lambda>p. P_Thought p \<noteq> Some True) (GC_Parts (Cand_Content candidate))) qs" by blast
  with model valid finishReason_back [OF finish] show ?thesis
    by (simp add: candidate gemini_FromIRResponse_def Let_def fields same_candidate_def)
next
  case False
  with ir show ?thesis by (auto simp: gemini_ToIRResponse_def Let_def split: list.splits option.splits)
qed

definition lark_answer :: GenerateContentResponse where
  "lark_answer = \<lparr>GCS_Candidates = [\<lparr>Cand_Content = \<lparr>GC_Role = ''model'', GC_Parts = [no_part\<lparr>P_Text := Some ''hi''\<rparr>]\<rparr>, Cand_FinishReason = ''STOP'',
       Cand_Index = 0, Cand_SafetyRatings = []\<rparr>], GCS_PromptFeedback = None,
     GCS_UsageMetadata = \<lparr>UM_PromptTokenCount = 3, UM_CandidatesTokenCount = 5, UM_TotalTokenCount = 9, UM_CachedContentTokenCount = 2, UM_ThoughtsTokenCount = 1\<rparr>,
     GCS_ModelVersion = '''', GCS_ResponseID = ''r_1''\<rparr>"

theorem gemini_response_roundtrip_witness:
  "\<exists>result out. gemini_ToIRResponse (\<lambda>_. None) lark_answer (projr (hello lark_route ''req_1'')) = Inr result \<and>
     gemini_FromIRResponse id (\<lambda>_. None) result ''lark'' = Inr out \<and> UM_CandidatesTokenCount (GCS_UsageMetadata out) = 6 \<and> GCS_ResponseID out = ''r_1''"
proof -
  let ?request = "projr (hello lark_route ''req_1'')"
  let ?result = "projr (gemini_ToIRResponse (\<lambda>_. None) lark_answer ?request)"
  have ir: "gemini_ToIRResponse (\<lambda>_. None) lark_answer ?request = Inr ?result"
    by (simp add: gemini_ToIRResponse_def lark_answer_def hello_def lark_route_def no_part_def candidate_part_def partVariantCount_def finishReasonToIR_def
        response_Validate_def fail_if_def wrap64_def)
  have model: "TrimSpace ''lark'' \<noteq> ''''" by code_simp
  from gemini_response_roundtrip [OF ir model, of id] ir
  show ?thesis by (auto simp: same_candidate_def lark_answer_def wrap64_def)
qed

end
