(* ===== verification/Portable.thy ===== *)
theory Portable
  imports Anthropic OpenAI_Responses Gemini
begin

text \<open>
  The four gateways against the four adapters. The locale \<open>gateway_translation\<close> is what a gateway's
  translation promises; each of the four satisfies it, so what a gateway accepts may be sent to any
  adapter, which then only refuses what its protocol cannot express. A request that comes in and goes out
  in the same protocol always passes, up to the adapter's token limits.
\<close>

section \<open>What a gateway's translation promises\<close>

locale gateway_translation =
  fixes parse :: url_parser and translate :: "'request \<Rightarrow> Translator"
  assumes translation_valid: "translate request route requestID = Inr r \<Longrightarrow> request_Validate parse r = Inr ()"
    and translation_routed: "translate request route requestID = Inr r \<Longrightarrow> Req_ID r = requestID \<and>
      Req_Route r = \<lparr>IRRoute_ProviderID = Route_ProviderID route, IRRoute_UpstreamModel = Route_UpstreamModel route\<rparr>"
    and translation_bare: "translate request route requestID = Inr r \<Longrightarrow> Req_Metadata r = []"
begin

lemma portable: "translate request route requestID = Inr r \<Longrightarrow> valid_request parse r \<and> Req_Metadata r = []"
  using translation_valid translation_bare by (simp add: request_valid_iff)

lemma sends: "sendable parse allowed routed requestID (translate request) app r \<longleftrightarrow>
    (\<exists>auth route. allowed auth \<and> routed route \<and> app = Route_AdapterAppID route \<and> translate request route requestID = Inr r)"
  using portable by (auto simp: sendable_def)

lemma to_anthropic: "translate request route requestID = Inr r \<Longrightarrow> (\<exists>m. ToMessageRequest parse rt r standard most = Inr m) \<longleftrightarrow>
    0 < resolved_tokens r standard \<and> (0 < most \<longrightarrow> resolved_tokens r standard \<le> most)"
  using portable ToMessageRequest_accepts [of parse rt r standard most] by simp

lemma to_chat: "translate request route requestID = Inr r \<Longrightarrow> (\<exists>m. ToChatRequest T parse r = Inr m) \<longleftrightarrow> text_results (Req_Messages r)"
  using portable ToChatRequest_accepts [of T parse r] by simp

lemma to_responses: "translate request route requestID = Inr r \<Longrightarrow> (\<exists>p. responses_ToProviderRequest T parse r = Inr p) \<longleftrightarrow> for_responses r"
  using portable responses_accepts [of T parse r] by simp

lemma to_gemini: "translate request route requestID = Inr r \<Longrightarrow> (\<exists>g. ToProviderRequest lower parse r standard most = Inr g) \<longleftrightarrow> for_gemini r standard most"
  using portable ToProviderRequest_accepts [of lower parse r standard most] by simp

lemma reaches:
  assumes "translate request route requestID = Inr r"
  shows "valid_request parse r \<and> Req_ID r = requestID \<and>
    Req_Route r = \<lparr>IRRoute_ProviderID = Route_ProviderID route, IRRoute_UpstreamModel = Route_UpstreamModel route\<rparr> \<and>
    ((\<exists>m. ToMessageRequest parse rt r standard most = Inr m) \<longleftrightarrow> 0 < resolved_tokens r standard \<and> (0 < most \<longrightarrow> resolved_tokens r standard \<le> most)) \<and>
    ((\<exists>m. ToChatRequest T parse r = Inr m) \<longleftrightarrow> text_results (Req_Messages r)) \<and>
    ((\<exists>p. responses_ToProviderRequest T parse r = Inr p) \<longleftrightarrow> for_responses r) \<and>
    ((\<exists>g. ToProviderRequest lower parse r standard most = Inr g) \<longleftrightarrow> for_gemini r standard most)"
  using portable [OF assms] translation_routed [OF assms] to_anthropic [OF assms] to_chat [OF assms] to_responses [OF assms] to_gemini [OF assms] by simp

end

section \<open>The four gateways\<close>

lemma relabel_Inr_iff [simp]: "case_sum (\<lambda>err. Inl (f err)) Inr x = Inr y \<longleftrightarrow> x = Inr y"
  by (cases x) auto

interpretation anthropic: gateway_translation parse "ToIRRequest parse" for parse
  by unfold_locales (auto simp: ToIRRequest_def Let_def)

interpretation chat: gateway_translation parse "chat_ToIR T parse" for T parse
  by unfold_locales (auto simp: chat_ToIR_def Let_def)

interpretation responses: gateway_translation parse "responses_ToIR T parse" for T parse
  by unfold_locales (auto simp: responses_ToIR_def Let_def)

interpretation gemini: gateway_translation parse "\<lambda>(request, model). gemini_ToIRRequest parse request model" for parse
  by unfold_locales (auto simp: gemini_ToIRRequest_def Let_def)

section \<open>Requests that stay in their protocol\<close>

subsection \<open>OpenAI Chat: the content of a tool message is text\<close>

lemma parse_parts_kinds:
  "parse_parts parse role index parts = Inr cs \<Longrightarrow> c \<in> set cs \<Longrightarrow> result_of c = None \<and> (role \<noteq> ''user'' \<longrightarrow> C_Type c = ContentText)"
proof (induction parts arbitrary: index cs)
  case (Cons part parts)
  then obtain d rest where cs: "cs = d # rest" and rest: "parse_parts parse role (Suc index) parts = Inr rest"
    and d: "C_Type d = ContentText \<or> C_Type d = ContentImage \<and> role = ''user''"
    by (auto split: if_splits option.splits)
  from d have "result_of d = None \<and> (role \<noteq> ''user'' \<longrightarrow> C_Type d = ContentText)" by (auto simp: result_of_def)
  with Cons.IH [OF rest] Cons.prems(2) show ?case by (auto simp: cs)
qed simp

lemma parseContent_kinds:
  assumes "parseContent parse raw role = Inr cs" "c \<in> set cs"
  shows "result_of c = None \<and> (role \<noteq> ''user'' \<longrightarrow> C_Type c = ContentText)"
proof -
  have "cs = [] \<or> (\<exists>s. cs = [Content ContentText s None None None]) \<or> (\<exists>parts. parse_parts parse role 0 parts = Inr cs)"
  proof (cases raw)
    case (Some j)
    with assms(1) show ?thesis by (cases j) (simp_all add: parseContent_def, metis+)
  qed (use assms(1) in \<open>simp add: parseContent_def\<close>)
  then show ?thesis using assms(2) parse_parts_kinds [of parse role 0 _ cs c] by (elim disjE exE) (simp_all add: result_of_def)
qed

lemma no_results: "results cs = [] \<longleftrightarrow> (\<forall>c \<in> set cs. result_of c = None)"
  by (auto simp: List.map_filter_def filter_empty_conv)

lemma chat_tool_calls_kinds: "chat_tool_calls T m i tcs names = Inr (cs, names') \<Longrightarrow> results cs = []"
proof (induction tcs arbitrary: i names cs names')
  case (Cons call tcs)
  then obtain rest where rest: "chat_tool_calls T m (Suc i) tcs ((CTC_ID call, TF_Name (CTC_Function call)) # names) = Inr (rest, names')"
    "cs = Content ContentToolCall '''' None
      (Some \<lparr>TC_ID = CTC_ID call, TC_Name = TF_Name (CTC_Function call), TC_Arguments = JT_value T (TF_Arguments (CTC_Function call)), TC_Signature = ''''\<rparr>) None # rest"
    by (auto simp: Let_def)
  from Cons.IH [OF rest(1)] show ?case by (simp add: rest(2) map_filter_Cons result_of_def)
qed (simp add: List.map_filter_def)

lemma chatMessage_text_results:
  assumes "chatMessage T parse index message names = Inr (m, names')"
  shows "text_results [m]"
proof -
  define role where "role = (if CH_Role message = ''developer'' then RoleSystem else CH_Role message)"
  from assms obtain cs where cs: "parseContent parse (CH_Content message) role = Inr cs"
    unfolding chatMessage_def Let_def role_def by (simp only: ebind_Inr_iff relabel_Inr_iff) blast
  have kinds: "\<forall>c \<in> set cs. result_of c = None \<and> (role \<noteq> ''user'' \<longrightarrow> C_Type c = ContentText)" using parseContent_kinds [OF cs] by blast
  then have none: "results cs = []" by (simp add: no_results)
  consider (tool) "role = RoleTool" | (assistant) "role = RoleAssistant" | (other) "role \<noteq> RoleTool" "role \<noteq> RoleAssistant" by blast
  then show ?thesis
  proof cases
    case tool
    with assms cs obtain name where "Msg_Content m = [Content ContentToolResult '''' None None (Some (ToolResult (CH_ToolCallID message) name cs None False))]"
      unfolding chatMessage_def Let_def role_def [symmetric] by (simp split: option.splits) fastforce
    with kinds tool show ?thesis by (simp add: text_results_def map_filter_Cons result_of_def List.map_filter_def [of _ "[]"])
  next
    case assistant
    with assms cs obtain tcs names'' where "chat_tool_calls T index 0 (CH_ToolCalls message) names = Inr (tcs, names'')" "Msg_Content m = cs @ tcs"
      unfolding chatMessage_def Let_def role_def [symmetric] by (cases "chat_tool_calls T index 0 (CH_ToolCalls message) names") auto
    with none chat_tool_calls_kinds show ?thesis by (simp add: text_results_def map_filter_append)
  next
    case other
    with assms cs have "Msg_Content m = cs" unfolding chatMessage_def Let_def role_def [symmetric] by auto
    with none show ?thesis by (simp add: text_results_def)
  qed
qed

lemma chatMessages_text_results: "chatMessages T parse index messages names = Inr ms \<Longrightarrow> text_results ms"
proof (induction messages arbitrary: index names ms)
  case (Cons message messages)
  then obtain m names' rest where "chatMessage T parse index message names = Inr (m, names')" "chatMessages T parse (Suc index) messages names' = Inr rest" "ms = m # rest"
    by auto
  with Cons.IH chatMessage_text_results show ?case by (fastforce simp: text_results_def)
qed (simp add: text_results_def)

lemma chat_text_results: "chat_ToIR T parse request route requestID = Inr r \<Longrightarrow> text_results (Req_Messages r)"
  by (auto simp: chat_ToIR_def Let_def dest: chatMessages_text_results)

subsection \<open>OpenAI Responses: no stop sequences and no error results\<close>

lemma input_part_kind: "input_part parse role param raw = Inr c \<Longrightarrow> result_of c = None"
  unfolding input_part_def input_image_def Let_def result_of_def by (auto split: if_splits)

lemma input_parts_kinds: "input_parts parse role param index raws = Inr cs \<Longrightarrow> results cs = []"
proof (induction raws arbitrary: index cs)
  case (Cons raw raws)
  then obtain c rest where "input_part parse role (param @ ''.'' @ decimal index) raw = Inr c" "input_parts parse role param (Suc index) raws = Inr rest" "cs = c # rest"
    by auto
  with Cons.IH input_part_kind show ?case by (auto simp: map_filter_Cons)
qed (simp add: List.map_filter_def)

lemma parseInputContent_kinds: "parseInputContent parse raw role param = Inr cs \<Longrightarrow> results cs = []"
proof (cases raw)
  case (Some j)
  assume "parseInputContent parse raw role param = Inr cs"
  with Some show ?thesis
    by (cases j) (simp_all add: parseInputContent_def type_error_def, auto simp: result_of_def map_filter_Cons List.map_filter_def [of _ "[]"] dest: input_parts_kinds)
qed (simp add: parseInputContent_def)

lemma input_item_no_error:
  assumes "input_item T parse param raw names = Inr (m, names')"
  shows "no_error_results [m]"
proof -
  obtain item where "decode_InputItem raw = Inr item" using assms unfolding input_item_def by (simp only: ebind_Inr_iff relabel_Inr_iff) blast
  with assms have "message_item parse param item = Inr m \<or> call_item T param item names = Inr (m, names') \<or> output_item T parse param item names = Inr m"
    by (simp add: input_item_def split: if_splits) (elim conjE, simp)
  then consider (message) cs role where "results cs = []" "m = \<lparr>Msg_Role = role, Msg_Content = cs\<rparr>"
    | (call) call where "Msg_Content m = [Content ContentToolCall '''' None (Some call) None]"
    | (answer) i n cs res where "Msg_Content m = [Content ContentToolResult '''' None None (Some (ToolResult i n cs res False))]"
  proof (elim disjE)
    assume "message_item parse param item = Inr m"
    then obtain role where "parseInputContent parse (II_Content item) role (param @ ''.content'') = Inr (Msg_Content m)"
      unfolding message_item_def Let_def by (simp only: ebind_Inr_iff) auto
    then have "results (Msg_Content m) = []" by (rule parseInputContent_kinds)
    then show thesis using message [of "Msg_Content m" "Msg_Role m"] by simp
  next
    assume "call_item T param item names = Inr (m, names')"
    then show thesis using call unfolding call_item_def Let_def by auto
  next
    assume "output_item T parse param item names = Inr m"
    then show thesis using answer unfolding output_item_def by (auto split: option.splits)
  qed
  then show ?thesis
    by cases (simp_all add: no_error_results_def map_filter_Cons result_of_def List.map_filter_def [of _ "[]"])
qed

lemma input_items_no_error: "input_items T parse index raws names = Inr ms \<Longrightarrow> no_error_results ms"
proof (induction raws arbitrary: index names ms)
  case (Cons raw raws)
  then obtain m names' rest where "input_item T parse (''input.'' @ decimal index) raw names = Inr (m, names')"
    "input_items T parse (Suc index) raws names' = Inr rest" "ms = m # rest" by auto
  with Cons.IH input_item_no_error show ?case by (fastforce simp: no_error_results_def)
qed (simp add: no_error_results_def)

lemma input_messages_no_error: "input_messages T parse input = Inr ms \<Longrightarrow> no_error_results ms"
proof (cases input)
  case (Some j)
  assume "input_messages T parse input = Inr ms"
  with Some show ?thesis
    by (cases j) (auto simp: input_messages_def type_error_def no_error_results_def [of "[_]"] map_filter_Cons result_of_def List.map_filter_def [of _ "[]"]
        dest: input_items_no_error)
qed (simp add: input_messages_def)

lemma instruction_messages_no_error: "instruction_messages raw = Inr ms \<Longrightarrow> no_error_results ms"
  by (auto simp: instruction_messages_def no_error_results_def map_filter_Cons result_of_def List.map_filter_def [of _ "[]"]
      split: if_splits option.splits json.splits)

lemma responses_native:
  assumes "responses_ToIR T parse request route requestID = Inr r"
  shows "for_responses r"
proof -
  from assms obtain ins ms where "instruction_messages (CrR_Instructions request) = Inr ins" "input_messages T parse (CrR_Input request) = Inr ms"
    "Req_Messages r = ins @ ms" and rest: "Req_Stop r = []" "Req_Metadata r = []" "Req_MaxOutputTokens r = CrR_MaxOutputTokens request"
      "\<forall>n. CrR_MaxOutputTokens request = Some n \<longrightarrow> 16 \<le> n"
    by (auto simp: responses_ToIR_def Let_def not_less split: option.splits)
  then have "no_error_results (Req_Messages r)"
    using instruction_messages_no_error input_messages_no_error by (fastforce simp: no_error_results_def)
  with rest show ?thesis by (simp add: for_responses_def)
qed

subsection \<open>Gemini: every content is expressible\<close>

lemma text_expressible: "expressible (Content ContentText t None None None)"
  by (simp add: expressible_def)

lemma system_parts_expressible: "system_parts index parts = Inr cs \<Longrightarrow> \<forall>c \<in> set cs. expressible c"
  by (induction parts arbitrary: index cs) (auto simp: text_expressible split: option.splits)

lemma system_message_expressible: "system_message instruction = Inr ms \<Longrightarrow> \<forall>m \<in> set ms. \<forall>c \<in> set (Msg_Content m). expressible c"
  using system_parts_expressible by (auto simp: system_message_def split: option.splits)

lemma validateInlineData_inline: "validateInlineData blob = Inr img \<Longrightarrow> Image_URL img = []"
  by (auto simp: validateInlineData_def split: option.splits)

lemma gemini_call_expressible: "gemini_call field fallback role call signature pending = Inr (c, pending') \<Longrightarrow> expressible c"
  by (auto simp: gemini_call_def Let_def expressible_def)

lemma gemini_response_expressible: "gemini_response field response pending = Inr (c, pending') \<Longrightarrow> expressible c"
  by (auto simp: gemini_response_def expressible_def)

lemma gemini_part_expressible:
  assumes "gemini_part field fallback role containsResponse part pending = Inr (c, pending')"
  shows "expressible c"
proof -
  consider t where "c = Content ContentText t None None None" | img where "Image_URL img = []" "c = Content ContentImage '''' (Some img) None None"
    | call where "gemini_call field fallback role call (P_ThoughtSignature part) pending = Inr (c, pending')"
    | response where "gemini_response field response pending = Inr (c, pending')"
    using assms validateInlineData_inline unfolding gemini_part_def Let_def by (auto split: option.splits if_splits)
  then show ?thesis by cases (auto simp: expressible_def dest: gemini_call_expressible gemini_response_expressible)
qed

lemma gemini_parts_expressible:
  "gemini_parts requestID m i role containsResponse parts pending = Inr (cs, pending') \<Longrightarrow> \<forall>c \<in> set cs. expressible c"
proof (induction parts arbitrary: i pending cs pending')
  case (Cons part parts)
  then obtain c p1 rest where *: "gemini_part (''contents.'' @ decimal m @ ''.parts.'' @ decimal i) (requestID @ ''-call-'' @ decimal m @ ''-'' @ decimal i)
      role containsResponse part pending = Inr (c, p1)" "gemini_parts requestID m (Suc i) role containsResponse parts p1 = Inr (rest, pending')" "cs = c # rest"
    by (simp only: gemini_parts.simps ebind_Inr_iff split_beta sum.inject prod.inject) (metis prod.collapse)
  from Cons.IH [OF *(2)] gemini_part_expressible [OF *(1)] *(3) show ?case by simp
qed simp

lemma gemini_messages_expressible:
  "gemini_messages requestID index cts pending = Inr ms \<Longrightarrow> \<forall>m \<in> set ms. \<forall>c \<in> set (Msg_Content m). expressible c"
proof (induction cts arbitrary: index pending ms)
  case (Cons content cts)
  then obtain m p1 rest where *: "gemini_message requestID index content pending = Inr (m, p1)" "gemini_messages requestID (Suc index) cts p1 = Inr rest" "ms = m # rest"
    by auto
  from *(1) have "\<forall>c \<in> set (Msg_Content m). expressible c"
    unfolding gemini_message_def Let_def by (auto dest!: gemini_parts_expressible)
  with Cons.IH [OF *(2)] *(3) show ?case by simp
qed simp

lemma gemini_declarations_lax: "gemini_declarations i j ds names = Inr (tools, names') \<Longrightarrow> \<forall>tool \<in> set tools. Tool_Strict tool = None"
  by (induction ds arbitrary: j names tools names') (auto simp: Let_def)

lemma gemini_tools_lax: "gemini_tools i tools names = Inr ts \<Longrightarrow> \<forall>tool \<in> set ts. Tool_Strict tool = None"
proof (induction tools arbitrary: i names ts)
  case (Cons tool tools)
  then obtain ds names' rest where *: "gemini_declarations i 0 (GT_FunctionDeclarations tool) names = Inr (ds, names')"
    "gemini_tools (Suc i) tools names' = Inr rest" "ts = ds @ rest" by auto
  from Cons.IH [OF *(2)] gemini_declarations_lax [OF *(1)] *(3) show ?case by auto
qed simp

lemma gemini_tool_choice_parallel: "gemini_tool_choice toolConfig tools = Inr (Some ch) \<Longrightarrow> \<not> Choice_DisableParallel ch"
  by (auto simp: gemini_tool_choice_def Let_def split: option.splits if_splits list.splits)

lemma gemini_native:
  assumes "gemini_ToIRRequest parse request model route requestID = Inr r"
  shows "for_gemini r standard most \<longleftrightarrow> (\<forall>n. sent_limit r standard = Some n \<longrightarrow> most \<le> 0 \<or> n \<le> most)"
proof -
  from assms obtain sys ms where *: "system_message (GCR_SystemInstruction request) = Inr sys" "gemini_messages requestID 0 (GCR_Contents request) (\<lambda>_. []) = Inr ms"
    "gemini_tools 0 (GCR_Tools request) [] = Inr (Req_Tools r)" "gemini_tool_choice (GCR_ToolConfig request) (Req_Tools r) = Inr (Req_ToolChoice r)" "Req_Messages r = sys @ ms"
    by (auto simp: gemini_ToIRRequest_def Let_def)
  from system_message_expressible [OF *(1)] gemini_messages_expressible [OF *(2)] gemini_tools_lax [OF *(3)] *(4,5) show ?thesis
    by (auto simp: for_gemini_def dest: gemini_tool_choice_parallel)
qed

section \<open>Properties\<close>

definition gateway_accepts :: "JSONText \<Rightarrow> url_parser \<Rightarrow> Route \<Rightarrow> string \<Rightarrow> IRRequest \<Rightarrow> bool" where
  "gateway_accepts T parse route requestID r \<longleftrightarrow>
     (\<exists>request. ToIRRequest parse request route requestID = Inr r) \<or> (\<exists>request. chat_ToIR T parse request route requestID = Inr r) \<or>
     (\<exists>request. responses_ToIR T parse request route requestID = Inr r) \<or> (\<exists>request model. gemini_ToIRRequest parse request model route requestID = Inr r)"

text \<open>
  C20: Every gateway can route to every adapter. A request that any of the four gateways accepts is well
  formed, carries the request ID and goes to the route's provider and model. Each of the four adapters
  accepts it, except for what its protocol cannot express: Anthropic needs a token limit within the
  adapter's bounds; OpenAI Chat needs tool results that are text; OpenAI Responses has no stop sequences,
  no limit below 16 and no error results; Gemini has the limit, inline images, no strict tools, and
  parallel calls.
\<close>

theorem gateways_reach_adapters:
  assumes "gateway_accepts T parse route requestID r"
  shows "valid_request parse r \<and> Req_ID r = requestID \<and>
    Req_Route r = \<lparr>IRRoute_ProviderID = Route_ProviderID route, IRRoute_UpstreamModel = Route_UpstreamModel route\<rparr> \<and>
    ((\<exists>m. ToMessageRequest parse rt r standard most = Inr m) \<longleftrightarrow> 0 < resolved_tokens r standard \<and> (0 < most \<longrightarrow> resolved_tokens r standard \<le> most)) \<and>
    ((\<exists>m. ToChatRequest T parse r = Inr m) \<longleftrightarrow> text_results (Req_Messages r)) \<and>
    ((\<exists>p. responses_ToProviderRequest T parse r = Inr p) \<longleftrightarrow> for_responses r) \<and>
    ((\<exists>g. ToProviderRequest lower parse r standard most = Inr g) \<longleftrightarrow> for_gemini r standard most)"
proof -
  from assms consider a where "ToIRRequest parse a route requestID = Inr r" | c where "chat_ToIR T parse c route requestID = Inr r"
    | p where "responses_ToIR T parse p route requestID = Inr r" | g model where "gemini_ToIRRequest parse g model route requestID = Inr r"
    unfolding gateway_accepts_def by blast
  then show ?thesis
  proof cases
    case (1 a)
    show ?thesis by (rule anthropic.reaches [OF 1])
  next
    case (2 c)
    show ?thesis by (rule chat.reaches [OF 2])
  next
    case (3 p)
    show ?thesis by (rule responses.reaches [OF 3])
  next
    case (4 g model)
    then show ?thesis using gemini.reaches [of parse "(g, model)"] by simp
  qed
qed

text \<open>
  C21: A request that stays in its protocol passes. What a gateway accepts, the adapter of the same protocol
  accepts: always for the two OpenAI protocols, and exactly within the adapter's maximum for Anthropic and
  Gemini.
\<close>

theorem native_requests_pass:
  "(ToIRRequest parse a route requestID = Inr ra \<longrightarrow>
      ((\<exists>m. ToMessageRequest parse rt ra standard most = Inr m) \<longleftrightarrow> most \<le> 0 \<or> CMR_MaxTokens a \<le> most)) \<and>
   (chat_ToIR T parse c route requestID = Inr rc \<longrightarrow> (\<exists>m. ToChatRequest T parse rc = Inr m)) \<and>
   (responses_ToIR T parse p route requestID = Inr rp \<longrightarrow> (\<exists>m. responses_ToProviderRequest T parse rp = Inr m)) \<and>
   (gemini_ToIRRequest parse g model route requestID = Inr rg \<longrightarrow>
      ((\<exists>m. ToProviderRequest lower parse rg standard most = Inr m) \<longleftrightarrow> (\<forall>n. sent_limit rg standard = Some n \<longrightarrow> most \<le> 0 \<or> n \<le> most)))"
proof (intro conjI impI)
  assume a: "ToIRRequest parse a route requestID = Inr ra"
  then have "resolved_tokens ra standard = CMR_MaxTokens a" "0 < CMR_MaxTokens a"
    by (auto simp: ToIRRequest_def Let_def resolved_tokens_def)
  with anthropic.to_anthropic [OF a] show "(\<exists>m. ToMessageRequest parse rt ra standard most = Inr m) \<longleftrightarrow> most \<le> 0 \<or> CMR_MaxTokens a \<le> most"
    by auto
next
  assume c: "chat_ToIR T parse c route requestID = Inr rc"
  show "\<exists>m. ToChatRequest T parse rc = Inr m" using chat.to_chat [OF c] chat_text_results [OF c] by simp
next
  assume p: "responses_ToIR T parse p route requestID = Inr rp"
  show "\<exists>m. responses_ToProviderRequest T parse rp = Inr m" using responses.to_responses [OF p] responses_native [OF p] by simp
next
  assume g: "gemini_ToIRRequest parse g model route requestID = Inr rg"
  show "(\<exists>m. ToProviderRequest lower parse rg standard most = Inr m) \<longleftrightarrow> (\<forall>n. sent_limit rg standard = Some n \<longrightarrow> most \<le> 0 \<or> n \<le> most)"
    using gemini.to_gemini [of parse "(g, model)"] gemini_native [OF g] g by simp
qed

text \<open>One question in the four protocols, which is the same request in each.\<close>

definition anthropic_hello :: ClientMessageRequest where
  "anthropic_hello = \<lparr>CMR_Model = ''lark'', CMR_MaxTokens = 16, CMR_Messages = [\<lparr>CM_Role = ''user'', CM_Content = Some (JStr ''hello'')\<rparr>],
     CMR_System = None, CMR_Temperature = None, CMR_TopP = None, CMR_StopSequences = [], CMR_Tools = [], CMR_ToolChoice = None, CMR_Stream = False,
     CMR_TopK = None, CMR_Metadata = None, CMR_ServiceTier = '''', CMR_Thinking = None, CMR_OutputConfig = None\<rparr>"

definition chat_hello :: ChatCompletionRequest where
  "chat_hello = \<lparr>CCR_Model = ''lark'',
     CCR_Messages = [\<lparr>CH_Role = ''user'', CH_Content = Some (JStr ''hello''), CH_Name = '''', CH_ToolCalls = [], CH_ToolCallID = ''''\<rparr>],
     CCR_MaxCompletionTokens = Some 16, CCR_MaxTokens = None, CCR_Temperature = None, CCR_TopP = None, CCR_Stop = None, CCR_Tools = [],
     CCR_ToolChoice = None, CCR_N = None, CCR_Stream = False, CCR_StreamOptions = None, CCR_FrequencyPenalty = None, CCR_PresencePenalty = None,
     CCR_Logprobs = None, CCR_TopLogprobs = None, CCR_LogitBias = None, CCR_ResponseFormat = None, CCR_Seed = None, CCR_User = '''',
     CCR_Metadata = [], CCR_ParallelToolCalls = None\<rparr>"

definition responses_hello :: CreateRequest where
  "responses_hello = \<lparr>CrR_Model = ''lark'', CrR_Input = Some (JStr ''hello''), CrR_Instructions = None, CrR_MaxOutputTokens = Some 16,
     CrR_Temperature = None, CrR_TopP = None, CrR_Tools = [], CrR_ToolChoice = None, CrR_ParallelToolCalls = None, CrR_Stream = None, CrR_Store = None,
     CrR_PreviousResponseID = '''', CrR_Conversation = None, CrR_Reasoning = None, CrR_Text = None, CrR_Metadata = [], CrR_Include = [],
     CrR_Background = None, CrR_Truncation = '''', CrR_Prompt = None, CrR_MaxToolCalls = None, CrR_SafetyIdentifier = '''', CrR_PromptCacheKey = '''',
     CrR_ServiceTier = '''', CrR_User = '''', CrR_TopLogprobs = None, CrR_StreamOptions = None\<rparr>"

definition gemini_hello :: GenerateContentRequest where
  "gemini_hello = \<lparr>GCR_Contents = [\<lparr>GC_Role = '''', GC_Parts = [no_part\<lparr>P_Text := Some ''hello''\<rparr>]\<rparr>], GCR_SystemInstruction = None, GCR_Tools = [],
     GCR_ToolConfig = None, GCR_GenerationConfig = Some (no_config\<lparr>Gen_MaxOutputTokens := Some 16\<rparr>), GCR_SafetySettings = None,
     GCR_CachedContent = '''', GCR_Labels = None\<rparr>"

lemma trim_lark: "TrimSpace ''lark'' = ''lark''" by code_simp

lemma hello_result:
  "request_Validate parse \<lparr>Req_Version = Version, Req_ID = ''req_1'',
     Req_Route = \<lparr>IRRoute_ProviderID = Route_ProviderID lark_route, IRRoute_UpstreamModel = Route_UpstreamModel lark_route\<rparr>,
     Req_Messages = [\<lparr>Msg_Role = RoleUser, Msg_Content = [Content ContentText ''hello'' None None None]\<rparr>],
     Req_MaxOutputTokens = Some 16, Req_Temperature = None, Req_TopP = None, Req_Stop = [], Req_Tools = [],
     Req_ToolChoice = None, Req_Metadata = [], Req_Stream = False\<rparr> = Inr ()"
  using hello_valid [of parse] by (simp add: hello_def)

lemma hello_anthropic: "ToIRRequest parse anthropic_hello lark_route ''req_1'' = Inr (projr (hello lark_route ''req_1''))"
  by (simp add: ToIRRequest_def anthropic_hello_def trim_lark outside_unit_def parseSystem_def parseClientBlocks.simps clientToolChoice_def hello_result hello_def)

lemma hello_chat: "chat_ToIR T parse chat_hello lark_route ''req_1'' = Inr (projr (hello lark_route ''req_1''))"
  by (simp add: chat_ToIR_def chat_hello_def trim_lark unsupported_members_def chat_limits_def outside_unit_def parseStop_def chatMessage_def parseContent_def
      chat_tool_choice_def parseToolChoice_def hello_result hello_def)

lemma hello_responses: "responses_ToIR T parse responses_hello lark_route ''req_1'' = Inr (projr (hello lark_route ''req_1''))"
  by (simp add: responses_ToIR_def responses_hello_def trim_lark rejectUnsupported_def outside_unit_def instruction_messages_def input_messages_def
      responses_tool_choice_def responses_parseToolChoice_def hello_result hello_def)

lemma hello_gemini: "gemini_ToIRRequest parse gemini_hello ''lark'' lark_route ''req_1'' = Inr (projr (hello lark_route ''req_1''))"
  by (simp add: gemini_ToIRRequest_def gemini_hello_def trim_lark validateGenerationConfig_def no_config_def no_part_def outside_unit_def system_message_def
      gemini_message_def gemini_part_def partVariantCount_def gemini_tool_choice_def hello_result hello_def)

theorem gateways_reach_adapters_witness:
  "gateway_accepts tally_text (\<lambda>_. None) lark_route ''req_1'' (projr (hello lark_route ''req_1'')) \<and>
     (\<exists>m. ToChatRequest tally_text (\<lambda>_. None) (projr (hello lark_route ''req_1'')) = Inr m)"
proof -
  let ?r = "projr (hello lark_route ''req_1'')"
  have accepted: "gateway_accepts tally_text (\<lambda>_. None) lark_route ''req_1'' ?r" unfolding gateway_accepts_def using hello_gemini by blast
  have "text_results (Req_Messages ?r)" by (simp add: hello_def text_results_def List.map_filter_def result_of_def)
  with gateways_reach_adapters [OF accepted] accepted show ?thesis by blast
qed

theorem native_requests_pass_witness:
  "(\<exists>m. ToMessageRequest (\<lambda>_. None) (\<lambda>_. '''') (projr (hello lark_route ''req_1'')) 0 100 = Inr m) \<and>
     (\<exists>m. ToChatRequest tally_text (\<lambda>_. None) (projr (hello lark_route ''req_1'')) = Inr m) \<and>
     (\<exists>m. responses_ToProviderRequest tally_text (\<lambda>_. None) (projr (hello lark_route ''req_1'')) = Inr m) \<and>
     (\<exists>m. ToProviderRequest id (\<lambda>_. None) (projr (hello lark_route ''req_1'')) 0 100 = Inr m)"
proof -
  have "CMR_MaxTokens anthropic_hello \<le> 100" "sent_limit (projr (hello lark_route ''req_1'')) 0 = Some 16"
    by (simp_all add: anthropic_hello_def hello_def sent_limit_def)
  with native_requests_pass [of "\<lambda>_. None" anthropic_hello lark_route "''req_1''" "projr (hello lark_route ''req_1'')" "\<lambda>_. ''''" 0 100
      tally_text chat_hello "projr (hello lark_route ''req_1'')" responses_hello "projr (hello lark_route ''req_1'')"
      gemini_hello "''lark''" "projr (hello lark_route ''req_1'')" id]
  show ?thesis by (simp add: hello_anthropic hello_chat hello_responses hello_gemini)
qed

end
