(* ===== verification/Dapr.thy ===== *)
theory Dapr
  imports Platform Directory
begin

text \<open>
  Package \<^verbatim>\<open>internal/daprhttp\<close>: the HTTP client of the Dapr sidecar (\<^verbatim>\<open>client.go\<close>), the state store of
  the deployed control planes on it (\<^verbatim>\<open>state.go\<close>) and the secret store of the adapters (\<^verbatim>\<open>secrets.go\<close>).

  The sidecar is not part of the program. \<^verbatim>\<open>http.Client.Do\<close>, which does not follow redirects, is the
  argument \<open>Do\<close>: the outcome of an exchange and what it did to the state behind the sidecar.
  \<open>dapr_sidecar\<close> states what the state API documents. It allows the exchange to fail at any time, also
  after the sidecar has committed a transaction; the store is then still atomic, so a repository on it
  always represents the map before or after the operation.
\<close>

section \<open>\<^verbatim>\<open>net/url\<close>: escaping\<close>

definition percent_digit :: "nat \<Rightarrow> char" where
  "percent_digit n = char_of (if n < 10 then n + 48 else n + 55)"

definition escape_with :: "(char \<Rightarrow> bool) \<Rightarrow> char \<Rightarrow> string" where
  "escape_with safe c = (if safe c then [c] else [CHR ''%'', percent_digit (byte c div 16), percent_digit (byte c mod 16)])"

definition unreserved :: "char \<Rightarrow> bool" where
  "unreserved c \<longleftrightarrow> is_lower c \<or> is_upper c \<or> is_digit c \<or> c \<in> set ''-_.~''"

definition segment_safe :: "char \<Rightarrow> bool" where
  "segment_safe c \<longleftrightarrow> unreserved c \<or> c \<in> set ''$&+=:@''"

definition PathEscape :: "string \<Rightarrow> string" where
  "PathEscape s = concat (map (escape_with segment_safe) s)"

definition QueryEscape :: "string \<Rightarrow> string" where
  "QueryEscape s = concat (map (\<lambda>c. if c = CHR '' '' then ''+'' else escape_with unreserved c) s)"

section \<open>\<^verbatim>\<open>client.go\<close>\<close>

record Client =
  Client_baseURL :: string
  Client_apiToken :: string

definition New :: "string \<Rightarrow> string \<Rightarrow> Client" where
  "New baseURL apiToken = \<lparr>Client_baseURL = rev (dropWhile (\<lambda>c. c = CHR ''/'') (rev baseURL)), Client_apiToken = apiToken\<rparr>"

record DaprRequest =
  DR_Method :: string
  DR_URL :: string
  DR_Header :: "(string \<times> string) list"
  DR_Body :: "json option"               \<comment> \<open>the value its text spells\<close>

record DaprResponse =
  DS_Status :: nat
  DS_ETag :: string
  DS_RequestID :: string                 \<comment> \<open>the header \<^verbatim>\<open>X-Request-ID\<close>\<close>
  DS_Text :: string
  DS_JSON :: JSONStream                  \<comment> \<open>the values the text spells\<close>
  DS_Broken :: "error option"            \<comment> \<open>reading the body fails\<close>

type_synonym 's transport = "DaprRequest \<Rightarrow> 's \<Rightarrow> DaprResponse result \<times> 's"

definition header_set :: "string \<Rightarrow> string \<Rightarrow> (string \<times> string) list \<Rightarrow> (string \<times> string) list" where
  "header_set name value hs = (name, value) # filter (\<lambda>(n, _). n \<noteq> name) hs"

definition with_token :: "Client \<Rightarrow> (string \<times> string) list \<Rightarrow> (string \<times> string) list" where
  "with_token c hs = (if Client_apiToken c \<noteq> '''' then header_set ''Dapr-Api-Token'' (Client_apiToken c) hs else hs)"

text \<open>\<open>url_ok\<close> tells the URLs that \<^verbatim>\<open>http.NewRequestWithContext\<close> can parse.\<close>

definition newRequest :: "(string \<Rightarrow> bool) \<Rightarrow> Client \<Rightarrow> string \<Rightarrow> string \<Rightarrow> json option \<Rightarrow> DaprRequest result" where
  "newRequest url_ok c method endpoint body =
     ebind (fail_if (\<not> url_ok (Client_baseURL c @ endpoint)) (LibraryError ''invalid URL'')) (\<lambda>_.
     Inr \<lparr>DR_Method = method, DR_URL = Client_baseURL c @ endpoint, DR_Header = with_token c [], DR_Body = body\<rparr>)"

definition InvokeMethod ::
  "(string \<Rightarrow> bool) \<Rightarrow> 's transport \<Rightarrow> Client \<Rightarrow> string \<Rightarrow> string \<Rightarrow> string \<Rightarrow> json option \<Rightarrow> (string \<times> string) list option \<Rightarrow>
     ('s, DaprResponse) step" where
  "InvokeMethod url_ok Do c httpMethod appID method body headers s =
     (case newRequest url_ok c httpMethod (''/v1.0/invoke/'' @ PathEscape appID @ ''/method/'' @ dropWhile (\<lambda>x. x = CHR ''/'') method) body of
        Inl err \<Rightarrow> (Inl (Errorf ''create Dapr invocation request: %w'' [] [err]), s)
      | Inr request \<Rightarrow>
          Do (case headers of None \<Rightarrow> request | Some hs \<Rightarrow> request\<lparr>DR_Header := with_token c hs\<rparr>) s)"

definition Invoke ::
  "(string \<Rightarrow> bool) \<Rightarrow> 's transport \<Rightarrow> Client \<Rightarrow> string \<Rightarrow> string \<Rightarrow> json option \<Rightarrow> string \<Rightarrow> ('s, DaprResponse) step" where
  "Invoke url_ok Do c appID method body contentType =
     InvokeMethod url_ok Do c ''POST'' appID method body
       (Some (if contentType \<noteq> '''' then header_set ''Content-Type'' contentType [] else []))"

definition success :: "nat \<Rightarrow> bool" where
  "success status \<longleftrightarrow> 200 \<le> status \<and> status < 300"

text \<open>The error of a status that is not a success.\<close>

definition status_error :: "DaprResponse \<Rightarrow> error" where
  "status_error response = HTTPError (int (DS_Status response)) (TrimSpace (take 65536 (DS_Text response)))"

text \<open>\<^verbatim>\<open>json.NewDecoder(body).Decode\<close>: the first value.\<close>

definition decode_first :: "(json \<Rightarrow> 'a result) \<Rightarrow> JSONStream \<Rightarrow> 'a result" where
  "decode_first dec body =
     (case documents body of
        [] \<Rightarrow> Inl (LibraryError (if malformed body = None then ''EOF'' else ''invalid JSON''))
      | (_, _, v) # _ \<Rightarrow> dec v)"

text \<open>\<^verbatim>\<open>json.Unmarshal\<close> of a body: it spells one value.\<close>

definition Unmarshal_body :: "(json \<Rightarrow> 'a result) \<Rightarrow> JSONStream \<Rightarrow> 'a result" where
  "Unmarshal_body dec body =
     (case documents body of
        [(_, _, v)] \<Rightarrow> if malformed body = None then dec v else Inl (LibraryError ''invalid JSON'')
      | _ \<Rightarrow> Inl (LibraryError ''invalid JSON''))"

text \<open>The output is decoded with \<open>output\<close>, unless it is nil. \<open>input\<close> is the outcome of \<^verbatim>\<open>json.Marshal\<close>.\<close>

definition InvokeJSON ::
  "(string \<Rightarrow> bool) \<Rightarrow> 's transport \<Rightarrow> Client \<Rightarrow> string \<Rightarrow> string \<Rightarrow> json result \<Rightarrow> (json \<Rightarrow> 'a result) option \<Rightarrow> ('s, 'a option) step" where
  "InvokeJSON url_ok Do c appID method input output s =
     (case input of
        Inl err \<Rightarrow> (Inl (Errorf ''encode Dapr invocation request: %w'' [] [err]), s)
      | Inr payload \<Rightarrow>
          (case Invoke url_ok Do c appID method (Some payload) ''application/json'' s of
             (Inl err, s') \<Rightarrow> (Inl (Errorf ''invoke Dapr app %q: %w'' [appID] [err]), s')
           | (Inr response, s') \<Rightarrow>
               (if \<not> success (DS_Status response) then Inl (status_error response)
                else case output of
                    None \<Rightarrow> Inr None
                  | Some dec \<Rightarrow>
                      if DS_Status response = 204 then Inr None
                      else map_sum id Some (wrapf ''decode response from Dapr app %q: %w'' [appID] (decode_first dec (DS_JSON response))), s')))"

section \<open>\<^verbatim>\<open>state.go\<close>\<close>

record stateOptions =
  SO_Concurrency :: string
  SO_Consistency :: string

record transactionStateRequest =
  TS_Key :: string
  TS_Value :: RawMessage
  TS_ETag :: string
  TS_Options :: "stateOptions option"

record transactionOperation =
  TO_Operation :: string
  TO_Request :: transactionStateRequest

definition json_of_stateRequest :: "transactionStateRequest \<Rightarrow> json" where
  "json_of_stateRequest r = JObj
     ([(''key'', JStr (TS_Key r))] @
      (case TS_Value r of None \<Rightarrow> [] | Some v \<Rightarrow> [(''value'', v)]) @
      (if TS_ETag r = '''' then [] else [(''etag'', JStr (TS_ETag r))]) @
      (case TS_Options r of None \<Rightarrow> []
       | Some x \<Rightarrow> [(''options'', JObj [(''concurrency'', JStr (SO_Concurrency x)), (''consistency'', JStr (SO_Consistency x))])]))"

definition json_of_transactionOperation :: "transactionOperation \<Rightarrow> json" where
  "json_of_transactionOperation x =
     JObj [(''operation'', JStr (TO_Operation x)), (''request'', json_of_stateRequest (TO_Request x))]"

definition json_of_transactionRequest :: "transactionOperation list \<Rightarrow> json" where
  "json_of_transactionRequest operations = JObj [(''operations'', JArr (map json_of_transactionOperation operations))]"

fun operation_text :: "OperationType \<Rightarrow> string" where
  "operation_text Upsert = ''upsert''"
| "operation_text Delete = ''delete''"
| "operation_text (UnsupportedOperation t) = t"

definition maxStateBytes :: nat where
  "maxStateBytes = 16 * 2 ^ 20"

definition read_entry :: "string \<Rightarrow> DaprResponse \<Rightarrow> Entry result" where
  "read_entry key response =
     (if DS_Status response = 204 \<or> DS_Status response = 404 then Inr no_entry
      else if \<not> success (DS_Status response) then Inl (status_error response)
      else
        (case DS_Broken response of
           Some err \<Rightarrow> Inl (Errorf ''read Dapr state %q: %w'' [key] [err])
         | None \<Rightarrow>
             if TrimSpace (take maxStateBytes (DS_Text response)) = '''' then Inr no_entry
             else
               let body = LimitReader maxStateBytes (DS_JSON response) in
               (case documents body of
                  [(_, _, value)] \<Rightarrow>
                    if malformed body = None then Inr \<lparr>Entry_Value = Some value, Entry_ETag = DS_ETag response, Entry_Exists = True\<rparr>
                    else Inl (Errorf ''Dapr state %q is not valid JSON'' [key] [])
                | _ \<Rightarrow> Inl (Errorf ''Dapr state %q is not valid JSON'' [key] []))))"

definition state_endpoint :: "string \<Rightarrow> string \<Rightarrow> string" where
  "state_endpoint name key = ''/v1.0/state/'' @ PathEscape name @ ''/'' @ PathEscape key @ ''?consistency=strong''"

definition transaction_endpoint :: "string \<Rightarrow> string" where
  "transaction_endpoint name = ''/v1.0/state/'' @ PathEscape name @ ''/transaction''"

definition StateStore_Get :: "(string \<Rightarrow> bool) \<Rightarrow> 's transport \<Rightarrow> Client \<Rightarrow> string \<Rightarrow> string \<Rightarrow> 's \<Rightarrow> Entry result" where
  "StateStore_Get url_ok Do c name key s =
     ebind (wrapf ''create Dapr state request: %w'' [] (newRequest url_ok c ''GET'' (state_endpoint name key) None)) (\<lambda>request.
     ebind (wrapf ''get Dapr state %q: %w'' [key] (fst (Do request s))) (\<lambda>response.
     read_entry key response))"

definition transaction_operation :: "Operation \<Rightarrow> transactionOperation" where
  "transaction_operation operation =
     \<lparr>TO_Operation = operation_text (Op_Type operation),
      TO_Request = \<lparr>TS_Key = Op_Key operation, TS_Value = Op_Value operation, TS_ETag = Op_ETag operation,
        TS_Options = (if Op_ETag operation \<noteq> '''' then Some \<lparr>SO_Concurrency = ''first-write'', SO_Consistency = ''strong''\<rparr> else None)\<rparr>\<rparr>"

definition StateStore_Transact :: "(string \<Rightarrow> bool) \<Rightarrow> 's transport \<Rightarrow> Client \<Rightarrow> string \<Rightarrow> Operation list \<Rightarrow> ('s, unit) step" where
  "StateStore_Transact url_ok Do c name operations s =
     (let payload = json_of_transactionRequest (map transaction_operation operations) in
      case newRequest url_ok c ''POST'' (transaction_endpoint name) (Some payload) of
        Inl err \<Rightarrow> (Inl (Errorf ''create Dapr state transaction request: %w'' [] [err]), s)
      | Inr request \<Rightarrow>
          (case Do (request\<lparr>DR_Header := header_set ''Content-Type'' ''application/json'' (DR_Header request)\<rparr>) s of
             (Inl err, s') \<Rightarrow> (Inl (Errorf ''execute Dapr state transaction: %w'' [] [err]), s')
           | (Inr response, s') \<Rightarrow>
               (if DS_Status response = 409 \<or> DS_Status response = 412 then Inl StateErrConflict
                else if \<not> success (DS_Status response) then Inl (status_error response)
                else Inr (), s')))"

definition StateStore :: "(string \<Rightarrow> bool) \<Rightarrow> 's transport \<Rightarrow> Client \<Rightarrow> string \<Rightarrow> 's Store" where
  "StateStore url_ok Do c name = \<lparr>Get = StateStore_Get url_ok Do c name, Transact = StateStore_Transact url_ok Do c name\<rparr>"

section \<open>\<^verbatim>\<open>secrets.go\<close>\<close>

record SecretRef =
  SR_Store :: string
  SR_Name :: string
  SR_Key :: string
  SR_Namespace :: string

fun assign_members :: "(string \<times> json) list \<Rightarrow> (string \<rightharpoonup> string) \<Rightarrow> (string \<rightharpoonup> string) result" where
  "assign_members [] m = Inr m"
| "assign_members ((k, v) # ms) m = ebind (assign_string v '''') (\<lambda>x. assign_members ms (m(k \<mapsto> x)))"

fun decode_string_map :: "json \<Rightarrow> (string \<rightharpoonup> string) result" where
  "decode_string_map (JObj ms) = assign_members ms Map.empty"
| "decode_string_map JNull = Inr Map.empty"
| "decode_string_map _ = type_error"

definition SecretStore_Get :: "(string \<Rightarrow> bool) \<Rightarrow> 's transport \<Rightarrow> Client \<Rightarrow> SecretRef \<Rightarrow> 's \<Rightarrow> string result" where
  "SecretStore_Get url_ok Do c ref s =
     (let encoded = (if SR_Namespace ref \<noteq> '''' then ''metadata.namespace='' @ QueryEscape (SR_Namespace ref) else '''');
          endpoint = ''/v1.0/secrets/'' @ PathEscape (SR_Store ref) @ ''/'' @ PathEscape (SR_Name ref) @
            (if encoded \<noteq> '''' then ''?'' @ encoded else '''') in
      ebind (wrapf ''create Dapr secret request: %w'' [] (newRequest url_ok c ''GET'' endpoint None)) (\<lambda>request.
      ebind (wrapf ''get Dapr secret %q: %w'' [SR_Name ref] (fst (Do request s))) (\<lambda>response.
      ebind (fail_if (\<not> success (DS_Status response)) (status_error response)) (\<lambda>_.
      ebind (wrapf ''decode Dapr secret %q: %w'' [SR_Name ref] (decode_first decode_string_map (DS_JSON response))) (\<lambda>secrets.
      let key = (if SR_Key ref = '''' then SR_Name ref else SR_Key ref) in
      (case secrets key of
         None \<Rightarrow> Inl (Errorf ''secret %q does not contain non-empty key %q'' [SR_Name ref, key] [])
       | Some value \<Rightarrow>
           if value = '''' then Inl (Errorf ''secret %q does not contain non-empty key %q'' [SR_Name ref, key] [])
           else Inr value))))))"

section \<open>What the state API documents\<close>

text \<open>
  The operations a transaction document asks for: the tag of an operation is compared when it asks for
  first-write concurrency, and is ignored otherwise.
\<close>

definition dapr_operation :: "json \<Rightarrow> Operation option" where
  "dapr_operation j =
     (case j of
        JObj ms \<Rightarrow>
          (case (map_of ms ''operation'', map_of ms ''request'') of
             (Some (JStr t), Some (JObj rs)) \<Rightarrow>
               (case map_of rs ''key'' of
                  Some (JStr k) \<Rightarrow>
                    Some \<lparr>Op_Type = (if t = ''upsert'' then Upsert else if t = ''delete'' then Delete else UnsupportedOperation t),
                      Op_Key = k, Op_Value = map_of rs ''value'',
                      Op_ETag = (case (map_of rs ''etag'', map_of rs ''options'') of
                         (Some (JStr tag), Some (JObj xs)) \<Rightarrow> if map_of xs ''concurrency'' = Some (JStr ''first-write'') then tag else ''''
                       | _ \<Rightarrow> '''')\<rparr>
                | _ \<Rightarrow> None)
           | _ \<Rightarrow> None)
      | _ \<Rightarrow> None)"

definition dapr_transaction :: "json \<Rightarrow> Operation list option" where
  "dapr_transaction j =
     (case j of
        JObj ms \<Rightarrow> (case map_of ms ''operations'' of Some (JArr js) \<Rightarrow> those (map dapr_operation js) | _ \<Rightarrow> None)
      | _ \<Rightarrow> None)"

text \<open>An answer to a read: the entry as one JSON value with its tag, or that there is none, or an error.\<close>

definition read_answer :: "(RawMessage \<times> string) option \<Rightarrow> DaprResponse \<Rightarrow> bool" where
  "read_answer x resp \<longleftrightarrow>
     (if DS_Status resp = 204 \<or> DS_Status resp = 404 then x = None
      else success (DS_Status resp) \<longrightarrow>
        (\<exists>value tag n. x = Some (Some value, tag) \<and> DS_ETag resp = tag \<and>
           DS_JSON resp = \<lparr>documents = [(0, n, value)], malformed = None\<rparr> \<and> (\<forall>m > 0. TrimSpace (take m (DS_Text resp)) \<noteq> '''')))"

text \<open>
  The effect of a transaction. A success applied the operations, with every tag current; a conflict
  changed nothing; after any other answer, or none, it was applied as a whole or not at all.
\<close>

definition applied :: "('s \<Rightarrow> tagged) \<Rightarrow> Operation list \<Rightarrow> 's \<Rightarrow> 's \<Rightarrow> bool" where
  "applied view operations s s' \<longleftrightarrow>
     tags_match (view s) operations \<and> values_of (view s') = apply_ops operations (values_of (view s)) \<and>
     (\<forall>k. k \<notin> Op_Key ` set operations \<longrightarrow> view s' k = view s k)"

definition write_answer :: "('s \<Rightarrow> tagged) \<Rightarrow> Operation list \<Rightarrow> 's \<Rightarrow> DaprResponse result \<Rightarrow> 's \<Rightarrow> bool" where
  "write_answer view operations s r s' \<longleftrightarrow>
     (case r of
        Inr resp \<Rightarrow>
          if success (DS_Status resp) then applied view operations s s'
          else if DS_Status resp = 409 \<or> DS_Status resp = 412 then view s' = view s
          else view s' = view s \<or> applied view operations s s'
      | Inl err \<Rightarrow> \<not> errors_Is err StateErrConflict \<and> (view s' = view s \<or> applied view operations s s'))"

definition dapr_sidecar :: "'s transport \<Rightarrow> string \<Rightarrow> string \<Rightarrow> ('s \<Rightarrow> tagged) \<Rightarrow> bool" where
  "dapr_sidecar Do base store view \<longleftrightarrow>
     (\<forall>s k value tag. view s k = Some (value, tag) \<longrightarrow> tag \<noteq> '''') \<and>
     (\<forall>request key s resp s'. DR_Method request = ''GET'' \<longrightarrow>
        DR_URL request = base @ state_endpoint store key \<longrightarrow>
        Do request s = (Inr resp, s') \<longrightarrow> read_answer (view s key) resp) \<and>
     (\<forall>request payload operations s r s'. DR_Method request = ''POST'' \<longrightarrow>
        DR_URL request = base @ transaction_endpoint store \<longrightarrow>
        DR_Body request = Some payload \<longrightarrow> dapr_transaction payload = Some operations \<longrightarrow>
        Do request s = (r, s') \<longrightarrow> write_answer view operations s r s')"

section \<open>The store on a documented sidecar is atomic\<close>

lemma dapr_operation_of:
  assumes "supported operation"
  shows "dapr_operation (json_of_transactionOperation (transaction_operation operation)) = Some operation"
proof -
  have "Op_Type operation = (if operation_text (Op_Type operation) = ''upsert'' then Upsert
      else if operation_text (Op_Type operation) = ''delete'' then Delete else UnsupportedOperation (operation_text (Op_Type operation)))"
    using assms by (auto simp: supported_def)
  then show ?thesis
    by (cases "Op_Value operation"; cases "Op_ETag operation")
      (simp_all add: dapr_operation_def json_of_transactionOperation_def json_of_stateRequest_def transaction_operation_def)
qed

lemma dapr_transaction_of:
  "list_all supported operations \<Longrightarrow>
     dapr_transaction (json_of_transactionRequest (map transaction_operation operations)) = Some operations"
  by (induction operations) (simp_all add: dapr_transaction_def json_of_transactionRequest_def dapr_operation_of)

lemma read_entry_answer:
  assumes "read_answer x resp" and "read_entry key resp = Inr e"
  shows "e = entry_of x"
proof -
  have "0 < maxStateBytes" by (simp add: maxStateBytes_def)
  with assms show ?thesis
    by (auto simp: read_entry_def read_answer_def entry_of_def LimitReader_def Let_def split: if_splits option.splits)
qed

lemma Get_sidecar:
  assumes sidecar: "dapr_sidecar Do (Client_baseURL c) name view" and get: "StateStore_Get url_ok Do c name key s = Inr e"
  shows "e = entry_of (view s key)"
proof -
  from get obtain request resp where answer: "fst (Do request s) = Inr resp" and e: "read_entry key resp = Inr e"
    and request: "DR_Method request = ''GET''" "DR_URL request = Client_baseURL c @ state_endpoint name key"
    by (auto simp: StateStore_Get_def newRequest_def)
  from answer obtain s' where "Do request s = (Inr resp, s')" by (cases "Do request s") simp
  with sidecar request have "read_answer (view s key) resp" unfolding dapr_sidecar_def by blast
  then show ?thesis using e by (rule read_entry_answer)
qed

text \<open>A transaction either does not leave the process or is an exchange with the sidecar.\<close>

lemma Transact_sidecar:
  assumes sidecar: "dapr_sidecar Do (Client_baseURL c) name view" and ops: "list_all supported operations"
    and run: "StateStore_Transact url_ok Do c name operations s = (r, s')"
  shows "(case r of
       Inr _ \<Rightarrow> applied view operations s s'
     | Inl err \<Rightarrow> view s' = view s \<or> \<not> errors_Is err StateErrConflict \<and> applied view operations s s')"
proof (cases "url_ok (Client_baseURL c @ transaction_endpoint name)")
  case False
  with run show ?thesis by (auto simp: StateStore_Transact_def newRequest_def)
next
  case True
  let ?payload = "json_of_transactionRequest (map transaction_operation operations)"
  define request where "request = \<lparr>DR_Method = ''POST'', DR_URL = Client_baseURL c @ transaction_endpoint name,
    DR_Header = header_set ''Content-Type'' ''application/json'' (with_token c []), DR_Body = Some ?payload\<rparr>"
  obtain answer s1 where exchange: "Do request s = (answer, s1)" by force
  have "DR_Method request = ''POST''" "DR_URL request = Client_baseURL c @ transaction_endpoint name" "DR_Body request = Some ?payload"
    by (simp_all add: request_def)
  then have "write_answer view operations s answer s1"
    using sidecar exchange dapr_transaction_of [OF ops] unfolding dapr_sidecar_def by blast
  moreover have "StateStore_Transact url_ok Do c name operations s =
      (case answer of
         Inl err \<Rightarrow> Inl (Errorf ''execute Dapr state transaction: %w'' [] [err])
       | Inr response \<Rightarrow>
           if DS_Status response = 409 \<or> DS_Status response = 412 then Inl StateErrConflict
           else if \<not> success (DS_Status response) then Inl (status_error response) else Inr (), s1)"
    using True exchange by (simp add: StateStore_Transact_def newRequest_def request_def split: sum.splits)
  ultimately show ?thesis using run
    by (auto simp: write_answer_def success_def status_error_def split: sum.splits if_splits)
qed

lemma atomic_StateStore:
  assumes sidecar: "dapr_sidecar Do (Client_baseURL c) name view"
  shows "atomic_store (StateStore url_ok Do c name) view"
proof (unfold_locales, goal_cases)
  case (1 k s e)
  then show ?case using Get_sidecar [OF sidecar] by (simp add: StateStore_def)
next
  case (2 s k v tag)
  then show ?case using sidecar by (auto simp: dapr_sidecar_def)
qed (use Transact_sidecar [OF sidecar] in \<open>fastforce simp: StateStore_def applied_def\<close>)+

section \<open>A repository on the deployed store\<close>

inductive repository_step :: "(string \<Rightarrow> string) \<Rightarrow> 's Store \<Rightarrow> 's \<Rightarrow> 's \<Rightarrow> bool" for H st where
  create: "repo_CreateUser H st user s = (r, s') \<Longrightarrow> repository_step H st s s'"
| replace: "repo_ReplaceUser H st oldUser user s = (r, s') \<Longrightarrow> repository_step H st s s'"
| delete: "repo_DeleteUser H st user s = (r, s') \<Longrightarrow> repository_step H st s s'"

definition create_atomic :: "(string \<Rightarrow> string) \<Rightarrow> 's Store \<Rightarrow> ('s \<Rightarrow> tagged) \<Rightarrow> (string \<rightharpoonup> User) \<Rightarrow> 's \<Rightarrow> bool" where
  "create_atomic H st view R s \<longleftrightarrow> (\<forall>user r s'. repo_CreateUser H st user s = (r, s') \<longrightarrow>
     R (User_ID user) = None \<and> holds_users H (R(User_ID user \<mapsto> user)) (values_of (view s')) \<or>
     r \<noteq> Inr () \<and> holds_users H R (values_of (view s')))"

definition replace_atomic :: "(string \<Rightarrow> string) \<Rightarrow> 's Store \<Rightarrow> ('s \<Rightarrow> tagged) \<Rightarrow> (string \<rightharpoonup> User) \<Rightarrow> 's \<Rightarrow> bool" where
  "replace_atomic H st view R s \<longleftrightarrow> (\<forall>oldUser user r s'. repo_ReplaceUser H st oldUser user s = (r, s') \<longrightarrow>
     R (User_ID user) = Some oldUser \<and> holds_users H (R(User_ID user \<mapsto> user)) (values_of (view s')) \<or>
     r \<noteq> Inr () \<and> holds_users H R (values_of (view s')))"

definition delete_atomic :: "(string \<Rightarrow> string) \<Rightarrow> 's Store \<Rightarrow> ('s \<Rightarrow> tagged) \<Rightarrow> (string \<rightharpoonup> User) \<Rightarrow> 's \<Rightarrow> bool" where
  "delete_atomic H st view R s \<longleftrightarrow> (\<forall>user r s'. repo_DeleteUser H st user s = (r, s') \<longrightarrow>
     R (User_ID user) = Some user \<and> holds_users H (R(User_ID user := None)) (values_of (view s')) \<or>
     r \<noteq> Inr () \<and> holds_users H R (values_of (view s')))"

lemma users_on_store:
  assumes "atomic_store st view"
  shows "resource_store UserCodec ''users'' User_ID (userLookups H) (range (lookupKey H ''user-email'')) st view"
  by (intro resource_store.intro assms mem.users.resources_axioms)

lemma repository_atomic:
  assumes store: "atomic_store st view" and R: "holds_users H R (values_of (view s))"
  shows "create_atomic H st view R s" "replace_atomic H st view R s" "delete_atomic H st view R s"
  using resource_store.createResource_atomic [OF users_on_store [OF store], of H R s _ _ ]
    resource_store.replaceResource_atomic [OF users_on_store [OF store], of H R s]
    resource_store.deleteResource_atomic [OF users_on_store [OF store], of H R s] R
  unfolding create_atomic_def replace_atomic_def delete_atomic_def repo_CreateUser_def repo_ReplaceUser_def repo_DeleteUser_def
    holds_users_def by metis+

lemma repository_step_holds:
  assumes "repository_step H st s s'" and store: "atomic_store st view" and R: "holds_users H R (values_of (view s))"
  shows "\<exists>R'. holds_users H R' (values_of (view s'))"
  using assms(1)
proof cases
  case (create user r)
  with repository_atomic(1) [OF store R] show ?thesis unfolding create_atomic_def by blast
next
  case (replace oldUser user r)
  with repository_atomic(2) [OF store R] show ?thesis unfolding replace_atomic_def by blast
next
  case (delete user r)
  with repository_atomic(3) [OF store R] show ?thesis unfolding delete_atomic_def by blast
qed

lemma repository_steps_hold:
  assumes "(repository_step H st)\<^sup>*\<^sup>* s s'" and store: "atomic_store st view" and R: "holds_users H R (values_of (view s))"
  shows "\<exists>R'. holds_users H R' (values_of (view s'))"
  using assms(1) by (induction rule: rtranclp_induct) (use R repository_step_holds [OF _ store] in blast)+

section \<open>A sidecar over the in-memory store\<close>

definition hex_value :: "char \<Rightarrow> nat" where
  "hex_value c = (if byte c < 65 then byte c - 48 else byte c - 55)"

fun PathUnescape :: "string \<Rightarrow> string" where
  "PathUnescape (a # b # c # s) =
     (if a = CHR ''%'' then char_of (16 * hex_value b + hex_value c) # PathUnescape s else a # PathUnescape (b # c # s))"
| "PathUnescape s = s"

definition memory_read :: "string \<Rightarrow> memory \<Rightarrow> DaprResponse" where
  "memory_read key s =
     (let answer = \<lparr>DS_Status = 204, DS_ETag = '''', DS_RequestID = '''', DS_Text = '''', DS_JSON = \<lparr>documents = [], malformed = None\<rparr>, DS_Broken = None\<rparr> in
      case memory_view s key of
        None \<Rightarrow> answer
      | Some (None, _) \<Rightarrow> answer\<lparr>DS_Status := 500\<rparr>
      | Some (Some value, tag) \<Rightarrow> answer\<lparr>DS_Status := 200, DS_ETag := tag, DS_Text := ''{}'',
          DS_JSON := \<lparr>documents = [(0, 2, value)], malformed = None\<rparr>\<rparr>)"

definition memory_sidecar :: "string \<Rightarrow> string \<Rightarrow> memory transport" where
  "memory_sidecar base store request s =
     (let answer = (\<lambda>status. \<lparr>DS_Status = status, DS_ETag = '''', DS_RequestID = '''', DS_Text = '''', DS_JSON = \<lparr>documents = [], malformed = None\<rparr>, DS_Broken = None\<rparr>) in
      if DR_Method request = ''GET'' then
        (Inr (memory_read (PathUnescape (takeWhile (\<lambda>c. c \<noteq> CHR ''?'')
           (drop (length (base @ ''/v1.0/state/'' @ PathEscape store @ ''/'')) (DR_URL request)))) s), s)
      else
        (case map_option dapr_transaction (DR_Body request) of
           Some (Some operations) \<Rightarrow>
             if \<not> list_all supported operations then (Inr (answer 400), s)
             else (case MemoryStore_Transact operations s of (Inl _, s') \<Rightarrow> (Inr (answer 409), s') | (Inr _, s') \<Rightarrow> (Inr (answer 204), s'))
         | _ \<Rightarrow> (Inr (answer 400), s)))"

lemma hex_value_digit: "n < 16 \<Longrightarrow> hex_value (percent_digit n) = n"
  by (auto simp: hex_value_def percent_digit_def byte_def)

lemma PathUnescape_plain: "a \<noteq> CHR ''%'' \<Longrightarrow> PathUnescape (a # s) = a # PathUnescape s"
  by (cases "a # s" rule: PathUnescape.cases) auto

lemma hex_char: "char_of (16 * hex_value (percent_digit (byte c div 16)) + hex_value (percent_digit (byte c mod 16))) = c"
proof -
  have "byte c div 16 < 16" using of_char_mod_256 [of c, where ?'a = nat] by (simp add: byte_def less_mult_imp_div_less)
  then show ?thesis by (simp add: hex_value_digit byte_def mult.commute [of 16])
qed

lemma PathUnescape_PathEscape: "PathUnescape (PathEscape s) = s"
proof (induction s)
  case (Cons c s)
  have "\<not> segment_safe (CHR ''%'')" by code_simp
  then have "segment_safe c \<Longrightarrow> c \<noteq> CHR ''%''" by auto
  then show ?case using Cons.IH
    by (cases "segment_safe c") (simp_all add: PathEscape_def escape_with_def PathUnescape_plain hex_char)
qed (simp add: PathEscape_def)

lemma percent_digit_safe: "n < 16 \<Longrightarrow> segment_safe (percent_digit n)"
proof -
  have "\<forall>k \<in> set [0..<16]. segment_safe (percent_digit k)" by code_simp
  then show "n < 16 \<Longrightarrow> segment_safe (percent_digit n)" by simp
qed

lemma PathEscape_chars: "c \<in> set (PathEscape s) \<Longrightarrow> segment_safe c \<or> c = CHR ''%''"
proof -
  have "byte x div 16 < 16" for x
    using of_char_mod_256 [of x, where ?'a = nat] by (simp add: byte_def less_mult_imp_div_less)
  then show "c \<in> set (PathEscape s) \<Longrightarrow> segment_safe c \<or> c = CHR ''%''"
    by (auto simp: PathEscape_def escape_with_def percent_digit_safe split: if_splits)
qed

text \<open>An escaped segment stays a segment: it opens no other segment, no query and no fragment.\<close>

lemma PathEscape_segment: "set (PathEscape s) \<inter> set ''/?#'' = {}"
proof -
  have "\<forall>c \<in> set ''/?#''. \<not> (segment_safe c \<or> c = CHR ''%'')" by code_simp
  with PathEscape_chars show ?thesis by blast
qed

lemma PathEscape_no_query: "c \<in> set (PathEscape s) \<Longrightarrow> c \<noteq> CHR ''?''"
  using PathEscape_segment [of s] by auto

lemma memory_sidecar_key:
  "PathUnescape (takeWhile (\<lambda>c. c \<noteq> CHR ''?'')
     (drop (length (base @ ''/v1.0/state/'' @ PathEscape store @ ''/'')) (base @ state_endpoint store key))) = key"
proof -
  have "base @ state_endpoint store key =
      (base @ ''/v1.0/state/'' @ PathEscape store @ ''/'') @ (PathEscape key @ ''?consistency=strong'')"
    by (simp add: state_endpoint_def)
  then have "drop (length (base @ ''/v1.0/state/'' @ PathEscape store @ ''/'')) (base @ state_endpoint store key) =
      PathEscape key @ ''?consistency=strong''"
    by (metis append_eq_conv_conj)
  moreover have "takeWhile (\<lambda>c. c \<noteq> CHR ''?'') (PathEscape key @ ''?consistency=strong'') = PathEscape key"
    using PathEscape_no_query by (subst takeWhile_append2) auto
  ultimately show ?thesis by (simp add: PathUnescape_PathEscape)
qed

lemma memory_read_answer: "read_answer (memory_view s key) (memory_read key s)"
proof -
  have "TrimSpace ''{}'' = ''{}''" "TrimSpace ''{'' = ''{''" by code_simp+
  moreover have "take m ''{}'' = (if m = 0 then [] else if m = 1 then ''{'' else ''{}'')" for m
    by (cases m; cases "m - 1") auto
  ultimately show ?thesis
    by (auto simp: read_answer_def memory_read_def Let_def success_def split: option.splits)
qed

lemma memory_sidecar_reads:
  assumes "DR_Method request = ''GET''" "DR_URL request = base @ state_endpoint store key" "memory_sidecar base store request s = (Inr resp, s')"
  shows "read_answer (memory_view s key) resp"
  using assms memory_read_answer [of s key] memory_sidecar_key [of base store key] by (auto simp: memory_sidecar_def Let_def)

lemma memory_sidecar_writes:
  assumes "DR_Method request = ''POST''" "DR_Body request = Some payload" "dapr_transaction payload = Some operations"
    "memory_sidecar base store request s = (r, s')"
  shows "write_answer memory_view operations s r s'"
proof (cases "list_all supported operations")
  case True
  with assms mem.commit_tags mem.commit_values mem.commit_frame mem.abort show ?thesis
    by (auto simp: memory_sidecar_def write_answer_def applied_def success_def MemoryStore_def split: sum.splits prod.splits)
qed (use assms in \<open>auto simp: memory_sidecar_def write_answer_def success_def\<close>)

lemma memory_sidecar_documented: "dapr_sidecar (memory_sidecar base store) base store memory_view"
  unfolding dapr_sidecar_def using mem.tag_nonempty memory_sidecar_reads memory_sidecar_writes by blast

section \<open>Properties\<close>

text \<open>
  C39: A user repository on the Dapr state store survives lost answers. With a sidecar that behaves as
  documented, reached by a transport that may fail at any time, whatever operations were run before,
  the store represents a directory of users (entities, index and e-mail lookups agree). Creating,
  replacing or deleting a user then either changes that directory exactly as asked, or reports an error
  and leaves it as it was; a success always means that the change was made.
\<close>

theorem dapr_directory_atomic:
  assumes sidecar: "dapr_sidecar Do (Client_baseURL c) name view"
    and start: "holds_users H R\<^sub>0 (values_of (view s\<^sub>0))"
    and steps: "(repository_step H (StateStore url_ok Do c name))\<^sup>*\<^sup>* s\<^sub>0 s"
  shows "\<exists>R. holds_users H R (values_of (view s)) \<and> create_atomic H (StateStore url_ok Do c name) view R s \<and>
     replace_atomic H (StateStore url_ok Do c name) view R s \<and> delete_atomic H (StateStore url_ok Do c name) view R s"
  using repository_steps_hold [OF steps atomic_StateStore [OF sidecar] start] repository_atomic [OF atomic_StateStore [OF sidecar]] by blast

theorem dapr_directory_atomic_witness:
  "\<exists>R. holds_users (\<lambda>x. x) R (contents NewMemoryStore) \<and>
     create_atomic (\<lambda>x. x) (StateStore (\<lambda>_. True) (memory_sidecar ''http://localhost:3500'' ''users'') (New ''http://localhost:3500/'' ''t'') ''users'')
       memory_view R NewMemoryStore"
proof -
  have base: "Client_baseURL (New ''http://localhost:3500/'' ''t'') = ''http://localhost:3500''" by (simp add: New_def)
  note sidecar = memory_sidecar_documented [of "Client_baseURL (New ''http://localhost:3500/'' ''t'')" "''users''"]
  show ?thesis
    using dapr_directory_atomic [OF sidecar, of "\<lambda>x. x" Map.empty NewMemoryStore "\<lambda>_. True" NewMemoryStore] holds_users_empty
    unfolding base by blast
qed

end
