(* ===== verification/Admin_HTTP.thy ===== *)
theory Admin_HTTP
  imports Dapr Control_Plane
begin

text \<open>
  The HTTP interfaces of the control planes: \<^verbatim>\<open>http.go\<close> and \<^verbatim>\<open>model_http.go\<close> for the resource service,
  \<^verbatim>\<open>virtual_key_http.go\<close> for the virtual-key service. A handler is a step on the state of the service,
  and \<open>HTTPMiddleware\<close> of the \<open>ServeMux\<close> of a pattern table is the whole service. The clock and the
  random bytes a request consumes are the fields of \<open>ambient\<close>.
\<close>

section \<open>\<^verbatim>\<open>adminHTTP\<close>\<close>

record adminHTTP =
  ah_adminToken :: string
  ah_maxBody :: nat

record ambient =
  amb_random_id :: "nat list result"
  amb_random_key :: "nat list result"
  amb_random_request :: "nat list result"
  amb_now :: time
  amb_later :: time

definition admin :: "adminHTTP \<Rightarrow> 'w handler \<Rightarrow> 'w handler" where
  "admin h next requestID r w =
     (let unauthorized = (WriteProblem requestID 401 ''Unauthorized'' (Text ''a valid control-plane admin token is required''))
        \<lparr>Resp_Header := [(''WWW-Authenticate'', ''Bearer realm='' @ [CHR 0x22] @ ''gwai-control-plane'' @ [CHR 0x22]),
          (''Content-Type'', ''application/problem+json'')]\<rparr> in
      case BearerToken (Header_Get r ''Authorization'') of
        None \<Rightarrow> (unauthorized, w)
      | Some token \<Rightarrow> if \<not> SecureEqual token (ah_adminToken h) then (unauthorized, w) else next requestID r w)"

definition health :: "'w handler" where
  "health requestID r w = (JSON 200 (JObj [(''status'', JStr ''ok'')]), w)"

text \<open>\<^verbatim>\<open>decode\<close>, in continuation style: the handler goes on with the decoded input.\<close>

definition with_input :: "adminHTTP \<Rightarrow> (bool \<Rightarrow> json \<Rightarrow> 'a result) \<Rightarrow> ('a \<Rightarrow> 'w handler) \<Rightarrow> 'w handler" where
  "with_input h dec next requestID r w =
     (case DecodeJSON dec (ah_maxBody h) True r of
        Inl err \<Rightarrow> (WriteProblem requestID 400 ''Invalid request'' (ErrorText err), w)
      | Inr input \<Rightarrow> next input requestID r w)"

definition writeError :: "string \<Rightarrow> error \<Rightarrow> HTTPResponse" where
  "writeError requestID err =
     (case errors_As_Validation err of
        Some (field, message, args) \<Rightarrow> WriteProblem requestID 400 ''Invalid request'' (ErrorText (ValidationError field message args))
      | None \<Rightarrow>
          if errors_Is err ErrNotFound then WriteProblem requestID 404 ''Not found'' (Text ''the requested resource does not exist'')
          else if errors_Is err ErrConflict then WriteProblem requestID 409 ''Conflict'' (ErrorText err)
          else if errors_Is err ErrUnauthorized then WriteProblem requestID 401 ''Unauthorized'' (Text ''authentication failed'')
          else if errors_Is err ErrForbidden
          then WriteProblem requestID 403 ''Forbidden'' (Text ''access to the requested resource is denied'')
          else if errors_Is err ErrUnavailable
          then WriteProblem requestID 503 ''Service Unavailable'' (Text ''a required control-plane dependency is unavailable'')
          else WriteProblem requestID 500 ''Internal Server Error'' (Text ''the control plane could not process the request''))"

definition writeEntity :: "(json \<Rightarrow> string) \<Rightarrow> string \<Rightarrow> nat \<Rightarrow> json result \<Rightarrow> json \<Rightarrow> HTTPResponse" where
  "writeEntity digest requestID status etagValue response =
     (case entityETag digest etagValue of
        Inl err \<Rightarrow> writeError requestID err
      | Inr etag \<Rightarrow> (JSON status response)\<lparr>Resp_Header := [(''ETag'', etag), (''Content-Type'', ''application/json'')]\<rparr>)"

fun join_comma :: "string list \<Rightarrow> string" where
  "join_comma [] = ''''"
| "join_comma [s] = s"
| "join_comma (s # ss) = s @ '','' @ join_comma ss"

definition requestIfMatch :: "HTTPRequest \<Rightarrow> ifMatchPrecondition" where
  "requestIfMatch r = \<lparr>pre_present = (HR_Header r ''If-Match'' \<noteq> []), pre_value = join_comma (HR_Header r ''If-Match'')\<rparr>"

text \<open>What every handler does with the outcome of the service: an error is written, a value answered.\<close>

definition serve :: "('w, 'a) step \<Rightarrow> (string \<Rightarrow> 'a \<Rightarrow> HTTPResponse) \<Rightarrow> 'w handler" where
  "serve call answer requestID r w =
     (case call w of (Inl err, w') \<Rightarrow> (writeError requestID err, w') | (Inr x, w') \<Rightarrow> (answer requestID x, w'))"

definition noContent :: "string \<Rightarrow> unit \<Rightarrow> HTTPResponse" where
  "noContent requestID _ = \<lparr>Resp_Status = 204, Resp_Header = [], Resp_Body = NoBody\<rparr>"

definition json_data :: "('a \<Rightarrow> json) \<Rightarrow> string \<Rightarrow> 'a list \<Rightarrow> HTTPResponse" where
  "json_data f requestID xs = JSON 200 (JObj [(''data'', JArr (map f xs))])"

section \<open>Inputs\<close>

text \<open>\<^verbatim>\<open>DisallowUnknownFields\<close>: every member of the object names a field.\<close>

definition known_fields :: "string list \<Rightarrow> (json \<Rightarrow> 'a result) \<Rightarrow> bool \<Rightarrow> json \<Rightarrow> 'a result" where
  "known_fields names dec rejectUnknown j =
     (case j of
        JObj ms \<Rightarrow> if rejectUnknown \<and> \<not> list_all (\<lambda>(k, _). list_ex (\<lambda>n. fold_eq n k) names) ms
          then Inl (LibraryError ''json: unknown field'') else dec j
      | _ \<Rightarrow> dec j)"

fun decode_UserInput :: "json \<Rightarrow> UserInput result" where
  "decode_UserInput (JObj ms) =
     ebind (json_field ''name'' assign_string ms '''') (\<lambda>n.
     ebind (json_field ''email'' assign_string ms '''') (\<lambda>e.
     ebind (json_field ''status'' assign_string ms '''') (\<lambda>s.
     Inr \<lparr>UI_Name = n, UI_Email = e, UI_Status = s\<rparr>)))"
| "decode_UserInput JNull = Inr \<lparr>UI_Name = '''', UI_Email = '''', UI_Status = ''''\<rparr>"
| "decode_UserInput _ = type_error"

fun decode_ProviderInput :: "json \<Rightarrow> ProviderInput result" where
  "decode_ProviderInput (JObj ms) =
     ebind (json_field ''slug'' assign_string ms '''') (\<lambda>sl.
     ebind (json_field ''name'' assign_string ms '''') (\<lambda>n.
     ebind (json_field ''kind'' assign_string ms '''') (\<lambda>k.
     ebind (json_field ''adapter_app_id'' assign_string ms '''') (\<lambda>a.
     ebind (json_field ''status'' assign_string ms '''') (\<lambda>s.
     Inr \<lparr>PI_Slug = sl, PI_Name = n, PI_Kind = k, PI_AdapterAppID = a, PI_Status = s\<rparr>)))))"
| "decode_ProviderInput JNull = Inr \<lparr>PI_Slug = '''', PI_Name = '''', PI_Kind = '''', PI_AdapterAppID = '''', PI_Status = ''''\<rparr>"
| "decode_ProviderInput _ = type_error"

fun decode_ModelInput :: "json \<Rightarrow> ModelInput result" where
  "decode_ModelInput (JObj ms) =
     ebind (json_field ''alias'' assign_string ms '''') (\<lambda>a.
     ebind (json_field ''provider_id'' assign_string ms '''') (\<lambda>p.
     ebind (json_field ''upstream_model'' assign_string ms '''') (\<lambda>u.
     ebind (json_field ''status'' assign_string ms '''') (\<lambda>s.
     Inr \<lparr>MI_Alias = a, MI_ProviderID = p, MI_UpstreamModel = u, MI_Status = s\<rparr>))))"
| "decode_ModelInput JNull = Inr \<lparr>MI_Alias = '''', MI_ProviderID = '''', MI_UpstreamModel = '''', MI_Status = ''''\<rparr>"
| "decode_ModelInput _ = type_error"

fun decode_VirtualKeyInput :: "json \<Rightarrow> VirtualKeyInput result" where
  "decode_VirtualKeyInput (JObj ms) =
     ebind (json_field ''name'' assign_string ms '''') (\<lambda>n.
     ebind (json_field ''user_id'' assign_string ms '''') (\<lambda>u.
     ebind (json_field ''model_ids'' assign_strings ms []) (\<lambda>m.
     ebind (json_field ''status'' assign_string ms '''') (\<lambda>s.
     ebind (json_field ''expires_at'' assign_time_ptr ms None) (\<lambda>e.
     Inr \<lparr>KI_Name = n, KI_UserID = u, KI_ModelIDs = m, KI_Status = s, KI_ExpiresAt = e\<rparr>)))))"
| "decode_VirtualKeyInput JNull = Inr \<lparr>KI_Name = '''', KI_UserID = '''', KI_ModelIDs = [], KI_Status = '''', KI_ExpiresAt = None\<rparr>"
| "decode_VirtualKeyInput _ = type_error"

definition UserInput_fields :: "bool \<Rightarrow> json \<Rightarrow> UserInput result" where
  "UserInput_fields = known_fields [''name'', ''email'', ''status''] decode_UserInput"

definition ProviderInput_fields :: "bool \<Rightarrow> json \<Rightarrow> ProviderInput result" where
  "ProviderInput_fields = known_fields [''slug'', ''name'', ''kind'', ''adapter_app_id'', ''status''] decode_ProviderInput"

definition ModelInput_fields :: "bool \<Rightarrow> json \<Rightarrow> ModelInput result" where
  "ModelInput_fields = known_fields [''alias'', ''provider_id'', ''upstream_model'', ''status''] decode_ModelInput"

definition VirtualKeyInput_fields :: "bool \<Rightarrow> json \<Rightarrow> VirtualKeyInput result" where
  "VirtualKeyInput_fields = known_fields [''name'', ''user_id'', ''model_ids'', ''status'', ''expires_at''] decode_VirtualKeyInput"

definition KeySubject_fields :: "bool \<Rightarrow> json \<Rightarrow> KeySubject result" where
  "KeySubject_fields = known_fields [''user_id'', ''status'', ''revision'', ''deleted'', ''updated_at''] (decode KeySubjectCodec)"

definition ModelSubject_fields :: "bool \<Rightarrow> json \<Rightarrow> ModelSubject result" where
  "ModelSubject_fields =
     known_fields [''model_id'', ''alias'', ''status'', ''revision'', ''deleted'', ''updated_at''] (decode ModelSubjectCodec)"

section \<open>\<^verbatim>\<open>ResourceHTTPHandler\<close>\<close>

type_synonym ('u, 'p, 'k) resource_handler =
  "adminHTTP \<Rightarrow> ('u, 'p, 'k) ResourceService \<Rightarrow> ambient \<Rightarrow> ('u, 'p, 'k) world handler"

definition user_entity :: "('u, 'p, 'k) ResourceService \<Rightarrow> nat \<Rightarrow> string \<Rightarrow> User \<Rightarrow> HTTPResponse" where
  "user_entity rs status requestID user =
     writeEntity (rs_digest rs) requestID status (Marshal UserCodec user) (json_of_User user)"

definition provider_entity :: "('u, 'p, 'k) ResourceService \<Rightarrow> nat \<Rightarrow> string \<Rightarrow> Provider \<Rightarrow> HTTPResponse" where
  "provider_entity rs status requestID provider =
     writeEntity (rs_digest rs) requestID status (Marshal ProviderCodec provider) (json_of_Provider provider)"

definition model_entity :: "('u, 'p, 'k) ResourceService \<Rightarrow> nat \<Rightarrow> string \<Rightarrow> Model \<Rightarrow> HTTPResponse" where
  "model_entity rs status requestID model =
     writeEntity (rs_digest rs) requestID status (Marshal ModelCodec model) (json_of_Model model)"

definition h_createUser :: "('u, 'p, 'k) resource_handler" where
  "h_createUser h rs amb =
     with_input h UserInput_fields (\<lambda>input.
     serve (svc_CreateUser rs (amb_random_id amb) (amb_now amb) input) (user_entity rs 201))"

definition h_listUsers :: "('u, 'p, 'k) resource_handler" where
  "h_listUsers h rs amb = serve (svc_ListUsers rs) (json_data json_of_User)"

definition h_getUser :: "string \<Rightarrow> ('u, 'p, 'k) resource_handler" where
  "h_getUser i h rs amb = serve (svc_GetUser rs i) (user_entity rs 200)"

definition h_updateUser :: "string \<Rightarrow> ('u, 'p, 'k) resource_handler" where
  "h_updateUser i h rs amb =
     with_input h UserInput_fields (\<lambda>input requestID r.
     serve (svc_updateUser rs (amb_now amb) i input (requestIfMatch r)) (user_entity rs 200) requestID r)"

definition h_deleteUser :: "string \<Rightarrow> ('u, 'p, 'k) resource_handler" where
  "h_deleteUser i h rs amb requestID r = serve (svc_deleteUser rs (amb_now amb) i (requestIfMatch r)) noContent requestID r"

definition h_createProvider :: "('u, 'p, 'k) resource_handler" where
  "h_createProvider h rs amb =
     with_input h ProviderInput_fields (\<lambda>input.
     serve (svc_CreateProvider rs (amb_random_id amb) (amb_now amb) input) (provider_entity rs 201))"

definition h_listProviders :: "('u, 'p, 'k) resource_handler" where
  "h_listProviders h rs amb = serve (svc_ListProviders rs) (json_data json_of_Provider)"

definition h_getProvider :: "string \<Rightarrow> ('u, 'p, 'k) resource_handler" where
  "h_getProvider i h rs amb = serve (svc_GetProvider rs i) (provider_entity rs 200)"

definition h_updateProvider :: "string \<Rightarrow> ('u, 'p, 'k) resource_handler" where
  "h_updateProvider i h rs amb =
     with_input h ProviderInput_fields (\<lambda>input requestID r.
     serve (svc_updateProvider rs (amb_now amb) i input (requestIfMatch r)) (provider_entity rs 200) requestID r)"

definition h_deleteProvider :: "string \<Rightarrow> ('u, 'p, 'k) resource_handler" where
  "h_deleteProvider i h rs amb requestID r = serve (svc_deleteProvider rs i (requestIfMatch r)) noContent requestID r"

definition h_createModel :: "('u, 'p, 'k) resource_handler" where
  "h_createModel h rs amb =
     with_input h ModelInput_fields (\<lambda>input.
     serve (svc_CreateModel rs (amb_random_id amb) (amb_now amb) input) (model_entity rs 201))"

definition h_listModels :: "('u, 'p, 'k) resource_handler" where
  "h_listModels h rs amb = serve (svc_ListModels rs) (json_data json_of_Model)"

definition h_getModel :: "string \<Rightarrow> ('u, 'p, 'k) resource_handler" where
  "h_getModel i h rs amb = serve (svc_GetModel rs i) (model_entity rs 200)"

definition h_updateModel :: "string \<Rightarrow> ('u, 'p, 'k) resource_handler" where
  "h_updateModel i h rs amb =
     with_input h ModelInput_fields (\<lambda>input requestID r.
     serve (svc_updateModel rs (amb_now amb) i input (requestIfMatch r)) (model_entity rs 200) requestID r)"

definition h_deleteModel :: "string \<Rightarrow> ('u, 'p, 'k) resource_handler" where
  "h_deleteModel i h rs amb requestID r = serve (svc_deleteModel rs (amb_now amb) i (requestIfMatch r)) noContent requestID r"

definition on_path :: "string \<Rightarrow> segment list \<Rightarrow> 'w handler \<Rightarrow> 'w pattern" where
  "on_path verb path next = \<lparr>pat_method = verb, pat_path = path, pat_handler = (\<lambda>_. next)\<rparr>"

definition on_item :: "string \<Rightarrow> segment list \<Rightarrow> (string \<Rightarrow> 'w handler) \<Rightarrow> 'w pattern" where
  "on_item verb path next = \<lparr>pat_method = verb, pat_path = path, pat_handler = (\<lambda>values. next (case values of [] \<Rightarrow> '''' | i # _ \<Rightarrow> i))\<rparr>"

text \<open>The health checks of every service.\<close>

definition health_patterns :: "'w pattern list" where
  "health_patterns = [on_path ''GET'' [Lit ''livez''] health, on_path ''GET'' [Lit ''readyz''] health]"

definition resource_patterns :: "adminHTTP \<Rightarrow> ('u, 'p, 'k) ResourceService \<Rightarrow> ambient \<Rightarrow> ('u, 'p, 'k) world pattern list" where
  "resource_patterns h rs amb =
     [on_path ''GET'' [Lit ''livez''] health,
      on_path ''GET'' [Lit ''readyz''] health,
      on_path ''POST'' [Lit ''v1'', Lit ''users''] (admin h (h_createUser h rs amb)),
      on_path ''GET'' [Lit ''v1'', Lit ''users''] (admin h (h_listUsers h rs amb)),
      on_item ''GET'' [Lit ''v1'', Lit ''users'', Wildcard] (\<lambda>i. admin h (h_getUser i h rs amb)),
      on_item ''PUT'' [Lit ''v1'', Lit ''users'', Wildcard] (\<lambda>i. admin h (h_updateUser i h rs amb)),
      on_item ''DELETE'' [Lit ''v1'', Lit ''users'', Wildcard] (\<lambda>i. admin h (h_deleteUser i h rs amb)),
      on_path ''POST'' [Lit ''v1'', Lit ''providers''] (admin h (h_createProvider h rs amb)),
      on_path ''GET'' [Lit ''v1'', Lit ''providers''] (admin h (h_listProviders h rs amb)),
      on_item ''GET'' [Lit ''v1'', Lit ''providers'', Wildcard] (\<lambda>i. admin h (h_getProvider i h rs amb)),
      on_item ''PUT'' [Lit ''v1'', Lit ''providers'', Wildcard] (\<lambda>i. admin h (h_updateProvider i h rs amb)),
      on_item ''DELETE'' [Lit ''v1'', Lit ''providers'', Wildcard] (\<lambda>i. admin h (h_deleteProvider i h rs amb)),
      on_path ''POST'' [Lit ''v1'', Lit ''models''] (admin h (h_createModel h rs amb)),
      on_path ''GET'' [Lit ''v1'', Lit ''models''] (admin h (h_listModels h rs amb)),
      on_item ''GET'' [Lit ''v1'', Lit ''models'', Wildcard] (\<lambda>i. admin h (h_getModel i h rs amb)),
      on_item ''PUT'' [Lit ''v1'', Lit ''models'', Wildcard] (\<lambda>i. admin h (h_updateModel i h rs amb)),
      on_item ''DELETE'' [Lit ''v1'', Lit ''models'', Wildcard] (\<lambda>i. admin h (h_deleteModel i h rs amb))]"

definition ResourceHTTPHandler ::
  "adminHTTP \<Rightarrow> ('u, 'p, 'k) ResourceService \<Rightarrow> ambient \<Rightarrow> HTTPRequest \<Rightarrow> ('u, 'p, 'k) world \<Rightarrow> HTTPResponse \<times> ('u, 'p, 'k) world" where
  "ResourceHTTPHandler h rs amb = HTTPMiddleware (amb_random_request amb) (ServeMux (resource_patterns h rs amb) False)"

section \<open>\<^verbatim>\<open>VirtualKeyHTTPHandler\<close>\<close>

text \<open>The service on a key store: its hash, digest and store.\<close>

record 's VirtualKeyService =
  vks_hash :: "string \<Rightarrow> string"
  vks_digest :: "json \<Rightarrow> string"
  vks_keys :: "'s Store"

type_synonym 's key_handler = "adminHTTP \<Rightarrow> 's VirtualKeyService \<Rightarrow> ambient \<Rightarrow> 's handler"

definition internal :: "string \<Rightarrow> 'w handler \<Rightarrow> 'w handler" where
  "internal appToken next requestID r w =
     (if appToken = '''' \<or> \<not> SecureEqual (Header_Get r ''Dapr-Api-Token'') appToken
      then (WriteProblem requestID 401 ''Unauthorized''
             (Text ''the endpoint is only available through the authenticated Dapr sidecar''), w)
      else next requestID r w)"

definition key_entity :: "'s VirtualKeyService \<Rightarrow> nat \<Rightarrow> string \<Rightarrow> PublicVirtualKey \<Rightarrow> HTTPResponse" where
  "key_entity vks status requestID key =
     writeEntity (vks_digest vks) requestID status (Marshal_PublicVirtualKey key) (json_of_PublicVirtualKey key)"

definition h_createVirtualKey :: "'s key_handler" where
  "h_createVirtualKey h vks amb =
     with_input h VirtualKeyInput_fields (\<lambda>input.
     serve (svc_CreateVirtualKey (vks_hash vks) (vks_keys vks) (amb_random_key amb) (amb_random_id amb) (amb_now amb) (amb_later amb) input)
       (\<lambda>requestID key. writeEntity (vks_digest vks) requestID 201 (Marshal_PublicVirtualKey (CVK_VirtualKey key))
          (JObj [(''virtual_key'', json_of_PublicVirtualKey (CVK_VirtualKey key)), (''key'', JStr (CVK_Key key))])))"

definition h_listVirtualKeys :: "'s key_handler" where
  "h_listVirtualKeys h vks amb = serve (svc_ListVirtualKeys (vks_keys vks)) (json_data json_of_PublicVirtualKey)"

definition h_getVirtualKey :: "string \<Rightarrow> 's key_handler" where
  "h_getVirtualKey i h vks amb = serve (svc_GetVirtualKey (vks_keys vks) i) (key_entity vks 200)"

definition h_updateVirtualKey :: "string \<Rightarrow> 's key_handler" where
  "h_updateVirtualKey i h vks amb =
     with_input h VirtualKeyInput_fields (\<lambda>input requestID r.
     serve (svc_updateVirtualKey (vks_hash vks) (vks_digest vks) (vks_keys vks) (amb_now amb) (amb_later amb) i input (requestIfMatch r))
       (key_entity vks 200) requestID r)"

definition h_deleteVirtualKey :: "string \<Rightarrow> 's key_handler" where
  "h_deleteVirtualKey i h vks amb requestID r =
     serve (svc_deleteVirtualKey (vks_hash vks) (vks_digest vks) (vks_keys vks) i (requestIfMatch r)) noContent requestID r"

definition h_syncSubject :: "'s key_handler" where
  "h_syncSubject h vks amb = with_input h KeySubject_fields (\<lambda>subject. serve (svc_SyncSubject (vks_keys vks) subject) noContent)"

definition h_fenceSubject :: "'s key_handler" where
  "h_fenceSubject h vks amb = with_input h KeySubject_fields (\<lambda>subject. serve (svc_FenceSubject (vks_keys vks) subject) noContent)"

definition h_syncModelSubject :: "'s key_handler" where
  "h_syncModelSubject h vks amb = with_input h ModelSubject_fields (\<lambda>subject. serve (svc_SyncModel (vks_keys vks) subject) noContent)"

definition h_fenceModelSubject :: "'s key_handler" where
  "h_fenceModelSubject h vks amb = with_input h ModelSubject_fields (\<lambda>subject. serve (svc_FenceModel (vks_keys vks) subject) noContent)"

definition key_patterns :: "adminHTTP \<Rightarrow> string \<Rightarrow> 's VirtualKeyService \<Rightarrow> ambient \<Rightarrow> 's pattern list" where
  "key_patterns h appToken vks amb =
     [on_path ''GET'' [Lit ''livez''] health,
      on_path ''GET'' [Lit ''readyz''] health,
      on_path ''POST'' [Lit ''v1'', Lit ''virtual-keys''] (admin h (h_createVirtualKey h vks amb)),
      on_path ''GET'' [Lit ''v1'', Lit ''virtual-keys''] (admin h (h_listVirtualKeys h vks amb)),
      on_item ''GET'' [Lit ''v1'', Lit ''virtual-keys'', Wildcard] (\<lambda>i. admin h (h_getVirtualKey i h vks amb)),
      on_item ''PUT'' [Lit ''v1'', Lit ''virtual-keys'', Wildcard] (\<lambda>i. admin h (h_updateVirtualKey i h vks amb)),
      on_item ''DELETE'' [Lit ''v1'', Lit ''virtual-keys'', Wildcard] (\<lambda>i. admin h (h_deleteVirtualKey i h vks amb)),
      on_path ''POST'' [Lit ''internal'', Lit ''v1'', Lit ''subjects'', Lit ''sync''] (internal appToken (h_syncSubject h vks amb)),
      on_path ''POST'' [Lit ''internal'', Lit ''v1'', Lit ''subjects'', Lit ''fence''] (internal appToken (h_fenceSubject h vks amb)),
      on_path ''POST'' [Lit ''internal'', Lit ''v1'', Lit ''model-subjects'', Lit ''sync''] (internal appToken (h_syncModelSubject h vks amb)),
      on_path ''POST'' [Lit ''internal'', Lit ''v1'', Lit ''model-subjects'', Lit ''fence''] (internal appToken (h_fenceModelSubject h vks amb))]"

definition VirtualKeyHTTPHandler ::
  "adminHTTP \<Rightarrow> string \<Rightarrow> 's VirtualKeyService \<Rightarrow> ambient \<Rightarrow> HTTPRequest \<Rightarrow> 's \<Rightarrow> HTTPResponse \<times> 's" where
  "VirtualKeyHTTPHandler h appToken vks amb =
     HTTPMiddleware (amb_random_request amb) (ServeMux (key_patterns h appToken vks amb) False)"

section \<open>What a request can do\<close>

text \<open>
  What a handler does with every request of a kind: \<open>P\<close> selects the requests, \<open>Q\<close> relates the state, the
  response and the new state.
\<close>

definition answers :: "(HTTPRequest \<Rightarrow> bool) \<Rightarrow> ('w \<Rightarrow> HTTPResponse \<Rightarrow> 'w \<Rightarrow> bool) \<Rightarrow> 'w handler \<Rightarrow> bool" where
  "answers P Q f \<longleftrightarrow> (\<forall>requestID r w resp w'. P r \<longrightarrow> f requestID r w = (resp, w') \<longrightarrow> Q w resp w')"

definition along :: "('w \<Rightarrow> 'w \<Rightarrow> bool) \<Rightarrow> 'w \<Rightarrow> HTTPResponse \<Rightarrow> 'w \<Rightarrow> bool" where
  "along R w resp w' \<longleftrightarrow> w' = w \<or> R w w'"

definition credential :: "adminHTTP \<Rightarrow> HTTPRequest \<Rightarrow> bool" where
  "credential h r \<longleftrightarrow> BearerToken (Header_Get r ''Authorization'') = Some (ah_adminToken h)"

definition sidecar :: "string \<Rightarrow> HTTPRequest \<Rightarrow> bool" where
  "sidecar appToken r \<longleftrightarrow> appToken \<noteq> '''' \<and> Header_Get r ''Dapr-Api-Token'' = appToken"

text \<open>
  The endpoints that are for the resource service, and a call of one of them through the sidecar. The
  sidecar's token is good for these endpoints only.
\<close>

definition internal_endpoints :: "string list list" where
  "internal_endpoints =
     [[''internal'', ''v1'', ''subjects'', ''sync''], [''internal'', ''v1'', ''subjects'', ''fence''],
      [''internal'', ''v1'', ''model-subjects'', ''sync''], [''internal'', ''v1'', ''model-subjects'', ''fence'']]"

definition registry_call :: "string \<Rightarrow> HTTPRequest \<Rightarrow> bool" where
  "registry_call appToken r \<longleftrightarrow> sidecar appToken r \<and> HR_Segments r \<in> set internal_endpoints"

named_theorems answers_intros \<open>handlers that answer as specified\<close>

lemma answersI: "(\<And>requestID r w resp w'. P r \<Longrightarrow> f requestID r w = (resp, w') \<Longrightarrow> Q w resp w') \<Longrightarrow> answers P Q f"
  unfolding answers_def by blast

lemma answersD: "answers P Q f \<Longrightarrow> P r \<Longrightarrow> f requestID r w = (resp, w') \<Longrightarrow> Q w resp w'"
  unfolding answers_def by blast

lemma WriteProblem_status [simp]: "Resp_Status (WriteProblem requestID status title detail) = status"
  by (simp add: WriteProblem_def)

lemma JSON_status [simp]: "Resp_Status (JSON status v) = status"
  by (simp add: JSON_def)

lemma admin_granted: "credential h r \<Longrightarrow> admin h f requestID r w = f requestID r w"
  by (simp add: credential_def admin_def Let_def SecureEqual_iff)

lemma admin_refused:
  "\<not> credential h r \<Longrightarrow> admin h f requestID r w = (resp, w') \<Longrightarrow> w' = w \<and> Resp_Status resp = 401"
  by (auto simp: credential_def admin_def Let_def SecureEqual_iff split: option.splits if_splits)

lemma internal_granted: "sidecar appToken r \<Longrightarrow> internal appToken f requestID r w = f requestID r w"
  by (simp add: sidecar_def internal_def SecureEqual_iff)

lemma internal_refused:
  "\<not> sidecar appToken r \<Longrightarrow> internal appToken f requestID r w = (resp, w') \<Longrightarrow> w' = w \<and> Resp_Status resp = 401"
  by (auto simp: sidecar_def internal_def SecureEqual_iff split: if_splits)

lemma along_admin [answers_intros]: "answers P (along R) f \<Longrightarrow> answers P (along R) (admin h f)"
proof (rule answersI)
  fix requestID r w resp w'
  assume "answers P (along R) f" "P r" "admin h f requestID r w = (resp, w')"
  then show "along R w resp w'"
    by (cases "credential h r") (auto simp: admin_granted along_def dest: answersD admin_refused)
qed

lemma along_internal:
  "ls \<in> set internal_endpoints \<Longrightarrow>
    answers (\<lambda>r. \<not> registry_call appToken r \<and> match_path (map Lit ls) (HR_Segments r) = Some vals) (along R) (internal appToken f)"
  by (rule answersI) (auto simp: along_def registry_call_def match_literals dest: internal_refused split: if_splits)

lemma along_health [answers_intros]: "answers P (along R) health"
  by (simp add: answers_def along_def health_def)

lemma along_with_input [answers_intros]: "(\<And>input. answers P (along R) (f input)) \<Longrightarrow> answers P (along R) (with_input h dec f)"
  unfolding answers_def by (auto simp: with_input_def along_def split: sum.splits)

lemma serve_state: "serve call answer requestID r w = (resp, w') \<Longrightarrow> \<exists>res. call w = (res, w')"
  by (auto simp: serve_def split: prod.splits sum.splits)

lemma along_serve [answers_intros]:
  "(\<And>w res w'. call w = (res, w') \<Longrightarrow> w' = w \<or> R w w') \<Longrightarrow> answers P (along R) (serve call answer)"
  by (rule answersI) (unfold along_def, blast dest: serve_state)

lemma along_serve_request:
  "(\<And>r w res w'. call r w = (res, w') \<Longrightarrow> w' = w \<or> R w w') \<Longrightarrow> answers P (along R) (\<lambda>requestID r. serve (call r) answer requestID r)"
  by (rule answersI) (unfold along_def, blast dest: serve_state)

lemma mux_cases:
  assumes "ServeMux ps other requestID r w = (resp, w')"
  obtains (miss) "w' = w" "Resp_Status resp \<in> {404, 405}"
    | (hit) p vals where "p \<in> set ps" "match_path (pat_path p) (HR_Segments r) = Some vals" "pat_handler p vals requestID r w = (resp, w')"
  using assms
proof (induction ps arbitrary: other thesis)
  case (Cons p ps)
  show ?case
  proof (cases "\<exists>vals. match_path (pat_path p) (HR_Segments r) = Some vals \<and> match_method (pat_method p) (HR_Method r)")
    case True
    then obtain vals where "match_path (pat_path p) (HR_Segments r) = Some vals" "match_method (pat_method p) (HR_Method r)" by blast
    with Cons.prems(2) [of p vals] Cons.prems(3) show ?thesis by simp
  next
    case False
    with Cons.prems(3) obtain other' where "ServeMux ps other' requestID r w = (resp, w')" by (auto split: option.splits if_splits)
    from Cons.IH [OF _ _ this] Cons.prems(1,2) show ?thesis by (metis list.set_intros(2))
  qed
qed (auto split: if_splits)

lemma answers_mux:
  assumes "\<And>p vals. p \<in> set ps \<Longrightarrow> answers (\<lambda>r. P r \<and> match_path (pat_path p) (HR_Segments r) = Some vals) Q (pat_handler p vals)"
    and miss: "\<And>w resp. Resp_Status resp \<in> {404, 405} \<Longrightarrow> Q w resp w"
  shows "answers P Q (ServeMux ps other)"
proof (rule answersI)
  fix requestID r w resp w'
  assume "P r" "ServeMux ps other requestID r w = (resp, w')"
  from this(2) show "Q w resp w'"
    by (cases rule: mux_cases) (use miss \<open>P r\<close> answersD [OF assms(1)] in \<open>auto\<close>)
qed

lemma answers_middleware:
  assumes "answers P Q f" "P r" "HTTPMiddleware random f r w = (resp, w')"
    and frame: "\<And>resp resp' w'. Q w resp w' \<Longrightarrow> Resp_Status resp' = Resp_Status resp \<or> Resp_Status resp = 0 \<Longrightarrow> Q w resp' w'"
  shows "Q w resp w'"
proof -
  from assms(3) obtain requestID resp0 where f: "f requestID r w = (resp0, w')"
    and "Resp_Status resp = Resp_Status resp0 \<or> Resp_Status resp0 = 0"
    by (auto simp: HTTPMiddleware_def Let_def split: prod.splits if_splits)
  with answersD [OF assms(1,2) f] frame show ?thesis by blast
qed

lemma on_path_path [simp]: "pat_path (on_path verb path f) = path"
  and on_path_handler [simp]: "pat_handler (on_path verb path f) vals = f"
  and on_item_handler [simp]: "pat_handler (on_item verb path g) vals = g (case vals of [] \<Rightarrow> [] | i # _ \<Rightarrow> i)"
  by (simp_all add: on_path_def on_item_def)

text \<open>A service with health checks and one endpoint.\<close>

lemma single_endpoint:
  assumes "ls \<notin> {[''livez''], [''readyz'']}"
  shows "ServeMux (health_patterns @ [on_path ''POST'' (map Lit ls) f]) False requestID r w =
     (if HR_Method r = ''POST'' \<and> HR_Segments r = ls then f requestID r w
      else if match_method ''GET'' (HR_Method r) \<and> HR_Segments r \<in> {[''livez''], [''readyz'']} then health requestID r w
      else ServeMux [] (HR_Segments r \<in> {[''livez''], [''readyz''], ls}) requestID r w)"
  using assms match_literals [of "[''livez'']"] match_literals [of "[''readyz'']"] match_literals [of ls]
  by (auto simp: health_patterns_def on_path_def match_method_def)

lemma reads_unchanged:
  "svc_GetUser rs i w = (ru, w') \<Longrightarrow> w' = w" "svc_ListUsers rs w = (lu, w') \<Longrightarrow> w' = w"
  "svc_GetProvider rs i w = (rp, w') \<Longrightarrow> w' = w" "svc_ListProviders rs w = (lp, w') \<Longrightarrow> w' = w"
  "svc_GetModel rs i w = (rm, w') \<Longrightarrow> w' = w" "svc_ListModels rs w = (lm, w') \<Longrightarrow> w' = w"
  by (auto simp: svc_GetUser_def svc_ListUsers_def svc_GetProvider_def svc_ListProviders_def svc_GetModel_def svc_ListModels_def
      on_users_def on_providers_def)

lemma key_reads_unchanged:
  "svc_GetVirtualKey st i s = (rk, s') \<Longrightarrow> s' = s" "svc_ListVirtualKeys st s = (lk, s') \<Longrightarrow> s' = s"
  by (auto simp: svc_GetVirtualKey_def svc_ListVirtualKeys_def sbind_def split: sum.splits)

lemma along_users:
  assumes "plane H rs"
  shows "answers P (along (plane_step H)) (h_createUser h rs amb)" "answers P (along (plane_step H)) (h_listUsers h rs amb)"
    "answers P (along (plane_step H)) (h_getUser i h rs amb)" "answers P (along (plane_step H)) (h_updateUser i h rs amb)"
    "answers P (along (plane_step H)) (h_deleteUser i h rs amb)"
  unfolding h_createUser_def h_listUsers_def h_getUser_def h_updateUser_def h_deleteUser_def
  by (intro answers_intros along_serve_request; blast intro: ps_CreateUser ps_updateUser ps_deleteUser assms dest: reads_unchanged)+

lemma along_providers:
  assumes "plane H rs"
  shows "answers P (along (plane_step H)) (h_createProvider h rs amb)" "answers P (along (plane_step H)) (h_listProviders h rs amb)"
    "answers P (along (plane_step H)) (h_getProvider i h rs amb)" "answers P (along (plane_step H)) (h_updateProvider i h rs amb)"
    "answers P (along (plane_step H)) (h_deleteProvider i h rs amb)"
  unfolding h_createProvider_def h_listProviders_def h_getProvider_def h_updateProvider_def h_deleteProvider_def
  by (intro answers_intros along_serve_request; blast intro: ps_CreateProvider ps_updateProvider ps_deleteProvider assms dest: reads_unchanged)+

lemma along_models:
  assumes "plane H rs"
  shows "answers P (along (plane_step H)) (h_createModel h rs amb)" "answers P (along (plane_step H)) (h_listModels h rs amb)"
    "answers P (along (plane_step H)) (h_getModel i h rs amb)" "answers P (along (plane_step H)) (h_updateModel i h rs amb)"
    "answers P (along (plane_step H)) (h_deleteModel i h rs amb)"
  unfolding h_createModel_def h_listModels_def h_getModel_def h_updateModel_def h_deleteModel_def
  by (intro answers_intros along_serve_request; blast intro: ps_CreateModel ps_updateModel ps_deleteModel assms dest: reads_unchanged)+

text \<open>A move of the virtual-key service is a move of the control planes, whatever the other stores hold.\<close>

definition key_move :: "(string \<Rightarrow> string) \<Rightarrow> memory \<Rightarrow> memory \<Rightarrow> bool" where
  "key_move H s s' \<longleftrightarrow> (\<forall>w. w_registry w = s \<longrightarrow> plane_step H w (w\<lparr>w_registry := s'\<rparr>))"

definition memory_keys :: "(string \<Rightarrow> string) \<Rightarrow> (json \<Rightarrow> string) \<Rightarrow> memory VirtualKeyService" where
  "memory_keys H digest = \<lparr>vks_hash = H, vks_digest = digest, vks_keys = MemoryStore\<rparr>"

lemma key_moves:
  "svc_CreateVirtualKey H MemoryStore random random' now now' ki s = (k, s') \<Longrightarrow> key_move H s s'"
  "svc_updateVirtualKey H digest MemoryStore now now' rid ki pre s = (k', s') \<Longrightarrow> key_move H s s'"
  "svc_deleteVirtualKey H digest MemoryStore rid pre s = (q, s') \<Longrightarrow> key_move H s s'"
  unfolding key_move_def by (auto intro: ps_CreateVirtualKey ps_updateVirtualKey ps_deleteVirtualKey)

lemma along_keys:
  "answers P (along (key_move H)) (h_createVirtualKey h (memory_keys H digest) amb)"
  "answers P (along (key_move H)) (h_listVirtualKeys h (memory_keys H digest) amb)"
  "answers P (along (key_move H)) (h_getVirtualKey i h (memory_keys H digest) amb)"
  "answers P (along (key_move H)) (h_updateVirtualKey i h (memory_keys H digest) amb)"
  "answers P (along (key_move H)) (h_deleteVirtualKey i h (memory_keys H digest) amb)"
  unfolding h_createVirtualKey_def h_listVirtualKeys_def h_getVirtualKey_def h_updateVirtualKey_def h_deleteVirtualKey_def memory_keys_def
  by (intro answers_intros along_serve_request; simp; blast intro: key_moves dest: key_reads_unchanged)+

lemma along_frame: "along R w resp w' \<Longrightarrow> along R w resp' w'"
  by (simp add: along_def)

lemma resource_request_step:
  assumes "plane H rs" and "ResourceHTTPHandler h rs amb r w = (resp, w')"
  shows "w' = w \<or> plane_step H w w'"
proof -
  have "answers (\<lambda>_. True) (along (plane_step H)) (ServeMux (resource_patterns h rs amb) False)"
    by (rule answers_mux) (auto simp: resource_patterns_def along_def
        intro!: answers_intros along_users [OF assms(1)] along_providers [OF assms(1)] along_models [OF assms(1)])
  from answers_middleware [OF this TrueI assms(2) [unfolded ResourceHTTPHandler_def]] show ?thesis
    by (auto simp: along_def)
qed

lemma key_request_step:
  assumes "\<not> registry_call appToken r" and "VirtualKeyHTTPHandler h appToken (memory_keys H digest) amb r s = (resp, s')"
  shows "s' = s \<or> key_move H s s'"
proof -
  note inner = along_internal [of "internal_endpoints ! 0"] along_internal [of "internal_endpoints ! 1"]
    along_internal [of "internal_endpoints ! 2"] along_internal [of "internal_endpoints ! 3"]
  have "answers (\<lambda>r. \<not> registry_call appToken r) (along (key_move H)) (ServeMux (key_patterns h appToken (memory_keys H digest) amb) False)"
    by (rule answers_mux) (auto simp: key_patterns_def along_def
        intro!: answers_intros along_keys inner [simplified internal_endpoints_def, simplified])
  from answers_middleware [OF this assms(1) assms(2) [unfolded VirtualKeyHTTPHandler_def]] show ?thesis
    by (auto simp: along_def)
qed

section \<open>The registry link over HTTP\<close>

text \<open>
  The remote registry calls the virtual-key service through its sidecar. The transport may lose the
  request, or the answer after the request was served; otherwise the sidecar adds its token and the
  client turns the status into an error.
\<close>

datatype delivery = LoseRequest | LoseResponse | Deliver

definition sidecar_request :: "string \<Rightarrow> string list \<Rightarrow> nat \<Rightarrow> json \<Rightarrow> HTTPRequest" where
  "sidecar_request appToken segments len payload =
     \<lparr>HR_Method = ''POST'', HR_Segments = segments,
      HR_Header = (\<lambda>name. if name = ''Dapr-Api-Token'' then [appToken] else if name = ''Content-Type'' then [''application/json''] else []),
      HR_Body = Some \<lparr>documents = [(0, len, payload)], malformed = None\<rparr>\<rparr>"

fun internal_segments :: "string \<Rightarrow> string list" where
  "internal_segments path =
     (if path = ''/internal/v1/subjects/sync'' then [''internal'', ''v1'', ''subjects'', ''sync'']
      else if path = ''/internal/v1/subjects/fence'' then [''internal'', ''v1'', ''subjects'', ''fence'']
      else if path = ''/internal/v1/model-subjects/sync'' then [''internal'', ''v1'', ''model-subjects'', ''sync'']
      else if path = ''/internal/v1/model-subjects/fence'' then [''internal'', ''v1'', ''model-subjects'', ''fence'']
      else [path])"

declare internal_segments.simps [simp del]

text \<open>What the sidecars do with each call, and what the service reads from its clock and random source.\<close>

record network =
  net_fate :: "string \<Rightarrow> json \<Rightarrow> memory \<Rightarrow> delivery"
  net_ambient :: "string \<Rightarrow> json \<Rightarrow> memory \<Rightarrow> ambient"
  net_length :: "json \<Rightarrow> nat"                  \<comment> \<open>of the encoded payload\<close>
  net_body :: "HTTPResponse \<Rightarrow> string"
  net_stream :: "HTTPResponse \<Rightarrow> JSONStream"
  net_client :: Client                         \<comment> \<open>of the resource service\<close>
  net_urls :: "string \<Rightarrow> bool"                 \<comment> \<open>the URLs its HTTP client can parse\<close>

definition invoked_path :: "network \<Rightarrow> string \<Rightarrow> DaprRequest \<Rightarrow> string" where
  "invoked_path net app request =
     ''/'' @ drop (length (Client_baseURL (net_client net) @ ''/v1.0/invoke/'' @ PathEscape app @ ''/method/'')) (DR_URL request)"

definition sidecars :: "adminHTTP \<Rightarrow> string \<Rightarrow> memory VirtualKeyService \<Rightarrow> network \<Rightarrow> string \<Rightarrow> memory transport" where
  "sidecars h appToken vks net app request s =
     (let path = invoked_path net app request;
          payload = (case DR_Body request of None \<Rightarrow> JNull | Some j \<Rightarrow> j) in
      if net_fate net path payload s = LoseRequest then (Inl (LibraryError ''connection refused''), s)
      else case VirtualKeyHTTPHandler h appToken vks (net_ambient net path payload s)
            (sidecar_request appToken (internal_segments path) (net_length net payload) payload) s of
          (resp, s') \<Rightarrow>
            (if net_fate net path payload s = LoseResponse then Inl (LibraryError ''EOF'')
             else Inr \<lparr>DS_Status = Resp_Status resp, DS_ETag = '''', DS_RequestID = '''', DS_Text = net_body net resp, DS_JSON = net_stream net resp, DS_Broken = None\<rparr>, s'))"

definition http_invoker :: "adminHTTP \<Rightarrow> string \<Rightarrow> memory VirtualKeyService \<Rightarrow> network \<Rightarrow> memory JSONInvoker" where
  "http_invoker h appToken vks net app path payload s =
     (case InvokeJSON (net_urls net) (sidecars h appToken vks net app) (net_client net) app path (Inr payload) (None :: (json \<Rightarrow> unit result) option) s of
        (r, s') \<Rightarrow> (map_sum id (\<lambda>_. ()) r, s'))"

lemma drop_length_append: "drop (length xs) (xs @ ys) = ys"
  by simp

text \<open>A call is not delivered, or its path and payload reach the service.\<close>

lemma sidecars_call:
  assumes path: "path = CHR ''/'' # p"
    and url: "DR_URL request = Client_baseURL (net_client net) @ ''/v1.0/invoke/'' @ PathEscape app @ ''/method/'' @ p"
    and body: "DR_Body request = Some payload" and run: "sidecars h appToken vks net app request s = (r, s')"
  shows "(\<exists>e. r = Inl e) \<and> s' = s \<or>
    (\<exists>amb n resp. VirtualKeyHTTPHandler h appToken vks amb (sidecar_request appToken (internal_segments path) n payload) s = (resp, s') \<and>
       (\<forall>answer. r = Inr answer \<longrightarrow> DS_Status answer = Resp_Status resp))"
proof -
  let ?prefix = "Client_baseURL (net_client net) @ ''/v1.0/invoke/'' @ PathEscape app @ ''/method/''"
  have "DR_URL request = ?prefix @ p" using url by simp
  then have sent: "invoked_path net app request = path"
    using path by (simp only: invoked_path_def drop_length_append append_Cons append_Nil)
  obtain resp s1 where call: "VirtualKeyHTTPHandler h appToken vks (net_ambient net path payload s)
      (sidecar_request appToken (internal_segments path) (net_length net payload) payload) s = (resp, s1)" by force
  show ?thesis
  proof (cases "net_fate net path payload s = LoseRequest")
    case True
    with run sent body show ?thesis by (auto simp: sidecars_def)
  next
    case False
    with run sent body call have "s' = s1" "\<forall>answer. r = Inr answer \<longrightarrow> DS_Status answer = Resp_Status resp"
      by (auto simp: sidecars_def split: if_splits)
    with call show ?thesis by blast
  qed
qed

lemma http_invoker_call:
  assumes path: "path = CHR ''/'' # p" "dropWhile (\<lambda>x. x = CHR ''/'') path = p"
    and run: "http_invoker h appToken vks net app path payload s = (r, s')"
  shows "(\<exists>e. r = Inl e) \<and> s' = s \<or>
    (\<exists>amb n resp. VirtualKeyHTTPHandler h appToken vks amb (sidecar_request appToken (internal_segments path) n payload) s = (resp, s') \<and>
       (r = Inr () \<longrightarrow> Resp_Status resp < 300))"
proof (cases "net_urls net (Client_baseURL (net_client net) @ ''/v1.0/invoke/'' @ PathEscape app @ ''/method/'' @ p)")
  case False
  with run path(2) show ?thesis
    by (auto simp: http_invoker_def InvokeJSON_def Invoke_def InvokeMethod_def newRequest_def)
next
  case True
  define request where "request = \<lparr>DR_Method = ''POST'',
    DR_URL = Client_baseURL (net_client net) @ ''/v1.0/invoke/'' @ PathEscape app @ ''/method/'' @ p,
    DR_Header = with_token (net_client net) (header_set ''Content-Type'' ''application/json'' []), DR_Body = Some payload\<rparr>"
  obtain answer s1 where exchange: "sidecars h appToken vks net app request s = (answer, s1)" by force
  have "Invoke (net_urls net) (sidecars h appToken vks net app) (net_client net) app path (Some payload) ''application/json'' s = (answer, s1)"
    using True path(2) exchange by (simp add: Invoke_def InvokeMethod_def newRequest_def request_def)
  with run have "s' = s1" "r = Inr () \<longrightarrow> (\<exists>x. answer = Inr x \<and> DS_Status x < 300)" "\<forall>e. answer = Inl e \<longrightarrow> (\<exists>e. r = Inl e)"
    by (auto simp: http_invoker_def InvokeJSON_def success_def split: sum.splits if_splits)
  moreover have "DR_URL request = Client_baseURL (net_client net) @ ''/v1.0/invoke/'' @ PathEscape app @ ''/method/'' @ p"
    "DR_Body request = Some payload" by (simp_all add: request_def)
  ultimately show ?thesis using sidecars_call [OF path(1) _ _ exchange] by metis
qed

lemma writeError_fails: "300 \<le> Resp_Status (writeError requestID e)"
  by (auto simp: writeError_def split: option.splits)

text \<open>A subject that is sent is the subject that is read.\<close>

lemma subject_fields:
  "KeySubject_fields True (json_of KeySubjectCodec x) = Inr x" "ModelSubject_fields True (json_of ModelSubjectCodec y) = Inr y"
  using key_subject_codec.decode_json_of [of x] model_subject_codec.decode_json_of [of y]
  by (simp_all add: KeySubject_fields_def ModelSubject_fields_def known_fields_def KeySubjectCodec_def ModelSubjectCodec_def
      json_of_KeySubject_def json_of_ModelSubject_def)

text \<open>What one call of an internal endpoint does: nothing, with an error, or what the service does.\<close>

definition performs :: "('x \<Rightarrow> (memory, unit) step) \<Rightarrow> 'x \<Rightarrow> memory \<Rightarrow> HTTPResponse \<Rightarrow> memory \<Rightarrow> bool" where
  "performs remote x s resp s' \<longleftrightarrow>
     s' = s \<and> 300 \<le> Resp_Status resp \<or>
     s' = snd (remote x s) \<and> (Resp_Status resp < 300 \<longrightarrow> fst (remote x s) = Inr ())"

lemma performs_endpoint:
  assumes "dec True (json_of C x) = Inr x"
    and run: "internal appToken (with_input h dec (\<lambda>y. serve (remote y) noContent)) requestID
      (sidecar_request appToken segs n (json_of C x)) s = (resp, s')"
  shows "performs remote x s resp s'"
proof (cases "sidecar appToken (sidecar_request appToken segs n (json_of C x))")
  case True
  show ?thesis
  proof (cases "DecodeJSON dec (ah_maxBody h) True (sidecar_request appToken segs n (json_of C x))")
    case (Inl e)
    with run True show ?thesis by (auto simp: internal_granted with_input_def performs_def)
  next
    case (Inr y)
    then have "y = x" using assms(1)
      by (auto simp: DecodeJSON_def sidecar_request_def LimitReader_def Let_def split: if_splits list.splits)
    with run True Inr have serve: "serve (remote x) noContent requestID (sidecar_request appToken segs n (json_of C x)) s = (resp, s')"
      by (simp add: internal_granted with_input_def)
    obtain res s1 where call: "remote x s = (res, s1)" by force
    show ?thesis
    proof (cases res)
      case (Inl e)
      with serve call writeError_fails [of requestID e] show ?thesis by (auto simp: serve_def performs_def)
    qed (use serve call in \<open>auto simp: serve_def performs_def\<close>)
  qed
next
  case False
  from internal_refused [OF this run] show ?thesis by (simp add: performs_def)
qed

lemma performs_middleware:
  assumes "\<And>requestID resp s'. f requestID r s = (resp, s') \<Longrightarrow> performs remote x s resp s'"
    and "HTTPMiddleware random f r s = (resp, s')"
  shows "performs remote x s resp s'"
proof -
  from assms(2) obtain requestID resp0 where "f requestID r s = (resp0, s')"
    and "Resp_Status resp = (if Resp_Status resp0 = 0 then 200 else Resp_Status resp0)"
    by (auto simp: HTTPMiddleware_def Let_def split: prod.splits)
  with assms(1) show ?thesis by (fastforce simp: performs_def split: if_splits)
qed

lemma sidecar_request_simps [simp]:
  "HR_Segments (sidecar_request appToken segs n payload) = segs" "HR_Method (sidecar_request appToken segs n payload) = ''POST''"
  by (simp_all add: sidecar_request_def)

text \<open>The four internal endpoints.\<close>

lemma internal_routes:
  "ServeMux (key_patterns h appToken vks amb) False requestID (sidecar_request appToken (internal_segments ''/internal/v1/subjects/sync'') n v) s =
     internal appToken (h_syncSubject h vks amb) requestID (sidecar_request appToken (internal_segments ''/internal/v1/subjects/sync'') n v) s"
  "ServeMux (key_patterns h appToken vks amb) False requestID (sidecar_request appToken (internal_segments ''/internal/v1/subjects/fence'') n v) s =
     internal appToken (h_fenceSubject h vks amb) requestID (sidecar_request appToken (internal_segments ''/internal/v1/subjects/fence'') n v) s"
  "ServeMux (key_patterns h appToken vks amb) False requestID (sidecar_request appToken (internal_segments ''/internal/v1/model-subjects/sync'') n v) s =
     internal appToken (h_syncModelSubject h vks amb) requestID (sidecar_request appToken (internal_segments ''/internal/v1/model-subjects/sync'') n v) s"
  "ServeMux (key_patterns h appToken vks amb) False requestID (sidecar_request appToken (internal_segments ''/internal/v1/model-subjects/fence'') n v) s =
     internal appToken (h_fenceModelSubject h vks amb) requestID (sidecar_request appToken (internal_segments ''/internal/v1/model-subjects/fence'') n v) s"
  by (simp_all add: key_patterns_def on_path_def on_item_def match_method_def internal_segments.simps)

lemma internal_calls:
  "VirtualKeyHTTPHandler h appToken (memory_keys H digest) amb
     (sidecar_request appToken (internal_segments ''/internal/v1/subjects/sync'') n (json_of KeySubjectCodec x)) s = (resp, s') \<Longrightarrow>
   performs (svc_SyncSubject MemoryStore) x s resp s'"
  "VirtualKeyHTTPHandler h appToken (memory_keys H digest) amb
     (sidecar_request appToken (internal_segments ''/internal/v1/subjects/fence'') n (json_of KeySubjectCodec x)) s = (resp, s') \<Longrightarrow>
   performs (svc_FenceSubject MemoryStore) x s resp s'"
  "VirtualKeyHTTPHandler h appToken (memory_keys H digest) amb
     (sidecar_request appToken (internal_segments ''/internal/v1/model-subjects/sync'') n (json_of ModelSubjectCodec y)) s = (resp, s') \<Longrightarrow>
   performs (svc_SyncModel MemoryStore) y s resp s'"
  "VirtualKeyHTTPHandler h appToken (memory_keys H digest) amb
     (sidecar_request appToken (internal_segments ''/internal/v1/model-subjects/fence'') n (json_of ModelSubjectCodec y)) s = (resp, s') \<Longrightarrow>
   performs (svc_FenceModel MemoryStore) y s resp s'"
  unfolding VirtualKeyHTTPHandler_def
  by (erule performs_middleware [rotated], simp only: internal_routes h_syncSubject_def h_fenceSubject_def h_syncModelSubject_def
      h_fenceModelSubject_def memory_keys_def VirtualKeyService.select_convs, erule performs_endpoint [rotated], rule subject_fields)+

text \<open>A registry call over HTTP is a sound link.\<close>

lemma http_link:
  assumes path: "path = CHR ''/'' # p" "dropWhile (\<lambda>x. x = CHR ''/'') path = p"
    and served: "\<And>x n s amb resp s'. VirtualKeyHTTPHandler h appToken vks amb
      (sidecar_request appToken (internal_segments path) n (json_of C x)) s = (resp, s') \<Longrightarrow> performs remote x s resp s'"
  shows "sound_link remote (\<lambda>x. registry_invoke (Some (http_invoker h appToken vks net)) app path (json_of C x) resource)"
  unfolding sound_link_def
proof (intro allI impI)
  fix x s r s'
  assume run: "registry_invoke (Some (http_invoker h appToken vks net)) app path (json_of C x) resource s = (r, s')"
  show "(\<exists>e. r = Inl e) \<and> s' = s \<or> s' = snd (remote x s) \<and> (r = Inr () \<longrightarrow> fst (remote x s) = Inr ())"
  proof (cases "app = []")
    case True
    with run show ?thesis by (auto simp: registry_invoke_def)
  next
    case app: False
    obtain r1 s1 where call: "http_invoker h appToken vks net app path (json_of C x) s = (r1, s1)" by force
    with run app have s': "s' = s1" and r: "r = Inr () \<longleftrightarrow> r1 = Inr ()"
      by (auto simp: registry_invoke_def split: sum.splits option.splits if_splits)
    then have failed: "r \<noteq> Inr () \<Longrightarrow> \<exists>e. r = Inl e" by (cases r) auto
    from http_invoker_call [OF path call] show ?thesis
    proof (elim disjE exE conjE)
      fix e assume "r1 = Inl e" "s1 = s"
      with s' r failed show ?thesis by simp
    next
      fix amb n resp
      assume "VirtualKeyHTTPHandler h appToken vks amb (sidecar_request appToken (internal_segments path) n (json_of C x)) s = (resp, s1)"
        and "r1 = Inr () \<longrightarrow> Resp_Status resp < 300"
      with served [of amb n x s resp s1] show ?thesis unfolding performs_def s' using r failed by (meson not_le)
    qed
  qed
qed

definition deployed ::
  "(string \<Rightarrow> string) \<Rightarrow> (json \<Rightarrow> string) \<Rightarrow> Library \<Rightarrow> adminHTTP \<Rightarrow> string \<Rightarrow> network \<Rightarrow> string \<Rightarrow> (memory, memory, memory) ResourceService" where
  "deployed H digest lib h appToken net app =
     (let invoker = Some (http_invoker h appToken (memory_keys H digest) net) in
      \<lparr>rs_users = MemoryStore, rs_providers = MemoryStore, rs_subjects = RemoteSubjectRegistry invoker app,
       rs_modelSubjects = Some (RemoteModelRegistry invoker app), rs_hash = H, rs_digest = digest, rs_lib = lib\<rparr>)"

lemma deployed_plane: "plane H (deployed H digest lib h appToken net app)"
  unfolding plane_def deployed_def RemoteSubjectRegistry_def RemoteModelRegistry_def
  by (simp add: Let_def) (intro conjI http_link internal_calls; simp)

text \<open>
  The deployment: requests to the resource service, whose registry calls go over HTTP to the virtual-key
  service, and every other request to the virtual-key service: a request that carries the sidecar's
  token to an endpoint of the registry is one that the resource service made, so it is part of its step.
\<close>

inductive deployment_step :: "(string \<Rightarrow> string) \<Rightarrow> planes \<Rightarrow> planes \<Rightarrow> bool" for H where
  resource_request: "ResourceHTTPHandler h (deployed H digest lib vh appToken net app) amb r w = (resp, w') \<Longrightarrow> deployment_step H w w'"
| key_request: "\<not> registry_call appToken r \<Longrightarrow>
    VirtualKeyHTTPHandler h appToken (memory_keys H digest) amb r (w_registry w) = (resp, s') \<Longrightarrow>
    deployment_step H w (w\<lparr>w_registry := s'\<rparr>)"

lemma deployment_step_plane: "deployment_step H w w' \<Longrightarrow> w' = w \<or> plane_step H w w'"
proof (induction rule: deployment_step.induct)
  case (resource_request h digest lib vh appToken net app amb r w resp w')
  show ?case by (rule resource_request_step [OF deployed_plane resource_request])
next
  case (key_request appToken r h digest amb w resp s')
  from key_request_step [OF key_request] show ?case by (auto simp: key_move_def)
qed

lemma deployment_reachable:
  assumes "(deployment_step H)\<^sup>*\<^sup>* w0 w" "(plane_step H)\<^sup>*\<^sup>* new_planes w0"
  shows "(plane_step H)\<^sup>*\<^sup>* new_planes w"
  using assms by (induction rule: rtranclp_induct) (auto dest: deployment_step_plane)

lemma middleware_cases:
  assumes "HTTPMiddleware random f r w = (resp, w')"
  obtains requestID resp0 where "f requestID r w = (resp0, w')"
    "Resp_Status resp = (if Resp_Status resp0 = 0 then 200 else Resp_Status resp0)"
  using assms by (auto simp: HTTPMiddleware_def Let_def split: prod.splits)

lemma match_one: "match_path [Lit l] segs = Some vals \<longleftrightarrow> segs = [l] \<and> vals = []"
  by (cases segs; cases "tl segs") auto

lemma match_four: "match_path [Lit a, Lit b, Lit c, Lit d] segs = Some vals \<longleftrightarrow> segs = [a, b, c, d] \<and> vals = []"
  using match_literals [of "[a, b, c, d]" segs] by (auto split: if_splits)

lemma health_answer: "health requestID r w = (resp, w') \<Longrightarrow> w' = w \<and> Resp_Status resp = 200"
  by (auto simp: health_def)

definition denied :: "HTTPRequest \<Rightarrow> HTTPResponse \<Rightarrow> bool" where
  "denied r resp \<longleftrightarrow> Resp_Status resp \<in> {401, 404, 405} \<or> Resp_Status resp = 200 \<and> HR_Segments r \<in> {[''livez''], [''readyz'']}"

section \<open>Properties\<close>

text \<open>
  C6: A grant has live resources behind it in the deployment, too. From any state the services can reach,
  after any sequence of HTTP requests to the two control planes, with any credentials and any bodies, the
  registry calls going over an HTTP link that may lose requests and answers, a granted authorization names
  a stored active user, a stored key of that user and a stored active model that the key lists. The one
  kind of request that is not free is a call of a registry endpoint with the sidecar's token: those are
  the calls the resource service makes. Everywhere else the sidecar's token may be used by anybody.
\<close>

theorem deployment_grants_are_live:
  assumes "(plane_step H)\<^sup>*\<^sup>* new_planes w0" and "(deployment_step H)\<^sup>*\<^sup>* w0 w"
    and "Authorize (memory_runtime H) now token requested (w_registry w) (w_providers w) = Inr auth"
  shows "\<exists>user key model.
      repo_GetUser MemoryStore (Auth_UserID auth) (w_users w) = Inr user \<and> User_Status user = StatusActive
    \<and> repo_GetVirtualKey MemoryStore (Auth_KeyID auth) (w_registry w) = Inr key \<and> VK_UserID key = Auth_UserID auth
    \<and> repo_GetModelByAlias H MemoryStore requested (w_providers w) = Inr model \<and> Model_Status model = StatusActive
    \<and> Model_ID model \<in> set (VK_ModelIDs key)"
  using reachable_kept [OF deployment_reachable [OF assms(2,1)]] grant_has_live_resources [OF _ assms(3)] by metis

definition no_header :: "string \<Rightarrow> string list" where
  "no_header name = []"

definition laptop_request :: HTTPRequest where
  "laptop_request = \<lparr>HR_Method = ''POST'', HR_Segments = [''v1'', ''virtual-keys''],
     HR_Header = (\<lambda>name. if name = ''Authorization'' then [''Bearer t''] else if name = ''Dapr-Api-Token'' then [''token''] else []),
     HR_Body = Some \<lparr>documents = [(0, 90, JObj [(''name'', JStr ''laptop''), (''user_id'', JStr ''usr_01''),
       (''model_ids'', JArr [JStr ''mdl_01'']), (''status'', JStr ''active'')])], malformed = None\<rparr>\<rparr>"

definition still :: ambient where
  "still = \<lparr>amb_random_id = Inr [1], amb_random_key = Inr [1, 2, 3], amb_random_request = Inr [7], amb_now = 0, amb_later = 0\<rparr>"

lemma laptop_decoded: "DecodeJSON VirtualKeyInput_fields 1000 True laptop_request = Inr laptop_input"
  by code_simp

lemma laptop_created:
  assumes "svc_CreateVirtualKey (\<lambda>x. x) MemoryStore (Inr [1, 2, 3]) (Inr [1]) 0 0 laptop_input s = (r, s')"
  shows "\<exists>resp. VirtualKeyHTTPHandler \<lparr>ah_adminToken = ''t'', ah_maxBody = 1000\<rparr> ''token'' (memory_keys (\<lambda>x. x) (\<lambda>_. ''''))
    still laptop_request s = (resp, s')"
proof -
  have "credential \<lparr>ah_adminToken = ''t'', ah_maxBody = 1000\<rparr> laptop_request" by code_simp
  with assms laptop_decoded show ?thesis
    by (simp add: VirtualKeyHTTPHandler_def HTTPMiddleware_def key_patterns_def on_path_def on_item_def match_method_def admin_granted
        h_createVirtualKey_def with_input_def serve_def memory_keys_def still_def Let_def laptop_request_def split: sum.splits prod.splits)
qed

lemma no_keys_no_grant:
  assumes "shows_as w R c a" "Keys a = Map.empty"
  shows "\<nexists>auth. Authorize (memory_runtime (\<lambda>x. x)) now token requested (w_registry w) (w_providers w) = Inr auth"
  using assms Authorize_iff [of "\<lambda>x. x" a "w_registry w" c "w_providers w" now token requested]
  by (auto simp: shows_as_def authorized_def usable_key_def)

theorem deployment_grants_are_live_witness:
  "\<exists>w w' user. deployment_step (\<lambda>x. x) w w'
     \<and> (\<nexists>auth. Authorize (memory_runtime (\<lambda>x. x)) 7 ''gwai_AQID'' ''lark'' (w_registry w) (w_providers w) = Inr auth)
     \<and> Authorize (memory_runtime (\<lambda>x. x)) 7 ''gwai_AQID'' ''lark'' (w_registry w') (w_providers w') = Inr \<lparr>Auth_KeyID = ''key_01'', Auth_UserID = ''usr_01''\<rparr>
     \<and> repo_GetUser MemoryStore ''usr_01'' (w_users w') = Inr user \<and> User_Status user = StatusActive"
proof -
  obtain w w1 where w: "(plane_step (\<lambda>x. x))\<^sup>*\<^sup>* new_planes w" "shows_as w [''usr_01'' \<mapsto> eve] demo_catalog (demo_ring\<lparr>Keys := Map.empty\<rparr>)"
    and made: "svc_CreateVirtualKey (\<lambda>x. x) MemoryStore (Inr [1, 2, 3]) (Inr [1]) 0 0 laptop_input (w_registry w) =
      (Inr \<lparr>CVK_VirtualKey = Public eve_key, CVK_Key = ''gwai_AQID''\<rparr>, w_registry w1)"
    and w1: "shows_as w1 [''usr_01'' \<mapsto> eve] demo_catalog demo_ring" by (rule demo_key)
  let ?w' = "w\<lparr>w_registry := w_registry w1\<rparr>"
  have "\<not> registry_call ''token'' laptop_request" by (simp add: registry_call_def internal_endpoints_def laptop_request_def)
  with laptop_created [OF made] have step: "deployment_step (\<lambda>x. x) w ?w'" by (auto intro: key_request)
  have "shows_as ?w' [''usr_01'' \<mapsto> eve] demo_catalog demo_ring" using w(2) w1 by (simp add: shows_as_def)
  note grant = demo_authorized [OF this, where now = 7]
  have "\<nexists>auth. Authorize (memory_runtime (\<lambda>x. x)) 7 ''gwai_AQID'' ''lark'' (w_registry w) (w_providers w) = Inr auth"
    by (rule no_keys_no_grant [OF w(2)]) simp
  with deployment_grants_are_live [OF w(1) r_into_rtranclp [of "deployment_step (\<lambda>x. x)", OF step] grant] grant step show ?thesis
    by (intro exI [of _ w] exI [of _ ?w']) auto
qed

text \<open>
  C15: Nothing works without credentials. A request without the admin token changes nothing at either
  service, and is answered 401, 404 or 405 unless it asks for one of the two health endpoints. The only
  exception are the four registry endpoints of the virtual-key service, for a request with the sidecar's
  token: that token opens no other endpoint.
\<close>

theorem unauthenticated_requests_rejected:
  assumes "\<not> credential h r"
  shows "(ResourceHTTPHandler h rs amb r w = (resp, w') \<longrightarrow>
      w' = w \<and> (Resp_Status resp \<in> {401, 404, 405} \<or> Resp_Status resp = 200 \<and> HR_Segments r \<in> {[''livez''], [''readyz'']}))
    \<and> (\<not> registry_call appToken r \<longrightarrow> VirtualKeyHTTPHandler h appToken vks amb r s = (resp', s') \<longrightarrow>
      s' = s \<and> (Resp_Status resp' \<in> {401, 404, 405} \<or> Resp_Status resp' = 200 \<and> HR_Segments r \<in> {[''livez''], [''readyz'']}))"
proof (intro conjI impI)
  assume "ResourceHTTPHandler h rs amb r w = (resp, w')"
  then obtain requestID resp0 where "ServeMux (resource_patterns h rs amb) False requestID r w = (resp0, w')"
    and status: "Resp_Status resp = (if Resp_Status resp0 = 0 then 200 else Resp_Status resp0)"
    unfolding ResourceHTTPHandler_def by (rule middleware_cases)
  then have "w' = w \<and> denied r resp0"
    by (cases rule: mux_cases) (auto simp: resource_patterns_def on_path_def on_item_def denied_def match_one
        dest!: admin_refused [OF assms] health_answer)
  with status show "w' = w" "Resp_Status resp \<in> {401, 404, 405} \<or> Resp_Status resp = 200 \<and> HR_Segments r \<in> {[''livez''], [''readyz'']}"
    by (auto simp: denied_def)
next
  assume side: "\<not> registry_call appToken r" and "VirtualKeyHTTPHandler h appToken vks amb r s = (resp', s')"
  then obtain requestID resp0 where "ServeMux (key_patterns h appToken vks amb) False requestID r s = (resp0, s')"
    and status: "Resp_Status resp' = (if Resp_Status resp0 = 0 then 200 else Resp_Status resp0)"
    unfolding VirtualKeyHTTPHandler_def by (metis middleware_cases)
  then have "s' = s \<and> denied r resp0"
  proof (cases rule: mux_cases)
    case (hit p vals)
    show ?thesis
    proof (cases "sidecar appToken r")
      case True
      with side have "HR_Segments r \<notin> set internal_endpoints" by (simp add: registry_call_def)
      with hit show ?thesis
        by (auto simp: key_patterns_def on_path_def on_item_def denied_def match_one match_four internal_endpoints_def
            dest!: admin_refused [OF assms] health_answer)
    next
      case False
      with hit show ?thesis
        by (auto simp: key_patterns_def on_path_def on_item_def denied_def match_one
            dest!: admin_refused [OF assms] internal_refused [OF False] health_answer)
    qed
  qed (auto simp: denied_def)
  with status show "s' = s" "Resp_Status resp' \<in> {401, 404, 405} \<or> Resp_Status resp' = 200 \<and> HR_Segments r \<in> {[''livez''], [''readyz'']}"
    by (auto simp: denied_def)
qed

theorem unauthenticated_requests_rejected_witness:
  "\<exists>resp resp'. ResourceHTTPHandler \<lparr>ah_adminToken = ''t'', ah_maxBody = 0\<rparr> direct still
       \<lparr>HR_Method = ''DELETE'', HR_Segments = [''v1'', ''users'', ''usr_01''], HR_Header = no_header, HR_Body = None\<rparr> new_planes = (resp, new_planes)
     \<and> Resp_Status resp \<in> {401, 404, 405}
     \<and> VirtualKeyHTTPHandler \<lparr>ah_adminToken = ''t'', ah_maxBody = 0\<rparr> ''token'' (memory_keys (\<lambda>x. x) (\<lambda>_. '''')) still
         (laptop_request\<lparr>HR_Header := (HR_Header laptop_request)(''Authorization'' := [])\<rparr>) NewMemoryStore = (resp', NewMemoryStore)
     \<and> Resp_Status resp' \<in> {401, 404, 405}"
proof -
  let ?h = "\<lparr>ah_adminToken = ''t'', ah_maxBody = 0\<rparr>"
  let ?r = "\<lparr>HR_Method = ''DELETE'', HR_Segments = [''v1'', ''users'', ''usr_01''], HR_Header = no_header, HR_Body = None\<rparr>"
  let ?k = "laptop_request\<lparr>HR_Header := (HR_Header laptop_request)(''Authorization'' := [])\<rparr>"
  have c: "\<not> credential ?h ?r" "\<not> credential ?h ?k"
    by (simp_all add: credential_def Header_Get_def no_header_def BearerToken_def Fields.simps TrimLeft_def)
  have n: "\<not> registry_call ''token'' ?k" by (simp add: registry_call_def internal_endpoints_def laptop_request_def)
  obtain resp w' where run: "ResourceHTTPHandler ?h direct still ?r new_planes = (resp, w')" by force
  obtain resp' s' where run': "VirtualKeyHTTPHandler ?h ''token'' (memory_keys (\<lambda>x. x) (\<lambda>_. '''')) still ?k NewMemoryStore = (resp', s')" by force
  have "HR_Segments ?k = [''v1'', ''virtual-keys'']" by (simp add: laptop_request_def)
  with unauthenticated_requests_rejected [OF c(1), THEN conjunct1, rule_format, OF run] run
    unauthenticated_requests_rejected [OF c(2), THEN conjunct2, rule_format, OF n run'] run' show ?thesis by auto
qed

text \<open>Reading and conditionally replacing one user.\<close>

lemma user_routes:
  "HR_Segments r = [''v1'', ''users'', i] \<Longrightarrow> i \<noteq> '''' \<Longrightarrow> HR_Method r = ''GET'' \<Longrightarrow> credential h r \<Longrightarrow>
     ServeMux (resource_patterns h rs amb) False requestID r w = h_getUser i h rs amb requestID r w"
  "HR_Segments r = [''v1'', ''users'', i] \<Longrightarrow> i \<noteq> '''' \<Longrightarrow> HR_Method r = ''PUT'' \<Longrightarrow> credential h r \<Longrightarrow>
     ServeMux (resource_patterns h rs amb) False requestID r w = h_updateUser i h rs amb requestID r w"
  by (simp_all add: resource_patterns_def on_path_def on_item_def match_method_def admin_granted)

lemma writeEntity_etag:
  assumes "writeEntity digest requestID status v j = resp" "(''ETag'', t) \<in> set (Resp_Header resp)"
  shows "entityETag digest v = Inr t"
proof (cases "entityETag digest v")
  case (Inl e)
  with assms show ?thesis by (auto simp: writeEntity_def writeError_def WriteProblem_def split: option.splits if_splits)
next
  case (Inr u)
  with assms show ?thesis by (auto simp: writeEntity_def JSON_def)
qed

lemma getUser_etag:
  assumes "h_getUser i h rs amb requestID r w = (resp, w')" "(''ETag'', t) \<in> set (Resp_Header resp)"
  shows "\<exists>user. repo_GetUser (rs_users rs) i (w_users w) = Inr user \<and> entityETag (rs_digest rs) (Marshal UserCodec user) = Inr t"
proof (cases "repo_GetUser (rs_users rs) i (w_users w)")
  case (Inl e)
  with assms show ?thesis
    by (auto simp: h_getUser_def serve_def svc_GetUser_def on_users_def writeError_def WriteProblem_def split: option.splits if_splits)
next
  case (Inr user)
  with assms(1) have "resp = writeEntity (rs_digest rs) requestID 200 (Marshal UserCodec user) (json_of_User user)"
    by (simp add: h_getUser_def serve_def svc_GetUser_def on_users_def user_entity_def)
  with writeEntity_etag [OF this [symmetric] assms(2)] Inr show ?thesis by blast
qed

lemma updateUser_stale:
  assumes "repo_GetUser (rs_users rs) i (w_users w) = Inr user"
    and "enforceIfMatch (rs_digest rs) (requestIfMatch r) (Marshal UserCodec user) = Inl (conflictf f args)"
    and run: "h_updateUser i h rs amb requestID r w = (resp, w')"
  shows "w' = w \<and> (case DecodeJSON UserInput_fields (ah_maxBody h) True r of Inl _ \<Rightarrow> Resp_Status resp = 400 | Inr _ \<Rightarrow> Resp_Status resp = 409)"
proof (cases "DecodeJSON UserInput_fields (ah_maxBody h) True r")
  case (Inl e)
  with run show ?thesis by (auto simp: h_updateUser_def with_input_def)
next
  case (Inr input)
  have "svc_updateUser rs (amb_now amb) i input (requestIfMatch r) w = (Inl (conflictf f args), w)"
    using assms(1,2) by (simp add: svc_updateUser_def sbind_def on_users_def)
  with Inr run show ?thesis
    by (auto simp: h_updateUser_def with_input_def serve_def writeError_def conflictf_def)
qed

text \<open>
  C16: No lost updates over HTTP. A client reads a user and later replaces it with the ETag it was given
  in If-Match. If the stored user has another ETag by then, the request changes nothing and is answered 409
  Conflict (or 400 when its body is not a valid input); this holds whatever the body says.
\<close>

theorem http_lost_update_prevented:
  assumes hex: "hex_digest (rs_digest rs)"
    and got: "HR_Segments r1 = [''v1'', ''users'', i]" "i \<noteq> ''''" "HR_Method r1 = ''GET''" "credential h r1"
      "ResourceHTTPHandler h rs amb1 r1 w1 = (resp1, w1')" "(''ETag'', t) \<in> set (Resp_Header resp1)"
    and changed: "repo_GetUser (rs_users rs) i (w_users w2) = Inr user2" "entityETag (rs_digest rs) (Marshal UserCodec user2) = Inr t2" "t2 \<noteq> t"
    and sent: "HR_Segments r2 = [''v1'', ''users'', i]" "HR_Method r2 = ''PUT''" "credential h r2" "HR_Header r2 ''If-Match'' = [t]"
      "ResourceHTTPHandler h rs amb2 r2 w2 = (resp2, w2')"
  shows "w2' = w2 \<and> (case DecodeJSON UserInput_fields (ah_maxBody h) True r2 of Inl _ \<Rightarrow> Resp_Status resp2 = 400 | Inr _ \<Rightarrow> Resp_Status resp2 = 409)"
proof -
  from got(5) obtain requestID resp0 where get: "h_getUser i h rs amb1 requestID r1 w1 = (resp0, w1')" and "(''ETag'', t) \<in> set (Resp_Header resp0)"
    using got(6) by (auto simp: ResourceHTTPHandler_def HTTPMiddleware_def Let_def user_routes(1) [OF got(1-4)] split: prod.splits)
  from getUser_etag [OF this] obtain user where t: "entityETag (rs_digest rs) (Marshal UserCodec user) = Inr t" by blast
  then have "t \<noteq> []" by (auto simp: entityETag_def)
  then have pre: "requestIfMatch r2 = optionalIfMatch t" by (simp add: requestIfMatch_def optionalIfMatch_def sent(4))
  have stale: "enforceIfMatch (rs_digest rs) (requestIfMatch r2) (Marshal UserCodec user2) =
      Inl (conflictf ''%w: resource changed since it was loaded'' [])"
    using parse_issued [OF hex t] changed(2,3) \<open>t \<noteq> []\<close> by (simp add: pre enforceIfMatch_def optionalIfMatch_def)
  from sent(5) obtain requestID' resp0 where put: "h_updateUser i h rs amb2 requestID' r2 w2 = (resp0, w2')"
    and status: "Resp_Status resp2 = (if Resp_Status resp0 = 0 then 200 else Resp_Status resp0)"
    unfolding ResourceHTTPHandler_def by (rule middleware_cases) (simp add: user_routes(2) [OF sent(1) got(2) sent(2,3)])
  from updateUser_stale [OF changed(1) stale put] status show ?thesis by (auto split: sum.splits)
qed

definition one_user :: "User \<Rightarrow> planes" where
  "one_user u = new_planes\<lparr>w_users := [entityKey ''users'' ''usr_01'' \<mapsto> \<lparr>mv_value = Some (json_of_User u), mv_etag = 1\<rparr>]\<rparr>"

lemma one_user_stored: "repo_GetUser MemoryStore ''usr_01'' (w_users (one_user u)) = Inr u"
  using user_codec.unmarshal_json_of [of u]
  by (simp add: repo_GetUser_def getResource_def one_user_def MemoryStore_def MemoryStore_Get_def UserCodec_def)

definition user_request :: "string \<Rightarrow> string list \<Rightarrow> JSONStream option \<Rightarrow> HTTPRequest" where
  "user_request verb etags body =
     \<lparr>HR_Method = verb, HR_Segments = [''v1'', ''users'', ''usr_01''],
      HR_Header = (\<lambda>name. if name = ''Authorization'' then [''Bearer t''] else if name = ''If-Match'' then etags else []),
      HR_Body = body\<rparr>"

lemma user_request_credential: "credential \<lparr>ah_adminToken = ''t'', ah_maxBody = 0\<rparr> (user_request verb etags body)"
proof -
  have "Fields ''Bearer t'' = [''Bearer'', ''t'']"
    by (subst Fields.simps, simp add: TrimLeft_def byte_def space1_def space2_def space3_def)
      (subst Fields.simps, simp add: TrimLeft_def byte_def space1_def space2_def space3_def,
       subst Fields.simps, simp add: TrimLeft_def)
  then show ?thesis
    by (simp add: credential_def user_request_def Header_Get_def BearerToken_def)
qed

theorem http_lost_update_prevented_witness:
  "\<exists>resp rs. ResourceHTTPHandler \<lparr>ah_adminToken = ''t'', ah_maxBody = 0\<rparr> rs still
       (user_request ''PUT'' [[CHR 0x22, CHR ''0'', CHR ''a'', CHR 0x22]] (Some \<lparr>documents = [(0, 2, JObj [])], malformed = None\<rparr>))
       (one_user (eve\<lparr>User_Revision := 2\<rparr>)) = (resp, one_user (eve\<lparr>User_Revision := 2\<rparr>))
     \<and> Resp_Status resp = 409"
proof -
  let ?h = "\<lparr>ah_adminToken = ''t'', ah_maxBody = 0\<rparr>" and ?eve = "eve\<lparr>User_Revision := 2\<rparr>"
  let ?t = "[CHR 0x22, CHR ''0'', CHR ''a'', CHR 0x22]" and ?get = "user_request ''GET'' [] None"
  let ?put = "user_request ''PUT'' [?t] (Some \<lparr>documents = [(0, 2, JObj [])], malformed = None\<rparr>)"
  define rs where "rs = direct\<lparr>rs_digest := \<lambda>j. if j = json_of_User eve then ''0a'' else ''0b''\<rparr>"
  have hex: "hex_digest (rs_digest rs)" by (simp add: rs_def hex_digest_def is_hex_def)
  have users: "rs_users rs = MemoryStore" by (simp add: rs_def direct_def)
  have ne: "json_of_User ?eve \<noteq> json_of_User eve" by (simp add: json_of_User_def eve_def json_uint64_def)
  have t: "entityETag (rs_digest rs) (Marshal UserCodec eve) = Inr ?t"
    "entityETag (rs_digest rs) (Marshal UserCodec ?eve) = Inr [CHR 0x22, CHR ''0'', CHR ''b'', CHR 0x22]"
    using ne by (simp_all add: rs_def entityETag_def Marshal_def UserCodec_def eve_def marshalable_time_def nanosecond_per_second_def)
  have ms: "HR_Method (user_request verb etags body) = verb" "HR_Segments (user_request verb etags body) = [''v1'', ''users'', ''usr_01'']"
    "HR_Header (user_request verb etags body) ''If-Match'' = etags" for verb etags body by (simp_all add: user_request_def)
  obtain resp1 w1 where get: "ResourceHTTPHandler ?h rs still ?get (one_user eve) = (resp1, w1)" by force
  have "(''ETag'', ?t) \<in> set (Resp_Header resp1)"
    using get by (auto simp: ResourceHTTPHandler_def HTTPMiddleware_def Let_def user_routes(1) ms user_request_credential h_getUser_def
        serve_def svc_GetUser_def on_users_def users one_user_stored user_entity_def writeEntity_def t split: prod.splits)
  moreover obtain resp2 w2 where put: "ResourceHTTPHandler ?h rs still ?put (one_user ?eve) = (resp2, w2)" by force
  moreover have "DecodeJSON UserInput_fields (ah_maxBody ?h) True ?put = Inr \<lparr>UI_Name = [], UI_Email = [], UI_Status = []\<rparr>"
    by (simp add: DecodeJSON_def user_request_def UserInput_fields_def known_fields_def)
  ultimately have "w2 = one_user ?eve \<and> Resp_Status resp2 = 409"
    using http_lost_update_prevented [OF hex ms(2) _ ms(1) user_request_credential get _ _ t(2) _ ms(2) ms(1) user_request_credential ms(3) put]
    by (simp add: users one_user_stored)
  with put show ?thesis by blast
qed

end
