(* ===== verification/Gateway_HTTP.thy ===== *)
theory Gateway_HTTP
  imports IR_JSON Portable Admin_HTTP
begin

text \<open>
  The HTTP services of the four gateways: \<^verbatim>\<open>openai/http.go\<close>, \<^verbatim>\<open>openairesponses/gateway_http.go\<close>,
  \<^verbatim>\<open>anthropic/gateway_http.go\<close> and \<^verbatim>\<open>gemini/gateway.go\<close>. Each takes the client's key from its own header,
  decodes the body, runs the dispatcher with its translation, and writes the answer or an error in the
  client's protocol. The locale \<open>gateway_service\<close> is what the four have in common.

  The text of an error, \<^verbatim>\<open>err.Error()\<close>, the bytes of a new ID and the clock are fields of \<open>GatewayEnv\<close>.
  The JSON form of the wire types is a \<open>Codec\<close> of their struct tags, or a decoder that may refuse unknown
  fields.
\<close>

section \<open>Shared by the gateways\<close>

record 'w GatewayEnv =
  ge_dispatcher :: "'w Dispatcher"
  ge_maxBody :: nat
  ge_parse :: url_parser
  ge_text :: "error \<Rightarrow> string"
  ge_random :: "nat list result"
  ge_request_random :: "nat list result"
  ge_now :: time

text \<open>\<^verbatim>\<open>errors.As\<close> for the translation errors of a package; their text is their message.\<close>

fun errors_As_Translation :: "error \<Rightarrow> (string \<times> string \<times> error) option" where
  "errors_As_Translation (TranslationError param code f a es) = Some (param, code, TranslationError param code f a es)"
| "errors_As_Translation (Errorf f a ws) =
     (case filter (\<lambda>x. x \<noteq> None) (map errors_As_Translation ws) of [] \<Rightarrow> None | x # _ \<Rightarrow> x)"
| "errors_As_Translation _ = None"

fun errors_As_ClientTranslation :: "error \<Rightarrow> error option" where
  "errors_As_ClientTranslation (ClientTranslationError field f a es) = Some (ClientTranslationError field f a es)"
| "errors_As_ClientTranslation (Errorf f a ws) =
     (case filter (\<lambda>x. x \<noteq> None) (map errors_As_ClientTranslation ws) of [] \<Rightarrow> None | x # _ \<Rightarrow> x)"
| "errors_As_ClientTranslation _ = None"

definition rate_limited :: "error \<Rightarrow> bool" where
  "rate_limited err \<longleftrightarrow> (case errors_As_HTTP err of Some (status, _) \<Rightarrow> status = 429 | None \<Rightarrow> False)"

text \<open>The dispatcher's outcome, and what the handler makes of it.\<close>

definition dispatched :: "(error \<Rightarrow> HTTPResponse) \<Rightarrow> (IRResponse \<Rightarrow> HTTPResponse result) \<Rightarrow> ('w, IRResponse) step \<Rightarrow> 'w \<Rightarrow> HTTPResponse \<times> 'w" where
  "dispatched fault finish call w =
     (case call w of
        (Inl err, w') \<Rightarrow> (fault err, w')
      | (Inr response, w') \<Rightarrow> (case finish response of Inl err \<Rightarrow> fault err | Inr resp \<Rightarrow> resp, w'))"

definition with_header :: "string \<Rightarrow> string \<Rightarrow> HTTPResponse \<Rightarrow> HTTPResponse" where
  "with_header name v resp = resp\<lparr>Resp_Header := (name, v) # Resp_Header resp\<rparr>"

definition bearer_realm :: string where
  "bearer_realm = ''Bearer realm='' @ [CHR 0x22] @ ''gwai'' @ [CHR 0x22]"

section \<open>\<^verbatim>\<open>openai/http.go\<close>\<close>

definition writeAPIError :: "nat \<Rightarrow> string \<Rightarrow> string \<Rightarrow> string \<Rightarrow> string \<Rightarrow> HTTPResponse" where
  "writeAPIError status errorType code message param =
     JSON status (JObj [(''error'', JObj [(''message'', JStr message), (''type'', JStr errorType),
       (''param'', if param \<noteq> '''' then JStr param else JNull), (''code'', JStr code)])])"

definition writeRuntimeError :: "(error \<Rightarrow> string) \<Rightarrow> error \<Rightarrow> HTTPResponse" where
  "writeRuntimeError msg err =
     (case errors_As_Translation err of
        Some (param, code, translation) \<Rightarrow> writeAPIError 400 ''invalid_request_error'' code (msg translation) param
      | None \<Rightarrow>
     (case errors_As_Validation err of
        Some (field, message, args) \<Rightarrow>
          writeAPIError 400 ''invalid_request_error'' ''invalid_model'' (msg (ValidationError field message args)) field
      | None \<Rightarrow>
      if errors_Is err ErrUnauthorized
      then with_header ''WWW-Authenticate'' bearer_realm
             (writeAPIError 401 ''authentication_error'' ''invalid_api_key'' ''Incorrect API key provided'' '''')
      else if errors_Is err ErrForbidden
      then writeAPIError 403 ''permission_error'' ''model_not_allowed'' ''The API key is not allowed to use the requested model'' ''model''
      else if errors_Is err ErrNotFound
      then writeAPIError 404 ''invalid_request_error'' ''model_not_found'' ''The requested model does not exist'' ''model''
      else if rate_limited err
      then writeAPIError 429 ''rate_limit_error'' ''rate_limit_exceeded'' ''The upstream provider rate limit was exceeded'' ''''
      else writeAPIError 502 ''api_error'' ''upstream_error'' ''The gateway could not complete the upstream request'' ''''))"

text \<open>The end of the handler, from the response of the dispatcher.\<close>

definition chat_answer :: "JSONText \<Rightarrow> ChatCompletionResponse Codec \<Rightarrow> 'w GatewayEnv \<Rightarrow> ChatCompletionRequest \<Rightarrow> IRResponse \<Rightarrow> HTTPResponse result" where
  "chat_answer T D h request internalResponse =
     ebind (NewID ''chatcmpl'' (ge_random h)) (\<lambda>completionID.
     ebind (chat_FromIR T internalResponse (CCR_Model request) completionID (ge_now h)) (\<lambda>response.
     Inr (JSON 200 (json_of D response))))"

definition createChatCompletion ::
  "JSONText \<Rightarrow> (bool \<Rightarrow> json \<Rightarrow> ChatCompletionRequest result) \<Rightarrow> ChatCompletionResponse Codec \<Rightarrow> 'w GatewayEnv \<Rightarrow> 'w handler" where
  "createChatCompletion T dec D h requestID r w =
     (case BearerToken (Header_Get r ''Authorization'') of
        None \<Rightarrow> (with_header ''WWW-Authenticate'' bearer_realm
          (writeAPIError 401 ''authentication_error'' ''invalid_api_key'' ''An API key must be supplied as a Bearer token'' ''''), w)
      | Some token \<Rightarrow>
     (case DecodeJSON dec (ge_maxBody h) True r of
        Inl err \<Rightarrow> (writeAPIError 400 ''invalid_request_error'' ''invalid_json'' (ge_text h err) '''', w)
      | Inr request \<Rightarrow>
          dispatched (writeRuntimeError (ge_text h)) (chat_answer T D h request)
            (dp_Generate (ge_parse h) (ge_dispatcher h) token (CCR_Model request) requestID (chat_ToIR T (ge_parse h) request)) w))"

definition ChatHTTPHandler ::
  "JSONText \<Rightarrow> (bool \<Rightarrow> json \<Rightarrow> ChatCompletionRequest result) \<Rightarrow> ChatCompletionResponse Codec \<Rightarrow> 'w GatewayEnv \<Rightarrow> HTTPRequest \<Rightarrow> 'w \<Rightarrow> HTTPResponse \<times> 'w" where
  "ChatHTTPHandler T dec D h = HTTPMiddleware (ge_request_random h)
     (ServeMux (health_patterns @ [on_path ''POST'' [Lit ''v1'', Lit ''chat'', Lit ''completions''] (createChatCompletion T dec D h)]) False)"

section \<open>\<^verbatim>\<open>openairesponses/gateway_http.go\<close>\<close>

text \<open>Its \<^verbatim>\<open>writeAPIError\<close> and \<^verbatim>\<open>writeRuntimeError\<close> write the same envelopes as those of the Chat gateway.\<close>

definition responses_writeAPIError :: "nat \<Rightarrow> string \<Rightarrow> string \<Rightarrow> string \<Rightarrow> string \<Rightarrow> HTTPResponse" where
  "responses_writeAPIError = writeAPIError"

definition responses_writeRuntimeError :: "(error \<Rightarrow> string) \<Rightarrow> error \<Rightarrow> HTTPResponse" where
  "responses_writeRuntimeError = writeRuntimeError"

definition responses_answer :: "JSONText \<Rightarrow> ResponsesResponse Codec \<Rightarrow> 'w GatewayEnv \<Rightarrow> CreateRequest \<Rightarrow> IRResponse \<Rightarrow> HTTPResponse result" where
  "responses_answer T D h request internalResponse =
     ebind (NewID ''resp'' (ge_random h)) (\<lambda>responseID.
     let parallel = (case CrR_ParallelToolCalls request of None \<Rightarrow> True | Some p \<Rightarrow> p) in
     ebind (responses_FromIR T (ge_parse h) internalResponse (CrR_Model request) responseID (ge_now h) parallel) (\<lambda>response.
     Inr (JSON 200 (json_of D response))))"

definition createResponse ::
  "JSONText \<Rightarrow> (bool \<Rightarrow> json \<Rightarrow> CreateRequest result) \<Rightarrow> ResponsesResponse Codec \<Rightarrow> 'w GatewayEnv \<Rightarrow> 'w handler" where
  "createResponse T dec D h requestID r w =
     (case BearerToken (Header_Get r ''Authorization'') of
        None \<Rightarrow> (with_header ''WWW-Authenticate'' bearer_realm
          (responses_writeAPIError 401 ''authentication_error'' ''invalid_api_key'' ''An API key must be supplied as a Bearer token'' ''''), w)
      | Some token \<Rightarrow>
     (case DecodeJSON dec (ge_maxBody h) True r of
        Inl err \<Rightarrow> (responses_writeAPIError 400 ''invalid_request_error'' ''invalid_json'' (ge_text h err) '''', w)
      | Inr request \<Rightarrow>
          dispatched (responses_writeRuntimeError (ge_text h)) (responses_answer T D h request)
            (dp_Generate (ge_parse h) (ge_dispatcher h) token (CrR_Model request) requestID (responses_ToIR T (ge_parse h) request)) w))"

definition ResponsesHTTPHandler ::
  "JSONText \<Rightarrow> (bool \<Rightarrow> json \<Rightarrow> CreateRequest result) \<Rightarrow> ResponsesResponse Codec \<Rightarrow> 'w GatewayEnv \<Rightarrow> HTTPRequest \<Rightarrow> 'w \<Rightarrow> HTTPResponse \<times> 'w" where
  "ResponsesHTTPHandler T dec D h = HTTPMiddleware (ge_request_random h)
     (ServeMux (health_patterns @ [on_path ''POST'' [Lit ''v1'', Lit ''responses''] (createResponse T dec D h)]) False)"

section \<open>\<^verbatim>\<open>anthropic/gateway_http.go\<close>\<close>

definition PublicAPIVersion :: string where "PublicAPIVersion = ''2023-06-01''"

definition with_request_id :: "string \<Rightarrow> HTTPResponse \<Rightarrow> HTTPResponse" where
  "with_request_id requestID resp = (if requestID \<noteq> '''' then with_header ''Request-Id'' requestID resp else resp)"

definition anthropic_writeError :: "string \<Rightarrow> nat \<Rightarrow> string \<Rightarrow> string \<Rightarrow> HTTPResponse" where
  "anthropic_writeError requestID status errorType message =
     with_request_id requestID (JSON status (JObj ([(''type'', JStr ''error''),
       (''error'', JObj [(''type'', JStr errorType), (''message'', JStr message)])] @ omit_string ''request_id'' requestID)))"

definition anthropic_writeRuntimeError :: "(error \<Rightarrow> string) \<Rightarrow> string \<Rightarrow> error \<Rightarrow> HTTPResponse" where
  "anthropic_writeRuntimeError msg requestID err =
     (case errors_As_ClientTranslation err of
        Some translation \<Rightarrow> anthropic_writeError requestID 400 ''invalid_request_error'' (msg translation)
      | None \<Rightarrow>
     (case errors_As_Validation err of
        Some (field, message, args) \<Rightarrow> anthropic_writeError requestID 400 ''invalid_request_error'' (msg (ValidationError field message args))
      | None \<Rightarrow>
      if errors_Is err ErrUnauthorized then anthropic_writeError requestID 401 ''authentication_error'' ''invalid x-api-key''
      else if errors_Is err ErrForbidden
      then anthropic_writeError requestID 403 ''permission_error'' ''the API key is not allowed to use the requested model''
      else if errors_Is err ErrNotFound then anthropic_writeError requestID 404 ''not_found_error'' ''the requested model does not exist''
      else if rate_limited err then anthropic_writeError requestID 429 ''rate_limit_error'' ''the upstream provider rate limit was exceeded''
      else anthropic_writeError requestID 502 ''api_error'' ''the gateway could not complete the upstream request''))"

definition anthropic_answer :: "MessageResponse Codec \<Rightarrow> 'w GatewayEnv \<Rightarrow> string \<Rightarrow> ClientMessageRequest \<Rightarrow> IRResponse \<Rightarrow> HTTPResponse result" where
  "anthropic_answer D h requestID request response =
     ebind (NewID ''msg'' (ge_random h)) (\<lambda>messageID.
     ebind (FromIRResponse (ge_parse h) response (CMR_Model request) messageID) (\<lambda>result.
     Inr (with_request_id requestID (JSON 200 (json_of D result)))))"

definition createMessage ::
  "(bool \<Rightarrow> json \<Rightarrow> ClientMessageRequest result) \<Rightarrow> MessageResponse Codec \<Rightarrow> 'w GatewayEnv \<Rightarrow> 'w handler" where
  "createMessage dec D h requestID r w =
     (let token = TrimSpace (Header_Get r ''X-Api-Key''); version = TrimSpace (Header_Get r ''Anthropic-Version'');
          refuse = (\<lambda>status errorType message. (anthropic_writeError requestID status errorType message, w)) in
      if token = '''' then refuse 401 ''authentication_error'' ''x-api-key header is required''
      else if version = '''' then refuse 400 ''invalid_request_error'' ''anthropic-version header is required''
      else if version \<noteq> PublicAPIVersion then refuse 400 ''invalid_request_error'' (''unsupported anthropic-version; use '' @ PublicAPIVersion)
      else if TrimSpace (Header_Get r ''Anthropic-Beta'') \<noteq> '''' then refuse 400 ''invalid_request_error'' ''anthropic-beta features are not supported''
      else case DecodeJSON dec (ge_maxBody h) True r of
          Inl err \<Rightarrow> refuse 400 ''invalid_request_error'' (ge_text h err)
        | Inr decoded \<Rightarrow>
            if TrimSpace (CMR_Model decoded) = '''' then refuse 400 ''invalid_request_error'' ''model is required''
            else let request = decoded\<lparr>CMR_Model := TrimSpace (CMR_Model decoded)\<rparr> in
              dispatched (anthropic_writeRuntimeError (ge_text h) requestID) (anthropic_answer D h requestID request)
                (dp_Generate (ge_parse h) (ge_dispatcher h) token (CMR_Model request) requestID (ToIRRequest (ge_parse h) request)) w)"

definition AnthropicHTTPHandler ::
  "(bool \<Rightarrow> json \<Rightarrow> ClientMessageRequest result) \<Rightarrow> MessageResponse Codec \<Rightarrow> 'w GatewayEnv \<Rightarrow> HTTPRequest \<Rightarrow> 'w \<Rightarrow> HTTPResponse \<times> 'w" where
  "AnthropicHTTPHandler dec D h = HTTPMiddleware (ge_request_random h)
     (ServeMux (health_patterns @ [on_path ''POST'' [Lit ''v1'', Lit ''messages''] (createMessage dec D h)]) False)"

section \<open>\<^verbatim>\<open>gemini/gateway.go\<close>\<close>

definition gemini_writeError :: "nat \<Rightarrow> string \<Rightarrow> string \<Rightarrow> HTTPResponse" where
  "gemini_writeError status apiStatus message =
     JSON status (JObj [(''error'', JObj [(''code'', json_int (int status)), (''message'', JStr message), (''status'', JStr apiStatus)])])"

definition gemini_notFound :: HTTPResponse where
  "gemini_notFound = gemini_writeError 404 ''NOT_FOUND'' ''the requested Gemini API endpoint does not exist''"

definition DeadlineExceeded :: error where "DeadlineExceeded = LibraryError ''context deadline exceeded''"

definition gemini_writeRuntimeError :: "(error \<Rightarrow> string) \<Rightarrow> error \<Rightarrow> HTTPResponse" where
  "gemini_writeRuntimeError msg err =
     (case errors_As_ClientTranslation err of
        Some translation \<Rightarrow> gemini_writeError 400 ''INVALID_ARGUMENT'' (msg translation)
      | None \<Rightarrow>
     (case errors_As_Validation err of
        Some (field, message, args) \<Rightarrow> gemini_writeError 400 ''INVALID_ARGUMENT'' (msg (ValidationError field message args))
      | None \<Rightarrow>
      if errors_Is err ErrUnauthorized then gemini_writeError 401 ''UNAUTHENTICATED'' ''API key not valid''
      else if errors_Is err ErrForbidden then gemini_writeError 403 ''PERMISSION_DENIED'' ''the API key is not allowed to use the requested model''
      else if errors_Is err ErrNotFound then gemini_writeError 404 ''NOT_FOUND'' ''the requested model does not exist''
      else if rate_limited err then gemini_writeError 429 ''RESOURCE_EXHAUSTED'' ''the upstream provider rate limit was exceeded''
      else if errors_Is err DeadlineExceeded then gemini_writeError 504 ''DEADLINE_EXCEEDED'' ''the request exceeded its deadline''
      else gemini_writeError 502 ''UNAVAILABLE'' ''the gateway could not complete the upstream request''))"

definition gemini_answer :: "(string \<Rightarrow> string) \<Rightarrow> GenerateContentResponse Codec \<Rightarrow> 'w GatewayEnv \<Rightarrow> string \<Rightarrow> IRResponse \<Rightarrow> HTTPResponse result" where
  "gemini_answer lower D h model response =
     ebind (gemini_FromIRResponse lower (ge_parse h) response model) (\<lambda>providerResponse. Inr (JSON 200 (json_of D providerResponse)))"

definition gemini_generate ::
  "(string \<Rightarrow> string) \<Rightarrow> (bool \<Rightarrow> json \<Rightarrow> GenerateContentRequest result) \<Rightarrow> GenerateContentResponse Codec \<Rightarrow> string \<Rightarrow> 'w GatewayEnv \<Rightarrow>
     string \<Rightarrow> string \<Rightarrow> 'w handler" where
  "gemini_generate lower dec D apiVersion h pathVersion operation requestID r w =
     (if pathVersion \<noteq> apiVersion then (gemini_notFound, w)
      else if HasSuffix operation '':streamGenerateContent''
      then (gemini_writeError 400 ''INVALID_ARGUMENT'' ''streamGenerateContent is not supported; use generateContent'', w)
      else let model = TrimSuffix operation '':generateContent'' in
        if \<not> HasSuffix operation '':generateContent'' \<or> TrimSpace model = '''' then (gemini_notFound, w)
        else let token = TrimSpace (Header_Get r ''X-Goog-Api-Key'') in
          if token = '''' then (gemini_writeError 401 ''UNAUTHENTICATED'' ''an API key must be supplied in the x-goog-api-key header'', w)
          else case DecodeJSON dec (ge_maxBody h) True r of
              Inl err \<Rightarrow> (gemini_writeError 400 ''INVALID_ARGUMENT'' (ge_text h err), w)
            | Inr request \<Rightarrow>
                dispatched (gemini_writeRuntimeError (ge_text h)) (gemini_answer lower D h model)
                  (dp_Generate (ge_parse h) (ge_dispatcher h) token model requestID (gemini_ToIRRequest (ge_parse h) request model)) w)"

definition join_segments :: "string list \<Rightarrow> string" where
  "join_segments ss = (case ss of [] \<Rightarrow> '''' | s # rest \<Rightarrow> s @ concat (map (\<lambda>x. ''/'' @ x) rest))"

text \<open>
  The table of \<^verbatim>\<open>NewGatewayHTTPHandler\<close>: \<^verbatim>\<open>POST /{apiVersion}/models/{operation...}\<close>, where the operation is the
  rest of the path, the health checks, and \<^verbatim>\<open>/\<close> for everything else. The mux redirects the path without
  an operation to the one with a trailing slash.
\<close>

definition gemini_mux ::
  "(string \<Rightarrow> string) \<Rightarrow> (bool \<Rightarrow> json \<Rightarrow> GenerateContentRequest result) \<Rightarrow> GenerateContentResponse Codec \<Rightarrow> string \<Rightarrow> 'w GatewayEnv \<Rightarrow> 'w handler" where
  "gemini_mux lower dec D apiVersion h requestID r w =
     (if match_method ''GET'' (HR_Method r) \<and> HR_Segments r \<in> {[''livez''], [''readyz'']} then health requestID r w
      else if HR_Method r = ''POST'' then
        (case HR_Segments r of
           version # m # rest \<Rightarrow>
             if version = '''' \<or> m \<noteq> ''models'' then (gemini_notFound, w)
             else if rest = [] then
               (\<lparr>Resp_Status = 307, Resp_Header = [(''Location'', ''/'' @ version @ ''/models/'')], Resp_Body = NoBody\<rparr>, w)
             else gemini_generate lower dec D apiVersion h version (join_segments rest) requestID r w
         | _ \<Rightarrow> (gemini_notFound, w))
      else (gemini_notFound, w))"

text \<open>\<^verbatim>\<open>strings.Trim(config.APIVersion, "/")\<close>, with its default.\<close>

definition gemini_apiVersion :: "string \<Rightarrow> string" where
  "gemini_apiVersion publicVersion =
     (let v = rev (dropWhile (\<lambda>c. c = CHR ''/'') (rev (dropWhile (\<lambda>c. c = CHR ''/'') publicVersion))) in if v = '''' then ''v1beta'' else v)"

definition GeminiHTTPHandler ::
  "(string \<Rightarrow> string) \<Rightarrow> (bool \<Rightarrow> json \<Rightarrow> GenerateContentRequest result) \<Rightarrow> GenerateContentResponse Codec \<Rightarrow> string \<Rightarrow> 'w GatewayEnv \<Rightarrow>
     HTTPRequest \<Rightarrow> 'w \<Rightarrow> HTTPResponse \<times> 'w" where
  "GeminiHTTPHandler lower dec D publicVersion h =
     HTTPMiddleware (ge_request_random h) (gemini_mux lower dec D (gemini_apiVersion publicVersion) h)"


section \<open>The four services\<close>

datatype gateway_protocol = ChatGateway | ResponsesGateway | AnthropicGateway | GeminiGateway

text \<open>The struct tags of the wire types, and the library functions that the translations use.\<close>

record WireTypes =
  wt_text :: JSONText
  wt_lower :: "string \<Rightarrow> string"
  wt_version :: string                                             \<comment> \<open>of the public Gemini API\<close>
  wt_chat :: "bool \<Rightarrow> json \<Rightarrow> ChatCompletionRequest result"
  wt_chat_response :: "ChatCompletionResponse Codec"
  wt_responses :: "bool \<Rightarrow> json \<Rightarrow> CreateRequest result"
  wt_responses_response :: "ResponsesResponse Codec"
  wt_anthropic :: "bool \<Rightarrow> json \<Rightarrow> ClientMessageRequest result"
  wt_anthropic_response :: "MessageResponse Codec"
  wt_gemini :: "bool \<Rightarrow> json \<Rightarrow> GenerateContentRequest result"
  wt_gemini_response :: "GenerateContentResponse Codec"

fun gateway_http :: "gateway_protocol \<Rightarrow> WireTypes \<Rightarrow> 'w GatewayEnv \<Rightarrow> HTTPRequest \<Rightarrow> 'w \<Rightarrow> HTTPResponse \<times> 'w" where
  "gateway_http ChatGateway W h = ChatHTTPHandler (wt_text W) (wt_chat W) (wt_chat_response W) h"
| "gateway_http ResponsesGateway W h = ResponsesHTTPHandler (wt_text W) (wt_responses W) (wt_responses_response W) h"
| "gateway_http AnthropicGateway W h = AnthropicHTTPHandler (wt_anthropic W) (wt_anthropic_response W) h"
| "gateway_http GeminiGateway W h = GeminiHTTPHandler (wt_lower W) (wt_gemini W) (wt_gemini_response W) (wt_version W) h"

text \<open>The key a client presents, and the translations a gateway uses.\<close>

definition header_key :: "string \<Rightarrow> HTTPRequest \<Rightarrow> string option" where
  "header_key name r = (let token = TrimSpace (Header_Get r name) in if token = '''' then None else Some token)"

fun gateway_key :: "gateway_protocol \<Rightarrow> HTTPRequest \<Rightarrow> string option" where
  "gateway_key AnthropicGateway r = header_key ''X-Api-Key'' r"
| "gateway_key GeminiGateway r = header_key ''X-Goog-Api-Key'' r"
| "gateway_key _ r = BearerToken (Header_Get r ''Authorization'')"

fun gateway_translates :: "gateway_protocol \<Rightarrow> JSONText \<Rightarrow> url_parser \<Rightarrow> Translator \<Rightarrow> bool" where
  "gateway_translates ChatGateway T parse t = (\<exists>request. t = chat_ToIR T parse request)"
| "gateway_translates ResponsesGateway T parse t = (\<exists>request. t = responses_ToIR T parse request)"
| "gateway_translates AnthropicGateway T parse t = (\<exists>request. t = ToIRRequest parse request)"
| "gateway_translates GeminiGateway T parse t = (\<exists>request model. t = gemini_ToIRRequest parse request model)"

section \<open>What a gateway service does\<close>

text \<open>
  A request is answered without touching the state, successfully only for a health check, or it runs the
  dispatcher once with the presented key; a success then comes from a success of the dispatcher.
\<close>

definition gateway_outcome ::
  "url_parser \<Rightarrow> 'w Dispatcher \<Rightarrow> string option \<Rightarrow> (Translator \<Rightarrow> bool) \<Rightarrow> HTTPRequest \<Rightarrow> 'w \<Rightarrow> HTTPResponse \<Rightarrow> 'w \<Rightarrow> bool" where
  "gateway_outcome parse d key translates r w resp w' \<longleftrightarrow> Resp_Status resp \<noteq> 0 \<and>
     (w' = w \<and> (Resp_Status resp = 200 \<longrightarrow> HR_Segments r \<in> {[''livez''], [''readyz'']}) \<or>
      (\<exists>token model requestID translate res. key = Some token \<and> translates translate \<and>
         dp_Generate parse d token model requestID translate w = (res, w') \<and> (Resp_Status resp = 200 \<longrightarrow> (\<exists>a. res = Inr a))))"

locale gateway_service =
  fixes parse :: url_parser and d :: "'w Dispatcher" and serve_http :: "HTTPRequest \<Rightarrow> 'w \<Rightarrow> HTTPResponse \<times> 'w"
    and key :: "HTTPRequest \<Rightarrow> string option" and translates :: "Translator \<Rightarrow> bool"
  assumes outcome: "serve_http r w = (resp, w') \<Longrightarrow> gateway_outcome parse d (key r) translates r w resp w'"
begin

lemma keyless: "key r = None \<Longrightarrow> serve_http r w = (resp, w') \<Longrightarrow> w' = w \<and> (Resp_Status resp = 200 \<longrightarrow> HR_Segments r \<in> {[''livez''], [''readyz'']})"
  using outcome [of r w resp w'] by (auto simp: gateway_outcome_def)

lemma dispatches:
  assumes "serve_http r w = (resp, w')" "w' \<noteq> w"
  obtains token model requestID translate res where "key r = Some token" "translates translate"
    "dp_Generate parse d token model requestID translate w = (res, w')"
  using outcome [OF assms(1)] assms(2) by (auto simp: gateway_outcome_def)

end

lemma dispatched_outcome:
  assumes "dispatched fault finish (dp_Generate parse d token model requestID translate) w = (resp, w')"
    and "\<And>err. Resp_Status (fault err) \<notin> {0, 200}" "\<And>a x. finish a = Inr x \<Longrightarrow> Resp_Status x = 200"
    and "translates translate"
  shows "gateway_outcome parse d (Some token) translates r w resp w'"
proof -
  obtain res w1 where run: "dp_Generate parse d token model requestID translate w = (res, w1)" by force
  have "w' = w1 \<and> Resp_Status resp \<noteq> 0 \<and> (Resp_Status resp = 200 \<longrightarrow> (\<exists>a. res = Inr a))"
  proof (cases res)
    case (Inr a)
    show ?thesis
    proof (cases "finish a")
      case (Inl err)
      with assms(1,2) run \<open>res = Inr a\<close> show ?thesis by (auto simp: dispatched_def)
    next
      case (Inr x)
      from assms(3) [OF this] assms(1) run \<open>res = Inr a\<close> Inr show ?thesis by (auto simp: dispatched_def)
    qed
  qed (use assms(1,2) run in \<open>auto simp: dispatched_def\<close>)
  with run assms(4) show ?thesis unfolding gateway_outcome_def by blast
qed

lemma header_status [simp]: "Resp_Status (with_header name v resp) = Resp_Status resp" "Resp_Status (with_request_id requestID resp) = Resp_Status resp"
  "Resp_Status (writeAPIError status errorType code message param) = status" "Resp_Status (anthropic_writeError i status errorType message) = status"
  "Resp_Status (gemini_writeError status apiStatus message) = status"
  by (simp_all add: with_header_def with_request_id_def writeAPIError_def anthropic_writeError_def gemini_writeError_def)

lemma refused_outcome: "Resp_Status resp \<notin> {0, 200} \<Longrightarrow> gateway_outcome parse d key translates r w resp w"
  by (simp add: gateway_outcome_def)


text \<open>The status of a failure.\<close>

definition failure_status :: "(error \<Rightarrow> bool) \<Rightarrow> error \<Rightarrow> nat" where
  "failure_status translation err =
     (if translation err \<or> errors_As_Validation err \<noteq> None then 400 else if errors_Is err ErrUnauthorized then 401
      else if errors_Is err ErrForbidden then 403 else if errors_Is err ErrNotFound then 404 else if rate_limited err then 429 else 502)"

lemma fault_status:
  "Resp_Status (writeRuntimeError msg err) = failure_status (\<lambda>e. errors_As_Translation e \<noteq> None) err"
  "Resp_Status (responses_writeRuntimeError msg err) = failure_status (\<lambda>e. errors_As_Translation e \<noteq> None) err"
  "Resp_Status (anthropic_writeRuntimeError msg requestID err) = failure_status (\<lambda>e. errors_As_ClientTranslation e \<noteq> None) err"
  "Resp_Status (gemini_writeRuntimeError msg err) =
     (let status = failure_status (\<lambda>e. errors_As_ClientTranslation e \<noteq> None) err in
      if status = 502 \<and> errors_Is err DeadlineExceeded then 504 else status)"
  by (simp_all add: responses_writeRuntimeError_def writeRuntimeError_def anthropic_writeRuntimeError_def gemini_writeRuntimeError_def
      failure_status_def Let_def split: option.splits prod.splits)

lemma failure_not_success: "0 < failure_status translation err" "failure_status translation err \<noteq> 200"
  by (simp_all add: failure_status_def)

lemma faults_not_success [simp]:
  "Resp_Status (writeRuntimeError msg err) \<noteq> 0" "Resp_Status (writeRuntimeError msg err) \<noteq> 200"
  "Resp_Status (responses_writeRuntimeError msg err) \<noteq> 0" "Resp_Status (responses_writeRuntimeError msg err) \<noteq> 200"
  "Resp_Status (anthropic_writeRuntimeError msg requestID err) \<noteq> 0" "Resp_Status (anthropic_writeRuntimeError msg requestID err) \<noteq> 200"
  "Resp_Status (gemini_writeRuntimeError msg err) \<noteq> 0" "Resp_Status (gemini_writeRuntimeError msg err) \<noteq> 200"
  by (simp_all add: fault_status failure_not_success Let_def)

lemma translates [simp]:
  "gateway_translates ChatGateway T parse (chat_ToIR T parse request1)" "gateway_translates ResponsesGateway T parse (responses_ToIR T parse request2)"
  "gateway_translates AnthropicGateway T parse (ToIRRequest parse request3)" "gateway_translates GeminiGateway T parse (gemini_ToIRRequest parse request4 model)"
  by (simp_all only: gateway_translates.simps) blast+

declare gateway_translates.simps [simp del]

lemma answers_succeed:
  "chat_answer T D h request1 a = Inr x \<Longrightarrow> Resp_Status x = 200" "responses_answer T D' h request2 a = Inr x \<Longrightarrow> Resp_Status x = 200"
  "anthropic_answer D1 h requestID request3 a = Inr x \<Longrightarrow> Resp_Status x = 200" "gemini_answer lower D2 h model a = Inr x \<Longrightarrow> Resp_Status x = 200"
  by (auto simp: chat_answer_def responses_answer_def anthropic_answer_def gemini_answer_def Let_def)

lemma chat_outcome:
  "createChatCompletion T dec D h requestID r w = (resp, w') \<Longrightarrow>
     gateway_outcome (ge_parse h) (ge_dispatcher h) (gateway_key ChatGateway r) (gateway_translates ChatGateway T (ge_parse h)) r w resp w'"
  unfolding createChatCompletion_def
  by (auto split: option.splits sum.splits intro!: refused_outcome elim!: dispatched_outcome dest: answers_succeed)

lemma responses_outcome:
  "createResponse T dec D h requestID r w = (resp, w') \<Longrightarrow>
     gateway_outcome (ge_parse h) (ge_dispatcher h) (gateway_key ResponsesGateway r) (gateway_translates ResponsesGateway T (ge_parse h)) r w resp w'"
  unfolding createResponse_def responses_writeAPIError_def Let_def
  by (auto split: option.splits sum.splits intro!: refused_outcome elim!: dispatched_outcome dest: answers_succeed)

lemma anthropic_outcome:
  "createMessage dec D h requestID r w = (resp, w') \<Longrightarrow>
     gateway_outcome (ge_parse h) (ge_dispatcher h) (gateway_key AnthropicGateway r) (gateway_translates AnthropicGateway T (ge_parse h)) r w resp w'"
  unfolding createMessage_def Let_def
  by (auto split: sum.splits if_splits intro!: refused_outcome elim!: dispatched_outcome dest: answers_succeed simp: header_key_def)

lemma gemini_outcome:
  "gemini_generate lower dec D apiVersion h version operation requestID r w = (resp, w') \<Longrightarrow>
     gateway_outcome (ge_parse h) (ge_dispatcher h) (gateway_key GeminiGateway r) (gateway_translates GeminiGateway T (ge_parse h)) r w resp w'"
  unfolding gemini_generate_def gemini_notFound_def Let_def
  by (auto split: sum.splits if_splits intro!: refused_outcome elim!: dispatched_outcome dest: answers_succeed simp: header_key_def)


text \<open>Through the table of handlers and the middleware.\<close>

lemma health_outcome: "HR_Segments r \<in> {[''livez''], [''readyz'']} \<Longrightarrow> health requestID r w = (resp, w') \<Longrightarrow> gateway_outcome parse d key translates r w resp w'"
  by (auto simp: gateway_outcome_def health_def JSON_def)

lemma table_outcome:
  assumes "\<And>requestID resp w'. f requestID r w = (resp, w') \<Longrightarrow> gateway_outcome parse d key translates r w resp w'"
    and "ServeMux (health_patterns @ [on_path verb path f]) other requestID r w = (resp, w')"
  shows "gateway_outcome parse d key translates r w resp w'"
  using assms(2)
proof (cases rule: mux_cases)
  case miss
  then show ?thesis by (auto intro: refused_outcome)
next
  case (hit p vals)
  from hit(1) consider "p \<in> set health_patterns" | "p = on_path verb path f" by auto
  then show ?thesis
  proof cases
    case 1
    with hit(2) have "HR_Segments r \<in> {[''livez''], [''readyz'']}" "pat_handler p vals = health"
      using match_literals [of "[''livez'']"] match_literals [of "[''readyz'']"] by (auto simp: health_patterns_def on_path_def split: if_splits)
    with hit(3) show ?thesis by (auto intro: health_outcome)
  next
    case 2
    with hit(3) assms(1) show ?thesis by simp
  qed
qed

lemma middleware_outcome:
  assumes "\<And>requestID resp w'. f requestID r w = (resp, w') \<Longrightarrow> gateway_outcome parse d key translates r w resp w'"
    and "HTTPMiddleware random f r w = (resp, w')"
  shows "gateway_outcome parse d key translates r w resp w'"
proof -
  from assms(2) obtain requestID resp0 where f: "f requestID r w = (resp0, w')"
    and "Resp_Status resp = Resp_Status resp0 \<or> Resp_Status resp0 = 0"
    by (auto simp: HTTPMiddleware_def Let_def split: prod.splits if_splits)
  with assms(1) [OF f] show ?thesis by (auto simp: gateway_outcome_def)
qed

lemma gemini_mux_outcome:
  "gemini_mux lower dec D apiVersion h requestID r w = (resp, w') \<Longrightarrow>
     gateway_outcome (ge_parse h) (ge_dispatcher h) (gateway_key GeminiGateway r) (gateway_translates GeminiGateway T (ge_parse h)) r w resp w'"
  unfolding gemini_mux_def gemini_notFound_def
  by (split list.splits if_splits)+ (auto intro: refused_outcome gemini_outcome health_outcome simp del: gateway_key.simps split: list.splits if_splits)

lemma gateway_http_outcome:
  "gateway_http p W h r w = (resp, w') \<Longrightarrow>
     gateway_outcome (ge_parse h) (ge_dispatcher h) (gateway_key p r) (gateway_translates p (wt_text W) (ge_parse h)) r w resp w'"
  by (cases p; simp only: gateway_http.simps ChatHTTPHandler_def ResponsesHTTPHandler_def AnthropicHTTPHandler_def GeminiHTTPHandler_def)
    (erule middleware_outcome [rotated], erule table_outcome [rotated], erule chat_outcome responses_outcome anthropic_outcome
     | erule middleware_outcome [rotated], erule gemini_mux_outcome)+

interpretation gateways: gateway_service "ge_parse h" "ge_dispatcher h" "gateway_http p W h" "gateway_key p" "gateway_translates p (wt_text W) (ge_parse h)"
  for h p W
  by unfold_locales (rule gateway_http_outcome)


section \<open>What each request becomes\<close>

text \<open>
  A request to the endpoint of a gateway that presents a key and a body of the protocol: the key, the model,
  the translation to run and how a response is answered.
\<close>

type_synonym dispatch = "string \<times> string \<times> Translator \<times> (IRResponse \<Rightarrow> HTTPResponse result)"

fun gateway_reads :: "gateway_protocol \<Rightarrow> WireTypes \<Rightarrow> 'w GatewayEnv \<Rightarrow> string \<Rightarrow> HTTPRequest \<Rightarrow> dispatch \<Rightarrow> bool" where
  "gateway_reads ChatGateway W h requestID r (token, model, translate, answer) \<longleftrightarrow>
     HR_Method r = ''POST'' \<and> HR_Segments r = [''v1'', ''chat'', ''completions''] \<and> gateway_key ChatGateway r = Some token \<and>
     (\<exists>request. DecodeJSON (wt_chat W) (ge_maxBody h) True r = Inr request \<and> model = CCR_Model request \<and>
        translate = chat_ToIR (wt_text W) (ge_parse h) request \<and> answer = chat_answer (wt_text W) (wt_chat_response W) h request)"
| "gateway_reads ResponsesGateway W h requestID r (token, model, translate, answer) \<longleftrightarrow>
     HR_Method r = ''POST'' \<and> HR_Segments r = [''v1'', ''responses''] \<and> gateway_key ResponsesGateway r = Some token \<and>
     (\<exists>request. DecodeJSON (wt_responses W) (ge_maxBody h) True r = Inr request \<and> model = CrR_Model request \<and>
        translate = responses_ToIR (wt_text W) (ge_parse h) request \<and> answer = responses_answer (wt_text W) (wt_responses_response W) h request)"
| "gateway_reads AnthropicGateway W h requestID r (token, model, translate, answer) \<longleftrightarrow>
     HR_Method r = ''POST'' \<and> HR_Segments r = [''v1'', ''messages''] \<and> gateway_key AnthropicGateway r = Some token \<and>
     TrimSpace (Header_Get r ''Anthropic-Version'') = PublicAPIVersion \<and> TrimSpace (Header_Get r ''Anthropic-Beta'') = '''' \<and>
     (\<exists>request. DecodeJSON (wt_anthropic W) (ge_maxBody h) True r = Inr request \<and> model = TrimSpace (CMR_Model request) \<and> model \<noteq> '''' \<and>
        translate = ToIRRequest (ge_parse h) (request\<lparr>CMR_Model := model\<rparr>) \<and>
        answer = anthropic_answer (wt_anthropic_response W) h requestID (request\<lparr>CMR_Model := model\<rparr>))"
| "gateway_reads GeminiGateway W h requestID r (token, model, translate, answer) \<longleftrightarrow>
     HR_Method r = ''POST'' \<and> gateway_key GeminiGateway r = Some token \<and>
     (\<exists>rest. HR_Segments r = gemini_apiVersion (wt_version W) # ''models'' # rest \<and> rest \<noteq> [] \<and>
        \<not> HasSuffix (join_segments rest) '':streamGenerateContent'' \<and> HasSuffix (join_segments rest) '':generateContent'' \<and>
        model = TrimSuffix (join_segments rest) '':generateContent'') \<and> TrimSpace model \<noteq> '''' \<and>
     (\<exists>request. DecodeJSON (wt_gemini W) (ge_maxBody h) True r = Inr request \<and>
        translate = gemini_ToIRRequest (ge_parse h) request model \<and> answer = gemini_answer (wt_lower W) (wt_gemini_response W) h model)"

fun gateway_fault :: "gateway_protocol \<Rightarrow> 'w GatewayEnv \<Rightarrow> string \<Rightarrow> error \<Rightarrow> HTTPResponse" where
  "gateway_fault ChatGateway h requestID = writeRuntimeError (ge_text h)"
| "gateway_fault ResponsesGateway h requestID = responses_writeRuntimeError (ge_text h)"
| "gateway_fault AnthropicGateway h requestID = anthropic_writeRuntimeError (ge_text h) requestID"
| "gateway_fault GeminiGateway h requestID = gemini_writeRuntimeError (ge_text h)"

fun gateway_failure :: "gateway_protocol \<Rightarrow> error \<Rightarrow> nat" where
  "gateway_failure AnthropicGateway err = failure_status (\<lambda>e. errors_As_ClientTranslation e \<noteq> None) err"
| "gateway_failure GeminiGateway err =
     (let status = failure_status (\<lambda>e. errors_As_ClientTranslation e \<noteq> None) err in
      if status = 502 \<and> errors_Is err DeadlineExceeded then 504 else status)"
| "gateway_failure _ err = failure_status (\<lambda>e. errors_As_Translation e \<noteq> None) err"

lemma gateway_fault_status: "Resp_Status (gateway_fault p h requestID err) = gateway_failure p err"
  by (cases p) (simp_all add: fault_status)

lemma gateway_failure_not_success: "gateway_failure p err \<noteq> 0" "gateway_failure p err \<noteq> 200"
  by (cases p; simp add: failure_not_success Let_def)+

lemma apiVersion_nonempty: "gemini_apiVersion v \<noteq> []"
  by (simp add: gemini_apiVersion_def Let_def)

text \<open>The handlers, when the request is read and when it is not.\<close>

definition gateway_handler :: "gateway_protocol \<Rightarrow> WireTypes \<Rightarrow> 'w GatewayEnv \<Rightarrow> 'w handler" where
  "gateway_handler p W h =
     (case p of
        ChatGateway \<Rightarrow> ServeMux (health_patterns @ [on_path ''POST'' [Lit ''v1'', Lit ''chat'', Lit ''completions'']
          (createChatCompletion (wt_text W) (wt_chat W) (wt_chat_response W) h)]) False
      | ResponsesGateway \<Rightarrow> ServeMux (health_patterns @ [on_path ''POST'' [Lit ''v1'', Lit ''responses'']
          (createResponse (wt_text W) (wt_responses W) (wt_responses_response W) h)]) False
      | AnthropicGateway \<Rightarrow> ServeMux (health_patterns @ [on_path ''POST'' [Lit ''v1'', Lit ''messages'']
          (createMessage (wt_anthropic W) (wt_anthropic_response W) h)]) False
      | GeminiGateway \<Rightarrow> gemini_mux (wt_lower W) (wt_gemini W) (wt_gemini_response W) (gemini_apiVersion (wt_version W)) h)"

lemma gateway_http_handler: "gateway_http p W h = HTTPMiddleware (ge_request_random h) (gateway_handler p W h)"
  by (cases p) (simp_all add: gateway_handler_def ChatHTTPHandler_def ResponsesHTTPHandler_def AnthropicHTTPHandler_def GeminiHTTPHandler_def)

lemmas endpoint_routes =
  single_endpoint [of "[''v1'', ''chat'', ''completions'']", simplified] single_endpoint [of "[''v1'', ''responses'']", simplified]
  single_endpoint [of "[''v1'', ''messages'']", simplified]

lemma gemini_routes:
  assumes "HR_Method r = ''POST''" "HR_Segments r = gemini_apiVersion v # ''models'' # rest" "rest \<noteq> []"
  shows "gemini_mux lower dec D (gemini_apiVersion v) h requestID r w =
     gemini_generate lower dec D (gemini_apiVersion v) h (gemini_apiVersion v) (join_segments rest) requestID r w"
  using assms by (simp add: gemini_mux_def apiVersion_nonempty match_method_def)

lemma gateway_dispatches:
  assumes "gateway_reads p W h requestID r (token, model, translate, answer)"
  shows "gateway_handler p W h requestID r w =
     dispatched (gateway_fault p h requestID) answer (dp_Generate (ge_parse h) (ge_dispatcher h) token model requestID translate) w"
proof (cases p)
  case ChatGateway
  with assms show ?thesis by (auto simp: gateway_handler_def endpoint_routes createChatCompletion_def)
next
  case ResponsesGateway
  with assms show ?thesis by (auto simp: gateway_handler_def endpoint_routes createResponse_def)
next
  case AnthropicGateway
  have "PublicAPIVersion \<noteq> []" by (simp add: PublicAPIVersion_def)
  with AnthropicGateway assms show ?thesis
    by (auto simp: gateway_handler_def endpoint_routes createMessage_def Let_def header_key_def split: if_splits)
next
  case GeminiGateway
  with assms obtain rest request where *: "HR_Method r = ''POST''" "HR_Segments r = gemini_apiVersion (wt_version W) # ''models'' # rest" "rest \<noteq> []"
    "\<not> HasSuffix (join_segments rest) '':streamGenerateContent''" "HasSuffix (join_segments rest) '':generateContent''"
    "model = TrimSuffix (join_segments rest) '':generateContent''" "TrimSpace model \<noteq> ''''"
    "DecodeJSON (wt_gemini W) (ge_maxBody h) True r = Inr request" "translate = gemini_ToIRRequest (ge_parse h) request model"
    "answer = gemini_answer (wt_lower W) (wt_gemini_response W) h model" "header_key ''X-Goog-Api-Key'' r = Some token" by auto
  from *(11) have token: "token = TrimSpace (Header_Get r ''X-Goog-Api-Key'')" "token \<noteq> ''''" by (auto simp: header_key_def Let_def split: if_splits)
  with GeminiGateway * show ?thesis by (simp add: gateway_handler_def gemini_routes gemini_generate_def Let_def)
qed


definition refusal :: "HTTPRequest \<Rightarrow> HTTPResponse \<Rightarrow> bool" where
  "refusal r resp \<longleftrightarrow> Resp_Status resp \<in> {307, 400, 401, 404, 405} \<or>
     Resp_Status resp = 200 \<and> HR_Segments r \<in> {[''livez''], [''readyz'']}"

lemma endpoint_refuses:
  assumes "ls \<notin> {[''livez''], [''readyz'']}"
    and "HR_Method r = ''POST'' \<Longrightarrow> HR_Segments r = ls \<Longrightarrow> \<exists>resp. f requestID r w = (resp, w) \<and> Resp_Status resp \<in> {400, 401}"
  shows "\<exists>resp. ServeMux (health_patterns @ [on_path ''POST'' (map Lit ls) f]) False requestID r w = (resp, w) \<and> refusal r resp"
proof (cases "HR_Method r = ''POST'' \<and> HR_Segments r = ls")
  case True
  with assms show ?thesis by (fastforce simp: single_endpoint refusal_def)
next
  case False
  then show ?thesis unfolding single_endpoint [OF assms(1)] by (simp only: if_False) (simp add: health_def JSON_def refusal_def)
qed

lemma gateway_refuses:
  assumes none: "\<nexists>x. gateway_reads p W h requestID r x"
  shows "\<exists>resp. gateway_handler p W h requestID r w = (resp, w) \<and> refusal r resp"
proof (cases p)
  case ChatGateway
  have "\<exists>resp. createChatCompletion (wt_text W) (wt_chat W) (wt_chat_response W) h requestID r w = (resp, w) \<and> Resp_Status resp \<in> {400, 401}"
    if "HR_Method r = ''POST''" "HR_Segments r = [''v1'', ''chat'', ''completions'']"
    using none that ChatGateway by (auto simp: createChatCompletion_def split: option.splits sum.splits)
  from endpoint_refuses [of "[''v1'', ''chat'', ''completions'']" r "createChatCompletion (wt_text W) (wt_chat W) (wt_chat_response W) h" requestID w, OF _ this]
  show ?thesis by (simp only: gateway_handler_def ChatGateway gateway_protocol.case list.map) simp
next
  case ResponsesGateway
  have "\<exists>resp. createResponse (wt_text W) (wt_responses W) (wt_responses_response W) h requestID r w = (resp, w) \<and> Resp_Status resp \<in> {400, 401}"
    if "HR_Method r = ''POST''" "HR_Segments r = [''v1'', ''responses'']"
    using none that ResponsesGateway by (auto simp: createResponse_def responses_writeAPIError_def split: option.splits sum.splits)
  from endpoint_refuses [of "[''v1'', ''responses'']" r "createResponse (wt_text W) (wt_responses W) (wt_responses_response W) h" requestID w, OF _ this]
  show ?thesis by (simp only: gateway_handler_def ResponsesGateway gateway_protocol.case list.map) simp
next
  case AnthropicGateway
  have "\<exists>resp. createMessage (wt_anthropic W) (wt_anthropic_response W) h requestID r w = (resp, w) \<and> Resp_Status resp \<in> {400, 401}"
    if "HR_Method r = ''POST''" "HR_Segments r = [''v1'', ''messages'']"
    using none that AnthropicGateway by (auto simp: createMessage_def Let_def header_key_def split: sum.splits)
  from endpoint_refuses [of "[''v1'', ''messages'']" r "createMessage (wt_anthropic W) (wt_anthropic_response W) h" requestID w, OF _ this]
  show ?thesis by (simp only: gateway_handler_def AnthropicGateway gateway_protocol.case list.map) simp
next
  case GeminiGateway
  have "\<exists>resp. gemini_generate (wt_lower W) (wt_gemini W) (wt_gemini_response W) (gemini_apiVersion (wt_version W)) h v (join_segments rest) requestID r w = (resp, w) \<and>
      Resp_Status resp \<in> {400, 401, 404}" if "HR_Method r = ''POST''" "HR_Segments r = v # ''models'' # rest" "rest \<noteq> []" for v rest
    using none that GeminiGateway by (auto simp: gemini_generate_def gemini_notFound_def Let_def header_key_def split: sum.splits)
  then show ?thesis using GeminiGateway
    by (fastforce simp: gateway_handler_def gemini_mux_def refusal_def gemini_notFound_def health_def JSON_def split: list.splits)
qed


lemma gateway_answers_succeed:
  "gateway_reads p W h requestID r (token, model, translate, answer) \<Longrightarrow> answer a = Inr x \<Longrightarrow> Resp_Status x = 200"
  by (cases p) (auto dest: answers_succeed)

lemma gateway_run:
  assumes reads: "gateway_reads p W h (request_id (ge_request_random h) r) r (token, model, translate, answer)"
    and run: "dp_Generate (ge_parse h) (ge_dispatcher h) token model (request_id (ge_request_random h) r) translate w = (res, w')"
  shows "\<exists>resp. gateway_http p W h r w = (resp, w') \<and>
     (case ebind res answer of Inl err \<Rightarrow> Resp_Status resp = gateway_failure p err | Inr x \<Rightarrow> Resp_Status resp = 200 \<and> Resp_Body resp = Resp_Body x)"
proof -
  let ?id = "request_id (ge_request_random h) r"
  define resp where "resp = (case ebind res answer of Inl err \<Rightarrow> gateway_fault p h ?id err | Inr x \<Rightarrow> x)"
  have d: "dispatched (gateway_fault p h ?id) answer (dp_Generate (ge_parse h) (ge_dispatcher h) token model ?id translate) w = (resp, w')"
    using run by (cases res) (simp_all add: dispatched_def resp_def)
  have ok: "Resp_Status resp \<noteq> 0"
    using gateway_answers_succeed [OF reads] gateway_failure_not_success(1) [of p]
    by (cases "ebind res answer"; cases res) (auto simp: resp_def gateway_fault_status)
  from HTTPMiddleware_run [of "gateway_handler p W h", OF gateway_dispatches [OF reads, of w, unfolded d] ok] show ?thesis
    unfolding gateway_http_handler
    using gateway_answers_succeed [OF reads] by (cases "ebind res answer"; cases res) (auto simp: resp_def gateway_fault_status)
qed

lemma gateway_ignores:
  assumes "\<nexists>x. gateway_reads p W h (request_id (ge_request_random h) r) r x"
  shows "\<exists>resp. gateway_http p W h r w = (resp, w) \<and> refusal r resp"
proof -
  from gateway_refuses [OF assms] obtain resp where "gateway_handler p W h (request_id (ge_request_random h) r) r w = (resp, w)" "refusal r resp" by blast
  moreover from this(2) have "Resp_Status resp \<noteq> 0" by (auto simp: refusal_def)
  ultimately show ?thesis unfolding gateway_http_handler by (simp add: HTTPMiddleware_run refusal_def)
qed

section \<open>Properties\<close>

text \<open>
  C13: What a gateway answers. A request to the endpoint that presents a key and a body of the protocol runs the
  dispatcher once, with that key, the model it names and the gateway's translation; the client gets status
  200 and the translated response, or the status of the failure: 400 for a request that cannot be
  translated or an invalid model name, 401, 403 or 404 for what the control plane refuses, 429 for a rate
  limit of the provider, 502 (504 for an expired deadline in Gemini) for the rest. Every other request is
  answered without touching the state and is refused, unless it is a health check.
\<close>

theorem gateway_exact:
  "(\<forall>token model translate answer res w'. gateway_reads p W h (request_id (ge_request_random h) r) r (token, model, translate, answer) \<and>
      dp_Generate (ge_parse h) (ge_dispatcher h) token model (request_id (ge_request_random h) r) translate w = (res, w') \<longrightarrow>
      (\<exists>resp. gateway_http p W h r w = (resp, w') \<and>
         (case ebind res answer of Inl err \<Rightarrow> Resp_Status resp = gateway_failure p err
          | Inr x \<Rightarrow> Resp_Status resp = 200 \<and> Resp_Body resp = Resp_Body x)))
    \<and> ((\<nexists>x. gateway_reads p W h (request_id (ge_request_random h) r) r x) \<longrightarrow>
      (\<exists>resp. gateway_http p W h r w = (resp, w) \<and> refusal r resp))"
  by (intro conjI allI impI) (erule conjE, erule (1) gateway_run, erule gateway_ignores)

text \<open>
  C5: No adapter is called on behalf of a revoked resource. In every state the control planes can reach over
  their lossy link, when an HTTP request to any of the four gateways leads to a call to an adapter, the
  request presented a key; an unexpired active key with its hash is stored, its owner is active, it lists
  the active model that was asked for, and the one call went to the adapter of that model's provider, which
  is active, with a well-formed translation of the client's request.
\<close>

theorem gateway_call_has_live_resources:
  assumes reach: "(plane_step H)\<^sup>*\<^sup>* new_planes (gw_planes g)"
    and h: "ge_dispatcher h = gateway_dispatcher H now adapter"
    and run: "gateway_http p W h r g = (resp, g')" and called: "gw_calls g' \<noteq> gw_calls g"
  shows "\<exists>token requested app request route requestID translate. gateway_key p r = Some token \<and>
     g' = g\<lparr>gw_calls := gw_calls g @ [(app, ''/v1/generate'', request)]\<rparr> \<and> backed H now (gw_planes g) token requested app \<and>
     gateway_translates p (wt_text W) (ge_parse h) translate \<and> translate route requestID = Inr request \<and> valid_request (ge_parse h) request"
proof -
  from called have "g' \<noteq> g" by auto
  with gateways.dispatches [OF run] obtain token requested requestID translate res where
    key: "gateway_key p r = Some token" "gateway_translates p (wt_text W) (ge_parse h) translate"
    and gen: "dp_Generate (ge_parse h) (ge_dispatcher h) token requested requestID translate g = (res, g')" by metis
  from invocation_backed [OF reach gen [unfolded h] \<open>g' \<noteq> g\<close>] obtain app request route where
    "g' = g\<lparr>gw_calls := gw_calls g @ [(app, ''/v1/generate'', request)]\<rparr>" "valid_request (ge_parse h) request"
    "translate route requestID = Inr request" "backed H now (gw_planes g) token requested app" .
  with key show ?thesis by blast
qed


text \<open>A Chat client of the demonstration deployment.\<close>

definition demo_wire :: WireTypes where
  "demo_wire = \<lparr>wt_text = tally_text, wt_lower = id, wt_version = '''', wt_chat = (\<lambda>_ _. Inr chat_hello),
     wt_chat_response = named_codec CR_Model lark_completion, wt_responses = (\<lambda>_ _. Inr responses_hello), wt_responses_response = named_codec RR_Model lark_output,
     wt_anthropic = (\<lambda>_ _. Inr anthropic_hello), wt_anthropic_response = named_codec MRS_Model umbra_answer,
     wt_gemini = (\<lambda>_ _. Inr gemini_hello), wt_gemini_response = named_codec GCS_ModelVersion lark_answer\<rparr>"

definition demo_env :: "gateway GatewayEnv" where
  "demo_env = \<lparr>ge_dispatcher = gateway_dispatcher (\<lambda>x. x) 7 echo, ge_maxBody = 0, ge_parse = (\<lambda>_. None), ge_text = (\<lambda>_. ''''),
     ge_random = Inr [1], ge_request_random = Inr [], ge_now = 7\<rparr>"

definition chat_client :: "string \<Rightarrow> HTTPRequest" where
  "chat_client authorization = \<lparr>HR_Method = ''POST'', HR_Segments = [''v1'', ''chat'', ''completions''],
     HR_Header = (\<lambda>name. if name = ''Authorization'' then [authorization] else if name = ''X-Request-Id'' then [''req_1''] else []),
     HR_Body = Some \<lparr>documents = [(0, 1, JObj [])], malformed = None\<rparr>\<rparr>"

lemma demo_gateway: obtains g :: gateway where "(plane_step (\<lambda>x. x))\<^sup>*\<^sup>* new_planes (gw_planes g)" "gateway_holds (\<lambda>x. x) g demo_ring demo_catalog" "gw_calls g = []"
proof -
  obtain w where w: "(plane_step (\<lambda>x. x))\<^sup>*\<^sup>* new_planes w" "shows_as w [''usr_01'' \<mapsto> eve] demo_catalog demo_ring" by (rule demo_key)
  from that [of "\<lparr>gw_planes = w, gw_calls = []\<rparr>"] w show thesis by (simp add: shows_as_def gateway_holds_def)
qed

lemma chat_client_reads:
  "gateway_reads ChatGateway demo_wire demo_env ''req_1'' (chat_client ''Bearer gwai_AQID'')
     (''gwai_AQID'', ''lark'', chat_ToIR tally_text (\<lambda>_. None) chat_hello, chat_answer tally_text (wt_chat_response demo_wire) demo_env chat_hello)"
proof -
  have "BearerToken ''Bearer gwai_AQID'' = Some ''gwai_AQID''" by code_simp
  then show ?thesis
    by (simp add: chat_client_def demo_wire_def demo_env_def Header_Get_def DecodeJSON_def fail_if_def) (simp add: chat_hello_def)
qed

lemma chat_client_id: "request_id (ge_request_random demo_env) (chat_client authorization) = ''req_1''"
  by (simp add: request_id_def chat_client_def Header_Get_def)

lemma chat_client_run:
  assumes "gateway_holds (\<lambda>x. x) g demo_ring demo_catalog"
  shows "dp_Generate (\<lambda>_. None) (gateway_dispatcher (\<lambda>x. x) 7 echo) ''gwai_AQID'' ''lark'' ''req_1'' (chat_ToIR tally_text (\<lambda>_. None) chat_hello) g =
     (echo '''' '''' (projr (hello lark_route ''req_1'')), g\<lparr>gw_calls := gw_calls g @ [(''umbra-adapter'', ''/v1/generate'', projr (hello lark_route ''req_1''))]\<rparr>)"
proof -
  let ?r = "projr (hello lark_route ''req_1'')"
  have sent: "sendable (\<lambda>_. None) (authorized (\<lambda>x. x) demo_ring demo_catalog 7 ''gwai_AQID'' ''lark'') (routable (\<lambda>x. x) demo_ring demo_catalog ''lark'')
      ''req_1'' (chat_ToIR tally_text (\<lambda>_. None) chat_hello) ''umbra-adapter'' ?r"
    unfolding sendable_def using demo_grant [of 7] lark_routable hello_chat [of tally_text "\<lambda>_. None"] hello_valid [of "\<lambda>_. None"]
    by (intro exI [of _ "\<lparr>Auth_KeyID = ''key_01'', Auth_UserID = ''usr_01''\<rparr>"] exI [of _ lark_route]) (simp add: request_valid_iff lark_route_def)
  have answer: "checked_answer (\<lambda>_. None) (echo ''umbra-adapter'' ''/v1/generate'' ?r) = echo '''' '''' ?r"
    by (simp add: checked_answer_def echo_def response_Validate_def hello_def lark_route_def fail_if_def)
  from gateway_generate(1) [OF assms sent, of echo] show ?thesis by (simp only: answer)
qed

theorem gateway_exact_witness:
  "\<exists>g g' resp. gateway_http ChatGateway demo_wire demo_env (chat_client ''Bearer gwai_AQID'') g = (resp, g') \<and> Resp_Status resp = 200 \<and> length (gw_calls g') = 1
     \<and> (\<exists>resp. gateway_http ChatGateway demo_wire demo_env (chat_client ''gwai_AQID'') g = (resp, g) \<and> Resp_Status resp \<noteq> 200)"
proof -
  obtain g where g: "gateway_holds (\<lambda>x. x) g demo_ring demo_catalog" "gw_calls g = []" by (rule demo_gateway)
  let ?r = "projr (hello lark_route ''req_1'')"
  note exact = gateway_exact [of ChatGateway demo_wire demo_env _ g]
  have env: "ge_parse demo_env = (\<lambda>_. None)" "ge_dispatcher demo_env = gateway_dispatcher (\<lambda>x. x) 7 echo" by (simp_all add: demo_env_def)
  obtain x where x: "ebind (echo '''' '''' ?r) (chat_answer tally_text (wt_chat_response demo_wire) demo_env chat_hello) = Inr x"
    by (simp add: echo_def hello_def lark_route_def chat_answer_def demo_env_def NewID_def chat_FromIR_def)
  have "BearerToken ''gwai_AQID'' = None" by code_simp
  then have "\<nexists>x. gateway_reads ChatGateway demo_wire demo_env ''req_1'' (chat_client ''gwai_AQID'') x" by (auto simp: chat_client_def Header_Get_def)
  with exact [of "chat_client ''gwai_AQID''", unfolded chat_client_id, THEN conjunct2] obtain resp' where
    no: "gateway_http ChatGateway demo_wire demo_env (chat_client ''gwai_AQID'') g = (resp', g)" "refusal (chat_client ''gwai_AQID'') resp'" by blast
  from no(2) have "Resp_Status resp' \<noteq> 200" by (auto simp: refusal_def chat_client_def)
  moreover from exact [of "chat_client ''Bearer gwai_AQID''", unfolded chat_client_id env, THEN conjunct1, rule_format,
      OF conjI [OF chat_client_reads chat_client_run [OF g(1)]], unfolded x sum.case]
  obtain resp where "gateway_http ChatGateway demo_wire demo_env (chat_client ''Bearer gwai_AQID'') g =
      (resp, g\<lparr>gw_calls := gw_calls g @ [(''umbra-adapter'', ''/v1/generate'', ?r)]\<rparr>)" "Resp_Status resp = 200" by blast
  moreover note no(1) g(2)
  ultimately show ?thesis
    by (intro exI [of _ g] exI [of _ "g\<lparr>gw_calls := gw_calls g @ [(''umbra-adapter'', ''/v1/generate'', ?r)]\<rparr>"] exI [of _ resp]) simp
qed


theorem gateway_call_has_live_resources_witness:
  "\<exists>g g' resp. gateway_http ChatGateway demo_wire demo_env (chat_client ''Bearer gwai_AQID'') g = (resp, g') \<and>
     (\<exists>requested app. backed (\<lambda>x. x) 7 (gw_planes g) ''gwai_AQID'' requested app)"
proof -
  obtain g where g: "(plane_step (\<lambda>x. x))\<^sup>*\<^sup>* new_planes (gw_planes g)" "gateway_holds (\<lambda>x. x) g demo_ring demo_catalog" "gw_calls g = []" by (rule demo_gateway)
  have env: "ge_parse demo_env = (\<lambda>_. None)" "ge_dispatcher demo_env = gateway_dispatcher (\<lambda>x. x) 7 echo" by (simp_all add: demo_env_def)
  have reads: "gateway_reads ChatGateway demo_wire demo_env (request_id (ge_request_random demo_env) (chat_client ''Bearer gwai_AQID'')) (chat_client ''Bearer gwai_AQID'')
     (''gwai_AQID'', ''lark'', chat_ToIR tally_text (\<lambda>_. None) chat_hello, chat_answer tally_text (wt_chat_response demo_wire) demo_env chat_hello)"
    unfolding chat_client_id by (rule chat_client_reads)
  from gateway_run [OF reads, unfolded chat_client_id env, OF chat_client_run [OF g(2)]] obtain resp g' where
    run: "gateway_http ChatGateway demo_wire demo_env (chat_client ''Bearer gwai_AQID'') g = (resp, g')" "gw_calls g' \<noteq> gw_calls g" by force
  have "gateway_key ChatGateway (chat_client ''Bearer gwai_AQID'') = Some ''gwai_AQID''" using reads by simp
  with gateway_call_has_live_resources [OF g(1) env(2) run] run(1) show ?thesis by (metis option.inject)
qed

end
