(* ===== verification/Adapter_Config.thy ===== *)
theory Adapter_Config
  imports IR Dapr
begin

text \<open>
  Package \<^verbatim>\<open>internal/adapterconfig\<close>: the identity and upstream connection an adapter process reads from
  its environment. \<open>valid_config\<close> says which configurations it can start with; an adapter starts exactly
  with the trimmed values of its environment when they make such a configuration, and its app ID is one
  that the control plane registers for a provider.
\<close>

record Config =
  Cfg_AppID :: string
  Cfg_BaseURL :: string
  Cfg_APIVersion :: string
  Cfg_SecretRef :: SecretRef

definition EnvAppID :: string where "EnvAppID = ''GWAI_ADAPTER_APP_ID''"
definition EnvBaseURL :: string where "EnvBaseURL = ''GWAI_PROVIDER_BASE_URL''"
definition EnvAPIVersion :: string where "EnvAPIVersion = ''GWAI_PROVIDER_API_VERSION''"
definition EnvSecretStore :: string where "EnvSecretStore = ''GWAI_PROVIDER_SECRET_STORE''"
definition EnvSecretName :: string where "EnvSecretName = ''GWAI_PROVIDER_SECRET_NAME''"
definition EnvSecretKey :: string where "EnvSecretKey = ''GWAI_PROVIDER_SECRET_KEY''"
definition EnvSecretNamespace :: string where "EnvSecretNamespace = ''GWAI_PROVIDER_SECRET_NAMESPACE''"

text \<open>\<^verbatim>\<open>^[a-z0-9](?:[a-z0-9.-]{0,61}[a-z0-9])?$\<close> and \<^verbatim>\<open>^[A-Za-z0-9][A-Za-z0-9._-]{0,63}$\<close>\<close>

definition adapter_appIDPattern :: "string \<Rightarrow> bool" where
  "adapter_appIDPattern = label_pattern ''.-''"

definition apiVersionPattern :: "string \<Rightarrow> bool" where
  "apiVersionPattern s \<longleftrightarrow>
     s \<noteq> [] \<and> (is_upper (hd s) \<or> is_label_char (hd s)) \<and> length s \<le> 64 \<and>
     list_all (\<lambda>c. is_upper c \<or> is_label_char c \<or> c \<in> set ''._-'') (tl s)"

definition required :: "environment \<Rightarrow> string \<Rightarrow> string result" where
  "required env key =
     (let v = TrimSpace (env key) in
      if v = '''' then Inl (Errorf ''required environment variable %s is not set'' [key] []) else Inr v)"

definition rejectControls :: "string \<Rightarrow> string \<Rightarrow> unit result" where
  "rejectControls key v =
     fail_if (ContainsAny v control_chars) (Errorf ''environment variable %s contains unsupported control characters'' [key] [])"

text \<open>\<^verbatim>\<open>strings.TrimRight(s, "/")\<close>\<close>

definition trim_slashes :: "string \<Rightarrow> string" where
  "trim_slashes s = rev (dropWhile (\<lambda>c. c = CHR ''/'') (rev s))"

fun reject_all :: "(string \<times> string) list \<Rightarrow> unit result" where
  "reject_all [] = Inr ()"
| "reject_all ((key, v) # pairs) = ebind (rejectControls key v) (\<lambda>_. reject_all pairs)"

definition Load :: "url_parser \<Rightarrow> environment \<Rightarrow> Config result" where
  "Load parse env =
     ebind (required env EnvAppID) (\<lambda>appID.
     ebind (fail_if (\<not> adapter_appIDPattern appID)
       (failf ''environment variable %s must be a valid lowercase Dapr app ID'' [EnvAppID])) (\<lambda>_.
     ebind (required env EnvBaseURL) (\<lambda>baseURL.
     ebind (case parse baseURL of
              None \<Rightarrow> Inl (failf ''environment variable %s must be an absolute HTTP(S) URL'' [EnvBaseURL])
            | Some parsed \<Rightarrow>
                if (URL_Scheme parsed \<noteq> ''http'' \<and> URL_Scheme parsed \<noteq> ''https'') \<or> URL_Host parsed = ''''
                then Inl (failf ''environment variable %s must be an absolute HTTP(S) URL'' [EnvBaseURL])
                else Inr parsed) (\<lambda>parsed.
     ebind (fail_if (URL_User parsed \<noteq> None \<or> URL_RawQuery parsed \<noteq> '''' \<or> URL_Fragment parsed \<noteq> '''')
       (failf ''environment variable %s must not contain credentials, a query, or a fragment'' [EnvBaseURL])) (\<lambda>_.
     ebind (required env EnvAPIVersion) (\<lambda>apiVersion.
     ebind (fail_if (\<not> apiVersionPattern apiVersion)
       (failf ''environment variable %s must be a valid API version token'' [EnvAPIVersion])) (\<lambda>_.
     ebind (required env EnvSecretStore) (\<lambda>secretStore.
     ebind (required env EnvSecretName) (\<lambda>secretName.
     ebind (required env EnvSecretKey) (\<lambda>secretKey.
     let secretNamespace = TrimSpace (env EnvSecretNamespace) in
     ebind (reject_all [(EnvSecretStore, secretStore), (EnvSecretName, secretName), (EnvSecretKey, secretKey),
                        (EnvSecretNamespace, secretNamespace)]) (\<lambda>_.
     Inr \<lparr>Cfg_AppID = appID, Cfg_BaseURL = trim_slashes baseURL, Cfg_APIVersion = apiVersion,
          Cfg_SecretRef = \<lparr>SR_Store = secretStore, SR_Name = secretName, SR_Key = secretKey, SR_Namespace = secretNamespace\<rparr>\<rparr>)))))))))))"

section \<open>Which environments configure an adapter\<close>

definition plain_base :: "url_parser \<Rightarrow> string \<Rightarrow> bool" where
  "plain_base parse s \<longleftrightarrow> (\<exists>u. parse s = Some u \<and> URL_Scheme u \<in> {''http'', ''https''} \<and> URL_Host u \<noteq> '''' \<and>
     URL_User u = None \<and> URL_RawQuery u = '''' \<and> URL_Fragment u = '''')"

definition clean :: "string \<Rightarrow> bool" where
  "clean s \<longleftrightarrow> (\<forall>c \<in> set control_chars. c \<notin> set s)"

definition configures :: "url_parser \<Rightarrow> environment \<Rightarrow> Config \<Rightarrow> bool" where
  "configures parse env c \<longleftrightarrow>
     (let get = (\<lambda>key. TrimSpace (env key)) in
      c = \<lparr>Cfg_AppID = get EnvAppID, Cfg_BaseURL = trim_slashes (get EnvBaseURL), Cfg_APIVersion = get EnvAPIVersion,
           Cfg_SecretRef = \<lparr>SR_Store = get EnvSecretStore, SR_Name = get EnvSecretName, SR_Key = get EnvSecretKey,
             SR_Namespace = get EnvSecretNamespace\<rparr>\<rparr> \<and>
      label_pattern ''.-'' (get EnvAppID) \<and> get EnvBaseURL \<noteq> '''' \<and> plain_base parse (get EnvBaseURL) \<and>
      apiVersionPattern (get EnvAPIVersion) \<and>
      (\<forall>key \<in> {EnvSecretStore, EnvSecretName, EnvSecretKey}. get key \<noteq> '''' \<and> clean (get key)) \<and> clean (get EnvSecretNamespace))"

lemma required_iff: "required env key = Inr v \<longleftrightarrow> v = TrimSpace (env key) \<and> v \<noteq> []"
  by (auto simp: required_def Let_def)

lemma rejectControls_iff: "rejectControls key v = Inr () \<longleftrightarrow> clean v"
  by (auto simp: rejectControls_def ContainsAny_def clean_def list_ex_iff)

lemma trim_slashes_end: "trim_slashes s = [] \<or> last (trim_slashes s) \<noteq> CHR ''/''"
proof (cases "dropWhile (\<lambda>c. c = CHR ''/'') (rev s) = []")
  case False
  from hd_dropWhile [OF False] show ?thesis unfolding trim_slashes_def by (simp add: last_rev)
qed (simp add: trim_slashes_def)

lemma label_char_printable: "is_label_char c \<Longrightarrow> byte c \<in> {33..126}"
  by (auto simp: is_label_char_def is_lower_def is_digit_def byte_def)

lemma TrimSpace_one: "byte a \<in> {33..126} \<Longrightarrow> TrimSpace [a] = [a]"
  by (auto simp: TrimSpace_def TrimLeft_def TrimRight_def space1_def)

lemma label_pattern_trim:
  assumes "label_pattern extra s"
  shows "TrimSpace s = s"
proof (cases "length s = 1")
  case True
  then obtain a where "s = [a]" by (cases s) auto
  with assms show ?thesis using TrimSpace_one [OF label_char_printable] by (simp add: label_pattern_def)
next
  case False
  with assms obtain a t where s: "s = a # t" "t \<noteq> []" "is_label_char a" "is_label_char (last s)"
    by (cases s) (auto simp: label_pattern_def)
  then have "s = a # butlast t @ [last s]" by simp
  with s TrimSpace_framed [OF label_char_printable label_char_printable, of a "last s" "butlast t"] show ?thesis by metis
qed

lemma Load_iff: "Load parse env = Inr c \<longleftrightarrow> configures parse env c"
proof -
  have url: "(case parse s of None \<Rightarrow> Inl e
      | Some parsed \<Rightarrow> if (URL_Scheme parsed \<noteq> ''http'' \<and> URL_Scheme parsed \<noteq> ''https'') \<or> URL_Host parsed = [] then Inl e else Inr parsed) = Inr u \<longleftrightarrow>
      parse s = Some u \<and> URL_Scheme u \<in> {''http'', ''https''} \<and> URL_Host u \<noteq> []" for s e u
    by (auto split: option.splits if_splits)
  have nonempty: "label_pattern extra s \<Longrightarrow> s \<noteq> []" "apiVersionPattern s \<Longrightarrow> s \<noteq> []" for extra s
    by (auto simp: label_pattern_def apiVersionPattern_def)
  show ?thesis
    unfolding Load_def configures_def Let_def ebind_Inr_iff required_iff url fail_if_Inr_iff reject_all.simps rejectControls_iff
      adapter_appIDPattern_def plain_base_def sum.inject
    using nonempty by (simp add: rejectControls_iff) (blast intro: sym)
qed

section \<open>Properties\<close>

text \<open>
  An adapter starts exactly with a sound configuration: the app ID is a Dapr label, the base URL is an
  absolute HTTP(S) URL without credentials, query or fragment, the API version is a token, the secret
  reference is complete and free of control characters. The values are those of the environment,
  trimmed; the base URL never ends with a slash.
\<close>

lemma Load_exact:
  "(Load parse env = Inr c \<longleftrightarrow> configures parse env c)
    \<and> (Load parse env = Inr c \<longrightarrow> Cfg_BaseURL c = '''' \<or> last (Cfg_BaseURL c) \<noteq> CHR ''/'')"
proof -
  have "configures parse env c \<Longrightarrow> Cfg_BaseURL c = trim_slashes (TrimSpace (env EnvBaseURL))" by (auto simp: configures_def Let_def)
  with trim_slashes_end [of "TrimSpace (env EnvBaseURL)"] show ?thesis unfolding Load_iff by auto
qed

definition sample_env :: environment where
  "sample_env key =
     (if key = EnvAppID then '' umbra-adapter'' else if key = EnvBaseURL then ''https://api.umbra.example/''
      else if key = EnvAPIVersion then ''v1beta'' else if key = EnvSecretStore then ''vault''
      else if key = EnvSecretName then ''umbra'' else if key = EnvSecretKey then ''api-key'' else '''')"

definition sample_parse :: url_parser where
  "sample_parse s = Some \<lparr>URL_Scheme = ''https'', URL_Host = ''api.umbra.example'', URL_User = None, URL_RawQuery = '''', URL_Fragment = ''''\<rparr>"

definition sample_config :: Config where
  "sample_config = \<lparr>Cfg_AppID = ''umbra-adapter'', Cfg_BaseURL = ''https://api.umbra.example'', Cfg_APIVersion = ''v1beta'',
     Cfg_SecretRef = \<lparr>SR_Store = ''vault'', SR_Name = ''umbra'', SR_Key = ''api-key'', SR_Namespace = ''''\<rparr>\<rparr>"

lemma sample_load: "Load sample_parse sample_env = Inr sample_config"
  by code_simp

text \<open>
  C30: The adapter's app ID and the control plane's agree. The app ID of an adapter that starts can be
  registered for a provider: the resource service never rejects it, and stores it unchanged.
\<close>

theorem adapter_app_id_registrable:
  assumes "Load parse env = Inr c" and "PI_AdapterAppID input = Cfg_AppID c"
  shows "case normalizeProviderInput lib input of
      Inl e \<Rightarrow> e \<noteq> invalid ''adapter_app_id'' ''must be a valid lowercase Dapr app ID''
    | Inr stored \<Rightarrow> PI_AdapterAppID stored = Cfg_AppID c"
proof -
  from assms(1) have p: "label_pattern ''.-'' (Cfg_AppID c)" unfolding Load_iff by (auto simp: configures_def Let_def)
  then have ok: "\<not> (Cfg_AppID c = [] \<or> \<not> appIDPattern (Cfg_AppID c))" by (auto simp: label_pattern_def appIDPattern_def)
  define kind where "kind \<longleftrightarrow> ToLower lib (TrimSpace (PI_Kind input)) \<notin>
    {ProviderKindAnthropic, ProviderKindOpenAIChat, ProviderKindOpenAIResponses, ProviderKindGemini}"
  define stored where "stored = input\<lparr>PI_Slug := TrimSpace (PI_Slug input), PI_Name := TrimSpace (PI_Name input),
    PI_Kind := ToLower lib (TrimSpace (PI_Kind input)), PI_AdapterAppID := Cfg_AppID c, PI_Status := normalizeStatus (PI_Status input)\<rparr>"
  have run: "normalizeProviderInput lib input =
      ebind (validateName (PI_Name stored)) (\<lambda>_. ebind (validateProviderSlug (PI_Slug stored)) (\<lambda>_.
      ebind (fail_if kind (invalid ''kind'' ''must be anthropic, openai-chat, openai-responses, or gemini'')) (\<lambda>_.
      ebind (validateStatus (PI_Status stored)) (\<lambda>_. Inr stored))))"
    using ok unfolding normalizeProviderInput_def Let_def stored_def kind_def by (simp add: assms(2) label_pattern_trim [OF p])
  have "PI_AdapterAppID stored = Cfg_AppID c" by (simp add: stored_def)
  then show ?thesis unfolding run
    by (auto simp: invalid_def ebind_Inl_iff validateName_def validateProviderSlug_def validateStatus_def split: sum.splits)
qed

theorem adapter_app_id_registrable_witness:
  "\<exists>stored. normalizeProviderInput \<lparr>ToLower = (\<lambda>x. x), EqualFold = (=), ParseAddress = Inr\<rparr>
       \<lparr>PI_Slug = ''umbra'', PI_Name = ''Umbra'', PI_Kind = ProviderKindGemini, PI_AdapterAppID = ''umbra-adapter'', PI_Status = StatusActive\<rparr> =
       Inr stored \<and> PI_AdapterAppID stored = ''umbra-adapter''"
proof -
  let ?lib = "\<lparr>ToLower = (\<lambda>x. x), EqualFold = (=), ParseAddress = Inr\<rparr> :: Library"
  let ?input = "\<lparr>PI_Slug = ''umbra'', PI_Name = ''Umbra'', PI_Kind = ProviderKindGemini, PI_AdapterAppID = ''umbra-adapter'', PI_Status = StatusActive\<rparr>"
  have run: "normalizeProviderInput ?lib ?input = Inr ?input" by code_simp
  from adapter_app_id_registrable [OF sample_load, of ?input ?lib] run show ?thesis by (simp add: sample_config_def)
qed

end
