(* ===== verification/Adapter_HTTP.thy ===== *)
theory Adapter_HTTP
  imports IR_JSON Portable Adapter_Config Admin_HTTP
begin

text \<open>
  The HTTP services of the four provider adapters: \<^verbatim>\<open>anthropic/http.go\<close>, \<^verbatim>\<open>openai/adapter.go\<close>,
  \<^verbatim>\<open>openairesponses/adapter_http.go\<close> and \<^verbatim>\<open>gemini/adapter.go\<close>. The four handlers are the same sequence of
  checks around one call to the provider; what differs is a \<open>Protocol\<close>. The handler is split at that call:
  \<open>accept_request\<close> is everything before it and \<open>relay_answer\<close> everything after.

  The provider registry, the secret store and the HTTP client are the \<open>Ports\<close> of an adapter. The provider
  API is not part of the program; the JSON form of the wire types is a \<open>Codec\<close> of their Go struct tags.
\<close>

section \<open>Handlers with early answers\<close>

type_synonym 'a reply = "HTTPResponse + 'a"

fun rbind :: "'a reply \<Rightarrow> ('a \<Rightarrow> 'b reply) \<Rightarrow> 'b reply" where
  "rbind (Inl resp) f = Inl resp"
| "rbind (Inr x) f = f x"

definition or_answer :: "(error \<Rightarrow> HTTPResponse) \<Rightarrow> 'a result \<Rightarrow> 'a reply" where
  "or_answer answer = map_sum answer id"

definition refuse_if :: "bool \<Rightarrow> HTTPResponse \<Rightarrow> unit reply" where
  "refuse_if b resp = (if b then Inl resp else Inr ())"

section \<open>Configuration and protocol\<close>

record AdapterConfig =
  AC_Runtime :: Config
  AC_MaxBody :: nat
  AC_AppToken :: string
  AC_DefaultMaxOutputTokens :: int
  AC_MaxOutputTokens :: int

record 'w Ports =
  port_provider :: "string \<Rightarrow> 'w \<Rightarrow> Provider result"    \<comment> \<open>\<^verbatim>\<open>ProviderResolver\<close>\<close>
  port_secret :: "SecretRef \<Rightarrow> 'w \<Rightarrow> string result"      \<comment> \<open>\<^verbatim>\<open>SecretResolver\<close>\<close>
  port_upstream :: "'w transport"                        \<comment> \<open>\<^verbatim>\<open>upstream.Do\<close>\<close>

record ('m, 'p) Protocol =
  pr_kind :: string
  pr_title :: string
  pr_api :: string
  pr_limit :: "IRRequest \<Rightarrow> string option"              \<comment> \<open>a refusal before the provider is resolved\<close>
  pr_translate :: "IRRequest \<Rightarrow> 'm result"
  pr_request :: "'m Codec"
  pr_endpoint :: "IRRequest \<Rightarrow> string result"
  pr_headers :: "string \<Rightarrow> (string \<times> string) list"     \<comment> \<open>of the API key\<close>
  pr_trace :: string                                     \<comment> \<open>the header that carries the request ID\<close>
  pr_response :: "'p Codec"
  pr_back :: "'p \<Rightarrow> IRRequest \<Rightarrow> IRResponse result"

section \<open>\<^verbatim>\<open>generate\<close>\<close>

definition adapter_internal :: "AdapterConfig \<Rightarrow> 'w handler \<Rightarrow> 'w handler" where
  "adapter_internal cfg next requestID r w =
     (if AC_AppToken cfg \<noteq> '''' \<and> \<not> SecureEqual (Header_Get r ''Dapr-Api-Token'') (AC_AppToken cfg)
      then (WriteProblem requestID 401 ''Unauthorized''
             (Text ''the endpoint is only available through the authenticated Dapr sidecar''), w)
      else next requestID r w)"

definition upstream_request :: "('m, 'p) Protocol \<Rightarrow> string \<Rightarrow> string \<Rightarrow> string \<Rightarrow> json \<Rightarrow> DaprRequest" where
  "upstream_request P requestID apiKey endpoint payload =
     \<lparr>DR_Method = ''POST'', DR_URL = endpoint,
      DR_Header = [(''Content-Type'', ''application/json''), (''Accept'', ''application/json'')] @ pr_headers P apiKey @
        (if requestID \<noteq> '''' then [(pr_trace P, requestID)] else []),
      DR_Body = Some payload\<rparr>"

definition accept_request ::
  "FloatText \<Rightarrow> url_parser \<Rightarrow> (string \<Rightarrow> bool) \<Rightarrow> ('m, 'p) Protocol \<Rightarrow> 'w Ports \<Rightarrow> AdapterConfig \<Rightarrow> string \<Rightarrow> HTTPRequest \<Rightarrow> 'w \<Rightarrow>
     (IRRequest \<times> DaprRequest) reply" where
  "accept_request F parse url_ok P ports cfg requestID r w =
     (let appID = Cfg_AppID (AC_Runtime cfg); problem = WriteProblem requestID in
      rbind (or_answer (\<lambda>err. problem 400 ''Invalid IR request'' (ErrorText err))
        (DecodeJSON (decode_Request F) (AC_MaxBody cfg) True r)) (\<lambda>internalRequest.
      rbind (or_answer (\<lambda>err. problem 400 ''Invalid IR request'' (ErrorText err)) (request_Validate parse internalRequest)) (\<lambda>_.
      rbind (case pr_limit P internalRequest of None \<Rightarrow> Inr ()
             | Some detail \<Rightarrow> Inl (problem 400 ''Unsupported IR request'' (Text detail))) (\<lambda>_.
      rbind (or_answer (\<lambda>err. problem (if errors_Is err ErrNotFound \<or> errors_Is err ErrForbidden then 422 else 502)
          ''Provider resolution failed'' (Text ''the configured provider is unavailable'')) (port_provider ports appID w)) (\<lambda>provider.
      rbind (refuse_if (Provider_Kind provider \<noteq> pr_kind P)
        (problem 422 ''Invalid provider'' (Text (''this adapter only accepts '' @ pr_title P @ '' providers'')))) (\<lambda>_.
      rbind (refuse_if (Provider_ID provider \<noteq> IRRoute_ProviderID (Req_Route internalRequest) \<or> Provider_AdapterAppID provider \<noteq> appID)
        (problem 422 ''Invalid route'' (Text ''the request is not addressed to this provider adapter''))) (\<lambda>_.
      rbind (or_answer (\<lambda>err. problem 502 ''Provider credential unavailable'' (Text ''the provider credential could not be loaded''))
        (port_secret ports (Cfg_SecretRef (AC_Runtime cfg)) w)) (\<lambda>apiKey.
      rbind (refuse_if (TrimSpace apiKey = '''')
        (problem 502 ''Provider credential unavailable'' (Text ''the provider credential is empty''))) (\<lambda>_.
      rbind (or_answer (\<lambda>err. problem 400 ''Unsupported IR request'' (ErrorText err)) (pr_translate P internalRequest)) (\<lambda>providerRequest.
      rbind (refuse_if (\<not> marshalable (pr_request P) providerRequest)
        (problem 500 ''Encoding failed'' (Text ''the provider request could not be encoded''))) (\<lambda>_.
      rbind (or_answer (\<lambda>err. problem 422 ''Invalid provider'' (ErrorText err)) (pr_endpoint P internalRequest)) (\<lambda>endpoint.
      rbind (refuse_if (\<not> url_ok endpoint)
        (problem 500 ''Request construction failed'' (Text ''the provider request could not be created''))) (\<lambda>_.
      Inr (internalRequest, upstream_request P requestID apiKey endpoint (json_of (pr_request P) providerRequest)))))))))))))))"

definition relay_answer :: "('m, 'p) Protocol \<Rightarrow> string \<Rightarrow> IRRequest \<Rightarrow> DaprResponse result \<Rightarrow> HTTPResponse" where
  "relay_answer P requestID internalRequest answer =
     (case answer of
        Inl err \<Rightarrow> WriteProblem requestID 502 ''Provider request failed'' (Text (''the '' @ pr_api P @ '' API could not be reached''))
      | Inr response \<Rightarrow>
          if DS_Broken response \<noteq> None
          then WriteProblem requestID 502 ''Provider response failed'' (Text (''the '' @ pr_api P @ '' response could not be read''))
          else if DS_Status response < 200 \<or> DS_Status response \<ge> 300
          then WriteProblem requestID (if DS_Status response = 429 then 429 else 502) ''Provider rejected request''
                 (Text (pr_api P @ '' returned HTTP '' @ decimal (DS_Status response)))
          else case Unmarshal_body (decode (pr_response P)) (LimitReader (20 * 2 ^ 20) (DS_JSON response)) of
              Inl err \<Rightarrow> WriteProblem requestID 502 ''Invalid provider response'' (Text (pr_api P @ '' returned malformed JSON''))
            | Inr providerResponse \<Rightarrow>
                (case pr_back P providerResponse internalRequest of
                   Inl err \<Rightarrow> WriteProblem requestID 502 ''Unsupported provider response''
                     (Text (pr_api P @ '' returned a response that cannot be represented''))
                 | Inr internalResponse \<Rightarrow> JSON 200 (json_of_Response internalResponse)))"

definition adapter_generate ::
  "FloatText \<Rightarrow> url_parser \<Rightarrow> (string \<Rightarrow> bool) \<Rightarrow> ('m, 'p) Protocol \<Rightarrow> 'w Ports \<Rightarrow> AdapterConfig \<Rightarrow> 'w handler" where
  "adapter_generate F parse url_ok P ports cfg requestID r w =
     (case accept_request F parse url_ok P ports cfg requestID r w of
        Inl resp \<Rightarrow> (resp, w)
      | Inr (internalRequest, upstreamRequest) \<Rightarrow>
          (case port_upstream ports upstreamRequest w of (answer, w') \<Rightarrow> (relay_answer P requestID internalRequest answer, w')))"

definition AdapterHTTPHandler ::
  "FloatText \<Rightarrow> url_parser \<Rightarrow> (string \<Rightarrow> bool) \<Rightarrow> ('m, 'p) Protocol \<Rightarrow> 'w Ports \<Rightarrow> AdapterConfig \<Rightarrow> nat list result \<Rightarrow>
     HTTPRequest \<Rightarrow> 'w \<Rightarrow> HTTPResponse \<times> 'w" where
  "AdapterHTTPHandler F parse url_ok P ports cfg random =
     HTTPMiddleware random (ServeMux (health_patterns @
       [on_path ''POST'' [Lit ''v1'', Lit ''generate''] (adapter_internal cfg (adapter_generate F parse url_ok P ports cfg))]) False)"

section \<open>The four protocols\<close>

text \<open>\<^verbatim>\<open>url.Parse\<close> and \<^verbatim>\<open>URL.String\<close>\<close>

record URLText =
  ut_parse :: "string \<Rightarrow> URL option"
  ut_string :: "URL \<Rightarrow> string"

definition providerGenerateContentURL :: "URLText \<Rightarrow> Config \<Rightarrow> string \<Rightarrow> string result" where
  "providerGenerateContentURL U config upstreamModel =
     ebind (case ut_parse U (Cfg_BaseURL config) of
              None \<Rightarrow> Inl (failf ''invalid Gemini provider base URL'' [])
            | Some parsed \<Rightarrow>
                if URL_Scheme parsed = '''' \<or> URL_Host parsed = '''' then Inl (failf ''invalid Gemini provider base URL'' []) else Inr parsed) (\<lambda>parsed.
     ebind (fail_if (Cfg_APIVersion config = '''') (failf ''Gemini provider api_version is required'' [])) (\<lambda>_.
     let model = TrimPrefix (TrimSpace upstreamModel) ''models/'' in
     ebind (fail_if (model = '''') (failf ''Gemini upstream model is required'' [])) (\<lambda>_.
     Inr (trim_slashes (ut_string U parsed) @ ''/'' @ PathEscape (Cfg_APIVersion config) @ ''/models/'' @ PathEscape model @ '':generateContent''))))"

definition anthropic_protocol ::
  "url_parser \<Rightarrow> (json \<Rightarrow> string) \<Rightarrow> MessageRequest Codec \<Rightarrow> MessageResponse Codec \<Rightarrow> AdapterConfig \<Rightarrow> (MessageRequest, MessageResponse) Protocol" where
  "anthropic_protocol parse raw_text C D cfg =
     \<lparr>pr_kind = ProviderKindAnthropic, pr_title = ''Anthropic'', pr_api = ''Anthropic'', pr_limit = (\<lambda>_. None),
      pr_translate = (\<lambda>r. ToMessageRequest parse raw_text r (AC_DefaultMaxOutputTokens cfg) (AC_MaxOutputTokens cfg)), pr_request = C,
      pr_endpoint = (\<lambda>_. Inr (Cfg_BaseURL (AC_Runtime cfg) @ ''/v1/messages'')),
      pr_headers = (\<lambda>apiKey. [(''X-Api-Key'', apiKey), (''Anthropic-Version'', Cfg_APIVersion (AC_Runtime cfg)),
        (''User-Agent'', ''gwai-anthropic-adapter/0.2'')]),
      pr_trace = ''X-Request-Id'', pr_response = D, pr_back = ToIRResponse parse\<rparr>"

definition chat_protocol ::
  "JSONText \<Rightarrow> url_parser \<Rightarrow> ChatCompletionRequest Codec \<Rightarrow> ChatCompletionResponse Codec \<Rightarrow> AdapterConfig \<Rightarrow>
     (ChatCompletionRequest, ChatCompletionResponse) Protocol" where
  "chat_protocol T parse C D cfg =
     \<lparr>pr_kind = ProviderKindOpenAIChat, pr_title = ''OpenAI Chat'', pr_api = ''OpenAI Chat'', pr_limit = (\<lambda>_. None),
      pr_translate = ToChatRequest T parse, pr_request = C,
      pr_endpoint = (\<lambda>_. Inr (Cfg_BaseURL (AC_Runtime cfg) @ ''/'' @ Cfg_APIVersion (AC_Runtime cfg) @ ''/chat/completions'')),
      pr_headers = (\<lambda>apiKey. [(''Authorization'', ''Bearer '' @ apiKey), (''User-Agent'', ''gwai-openai-chat-adapter/0.3'')]),
      pr_trace = ''X-Client-Request-Id'', pr_response = D, pr_back = FromChatResponse T parse\<rparr>"

definition responses_protocol ::
  "JSONText \<Rightarrow> url_parser \<Rightarrow> ProviderRequest Codec \<Rightarrow> ResponsesResponse Codec \<Rightarrow> AdapterConfig \<Rightarrow> (ProviderRequest, ResponsesResponse) Protocol" where
  "responses_protocol T parse C D cfg =
     \<lparr>pr_kind = ProviderKindOpenAIResponses, pr_title = ''OpenAI Responses'', pr_api = ''OpenAI'',
      pr_limit = (\<lambda>r. case Req_MaxOutputTokens r of
          None \<Rightarrow> None
        | Some n \<Rightarrow> if AC_MaxOutputTokens cfg > 0 \<and> n > AC_MaxOutputTokens cfg
            then Some (''max_output_tokens must not exceed '' @ decimal_int (AC_MaxOutputTokens cfg)) else None),
      pr_translate = responses_ToProviderRequest T parse, pr_request = C,
      pr_endpoint = (\<lambda>_. Inr (Cfg_BaseURL (AC_Runtime cfg) @ ''/'' @ Cfg_APIVersion (AC_Runtime cfg) @ ''/responses'')),
      pr_headers = (\<lambda>apiKey. [(''Authorization'', ''Bearer '' @ apiKey), (''User-Agent'', ''gwai-openai-responses-adapter/0.3'')]),
      pr_trace = ''X-Request-Id'', pr_response = D, pr_back = responses_ToIRResponse T parse\<rparr>"

definition gemini_protocol ::
  "(string \<Rightarrow> string) \<Rightarrow> URLText \<Rightarrow> url_parser \<Rightarrow> GenerateContentRequest Codec \<Rightarrow> GenerateContentResponse Codec \<Rightarrow> AdapterConfig \<Rightarrow>
     (GenerateContentRequest, GenerateContentResponse) Protocol" where
  "gemini_protocol lower U parse C D cfg =
     \<lparr>pr_kind = ProviderKindGemini, pr_title = ''Gemini'', pr_api = ''Gemini'', pr_limit = (\<lambda>_. None),
      pr_translate = (\<lambda>r. ToProviderRequest lower parse r (AC_DefaultMaxOutputTokens cfg) (AC_MaxOutputTokens cfg)), pr_request = C,
      pr_endpoint = (\<lambda>r. providerGenerateContentURL U (AC_Runtime cfg) (IRRoute_UpstreamModel (Req_Route r))),
      pr_headers = (\<lambda>apiKey. [(''X-Goog-Api-Key'', apiKey), (''User-Agent'', ''gwai-gemini-adapter/0.1'')]),
      pr_trace = ''X-Request-Id'', pr_response = D, pr_back = gemini_ToIRResponse parse\<rparr>"

text \<open>The four services.\<close>

definition anthropic_adapter ::
  "FloatText \<Rightarrow> url_parser \<Rightarrow> (string \<Rightarrow> bool) \<Rightarrow> (json \<Rightarrow> string) \<Rightarrow> MessageRequest Codec \<Rightarrow> MessageResponse Codec \<Rightarrow> 'w Ports \<Rightarrow> AdapterConfig \<Rightarrow>
     nat list result \<Rightarrow> HTTPRequest \<Rightarrow> 'w \<Rightarrow> HTTPResponse \<times> 'w" where
  "anthropic_adapter F parse url_ok raw_text C D ports cfg = AdapterHTTPHandler F parse url_ok (anthropic_protocol parse raw_text C D cfg) ports cfg"

definition chat_adapter ::
  "FloatText \<Rightarrow> url_parser \<Rightarrow> (string \<Rightarrow> bool) \<Rightarrow> JSONText \<Rightarrow> ChatCompletionRequest Codec \<Rightarrow> ChatCompletionResponse Codec \<Rightarrow> 'w Ports \<Rightarrow> AdapterConfig \<Rightarrow>
     nat list result \<Rightarrow> HTTPRequest \<Rightarrow> 'w \<Rightarrow> HTTPResponse \<times> 'w" where
  "chat_adapter F parse url_ok T C D ports cfg = AdapterHTTPHandler F parse url_ok (chat_protocol T parse C D cfg) ports cfg"

definition responses_adapter ::
  "FloatText \<Rightarrow> url_parser \<Rightarrow> (string \<Rightarrow> bool) \<Rightarrow> JSONText \<Rightarrow> ProviderRequest Codec \<Rightarrow> ResponsesResponse Codec \<Rightarrow> 'w Ports \<Rightarrow> AdapterConfig \<Rightarrow>
     nat list result \<Rightarrow> HTTPRequest \<Rightarrow> 'w \<Rightarrow> HTTPResponse \<times> 'w" where
  "responses_adapter F parse url_ok T C D ports cfg = AdapterHTTPHandler F parse url_ok (responses_protocol T parse C D cfg) ports cfg"

definition gemini_adapter ::
  "FloatText \<Rightarrow> url_parser \<Rightarrow> (string \<Rightarrow> bool) \<Rightarrow> (string \<Rightarrow> string) \<Rightarrow> URLText \<Rightarrow> GenerateContentRequest Codec \<Rightarrow> GenerateContentResponse Codec \<Rightarrow>
     'w Ports \<Rightarrow> AdapterConfig \<Rightarrow> nat list result \<Rightarrow> HTTPRequest \<Rightarrow> 'w \<Rightarrow> HTTPResponse \<times> 'w" where
  "gemini_adapter F parse url_ok lower U C D ports cfg = AdapterHTTPHandler F parse url_ok (gemini_protocol lower U parse C D cfg) ports cfg"


section \<open>When a request goes upstream\<close>

lemma rbind_Inr_iff [simp]: "rbind m f = Inr y \<longleftrightarrow> (\<exists>x. m = Inr x \<and> f x = Inr y)"
  by (cases m) auto

lemma rbind_Inl_iff: "rbind m f = Inl resp \<longleftrightarrow> m = Inl resp \<or> (\<exists>x. m = Inr x \<and> f x = Inl resp)"
  by (cases m) auto

lemma or_answer_Inr_iff [simp]: "or_answer answer m = Inr x \<longleftrightarrow> m = Inr x"
  by (cases m) (auto simp: or_answer_def)

lemma or_answer_Inl: "or_answer answer m = Inl resp \<Longrightarrow> \<exists>err. resp = answer err"
  by (cases m) (auto simp: or_answer_def)

lemma refuse_if_iff [simp]: "refuse_if b resp = Inr u \<longleftrightarrow> \<not> b" "refuse_if b resp = Inl resp' \<longleftrightarrow> b \<and> resp' = resp"
  by (auto simp: refuse_if_def)

text \<open>
  The request that an adapter may send to its provider on behalf of \<open>req\<close>: the adapter's own provider is
  resolved, of the adapter's kind and the one the request is addressed to; there is a credential; and the
  request can be expressed in the provider's protocol.
\<close>

definition admitted ::
  "url_parser \<Rightarrow> (string \<Rightarrow> bool) \<Rightarrow> ('m, 'p) Protocol \<Rightarrow> 'w Ports \<Rightarrow> AdapterConfig \<Rightarrow> string \<Rightarrow> 'w \<Rightarrow> IRRequest \<Rightarrow> DaprRequest \<Rightarrow> bool" where
  "admitted parse url_ok P ports cfg requestID w req up \<longleftrightarrow>
     valid_request parse req \<and> pr_limit P req = None \<and>
     (\<exists>provider. port_provider ports (Cfg_AppID (AC_Runtime cfg)) w = Inr provider \<and> Provider_Kind provider = pr_kind P \<and>
        Provider_ID provider = IRRoute_ProviderID (Req_Route req) \<and> Provider_AdapterAppID provider = Cfg_AppID (AC_Runtime cfg)) \<and>
     (\<exists>apiKey m endpoint. port_secret ports (Cfg_SecretRef (AC_Runtime cfg)) w = Inr apiKey \<and> TrimSpace apiKey \<noteq> '''' \<and>
        pr_translate P req = Inr m \<and> marshalable (pr_request P) m \<and> pr_endpoint P req = Inr endpoint \<and> url_ok endpoint \<and>
        up = upstream_request P requestID apiKey endpoint (json_of (pr_request P) m))"

lemma accept_iff:
  "accept_request F parse url_ok P ports cfg requestID r w = Inr (req, up) \<longleftrightarrow>
     DecodeJSON (decode_Request F) (AC_MaxBody cfg) True r = Inr req \<and> admitted parse url_ok P ports cfg requestID w req up"
proof -
  have limit: "(case pr_limit P x of None \<Rightarrow> Inr () | Some detail \<Rightarrow> Inl (f detail)) = (Inr u :: unit reply) \<longleftrightarrow> pr_limit P x = None" for x f u
    by (auto split: option.splits)
  show ?thesis
    unfolding accept_request_def admitted_def Let_def rbind_Inr_iff or_answer_Inr_iff refuse_if_iff limit request_valid_iff [symmetric]
    by auto
qed

lemma accept_refused:
  "accept_request F parse url_ok P ports cfg requestID r w = Inl resp \<Longrightarrow> Resp_Status resp \<in> {400, 422, 500, 502}"
  unfolding accept_request_def Let_def rbind_Inl_iff refuse_if_iff
  by (elim disjE exE conjE) (auto dest!: or_answer_Inl split: option.splits if_splits)

definition sidecar_only :: "AdapterConfig \<Rightarrow> HTTPRequest \<Rightarrow> bool" where
  "sidecar_only cfg r \<longleftrightarrow> AC_AppToken cfg = '''' \<or> Header_Get r ''Dapr-Api-Token'' = AC_AppToken cfg"

text \<open>What the service forwards: the internal request of the call and the request to the provider.\<close>

definition forwards ::
  "FloatText \<Rightarrow> url_parser \<Rightarrow> (string \<Rightarrow> bool) \<Rightarrow> ('m, 'p) Protocol \<Rightarrow> 'w Ports \<Rightarrow> AdapterConfig \<Rightarrow> nat list result \<Rightarrow> HTTPRequest \<Rightarrow> 'w \<Rightarrow>
     IRRequest \<Rightarrow> DaprRequest \<Rightarrow> bool" where
  "forwards F parse url_ok P ports cfg random r w req up \<longleftrightarrow>
     HR_Method r = ''POST'' \<and> HR_Segments r = [''v1'', ''generate''] \<and> sidecar_only cfg r \<and>
     DecodeJSON (decode_Request F) (AC_MaxBody cfg) True r = Inr req \<and> admitted parse url_ok P ports cfg (request_id random r) w req up"

lemma relay_status: "Resp_Status (relay_answer P requestID req answer) \<in> {200, 429, 502}"
  by (auto simp: relay_answer_def split: sum.splits)

lemma adapter_internal_granted: "sidecar_only cfg r \<Longrightarrow> adapter_internal cfg f requestID r w = f requestID r w"
  and adapter_internal_refused: "\<not> sidecar_only cfg r \<Longrightarrow> \<exists>resp. adapter_internal cfg f requestID r w = (resp, w) \<and> Resp_Status resp = 401"
  by (auto simp: adapter_internal_def sidecar_only_def SecureEqual_iff)

lemmas adapter_routes = single_endpoint [of "[''v1'', ''generate'']", simplified]

lemma adapter_forwards:
  assumes "forwards F parse url_ok P ports cfg random r w req up"
    and "port_upstream ports up w = (answer, w')"
  shows "AdapterHTTPHandler F parse url_ok P ports cfg random r w =
     ((relay_answer P (request_id random r) req answer)
        \<lparr>Resp_Header := (''X-Request-Id'', request_id random r) # Resp_Header (relay_answer P (request_id random r) req answer)\<rparr>, w')"
proof -
  from assms have "adapter_generate F parse url_ok P ports cfg (request_id random r) r w = (relay_answer P (request_id random r) req answer, w')"
    by (simp add: forwards_def accept_iff [symmetric] adapter_generate_def)
  moreover have "Resp_Status (relay_answer P (request_id random r) req answer) \<noteq> 0" using relay_status [of P "request_id random r" req answer] by auto
  ultimately show ?thesis unfolding AdapterHTTPHandler_def
    by (intro HTTPMiddleware_run) (use assms(1) in \<open>simp_all only: adapter_routes forwards_def adapter_internal_granted simp_thms if_True\<close>)
qed

lemma adapter_refuses:
  assumes "\<nexists>req up. forwards F parse url_ok P ports cfg random r w req up"
  shows "\<exists>resp. AdapterHTTPHandler F parse url_ok P ports cfg random r w = (resp, w) \<and>
     Resp_Status resp \<in> {200, 400, 401, 404, 405, 422, 500, 502} \<and>
     (Resp_Status resp = 200 \<longrightarrow> HR_Segments r \<in> {[''livez''], [''readyz'']})"
proof -
  let ?f = "adapter_internal cfg (adapter_generate F parse url_ok P ports cfg)"
  let ?mux = "ServeMux (health_patterns @ [on_path ''POST'' [Lit ''v1'', Lit ''generate''] ?f]) False"
  have "\<exists>resp. ?mux (request_id random r) r w = (resp, w) \<and> Resp_Status resp \<in> {200, 400, 401, 404, 405, 422, 500, 502} \<and>
     (Resp_Status resp = 200 \<longrightarrow> HR_Segments r \<in> {[''livez''], [''readyz'']})"
  proof (cases "HR_Method r = ''POST'' \<and> HR_Segments r = [''v1'', ''generate'']")
    case post: True
    have "\<exists>resp. ?f (request_id random r) r w = (resp, w) \<and> Resp_Status resp \<in> {400, 401, 422, 500, 502}"
    proof (cases "sidecar_only cfg r")
      case True
      with assms post obtain resp where "accept_request F parse url_ok P ports cfg (request_id random r) r w = Inl resp"
        by (cases "accept_request F parse url_ok P ports cfg (request_id random r) r w") (auto simp: forwards_def accept_iff)
      with True accept_refused [OF this] show ?thesis by (auto simp: adapter_internal_granted adapter_generate_def)
    next
      case False
      from adapter_internal_refused [OF False] show ?thesis by (metis insertI1 insertI2)
    qed
    then show ?thesis unfolding adapter_routes using post by auto
  next
    case False
    then show ?thesis unfolding adapter_routes by (auto simp: health_def JSON_def)
  qed
  then obtain resp where "?mux (request_id random r) r w = (resp, w)" "Resp_Status resp \<in> {200, 400, 401, 404, 405, 422, 500, 502}"
    "Resp_Status resp = 200 \<longrightarrow> HR_Segments r \<in> {[''livez''], [''readyz'']}" by blast
  moreover from this(2) have "Resp_Status resp \<noteq> 0" by auto
  ultimately show ?thesis unfolding AdapterHTTPHandler_def by (simp add: HTTPMiddleware_run)
qed


section \<open>An adapter on the provider store\<close>

text \<open>The state behind an adapter: the provider store and the requests sent to the provider so far.\<close>

record adapter_state =
  as_providers :: memory
  as_sent :: "DaprRequest list"

definition adapter_ports ::
  "(string \<Rightarrow> string) \<Rightarrow> (SecretRef \<Rightarrow> string result) \<Rightarrow> (DaprRequest \<Rightarrow> DaprResponse result) \<Rightarrow> adapter_state Ports" where
  "adapter_ports H secret Do =
     \<lparr>port_provider = (\<lambda>appID s. ResolveProviderByAdapterAppID H MemoryStore appID (as_providers s)),
      port_secret = (\<lambda>ref s. secret ref),
      port_upstream = (\<lambda>request s. (Do request, s\<lparr>as_sent := as_sent s @ [request]\<rparr>))\<rparr>"

lemma adapter_ports_upstream [simp]:
  "port_upstream (adapter_ports H secret Do) request s = (Do request, s\<lparr>as_sent := as_sent s @ [request]\<rparr>)"
  by (simp add: adapter_ports_def)

lemma admitted_live:
  assumes "admitted parse url_ok P (adapter_ports H secret Do) cfg requestID s req up"
    and "holds_catalog H c (contents (as_providers s))"
  shows "\<exists>provider \<in> ran (Providers c). Provider_Status provider = StatusActive \<and> Provider_Kind provider = pr_kind P \<and>
     Provider_ID provider = IRRoute_ProviderID (Req_Route req) \<and> Provider_AdapterAppID provider = Cfg_AppID (AC_Runtime cfg)"
  using assms ResolveProvider_iff [OF assms(2)] by (fastforce simp: admitted_def adapter_ports_def)

text \<open>
  A service that keeps its credential, stated as noninterference. The service is a function of the secret
  store and of the provider. Without a usable credential (one that can be read and is not blank) no
  request makes it send anything. With one, what a request leads to is decided before the credential is
  looked at: either the same refusal for every credential and provider, or a \<^verbatim>\<open>POST\<close> to one of the given
  URLs, whose URL, body and headers are the same for every credential but for one header, which is the
  given function of the credential; the caller then gets a function of the provider's answer.
\<close>

definition usable_secret :: "SecretRef \<Rightarrow> (SecretRef \<Rightarrow> string result) \<Rightarrow> string \<Rightarrow> bool" where
  "usable_secret ref secret apiKey \<longleftrightarrow> secret ref = Inr apiKey \<and> TrimSpace apiKey \<noteq> ''''"

definition keeps_credential ::
  "((SecretRef \<Rightarrow> string result) \<Rightarrow> (DaprRequest \<Rightarrow> DaprResponse result) \<Rightarrow> HTTPRequest \<Rightarrow> adapter_state \<Rightarrow> HTTPResponse \<times> adapter_state) \<Rightarrow>
     SecretRef \<Rightarrow> string set \<Rightarrow> (string \<Rightarrow> string \<times> string) \<Rightarrow> bool" where
  "keeps_credential service ref urls header \<longleftrightarrow> (\<forall>r s.
     (\<forall>secret Do. (\<nexists>apiKey. usable_secret ref secret apiKey) \<longrightarrow> snd (service secret Do r s) = s) \<and>
     ((\<exists>refused. \<forall>secret Do apiKey. usable_secret ref secret apiKey \<longrightarrow> service secret Do r s = (refused, s)) \<or>
      (\<exists>url before after payload relay. url \<in> urls \<and> (\<forall>apiKey. fst (header apiKey) \<notin> fst ` set (before @ after)) \<and>
        (\<forall>secret Do apiKey. usable_secret ref secret apiKey \<longrightarrow>
          (let up = \<lparr>DR_Method = ''POST'', DR_URL = url, DR_Header = before @ header apiKey # after, DR_Body = Some payload\<rparr>
           in service secret Do r s = (relay (Do up), s\<lparr>as_sent := as_sent s @ [up]\<rparr>))))))"

lemma middleware_cong:
  "f (request_id random r) r w = g (request_id random r) r w \<Longrightarrow> HTTPMiddleware random f r w = HTTPMiddleware random g r w"
  by (simp add: HTTPMiddleware_def request_id_def Let_def)

lemma adapter_handler_cong:
  assumes "HR_Method r = ''POST'' \<Longrightarrow> HR_Segments r = [''v1'', ''generate''] \<Longrightarrow> sidecar_only cfg r \<Longrightarrow>
      adapter_generate F parse url_ok P ports cfg (request_id random r) r w = adapter_generate F parse url_ok P ports' cfg (request_id random r) r w"
  shows "AdapterHTTPHandler F parse url_ok P ports cfg random r w = AdapterHTTPHandler F parse url_ok P ports' cfg random r w"
proof -
  have "adapter_internal cfg (adapter_generate F parse url_ok P ports cfg) (request_id random r) r w =
      adapter_internal cfg (adapter_generate F parse url_ok P ports' cfg) (request_id random r) r w"
    if "HR_Method r = ''POST''" "HR_Segments r = [''v1'', ''generate'']"
    using assms [OF that] by (cases "sidecar_only cfg r") (auto simp: adapter_internal_granted adapter_internal_def sidecar_only_def SecureEqual_iff)
  then show ?thesis unfolding AdapterHTTPHandler_def by (intro middleware_cong) (auto simp: adapter_routes)
qed

lemma accept_refusal_uniform:
  assumes "usable_secret (Cfg_SecretRef (AC_Runtime cfg)) secret k" "usable_secret (Cfg_SecretRef (AC_Runtime cfg)) secret' k'"
  shows "accept_request F parse url_ok P (adapter_ports H secret Do) cfg requestID r s = Inl resp \<longleftrightarrow>
    accept_request F parse url_ok P (adapter_ports H secret' Do') cfg requestID r s = Inl resp"
  using assms by (simp add: accept_request_def Let_def rbind_Inl_iff adapter_ports_def usable_secret_def or_answer_def)

lemma adapter_refusal_uniform:
  assumes u: "usable_secret (Cfg_SecretRef (AC_Runtime cfg)) secret k" "usable_secret (Cfg_SecretRef (AC_Runtime cfg)) secret' k'"
    and no: "\<nexists>req up. forwards F parse url_ok P (adapter_ports H secret Do) cfg random r s req up"
  shows "AdapterHTTPHandler F parse url_ok P (adapter_ports H secret' Do') cfg random r s =
    AdapterHTTPHandler F parse url_ok P (adapter_ports H secret Do) cfg random r s"
proof (rule adapter_handler_cong)
  assume "HR_Method r = ''POST''" "HR_Segments r = [''v1'', ''generate'']" "sidecar_only cfg r"
  with no have "\<nexists>req up. accept_request F parse url_ok P (adapter_ports H secret Do) cfg (request_id random r) r s = Inr (req, up)"
    by (simp add: forwards_def accept_iff)
  then obtain resp where refused: "accept_request F parse url_ok P (adapter_ports H secret Do) cfg (request_id random r) r s = Inl resp"
    by (metis old.sum.exhaust surj_pair)
  with accept_refusal_uniform [OF u] have "accept_request F parse url_ok P (adapter_ports H secret' Do') cfg (request_id random r) r s = Inl resp"
    by blast
  with refused show "adapter_generate F parse url_ok P (adapter_ports H secret' Do') cfg (request_id random r) r s =
      adapter_generate F parse url_ok P (adapter_ports H secret Do) cfg (request_id random r) r s"
    by (simp add: adapter_generate_def)
qed

lemma forwards_uniform:
  assumes "forwards F parse url_ok P (adapter_ports H secret Do) cfg random r s req up"
  obtains endpoint payload where "pr_endpoint P req = Inr endpoint"
    "\<And>secret' Do' k. usable_secret (Cfg_SecretRef (AC_Runtime cfg)) secret' k \<Longrightarrow>
      forwards F parse url_ok P (adapter_ports H secret' Do') cfg random r s req (upstream_request P (request_id random r) k endpoint payload)"
  using assms by (auto simp: forwards_def admitted_def adapter_ports_def usable_secret_def)

lemma adapter_keeps_credential:
  assumes headers: "\<And>apiKey. pr_headers P apiKey = header apiKey # others"
    and once: "\<And>apiKey. fst (header apiKey) \<notin> {''Content-Type'', ''Accept'', pr_trace P} \<union> fst ` set others"
    and urls: "\<And>req endpoint. pr_endpoint P req = Inr endpoint \<Longrightarrow> endpoint \<in> urls"
  shows "keeps_credential (\<lambda>secret Do. AdapterHTTPHandler F parse url_ok P (adapter_ports H secret Do) cfg random) (Cfg_SecretRef (AC_Runtime cfg)) urls header"
    (is "keeps_credential ?service ?ref urls header")
  unfolding keeps_credential_def
proof (intro allI conjI impI)
  fix r s secret Do
  assume "\<nexists>apiKey. usable_secret ?ref secret apiKey"
  then have "\<nexists>req up. forwards F parse url_ok P (adapter_ports H secret Do) cfg random r s req up"
    by (auto simp: forwards_def admitted_def adapter_ports_def usable_secret_def)
  from adapter_refuses [OF this] show "snd (?service secret Do r s) = s" by auto
next
  fix r s
  let ?some = "\<lambda>_. Inr ''x''" and ?Do = "\<lambda>_. Inl ErrNotFound"
  have some: "usable_secret ?ref ?some ''x''" unfolding usable_secret_def by code_simp
  show "(\<exists>refused. \<forall>secret Do apiKey. usable_secret ?ref secret apiKey \<longrightarrow> ?service secret Do r s = (refused, s)) \<or>
      (\<exists>url before after payload relay. url \<in> urls \<and> (\<forall>apiKey. fst (header apiKey) \<notin> fst ` set (before @ after)) \<and>
        (\<forall>secret Do apiKey. usable_secret ?ref secret apiKey \<longrightarrow>
          (let up = \<lparr>DR_Method = ''POST'', DR_URL = url, DR_Header = before @ header apiKey # after, DR_Body = Some payload\<rparr>
           in ?service secret Do r s = (relay (Do up), s\<lparr>as_sent := as_sent s @ [up]\<rparr>))))" (is "?refused \<or> ?sent")
  proof (cases "\<exists>req up. forwards F parse url_ok P (adapter_ports H ?some ?Do) cfg random r s req up")
    case False
    then obtain refused where "?service ?some ?Do r s = (refused, s)" using adapter_refuses [of F parse url_ok P] by metis
    with adapter_refusal_uniform [OF some _ False] have ?refused by metis
    then show ?thesis ..
  next
    case True
    then obtain req endpoint payload where e: "pr_endpoint P req = Inr endpoint"
      and f: "\<And>secret Do k. usable_secret ?ref secret k \<Longrightarrow>
        forwards F parse url_ok P (adapter_ports H secret Do) cfg random r s req (upstream_request P (request_id random r) k endpoint payload)"
      by (metis forwards_uniform)
    let ?rid = "request_id random r" and ?json = "''application/json''"
    let ?before = "[(''Content-Type'', ?json), (''Accept'', ?json)]"
      and ?after = "others @ (if ?rid \<noteq> '''' then [(pr_trace P, ?rid)] else [])"
      and ?relay = "\<lambda>answer. (relay_answer P ?rid req answer)\<lparr>Resp_Header := (''X-Request-Id'', ?rid) # Resp_Header (relay_answer P ?rid req answer)\<rparr>"
    have up: "upstream_request P ?rid k endpoint payload =
        \<lparr>DR_Method = ''POST'', DR_URL = endpoint, DR_Header = ?before @ header k # ?after, DR_Body = Some payload\<rparr>" for k
      by (simp add: upstream_request_def headers)
    have other: "fst (header k) \<notin> fst ` set (?before @ ?after)" for k using once [of k] by auto
    have run: "?service secret Do r s = (?relay (Do (upstream_request P ?rid k endpoint payload)),
        s\<lparr>as_sent := as_sent s @ [upstream_request P ?rid k endpoint payload]\<rparr>)" if "usable_secret ?ref secret k" for secret Do k
      by (rule adapter_forwards [OF f [OF that] adapter_ports_upstream])
    have ?sent unfolding Let_def
      by (intro exI [of _ endpoint] exI [of _ ?before] exI [of _ ?after] exI [of _ payload] exI [of _ ?relay] conjI allI impI
          urls [OF e] other run [unfolded up])
    then show ?thesis ..
  qed
qed

definition gemini_endpoints :: "URLText \<Rightarrow> Config \<Rightarrow> string set" where
  "gemini_endpoints U config =
     {trim_slashes (ut_string U parsed) @ ''/'' @ PathEscape (Cfg_APIVersion config) @ ''/models/'' @ segment @ '':generateContent'' |parsed segment.
        ut_parse U (Cfg_BaseURL config) = Some parsed \<and> URL_Host parsed \<noteq> '''' \<and> set segment \<inter> set ''/?#'' = {}}"

lemma gemini_endpoint: "providerGenerateContentURL U config model = Inr endpoint \<Longrightarrow> endpoint \<in> gemini_endpoints U config"
  using PathEscape_segment [of "TrimPrefix (TrimSpace model) ''models/''"]
  by (auto simp: providerGenerateContentURL_def gemini_endpoints_def Let_def fail_if_def split: option.splits if_splits)


section \<open>Properties\<close>

text \<open>
  C14: What an adapter service answers. A \<^verbatim>\<open>POST /v1/generate\<close> that carries the sidecar's token and a well-formed
  request, while the adapter's provider resolves, is of the adapter's kind and is the addressed one, while
  the credential can be read and is not blank, and when the protocol can express the request, makes exactly
  one call to the provider and answers what \<open>relay_answer\<close> makes of the provider's answer. Every other
  request leaves the provider alone and is answered with a client or server error, or is a health check.
\<close>

theorem adapter_exact:
  "(\<forall>req up answer w'. forwards F parse url_ok P ports cfg random r w req up \<and> port_upstream ports up w = (answer, w') \<longrightarrow>
      (\<exists>resp. AdapterHTTPHandler F parse url_ok P ports cfg random r w = (resp, w') \<and>
         Resp_Status resp = Resp_Status (relay_answer P (request_id random r) req answer) \<and>
         Resp_Body resp = Resp_Body (relay_answer P (request_id random r) req answer)))
    \<and> ((\<nexists>req up. forwards F parse url_ok P ports cfg random r w req up) \<longrightarrow>
      (\<exists>resp. AdapterHTTPHandler F parse url_ok P ports cfg random r w = (resp, w) \<and>
         Resp_Status resp \<in> {200, 400, 401, 404, 405, 422, 500, 502} \<and>
         (Resp_Status resp = 200 \<longrightarrow> HR_Segments r \<in> {[''livez''], [''readyz'']})))"
proof (intro conjI allI impI)
  fix req up answer w'
  assume "forwards F parse url_ok P ports cfg random r w req up \<and> port_upstream ports up w = (answer, w')"
  with adapter_forwards [of F parse url_ok P ports cfg random r w req up answer w']
  show "\<exists>resp. AdapterHTTPHandler F parse url_ok P ports cfg random r w = (resp, w') \<and>
      Resp_Status resp = Resp_Status (relay_answer P (request_id random r) req answer) \<and>
      Resp_Body resp = Resp_Body (relay_answer P (request_id random r) req answer)" by simp
qed (rule adapter_refuses)

text \<open>
  C7: No provider is called without authority. When a request to an adapter service leads to a call to the
  provider, the request carried the sidecar's token (where one is configured); the provider store holds an
  active provider of the adapter's kind, registered for this adapter and addressed by the request; the
  credential is the configured secret and is not blank; and the one request sent goes to the configured
  endpoint with that credential and the translation of a well-formed request.
\<close>

theorem adapter_call_authorized:
  assumes C: "holds_catalog H c (contents (as_providers s))"
    and run: "AdapterHTTPHandler F parse url_ok P (adapter_ports H secret Do) cfg random r s = (resp, s')"
    and called: "as_sent s' \<noteq> as_sent s"
  shows "\<exists>provider \<in> ran (Providers c). \<exists>req apiKey m endpoint.
      sidecar_only cfg r \<and> Provider_Status provider = StatusActive \<and> Provider_Kind provider = pr_kind P \<and>
      Provider_AdapterAppID provider = Cfg_AppID (AC_Runtime cfg) \<and> IRRoute_ProviderID (Req_Route req) = Provider_ID provider \<and>
      valid_request parse req \<and> secret (Cfg_SecretRef (AC_Runtime cfg)) = Inr apiKey \<and> TrimSpace apiKey \<noteq> '''' \<and>
      pr_translate P req = Inr m \<and> pr_endpoint P req = Inr endpoint \<and>
      as_sent s' = as_sent s @ [upstream_request P (request_id random r) apiKey endpoint (json_of (pr_request P) m)]"
proof -
  from called run adapter_refuses [of F parse url_ok P "adapter_ports H secret Do" cfg random r s] obtain req up
    where f: "forwards F parse url_ok P (adapter_ports H secret Do) cfg random r s req up" by fastforce
  from adapter_forwards [OF f adapter_ports_upstream] run have sent: "as_sent s' = as_sent s @ [up]" by auto
  from f have a: "sidecar_only cfg r" "admitted parse url_ok P (adapter_ports H secret Do) cfg (request_id random r) s req up"
    by (simp_all add: forwards_def)
  from admitted_live [OF a(2) C] a sent show ?thesis by (auto simp: admitted_def adapter_ports_def intro!: bexI)
qed


text \<open>
  C8: An adapter gives its credential to its configured provider only. Without a usable credential no
  request makes an adapter service send anything. With one, a request leads to the same refusal whatever
  the credential is, or to one \<^verbatim>\<open>POST\<close> to the endpoint of its protocol under the configured base URL and API
  version. Its URL, its body and every other header do not depend on the credential; the protocol's
  credential header, which occurs once, holds it. What the caller gets depends on the credential through
  the provider's answer only. The Gemini endpoint names the model in its path: there the model is one
  path segment, so that a request cannot choose another path, query or fragment.
\<close>

theorem credential_stays_with_provider:
  "keeps_credential (\<lambda>secret Do. anthropic_adapter F parse url_ok raw_text C1 D1 (adapter_ports H secret Do) cfg random) (Cfg_SecretRef (AC_Runtime cfg))
      {Cfg_BaseURL (AC_Runtime cfg) @ ''/v1/messages''} (\<lambda>apiKey. (''X-Api-Key'', apiKey))
   \<and> keeps_credential (\<lambda>secret Do. chat_adapter F parse url_ok T C2 D2 (adapter_ports H secret Do) cfg random) (Cfg_SecretRef (AC_Runtime cfg))
      {Cfg_BaseURL (AC_Runtime cfg) @ ''/'' @ Cfg_APIVersion (AC_Runtime cfg) @ ''/chat/completions''} (\<lambda>apiKey. (''Authorization'', ''Bearer '' @ apiKey))
   \<and> keeps_credential (\<lambda>secret Do. responses_adapter F parse url_ok T C3 D3 (adapter_ports H secret Do) cfg random) (Cfg_SecretRef (AC_Runtime cfg))
      {Cfg_BaseURL (AC_Runtime cfg) @ ''/'' @ Cfg_APIVersion (AC_Runtime cfg) @ ''/responses''} (\<lambda>apiKey. (''Authorization'', ''Bearer '' @ apiKey))
   \<and> keeps_credential (\<lambda>secret Do. gemini_adapter F parse url_ok lower U C4 D4 (adapter_ports H secret Do) cfg random) (Cfg_SecretRef (AC_Runtime cfg))
      (gemini_endpoints U (AC_Runtime cfg)) (\<lambda>apiKey. (''X-Goog-Api-Key'', apiKey))"
  unfolding anthropic_adapter_def chat_adapter_def responses_adapter_def gemini_adapter_def
  by (intro conjI adapter_keeps_credential,
      simp_all add: anthropic_protocol_def chat_protocol_def responses_protocol_def gemini_protocol_def gemini_endpoint) simp_all


text \<open>The adapter of the provider \<open>umbra\<close>, asked through its sidecar.\<close>

definition umbra_adapter :: AdapterConfig where
  "umbra_adapter = \<lparr>AC_Runtime = sample_config, AC_MaxBody = 0, AC_AppToken = ''t'', AC_DefaultMaxOutputTokens = 0, AC_MaxOutputTokens = 0\<rparr>"

definition umbra_urls :: URLText where
  "umbra_urls = \<lparr>ut_parse = sample_parse, ut_string = (\<lambda>_. ''https://api.umbra.example'')\<rparr>"

definition umbra_protocol :: "(GenerateContentRequest, GenerateContentResponse) Protocol" where
  "umbra_protocol = gemini_protocol id umbra_urls (\<lambda>_. None) (named_codec GCR_CachedContent gemini_hello)
     (named_codec GCS_ModelVersion lark_answer) umbra_adapter"

definition invocation :: "string \<Rightarrow> HTTPRequest" where
  "invocation token = \<lparr>HR_Method = ''POST'', HR_Segments = [''v1'', ''generate''],
     HR_Header = (\<lambda>name. if name = ''Dapr-Api-Token'' then [token] else if name = ''X-Request-Id'' then [''req_1''] else []),
     HR_Body = Some \<lparr>documents = [(0, 1, json_of_Request whole_numbers (projr (hello lark_route ''req_1'')))], malformed = None\<rparr>\<rparr>"

definition busy :: "DaprRequest \<Rightarrow> DaprResponse result" where
  "busy _ = Inr \<lparr>DS_Status = 429, DS_ETag = '''', DS_RequestID = '''', DS_Text = '''', DS_JSON = \<lparr>documents = [], malformed = None\<rparr>, DS_Broken = None\<rparr>"

abbreviation umbra_service :: "HTTPRequest \<Rightarrow> adapter_state \<Rightarrow> HTTPResponse \<times> adapter_state" where
  "umbra_service \<equiv> AdapterHTTPHandler whole_numbers (\<lambda>_. None) (\<lambda>_. True) umbra_protocol (adapter_ports (\<lambda>x. x) (\<lambda>_. Inr ''key'') busy) umbra_adapter (Inr [])"

lemma umbra_store: obtains s :: adapter_state where "holds_catalog (\<lambda>x. x) demo_catalog (contents (as_providers s))" "as_sent s = []"
proof -
  obtain w where "shows_as w [''usr_01'' \<mapsto> eve] demo_catalog demo_ring" by (rule demo_key)
  then have "holds_catalog (\<lambda>x. x) demo_catalog (contents (w_providers w))" by (simp add: shows_as_def)
  with that [of "\<lparr>as_providers = w_providers w, as_sent = []\<rparr>"] show thesis by simp
qed

lemma hello_read: "DecodeJSON (decode_Request whole_numbers) 0 True (invocation token) = Inr (projr (hello lark_route ''req_1''))"
proof -
  have "carried_request whole_numbers (projr (hello lark_route ''req_1''))" by (simp add: carried_request_def hello_def int64_def)
  with request_json hello_valid [of "\<lambda>_. None"] show ?thesis by (simp add: DecodeJSON_def invocation_def request_valid_iff fail_if_def)
qed

lemma umbra_forwards:
  assumes "holds_catalog (\<lambda>x. x) demo_catalog (contents (as_providers s))"
  shows "\<exists>up. forwards whole_numbers (\<lambda>_. None) (\<lambda>_. True) umbra_protocol (adapter_ports (\<lambda>x. x) (\<lambda>_. Inr ''key'') busy) umbra_adapter (Inr [])
     (invocation ''t'') s (projr (hello lark_route ''req_1'')) up"
proof -
  have p: "ResolveProviderByAdapterAppID (\<lambda>x. x) MemoryStore ''umbra-adapter'' (as_providers s) = Inr umbra"
    using ResolveProvider_iff [OF assms, of "''umbra-adapter''" umbra] by (simp add: demo_catalog_def umbra_def)
  have "for_gemini (projr (hello lark_route ''req_1'')) 0 0"
    by (simp add: hello_def lark_route_def for_gemini_def expressible_def sent_limit_def)
  with ToProviderRequest_accepts [of id "\<lambda>_. None" "projr (hello lark_route ''req_1'')" 0 0] hello_valid [of "\<lambda>_. None"]
  obtain g where g: "ToProviderRequest id (\<lambda>_. None) (projr (hello lark_route ''req_1'')) 0 0 = Inr g" by (auto simp: request_valid_iff)
  have "TrimSpace ''lark'' = ''lark''" "TrimSpace ''key'' = ''key''" "TrimPrefix ''lark'' ''models/'' = ''lark''" by code_simp+
  then have e: "providerGenerateContentURL umbra_urls sample_config ''lark'' \<noteq> Inl e" "TrimSpace ''key'' \<noteq> []" for e
    by (simp_all add: providerGenerateContentURL_def umbra_urls_def sample_parse_def sample_config_def fail_if_def)
  then obtain endpoint where "providerGenerateContentURL umbra_urls sample_config ''lark'' = Inr endpoint"
    by (cases "providerGenerateContentURL umbra_urls sample_config ''lark''") auto
  with p g e(2) hello_valid [of "\<lambda>_. None"] hello_read [of "''t''"] show ?thesis
    by (simp add: forwards_def admitted_def sidecar_only_def umbra_protocol_def gemini_protocol_def umbra_adapter_def invocation_def Header_Get_def
        adapter_ports_def sample_config_def named_codec_def request_valid_iff)
      (simp add: umbra_def hello_def lark_route_def)
qed

theorem adapter_exact_witness:
  "\<exists>s s' resp. umbra_service (invocation ''t'') s = (resp, s') \<and> Resp_Status resp = 429 \<and> length (as_sent s') = 1
     \<and> (\<exists>resp. umbra_service (invocation ''x'') s = (resp, s) \<and> Resp_Status resp \<noteq> 200)"
proof -
  obtain s :: adapter_state where s: "holds_catalog (\<lambda>x. x) demo_catalog (contents (as_providers s))" "as_sent s = []" by (rule umbra_store)
  let ?ports = "adapter_ports (\<lambda>x. x) (\<lambda>_. Inr ''key'') busy"
  note exact = adapter_exact [of whole_numbers "\<lambda>_. None" "\<lambda>_. True" umbra_protocol ?ports umbra_adapter "Inr []" _ s]
  from umbra_forwards [OF s(1)] obtain up where "forwards whole_numbers (\<lambda>_. None) (\<lambda>_. True) umbra_protocol ?ports umbra_adapter (Inr [])
     (invocation ''t'') s (projr (hello lark_route ''req_1'')) up" by blast
  with exact obtain resp where 1: "umbra_service (invocation ''t'') s = (resp, s\<lparr>as_sent := as_sent s @ [up]\<rparr>)"
    "Resp_Status resp = Resp_Status (relay_answer umbra_protocol (request_id (Inr []) (invocation ''t'')) (projr (hello lark_route ''req_1'')) (busy up))"
    by (metis adapter_ports_upstream)
  moreover have "Resp_Status resp = 429" unfolding 1(2) by (simp add: relay_answer_def busy_def)
  moreover have "\<nexists>req up. forwards whole_numbers (\<lambda>_. None) (\<lambda>_. True) umbra_protocol ?ports umbra_adapter (Inr []) (invocation ''x'') s req up"
    by (simp add: forwards_def sidecar_only_def umbra_adapter_def invocation_def Header_Get_def)
  with exact obtain resp' where "umbra_service (invocation ''x'') s = (resp', s)" "Resp_Status resp' = 200 \<longrightarrow> HR_Segments (invocation ''x'') \<in> {[''livez''], [''readyz'']}"
    by metis
  moreover have "HR_Segments (invocation ''x'') \<notin> {[''livez''], [''readyz'']}" by (simp add: invocation_def)
  ultimately show ?thesis using s(2)
    by (intro exI [of _ s] exI [of _ "s\<lparr>as_sent := as_sent s @ [up]\<rparr>"] exI [of _ resp]) auto
qed

theorem adapter_call_authorized_witness:
  "\<exists>s s' resp. umbra_service (invocation ''t'') s = (resp, s') \<and> as_sent s' \<noteq> as_sent s
     \<and> (\<exists>provider \<in> ran (Providers demo_catalog). Provider_Status provider = StatusActive \<and> Provider_Kind provider = ProviderKindGemini)"
proof -
  obtain s :: adapter_state where s: "holds_catalog (\<lambda>x. x) demo_catalog (contents (as_providers s))" "as_sent s = []" by (rule umbra_store)
  from umbra_forwards [OF s(1)] obtain up where "forwards whole_numbers (\<lambda>_. None) (\<lambda>_. True) umbra_protocol
     (adapter_ports (\<lambda>x. x) (\<lambda>_. Inr ''key'') busy) umbra_adapter (Inr []) (invocation ''t'') s (projr (hello lark_route ''req_1'')) up" by blast
  from adapter_forwards [OF this adapter_ports_upstream] obtain resp s'
    where run: "umbra_service (invocation ''t'') s = (resp, s')" "as_sent s' \<noteq> as_sent s" by simp
  have "pr_kind umbra_protocol = ProviderKindGemini" by (simp add: umbra_protocol_def gemini_protocol_def)
  with adapter_call_authorized [OF s(1) run] run show ?thesis by auto
qed

theorem credential_stays_with_provider_witness:
  "\<exists>s url before after payload.
     as_sent (snd (umbra_service (invocation ''t'') s)) = as_sent s @
       [\<lparr>DR_Method = ''POST'', DR_URL = url, DR_Header = before @ (''X-Goog-Api-Key'', ''key'') # after, DR_Body = Some payload\<rparr>]
     \<and> as_sent (snd (AdapterHTTPHandler whole_numbers (\<lambda>_. None) (\<lambda>_. True) umbra_protocol (adapter_ports (\<lambda>x. x) (\<lambda>_. Inr ''other'') busy)
         umbra_adapter (Inr []) (invocation ''t'') s)) = as_sent s @
       [\<lparr>DR_Method = ''POST'', DR_URL = url, DR_Header = before @ (''X-Goog-Api-Key'', ''other'') # after, DR_Body = Some payload\<rparr>]"
proof -
  obtain s :: adapter_state where s: "holds_catalog (\<lambda>x. x) demo_catalog (contents (as_providers s))" by (rule umbra_store)
  from umbra_forwards [OF s] obtain up where "forwards whole_numbers (\<lambda>_. None) (\<lambda>_. True) umbra_protocol
     (adapter_ports (\<lambda>x. x) (\<lambda>_. Inr ''key'') busy) umbra_adapter (Inr []) (invocation ''t'') s (projr (hello lark_route ''req_1'')) up" by blast
  from adapter_forwards [OF this adapter_ports_upstream] have sent: "snd (umbra_service (invocation ''t'') s) \<noteq> s"
    by (cases s) simp
  have u: "usable_secret ref (\<lambda>_. Inr ''key'') ''key''" "usable_secret ref (\<lambda>_. Inr ''other'') ''other''" for ref
    unfolding usable_secret_def by code_simp+
  have "keeps_credential (\<lambda>secret Do. AdapterHTTPHandler whole_numbers (\<lambda>_. None) (\<lambda>_. True) umbra_protocol (adapter_ports (\<lambda>x. x) secret Do)
      umbra_adapter (Inr [])) (Cfg_SecretRef (AC_Runtime umbra_adapter)) (gemini_endpoints umbra_urls (AC_Runtime umbra_adapter)) (\<lambda>apiKey. (''X-Goog-Api-Key'', apiKey))"
    unfolding umbra_protocol_def by (rule credential_stays_with_provider [THEN conjunct2, THEN conjunct2, THEN conjunct2, unfolded gemini_adapter_def])
  from this [unfolded keeps_credential_def, rule_format, THEN conjunct2, of "invocation ''t''" s] show ?thesis
  proof (elim disjE exE conjE)
    fix refused
    assume "\<forall>secret Do apiKey. usable_secret (Cfg_SecretRef (AC_Runtime umbra_adapter)) secret apiKey \<longrightarrow>
      AdapterHTTPHandler whole_numbers (\<lambda>_. None) (\<lambda>_. True) umbra_protocol (adapter_ports (\<lambda>x. x) secret Do) umbra_adapter (Inr []) (invocation ''t'') s = (refused, s)"
    with u(1) sent have False by (metis snd_conv)
    then show ?thesis ..
  next
    fix url before after payload relay
    assume "\<forall>secret Do apiKey. usable_secret (Cfg_SecretRef (AC_Runtime umbra_adapter)) secret apiKey \<longrightarrow>
      (let up = \<lparr>DR_Method = ''POST'', DR_URL = url, DR_Header = before @ (''X-Goog-Api-Key'', apiKey) # after, DR_Body = Some payload\<rparr>
       in AdapterHTTPHandler whole_numbers (\<lambda>_. None) (\<lambda>_. True) umbra_protocol (adapter_ports (\<lambda>x. x) secret Do) umbra_adapter (Inr []) (invocation ''t'') s =
         (relay (Do up), s\<lparr>as_sent := as_sent s @ [up]\<rparr>))"
    note this [rule_format, OF u(1), of busy] this [rule_format, OF u(2), of busy]
    then show ?thesis
      by (intro exI [of _ s] exI [of _ url] exI [of _ before] exI [of _ after] exI [of _ payload]) (simp add: Let_def)
  qed
qed

end
