(* ===== verification/End_To_End.thy ===== *)
theory End_To_End
  imports Gateway_HTTP Adapter_HTTP
begin

text \<open>
  A client's request through the whole data plane: the gateway's HTTP service, its dispatcher on the control
  planes' stores, the JSON form of the intermediate representation, the Dapr client (\<^verbatim>\<open>daprhttp/client.go\<close>),
  the adapter's HTTP service and the call to the provider, composed as the entry points of the gateways and
  adapters (\<^verbatim>\<open>cmd\<close>) compose them.

  The sidecar is not part of the program. \<open>service_invocation\<close> states what Dapr documents of service
  invocation, for one app: the app gets the request with its API token, and the caller gets the app's answer.
\<close>

section \<open>The deployment\<close>

record deployment =
  dep_planes :: planes
  dep_sent :: "DaprRequest list"     \<comment> \<open>the requests made to providers so far\<close>

definition deployed_ports ::
  "(string \<Rightarrow> string) \<Rightarrow> (SecretRef \<Rightarrow> string result) \<Rightarrow> (DaprRequest \<Rightarrow> DaprResponse result) \<Rightarrow> deployment Ports" where
  "deployed_ports H secret Do =
     \<lparr>port_provider = (\<lambda>appID s. ResolveProviderByAdapterAppID H MemoryStore appID (w_providers (dep_planes s))),
      port_secret = (\<lambda>ref s. secret ref),
      port_upstream = (\<lambda>request s. (Do request, s\<lparr>dep_sent := dep_sent s @ [request]\<rparr>))\<rparr>"

text \<open>The response variable keeps its zero value when the adapter answers without a body.\<close>

definition deployed_dispatcher ::
  "FloatText \<Rightarrow> (string \<Rightarrow> string) \<Rightarrow> time \<Rightarrow> (string \<Rightarrow> bool) \<Rightarrow> deployment transport \<Rightarrow> Client \<Rightarrow> deployment Dispatcher" where
  "deployed_dispatcher F H now url_ok Sidecar client =
     \<lparr>dp_Authorize = (\<lambda>token model s.
        (Authorize (memory_runtime H) now token model (w_registry (dep_planes s)) (w_providers (dep_planes s)), s)),
      dp_ResolveRoute = (\<lambda>model s. (ResolveRoute (memory_runtime H) model (w_registry (dep_planes s)) (w_providers (dep_planes s)), s)),
      dp_InvokeJSON = (\<lambda>app path request s.
        case InvokeJSON url_ok Sidecar client app path (Inr (json_of_Request F request)) (Some (decode_Response False)) s of
          (res, s') \<Rightarrow> (map_sum id (\<lambda>x. case x of None \<Rightarrow> no_response | Some response \<Rightarrow> response) res, s'))\<rparr>"

definition planes_hold :: "(string \<Rightarrow> string) \<Rightarrow> planes \<Rightarrow> keyring \<Rightarrow> catalog \<Rightarrow> bool" where
  "planes_hold H w a c \<longleftrightarrow> holds_keyring H a (contents (w_registry w)) \<and> holds_catalog H c (contents (w_providers w))"

lemma deployed_answers:
  assumes "planes_hold H (dep_planes s) a c"
  shows "fst (dp_Authorize (deployed_dispatcher F H now url_ok Sidecar client) token model s) = Inr auth \<longleftrightarrow> authorized H a c now token model auth"
    and "fst (dp_ResolveRoute (deployed_dispatcher F H now url_ok Sidecar client) model s) = Inr route \<longleftrightarrow> routable H a c model route"
  using assms Authorize_iff ResolveRoute_iff by (simp_all add: planes_hold_def deployed_dispatcher_def)

interpretation deployed: runtime_contract "deployed_dispatcher F H now url_ok Sidecar client" "\<lambda>s. planes_hold H (dep_planes s) a c"
  "\<lambda>s. authorized H a c now" "\<lambda>s. routable H a c" parse
  for F H now url_ok Sidecar client a c parse
  by unfold_locales (simp_all add: deployed_answers, simp_all add: deployed_dispatcher_def)

section \<open>What service invocation documents\<close>

text \<open>\<open>size_of\<close> is the length of the text of a value.\<close>

definition invoke_url :: "string \<Rightarrow> string \<Rightarrow> string" where
  "invoke_url base app = base @ ''/v1.0/invoke/'' @ PathEscape app @ ''/method/v1/generate''"

definition service_invocation ::
  "'s transport \<Rightarrow> string \<Rightarrow> string \<Rightarrow> string \<Rightarrow> (json \<Rightarrow> nat) \<Rightarrow> (HTTPRequest \<Rightarrow> 's \<Rightarrow> HTTPResponse \<times> 's) \<Rightarrow> bool" where
  "service_invocation Sidecar base app token size_of service \<longleftrightarrow>
     (\<forall>request payload s. DR_Method request = ''POST'' \<and> DR_Body request = Some payload \<and>
        DR_URL request = invoke_url base app \<longrightarrow>
        (\<exists>r response. HR_Method r = ''POST'' \<and> HR_Segments r = [''v1'', ''generate''] \<and> Header_Get r ''Dapr-Api-Token'' = token \<and>
           HR_Body r = Some \<lparr>documents = [(0, size_of payload, payload)], malformed = None\<rparr> \<and>
           Sidecar request s = (Inr response, snd (service r s)) \<and> DS_Status response = Resp_Status (fst (service r s)) \<and>
           (\<forall>j. Resp_Body (fst (service r s)) = JSONBody j \<longrightarrow> DS_JSON response = \<lparr>documents = [(0, size_of j, j)], malformed = None\<rparr>)))"


section \<open>An adapter that serves an app\<close>

definition installed ::
  "FloatText \<Rightarrow> url_parser \<Rightarrow> (string \<Rightarrow> bool) \<Rightarrow> ('m, 'p) Protocol \<Rightarrow> (string \<Rightarrow> string) \<Rightarrow> (SecretRef \<Rightarrow> string result) \<Rightarrow>
     (DaprRequest \<Rightarrow> DaprResponse result) \<Rightarrow> AdapterConfig \<Rightarrow> nat list result \<Rightarrow> deployment transport \<Rightarrow> Client \<Rightarrow> (json \<Rightarrow> nat) \<Rightarrow> string \<Rightarrow> catalog \<Rightarrow> bool" where
  "installed F parse url_ok P H secret Do cfg random Sidecar client size_of app c \<longleftrightarrow>
     (\<exists>token. service_invocation Sidecar (Client_baseURL client) app token size_of
        (AdapterHTTPHandler F parse url_ok P (deployed_ports H secret Do) cfg random) \<and> (AC_AppToken cfg = '''' \<or> AC_AppToken cfg = token)) \<and>
     url_ok (invoke_url (Client_baseURL client) app) \<and> Cfg_AppID (AC_Runtime cfg) = app \<and>
     (\<forall>provider \<in> ran (Providers c). Provider_AdapterAppID provider = app \<longrightarrow> Provider_Kind provider = pr_kind P) \<and>
     (\<exists>apiKey. secret (Cfg_SecretRef (AC_Runtime cfg)) = Inr apiKey \<and> TrimSpace apiKey \<noteq> '''')"

text \<open>A request that fits the adapter: its JSON form is not too large, and the protocol can express it.\<close>

definition fits ::
  "FloatText \<Rightarrow> (string \<Rightarrow> bool) \<Rightarrow> ('m, 'p) Protocol \<Rightarrow> AdapterConfig \<Rightarrow> (json \<Rightarrow> nat) \<Rightarrow> IRRequest \<Rightarrow> 'm \<Rightarrow> string \<Rightarrow> bool" where
  "fits F url_ok P cfg size_of request m endpoint \<longleftrightarrow>
     carried_request F request \<and> (AC_MaxBody cfg = 0 \<or> size_of (json_of_Request F request) \<le> AC_MaxBody cfg) \<and>
     pr_limit P request = None \<and> pr_translate P request = Inr m \<and> marshalable (pr_request P) m \<and> pr_endpoint P request = Inr endpoint \<and> url_ok endpoint"

lemma reads_translates: "gateway_reads p W h requestID r (token, model, translate, answer) \<Longrightarrow> gateway_translates p (wt_text W) (ge_parse h) translate"
  by (cases p) auto

lemma translated_route:
  "gateway_translates p T parse translate \<Longrightarrow> translate route requestID = Inr request \<Longrightarrow>
     Req_Route request = \<lparr>IRRoute_ProviderID = Route_ProviderID route, IRRoute_UpstreamModel = Route_UpstreamModel route\<rparr>"
  by (cases p) (auto simp: gateway_translates.simps dest: chat.translation_routed responses.translation_routed anthropic.translation_routed
      gemini.translation_routed [of parse "(x, y)" for x y, simplified])

lemma body_read:
  assumes "valid_request parse request" "fits F url_ok P cfg size_of request m endpoint"
    and "HR_Body r = Some \<lparr>documents = [(0, size_of (json_of_Request F request), json_of_Request F request)], malformed = None\<rparr>"
  shows "DecodeJSON (decode_Request F) (AC_MaxBody cfg) True r = Inr request"
  using assms request_json [OF assms(1), of F] by (auto simp: DecodeJSON_def LimitReader_def fail_if_def fits_def Let_def)

lemma routable_provider:
  assumes "routable H a c model route"
  obtains provider where "provider \<in> ran (Providers c)" "Provider_Status provider = StatusActive" "Provider_AdapterAppID provider = Route_AdapterAppID route"
    "Providers c (Route_ProviderID route) = Some provider"
  using assms that unfolding routable_def by (metis Route.select_convs(3,5) ranI)

lemma adapter_reached:
  assumes hold: "planes_hold H (dep_planes s) a c"
    and inst: "installed F parse url_ok P H secret Do cfg random Sidecar client size_of app c"
    and fit: "fits F url_ok P cfg size_of request m endpoint" and valid: "valid_request parse request"
    and route: "routable H a c model route" "app = Route_AdapterAppID route" "IRRoute_ProviderID (Req_Route request) = Route_ProviderID route"
    and r: "HR_Method r = ''POST''" "HR_Segments r = [''v1'', ''generate'']" "AC_AppToken cfg = '''' \<or> AC_AppToken cfg = Header_Get r ''Dapr-Api-Token''"
      "HR_Body r = Some \<lparr>documents = [(0, size_of (json_of_Request F request), json_of_Request F request)], malformed = None\<rparr>"
  shows "\<exists>apiKey. forwards F parse url_ok P (deployed_ports H secret Do) cfg random r s request
     (upstream_request P (request_id random r) apiKey endpoint (json_of (pr_request P) m))"
proof -
  have c: "holds_catalog H c (contents (w_providers (dep_planes s)))" using hold by (simp add: planes_hold_def)
  obtain provider where p: "provider \<in> ran (Providers c)" "Provider_Status provider = StatusActive" "Provider_AdapterAppID provider = app"
    "Providers c (Route_ProviderID route) = Some provider" using routable_provider [OF route(1)] route(2) by metis
  have pid: "Provider_ID provider = Route_ProviderID route"
    using p(4) mem.providers.represents_id [OF holds_catalogD(1) [OF c, unfolded holds_providers_def]] by blast
  from inst have i: "Cfg_AppID (AC_Runtime cfg) = app" "Provider_Kind provider = pr_kind P" using p by (auto simp: installed_def)
  from inst obtain apiKey where k: "secret (Cfg_SecretRef (AC_Runtime cfg)) = Inr apiKey" "TrimSpace apiKey \<noteq> ''''" by (auto simp: installed_def)
  have found: "ResolveProviderByAdapterAppID H MemoryStore app (w_providers (dep_planes s)) = Inr provider"
    using ResolveProvider_iff [OF c, of app provider] p by simp
  have "admitted parse url_ok P (deployed_ports H secret Do) cfg (request_id random r) s request
      (upstream_request P (request_id random r) apiKey endpoint (json_of (pr_request P) m))"
    using found i k pid fit valid route(3) p(3) by (auto simp: admitted_def deployed_ports_def fits_def)
  with r body_read [OF valid fit r(4)] show ?thesis by (auto simp: forwards_def sidecar_only_def)
qed


section \<open>The call to the adapter\<close>

lemma deployed_upstream [simp]: "port_upstream (deployed_ports H secret Do) up s = (Do up, s\<lparr>dep_sent := dep_sent s @ [up]\<rparr>)"
  by (simp add: deployed_ports_def)

lemma invocation_answered:
  assumes "service_invocation Sidecar (Client_baseURL client) app token size_of service"
    and "url_ok (invoke_url (Client_baseURL client) app)"
  obtains r response where "HR_Method r = ''POST''" "HR_Segments r = [''v1'', ''generate'']" "Header_Get r ''Dapr-Api-Token'' = token"
    "HR_Body r = Some \<lparr>documents = [(0, size_of payload, payload)], malformed = None\<rparr>" "DS_Status response = Resp_Status (fst (service r s))"
    "\<forall>j. Resp_Body (fst (service r s)) = JSONBody j \<longrightarrow> DS_JSON response = \<lparr>documents = [(0, size_of j, j)], malformed = None\<rparr>"
    "InvokeJSON url_ok Sidecar client app ''/v1/generate'' (Inr payload) (Some dec) s =
       (if \<not> success (DS_Status response) then Inl (status_error response)
        else if DS_Status response = 204 then Inr None
        else map_sum id Some (wrapf ''decode response from Dapr app %q: %w'' [app] (decode_first dec (DS_JSON response))), snd (service r s))"
proof -
  let ?request = "\<lparr>DR_Method = ''POST'', DR_URL = invoke_url (Client_baseURL client) app,
    DR_Header = with_token client (header_set ''Content-Type'' ''application/json'' []), DR_Body = Some payload\<rparr>"
  have run: "Invoke url_ok Sidecar client app ''/v1/generate'' (Some payload) ''application/json'' s = Sidecar ?request s"
    using assms(2) by (simp add: Invoke_def InvokeMethod_def newRequest_def fail_if_def invoke_url_def)
  from assms(1) [unfolded service_invocation_def, rule_format, of ?request payload s] obtain r response where
    *: "HR_Method r = ''POST''" "HR_Segments r = [''v1'', ''generate'']" "Header_Get r ''Dapr-Api-Token'' = token"
    "HR_Body r = Some \<lparr>documents = [(0, size_of payload, payload)], malformed = None\<rparr>"
    "Sidecar ?request s = (Inr response, snd (service r s))" "DS_Status response = Resp_Status (fst (service r s))"
    "\<forall>j. Resp_Body (fst (service r s)) = JSONBody j \<longrightarrow> DS_JSON response = \<lparr>documents = [(0, size_of j, j)], malformed = None\<rparr>" by auto
  from that [OF *(1-4) *(6,7)] show thesis by (simp add: InvokeJSON_def run *(5))
qed

lemma adapter_answers:
  assumes hold: "planes_hold H (dep_planes s) a c"
    and inst: "installed F parse url_ok P H secret Do cfg random Sidecar client size_of app c"
    and fit: "fits F url_ok P cfg size_of request m endpoint" and valid: "valid_request parse request"
    and route: "routable H a c model route" "app = Route_AdapterAppID route" "IRRoute_ProviderID (Req_Route request) = Route_ProviderID route"
  obtains up requestID res where "DR_Method up = ''POST''" "DR_URL up = endpoint" "DR_Body up = Some (json_of (pr_request P) m)"
    "dp_InvokeJSON (deployed_dispatcher F H now url_ok Sidecar client) app ''/v1/generate'' request s = (res, s\<lparr>dep_sent := dep_sent s @ [up]\<rparr>)"
    "\<And>x. relay_answer P requestID request (Do up) = JSON 200 (json_of_Response x) \<Longrightarrow> valid_response parse x \<Longrightarrow> carried_response x \<Longrightarrow> res = Inr x"
    "Resp_Status (relay_answer P requestID request (Do up)) = 429 \<Longrightarrow> \<exists>body. res = Inl (HTTPError 429 body)"
proof -
  let ?service = "AdapterHTTPHandler F parse url_ok P (deployed_ports H secret Do) cfg random"
  from inst obtain token where i: "service_invocation Sidecar (Client_baseURL client) app token size_of ?service" "AC_AppToken cfg = '''' \<or> AC_AppToken cfg = token"
    "url_ok (invoke_url (Client_baseURL client) app)" by (auto simp: installed_def)
  obtain r response where r: "HR_Method r = ''POST''" "HR_Segments r = [''v1'', ''generate'']" "Header_Get r ''Dapr-Api-Token'' = token"
    "HR_Body r = Some \<lparr>documents = [(0, size_of (json_of_Request F request), json_of_Request F request)], malformed = None\<rparr>"
    "DS_Status response = Resp_Status (fst (?service r s))"
    "\<forall>j. Resp_Body (fst (?service r s)) = JSONBody j \<longrightarrow> DS_JSON response = \<lparr>documents = [(0, size_of j, j)], malformed = None\<rparr>"
    "InvokeJSON url_ok Sidecar client app ''/v1/generate'' (Inr (json_of_Request F request)) (Some (decode_Response False)) s =
       (if \<not> success (DS_Status response) then Inl (status_error response)
        else if DS_Status response = 204 then Inr None
        else map_sum id Some (wrapf ''decode response from Dapr app %q: %w'' [app] (decode_first (decode_Response False) (DS_JSON response))), snd (?service r s))"
    by (rule invocation_answered [where url_ok = url_ok and payload = "json_of_Request F request" and s = s and dec = "decode_Response False", OF i(1,3)])
  obtain apiKey where f: "forwards F parse url_ok P (deployed_ports H secret Do) cfg random r s request
     (upstream_request P (request_id random r) apiKey endpoint (json_of (pr_request P) m))"
    using adapter_reached [OF hold inst fit valid route r(1,2) _ r(4)] i(2) unfolding r(3) by blast
  define up where "up = upstream_request P (request_id random r) apiKey endpoint (json_of (pr_request P) m)"
  define relay where "relay = relay_answer P (request_id random r) request (Do up)"
  define res where "res = (if \<not> success (DS_Status response) then Inl (status_error response) else if DS_Status response = 204 then Inr no_response
    else wrapf ''decode response from Dapr app %q: %w'' [app] (decode_first (decode_Response False) (DS_JSON response)))"
  have "?service r s = (relay\<lparr>Resp_Header := (''X-Request-Id'', request_id random r) # Resp_Header relay\<rparr>, s\<lparr>dep_sent := dep_sent s @ [up]\<rparr>)"
    unfolding relay_def up_def by (rule adapter_forwards [OF f deployed_upstream])
  then have served: "Resp_Status (fst (?service r s)) = Resp_Status relay" "Resp_Body (fst (?service r s)) = Resp_Body relay"
    "snd (?service r s) = s\<lparr>dep_sent := dep_sent s @ [up]\<rparr>" by simp_all
  have call: "dp_InvokeJSON (deployed_dispatcher F H now url_ok Sidecar client) app ''/v1/generate'' request s = (res, s\<lparr>dep_sent := dep_sent s @ [up]\<rparr>)"
    using served(3) by (cases "decode_first (decode_Response False) (DS_JSON response)")
      (auto simp: deployed_dispatcher_def r(7) res_def)
  have ok: "res = Inr x" if "relay = JSON 200 (json_of_Response x)" "valid_response parse x" "carried_response x" for x
    using r(5,6) served(1,2) that response_json [OF that(2,3), of False] by (simp add: res_def success_def JSON_def decode_first_def)
  have busy: "\<exists>body. res = Inl (HTTPError 429 body)" if "Resp_Status relay = 429"
    using r(5) served(1) that by (simp add: res_def success_def status_error_def)
  have "DR_Method up = ''POST''" "DR_URL up = endpoint" "DR_Body up = Some (json_of (pr_request P) m)" by (simp_all add: up_def upstream_request_def)
  from that [OF this call] ok busy show thesis unfolding relay_def by blast
qed


section \<open>Properties\<close>

text \<open>The provider answers with a response that the adapter can represent.\<close>

definition represents_answer :: "('m, 'p) Protocol \<Rightarrow> IRRequest \<Rightarrow> DaprResponse result \<Rightarrow> IRResponse \<Rightarrow> bool" where
  "represents_answer P request answer internalResponse \<longleftrightarrow>
     (\<exists>response providerResponse. answer = Inr response \<and> DS_Broken response = None \<and> success (DS_Status response) \<and>
        Unmarshal_body (decode (pr_response P)) (LimitReader (20 * 2 ^ 20) (DS_JSON response)) = Inr providerResponse \<and>
        pr_back P providerResponse request = Inr internalResponse)"

lemma relay_represented: "represents_answer P request answer x \<Longrightarrow> relay_answer P requestID request answer = JSON 200 (json_of_Response x)"
  by (auto simp: represents_answer_def relay_answer_def success_def)

lemma rate_limit_failure: "gateway_failure p (HTTPError 429 body) = 429"
  by (cases p) (simp_all add: failure_status_def rate_limited_def DeadlineExceeded_def)

text \<open>
  C3: A client's request reaches its provider, and the answer comes back. Let the stores represent a key ring
  and a catalog, and let the adapter of the model's provider be reachable through a sidecar that delivers as
  documented. When a client presents an authorized key for a routable model to any of the four gateways, with
  a request that the gateway translates and that the adapter's protocol can express, exactly one request is
  made to the provider: the adapter's translation, at the adapter's endpoint. A response that the adapter can
  represent reaches the client as the gateway's translation of it with status 200, and a rate limit of the
  provider reaches the client as status 429.
\<close>

theorem end_to_end:
  fixes P :: "('m, 'p) Protocol"
  assumes gateway: "ge_dispatcher h = deployed_dispatcher F H now url_ok Sidecar client"
    and hold: "planes_hold H (dep_planes s) a c"
    and reads: "gateway_reads p W h (request_id (ge_request_random h) r) r (token, model, translate, answer)"
    and send: "sendable (ge_parse h) (authorized H a c now token model) (routable H a c model) (request_id (ge_request_random h) r) translate app request"
    and inst: "installed F (ge_parse h) url_ok P H secret Do cfg random Sidecar client size_of app c"
    and fit: "fits F url_ok P cfg size_of request m endpoint"
  shows "\<exists>up resp. gateway_http p W h r s = (resp, s\<lparr>dep_sent := dep_sent s @ [up]\<rparr>) \<and>
     DR_Method up = ''POST'' \<and> DR_URL up = endpoint \<and> DR_Body up = Some (json_of (pr_request P) m) \<and>
     (\<forall>x y. represents_answer P request (Do up) x \<and> valid_response (ge_parse h) x \<and> carried_response x \<and> answer x = Inr y \<longrightarrow>
        Resp_Status resp = 200 \<and> Resp_Body resp = Resp_Body y) \<and>
     (\<forall>response. Do up = Inr response \<and> DS_Broken response = None \<and> DS_Status response = 429 \<longrightarrow> Resp_Status resp = 429)"
proof -
  let ?id = "request_id (ge_request_random h) r"
  from send obtain auth route where route: "routable H a c model route" "app = Route_AdapterAppID route" "translate route ?id = Inr request"
    and valid: "valid_request (ge_parse h) request" unfolding sendable_def by blast
  have pid: "IRRoute_ProviderID (Req_Route request) = Route_ProviderID route"
    using translated_route [OF reads_translates [OF reads] route(3)] by simp
  from adapter_answers [OF hold inst fit valid route(1,2) pid] obtain up requestID res where
    up: "DR_Method up = ''POST''" "DR_URL up = endpoint" "DR_Body up = Some (json_of (pr_request P) m)"
    and call: "dp_InvokeJSON (deployed_dispatcher F H now url_ok Sidecar client) app ''/v1/generate'' request s = (res, s\<lparr>dep_sent := dep_sent s @ [up]\<rparr>)"
    and ok: "\<And>x. relay_answer P requestID request (Do up) = JSON 200 (json_of_Response x) \<Longrightarrow> valid_response (ge_parse h) x \<Longrightarrow> carried_response x \<Longrightarrow> res = Inr x"
    and busy: "Resp_Status (relay_answer P requestID request (Do up)) = 429 \<Longrightarrow> \<exists>body. res = Inl (HTTPError 429 body)" by metis
  from deployed.generate_sends [OF hold send call] have
    run: "dp_Generate (ge_parse h) (ge_dispatcher h) token model ?id translate s = (checked_answer (ge_parse h) res, s\<lparr>dep_sent := dep_sent s @ [up]\<rparr>)"
    unfolding gateway .
  from gateway_run [OF reads run] obtain resp where resp: "gateway_http p W h r s = (resp, s\<lparr>dep_sent := dep_sent s @ [up]\<rparr>)"
    "case ebind (checked_answer (ge_parse h) res) answer of Inl err \<Rightarrow> Resp_Status resp = gateway_failure p err
     | Inr x \<Rightarrow> Resp_Status resp = 200 \<and> Resp_Body resp = Resp_Body x" by blast
  have "Resp_Status resp = 200 \<and> Resp_Body resp = Resp_Body y"
    if "represents_answer P request (Do up) x" "valid_response (ge_parse h) x" "carried_response x" "answer x = Inr y" for x y
  proof -
    have "checked_answer (ge_parse h) res = Inr x"
      using ok [OF relay_represented [OF that(1)] that(2,3)] that(2) by (simp add: checked_answer_def response_valid_iff)
    with resp(2) that(4) show ?thesis by simp
  qed
  moreover have "Resp_Status resp = 429" if "Do up = Inr response" "DS_Broken response = None" "DS_Status response = 429" for response
  proof -
    from that have "Resp_Status (relay_answer P requestID request (Do up)) = 429" by (simp add: relay_answer_def)
    from busy [OF this] resp(2) show ?thesis by (auto simp: checked_answer_def rate_limit_failure)
  qed
  ultimately show ?thesis using resp(1) up by blast
qed


text \<open>A Chat client whose model is served by a Gemini provider.\<close>

definition umbra_api :: "DaprRequest \<Rightarrow> DaprResponse result" where
  "umbra_api _ = Inr \<lparr>DS_Status = 200, DS_ETag = '''', DS_RequestID = '''', DS_Text = '''', DS_JSON = \<lparr>documents = [(0, 1, JObj [])], malformed = None\<rparr>, DS_Broken = None\<rparr>"

abbreviation umbra_deployed :: "HTTPRequest \<Rightarrow> deployment \<Rightarrow> HTTPResponse \<times> deployment" where
  "umbra_deployed \<equiv> AdapterHTTPHandler whole_numbers (\<lambda>_. None) (\<lambda>_. True) umbra_protocol (deployed_ports (\<lambda>x. x) (\<lambda>_. Inr ''key'') umbra_api) umbra_adapter (Inr [])"

definition delivery :: "json \<Rightarrow> HTTPRequest" where
  "delivery payload = (invocation ''t'')\<lparr>HR_Body := Some \<lparr>documents = [(0, 1, payload)], malformed = None\<rparr>\<rparr>"

definition umbra_sidecar :: "deployment transport" where
  "umbra_sidecar request s =
     (case DR_Body request of
        None \<Rightarrow> (Inl (LibraryError ''no body''), s)
      | Some payload \<Rightarrow>
          (Inr \<lparr>DS_Status = Resp_Status (fst (umbra_deployed (delivery payload) s)), DS_ETag = '''', DS_RequestID = '''', DS_Text = '''',
             DS_JSON = (case Resp_Body (fst (umbra_deployed (delivery payload) s)) of
               JSONBody j \<Rightarrow> \<lparr>documents = [(0, 1, j)], malformed = None\<rparr> | _ \<Rightarrow> \<lparr>documents = [], malformed = None\<rparr>), DS_Broken = None\<rparr>,
           snd (umbra_deployed (delivery payload) s)))"

definition umbra_gateway :: "deployment GatewayEnv" where
  "umbra_gateway = \<lparr>ge_dispatcher = deployed_dispatcher whole_numbers (\<lambda>x. x) 7 (\<lambda>_. True) umbra_sidecar (New ''http://localhost:3500'' ''t''),
     ge_maxBody = 0, ge_parse = (\<lambda>_. None), ge_text = (\<lambda>_. ''''), ge_random = Inr [1], ge_request_random = Inr [], ge_now = 7\<rparr>"

lemma umbra_installed:
  "installed whole_numbers (\<lambda>_. None) (\<lambda>_. True) umbra_protocol (\<lambda>x. x) (\<lambda>_. Inr ''key'') umbra_api umbra_adapter (Inr []) umbra_sidecar
     (New ''http://localhost:3500'' ''t'') (\<lambda>_. 1) ''umbra-adapter'' demo_catalog"
proof -
  have "service_invocation umbra_sidecar base app ''t'' (\<lambda>_. 1) umbra_deployed" for base app
    unfolding service_invocation_def
  proof (intro allI impI)
    fix request :: DaprRequest and payload and s :: deployment
    assume "DR_Method request = ''POST'' \<and> DR_Body request = Some payload \<and> DR_URL request = invoke_url base app"
    then show "\<exists>r response. HR_Method r = ''POST'' \<and> HR_Segments r = [''v1'', ''generate''] \<and> Header_Get r ''Dapr-Api-Token'' = ''t'' \<and>
        HR_Body r = Some \<lparr>documents = [(0, 1, payload)], malformed = None\<rparr> \<and> umbra_sidecar request s = (Inr response, snd (umbra_deployed r s)) \<and>
        DS_Status response = Resp_Status (fst (umbra_deployed r s)) \<and>
        (\<forall>j. Resp_Body (fst (umbra_deployed r s)) = JSONBody j \<longrightarrow> DS_JSON response = \<lparr>documents = [(0, 1, j)], malformed = None\<rparr>)"
      by (intro exI [of _ "delivery payload"]) (simp add: umbra_sidecar_def delivery_def invocation_def Header_Get_def)
  qed
  moreover have "TrimSpace ''key'' = ''key''" by code_simp
  ultimately show ?thesis
    by (auto simp: installed_def umbra_adapter_def sample_config_def umbra_protocol_def gemini_protocol_def demo_catalog_def umbra_def)
qed

lemma umbra_fits: "\<exists>m endpoint. fits whole_numbers (\<lambda>_. True) umbra_protocol umbra_adapter (\<lambda>_. 1) (projr (hello lark_route ''req_1'')) m endpoint"
proof -
  obtain s :: adapter_state where "holds_catalog (\<lambda>x. x) demo_catalog (contents (as_providers s))" by (rule umbra_store)
  from umbra_forwards [OF this] obtain m endpoint where "pr_limit umbra_protocol (projr (hello lark_route ''req_1'')) = None"
    "pr_translate umbra_protocol (projr (hello lark_route ''req_1'')) = Inr m" "marshalable (pr_request umbra_protocol) m"
    "pr_endpoint umbra_protocol (projr (hello lark_route ''req_1'')) = Inr endpoint" by (auto simp: forwards_def admitted_def)
  moreover have "carried_request whole_numbers (projr (hello lark_route ''req_1''))" by (simp add: carried_request_def hello_def int64_def)
  ultimately show ?thesis by (auto simp: fits_def umbra_adapter_def)
qed

lemma umbra_reads:
  "gateway_reads ChatGateway demo_wire umbra_gateway (request_id (ge_request_random umbra_gateway) (chat_client ''Bearer gwai_AQID'')) (chat_client ''Bearer gwai_AQID'')
     (''gwai_AQID'', ''lark'', chat_ToIR tally_text (\<lambda>_. None) chat_hello, chat_answer tally_text (wt_chat_response demo_wire) umbra_gateway chat_hello)"
proof -
  have "BearerToken ''Bearer gwai_AQID'' = Some ''gwai_AQID''" by code_simp
  then show ?thesis
    by (simp add: chat_client_def demo_wire_def umbra_gateway_def Header_Get_def DecodeJSON_def fail_if_def) (simp add: chat_hello_def)
qed

lemma umbra_sends:
  "sendable (ge_parse umbra_gateway) (authorized (\<lambda>x. x) demo_ring demo_catalog 7 ''gwai_AQID'' ''lark'') (routable (\<lambda>x. x) demo_ring demo_catalog ''lark'')
     (request_id (ge_request_random umbra_gateway) (chat_client ''Bearer gwai_AQID'')) (chat_ToIR tally_text (\<lambda>_. None) chat_hello) ''umbra-adapter''
     (projr (hello lark_route ''req_1''))"
proof -
  have "request_id (ge_request_random umbra_gateway) (chat_client ''Bearer gwai_AQID'') = ''req_1''" by (simp add: request_id_def chat_client_def Header_Get_def)
  then show ?thesis
    using demo_grant [of 7] lark_routable hello_chat [of tally_text "\<lambda>_. None"] hello_valid [of "\<lambda>_. None"]
    unfolding sendable_def
    by (intro exI [of _ "\<lparr>Auth_KeyID = ''key_01'', Auth_UserID = ''usr_01''\<rparr>"] exI [of _ lark_route]) (simp add: request_valid_iff umbra_gateway_def lark_route_def)
qed

lemma lark_answered:
  obtains x y where "represents_answer umbra_protocol (projr (hello lark_route ''req_1'')) (umbra_api up) x" "valid_response (ge_parse umbra_gateway) x"
    "carried_response x" "chat_answer tally_text (wt_chat_response demo_wire) umbra_gateway chat_hello x = Inr y"
proof -
  let ?request = "projr (hello lark_route ''req_1'')"
  let ?result = "projr (gemini_ToIRResponse (\<lambda>_. None) lark_answer ?request)"
  note answer = gemini_ToIRResponse_def lark_answer_def hello_def lark_route_def no_part_def candidate_part_def partVariantCount_def
    finishReasonToIR_def response_Validate_def fail_if_def wrap64_def
  have ir: "gemini_ToIRResponse (\<lambda>_. None) lark_answer ?request = Inr ?result" by (simp add: answer)
  have "represents_answer umbra_protocol ?request (umbra_api up) ?result"
    using ir by (simp add: represents_answer_def umbra_api_def umbra_protocol_def gemini_protocol_def named_codec_def Unmarshal_body_def LimitReader_def success_def)
  moreover have "response_Validate (\<lambda>_. None) ?result = Inr ()" by (simp add: answer)
  then have "valid_response (ge_parse umbra_gateway) ?result" by (simp add: response_valid_iff umbra_gateway_def)
  moreover have "carried_response ?result" by (simp add: carried_response_def answer int64_def)
  moreover obtain y where "chat_answer tally_text (wt_chat_response demo_wire) umbra_gateway chat_hello ?result = Inr y"
    by (simp add: answer chat_answer_def umbra_gateway_def NewID_def chat_FromIR_def)
  ultimately show thesis by (rule that)
qed

theorem end_to_end_witness:
  "\<exists>s s' up resp. gateway_http ChatGateway demo_wire umbra_gateway (chat_client ''Bearer gwai_AQID'') s = (resp, s') \<and>
     dep_sent s = [] \<and> dep_sent s' = [up] \<and> DR_Method up = ''POST'' \<and> Resp_Status resp = 200"
proof -
  obtain w where "shows_as w [''usr_01'' \<mapsto> eve] demo_catalog demo_ring" by (rule demo_key)
  then have hold: "planes_hold (\<lambda>x. x) (dep_planes \<lparr>dep_planes = w, dep_sent = []\<rparr>) demo_ring demo_catalog" by (simp add: shows_as_def planes_hold_def)
  have env: "ge_dispatcher umbra_gateway = deployed_dispatcher whole_numbers (\<lambda>x. x) 7 (\<lambda>_. True) umbra_sidecar (New ''http://localhost:3500'' ''t'')"
    "ge_parse umbra_gateway = (\<lambda>_. None)" by (simp_all add: umbra_gateway_def)
  from umbra_fits obtain m endpoint where fit: "fits whole_numbers (\<lambda>_. True) umbra_protocol umbra_adapter (\<lambda>_. 1) (projr (hello lark_route ''req_1'')) m endpoint"
    by blast
  from end_to_end [OF env(1) hold umbra_reads umbra_sends umbra_installed [folded env(2)] fit] obtain up resp where
    run: "gateway_http ChatGateway demo_wire umbra_gateway (chat_client ''Bearer gwai_AQID'') \<lparr>dep_planes = w, dep_sent = []\<rparr> =
       (resp, \<lparr>dep_planes = w, dep_sent = []\<rparr>\<lparr>dep_sent := dep_sent \<lparr>dep_planes = w, dep_sent = []\<rparr> @ [up]\<rparr>)" "DR_Method up = ''POST''"
    and answered: "\<And>x y. represents_answer umbra_protocol (projr (hello lark_route ''req_1'')) (umbra_api up) x \<and> valid_response (ge_parse umbra_gateway) x \<and>
       carried_response x \<and> chat_answer tally_text (wt_chat_response demo_wire) umbra_gateway chat_hello x = Inr y \<Longrightarrow> Resp_Status resp = 200" by blast
  obtain x y where "represents_answer umbra_protocol (projr (hello lark_route ''req_1'')) (umbra_api up) x" "valid_response (ge_parse umbra_gateway) x"
    "carried_response x" "chat_answer tally_text (wt_chat_response demo_wire) umbra_gateway chat_hello x = Inr y" by (rule lark_answered)
  with answered have "Resp_Status resp = 200" by blast
  with run show ?thesis
    by (intro exI [of _ "\<lparr>dep_planes = w, dep_sent = []\<rparr>"] exI [of _ "\<lparr>dep_planes = w, dep_sent = [up]\<rparr>"] exI [of _ up] exI [of _ resp]) simp
qed

end
