(* ===== verification/Admin_Client.thy ===== *)
theory Admin_Client
  imports IR_JSON Admin_HTTP
begin

text \<open>
  File \<^verbatim>\<open>internal/adminui/client.go\<close>: the client through which the admin UI calls the two control planes over
  Dapr. An operation that reads is a function of the state behind the sidecar; an operation that writes
  is a step of it. The text of a status code (\<^verbatim>\<open>http.StatusText\<close>) is an argument.
\<close>

section \<open>Errors\<close>

record APIError =
  AE_Status :: nat
  AE_Title :: string
  AE_Detail :: string
  AE_Instance :: string
  AE_Ambiguous :: bool

definition APIError_Error :: "(nat \<Rightarrow> string) \<Rightarrow> APIError \<Rightarrow> string" where
  "APIError_Error status_text e =
     (if AE_Detail e \<noteq> '''' then AE_Detail e else if AE_Title e \<noteq> '''' then AE_Title e else status_text (AE_Status e))"

text \<open>The errors of a call; \<^verbatim>\<open>errors.As\<close> finds an \<^verbatim>\<open>*APIError\<close> in the first only.\<close>

datatype api_failure = APIFailure APIError | OtherFailure error

type_synonym 'a api_result = "api_failure + 'a"

record 'a Versioned =
  V_Value :: 'a
  V_ETag :: string

section \<open>The client\<close>

record DaprAPI =
  DA_client :: Client
  DA_resourceAppID :: string
  DA_virtualKeyAppID :: string
  DA_adminToken :: string

definition NewDaprAPI :: "Client \<Rightarrow> string \<Rightarrow> string \<Rightarrow> string \<Rightarrow> DaprAPI result" where
  "NewDaprAPI client resourceAppID virtualKeyAppID adminToken =
     (let resourceAppID = TrimSpace resourceAppID; virtualKeyAppID = TrimSpace virtualKeyAppID in
      ebind (fail_if (resourceAppID = '''' \<or> virtualKeyAppID = '''') (LibraryError ''both control-plane app IDs are required'')) (\<lambda>_.
      ebind (fail_if (TrimSpace adminToken = '''') (LibraryError ''admin token is required'')) (\<lambda>_.
      Inr \<lparr>DA_client = client, DA_resourceAppID = resourceAppID, DA_virtualKeyAppID = virtualKeyAppID, DA_adminToken = adminToken\<rparr>)))"

definition maxControlPlaneResponse :: nat where "maxControlPlaneResponse = 4 * 2 ^ 20"

definition firstNonEmpty :: "string \<Rightarrow> string \<Rightarrow> string" where
  "firstNonEmpty a b = (if a \<noteq> '''' then a else b)"

text \<open>The members of a problem response that the client reads.\<close>

fun decode_Problem :: "json \<Rightarrow> (int \<times> string \<times> string \<times> string) result" where
  "decode_Problem (JObj ms) =
     ebind (json_field ''type'' assign_string ms '''') (\<lambda>_.
     ebind (json_field ''title'' assign_string ms '''') (\<lambda>title.
     ebind (json_field ''status'' assign_int ms 0) (\<lambda>status.
     ebind (json_field ''detail'' assign_string ms '''') (\<lambda>detail.
     ebind (json_field ''instance'' assign_string ms '''') (\<lambda>inst. Inr (status, title, detail, inst))))))"
| "decode_Problem JNull = Inr (0, '''', '''', '''')"
| "decode_Problem _ = type_error"

text \<open>The error for an answer that does not tell what the service did.\<close>

definition lost_answer :: "string \<Rightarrow> string \<Rightarrow> string \<Rightarrow> api_failure" where
  "lost_answer method title detail =
     APIFailure \<lparr>AE_Status = 502, AE_Title = title, AE_Detail = detail, AE_Instance = '''', AE_Ambiguous = (method \<noteq> ''GET'')\<rparr>"

definition rejection :: "(nat \<Rightarrow> string) \<Rightarrow> string \<Rightarrow> DaprResponse \<Rightarrow> api_failure" where
  "rejection status_text method response =
     (let ambiguous = (method \<noteq> ''GET'' \<and> DS_Status response \<ge> 500);
          plain = APIFailure \<lparr>AE_Status = DS_Status response, AE_Title = status_text (DS_Status response),
            AE_Detail = ''The administrative service rejected the request.'', AE_Instance = DS_RequestID response, AE_Ambiguous = ambiguous\<rparr> in
      case Unmarshal_body decode_Problem (DS_JSON response) of
        Inl _ \<Rightarrow> plain
      | Inr (status, title, detail, inst) \<Rightarrow>
          if status = 0 then plain
          else APIFailure \<lparr>AE_Status = DS_Status response, AE_Title = title, AE_Detail = detail,
            AE_Instance = firstNonEmpty inst (DS_RequestID response), AE_Ambiguous = ambiguous\<rparr>)"

text \<open>The end of \<^verbatim>\<open>invokeRequest\<close>, from the response. The output keeps its zero value (\<open>None\<close>) without a body.\<close>

definition read_response ::
  "(nat \<Rightarrow> string) \<Rightarrow> string \<Rightarrow> (json \<Rightarrow> 'a result) option \<Rightarrow> DaprResponse \<Rightarrow> (string \<times> 'a option) api_result" where
  "read_response status_text method output response =
     (let bad = lost_answer method ''Invalid control-plane response'' in
      if DS_Broken response \<noteq> None then Inl (bad ''The administrative service response could not be read.'')
      else if length (DS_Text response) > maxControlPlaneResponse then Inl (bad ''The administrative service returned an oversized response.'')
      else if \<not> success (DS_Status response) then Inl (rejection status_text method response)
      else case output of
          None \<Rightarrow> Inr (DS_ETag response, None)
        | Some dec \<Rightarrow>
            if DS_Status response = 204 then Inr (DS_ETag response, None)
            else if DS_Text response = '''' then Inl (bad ''The administrative service returned an empty response.'')
            else case Unmarshal_body dec (DS_JSON response) of
                Inl _ \<Rightarrow> Inl (bad ''The administrative service returned invalid JSON.'')
              | Inr v \<Rightarrow> Inr (DS_ETag response, Some v))"

text \<open>
  \<open>input\<close> is the outcome of \<^verbatim>\<open>json.Marshal\<close>, unless it is nil. A write is sent with a body of unknown length,
  which keeps Dapr from repeating it; a deletion sends a line break, which spells no value.
\<close>

definition request_headers :: "DaprAPI \<Rightarrow> bool \<Rightarrow> string \<Rightarrow> (string \<times> string) list" where
  "request_headers c has_input ifMatch =
     [(''Accept'', ''application/json, application/problem+json''), (''Authorization'', ''Bearer '' @ DA_adminToken c)] @
     (if has_input then [(''Content-Type'', ''application/json'')] else []) @
     (if ifMatch \<noteq> '''' then [(''If-Match'', ifMatch)] else [])"

definition invokeRequest ::
  "(nat \<Rightarrow> string) \<Rightarrow> (string \<Rightarrow> bool) \<Rightarrow> 's transport \<Rightarrow> DaprAPI \<Rightarrow> string \<Rightarrow> string \<Rightarrow> string \<Rightarrow> string \<Rightarrow> json result option \<Rightarrow>
     (json \<Rightarrow> 'a result) option \<Rightarrow> 's \<Rightarrow> (string \<times> 'a option) api_result \<times> 's" where
  "invokeRequest status_text url_ok Do c appID method path ifMatch input output s =
     (case input of
        Some (Inl err) \<Rightarrow> (Inl (OtherFailure (Errorf ''encode control-plane request: %w'' [] [err])), s)
      | _ \<Rightarrow>
          let body = (case input of Some (Inr payload) \<Rightarrow> Some payload | _ \<Rightarrow> None) in
          (case InvokeMethod url_ok Do (DA_client c) method appID path body (Some (request_headers c (input \<noteq> None) ifMatch)) s of
             (Inl _, s') \<Rightarrow> (Inl (lost_answer method ''Control plane unavailable'' ''The administrative service could not be reached.''), s')
           | (Inr response, s') \<Rightarrow> (read_response status_text method output response, s')))"

definition requireEntityTag :: "string \<Rightarrow> unit api_result" where
  "requireEntityTag etag =
     (if etag = '''' then Inl (APIFailure \<lparr>AE_Status = 502, AE_Title = ''Invalid control-plane response'',
        AE_Detail = ''The administrative service omitted the resource version.'', AE_Instance = '''', AE_Ambiguous = False\<rparr>)
      else Inr ())"

definition itemPath :: "string \<Rightarrow> string \<Rightarrow> string" where
  "itemPath collection rid = ''/v1/'' @ collection @ ''/'' @ PathEscape rid"

section \<open>What the methods have in common\<close>

text \<open>The value of a destination: what was decoded, or its zero value, which is what \<^verbatim>\<open>null\<close> decodes to.\<close>

definition destination :: "(json \<Rightarrow> 'a result) \<Rightarrow> 'a option \<Rightarrow> 'a" where
  "destination dec v = (case v of Some x \<Rightarrow> x | None \<Rightarrow> projr (dec JNull))"

fun decode_data :: "(json \<Rightarrow> 'a result) \<Rightarrow> json \<Rightarrow> 'a list result" where
  "decode_data dec (JObj ms) = json_field ''data'' (assign_slice (projr (dec JNull)) (\<lambda>j _. dec j)) ms []"
| "decode_data dec JNull = Inr []"
| "decode_data dec _ = type_error"

definition api_list ::
  "(nat \<Rightarrow> string) \<Rightarrow> (string \<Rightarrow> bool) \<Rightarrow> 's transport \<Rightarrow> DaprAPI \<Rightarrow> string \<Rightarrow> string \<Rightarrow> (json \<Rightarrow> 'a result) \<Rightarrow> 's \<Rightarrow> 'a list api_result" where
  "api_list status_text url_ok Do c appID path dec s =
     map_sum id (\<lambda>(_, v). destination (decode_data dec) v)
       (fst (invokeRequest status_text url_ok Do c appID ''GET'' path '''' None (Some (decode_data dec)) s))"

definition versioned :: "(json \<Rightarrow> 'a result) \<Rightarrow> (string \<times> 'a option) api_result \<Rightarrow> 'a Versioned api_result" where
  "versioned dec res =
     (case res of
        Inl err \<Rightarrow> Inl err
      | Inr (etag, v) \<Rightarrow>
          (case requireEntityTag etag of Inl err \<Rightarrow> Inl err | Inr _ \<Rightarrow> Inr \<lparr>V_Value = destination dec v, V_ETag = etag\<rparr>))"

definition api_get ::
  "(nat \<Rightarrow> string) \<Rightarrow> (string \<Rightarrow> bool) \<Rightarrow> 's transport \<Rightarrow> DaprAPI \<Rightarrow> string \<Rightarrow> string \<Rightarrow> (json \<Rightarrow> 'a result) \<Rightarrow> string \<Rightarrow> 's \<Rightarrow> 'a Versioned api_result" where
  "api_get status_text url_ok Do c appID collection dec rid s =
     versioned dec (fst (invokeRequest status_text url_ok Do c appID ''GET'' (itemPath collection rid) '''' None (Some dec) s))"

definition api_create ::
  "(nat \<Rightarrow> string) \<Rightarrow> (string \<Rightarrow> bool) \<Rightarrow> 's transport \<Rightarrow> DaprAPI \<Rightarrow> string \<Rightarrow> string \<Rightarrow> (json \<Rightarrow> 'a result) \<Rightarrow> json result \<Rightarrow> 's \<Rightarrow>
     'a api_result \<times> 's" where
  "api_create status_text url_ok Do c appID path dec input s =
     (case invokeRequest status_text url_ok Do c appID ''POST'' path '''' (Some input) (Some dec) s of
        (res, s') \<Rightarrow> (map_sum id (\<lambda>(_, v). destination dec v) res, s'))"

definition api_update ::
  "(nat \<Rightarrow> string) \<Rightarrow> (string \<Rightarrow> bool) \<Rightarrow> 's transport \<Rightarrow> DaprAPI \<Rightarrow> string \<Rightarrow> string \<Rightarrow> (json \<Rightarrow> 'a result) \<Rightarrow> string \<Rightarrow> json result \<Rightarrow> string \<Rightarrow> 's \<Rightarrow>
     'a Versioned api_result \<times> 's" where
  "api_update status_text url_ok Do c appID collection dec rid input ifMatch s =
     (case invokeRequest status_text url_ok Do c appID ''PUT'' (itemPath collection rid) ifMatch (Some input) (Some dec) s of
        (res, s') \<Rightarrow> (versioned dec res, s'))"

definition api_delete ::
  "(nat \<Rightarrow> string) \<Rightarrow> (string \<Rightarrow> bool) \<Rightarrow> 's transport \<Rightarrow> DaprAPI \<Rightarrow> string \<Rightarrow> string \<Rightarrow> string \<Rightarrow> string \<Rightarrow> 's \<Rightarrow> unit api_result \<times> 's" where
  "api_delete status_text url_ok Do c appID collection rid ifMatch s =
     (case invokeRequest status_text url_ok Do c appID ''DELETE'' (itemPath collection rid) ifMatch None (None :: (json \<Rightarrow> unit result) option) s of
        (res, s') \<Rightarrow> (map_sum id (\<lambda>_. ()) res, s'))"

section \<open>The inputs and outputs\<close>

definition omit_status :: "Status \<Rightarrow> (string \<times> json) list" where
  "omit_status s = (if s = '''' then [] else [(''status'', JStr s)])"

definition json_of_UserInput :: "UserInput \<Rightarrow> json result" where
  "json_of_UserInput i = Inr (JObj ([(''name'', JStr (UI_Name i)), (''email'', JStr (UI_Email i))] @ omit_status (UI_Status i)))"

definition json_of_ProviderInput :: "ProviderInput \<Rightarrow> json result" where
  "json_of_ProviderInput i = Inr (JObj ([(''slug'', JStr (PI_Slug i)), (''name'', JStr (PI_Name i)), (''kind'', JStr (PI_Kind i)),
     (''adapter_app_id'', JStr (PI_AdapterAppID i))] @ omit_status (PI_Status i)))"

definition json_of_ModelInput :: "ModelInput \<Rightarrow> json result" where
  "json_of_ModelInput i = Inr (JObj ([(''alias'', JStr (MI_Alias i)), (''provider_id'', JStr (MI_ProviderID i)),
     (''upstream_model'', JStr (MI_UpstreamModel i))] @ omit_status (MI_Status i)))"

definition json_of_VirtualKeyInput :: "VirtualKeyInput \<Rightarrow> json result" where
  "json_of_VirtualKeyInput i =
     ebind (fail_if (case KI_ExpiresAt i of None \<Rightarrow> False | Some t \<Rightarrow> \<not> marshalable_time t) (LibraryError ''json: error calling MarshalJSON'')) (\<lambda>_.
     Inr (JObj ([(''name'', JStr (KI_Name i)), (''user_id'', JStr (KI_UserID i)), (''model_ids'', json_strings (KI_ModelIDs i))] @
       omit_status (KI_Status i) @ json_omitempty ''expires_at'' JTime (KI_ExpiresAt i))))"

fun decode_PublicVirtualKey :: "json \<Rightarrow> PublicVirtualKey result" where
  "decode_PublicVirtualKey (JObj ms) =
     ebind (json_field ''id'' assign_string ms '''') (\<lambda>i.
     ebind (json_field ''name'' assign_string ms '''') (\<lambda>n.
     ebind (json_field ''user_id'' assign_string ms '''') (\<lambda>uid.
     ebind (json_field ''prefix'' assign_string ms '''') (\<lambda>p.
     ebind (json_field ''model_ids'' assign_strings ms []) (\<lambda>mi.
     ebind (json_field ''status'' assign_string ms '''') (\<lambda>s.
     ebind (json_field ''expires_at'' assign_time_ptr ms None) (\<lambda>e.
     ebind (json_field ''created_at'' assign_time ms zero_time) (\<lambda>c.
     ebind (json_field ''updated_at'' assign_time ms zero_time) (\<lambda>u.
     Inr \<lparr>PVK_ID = i, PVK_Name = n, PVK_UserID = uid, PVK_Prefix = p, PVK_ModelIDs = mi,
          PVK_Status = s, PVK_ExpiresAt = e, PVK_CreatedAt = c, PVK_UpdatedAt = u\<rparr>)))))))))"
| "decode_PublicVirtualKey JNull = Inr \<lparr>PVK_ID = '''', PVK_Name = '''', PVK_UserID = '''', PVK_Prefix = '''', PVK_ModelIDs = [],
     PVK_Status = '''', PVK_ExpiresAt = None, PVK_CreatedAt = zero_time, PVK_UpdatedAt = zero_time\<rparr>"
| "decode_PublicVirtualKey _ = type_error"

fun decode_CreatedVirtualKey :: "json \<Rightarrow> CreatedVirtualKey result" where
  "decode_CreatedVirtualKey (JObj ms) =
     ebind (json_field ''virtual_key'' (\<lambda>j _. decode_PublicVirtualKey j) ms (projr (decode_PublicVirtualKey JNull))) (\<lambda>k.
     ebind (json_field ''key'' assign_string ms '''') (\<lambda>secret.
     Inr \<lparr>CVK_VirtualKey = k, CVK_Key = secret\<rparr>))"
| "decode_CreatedVirtualKey JNull = Inr \<lparr>CVK_VirtualKey = projr (decode_PublicVirtualKey JNull), CVK_Key = ''''\<rparr>"
| "decode_CreatedVirtualKey _ = type_error"

section \<open>The interface of the UI and its implementation\<close>

record 'w API =
  api_ListUsers :: "'w \<Rightarrow> User list api_result"
  api_GetUser :: "string \<Rightarrow> 'w \<Rightarrow> User Versioned api_result"
  api_CreateUser :: "UserInput \<Rightarrow> 'w \<Rightarrow> User api_result \<times> 'w"
  api_UpdateUser :: "string \<Rightarrow> UserInput \<Rightarrow> string \<Rightarrow> 'w \<Rightarrow> User Versioned api_result \<times> 'w"
  api_DeleteUser :: "string \<Rightarrow> string \<Rightarrow> 'w \<Rightarrow> unit api_result \<times> 'w"
  api_ListProviders :: "'w \<Rightarrow> Provider list api_result"
  api_GetProvider :: "string \<Rightarrow> 'w \<Rightarrow> Provider Versioned api_result"
  api_CreateProvider :: "ProviderInput \<Rightarrow> 'w \<Rightarrow> Provider api_result \<times> 'w"
  api_UpdateProvider :: "string \<Rightarrow> ProviderInput \<Rightarrow> string \<Rightarrow> 'w \<Rightarrow> Provider Versioned api_result \<times> 'w"
  api_DeleteProvider :: "string \<Rightarrow> string \<Rightarrow> 'w \<Rightarrow> unit api_result \<times> 'w"
  api_ListModels :: "'w \<Rightarrow> Model list api_result"
  api_GetModel :: "string \<Rightarrow> 'w \<Rightarrow> Model Versioned api_result"
  api_CreateModel :: "ModelInput \<Rightarrow> 'w \<Rightarrow> Model api_result \<times> 'w"
  api_UpdateModel :: "string \<Rightarrow> ModelInput \<Rightarrow> string \<Rightarrow> 'w \<Rightarrow> Model Versioned api_result \<times> 'w"
  api_DeleteModel :: "string \<Rightarrow> string \<Rightarrow> 'w \<Rightarrow> unit api_result \<times> 'w"
  api_ListVirtualKeys :: "'w \<Rightarrow> PublicVirtualKey list api_result"
  api_GetVirtualKey :: "string \<Rightarrow> 'w \<Rightarrow> PublicVirtualKey Versioned api_result"
  api_CreateVirtualKey :: "VirtualKeyInput \<Rightarrow> 'w \<Rightarrow> CreatedVirtualKey api_result \<times> 'w"
  api_UpdateVirtualKey :: "string \<Rightarrow> VirtualKeyInput \<Rightarrow> string \<Rightarrow> 'w \<Rightarrow> PublicVirtualKey Versioned api_result \<times> 'w"
  api_DeleteVirtualKey :: "string \<Rightarrow> string \<Rightarrow> 'w \<Rightarrow> unit api_result \<times> 'w"

definition DaprAPI_ListUsers :: "(nat \<Rightarrow> string) \<Rightarrow> (string \<Rightarrow> bool) \<Rightarrow> 's transport \<Rightarrow> DaprAPI \<Rightarrow> 's \<Rightarrow> User list api_result" where
  "DaprAPI_ListUsers T url_ok Do c = api_list T url_ok Do c (DA_resourceAppID c) ''/v1/users'' decode_User"

definition DaprAPI_GetUser :: "(nat \<Rightarrow> string) \<Rightarrow> (string \<Rightarrow> bool) \<Rightarrow> 's transport \<Rightarrow> DaprAPI \<Rightarrow> string \<Rightarrow> 's \<Rightarrow> User Versioned api_result" where
  "DaprAPI_GetUser T url_ok Do c = api_get T url_ok Do c (DA_resourceAppID c) ''users'' decode_User"

definition DaprAPI_CreateUser :: "(nat \<Rightarrow> string) \<Rightarrow> (string \<Rightarrow> bool) \<Rightarrow> 's transport \<Rightarrow> DaprAPI \<Rightarrow> UserInput \<Rightarrow> 's \<Rightarrow> User api_result \<times> 's" where
  "DaprAPI_CreateUser T url_ok Do c input = api_create T url_ok Do c (DA_resourceAppID c) ''/v1/users'' decode_User (json_of_UserInput input)"

definition DaprAPI_UpdateUser :: "(nat \<Rightarrow> string) \<Rightarrow> (string \<Rightarrow> bool) \<Rightarrow> 's transport \<Rightarrow> DaprAPI \<Rightarrow> string \<Rightarrow> UserInput \<Rightarrow> string \<Rightarrow> 's \<Rightarrow> User Versioned api_result \<times> 's" where
  "DaprAPI_UpdateUser T url_ok Do c rid input = api_update T url_ok Do c (DA_resourceAppID c) ''users'' decode_User rid (json_of_UserInput input)"

definition DaprAPI_DeleteUser :: "(nat \<Rightarrow> string) \<Rightarrow> (string \<Rightarrow> bool) \<Rightarrow> 's transport \<Rightarrow> DaprAPI \<Rightarrow> string \<Rightarrow> string \<Rightarrow> 's \<Rightarrow> unit api_result \<times> 's" where
  "DaprAPI_DeleteUser T url_ok Do c = api_delete T url_ok Do c (DA_resourceAppID c) ''users''"

definition DaprAPI_ListProviders :: "(nat \<Rightarrow> string) \<Rightarrow> (string \<Rightarrow> bool) \<Rightarrow> 's transport \<Rightarrow> DaprAPI \<Rightarrow> 's \<Rightarrow> Provider list api_result" where
  "DaprAPI_ListProviders T url_ok Do c = api_list T url_ok Do c (DA_resourceAppID c) ''/v1/providers'' decode_Provider"

definition DaprAPI_GetProvider :: "(nat \<Rightarrow> string) \<Rightarrow> (string \<Rightarrow> bool) \<Rightarrow> 's transport \<Rightarrow> DaprAPI \<Rightarrow> string \<Rightarrow> 's \<Rightarrow> Provider Versioned api_result" where
  "DaprAPI_GetProvider T url_ok Do c = api_get T url_ok Do c (DA_resourceAppID c) ''providers'' decode_Provider"

definition DaprAPI_CreateProvider :: "(nat \<Rightarrow> string) \<Rightarrow> (string \<Rightarrow> bool) \<Rightarrow> 's transport \<Rightarrow> DaprAPI \<Rightarrow> ProviderInput \<Rightarrow> 's \<Rightarrow> Provider api_result \<times> 's" where
  "DaprAPI_CreateProvider T url_ok Do c input = api_create T url_ok Do c (DA_resourceAppID c) ''/v1/providers'' decode_Provider (json_of_ProviderInput input)"

definition DaprAPI_UpdateProvider :: "(nat \<Rightarrow> string) \<Rightarrow> (string \<Rightarrow> bool) \<Rightarrow> 's transport \<Rightarrow> DaprAPI \<Rightarrow> string \<Rightarrow> ProviderInput \<Rightarrow> string \<Rightarrow> 's \<Rightarrow> Provider Versioned api_result \<times> 's" where
  "DaprAPI_UpdateProvider T url_ok Do c rid input = api_update T url_ok Do c (DA_resourceAppID c) ''providers'' decode_Provider rid (json_of_ProviderInput input)"

definition DaprAPI_DeleteProvider :: "(nat \<Rightarrow> string) \<Rightarrow> (string \<Rightarrow> bool) \<Rightarrow> 's transport \<Rightarrow> DaprAPI \<Rightarrow> string \<Rightarrow> string \<Rightarrow> 's \<Rightarrow> unit api_result \<times> 's" where
  "DaprAPI_DeleteProvider T url_ok Do c = api_delete T url_ok Do c (DA_resourceAppID c) ''providers''"

definition DaprAPI_ListModels :: "(nat \<Rightarrow> string) \<Rightarrow> (string \<Rightarrow> bool) \<Rightarrow> 's transport \<Rightarrow> DaprAPI \<Rightarrow> 's \<Rightarrow> Model list api_result" where
  "DaprAPI_ListModels T url_ok Do c = api_list T url_ok Do c (DA_resourceAppID c) ''/v1/models'' decode_Model"

definition DaprAPI_GetModel :: "(nat \<Rightarrow> string) \<Rightarrow> (string \<Rightarrow> bool) \<Rightarrow> 's transport \<Rightarrow> DaprAPI \<Rightarrow> string \<Rightarrow> 's \<Rightarrow> Model Versioned api_result" where
  "DaprAPI_GetModel T url_ok Do c = api_get T url_ok Do c (DA_resourceAppID c) ''models'' decode_Model"

definition DaprAPI_CreateModel :: "(nat \<Rightarrow> string) \<Rightarrow> (string \<Rightarrow> bool) \<Rightarrow> 's transport \<Rightarrow> DaprAPI \<Rightarrow> ModelInput \<Rightarrow> 's \<Rightarrow> Model api_result \<times> 's" where
  "DaprAPI_CreateModel T url_ok Do c input = api_create T url_ok Do c (DA_resourceAppID c) ''/v1/models'' decode_Model (json_of_ModelInput input)"

definition DaprAPI_UpdateModel :: "(nat \<Rightarrow> string) \<Rightarrow> (string \<Rightarrow> bool) \<Rightarrow> 's transport \<Rightarrow> DaprAPI \<Rightarrow> string \<Rightarrow> ModelInput \<Rightarrow> string \<Rightarrow> 's \<Rightarrow> Model Versioned api_result \<times> 's" where
  "DaprAPI_UpdateModel T url_ok Do c rid input = api_update T url_ok Do c (DA_resourceAppID c) ''models'' decode_Model rid (json_of_ModelInput input)"

definition DaprAPI_DeleteModel :: "(nat \<Rightarrow> string) \<Rightarrow> (string \<Rightarrow> bool) \<Rightarrow> 's transport \<Rightarrow> DaprAPI \<Rightarrow> string \<Rightarrow> string \<Rightarrow> 's \<Rightarrow> unit api_result \<times> 's" where
  "DaprAPI_DeleteModel T url_ok Do c = api_delete T url_ok Do c (DA_resourceAppID c) ''models''"

definition DaprAPI_ListVirtualKeys :: "(nat \<Rightarrow> string) \<Rightarrow> (string \<Rightarrow> bool) \<Rightarrow> 's transport \<Rightarrow> DaprAPI \<Rightarrow> 's \<Rightarrow> PublicVirtualKey list api_result" where
  "DaprAPI_ListVirtualKeys T url_ok Do c = api_list T url_ok Do c (DA_virtualKeyAppID c) ''/v1/virtual-keys'' decode_PublicVirtualKey"

definition DaprAPI_GetVirtualKey :: "(nat \<Rightarrow> string) \<Rightarrow> (string \<Rightarrow> bool) \<Rightarrow> 's transport \<Rightarrow> DaprAPI \<Rightarrow> string \<Rightarrow> 's \<Rightarrow> PublicVirtualKey Versioned api_result" where
  "DaprAPI_GetVirtualKey T url_ok Do c = api_get T url_ok Do c (DA_virtualKeyAppID c) ''virtual-keys'' decode_PublicVirtualKey"

definition DaprAPI_CreateVirtualKey :: "(nat \<Rightarrow> string) \<Rightarrow> (string \<Rightarrow> bool) \<Rightarrow> 's transport \<Rightarrow> DaprAPI \<Rightarrow> VirtualKeyInput \<Rightarrow> 's \<Rightarrow> CreatedVirtualKey api_result \<times> 's" where
  "DaprAPI_CreateVirtualKey T url_ok Do c input = api_create T url_ok Do c (DA_virtualKeyAppID c) ''/v1/virtual-keys'' decode_CreatedVirtualKey (json_of_VirtualKeyInput input)"

definition DaprAPI_UpdateVirtualKey :: "(nat \<Rightarrow> string) \<Rightarrow> (string \<Rightarrow> bool) \<Rightarrow> 's transport \<Rightarrow> DaprAPI \<Rightarrow> string \<Rightarrow> VirtualKeyInput \<Rightarrow> string \<Rightarrow> 's \<Rightarrow> PublicVirtualKey Versioned api_result \<times> 's" where
  "DaprAPI_UpdateVirtualKey T url_ok Do c rid input = api_update T url_ok Do c (DA_virtualKeyAppID c) ''virtual-keys'' decode_PublicVirtualKey rid (json_of_VirtualKeyInput input)"

definition DaprAPI_DeleteVirtualKey :: "(nat \<Rightarrow> string) \<Rightarrow> (string \<Rightarrow> bool) \<Rightarrow> 's transport \<Rightarrow> DaprAPI \<Rightarrow> string \<Rightarrow> string \<Rightarrow> 's \<Rightarrow> unit api_result \<times> 's" where
  "DaprAPI_DeleteVirtualKey T url_ok Do c = api_delete T url_ok Do c (DA_virtualKeyAppID c) ''virtual-keys''"

definition DaprAPI_methods :: "(nat \<Rightarrow> string) \<Rightarrow> (string \<Rightarrow> bool) \<Rightarrow> 's transport \<Rightarrow> DaprAPI \<Rightarrow> 's API" where
  "DaprAPI_methods T url_ok Do c =
     \<lparr>api_ListUsers = DaprAPI_ListUsers T url_ok Do c, api_GetUser = DaprAPI_GetUser T url_ok Do c,
      api_CreateUser = DaprAPI_CreateUser T url_ok Do c, api_UpdateUser = DaprAPI_UpdateUser T url_ok Do c,
      api_DeleteUser = DaprAPI_DeleteUser T url_ok Do c, api_ListProviders = DaprAPI_ListProviders T url_ok Do c,
      api_GetProvider = DaprAPI_GetProvider T url_ok Do c, api_CreateProvider = DaprAPI_CreateProvider T url_ok Do c,
      api_UpdateProvider = DaprAPI_UpdateProvider T url_ok Do c, api_DeleteProvider = DaprAPI_DeleteProvider T url_ok Do c,
      api_ListModels = DaprAPI_ListModels T url_ok Do c, api_GetModel = DaprAPI_GetModel T url_ok Do c,
      api_CreateModel = DaprAPI_CreateModel T url_ok Do c, api_UpdateModel = DaprAPI_UpdateModel T url_ok Do c,
      api_DeleteModel = DaprAPI_DeleteModel T url_ok Do c, api_ListVirtualKeys = DaprAPI_ListVirtualKeys T url_ok Do c,
      api_GetVirtualKey = DaprAPI_GetVirtualKey T url_ok Do c, api_CreateVirtualKey = DaprAPI_CreateVirtualKey T url_ok Do c,
      api_UpdateVirtualKey = DaprAPI_UpdateVirtualKey T url_ok Do c, api_DeleteVirtualKey = DaprAPI_DeleteVirtualKey T url_ok Do c\<rparr>"

section \<open>Lemmas\<close>

text \<open>A call either sends no request or sends one and reads its answer.\<close>

definition asked :: "(string \<Rightarrow> bool) \<Rightarrow> 's transport \<Rightarrow> DaprAPI \<Rightarrow> string \<Rightarrow> 's \<Rightarrow> DaprResponse \<Rightarrow> 's \<Rightarrow> bool" where
  "asked url_ok Do c method s response s' \<longleftrightarrow>
     (\<exists>request. DR_Method request = method \<and> (''Authorization'', ''Bearer '' @ DA_adminToken c) \<in> set (DR_Header request) \<and>
        url_ok (DR_URL request) \<and> Do request s = (Inr response, s'))"

lemma invokeRequest_cases:
  assumes "invokeRequest T url_ok Do c appID method path ifMatch input output s = (res, s')"
  obtains (unsent) err where "res = Inl (OtherFailure err)" "s' = s"
  | (unanswered) title detail where "res = Inl (lost_answer method title detail)"
  | (answered) response where "asked url_ok Do c method s response s'" "res = read_response T method output response"
proof (cases "\<exists>err. input = Some (Inl err)")
  case True
  with assms unsent show ?thesis by (auto simp: invokeRequest_def)
next
  case False
  define body where "body = (case input of Some (Inr payload) \<Rightarrow> Some payload | _ \<Rightarrow> None)"
  define hs where "hs = request_headers c (input \<noteq> None) ifMatch"
  have run: "invokeRequest T url_ok Do c appID method path ifMatch input output s =
      (case InvokeMethod url_ok Do (DA_client c) method appID path body (Some hs) s of
         (Inl _, s') \<Rightarrow> (Inl (lost_answer method ''Control plane unavailable'' ''The administrative service could not be reached.''), s')
       | (Inr response, s') \<Rightarrow> (read_response T method output response, s'))"
    using False unfolding invokeRequest_def body_def [symmetric] hs_def [symmetric] Let_def
    by (auto split: option.splits sum.splits)
  obtain r t where im: "InvokeMethod url_ok Do (DA_client c) method appID path body (Some hs) s = (r, t)" by force
  show ?thesis
  proof (cases r)
    case (Inl err)
    with run im assms unanswered show ?thesis by simp
  next
    case (Inr response)
    have auth: "(''Authorization'', ''Bearer '' @ DA_adminToken c) \<in> set (with_token (DA_client c) hs)"
      by (simp add: hs_def request_headers_def with_token_def header_set_def)
    from im Inr auth have "asked url_ok Do c method s response t"
      unfolding asked_def InvokeMethod_def newRequest_def
      by (auto simp: fail_if_def split: if_splits intro!: exI)
    with run im Inr assms answered show ?thesis by simp
  qed
qed

lemma rejection_error:
  "rejection T method response = APIFailure e \<Longrightarrow> AE_Ambiguous e \<longleftrightarrow> method \<noteq> ''GET'' \<and> DS_Status response \<ge> 500"
  by (auto simp: rejection_def Let_def split: sum.splits if_splits)

lemma read_response_error:
  assumes "read_response T method output response = Inl (APIFailure e)" "\<not> AE_Ambiguous e" "method \<noteq> ''GET''"
  shows "\<not> success (DS_Status response) \<and> DS_Status response < 500"
  using assms rejection_error [of T "method" response e]
  by (auto simp: read_response_def lost_answer_def Let_def not_le split: if_splits option.splits sum.splits)

lemma read_response_failure: "read_response T method output response = Inl f \<Longrightarrow> \<exists>e. f = APIFailure e"
  by (auto simp: read_response_def lost_answer_def rejection_def Let_def split: if_splits option.splits sum.splits prod.splits)

lemma read_response_success: "read_response T method output response = Inr (etag, v) \<Longrightarrow> success (DS_Status response) \<and> etag = DS_ETag response"
  by (auto simp: read_response_def Let_def split: if_splits option.splits sum.splits)

text \<open>A definite refusal: the service answered with an error that is not its own failure.\<close>

definition refused :: "(string \<Rightarrow> bool) \<Rightarrow> 's transport \<Rightarrow> DaprAPI \<Rightarrow> string \<Rightarrow> 's \<Rightarrow> 's \<Rightarrow> bool" where
  "refused url_ok Do c method s s' \<longleftrightarrow> (\<exists>response. asked url_ok Do c method s response s' \<and> \<not> success (DS_Status response) \<and> DS_Status response < 500)"

lemma write_refused:
  assumes "invokeRequest T url_ok Do c appID method path ifMatch input output s = (Inl f, s')" "method \<noteq> ''GET''"
  shows "case f of OtherFailure err \<Rightarrow> s' = s | APIFailure e \<Rightarrow> AE_Ambiguous e \<or> refused url_ok Do c method s s'"
  using assms(1)
proof (cases rule: invokeRequest_cases)
  case (unanswered title detail)
  then show ?thesis using assms(2) by (simp add: lost_answer_def)
next
  case (answered response)
  then obtain e where e: "f = APIFailure e" using read_response_failure by metis
  with answered have r: "read_response T method output response = Inl (APIFailure e)" by simp
  show ?thesis using answered(1) read_response_error [OF r] assms(2) e by (auto simp: refused_def)
qed simp

lemma write_answered:
  assumes "invokeRequest T url_ok Do c appID method path ifMatch input output s = (Inr (etag, v), s')"
  obtains response where "asked url_ok Do c method s response s'" "success (DS_Status response)" "etag = DS_ETag response"
  using assms by (cases rule: invokeRequest_cases) (auto simp: lost_answer_def dest: read_response_success [OF sym])

lemma map_sum_Inl_iff: "map_sum id f x = Inl e \<longleftrightarrow> x = Inl e"
  by (cases x) auto

lemmas input_json = json_of_UserInput_def json_of_ProviderInput_def json_of_ModelInput_def json_of_VirtualKeyInput_def omit_status_def

section \<open>Properties\<close>

text \<open>
  C17: What the client says of a write. An error that is not marked ambiguous means that nothing was sent, or
  that the service answered with a refusal below 500, sent with the administrator's token; so the
  administrator may try again. The exception is an update that succeeds without an entity tag: it is
  reported as an error that is not ambiguous, although the change was made.
\<close>

theorem admin_write_outcomes:
  "(api_create T url_ok Do c appID path dec input s = (Inl f, s') \<longrightarrow>
      (case f of OtherFailure err \<Rightarrow> s' = s | APIFailure e \<Rightarrow> AE_Ambiguous e \<or> refused url_ok Do c ''POST'' s s'))
   \<and> (api_delete T url_ok Do c appID collection rid etag s = (Inl f, s') \<longrightarrow>
      (case f of OtherFailure err \<Rightarrow> s' = s | APIFailure e \<Rightarrow> AE_Ambiguous e \<or> refused url_ok Do c ''DELETE'' s s'))
   \<and> (api_update T url_ok Do c appID collection udec rid input etag s = (Inl f, s') \<longrightarrow>
      (case f of OtherFailure err \<Rightarrow> s' = s
       | APIFailure e \<Rightarrow> AE_Ambiguous e \<or> refused url_ok Do c ''PUT'' s s' \<or>
           (\<exists>response. asked url_ok Do c ''PUT'' s response s' \<and> success (DS_Status response) \<and> DS_ETag response = '''')))"
proof (intro conjI impI)
  assume "api_create T url_ok Do c appID path dec input s = (Inl f, s')"
  then have "invokeRequest T url_ok Do c appID ''POST'' path '''' (Some input) (Some dec) s = (Inl f, s')"
    by (auto simp: api_create_def map_sum_Inl_iff split: prod.splits)
  from write_refused [OF this] show "case f of OtherFailure err \<Rightarrow> s' = s | APIFailure e \<Rightarrow> AE_Ambiguous e \<or> refused url_ok Do c ''POST'' s s'" by simp
next
  assume "api_delete T url_ok Do c appID collection rid etag s = (Inl f, s')"
  then have "invokeRequest T url_ok Do c appID ''DELETE'' (itemPath collection rid) etag None (None :: (json \<Rightarrow> unit result) option) s = (Inl f, s')"
    by (auto simp: api_delete_def map_sum_Inl_iff split: prod.splits)
  from write_refused [OF this] show "case f of OtherFailure err \<Rightarrow> s' = s | APIFailure e \<Rightarrow> AE_Ambiguous e \<or> refused url_ok Do c ''DELETE'' s s'" by simp
next
  let ?call = "invokeRequest T url_ok Do c appID ''PUT'' (itemPath collection rid) etag (Some input) (Some udec) s"
  assume "api_update T url_ok Do c appID collection udec rid input etag s = (Inl f, s')"
  then obtain res where res: "?call = (res, s')" "versioned udec res = Inl f" by (auto simp: api_update_def split: prod.splits)
  show "case f of OtherFailure err \<Rightarrow> s' = s
    | APIFailure e \<Rightarrow> AE_Ambiguous e \<or> refused url_ok Do c ''PUT'' s s' \<or>
        (\<exists>response. asked url_ok Do c ''PUT'' s response s' \<and> success (DS_Status response) \<and> DS_ETag response = '''')"
  proof (cases res)
    case (Inl g)
    with res write_refused [of T url_ok Do c appID "''PUT''"] show ?thesis by (fastforce simp: versioned_def split: api_failure.splits)
  next
    case (Inr x)
    obtain tag v where x: "x = (tag, v)" by (cases x)
    from write_answered [OF res(1) [unfolded Inr x]] obtain response where
      "asked url_ok Do c ''PUT'' s response s'" "success (DS_Status response)" "tag = DS_ETag response" .
    with res(2) Inr x show ?thesis by (auto simp: versioned_def requireEntityTag_def split: if_splits)
  qed
qed

text \<open>A sidecar that answers every request with one status, and counts the requests.\<close>

definition answers_with :: "nat \<Rightarrow> nat transport" where
  "answers_with status request n =
     (Inr \<lparr>DS_Status = status, DS_ETag = '''', DS_RequestID = ''req_01'', DS_Text = '''', DS_JSON = \<lparr>documents = [], malformed = None\<rparr>,
        DS_Broken = None\<rparr>, Suc n)"

definition demo_admin :: DaprAPI where
  "demo_admin = \<lparr>DA_client = New ''http://localhost:3500'' ''t'', DA_resourceAppID = ''resources'', DA_virtualKeyAppID = ''keys'', DA_adminToken = ''admin''\<rparr>"

lemma demo_answer:
  "invokeRequest T (\<lambda>_. True) (answers_with status) demo_admin appID method path ifMatch (Some (Inr j)) output n =
     (read_response T method output (projr (fst (answers_with status undefined n))), Suc n)"
  by (simp add: invokeRequest_def InvokeMethod_def newRequest_def fail_if_def answers_with_def)

theorem admin_write_outcomes_witness:
  "\<exists>e. api_create (\<lambda>_. ''Conflict'') (\<lambda>_. True) (answers_with 409) demo_admin ''resources'' ''/v1/users'' decode_User (Inr JNull) 0 = (Inl (APIFailure e), 1)
     \<and> \<not> AE_Ambiguous e \<and> refused (\<lambda>_. True) (answers_with 409) demo_admin ''POST'' 0 1"
proof -
  obtain e where run: "api_create (\<lambda>_. ''Conflict'') (\<lambda>_. True) (answers_with 409) demo_admin ''resources'' ''/v1/users'' decode_User (Inr JNull) 0 =
      (Inl (APIFailure e), 1)" "\<not> AE_Ambiguous e"
    by (simp add: api_create_def demo_answer answers_with_def read_response_def success_def rejection_def Unmarshal_body_def maxControlPlaneResponse_def)
  with admin_write_outcomes [of "\<lambda>_. ''Conflict''" "\<lambda>_. True" "answers_with 409" demo_admin "''resources''" "''/v1/users''" decode_User "Inr JNull" 0 "APIFailure e" 1]
  show ?thesis by auto
qed

text \<open>
  C18: The client and the control planes agree on the wire: what the client sends for an input is read by
  the handlers of the control planes, which refuse unknown fields, as the same input, and the client
  reads every resource the handlers write as that resource.
\<close>

theorem admin_wire_agrees:
  "(\<forall>i j. json_of_UserInput i = Inr j \<longrightarrow> UserInput_fields True j = Inr i)
   \<and> (\<forall>i j. json_of_ProviderInput i = Inr j \<longrightarrow> ProviderInput_fields True j = Inr i)
   \<and> (\<forall>i j. json_of_ModelInput i = Inr j \<longrightarrow> ModelInput_fields True j = Inr i)
   \<and> (\<forall>i j. json_of_VirtualKeyInput i = Inr j \<longrightarrow> VirtualKeyInput_fields True j = Inr i)
   \<and> decode_User (json_of_User u) = Inr u \<and> decode_Provider (json_of_Provider p) = Inr p \<and> decode_Model (json_of_Model m) = Inr m
   \<and> decode_PublicVirtualKey (json_of_PublicVirtualKey k) = Inr k"
proof (intro conjI allI impI)
  show "UserInput_fields True j = Inr i" if "json_of_UserInput i = Inr j" for i j
    using that by (cases "UI_Status i = ''''") (auto simp: input_json UserInput_fields_def known_fields_def codec_simps)
  show "ProviderInput_fields True j = Inr i" if "json_of_ProviderInput i = Inr j" for i j
    using that by (cases "PI_Status i = ''''") (auto simp: input_json ProviderInput_fields_def known_fields_def codec_simps)
  show "ModelInput_fields True j = Inr i" if "json_of_ModelInput i = Inr j" for i j
    using that by (cases "MI_Status i = ''''") (auto simp: input_json ModelInput_fields_def known_fields_def codec_simps)
  show "VirtualKeyInput_fields True j = Inr i" if "json_of_VirtualKeyInput i = Inr j" for i j
    using that by (cases "KI_Status i = ''''"; cases "KI_ExpiresAt i")
      (auto simp: input_json VirtualKeyInput_fields_def known_fields_def fail_if_def codec_simps split: if_splits)
  show "decode_User (json_of_User u) = Inr u" "decode_Provider (json_of_Provider p) = Inr p" "decode_Model (json_of_Model m) = Inr m"
    by (simp_all add: json_of_User_def json_of_Provider_def json_of_Model_def codec_simps)
  show "decode_PublicVirtualKey (json_of_PublicVirtualKey k) = Inr k"
    by (cases "PVK_ExpiresAt k") (simp_all add: json_of_PublicVirtualKey_def codec_simps)
qed

theorem admin_wire_agrees_witness:
  "UserInput_fields True (JObj [(''name'', JStr ''Eve''), (''email'', JStr ''eve@example.com'')]) =
     Inr \<lparr>UI_Name = ''Eve'', UI_Email = ''eve@example.com'', UI_Status = ''''\<rparr>"
  using conjunct1 [OF admin_wire_agrees, rule_format, of "\<lparr>UI_Name = ''Eve'', UI_Email = ''eve@example.com'', UI_Status = ''''\<rparr>"]
  by (simp add: json_of_UserInput_def omit_status_def)

end
