(* ===== verification/Session.thy ===== *)
theory Session
  imports Services "HOL-Library.AList"
begin

text \<open>
  File \<^verbatim>\<open>internal/adminui/session.go\<close>: the sessions of the admin UI. The two Go maps are association
  lists with distinct keys; the operations do not depend on the order in which a map is ranged over.
  The source of randomness is a reader state \<open>'r\<close> with the operation \<open>ReadFull\<close>; the clock reading of an
  operation is its argument \<open>now\<close>. Each method holds the mutex, so it is one step.
\<close>

section \<open>State\<close>

record flashMessage =
  Flash_Kind :: string
  Flash_Message :: string

record storedSession =
  Authenticated :: bool
  CSRFToken :: string
  ExpiresAt :: time
  Flashes :: "flashMessage list"
  KeyCreationToken :: "(string \<times> time) list"

record sessionSnapshot =
  Snap_ID :: string
  Snap_Authenticated :: bool
  Snap_CSRFToken :: string
  Snap_ExpiresAt :: time

record 'r sessionStore =
  sessions :: "(string \<times> storedSession) list"
  random :: 'r
  ReadFull :: "nat \<Rightarrow> 'r \<Rightarrow> nat list result \<times> 'r"
  ttl :: int
  maxSessions :: nat

definition sessionIDBytes :: nat where "sessionIDBytes = 32"
definition csrfTokenBytes :: nat where "csrfTokenBytes = 32"
definition operationTokenBytes :: nat where "operationTokenBytes = 24"
definition defaultMaxSessions :: nat where "defaultMaxSessions = 4096"
definition maxPendingKeyCreations :: nat where "maxPendingKeyCreations = 8"
definition keyCreationTokenLifetime :: int where "keyCreationTokenLifetime = 15 * 60 * nanosecond_per_second"

definition newSessionStore :: "(nat \<Rightarrow> 'r \<Rightarrow> nat list result \<times> 'r) \<Rightarrow> 'r \<Rightarrow> int \<Rightarrow> 'r sessionStore" where
  "newSessionStore read reader lifetime =
     \<lparr>sessions = [], random = reader, ReadFull = read, ttl = lifetime, maxSessions = defaultMaxSessions\<rparr>"

section \<open>Operations\<close>

definition randomToken :: "nat \<Rightarrow> ('r sessionStore, string) step" where
  "randomToken nbytes s =
     (case ReadFull s nbytes (random s) of
        (Inl err, r) \<Rightarrow> (Inl err, s\<lparr>random := r\<rparr>)
      | (Inr value, r) \<Rightarrow> (Inr (RawURLEncoding value), s\<lparr>random := r\<rparr>))"

definition live_tokens :: "time \<Rightarrow> (string \<times> time) list \<Rightarrow> (string \<times> time) list" where
  "live_tokens now tokens = filter (\<lambda>(token, expiresAt). After expiresAt now) tokens"

definition cleanupLocked :: "time \<Rightarrow> 'r sessionStore \<Rightarrow> 'r sessionStore" where
  "cleanupLocked now s =
     s\<lparr>sessions := map (\<lambda>(rid, x). (rid, x\<lparr>KeyCreationToken := live_tokens now (KeyCreationToken x)\<rparr>))
         (filter (\<lambda>(rid, x). After (ExpiresAt x) now) (sessions s))\<rparr>"

text \<open>The loop \<^verbatim>\<open>for range 4\<close> of \<^verbatim>\<open>create\<close>, with the attempts that are left.\<close>

fun create_loop :: "nat \<Rightarrow> time \<Rightarrow> bool \<Rightarrow> ('r sessionStore, sessionSnapshot) step" where
  "create_loop 0 now authenticated s = (Inl (LibraryError ''could not allocate a unique session''), s)"
| "create_loop (Suc n) now authenticated s =
     sbind (randomToken sessionIDBytes) (\<lambda>rid s1.
       if map_of (sessions s1) rid \<noteq> None then create_loop n now authenticated s1
       else sbind (randomToken csrfTokenBytes) (\<lambda>csrf s2.
         let expires = now + ttl s2 in
         (Inr \<lparr>Snap_ID = rid, Snap_Authenticated = authenticated, Snap_CSRFToken = csrf, Snap_ExpiresAt = expires\<rparr>,
          s2\<lparr>sessions := AList.update rid \<lparr>Authenticated = authenticated, CSRFToken = csrf, ExpiresAt = expires,
              Flashes = [], KeyCreationToken = []\<rparr> (sessions s2)\<rparr>)) s1) s"

definition create :: "time \<Rightarrow> bool \<Rightarrow> ('r sessionStore, sessionSnapshot) step" where
  "create now authenticated s0 =
     (let s = cleanupLocked now s0 in
      if length (sessions s) \<ge> maxSessions s then (Inl (LibraryError ''session capacity reached''), s)
      else create_loop 4 now authenticated s)"

definition load :: "time \<Rightarrow> string \<Rightarrow> 'r sessionStore \<Rightarrow> sessionSnapshot option \<times> 'r sessionStore" where
  "load now rid s0 =
     (if rid = '''' then (None, s0)
      else let s = cleanupLocked now s0 in
        (map_option (\<lambda>x. \<lparr>Snap_ID = rid, Snap_Authenticated = Authenticated x, Snap_CSRFToken = CSRFToken x,
           Snap_ExpiresAt = ExpiresAt x\<rparr>) (map_of (sessions s) rid), s))"

text \<open>\<^verbatim>\<open>platform.SecureEqual\<close> compares two strings in constant time.\<close>

definition verifyCSRF :: "time \<Rightarrow> string \<Rightarrow> string \<Rightarrow> 'r sessionStore \<Rightarrow> bool \<times> 'r sessionStore" where
  "verifyCSRF now rid candidate s =
     (case load now rid s of
        (None, s') \<Rightarrow> (False, s')
      | (Some snapshot, s') \<Rightarrow> (candidate \<noteq> '''' \<and> Snap_CSRFToken snapshot = candidate, s'))"

definition destroy :: "string \<Rightarrow> 'r sessionStore \<Rightarrow> 'r sessionStore" where
  "destroy rid s = s\<lparr>sessions := AList.delete rid (sessions s)\<rparr>"

text \<open>A change of the stored session in place (\<^verbatim>\<open>stored\<close> is a pointer into the map).\<close>

definition put_session :: "string \<Rightarrow> storedSession \<Rightarrow> 'r sessionStore \<Rightarrow> 'r sessionStore" where
  "put_session rid x s = s\<lparr>sessions := AList.update rid x (sessions s)\<rparr>"

definition addFlash :: "time \<Rightarrow> string \<Rightarrow> flashMessage \<Rightarrow> 'r sessionStore \<Rightarrow> 'r sessionStore" where
  "addFlash now rid flash s =
     (case map_of (sessions s) rid of
        None \<Rightarrow> s
      | Some x \<Rightarrow> if \<not> After (ExpiresAt x) now then s else put_session rid (x\<lparr>Flashes := Flashes x @ [flash]\<rparr>) s)"

definition takeFlashes :: "time \<Rightarrow> string \<Rightarrow> 'r sessionStore \<Rightarrow> flashMessage list \<times> 'r sessionStore" where
  "takeFlashes now rid s =
     (case map_of (sessions s) rid of
        None \<Rightarrow> ([], s)
      | Some x \<Rightarrow> if \<not> After (ExpiresAt x) now then ([], s) else (Flashes x, put_session rid (x\<lparr>Flashes := []\<rparr>) s))"

text \<open>The loop of \<^verbatim>\<open>issueKeyCreationToken\<close>.\<close>

fun issue_loop :: "nat \<Rightarrow> time \<Rightarrow> string \<Rightarrow> storedSession \<Rightarrow> ('r sessionStore, string) step" where
  "issue_loop 0 now rid x s = (Inl (LibraryError ''could not allocate a unique key-creation token''), s)"
| "issue_loop (Suc n) now rid x s =
     sbind (randomToken operationTokenBytes) (\<lambda>token s1.
       if map_of (KeyCreationToken x) token \<noteq> None then issue_loop n now rid x s1
       else let lifetime = now + keyCreationTokenLifetime;
                expires = (if After lifetime (ExpiresAt x) then ExpiresAt x else lifetime) in
         (Inr token, put_session rid (x\<lparr>KeyCreationToken := AList.update token expires (KeyCreationToken x)\<rparr>) s1)) s"

definition issueKeyCreationToken :: "time \<Rightarrow> string \<Rightarrow> ('r sessionStore, string) step" where
  "issueKeyCreationToken now rid s0 =
     (case map_of (sessions s0) rid of
        None \<Rightarrow> (Inl (LibraryError ''authenticated session is required''), s0)
      | Some x0 \<Rightarrow>
          if \<not> Authenticated x0 \<or> \<not> After (ExpiresAt x0) now
          then (Inl (LibraryError ''authenticated session is required''), s0)
          else
            let x = x0\<lparr>KeyCreationToken := live_tokens now (KeyCreationToken x0)\<rparr>; s = put_session rid x s0 in
            if length (KeyCreationToken x) \<ge> maxPendingKeyCreations
            then (Inl (LibraryError ''too many pending key-creation forms''), s)
            else issue_loop 4 now rid x s)"

definition consumeKeyCreationToken :: "time \<Rightarrow> string \<Rightarrow> string \<Rightarrow> 'r sessionStore \<Rightarrow> bool \<times> 'r sessionStore" where
  "consumeKeyCreationToken now rid candidate s =
     (if candidate = '''' then (False, s)
      else case map_of (sessions s) rid of
        None \<Rightarrow> (False, s)
      | Some x \<Rightarrow>
          if \<not> Authenticated x \<or> \<not> After (ExpiresAt x) now then (False, s)
          else
            let spent = put_session rid (x\<lparr>KeyCreationToken := AList.delete candidate (KeyCreationToken x)\<rparr>) s in
            case map_of (KeyCreationToken x) candidate of
              None \<Rightarrow> (False, spent)
            | Some expiresAt \<Rightarrow> (After expiresAt now, spent))"

definition randomValue :: "nat \<Rightarrow> ('r sessionStore, string) step" where
  "randomValue nbytes = randomToken nbytes"


section \<open>Lemmas on the two maps\<close>

definition session_ok :: "storedSession \<Rightarrow> bool" where
  "session_ok x \<longleftrightarrow> distinct (map fst (KeyCreationToken x)) \<and> length (KeyCreationToken x) \<le> maxPendingKeyCreations \<and>
     (\<forall>(token, expiresAt) \<in> set (KeyCreationToken x). expiresAt \<le> ExpiresAt x)"

definition store_ok :: "'r sessionStore \<Rightarrow> bool" where
  "store_ok s \<longleftrightarrow> distinct (map fst (sessions s)) \<and> length (sessions s) \<le> maxSessions s \<and>
     maxSessions s = defaultMaxSessions \<and> (\<forall>rid x. map_of (sessions s) rid = Some x \<longrightarrow> session_ok x)"

lemma length_update: "length (AList.update k v xs) = (if k \<in> fst ` set xs then length xs else Suc (length xs))"
  by (induction xs) auto

lemma length_delete_le: "length (AList.delete k xs) \<le> length xs"
  by (simp add: AList.delete_eq)

lemma lookup_kept:
  assumes "distinct (map fst entries)"
  shows "map_of (filter keep entries) name = Option.bind (map_of entries name) (\<lambda>x. if keep (name, x) then Some x else None)"
  using assms
proof (induction entries)
  case (Cons e entries)
  then have "map_of (filter keep entries) (fst e) = None" by (auto simp: map_of_eq_None_iff)
  with Cons show ?case by (cases "fst e = name") auto
qed simp

lemma map_of_map_values: "map_of (map (\<lambda>(k, v). (k, f v)) xs) k = map_option f (map_of xs k)"
  by (induction xs) auto

lemma map_of_live: "distinct (map fst ts) \<Longrightarrow>
    map_of (live_tokens now ts) t = (case map_of ts t of None \<Rightarrow> None | Some e \<Rightarrow> if After e now then Some e else None)"
  by (simp add: live_tokens_def lookup_kept split: option.split)

lemma sessions_cleanup:
  "distinct (map fst (sessions s)) \<Longrightarrow> map_of (sessions (cleanupLocked now s)) rid =
     (case map_of (sessions s) rid of None \<Rightarrow> None
      | Some x \<Rightarrow> if After (ExpiresAt x) now then Some (x\<lparr>KeyCreationToken := live_tokens now (KeyCreationToken x)\<rparr>) else None)"
  by (simp add: cleanupLocked_def map_of_map_values lookup_kept split: option.splits)

lemma fst_map_values: "map fst (map (\<lambda>(k, v). (k, f v)) xs) = map fst xs"
  by (induction xs) auto

lemma session_ok_filter: "session_ok x \<Longrightarrow> session_ok (x\<lparr>KeyCreationToken := filter P (KeyCreationToken x)\<rparr>)"
  by (auto simp: session_ok_def distinct_map_filter intro: le_trans [OF length_filter_le])

lemma session_ok_live: "session_ok x \<Longrightarrow> session_ok (x\<lparr>KeyCreationToken := live_tokens now (KeyCreationToken x)\<rparr>)"
  unfolding live_tokens_def by (rule session_ok_filter)

lemma cleanup_ok: "store_ok s \<Longrightarrow> store_ok (cleanupLocked now s)"
proof -
  assume ok: "store_ok s"
  then have d: "distinct (map fst (sessions s))" by (simp add: store_ok_def)
  have "map fst (sessions (cleanupLocked now s)) = map fst (filter (\<lambda>(rid, x). After (ExpiresAt x) now) (sessions s))"
    by (simp add: cleanupLocked_def fst_map_values del: map_map)
  then have "distinct (map fst (sessions (cleanupLocked now s)))" using d by (simp add: distinct_map_filter)
  moreover have "length (sessions (cleanupLocked now s)) \<le> length (sessions s)" by (simp add: cleanupLocked_def)
  moreover have "maxSessions (cleanupLocked now s) = maxSessions s" by (simp add: cleanupLocked_def)
  ultimately show ?thesis
    using ok by (auto simp: store_ok_def sessions_cleanup [OF d] intro: session_ok_live split: option.splits if_splits)
qed

lemma put_ok:
  assumes "store_ok s" "map_of (sessions s) rid = Some x0" "session_ok x"
  shows "store_ok (put_session rid x s)"
  using assms
  by (auto simp: store_ok_def put_session_def length_update distinct_update update_conv' split: if_splits
      dest: map_of_SomeD intro: rev_image_eqI)

lemma map_of_put [simp]: "map_of (sessions (put_session rid x s)) = (map_of (sessions s))(rid \<mapsto> x)"
  by (simp add: put_session_def update_conv')

lemma randomToken_frame: "randomToken n s = (r, s') \<Longrightarrow> sessions s' = sessions s \<and> maxSessions s' = maxSessions s \<and> ttl s' = ttl s \<and> ReadFull s' = ReadFull s"
  by (auto simp: randomToken_def split: prod.splits sum.splits)

definition drawn :: "nat \<Rightarrow> 'r sessionStore \<Rightarrow> string \<Rightarrow> bool" where
  "drawn n s token \<longleftrightarrow> (\<exists>t t'. randomToken n t = (Inr token, t') \<and> ReadFull t = ReadFull s)"

lemma drawnI: "randomToken n s = (Inr token, s') \<Longrightarrow> drawn n s token"
  by (auto simp: drawn_def)

lemma drawn_cong: "ReadFull s1 = ReadFull s \<Longrightarrow> drawn n s1 = drawn n s"
  by (simp add: drawn_def fun_eq_iff)

text \<open>What one attempt of a loop does, whatever came before it.\<close>

lemma create_loop_cases:
  assumes "create_loop n now auth s = (r, s')"
  shows "(\<exists>e. r = Inl e) \<and> sessions s' = sessions s \<and> maxSessions s' = maxSessions s
    \<or> (\<exists>snap. r = Inr snap \<and> Snap_Authenticated snap = auth \<and> Snap_ExpiresAt snap = now + ttl s
        \<and> drawn sessionIDBytes s (Snap_ID snap)
        \<and> map_of (sessions s) (Snap_ID snap) = None \<and> maxSessions s' = maxSessions s
        \<and> sessions s' = AList.update (Snap_ID snap) \<lparr>Authenticated = auth, CSRFToken = Snap_CSRFToken snap, ExpiresAt = now + ttl s,
              Flashes = [], KeyCreationToken = []\<rparr> (sessions s))"
  using assms
proof (induction n arbitrary: s)
  case (Suc n)
  obtain r1 s1 where 1: "randomToken sessionIDBytes s = (r1, s1)" by force
  note f1 = randomToken_frame [OF 1]
  show ?case
  proof (cases r1)
    case (Inl e)
    with Suc.prems 1 f1 show ?thesis by (auto simp: sbind_def)
  next
    case (Inr rid)
    show ?thesis
    proof (cases "map_of (sessions s1) rid = None")
      case False
      with Suc.prems 1 Inr have "create_loop n now auth s1 = (r, s')" by (auto simp: sbind_def)
      from Suc.IH [OF this] f1 show ?thesis by (simp add: drawn_cong [of s1 s])
    next
      case True
      obtain r2 s2 where 2: "randomToken csrfTokenBytes s1 = (r2, s2)" by force
      note f2 = randomToken_frame [OF 2]
      from Suc.prems 1 2 Inr True f1 f2 drawnI [OF 1 [unfolded Inr]] show ?thesis by (cases r2) (auto simp: sbind_def Let_def)
    qed
  qed
qed auto

lemma issue_loop_cases:
  assumes "issue_loop n now rid x s = (r, s')"
  shows "(\<exists>e. r = Inl e) \<and> sessions s' = sessions s \<and> maxSessions s' = maxSessions s
    \<or> (\<exists>token. r = Inr token \<and> drawn operationTokenBytes s token
        \<and> map_of (KeyCreationToken x) token = None \<and> maxSessions s' = maxSessions s
        \<and> sessions s' = AList.update rid (x\<lparr>KeyCreationToken := AList.update token
             (min (now + keyCreationTokenLifetime) (ExpiresAt x)) (KeyCreationToken x)\<rparr>) (sessions s))"
  using assms
proof (induction n arbitrary: s)
  case (Suc n)
  obtain r1 s1 where 1: "randomToken operationTokenBytes s = (r1, s1)" by force
  note f1 = randomToken_frame [OF 1]
  show ?case
  proof (cases r1)
    case (Inl e)
    with Suc.prems 1 f1 show ?thesis by (auto simp: sbind_def)
  next
    case (Inr token)
    show ?thesis
    proof (cases "map_of (KeyCreationToken x) token = None")
      case False
      with Suc.prems 1 Inr have "issue_loop n now rid x s1 = (r, s')" by (auto simp: sbind_def)
      from Suc.IH [OF this] f1 show ?thesis by (simp add: drawn_cong [of s1 s])
    next
      case True
      have "(if After (now + keyCreationTokenLifetime) (ExpiresAt x) then ExpiresAt x else now + keyCreationTokenLifetime) =
          min (now + keyCreationTokenLifetime) (ExpiresAt x)" by (simp add: After_def min_def)
      with Suc.prems 1 Inr True f1 drawnI [OF 1 [unfolded Inr]] show ?thesis by (auto simp: sbind_def Let_def put_session_def)
    qed
  qed
qed auto


section \<open>Runs\<close>

text \<open>
  One method call; the label is the pair of session and token that the call issued. The clock may read
  anything.
\<close>

inductive session_step :: "'r sessionStore \<Rightarrow> (string \<times> string) option \<Rightarrow> 'r sessionStore \<Rightarrow> bool" where
  do_create: "create now auth s = (r, s') \<Longrightarrow> session_step s None s'"
| do_load: "load now rid s = (l, s') \<Longrightarrow> session_step s None s'"
| do_verify: "verifyCSRF now rid candidate s = (b, s') \<Longrightarrow> session_step s None s'"
| do_destroy: "session_step s None (destroy rid s)"
| do_addFlash: "session_step s None (addFlash now rid flash s)"
| do_takeFlashes: "takeFlashes now rid s = (fs, s') \<Longrightarrow> session_step s None s'"
| do_issue: "issueKeyCreationToken now rid s = (Inr token, s') \<Longrightarrow> session_step s (Some (rid, token)) s'"
| do_issue_fails: "issueKeyCreationToken now rid s = (Inl e, s') \<Longrightarrow> session_step s None s'"
| do_consume: "consumeKeyCreationToken now rid candidate s = (b, s') \<Longrightarrow> session_step s None s'"
| do_randomValue: "randomValue n s = (t, s') \<Longrightarrow> session_step s None s'"

inductive session_run :: "'r sessionStore \<Rightarrow> (string \<times> string) set \<Rightarrow> 'r sessionStore \<Rightarrow> bool" where
  run_refl: "session_run s {} s"
| run_step: "session_run s issued t \<Longrightarrow> session_step t ev u \<Longrightarrow> session_run s (issued \<union> set_option ev) u"

lemma update_ok:
  assumes "store_ok s" "sessions s' = AList.update rid x (sessions s)" "maxSessions s' = maxSessions s" "session_ok x"
    and "map_of (sessions s) rid \<noteq> None \<or> length (sessions s) < maxSessions s"
  shows "store_ok s'"
proof -
  have "rid \<in> fst ` set (sessions s) \<longleftrightarrow> map_of (sessions s) rid \<noteq> None" by (simp add: map_of_eq_None_iff)
  with assms show ?thesis by (auto simp: store_ok_def length_update distinct_update update_conv' split: if_splits)
qed

lemma same_ok: "store_ok s \<Longrightarrow> sessions s' = sessions s \<Longrightarrow> maxSessions s' = maxSessions s \<Longrightarrow> store_ok s'"
  by (simp add: store_ok_def)

lemma create_ok:
  assumes "store_ok s" "create now auth s = (r, s')"
  shows "store_ok s'"
proof (cases "length (sessions (cleanupLocked now s)) \<ge> maxSessions (cleanupLocked now s)")
  case True
  then show ?thesis using assms cleanup_ok by (auto simp: create_def Let_def)
next
  case False
  with assms have "create_loop 4 now auth (cleanupLocked now s) = (r, s')" by (simp add: create_def Let_def)
  from create_loop_cases [OF this] show ?thesis
  proof (elim disjE exE conjE)
    assume "sessions s' = sessions (cleanupLocked now s)" "maxSessions s' = maxSessions (cleanupLocked now s)"
    then show ?thesis by (rule same_ok [OF cleanup_ok [OF assms(1)]])
  next
    fix snap
    assume "maxSessions s' = maxSessions (cleanupLocked now s)"
      "sessions s' = AList.update (Snap_ID snap) \<lparr>Authenticated = auth, CSRFToken = Snap_CSRFToken snap,
         ExpiresAt = now + ttl (cleanupLocked now s), Flashes = [], KeyCreationToken = []\<rparr> (sessions (cleanupLocked now s))"
    then show ?thesis using False by (intro update_ok [OF cleanup_ok [OF assms(1)]]) (auto simp: session_ok_def)
  qed
qed

lemma delete_ok: "store_ok s \<Longrightarrow> store_ok (destroy rid s)"
  using length_delete_le [of rid "sessions s"]
  by (auto simp: store_ok_def destroy_def delete_conv' distinct_delete split: if_splits)

lemma session_ok_token:
  assumes "session_ok x" "length (KeyCreationToken x) < maxPendingKeyCreations" "e \<le> ExpiresAt x"
  shows "session_ok (x\<lparr>KeyCreationToken := AList.update token e (KeyCreationToken x)\<rparr>)"
proof -
  have "(a, b) \<in> set (AList.update token e ts) \<Longrightarrow> (a, b) = (token, e) \<or> (a, b) \<in> set ts" for a b and ts :: "(string \<times> time) list"
    by (induction ts) (auto split: if_splits)
  then show ?thesis using assms by (fastforce simp: session_ok_def distinct_update length_update)
qed

lemma issue_ok:
  assumes "store_ok s" "issueKeyCreationToken now rid s = (r, s')"
  shows "store_ok s'"
proof (cases "map_of (sessions s) rid")
  case None
  then show ?thesis using assms by (simp add: issueKeyCreationToken_def)
next
  case (Some x0)
  let ?x = "x0\<lparr>KeyCreationToken := live_tokens now (KeyCreationToken x0)\<rparr>" and ?s = "put_session rid (x0\<lparr>KeyCreationToken := live_tokens now (KeyCreationToken x0)\<rparr>) s"
  have x: "session_ok ?x" using assms(1) Some by (auto simp: store_ok_def intro: session_ok_live)
  have s: "store_ok ?s" by (rule put_ok [OF assms(1) Some x])
  consider "s' = s" | "s' = ?s" | "length (KeyCreationToken ?x) < maxPendingKeyCreations" "issue_loop 4 now rid ?x ?s = (r, s')"
    using assms(2) Some by (auto simp: issueKeyCreationToken_def Let_def not_le split: if_splits)
  then show ?thesis
  proof cases
    case 3
    from issue_loop_cases [OF 3(2)] show ?thesis
    proof (elim disjE exE conjE)
      assume "sessions s' = sessions ?s" "maxSessions s' = maxSessions ?s"
      then show ?thesis by (rule same_ok [OF s])
    next
      fix token
      assume "maxSessions s' = maxSessions ?s" "sessions s' = AList.update rid (?x\<lparr>KeyCreationToken := AList.update token
             (min (now + keyCreationTokenLifetime) (ExpiresAt ?x)) (KeyCreationToken ?x)\<rparr>) (sessions ?s)"
      then show ?thesis by (intro update_ok [OF s _ _ session_ok_token [OF x 3(1)]]) auto
    qed
  qed (use assms s in auto)
qed

lemma consume_ok:
  assumes "store_ok s" "consumeKeyCreationToken now rid candidate s = (b, s')"
  shows "store_ok s'"
proof (cases "map_of (sessions s) rid")
  case (Some x)
  have "session_ok (x\<lparr>KeyCreationToken := AList.delete candidate (KeyCreationToken x)\<rparr>)"
    unfolding AList.delete_eq using assms(1) Some by (intro session_ok_filter) (auto simp: store_ok_def)
  then have "store_ok (put_session rid (x\<lparr>KeyCreationToken := AList.delete candidate (KeyCreationToken x)\<rparr>) s)"
    by (rule put_ok [OF assms(1) Some])
  with assms Some show ?thesis by (auto simp: consumeKeyCreationToken_def Let_def split: if_splits option.splits)
qed (use assms in \<open>auto simp: consumeKeyCreationToken_def split: if_splits\<close>)

lemma flash_ok: "session_ok x \<Longrightarrow> session_ok (x\<lparr>Flashes := fs\<rparr>)"
  by (simp add: session_ok_def)

lemma step_ok:
  assumes "session_step s ev s'" "store_ok s"
  shows "store_ok s'"
  using assms
proof (induction rule: session_step.induct)
  case (do_load now rid s l s')
  then show ?case by (auto simp: load_def Let_def cleanup_ok split: if_splits)
next
  case (do_verify now rid candidate s b s')
  then show ?case by (auto simp: verifyCSRF_def load_def Let_def cleanup_ok split: if_splits prod.splits option.splits)
next
  case (do_addFlash s now rid flash)
  then show ?case by (auto simp: addFlash_def split: option.splits intro!: put_ok flash_ok) (auto simp: store_ok_def)
next
  case (do_takeFlashes now rid s fs s')
  then show ?case by (auto simp: takeFlashes_def split: option.splits if_splits intro!: put_ok flash_ok) (auto simp: store_ok_def)
next
  case (do_randomValue n s t s')
  then show ?case using randomToken_frame by (metis randomValue_def same_ok)
qed (auto intro: create_ok delete_ok issue_ok consume_ok)

lemma run_ok: "session_run s issued s' \<Longrightarrow> store_ok s \<Longrightarrow> store_ok s'"
  by (induction rule: session_run.induct) (auto intro: step_ok)

lemma new_ok: "store_ok (newSessionStore read reader lifetime)"
  by (simp add: store_ok_def newSessionStore_def)


section \<open>Pending tokens\<close>

definition pending :: "'r sessionStore \<Rightarrow> string \<Rightarrow> string \<Rightarrow> time option" where
  "pending s rid token = Option.bind (map_of (sessions s) rid) (\<lambda>x. map_of (KeyCreationToken x) token)"

lemma pending_cleanup: "store_ok s \<Longrightarrow> pending s rid token = None \<Longrightarrow> pending (cleanupLocked now s) rid token = None"
  by (auto simp: pending_def store_ok_def session_ok_def sessions_cleanup map_of_live split: option.splits)

lemma pending_put: "pending (put_session rid' x s) rid token = (if rid = rid' then map_of (KeyCreationToken x) token else pending s rid token)"
  by (simp add: pending_def)

lemma pending_same: "sessions s' = sessions s \<Longrightarrow> pending s' = pending s"
  by (simp add: pending_def fun_eq_iff)

lemma pending_create:
  assumes "store_ok s" "create now auth s = (r, s')" "pending s rid token = None"
  shows "pending s' rid token = None"
proof (cases "length (sessions (cleanupLocked now s)) \<ge> maxSessions (cleanupLocked now s)")
  case True
  then show ?thesis using assms pending_cleanup by (auto simp: create_def Let_def)
next
  case False
  note clean = pending_cleanup [OF assms(1,3), of now]
  from False assms have "create_loop 4 now auth (cleanupLocked now s) = (r, s')" by (simp add: create_def Let_def)
  from create_loop_cases [OF this] clean show ?thesis by (auto simp: pending_def update_conv')
qed

lemma pending_issue:
  assumes "store_ok s" "issueKeyCreationToken now rid' s = (r, s')" "pending s rid token = None" "\<not> (rid = rid' \<and> r = Inr token)"
  shows "pending s' rid token = None"
proof (cases "map_of (sessions s) rid'")
  case None
  then show ?thesis using assms by (simp add: issueKeyCreationToken_def)
next
  case (Some x0)
  let ?x = "x0\<lparr>KeyCreationToken := live_tokens now (KeyCreationToken x0)\<rparr>" and ?s = "put_session rid' (x0\<lparr>KeyCreationToken := live_tokens now (KeyCreationToken x0)\<rparr>) s"
  have d: "distinct (map fst (KeyCreationToken x0))" using assms(1) Some by (auto simp: store_ok_def session_ok_def)
  have x: "rid = rid' \<Longrightarrow> map_of (KeyCreationToken ?x) token = None"
    using assms(3) Some by (simp add: pending_def map_of_live [OF d])
  then have put: "pending ?s rid token = None" using assms(3) by (simp add: pending_put)
  consider "s' = s" | "s' = ?s" | "issue_loop 4 now rid' ?x ?s = (r, s')"
    using assms(2) Some by (auto simp: issueKeyCreationToken_def Let_def split: if_splits)
  then show ?thesis
  proof cases
    case 3
    from issue_loop_cases [OF 3] show ?thesis
    proof (elim disjE exE conjE)
      assume "sessions s' = sessions ?s"
      then have "pending s' = pending ?s" by (rule pending_same)
      then show ?thesis using put by simp
    next
      fix t assume "r = Inr t" and upd: "sessions s' = AList.update rid' (?x\<lparr>KeyCreationToken := AList.update t
             (min (now + keyCreationTokenLifetime) (ExpiresAt ?x)) (KeyCreationToken ?x)\<rparr>) (sessions ?s)"
      then show ?thesis using assms(3,4) x by (auto simp: pending_def upd update_conv' put_session_def)
    qed
  qed (use assms put in auto)
qed

lemma pending_step:
  assumes "session_step s ev s'" "store_ok s" "pending s rid token = None" "ev \<noteq> Some (rid, token)"
  shows "pending s' rid token = None"
  using assms
proof (induction rule: session_step.induct)
  case (do_load now rid' s l s')
  then show ?case by (auto simp: load_def Let_def pending_cleanup split: if_splits)
next
  case (do_verify now rid' candidate s b s')
  then show ?case by (auto simp: verifyCSRF_def load_def Let_def pending_cleanup split: if_splits prod.splits option.splits)
next
  case (do_destroy s rid')
  then show ?case by (auto simp: destroy_def pending_def delete_conv' split: if_splits)
next
  case (do_addFlash s now rid' flash)
  then show ?case by (auto simp: addFlash_def pending_put split: option.splits) (auto simp: pending_def)
next
  case (do_takeFlashes now rid' s fs s')
  then show ?case by (auto simp: takeFlashes_def pending_put split: option.splits if_splits) (auto simp: pending_def)
next
  case (do_consume now rid' candidate s b s')
  then show ?case
    by (auto simp: consumeKeyCreationToken_def Let_def pending_put delete_conv' split: option.splits if_splits) (auto simp: pending_def)
next
  case (do_randomValue n s t s')
  then show ?case using randomToken_frame pending_same by (metis randomValue_def)
qed (auto intro: pending_create pending_issue)

lemma pending_run:
  assumes "session_run s issued s'" "store_ok s" "pending s rid token = None" "(rid, token) \<notin> issued"
  shows "pending s' rid token = None"
  using assms
proof (induction rule: session_run.induct)
  case (run_step s issued t ev u)
  then show ?case using pending_step [OF run_step.hyps(2) run_ok [OF run_step.hyps(1)]] by auto
qed

lemma consume_True_iff:
  "fst (consumeKeyCreationToken now rid token s) \<longleftrightarrow> token \<noteq> '''' \<and>
     (\<exists>x e. map_of (sessions s) rid = Some x \<and> Authenticated x \<and> After (ExpiresAt x) now \<and>
        map_of (KeyCreationToken x) token = Some e \<and> After e now)"
  by (auto simp: consumeKeyCreationToken_def Let_def split: option.splits)

lemma consume_spends:
  "consumeKeyCreationToken now rid token s = (True, s') \<Longrightarrow> pending s' rid token = None"
  by (auto simp: consumeKeyCreationToken_def Let_def pending_put delete_conv' split: option.splits if_splits)


lemma RawURLEncoding_nonempty: "bs \<noteq> [] \<Longrightarrow> RawURLEncoding bs \<noteq> []"
  by (cases bs rule: RawURLEncoding.cases) (auto simp: Let_def)

text \<open>\<^verbatim>\<open>io.ReadFull\<close> fills the buffer or fails.\<close>

definition reads_full :: "(nat \<Rightarrow> 'r \<Rightarrow> nat list result \<times> 'r) \<Rightarrow> bool" where
  "reads_full read \<longleftrightarrow> (\<forall>n r bytes r'. read n r = (Inr bytes, r') \<longrightarrow> length bytes = n)"

lemma drawn_nonempty:
  assumes "drawn n s token" "reads_full (ReadFull s)" "n > 0"
  shows "token \<noteq> []"
proof -
  from assms(1) obtain t t' where t: "randomToken n t = (Inr token, t')" "ReadFull t = ReadFull s" unfolding drawn_def by blast
  obtain r' y where y: "ReadFull t n (random t) = (y, r')" by force
  with t obtain bytes where "ReadFull s n (random t) = (Inr bytes, r')" "token = RawURLEncoding bytes"
    by (cases y) (auto simp: randomToken_def)
  then have "length bytes = n" "token = RawURLEncoding bytes" using assms(2) unfolding reads_full_def by blast+
  then show ?thesis using RawURLEncoding_nonempty [of bytes] assms(3) by auto
qed

lemma issue_pending:
  assumes "issueKeyCreationToken now rid s = (Inr token, s')"
  obtains x x' where "map_of (sessions s) rid = Some x" "map_of (sessions s') rid = Some x'" "Authenticated x'" "ExpiresAt x' = ExpiresAt x"
    "map_of (KeyCreationToken x') token = Some (min (now + keyCreationTokenLifetime) (ExpiresAt x))" "drawn operationTokenBytes s token"
proof -
  from assms obtain x where x: "map_of (sessions s) rid = Some x" "Authenticated x"
    by (auto simp: issueKeyCreationToken_def split: option.splits if_splits)
  let ?x = "x\<lparr>KeyCreationToken := live_tokens now (KeyCreationToken x)\<rparr>" and ?s = "put_session rid (x\<lparr>KeyCreationToken := live_tokens now (KeyCreationToken x)\<rparr>) s"
  from assms x have loop: "issue_loop 4 now rid ?x ?s = (Inr token, s')"
    by (auto simp: issueKeyCreationToken_def Let_def split: if_splits)
  let ?x' = "?x\<lparr>KeyCreationToken := AList.update token (min (now + keyCreationTokenLifetime) (ExpiresAt ?x)) (KeyCreationToken ?x)\<rparr>"
  from issue_loop_cases [OF loop] have "sessions s' = AList.update rid ?x' (sessions ?s)" and d: "drawn operationTokenBytes ?s token" by auto
  then have "map_of (sessions s') rid = Some ?x'" by (simp add: update_conv')
  moreover have "drawn operationTokenBytes s token" using d by (simp add: drawn_def put_session_def)
  ultimately show thesis using that [OF x(1), of ?x'] x(2) by (simp add: update_conv')
qed

lemma create_stored:
  assumes "create now auth s = (Inr snap, s')"
  shows "Snap_Authenticated snap = auth \<and> Snap_ExpiresAt snap = now + ttl s \<and> drawn sessionIDBytes s (Snap_ID snap)
    \<and> map_of (sessions (cleanupLocked now s)) (Snap_ID snap) = None
    \<and> sessions s' = AList.update (Snap_ID snap) \<lparr>Authenticated = auth, CSRFToken = Snap_CSRFToken snap, ExpiresAt = now + ttl s,
          Flashes = [], KeyCreationToken = []\<rparr> (sessions (cleanupLocked now s))"
proof -
  from assms have "create_loop 4 now auth (cleanupLocked now s) = (Inr snap, s')"
    by (auto simp: create_def Let_def split: if_splits)
  from create_loop_cases [OF this] show ?thesis by (auto simp: cleanupLocked_def drawn_def)
qed

section \<open>Properties\<close>

text \<open>
  The admin UI's session store is bounded and consistent. In every state reachable from a new store,
  through any calls at any clock readings, there are at most 4096 sessions, each with its own ID and with at most 8 pending
  key-creation tokens, and no token outlives its session.
\<close>

lemma session_store_bounded:
  assumes "session_run (newSessionStore read reader lifetime) issued s"
  shows "distinct (map fst (sessions s)) \<and> length (sessions s) \<le> 4096
    \<and> (\<forall>rid x. map_of (sessions s) rid = Some x \<longrightarrow>
        distinct (map fst (KeyCreationToken x)) \<and> length (KeyCreationToken x) \<le> 8
        \<and> (\<forall>(token, expiresAt) \<in> set (KeyCreationToken x). expiresAt \<le> ExpiresAt x))"
  using run_ok [OF assms new_ok] by (simp add: store_ok_def session_ok_def maxPendingKeyCreations_def defaultMaxSessions_def)

definition counting :: "nat \<Rightarrow> nat \<Rightarrow> nat list result \<times> nat" where
  "counting n r = (Inr (replicate n r), Suc r)"

lemma counting_full: "reads_full counting"
  by (simp add: reads_full_def counting_def)

definition demo_sessions :: "nat sessionStore" where
  "demo_sessions = (newSessionStore counting 0 100)\<lparr>random := 2, sessions := [(RawURLEncoding (replicate 32 0),
     \<lparr>Authenticated = True, CSRFToken = RawURLEncoding (replicate 32 1), ExpiresAt = 105, Flashes = [], KeyCreationToken = []\<rparr>)]\<rparr>"

lemmas four_attempts = create_loop.simps(2) [of 3, simplified] issue_loop.simps(2) [of 3, simplified]

lemma demo_create:
  "create 5 True (newSessionStore counting 0 100) =
     (Inr \<lparr>Snap_ID = RawURLEncoding (replicate 32 0), Snap_Authenticated = True, Snap_CSRFToken = RawURLEncoding (replicate 32 1),
        Snap_ExpiresAt = 105\<rparr>, demo_sessions)"
  by (simp add: create_def cleanupLocked_def newSessionStore_def defaultMaxSessions_def four_attempts sbind_def randomToken_def
      counting_def sessionIDBytes_def csrfTokenBytes_def demo_sessions_def del: replicate.simps RawURLEncoding.simps)

lemma demo_run: "session_run (newSessionStore counting 0 100) {} demo_sessions"
  using run_step [OF run_refl do_create [OF demo_create]] by simp

text \<open>
  A key-creation token is good for one use. If a token is accepted in a state reachable from a new
  store then it had been issued to that session, and it is refused from then on, whatever calls follow
  and whatever the clock reads, unless the store draws the same random token again for that session.
\<close>

lemma key_creation_token_single_use:
  assumes before: "session_run (newSessionStore read reader lifetime) issued s"
    and accepted: "consumeKeyCreationToken now rid token s = (True, s')"
    and after: "session_run s' reissued s''" and fresh: "(rid, token) \<notin> reissued"
  shows "(rid, token) \<in> issued \<and> \<not> fst (consumeKeyCreationToken later rid token s'')"
proof
  have ok: "store_ok s" by (rule run_ok [OF before new_ok])
  have "pending s rid token \<noteq> None"
    using accepted consume_True_iff [of now rid token s] by (auto simp: pending_def)
  moreover have "pending (newSessionStore read reader lifetime) rid token = None" by (simp add: pending_def newSessionStore_def)
  ultimately show "(rid, token) \<in> issued" using pending_run [OF before new_ok, of rid token] by (cases "(rid, token) \<in> issued") simp_all
  have "pending s'' rid token = None"
    by (rule pending_run [OF after consume_ok [OF ok accepted] consume_spends [OF accepted] fresh])
  then show "\<not> fst (consumeKeyCreationToken later rid token s'')" by (auto simp: consume_True_iff pending_def)
qed

text \<open>
  An issued key-creation token is accepted: it can be consumed until 15 minutes after it was issued
  or until its session ends, whichever is first.
\<close>

lemma issued_token_accepted:
  assumes "reads_full (ReadFull s)" and "issueKeyCreationToken now rid s = (Inr token, s')"
    and "map_of (sessions s) rid = Some x"
  shows "fst (consumeKeyCreationToken later rid token s') \<longleftrightarrow> later < now + keyCreationTokenLifetime \<and> later < ExpiresAt x"
proof -
  obtain x0 x' where x: "map_of (sessions s) rid = Some x0" "map_of (sessions s') rid = Some x'" "Authenticated x'" "ExpiresAt x' = ExpiresAt x0"
    "map_of (KeyCreationToken x') token = Some (min (now + keyCreationTokenLifetime) (ExpiresAt x0))" "drawn operationTokenBytes s token"
    by (rule issue_pending [OF assms(2)])
  have "token \<noteq> []" by (rule drawn_nonempty [OF x(6) assms(1)]) (simp add: operationTokenBytes_def)
  with x assms(3) show ?thesis by (auto simp: consume_True_iff After_def)
qed

lemma demo_issue:
  obtains s' where "issueKeyCreationToken 6 (RawURLEncoding (replicate 32 0)) demo_sessions = (Inr (RawURLEncoding (replicate 24 2)), s')"
  by (simp add: issueKeyCreationToken_def demo_sessions_def newSessionStore_def put_session_def live_tokens_def After_def Let_def
      maxPendingKeyCreations_def four_attempts sbind_def randomToken_def counting_def operationTokenBytes_def
      del: replicate.simps RawURLEncoding.simps)

text \<open>
  The life of a session. A new session has an ID that no live session has; it is found again, with
  the same snapshot, until its lifetime ends and never after that, and not after it is destroyed; and
  its CSRF check accepts exactly its own token during that time.
\<close>

lemma session_lifecycle:
  assumes ok: "session_run (newSessionStore read reader lifetime) issued s" and reads: "reads_full (ReadFull s)"
    and created: "create now auth s = (Inr snap, s')"
  shows "fst (load now (Snap_ID snap) s) = None
    \<and> fst (load later (Snap_ID snap) s') = (if later < now + ttl s then Some snap else None)
    \<and> fst (load later (Snap_ID snap) (destroy (Snap_ID snap) s')) = None
    \<and> (fst (verifyCSRF later (Snap_ID snap) candidate s') \<longleftrightarrow> later < now + ttl s \<and> candidate \<noteq> '''' \<and> candidate = Snap_CSRFToken snap)"
proof -
  note c = create_stored [OF created]
  have d: "distinct (map fst (sessions s'))" "distinct (map fst (sessions (destroy (Snap_ID snap) s')))"
    using create_ok [OF run_ok [OF ok new_ok] created] delete_ok [of s' "Snap_ID snap"] by (auto simp: store_ok_def)
  have id: "Snap_ID snap \<noteq> []" using drawn_nonempty [of sessionIDBytes s "Snap_ID snap"] c reads by (simp add: sessionIDBytes_def)
  have found: "fst (load later (Snap_ID snap) s') = (if later < now + ttl s then Some snap else None)" for later
    using c id by (cases snap) (auto simp: load_def Let_def sessions_cleanup [OF d(1)] update_conv' After_def)
  moreover have "fst (load now (Snap_ID snap) s) = None" using c id by (simp add: load_def Let_def)
  moreover have "fst (load later (Snap_ID snap) (destroy (Snap_ID snap) s')) = None"
    using id by (simp add: load_def Let_def sessions_cleanup [OF d(2)]) (simp add: destroy_def delete_conv')
  moreover have "fst (verifyCSRF later (Snap_ID snap) candidate s') \<longleftrightarrow>
      later < now + ttl s \<and> candidate \<noteq> [] \<and> candidate = Snap_CSRFToken snap"
    using found [of later] by (auto simp: verifyCSRF_def split: prod.splits option.splits if_splits)
  ultimately show ?thesis by blast
qed

end
