(* ===== verification/Admin_View.thy ===== *)
theory Admin_View
  imports Admin_Client Session
begin

text \<open>
  File \<^verbatim>\<open>internal/adminui/view.go\<close>: the data of a page, the forms of the four resources and their inputs. The
  templates render a page from its name and its data; what they print is not modelled. Formatting and
  parsing of times in a layout (\<^verbatim>\<open>Time.Format\<close>, \<^verbatim>\<open>time.ParseInLocation\<close> in UTC) are a \<open>TimeText\<close>.
\<close>

section \<open>Pages\<close>

record viewError =
  VE_Title :: string
  VE_Detail :: string
  VE_RequestID :: string

record dashboardSection =
  DS_Available :: bool
  DS_Count :: nat
  DS_Error :: string

record confirmView =
  CV_Kind :: string
  CV_Name :: string
  CV_Action :: string
  CV_Cancel :: string
  CV_Warning :: string
  CV_ETag :: string

record lifecycleView =
  LV_Kind :: string
  LV_Name :: string
  LV_Status :: string
  LV_Action :: string
  LV_Cancel :: string
  LV_Warning :: string
  LV_ButtonText :: string
  LV_ETag :: string

record userForm =
  UF_Name :: string
  UF_Email :: string
  UF_Status :: string

record providerForm =
  PF_Slug :: string
  PF_Name :: string
  PF_Kind :: string
  PF_AdapterAppID :: string
  PF_Status :: string

record modelForm =
  MF_Alias :: string
  MF_ProviderID :: string
  MF_UpstreamModel :: string
  MF_Status :: string

record virtualKeyForm =
  KF_Name :: string
  KF_UserID :: string
  KF_ModelIDs :: "string list"
  KF_Status :: string
  KF_ExpiresAt :: string
  KF_OriginalExpiresAt :: string

text \<open>The filters and the forms of a page; at most one form of a page is set.\<close>

record pageFilter =
  PF_Query :: string
  PF_StatusFilter :: string
  PF_UserFilter :: string
  PF_ProviderFilter :: string
  PF_ModelFilter :: string

datatype pageForm = NoForm | UserForm userForm | ProviderForm providerForm | ModelForm modelForm | VirtualKeyForm virtualKeyForm

text \<open>A Go map that is only indexed is the function of its values, with the zero value for the keys it lacks.\<close>

record pageData =
  PD_Title :: string
  PD_Section :: string
  PD_Authenticated :: bool
  PD_CSRFToken :: string
  PD_Flashes :: "flashMessage list"
  PD_Error :: "viewError option"
  PD_StatusCode :: nat
  PD_Warnings :: "string list"
  PD_Filter :: pageFilter
  PD_ResourceSection :: dashboardSection
  PD_KeySection :: dashboardSection
  PD_Users :: "User list"
  PD_Providers :: "Provider list"
  PD_Models :: "Model list"
  PD_VirtualKeys :: "PublicVirtualKey list"
  PD_UserKeyCounts :: "string \<Rightarrow> nat"
  PD_UserNames :: "string \<Rightarrow> string"
  PD_ProviderModelCounts :: "string \<Rightarrow> nat"
  PD_ProviderNames :: "string \<Rightarrow> string"
  PD_ModelKeyCounts :: "string \<Rightarrow> nat"
  PD_ModelNames :: "string \<Rightarrow> string"
  PD_RelationsAvailable :: bool
  PD_UserChoicesAvailable :: bool
  PD_ModelChoicesAvailable :: bool
  PD_Form :: pageForm
  PD_Editing :: bool
  PD_ResourceID :: string
  PD_ResourceETag :: string
  PD_OperationToken :: string
  PD_CreatedKey :: "CreatedVirtualKey option"
  PD_Confirm :: "confirmView option"
  PD_Lifecycle :: "lifecycleView option"

definition no_section :: dashboardSection where "no_section = \<lparr>DS_Available = False, DS_Count = 0, DS_Error = ''''\<rparr>"

definition no_filter :: pageFilter where
  "no_filter = \<lparr>PF_Query = '''', PF_StatusFilter = '''', PF_UserFilter = '''', PF_ProviderFilter = '''', PF_ModelFilter = ''''\<rparr>"

definition no_page :: pageData where
  "no_page = \<lparr>PD_Title = '''', PD_Section = '''', PD_Authenticated = False, PD_CSRFToken = '''', PD_Flashes = [], PD_Error = None,
     PD_StatusCode = 0, PD_Warnings = [], PD_Filter = no_filter, PD_ResourceSection = no_section, PD_KeySection = no_section,
     PD_Users = [], PD_Providers = [], PD_Models = [], PD_VirtualKeys = [], PD_UserKeyCounts = (\<lambda>_. 0), PD_UserNames = (\<lambda>_. ''''),
     PD_ProviderModelCounts = (\<lambda>_. 0), PD_ProviderNames = (\<lambda>_. ''''), PD_ModelKeyCounts = (\<lambda>_. 0), PD_ModelNames = (\<lambda>_. ''''),
     PD_RelationsAvailable = False, PD_UserChoicesAvailable = False, PD_ModelChoicesAvailable = False, PD_Form = NoForm,
     PD_Editing = False, PD_ResourceID = '''', PD_ResourceETag = '''', PD_OperationToken = '''', PD_CreatedKey = None,
     PD_Confirm = None, PD_Lifecycle = None\<rparr>"

section \<open>Errors\<close>

definition view_error :: "string \<Rightarrow> string \<Rightarrow> viewError" where
  "view_error title detail = \<lparr>VE_Title = title, VE_Detail = detail, VE_RequestID = ''''\<rparr>"

fun errorView :: "api_failure \<Rightarrow> viewError \<times> nat" where
  "errorView (APIFailure e) =
     (\<lparr>VE_Title = AE_Title e, VE_Detail = AE_Detail e, VE_RequestID = AE_Instance e\<rparr>,
      if AE_Status e < 400 \<or> AE_Status e > 599 then 502 else AE_Status e)"
| "errorView (OtherFailure err) =
     (view_error ''Administrative operation failed'' ''The operation could not be completed. Try again or inspect the service logs.'', 500)"

section \<open>Forms\<close>

definition userFormFromModel :: "User \<Rightarrow> userForm" where
  "userFormFromModel user = \<lparr>UF_Name = User_Name user, UF_Email = User_Email user, UF_Status = User_Status user\<rparr>"

definition userForm_input :: "userForm \<Rightarrow> UserInput" where
  "userForm_input f = \<lparr>UI_Name = UF_Name f, UI_Email = UF_Email f, UI_Status = UF_Status f\<rparr>"

definition providerFormFromModel :: "Provider \<Rightarrow> providerForm" where
  "providerFormFromModel provider = \<lparr>PF_Slug = Provider_Slug provider, PF_Name = Provider_Name provider, PF_Kind = Provider_Kind provider,
     PF_AdapterAppID = Provider_AdapterAppID provider, PF_Status = Provider_Status provider\<rparr>"

definition providerForm_input :: "providerForm \<Rightarrow> ProviderInput" where
  "providerForm_input f = \<lparr>PI_Slug = PF_Slug f, PI_Name = PF_Name f, PI_Kind = PF_Kind f, PI_AdapterAppID = PF_AdapterAppID f, PI_Status = PF_Status f\<rparr>"

definition modelFormFromModel :: "Model \<Rightarrow> modelForm" where
  "modelFormFromModel model = \<lparr>MF_Alias = Model_Alias model, MF_ProviderID = Model_ProviderID model,
     MF_UpstreamModel = Model_UpstreamModel model, MF_Status = Model_Status model\<rparr>"

definition modelForm_input :: "modelForm \<Rightarrow> ModelInput" where
  "modelForm_input f = \<lparr>MI_Alias = MF_Alias f, MI_ProviderID = MF_ProviderID f, MI_UpstreamModel = MF_UpstreamModel f, MI_Status = MF_Status f\<rparr>"

record TimeText =
  tt_format :: "string \<Rightarrow> time \<Rightarrow> string"             \<comment> \<open>of a layout, in UTC\<close>
  tt_parse :: "string \<Rightarrow> string \<Rightarrow> time option"       \<comment> \<open>in a layout, as UTC without an offset\<close>

definition virtualKeyExpiryMinutesLayout :: string where "virtualKeyExpiryMinutesLayout = ''2006-01-02T15:04''"
definition virtualKeyExpirySecondsLayout :: string where "virtualKeyExpirySecondsLayout = ''2006-01-02T15:04:05''"
definition virtualKeyExpiryDisplayLayout :: string where "virtualKeyExpiryDisplayLayout = ''2006-01-02T15:04:05.999''"
definition RFC3339Nano :: string where "RFC3339Nano = ''2006-01-02T15:04:05.999999999Z07:00''"

definition virtualKeyFormFromModel :: "TimeText \<Rightarrow> PublicVirtualKey \<Rightarrow> virtualKeyForm" where
  "virtualKeyFormFromModel T key =
     (let (expires, originalExpires) =
        (case PVK_ExpiresAt key of
           None \<Rightarrow> ('''', '''')
         | Some timestamp \<Rightarrow> (tt_format T virtualKeyExpiryDisplayLayout timestamp, tt_format T RFC3339Nano timestamp)) in
      \<lparr>KF_Name = PVK_Name key, KF_UserID = PVK_UserID key, KF_ModelIDs = PVK_ModelIDs key, KF_Status = PVK_Status key,
       KF_ExpiresAt = expires, KF_OriginalExpiresAt = originalExpires\<rparr>)"

definition parseVirtualKeyExpiry :: "TimeText \<Rightarrow> string \<Rightarrow> time option" where
  "parseVirtualKeyExpiry T value =
     (if length value = 16 then tt_parse T virtualKeyExpiryMinutesLayout value
      else if length value = 19 then tt_parse T virtualKeyExpirySecondsLayout value
      else if 21 \<le> length value \<and> length value \<le> 23 then
        (if value ! 19 \<noteq> CHR ''.'' then None
         else if \<not> list_all is_digit (drop 20 value) then None
         else tt_parse T virtualKeyExpirySecondsLayout value)
      else None)"

text \<open>The loop over the model IDs, in the form and in the request.\<close>

definition add_model_id :: "string \<Rightarrow> string list \<Rightarrow> string list" where
  "add_model_id value ids =
     (let modelID = TrimSpace value in if modelID \<noteq> '''' \<and> modelID \<notin> set ids then ids @ [modelID] else ids)"

definition form_model_ids :: "string list \<Rightarrow> string list" where
  "form_model_ids values = fold add_model_id values []"

text \<open>An error is its text.\<close>

definition virtualKeyForm_input :: "TimeText \<Rightarrow> virtualKeyForm \<Rightarrow> string + VirtualKeyInput" where
  "virtualKeyForm_input T f =
     (let modelIDs = form_model_ids (KF_ModelIDs f);
          input = \<lparr>KI_Name = KF_Name f, KI_UserID = KF_UserID f, KI_ModelIDs = sort modelIDs, KI_Status = KF_Status f, KI_ExpiresAt = None\<rparr>;
          expiresValue = TrimSpace (KF_ExpiresAt f) in
      if modelIDs = [] then Inl ''at least one model must be selected''
      else if expiresValue = '''' then Inr input
      else case parseVirtualKeyExpiry T expiresValue of
          None \<Rightarrow> Inl ''expiration must be a valid UTC date and time''
        | Some parsed \<Rightarrow>
            (case tt_parse T RFC3339Nano (TrimSpace (KF_OriginalExpiresAt f)) of
               None \<Rightarrow> Inr (input\<lparr>KI_ExpiresAt := Some parsed\<rparr>)
             | Some original \<Rightarrow>
                 Inr (input\<lparr>KI_ExpiresAt := Some (if expiresValue = tt_format T virtualKeyExpiryDisplayLayout original then original else parsed)\<rparr>)))"

end
