(* ===== verification/Admin_UI.thy ===== *)
theory Admin_UI
  imports Admin_View "HOL-Library.Product_Lexorder"
begin

text \<open>
  Files \<^verbatim>\<open>internal/adminui/handler.go\<close> and \<^verbatim>\<open>resources.go\<close>: the pages of the admin UI. A request is its method,
  path, cookies, query and form; an answer is a page, a redirect or a file, with its cookies. The state is
  the session store and the state behind the API of the control planes.

  The clock is read at several points of a request; each has its own reading. Lists that the code fetches
  concurrently are reads of one state, and a call that fails gives no data. \<^verbatim>\<open>slices.SortFunc\<close> orders equal
  elements in the order in which they came.
\<close>

section \<open>Requests and answers\<close>

record UIRequest =
  UR_Method :: string
  UR_Segments :: "string list"               \<comment> \<open>the path after its first slash, split at slashes\<close>
  UR_RequestID :: string
  UR_Cookies :: "(string \<times> string) list"
  UR_Query :: "(string \<times> string) list"
  UR_FormSize :: nat
  UR_Form :: "(string \<times> string) list option" \<comment> \<open>\<^verbatim>\<open>PostForm\<close>, unless the form or the query cannot be parsed\<close>

record ui_cookie =
  CK_Name :: string
  CK_Value :: string
  CK_Path :: string
  CK_Expires :: time
  CK_MaxAge :: int
  CK_HttpOnly :: bool
  CK_Secure :: bool
  CK_SameSiteStrict :: bool

datatype UIBody = Rendered string pageData | Redirect string | StaticFile "string list" | StatusJSON json | PlainBody string

record UIResponse =
  UP_Status :: nat
  UP_Header :: "(string \<times> string) list"
  UP_Cookies :: "ui_cookie list"
  UP_Body :: UIBody

datatype moment = AtCookie | AtForm | AtPage | AtError | AtFlash | AtToken | AtIssue | AtSession | AtChallenge | AtExpiry

record 'w server =
  srv_api :: "'w API"
  srv_adminToken :: string
  srv_cookieName :: string
  srv_cookieSecure :: bool
  srv_maxFormBytes :: nat
  srv_loginKey :: "nat list"
  srv_mac :: "nat list \<Rightarrow> string \<Rightarrow> nat list"   \<comment> \<open>HMAC with SHA-256, of a key\<close>
  srv_lower :: "string \<Rightarrow> string"              \<comment> \<open>\<^verbatim>\<open>strings.ToLower\<close>\<close>
  srv_time :: TimeText
  srv_clock :: "moment \<Rightarrow> time"

record ('r, 'w) ui =
  ui_sessions :: "'r sessionStore"
  ui_world :: 'w

type_synonym ('r, 'w) act = "('r, 'w) ui \<Rightarrow> UIResponse \<times> ('r, 'w) ui"
type_synonym ('r, 'w) authenticatedHandler = "'w server \<Rightarrow> UIRequest \<Rightarrow> sessionSnapshot \<Rightarrow> ('r, 'w) act"

fun value_of :: "string \<Rightarrow> (string \<times> string) list \<Rightarrow> string" where
  "value_of key [] = ''''"
| "value_of key ((k, v) # vs) = (if k = key then v else value_of key vs)"

definition post_form :: "UIRequest \<Rightarrow> (string \<times> string) list" where
  "post_form r = (case UR_Form r of None \<Rightarrow> [] | Some vs \<Rightarrow> vs)"

definition PostForm_Get :: "UIRequest \<Rightarrow> string \<Rightarrow> string" where
  "PostForm_Get r key = value_of key (post_form r)"

definition PostForm_values :: "UIRequest \<Rightarrow> string \<Rightarrow> string list" where
  "PostForm_values r key = map snd (filter (\<lambda>(k, _). k = key) (post_form r))"

definition Query_Get :: "UIRequest \<Rightarrow> string \<Rightarrow> string" where
  "Query_Get r key = value_of key (UR_Query r)"

definition formString :: "UIRequest \<Rightarrow> string \<Rightarrow> string" where
  "formString r key = TrimSpace (PostForm_Get r key)"

definition statusValue :: "string \<Rightarrow> string" where
  "statusValue v = TrimSpace v"

definition ParseForm_fails :: "'w server \<Rightarrow> UIRequest \<Rightarrow> bool" where
  "ParseForm_fails srv r \<longleftrightarrow> UR_FormSize r > srv_maxFormBytes srv \<or> UR_Form r = None"

definition render :: "nat \<Rightarrow> string \<Rightarrow> pageData \<Rightarrow> UIResponse" where
  "render status name data =
     \<lparr>UP_Status = status, UP_Header = [(''Content-Type'', ''text/html; charset=utf-8'')], UP_Cookies = [], UP_Body = Rendered name data\<rparr>"

definition redirect :: "string \<Rightarrow> UIResponse" where
  "redirect location = \<lparr>UP_Status = 303, UP_Header = [(''Location'', location)], UP_Cookies = [], UP_Body = Redirect location\<rparr>"

definition with_cookie :: "ui_cookie \<Rightarrow> UIResponse \<Rightarrow> UIResponse" where
  "with_cookie c resp = resp\<lparr>UP_Cookies := c # UP_Cookies resp\<rparr>"

section \<open>Cookies and the sign-in challenge\<close>

definition max_age :: "time \<Rightarrow> time \<Rightarrow> int" where
  "max_age expires now = max 1 ((expires - now) div nanosecond_per_second)"

definition session_cookie :: "'w server \<Rightarrow> string \<Rightarrow> time \<Rightarrow> int \<Rightarrow> ui_cookie" where
  "session_cookie srv value expires age =
     \<lparr>CK_Name = srv_cookieName srv, CK_Value = value, CK_Path = ''/'', CK_Expires = expires, CK_MaxAge = age,
      CK_HttpOnly = True, CK_Secure = srv_cookieSecure srv, CK_SameSiteStrict = True\<rparr>"

definition setSessionCookie :: "'w server \<Rightarrow> sessionSnapshot \<Rightarrow> UIResponse \<Rightarrow> UIResponse" where
  "setSessionCookie srv session =
     with_cookie (session_cookie srv (Snap_ID session) (Snap_ExpiresAt session) (max_age (Snap_ExpiresAt session) (srv_clock srv AtExpiry)))"

definition setLoginChallengeCookie :: "'w server \<Rightarrow> string \<Rightarrow> time \<Rightarrow> UIResponse \<Rightarrow> UIResponse" where
  "setLoginChallengeCookie srv challenge expires =
     with_cookie (session_cookie srv challenge expires (max_age expires (srv_clock srv AtExpiry)))"

definition clearSessionCookie :: "'w server \<Rightarrow> UIResponse \<Rightarrow> UIResponse" where
  "clearSessionCookie srv = with_cookie (session_cookie srv '''' nanosecond_per_second (- 1))"

definition loginChallengeTTL :: int where "loginChallengeTTL = 5 * 60 * nanosecond_per_second"
definition loginChallengeNonceSize :: nat where "loginChallengeNonceSize = 32"
definition loginChallengeKeySize :: nat where "loginChallengeKeySize = 32"

fun split_on :: "char \<Rightarrow> string \<Rightarrow> string list" where
  "split_on c [] = ['''']"
| "split_on c (x # xs) =
     (if x = c then '''' # split_on c xs else case split_on c xs of [] \<Rightarrow> [[x]] | p # ps \<Rightarrow> (x # p) # ps)"

text \<open>\<^verbatim>\<open>base64.RawURLEncoding.DecodeString\<close>: line breaks are skipped, and bits that are left over are ignored.\<close>

fun position :: "char \<Rightarrow> string \<Rightarrow> nat option" where
  "position c [] = None"
| "position c (x # xs) = (if x = c then Some 0 else map_option Suc (position c xs))"

fun decode_sextets :: "nat list \<Rightarrow> nat list option" where
  "decode_sextets (a # b # c # d # rest) =
     map_option (\<lambda>bytes. (a * 4 + b div 16) # (b mod 16 * 16 + c div 4) # (c mod 4 * 64 + d) # bytes) (decode_sextets rest)"
| "decode_sextets [a, b, c] = Some [a * 4 + b div 16, b mod 16 * 16 + c div 4]"
| "decode_sextets [a, b] = Some [a * 4 + b div 16]"
| "decode_sextets [a] = None"
| "decode_sextets [] = Some []"

fun all_positions :: "string \<Rightarrow> nat list option" where
  "all_positions [] = Some []"
| "all_positions (c # cs) = (case (position c base64_url, all_positions cs) of (Some n, Some ns) \<Rightarrow> Some (n # ns) | _ \<Rightarrow> None)"

definition RawURLDecode :: "string \<Rightarrow> nat list option" where
  "RawURLDecode s = Option.bind (all_positions (filter (\<lambda>c. c \<noteq> CHR 0x0A \<and> c \<noteq> CHR 0x0D) s)) decode_sextets"

text \<open>\<^verbatim>\<open>time.Unix(sec, 0)\<close>; the seconds since year 1 are kept in 64 bits.\<close>

definition time_Unix :: "int \<Rightarrow> time" where
  "time_Unix sec = (wrap64 (sec + 62135596800) - 62135596800) * nanosecond_per_second"

definition newLoginChallenge :: "'w server \<Rightarrow> 'r sessionStore \<Rightarrow> (string \<times> time) result \<times> 'r sessionStore" where
  "newLoginChallenge srv s =
     (case randomValue loginChallengeNonceSize s of
        (Inl err, s') \<Rightarrow> (Inl err, s')
      | (Inr nonce, s') \<Rightarrow>
          let expires = srv_clock srv AtIssue + loginChallengeTTL;
              payload = decimal_int (expires div nanosecond_per_second) @ ''.'' @ nonce;
              signature = RawURLEncoding (srv_mac srv (srv_loginKey srv) payload) in
          (Inr (payload @ ''.'' @ signature, expires), s'))"

definition validLoginChallenge :: "'w server \<Rightarrow> string \<Rightarrow> bool" where
  "validLoginChallenge srv challenge =
     (case split_on CHR ''.'' challenge of
        [expires, nonce, signature] \<Rightarrow>
          nonce \<noteq> '''' \<and> signature \<noteq> '''' \<and>
          (case ParseInt expires of Inl _ \<Rightarrow> False | Inr n \<Rightarrow> After (time_Unix n) (srv_clock srv AtChallenge)) \<and>
          (case RawURLDecode nonce of None \<Rightarrow> False | Some bytes \<Rightarrow> length bytes = loginChallengeNonceSize) \<and>
          RawURLDecode signature = Some (srv_mac srv (srv_loginKey srv) (expires @ ''.'' @ nonce))
      | _ \<Rightarrow> False)"

section \<open>What the handlers share\<close>

definition cookieSession :: "'w server \<Rightarrow> UIRequest \<Rightarrow> ('r, 'w) ui \<Rightarrow> sessionSnapshot option \<times> ('r, 'w) ui" where
  "cookieSession srv r st =
     (case map_of (UR_Cookies r) (srv_cookieName srv) of
        None \<Rightarrow> (None, st)
      | Some value \<Rightarrow>
          (case load (srv_clock srv AtCookie) value (ui_sessions st) of (found, s') \<Rightarrow> (found, st\<lparr>ui_sessions := s'\<rparr>)))"

definition auth :: "('r, 'w) authenticatedHandler \<Rightarrow> 'w server \<Rightarrow> UIRequest \<Rightarrow> ('r, 'w) act" where
  "auth next srv r st =
     (case cookieSession srv r st of
        (None, st') \<Rightarrow> (clearSessionCookie srv (redirect ''/login''), st')
      | (Some session, st') \<Rightarrow>
          if \<not> Snap_Authenticated session
          then (clearSessionCookie srv (redirect ''/login''), st'\<lparr>ui_sessions := destroy (Snap_ID session) (ui_sessions st')\<rparr>)
          else next srv r session st')"

text \<open>\<^verbatim>\<open>basePage\<close>, with what is done with the page.\<close>

definition basePage ::
  "'w server \<Rightarrow> moment \<Rightarrow> sessionSnapshot \<Rightarrow> string \<Rightarrow> string \<Rightarrow> (pageData \<Rightarrow> ('r, 'w) act) \<Rightarrow> ('r, 'w) act" where
  "basePage srv m session title section k st =
     (case takeFlashes (srv_clock srv m) (Snap_ID session) (ui_sessions st) of
        (flashes, s') \<Rightarrow>
          k (no_page\<lparr>PD_Title := title, PD_Section := section, PD_Authenticated := Snap_Authenticated session,
               PD_CSRFToken := Snap_CSRFToken session, PD_Flashes := flashes\<rparr>) (st\<lparr>ui_sessions := s'\<rparr>))"

definition renderSimpleError :: "'w server \<Rightarrow> sessionSnapshot \<Rightarrow> nat \<Rightarrow> string \<Rightarrow> string \<Rightarrow> ('r, 'w) act" where
  "renderSimpleError srv session status title detail =
     basePage srv AtError session title '''' (\<lambda>data st.
       (render status ''error'' (data\<lparr>PD_StatusCode := status, PD_Error := Some (view_error title detail)\<rparr>), st))"

definition unknown_outcome :: "APIError \<Rightarrow> viewError" where
  "unknown_outcome e =
     \<lparr>VE_Title = ''Operation outcome unknown'',
      VE_Detail = ''The request may have completed even though its response was not received safely. Reload the relevant resource list and inspect current state before retrying.'',
      VE_RequestID = AE_Instance e\<rparr>"

definition renderOperationError :: "pageData \<Rightarrow> string \<Rightarrow> api_failure \<Rightarrow> UIResponse" where
  "renderOperationError data templateName err =
     (case errorView err of (view, status) \<Rightarrow>
      let (shown, name) = (case err of
            APIFailure e \<Rightarrow> if AE_Ambiguous e then (unknown_outcome e, ''error'') else (view, templateName)
          | OtherFailure _ \<Rightarrow> (view, templateName)) in
      render status name (data\<lparr>PD_Error := Some shown, PD_StatusCode := status,
        PD_Title := (if PD_Title data = '''' then ''Operation failed'' else PD_Title data)\<rparr>))"

definition renderInvalidForm :: "pageData \<Rightarrow> string \<Rightarrow> string \<Rightarrow> UIResponse" where
  "renderInvalidForm data templateName detail =
     render 400 templateName (data\<lparr>PD_Error := Some (view_error ''Invalid form'' detail), PD_StatusCode := 400\<rparr>)"

text \<open>\<^verbatim>\<open>parseProtectedForm\<close>, with what follows when it accepts the form.\<close>

definition parseProtectedForm :: "'w server \<Rightarrow> UIRequest \<Rightarrow> sessionSnapshot \<Rightarrow> ('r, 'w) act \<Rightarrow> ('r, 'w) act" where
  "parseProtectedForm srv r session k st =
     (if ParseForm_fails srv r
      then renderSimpleError srv session 400 ''Invalid form'' ''The submitted form could not be decoded.'' st
      else case verifyCSRF (srv_clock srv AtForm) (Snap_ID session) (PostForm_Get r ''_csrf'') (ui_sessions st) of
          (False, s') \<Rightarrow> renderSimpleError srv session 403 ''Request rejected''
            ''The form expired or its CSRF token is invalid. Reload the page and try again.'' (st\<lparr>ui_sessions := s'\<rparr>)
        | (True, s') \<Rightarrow> k (st\<lparr>ui_sessions := s'\<rparr>))"

definition flashRedirect :: "'w server \<Rightarrow> sessionSnapshot \<Rightarrow> string \<Rightarrow> string \<Rightarrow> string \<Rightarrow> ('r, 'w) act" where
  "flashRedirect srv session location kind message st =
     (redirect location,
      st\<lparr>ui_sessions := addFlash (srv_clock srv AtFlash) (Snap_ID session) \<lparr>Flash_Kind = kind, Flash_Message = message\<rparr> (ui_sessions st)\<rparr>)"

text \<open>A call that writes, and what is done with its outcome.\<close>

definition call :: "('w \<Rightarrow> 'a api_result \<times> 'w) \<Rightarrow> (api_failure \<Rightarrow> ('r, 'w) act) \<Rightarrow> ('a \<Rightarrow> ('r, 'w) act) \<Rightarrow> ('r, 'w) act" where
  "call f failed ok st =
     (case f (ui_world st) of (Inl err, w) \<Rightarrow> failed err (st\<lparr>ui_world := w\<rparr>) | (Inr x, w) \<Rightarrow> ok x (st\<lparr>ui_world := w\<rparr>))"

definition get_or_error ::
  "'w server \<Rightarrow> sessionSnapshot \<Rightarrow> string \<Rightarrow> string \<Rightarrow> ('w \<Rightarrow> 'a api_result) \<Rightarrow> ('a \<Rightarrow> pageData \<Rightarrow> 'w \<Rightarrow> UIResponse) \<Rightarrow> ('r, 'w) act" where
  "get_or_error srv session title section read show st =
     (case read (ui_world st) of
        Inl err \<Rightarrow> basePage srv AtPage session title section (\<lambda>data st'. (renderOperationError data ''error'' err, st')) st
      | Inr x \<Rightarrow> basePage srv AtPage session title section (\<lambda>data st'. (show x data (ui_world st'), st')) st)"

definition validLifecycleStatus :: "string \<Rightarrow> bool" where
  "validLifecycleStatus v \<longleftrightarrow> v = StatusActive \<or> v = StatusDisabled"

definition warningMessage :: "string \<Rightarrow> api_failure \<Rightarrow> string" where
  "warningMessage prefix err =
     (let detail = VE_Detail (fst (errorView err)) in if detail \<noteq> '''' then prefix @ '': '' @ detail else prefix @ ''.'')"

definition warnings :: "string \<Rightarrow> 'a api_result \<Rightarrow> string list" where
  "warnings prefix res = (case res of Inl err \<Rightarrow> [warningMessage prefix err] | Inr _ \<Rightarrow> [])"

definition listing :: "'a list api_result \<Rightarrow> 'a list" where
  "listing res = (case res of Inl _ \<Rightarrow> [] | Inr xs \<Rightarrow> xs)"

definition available :: "'a api_result \<Rightarrow> bool" where
  "available res = (case res of Inl _ \<Rightarrow> False | Inr _ \<Rightarrow> True)"

definition names_of :: "('a \<Rightarrow> string) \<Rightarrow> ('a \<Rightarrow> string) \<Rightarrow> 'a list \<Rightarrow> string \<Rightarrow> string" where
  "names_of key name xs = (\<lambda>k. case map_of (rev (map (\<lambda>x. (key x, name x)) xs)) k of None \<Rightarrow> '''' | Some n \<Rightarrow> n)"

definition counts_of :: "('a \<Rightarrow> string list) \<Rightarrow> 'a list \<Rightarrow> string \<Rightarrow> nat" where
  "counts_of keys xs = (\<lambda>k. sum_list (map (\<lambda>x. count_list (keys x) k) xs))"

fun Contains :: "string \<Rightarrow> string \<Rightarrow> bool" where
  "Contains s sub = (take (length sub) s = sub \<or> (case s of [] \<Rightarrow> False | _ # t \<Rightarrow> Contains t sub))"

definition matches :: "'w server \<Rightarrow> string \<Rightarrow> string \<Rightarrow> bool" where
  "matches srv searchable q \<longleftrightarrow> srv_lower srv q = '''' \<or> Contains (srv_lower srv searchable) (srv_lower srv q)"

definition is_or_any :: "string \<Rightarrow> string \<Rightarrow> bool" where
  "is_or_any wanted v \<longleftrightarrow> wanted = '''' \<or> v = wanted"

definition capital :: "string \<Rightarrow> string" where
  "capital s = (case s of [] \<Rightarrow> [] | c # cs \<Rightarrow> (if is_lower c then char_of (byte c - 32) else c) # cs)"

definition lifecycle_page :: "string \<Rightarrow> string \<Rightarrow> string \<Rightarrow> string \<Rightarrow> string \<Rightarrow> string \<Rightarrow> string \<Rightarrow> string \<Rightarrow> pageData \<Rightarrow> UIResponse" where
  "lifecycle_page kind name status path rid warning button etag data =
     render 200 ''confirm-status'' (data\<lparr>PD_Lifecycle := Some \<lparr>LV_Kind = kind, LV_Name = name, LV_Status = status,
       LV_Action = path @ ''/'' @ rid @ ''/status'', LV_Cancel = path, LV_Warning = warning,
       LV_ButtonText = capital status @ '' '' @ button, LV_ETag = etag\<rparr>\<rparr>)"

definition confirm_view :: "string \<Rightarrow> string \<Rightarrow> string \<Rightarrow> string \<Rightarrow> string \<Rightarrow> string \<Rightarrow> confirmView" where
  "confirm_view kind name path rid warning etag =
     \<lparr>CV_Kind = kind, CV_Name = name, CV_Action = path @ ''/'' @ rid @ ''/delete'', CV_Cancel = path, CV_Warning = warning, CV_ETag = etag\<rparr>"

definition status_required :: string where "status_required = ''Status must be active or disabled.''"

definition version_and_status_required :: "string \<Rightarrow> string" where
  "version_and_status_required page =
     ''A current resource version and an active or disabled status are required. Reload the '' @ page @ '' page and try again.''"

definition version_missing :: string where
  "version_missing = ''The resource version is missing. Reload the confirmation page and try again.''"

text \<open>A page that was refused before or by the API; \<open>fill\<close> completes its data from the API.\<close>

definition invalid_page ::
  "'w server \<Rightarrow> sessionSnapshot \<Rightarrow> string \<Rightarrow> string \<Rightarrow> ('w \<Rightarrow> pageData \<Rightarrow> pageData) \<Rightarrow> string \<Rightarrow> string \<Rightarrow> ('r, 'w) act" where
  "invalid_page srv session title section fill templateName detail =
     basePage srv AtPage session title section (\<lambda>data st. (renderInvalidForm (fill (ui_world st) data) templateName detail, st))"

definition failed_page ::
  "'w server \<Rightarrow> sessionSnapshot \<Rightarrow> string \<Rightarrow> string \<Rightarrow> ('w \<Rightarrow> pageData \<Rightarrow> pageData) \<Rightarrow> string \<Rightarrow> api_failure \<Rightarrow> ('r, 'w) act" where
  "failed_page srv session title section fill templateName err =
     basePage srv AtPage session title section (\<lambda>data st. (renderOperationError (fill (ui_world st) data) templateName err, st))"

definition editing :: "pageForm \<Rightarrow> string \<Rightarrow> string \<Rightarrow> pageData \<Rightarrow> pageData" where
  "editing form rid etag data = data\<lparr>PD_Form := form, PD_Editing := True, PD_ResourceID := rid, PD_ResourceETag := etag\<rparr>"

section \<open>Signing in and out\<close>

definition unavailable_page :: UIResponse where
  "unavailable_page = render 503 ''error'' (no_page\<lparr>PD_Title := ''Sign in unavailable'', PD_StatusCode := 503,
     PD_Error := Some (view_error ''Sign in unavailable'' ''A secure session could not be created.'')\<rparr>)"

definition login_page :: "nat \<Rightarrow> string \<Rightarrow> viewError option \<Rightarrow> UIResponse" where
  "login_page status csrf err = render status ''login'' (no_page\<lparr>PD_Title := ''Sign in'', PD_CSRFToken := csrf, PD_Error := err\<rparr>)"

definition loginPage :: "'w server \<Rightarrow> UIRequest \<Rightarrow> ('r, 'w) act" where
  "loginPage srv r st =
     (case cookieSession srv r st of (found, st') \<Rightarrow>
      if (case found of None \<Rightarrow> False | Some existing \<Rightarrow> Snap_Authenticated existing) then (redirect ''/'', st')
      else case newLoginChallenge srv (ui_sessions st') of
          (Inl _, s') \<Rightarrow> (unavailable_page, st'\<lparr>ui_sessions := s'\<rparr>)
        | (Inr (challenge, expires), s') \<Rightarrow>
            (setLoginChallengeCookie srv challenge expires (login_page 200 challenge None), st'\<lparr>ui_sessions := s'\<rparr>))"

definition challenge_accepted :: "'w server \<Rightarrow> UIRequest \<Rightarrow> bool" where
  "challenge_accepted srv r \<longleftrightarrow>
     (case map_of (UR_Cookies r) (srv_cookieName srv) of
        None \<Rightarrow> False
      | Some cookie \<Rightarrow>
          let candidate = PostForm_Get r ''_csrf'' in candidate \<noteq> '''' \<and> SecureEqual cookie candidate \<and> validLoginChallenge srv candidate)"

definition login :: "'w server \<Rightarrow> UIRequest \<Rightarrow> ('r, 'w) act" where
  "login srv r st =
     (case cookieSession srv r st of (found, st') \<Rightarrow>
      if (case found of None \<Rightarrow> False | Some session \<Rightarrow> Snap_Authenticated session) then (redirect ''/'', st')
      else if ParseForm_fails srv r
      then (login_page 400 '''' (Some (view_error ''Invalid form'' ''The submitted form could not be decoded.'')), st')
      else if \<not> challenge_accepted srv r
      then
        (case newLoginChallenge srv (ui_sessions st') of (fresh, s') \<Rightarrow>
          let page = (\<lambda>challenge. login_page 403 challenge (Some (view_error ''Request rejected''
                ''The sign-in form expired or its CSRF token is invalid. Reload the page and try again.''))) in
          (case fresh of
             Inl _ \<Rightarrow> page ''''
           | Inr (challenge, expires) \<Rightarrow> setLoginChallengeCookie srv challenge expires (page challenge), st'\<lparr>ui_sessions := s'\<rparr>))
      else if \<not> SecureEqual (PostForm_Get r ''admin_token'') (srv_adminToken srv)
      then (login_page 401 (PostForm_Get r ''_csrf'') (Some (view_error ''Sign in failed'' ''The administrator token is not valid.'')), st')
      else
        (case create (srv_clock srv AtSession) True (ui_sessions st') of
           (Inl _, s') \<Rightarrow> (clearSessionCookie srv unavailable_page, st'\<lparr>ui_sessions := s'\<rparr>)
         | (Inr authenticated, s') \<Rightarrow>
             (setSessionCookie srv authenticated (redirect ''/''),
              st'\<lparr>ui_sessions := addFlash (srv_clock srv AtFlash) (Snap_ID authenticated)
                \<lparr>Flash_Kind = ''success'', Flash_Message = ''Signed in successfully.''\<rparr> s'\<rparr>)))"

definition logout :: "('r, 'w) authenticatedHandler" where
  "logout srv r session =
     parseProtectedForm srv r session (\<lambda>st.
       (clearSessionCookie srv (redirect ''/login''), st\<lparr>ui_sessions := destroy (Snap_ID session) (ui_sessions st)\<rparr>))"

definition dashboard :: "('r, 'w) authenticatedHandler" where
  "dashboard srv r session =
     basePage srv AtPage session ''Dashboard'' ''dashboard'' (\<lambda>data st.
       let w = ui_world st; users = api_ListUsers (srv_api srv) w; providers = api_ListProviders (srv_api srv) w;
           models = api_ListModels (srv_api srv) w; keys = api_ListVirtualKeys (srv_api srv) w;
           resources_ok = (available users \<and> available providers \<and> available models) in
       (render 200 ''dashboard'' (data\<lparr>PD_Users := listing users, PD_Providers := listing providers, PD_Models := listing models,
          PD_VirtualKeys := listing keys,
          PD_ResourceSection := \<lparr>DS_Available = resources_ok,
            DS_Count = length (listing users) + length (listing providers) + length (listing models),
            DS_Error = (if resources_ok then '''' else ''Users, providers or models are temporarily unavailable.'')\<rparr>,
          PD_KeySection := \<lparr>DS_Available = available keys, DS_Count = length (listing keys),
            DS_Error = (if available keys then '''' else ''Virtual keys are temporarily unavailable.'')\<rparr>\<rparr>), st))"

section \<open>Users\<close>

definition listUsers :: "('r, 'w) authenticatedHandler" where
  "listUsers srv r session =
     basePage srv AtPage session ''Users'' ''users'' (\<lambda>data st.
       let w = ui_world st; keys = api_ListVirtualKeys (srv_api srv) w; q = TrimSpace (Query_Get r ''q''); status = TrimSpace (Query_Get r ''status'') in
       (case api_ListUsers (srv_api srv) w of
          Inl err \<Rightarrow> renderOperationError data ''users'' err
        | Inr users \<Rightarrow>
            render 200 ''users'' (data\<lparr>PD_RelationsAvailable := available keys,
              PD_Warnings := warnings ''Virtual-key relationships are unavailable'' keys,
              PD_UserKeyCounts := counts_of (\<lambda>k. [PVK_UserID k]) (listing keys),
              PD_Filter := no_filter\<lparr>PF_Query := q, PF_StatusFilter := status\<rparr>,
              PD_Users := sort_key (\<lambda>u. (srv_lower srv (User_Name u), User_ID u))
                (filter (\<lambda>u. matches srv (User_Name u @ '' '' @ User_Email u @ '' '' @ User_ID u) q \<and> is_or_any status (User_Status u)) users)\<rparr>), st))"

definition newUser :: "('r, 'w) authenticatedHandler" where
  "newUser srv r session =
     basePage srv AtPage session ''Create user'' ''users'' (\<lambda>data st.
       (render 200 ''user-form'' (data\<lparr>PD_Form := UserForm \<lparr>UF_Name = '''', UF_Email = '''', UF_Status = StatusActive\<rparr>\<rparr>), st))"

definition userFormFromRequest :: "UIRequest \<Rightarrow> userForm" where
  "userFormFromRequest r =
     \<lparr>UF_Name = formString r ''name'', UF_Email = formString r ''email'', UF_Status = statusValue (PostForm_Get r ''status'')\<rparr>"

definition createUser :: "('r, 'w) authenticatedHandler" where
  "createUser srv r session =
     parseProtectedForm srv r session (
       let form = userFormFromRequest r; fill = (\<lambda>w data. data\<lparr>PD_Form := UserForm form\<rparr>) in
       if \<not> validLifecycleStatus (UF_Status form)
       then invalid_page srv session ''Create user'' ''users'' fill ''user-form'' status_required
       else call (api_CreateUser (srv_api srv) (userForm_input form))
         (failed_page srv session ''Create user'' ''users'' fill ''user-form'')
         (\<lambda>_. flashRedirect srv session ''/users'' ''success'' ''User created.''))"

definition editUser :: "string \<Rightarrow> ('r, 'w) authenticatedHandler" where
  "editUser rid srv r session =
     get_or_error srv session ''Edit user'' ''users'' (api_GetUser (srv_api srv) rid) (\<lambda>x data w.
       render 200 ''user-form'' (editing (UserForm (userFormFromModel (V_Value x))) (User_ID (V_Value x)) (V_ETag x) data))"

definition updateUser :: "string \<Rightarrow> ('r, 'w) authenticatedHandler" where
  "updateUser rid srv r session =
     parseProtectedForm srv r session (
       let etag = formString r ''_etag''; form = userFormFromRequest r; fill = (\<lambda>w. editing (UserForm form) rid etag) in
       if etag = '''' \<or> \<not> validLifecycleStatus (UF_Status form)
       then invalid_page srv session ''Edit user'' ''users'' fill ''user-form'' (version_and_status_required ''edit'')
       else call (api_UpdateUser (srv_api srv) rid (userForm_input form) etag)
         (failed_page srv session ''Edit user'' ''users'' fill ''user-form'')
         (\<lambda>_. flashRedirect srv session ''/users'' ''success'' ''User updated. Authorization revision advanced.''))"

definition confirmUserStatus :: "string \<Rightarrow> ('r, 'w) authenticatedHandler" where
  "confirmUserStatus rid srv r session =
     (let status = TrimSpace (Query_Get r ''to'') in
      if \<not> validLifecycleStatus status then renderSimpleError srv session 400 ''Invalid status'' status_required
      else get_or_error srv session ''Change user status'' ''users'' (api_GetUser (srv_api srv) rid) (\<lambda>x data w.
        lifecycle_page ''user'' (User_Name (V_Value x)) status ''/users'' (User_ID (V_Value x))
          (if status = StatusDisabled then ''Disabling the user immediately revokes every virtual key they own.''
           else ''Enabling the user can restore authorization for their active, non-expired keys.'') ''user'' (V_ETag x) data))"

definition changeUserStatus :: "string \<Rightarrow> ('r, 'w) authenticatedHandler" where
  "changeUserStatus rid srv r session =
     parseProtectedForm srv r session (\<lambda>st.
       let status = formString r ''status''; etag = formString r ''_etag'';
           failed = failed_page srv session ''Change user status'' ''users'' (\<lambda>w data. data) ''error'' in
       if \<not> validLifecycleStatus status \<or> etag = ''''
       then renderSimpleError srv session 400 ''Invalid status'' (version_and_status_required ''confirmation'') st
       else case api_GetUser (srv_api srv) rid (ui_world st) of
           Inl err \<Rightarrow> failed err st
         | Inr x \<Rightarrow>
             call (api_UpdateUser (srv_api srv) rid
                 \<lparr>UI_Name = User_Name (V_Value x), UI_Email = User_Email (V_Value x), UI_Status = status\<rparr> etag) failed
               (\<lambda>_. flashRedirect srv session ''/users'' ''success''
                 (if status = StatusDisabled then ''User disabled. All of the user's keys are revoked.''
                  else ''User enabled. Active keys can authorize again.'')) st)"

definition confirmDeleteUser :: "string \<Rightarrow> ('r, 'w) authenticatedHandler" where
  "confirmDeleteUser rid srv r session =
     get_or_error srv session ''Delete user'' ''users'' (api_GetUser (srv_api srv) rid) (\<lambda>x data w.
       let user = V_Value x; keys = api_ListVirtualKeys (srv_api srv) w;
           n = length (filter (\<lambda>k. PVK_UserID k = User_ID user) (listing keys)) in
       render 200 ''confirm-delete'' (data\<lparr>PD_Warnings := warnings ''Could not inspect virtual-key ownership'' keys,
         PD_Confirm := Some (confirm_view ''user'' (User_Name user) ''/users'' (User_ID user)
           (if n > 0 then ''This user still owns '' @ decimal n @ '' virtual key(s). Delete or reassign every key before deleting the user.''
            else ''Deletion creates a permanent authorization fence. This action cannot be undone.'') (V_ETag x))\<rparr>))"

definition deleteUser :: "string \<Rightarrow> ('r, 'w) authenticatedHandler" where
  "deleteUser rid srv r session =
     parseProtectedForm srv r session (
       let etag = formString r ''_etag'' in
       if etag = '''' then renderSimpleError srv session 400 ''Invalid deletion'' version_missing
       else call (api_DeleteUser (srv_api srv) rid etag)
         (failed_page srv session ''Delete user'' ''users'' (\<lambda>w data. data\<lparr>PD_Confirm := Some (confirm_view ''user'' rid ''/users'' rid
            ''The user can be deleted only after all virtual keys have been deleted or reassigned.'' etag)\<rparr>) ''confirm-delete'')
         (\<lambda>_. flashRedirect srv session ''/users'' ''success'' ''User deleted and permanently fenced.''))"

section \<open>Providers\<close>

definition listProviders :: "('r, 'w) authenticatedHandler" where
  "listProviders srv r session =
     basePage srv AtPage session ''Providers'' ''providers'' (\<lambda>data st.
       let w = ui_world st; models = api_ListModels (srv_api srv) w; q = TrimSpace (Query_Get r ''q''); status = TrimSpace (Query_Get r ''status'') in
       (case api_ListProviders (srv_api srv) w of
          Inl err \<Rightarrow> renderOperationError data ''providers'' err
        | Inr providers \<Rightarrow>
            render 200 ''providers'' (data\<lparr>PD_RelationsAvailable := available models,
              PD_ProviderModelCounts := counts_of (\<lambda>m. [Model_ProviderID m]) (listing models),
              PD_Warnings := warnings ''Model relationships are unavailable'' models,
              PD_Filter := no_filter\<lparr>PF_Query := q, PF_StatusFilter := status\<rparr>,
              PD_Providers := sort_key Provider_Slug (filter (\<lambda>p.
                matches srv (Provider_Name p @ '' '' @ Provider_Slug p @ '' '' @ Provider_Kind p @ '' '' @ Provider_AdapterAppID p) q \<and>
                is_or_any status (Provider_Status p)) providers)\<rparr>), st))"

definition newProvider :: "('r, 'w) authenticatedHandler" where
  "newProvider srv r session =
     basePage srv AtPage session ''Create provider'' ''providers'' (\<lambda>data st.
       (render 200 ''provider-form'' (data\<lparr>PD_Form := ProviderForm \<lparr>PF_Slug = '''', PF_Name = '''', PF_Kind = ProviderKindAnthropic,
          PF_AdapterAppID = '''', PF_Status = StatusActive\<rparr>\<rparr>), st))"

definition providerFormFromRequest :: "UIRequest \<Rightarrow> providerForm" where
  "providerFormFromRequest r =
     \<lparr>PF_Slug = formString r ''slug'', PF_Name = formString r ''name'', PF_Kind = formString r ''kind'',
      PF_AdapterAppID = formString r ''adapter_app_id'', PF_Status = statusValue (PostForm_Get r ''status'')\<rparr>"

definition createProvider :: "('r, 'w) authenticatedHandler" where
  "createProvider srv r session =
     parseProtectedForm srv r session (
       let form = providerFormFromRequest r; fill = (\<lambda>w data. data\<lparr>PD_Form := ProviderForm form\<rparr>) in
       if \<not> validLifecycleStatus (PF_Status form)
       then invalid_page srv session ''Create provider'' ''providers'' fill ''provider-form'' status_required
       else call (api_CreateProvider (srv_api srv) (providerForm_input form))
         (failed_page srv session ''Create provider'' ''providers'' fill ''provider-form'')
         (\<lambda>_. flashRedirect srv session ''/providers'' ''success'' ''Provider registered. Ensure the matching adapter is deployed.''))"

definition editProvider :: "string \<Rightarrow> ('r, 'w) authenticatedHandler" where
  "editProvider rid srv r session =
     get_or_error srv session ''Edit provider'' ''providers'' (api_GetProvider (srv_api srv) rid) (\<lambda>x data w.
       render 200 ''provider-form'' (editing (ProviderForm (providerFormFromModel (V_Value x))) (Provider_ID (V_Value x)) (V_ETag x) data))"

definition updateProvider :: "string \<Rightarrow> ('r, 'w) authenticatedHandler" where
  "updateProvider rid srv r session =
     parseProtectedForm srv r session (
       let etag = formString r ''_etag''; form = providerFormFromRequest r; fill = (\<lambda>w. editing (ProviderForm form) rid etag) in
       if etag = '''' \<or> \<not> validLifecycleStatus (PF_Status form)
       then invalid_page srv session ''Edit provider'' ''providers'' fill ''provider-form'' (version_and_status_required ''edit'')
       else call (api_UpdateProvider (srv_api srv) rid (providerForm_input form) etag)
         (failed_page srv session ''Edit provider'' ''providers'' fill ''provider-form'')
         (\<lambda>_. flashRedirect srv session ''/providers'' ''success'' ''Provider updated.''))"

definition confirmProviderStatus :: "string \<Rightarrow> ('r, 'w) authenticatedHandler" where
  "confirmProviderStatus rid srv r session =
     (let status = TrimSpace (Query_Get r ''to'') in
      if \<not> validLifecycleStatus status then renderSimpleError srv session 400 ''Invalid status'' status_required
      else get_or_error srv session ''Change provider status'' ''providers'' (api_GetProvider (srv_api srv) rid) (\<lambda>x data w.
        lifecycle_page ''provider'' (Provider_Name (V_Value x)) status ''/providers'' (Provider_ID (V_Value x))
          (if status = StatusDisabled then ''Disabling the provider immediately makes all of its models unroutable.''
           else ''Enabling the provider makes its active models routable again.'') ''provider'' (V_ETag x) data))"

definition changeProviderStatus :: "string \<Rightarrow> ('r, 'w) authenticatedHandler" where
  "changeProviderStatus rid srv r session =
     parseProtectedForm srv r session (\<lambda>st.
       let status = formString r ''status''; etag = formString r ''_etag'';
           failed = failed_page srv session ''Change provider status'' ''providers'' (\<lambda>w data. data) ''error'' in
       if \<not> validLifecycleStatus status \<or> etag = ''''
       then renderSimpleError srv session 400 ''Invalid status'' (version_and_status_required ''confirmation'') st
       else case api_GetProvider (srv_api srv) rid (ui_world st) of
           Inl err \<Rightarrow> failed err st
         | Inr x \<Rightarrow>
             call (api_UpdateProvider (srv_api srv) rid ((providerForm_input (providerFormFromModel (V_Value x)))\<lparr>PI_Status := status\<rparr>) etag) failed
               (\<lambda>_. flashRedirect srv session ''/providers'' ''success''
                 (if status = StatusDisabled then ''Provider disabled. Its models are no longer routable.'' else ''Provider enabled.'')) st)"

definition confirmDeleteProvider :: "string \<Rightarrow> ('r, 'w) authenticatedHandler" where
  "confirmDeleteProvider rid srv r session =
     get_or_error srv session ''Delete provider'' ''providers'' (api_GetProvider (srv_api srv) rid) (\<lambda>x data w.
       let provider = V_Value x; models = api_ListModels (srv_api srv) w;
           n = length (filter (\<lambda>m. Model_ProviderID m = Provider_ID provider) (listing models)) in
       render 200 ''confirm-delete'' (data\<lparr>PD_Warnings := warnings ''Could not inspect model relationships'' models,
         PD_Confirm := Some (confirm_view ''provider'' (Provider_Name provider) ''/providers'' (Provider_ID provider)
           (if n > 0 then ''This provider still owns '' @ decimal n @ '' model(s). Delete or reassign every model before deleting the provider.''
            else ''The provider can be deleted only when no model references it.'') (V_ETag x))\<rparr>))"

definition deleteProvider :: "string \<Rightarrow> ('r, 'w) authenticatedHandler" where
  "deleteProvider rid srv r session =
     parseProtectedForm srv r session (
       let etag = formString r ''_etag'' in
       if etag = '''' then renderSimpleError srv session 400 ''Invalid deletion'' version_missing
       else call (api_DeleteProvider (srv_api srv) rid etag)
         (failed_page srv session ''Delete provider'' ''providers'' (\<lambda>w data. data\<lparr>PD_Confirm := Some (confirm_view ''provider'' rid ''/providers'' rid
            ''The provider was not deleted.'' etag)\<rparr>) ''confirm-delete'')
         (\<lambda>_. flashRedirect srv session ''/providers'' ''success'' ''Provider deleted.''))"

section \<open>Models\<close>

definition providers_by_name :: "'w server \<Rightarrow> Provider list \<Rightarrow> Provider list" where
  "providers_by_name srv = sort_key (\<lambda>p. (srv_lower srv (Provider_Name p), Provider_ID p))"

definition models_by_alias :: "'w server \<Rightarrow> Model list \<Rightarrow> Model list" where
  "models_by_alias srv = sort_key (\<lambda>m. (srv_lower srv (Model_Alias m), Model_ID m))"

definition modelReferenceData :: "'w server \<Rightarrow> 'w \<Rightarrow> pageData \<Rightarrow> pageData" where
  "modelReferenceData srv w data =
     (let providers = api_ListProviders (srv_api srv) w in
      data\<lparr>PD_Providers := providers_by_name srv (listing providers), PD_ProviderNames := names_of Provider_ID Provider_Name (listing providers),
        PD_Warnings := PD_Warnings data @ warnings ''Provider choices are unavailable'' providers\<rparr>)"

definition listModels :: "('r, 'w) authenticatedHandler" where
  "listModels srv r session =
     basePage srv AtPage session ''Models'' ''models'' (\<lambda>data st.
       let w = ui_world st; providers = api_ListProviders (srv_api srv) w; keys = api_ListVirtualKeys (srv_api srv) w;
           names = names_of Provider_ID Provider_Name (listing providers);
           q = TrimSpace (Query_Get r ''q''); status = TrimSpace (Query_Get r ''status''); providerID = TrimSpace (Query_Get r ''provider_id'') in
       (case api_ListModels (srv_api srv) w of
          Inl err \<Rightarrow> renderOperationError data ''models'' err
        | Inr models \<Rightarrow>
            render 200 ''models'' (data\<lparr>PD_ProviderNames := names, PD_ModelKeyCounts := counts_of PVK_ModelIDs (listing keys),
              PD_RelationsAvailable := (available providers \<and> available keys),
              PD_Warnings := warnings ''Provider names are unavailable'' providers @ warnings ''Virtual-key relationships are unavailable'' keys,
              PD_Filter := no_filter\<lparr>PF_Query := q, PF_StatusFilter := status, PF_ProviderFilter := providerID\<rparr>,
              PD_Providers := providers_by_name srv (listing providers),
              PD_Models := models_by_alias srv (filter (\<lambda>m.
                matches srv (Model_Alias m @ '' '' @ Model_UpstreamModel m @ '' '' @ Model_ID m @ '' '' @ Model_ProviderID m @ '' '' @ names (Model_ProviderID m)) q \<and>
                is_or_any status (Model_Status m) \<and> is_or_any providerID (Model_ProviderID m)) models)\<rparr>), st))"

definition newModel :: "('r, 'w) authenticatedHandler" where
  "newModel srv r session =
     basePage srv AtPage session ''Create model'' ''models'' (\<lambda>data st.
       (render 200 ''model-form'' (modelReferenceData srv (ui_world st) (data\<lparr>PD_Form := ModelForm \<lparr>MF_Alias = '''', MF_ProviderID = '''',
          MF_UpstreamModel = '''', MF_Status = StatusActive\<rparr>\<rparr>)), st))"

definition modelFormFromRequest :: "UIRequest \<Rightarrow> modelForm" where
  "modelFormFromRequest r =
     \<lparr>MF_Alias = formString r ''alias'', MF_ProviderID = formString r ''provider_id'', MF_UpstreamModel = formString r ''upstream_model'',
      MF_Status = statusValue (PostForm_Get r ''status'')\<rparr>"

definition createModel :: "('r, 'w) authenticatedHandler" where
  "createModel srv r session =
     parseProtectedForm srv r session (
       let form = modelFormFromRequest r; fill = (\<lambda>w data. modelReferenceData srv w (data\<lparr>PD_Form := ModelForm form\<rparr>)) in
       if \<not> validLifecycleStatus (MF_Status form)
       then invalid_page srv session ''Create model'' ''models'' fill ''model-form'' status_required
       else call (api_CreateModel (srv_api srv) (modelForm_input form))
         (failed_page srv session ''Create model'' ''models'' fill ''model-form'')
         (\<lambda>_. flashRedirect srv session ''/models'' ''success'' ''Model created.''))"

definition editModel :: "string \<Rightarrow> ('r, 'w) authenticatedHandler" where
  "editModel rid srv r session =
     get_or_error srv session ''Edit model'' ''models'' (api_GetModel (srv_api srv) rid) (\<lambda>x data w.
       render 200 ''model-form'' (modelReferenceData srv w
         (editing (ModelForm (modelFormFromModel (V_Value x))) (Model_ID (V_Value x)) (V_ETag x) data)))"

definition updateModel :: "string \<Rightarrow> ('r, 'w) authenticatedHandler" where
  "updateModel rid srv r session =
     parseProtectedForm srv r session (
       let etag = formString r ''_etag''; form = modelFormFromRequest r;
           fill = (\<lambda>w data. modelReferenceData srv w (editing (ModelForm form) rid etag data)) in
       if etag = '''' \<or> \<not> validLifecycleStatus (MF_Status form)
       then invalid_page srv session ''Edit model'' ''models'' fill ''model-form'' (version_and_status_required ''edit'')
       else call (api_UpdateModel (srv_api srv) rid (modelForm_input form) etag)
         (failed_page srv session ''Edit model'' ''models'' fill ''model-form'')
         (\<lambda>_. flashRedirect srv session ''/models'' ''success'' ''Model updated.''))"

definition confirmModelStatus :: "string \<Rightarrow> ('r, 'w) authenticatedHandler" where
  "confirmModelStatus rid srv r session =
     (let status = TrimSpace (Query_Get r ''to'') in
      if \<not> validLifecycleStatus status then renderSimpleError srv session 400 ''Invalid status'' status_required
      else get_or_error srv session ''Change model status'' ''models'' (api_GetModel (srv_api srv) rid) (\<lambda>x data w.
        lifecycle_page ''model'' (Model_Alias (V_Value x)) status ''/models'' (Model_ID (V_Value x))
          (if status = StatusDisabled then ''Disabling the model immediately makes it unroutable for every virtual key.''
           else ''Enabling the model makes it routable for active virtual keys that reference it.'') ''model'' (V_ETag x) data))"

definition changeModelStatus :: "string \<Rightarrow> ('r, 'w) authenticatedHandler" where
  "changeModelStatus rid srv r session =
     parseProtectedForm srv r session (\<lambda>st.
       let status = formString r ''status''; etag = formString r ''_etag'';
           failed = failed_page srv session ''Change model status'' ''models'' (\<lambda>w data. data) ''error'' in
       if \<not> validLifecycleStatus status \<or> etag = ''''
       then renderSimpleError srv session 400 ''Invalid status'' (version_and_status_required ''confirmation'') st
       else case api_GetModel (srv_api srv) rid (ui_world st) of
           Inl err \<Rightarrow> failed err st
         | Inr x \<Rightarrow>
             call (api_UpdateModel (srv_api srv) rid ((modelForm_input (modelFormFromModel (V_Value x)))\<lparr>MI_Status := status\<rparr>) etag) failed
               (\<lambda>_. flashRedirect srv session ''/models'' ''success''
                 (if status = StatusDisabled then ''Model disabled and unroutable.'' else ''Model enabled.'')) st)"

definition confirmDeleteModel :: "string \<Rightarrow> ('r, 'w) authenticatedHandler" where
  "confirmDeleteModel rid srv r session =
     get_or_error srv session ''Delete model'' ''models'' (api_GetModel (srv_api srv) rid) (\<lambda>x data w.
       let model = V_Value x; keys = api_ListVirtualKeys (srv_api srv) w;
           n = length (filter (\<lambda>k. Model_ID model \<in> set (PVK_ModelIDs k)) (listing keys)) in
       render 200 ''confirm-delete'' (data\<lparr>PD_Warnings := warnings ''Could not inspect virtual-key relationships'' keys,
         PD_Confirm := Some (confirm_view ''model'' (Model_Alias model) ''/models'' (Model_ID model)
           (if n > 0 then ''This model is still referenced by '' @ decimal n @ '' virtual key(s). Remove it from every key before deleting the model.''
            else ''The model can be deleted only when no virtual key references it.'') (V_ETag x))\<rparr>))"

definition deleteModel :: "string \<Rightarrow> ('r, 'w) authenticatedHandler" where
  "deleteModel rid srv r session =
     parseProtectedForm srv r session (
       let etag = formString r ''_etag'' in
       if etag = '''' then renderSimpleError srv session 400 ''Invalid deletion'' version_missing
       else call (api_DeleteModel (srv_api srv) rid etag)
         (failed_page srv session ''Delete model'' ''models'' (\<lambda>w data. data\<lparr>PD_Confirm := Some (confirm_view ''model'' rid ''/models'' rid
            ''The model was not deleted.'' etag)\<rparr>) ''confirm-delete'')
         (\<lambda>_. flashRedirect srv session ''/models'' ''success'' ''Model deleted.''))"

section \<open>Virtual keys\<close>

definition keyReferenceData :: "'w server \<Rightarrow> 'w \<Rightarrow> pageData \<Rightarrow> pageData" where
  "keyReferenceData srv w data =
     (let users = api_ListUsers (srv_api srv) w; models = api_ListModels (srv_api srv) w; providers = api_ListProviders (srv_api srv) w in
      data\<lparr>PD_Users := sort_key (\<lambda>u. srv_lower srv (User_Name u)) (listing users), PD_Models := models_by_alias srv (listing models),
        PD_Providers := sort_key Provider_Slug (listing providers),
        PD_UserChoicesAvailable := available users, PD_ModelChoicesAvailable := available models,
        PD_UserNames := names_of User_ID User_Name (listing users), PD_ModelNames := names_of Model_ID Model_Alias (listing models),
        PD_ProviderNames := names_of Provider_ID Provider_Name (listing providers),
        PD_Warnings := PD_Warnings data @ warnings ''User choices are unavailable'' users @ warnings ''Model choices are unavailable'' models @
          warnings ''Provider names are unavailable'' providers\<rparr>)"

definition listVirtualKeys :: "('r, 'w) authenticatedHandler" where
  "listVirtualKeys srv r session =
     basePage srv AtPage session ''Virtual keys'' ''virtual-keys'' (\<lambda>data st.
       let w = ui_world st; users = api_ListUsers (srv_api srv) w; models = api_ListModels (srv_api srv) w;
           user_names = names_of User_ID User_Name (listing users); model_names = names_of Model_ID Model_Alias (listing models);
           q = TrimSpace (Query_Get r ''q''); status = TrimSpace (Query_Get r ''status'');
           userID = TrimSpace (Query_Get r ''user_id''); modelID = TrimSpace (Query_Get r ''model_id'');
           model_search = (\<lambda>k. concat (map (\<lambda>i. '' '' @ i @ '' '' @ model_names i) (PVK_ModelIDs k))) in
       (case api_ListVirtualKeys (srv_api srv) w of
          Inl err \<Rightarrow> renderOperationError data ''virtual-keys'' err
        | Inr keys \<Rightarrow>
            render 200 ''virtual-keys'' (data\<lparr>PD_UserNames := user_names,
              PD_Users := sort_key (\<lambda>u. srv_lower srv (User_Name u)) (listing users), PD_ModelNames := model_names, PD_Models := listing models,
              PD_Warnings := warnings ''User names are unavailable'' users @ warnings ''Model names are unavailable'' models,
              PD_Filter := no_filter\<lparr>PF_Query := q, PF_StatusFilter := status, PF_UserFilter := userID, PF_ModelFilter := modelID\<rparr>,
              PD_VirtualKeys := sort_key (\<lambda>k. (srv_lower srv (PVK_Name k), PVK_ID k)) (filter (\<lambda>k.
                matches srv (PVK_Name k @ '' '' @ PVK_Prefix k @ '' '' @ PVK_ID k @ '' '' @ PVK_UserID k @ '' '' @ user_names (PVK_UserID k) @ model_search k) q \<and>
                is_or_any status (PVK_Status k) \<and> is_or_any userID (PVK_UserID k) \<and> (modelID = '''' \<or> modelID \<in> set (PVK_ModelIDs k))) keys)\<rparr>), st))"

text \<open>A one-time token for the key-creation form, and the page that carries it.\<close>

definition with_operation ::
  "'w server \<Rightarrow> sessionSnapshot \<Rightarrow> string \<Rightarrow> pageData \<Rightarrow> (pageData \<Rightarrow> ('r, 'w) act) \<Rightarrow> ('r, 'w) act" where
  "with_operation srv session article data k st =
     (case issueKeyCreationToken (srv_clock srv AtIssue) (Snap_ID session) (ui_sessions st) of
        (Inl _, s') \<Rightarrow> renderSimpleError srv session 503 ''Key creation unavailable''
          (article @ '' one-time key-creation form could not be prepared. Reload the page and try again.'') (st\<lparr>ui_sessions := s'\<rparr>)
      | (Inr token, s') \<Rightarrow> k (keyReferenceData srv (ui_world st) (data\<lparr>PD_OperationToken := token\<rparr>)) (st\<lparr>ui_sessions := s'\<rparr>))"

definition no_key_form :: virtualKeyForm where
  "no_key_form = \<lparr>KF_Name = '''', KF_UserID = '''', KF_ModelIDs = [], KF_Status = StatusActive, KF_ExpiresAt = '''', KF_OriginalExpiresAt = ''''\<rparr>"

definition newVirtualKey :: "('r, 'w) authenticatedHandler" where
  "newVirtualKey srv r session =
     basePage srv AtPage session ''Create virtual key'' ''virtual-keys'' (\<lambda>data.
       with_operation srv session ''A'' (data\<lparr>PD_Form := VirtualKeyForm no_key_form\<rparr>) (\<lambda>data st. (render 200 ''virtual-key-form'' data, st)))"

definition refreshKeyCreationForm ::
  "'w server \<Rightarrow> sessionSnapshot \<Rightarrow> pageData \<Rightarrow> (pageData \<Rightarrow> ('r, 'w) act) \<Rightarrow> ('r, 'w) act" where
  "refreshKeyCreationForm srv session = with_operation srv session ''A new''"

definition virtualKeyFormFromRequest :: "UIRequest \<Rightarrow> virtualKeyForm" where
  "virtualKeyFormFromRequest r =
     \<lparr>KF_Name = formString r ''name'', KF_UserID = formString r ''user_id'', KF_ModelIDs = form_model_ids (PostForm_values r ''model_ids''),
      KF_Status = statusValue (PostForm_Get r ''status''), KF_ExpiresAt = formString r ''expires_at'',
      KF_OriginalExpiresAt = formString r ''expires_at_original''\<rparr>"

definition invalid_input :: "string \<Rightarrow> pageData \<Rightarrow> UIResponse" where
  "invalid_input detail data =
     render 400 ''virtual-key-form'' (data\<lparr>PD_Error := Some (view_error ''Invalid form'' detail), PD_StatusCode := 400\<rparr>)"

definition unknown_key_outcome :: "APIError \<Rightarrow> api_failure" where
  "unknown_key_outcome e = APIFailure \<lparr>AE_Status = 502, AE_Title = ''Key creation outcome unknown'',
     AE_Detail = ''The control plane may have created the key, but its one-time secret could not be delivered safely. Inspect the virtual-key list and delete any matching key before deliberately creating a replacement.'',
     AE_Instance = AE_Instance e, AE_Ambiguous = False\<rparr>"

definition reveal_key :: "'w server \<Rightarrow> sessionSnapshot \<Rightarrow> CreatedVirtualKey \<Rightarrow> ('r, 'w) act" where
  "reveal_key srv session created =
     basePage srv AtPage session ''Save virtual key'' ''virtual-keys'' (\<lambda>data st.
       (let resp = render 201 ''key-reveal'' (data\<lparr>PD_CreatedKey := Some created\<rparr>) in
        resp\<lparr>UP_Header := [(''Cache-Control'', ''no-store, max-age=0''), (''Pragma'', ''no-cache'')] @ UP_Header resp\<rparr>, st))"

definition createVirtualKey :: "('r, 'w) authenticatedHandler" where
  "createVirtualKey srv r session =
     parseProtectedForm srv r session (\<lambda>st0.
       let form = (virtualKeyFormFromRequest r)\<lparr>KF_OriginalExpiresAt := ''''\<rparr>;
           again = (\<lambda>answer. basePage srv AtPage session ''Create virtual key'' ''virtual-keys'' (\<lambda>data.
             refreshKeyCreationForm srv session (data\<lparr>PD_Form := VirtualKeyForm form\<rparr>) (\<lambda>data st. (answer data, st)))) in
       (case consumeKeyCreationToken (srv_clock srv AtToken) (Snap_ID session) (PostForm_Get r ''_operation'') (ui_sessions st0) of
          (consumed, s') \<Rightarrow>
            let st = st0\<lparr>ui_sessions := s'\<rparr> in
            if \<not> consumed
            then again (\<lambda>data. render 409 ''virtual-key-form'' (data\<lparr>PD_Error := Some (view_error ''Form already used''
              ''This key-creation form was already submitted or expired. Review the current key list before trying again.''), PD_StatusCode := 409\<rparr>)) st
            else if \<not> validLifecycleStatus (KF_Status form)
            then again (\<lambda>data. renderInvalidForm data ''virtual-key-form'' status_required) st
            else case virtualKeyForm_input (srv_time srv) form of
                Inl parseErr \<Rightarrow> again (invalid_input parseErr) st
              | Inr input \<Rightarrow>
                  call (api_CreateVirtualKey (srv_api srv) input)
                    (\<lambda>err. case err of
                        APIFailure e \<Rightarrow>
                          if AE_Ambiguous e
                          then failed_page srv session ''Key creation outcome unknown'' ''virtual-keys'' (\<lambda>w data. data) ''error'' (unknown_key_outcome e)
                          else again (\<lambda>data. renderOperationError data ''virtual-key-form'' err)
                      | OtherFailure _ \<Rightarrow> again (\<lambda>data. renderOperationError data ''virtual-key-form'' err))
                    (reveal_key srv session) st))"

definition editVirtualKey :: "string \<Rightarrow> ('r, 'w) authenticatedHandler" where
  "editVirtualKey rid srv r session =
     get_or_error srv session ''Edit virtual key'' ''virtual-keys'' (api_GetVirtualKey (srv_api srv) rid) (\<lambda>x data w.
       render 200 ''virtual-key-form'' (keyReferenceData srv w
         (editing (VirtualKeyForm (virtualKeyFormFromModel (srv_time srv) (V_Value x))) (PVK_ID (V_Value x)) (V_ETag x) data)))"

definition updateVirtualKey :: "string \<Rightarrow> ('r, 'w) authenticatedHandler" where
  "updateVirtualKey rid srv r session =
     parseProtectedForm srv r session (
       let etag = formString r ''_etag''; form = virtualKeyFormFromRequest r;
           fill = (\<lambda>w data. keyReferenceData srv w (editing (VirtualKeyForm form) rid etag data)) in
       if etag = '''' \<or> \<not> validLifecycleStatus (KF_Status form)
       then invalid_page srv session ''Edit virtual key'' ''virtual-keys'' fill ''virtual-key-form'' (version_and_status_required ''edit'')
       else case virtualKeyForm_input (srv_time srv) form of
           Inl parseErr \<Rightarrow> basePage srv AtPage session ''Edit virtual key'' ''virtual-keys'' (\<lambda>data st. (invalid_input parseErr (fill (ui_world st) data), st))
         | Inr input \<Rightarrow>
             call (api_UpdateVirtualKey (srv_api srv) rid input etag)
               (failed_page srv session ''Edit virtual key'' ''virtual-keys'' fill ''virtual-key-form'')
               (\<lambda>_. flashRedirect srv session ''/virtual-keys'' ''success'' ''Virtual key updated.''))"

definition confirmVirtualKeyStatus :: "string \<Rightarrow> ('r, 'w) authenticatedHandler" where
  "confirmVirtualKeyStatus rid srv r session =
     (let status = TrimSpace (Query_Get r ''to'') in
      if \<not> validLifecycleStatus status then renderSimpleError srv session 400 ''Invalid status'' status_required
      else get_or_error srv session ''Change virtual-key status'' ''virtual-keys'' (api_GetVirtualKey (srv_api srv) rid) (\<lambda>x data w.
        lifecycle_page ''virtual key'' (PVK_Name (V_Value x)) status ''/virtual-keys'' (PVK_ID (V_Value x))
          (if status = StatusDisabled then ''Disabling the key revokes this credential immediately.''
           else ''Enabling the key restores authorization only when its owner, selected models and provider routes are active and it has not expired.'')
          ''key'' (V_ETag x) data))"

definition changeVirtualKeyStatus :: "string \<Rightarrow> ('r, 'w) authenticatedHandler" where
  "changeVirtualKeyStatus rid srv r session =
     parseProtectedForm srv r session (\<lambda>st.
       let status = formString r ''status''; etag = formString r ''_etag'';
           failed = failed_page srv session ''Change key status'' ''virtual-keys'' (\<lambda>w data. data) ''error'' in
       if \<not> validLifecycleStatus status \<or> etag = ''''
       then renderSimpleError srv session 400 ''Invalid status'' (version_and_status_required ''confirmation'') st
       else case api_GetVirtualKey (srv_api srv) rid (ui_world st) of
           Inl err \<Rightarrow> failed err st
         | Inr x \<Rightarrow>
             let key = V_Value x in
             call (api_UpdateVirtualKey (srv_api srv) rid \<lparr>KI_Name = PVK_Name key, KI_UserID = PVK_UserID key, KI_ModelIDs = PVK_ModelIDs key,
                 KI_Status = status, KI_ExpiresAt = PVK_ExpiresAt key\<rparr> etag) failed
               (\<lambda>_. flashRedirect srv session ''/virtual-keys'' ''success''
                 (if status = StatusDisabled then ''Virtual key disabled and revoked.'' else ''Virtual key enabled.'')) st)"

definition confirmDeleteVirtualKey :: "string \<Rightarrow> ('r, 'w) authenticatedHandler" where
  "confirmDeleteVirtualKey rid srv r session =
     get_or_error srv session ''Delete virtual key'' ''virtual-keys'' (api_GetVirtualKey (srv_api srv) rid) (\<lambda>x data w.
       render 200 ''confirm-delete'' (data\<lparr>PD_Confirm := Some (confirm_view ''virtual key'' (PVK_Name (V_Value x)) ''/virtual-keys'' (PVK_ID (V_Value x))
         ''The key will stop authorizing immediately. Its plaintext secret cannot be recovered.'' (V_ETag x))\<rparr>))"

definition deleteVirtualKey :: "string \<Rightarrow> ('r, 'w) authenticatedHandler" where
  "deleteVirtualKey rid srv r session =
     parseProtectedForm srv r session (
       let etag = formString r ''_etag'' in
       if etag = '''' then renderSimpleError srv session 400 ''Invalid deletion'' version_missing
       else call (api_DeleteVirtualKey (srv_api srv) rid etag)
         (failed_page srv session ''Delete virtual key'' ''virtual-keys'' (\<lambda>w data. data\<lparr>PD_Confirm := Some (confirm_view ''virtual key'' rid ''/virtual-keys'' rid
            ''The key was not deleted.'' etag)\<rparr>) ''confirm-delete'')
         (\<lambda>_. flashRedirect srv session ''/virtual-keys'' ''success'' ''Virtual key deleted.''))"

section \<open>The service\<close>

text \<open>The table of \<^verbatim>\<open>NewHandler\<close>. The handlers of the pages get the ID in the path.\<close>

record ('r, 'w) ui_route =
  rt_method :: string
  rt_path :: "segment list"
  rt_handler :: "string list \<Rightarrow> 'w server \<Rightarrow> UIRequest \<Rightarrow> ('r, 'w) act"

definition open_route :: "string \<Rightarrow> string list \<Rightarrow> ('w server \<Rightarrow> UIRequest \<Rightarrow> ('r, 'w) act) \<Rightarrow> ('r, 'w) ui_route" where
  "open_route method path f = \<lparr>rt_method = method, rt_path = map Lit path, rt_handler = (\<lambda>_. f)\<rparr>"

definition page_route :: "string \<Rightarrow> string list \<Rightarrow> ('r, 'w) authenticatedHandler \<Rightarrow> ('r, 'w) ui_route" where
  "page_route method path f = open_route method path (auth f)"

definition item_route :: "string \<Rightarrow> string \<Rightarrow> string list \<Rightarrow> (string \<Rightarrow> ('r, 'w) authenticatedHandler) \<Rightarrow> ('r, 'w) ui_route" where
  "item_route method collection rest f =
     \<lparr>rt_method = method, rt_path = Lit collection # Wildcard # map Lit rest, rt_handler = (\<lambda>ids. auth (f (hd ids)))\<rparr>"

definition ui_health :: "'w server \<Rightarrow> UIRequest \<Rightarrow> ('r, 'w) act" where
  "ui_health srv r st =
     (\<lparr>UP_Status = 200, UP_Header = [(''Content-Type'', ''application/json'')], UP_Cookies = [], UP_Body = StatusJSON (JObj [(''status'', JStr ''ok'')])\<rparr>, st)"

definition ui_routes :: "('r, 'w) ui_route list" where
  "ui_routes =
     [open_route ''GET'' [''livez''] ui_health, open_route ''GET'' [''readyz''] ui_health,
      open_route ''GET'' [''login''] loginPage, open_route ''POST'' [''login''] login,
      page_route ''POST'' [''logout''] logout, page_route ''GET'' [''''] dashboard,
      page_route ''GET'' [''users''] listUsers, page_route ''GET'' [''users'', ''new''] newUser, page_route ''POST'' [''users''] createUser,
      item_route ''GET'' ''users'' [''edit''] editUser, item_route ''POST'' ''users'' [] updateUser,
      item_route ''GET'' ''users'' [''status''] confirmUserStatus, item_route ''POST'' ''users'' [''status''] changeUserStatus,
      item_route ''GET'' ''users'' [''delete''] confirmDeleteUser, item_route ''POST'' ''users'' [''delete''] deleteUser,
      page_route ''GET'' [''providers''] listProviders, page_route ''GET'' [''providers'', ''new''] newProvider, page_route ''POST'' [''providers''] createProvider,
      item_route ''GET'' ''providers'' [''edit''] editProvider, item_route ''POST'' ''providers'' [] updateProvider,
      item_route ''GET'' ''providers'' [''status''] confirmProviderStatus, item_route ''POST'' ''providers'' [''status''] changeProviderStatus,
      item_route ''GET'' ''providers'' [''delete''] confirmDeleteProvider, item_route ''POST'' ''providers'' [''delete''] deleteProvider,
      page_route ''GET'' [''models''] listModels, page_route ''GET'' [''models'', ''new''] newModel, page_route ''POST'' [''models''] createModel,
      item_route ''GET'' ''models'' [''edit''] editModel, item_route ''POST'' ''models'' [] updateModel,
      item_route ''GET'' ''models'' [''status''] confirmModelStatus, item_route ''POST'' ''models'' [''status''] changeModelStatus,
      item_route ''GET'' ''models'' [''delete''] confirmDeleteModel, item_route ''POST'' ''models'' [''delete''] deleteModel,
      page_route ''GET'' [''virtual-keys''] listVirtualKeys, page_route ''GET'' [''virtual-keys'', ''new''] newVirtualKey,
      page_route ''POST'' [''virtual-keys''] createVirtualKey,
      item_route ''GET'' ''virtual-keys'' [''edit''] editVirtualKey, item_route ''POST'' ''virtual-keys'' [] updateVirtualKey,
      item_route ''GET'' ''virtual-keys'' [''status''] confirmVirtualKeyStatus, item_route ''POST'' ''virtual-keys'' [''status''] changeVirtualKeyStatus,
      item_route ''GET'' ''virtual-keys'' [''delete''] confirmDeleteVirtualKey, item_route ''POST'' ''virtual-keys'' [''delete''] deleteVirtualKey]"

definition plain_answer :: "nat \<Rightarrow> string \<Rightarrow> UIResponse" where
  "plain_answer status text =
     \<lparr>UP_Status = status, UP_Header = [(''Content-Type'', ''text/plain; charset=utf-8'')], UP_Cookies = [], UP_Body = PlainBody text\<rparr>"

fun ui_mux :: "('r, 'w) ui_route list \<Rightarrow> bool \<Rightarrow> 'w server \<Rightarrow> UIRequest \<Rightarrow> ('r, 'w) act" where
  "ui_mux [] other srv r st = (if other then plain_answer 405 ''Method Not Allowed'' else plain_answer 404 ''404 page not found'', st)"
| "ui_mux (p # ps) other srv r st =
     (case match_path (rt_path p) (UR_Segments r) of
        None \<Rightarrow> ui_mux ps other srv r st
      | Some ids \<Rightarrow> if match_method (rt_method p) (UR_Method r) then rt_handler p ids srv r st else ui_mux ps True srv r st)"

text \<open>The files under \<^verbatim>\<open>/assets/\<close>; the mux redirects the path without its last slash.\<close>

definition assets :: "UIRequest \<Rightarrow> UIResponse" where
  "assets r =
     (if \<not> match_method ''GET'' (UR_Method r) then plain_answer 405 ''Method Not Allowed''
      else if tl (UR_Segments r) = []
      then \<lparr>UP_Status = 307, UP_Header = [(''Location'', ''/assets/'')], UP_Cookies = [], UP_Body = Redirect ''/assets/''\<rparr>
      else \<lparr>UP_Status = 200, UP_Header = [(''Cache-Control'', ''public, max-age=3600'')], UP_Cookies = [], UP_Body = StaticFile (tl (UR_Segments r))\<rparr>)"

definition securityHeaders :: "'w server \<Rightarrow> UIResponse \<Rightarrow> UIResponse" where
  "securityHeaders srv resp =
     resp\<lparr>UP_Header := UP_Header resp @
       (if map_of (UP_Header resp) ''Cache-Control'' = None then [(''Cache-Control'', ''no-store'')] else []) @
       [(''Content-Security-Policy'', ''default-src 'self'; script-src 'self'; style-src 'self'; img-src 'self'; connect-src 'none'; object-src 'none'; base-uri 'none'; form-action 'self'; frame-ancestors 'none'' @ [CHR 0x27]),
        (''Cross-Origin-Opener-Policy'', ''same-origin''), (''Cross-Origin-Resource-Policy'', ''same-origin''),
        (''Permissions-Policy'', ''camera=(), microphone=(), geolocation=()''), (''Referrer-Policy'', ''no-referrer''),
        (''X-Content-Type-Options'', ''nosniff''), (''X-Frame-Options'', ''DENY'')] @
       (if srv_cookieSecure srv then [(''Strict-Transport-Security'', ''max-age=31536000; includeSubDomains'')] else [])\<rparr>"

definition AdminUI :: "'w server \<Rightarrow> UIRequest \<Rightarrow> ('r, 'w) act" where
  "AdminUI srv r st =
     (case (if take 1 (UR_Segments r) = [''assets''] then (assets r, st) else ui_mux ui_routes False srv r st) of
        (resp, st') \<Rightarrow> (securityHeaders srv resp, st'))"

text \<open>\<^verbatim>\<open>NewHandler\<close>: the configuration that it accepts, with its defaults.\<close>

record UIConfig =
  UC_AdminToken :: string
  UC_SessionTTL :: int
  UC_RequestTimeout :: int
  UC_CookieName :: string
  UC_CookieSecure :: bool
  UC_MaxFormBytes :: int

fun contains_space :: "string \<Rightarrow> bool" where
  "contains_space [] \<longleftrightarrow> False"
| "contains_space (c # s) \<longleftrightarrow> TrimLeft (c # s) \<noteq> c # s \<or> contains_space s"

definition default :: "int \<Rightarrow> int \<Rightarrow> int" where
  "default v d = (if v = 0 then d else v)"

definition NewHandler ::
  "(string \<Rightarrow> bool) \<Rightarrow> 'w API \<Rightarrow> (nat list \<Rightarrow> string \<Rightarrow> nat list) \<Rightarrow> (string \<Rightarrow> string) \<Rightarrow> TimeText \<Rightarrow> (moment \<Rightarrow> time) \<Rightarrow>
     (nat \<Rightarrow> 'r \<Rightarrow> nat list result \<times> 'r) \<Rightarrow> 'r \<Rightarrow> UIConfig \<Rightarrow> ('w server \<times> 'r sessionStore) result" where
  "NewHandler cookie_ok api mac lower T clock read reader cfg =
     ebind (fail_if (UC_AdminToken cfg = '''' \<or> contains_space (UC_AdminToken cfg))
       (LibraryError ''admin token is required and must not contain whitespace'')) (\<lambda>_.
     let ttl = default (UC_SessionTTL cfg) (30 * 60 * nanosecond_per_second); timeout = default (UC_RequestTimeout cfg) (20 * nanosecond_per_second);
         name = (if UC_CookieName cfg = '''' then ''gwai_admin_session'' else UC_CookieName cfg); maxForm = default (UC_MaxFormBytes cfg) (128 * 2 ^ 10) in
     ebind (fail_if (ttl < 60 * nanosecond_per_second) (LibraryError ''session TTL must be at least one minute'')) (\<lambda>_.
     ebind (fail_if (timeout \<le> 0) (LibraryError ''request timeout must be positive'')) (\<lambda>_.
     ebind (fail_if (\<not> cookie_ok name) (Errorf ''invalid cookie name: %w'' [] [LibraryError ''http: invalid Cookie.Name''])) (\<lambda>_.
     ebind (fail_if (maxForm \<le> 0) (LibraryError ''maximum form size must be positive'')) (\<lambda>_.
     (case read loginChallengeKeySize reader of
        (Inl err, _) \<Rightarrow> Inl (Errorf ''initialize login challenge key: %w'' [] [err])
      | (Inr loginKey, reader') \<Rightarrow>
          Inr (\<lparr>srv_api = api, srv_adminToken = UC_AdminToken cfg, srv_cookieName = name, srv_cookieSecure = UC_CookieSecure cfg,
                srv_maxFormBytes = nat maxForm, srv_loginKey = loginKey, srv_mac = mac, srv_lower = lower, srv_time = T, srv_clock = clock\<rparr>,
               newSessionStore read reader' ttl)))))))"

end
