(* ===== verification/Admin_Access.thy ===== *)
theory Admin_Access
  imports Admin_UI
begin

text \<open>
  What the admin UI may do to the control planes. An abstract specification says which single write, if
  any, a request asks for and whether its session, its CSRF token and its key-creation token permit it;
  the service changes the control planes by exactly that write. The lemmas go through the functions
  that the handlers share, then one line per handler, then the table of routes.
\<close>

named_theorems ui_world \<open>the state behind the API after a part of a handler\<close>
named_theorems ui_does \<open>the write of each handler\<close>

section \<open>The specification\<close>

datatype ui_write =
    CreateUserW UserInput | UpdateUserW string UserInput string | DeleteUserW string string
  | CreateProviderW ProviderInput | UpdateProviderW string ProviderInput string | DeleteProviderW string string
  | CreateModelW ModelInput | UpdateModelW string ModelInput string | DeleteModelW string string
  | CreateKeyW VirtualKeyInput | UpdateKeyW string VirtualKeyInput string | DeleteKeyW string string

primrec perform :: "'w API \<Rightarrow> ui_write \<Rightarrow> 'w \<Rightarrow> 'w" where
  "perform api (CreateUserW input) w = snd (api_CreateUser api input w)"
| "perform api (UpdateUserW rid input etag) w = snd (api_UpdateUser api rid input etag w)"
| "perform api (DeleteUserW rid etag) w = snd (api_DeleteUser api rid etag w)"
| "perform api (CreateProviderW pinput) w = snd (api_CreateProvider api pinput w)"
| "perform api (UpdateProviderW rid pinput etag) w = snd (api_UpdateProvider api rid pinput etag w)"
| "perform api (DeleteProviderW rid etag) w = snd (api_DeleteProvider api rid etag w)"
| "perform api (CreateModelW minput) w = snd (api_CreateModel api minput w)"
| "perform api (UpdateModelW rid minput etag) w = snd (api_UpdateModel api rid minput etag w)"
| "perform api (DeleteModelW rid etag) w = snd (api_DeleteModel api rid etag w)"
| "perform api (CreateKeyW kinput) w = snd (api_CreateVirtualKey api kinput w)"
| "perform api (UpdateKeyW rid kinput etag) w = snd (api_UpdateVirtualKey api rid kinput etag w)"
| "perform api (DeleteKeyW rid etag) w = snd (api_DeleteVirtualKey api rid etag w)"

definition carried_out :: "'w API \<Rightarrow> ui_write option \<Rightarrow> 'w \<Rightarrow> 'w" where
  "carried_out api write w = (case write of None \<Rightarrow> w | Some x \<Rightarrow> perform api x w)"

text \<open>A write that names the version it replaces.\<close>

definition versioned_write :: "UIRequest \<Rightarrow> bool \<Rightarrow> (string \<Rightarrow> ui_write) \<Rightarrow> ui_write option" where
  "versioned_write r ok write = (let etag = formString r ''_etag'' in if etag \<noteq> '''' \<and> ok then Some (write etag) else None)"

definition status_write :: "UIRequest \<Rightarrow> 'a api_result \<Rightarrow> ('a \<Rightarrow> string \<Rightarrow> string \<Rightarrow> ui_write) \<Rightarrow> ui_write option" where
  "status_write r found write =
     (let status = formString r ''status'' in
      case found of Inl _ \<Rightarrow> None | Inr x \<Rightarrow> versioned_write r (validLifecycleStatus status) (write x status))"

fun item_write ::
  "UIRequest \<Rightarrow> ui_write option \<Rightarrow> (string \<Rightarrow> ui_write option) \<Rightarrow> (string \<Rightarrow> ui_write option) \<Rightarrow> (string \<Rightarrow> string \<Rightarrow> ui_write) \<Rightarrow>
     string list \<Rightarrow> ui_write option" where
  "item_write r new upd status del [] = new"
| "item_write r new upd status del [rid] = (if rid = '''' then None else upd rid)"
| "item_write r new upd status del [rid, action] =
     (if rid = '''' then None
      else if action = ''status'' then status rid
      else if action = ''delete'' then versioned_write r True (del rid) else None)"
| "item_write r new upd status del _ = None"

text \<open>The write that a posted form asks for, from its path and its fields.\<close>

definition form_write :: "'w server \<Rightarrow> UIRequest \<Rightarrow> 'w \<Rightarrow> string list \<Rightarrow> ui_write option" where
  "form_write srv r w path =
     (let user = userFormFromRequest r; provider = providerFormFromRequest r; model = modelFormFromRequest r; key = virtualKeyFormFromRequest r in
      case path of
        [] \<Rightarrow> None
      | c # rest \<Rightarrow>
          if c = ''users'' then item_write r
            (if validLifecycleStatus (UF_Status user) then Some (CreateUserW (userForm_input user)) else None)
            (\<lambda>rid. versioned_write r (validLifecycleStatus (UF_Status user)) (UpdateUserW rid (userForm_input user)))
            (\<lambda>rid. status_write r (api_GetUser (srv_api srv) rid w) (\<lambda>x status.
               UpdateUserW rid \<lparr>UI_Name = User_Name (V_Value x), UI_Email = User_Email (V_Value x), UI_Status = status\<rparr>))
            DeleteUserW rest
          else if c = ''providers'' then item_write r
            (if validLifecycleStatus (PF_Status provider) then Some (CreateProviderW (providerForm_input provider)) else None)
            (\<lambda>rid. versioned_write r (validLifecycleStatus (PF_Status provider)) (UpdateProviderW rid (providerForm_input provider)))
            (\<lambda>rid. status_write r (api_GetProvider (srv_api srv) rid w) (\<lambda>x status.
               UpdateProviderW rid \<lparr>PI_Slug = Provider_Slug (V_Value x), PI_Name = Provider_Name (V_Value x), PI_Kind = Provider_Kind (V_Value x),
                 PI_AdapterAppID = Provider_AdapterAppID (V_Value x), PI_Status = status\<rparr>))
            DeleteProviderW rest
          else if c = ''models'' then item_write r
            (if validLifecycleStatus (MF_Status model) then Some (CreateModelW (modelForm_input model)) else None)
            (\<lambda>rid. versioned_write r (validLifecycleStatus (MF_Status model)) (UpdateModelW rid (modelForm_input model)))
            (\<lambda>rid. status_write r (api_GetModel (srv_api srv) rid w) (\<lambda>x status.
               UpdateModelW rid \<lparr>MI_Alias = Model_Alias (V_Value x), MI_ProviderID = Model_ProviderID (V_Value x),
                 MI_UpstreamModel = Model_UpstreamModel (V_Value x), MI_Status = status\<rparr>))
            DeleteModelW rest
          else if c = ''virtual-keys'' then item_write r
            (if validLifecycleStatus (KF_Status key)
             then case virtualKeyForm_input (srv_time srv) (key\<lparr>KF_OriginalExpiresAt := ''''\<rparr>) of Inl _ \<Rightarrow> None | Inr input \<Rightarrow> Some (CreateKeyW input)
             else None)
            (\<lambda>rid. case virtualKeyForm_input (srv_time srv) key of
               Inl _ \<Rightarrow> None
             | Inr input \<Rightarrow> versioned_write r (validLifecycleStatus (KF_Status key)) (UpdateKeyW rid input))
            (\<lambda>rid. status_write r (api_GetVirtualKey (srv_api srv) rid w) (\<lambda>x status.
               UpdateKeyW rid \<lparr>KI_Name = PVK_Name (V_Value x), KI_UserID = PVK_UserID (V_Value x), KI_ModelIDs = PVK_ModelIDs (V_Value x),
                 KI_Status = status, KI_ExpiresAt = PVK_ExpiresAt (V_Value x)\<rparr>))
            DeleteKeyW rest
          else None)"

text \<open>The authenticated session of the request's cookie.\<close>

definition signed_in :: "'w server \<Rightarrow> UIRequest \<Rightarrow> 'r sessionStore \<Rightarrow> (string \<times> storedSession) option" where
  "signed_in srv r s =
     (case map_of (UR_Cookies r) (srv_cookieName srv) of
        None \<Rightarrow> None
      | Some cookie \<Rightarrow>
          (case map_of (sessions s) cookie of
             None \<Rightarrow> None
           | Some x \<Rightarrow> if cookie \<noteq> '''' \<and> After (ExpiresAt x) (srv_clock srv AtCookie) \<and> Authenticated x then Some (cookie, x) else None))"

definition form_accepted :: "'w server \<Rightarrow> UIRequest \<Rightarrow> storedSession \<Rightarrow> bool" where
  "form_accepted srv r x \<longleftrightarrow> \<not> ParseForm_fails srv r \<and> After (ExpiresAt x) (srv_clock srv AtForm) \<and>
     CSRFToken x \<noteq> '''' \<and> PostForm_Get r ''_csrf'' = CSRFToken x"

definition operation_accepted :: "'w server \<Rightarrow> UIRequest \<Rightarrow> storedSession \<Rightarrow> bool" where
  "operation_accepted srv r x \<longleftrightarrow> PostForm_Get r ''_operation'' \<noteq> '''' \<and> After (ExpiresAt x) (srv_clock srv AtToken) \<and>
     (case map_of (KeyCreationToken x) (PostForm_Get r ''_operation'') of
        None \<Rightarrow> False
      | Some e \<Rightarrow> After e (srv_clock srv AtCookie) \<and> After e (srv_clock srv AtForm) \<and> After e (srv_clock srv AtToken))"

definition permitted :: "'w server \<Rightarrow> UIRequest \<Rightarrow> ('r, 'w) ui \<Rightarrow> ui_write option" where
  "permitted srv r st =
     (case signed_in srv r (ui_sessions st) of
        None \<Rightarrow> None
      | Some (cookie, x) \<Rightarrow>
          if UR_Method r = ''POST'' \<and> form_accepted srv r x \<and> (UR_Segments r = [''virtual-keys''] \<longrightarrow> operation_accepted srv r x)
          then form_write srv r (ui_world st) (UR_Segments r) else None)"

section \<open>The parts of a handler\<close>

lemma world_basePage [ui_world]:
  "(\<And>data st. ui_world (snd (k data st)) = ui_world st) \<Longrightarrow> ui_world (snd (basePage srv m se title sec k st)) = ui_world st"
  by (simp add: basePage_def split: prod.split)

lemma world_renderSimpleError [ui_world]: "ui_world (snd (renderSimpleError srv se status title detail st)) = ui_world st"
  by (simp add: renderSimpleError_def ui_world)

lemma world_flashRedirect [ui_world]: "ui_world (snd (flashRedirect srv se location kind message st)) = ui_world st"
  by (simp add: flashRedirect_def)

lemma world_get_or_error [ui_world]: "ui_world (snd (get_or_error srv se title sec rd present st)) = ui_world st"
  by (simp add: get_or_error_def ui_world split: sum.split)

lemma world_invalid_page [ui_world]: "ui_world (snd (invalid_page srv se title sec fill name detail st)) = ui_world st"
  by (simp add: invalid_page_def ui_world)

lemma world_failed_page [ui_world]: "ui_world (snd (failed_page srv se title sec fill name err st)) = ui_world st"
  by (simp add: failed_page_def ui_world)

lemma world_with_operation [ui_world]:
  "(\<And>data st. ui_world (snd (k data st)) = ui_world st) \<Longrightarrow> ui_world (snd (with_operation srv se article data k st)) = ui_world st"
  by (simp add: with_operation_def ui_world split: prod.split sum.split)

lemma world_call [ui_world]:
  "(\<And>err st. ui_world (snd (failed err st)) = ui_world st) \<Longrightarrow> (\<And>x st. ui_world (snd (ok x st)) = ui_world st) \<Longrightarrow>
   ui_world (snd (call f failed ok st)) = snd (f (ui_world st))"
  by (simp add: call_def split: prod.split sum.split)

definition csrf_ok :: "'w server \<Rightarrow> UIRequest \<Rightarrow> sessionSnapshot \<Rightarrow> 'r sessionStore \<Rightarrow> bool \<times> 'r sessionStore" where
  "csrf_ok srv r se s =
     (case verifyCSRF (srv_clock srv AtForm) (Snap_ID se) (PostForm_Get r ''_csrf'') s of (ok, s') \<Rightarrow> (\<not> ParseForm_fails srv r \<and> ok, s'))"

lemma world_parseProtectedForm [ui_world]:
  "ui_world (snd (parseProtectedForm srv r se k st)) =
     (case csrf_ok srv r se (ui_sessions st) of (ok, s') \<Rightarrow> if ok then ui_world (snd (k (st\<lparr>ui_sessions := s'\<rparr>))) else ui_world st)"
  by (simp add: parseProtectedForm_def csrf_ok_def ui_world split: prod.split bool.split)

lemma if_act: "(if b then f else g) st = (if b then f st else g st)"
  by simp

section \<open>The handlers\<close>

definition token_ok :: "'w server \<Rightarrow> UIRequest \<Rightarrow> sessionSnapshot \<Rightarrow> 'r sessionStore \<Rightarrow> bool" where
  "token_ok srv r se s = fst (consumeKeyCreationToken (srv_clock srv AtToken) (Snap_ID se) (PostForm_Get r ''_operation'') s)"

definition does :: "string list \<Rightarrow> ('r, 'w) authenticatedHandler \<Rightarrow> bool" where
  "does path f \<longleftrightarrow> (\<forall>srv r se st. ui_world (snd (f srv r se st)) =
     (case csrf_ok srv r se (ui_sessions st) of (ok, s') \<Rightarrow>
      if ok \<and> (path = [''virtual-keys''] \<longrightarrow> token_ok srv r se s')
      then carried_out (srv_api srv) (form_write srv r (ui_world st) path) (ui_world st) else ui_world st))"

definition shows_only :: "('r, 'w) authenticatedHandler \<Rightarrow> bool" where
  "shows_only f \<longleftrightarrow> (\<forall>srv r se st. ui_world (snd (f srv r se st)) = ui_world st)"

lemmas write_defs = does_def form_write_def carried_out_def versioned_write_def status_write_def Let_def if_act

lemma does_users [ui_does]:
  "does [''users''] createUser" "rid \<noteq> '''' \<Longrightarrow> does [''users'', rid] (updateUser rid)"
  "rid \<noteq> '''' \<Longrightarrow> does [''users'', rid, ''status''] (changeUserStatus rid)" "rid \<noteq> '''' \<Longrightarrow> does [''users'', rid, ''delete''] (deleteUser rid)"
  by (auto simp: write_defs ui_world createUser_def updateUser_def changeUserStatus_def deleteUser_def split: prod.split sum.split)

lemma does_providers [ui_does]:
  "does [''providers''] createProvider" "rid \<noteq> '''' \<Longrightarrow> does [''providers'', rid] (updateProvider rid)"
  "rid \<noteq> '''' \<Longrightarrow> does [''providers'', rid, ''status''] (changeProviderStatus rid)" "rid \<noteq> '''' \<Longrightarrow> does [''providers'', rid, ''delete''] (deleteProvider rid)"
  by (auto simp: write_defs ui_world createProvider_def updateProvider_def changeProviderStatus_def deleteProvider_def
      providerForm_input_def providerFormFromModel_def split: prod.split sum.split)

lemma does_models [ui_does]:
  "does [''models''] createModel" "rid \<noteq> '''' \<Longrightarrow> does [''models'', rid] (updateModel rid)"
  "rid \<noteq> '''' \<Longrightarrow> does [''models'', rid, ''status''] (changeModelStatus rid)" "rid \<noteq> '''' \<Longrightarrow> does [''models'', rid, ''delete''] (deleteModel rid)"
  by (auto simp: write_defs ui_world createModel_def updateModel_def changeModelStatus_def deleteModel_def
      modelForm_input_def modelFormFromModel_def split: prod.split sum.split)

lemma does_keys [ui_does]:
  "rid \<noteq> '''' \<Longrightarrow> does [''virtual-keys'', rid] (updateVirtualKey rid)"
  "rid \<noteq> '''' \<Longrightarrow> does [''virtual-keys'', rid, ''status''] (changeVirtualKeyStatus rid)" "rid \<noteq> '''' \<Longrightarrow> does [''virtual-keys'', rid, ''delete''] (deleteVirtualKey rid)"
  by (auto simp: write_defs ui_world updateVirtualKey_def changeVirtualKeyStatus_def deleteVirtualKey_def split: prod.split sum.split)

lemma does_create_key [ui_does]: "does [''virtual-keys''] createVirtualKey"
  by (auto simp: write_defs ui_world createVirtualKey_def refreshKeyCreationForm_def reveal_key_def token_ok_def
      split: prod.split sum.split api_failure.split)

lemma shows_pages [ui_does]:
  "shows_only logout" "shows_only dashboard"
  "shows_only listUsers" "shows_only newUser" "shows_only (editUser rid)" "shows_only (confirmUserStatus rid)" "shows_only (confirmDeleteUser rid)"
  "shows_only listProviders" "shows_only newProvider" "shows_only (editProvider rid)" "shows_only (confirmProviderStatus rid)" "shows_only (confirmDeleteProvider rid)"
  "shows_only listModels" "shows_only newModel" "shows_only (editModel rid)" "shows_only (confirmModelStatus rid)" "shows_only (confirmDeleteModel rid)"
  "shows_only listVirtualKeys" "shows_only newVirtualKey" "shows_only (editVirtualKey rid)" "shows_only (confirmVirtualKeyStatus rid)" "shows_only (confirmDeleteVirtualKey rid)"
  by (simp_all add: shows_only_def ui_world Let_def if_act logout_def dashboard_def
      listUsers_def newUser_def editUser_def confirmUserStatus_def confirmDeleteUser_def
      listProviders_def newProvider_def editProvider_def confirmProviderStatus_def confirmDeleteProvider_def
      listModels_def newModel_def editModel_def confirmModelStatus_def confirmDeleteModel_def
      listVirtualKeys_def newVirtualKey_def editVirtualKey_def confirmVirtualKeyStatus_def confirmDeleteVirtualKey_def split: prod.split)

section \<open>Sessions\<close>

lemma load_stored:
  assumes "distinct (map fst (sessions s))"
  shows "fst (load now rid s) =
     (case map_of (sessions s) rid of
        None \<Rightarrow> None
      | Some x \<Rightarrow> if rid \<noteq> '''' \<and> After (ExpiresAt x) now
          then Some \<lparr>Snap_ID = rid, Snap_Authenticated = Authenticated x, Snap_CSRFToken = CSRFToken x, Snap_ExpiresAt = ExpiresAt x\<rparr> else None)"
  using assms by (simp add: load_def Let_def sessions_cleanup split: option.split)

lemma snd_load: "snd (load now rid s) = (if rid = '''' then s else cleanupLocked now s)"
  by (simp add: load_def Let_def)

lemma verifyCSRF_eq:
  "verifyCSRF now rid candidate s =
     (case fst (load now rid s) of None \<Rightarrow> False | Some snap \<Rightarrow> candidate \<noteq> '''' \<and> Snap_CSRFToken snap = candidate, snd (load now rid s))"
  by (simp add: verifyCSRF_def split: prod.split option.split)

lemma cookieSession_eq:
  "cookieSession srv r st =
     (case map_of (UR_Cookies r) (srv_cookieName srv) of
        None \<Rightarrow> (None, st)
      | Some cookie \<Rightarrow> (fst (load (srv_clock srv AtCookie) cookie (ui_sessions st)),
          st\<lparr>ui_sessions := snd (load (srv_clock srv AtCookie) cookie (ui_sessions st))\<rparr>))"
  by (simp add: cookieSession_def split: option.split prod.split)

lemma store_distinct: "store_ok s \<Longrightarrow> distinct (map fst (sessions s))"
  by (simp add: store_ok_def)

lemma stored_tokens_distinct: "store_ok s \<Longrightarrow> map_of (sessions s) rid = Some x \<Longrightarrow> distinct (map fst (KeyCreationToken x))"
  by (auto simp: store_ok_def session_ok_def)

text \<open>A page of a request: shown to the session of its cookie, on the store without what has expired.\<close>

lemma world_auth:
  assumes "store_ok (ui_sessions st)"
  shows "ui_world (snd (auth f srv r st)) =
     (case signed_in srv r (ui_sessions st) of
        None \<Rightarrow> ui_world st
      | Some (cookie, x) \<Rightarrow> ui_world (snd (f srv r
          \<lparr>Snap_ID = cookie, Snap_Authenticated = True, Snap_CSRFToken = CSRFToken x, Snap_ExpiresAt = ExpiresAt x\<rparr>
          (st\<lparr>ui_sessions := cleanupLocked (srv_clock srv AtCookie) (ui_sessions st)\<rparr>))))"
  using store_distinct [OF assms]
  by (auto simp: auth_def cookieSession_eq signed_in_def load_stored snd_load split: option.split)

lemma accepted_stored:
  assumes ok: "store_ok s" and signed: "signed_in srv r s = Some (cookie, x)" and id: "Snap_ID se = cookie"
    and csrf: "csrf_ok srv r se (cleanupLocked (srv_clock srv AtCookie) s) = (b, s')"
  shows "b \<longleftrightarrow> form_accepted srv r x" and "b \<Longrightarrow> token_ok srv r se s' \<longleftrightarrow> operation_accepted srv r x"
proof -
  let ?s = "cleanupLocked (srv_clock srv AtCookie) s"
  from signed have x: "map_of (sessions s) cookie = Some x" "cookie \<noteq> []" "After (ExpiresAt x) (srv_clock srv AtCookie)" "Authenticated x"
    by (auto simp: signed_in_def split: option.splits if_splits)
  have ok1: "store_ok ?s" by (rule cleanup_ok [OF ok])
  have ok2: "store_ok (cleanupLocked t ?s)" for t by (rule cleanup_ok [OF ok1])
  note d = store_distinct [OF ok] store_distinct [OF ok1]
  have s: "map_of (sessions ?s) cookie = Some (x\<lparr>KeyCreationToken := live_tokens (srv_clock srv AtCookie) (KeyCreationToken x)\<rparr>)"
    using x by (simp add: sessions_cleanup [OF d(1)])
  show b: "b \<longleftrightarrow> form_accepted srv r x"
    using csrf x(2) s id by (auto simp: csrf_ok_def verifyCSRF_eq load_stored [OF d(2)] form_accepted_def split: if_splits)
  assume b
  with b have live: "After (ExpiresAt x) (srv_clock srv AtForm)" by (simp add: form_accepted_def)
  from csrf x(2) id have s': "s' = cleanupLocked (srv_clock srv AtForm) ?s" by (simp add: csrf_ok_def verifyCSRF_eq snd_load)
  have t: "distinct (map fst (KeyCreationToken x))" by (rule stored_tokens_distinct [OF ok x(1)])
  then have t': "distinct (map fst (live_tokens now (KeyCreationToken x)))" for now by (simp add: live_tokens_def distinct_map_filter)
  show "token_ok srv r se s' \<longleftrightarrow> operation_accepted srv r x"
    using s live x id unfolding s' token_ok_def operation_accepted_def
    by (auto simp: consume_True_iff sessions_cleanup [OF d(2)] map_of_live [OF t'] map_of_live [OF t] split: option.splits if_splits)
qed

section \<open>The routes\<close>

text \<open>A route either shows something or, under POST, does what its form asks for.\<close>

definition route_ok :: "string list \<Rightarrow> string list \<Rightarrow> ('r, 'w) ui_route \<Rightarrow> bool" where
  "route_ok path ids p \<longleftrightarrow>
     rt_method p = ''POST'' \<and> (\<exists>f. rt_handler p ids = auth f \<and> does path f)
   \<or> (rt_method p = ''GET'' \<or> path \<in> {[''login''], [''logout'']}) \<and>
       (\<forall>srv r st. store_ok (ui_sessions st) \<longrightarrow> ui_world (snd (rt_handler p ids srv r st)) = ui_world st)"

lemma match_item:
  "match_path (Lit c # Wildcard # map Lit rest) path = Some ids \<longleftrightarrow> (\<exists>rid. rid \<noteq> '''' \<and> path = c # rid # rest \<and> ids = [rid])"
  by (cases path; cases "tl path") (auto simp: match_literals split: if_splits)

lemma open_route_ok:
  "rt_method (open_route m ls f) = m" "match_path (rt_path (open_route m ls f)) path = Some ids \<longleftrightarrow> path = ls \<and> ids = []"
  "rt_handler (open_route m ls f) ids = f"
  by (auto simp: open_route_def match_literals)

lemma item_route_ok:
  "rt_method (item_route m c rest g) = m"
  "match_path (rt_path (item_route m c rest g)) path = Some ids \<longleftrightarrow> (\<exists>rid. rid \<noteq> '''' \<and> path = c # rid # rest \<and> ids = [rid])"
  "rt_handler (item_route m c rest g) ids = auth (g (hd ids))"
  by (auto simp: item_route_def match_item)

lemma shows_route: "shows_only f \<Longrightarrow> store_ok (ui_sessions st) \<Longrightarrow> ui_world (snd (auth f srv r st)) = ui_world st"
  by (auto simp: world_auth shows_only_def split: option.split)

lemma world_open_pages:
  "ui_world (snd (ui_health srv r st)) = ui_world st" "ui_world (snd (loginPage srv r st)) = ui_world st" "ui_world (snd (login srv r st)) = ui_world st"
  by (auto simp: ui_health_def loginPage_def login_def cookieSession_eq Let_def split: option.splits prod.splits sum.splits if_splits)

definition all_ok :: "('r, 'w) ui_route \<Rightarrow> bool" where
  "all_ok p \<longleftrightarrow> (\<forall>path ids. match_path (rt_path p) path = Some ids \<longrightarrow> route_ok path ids p)"

lemma all_okI:
  "shows_only f \<Longrightarrow> all_ok (page_route ''GET'' ls f)" "does ls h \<Longrightarrow> all_ok (page_route ''POST'' ls h)"
  "(\<And>rid. shows_only (g rid)) \<Longrightarrow> all_ok (item_route ''GET'' c rest g)"
  "(\<And>rid. rid \<noteq> '''' \<Longrightarrow> does (c # rid # rest) (k rid)) \<Longrightarrow> all_ok (item_route ''POST'' c rest k)"
  by (auto simp: all_ok_def route_ok_def page_route_def open_route_ok item_route_ok shows_route)

lemma all_ok_open:
  "all_ok (open_route ''GET'' ls ui_health)" "all_ok (open_route ''GET'' ls loginPage)" "all_ok (open_route ''POST'' [''login''] login)"
  "all_ok (page_route ''POST'' [''logout''] logout)"
  by (auto simp: all_ok_def route_ok_def page_route_def open_route_ok world_open_pages shows_route ui_does)

lemma all_routes_ok: "list_all all_ok ui_routes"
  unfolding ui_routes_def list.pred_inject by (intro conjI all_ok_open all_okI ui_does list.pred_inject(1))

lemma routes_ok: "p \<in> set ui_routes \<Longrightarrow> match_path (rt_path p) path = Some ids \<Longrightarrow> route_ok path ids p"
  using all_routes_ok by (auto simp: list_all_iff all_ok_def)

lemma form_route_exists:
  assumes "form_write srv r w path \<noteq> None" shows "\<exists>p ids. p \<in> set ui_routes \<and> match_path (rt_path p) path = Some ids \<and> rt_method p = ''POST''"
proof -
  from assms obtain c rest where path: "path = c # rest" "c \<in> {''users'', ''providers'', ''models'', ''virtual-keys''}"
    "rest = [] \<or> (\<exists>rid. rid \<noteq> '''' \<and> rest = [rid]) \<or> (\<exists>rid. rid \<noteq> '''' \<and> rest = [rid, ''status'']) \<or> (\<exists>rid. rid \<noteq> '''' \<and> rest = [rid, ''delete''])"
    by (cases path) (auto simp: form_write_def Let_def elim!: item_write.elims split: if_splits)
  have "\<exists>p\<in>set ui_routes. rt_method p = ''POST'' \<and> match_path (rt_path p) path \<noteq> None"
    using path by (elim disjE exE conjE) (auto simp: ui_routes_def page_route_def open_route_def item_route_def)
  then show ?thesis by blast
qed

lemma ui_mux_cases:
  "(\<exists>p ids. p \<in> set ps \<and> match_path (rt_path p) (UR_Segments r) = Some ids \<and> match_method (rt_method p) (UR_Method r) \<and>
       ui_mux ps other srv r st = rt_handler p ids srv r st)
   \<or> (\<forall>p \<in> set ps. \<forall>ids. match_path (rt_path p) (UR_Segments r) = Some ids \<longrightarrow> \<not> match_method (rt_method p) (UR_Method r)) \<and>
       snd (ui_mux ps other srv r st) = st"
proof (induction ps arbitrary: other)
  case (Cons p ps)
  show ?case
  proof (cases "\<exists>ids. match_path (rt_path p) (UR_Segments r) = Some ids \<and> match_method (rt_method p) (UR_Method r)")
    case True
    then show ?thesis by auto
  next
    case False
    then have "ui_mux (p # ps) other srv r st = ui_mux ps (other \<or> match_path (rt_path p) (UR_Segments r) \<noteq> None) srv r st"
      by (cases other) (auto split: option.splits)
    with Cons.IH [of "other \<or> match_path (rt_path p) (UR_Segments r) \<noteq> None"] False show ?thesis by auto
  qed
qed simp


section \<open>Properties\<close>

lemma no_form_elsewhere: "form_write srv r w [''login''] = None" "form_write srv r w [''logout''] = None"
    "form_write srv r w (''assets'' # rest) = None"
  by (simp_all add: form_write_def Let_def)

lemma world_route:
  assumes ok: "store_ok (ui_sessions st)" and route: "route_ok (UR_Segments r) ids p" and post: "match_method (rt_method p) (UR_Method r)"
  shows "ui_world (snd (rt_handler p ids srv r st)) = carried_out (srv_api srv) (permitted srv r st) (ui_world st)"
proof -
  consider (form) f where "rt_method p = ''POST''" "rt_handler p ids = auth f" "does (UR_Segments r) f"
    | (shown) "rt_method p = ''GET'' \<or> UR_Segments r \<in> {[''login''], [''logout'']}"
        "\<forall>srv r st. store_ok (ui_sessions st) \<longrightarrow> ui_world (snd (rt_handler p ids srv r st)) = ui_world st"
    using route unfolding route_ok_def by blast
  then show ?thesis
  proof cases
    case form
    note f = form(2,3)
    from form(1) post have m: "UR_Method r = ''POST''" by (auto simp: match_method_def)
    show ?thesis
    proof (cases "signed_in srv r (ui_sessions st)")
      case None
      then show ?thesis by (simp add: f(1) world_auth [OF ok] permitted_def carried_out_def)
    next
      case (Some y)
      then obtain cookie x where y: "signed_in srv r (ui_sessions st) = Some (cookie, x)" by (cases y) auto
      let ?se = "\<lparr>Snap_ID = cookie, Snap_Authenticated = True, Snap_CSRFToken = CSRFToken x, Snap_ExpiresAt = ExpiresAt x\<rparr>"
      obtain b s' where c: "csrf_ok srv r ?se (cleanupLocked (srv_clock srv AtCookie) (ui_sessions st)) = (b, s')" by force
      note a = accepted_stored [OF ok y _ c]
      show ?thesis
        using f(2) [unfolded does_def, rule_format, of srv r ?se "st\<lparr>ui_sessions := cleanupLocked (srv_clock srv AtCookie) (ui_sessions st)\<rparr>"] a m
        by (cases "form_accepted srv r x") (simp_all add: f(1) world_auth [OF ok] y permitted_def c carried_out_def)
    qed
  next
    case shown
    have "permitted srv r st = None"
      using shown(1) post no_form_elsewhere by (auto simp: permitted_def match_method_def split: option.split)
    with shown(2) ok show ?thesis by (simp add: carried_out_def)
  qed
qed

lemma AdminUI_world:
  assumes ok: "store_ok (ui_sessions st)"
  shows "ui_world (snd (AdminUI srv r st)) = carried_out (srv_api srv) (permitted srv r st) (ui_world st)"
proof -
  have "ui_world (snd (ui_mux ui_routes False srv r st)) = carried_out (srv_api srv) (permitted srv r st) (ui_world st)"
    using ui_mux_cases [of ui_routes r False srv st]
  proof (elim disjE exE conjE)
    fix p ids
    assume "p \<in> set ui_routes" "match_path (rt_path p) (UR_Segments r) = Some ids" "match_method (rt_method p) (UR_Method r)"
      "ui_mux ui_routes False srv r st = rt_handler p ids srv r st"
    then show ?thesis using world_route [OF ok routes_ok] by simp
  next
    assume none: "\<forall>p \<in> set ui_routes. \<forall>ids. match_path (rt_path p) (UR_Segments r) = Some ids \<longrightarrow> \<not> match_method (rt_method p) (UR_Method r)"
      and st: "snd (ui_mux ui_routes False srv r st) = st"
    have "permitted srv r st = None"
    proof (rule ccontr)
      assume "permitted srv r st \<noteq> None"
      then have "UR_Method r = ''POST''" "form_write srv r (ui_world st) (UR_Segments r) \<noteq> None"
        by (auto simp: permitted_def split: option.splits prod.splits if_splits)
      with form_route_exists none show False by (metis match_method_def)
    qed
    with st show ?thesis by (simp add: carried_out_def)
  qed
  moreover have "permitted srv r st = None" if "take 1 (UR_Segments r) = [''assets'']"
    using that by (cases "UR_Segments r") (auto simp: permitted_def no_form_elsewhere split: option.split)
  ultimately show ?thesis by (auto simp: AdminUI_def carried_out_def split: prod.split)
qed


text \<open>
  C9: What the admin UI does to the control planes. In every reachable state of its sessions, the service
  changes the control planes exactly by the write that the request is permitted, and by nothing if it is
  permitted none. A request is permitted a write only as a POST whose cookie is the ID of a live,
  authenticated session, with a form that decodes, carries the CSRF token of that session and asks for
  the write with its path and its fields: an update or a deletion names the version that it replaces, a
  status is active or disabled, and a new key needs a key-creation token of the session that is still
  pending.
\<close>

theorem admin_ui_exact:
  assumes "session_run (newSessionStore read reader lifetime) issued (ui_sessions st)"
  shows "ui_world (snd (AdminUI srv r st)) = carried_out (srv_api srv) (permitted srv r st) (ui_world st)"
  by (rule AdminUI_world [OF run_ok [OF assms new_ok]])

definition demo_ui_server :: "nat server" where
  "demo_ui_server =
     \<lparr>srv_api = DaprAPI_methods (\<lambda>_. '''') (\<lambda>_. True) (answers_with 204) demo_admin, srv_adminToken = ''admin'', srv_cookieName = ''gwai_admin_session'',
      srv_cookieSecure = True, srv_maxFormBytes = 131072, srv_loginKey = replicate 32 7, srv_mac = (\<lambda>key text. replicate 32 (length text mod 256)),
      srv_lower = (\<lambda>s. s), srv_time = \<lparr>tt_format = (\<lambda>_ _. ''''), tt_parse = (\<lambda>_ _. None)\<rparr>, srv_clock = (\<lambda>_. 6)\<rparr>"

definition demo_form :: "string list \<Rightarrow> (string \<times> string) list \<Rightarrow> UIRequest" where
  "demo_form path vals =
     \<lparr>UR_Method = ''POST'', UR_Segments = path, UR_RequestID = ''req_01'', UR_Cookies = [(''gwai_admin_session'', RawURLEncoding (replicate 32 0))],
      UR_Query = [], UR_FormSize = 100, UR_Form = Some ((''_csrf'', RawURLEncoding (replicate 32 1)) # vals)\<rparr>"

lemma demo_form_post: "UR_Method (demo_form path vals) = ''POST''" "UR_Segments (demo_form path vals) = path"
  by (simp_all add: demo_form_def)

definition demo_ui :: "(nat, nat) ui" where
  "demo_ui = \<lparr>ui_sessions = demo_sessions, ui_world = 0\<rparr>"

lemma demo_signed_in:
  "signed_in demo_ui_server (demo_form path vals) demo_sessions = Some (RawURLEncoding (replicate 32 0),
     \<lparr>Authenticated = True, CSRFToken = RawURLEncoding (replicate 32 1), ExpiresAt = 105, Flashes = [], KeyCreationToken = []\<rparr>)"
  using RawURLEncoding_nonempty [of "replicate 32 0"]
  by (simp add: signed_in_def demo_ui_server_def demo_form_def demo_sessions_def After_def del: replicate.simps RawURLEncoding.simps)

lemma demo_form_accepted:
  "CSRFToken x = RawURLEncoding (replicate 32 1) \<Longrightarrow> ExpiresAt x = 105 \<Longrightarrow> form_accepted demo_ui_server (demo_form path vals) x"
  using RawURLEncoding_nonempty [of "replicate 32 1"]
  by (simp add: form_accepted_def demo_ui_server_def demo_form_def ParseForm_fails_def PostForm_Get_def post_form_def After_def
      del: replicate.simps RawURLEncoding.simps)

theorem admin_ui_exact_witness:
  "ui_world (snd (AdminUI demo_ui_server (demo_form [''users'', ''usr_01'', ''delete''] [(''_etag'', ''\"v1\"'')]) demo_ui)) = 1"
proof -
  let ?r = "demo_form [''users'', ''usr_01'', ''delete''] [(''_etag'', ''\"v1\"'')]"
  have "formString ?r ''_etag'' = ''\"v1\"''"
    using TrimSpace_quoted [of "''v1''"]
    by (simp add: formString_def PostForm_Get_def post_form_def demo_form_def del: replicate.simps RawURLEncoding.simps)
  then have "permitted demo_ui_server ?r demo_ui = Some (DeleteUserW ''usr_01'' ''\"v1\"'')"
    by (simp add: permitted_def demo_ui_def form_write_def versioned_write_def Let_def demo_form_post demo_signed_in demo_form_accepted)
  then show ?thesis
    using admin_ui_exact [of counting 0 100 "{}" demo_ui demo_ui_server ?r] demo_run
    by (simp add: carried_out_def demo_ui_def demo_ui_server_def DaprAPI_methods_def DaprAPI_DeleteUser_def api_delete_def invokeRequest_def InvokeMethod_def
        newRequest_def fail_if_def answers_with_def)
qed

end
