(* ===== verification/Admin_Sessions.thy ===== *)
theory Admin_Sessions
  imports Admin_Access
begin

text \<open>
  What a request to the admin UI does to the sessions: it is a run of calls of the session store, and
  only signing in makes an authenticated session. Keys are created once per form, and the challenge of
  the sign-in form and the expiry of a key survive their forms.
\<close>

named_theorems ui_tame \<open>parts of a handler that sign nobody in\<close>

section \<open>Authenticated sessions\<close>

definition authenticated_ids :: "'r sessionStore \<Rightarrow> string set" where
  "authenticated_ids s = {rid. case map_of (sessions s) rid of None \<Rightarrow> False | Some x \<Rightarrow> Authenticated x}"

text \<open>A run that signs nobody in.\<close>

definition tame :: "'r sessionStore \<Rightarrow> 'r sessionStore \<Rightarrow> bool" where
  "tame s s' \<longleftrightarrow> (\<exists>issued. session_run s issued s') \<and> (store_ok s \<longrightarrow> authenticated_ids s' \<subseteq> authenticated_ids s)"

lemma tame_refl [simp, intro]: "tame s s"
  unfolding tame_def using run_refl by blast

lemma run_trans: "session_run t b u \<Longrightarrow> session_run s a t \<Longrightarrow> \<exists>c. session_run s c u"
  by (induction rule: session_run.induct) (auto intro: run_step)

lemma tame_trans:
  assumes "tame s t" "tame t u" shows "tame s u"
proof -
  from assms obtain a b where runs: "session_run s a t" "session_run t b u" unfolding tame_def by blast
  then have "\<exists>c. session_run s c u" by (intro run_trans)
  moreover have "authenticated_ids u \<subseteq> authenticated_ids s" if "store_ok s"
    using assms that run_ok [OF runs(1) that] unfolding tame_def by blast
  ultimately show ?thesis unfolding tame_def by blast
qed

lemma tameI: "session_step s ev s' \<Longrightarrow> (store_ok s \<Longrightarrow> authenticated_ids s' \<subseteq> authenticated_ids s) \<Longrightarrow> tame s s'"
  unfolding tame_def using run_step [OF run_refl] by blast

lemma ids_put: "map_of (sessions s) rid = Some x \<Longrightarrow> Authenticated y = Authenticated x \<Longrightarrow> authenticated_ids (put_session rid y s) = authenticated_ids s"
  by (auto simp: authenticated_ids_def split: if_splits option.splits)

lemma ids_same: "sessions s' = sessions s \<Longrightarrow> authenticated_ids s' = authenticated_ids s"
  by (simp add: authenticated_ids_def)

lemma ids_cleanup: "store_ok s \<Longrightarrow> authenticated_ids (cleanupLocked now s) \<subseteq> authenticated_ids s"
  by (auto simp: authenticated_ids_def sessions_cleanup [OF store_distinct] split: option.splits if_splits)

lemma ids_destroy: "authenticated_ids (destroy rid s) \<subseteq> authenticated_ids s"
  by (auto simp: authenticated_ids_def destroy_def delete_conv' split: option.splits if_splits)

lemma ids_issue: "issueKeyCreationToken now rid s = (res, s') \<Longrightarrow> authenticated_ids s' = authenticated_ids s"
proof (cases "map_of (sessions s) rid")
  case (Some x)
  let ?x = "x\<lparr>KeyCreationToken := live_tokens now (KeyCreationToken x)\<rparr>"
  let ?s = "put_session rid ?x s"
  assume "issueKeyCreationToken now rid s = (res, s')"
  with Some consider "s' = s" | "s' = ?s" | "issue_loop 4 now rid ?x ?s = (res, s')"
    by (auto simp: issueKeyCreationToken_def Let_def split: if_splits)
  then show ?thesis
  proof cases
    case 3
    from issue_loop_cases [OF this] consider "sessions s' = sessions ?s" | ts where "sessions s' = sessions (put_session rid (?x\<lparr>KeyCreationToken := ts\<rparr>) ?s)"
      by (auto simp: put_session_def)
    then show ?thesis
    proof cases
      case 1
      from ids_same [OF this] ids_put [OF Some, of ?x] show ?thesis by simp
    next
      case 2
      from ids_same [OF this] ids_put [OF Some, of ?x] ids_put [of ?s rid ?x "?x\<lparr>KeyCreationToken := ts\<rparr>"] show ?thesis by simp
    qed
  qed (use ids_put [OF Some, of ?x] in simp_all)
qed (simp add: issueKeyCreationToken_def)

lemma tame_ops:
  "tame s (snd (load now rid s))" "tame s (destroy rid s)" "tame s (addFlash now rid flash s)" "tame s (snd (takeFlashes now rid s))"
  "tame s (snd (verifyCSRF now rid candidate s))" "tame s (snd (consumeKeyCreationToken now rid candidate s))" "tame s (snd (randomValue n s))"
  "tame s (snd (issueKeyCreationToken now rid s))"
proof -
  show "tame s (snd (load now rid s))"
    by (rule tameI [OF do_load [OF prod.collapse [symmetric]]]) (simp add: snd_load ids_cleanup)
  show "tame s (destroy rid s)" by (rule tameI [OF do_destroy ids_destroy])
  show "tame s (addFlash now rid flash s)" by (rule tameI [OF do_addFlash]) (auto simp: addFlash_def ids_put split: option.splits)
  show "tame s (snd (takeFlashes now rid s))"
    by (rule tameI [OF do_takeFlashes [OF prod.collapse [symmetric]]]) (auto simp: takeFlashes_def ids_put split: option.splits)
  show "tame s (snd (verifyCSRF now rid candidate s))"
    by (rule tameI [OF do_verify [OF prod.collapse [symmetric]]]) (simp add: verifyCSRF_eq snd_load ids_cleanup)
  show "tame s (snd (consumeKeyCreationToken now rid candidate s))"
    by (rule tameI [OF do_consume [OF prod.collapse [symmetric]]]) (auto simp: consumeKeyCreationToken_def Let_def ids_put split: option.splits)
  show "tame s (snd (randomValue n s))"
    using randomToken_frame [OF prod.collapse [symmetric], of n s]
    by (intro tameI [OF do_randomValue [OF prod.collapse [symmetric]]]) (simp add: randomValue_def ids_same [of "snd (randomToken n s)" s])
  obtain res s' where "issueKeyCreationToken now rid s = (res, s')" by force
  then show "tame s (snd (issueKeyCreationToken now rid s))"
    using tameI [OF do_issue] tameI [OF do_issue_fails] ids_issue by (cases res) fastforce+
qed

lemma tame_calls:
  "load now rid s = (x1, s') \<Longrightarrow> tame s s'" "takeFlashes now rid s = (x2, s') \<Longrightarrow> tame s s'" "verifyCSRF now rid candidate s = (x3, s') \<Longrightarrow> tame s s'"
  "consumeKeyCreationToken now rid candidate s = (x4, s') \<Longrightarrow> tame s s'" "randomValue n s = (x5, s') \<Longrightarrow> tame s s'"
  "issueKeyCreationToken now rid s = (x6, s') \<Longrightarrow> tame s s'"
  using tame_ops by (metis snd_conv)+

section \<open>The parts of a handler\<close>

definition tame_act :: "('r, 'w) act \<Rightarrow> bool" where
  "tame_act f \<longleftrightarrow> (\<forall>st. tame (ui_sessions st) (ui_sessions (snd (f st))))"

lemma tame_actI: "(\<And>st. tame (ui_sessions st) (ui_sessions (snd (f st)))) \<Longrightarrow> tame_act f"
  by (simp add: tame_act_def)

lemma tame_answer [ui_tame]: "tame_act (\<lambda>st. (answer st, st))"
  by (simp add: tame_act_def)

lemma tame_if [ui_tame]: "tame_act f \<Longrightarrow> tame_act g \<Longrightarrow> tame_act (\<lambda>st. if b st then f st else g st)"
  by (simp add: tame_act_def)

lemma tame_case_sum [ui_tame]: "(\<And>e. tame_act (f e)) \<Longrightarrow> (\<And>x. tame_act (g x)) \<Longrightarrow> tame_act (\<lambda>st. case v st of Inl e \<Rightarrow> f e st | Inr x \<Rightarrow> g x st)"
  by (simp add: tame_act_def split: sum.split)

lemma tame_if_act [ui_tame]: "tame_act f \<Longrightarrow> tame_act g \<Longrightarrow> tame_act (if b then f else g)"
  by simp

lemma tame_case_act [ui_tame]:
  "(\<And>e. tame_act (f e)) \<Longrightarrow> (\<And>x. tame_act (g x)) \<Longrightarrow> tame_act (case v of Inl e \<Rightarrow> f e | Inr x \<Rightarrow> g x)"
  "(\<And>e. tame_act (h e)) \<Longrightarrow> (\<And>e. tame_act (k e)) \<Longrightarrow> tame_act (case err of APIFailure e \<Rightarrow> h e | OtherFailure e \<Rightarrow> k e)"
  by (auto split: sum.split api_failure.split)

lemma tame_from: "tame_act f \<Longrightarrow> ui_sessions st = s \<Longrightarrow> tame s (ui_sessions (snd (f st)))"
  by (auto simp: tame_act_def)

lemma tame_then: "tame s s' \<Longrightarrow> tame_act f \<Longrightarrow> tame s (ui_sessions (snd (f (st\<lparr>ui_sessions := s'\<rparr>))))"
  using tame_trans tame_from [of f "st\<lparr>ui_sessions := s'\<rparr>" s'] by simp

lemma tame_basePage [ui_tame]: "(\<And>data. tame_act (k data)) \<Longrightarrow> tame_act (basePage srv m se title sec k)"
  unfolding tame_act_def [of "basePage srv m se title sec k"] basePage_def
  by (auto split: prod.split intro!: tame_then intro: tame_calls)

lemma tame_renderSimpleError [ui_tame]: "tame_act (renderSimpleError srv se status title detail)"
  unfolding renderSimpleError_def by (intro ui_tame)

lemma tame_flashRedirect [ui_tame]: "tame_act (flashRedirect srv se location kind message)"
  by (simp add: tame_act_def flashRedirect_def tame_ops)

lemma tame_get_or_error [ui_tame]: "tame_act (get_or_error srv se title sec rd present)"
  unfolding get_or_error_def by (intro ui_tame)

lemma tame_invalid_page [ui_tame]: "tame_act (invalid_page srv se title sec fill name detail)"
  unfolding invalid_page_def by (intro ui_tame)

lemma tame_failed_page [ui_tame]: "tame_act (failed_page srv se title sec fill name err)"
  unfolding failed_page_def by (intro ui_tame)

lemma tame_with_operation [ui_tame]: "(\<And>data. tame_act (k data)) \<Longrightarrow> tame_act (with_operation srv se article data k)"
  unfolding tame_act_def [of "with_operation srv se article data k"] with_operation_def
  by (auto split: prod.split sum.split intro!: tame_then tame_renderSimpleError intro: tame_calls)

lemma tame_call [ui_tame]: "(\<And>err. tame_act (failed err)) \<Longrightarrow> (\<And>x. tame_act (ok x)) \<Longrightarrow> tame_act (call f failed ok)"
  unfolding tame_act_def [of "call f failed ok"] call_def by (auto split: prod.split sum.split intro!: tame_from)

lemma tame_parseProtectedForm [ui_tame]: "tame_act k \<Longrightarrow> tame_act (parseProtectedForm srv r se k)"
proof (cases "ParseForm_fails srv r")
  case True
  then have "parseProtectedForm srv r se k = renderSimpleError srv se 400 ''Invalid form'' ''The submitted form could not be decoded.''"
    by (simp add: parseProtectedForm_def fun_eq_iff)
  then show ?thesis by (simp add: tame_renderSimpleError)
next
  case False
  assume "tame_act k"
  with False show ?thesis
    by (intro tame_actI) (auto simp: parseProtectedForm_def split: prod.split bool.split intro!: tame_then tame_renderSimpleError intro: tame_calls)
qed

section \<open>The handlers\<close>

lemma tame_users: "tame_act (listUsers srv r se)" "tame_act (newUser srv r se)" "tame_act (createUser srv r se)" "tame_act (editUser rid srv r se)"
  "tame_act (updateUser rid srv r se)" "tame_act (confirmUserStatus rid srv r se)" "tame_act (changeUserStatus rid srv r se)"
  "tame_act (confirmDeleteUser rid srv r se)" "tame_act (deleteUser rid srv r se)"
  unfolding listUsers_def newUser_def createUser_def editUser_def updateUser_def confirmUserStatus_def changeUserStatus_def confirmDeleteUser_def
    deleteUser_def Let_def by (intro ui_tame)+

lemma tame_providers: "tame_act (listProviders srv r se)" "tame_act (newProvider srv r se)" "tame_act (createProvider srv r se)" "tame_act (editProvider rid srv r se)"
  "tame_act (updateProvider rid srv r se)" "tame_act (confirmProviderStatus rid srv r se)" "tame_act (changeProviderStatus rid srv r se)"
  "tame_act (confirmDeleteProvider rid srv r se)" "tame_act (deleteProvider rid srv r se)"
  unfolding listProviders_def newProvider_def createProvider_def editProvider_def updateProvider_def confirmProviderStatus_def changeProviderStatus_def
    confirmDeleteProvider_def deleteProvider_def Let_def by (intro ui_tame)+

lemma tame_models: "tame_act (listModels srv r se)" "tame_act (newModel srv r se)" "tame_act (createModel srv r se)" "tame_act (editModel rid srv r se)"
  "tame_act (updateModel rid srv r se)" "tame_act (confirmModelStatus rid srv r se)" "tame_act (changeModelStatus rid srv r se)"
  "tame_act (confirmDeleteModel rid srv r se)" "tame_act (deleteModel rid srv r se)"
  unfolding listModels_def newModel_def createModel_def editModel_def updateModel_def confirmModelStatus_def changeModelStatus_def
    confirmDeleteModel_def deleteModel_def Let_def by (intro ui_tame)+

lemma tame_keys: "tame_act (listVirtualKeys srv r se)" "tame_act (newVirtualKey srv r se)" "tame_act (editVirtualKey rid srv r se)"
  "tame_act (confirmVirtualKeyStatus rid srv r se)" "tame_act (changeVirtualKeyStatus rid srv r se)"
  "tame_act (confirmDeleteVirtualKey rid srv r se)" "tame_act (deleteVirtualKey rid srv r se)"
  unfolding listVirtualKeys_def newVirtualKey_def editVirtualKey_def confirmVirtualKeyStatus_def changeVirtualKeyStatus_def
    confirmDeleteVirtualKey_def deleteVirtualKey_def Let_def by (intro ui_tame)+

lemma tame_update_key: "tame_act (updateVirtualKey rid srv r se)"
  unfolding updateVirtualKey_def Let_def by (intro ui_tame)

lemma tame_create_key: "tame_act (createVirtualKey srv r se)"
proof -
  have again: "tame_act (basePage srv AtPage se ''Create virtual key'' ''virtual-keys'' (\<lambda>data.
      refreshKeyCreationForm srv se (f data) (\<lambda>data st. (answer data, st))))" for f answer
    unfolding refreshKeyCreationForm_def by (intro ui_tame)
  have reveal: "tame_act (reveal_key srv se created)" for created
    unfolding reveal_key_def Let_def by (intro ui_tame)
  show ?thesis
    unfolding createVirtualKey_def Let_def
    by (rule tame_parseProtectedForm, rule tame_actI)
      (auto split: prod.split sum.split intro!: tame_then again reveal tame_call tame_case_act tame_if_act tame_failed_page intro: tame_calls)
qed

lemma tame_logout: "tame_act (logout srv r se)" "tame_act (dashboard srv r se)"
  unfolding logout_def dashboard_def Let_def by (intro ui_tame, simp add: tame_act_def tame_ops) (intro ui_tame)

lemma tame_auth: "(\<And>se. tame_act (f srv r se)) \<Longrightarrow> tame_act (auth f srv r)"
  by (rule tame_actI) (auto simp: auth_def cookieSession_def split: option.split prod.split
      intro!: tame_then tame_trans [OF tame_calls(1) tame_ops(2)] intro: tame_calls)

lemma tame_health: "tame_act (ui_health srv r)"
  unfolding ui_health_def by (rule tame_answer)

lemma tame_challenge: "newLoginChallenge srv s = (res, s') \<Longrightarrow> tame s s'"
  by (auto simp: newLoginChallenge_def Let_def split: prod.splits sum.splits intro: tame_calls)

lemma cookieSession_tame: "cookieSession srv r st = (found, st') \<Longrightarrow> tame (ui_sessions st) (ui_sessions st')"
  using tame_ops(1) by (auto simp: cookieSession_eq split: option.splits)

lemma tame_loginPage: "tame_act (loginPage srv r)"
proof (rule tame_actI)
  fix st :: "('a, 'b) ui"
  obtain found st' where c: "cookieSession srv r st = (found, st')" by force
  show "tame (ui_sessions st) (ui_sessions (snd (loginPage srv r st)))"
    using cookieSession_tame [OF c] by (auto simp: loginPage_def c split: prod.split sum.split option.split intro: tame_trans tame_challenge)
qed

section \<open>Signing in\<close>

lemma ids_update: "authenticated_ids s' = insert rid (authenticated_ids s)"
  if "sessions s' = AList.update rid x (sessions s)" "Authenticated x"
  using that by (auto simp: authenticated_ids_def update_conv')

lemma ids_create:
  assumes "store_ok s" "create now True s = (res, s')"
  shows "authenticated_ids s' \<subseteq> authenticated_ids s \<union> (case res of Inl _ \<Rightarrow> {} | Inr snap \<Rightarrow> {Snap_ID snap})"
proof (cases res)
  case (Inl err)
  have "sessions s' = sessions (cleanupLocked now s)"
    using assms(2) Inl create_loop_cases [of 4 now True "cleanupLocked now s" res s'] by (auto simp: create_def Let_def split: if_splits)
  from ids_same [OF this] ids_cleanup [OF assms(1)] show ?thesis by auto
next
  case (Inr snap)
  with create_stored [of now True s snap s'] assms(2) ids_update [of s' "Snap_ID snap" _ "cleanupLocked now s"]
  have "authenticated_ids s' = insert (Snap_ID snap) (authenticated_ids (cleanupLocked now s))" by auto
  with ids_cleanup [OF assms(1)] Inr show ?thesis by auto
qed

text \<open>What the sign-in form must show.\<close>

definition signs_in :: "'w server \<Rightarrow> UIRequest \<Rightarrow> bool" where
  "signs_in srv r \<longleftrightarrow> \<not> ParseForm_fails srv r \<and> challenge_accepted srv r \<and> PostForm_Get r ''admin_token'' = srv_adminToken srv"

lemma login_ids:
  assumes "store_ok (ui_sessions st)" "login srv r st = (resp, st')"
    and "rid \<in> authenticated_ids (ui_sessions st')" "rid \<notin> authenticated_ids (ui_sessions st)"
  shows "signs_in srv r \<and> (\<exists>c \<in> set (UP_Cookies resp). CK_Name c = srv_cookieName srv \<and> CK_Value c = rid \<and> CK_HttpOnly c)"
proof -
  obtain found t where c: "cookieSession srv r st = (found, t)" by force
  note t = cookieSession_tame [OF c]
  then have ok: "store_ok (ui_sessions t)" using run_ok assms(1) unfolding tame_def by blast
  have new: "rid \<notin> authenticated_ids (ui_sessions t)" using t assms(1,4) unfolding tame_def by blast
  have quiet: "rid \<notin> authenticated_ids s'" if "newLoginChallenge srv (ui_sessions t) = (res, s')" for res s'
    using tame_challenge [OF that] ok new unfolding tame_def by blast
  obtain res s' where cr: "create (srv_clock srv AtSession) True (ui_sessions t) = (res, s')" by force
  from ids_create [OF ok cr] new have made: "rid \<in> authenticated_ids s' \<Longrightarrow> \<exists>snap. res = Inr snap \<and> Snap_ID snap = rid"
    by (auto split: sum.splits)
  have flash: "authenticated_ids (addFlash now i f s') = authenticated_ids s'" for now i f
    by (auto simp: addFlash_def ids_put split: option.split)
  show ?thesis
    using assms(2,3) new quiet made
    by (auto simp: login_def c cr flash signs_in_def SecureEqual_iff setSessionCookie_def with_cookie_def session_cookie_def redirect_def Let_def
        split: if_splits option.splits prod.splits sum.splits)
qed

text \<open>Every route but the one of the sign-in form is tame.\<close>

lemmas tame_handlers = tame_users tame_providers tame_models tame_keys tame_update_key tame_create_key tame_logout

definition route_tame :: "('r, 'w) ui_route \<Rightarrow> bool" where
  "route_tame p \<longleftrightarrow> (\<forall>ids srv r. tame_act (rt_handler p ids srv r)) \<or> rt_method p = ''POST'' \<and> rt_path p = [Lit ''login''] \<and> (\<forall>ids. rt_handler p ids = login)"

lemma route_tameI:
  "route_tame (open_route ''GET'' ls ui_health)" "route_tame (open_route ''GET'' ls loginPage)" "route_tame (open_route ''POST'' [''login''] login)"
  "(\<And>srv r se. tame_act (f srv r se)) \<Longrightarrow> route_tame (page_route m ls f)"
  "(\<And>rid srv r se. tame_act (g rid srv r se)) \<Longrightarrow> route_tame (item_route m c rest g)"
  by (simp_all add: route_tame_def open_route_def page_route_def item_route_def tame_health tame_loginPage tame_auth)

lemma routes_tame: "list_all route_tame ui_routes"
  unfolding ui_routes_def list.pred_inject by (intro conjI route_tameI tame_handlers list.pred_inject(1))

section \<open>The sign-in challenge\<close>


fun sextets :: "nat list \<Rightarrow> nat list" where
  "sextets (a # b # c # bytes) = [a div 4, a mod 4 * 16 + b div 16, b mod 16 * 4 + c div 64, c mod 64] @ sextets bytes"
| "sextets [a, b] = [a div 4, a mod 4 * 16 + b div 16, b mod 16 * 4]"
| "sextets [a] = [a div 4, a mod 4 * 16]"
| "sextets [] = []"

lemma quotient: "n = q * m + r \<Longrightarrow> r < m \<Longrightarrow> n div m = q \<and> n mod m = r" for n m q r :: nat
  by simp

lemma sextet_digits:
  assumes "a < 256" "b < 256" "c < (256 :: nat)"
  defines "n \<equiv> a * 65536 + b * 256 + c"
  shows "n div 262144 mod 64 = a div 4" "n div 4096 mod 64 = a mod 4 * 16 + b div 16" "n div 64 mod 64 = b mod 16 * 4 + c div 64" "n mod 64 = c mod 64"
proof -
  have a: "a = 4 * (a div 4) + a mod 4" "a mod 4 < 4" and b: "b = 16 * (b div 16) + b mod 16" "b mod 16 < 16" and c: "c = 64 * (c div 64) + c mod 64" "c mod 64 < 64"
    by simp_all
  have small: "a div 4 < 64" "b div 16 < 16" "c div 64 < 4" using assms by auto
  have "n div 262144 = a div 4"
    using quotient [of n "a div 4" 262144 "a mod 4 * 65536 + b * 256 + c"] a assms by (simp add: n_def; linarith)
  then show "n div 262144 mod 64 = a div 4" using small by simp
  have "n div 4096 = a * 16 + b div 16"
    using quotient [of n "a * 16 + b div 16" 4096 "b mod 16 * 256 + c"] b assms by (simp add: n_def; linarith)
  then show "n div 4096 mod 64 = a mod 4 * 16 + b div 16"
    using quotient [of "a * 16 + b div 16" "a div 4" 64 "a mod 4 * 16 + b div 16"] a small by (simp; linarith)
  have "n div 64 = a * 1024 + b * 4 + c div 64"
    using quotient [of n "a * 1024 + b * 4 + c div 64" 64 "c mod 64"] c by (simp add: n_def; linarith)
  then show "n div 64 mod 64 = b mod 16 * 4 + c div 64"
    using quotient [of "a * 1024 + b * 4 + c div 64" "a * 16 + b div 16" 64 "b mod 16 * 4 + c div 64"] b small by (simp; linarith)
  show "n mod 64 = c mod 64"
    using quotient [of n "a * 1024 + b * 4 + c div 64" 64 "c mod 64"] c by (simp add: n_def; linarith)
qed

lemma RawURLEncoding_sextets: "list_all (\<lambda>b. b < 256) bs \<Longrightarrow> RawURLEncoding bs = map ((!) base64_url) (sextets bs)"
proof (induction bs rule: RawURLEncoding.induct)
  case (1 a b c bytes)
  then show ?case by (simp add: Let_def sextet_digits)
next
  case (2 a b)
  then show ?case using sextet_digits [of a b 0] by (simp add: Let_def)
next
  case (3 a)
  then show ?case using sextet_digits [of a 0 0] by (simp add: Let_def)
qed simp

lemma sextets_small: "list_all (\<lambda>b. b < 256) bs \<Longrightarrow> list_all (\<lambda>n. n < 64) (sextets bs)"
proof (induction bs rule: sextets.induct)
  case (1 a b c bytes)
  then have "a div 4 < 64" "b div 16 < 16" "c div 64 < 4" "a mod 4 < 4" "b mod 16 < 16" by auto
  with 1 show ?case by (auto simp: less_mult_imp_div_less) 
next
  case (2 a b)
  then have "a div 4 < 64" "b div 16 < 16" "a mod 4 < 4" "b mod 16 < 16" by auto
  then show ?case by auto
qed auto

lemma decode_sextets_sextets: "list_all (\<lambda>b. b < 256) bs \<Longrightarrow> decode_sextets (sextets bs) = Some bs"
proof (induction bs rule: sextets.induct)
  case (1 a b c bytes)
  then have "b div 16 < 16" "c div 64 < 4" by auto
  with 1 show ?case by simp
next
  case (2 a b)
  then have "b div 16 < 16" by auto
  then show ?case by simp
qed simp_all

lemma base64_positions: "list_all (\<lambda>n. position (base64_url ! n) base64_url = Some n \<and> base64_url ! n \<notin> {CHR 0x0A, CHR 0x0D, CHR ''.''}) [0..<64]"
  by code_simp

lemma base64_char: "n < 64 \<Longrightarrow> position (base64_url ! n) base64_url = Some n \<and> base64_url ! n \<notin> {CHR 0x0A, CHR 0x0D, CHR ''.''}"
  using base64_positions by (simp add: list_all_iff)

lemma all_positions_digits: "list_all (\<lambda>n. n < 64) ns \<Longrightarrow> all_positions (map ((!) base64_url) ns) = Some ns"
  by (induction ns) (simp_all add: base64_char)

lemma RawURLEncoding_chars: "list_all (\<lambda>b. b < 256) bs \<Longrightarrow> c \<in> set (RawURLEncoding bs) \<Longrightarrow> c \<notin> {CHR 0x0A, CHR 0x0D, CHR ''.''}"
  using sextets_small [of bs] base64_char by (auto simp: RawURLEncoding_sextets list_all_iff)

lemma RawURLDecode_Encoding: "list_all (\<lambda>b. b < 256) bs \<Longrightarrow> RawURLDecode (RawURLEncoding bs) = Some bs"
proof -
  assume bs: "list_all (\<lambda>b. b < 256) bs"
  then have "filter (\<lambda>c. c \<noteq> CHR 0x0A \<and> c \<noteq> CHR 0x0D) (RawURLEncoding bs) = RawURLEncoding bs"
    using RawURLEncoding_chars by (auto intro!: filter_True)
  with bs show ?thesis
    by (simp add: RawURLDecode_def RawURLEncoding_sextets all_positions_digits sextets_small decode_sextets_sextets)
qed

lemma split_on_none: "c \<notin> set s \<Longrightarrow> split_on c s = [s]"
  by (induction s) auto

lemma split_on_append: "c \<notin> set s \<Longrightarrow> split_on c (s @ c # t) = s # split_on c t"
  by (induction s) auto

lemma decimal_int_no_dot: "CHR ''.'' \<notin> set (decimal_int n)"
proof -
  have "\<not> is_digit (CHR ''.'')" by code_simp
  then have "CHR ''.'' \<notin> set (decimal m)" for m using decimal_digits [of m] by (auto simp: list_all_iff)
  then show ?thesis by (simp add: decimal_int_def)
qed

lemma time_Unix_id: "int64 (n + 62135596800) \<Longrightarrow> time_Unix n = n * nanosecond_per_second"
  by (simp add: time_Unix_def wrap64_id)

text \<open>\<^verbatim>\<open>io.ReadFull\<close> gives bytes.\<close>

definition reads_bytes :: "(nat \<Rightarrow> 'r \<Rightarrow> nat list result \<times> 'r) \<Rightarrow> bool" where
  "reads_bytes read \<longleftrightarrow> reads_full read \<and> (\<forall>n r bytes r'. read n r = (Inr bytes, r') \<longrightarrow> list_all (\<lambda>b. b < 256) bytes)"

lemma fresh_challenge:
  assumes "reads_bytes (ReadFull s)" and mac: "\<And>key msg. length (srv_mac srv key msg) = 32 \<and> list_all (\<lambda>b. b < 256) (srv_mac srv key msg)"
    and made: "newLoginChallenge srv s = (Inr (challenge, expires), s')" and range: "int64 (expires div nanosecond_per_second)"
  shows "validLoginChallenge (srv\<lparr>srv_clock := later\<rparr>) challenge \<longleftrightarrow> After (time_Unix (expires div nanosecond_per_second)) (later AtChallenge)"
proof -
  from made obtain bytes where draw: "ReadFull s 32 (random s) = (Inr bytes, random s')"
      and ch: "challenge = decimal_int (expires div nanosecond_per_second) @ ''.'' @ RawURLEncoding bytes @ ''.'' @
         RawURLEncoding (srv_mac srv (srv_loginKey srv) (decimal_int (expires div nanosecond_per_second) @ ''.'' @ RawURLEncoding bytes))"
    by (auto simp: newLoginChallenge_def randomValue_def randomToken_def loginChallengeNonceSize_def Let_def split: prod.splits sum.splits)
  let ?sec = "decimal_int (expires div nanosecond_per_second)"
  let ?sig = "srv_mac srv (srv_loginKey srv) (?sec @ ''.'' @ RawURLEncoding bytes)"
  have bytes: "list_all (\<lambda>b. b < 256) bytes" "length bytes = 32" using assms(1) draw unfolding reads_bytes_def reads_full_def by blast+
  have sig: "list_all (\<lambda>b. b < 256) ?sig" "?sig \<noteq> []" using mac [of "srv_loginKey srv" "?sec @ ''.'' @ RawURLEncoding bytes"] by auto
  have dots: "CHR ''.'' \<notin> set (RawURLEncoding bytes)" "CHR ''.'' \<notin> set (RawURLEncoding ?sig)"
    using RawURLEncoding_chars [OF bytes(1), of "CHR ''.''"] RawURLEncoding_chars [OF sig(1), of "CHR ''.''"] by auto
  have "split_on CHR ''.'' challenge = [?sec, RawURLEncoding bytes, RawURLEncoding ?sig]"
    using dots by (simp add: ch split_on_append split_on_none decimal_int_no_dot)
  moreover have "bytes \<noteq> []" using bytes(2) by auto
  note RawURLEncoding_nonempty [OF this] RawURLEncoding_nonempty [OF sig(2)]
  ultimately show ?thesis
    using range bytes sig by (simp add: validLoginChallenge_def ParseInt_decimal_int RawURLDecode_Encoding loginChallengeNonceSize_def)
qed

lemma tame_run: "tame s s' \<Longrightarrow> \<exists>issued. session_run s issued s'"
  by (simp add: tame_def)

lemma login_runs: "\<exists>issued. session_run (ui_sessions st) issued (ui_sessions (snd (login srv r st)))"
proof -
  obtain found t where c: "cookieSession srv r st = (found, t)" by force
  obtain a where a: "session_run (ui_sessions st) a (ui_sessions t)" using tame_run [OF cookieSession_tame [OF c]] by blast
  have challenge: "\<exists>issued. session_run (ui_sessions st) issued s'" if "newLoginChallenge srv (ui_sessions t) = (res, s')" for res s'
    using tame_run [OF tame_trans [OF cookieSession_tame [OF c] tame_challenge [OF that]]] .
  have made: "\<exists>issued. session_run (ui_sessions st) issued s'" if "create now True (ui_sessions t) = (res, s')" for now res s'
    using run_step [OF a do_create [OF that]] by blast
  then have flash: "\<exists>issued. session_run (ui_sessions st) issued (addFlash now' i f s')" if "create now True (ui_sessions t) = (res, s')" for now res s' now' i f
    using that run_step [OF _ do_addFlash] by blast
  show ?thesis
    using a challenge made flash
    by (auto simp: login_def c Let_def split: if_splits option.splits prod.splits sum.splits)
qed

text \<open>Every request is a run of calls of the session store, so the states that it reaches are reachable.\<close>

lemma AdminUI_runs: "\<exists>issued. session_run (ui_sessions st) issued (ui_sessions (snd (AdminUI srv r st)))"
proof -
  have "\<exists>issued. session_run (ui_sessions st) issued (ui_sessions (snd (ui_mux ui_routes False srv r st)))"
    using ui_mux_cases [of ui_routes r False srv st]
  proof (elim disjE exE conjE)
    fix p ids
    assume "p \<in> set ui_routes" and h: "ui_mux ui_routes False srv r st = rt_handler p ids srv r st"
    with routes_tame consider "tame_act (rt_handler p ids srv r)" | "rt_handler p ids = login" by (auto simp: list_all_iff route_tame_def)
    then show ?thesis
    proof cases
      case 1
      from tame_run [OF tame_from [OF this refl]] show ?thesis by (simp add: h)
    qed (simp add: h login_runs)
  qed (use run_refl in auto)
  then show ?thesis using run_refl by (auto simp: AdminUI_def split: prod.split)
qed

section \<open>Creating a key\<close>

lemma permitted_key:
  assumes "permitted srv r st = Some (CreateKeyW input)"
  obtains cookie x where "UR_Method r = ''POST''" "UR_Segments r = [''virtual-keys'']" "signed_in srv r (ui_sessions st) = Some (cookie, x)"
    "form_accepted srv r x" "operation_accepted srv r x" "validLifecycleStatus (KF_Status (virtualKeyFormFromRequest r))"
    "virtualKeyForm_input (srv_time srv) ((virtualKeyFormFromRequest r)\<lparr>KF_OriginalExpiresAt := ''''\<rparr>) = Inr input"
proof -
  have versioned: "versioned_write r b f = Some (CreateKeyW input) \<Longrightarrow> \<exists>etag. f etag = CreateKeyW input" for b f
    by (auto simp: versioned_write_def Let_def split: if_splits)
  then have status: "status_write r found f = Some (CreateKeyW input) \<Longrightarrow> \<exists>x status etag. f x status etag = CreateKeyW input" for found f
    by (fastforce simp: status_write_def Let_def split: sum.splits)
  from assms obtain cookie x where p: "UR_Method r = ''POST''" "signed_in srv r (ui_sessions st) = Some (cookie, x)" "form_accepted srv r x"
      "UR_Segments r = [''virtual-keys''] \<longrightarrow> operation_accepted srv r x"
      and w: "form_write srv r (ui_world st) (UR_Segments r) = Some (CreateKeyW input)"
    by (auto simp: permitted_def split: option.splits if_splits)
  from w have "UR_Segments r = [''virtual-keys''] \<and> validLifecycleStatus (KF_Status (virtualKeyFormFromRequest r)) \<and>
      virtualKeyForm_input (srv_time srv) ((virtualKeyFormFromRequest r)\<lparr>KF_OriginalExpiresAt := ''''\<rparr>) = Inr input"
    by (auto simp: form_write_def Let_def elim!: item_write.elims split: list.splits if_splits sum.splits dest!: versioned [OF sym] status [OF sym])
  with p that show thesis by blast
qed

lemma route_create_key:
  "UR_Method r = ''POST'' \<Longrightarrow> UR_Segments r = [''virtual-keys''] \<Longrightarrow> ui_mux ui_routes False srv r st = auth createVirtualKey srv r st"
  by (simp add: ui_routes_def open_route_def page_route_def item_route_def match_method_def)

lemma createVirtualKey_reveals:
  assumes "csrf_ok srv r se (ui_sessions st) = (True, s2)"
    and "consumeKeyCreationToken (srv_clock srv AtToken) (Snap_ID se) (PostForm_Get r ''_operation'') s2 = (True, s3)"
    and "validLifecycleStatus (KF_Status (virtualKeyFormFromRequest r))"
    and "virtualKeyForm_input (srv_time srv) ((virtualKeyFormFromRequest r)\<lparr>KF_OriginalExpiresAt := ''''\<rparr>) = Inr input"
    and "fst (api_CreateVirtualKey (srv_api srv) input (ui_world st)) = Inr created"
  obtains resp st' page where "createVirtualKey srv r se st = (resp, st')" "UP_Status resp = 201" "UP_Body resp = Rendered ''key-reveal'' page"
    "PD_CreatedKey page = Some created" "map_of (UP_Header resp) ''Cache-Control'' = Some ''no-store, max-age=0''"
    "ui_sessions st' = snd (takeFlashes (srv_clock srv AtPage) (Snap_ID se) s3)"
proof -
  obtain w where w: "api_CreateVirtualKey (srv_api srv) input (ui_world st) = (Inr created, w)" using assms(5) by (cases "api_CreateVirtualKey (srv_api srv) input (ui_world st)") auto
  obtain fs s4 where f: "takeFlashes (srv_clock srv AtPage) (Snap_ID se) s3 = (fs, s4)" by force
  from assms(1) have v: "\<not> ParseForm_fails srv r" "verifyCSRF (srv_clock srv AtForm) (Snap_ID se) (PostForm_Get r ''_csrf'') (ui_sessions st) = (True, s2)"
    by (auto simp: csrf_ok_def split: prod.splits)
  show thesis
    by (rule that, simp add: createVirtualKey_def parseProtectedForm_def v assms(2-4) call_def w reveal_key_def basePage_def f Let_def)
      (simp_all add: render_def f, simp)
qed

lemma spent_key_form:
  assumes "store_ok (ui_sessions st)" "map_of (UR_Cookies r) (srv_cookieName srv) = Some cookie" "UR_Segments r = [''virtual-keys'']"
    and "pending (ui_sessions st) cookie (PostForm_Get r ''_operation'') = None"
  shows "ui_world (snd (AdminUI srv r st)) = ui_world st"
proof -
  have "\<not> operation_accepted srv r x" if "signed_in srv r (ui_sessions st) = Some (cookie', x)" for cookie' x
    using that assms(2,4) by (auto simp: signed_in_def operation_accepted_def pending_def split: option.splits if_splits)
  then have "permitted srv r st = None" using assms(3) by (auto simp: permitted_def split: option.split)
  then show ?thesis by (simp add: AdminUI_world [OF assms(1)] carried_out_def)
qed

lemma signed_inD:
  assumes "signed_in srv r s = Some (cookie, x)"
  shows "map_of (UR_Cookies r) (srv_cookieName srv) = Some cookie" "map_of (sessions s) cookie = Some x" "cookie \<noteq> ''''"
    "After (ExpiresAt x) (srv_clock srv AtCookie)" "Authenticated x"
  using assms by (auto simp: signed_in_def split: option.splits if_splits)

lemma auth_signed_in:
  assumes "store_ok (ui_sessions st)" "signed_in srv r (ui_sessions st) = Some (cookie, x)"
  shows "auth f srv r st = f srv r \<lparr>Snap_ID = cookie, Snap_Authenticated = True, Snap_CSRFToken = CSRFToken x, Snap_ExpiresAt = ExpiresAt x\<rparr>
     (st\<lparr>ui_sessions := cleanupLocked (srv_clock srv AtCookie) (ui_sessions st)\<rparr>)"
  using signed_inD [OF assms(2)] by (simp add: auth_def cookieSession_eq load_stored [OF store_distinct [OF assms(1)]] snd_load)

lemma create_key_run:
  assumes ok: "store_ok (ui_sessions st)" and permit: "permitted srv r st = Some (CreateKeyW input)"
    and created: "fst (api_CreateVirtualKey (srv_api srv) input (ui_world st)) = Inr created" and run: "AdminUI srv r st = (resp, st')"
  obtains cookie page where "map_of (UR_Cookies r) (srv_cookieName srv) = Some cookie" "store_ok (ui_sessions st')"
    "pending (ui_sessions st') cookie (PostForm_Get r ''_operation'') = None" "UP_Status resp = 201" "UP_Body resp = Rendered ''key-reveal'' page"
    "PD_CreatedKey page = Some created" "map_of (UP_Header resp) ''Cache-Control'' = Some ''no-store, max-age=0''"
proof -
  obtain cookie x where p: "UR_Method r = ''POST''" "UR_Segments r = [''virtual-keys'']" "signed_in srv r (ui_sessions st) = Some (cookie, x)"
      "form_accepted srv r x" "operation_accepted srv r x" "validLifecycleStatus (KF_Status (virtualKeyFormFromRequest r))"
      "virtualKeyForm_input (srv_time srv) ((virtualKeyFormFromRequest r)\<lparr>KF_OriginalExpiresAt := ''''\<rparr>) = Inr input"
    by (rule permitted_key [OF permit])
  let ?se = "\<lparr>Snap_ID = cookie, Snap_Authenticated = True, Snap_CSRFToken = CSRFToken x, Snap_ExpiresAt = ExpiresAt x\<rparr>"
  let ?st = "st\<lparr>ui_sessions := cleanupLocked (srv_clock srv AtCookie) (ui_sessions st)\<rparr>" and ?token = "PostForm_Get r ''_operation''"
  obtain b s2 where c: "csrf_ok srv r ?se (ui_sessions ?st) = (b, s2)" by force
  with accepted_stored [OF ok p(3), of ?se b s2] p(4,5) have b "token_ok srv r ?se s2" by simp_all
  then obtain s3 where t: "consumeKeyCreationToken (srv_clock srv AtToken) (Snap_ID ?se) ?token s2 = (True, s3)"
    by (cases "consumeKeyCreationToken (srv_clock srv AtToken) cookie ?token s2") (auto simp: token_ok_def)
  from c \<open>b\<close> have c': "csrf_ok srv r ?se (ui_sessions ?st) = (True, s2)" by simp
  obtain answer st1 page where k: "createVirtualKey srv r ?se ?st = (answer, st1)" "UP_Status answer = 201" "UP_Body answer = Rendered ''key-reveal'' page"
      "PD_CreatedKey page = Some created" "map_of (UP_Header answer) ''Cache-Control'' = Some ''no-store, max-age=0''"
      "ui_sessions st1 = snd (takeFlashes (srv_clock srv AtPage) (Snap_ID ?se) s3)"
    by (rule createVirtualKey_reveals [OF c' t p(6,7)]) (use created in simp)
  from auth_signed_in [OF ok p(3), of createVirtualKey]
    run k(1) p(1,2) have r: "resp = securityHeaders srv answer" "st' = st1"
    by (auto simp: AdminUI_def route_create_key split: if_splits)
  have "tame (ui_sessions ?st) s2" using c by (auto simp: csrf_ok_def split: prod.splits intro: tame_calls)
  then have ok2: "store_ok s2" using cleanup_ok [OF ok] run_ok by (auto simp: tame_def)
  have ok3: "store_ok s3" by (rule consume_ok [OF ok2 t])
  obtain fs s4 where f: "takeFlashes (srv_clock srv AtPage) (Snap_ID ?se) s3 = (fs, s4)" by force
  have ok4: "store_ok s4" using run_ok [OF run_step [OF run_refl do_takeFlashes [OF f]] ok3] .
  have "pending s4 cookie ?token = None"
    using pending_step [OF do_takeFlashes [OF f] ok3, of cookie ?token] consume_spends [OF t] by simp
  with that [OF signed_inD(1) [OF p(3)], of page] r k ok4 f show thesis by (simp add: securityHeaders_def)
qed

section \<open>A server to sign in to\<close>

definition sevens :: "nat \<Rightarrow> unit \<Rightarrow> nat list result \<times> unit" where
  "sevens n r = (Inr (replicate n 7), r)"

definition demo_challenge :: string where
  "demo_challenge = (case fst (newLoginChallenge demo_ui_server (newSessionStore sevens () 100)) of Inl _ \<Rightarrow> '''' | Inr (challenge, _) \<Rightarrow> challenge)"

lemma demo_challenge_made:
  "newLoginChallenge demo_ui_server (newSessionStore sevens () 100) = (Inr (demo_challenge, 300000000006), newSessionStore sevens () 100)"
  by (simp add: demo_challenge_def newLoginChallenge_def randomValue_def randomToken_def newSessionStore_def sevens_def demo_ui_server_def
      loginChallengeNonceSize_def loginChallengeTTL_def nanosecond_per_second_def Let_def del: replicate.simps RawURLEncoding.simps)

definition demo_login :: UIRequest where
  "demo_login =
     \<lparr>UR_Method = ''POST'', UR_Segments = [''login''], UR_RequestID = ''req_01'', UR_Cookies = [(''gwai_admin_session'', demo_challenge)],
      UR_Query = [], UR_FormSize = 100, UR_Form = Some [(''_csrf'', demo_challenge), (''admin_token'', ''admin'')]\<rparr>"

definition new_ui :: "(unit, nat) ui" where
  "new_ui = \<lparr>ui_sessions = newSessionStore sevens () 100, ui_world = 0\<rparr>"

lemma sevens_bytes: "reads_bytes (ReadFull (newSessionStore sevens () lifetime))"
  by (auto simp: reads_bytes_def reads_full_def newSessionStore_def sevens_def list_all_iff)

lemma demo_mac: "length (srv_mac demo_ui_server key msg) = 32 \<and> list_all (\<lambda>b. b < 256) (srv_mac demo_ui_server key msg)"
  by (simp add: demo_ui_server_def list_all_iff)

lemma demo_challenge_valid: "validLoginChallenge demo_ui_server demo_challenge"
  using fresh_challenge [OF sevens_bytes demo_mac demo_challenge_made, of "srv_clock demo_ui_server"]
  by (simp add: nanosecond_per_second_def int64_def time_Unix_id After_def) (simp add: demo_ui_server_def)

lemma demo_challenge_nonempty: "demo_challenge \<noteq> []"
  using demo_challenge_valid by (auto simp: validLoginChallenge_def)

lemma demo_login_run:
  "authenticated_ids (ui_sessions (snd (AdminUI demo_ui_server demo_login new_ui))) = {RawURLEncoding (replicate 32 7)}"
proof -
  let ?rid = "RawURLEncoding (replicate 32 7)"
  have load: "load 6 demo_challenge (newSessionStore sevens () 100) = (None, newSessionStore sevens () 100)"
    by (simp add: load_def newSessionStore_def cleanupLocked_def)
  have acc: "challenge_accepted demo_ui_server demo_login"
    using demo_challenge_valid demo_challenge_nonempty
    by (simp add: challenge_accepted_def demo_login_def SecureEqual_iff PostForm_Get_def post_form_def) (simp add: demo_ui_server_def)
  obtain snap s' where cr: "create 6 True (newSessionStore sevens () 100) = (Inr snap, s')" "Snap_ID snap = ?rid" "authenticated_ids s' = {?rid}"
    by (simp add: create_def cleanupLocked_def newSessionStore_def defaultMaxSessions_def four_attempts sbind_def randomToken_def
      sevens_def sessionIDBytes_def csrfTokenBytes_def authenticated_ids_def del: replicate.simps RawURLEncoding.simps)
  have "ui_sessions (snd (login demo_ui_server demo_login new_ui)) = addFlash 6 ?rid \<lparr>Flash_Kind = ''success'', Flash_Message = ''Signed in successfully.''\<rparr> s'"
    using acc load cr(1,2)
    by (simp add: login_def cookieSession_def new_ui_def demo_login_def demo_ui_server_def ParseForm_fails_def SecureEqual_iff PostForm_Get_def post_form_def)
  moreover have "snd (AdminUI demo_ui_server demo_login new_ui) = snd (login demo_ui_server demo_login new_ui)"
    by (simp add: AdminUI_def ui_routes_def open_route_def page_route_def item_route_def demo_login_def match_method_def split: prod.split)
  ultimately show ?thesis
    using cr(3) by (auto simp: addFlash_def ids_put split: option.split)
qed

definition demo_keyed :: "(nat, nat) ui" where
  "demo_keyed = \<lparr>ui_sessions = snd (issueKeyCreationToken 6 (RawURLEncoding (replicate 32 0)) demo_sessions), ui_world = 0\<rparr>"

definition demo_key_form :: UIRequest where
  "demo_key_form = demo_form [''virtual-keys''] [(''_operation'', RawURLEncoding (replicate 24 2)), (''name'', ''k''), (''user_id'', ''u''),
     (''model_ids'', ''m''), (''status'', ''active'')]"

lemma demo_keyed_session:
  "map_of (sessions (ui_sessions demo_keyed)) (RawURLEncoding (replicate 32 0)) = Some
     \<lparr>Authenticated = True, CSRFToken = RawURLEncoding (replicate 32 1), ExpiresAt = 105, Flashes = [],
      KeyCreationToken = [(RawURLEncoding (replicate 24 2), 105)]\<rparr>"
  by (simp add: demo_keyed_def issueKeyCreationToken_def demo_sessions_def newSessionStore_def put_session_def live_tokens_def After_def Let_def
      maxPendingKeyCreations_def four_attempts sbind_def randomToken_def counting_def operationTokenBytes_def keyCreationTokenLifetime_def
      nanosecond_per_second_def del: replicate.simps RawURLEncoding.simps)

lemma demo_keyed_run: "session_run (newSessionStore counting 0 100) {(RawURLEncoding (replicate 32 0), RawURLEncoding (replicate 24 2))} (ui_sessions demo_keyed)"
proof -
  obtain s' where run: "issueKeyCreationToken 6 (RawURLEncoding (replicate 32 0)) demo_sessions = (Inr (RawURLEncoding (replicate 24 2)), s')" by (rule demo_issue)
  then show ?thesis using run_step [OF demo_run do_issue [OF run]] by (simp add: demo_keyed_def)
qed

lemma demo_trim: "TrimSpace ''active'' = ''active''" "TrimSpace '''' = ''''" "TrimSpace ''k'' = ''k''" "TrimSpace ''u'' = ''u''" "TrimSpace ''m'' = ''m''"
  by code_simp+

lemma demo_key_form_vals: "PostForm_Get demo_key_form ''_operation'' = RawURLEncoding (replicate 24 2)"
  "virtualKeyFormFromRequest demo_key_form = \<lparr>KF_Name = ''k'', KF_UserID = ''u'', KF_ModelIDs = [''m''], KF_Status = ''active'', KF_ExpiresAt = '''', KF_OriginalExpiresAt = ''''\<rparr>"
  by (simp_all add: demo_key_form_def demo_form_def virtualKeyFormFromRequest_def formString_def statusValue_def PostForm_Get_def PostForm_values_def post_form_def
      demo_trim form_model_ids_def add_model_id_def del: replicate.simps RawURLEncoding.simps)

lemma demo_key_permitted:
  "permitted demo_ui_server demo_key_form demo_keyed =
     Some (CreateKeyW \<lparr>KI_Name = ''k'', KI_UserID = ''u'', KI_ModelIDs = [''m''], KI_Status = ''active'', KI_ExpiresAt = None\<rparr>)"
proof -
  let ?x = "\<lparr>Authenticated = True, CSRFToken = RawURLEncoding (replicate 32 1), ExpiresAt = 105, Flashes = [], KeyCreationToken = [(RawURLEncoding (replicate 24 2), 105)]\<rparr>"
  have "signed_in demo_ui_server demo_key_form (ui_sessions demo_keyed) = Some (RawURLEncoding (replicate 32 0), ?x)"
    using RawURLEncoding_nonempty [of "replicate 32 0"] demo_keyed_session
    by (simp add: signed_in_def demo_ui_server_def demo_key_form_def demo_form_def After_def del: replicate.simps RawURLEncoding.simps)
  moreover have "operation_accepted demo_ui_server demo_key_form ?x"
    using RawURLEncoding_nonempty [of "replicate 24 2"]
    by (simp add: operation_accepted_def demo_key_form_vals demo_ui_server_def After_def del: replicate.simps RawURLEncoding.simps)
  moreover have "form_accepted demo_ui_server demo_key_form ?x" unfolding demo_key_form_def by (rule demo_form_accepted) simp_all
  moreover have "UR_Method demo_key_form = ''POST''" "UR_Segments demo_key_form = [''virtual-keys'']" by (simp_all add: demo_key_form_def demo_form_post)
  ultimately show ?thesis
    by (simp add: permitted_def form_write_def Let_def demo_key_form_vals validLifecycleStatus_def virtualKeyForm_input_def
        form_model_ids_def add_model_id_def demo_trim)
qed

section \<open>Properties\<close>

text \<open>
  C10: Who gets into the admin UI. A request, in any reachable state of the sessions, makes a session
  authenticated that was not only if it posts the sign-in form with the administrator's token and a
  sign-in challenge that its cookie repeats and the service accepts; the ID of the session is then in a cookie
  of the answer that scripts cannot read.
\<close>

theorem admin_ui_sign_in:
  assumes reach: "session_run (newSessionStore read reader lifetime) issued (ui_sessions st)"
    and run: "AdminUI srv r st = (resp, st')"
    and new: "rid \<in> authenticated_ids (ui_sessions st')" "rid \<notin> authenticated_ids (ui_sessions st)"
  shows "UR_Method r = ''POST'' \<and> UR_Segments r = [''login''] \<and> signs_in srv r
    \<and> (\<exists>c \<in> set (UP_Cookies resp). CK_Name c = srv_cookieName srv \<and> CK_Value c = rid \<and> CK_HttpOnly c)"
proof -
  have ok: "store_ok (ui_sessions st)" by (rule run_ok [OF reach new_ok])
  have changed: "st' \<noteq> st" using new by auto
  with run obtain answer where mux: "ui_mux ui_routes False srv r st = (answer, st')" and resp: "UP_Cookies resp = UP_Cookies answer"
    by (auto simp: AdminUI_def securityHeaders_def split: if_splits prod.splits)
  with ui_mux_cases [of ui_routes r False srv st] changed obtain p ids where p: "p \<in> set ui_routes"
      "match_path (rt_path p) (UR_Segments r) = Some ids" "match_method (rt_method p) (UR_Method r)" and h: "rt_handler p ids srv r st = (answer, st')"
    by auto
  have "\<not> tame_act (rt_handler p ids srv r)"
  proof
    assume "tame_act (rt_handler p ids srv r)"
    from tame_from [OF this refl, of st] h ok new show False by (auto simp: tame_def)
  qed
  with p(1) routes_tame have "rt_method p = ''POST''" "rt_path p = [Lit ''login'']" "rt_handler p ids = login"
    by (auto simp: list_all_iff route_tame_def)
  with p h login_ids [OF ok _ new] resp show ?thesis by (auto simp: match_method_def match_one)
qed

theorem admin_ui_sign_in_witness:
  "RawURLEncoding (replicate 32 7) \<in> authenticated_ids (ui_sessions (snd (AdminUI demo_ui_server demo_login new_ui))) \<and> signs_in demo_ui_server demo_login"
proof -
  obtain resp st' where run: "AdminUI demo_ui_server demo_login new_ui = (resp, st')" by force
  have reach: "session_run (newSessionStore sevens () 100) {} (ui_sessions new_ui)" by (simp add: new_ui_def run_refl)
  have "RawURLEncoding (replicate 32 7) \<in> authenticated_ids (ui_sessions st')" using demo_login_run run by simp
  moreover have "RawURLEncoding (replicate 32 7) \<notin> authenticated_ids (ui_sessions new_ui)"
    by (simp add: new_ui_def newSessionStore_def authenticated_ids_def)
  ultimately show ?thesis using admin_ui_sign_in [OF reach run] run by simp
qed

text \<open>
  C11: A key-creation form makes one key. When a request is permitted to create a key and the control plane
  creates it, the answer is the page that reveals the secret, which no cache may store; and a request
  that repeats the form's key-creation token in the same session changes nothing, whatever requests came
  in between, unless the session was issued the same random token again.
\<close>

theorem key_created_once:
  assumes reach: "session_run (newSessionStore read reader lifetime) issued (ui_sessions st)"
    and permit: "permitted srv r st = Some (CreateKeyW input)"
    and created: "fst (api_CreateVirtualKey (srv_api srv) input (ui_world st)) = Inr created"
    and run: "AdminUI srv r st = (resp, st')"
    and after: "session_run (ui_sessions st') reissued (ui_sessions later)"
    and again: "UR_Segments r' = [''virtual-keys'']" "map_of (UR_Cookies r') (srv_cookieName srv') = map_of (UR_Cookies r) (srv_cookieName srv)"
      "PostForm_Get r' ''_operation'' = PostForm_Get r ''_operation''"
    and fresh: "\<And>cookie. map_of (UR_Cookies r) (srv_cookieName srv) = Some cookie \<Longrightarrow> (cookie, PostForm_Get r ''_operation'') \<notin> reissued"
  shows "UP_Status resp = 201 \<and> (\<exists>page. UP_Body resp = Rendered ''key-reveal'' page \<and> PD_CreatedKey page = Some created)
    \<and> map_of (UP_Header resp) ''Cache-Control'' = Some ''no-store, max-age=0''
    \<and> ui_world (snd (AdminUI srv' r' later)) = ui_world later"
proof -
  obtain cookie page where k: "map_of (UR_Cookies r) (srv_cookieName srv) = Some cookie" "store_ok (ui_sessions st')"
      "pending (ui_sessions st') cookie (PostForm_Get r ''_operation'') = None" "UP_Status resp = 201" "UP_Body resp = Rendered ''key-reveal'' page"
      "PD_CreatedKey page = Some created" "map_of (UP_Header resp) ''Cache-Control'' = Some ''no-store, max-age=0''"
    by (rule create_key_run [OF run_ok [OF reach new_ok] permit created run])
  have "pending (ui_sessions later) cookie (PostForm_Get r ''_operation'') = None"
    by (rule pending_run [OF after k(2,3) fresh [OF k(1)]])
  then have "ui_world (snd (AdminUI srv' r' later)) = ui_world later"
    using spent_key_form [of later r' srv' cookie] run_ok [OF after k(2)] again k(1) by simp
  with k show ?thesis by blast
qed

theorem key_created_once_witness:
  "UP_Status (fst (AdminUI demo_ui_server demo_key_form demo_keyed)) = 201
   \<and> ui_world (snd (AdminUI demo_ui_server demo_key_form (snd (AdminUI demo_ui_server demo_key_form demo_keyed)))) =
       ui_world (snd (AdminUI demo_ui_server demo_key_form demo_keyed))"
proof -
  let ?input = "\<lparr>KI_Name = ''k'', KI_UserID = ''u'', KI_ModelIDs = [''m''], KI_Status = ''active'', KI_ExpiresAt = None\<rparr>"
  have made: "fst (api_CreateVirtualKey (srv_api demo_ui_server) ?input 0) = Inr (projr (decode_CreatedVirtualKey JNull))"
    by (simp add: demo_ui_server_def DaprAPI_methods_def DaprAPI_CreateVirtualKey_def api_create_def json_of_VirtualKeyInput_def fail_if_def demo_answer
        answers_with_def read_response_def success_def maxControlPlaneResponse_def destination_def)
  obtain resp st' where run: "AdminUI demo_ui_server demo_key_form demo_keyed = (resp, st')" by force
  have w: "ui_world demo_keyed = 0" by (simp add: demo_keyed_def)
  have path: "UR_Segments demo_key_form = [''virtual-keys'']" by (simp add: demo_key_form_def demo_form_post)
  from key_created_once [OF demo_keyed_run demo_key_permitted made [folded w] run run_refl path refl refl] run
  show ?thesis by simp
qed

text \<open>
  C19: The sign-in form works. Every challenge that the service makes is accepted by the same service until
  the second of its expiry, five minutes later, and never from then on, whatever random bytes are drawn: the parts of the
  challenge are told apart and decoded again. The signature is a hash of 32 bytes, and the clock is within the
  seconds that 64 bits can hold.
\<close>

theorem login_challenge_roundtrip:
  assumes "reads_bytes (ReadFull s)" and "\<And>key msg. length (srv_mac srv key msg) = 32 \<and> list_all (\<lambda>b. b < 256) (srv_mac srv key msg)"
    and made: "newLoginChallenge srv s = (Inr (challenge, expires), s')"
    and range: "int64 (expires div nanosecond_per_second)" "int64 (expires div nanosecond_per_second + 62135596800)"
  shows "expires = srv_clock srv AtIssue + 300 * nanosecond_per_second
    \<and> (validLoginChallenge (srv\<lparr>srv_clock := later\<rparr>) challenge \<longleftrightarrow> later AtChallenge < expires div nanosecond_per_second * nanosecond_per_second)"
proof
  show "expires = srv_clock srv AtIssue + 300 * nanosecond_per_second"
    using made by (auto simp: newLoginChallenge_def loginChallengeTTL_def Let_def split: prod.splits sum.splits)
qed (simp add: fresh_challenge [OF assms(1-3) range(1)] time_Unix_id [OF range(2)] After_def)

theorem login_challenge_roundtrip_witness:
  "validLoginChallenge (demo_ui_server\<lparr>srv_clock := (\<lambda>_. 299999999999)\<rparr>) demo_challenge
   \<and> \<not> validLoginChallenge (demo_ui_server\<lparr>srv_clock := (\<lambda>_. 300000000000)\<rparr>) demo_challenge"
proof -
  from login_challenge_roundtrip [OF sevens_bytes demo_mac demo_challenge_made]
  show ?thesis by (simp add: nanosecond_per_second_def int64_def)
qed

end
