(* ===== verification/Spec2Isabelle.thy ===== *)
theory Spec2Isabelle
  imports End_To_End Admin_Sessions
begin

text \<open>
  gwai is an AI gateway: clients speak the Anthropic, OpenAI or Gemini protocols to a gateway, which
  authorizes the request with a virtual key, resolves the requested model alias to a provider, and
  hands the request to that provider's adapter. Users, providers, models and virtual keys are kept by
  two control planes: the resource service owns users, providers and models; the virtual-key service
  owns the keys and a projection of users and models (subjects), which the resource service updates
  over a link that may fail.

  The development follows the packages under \<^verbatim>\<open>src/internal\<close>.

  \<^item> \<^bold>\<open>Prelude\<close>: errors as values, the result and step monads, the parts of the Go library the
    code uses (\<^verbatim>\<open>strconv\<close>, \<^verbatim>\<open>strings\<close>, \<^verbatim>\<open>time\<close>), and \<open>simulates\<close>, the shape of every refinement.
    A method that changes a store is a function from the store state to a result and a new state.
  \<^item> \<^bold>\<open>Json\<close>: \<^verbatim>\<open>encoding/json\<close> on the value types that are stored; the locale \<open>codec\<close> is the
    round-trip contract.
  \<^item> \<^bold>\<open>State\_Store\<close>: \<^verbatim>\<open>state/store.go\<close> and \<^verbatim>\<open>state/memory.go\<close>. The locale \<open>atomic_store\<close> is what
    the repositories rely on; in \<open>state_store\<close> a failed transaction changes nothing; \<open>total_store\<close> adds that
    reads succeed and that only a stale tag fails a transaction. The in-memory store satisfies all three.
  \<^item> \<^bold>\<open>Resources\<close>: the records of \<^verbatim>\<open>controlplane/model.go\<close> and their encodings.
  \<^item> \<^bold>\<open>Repository\<close>: \<^verbatim>\<open>repository.go\<close> without the virtual keys; \<^bold>\<open>Model\_Repository\<close>:
    \<^verbatim>\<open>model_repository.go\<close>; \<^bold>\<open>Key\_Repository\<close>: the virtual-key part of \<^verbatim>\<open>repository.go\<close> and
    \<^verbatim>\<open>model_subject_repository.go\<close>. A mutating operation is split into its plan, the reads and checks
    that give the operations of one transaction, and its commit. The repository mutex makes the two
    one step; the deployment runs one replica of each control plane.
  \<^item> \<^bold>\<open>Resource\_Spec\<close>: when a store represents a finite map of resources (entities, index, unique
    lookups) and that the generic routines implement insertion, compare-and-replace and
    compare-and-delete, for any collection (locale \<open>resources\<close>) on any store (\<open>resource_store\<close>,
    \<open>resource_total\<close>).
  \<^item> \<^bold>\<open>Directory\<close>, \<^bold>\<open>Catalog\<close>, \<^bold>\<open>Key\_Ring\<close>: the user directory, the catalog of providers and
    models, and the key ring that the three stores represent; the repository operations refine
    guarded updates of them, and reachable states keep referential integrity (no model without its
    provider, no key without its owner and models) and move subjects only forward. What an operation
    refuses is a table of faults on the abstract state, stated without the checks of the code.
  \<^item> \<^bold>\<open>ETag\<close>: \<^verbatim>\<open>etag.go\<close>, entity tags and the \<^verbatim>\<open>If-Match\<close> parser with its termination.
  \<^item> \<^bold>\<open>Services\<close>: \<^verbatim>\<open>service.go\<close>, \<^verbatim>\<open>model_service.go\<close>, \<^verbatim>\<open>virtual_key_service.go\<close>,
    \<^verbatim>\<open>provider_validation.go\<close>, \<^verbatim>\<open>subject_client.go\<close>, \<^verbatim>\<open>platform/ids.go\<close>.
  \<^item> \<^bold>\<open>Runtime\<close>: \<^verbatim>\<open>runtime.go\<close>; authorization and routing say yes exactly under the stated conditions.
  \<^item> \<^bold>\<open>Control\_Plane\<close>: the two services together over a lossy link. The order of local and remote
    writes keeps every active subject backed by an active resource, so a grant always has live
    resources behind it and revocation is immediate.

  \<^item> \<^bold>\<open>IR\<close>: \<^verbatim>\<open>ir/types.go\<close> and \<^verbatim>\<open>ir/validate.go\<close>, the provider-neutral request and response; the
    validators accept exactly what \<open>valid_request\<close> and \<open>valid_response\<close> describe.
  \<^item> \<^bold>\<open>Dataplane\<close>: \<^verbatim>\<open>dataplane/gateway.go\<close>, the request path of every gateway, on any runtime that
    satisfies the locale \<open>runtime_contract\<close>; on the control plane's runtime, an adapter is called only
    for a live user, key, model and provider.
  \<^item> \<^bold>\<open>Wire\<close>: what the protocol translators share: raw JSON members, JSON text inside strings (the
    contract \<open>spells\<close> relates a text to its value), 64-bit sums, the \<^verbatim>\<open>strings\<close> functions.
  \<^item> \<^bold>\<open>Anthropic\<close>: \<^verbatim>\<open>anthropic/types.go\<close>, \<^verbatim>\<open>translate.go\<close> (adapter) and \<^verbatim>\<open>gateway_translate.go\<close> (gateway).
    The adapter accepts exactly the requests it can represent and sends the whole conversation; responses
    reach the client unchanged.
  \<^item> \<^bold>\<open>OpenAI\_Chat\<close>: \<^verbatim>\<open>openai/types.go\<close>, \<^verbatim>\<open>translate.go\<close> (gateway) and \<^verbatim>\<open>adapter_translate.go\<close>
    (adapter), with the same two results.
  \<^item> \<^bold>\<open>Gemini\<close>: \<^verbatim>\<open>gemini/types.go\<close> and \<^verbatim>\<open>translate.go\<close>, again with the two results.
  \<^item> \<^bold>\<open>OpenAI\_Responses\<close>: \<^verbatim>\<open>openairesponses/types.go\<close> and \<^verbatim>\<open>translate.go\<close>, again with the two results.
  \<^item> \<^bold>\<open>Portable\<close>: the four gateways against the four adapters. The locale \<open>gateway_translation\<close> is what a
    gateway's translation promises; each adapter accepts what any gateway accepts, up to what its protocol
    cannot express, and a request that stays in its protocol always passes.
  \<^item> \<^bold>\<open>Session\<close>: \<^verbatim>\<open>adminui/session.go\<close>, the session store of the admin UI: bounds, expiry, one-time
    tokens.

  \<^item> \<^bold>\<open>Platform\<close>: \<^verbatim>\<open>platform/http.go\<close> and \<^verbatim>\<open>platform/config.go\<close> with the parts of \<^verbatim>\<open>net/http\<close> they use.
  \<^item> \<^bold>\<open>Dapr\<close>: \<^verbatim>\<open>daprhttp/client.go\<close>, \<^verbatim>\<open>state.go\<close> and \<^verbatim>\<open>secrets.go\<close>. The sidecar is an argument with the
    documented behaviour of its state API (\<open>dapr_sidecar\<close>), which allows lost answers: the state store is
    then an \<open>atomic_store\<close>, and the repositories on it apply each operation as a whole or not at all.
  \<^item> \<^bold>\<open>Admin\_HTTP\<close>: \<^verbatim>\<open>http.go\<close>, \<^verbatim>\<open>model_http.go\<close>, \<^verbatim>\<open>virtual_key_http.go\<close>. Every request is at most one
    step of the control planes; the registry calls over HTTP are a sound lossy link, so the safety of the
    control planes carries over to the deployed services. The sidecar's token opens the four registry
    endpoints and no other.
  \<^item> \<^bold>\<open>Adapter\_Config\<close>: \<^verbatim>\<open>adapterconfig/config.go\<close>.

  \<^item> \<^bold>\<open>IR\_JSON\<close>: the JSON form of the types of \<^verbatim>\<open>ir/types.go\<close>, which gateways and adapters exchange. A
    well-formed request or response is read back exactly.
  \<^item> \<^bold>\<open>Adapter\_HTTP\<close>: the services of the adapters, \<^verbatim>\<open>anthropic/http.go\<close>, \<^verbatim>\<open>openai/adapter.go\<close>,
    \<^verbatim>\<open>openairesponses/adapter_http.go\<close> and \<^verbatim>\<open>gemini/adapter.go\<close>: one handler over a \<open>Protocol\<close>. A provider is
    called at most once per request, for an active provider of the adapter; the credential goes to the
    configured endpoint only, in one header, and nothing else that is sent depends on it.
  \<^item> \<^bold>\<open>Gateway\_HTTP\<close>: the services of the gateways, \<^verbatim>\<open>openai/http.go\<close>, \<^verbatim>\<open>openairesponses/gateway_http.go\<close>,
    \<^verbatim>\<open>anthropic/gateway_http.go\<close> and \<^verbatim>\<open>gemini/gateway.go\<close>. The locale \<open>gateway_service\<close> is what the four have in
    common; every answer is determined, and every adapter call has live resources behind it.
  \<^item> \<^bold>\<open>End\_To\_End\<close>: a gateway, its dispatcher on the control planes, the Dapr client and an adapter composed:
    a client's request reaches the provider exactly once, translated, and the answer comes back.

  \<^item> \<^bold>\<open>Admin\_Client\<close>: \<^verbatim>\<open>adminui/client.go\<close>, the admin UI's client of the two control planes. Both sides agree
    on the wire, and an error that is not marked ambiguous is a refusal, with one exception that the code has.
  \<^item> \<^bold>\<open>Admin\_View\<close>: \<^verbatim>\<open>adminui/view.go\<close>, the data of the pages and the forms.
  \<^item> \<^bold>\<open>Admin\_UI\<close>: \<^verbatim>\<open>adminui/handler.go\<close> and \<^verbatim>\<open>resources.go\<close>, every handler of the UI. The state is the session
    store of \<^bold>\<open>Session\<close> and whatever lies behind the API. A request is one step: the code locks the store for
    each of its operations, and interleavings of the operations of two requests are not modelled.
  \<^item> \<^bold>\<open>Admin\_Access\<close>: the UI against an abstract specification. \<open>permitted\<close> says which write a request may
    make; the service makes exactly that one.
  \<^item> \<^bold>\<open>Admin\_Sessions\<close>: every request to the UI is a run of the session store; only the sign-in form makes an
    authenticated session, its challenge is accepted for five minutes, and a key form makes one key.

  \<^bold>\<open>Bounds.\<close> No definition takes fuel: every loop of the code is a recursion with a termination proof. Integers
  that can wrap in the code (revisions, entity tag counters, token counts) are 64-bit; times are
  nanoseconds. Body sizes are those of the limit readers.

  \<^bold>\<open>Parameters.\<close> SHA-256 (\<open>H\<close> on strings, \<open>digest\<close> on encoded values), \<^verbatim>\<open>crypto/rand\<close>, the clock, \<^verbatim>\<open>net/mail\<close>,
  Unicode case mapping, \<^verbatim>\<open>url.Parse\<close> (\<open>url_parser\<close>, \<open>URLText\<close>), the text of floats (\<open>FloatText\<close>), of JSON values
  inside strings (\<open>JSONText\<close>), of times in a layout (\<open>TimeText\<close>), of status codes and of errors, HMAC, the transport, the Dapr sidecar and the provider APIs. Equality
  of unique lookups is equality of their hashes, as in the code. A \<open>Codec\<close> stands for what the struct tags
  of a protocol's wire type give; only the members that the code keeps as raw JSON are decoded here.

  \<^bold>\<open>Not modelled.\<close> The HTML templates of the admin UI and its static files: a page is the name of its template and
  its data. Its request deadline shows as a failed call. The entry points (\<^verbatim>\<open>cmd\<close>), server start and shutdown,
  logging, panic recovery and the settings of HTTP transports.
\<close>

end
